(* ===== verification/Prelude.thy ===== *)
theory Prelude
  imports Main "HOL-Library.Word" "HOL-Library.State_Monad"
begin

text \<open>
  What every theory of the development shares: the widths of the code's integers, the byte and bit
  views of a buffer, and the collections the component proofs draw on.
\<close>

unbundle bit_operations_syntax

section \<open>The code's integer types\<close>

type_synonym u8 = "8 word"
type_synonym u16 = "16 word"
type_synonym u32 = "32 word"
type_synonym u64 = "64 word"

text \<open>Signed integers are their two's complement words (\<open>sint\<close> reads them).\<close>

type_synonym i32 = "32 word"
type_synonym i8 = "8 word"

text \<open>A \<open>float\<close> is carried by its bit pattern, which is all that crosses the wire.\<close>

type_synonym float32 = "32 word"

text \<open>The codecs' composition rules and leaf facts (\<open>Codec\<close>), one collection.\<close>

named_theorems codec_intros
named_theorems safe_intros

section \<open>Bits of a byte list, least significant first\<close>

definition bit_at :: "u8 list \<Rightarrow> nat \<Rightarrow> bool" where
  "bit_at bs i = bit (bs ! (i div 8)) (i mod 8)"

text \<open>\<open>agree p xs ys\<close>: both hold \<open>p\<close> bits, the same ones.\<close>

definition agree :: "nat \<Rightarrow> u8 list \<Rightarrow> u8 list \<Rightarrow> bool" where
  "agree p xs ys \<longleftrightarrow> p \<le> 8 * length xs \<and> p \<le> 8 * length ys \<and> (\<forall>i<p. bit_at xs i = bit_at ys i)"

lemma agree_refl: "p \<le> 8 * length xs \<Longrightarrow> agree p xs xs"
  by (simp add: agree_def)

lemma agree_trans: "agree p xs ys \<Longrightarrow> agree q ys zs \<Longrightarrow> p \<le> q \<Longrightarrow> agree p xs zs"
  by (simp add: agree_def)

lemma agree_weaken: "agree q xs ys \<Longrightarrow> p \<le> q \<Longrightarrow> agree p xs ys"
  by (simp add: agree_def)

lemma agree_length: "agree p xs ys \<Longrightarrow> p \<le> 8 * length ys"
  by (simp add: agree_def)

lemma agree_byte:
  assumes "agree p xs ys" and "8 * Suc i \<le> p"
  shows "xs ! i = ys ! i"
proof (rule bit_word_eqI)
  fix n assume n: "n < LENGTH(8)"
  then have "bit_at xs (8 * i + n) = bit_at ys (8 * i + n)"
    using assms by (simp add: agree_def)
  then show "bit (xs ! i) n = bit (ys ! i) n"
    using n by (simp add: bit_at_def)
qed

section \<open>Little-endian bytes\<close>

text \<open>The bytes of an integer as it lies in memory, and back (the code's \<open>reinterpret_cast\<close>).\<close>

definition le_bytes :: "nat \<Rightarrow> 'a::len word \<Rightarrow> u8 list" where
  "le_bytes k v = map (\<lambda>i. ucast (drop_bit (8 * i) v)) [0..<k]"

fun of_le_bytes :: "u8 list \<Rightarrow> 'a::len word" where
  "of_le_bytes [] = 0"
| "of_le_bytes (b # bs) = ucast b OR push_bit 8 (of_le_bytes bs)"

lemma length_le_bytes [simp]: "length (le_bytes k v) = k"
  by (simp add: le_bytes_def)

lemma le_bytes_nth: "i < k \<Longrightarrow> le_bytes k v ! i = ucast (drop_bit (8 * i) v)"
  by (simp add: le_bytes_def)

lemma bit_le_bytes:
  "i < k \<Longrightarrow> j < 8 \<Longrightarrow> bit (le_bytes k v ! i) j = bit v (8 * i + j)"
  for v :: "'a::len word"
  by (simp add: le_bytes_nth bit_ucast_iff bit_drop_bit_eq)

lemma bit_of_le_bytes:
  "bit (of_le_bytes bs :: 'a::len word) i \<longleftrightarrow> i < LENGTH('a) \<and> i < 8 * length bs \<and> bit_at bs i"
proof (induction bs arbitrary: i)
  case Nil
  then show ?case by simp
next
  case (Cons b bs)
  show ?case
  proof (cases "i < 8")
    case True
    then show ?thesis
      by (auto simp: bit_or_iff bit_push_bit_iff bit_ucast_iff bit_at_def dest: bit_imp_le_length)
  next
    case False
    then obtain j where j: "i = j + 8" by (metis add.commute le_Suc_ex not_less)
    have "(j + 8) div 8 = Suc (j div 8)" by simp
    then have "bit_at (b # bs) (j + 8) = bit_at bs j"
      by (simp add: bit_at_def)
    then show ?thesis
      using Cons [of j] unfolding j
      by (auto simp: bit_or_iff bit_push_bit_iff bit_ucast_iff dest: bit_imp_le_length)
  qed
qed

lemma of_le_bytes_le_bytes:
  assumes "LENGTH('a) \<le> 8 * k"
  shows "of_le_bytes (le_bytes k v) = (v :: 'a::len word)"
proof (rule bit_word_eqI)
  fix n assume n: "n < LENGTH('a)"
  with assms have "n < 8 * k" by simp
  then have "n div 8 < k" by simp
  then have "bit_at (le_bytes k v) n = bit v n"
    by (simp add: bit_at_def bit_le_bytes)
  with n assms show "bit (of_le_bytes (le_bytes k v) :: 'a word) n = bit v n"
    by (simp add: bit_of_le_bytes)
qed

section \<open>Characters as bytes\<close>

definition char_byte :: "char \<Rightarrow> u8" where
  "char_byte c = of_char c"

definition byte_char :: "u8 \<Rightarrow> char" where
  "byte_char b = char_of (unat b)"

lemma byte_char_char_byte [simp]: "byte_char (char_byte c) = c"
proof -
  have "unat (of_char c :: u8) = of_char c"
    by (cases c) (simp add: of_char_def unat_word_ariths)
  then show ?thesis
    by (simp add: byte_char_def char_byte_def)
qed

lemma byte_char_o_char_byte [simp]: "byte_char \<circ> char_byte = id"
  by (simp add: fun_eq_iff)

lemma char_byte_byte_char [simp]: "char_byte (byte_char b) = b"
proof -
  have "unat b < 256"
    using unsigned_less [of b] by simp
  then have "of_char (char_of (unat b) :: char) = unat b"
    by (simp add: of_char_of)
  then have "of_char (byte_char b) = (of_nat (unat b) :: u8)"
    unfolding byte_char_def by (metis of_nat_of_char)
  then show ?thesis
    by (simp add: char_byte_def)
qed

end
