(* ===== verification/Wire.thy ===== *)
theory Wire
  imports Prelude
begin

text \<open>
  \<open>Code/encoding/Wire/Buffer.h\<close> and \<open>Buffer.cpp\<close>: the bits and whole bytes a message is written
  into and read from. A \<open>writer\<close> holds the bytes of its \<open>Buffer\<close> (growing) or its fixed span, and
  the bit position; a \<open>reader\<close> the bytes it reads and its bit position. Each member function is a
  state monad computation that returns what the C++ function returns.
\<close>

section \<open>Readers and writers\<close>

record reader =
  rd_data :: "u8 list"
  rd_pos :: nat

record writer =
  wr_data :: "u8 list"
  wr_grows :: bool
  wr_pos :: nat

definition new_reader :: "u8 list \<Rightarrow> reader" where
  "new_reader bs = \<lparr>rd_data = bs, rd_pos = 0\<rparr>"

definition buffer_writer :: "u8 list \<Rightarrow> writer" where
  "buffer_writer bs = \<lparr>wr_data = bs, wr_grows = True, wr_pos = 0\<rparr>"

definition fixed_writer :: "u8 list \<Rightarrow> writer" where
  "fixed_writer bs = \<lparr>wr_data = bs, wr_grows = False, wr_pos = 0\<rparr>"

definition bytes_spanned :: "nat \<Rightarrow> nat \<Rightarrow> nat" where
  "bytes_spanned bitpos count = (bitpos mod 8 + count + 7) div 8"

definition next_whole_byte :: "nat \<Rightarrow> nat" where
  "next_whole_byte bitpos = (bitpos + 7) div 8 * 8"

definition reader_eof :: "reader \<Rightarrow> bool" where
  "reader_eof r \<longleftrightarrow> rd_pos r \<ge> length (rd_data r) * 8"

definition reader_size :: "reader \<Rightarrow> nat" where
  "reader_size r = (rd_pos r + 7) div 8"

definition writer_size :: "writer \<Rightarrow> nat" where
  "writer_size w = (wr_pos w + 7) div 8"

section \<open>Reading\<close>

text \<open>\<open>ReadBits\<close>: the flag it returns and the destination (0 when there are too few bytes).\<close>

definition read_bits :: "nat \<Rightarrow> (reader, bool \<times> u64) state" where
  "read_bits count = State (\<lambda>r.
     let bit_index = rd_pos r mod 8;
         byte_pos = rd_pos r div 8;
         to_read = bytes_spanned (rd_pos r) count
     in if to_read + byte_pos > length (rd_data r) then ((False, 0), r)
        else
          let bits_to_read = (if bit_index \<noteq> 0 then min (8 - bit_index) count else 0);
              end_bits = (if bit_index \<noteq> 0
                          then drop_bit bit_index (ucast (rd_data r ! byte_pos)) AND mask bits_to_read
                          else 0);
              location = (if bit_index \<noteq> 0 then byte_pos + 1 else byte_pos);
              to_copy = (if bit_index \<noteq> 0 then to_read - 1 else to_read);
              copied = of_le_bytes (take to_copy (drop location (rd_data r)));
              joined = push_bit bits_to_read copied OR end_bits;
              masked = (if count < 64 then joined AND mask count else joined)
          in ((True, masked), r\<lparr>rd_pos := rd_pos r + count\<rparr>))"

text \<open>\<open>ReadBytes\<close> into a destination: it keeps its bytes when the read fails.\<close>

definition read_bytes :: "u8 list \<Rightarrow> (reader, bool \<times> u8 list) state" where
  "read_bytes dest = State (\<lambda>r.
     let aligned = next_whole_byte (rd_pos r);
         byte_pos = aligned div 8
     in if length dest + byte_pos > length (rd_data r)
        then ((False, dest), r\<lparr>rd_pos := aligned\<rparr>)
        else ((True, take (length dest) (drop byte_pos (rd_data r))),
              r\<lparr>rd_pos := aligned + length dest * 8\<rparr>))"

section \<open>Writing\<close>

definition copy_into :: "u8 list \<Rightarrow> nat \<Rightarrow> u8 list \<Rightarrow> u8 list" where
  "copy_into dest p bytes = take p dest @ bytes @ drop (p + length bytes) dest"

text \<open>\<open>Reserve\<close>: room for more bytes from the current one, growing a \<open>Buffer\<close> by at least 2048.\<close>

definition reserve :: "nat \<Rightarrow> writer \<Rightarrow> bool \<times> writer" where
  "reserve bytes w =
     (let needed = wr_pos w div 8 + bytes
      in if \<not> wr_grows w then (needed \<le> length (wr_data w), w)
         else if needed > length (wr_data w)
              then (True, w\<lparr>wr_data := wr_data w @ replicate (max bytes 2048) 0\<rparr>)
              else (True, w))"

definition write_bits :: "u64 \<Rightarrow> nat \<Rightarrow> (writer, bool) state" where
  "write_bits v count = State (\<lambda>w.
     let bit_index = wr_pos w mod 8;
         byte_pos = wr_pos w div 8;
         to_write = bytes_spanned (wr_pos w) count;
         (ok, w') = reserve to_write w
     in if \<not> ok then (False, w')
        else if bit_index \<noteq> 0 then
          let bits_to_write = min (8 - bit_index) count;
              kept = wr_data w' ! byte_pos AND mask bit_index;
              first = push_bit bit_index (ucast v AND mask bits_to_write) OR kept;
              rest = le_bytes (to_write - 1) (drop_bit bits_to_write v)
          in (True, w'\<lparr>wr_data := copy_into (wr_data w') byte_pos (first # rest),
                       wr_pos := wr_pos w' + count\<rparr>)
        else (True, w'\<lparr>wr_data := copy_into (wr_data w') byte_pos (le_bytes to_write v),
                       wr_pos := wr_pos w' + count\<rparr>))"

definition write_bytes :: "u8 list \<Rightarrow> (writer, bool) state" where
  "write_bytes src = State (\<lambda>w.
     let w1 = w\<lparr>wr_pos := next_whole_byte (wr_pos w)\<rparr>;
         (ok, w') = reserve (length src) w1
     in if \<not> ok then (False, w')
        else (True, w'\<lparr>wr_data := copy_into (wr_data w') (wr_pos w' div 8) src,
                       wr_pos := wr_pos w' + length src * 8\<rparr>))"

section \<open>What a write adds and a read takes\<close>

text \<open>A writer's position lies within its bytes.\<close>

definition writer_ok :: "writer \<Rightarrow> bool" where
  "writer_ok w \<longleftrightarrow> wr_pos w \<le> 8 * length (wr_data w)"

lemma writer_ok_new [simp]: "writer_ok (buffer_writer bs)" "writer_ok (fixed_writer bs)"
  by (simp_all add: writer_ok_def buffer_writer_def fixed_writer_def)

lemma round_up_8: "x \<le> 8 * ((x + 7) div 8)" "8 * ((x + 7) div 8) < x + (8::nat)"
  using mult_div_mod_eq [of 8 "x + 7"] mod_less_divisor [of 8 "x + 7"] by linarith+

lemma next_whole_byte_bounds:
  "p \<le> next_whole_byte p" "next_whole_byte p < p + 8" "next_whole_byte p mod 8 = 0"
  using round_up_8 [of p] by (simp_all add: next_whole_byte_def mult.commute)

lemma next_whole_byte_le: "p \<le> 8 * n \<Longrightarrow> next_whole_byte p \<le> 8 * n"
  using round_up_8(2) [of p] by (simp add: next_whole_byte_def mult.commute)

lemma next_whole_byte_div: "next_whole_byte p = 8 * (next_whole_byte p div 8)"
  unfolding next_whole_byte_def by simp

lemma length_copy_into:
  "p + length bytes \<le> length dest \<Longrightarrow> length (copy_into dest p bytes) = length dest"
  by (simp add: copy_into_def)

lemma nth_copy_into:
  "p + length bytes \<le> length dest \<Longrightarrow> i < length dest \<Longrightarrow>
   copy_into dest p bytes ! i =
     (if p \<le> i \<and> i < p + length bytes then bytes ! (i - p) else dest ! i)"
  by (auto simp: copy_into_def nth_append min_def)

lemma bytes_spanned_bounds:
  "p mod 8 + n \<le> 8 * bytes_spanned p n" "8 * bytes_spanned p n < p mod 8 + n + 8"
  unfolding bytes_spanned_def by (rule round_up_8)+

lemma reserve_ok:
  assumes "reserve n w = (True, w')" and "writer_ok w"
  shows "wr_pos w div 8 + n \<le> length (wr_data w')" "wr_pos w' = wr_pos w"
    "wr_grows w' = wr_grows w" "agree (8 * length (wr_data w)) (wr_data w) (wr_data w')"
proof -
  have pos: "wr_pos w div 8 \<le> length (wr_data w)" if "writer_ok w"
    using that by (simp add: writer_ok_def)
  have nth: "bit_at (wr_data w @ xs) i = bit_at (wr_data w) i" if "i < 8 * length (wr_data w)" for xs i
    using that by (simp add: bit_at_def nth_append less_mult_imp_div_less mult.commute)
  from assms pos show "wr_pos w div 8 + n \<le> length (wr_data w')" "wr_pos w' = wr_pos w"
    "wr_grows w' = wr_grows w"
    by (auto simp: reserve_def Let_def split: if_splits)
  from assms nth show "agree (8 * length (wr_data w)) (wr_data w) (wr_data w')"
    by (auto simp: reserve_def Let_def agree_def split: if_splits)
qed

lemma reserve_grows: "wr_grows w \<Longrightarrow> fst (reserve n w)"
  by (auto simp: reserve_def Let_def)

lemma reserve_failed: "\<not> fst (reserve n w) \<Longrightarrow> snd (reserve n w) = w"
  by (auto simp: reserve_def Let_def split: if_splits)

text \<open>Bits of a joined word: the partly read byte's bits, then the copied bytes'.\<close>

lemma bit_at_add: "b < 8 \<Longrightarrow> bit_at bs (8 * q + b) = bit (bs ! q) b"
  by (simp add: bit_at_def)

lemma bit_at_drop: "8 * q + i < 8 * length bs \<Longrightarrow> bit_at (drop q bs) i = bit_at bs (8 * q + i)"
  by (simp add: bit_at_def)

lemma bit_at_take: "i < 8 * n \<Longrightarrow> bit_at (take n bs) i = bit_at bs i"
  by (simp add: bit_at_def less_mult_imp_div_less mult.commute)

lemma read_bits_fits:
  assumes "count \<le> 64" and "rd_pos r + count \<le> 8 * length (rd_data r)"
  shows "\<exists>v. run_state (read_bits count) r = ((True, v), r\<lparr>rd_pos := rd_pos r + count\<rparr>) \<and>
    (\<forall>i. bit v i \<longleftrightarrow> i < count \<and> bit_at (rd_data r) (rd_pos r + i))"
proof -
  define q where "q = rd_pos r div 8"
  define b where "b = rd_pos r mod 8"
  have p: "rd_pos r = 8 * q + b" and b8: "b < 8"
    by (simp_all add: q_def b_def)
  define n where "n = bytes_spanned (rd_pos r) count"
  have n: "b + count \<le> 8 * n" "8 * n < b + count + 8"
    using bytes_spanned_bounds [of "rd_pos r" count] by (simp_all add: n_def b_def)
  have fits: "n + q \<le> length (rd_data r)"
    using assms(2) n p by presburger
  define k where "k = (if b \<noteq> 0 then min (8 - b) count else 0)"
  define e :: u64 where "e = (if b \<noteq> 0 then drop_bit b (ucast (rd_data r ! q)) AND mask k else 0)"
  define l where "l = (if b \<noteq> 0 then q + 1 else q)"
  define m where "m = (if b \<noteq> 0 then n - 1 else n)"
  define c :: u64 where "c = of_le_bytes (take m (drop l (rd_data r)))"
  define j where "j = push_bit k c OR e"
  define v where "v = (if count < 64 then j AND mask count else j)"
  have run: "run_state (read_bits count) r = ((True, v), r\<lparr>rd_pos := rd_pos r + count\<rparr>)"
    using fits by (simp add: read_bits_def Let_def v_def j_def c_def m_def l_def e_def k_def q_def b_def n_def)
  have "bit j i \<longleftrightarrow> bit_at (rd_data r) (8 * q + b + i)" if i: "i < count" for i
  proof (cases "i < k")
    case True
    then have b0: "b \<noteq> 0" and bi: "b + i < 8" by (auto simp: k_def split: if_splits)
    have "bit (ucast (rd_data r ! q) :: u64) (b + i) = bit (rd_data r ! q) (b + i)"
      using bi by (auto simp: bit_ucast_iff dest: bit_imp_le_length)
    with True b0 bi show ?thesis
      by (simp add: j_def e_def bit_or_iff bit_push_bit_iff bit_and_iff bit_mask_iff bit_drop_bit_eq
          bit_at_add [of "b + i" _ q, simplified add.assoc] add.assoc)
  next
    case False
    then have ki: "k \<le> i" by simp
    have lk: "8 * l + (i - k) = 8 * q + b + i" and im: "i - k < 8 * m" and ml: "8 * m + 8 * l \<le> 8 * length (rd_data r)"
      using ki i n fits b8 by (auto simp: l_def k_def m_def min_def split: if_splits)
    have i64: "i - k < 64" using i assms(1) by simp
    have len: "i - k < 8 * length (take m (drop l (rd_data r)))"
      using im ml by simp
    have "bit c (i - k) = bit_at (rd_data r) (8 * l + (i - k))"
      using len im ml i64 by (simp add: c_def bit_of_le_bytes bit_at_take bit_at_drop)
    moreover have "\<not> bit e i"
      using False by (simp add: e_def bit_and_iff bit_mask_iff)
    ultimately show ?thesis
      using ki i assms(1) lk by (simp add: j_def bit_or_iff bit_push_bit_iff)
  qed
  moreover have "bit v i \<longleftrightarrow> i < count \<and> bit j i" for i
    using assms(1) by (auto simp: v_def bit_and_iff bit_mask_iff dest: bit_imp_le_length)
  ultimately show ?thesis
    using run by (auto simp: p)
qed


text \<open>Writing \<open>count\<close> bits: the earlier bits stay, the new ones are the value's low bits.\<close>

lemma write_bits_result:
  assumes "run_state (write_bits v count) w = (True, w')" and "writer_ok w" and "count \<le> 64"
  shows "wr_pos w' = wr_pos w + count" "wr_grows w' = wr_grows w" "writer_ok w'"
    "agree (wr_pos w) (wr_data w) (wr_data w')"
    "\<forall>i<count. bit_at (wr_data w') (wr_pos w + i) = bit v i"
proof -
  define q where "q = wr_pos w div 8"
  define b where "b = wr_pos w mod 8"
  have p: "wr_pos w = 8 * q + b" and b8: "b < 8"
    by (simp_all add: q_def b_def)
  define n where "n = bytes_spanned (wr_pos w) count"
  have n: "b + count \<le> 8 * n" "8 * n < b + count + 8"
    using bytes_spanned_bounds [of "wr_pos w" count] by (simp_all add: n_def b_def)
  obtain u where u: "reserve n w = (True, u)"
    using assms(1) by (cases "reserve n w") (auto simp: write_bits_def Let_def n_def split: if_splits)
  note res = reserve_ok [OF u assms(2)]
  define k where "k = (if b \<noteq> 0 then min (8 - b) count else 0)"
  define bytes where "bytes = (if b \<noteq> 0 then
      (push_bit b (ucast v AND mask k) OR (wr_data u ! q AND mask b)) # le_bytes (n - 1) (drop_bit k v)
    else le_bytes n v)"
  have w': "w' = u\<lparr>wr_data := copy_into (wr_data u) q bytes, wr_pos := wr_pos w + count\<rparr>"
    using assms(1) u res(2) by (auto simp: write_bits_def Let_def n_def q_def b_def k_def bytes_def)
  have lb: "length bytes = n"
    using n b8 by (auto simp: bytes_def)
  have fits: "q + length bytes \<le> length (wr_data u)"
    using res(1) by (simp add: lb q_def)
  have len: "length (wr_data w') = length (wr_data u)"
    by (simp add: w' length_copy_into [OF fits])
  show "wr_pos w' = wr_pos w + count" "wr_grows w' = wr_grows w"
    using res(3) by (simp_all add: w')
  show "writer_ok w'"
    using fits n lb p by (simp add: writer_ok_def w' length_copy_into [OF fits])
  have old: "bit_at (wr_data w') i = bit_at (wr_data u) i" if "i < 8 * q + b" for i
  proof (cases "i < 8 * q")
    case True
    then have "i div 8 < q" by simp
    moreover from this fits have "i div 8 < length (wr_data u)" by simp
    ultimately show ?thesis
      by (simp add: bit_at_def w' nth_copy_into [OF fits])
  next
    case False
    define c where "c = i - 8 * q"
    have c: "i = 8 * q + c" "c < b"
      using that False by (simp_all add: c_def)
    then have b0: "b \<noteq> 0" and n0: "0 < n" using n by auto
    have "wr_data w' ! q = bytes ! 0"
      using fits n0 lb by (simp add: w' nth_copy_into [OF fits])
    also have "\<dots> = push_bit b (ucast v AND mask k) OR (wr_data u ! q AND mask b)"
      using b0 by (simp add: bytes_def)
    finally have "wr_data w' ! q = push_bit b (ucast v AND mask k) OR (wr_data u ! q AND mask b)" .
    with c b8 show ?thesis
      by (simp add: bit_at_add bit_or_iff bit_push_bit_iff bit_and_iff bit_mask_iff)
  qed
  have "agree (wr_pos w) (wr_data w) (wr_data u)"
    using agree_weaken [OF res(4)] assms(2) by (simp add: writer_ok_def)
  moreover have "agree (wr_pos w) (wr_data u) (wr_data w')"
    unfolding agree_def using old len agree_length [OF calculation] p by presburger
  ultimately show "agree (wr_pos w) (wr_data w) (wr_data w')"
    by (rule agree_trans) simp
  show "\<forall>i<count. bit_at (wr_data w') (wr_pos w + i) = bit v i"
  proof (intro allI impI)
    fix i assume i: "i < count"
    have q': "(8 * q + b + i) div 8 = q + (b + i) div 8" by (simp add: add.assoc)
    have m8: "(8 * q + b + i) mod 8 = (b + i) mod 8" by (simp add: add.assoc)
    have inn: "(b + i) div 8 < n" using i n(1) by simp
    have "bit_at (wr_data w') (wr_pos w + i) = bit (bytes ! ((b + i) div 8)) ((b + i) mod 8)"
      using inn fits lb by (simp add: bit_at_def p q' m8 w' nth_copy_into [OF fits])
    also have "\<dots> = bit v i"
    proof (cases "b = 0")
      case True
      then show ?thesis using inn by (simp add: bytes_def bit_le_bytes)
    next
      case b0: False
      show ?thesis
      proof (cases "b + i < 8")
        case True
        then have "i < k" using i b0 by (simp add: k_def)
        then show ?thesis using True b0
          by (simp add: bytes_def bit_or_iff bit_push_bit_iff bit_and_iff bit_mask_iff bit_ucast_iff)
      next
        case False
        have k: "k = 8 - b" using False i b0 by (simp add: k_def)
        obtain d where d: "b + i = 8 + d" using False by (metis le_Suc_ex not_less)
        have dv: "(b + i) div 8 = Suc (d div 8)" "(b + i) mod 8 = d mod 8" by (simp_all add: d)
        have "k + d = i" using d k b8 by simp
        moreover have "d div 8 < n - 1" using inn dv by simp
        ultimately show ?thesis using b0
          by (simp add: bytes_def dv bit_le_bytes bit_drop_bit_eq)
      qed
    qed
    finally show "bit_at (wr_data w') (wr_pos w + i) = bit v i" .
  qed
qed

lemma write_bits_grows:
  "wr_grows w \<Longrightarrow> \<exists>w'. run_state (write_bits v count) w = (True, w')"
  using reserve_grows [of w "bytes_spanned (wr_pos w) count"]
  by (auto simp: write_bits_def Let_def split: prod.splits)


text \<open>Whole bytes: both sides first move to the next whole byte.\<close>

lemma write_bytes_result:
  assumes "run_state (write_bytes src) w = (True, w')" and "writer_ok w"
  shows "wr_pos w' = next_whole_byte (wr_pos w) + 8 * length src" "wr_grows w' = wr_grows w"
    "writer_ok w'" "agree (wr_pos w) (wr_data w) (wr_data w')"
    "take (length src) (drop (next_whole_byte (wr_pos w) div 8) (wr_data w')) = src"
proof -
  define q where "q = next_whole_byte (wr_pos w) div 8"
  have q: "next_whole_byte (wr_pos w) = 8 * q"
    using next_whole_byte_div by (simp add: q_def)
  define v where "v = w\<lparr>wr_pos := next_whole_byte (wr_pos w)\<rparr>"
  have okv: "writer_ok v"
    using assms(2) next_whole_byte_le by (simp add: writer_ok_def v_def)
  obtain u where u: "reserve (length src) v = (True, u)"
    using assms(1) by (cases "reserve (length src) v") (auto simp: write_bytes_def Let_def v_def split: if_splits)
  note res = reserve_ok [OF u okv]
  have w': "w' = u\<lparr>wr_data := copy_into (wr_data u) q src, wr_pos := 8 * q + length src * 8\<rparr>"
    using assms(1) u res(2) by (auto simp: write_bytes_def Let_def v_def [symmetric]) (simp add: v_def q)
  have fits: "q + length src \<le> length (wr_data u)"
    using res(1) by (simp add: v_def q)
  show "wr_pos w' = next_whole_byte (wr_pos w) + 8 * length src" "wr_grows w' = wr_grows w"
    using res(3) by (simp_all add: w' q v_def)
  show "writer_ok w'"
    using fits by (simp add: writer_ok_def w' length_copy_into [OF fits])
  show "take (length src) (drop (next_whole_byte (wr_pos w) div 8) (wr_data w')) = src"
    using fits by (simp add: q w' copy_into_def min_def)
  have "bit_at (wr_data w') i = bit_at (wr_data u) i" if "i < 8 * q" for i
  proof -
    from that have "i div 8 < q" by simp
    moreover from this fits have "i div 8 < length (wr_data u)" by simp
    ultimately show ?thesis
      by (simp add: bit_at_def w' nth_copy_into [OF fits])
  qed
  then have "agree (8 * q) (wr_data u) (wr_data w')"
    using fits by (simp add: agree_def w' length_copy_into [OF fits])
  moreover have "agree (8 * q) (wr_data w) (wr_data u)"
    using agree_weaken [OF res(4), of "8 * q"] okv by (simp add: v_def q writer_ok_def)
  ultimately have "agree (8 * q) (wr_data w) (wr_data w')"
    using agree_trans by blast
  then show "agree (wr_pos w) (wr_data w) (wr_data w')"
    by (rule agree_weaken) (use next_whole_byte_bounds q in metis)
qed

lemma write_bytes_grows:
  "wr_grows w \<Longrightarrow> \<exists>w'. run_state (write_bytes src) w = (True, w')"
  using reserve_grows [of "w\<lparr>wr_pos := next_whole_byte (wr_pos w)\<rparr>" "length src"]
  by (auto simp: write_bytes_def Let_def split: prod.splits)

lemma read_bytes_fits:
  assumes "next_whole_byte (rd_pos r) + 8 * length dest \<le> 8 * length (rd_data r)"
  shows "run_state (read_bytes dest) r =
    ((True, take (length dest) (drop (next_whole_byte (rd_pos r) div 8) (rd_data r))),
     r\<lparr>rd_pos := next_whole_byte (rd_pos r) + 8 * length dest\<rparr>)"
  using assms next_whole_byte_div [of "rd_pos r"]
  by (auto simp: read_bytes_def Let_def mult.commute)

text \<open>A read that finds too few bytes fails; neither kind of read moves back or past the data.\<close>

lemma read_bits_short:
  "rd_pos r + count > 8 * length (rd_data r) \<Longrightarrow> run_state (read_bits count) r = ((False, 0), r)"
proof -
  assume "rd_pos r + count > 8 * length (rd_data r)"
  moreover have "rd_pos r = 8 * (rd_pos r div 8) + rd_pos r mod 8" by simp
  ultimately have "bytes_spanned (rd_pos r) count + rd_pos r div 8 > length (rd_data r)"
    using bytes_spanned_bounds(1) [of "rd_pos r" count] by linarith
  then show ?thesis by (simp add: read_bits_def Let_def)
qed

end
