(* ===== verification/Codec.thy ===== *)
theory Codec
  imports Wire
begin

text \<open>
  \<open>Code/encoding/Wire/Serialization.cpp\<close>: variable-length integers, booleans, strings and floats over
  the bits and bytes of \<open>Wire\<close>; and the contract every serializer of the program has with its
  deserializer (\<open>codes\<close>, the locale \<open>wire_codec\<close>), with the rules that compose it field by field.
\<close>

section \<open>Serialization\<close>

text \<open>The code's idiom \<open>uint64_t tmp = 0; aReader.ReadBits(tmp, n)\<close>, its result ignored.\<close>

definition read_uint :: "nat \<Rightarrow> (reader, u64) state" where
  "read_uint count = do { (_, v) \<leftarrow> read_bits count; State_Monad.return v }"

definition write_bool :: "bool \<Rightarrow> (writer, bool) state" where
  "write_bool b = write_bits (if b then 1 else 0) 1"

definition read_bool :: "(reader, bool) state" where
  "read_bool = do { v \<leftarrow> read_uint 1; State_Monad.return (v = 1) }"

function write_varint :: "u64 \<Rightarrow> (writer, unit) state" where
  "write_varint v = do {
     write_bits v 7;
     write_bool (drop_bit 7 v \<noteq> 0);
     (if drop_bit 7 v \<noteq> 0 then write_varint (drop_bit 7 v) else State_Monad.return ())
   }"
  by pat_completeness auto
termination
proof (relation "measure (\<lambda>v. unat v)")
  fix v :: u64
  assume "drop_bit 7 v \<noteq> 0"
  moreover have "unat (drop_bit 7 v) = unat v div 128"
    by (simp add: drop_bit_eq_div unat_div)
  moreover have "0 < unat v"
    using calculation(1) by (auto simp: unat_gt_0)
  then have "unat v div 128 < unat v"
    by (rule div_less_dividend [rotated]) simp
  ultimately show "(drop_bit 7 v, v) \<in> measure (\<lambda>v. unat v)"
    by simp
qed simp

text \<open>\<open>TryReadVarInt\<close>'s loop from a shift and the value so far: the flag and the value.\<close>

function try_read_varint_from :: "nat \<Rightarrow> u64 \<Rightarrow> (reader, bool \<times> u64) state" where
  "try_read_varint_from shift acc =
     (if shift < 64 then do {
        (ok, bits) \<leftarrow> read_bits 7;
        (if \<not> ok then State_Monad.return (False, acc) else do {
          (ok', more) \<leftarrow> read_bits 1;
          (if \<not> ok' \<or> (shift = 63 \<and> bits > 1) then State_Monad.return (False, acc)
           else if more = 0 then State_Monad.return (True, acc OR push_bit shift bits)
           else try_read_varint_from (shift + 7) (acc OR push_bit shift bits))
        })
      }
      else State_Monad.return (False, acc))"
  by pat_completeness auto
termination
  by (relation "measure (\<lambda>(shift, acc). 64 - shift)") auto

definition try_read_varint :: "(reader, bool \<times> u64) state" where
  "try_read_varint = try_read_varint_from 0 0"

definition read_varint :: "(reader, u64) state" where
  "read_varint = do { (ok, v) \<leftarrow> try_read_varint; State_Monad.return (if ok then v else 0) }"

text \<open>A \<open>std::string\<close> is its bytes; a length past 16 bits is cut to them.\<close>

definition write_string :: "string \<Rightarrow> (writer, bool) state" where
  "write_string s =
     (let len = of_nat (length s) :: u16
      in do { write_varint (ucast len); write_bytes (map char_byte (take (unat len) s)) })"

definition read_string :: "(reader, string) state" where
  "read_string = do {
     v \<leftarrow> read_varint;
     (_, bytes) \<leftarrow> read_bytes (replicate (unat (ucast v :: u16)) 0);
     State_Monad.return (map byte_char bytes)
   }"

definition write_float :: "float32 \<Rightarrow> (writer, bool) state" where
  "write_float f = write_bytes (le_bytes 4 f)"

definition read_float :: "(reader, float32) state" where
  "read_float = do { (_, bytes) \<leftarrow> read_bytes (replicate 4 0); State_Monad.return (of_le_bytes bytes) }"

definition write_double :: "u64 \<Rightarrow> (writer, bool) state" where
  "write_double f = write_bytes (le_bytes 8 f)"

definition read_double :: "(reader, u64) state" where
  "read_double = do { (_, bytes) \<leftarrow> read_bytes (replicate 8 0); State_Monad.return (of_le_bytes bytes) }"

declare write_varint.simps [simp del] try_read_varint_from.simps [simp del]

section \<open>The contract of a serializer and its deserializer\<close>

text \<open>
  \<open>codes s d x\<close>: into a growing buffer, \<open>s\<close> adds bits without touching those written before, and
  \<open>d\<close>, started where \<open>s\<close> started on any bytes that agree with what \<open>s\<close> left (whatever was written
  after it), returns \<open>x\<close> and stops where \<open>s\<close> stopped.
\<close>

definition codes :: "(writer, 'b) state \<Rightarrow> (reader, 'a) state \<Rightarrow> 'a \<Rightarrow> bool" where
  "codes s d x \<longleftrightarrow> (\<forall>w. writer_ok w \<and> wr_grows w \<longrightarrow>
     (let w' = snd (run_state s w)
      in writer_ok w' \<and> wr_grows w' \<and> wr_pos w \<le> wr_pos w' \<and>
         agree (wr_pos w) (wr_data w) (wr_data w') \<and>
         (\<forall>D. agree (wr_pos w') (wr_data w') D \<longrightarrow>
            run_state d \<lparr>rd_data = D, rd_pos = wr_pos w\<rparr> = (x, \<lparr>rd_data = D, rd_pos = wr_pos w'\<rparr>))))"

lemma codesI:
  assumes "\<And>w. writer_ok w \<Longrightarrow> wr_grows w \<Longrightarrow> \<exists>y w'. run_state s w = (y, w') \<and>
      writer_ok w' \<and> wr_grows w' \<and> wr_pos w \<le> wr_pos w' \<and>
      agree (wr_pos w) (wr_data w) (wr_data w') \<and>
      (\<forall>D. agree (wr_pos w') (wr_data w') D \<longrightarrow>
         run_state d \<lparr>rd_data = D, rd_pos = wr_pos w\<rparr> = (x, \<lparr>rd_data = D, rd_pos = wr_pos w'\<rparr>))"
  shows "codes s d x"
  unfolding codes_def Let_def using assms by fastforce

lemma codesE:
  assumes "codes s d x" and "writer_ok w" and "wr_grows w"
  obtains y w' where "run_state s w = (y, w')" "writer_ok w'" "wr_grows w'" "wr_pos w \<le> wr_pos w'"
    "agree (wr_pos w) (wr_data w) (wr_data w')"
    "\<And>D. agree (wr_pos w') (wr_data w') D \<Longrightarrow>
       run_state d \<lparr>rd_data = D, rd_pos = wr_pos w\<rparr> = (x, \<lparr>rd_data = D, rd_pos = wr_pos w'\<rparr>)"
  using assms by (cases "run_state s w") (auto simp: codes_def Let_def)

lemma codes_return [codec_intros]: "x' = x \<Longrightarrow> codes (State_Monad.return y) (State_Monad.return x') x"
  by (auto simp: codes_def Let_def writer_ok_def intro: agree_refl)

lemma codes_bind [codec_intros]:
  assumes "codes s1 d1 a" and "codes s2 (d2 a) x"
  shows "codes (State_Monad.bind s1 (\<lambda>_. s2)) (State_Monad.bind d1 d2) x"
proof (rule codesI)
  fix w assume w: "writer_ok w" "wr_grows w"
  obtain y w1 where 1: "run_state s1 w = (y, w1)" "writer_ok w1" "wr_grows w1" "wr_pos w \<le> wr_pos w1"
    "agree (wr_pos w) (wr_data w) (wr_data w1)"
    "\<And>D. agree (wr_pos w1) (wr_data w1) D \<Longrightarrow>
       run_state d1 \<lparr>rd_data = D, rd_pos = wr_pos w\<rparr> = (a, \<lparr>rd_data = D, rd_pos = wr_pos w1\<rparr>)"
    using codesE [OF assms(1) w] by metis
  obtain z w2 where 2: "run_state s2 w1 = (z, w2)" "writer_ok w2" "wr_grows w2" "wr_pos w1 \<le> wr_pos w2"
    "agree (wr_pos w1) (wr_data w1) (wr_data w2)"
    "\<And>D. agree (wr_pos w2) (wr_data w2) D \<Longrightarrow>
       run_state (d2 a) \<lparr>rd_data = D, rd_pos = wr_pos w1\<rparr> = (x, \<lparr>rd_data = D, rd_pos = wr_pos w2\<rparr>)"
    using codesE [OF assms(2) 1(2,3)] by metis
  have "agree (wr_pos w1) (wr_data w1) D" if "agree (wr_pos w2) (wr_data w2) D" for D
    using agree_trans [OF 2(5) that 2(4)] .
  moreover have "agree (wr_pos w) (wr_data w) (wr_data w2)"
    using agree_trans [OF 1(5) 2(5) 1(4)] .
  ultimately show "\<exists>y w'. run_state (State_Monad.bind s1 (\<lambda>_. s2)) w = (y, w') \<and>
      writer_ok w' \<and> wr_grows w' \<and> wr_pos w \<le> wr_pos w' \<and>
      agree (wr_pos w) (wr_data w) (wr_data w') \<and>
      (\<forall>D. agree (wr_pos w') (wr_data w') D \<longrightarrow>
         run_state (State_Monad.bind d1 d2) \<lparr>rd_data = D, rd_pos = wr_pos w\<rparr> =
           (x, \<lparr>rd_data = D, rd_pos = wr_pos w'\<rparr>))"
    using 1 2 by auto
qed

text \<open>The last field of a serializer has nothing after it; the deserializer still builds its value.\<close>

lemma codes_last:
  assumes "codes s d1 a" and "d2 a = State_Monad.return x"
  shows "codes s (State_Monad.bind d1 d2) x"
proof -
  have "codes (State_Monad.bind s (\<lambda>_. State_Monad.return ())) (State_Monad.bind d1 d2) x"
    using assms by (intro codes_bind [where a = a]) (auto intro: codes_return)
  moreover have "snd (run_state (State_Monad.bind s (\<lambda>_. State_Monad.return ())) w) = snd (run_state s w)" for w
    by (auto split: prod.splits)
  ultimately show ?thesis
    by (simp add: codes_def)
qed


section \<open>The leaves\<close>

lemma codes_bits:
  assumes "count \<le> 64"
  shows "codes (write_bits v count) (read_bits count) (True, take_bit count v)"
proof (rule codesI)
  fix w assume w: "writer_ok w" "wr_grows w"
  obtain w' where run: "run_state (write_bits v count) w = (True, w')"
    using write_bits_grows [OF w(2)] by blast
  note res = write_bits_result [OF run w(1) assms]
  have "run_state (read_bits count) \<lparr>rd_data = D, rd_pos = wr_pos w\<rparr> =
      ((True, take_bit count v), \<lparr>rd_data = D, rd_pos = wr_pos w'\<rparr>)"
    if D: "agree (wr_pos w') (wr_data w') D" for D
  proof -
    let ?r = "\<lparr>rd_data = D, rd_pos = wr_pos w\<rparr>"
    obtain u where u: "run_state (read_bits count) ?r = ((True, u), ?r\<lparr>rd_pos := rd_pos ?r + count\<rparr>)"
      "\<And>i. bit u i \<longleftrightarrow> i < count \<and> bit_at D (wr_pos w + i)"
      using read_bits_fits [OF assms, of ?r] agree_length [OF D] res(1) by auto
    have "u = take_bit count v"
    proof (rule bit_word_eqI)
      fix i assume "i < LENGTH(64)"
      have "bit_at D (wr_pos w + i) = bit v i" if "i < count"
        using that D res(1,5) by (simp add: agree_def)
      then show "bit u i = bit (take_bit count v) i"
        using u(2) by (auto simp: bit_take_bit_iff)
    qed
    with u(1) res(1) show ?thesis by simp
  qed
  with run res w show "\<exists>y w'. run_state (write_bits v count) w = (y, w') \<and>
      writer_ok w' \<and> wr_grows w' \<and> wr_pos w \<le> wr_pos w' \<and>
      agree (wr_pos w) (wr_data w) (wr_data w') \<and>
      (\<forall>D. agree (wr_pos w') (wr_data w') D \<longrightarrow>
         run_state (read_bits count) \<lparr>rd_data = D, rd_pos = wr_pos w\<rparr> =
           ((True, take_bit count v), \<lparr>rd_data = D, rd_pos = wr_pos w'\<rparr>))"
    by auto
qed

lemma codes_uint [codec_intros]:
  "count \<le> 64 \<Longrightarrow> codes (write_bits v count) (read_uint count) (take_bit count v)"
  unfolding read_uint_def by (rule codes_last [OF codes_bits]) simp_all

lemma codes_bool [codec_intros]: "codes (write_bool b) read_bool b"
  unfolding write_bool_def read_bool_def
  by (rule codes_last [OF codes_uint]) (auto simp: take_bit_eq_mod)

lemma codes_bytes:
  assumes "length dest = length src"
  shows "codes (write_bytes src) (read_bytes dest) (True, src)"
proof (rule codesI)
  fix w assume w: "writer_ok w" "wr_grows w"
  obtain w' where run: "run_state (write_bytes src) w = (True, w')"
    using write_bytes_grows [OF w(2)] by blast
  note res = write_bytes_result [OF run w(1)]
  define q where "q = next_whole_byte (wr_pos w) div 8"
  have q: "next_whole_byte (wr_pos w) = 8 * q"
    using next_whole_byte_div by (simp add: q_def)
  have "run_state (read_bytes dest) \<lparr>rd_data = D, rd_pos = wr_pos w\<rparr> =
      ((True, src), \<lparr>rd_data = D, rd_pos = wr_pos w'\<rparr>)"
    if D: "agree (wr_pos w') (wr_data w') D" for D
  proof -
    have len: "q + length src \<le> length D" "q + length src \<le> length (wr_data w')"
      using agree_length [OF D] res(1,3) by (simp_all add: q writer_ok_def)
    have "D ! (q + i) = wr_data w' ! (q + i)" if "i < length src" for i
      using that res(1) by (intro agree_byte [OF D, symmetric]) (simp add: q)
    then have "take (length src) (drop q D) = take (length src) (drop q (wr_data w'))"
      using len by (intro nth_equalityI) auto
    with res(5) have "take (length src) (drop q D) = src"
      by (simp add: q_def)
    then show ?thesis
      using read_bytes_fits [of "\<lparr>rd_data = D, rd_pos = wr_pos w\<rparr>" dest] assms len res(1)
      by (simp add: q)
  qed
  moreover have "wr_pos w \<le> wr_pos w'"
    using res(1) next_whole_byte_bounds(1) [of "wr_pos w"] by simp
  ultimately show "\<exists>y w'. run_state (write_bytes src) w = (y, w') \<and>
      writer_ok w' \<and> wr_grows w' \<and> wr_pos w \<le> wr_pos w' \<and>
      agree (wr_pos w) (wr_data w) (wr_data w') \<and>
      (\<forall>D. agree (wr_pos w') (wr_data w') D \<longrightarrow>
         run_state (read_bytes dest) \<lparr>rd_data = D, rd_pos = wr_pos w\<rparr> =
           ((True, src), \<lparr>rd_data = D, rd_pos = wr_pos w'\<rparr>))"
    using run res w by auto
qed

lemma codes_float [codec_intros]: "codes (write_float f) read_float f"
  unfolding write_float_def read_float_def
  by (rule codes_last [OF codes_bytes]) (simp_all add: of_le_bytes_le_bytes)

lemma codes_double [codec_intros]: "codes (write_double f) read_double f"
  unfolding write_double_def read_double_def
  by (rule codes_last [OF codes_bytes]) (simp_all add: of_le_bytes_le_bytes)

text \<open>A variable-length integer: what is left to read is added above the bits read so far.\<close>


lemma or_push_split:
  "(acc OR push_bit s (take_bit 7 v)) OR push_bit (s + 7) (drop_bit 7 v) = acc OR push_bit s (v :: u64)"
proof (rule bit_word_eqI)
  fix n assume n: "n < LENGTH(64)"
  show "bit ((acc OR push_bit s (take_bit 7 v)) OR push_bit (s + 7) (drop_bit 7 v)) n =
      bit (acc OR push_bit s v) n"
  proof (cases "n < s + 7")
    case True
    then show ?thesis
      by (auto simp: bit_or_iff bit_push_bit_iff bit_take_bit_iff)
  next
    case False
    then have "7 + (n - (s + 7)) = n - s" by simp
    with False n show ?thesis
      by (auto simp: bit_or_iff bit_push_bit_iff bit_take_bit_iff bit_drop_bit_eq)
  qed
qed

lemma codes_more:
  "codes (write_bool b) (read_bits 1) (True, if b then 1 else 0)"
  using codes_bits [of 1 "if b then 1 else 0"] by (simp add: write_bool_def take_bit_eq_mod split: if_splits)

lemma codes_varint_from:
  assumes "7 dvd shift" and "shift < 64" and "take_bit (64 - shift) v = v"
  shows "codes (write_varint v) (try_read_varint_from shift acc) (True, acc OR push_bit shift v)"
  using assms
proof (induction v arbitrary: shift acc rule: write_varint.induct)
  case (1 v)
  let ?low = "take_bit 7 v" and ?rest = "drop_bit 7 v"
  have last: "v = take_bit 1 v" if "shift = 63"
    using 1(4) that by simp
  have small: "\<not> (shift = 63 \<and> ?low > 1)"
  proof
    assume a: "shift = 63 \<and> ?low > 1"
    then have "?low = take_bit 7 (take_bit 1 v)"
      using arg_cong [OF last, of "take_bit 7"] by blast
    also have "\<dots> = take_bit 1 v"
      unfolding take_bit_take_bit by simp
    also have "\<dots> \<le> 1" by (simp add: take_bit_eq_mod word_le_nat_alt unat_mod)
    finally show False using a leD by blast
  qed
  have step: "shift + 7 < 64" "take_bit (64 - (shift + 7)) ?rest = ?rest" if "?rest \<noteq> 0"
  proof -
    have "shift \<noteq> 63"
    proof
      assume "shift = 63"
      then have "?rest = drop_bit 7 (take_bit 1 v)"
        using arg_cong [OF last, of "drop_bit 7"] by blast
      also have "\<dots> = 0"
        by (simp only: drop_bit_take_bit) simp
      finally show False using that by simp
    qed
    then show "shift + 7 < 64" using 1(2,3) by auto
    show "take_bit (64 - (shift + 7)) ?rest = ?rest"
      by (metis 1(4) drop_bit_take_bit diff_diff_left)
  qed
  have rest: "codes (if ?rest \<noteq> 0 then write_varint ?rest else State_Monad.return ())
      (if ?rest \<noteq> 0 then try_read_varint_from (shift + 7) (acc OR push_bit shift ?low)
       else State_Monad.return (True, acc OR push_bit shift ?low)) (True, acc OR push_bit shift v)"
  proof (cases "?rest = 0")
    case True
    then have "acc OR push_bit shift ?low = acc OR push_bit shift v"
      using or_push_split [of acc shift v] by simp
    with True show ?thesis by (auto intro: codes_return)
  next
    case False
    have "codes (write_varint ?rest) (try_read_varint_from (shift + 7) (acc OR push_bit shift ?low))
        (True, (acc OR push_bit shift ?low) OR push_bit (shift + 7) ?rest)"
      by (rule 1(1)) (use False step 1(2) in simp_all)
    with False show ?thesis by (simp add: or_push_split)
  qed
  have "codes (do { write_bool (?rest \<noteq> 0);
        (if ?rest \<noteq> 0 then write_varint ?rest else State_Monad.return ()) })
      (do { (ok', more) \<leftarrow> read_bits 1;
        (if \<not> ok' \<or> (shift = 63 \<and> ?low > 1) then State_Monad.return (False, acc)
         else if more = 0 then State_Monad.return (True, acc OR push_bit shift ?low)
         else try_read_varint_from (shift + 7) (acc OR push_bit shift ?low)) })
      (True, acc OR push_bit shift v)"
    by (rule codes_bind [OF codes_more]) (use small rest in auto)
  then show ?case
    unfolding write_varint.simps [of v] try_read_varint_from.simps [of shift acc] if_P [OF 1(3)]
    by (intro codes_bind [OF codes_bits]) simp_all
qed

lemma codes_try_varint: "codes (write_varint v) try_read_varint (True, v)"
  using codes_varint_from [of 0 v 0] by (simp add: try_read_varint_def take_bit_word_eq_self)

lemma codes_varint [codec_intros]: "codes (write_varint v) read_varint v"
  unfolding read_varint_def by (rule codes_last [OF codes_try_varint]) simp

lemma codes_string_cut: "codes (write_string s) read_string (take (length s mod 65536) s)"
proof -
  let ?n = "of_nat (length s) :: u16"
  have n: "unat ?n = length s mod 65536"
    by (simp add: unsigned_of_nat take_bit_nat_def)
  have cut: "(ucast (ucast ?n :: u64) :: u16) = ?n"
    by (rule bit_word_eqI) (simp add: bit_ucast_iff)
  have "length s mod 65536 \<le> length s" by simp
  then show ?thesis
    unfolding write_string_def read_string_def Let_def n
    by (intro codes_bind [OF codes_varint] codes_last [OF codes_bytes]) (simp_all add: cut n)
qed

lemma codes_string [codec_intros]:
  "length s < 65536 \<Longrightarrow> codes (write_string s) read_string s"
  using codes_string_cut [of s] by simp

section \<open>Loops over elements\<close>

text \<open>The loop that writes each element, and the one that reads a given number of them.\<close>

fun write_each :: "('a \<Rightarrow> (writer, 'b) state) \<Rightarrow> 'a list \<Rightarrow> (writer, unit) state" where
  "write_each s [] = State_Monad.return ()"
| "write_each s (x # xs) = do { s x; write_each s xs }"

fun read_times :: "nat \<Rightarrow> (reader, 'a) state \<Rightarrow> (reader, 'a list) state" where
  "read_times 0 d = State_Monad.return []"
| "read_times (Suc n) d = do { x \<leftarrow> d; xs \<leftarrow> read_times n d; State_Monad.return (x # xs) }"

text \<open>The bounded loop \<open>for (i = 0; i < n && !aReader.Eof(); ++i)\<close>.\<close>

fun read_until_eof :: "nat \<Rightarrow> (reader, 'a) state \<Rightarrow> (reader, 'a list) state" where
  "read_until_eof 0 d = State_Monad.return []"
| "read_until_eof (Suc n) d = do {
     r \<leftarrow> State_Monad.get;
     (if reader_eof r then State_Monad.return []
      else do { x \<leftarrow> d; xs \<leftarrow> read_until_eof n d; State_Monad.return (x # xs) })
   }"

lemma codes_each [codec_intros]:
  assumes "\<And>x. x \<in> set xs \<Longrightarrow> codes (s x) d x" and "n = length xs"
  shows "codes (write_each s xs) (read_times n d) xs"
  unfolding assms(2) using assms(1)
proof (induction xs)
  case Nil
  show ?case by (simp add: codes_return)
next
  case (Cons x xs)
  have "codes (write_each s xs) (read_times (length xs) d) xs"
    by (rule Cons.IH) (simp add: Cons.prems)
  moreover have "codes (s x) d x"
    by (rule Cons.prems) simp
  ultimately show ?case
    by simp (rule codes_bind, assumption, rule codes_last, assumption, simp)
qed

text \<open>A serializer that always writes at least a bit.\<close>

definition writes_some :: "(writer, 'b) state \<Rightarrow> bool" where
  "writes_some s \<longleftrightarrow> (\<forall>w. writer_ok w \<and> wr_grows w \<longrightarrow> wr_pos w < wr_pos (snd (run_state s w)))"

lemma writes_some_bits: "0 < count \<Longrightarrow> count \<le> 64 \<Longrightarrow> writes_some (write_bits v count)"
  unfolding writes_some_def
proof (intro allI impI)
  fix w assume "0 < count" "count \<le> 64" "writer_ok w \<and> wr_grows w"
  moreover from this obtain w' where "run_state (write_bits v count) w = (True, w')"
    using write_bits_grows by blast
  ultimately show "wr_pos w < wr_pos (snd (run_state (write_bits v count) w))"
    using write_bits_result(1) by fastforce
qed

lemma writes_some_bind:
  assumes "writes_some s1" and "codes s1 d1 a" and "codes s2 d2 x"
  shows "writes_some (State_Monad.bind s1 (\<lambda>_. s2))"
  unfolding writes_some_def
proof (intro allI impI)
  fix w assume w: "writer_ok w \<and> wr_grows w"
  obtain y w1 where 1: "run_state s1 w = (y, w1)" "writer_ok w1" "wr_grows w1"
    using codesE [OF assms(2)] w by metis
  obtain z w2 where 2: "run_state s2 w1 = (z, w2)" "wr_pos w1 \<le> wr_pos w2"
    using codesE [OF assms(3) 1(2,3)] by metis
  have "wr_pos w < wr_pos w1"
    using assms(1) w 1(1) by (auto simp: writes_some_def)
  with 1 2 show "wr_pos w < wr_pos (snd (run_state (State_Monad.bind s1 (\<lambda>_. s2)) w))"
    by simp
qed

lemma writes_some_varint: "writes_some (write_varint v)"
proof -
  let ?b = "drop_bit 7 v \<noteq> 0"
  have "codes (do { write_bool ?b; (if ?b then write_varint (drop_bit 7 v) else State_Monad.return ()) })
      (do { b \<leftarrow> read_bool; (if b then read_varint else State_Monad.return 0) }) (drop_bit 7 v)"
    by (rule codes_bind [OF codes_bool]) (auto intro: codes_varint codes_return)
  from writes_some_bind [OF writes_some_bits codes_bits this, of 7 v] show ?thesis
    unfolding write_varint.simps [of v] by simp
qed

lemma codes_not_eof:
  assumes c: "codes s d x" and "writes_some s"
  shows "codes s (do { r \<leftarrow> State_Monad.get; (if reader_eof r then e else d) }) x"
proof (rule codesI)
  fix w assume w: "writer_ok w" "wr_grows w"
  obtain y w' where 1: "run_state s w = (y, w')" "writer_ok w'" "wr_grows w'" "wr_pos w \<le> wr_pos w'"
    "agree (wr_pos w) (wr_data w) (wr_data w')"
    "\<And>D. agree (wr_pos w') (wr_data w') D \<Longrightarrow>
       run_state d \<lparr>rd_data = D, rd_pos = wr_pos w\<rparr> = (x, \<lparr>rd_data = D, rd_pos = wr_pos w'\<rparr>)"
    using codesE [OF c w] by metis
  have "wr_pos w < wr_pos w'"
    using assms(2) w 1(1) by (auto simp: writes_some_def)
  then have "\<not> reader_eof \<lparr>rd_data = D, rd_pos = wr_pos w\<rparr>" if "agree (wr_pos w') (wr_data w') D" for D
    using agree_length [OF that] by (simp add: reader_eof_def)
  with 1 show "\<exists>y w'. run_state s w = (y, w') \<and>
      writer_ok w' \<and> wr_grows w' \<and> wr_pos w \<le> wr_pos w' \<and>
      agree (wr_pos w) (wr_data w) (wr_data w') \<and>
      (\<forall>D. agree (wr_pos w') (wr_data w') D \<longrightarrow>
         run_state (do { r \<leftarrow> State_Monad.get; (if reader_eof r then e else d) }) \<lparr>rd_data = D, rd_pos = wr_pos w\<rparr> =
           (x, \<lparr>rd_data = D, rd_pos = wr_pos w'\<rparr>))"
    by auto
qed

lemma codes_until_eof [codec_intros]:
  assumes "\<And>x. x \<in> set xs \<Longrightarrow> codes (s x) d x" and "\<And>x. x \<in> set xs \<Longrightarrow> writes_some (s x)"
    and "n = length xs"
  shows "codes (write_each s xs) (read_until_eof n d) xs"
  unfolding assms(3) using assms(1,2)
proof (induction xs)
  case Nil
  show ?case by (simp add: codes_return)
next
  case (Cons x xs)
  have IH: "codes (write_each s xs) (read_until_eof (length xs) d) xs"
    by (rule Cons.IH) (simp_all add: Cons.prems)
  have x: "codes (s x) d x" "writes_some (s x)"
    by (rule Cons.prems, simp)+
  have "codes (write_each s (x # xs))
      (do { x \<leftarrow> d; xs \<leftarrow> read_until_eof (length xs) d; State_Monad.return (x # xs) }) (x # xs)"
    using x(1) IH by simp (rule codes_bind, assumption, rule codes_last, assumption, simp)
  moreover have "writes_some (write_each s (x # xs))"
    using writes_some_bind [OF x(2,1) IH] by simp
  ultimately show ?case
    using codes_not_eof by simp
qed

text \<open>Optional parts and branches.\<close>

lemma codes_if [codec_intros]:
  "(c \<Longrightarrow> codes s d x) \<Longrightarrow> (\<not> c \<Longrightarrow> codes s' d' x) \<Longrightarrow> codes (if c then s else s') (if c then d else d') x"
  by simp


lemma codes_if_return [codec_intros]:
  "(p \<Longrightarrow> codes s d x) \<Longrightarrow> (\<not> p \<Longrightarrow> v = x) \<Longrightarrow>
     codes (if p then s else State_Monad.return ()) (if p then d else State_Monad.return v) x"
  by (cases p) (auto intro: codes_return)

lemma codes_unit: "codes s d x \<Longrightarrow> codes (do { s; State_Monad.return () }) d x"
  using codes_bind [of s d x "State_Monad.return ()" State_Monad.return x, OF _ codes_return [OF refl]] by simp

lemma codes_optional:
  "codes s d x \<Longrightarrow>
   codes (if c then do { s; State_Monad.return () } else State_Monad.return ()) (if c then d else State_Monad.return y) (if c then x else y)"
  by (auto intro: codes_return codes_unit)

section \<open>Lists on the wire\<close>

text \<open>
  A vector is its size, then its elements. The readers differ in what they make of the size: all of
  it, its low bits (\<open>& 0xFF\<close>, \<open>& 0xFFFF\<close>), at most a constant, or at most a constant and only while
  bytes are left.
\<close>

definition write_list :: "('a \<Rightarrow> (writer, 'b) state) \<Rightarrow> 'a list \<Rightarrow> (writer, unit) state" where
  "write_list s xs = do { write_varint (of_nat (length xs)); write_each s xs }"

definition read_list :: "(reader, 'a) state \<Rightarrow> (reader, 'a list) state" where
  "read_list d = do { n \<leftarrow> read_varint; read_times (unat n) d }"

definition read_list_masked :: "nat \<Rightarrow> (reader, 'a) state \<Rightarrow> (reader, 'a list) state" where
  "read_list_masked k d = do { n \<leftarrow> read_varint; read_times (unat (n AND mask k)) d }"

definition read_list_capped :: "nat \<Rightarrow> (reader, 'a) state \<Rightarrow> (reader, 'a list) state" where
  "read_list_capped cap d = do { n \<leftarrow> read_varint; read_times (min (unat n) cap) d }"

definition read_list_until_eof :: "nat \<Rightarrow> (reader, 'a) state \<Rightarrow> (reader, 'a list) state" where
  "read_list_until_eof cap d = do { n \<leftarrow> read_varint; read_until_eof (min (unat n) cap) d }"

lemma unat_count: "n < 2 ^ 64 \<Longrightarrow> unat (of_nat n :: u64) = n"
  by (simp add: unsigned_of_nat take_bit_nat_eq_self)

lemma take_count: "n < 2 ^ k \<Longrightarrow> take_bit k (of_nat n :: u64) = of_nat n"
  by (simp add: take_bit_of_nat take_bit_nat_eq_self)

lemma mask_count: "n < 2 ^ k \<Longrightarrow> (of_nat n :: u64) AND mask k = of_nat n"
  by (simp add: take_count flip: take_bit_eq_mask)

lemma unat_count_mask:
  assumes "n < 2 ^ k" and "k \<le> 64"
  shows "unat ((of_nat n :: u64) AND mask k) = n"
proof -
  have "n < 2 ^ 64"
    using assms by (meson less_le_trans one_le_numeral power_increasing)
  then show ?thesis
    by (simp only: mask_count [OF assms(1)] unat_count)
qed

lemma codes_list [codec_intros]:
  assumes "length xs < 2 ^ 64" and "\<And>x. x \<in> set xs \<Longrightarrow> codes (s x) d x"
  shows "codes (write_list s xs) (read_list d) xs"
  unfolding write_list_def read_list_def
  by (rule codes_bind [OF codes_varint], rule codes_each, rule assms(2), assumption)
    (rule unat_count [OF assms(1)])

lemma codes_list_masked [codec_intros]:
  assumes "length xs < 2 ^ k" and "k \<le> 64" and "\<And>x. x \<in> set xs \<Longrightarrow> codes (s x) d x"
  shows "codes (write_list s xs) (read_list_masked k d) xs"
  unfolding write_list_def read_list_masked_def
  by (rule codes_bind [OF codes_varint], rule codes_each, rule assms(3), assumption)
    (rule unat_count_mask [OF assms(1,2)])

lemma codes_list_capped [codec_intros]:
  assumes "length xs \<le> cap" and "cap < 2 ^ 64" and "\<And>x. x \<in> set xs \<Longrightarrow> codes (s x) d x"
  shows "codes (write_list s xs) (read_list_capped cap d) xs"
  unfolding write_list_def read_list_capped_def
  by (rule codes_bind [OF codes_varint], rule codes_each, rule assms(3), assumption)
    (simp add: unat_count [OF le_less_trans [OF assms(1,2)]] assms(1))

lemma codes_list_until_eof [codec_intros]:
  assumes "length xs \<le> cap" and "cap < 2 ^ 64" and "\<And>x. x \<in> set xs \<Longrightarrow> codes (s x) d x"
    and "\<And>x. x \<in> set xs \<Longrightarrow> writes_some (s x)"
  shows "codes (write_list s xs) (read_list_until_eof cap d) xs"
  unfolding write_list_def read_list_until_eof_def
  by (rule codes_bind [OF codes_varint], rule codes_until_eof, rule assms(3), assumption, rule assms(4), assumption)
    (simp add: unat_count [OF le_less_trans [OF assms(1,2)]] assms(1))

section \<open>Integers of fewer bits\<close>

text \<open>
  \<open>WriteVarInt\<close> of a narrower integer extends it to 64 bits, with its sign when it has one;
  \<open>ReadVarInt(aReader) & 0xFFFFFFFF\<close> (or a narrower mask, or a cast) keeps the low bits.
\<close>

definition write_u32 :: "u32 \<Rightarrow> (writer, unit) state" where
  "write_u32 v = write_varint (ucast v)"

definition write_i32 :: "u32 \<Rightarrow> (writer, unit) state" where
  "write_i32 v = write_varint (scast v)"

definition read_u32 :: "(reader, u32) state" where
  "read_u32 = do { v \<leftarrow> read_varint; State_Monad.return (ucast v) }"

definition write_u16 :: "u16 \<Rightarrow> (writer, unit) state" where
  "write_u16 v = write_varint (ucast v)"

definition read_u16 :: "(reader, u16) state" where
  "read_u16 = do { v \<leftarrow> read_varint; State_Monad.return (ucast v) }"

definition write_u8 :: "u8 \<Rightarrow> (writer, unit) state" where
  "write_u8 v = write_varint (ucast v)"

definition read_u8 :: "(reader, u8) state" where
  "read_u8 = do { v \<leftarrow> read_varint; State_Monad.return (ucast v) }"

text \<open>\<open>WriteBits\<close> and \<open>ReadBits\<close> of an integer's whole width.\<close>

definition write_byte :: "u8 \<Rightarrow> (writer, bool) state" where
  "write_byte v = write_bits (ucast v) 8"

definition read_byte :: "(reader, u8) state" where
  "read_byte = do { v \<leftarrow> read_uint 8; State_Monad.return (ucast v) }"

definition write_word :: "u32 \<Rightarrow> (writer, bool) state" where
  "write_word v = write_bits (ucast v) 32"

definition read_word :: "(reader, u32) state" where
  "read_word = do { v \<leftarrow> read_uint 32; State_Monad.return (ucast v) }"

lemma ucast_ucast_up:
  "LENGTH('a) \<le> LENGTH('b) \<Longrightarrow> ucast (ucast v :: 'b::len word) = (v :: 'a::len word)"
  by (rule bit_word_eqI) (simp add: bit_ucast_iff)

lemma ucast_scast_up:
  "LENGTH('a) \<le> LENGTH('b) \<Longrightarrow> ucast (scast v :: 'b::len word) = (v :: 'a::len word)"
  by (rule bit_word_eqI) (auto simp: bit_ucast_iff bit_signed_iff)

lemma codes_u32 [codec_intros]: "codes (write_u32 v) read_u32 v"
  unfolding write_u32_def read_u32_def
  by (rule codes_last [OF codes_varint]) (simp add: ucast_ucast_up)

lemma codes_i32 [codec_intros]: "codes (write_i32 v) read_u32 v"
  unfolding write_i32_def read_u32_def
  by (rule codes_last [OF codes_varint]) (simp add: ucast_scast_up)

lemma codes_u16 [codec_intros]: "codes (write_u16 v) read_u16 v"
  unfolding write_u16_def read_u16_def
  by (rule codes_last [OF codes_varint]) (simp add: ucast_ucast_up)

lemma codes_u8 [codec_intros]: "codes (write_u8 v) read_u8 v"
  unfolding write_u8_def read_u8_def
  by (rule codes_last [OF codes_varint]) (simp add: ucast_ucast_up)

lemma ucast_take_bit:
  "LENGTH('b) \<le> n \<Longrightarrow> (ucast (take_bit n v) :: 'b::len word) = ucast (v :: 'a::len word)"
  by (rule bit_word_eqI) (auto simp: bit_ucast_iff bit_take_bit_iff)

lemma codes_byte [codec_intros]: "codes (write_byte v) read_byte v"
  unfolding write_byte_def read_byte_def
  by (rule codes_last [OF codes_uint]) (simp_all add: ucast_take_bit ucast_ucast_up)

lemma codes_word [codec_intros]: "codes (write_word v) read_word v"
  unfolding write_word_def read_word_def
  by (rule codes_last [OF codes_uint]) (simp_all add: ucast_take_bit ucast_ucast_up)

section \<open>Reading any bytes\<close>

text \<open>Whatever the bytes, a safe deserializer only moves forward and never past their end.\<close>

definition safe_reader :: "(reader, 'a) state \<Rightarrow> bool" where
  "safe_reader d \<longleftrightarrow> (\<forall>r. rd_pos r \<le> 8 * length (rd_data r) \<longrightarrow>
     (let r' = snd (run_state d r)
      in rd_data r' = rd_data r \<and> rd_pos r \<le> rd_pos r' \<and> rd_pos r' \<le> 8 * length (rd_data r)))"

lemma safe_return [safe_intros]: "safe_reader (State_Monad.return x)"
  by (simp add: safe_reader_def)

lemma safe_bind [safe_intros]:
  assumes "safe_reader d" and "\<And>x. safe_reader (f x)"
  shows "safe_reader (State_Monad.bind d f)"
  unfolding safe_reader_def Let_def
proof (intro allI impI)
  fix r :: reader assume r: "rd_pos r \<le> 8 * length (rd_data r)"
  obtain x r1 where 1: "run_state d r = (x, r1)" by fastforce
  with assms(1) r have d: "rd_data r1 = rd_data r" "rd_pos r \<le> rd_pos r1" "rd_pos r1 \<le> 8 * length (rd_data r)"
    by (auto simp: safe_reader_def Let_def)
  then have "rd_data (snd (run_state (f x) r1)) = rd_data r1 \<and>
      rd_pos r1 \<le> rd_pos (snd (run_state (f x) r1)) \<and>
      rd_pos (snd (run_state (f x) r1)) \<le> 8 * length (rd_data r1)"
    using assms(2) [of x, unfolded safe_reader_def Let_def, rule_format, of r1] by simp
  then show "rd_data (snd (run_state (State_Monad.bind d f) r)) = rd_data r \<and>
      rd_pos r \<le> rd_pos (snd (run_state (State_Monad.bind d f) r)) \<and>
      rd_pos (snd (run_state (State_Monad.bind d f) r)) \<le> 8 * length (rd_data r)"
    using 1 d by simp
qed

lemma safe_get [safe_intros]: "safe_reader State_Monad.get"
  by (simp add: safe_reader_def)

lemma safe_if [safe_intros]:
  "safe_reader d \<Longrightarrow> safe_reader e \<Longrightarrow> safe_reader (if c then d else e)"
  by simp

lemma safe_prod [safe_intros]: "(\<And>a b. safe_reader (f a b)) \<Longrightarrow> safe_reader (case p of (a, b) \<Rightarrow> f a b)"
  by (cases p) simp

lemma safe_bits [safe_intros]: "safe_reader (read_bits n)"
  unfolding safe_reader_def Let_def
proof (intro allI impI)
  fix r :: reader assume r: "rd_pos r \<le> 8 * length (rd_data r)"
  have "rd_pos r + n \<le> 8 * length (rd_data r)"
    if "bytes_spanned (rd_pos r) n + rd_pos r div 8 \<le> length (rd_data r)"
    using that bytes_spanned_bounds(1) [of "rd_pos r" n] mult_div_mod_eq [of 8 "rd_pos r"] by linarith
  then show "rd_data (snd (run_state (read_bits n) r)) = rd_data r \<and>
      rd_pos r \<le> rd_pos (snd (run_state (read_bits n) r)) \<and>
      rd_pos (snd (run_state (read_bits n) r)) \<le> 8 * length (rd_data r)"
    using r by (simp add: read_bits_def Let_def not_less)
qed

lemma safe_bytes [safe_intros]: "safe_reader (read_bytes dest)"
  unfolding safe_reader_def Let_def
proof (intro allI impI)
  fix r :: reader assume r: "rd_pos r \<le> 8 * length (rd_data r)"
  show "rd_data (snd (run_state (read_bytes dest) r)) = rd_data r \<and>
      rd_pos r \<le> rd_pos (snd (run_state (read_bytes dest) r)) \<and>
      rd_pos (snd (run_state (read_bytes dest) r)) \<le> 8 * length (rd_data r)"
    using r next_whole_byte_bounds(1) [of "rd_pos r"] next_whole_byte_le [OF r]
      next_whole_byte_div [of "rd_pos r"]
    by (auto simp: read_bytes_def Let_def not_less)
qed

lemma safe_uint [safe_intros]: "safe_reader (read_uint n)"
  unfolding read_uint_def by (intro safe_intros)

lemma safe_bool [safe_intros]: "safe_reader read_bool"
  unfolding read_bool_def by (intro safe_intros)

lemma safe_try_varint_from: "safe_reader (try_read_varint_from shift acc)"
proof (induction "64 - shift" arbitrary: shift acc rule: less_induct)
  case less
  show ?case
  proof (cases "shift < 64")
    case True
    then have "safe_reader (try_read_varint_from (shift + 7) acc')" for acc'
      by (intro less) simp
    then show ?thesis
      unfolding try_read_varint_from.simps [of shift acc] by (intro safe_intros)
  next
    case False
    then show ?thesis
      unfolding try_read_varint_from.simps [of shift acc] by (simp add: safe_intros)
  qed
qed

lemma safe_varint [safe_intros]: "safe_reader read_varint"
  unfolding read_varint_def try_read_varint_def
  by (intro safe_intros safe_try_varint_from)

lemma safe_string [safe_intros]: "safe_reader read_string"
  unfolding read_string_def by (intro safe_intros)

lemma safe_float [safe_intros]: "safe_reader read_float"
  unfolding read_float_def by (intro safe_intros)

lemma safe_double [safe_intros]: "safe_reader read_double"
  unfolding read_double_def by (intro safe_intros)

lemma safe_narrow [safe_intros]:
  "safe_reader read_u32" "safe_reader read_u16" "safe_reader read_u8"
  "safe_reader read_byte" "safe_reader read_word"
  unfolding read_u32_def read_u16_def read_u8_def read_byte_def read_word_def
  by (intro safe_intros)+

lemma safe_times [safe_intros]: "safe_reader d \<Longrightarrow> safe_reader (read_times n d)"
  by (induction n) (auto intro!: safe_intros)

lemma safe_until_eof [safe_intros]: "safe_reader d \<Longrightarrow> safe_reader (read_until_eof n d)"
  by (induction n) (auto intro!: safe_intros)

lemma safe_list [safe_intros]:
  "safe_reader d \<Longrightarrow> safe_reader (read_list d)"
  "safe_reader d \<Longrightarrow> safe_reader (read_list_masked k d)"
  "safe_reader d \<Longrightarrow> safe_reader (read_list_capped cap d)"
  "safe_reader d \<Longrightarrow> safe_reader (read_list_until_eof cap d)"
  unfolding read_list_def read_list_masked_def read_list_capped_def read_list_until_eof_def
  by (intro safe_intros, assumption)+

section \<open>A message's bytes\<close>

text \<open>What a send takes from its buffer (\<open>GetData()\<close>, \<open>Size()\<close>), and reading a message from bytes.\<close>

definition encode :: "(writer, 'b) state \<Rightarrow> u8 list" where
  "encode s = (let w = snd (run_state s (buffer_writer [])) in take (writer_size w) (wr_data w))"

definition decode :: "(reader, 'a) state \<Rightarrow> u8 list \<Rightarrow> 'a" where
  "decode d bs = fst (run_state d (new_reader bs))"

lemma read_back:
  assumes "codes s d x"
  defines "w \<equiv> snd (run_state s (buffer_writer []))"
  shows "run_state d (new_reader (encode s @ rest)) = (x, \<lparr>rd_data = encode s @ rest, rd_pos = wr_pos w\<rparr>)"
    "length (encode s) = writer_size w"
proof -
  have 1: "writer_ok w"
    "\<And>D. agree (wr_pos w) (wr_data w) D \<Longrightarrow>
       run_state d \<lparr>rd_data = D, rd_pos = 0\<rparr> = (x, \<lparr>rd_data = D, rd_pos = wr_pos w\<rparr>)"
    unfolding w_def by (rule codesE [OF assms(1), of "buffer_writer []"]; simp add: buffer_writer_def writer_ok_def)+
  have size: "wr_pos w \<le> 8 * writer_size w" "writer_size w \<le> length (wr_data w)"
    using round_up_8 [of "wr_pos w"] 1(1) by (auto simp: writer_size_def writer_ok_def)
  have "bit_at (wr_data w) i = bit_at (take (writer_size w) (wr_data w) @ rest) i" if "i < wr_pos w" for i
    using that size by (simp add: bit_at_def nth_append less_mult_imp_div_less mult.commute)
  then have "agree (wr_pos w) (wr_data w) (take (writer_size w) (wr_data w) @ rest)"
    using size 1(1) by (simp add: agree_def writer_ok_def)
  then show "run_state d (new_reader (encode s @ rest)) = (x, \<lparr>rd_data = encode s @ rest, rd_pos = wr_pos w\<rparr>)"
    using 1(2) by (simp add: encode_def Let_def w_def [symmetric] new_reader_def)
  show "length (encode s) = writer_size w"
    using size(2) by (simp add: encode_def Let_def w_def [symmetric])
qed

lemma decode_encode_codes: "codes s d x \<Longrightarrow> decode d (encode s @ rest) = x"
  by (simp add: decode_def read_back)

text \<open>The interface of a serializable type: its values that survive the wire, and the laws they keep.\<close>

locale wire_codec =
  fixes ser :: "'a \<Rightarrow> (writer, 'b) state"
    and de :: "(reader, 'a) state"
    and valid :: "'a \<Rightarrow> bool"
  assumes roundtrip: "valid x \<Longrightarrow> codes (ser x) de x"
    and safe: "safe_reader de"
begin

lemma decode_encode: "valid x \<Longrightarrow> decode de (encode (ser x)) = x"
  using decode_encode_codes [OF roundtrip, of x "[]"] by simp

lemma decode_encode_rest: "valid x \<Longrightarrow> decode de (encode (ser x) @ rest) = x"
  using decode_encode_codes [OF roundtrip] .

lemma encode_injective: "valid x \<Longrightarrow> valid y \<Longrightarrow> encode (ser x) = encode (ser y) \<Longrightarrow> x = y"
  using decode_encode by metis

lemma stays_inside: "rd_pos (snd (run_state de (new_reader bs))) \<le> 8 * length bs"
  using safe [unfolded safe_reader_def Let_def, rule_format, of "new_reader bs"]
  by (simp add: new_reader_def)

lemma list_roundtrip:
  "list_all valid xs \<Longrightarrow> n = length xs \<Longrightarrow> codes (write_each ser xs) (read_times n de) xs"
  by (intro codes_each) (auto simp: list_all_iff intro: roundtrip)

end

text \<open>
  Whatever follows it, a variable-length integer is read back as it was written,
  every one of its 64 bits, and reading it reports success.
\<close>

theorem varint_roundtrip:
  "decode try_read_varint (encode (write_varint v) @ rest) = (True, v) \<and>
   decode read_varint (encode (write_varint v) @ rest) = v"
  by (simp add: decode_encode_codes codes_varint codes_try_varint)

text \<open>
  A string of at most 65535 bytes is read back whole; one longer loses what is
  past its length's low 16 bits, and the reader stays where the writer stopped.
\<close>

theorem string_roundtrip:
  "decode (do { s \<leftarrow> read_string; n \<leftarrow> read_varint; State_Monad.return (s, n) })
     (encode (do { write_string s; write_varint n; State_Monad.return () }) @ rest) =
   (take (length s mod 65536) s, n)"
  by (rule decode_encode_codes, (rule codes_string_cut codec_intros | simp)+)

end
