(* ===== verification/Structs.thy ===== *)
theory Structs
  imports Codec
begin

text \<open>
  The small structures messages are made of (\<open>Code/encoding/Structs\<close>): ids of the game's data,
  cells, locks, factions, the calendar, versions, the mod list, worn magic and face tints. Each has
  its \<open>_serialize\<close> and \<open>_deserialize\<close>, as its class has \<open>Serialize\<close> and \<open>Deserialize\<close>, the
  values that survive the wire (\<open>_valid\<close>), and an interpretation of \<open>wire_codec\<close>.
\<close>

section \<open>Ids of the game's data\<close>

record game_id =
  gid_BaseId :: "u32"
  gid_ModId :: "u32"

definition game_id_serialize :: "game_id \<Rightarrow> (writer, unit) state" where
  "game_id_serialize x = do {
     write_u32 (gid_BaseId x);
     write_u32 (gid_ModId x);
     State_Monad.return ()
   }"

definition game_id_deserialize :: "(reader, game_id) state" where
  "game_id_deserialize = do {
     vBaseId \<leftarrow> read_u32;
     vModId \<leftarrow> read_u32;
     State_Monad.return \<lparr>gid_BaseId = vBaseId, gid_ModId = vModId\<rparr>
   }"

lemma codes_game_id [codec_intros]:
  "codes (game_id_serialize x) game_id_deserialize x"
  unfolding game_id_serialize_def game_id_deserialize_def
  by (rule codec_intros | simp)+

lemma safe_game_id [safe_intros]: "safe_reader game_id_deserialize"
  unfolding game_id_deserialize_def by (intro safe_intros)

interpretation game_id_wire: wire_codec game_id_serialize game_id_deserialize "\<lambda>_. True"
  by unfold_locales (simp_all add: codes_game_id safe_game_id)


text \<open>\<open>GameId{}\<close>, and the test that an id is set (\<open>operator bool\<close>).\<close>

definition no_id :: game_id where
  "no_id = \<lparr>gid_BaseId = 0, gid_ModId = 0\<rparr>"

definition game_id_make :: "u32 \<Rightarrow> u32 \<Rightarrow> game_id" where
  "game_id_make mod_id base_id = \<lparr>gid_BaseId = base_id, gid_ModId = mod_id\<rparr>"

definition game_id_set :: "game_id \<Rightarrow> bool" where
  "game_id_set x \<longleftrightarrow> x \<noteq> no_id"

definition game_id_log_format :: "game_id \<Rightarrow> u64" where
  "game_id_log_format x = push_bit 32 (ucast (gid_ModId x)) OR ucast (gid_BaseId x)"

lemma writes_some_u32: "writes_some (write_u32 v)"
  unfolding write_u32_def by (rule writes_some_varint)

lemma writes_some_game_id: "writes_some (game_id_serialize x)"
  unfolding game_id_serialize_def
  by (rule writes_some_bind [OF writes_some_u32 codes_u32]) (rule codec_intros refl)+

section \<open>Cells of the grid\<close>

record grid_cell =
  grid_X :: "i32"
  grid_Y :: "i32"

definition grid_cell_serialize :: "grid_cell \<Rightarrow> (writer, unit) state" where
  "grid_cell_serialize x = do {
     write_i32 (grid_X x);
     write_i32 (grid_Y x);
     State_Monad.return ()
   }"

definition grid_cell_deserialize :: "(reader, grid_cell) state" where
  "grid_cell_deserialize = do {
     vX \<leftarrow> read_u32;
     vY \<leftarrow> read_u32;
     State_Monad.return \<lparr>grid_X = vX, grid_Y = vY\<rparr>
   }"

lemma codes_grid_cell [codec_intros]:
  "codes (grid_cell_serialize x) grid_cell_deserialize x"
  unfolding grid_cell_serialize_def grid_cell_deserialize_def
  by (rule codec_intros | simp)+

lemma safe_grid_cell [safe_intros]: "safe_reader grid_cell_deserialize"
  unfolding grid_cell_deserialize_def by (intro safe_intros)

interpretation grid_cell_wire: wire_codec grid_cell_serialize grid_cell_deserialize "\<lambda>_. True"
  by unfold_locales (simp_all add: codes_grid_cell safe_grid_cell)


definition grids_to_load :: int where "grids_to_load = 5"
definition grids_to_load_if_dragon :: int where "grids_to_load_if_dragon = 20"

definition grid_cell_reset :: grid_cell where
  "grid_cell_reset = \<lparr>grid_X = 0x7FFFFFFF, grid_Y = 0x7FFFFFFF\<rparr>"

text \<open>
  \<open>abs(a.X - b.X)\<close> on \<open>int32_t\<close>: \<open>sint\<close> of the wrapped difference. An overflowing difference is
  undefined in C++; the words wrap as the compiled subtraction does.
\<close>

definition cells_apart :: "i32 \<Rightarrow> i32 \<Rightarrow> int" where
  "cells_apart a b = sint (if sint (a - b) < 0 then - (a - b) else a - b)"

definition are_grid_cells_overlapping :: "grid_cell \<Rightarrow> grid_cell \<Rightarrow> bool" where
  "are_grid_cells_overlapping a b \<longleftrightarrow>
     cells_apart (grid_X a) (grid_X b) < grids_to_load \<and>
     cells_apart (grid_Y a) (grid_Y b) < grids_to_load"

definition is_cell_in_grid_cell :: "grid_cell \<Rightarrow> grid_cell \<Rightarrow> bool \<Rightarrow> bool" where
  "is_cell_in_grid_cell cell grid is_dragon \<longleftrightarrow>
     (let to_load = (if is_dragon then grids_to_load_if_dragon else grids_to_load);
          to_border = to_load div 2
      in cells_apart (grid_X cell) (grid_X grid) \<le> to_border \<and>
         cells_apart (grid_Y cell) (grid_Y grid) \<le> to_border)"

section \<open>Locks, factions, the calendar, versions\<close>

record lock_data =
  lock_IsLocked :: "bool"
  lock_LockLevel :: "u8"

definition lock_data_serialize :: "lock_data \<Rightarrow> (writer, unit) state" where
  "lock_data_serialize x = do {
     write_bool (lock_IsLocked x);
     write_byte (lock_LockLevel x);
     State_Monad.return ()
   }"

definition lock_data_deserialize :: "(reader, lock_data) state" where
  "lock_data_deserialize = do {
     vIsLocked \<leftarrow> read_bool;
     vLockLevel \<leftarrow> read_byte;
     State_Monad.return \<lparr>lock_IsLocked = vIsLocked, lock_LockLevel = vLockLevel\<rparr>
   }"

lemma codes_lock_data [codec_intros]:
  "codes (lock_data_serialize x) lock_data_deserialize x"
  unfolding lock_data_serialize_def lock_data_deserialize_def
  by (rule codec_intros | simp)+

lemma safe_lock_data [safe_intros]: "safe_reader lock_data_deserialize"
  unfolding lock_data_deserialize_def by (intro safe_intros)

interpretation lock_data_wire: wire_codec lock_data_serialize lock_data_deserialize "\<lambda>_. True"
  by unfold_locales (simp_all add: codes_lock_data safe_lock_data)


text \<open>\<open>WriteBits\<close> of an \<open>int8_t\<close>: the value is sign-extended, its low eight bits written.\<close>

definition write_sbyte :: "i8 \<Rightarrow> (writer, bool) state" where
  "write_sbyte v = write_bits (scast v) 8"

lemma codes_sbyte [codec_intros]: "codes (write_sbyte v) read_byte v"
  unfolding write_sbyte_def read_byte_def
  by (rule codes_last [OF codes_uint]) (simp_all add: ucast_take_bit ucast_scast_up)

record faction =
  faction_Id :: "game_id"
  faction_Rank :: "i8"

definition faction_serialize :: "faction \<Rightarrow> (writer, unit) state" where
  "faction_serialize x = do {
     game_id_serialize (faction_Id x);
     write_sbyte (faction_Rank x);
     State_Monad.return ()
   }"

definition faction_deserialize :: "(reader, faction) state" where
  "faction_deserialize = do {
     vId \<leftarrow> game_id_deserialize;
     vRank \<leftarrow> read_byte;
     State_Monad.return \<lparr>faction_Id = vId, faction_Rank = vRank\<rparr>
   }"

lemma codes_faction [codec_intros]:
  "codes (faction_serialize x) faction_deserialize x"
  unfolding faction_serialize_def faction_deserialize_def
  by (rule codec_intros | simp)+

lemma safe_faction [safe_intros]: "safe_reader faction_deserialize"
  unfolding faction_deserialize_def by (intro safe_intros)

interpretation faction_wire: wire_codec faction_serialize faction_deserialize "\<lambda>_. True"
  by unfold_locales (simp_all add: codes_faction safe_faction)


record factions =
  factions_NpcFactions :: "faction list"
  factions_ExtraFactions :: "faction list"

text \<open>The counts are cut to nine bits, the entries all written.\<close>

definition factions_serialize :: "factions \<Rightarrow> (writer, unit) state" where
  "factions_serialize x = do {
     write_varint (of_nat (length (factions_NpcFactions x)) AND 0x1FF);
     write_each faction_serialize (factions_NpcFactions x);
     write_varint (of_nat (length (factions_ExtraFactions x)) AND 0x1FF);
     write_each faction_serialize (factions_ExtraFactions x);
     State_Monad.return ()
   }"

text \<open>\<open>Inl\<close>: the \<open>std::runtime_error\<close> it throws. The second count cannot throw: it is masked first.\<close>

datatype factions_error = TooManyNpcFactions | TooManyExtraFactions

definition factions_deserialize :: "(reader, factions_error + factions) state" where
  "factions_deserialize = do {
     npc_count \<leftarrow> read_varint;
     (if npc_count > 0x1FF then State_Monad.return (Inl TooManyNpcFactions)
      else do {
        npc \<leftarrow> read_times (unat npc_count) faction_deserialize;
        extra_count \<leftarrow> read_varint;
        (if (extra_count AND 0x1FF) > 0x1FF then State_Monad.return (Inl TooManyExtraFactions)
         else do {
           extra \<leftarrow> read_times (unat (extra_count AND 0x1FF)) faction_deserialize;
           State_Monad.return (Inr \<lparr>factions_NpcFactions = npc, factions_ExtraFactions = extra\<rparr>)
         })
      })
   }"

definition factions_valid :: "factions \<Rightarrow> bool" where
  "factions_valid x \<longleftrightarrow> length (factions_NpcFactions x) < 512 \<and> length (factions_ExtraFactions x) < 512"

lemma mask_9: "mask 9 = (0x1FF :: u64)"
  by (simp add: mask_eq_exp_minus_1)

lemma nine_bits: "(v :: u64) AND 0x1FF \<le> 0x1FF"
  by (rule word_and_le1)

lemma codes_factions:
  assumes "factions_valid x"
  shows "codes (factions_serialize x) factions_deserialize (Inr x)"
proof -
  let ?n = "length (factions_NpcFactions x)" and ?m = "length (factions_ExtraFactions x)"
  have c: "unat ((of_nat ?n :: u64) AND 0x1FF) = ?n" "unat ((of_nat ?m :: u64) AND 0x1FF) = ?m"
    using assms by (simp_all add: factions_valid_def unat_count_mask [where k = 9, unfolded mask_9])
  show ?thesis
    unfolding factions_serialize_def factions_deserialize_def
    apply (rule codes_bind [OF codes_varint])
    apply (subst if_not_P, simp add: not_less nine_bits)
    apply (rule codes_bind, rule codes_each [OF codes_faction], rule c)
    apply (rule codes_bind [OF codes_varint])
    apply (subst if_not_P, simp add: not_less nine_bits)
    apply (rule codes_bind, rule codes_each [OF codes_faction])
     apply (simp add: c(2) and.assoc)
    apply (rule codes_return)
    apply simp
    done
qed

lemma safe_factions [safe_intros]: "safe_reader factions_deserialize"
  unfolding factions_deserialize_def by (intro safe_intros)

record time_model =
  tm_TimeScale :: "float32"
  tm_Time :: "float32"
  tm_Year :: "u32"
  tm_Month :: "u32"
  tm_Day :: "u32"
  tm_DaysPassed :: "u32"

definition time_model_serialize :: "time_model \<Rightarrow> (writer, unit) state" where
  "time_model_serialize x = do {
     write_float (tm_TimeScale x);
     write_float (tm_Time x);
     write_u32 (tm_Day x);
     write_u32 (tm_Month x);
     write_u32 (tm_Year x);
     write_u32 (tm_DaysPassed x);
     State_Monad.return ()
   }"

definition time_model_deserialize :: "(reader, time_model) state" where
  "time_model_deserialize = do {
     vTimeScale \<leftarrow> read_float;
     vTime \<leftarrow> read_float;
     vDay \<leftarrow> read_u32;
     vMonth \<leftarrow> read_u32;
     vYear \<leftarrow> read_u32;
     vDaysPassed \<leftarrow> read_u32;
     State_Monad.return \<lparr>tm_TimeScale = vTimeScale, tm_Time = vTime, tm_Year = vYear, tm_Month = vMonth,
       tm_Day = vDay, tm_DaysPassed = vDaysPassed\<rparr>
   }"

lemma codes_time_model [codec_intros]:
  "codes (time_model_serialize x) time_model_deserialize x"
  unfolding time_model_serialize_def time_model_deserialize_def
  by (rule codec_intros | simp)+

lemma safe_time_model [safe_intros]: "safe_reader time_model_deserialize"
  unfolding time_model_deserialize_def by (intro safe_intros)

interpretation time_model_wire: wire_codec time_model_serialize time_model_deserialize "\<lambda>_. True"
  by unfold_locales (simp_all add: codes_time_model safe_time_model)


record game_versions =
  gv_Runtime :: "u32"
  gv_Skse :: "u32"

definition game_versions_serialize :: "game_versions \<Rightarrow> (writer, unit) state" where
  "game_versions_serialize x = do {
     write_u32 (gv_Runtime x);
     write_u32 (gv_Skse x);
     State_Monad.return ()
   }"

definition game_versions_deserialize :: "(reader, game_versions) state" where
  "game_versions_deserialize = do {
     vRuntime \<leftarrow> read_u32;
     vSkse \<leftarrow> read_u32;
     State_Monad.return \<lparr>gv_Runtime = vRuntime, gv_Skse = vSkse\<rparr>
   }"

lemma codes_game_versions [codec_intros]:
  "codes (game_versions_serialize x) game_versions_deserialize x"
  unfolding game_versions_serialize_def game_versions_deserialize_def
  by (rule codec_intros | simp)+

lemma safe_game_versions [safe_intros]: "safe_reader game_versions_deserialize"
  unfolding game_versions_deserialize_def by (intro safe_intros)

interpretation game_versions_wire: wire_codec game_versions_serialize game_versions_deserialize "\<lambda>_. True"
  by unfold_locales (simp_all add: codes_game_versions safe_game_versions)


text \<open>\<open>"1.6.1170"\<close> and back: a version's parts are packed in bytes, its build in twelve bits.\<close>

definition game_versions_pack :: "u32 \<Rightarrow> u32 \<Rightarrow> u32 \<Rightarrow> u32" where
  "game_versions_pack major minor build =
     push_bit 24 (major AND 0xFF) OR push_bit 16 (minor AND 0xFF) OR push_bit 4 (build AND 0xFFF)"

section \<open>The mod list\<close>

record mod_entry =
  mod_Filename :: string
  mod_Id :: u16
  mod_IsLite :: bool

type_synonym mods = "mod_entry list"

definition mod_entry_serialize :: "mod_entry \<Rightarrow> (writer, unit) state" where
  "mod_entry_serialize x = do {
     write_bits (ucast (mod_Id x)) 16;
     write_bool (mod_IsLite x);
     write_string (mod_Filename x);
     State_Monad.return ()
   }"

definition mod_entry_deserialize :: "(reader, mod_entry) state" where
  "mod_entry_deserialize = do {
     data \<leftarrow> read_uint 16;
     lite \<leftarrow> read_bool;
     filename \<leftarrow> read_string;
     State_Monad.return \<lparr>mod_Filename = filename, mod_Id = ucast data, mod_IsLite = lite\<rparr>
   }"

text \<open>Thirteen bits of the count, at most 4096; every entry follows it.\<close>

definition mods_serialize :: "mods \<Rightarrow> (writer, unit) state" where
  "mods_serialize xs = do {
     write_bits (of_nat (min (length xs) 4096) AND 0xFFFF) 13;
     write_each mod_entry_serialize xs;
     State_Monad.return ()
   }"

definition mods_deserialize :: "(reader, mods) state" where
  "mods_deserialize = do {
     data \<leftarrow> read_uint 13;
     xs \<leftarrow> read_times (unat (data AND 0xFFFF)) mod_entry_deserialize;
     State_Monad.return xs
   }"

definition mods_valid :: "mods \<Rightarrow> bool" where
  "mods_valid xs \<longleftrightarrow> length xs \<le> 4096 \<and> (\<forall>x \<in> set xs. length (mod_Filename x) < 65536)"

lemma codes_mod_entry [codec_intros]:
  "length (mod_Filename x) < 65536 \<Longrightarrow> codes (mod_entry_serialize x) mod_entry_deserialize x"
  unfolding mod_entry_serialize_def mod_entry_deserialize_def
  by (rule codec_intros | simp add: ucast_take_bit ucast_ucast_up)+

lemma safe_mod_entry [safe_intros]: "safe_reader mod_entry_deserialize"
  unfolding mod_entry_deserialize_def by (intro safe_intros)

lemma mask_16: "mask 16 = (0xFFFF :: u64)"
  by (simp add: mask_eq_exp_minus_1)

lemma codes_mods [codec_intros]:
  assumes "mods_valid xs"
  shows "codes (mods_serialize xs) mods_deserialize xs"
proof -
  have n: "length xs < 2 ^ 13" using assms by (simp add: mods_valid_def)
  then have n16: "length xs < 2 ^ 16" by simp
  have min: "min (length xs) 4096 = length xs" using assms by (simp add: mods_valid_def)
  have count: "of_nat (length xs) AND 0xFFFF = (of_nat (length xs) :: u64)"
    using mask_count [OF n16] by (simp only: mask_16)
  have each: "codes (write_each mod_entry_serialize xs) (read_times (length xs) mod_entry_deserialize) xs"
    using assms by (intro codes_each codes_mod_entry) (simp_all add: mods_valid_def)
  have "codes (write_bits (of_nat (length xs)) 13) (read_uint 13) (of_nat (length xs))"
    using codes_uint [of 13 "of_nat (length xs)"] by (simp add: take_count [OF n])
  then show ?thesis
    unfolding mods_serialize_def mods_deserialize_def min count
    by (rule codes_bind) (use each n in \<open>auto intro!: codes_bind codes_return simp: count unat_count\<close>)
qed

lemma safe_mods [safe_intros]: "safe_reader mods_deserialize"
  unfolding mods_deserialize_def by (intro safe_intros)

interpretation mods_wire: wire_codec mods_serialize mods_deserialize mods_valid
  by unfold_locales (simp_all add: codes_mods safe_mods)

section \<open>Worn magic and face tints\<close>

record magic_equipment =
  me_LeftHandSpell :: game_id
  me_RightHandSpell :: game_id
  me_Shout :: game_id

definition no_magic_equipment :: magic_equipment where
  "no_magic_equipment = \<lparr>me_LeftHandSpell = no_id, me_RightHandSpell = no_id, me_Shout = no_id\<rparr>"

definition magic_equipment_serialize :: "magic_equipment \<Rightarrow> (writer, unit) state" where
  "magic_equipment_serialize x = do {
     write_bool (me_LeftHandSpell x \<noteq> no_id);
     write_bool (me_RightHandSpell x \<noteq> no_id);
     write_bool (me_Shout x \<noteq> no_id);
     (if me_LeftHandSpell x \<noteq> no_id then game_id_serialize (me_LeftHandSpell x) else State_Monad.return ());
     (if me_RightHandSpell x \<noteq> no_id then game_id_serialize (me_RightHandSpell x) else State_Monad.return ());
     (if me_Shout x \<noteq> no_id then game_id_serialize (me_Shout x) else State_Monad.return ());
     State_Monad.return ()
   }"

text \<open>What is not set on the wire keeps what the object held (\<open>old\<close>).\<close>

definition magic_equipment_deserialize :: "magic_equipment \<Rightarrow> (reader, magic_equipment) state" where
  "magic_equipment_deserialize old = do {
     left_set \<leftarrow> read_bool;
     right_set \<leftarrow> read_bool;
     shout_set \<leftarrow> read_bool;
     left \<leftarrow> (if left_set then game_id_deserialize else State_Monad.return (me_LeftHandSpell old));
     right \<leftarrow> (if right_set then game_id_deserialize else State_Monad.return (me_RightHandSpell old));
     shout \<leftarrow> (if shout_set then game_id_deserialize else State_Monad.return (me_Shout old));
     State_Monad.return \<lparr>me_LeftHandSpell = left, me_RightHandSpell = right, me_Shout = shout\<rparr>
   }"

lemma codes_magic_equipment [codec_intros]:
  "codes (magic_equipment_serialize x) (magic_equipment_deserialize no_magic_equipment) x"
  unfolding magic_equipment_serialize_def magic_equipment_deserialize_def
  by (rule codec_intros | simp add: no_magic_equipment_def)+

lemma safe_magic_equipment [safe_intros]: "safe_reader (magic_equipment_deserialize old)"
  unfolding magic_equipment_deserialize_def by (intro safe_intros)

interpretation magic_equipment_wire: wire_codec magic_equipment_serialize
    "magic_equipment_deserialize no_magic_equipment" "\<lambda>_. True"
  by unfold_locales (simp_all add: codes_magic_equipment safe_magic_equipment)

record tint =
  tint_Name :: string
  tint_Alpha :: float32
  tint_Color :: u32
  tint_Type :: u32

definition tint_serialize :: "tint \<Rightarrow> (writer, unit) state" where
  "tint_serialize x = do {
     write_u32 (tint_Type x);
     write_word (tint_Color x);
     write_string (tint_Name x);
     write_word (tint_Alpha x);
     State_Monad.return ()
   }"

definition tint_deserialize :: "(reader, tint) state" where
  "tint_deserialize = do {
     type \<leftarrow> read_u32;
     color \<leftarrow> read_word;
     name \<leftarrow> read_string;
     alpha \<leftarrow> read_word;
     State_Monad.return \<lparr>tint_Name = name, tint_Alpha = alpha, tint_Color = color, tint_Type = type\<rparr>
   }"

text \<open>Eight bits of the count, every entry; the reader appends to what the object held.\<close>

definition tints_serialize :: "tint list \<Rightarrow> (writer, unit) state" where
  "tints_serialize xs = do {
     write_bits (of_nat (length xs)) 8;
     write_each tint_serialize xs;
     State_Monad.return ()
   }"

definition tints_deserialize :: "tint list \<Rightarrow> (reader, tint list) state" where
  "tints_deserialize old = do {
     tmp \<leftarrow> read_uint 8;
     xs \<leftarrow> read_times (unat (tmp AND 0xFF)) tint_deserialize;
     State_Monad.return (old @ xs)
   }"

definition tints_valid :: "tint list \<Rightarrow> bool" where
  "tints_valid xs \<longleftrightarrow> length xs < 256 \<and> (\<forall>x \<in> set xs. length (tint_Name x) < 65536)"

lemma codes_tint [codec_intros]:
  "length (tint_Name x) < 65536 \<Longrightarrow> codes (tint_serialize x) tint_deserialize x"
  unfolding tint_serialize_def tint_deserialize_def
  by (rule codec_intros | simp)+

lemma safe_tint [safe_intros]: "safe_reader tint_deserialize"
  unfolding tint_deserialize_def by (intro safe_intros)

lemma codes_tints [codec_intros]:
  assumes "tints_valid xs"
  shows "codes (tints_serialize xs) (tints_deserialize []) xs"
proof -
  have n: "length xs < 2 ^ 8" using assms by (simp add: tints_valid_def)
  have "codes (write_bits (of_nat (length xs)) 8) (read_uint 8) (of_nat (length xs))"
    using codes_uint [of 8 "of_nat (length xs)"] by (simp add: take_count [OF n])
  moreover have "unat ((of_nat (length xs) :: u64) AND 0xFF) = length xs"
    using unat_count_mask [OF n] by (simp add: mask_eq_exp_minus_1)
  ultimately show ?thesis
    unfolding tints_serialize_def tints_deserialize_def using assms
    by (auto intro!: codes_bind codes_each codes_tint codes_return simp: tints_valid_def)
qed

lemma safe_tints [safe_intros]: "safe_reader (tints_deserialize old)"
  unfolding tints_deserialize_def by (intro safe_intros)

interpretation tints_wire: wire_codec tints_serialize "tints_deserialize []" tints_valid
  by unfold_locales (simp_all add: codes_tints safe_tints)

end
