(* ===== verification/Ordered_Map.thy ===== *)
theory Ordered_Map
  imports Codec "HOL-Library.List_Lexorder" "HOL-Library.Char_ord"
begin

text \<open>
  \<open>std::map\<close> as the code iterates it: its entries in the order of their keys. \<open>map_put\<close> is
  \<open>operator[]\<close>'s assignment, \<open>map_insert\<close> is \<open>insert\<close>, which keeps an entry already there, and
  \<open>map_erase\<close> is \<open>erase\<close>. A \<open>std::string\<close> key compares byte by byte, as \<open>char\<close>s ordered by code do.
\<close>

fun map_put :: "'k::linorder \<Rightarrow> 'v \<Rightarrow> ('k \<times> 'v) list \<Rightarrow> ('k \<times> 'v) list" where
  "map_put k v [] = [(k, v)]"
| "map_put k v ((k', v') # m) =
     (if k < k' then (k, v) # (k', v') # m
      else if k = k' then (k, v) # m
      else (k', v') # map_put k v m)"

definition map_insert :: "'k::linorder \<Rightarrow> 'v \<Rightarrow> ('k \<times> 'v) list \<Rightarrow> ('k \<times> 'v) list" where
  "map_insert k v m = (if map_of m k = None then map_put k v m else m)"

definition map_erase :: "'k \<Rightarrow> ('k \<times> 'v) list \<Rightarrow> ('k \<times> 'v) list" where
  "map_erase k m = filter (\<lambda>(k', _). k' \<noteq> k) m"

definition ordered :: "('k::linorder \<times> 'v) list \<Rightarrow> bool" where
  "ordered m \<longleftrightarrow> sorted_wrt (<) (map fst m)"

section \<open>What a map promises\<close>

text \<open>The interface its clients use, and what follows from its laws.\<close>

locale map_laws =
  fixes inv :: "'m \<Rightarrow> bool"
    and lookup :: "'m \<Rightarrow> 'k \<Rightarrow> 'v option"
    and put :: "'k \<Rightarrow> 'v \<Rightarrow> 'm \<Rightarrow> 'm"
    and insert :: "'k \<Rightarrow> 'v \<Rightarrow> 'm \<Rightarrow> 'm"
    and erase :: "'k \<Rightarrow> 'm \<Rightarrow> 'm"
  assumes put_inv: "inv m \<Longrightarrow> inv (put k v m)"
    and put_lookup: "inv m \<Longrightarrow> lookup (put k v m) = (lookup m)(k \<mapsto> v)"
    and insert_inv: "inv m \<Longrightarrow> inv (insert k v m)"
    and insert_lookup: "inv m \<Longrightarrow>
      lookup (insert k v m) = (if lookup m k = None then (lookup m)(k \<mapsto> v) else lookup m)"
    and erase_inv: "inv m \<Longrightarrow> inv (erase k m)"
    and erase_lookup: "inv m \<Longrightarrow> lookup (erase k m) = (lookup m)(k := None)"
begin

lemma put_put: "inv m \<Longrightarrow> lookup (put k v (put k v' m)) = lookup (put k v m)"
  by (simp add: put_inv put_lookup)

lemma erase_put: "inv m \<Longrightarrow> lookup (erase k (put k v m)) = lookup (erase k m)"
  by (simp add: put_inv put_lookup erase_lookup)

lemma put_all:
  "inv m \<Longrightarrow> inv (fold (\<lambda>(k, v). put k v) xs m) \<and>
     lookup (fold (\<lambda>(k, v). put k v) xs m) = lookup m ++ map_of (rev xs)"
  by (induction xs arbitrary: m) (auto simp: put_inv put_lookup)

lemma insert_all:
  "inv m \<Longrightarrow> inv (fold (\<lambda>(k, v). insert k v) xs m) \<and>
     lookup (fold (\<lambda>(k, v). insert k v) xs m) = map_of xs ++ lookup m"
proof (induction xs arbitrary: m)
  case (Cons x xs)
  then show ?case
    by (cases x) (auto simp: insert_inv insert_lookup fun_eq_iff map_add_def split: option.splits)
qed simp

end

section \<open>The sorted list keeps them\<close>

lemma keys_put: "fst ` set (map_put k v m) = insert k (fst ` set m)"
  by (induction k v m rule: map_put.induct) auto

lemma ordered_put: "ordered m \<Longrightarrow> ordered (map_put k v m)"
proof (induction k v m rule: map_put.induct)
  case (2 k v k' v' m)
  have "k' < a" if "a \<in> fst ` set (map_put k v m)" "k' < k" for a
    using that 2(2) by (auto simp: keys_put ordered_def)
  with 2 show ?case
    by (auto simp: ordered_def)
qed (simp add: ordered_def)

lemma map_of_put: "ordered m \<Longrightarrow> map_of (map_put k v m) = (map_of m)(k \<mapsto> v)"
  unfolding ordered_def
  by (induction k v m rule: map_put.induct) (auto simp: fun_eq_iff)

lemma ordered_erase: "ordered m \<Longrightarrow> ordered (map_erase k m)"
  unfolding ordered_def map_erase_def by (induction m) auto

lemma map_of_erase: "map_of (map_erase k m) = (map_of m)(k := None)"
  unfolding map_erase_def by (induction m) (auto simp: fun_eq_iff)

interpretation std_map: map_laws ordered map_of map_put map_insert map_erase
  by unfold_locales
    (auto simp: ordered_put map_of_put map_insert_def ordered_erase map_of_erase)

section \<open>A map on the wire\<close>

text \<open>Its entries in order after their count; a reader puts them in one by one.\<close>

lemma put_last: "ordered m \<Longrightarrow> \<forall>k' \<in> set (map fst m). k' < k \<Longrightarrow> map_put k v m = m @ [(k, v)]"
  by (induction k v m rule: map_put.induct) (auto simp: ordered_def)

lemma ordered_append:
  "ordered (m @ [(k, v)]) \<longleftrightarrow> ordered m \<and> (\<forall>k' \<in> set (map fst m). k' < k)"
  by (auto simp: ordered_def sorted_wrt_append)

lemma fold_put_ordered: "ordered m \<Longrightarrow> fold (\<lambda>(k, v). map_put k v) m [] = m"
  by (induction m rule: rev_induct) (auto simp: put_last ordered_append)

lemma not_in_smaller: "\<forall>k' \<in> set (map fst m). k' < k \<Longrightarrow> map_of m (k :: 'k::linorder) = None"
  by (induction m) auto

lemma fold_insert_ordered: "ordered m \<Longrightarrow> fold (\<lambda>(k, v). map_insert k v) m [] = m"
  by (induction m rule: rev_induct)
    (auto simp: put_last ordered_append map_insert_def not_in_smaller)

lemma ordered_words_length:
  assumes "ordered (m :: ('a::len word \<times> 'v) list)"
  shows "length m \<le> 2 ^ LENGTH('a)"
proof -
  have "distinct (map fst m)"
    using assms by (simp add: ordered_def strict_sorted_iff)
  then have "length m = card (fst ` set m)"
    by (metis distinct_card length_map set_map)
  also have "\<dots> \<le> card (UNIV :: 'a word set)"
    by (rule card_mono) simp_all
  finally show ?thesis
    by (simp add: card_word)
qed

end
