(* ===== verification/Float32.thy ===== *)
theory Float32
  imports Codec
begin

text \<open>
  What the program does with a \<open>float\<close> besides carrying its bits: comparing two (\<open>==\<close>), negating one,
  making one of a small integer and truncating one to \<open>int32_t\<close>; and the vectors packed that way
  (\<open>Structs/Vector3_NetQuantize\<close>, \<open>Structs/Vector2_NetQuantize\<close>).
\<close>

section \<open>IEEE single precision, by its bits\<close>

definition f32_exponent :: "float32 \<Rightarrow> nat" where
  "f32_exponent f = unat (drop_bit 23 f AND 0xFF)"

definition f32_fraction :: "float32 \<Rightarrow> nat" where
  "f32_fraction f = unat (f AND 0x7FFFFF)"

definition f32_negative :: "float32 \<Rightarrow> bool" where
  "f32_negative f = bit f 31"

definition f32_is_nan :: "float32 \<Rightarrow> bool" where
  "f32_is_nan f \<longleftrightarrow> f32_exponent f = 255 \<and> f32_fraction f \<noteq> 0"

definition f32_is_zero :: "float32 \<Rightarrow> bool" where
  "f32_is_zero f \<longleftrightarrow> f AND 0x7FFFFFFF = 0"

text \<open>\<open>==\<close>: a NaN equals nothing, the two zeros each other.\<close>

definition f32_eq :: "float32 \<Rightarrow> float32 \<Rightarrow> bool" where
  "f32_eq a b \<longleftrightarrow> \<not> f32_is_nan a \<and> \<not> f32_is_nan b \<and> (a = b \<or> f32_is_zero a \<and> f32_is_zero b)"

definition f32_neg :: "float32 \<Rightarrow> float32" where
  "f32_neg f = f XOR 0x80000000"

text \<open>A float from its parts.\<close>

definition f32_make :: "bool \<Rightarrow> nat \<Rightarrow> nat \<Rightarrow> float32" where
  "f32_make neg e m = word_of_nat ((if neg then 2 ^ 31 else 0) + e * 2 ^ 23 + m)"

text \<open>\<open>static_cast<float>\<close> of an integer of at most 24 bits, which a float holds exactly.\<close>

fun log2_floor :: "nat \<Rightarrow> nat" where
  "log2_floor n = (if n \<le> 1 then 0 else Suc (log2_floor (n div 2)))"

definition f32_of_nat :: "nat \<Rightarrow> float32" where
  "f32_of_nat n = (if n = 0 then 0
     else let e = log2_floor n in f32_make False (127 + e) (n * 2 ^ (23 - e) - 2 ^ 23))"

text \<open>
  \<open>static_cast<int32_t>\<close>: towards zero. What does not fit (a NaN or an infinity too) is undefined in
  C++; the program's one target, x86-64, gives \<open>0x80000000\<close> (\<open>cvttss2si\<close>).
\<close>

definition f32_trunc :: "float32 \<Rightarrow> i32" where
  "f32_trunc f =
     (let e = f32_exponent f; m = 2 ^ 23 + f32_fraction f
      in if e < 127 then 0
         else if 127 + 31 \<le> e then 0x80000000
         else let n = (if e \<le> 150 then m div 2 ^ (150 - e) else m * 2 ^ (e - 150))
              in if f32_negative f then - word_of_nat n else word_of_nat n)"

lemma f32_eq_refl: "\<not> f32_is_nan a \<Longrightarrow> f32_eq a a"
  by (simp add: f32_eq_def)

lemma f32_eq_sym: "f32_eq a b \<longleftrightarrow> f32_eq b a"
  by (auto simp: f32_eq_def)

lemma and_mask_unat:
  fixes w :: "'a::len word"
  shows "unat (w AND mask k) = unat w mod 2 ^ k"
proof -
  have "unat (take_bit k w) = take_bit k (unat w)"
    by (rule unsigned_take_bit_eq)
  then show ?thesis
    by (simp only: take_bit_eq_mod [of k "unat w"] flip: take_bit_eq_mask)
qed

lemma unat_f32_make:
  assumes "e < 256" and "m < 2 ^ 23"
  shows "unat (f32_make neg e m) = (if neg then 2 ^ 31 else 0) + e * 2 ^ 23 + m"
proof -
  have "e * 2 ^ 23 + m < 2 ^ 31"
    using assms by simp
  then have "(if neg then 2 ^ 31 else 0) + e * 2 ^ 23 + m < 2 ^ LENGTH(32)"
    by auto
  then show ?thesis
    unfolding f32_make_def unsigned_of_nat by (simp only: take_bit_nat_eq_self of_nat_id)
qed

lemma f32_make_parts:
  assumes "e < 256" and "m < 2 ^ 23"
  shows "f32_exponent (f32_make neg e m) = e" "f32_fraction (f32_make neg e m) = m"
    "f32_negative (f32_make neg e m) = neg"
proof -
  note u = unat_f32_make [OF assms, of neg]
  have masks: "(0xFF :: float32) = mask 8" "(0x7FFFFF :: float32) = mask 23"
    by (simp_all add: mask_eq_exp_minus_1)
  have "unat (f32_make neg e m) = m + ((if neg then 256 else 0) + e) * 2 ^ 23"
    unfolding u by simp
  then have d: "unat (f32_make neg e m) div 2 ^ 23 = (if neg then 256 else 0) + e"
    "unat (f32_make neg e m) mod 2 ^ 23 = m"
    using assms(2) by (simp_all only: div_mult_self1 mod_mult_self1, simp_all)
  show "f32_exponent (f32_make neg e m) = e"
    unfolding f32_exponent_def masks and_mask_unat
    using d(1) assms(1) by (simp add: drop_bit_eq_div unat_div)
  show "f32_fraction (f32_make neg e m) = m"
    unfolding f32_fraction_def masks and_mask_unat using d(2) by simp
  have "unat (f32_make neg e m) = (e * 2 ^ 23 + m) + (if neg then 1 else 0) * 2 ^ 31"
    unfolding u by simp
  moreover have "e * 2 ^ 23 + m < 2 ^ 31"
    using assms by simp
  ultimately have "unat (f32_make neg e m) div 2 ^ 31 = (if neg then 1 else 0)"
    by (simp only: div_mult_self1, simp)
  then have "bit (unat (f32_make neg e m)) 31 = neg"
    by (simp add: bit_iff_odd del: power_numeral)
  then show "f32_negative (f32_make neg e m) = neg"
    unfolding f32_negative_def by (simp add: bit_unsigned_iff)
qed

declare log2_floor.simps [simp del]

lemma log2_floor_bounds:
  "0 < n \<Longrightarrow> 2 ^ log2_floor n \<le> n \<and> n < 2 * 2 ^ log2_floor n"
proof (induction n rule: log2_floor.induct)
  case (1 n)
  show ?case
  proof (cases "n \<le> 1")
    case True
    with 1(2) show ?thesis by (simp add: log2_floor.simps [of n])
  next
    case False
    then have "2 ^ log2_floor (n div 2) \<le> n div 2 \<and> n div 2 < 2 * 2 ^ log2_floor (n div 2)"
      by (intro 1(1)) auto
    moreover have "n = 2 * (n div 2) + n mod 2" "n mod 2 < 2"
      by simp_all
    ultimately have "2 * 2 ^ log2_floor (n div 2) \<le> n \<and> n < 2 * (2 * 2 ^ log2_floor (n div 2))"
      by linarith
    then show ?thesis
      using False by (simp add: log2_floor.simps [of n])
  qed
qed

lemma f32_of_nat_parts:
  assumes "0 < n" and "n < 2 ^ 24"
  defines "e \<equiv> log2_floor n"
  shows "f32_of_nat n = f32_make False (127 + e) (n * 2 ^ (23 - e) - 2 ^ 23)"
    and "e \<le> 23" and "2 ^ 23 \<le> n * 2 ^ (23 - e)" and "n * 2 ^ (23 - e) < 2 ^ 24"
proof -
  have b: "2 ^ e \<le> n" "n < 2 * 2 ^ e"
    using log2_floor_bounds [OF assms(1)] by (simp_all add: e_def)
  then have "(2::nat) ^ e < 2 ^ 24" using assms(2) by linarith
  then have "e < 24" by (rule power_less_imp_less_exp [rotated]) simp
  then show e: "e \<le> 23" by simp
  have p: "(2::nat) ^ e * 2 ^ (23 - e) = 2 ^ 23"
    using e by (simp flip: power_add)
  show "2 ^ 23 \<le> n * 2 ^ (23 - e)"
    using mult_le_mono1 [OF b(1), of "2 ^ (23 - e)"] by (simp only: p)
  have "n * 2 ^ (23 - e) < 2 * 2 ^ e * 2 ^ (23 - e)"
    using b(2) by simp
  also have "\<dots> = 2 ^ 24" using p by (simp add: mult.assoc)
  finally show "n * 2 ^ (23 - e) < 2 ^ 24" .
  show "f32_of_nat n = f32_make False (127 + e) (n * 2 ^ (23 - e) - 2 ^ 23)"
    using assms(1) by (simp add: f32_of_nat_def e_def Let_def)
qed

lemma f32_trunc_of_nat:
  assumes "n < 2 ^ 24"
  shows "f32_trunc (f32_of_nat n) = word_of_nat n"
proof (cases "n = 0")
  case True
  then show ?thesis
    by (simp add: f32_of_nat_def f32_trunc_def f32_exponent_def)
next
  case False
  define e where "e = log2_floor n"
  note parts = f32_of_nat_parts [OF _ assms, folded e_def]
  have n: "0 < n" using False by simp
  note p = f32_make_parts [of "127 + e" "n * 2 ^ (23 - e) - 2 ^ 23" False]
  have "127 + e < 256" "n * 2 ^ (23 - e) - 2 ^ 23 < 2 ^ 23"
    using parts(2-4) [OF n] by auto
  note p = p [OF this]
  have "2 ^ 23 + (n * 2 ^ (23 - e) - 2 ^ 23) = n * 2 ^ (23 - e)"
    using parts(3) [OF n] by simp
  moreover have "150 - (127 + e) = 23 - e" by simp
  ultimately show ?thesis
    unfolding parts(1) [OF n] f32_trunc_def p Let_def
    using parts(2) [OF n] by simp
qed

lemma f32_neg_parts:
  "f32_exponent (f32_neg f) = f32_exponent f" "f32_fraction (f32_neg f) = f32_fraction f"
  "f32_negative (f32_neg f) = (\<not> f32_negative f)"
proof -
  have sign: "bit (0x80000000 :: int) n \<longleftrightarrow> n = 31" for n
    using bit_exp_iff [where 'a = int, of 31 n] by auto
  have shifted: "bit (256 :: int) n \<longleftrightarrow> n = 8" for n
    using bit_exp_iff [where 'a = int, of 8 n] by auto
  have masks: "(0xFF :: float32) = mask 8" "(0x7FFFFF :: float32) = mask 23"
    by (simp_all add: mask_eq_exp_minus_1)
  have "drop_bit 23 (f32_neg f) AND 0xFF = drop_bit 23 f AND 0xFF"
    unfolding masks
    by (rule bit_word_eqI) (auto simp: f32_neg_def bit_and_iff bit_drop_bit_eq bit_xor_iff bit_mask_iff sign shifted)
  then show "f32_exponent (f32_neg f) = f32_exponent f"
    by (simp add: f32_exponent_def)
  have "f32_neg f AND 0x7FFFFF = f AND 0x7FFFFF"
    unfolding masks
    by (rule bit_word_eqI) (auto simp: f32_neg_def bit_and_iff bit_xor_iff bit_mask_iff sign)
  then show "f32_fraction (f32_neg f) = f32_fraction f"
    by (simp add: f32_fraction_def)
  show "f32_negative (f32_neg f) = (\<not> f32_negative f)"
    by (simp add: f32_neg_def f32_negative_def bit_xor_iff sign)
qed

lemma f32_trunc_neg:
  assumes "f32_exponent f < 158"
  shows "f32_trunc (f32_neg f) = - f32_trunc f"
  using assms by (auto simp: f32_trunc_def f32_neg_parts Let_def)

section \<open>Quantized vectors\<close>

record vec3 =
  v3_x :: float32
  v3_y :: float32
  v3_z :: float32

record vec2 =
  v2_x :: float32
  v2_y :: float32

text \<open>\<open>ix < 0\<close> and \<open>std::abs(ix)\<close> on \<open>int32_t\<close> (the smallest integer's wraps to itself).\<close>

definition i32_less_zero :: "i32 \<Rightarrow> bool" where
  "i32_less_zero i \<longleftrightarrow> sint i < 0"

definition i32_abs :: "i32 \<Rightarrow> i32" where
  "i32_abs i = (if sint i < 0 then - i else i)"

definition vec3_pack :: "vec3 \<Rightarrow> u64" where
  "vec3_pack v =
     (let ix = f32_trunc (v3_x v); iy = f32_trunc (v3_y v); iz = f32_trunc (v3_z v)
      in (if i32_less_zero ix then 1 else 0) OR (if i32_less_zero iy then 2 else 0) OR
         (if i32_less_zero iz then 4 else 0) OR
         push_bit 3 (ucast (i32_abs ix AND 0xFFFFF)) OR
         push_bit 23 (ucast (i32_abs iy AND 0xFFFFF)) OR
         push_bit 43 (ucast (i32_abs iz AND 0xFFFFF)))"

definition signed_float :: "bool \<Rightarrow> nat \<Rightarrow> float32" where
  "signed_float neg n = (if neg then f32_neg (f32_of_nat n) else f32_of_nat n)"

definition vec3_unpack :: "u64 \<Rightarrow> vec3" where
  "vec3_unpack p =
     \<lparr>v3_x = signed_float (p AND 1 \<noteq> 0) (unat (drop_bit 3 p AND 0xFFFFF)),
      v3_y = signed_float (p AND 2 \<noteq> 0) (unat (drop_bit 23 p AND 0xFFFFF)),
      v3_z = signed_float (p AND 4 \<noteq> 0) (unat (drop_bit 43 p AND 0xFFFFF))\<rparr>"

definition vec3_eq :: "vec3 \<Rightarrow> vec3 \<Rightarrow> bool" where
  "vec3_eq a b \<longleftrightarrow> vec3_pack a = vec3_pack b"

definition vec3_serialize :: "vec3 \<Rightarrow> (writer, unit) state" where
  "vec3_serialize v = do {
     write_bits (vec3_pack v) 64;
     State_Monad.return ()
   }"

definition vec3_deserialize :: "(reader, vec3) state" where
  "vec3_deserialize = do {
     data \<leftarrow> read_uint 64;
     State_Monad.return (vec3_unpack data)
   }"

definition vec2_pack :: "vec2 \<Rightarrow> u32" where
  "vec2_pack v =
     (let ix = f32_trunc (v2_x v); iy = f32_trunc (v2_y v)
      in (if i32_less_zero ix then 1 else 0) OR (if i32_less_zero iy then 2 else 0) OR
         push_bit 2 (i32_abs ix AND 0x7FFF) OR push_bit 17 (i32_abs iy AND 0x7FFF))"

definition vec2_unpack :: "u32 \<Rightarrow> vec2" where
  "vec2_unpack p =
     \<lparr>v2_x = signed_float (p AND 1 \<noteq> 0) (unat (drop_bit 2 p AND 0x7FFF)),
      v2_y = signed_float (p AND 2 \<noteq> 0) (unat (drop_bit 17 p AND 0x7FFF))\<rparr>"

definition vec2_eq :: "vec2 \<Rightarrow> vec2 \<Rightarrow> bool" where
  "vec2_eq a b \<longleftrightarrow> vec2_pack a = vec2_pack b"

definition vec2_serialize :: "vec2 \<Rightarrow> (writer, unit) state" where
  "vec2_serialize v = do {
     write_bits (ucast (vec2_pack v)) 32;
     State_Monad.return ()
   }"

definition vec2_deserialize :: "(reader, vec2) state" where
  "vec2_deserialize = do {
     data \<leftarrow> read_uint 32;
     State_Monad.return (vec2_unpack (ucast (data AND 0xFFFFFFFF)))
   }"

text \<open>The vectors the wire brings as they were: those of whole numbers, as unpacking makes them.\<close>

definition vec3_valid :: "vec3 \<Rightarrow> bool" where
  "vec3_valid v \<longleftrightarrow> vec3_unpack (vec3_pack v) = v"

definition vec2_valid :: "vec2 \<Rightarrow> bool" where
  "vec2_valid v \<longleftrightarrow> vec2_unpack (vec2_pack v) = v"

lemma codes_vec3 [codec_intros]: "vec3_valid v \<Longrightarrow> codes (vec3_serialize v) vec3_deserialize v"
  unfolding vec3_serialize_def vec3_deserialize_def vec3_valid_def
  by (rule codec_intros | simp add: take_bit_word_eq_self)+

lemma ucast_low_word: "(ucast (take_bit 32 (ucast p :: u64) AND 0xFFFFFFFF) :: u32) = p"
proof -
  have "(0xFFFFFFFF :: u64) = mask 32"
    by (simp add: mask_eq_exp_minus_1)
  then show ?thesis
    by (simp only: flip: take_bit_eq_mask) (simp add: ucast_take_bit ucast_ucast_up)
qed

lemma codes_vec2 [codec_intros]: "vec2_valid v \<Longrightarrow> codes (vec2_serialize v) vec2_deserialize v"
  unfolding vec2_serialize_def vec2_deserialize_def vec2_valid_def
  by (rule codec_intros | simp add: ucast_low_word)+

lemma safe_vec3 [safe_intros]: "safe_reader vec3_deserialize"
  unfolding vec3_deserialize_def by (intro safe_intros)

lemma safe_vec2 [safe_intros]: "safe_reader vec2_deserialize"
  unfolding vec2_deserialize_def by (intro safe_intros)

interpretation vec3_wire: wire_codec vec3_serialize vec3_deserialize vec3_valid
  by unfold_locales (simp_all add: codes_vec3 safe_vec3)

interpretation vec2_wire: wire_codec vec2_serialize vec2_deserialize vec2_valid
  by unfold_locales (simp_all add: codes_vec2 safe_vec2)

text \<open>A component within the packed range keeps its integer part through a packing.\<close>

lemma trunc_signed_float:
  assumes "n < 2 ^ 24"
  shows "f32_trunc (signed_float neg n) = (if neg then - word_of_nat n else word_of_nat n)"
proof -
  have "f32_exponent (f32_of_nat n) < 158"
  proof (cases "n = 0")
    case True
    then show ?thesis by (simp add: f32_of_nat_def f32_exponent_def)
  next
    case False
    then have "0 < n" by simp
    note parts = f32_of_nat_parts [OF this assms]
    have "127 + log2_floor n < 256" "n * 2 ^ (23 - log2_floor n) - 2 ^ 23 < 2 ^ 23"
      using parts(2-4) by auto
    then show ?thesis
      using parts(1,2) f32_make_parts(1) by simp
  qed
  then show ?thesis
    using f32_trunc_neg f32_trunc_of_nat [OF assms] by (simp add: signed_float_def)
qed

lemma uint_i32_abs:
  assumes "\<bar>sint i\<bar> < 2 ^ 31"
  shows "uint (i32_abs i) = \<bar>sint i\<bar>"
proof (cases "sint i < 0")
  case True
  have "uint (- i) = take_bit 32 (- sint i)"
    by (simp add: uint_sint sint_word_minus take_bit_signed_take_bit)
  also have "\<dots> = - sint i"
    using True assms by (intro take_bit_int_eq_self) auto
  finally show ?thesis
    using True by (simp add: i32_abs_def)
next
  case False
  then have "uint i = sint i"
    using assms by (subst uint_sint) (auto intro!: take_bit_int_eq_self)
  then show ?thesis
    using False by (simp add: i32_abs_def)
qed

lemma i32_abs_small:
  assumes "\<bar>sint i\<bar> < 2 ^ k" and "k < 32"
  shows "i32_abs i AND mask k = i32_abs i"
proof -
  have "(2::int) ^ k \<le> 2 ^ 31"
    using assms(2) by (intro power_increasing) auto
  then have u: "uint (i32_abs i) = \<bar>sint i\<bar>"
    using assms(1) by (intro uint_i32_abs) linarith
  have "uint (take_bit k (i32_abs i)) = uint (i32_abs i)"
    unfolding unsigned_take_bit_eq using assms(1) by (intro take_bit_int_eq_self) (simp_all add: u)
  then show ?thesis
    by (simp only: unsigned_word_eqI flip: take_bit_eq_mask)
qed

lemma trunc_signed_abs:
  assumes "\<bar>sint i\<bar> < 2 ^ k" and "k \<le> 24"
  shows "f32_trunc (signed_float (i32_less_zero i) (unat (i32_abs i AND mask k))) = i"
proof -
  have m: "i32_abs i AND mask k = i32_abs i"
    using i32_abs_small [OF assms(1)] assms(2) by simp
  have "unat (i32_abs i AND mask k) < 2 ^ k"
    unfolding and_mask_unat by simp
  also have "\<dots> \<le> 2 ^ 24"
    using assms(2) by (intro power_increasing) auto
  finally show ?thesis
    using trunc_signed_float unfolding m
    by (simp add: i32_abs_def i32_less_zero_def)
qed

text \<open>The three fields of a packed vector.\<close>

lemma bit_flag:
  "bit (if p then 1 else 0 :: 'a::len word) n \<longleftrightarrow> p \<and> n = 0"
  by (auto simp: bit_1_iff)

lemma bit_flag_at:
  "k < LENGTH('a) \<Longrightarrow> bit (if p then 2 ^ k else 0 :: 'a::len word) n \<longleftrightarrow> p \<and> n = k"
  by (auto simp: bit_exp_iff)

lemma bit_field:
  "bit (push_bit s (ucast (a AND mask k) :: 'a::len word)) n \<longleftrightarrow>
     s \<le> n \<and> n < LENGTH('a) \<and> n - s < k \<and> bit (a :: 'b::len word) (n - s)"
  by (auto simp: bit_push_bit_iff bit_ucast_iff bit_and_iff bit_mask_iff dest: bit_imp_le_length)

lemma field_eqI:
  assumes "\<And>n. n < k \<Longrightarrow> bit w (s + n) \<longleftrightarrow> bit a n" and "k \<le> LENGTH('a)"
  shows "drop_bit s w AND mask k = (ucast (a AND mask k :: 'b::len word) :: 'a::len word)"
proof (rule bit_word_eqI)
  fix n assume "n < LENGTH('a)"
  show "bit (drop_bit s w AND mask k) n = bit (ucast (a AND mask k :: 'b word) :: 'a word) n"
    using assms \<open>n < _\<close>
    by (auto simp: bit_and_iff bit_drop_bit_eq bit_ucast_iff bit_mask_iff dest: bit_imp_le_length)
qed

lemma vec3_fields:
  fixes a b c :: i32 and p q r :: bool
  defines "w \<equiv> (if p then 1 else 0) OR (if q then 2 ^ 1 else 0) OR (if r then 2 ^ 2 else 0) OR
     push_bit 3 (ucast (a AND mask 20)) OR push_bit 23 (ucast (b AND mask 20)) OR
     push_bit 43 (ucast (c AND mask 20)) :: u64"
  shows "(w AND 1 \<noteq> 0) = p" "(w AND 2 \<noteq> 0) = q" "(w AND 4 \<noteq> 0) = r"
    "drop_bit 3 w AND mask 20 = ucast (a AND mask 20)"
    "drop_bit 23 w AND mask 20 = ucast (b AND mask 20)"
    "drop_bit 43 w AND mask 20 = ucast (c AND mask 20)"
proof -
  have l: "1 < LENGTH(64)" "2 < LENGTH(64)" by simp_all
  note bits = w_def bit_or_iff bit_flag bit_flag_at [OF l(1)] bit_flag_at [OF l(2)] bit_field
  have single: "(w AND 2 ^ n \<noteq> 0) = bit w n" if "n < 64" for n
    using that by (simp add: and_exp_eq_0_iff_not_bit)
  show "(w AND 1 \<noteq> 0) = p"
    using single [of 0] by (simp only: bits) simp
  show "(w AND 2 \<noteq> 0) = q"
    using single [of 1] by (simp only: bits) simp
  show "(w AND 4 \<noteq> 0) = r"
    using single [of 2] by (simp only: bits) simp
  show "drop_bit 3 w AND mask 20 = ucast (a AND mask 20)"
    by (rule field_eqI) (simp_all only: bits, auto)
  show "drop_bit 23 w AND mask 20 = ucast (b AND mask 20)"
    by (rule field_eqI) (simp_all only: bits, auto)
  show "drop_bit 43 w AND mask 20 = ucast (c AND mask 20)"
    by (rule field_eqI) (simp_all only: bits, auto)
qed

lemma vec2_fields:
  fixes a b :: i32 and p q :: bool
  defines "w \<equiv> (if p then 1 else 0) OR (if q then 2 ^ 1 else 0) OR
     push_bit 2 (ucast (a AND mask 15)) OR push_bit 17 (ucast (b AND mask 15)) :: u32"
  shows "(w AND 1 \<noteq> 0) = p" "(w AND 2 \<noteq> 0) = q"
    "drop_bit 2 w AND mask 15 = ucast (a AND mask 15)"
    "drop_bit 17 w AND mask 15 = ucast (b AND mask 15)"
proof -
  have l: "1 < LENGTH(32)" by simp
  note bits = w_def bit_or_iff bit_flag bit_flag_at [OF l] bit_field
  have single: "(w AND 2 ^ n \<noteq> 0) = bit w n" if "n < 32" for n
    using that by (simp add: and_exp_eq_0_iff_not_bit)
  show "(w AND 1 \<noteq> 0) = p"
    using single [of 0] by (simp only: bits) simp
  show "(w AND 2 \<noteq> 0) = q"
    using single [of 1] by (simp only: bits) simp
  show "drop_bit 2 w AND mask 15 = ucast (a AND mask 15)"
    by (rule field_eqI) (simp_all only: bits, auto)
  show "drop_bit 17 w AND mask 15 = ucast (b AND mask 15)"
    by (rule field_eqI) (simp_all only: bits, auto)
qed

lemma unat_ucast_up:
  "LENGTH('a) \<le> LENGTH('b) \<Longrightarrow> unat (ucast (v :: 'a::len word) :: 'b::len word) = unat v"
  by (simp add: unsigned_ucast_eq take_bit_nat_eq_self less_le_trans [OF unsigned_less])

text \<open>What unpacking a packed vector gives, component by component, in range or not.\<close>

definition quantized :: "nat \<Rightarrow> float32 \<Rightarrow> float32" where
  "quantized k f = signed_float (i32_less_zero (f32_trunc f)) (unat (i32_abs (f32_trunc f) AND mask k))"

lemma vec3_unpack_pack:
  "vec3_unpack (vec3_pack v) =
     \<lparr>v3_x = quantized 20 (v3_x v), v3_y = quantized 20 (v3_y v), v3_z = quantized 20 (v3_z v)\<rparr>"
proof -
  have k: "(0xFFFFF :: i32) = mask 20" "(0xFFFFF :: u64) = mask 20"
    by (simp_all add: mask_eq_exp_minus_1)
  have f: "(if b then 2 else 0 :: u64) = (if b then 2 ^ 1 else 0)"
    "(if b then 4 else 0 :: u64) = (if b then 2 ^ 2 else 0)" for b
    by simp_all
  show ?thesis
    unfolding vec3_unpack_def vec3_pack_def Let_def k f vec3_fields quantized_def
    by (simp add: unat_ucast_up)
qed

lemma vec2_unpack_pack:
  "vec2_unpack (vec2_pack v) = \<lparr>v2_x = quantized 15 (v2_x v), v2_y = quantized 15 (v2_y v)\<rparr>"
proof -
  have k: "(0x7FFF :: i32) = mask 15"
    by (simp add: mask_eq_exp_minus_1)
  have f: "(if b then 2 else 0 :: u32) = (if b then 2 ^ 1 else 0)" for b
    by simp
  note fields = vec2_fields [unfolded ucast_id]
  show ?thesis
    unfolding vec2_unpack_def vec2_pack_def Let_def k f fields quantized_def by simp
qed

definition in_range :: "nat \<Rightarrow> float32 \<Rightarrow> bool" where
  "in_range k f \<longleftrightarrow> \<bar>sint (f32_trunc f)\<bar> < 2 ^ k"

lemma trunc_quantized: "in_range k f \<Longrightarrow> k \<le> 24 \<Longrightarrow> f32_trunc (quantized k f) = f32_trunc f"
  unfolding in_range_def quantized_def by (rule trunc_signed_abs)

lemma quantized_idem: "in_range k f \<Longrightarrow> k \<le> 24 \<Longrightarrow> quantized k (quantized k f) = quantized k f"
  by (simp add: quantized_def [of k "quantized k f"] trunc_quantized) (simp add: quantized_def)

definition vec3_in_range :: "vec3 \<Rightarrow> bool" where
  "vec3_in_range v \<longleftrightarrow> in_range 20 (v3_x v) \<and> in_range 20 (v3_y v) \<and> in_range 20 (v3_z v)"

definition vec2_in_range :: "vec2 \<Rightarrow> bool" where
  "vec2_in_range v \<longleftrightarrow> in_range 15 (v2_x v) \<and> in_range 15 (v2_y v)"

lemma vec3_quantized_valid: "vec3_in_range v \<Longrightarrow> vec3_valid (vec3_unpack (vec3_pack v))"
  by (simp add: vec3_valid_def vec3_in_range_def vec3_unpack_pack quantized_idem)

lemma vec2_quantized_valid: "vec2_in_range v \<Longrightarrow> vec2_valid (vec2_unpack (vec2_pack v))"
  by (simp add: vec2_valid_def vec2_in_range_def vec2_unpack_pack quantized_idem)

lemma vec3_pack_cong:
  "f32_trunc (v3_x a) = f32_trunc (v3_x b) \<Longrightarrow> f32_trunc (v3_y a) = f32_trunc (v3_y b) \<Longrightarrow>
   f32_trunc (v3_z a) = f32_trunc (v3_z b) \<Longrightarrow> vec3_pack a = vec3_pack b"
  by (simp add: vec3_pack_def)

lemma vec3_wire_is_quantized:
  "decode vec3_deserialize (encode (vec3_serialize v)) = vec3_unpack (vec3_pack v)"
proof -
  have "codes (vec3_serialize v) vec3_deserialize (vec3_unpack (vec3_pack v))"
    unfolding vec3_serialize_def vec3_deserialize_def
    by (rule codec_intros | simp add: take_bit_word_eq_self)+
  then show ?thesis
    using decode_encode_codes [of _ _ _ "[]"] by fastforce
qed

text \<open>
  C36: a position whose whole parts are less than 2^20 in size arrives with
  those whole parts, compares equal to the one sent (\<open>operator==\<close> compares packings), and is one
  the wire carries unchanged from then on: relaying it again moves it no further.
\<close>

theorem vec3_position_on_the_wire:
  assumes "vec3_in_range v"
  defines "w \<equiv> decode vec3_deserialize (encode (vec3_serialize v))"
  shows "f32_trunc (v3_x w) = f32_trunc (v3_x v) \<and> f32_trunc (v3_y w) = f32_trunc (v3_y v) \<and>
     f32_trunc (v3_z w) = f32_trunc (v3_z v) \<and> vec3_eq w v \<and>
     decode vec3_deserialize (encode (vec3_serialize w)) = w"
proof -
  have w: "w = vec3_unpack (vec3_pack v)"
    by (simp add: w_def vec3_wire_is_quantized)
  have t: "f32_trunc (v3_x w) = f32_trunc (v3_x v)" "f32_trunc (v3_y w) = f32_trunc (v3_y v)"
    "f32_trunc (v3_z w) = f32_trunc (v3_z v)"
    using assms(1) by (simp_all add: w vec3_unpack_pack trunc_quantized vec3_in_range_def)
  then have "vec3_eq w v"
    unfolding vec3_eq_def by (rule vec3_pack_cong)
  moreover have "decode vec3_deserialize (encode (vec3_serialize w)) = w"
    by (rule vec3_wire.decode_encode) (simp add: w vec3_quantized_valid [OF assms(1)])
  ultimately show ?thesis
    using t by simp
qed

text \<open>A position in Tamriel: x = -12345.75, y = 2.5, z = 0.\<close>

lemma vec3_position_on_the_wire_witness:
  "vec3_eq (decode vec3_deserialize (encode (vec3_serialize
      \<lparr>v3_x = 0xC640E700, v3_y = 0x40200000, v3_z = 0\<rparr>)))
    \<lparr>v3_x = 0xC640E700, v3_y = 0x40200000, v3_z = 0\<rparr>"
proof -
  have "vec3_in_range \<lparr>v3_x = 0xC640E700, v3_y = 0x40200000, v3_z = 0\<rparr>"
    by (simp add: vec3_in_range_def in_range_def f32_trunc_def f32_exponent_def f32_fraction_def
        f32_negative_def Let_def)
  then show ?thesis
    using vec3_position_on_the_wire by blast
qed

end
