(* ===== verification/Items.thy ===== *)
theory Items
  imports Structs Ordered_Map Float32
begin

text \<open>
  What actors carry: \<open>Structs/Inventory\<close> and \<open>Structs/Recipe\<close>. An entry is a stack of one item with
  its extra data; the program merges, removes and equips entries on the lists it keeps.
\<close>

section \<open>Effects, enchantments, entries\<close>

record effect_item =
  ei_Magnitude :: "float32"
  ei_Area :: "i32"
  ei_Duration :: "i32"
  ei_RawCost :: "float32"
  ei_EffectId :: "game_id"

definition effect_item_serialize :: "effect_item \<Rightarrow> (writer, unit) state" where
  "effect_item_serialize x = do {
     write_float (ei_Magnitude x);
     write_i32 (ei_Area x);
     write_i32 (ei_Duration x);
     write_float (ei_RawCost x);
     game_id_serialize (ei_EffectId x);
     State_Monad.return ()
   }"

definition effect_item_deserialize :: "(reader, effect_item) state" where
  "effect_item_deserialize = do {
     vMagnitude \<leftarrow> read_float;
     vArea \<leftarrow> read_u32;
     vDuration \<leftarrow> read_u32;
     vRawCost \<leftarrow> read_float;
     vEffectId \<leftarrow> game_id_deserialize;
     State_Monad.return \<lparr>ei_Magnitude = vMagnitude, ei_Area = vArea, ei_Duration = vDuration,
       ei_RawCost = vRawCost, ei_EffectId = vEffectId\<rparr>
   }"

lemma codes_effect_item [codec_intros]:
  "codes (effect_item_serialize x) effect_item_deserialize x"
  unfolding effect_item_serialize_def effect_item_deserialize_def
  by (rule codec_intros | simp)+

lemma safe_effect_item [safe_intros]: "safe_reader effect_item_deserialize"
  unfolding effect_item_deserialize_def by (intro safe_intros)

interpretation effect_item_wire: wire_codec effect_item_serialize effect_item_deserialize "\<lambda>_. True"
  by unfold_locales (simp_all add: codes_effect_item safe_effect_item)


text \<open>The defaulted \<open>operator==\<close> compares floats as floats (a NaN differs from itself, +0 equals -0).\<close>

definition effect_item_eq :: "effect_item \<Rightarrow> effect_item \<Rightarrow> bool" where
  "effect_item_eq a b \<longleftrightarrow> f32_eq (ei_Magnitude a) (ei_Magnitude b) \<and> ei_Area a = ei_Area b \<and>
     ei_Duration a = ei_Duration b \<and> f32_eq (ei_RawCost a) (ei_RawCost b) \<and> ei_EffectId a = ei_EffectId b"

record enchantment_data =
  ench_IsWeapon :: bool
  ench_Effects :: "effect_item list"

definition enchantment_data_eq :: "enchantment_data \<Rightarrow> enchantment_data \<Rightarrow> bool" where
  "enchantment_data_eq a b \<longleftrightarrow> ench_IsWeapon a = ench_IsWeapon b \<and>
     list_all2 effect_item_eq (ench_Effects a) (ench_Effects b)"

record entry =
  en_BaseId :: game_id
  en_Count :: i32
  en_ExtraCharge :: float32
  en_ExtraEnchantId :: game_id
  en_ExtraEnchantCharge :: u16
  en_EnchantData :: enchantment_data
  en_ExtraHealth :: float32
  en_ExtraPoisonId :: game_id
  en_ExtraPoisonCount :: u32
  en_ExtraSoulLevel :: i32
  en_ExtraName :: string
  en_ExtraEnchantRemoveUnequip :: bool
  en_ExtraWorn :: bool
  en_ExtraWornLeft :: bool
  en_IsQuestItem :: bool

text \<open>\<open>Entry{}\<close>.\<close>

definition new_entry :: entry where
  "new_entry = \<lparr>en_BaseId = no_id, en_Count = 0, en_ExtraCharge = 0, en_ExtraEnchantId = no_id,
     en_ExtraEnchantCharge = 0, en_EnchantData = \<lparr>ench_IsWeapon = False, ench_Effects = []\<rparr>,
     en_ExtraHealth = 0, en_ExtraPoisonId = no_id, en_ExtraPoisonCount = 0, en_ExtraSoulLevel = 0,
     en_ExtraName = [], en_ExtraEnchantRemoveUnequip = False, en_ExtraWorn = False,
     en_ExtraWornLeft = False, en_IsQuestItem = False\<rparr>"

definition entry_serialize :: "entry \<Rightarrow> (writer, unit) state" where
  "entry_serialize x = do {
     game_id_serialize (en_BaseId x);
     write_i32 (en_Count x);
     write_float (en_ExtraCharge x);
     game_id_serialize (en_ExtraEnchantId x);
     write_u16 (en_ExtraEnchantCharge x);
     write_list effect_item_serialize (ench_Effects (en_EnchantData x));
     write_float (en_ExtraHealth x);
     game_id_serialize (en_ExtraPoisonId x);
     write_u32 (en_ExtraPoisonCount x);
     write_i32 (en_ExtraSoulLevel x);
     write_bool (ench_IsWeapon (en_EnchantData x));
     write_bool (en_ExtraEnchantRemoveUnequip x);
     write_bool (en_ExtraWorn x);
     write_bool (en_ExtraWornLeft x);
     write_bool (en_IsQuestItem x);
     write_string (en_ExtraName x);
     State_Monad.return ()
   }"

text \<open>The effects read are added to those the entry already had (\<open>old\<close>).\<close>

definition entry_deserialize :: "entry \<Rightarrow> (reader, entry) state" where
  "entry_deserialize old = do {
     base \<leftarrow> game_id_deserialize;
     count \<leftarrow> read_u32;
     charge \<leftarrow> read_float;
     enchant \<leftarrow> game_id_deserialize;
     enchant_charge \<leftarrow> read_u16;
     effects \<leftarrow> read_list effect_item_deserialize;
     health \<leftarrow> read_float;
     poison \<leftarrow> game_id_deserialize;
     poison_count \<leftarrow> read_u32;
     soul \<leftarrow> read_u32;
     is_weapon \<leftarrow> read_bool;
     remove_unequip \<leftarrow> read_bool;
     worn \<leftarrow> read_bool;
     worn_left \<leftarrow> read_bool;
     quest \<leftarrow> read_bool;
     name \<leftarrow> read_string;
     State_Monad.return \<lparr>en_BaseId = base, en_Count = count, en_ExtraCharge = charge,
       en_ExtraEnchantId = enchant, en_ExtraEnchantCharge = enchant_charge,
       en_EnchantData = \<lparr>ench_IsWeapon = is_weapon,
         ench_Effects = ench_Effects (en_EnchantData old) @ effects\<rparr>,
       en_ExtraHealth = health, en_ExtraPoisonId = poison, en_ExtraPoisonCount = poison_count,
       en_ExtraSoulLevel = soul, en_ExtraName = name, en_ExtraEnchantRemoveUnequip = remove_unequip,
       en_ExtraWorn = worn, en_ExtraWornLeft = worn_left, en_IsQuestItem = quest\<rparr>
   }"

definition entry_valid :: "entry \<Rightarrow> bool" where
  "entry_valid x \<longleftrightarrow> length (ench_Effects (en_EnchantData x)) < 2 ^ 64 \<and> length (en_ExtraName x) < 65536"

lemma codes_entry [codec_intros]:
  "entry_valid x \<Longrightarrow> codes (entry_serialize x) (entry_deserialize new_entry) x"
  unfolding entry_serialize_def entry_deserialize_def entry_valid_def
  by (rule codec_intros | simp add: new_entry_def)+

lemma safe_entry [safe_intros]: "safe_reader (entry_deserialize old)"
  unfolding entry_deserialize_def by (intro safe_intros)

interpretation entry_wire: wire_codec entry_serialize "entry_deserialize new_entry" entry_valid
  by unfold_locales (simp_all add: codes_entry safe_entry)

section \<open>Comparing entries\<close>

definition is_same_enchantment :: "entry \<Rightarrow> entry \<Rightarrow> bool" where
  "is_same_enchantment a b \<longleftrightarrow>
     (if gid_ModId (en_ExtraEnchantId a) = 0xFFFFFFFF \<and> gid_ModId (en_ExtraEnchantId b) = 0xFFFFFFFF
      then enchantment_data_eq (en_EnchantData a) (en_EnchantData b)
      else en_ExtraEnchantId a = en_ExtraEnchantId b)"

definition is_extra_data_equals :: "entry \<Rightarrow> entry \<Rightarrow> bool" where
  "is_extra_data_equals a b \<longleftrightarrow>
     f32_eq (en_ExtraCharge a) (en_ExtraCharge b) \<and> is_same_enchantment a b \<and>
     en_ExtraEnchantCharge a = en_ExtraEnchantCharge b \<and>
     en_ExtraEnchantRemoveUnequip a = en_ExtraEnchantRemoveUnequip b \<and>
     f32_eq (en_ExtraHealth a) (en_ExtraHealth b) \<and> en_ExtraPoisonId a = en_ExtraPoisonId b \<and>
     en_ExtraPoisonCount a = en_ExtraPoisonCount b \<and> en_ExtraSoulLevel a = en_ExtraSoulLevel b \<and>
     en_ExtraName a = en_ExtraName b \<and> en_ExtraWorn a = en_ExtraWorn b \<and>
     en_ExtraWornLeft a = en_ExtraWornLeft b \<and> en_IsQuestItem a = en_IsQuestItem b"

definition contains_extra_data :: "entry \<Rightarrow> bool" where
  "contains_extra_data a \<longleftrightarrow> \<not> is_extra_data_equals a new_entry"

definition can_be_merged :: "entry \<Rightarrow> entry \<Rightarrow> bool" where
  "can_be_merged a b \<longleftrightarrow> en_BaseId a = en_BaseId b \<and> is_extra_data_equals a b"

definition is_worn :: "entry \<Rightarrow> bool" where
  "is_worn a \<longleftrightarrow> en_ExtraWorn a \<or> en_ExtraWornLeft a"

definition entry_eq :: "entry \<Rightarrow> entry \<Rightarrow> bool" where
  "entry_eq a b \<longleftrightarrow> en_BaseId a = en_BaseId b \<and> en_Count a = en_Count b \<and> is_extra_data_equals a b"

section \<open>Inventories\<close>

record inventory =
  inv_Entries :: "entry list"
  inv_CurrentMagicEquipment :: magic_equipment

definition no_inventory :: inventory where
  "no_inventory = \<lparr>inv_Entries = [], inv_CurrentMagicEquipment = no_magic_equipment\<rparr>"

definition inventory_serialize :: "inventory \<Rightarrow> (writer, unit) state" where
  "inventory_serialize x = do {
     write_list entry_serialize (inv_Entries x);
     magic_equipment_serialize (inv_CurrentMagicEquipment x);
     State_Monad.return ()
   }"

definition inventory_deserialize :: "inventory \<Rightarrow> (reader, inventory) state" where
  "inventory_deserialize old = do {
     entries \<leftarrow> read_list_masked 32 (entry_deserialize new_entry);
     magic \<leftarrow> magic_equipment_deserialize (inv_CurrentMagicEquipment old);
     State_Monad.return \<lparr>inv_Entries = inv_Entries old @ entries, inv_CurrentMagicEquipment = magic\<rparr>
   }"

definition inventory_valid :: "inventory \<Rightarrow> bool" where
  "inventory_valid x \<longleftrightarrow> length (inv_Entries x) < 2 ^ 32 \<and> (\<forall>e \<in> set (inv_Entries x). entry_valid e)"

lemma codes_inventory [codec_intros]:
  "inventory_valid x \<Longrightarrow> codes (inventory_serialize x) (inventory_deserialize no_inventory) x"
  unfolding inventory_serialize_def inventory_deserialize_def inventory_valid_def
  by (rule codec_intros | simp add: no_inventory_def)+

lemma safe_inventory [safe_intros]: "safe_reader (inventory_deserialize old)"
  unfolding inventory_deserialize_def by (intro safe_intros)

interpretation inventory_wire: wire_codec inventory_serialize "inventory_deserialize no_inventory"
    inventory_valid
  by unfold_locales (simp_all add: codes_inventory safe_inventory)

text \<open>\<open>std::find_if\<close> on the entries: the index of the first match.\<close>

fun find_index :: "('a \<Rightarrow> bool) \<Rightarrow> 'a list \<Rightarrow> nat option" where
  "find_index p [] = None"
| "find_index p (x # xs) = (if p x then Some 0 else map_option Suc (find_index p xs))"

definition get_entry_by_id :: "game_id \<Rightarrow> inventory \<Rightarrow> entry option" where
  "get_entry_by_id item i = map_option (\<lambda>k. inv_Entries i ! k)
     (find_index (\<lambda>e. en_BaseId e = item) (inv_Entries i))"

definition get_entry_count_by_id :: "game_id \<Rightarrow> inventory \<Rightarrow> i32" where
  "get_entry_count_by_id item i =
     (case get_entry_by_id item i of None \<Rightarrow> 0 | Some e \<Rightarrow> en_Count e)"

definition remove_at :: "nat \<Rightarrow> 'a list \<Rightarrow> 'a list" where
  "remove_at k xs = take k xs @ drop (Suc k) xs"

text \<open>\<open>int32_t\<close>'s \<open>+=\<close>: the words wrap, where C++ leaves an overflow undefined.\<close>

definition add_or_remove_entry :: "entry \<Rightarrow> inventory \<Rightarrow> inventory" where
  "add_or_remove_entry e i =
     (case find_index (\<lambda>x. can_be_merged x e) (inv_Entries i) of
        Some k \<Rightarrow>
          let x = inv_Entries i ! k; count = en_Count x + en_Count e
          in if sint count \<le> 0 then i\<lparr>inv_Entries := remove_at k (inv_Entries i)\<rparr>
             else i\<lparr>inv_Entries := (inv_Entries i)[k := x\<lparr>en_Count := count\<rparr>]\<rparr>
      | None \<Rightarrow> i\<lparr>inv_Entries := inv_Entries i @ [e]\<rparr>)"

definition remove_by_filter :: "(entry \<Rightarrow> bool) \<Rightarrow> inventory \<Rightarrow> inventory" where
  "remove_by_filter p i = i\<lparr>inv_Entries := filter (\<lambda>e. \<not> p e) (inv_Entries i)\<rparr>"

definition contains_quest_items :: "inventory \<Rightarrow> bool" where
  "contains_quest_items i \<longleftrightarrow> list_ex en_IsQuestItem (inv_Entries i)"

text \<open>\<open>UpdateEquipment\<close>'s first loop: while an entry is worn, take the first off.\<close>

lemma find_index_Some:
  "find_index p xs = Some k \<Longrightarrow> k < length xs \<and> p (xs ! k) \<and> (\<forall>j < k. \<not> p (xs ! j))"
proof (induction xs arbitrary: k)
  case (Cons x xs)
  then show ?case
    by (auto simp: nth_Cons split: if_splits nat.splits)
qed simp

lemma find_index_None: "find_index p xs = None \<longleftrightarrow> (\<forall>x \<in> set xs. \<not> p x)"
  by (induction xs) auto

definition take_off :: "entry \<Rightarrow> entry" where
  "take_off e = e\<lparr>en_ExtraWorn := False, en_ExtraWornLeft := False\<rparr>"

lemma fewer_worn:
  "find_index is_worn xs = Some k \<Longrightarrow>
     length (filter is_worn (xs[k := take_off (xs ! k)])) < length (filter is_worn xs)"
proof (induction xs arbitrary: k)
  case (Cons x xs)
  then show ?case
    by (auto simp: take_off_def is_worn_def split: if_splits)
qed simp

function take_all_off :: "entry list \<Rightarrow> entry list" where
  "take_all_off xs = (case find_index is_worn xs of None \<Rightarrow> xs
     | Some k \<Rightarrow> take_all_off (xs[k := take_off (xs ! k)]))"
  by pat_completeness auto
termination
  by (relation "measure (\<lambda>xs. length (filter is_worn xs))") (auto simp: fewer_worn)

declare take_all_off.simps [simp del]

fun wear :: "entry list \<Rightarrow> entry list \<Rightarrow> entry list" where
  "wear [] xs = xs"
| "wear (e # es) xs =
     (if \<not> is_worn e then wear es xs
      else case find_index (\<lambda>x. en_BaseId x = en_BaseId e) xs of
          None \<Rightarrow> wear es xs
        | Some k \<Rightarrow> wear es (xs[k := (xs ! k)\<lparr>en_ExtraWorn := en_ExtraWorn e,
            en_ExtraWornLeft := en_ExtraWornLeft e\<rparr>]))"

definition update_equipment :: "inventory \<Rightarrow> inventory \<Rightarrow> inventory" where
  "update_equipment new i =
     \<lparr>inv_Entries = wear (inv_Entries new) (take_all_off (inv_Entries i)),
      inv_CurrentMagicEquipment = inv_CurrentMagicEquipment new\<rparr>"

end
