(* ===== verification/Script.thy ===== *)
theory Script
  imports Items
begin

text \<open>
  Papyrus values and calls as the session carries them (\<open>Structs/ScriptValue\<close>), and a player's own
  system quests as its record keeps them (\<open>Structs/SystemQuestState\<close>).
\<close>

section \<open>Values\<close>

record script_form =
  sf_SessionId :: u32
  sf_Form :: game_id

record local_form =
  lf_FormId :: u32
  lf_EachPlayer :: bool

datatype 'f script_value_of = SVNone | SVInt i32 | SVFloat float32 | SVBool bool | SVString string | SVForm 'f

type_synonym script_value = "script_form script_value_of"
type_synonym local_value = "local_form script_value_of"

text \<open>\<open>MapForm\<close>: the value with its form made another's, none when it cannot be.\<close>

fun map_form :: "('a \<Rightarrow> 'b option) \<Rightarrow> 'a script_value_of \<Rightarrow> 'b script_value_of option" where
  "map_form to_form (SVForm x) = map_option SVForm (to_form x)"
| "map_form to_form SVNone = Some SVNone"
| "map_form to_form (SVInt v) = Some (SVInt v)"
| "map_form to_form (SVFloat v) = Some (SVFloat v)"
| "map_form to_form (SVBool v) = Some (SVBool v)"
| "map_form to_form (SVString v) = Some (SVString v)"

fun script_value_serialize :: "script_value \<Rightarrow> (writer, unit) state" where
  "script_value_serialize SVNone = do { write_bits 0 8; State_Monad.return () }"
| "script_value_serialize (SVInt v) = do { write_bits 1 8; write_u32 v; State_Monad.return () }"
| "script_value_serialize (SVFloat v) = do { write_bits 2 8; write_float v; State_Monad.return () }"
| "script_value_serialize (SVBool v) = do { write_bits 3 8; write_bool v; State_Monad.return () }"
| "script_value_serialize (SVString v) = do { write_bits 4 8; write_string v; State_Monad.return () }"
| "script_value_serialize (SVForm v) = do {
     write_bits 5 8;
     write_u32 (sf_SessionId v);
     game_id_serialize (sf_Form v);
     State_Monad.return ()
   }"

text \<open>\<open>None\<close>: the function's \<open>false\<close>, a kind this build does not know.\<close>

definition script_value_deserialize :: "(reader, script_value option) state" where
  "script_value_deserialize = do {
     index \<leftarrow> read_uint 8;
     (if index = 0 then State_Monad.return (Some SVNone)
      else if index = 1 then do { v \<leftarrow> read_u32; State_Monad.return (Some (SVInt v)) }
      else if index = 2 then do { v \<leftarrow> read_float; State_Monad.return (Some (SVFloat v)) }
      else if index = 3 then do { v \<leftarrow> read_bool; State_Monad.return (Some (SVBool v)) }
      else if index = 4 then do { v \<leftarrow> read_string; State_Monad.return (Some (SVString v)) }
      else if index = 5 then do {
        session \<leftarrow> read_u32;
        form \<leftarrow> game_id_deserialize;
        State_Monad.return (Some (SVForm \<lparr>sf_SessionId = session, sf_Form = form\<rparr>))
      }
      else State_Monad.return None)
   }"

fun script_value_valid :: "'f script_value_of \<Rightarrow> bool" where
  "script_value_valid (SVString v) \<longleftrightarrow> length v < 65536"
| "script_value_valid _ \<longleftrightarrow> True"

text \<open>A deserializer's branch on what it has read.\<close>

lemma codes_branch:
  "(c \<Longrightarrow> codes s d x) \<Longrightarrow> (\<not> c \<Longrightarrow> codes s d' x) \<Longrightarrow> codes s (if c then d else d') x"
  by simp

lemma codes_script_value [codec_intros]:
  "script_value_valid v \<Longrightarrow> codes (script_value_serialize v) script_value_deserialize (Some v)"
  unfolding script_value_deserialize_def
  by (cases v; simp only: script_value_serialize.simps;
      ((simp add: take_bit_eq_mod; fail) | rule codec_intros codes_branch)+)

lemma safe_script_value [safe_intros]: "safe_reader script_value_deserialize"
  unfolding script_value_deserialize_def by (intro safe_intros)

interpretation script_value_wire: wire_codec "\<lambda>v. script_value_serialize (the v)"
    script_value_deserialize "\<lambda>v. v \<noteq> None \<and> script_value_valid (the v)"
  by unfold_locales (auto simp: codes_script_value safe_script_value)

section \<open>Calls\<close>

text \<open>Where a call goes (\<open>CallTo\<close>), and the call with its forms as \<open>'f\<close>.\<close>

datatype call_to = ToHost | ToOwner | ToOthers

record 'f script_call_of =
  call_Class :: string
  call_Function :: string
  call_Self :: "'f script_value_of"
  call_Arguments :: "'f script_value_of list"

type_synonym script_call = "script_form script_call_of"
type_synonym local_call = "local_form script_call_of"

text \<open>Reading stops at the first value that cannot be read (\<open>None\<close>), what follows left unread.\<close>

fun read_all :: "nat \<Rightarrow> (reader, 'a option) state \<Rightarrow> (reader, 'a list option) state" where
  "read_all 0 d = State_Monad.return (Some [])"
| "read_all (Suc n) d = do {
     v \<leftarrow> d;
     (case v of None \<Rightarrow> State_Monad.return None
      | Some x \<Rightarrow> do { xs \<leftarrow> read_all n d; State_Monad.return (map_option ((#) x) xs) })
   }"

lemma codes_read_all [codec_intros]:
  assumes "\<And>x. x \<in> set xs \<Longrightarrow> codes (s x) d (Some x)" and "n = length xs"
  shows "codes (write_each s xs) (read_all n d) (Some xs)"
  unfolding assms(2) using assms(1)
proof (induction xs)
  case (Cons x xs)
  have "codes (write_each s xs) (do { v \<leftarrow> read_all (length xs) d;
      State_Monad.return (map_option ((#) x) v) }) (Some (x # xs))"
    by (rule codes_last [OF Cons.IH]) (simp_all add: Cons.prems)
  then show ?case
    unfolding write_each.simps length_Cons read_all.simps
    by (intro codes_bind [OF Cons.prems [of x]]) simp_all
qed (simp add: codes_return)

lemma safe_option [safe_intros]:
  "safe_reader e \<Longrightarrow> (\<And>a. safe_reader (f a)) \<Longrightarrow> safe_reader (case v of None \<Rightarrow> e | Some a \<Rightarrow> f a)"
  by (cases v) simp_all

lemma safe_read_all [safe_intros]: "safe_reader d \<Longrightarrow> safe_reader (read_all n d)"
proof (induction n)
  case (Suc n)
  then show ?case
    by (auto intro!: safe_bind safe_option safe_return)
qed (simp add: safe_return)

definition read_list_all :: "nat \<Rightarrow> (reader, 'a option) state \<Rightarrow> (reader, 'a list option) state" where
  "read_list_all cap d = do { n \<leftarrow> read_varint; read_all (min (unat n) cap) d }"

lemma codes_list_all [codec_intros]:
  assumes "length xs \<le> cap" and "cap < 2 ^ 64" and "\<And>x. x \<in> set xs \<Longrightarrow> codes (s x) d (Some x)"
  shows "codes (write_list s xs) (read_list_all cap d) (Some xs)"
  unfolding write_list_def read_list_all_def
  by (rule codes_bind [OF codes_varint], rule codes_read_all, rule assms(3), assumption)
    (simp add: unat_count [OF le_less_trans [OF assms(1,2)]] assms(1))

lemma safe_list_all [safe_intros]: "safe_reader d \<Longrightarrow> safe_reader (read_list_all cap d)"
  unfolding read_list_all_def by (intro safe_intros)

definition max_native_arguments :: nat where "max_native_arguments = 16"

definition script_call_serialize :: "script_call \<Rightarrow> (writer, unit) state" where
  "script_call_serialize x = do {
     write_string (call_Class x);
     write_string (call_Function x);
     script_value_serialize (call_Self x);
     write_list script_value_serialize (call_Arguments x);
     State_Monad.return ()
   }"

definition script_call_deserialize :: "(reader, script_call) state" where
  "script_call_deserialize = do {
     class \<leftarrow> read_string;
     function \<leftarrow> read_string;
     self \<leftarrow> script_value_deserialize;
     arguments \<leftarrow> read_list_all max_native_arguments script_value_deserialize;
     State_Monad.return \<lparr>call_Class = class, call_Function = function,
       call_Self = (case self of None \<Rightarrow> SVNone | Some v \<Rightarrow> v),
       call_Arguments = (case arguments of None \<Rightarrow> [] | Some vs \<Rightarrow> vs)\<rparr>
   }"

definition script_call_valid :: "script_call \<Rightarrow> bool" where
  "script_call_valid x \<longleftrightarrow> length (call_Class x) < 65536 \<and> length (call_Function x) < 65536 \<and>
     script_value_valid (call_Self x) \<and> length (call_Arguments x) \<le> max_native_arguments \<and>
     (\<forall>v \<in> set (call_Arguments x). script_value_valid v)"

lemma codes_script_call [codec_intros]:
  "script_call_valid x \<Longrightarrow> codes (script_call_serialize x) script_call_deserialize x"
  unfolding script_call_serialize_def script_call_deserialize_def script_call_valid_def
  by (rule codec_intros | simp add: max_native_arguments_def)+

lemma safe_script_call [safe_intros]: "safe_reader script_call_deserialize"
  unfolding script_call_deserialize_def by (intro safe_intros)

interpretation script_call_wire: wire_codec script_call_serialize script_call_deserialize script_call_valid
  by unfold_locales (simp_all add: codes_script_call safe_script_call)

section \<open>A player's system quests\<close>

record sq_variable =
  sqv_Script :: string
  sqv_Name :: string
  sqv_Value :: script_value

record sq_timer =
  sqt_Native :: string
  sqt_Interval :: float32

record sq_quest =
  sqq_Id :: game_id
  sqq_Variables :: "sq_variable list"
  sqq_Timers :: "sq_timer list"

record sq_global =
  sqg_Id :: game_id
  sqg_Value :: float32

record system_quest_state =
  sqs_Quests :: "sq_quest list"
  sqs_Globals :: "sq_global list"

definition sqs_find :: "game_id \<Rightarrow> system_quest_state \<Rightarrow> sq_quest option" where
  "sqs_find i s = find (\<lambda>q. sqq_Id q = i) (sqs_Quests s)"

definition sqs_version :: u64 where "sqs_version = 1"
definition sqs_max_entries :: nat where "sqs_max_entries = 4096"

definition sq_variable_serialize :: "sq_variable \<Rightarrow> (writer, unit) state" where
  "sq_variable_serialize x = do {
     write_string (sqv_Script x);
     write_string (sqv_Name x);
     script_value_serialize (sqv_Value x);
     State_Monad.return ()
   }"

definition sq_timer_serialize :: "sq_timer \<Rightarrow> (writer, unit) state" where
  "sq_timer_serialize x = do {
     write_string (sqt_Native x);
     write_float (sqt_Interval x);
     State_Monad.return ()
   }"

definition sq_quest_serialize :: "sq_quest \<Rightarrow> (writer, unit) state" where
  "sq_quest_serialize x = do {
     game_id_serialize (sqq_Id x);
     write_list sq_variable_serialize (sqq_Variables x);
     write_list sq_timer_serialize (sqq_Timers x);
     State_Monad.return ()
   }"

definition sq_global_serialize :: "sq_global \<Rightarrow> (writer, unit) state" where
  "sq_global_serialize x = do {
     game_id_serialize (sqg_Id x);
     write_float (sqg_Value x);
     State_Monad.return ()
   }"

definition sqs_write :: "system_quest_state \<Rightarrow> (writer, unit) state" where
  "sqs_write x = do {
     write_varint sqs_version;
     write_list sq_quest_serialize (sqs_Quests x);
     write_list sq_global_serialize (sqs_Globals x);
     State_Monad.return ()
   }"

text \<open>The blob is the buffer's bytes as a string.\<close>

definition sqs_encode :: "system_quest_state \<Rightarrow> string" where
  "sqs_encode x = map byte_char (encode (sqs_write x))"

text \<open>A count past the limit refuses the blob (\<open>None\<close>), as an element that cannot be read does.\<close>

definition read_list_at_most :: "nat \<Rightarrow> (reader, 'a option) state \<Rightarrow> (reader, 'a list option) state" where
  "read_list_at_most cap d = do {
     n \<leftarrow> read_varint;
     (if unat n > cap then State_Monad.return None else read_all (unat n) d)
   }"

text \<open>A step that may refuse the blob, and the rest of the reading.\<close>

definition try_read :: "(reader, 'a option) state \<Rightarrow> ('a \<Rightarrow> (reader, 'b option) state) \<Rightarrow> (reader, 'b option) state" where
  "try_read d f = do { v \<leftarrow> d; (case v of None \<Rightarrow> State_Monad.return None | Some x \<Rightarrow> f x) }"

definition sq_variable_read :: "(reader, sq_variable option) state" where
  "sq_variable_read = do {
     script \<leftarrow> read_string;
     name \<leftarrow> read_string;
     try_read script_value_deserialize (\<lambda>v.
       State_Monad.return (Some \<lparr>sqv_Script = script, sqv_Name = name, sqv_Value = v\<rparr>))
   }"

definition sq_timer_read :: "(reader, sq_timer option) state" where
  "sq_timer_read = do {
     native \<leftarrow> read_string;
     interval \<leftarrow> read_float;
     State_Monad.return (Some \<lparr>sqt_Native = native, sqt_Interval = interval\<rparr>)
   }"

definition sq_quest_read :: "(reader, sq_quest option) state" where
  "sq_quest_read = do {
     i \<leftarrow> game_id_deserialize;
     try_read (read_list_at_most sqs_max_entries sq_variable_read) (\<lambda>vs.
       try_read (read_list_at_most sqs_max_entries sq_timer_read) (\<lambda>ts.
         State_Monad.return (Some \<lparr>sqq_Id = i, sqq_Variables = vs, sqq_Timers = ts\<rparr>)))
   }"

definition sq_global_read :: "(reader, sq_global option) state" where
  "sq_global_read = do {
     i \<leftarrow> game_id_deserialize;
     v \<leftarrow> read_float;
     State_Monad.return (Some \<lparr>sqg_Id = i, sqg_Value = v\<rparr>)
   }"

definition sqs_read :: "(reader, system_quest_state option) state" where
  "sqs_read = do {
     version \<leftarrow> read_varint;
     (if version \<noteq> sqs_version then State_Monad.return None
      else try_read (read_list_at_most sqs_max_entries sq_quest_read) (\<lambda>qs.
        try_read (read_list_at_most sqs_max_entries sq_global_read) (\<lambda>gs.
          State_Monad.return (Some \<lparr>sqs_Quests = qs, sqs_Globals = gs\<rparr>))))
   }"

definition sqs_decode :: "string \<Rightarrow> system_quest_state option" where
  "sqs_decode s = (if s = [] then None else decode sqs_read (map char_byte s))"

definition sqs_valid :: "system_quest_state \<Rightarrow> bool" where
  "sqs_valid s \<longleftrightarrow> length (sqs_Quests s) \<le> sqs_max_entries \<and> length (sqs_Globals s) \<le> sqs_max_entries \<and>
     (\<forall>q \<in> set (sqs_Quests s).
        length (sqq_Variables q) \<le> sqs_max_entries \<and> length (sqq_Timers q) \<le> sqs_max_entries \<and>
        (\<forall>v \<in> set (sqq_Variables q). length (sqv_Script v) < 65536 \<and> length (sqv_Name v) < 65536 \<and>
           script_value_valid (sqv_Value v)) \<and>
        (\<forall>t \<in> set (sqq_Timers q). length (sqt_Native t) < 65536))"

lemma codes_list_at_most [codec_intros]:
  assumes "length xs \<le> cap" and "cap < 2 ^ 64" and "\<And>x. x \<in> set xs \<Longrightarrow> codes (s x) d (Some x)"
  shows "codes (write_list s xs) (read_list_at_most cap d) (Some xs)"
proof -
  have n: "unat (of_nat (length xs) :: u64) = length xs"
    using unat_count [OF le_less_trans [OF assms(1,2)]] .
  have "codes (write_each s xs) (read_all (unat (of_nat (length xs) :: u64)) d) (Some xs)"
    by (rule codes_read_all [OF assms(3) n])
  then have "codes (write_each s xs)
      (if unat (of_nat (length xs) :: u64) > cap then State_Monad.return None
       else read_all (unat (of_nat (length xs) :: u64)) d) (Some xs)"
    using assms(1) by (simp only: n not_less [symmetric] if_False simp_thms)
  then show ?thesis
    unfolding write_list_def read_list_at_most_def by (rule codes_bind [OF codes_varint])
qed

lemma codes_try [codec_intros]:
  assumes "codes s1 d1 (Some a)" and "codes s2 (d2 a) x"
  shows "codes (State_Monad.bind s1 (\<lambda>_. s2)) (try_read d1 d2) x"
  unfolding try_read_def by (rule codes_bind [OF assms(1)]) (simp add: assms(2))

lemma safe_list_at_most [safe_intros]: "safe_reader d \<Longrightarrow> safe_reader (read_list_at_most cap d)"
  unfolding read_list_at_most_def by (intro safe_intros)

lemma safe_try [safe_intros]:
  "safe_reader d \<Longrightarrow> (\<And>a. safe_reader (f a)) \<Longrightarrow> safe_reader (try_read d f)"
  unfolding try_read_def by (intro safe_intros)

lemma codes_sq_variable:
  "length (sqv_Script v) < 65536 \<Longrightarrow> length (sqv_Name v) < 65536 \<Longrightarrow> script_value_valid (sqv_Value v) \<Longrightarrow>
   codes (sq_variable_serialize v) sq_variable_read (Some v)"
  unfolding sq_variable_serialize_def sq_variable_read_def
  by (rule codec_intros | simp)+

lemma codes_sq_timer:
  "length (sqt_Native t) < 65536 \<Longrightarrow> codes (sq_timer_serialize t) sq_timer_read (Some t)"
  unfolding sq_timer_serialize_def sq_timer_read_def
  by (rule codec_intros | simp)+

lemma codes_sq_quest:
  assumes "length (sqq_Variables q) \<le> sqs_max_entries" "length (sqq_Timers q) \<le> sqs_max_entries"
    and "\<forall>v \<in> set (sqq_Variables q). length (sqv_Script v) < 65536 \<and> length (sqv_Name v) < 65536 \<and>
      script_value_valid (sqv_Value v)"
    and "\<forall>t \<in> set (sqq_Timers q). length (sqt_Native t) < 65536"
  shows "codes (sq_quest_serialize q) sq_quest_read (Some q)"
  unfolding sq_quest_serialize_def sq_quest_read_def
  by (rule codec_intros codes_sq_variable codes_sq_timer | simp add: assms sqs_max_entries_def [symmetric]
      | simp add: sqs_max_entries_def)+

lemma codes_sq_global: "codes (sq_global_serialize g) sq_global_read (Some g)"
  unfolding sq_global_serialize_def sq_global_read_def
  by (rule codec_intros | simp)+

lemma codes_sqs: "sqs_valid s \<Longrightarrow> codes (sqs_write s) sqs_read (Some s)"
  unfolding sqs_write_def sqs_read_def sqs_valid_def
  apply (rule codes_bind [OF codes_varint])
  apply (rule codes_branch, simp)
  apply (rule codec_intros codes_sq_quest codes_sq_global | simp add: sqs_max_entries_def; fail)+
  done

lemma safe_sqs: "safe_reader sqs_read"
  unfolding sqs_read_def sq_quest_read_def sq_variable_read_def sq_timer_read_def sq_global_read_def
  by (intro safe_intros)

lemma sqs_nothing: "decode sqs_read [] = None"
  by (simp add: decode_def sqs_read_def read_varint_def try_read_varint_def sqs_version_def
      try_read_varint_from.simps [of 0 0] read_bits_def new_reader_def bytes_spanned_def Let_def)

text \<open>
  What a player's record keeps of its system quests is what was put there:
  within the format's limits, decoding an encoded state gives that state back.
\<close>

theorem system_quests_roundtrip:
  assumes "sqs_valid s"
  shows "sqs_decode (sqs_encode s) = Some s"
proof -
  have d: "decode sqs_read (encode (sqs_write s)) = Some s"
    using decode_encode_codes [OF codes_sqs [OF assms], of "[]"] by simp
  moreover have "encode (sqs_write s) \<noteq> []"
    using d sqs_nothing by auto
  ultimately show ?thesis
    by (simp add: sqs_decode_def sqs_encode_def comp_def)
qed

lemma system_quests_roundtrip_witness:
  defines "s \<equiv> \<lparr>sqs_Quests = [\<lparr>sqq_Id = \<lparr>gid_BaseId = 0x2E0, gid_ModId = 1\<rparr>,
       sqq_Variables = [\<lparr>sqv_Script = ''VampireQuest'', sqv_Name = ''stage'', sqv_Value = SVInt 3\<rparr>,
         \<lparr>sqv_Script = ''VampireQuest'', sqv_Name = ''who'',
           sqv_Value = SVForm \<lparr>sf_SessionId = 7, sf_Form = no_id\<rparr>\<rparr>],
       sqq_Timers = [\<lparr>sqt_Native = ''RegisterForUpdateGameTime'', sqt_Interval = 0x41C00000\<rparr>]\<rparr>],
     sqs_Globals = [\<lparr>sqg_Id = \<lparr>gid_BaseId = 0x37, gid_ModId = 0\<rparr>, sqg_Value = 0x3F800000\<rparr>]\<rparr>"
  shows "sqs_decode (sqs_encode s) = Some s"
  by (rule system_quests_roundtrip) (simp add: s_def sqs_valid_def sqs_max_entries_def)

end
