(* ===== verification/Recipes.thy ===== *)
theory Recipes
  imports Items "HOL-Library.Product_Lexorder" "HOL-Library.Multiset"
begin

text \<open>
  Player-made potions (\<open>Structs/Recipe\<close>): a recipe is the same potion whatever the order of its
  effects, and the id the session names it by is a hash of what makes it the same.
\<close>

record recipe =
  rc_IsPoison :: bool
  rc_Effects :: "effect_item list"

definition recipe_mod_id :: u32 where "recipe_mod_id = 0xFFFFFFFE"

definition recipe_is_id :: "game_id \<Rightarrow> bool" where
  "recipe_is_id i \<longleftrightarrow> gid_ModId i = recipe_mod_id"

text \<open>
  \<open>Key\<close>: the tuple effects are compared by, its last two parts as signed integers. The code sorts
  with \<open>std::ranges::sort\<close>, which may order effects of one key either way; what follows reads keys only.
\<close>

type_synonym effect_key = "u32 \<times> u32 \<times> u32 \<times> int \<times> int"

definition effect_key :: "effect_item \<Rightarrow> effect_key" where
  "effect_key e = (gid_ModId (ei_EffectId e), gid_BaseId (ei_EffectId e), ei_Magnitude e,
     sint (ei_Area e), sint (ei_Duration e))"

definition sorted_effects :: "effect_item list \<Rightarrow> effect_item list" where
  "sorted_effects es = sort_key effect_key es"

definition recipe_eq :: "recipe \<Rightarrow> recipe \<Rightarrow> bool" where
  "recipe_eq a b \<longleftrightarrow>
     (if rc_IsPoison a \<noteq> rc_IsPoison b \<or> length (rc_Effects a) \<noteq> length (rc_Effects b) then False
      else list_all2 (\<lambda>x y. effect_key x = effect_key y)
        (sorted_effects (rc_Effects a)) (sorted_effects (rc_Effects b)))"

text \<open>FNV-1a, a value's four bytes at a time, lowest first.\<close>

definition fnv_byte :: "u32 \<Rightarrow> nat \<Rightarrow> u32 \<Rightarrow> u32" where
  "fnv_byte value i hash = (hash XOR (drop_bit (i * 8) value AND 0xFF)) * 16777619"

definition fnv_mix :: "u32 \<Rightarrow> u32 \<Rightarrow> u32" where
  "fnv_mix value hash = fold (fnv_byte value) [0, 1, 2, 3] hash"

definition key_values :: "effect_key \<Rightarrow> u32 list" where
  "key_values k = (case k of (md, base, magnitude, area, duration) \<Rightarrow>
     [md, base, magnitude, word_of_int area, word_of_int duration])"

definition recipe_id :: "recipe \<Rightarrow> game_id" where
  "recipe_id r =
     (let hash = fnv_mix (if rc_IsPoison r then 1 else 0) 2166136261
      in game_id_make recipe_mod_id
        (fold (\<lambda>e. fold fnv_mix (key_values (effect_key e))) (sorted_effects (rc_Effects r)) hash))"

definition recipe_serialize :: "recipe \<Rightarrow> (writer, unit) state" where
  "recipe_serialize x = do {
     write_bits (if rc_IsPoison x then 1 else 0) 1;
     write_list effect_item_serialize (rc_Effects x);
     State_Monad.return ()
   }"

definition recipe_deserialize :: "(reader, recipe) state" where
  "recipe_deserialize = do {
     poison \<leftarrow> read_uint 1;
     effects \<leftarrow> read_list_masked 8 effect_item_deserialize;
     State_Monad.return \<lparr>rc_IsPoison = (poison \<noteq> 0), rc_Effects = effects\<rparr>
   }"

definition recipe_valid :: "recipe \<Rightarrow> bool" where
  "recipe_valid x \<longleftrightarrow> length (rc_Effects x) < 256"

lemma codes_recipe [codec_intros]: "recipe_valid x \<Longrightarrow> codes (recipe_serialize x) recipe_deserialize x"
  unfolding recipe_serialize_def recipe_deserialize_def recipe_valid_def
  by (rule codec_intros | simp add: take_bit_eq_mod)+

lemma safe_recipe [safe_intros]: "safe_reader recipe_deserialize"
  unfolding recipe_deserialize_def by (intro safe_intros)

interpretation recipe_wire: wire_codec recipe_serialize recipe_deserialize recipe_valid
  by unfold_locales (simp_all add: codes_recipe safe_recipe)

section \<open>The same potion\<close>

lemma map_sort_key: "map f (sort_key f xs) = sort (map f xs)"
  by (rule sym, rule properties_for_sort) simp_all

lemma sort_eq_iff: "sort xs = sort ys \<longleftrightarrow> mset xs = mset (ys :: 'a::linorder list)"
proof
  assume "sort xs = sort ys"
  then have "mset (sort xs) = mset (sort ys)" by (rule arg_cong)
  then show "mset xs = mset ys" by simp
next
  assume "mset xs = mset ys"
  then show "sort xs = sort ys"
    by (intro properties_for_sort) simp_all
qed

lemma same_keys: "list_all2 (\<lambda>x y. f x = f y) xs ys \<longleftrightarrow> map f xs = map f ys"
proof (induction xs arbitrary: ys)
  case (Cons x xs)
  then show ?case by (cases ys) simp_all
qed simp

lemma recipe_eq_iff:
  "recipe_eq a b \<longleftrightarrow> rc_IsPoison a = rc_IsPoison b \<and>
     mset (map effect_key (rc_Effects a)) = mset (map effect_key (rc_Effects b))"
proof -
  have "length (rc_Effects a) = length (rc_Effects b)"
    if "mset (map effect_key (rc_Effects a)) = mset (map effect_key (rc_Effects b))"
    using arg_cong [OF that, of size] by (simp only: size_mset length_map)
  then show ?thesis
    unfolding recipe_eq_def sorted_effects_def same_keys map_sort_key sort_eq_iff by metis
qed

lemma recipe_eq_keys:
  "recipe_eq a b \<Longrightarrow> map effect_key (sorted_effects (rc_Effects a)) = map effect_key (sorted_effects (rc_Effects b))"
  unfolding recipe_eq_iff sorted_effects_def map_sort_key sort_eq_iff by blast

lemma fold_map_key: "fold (\<lambda>e. g (effect_key e)) xs = fold g (map effect_key xs)"
  by (induction xs) simp_all

text \<open>
  C35: recipe equality is an equivalence that no order of the effects and no effect's
  cost changes, and equal recipes have the same id, which is one no plugin's form has.
\<close>

theorem recipe_identity:
  "recipe_eq a a \<and> (recipe_eq a b \<longrightarrow> recipe_eq b a) \<and> (recipe_eq a b \<longrightarrow> recipe_eq b c \<longrightarrow> recipe_eq a c) \<and>
   (rc_IsPoison a = rc_IsPoison b \<longrightarrow> mset (map effect_key (rc_Effects a)) = mset (map effect_key (rc_Effects b)) \<longrightarrow>
      recipe_eq a b) \<and>
   (recipe_eq a b \<longrightarrow> recipe_id a = recipe_id b) \<and> recipe_is_id (recipe_id a)"
proof -
  have "recipe_id a = recipe_id b" if "recipe_eq a b"
    using recipe_eq_keys [OF that] that [unfolded recipe_eq_iff]
    by (simp only: recipe_id_def Let_def fold_map_key [where g = "\<lambda>k. fold fnv_mix (key_values k)"])
  moreover have "recipe_is_id (recipe_id a)"
    by (simp add: recipe_is_id_def recipe_id_def game_id_make_def Let_def)
  ultimately show ?thesis
    unfolding recipe_eq_iff by metis
qed

text \<open>Two effects of a poison in either order, and brewed at another cost.\<close>

lemma recipe_identity_witness:
  defines "e1 \<equiv> \<lparr>ei_Magnitude = 0x40A00000, ei_Area = 0, ei_Duration = 10, ei_RawCost = 0,
      ei_EffectId = \<lparr>gid_BaseId = 0x3EB42, gid_ModId = 0\<rparr>\<rparr>"
    and "e2 \<equiv> \<lparr>ei_Magnitude = 0x41200000, ei_Area = 0, ei_Duration = 0, ei_RawCost = 0,
      ei_EffectId = \<lparr>gid_BaseId = 0x3A2B6, gid_ModId = 0\<rparr>\<rparr>"
  shows "recipe_id \<lparr>rc_IsPoison = True, rc_Effects = [e1, e2]\<rparr> =
     recipe_id \<lparr>rc_IsPoison = True, rc_Effects = [e2, e1\<lparr>ei_RawCost := 0x3F800000\<rparr>]\<rparr>"
  using recipe_identity [of "\<lparr>rc_IsPoison = True, rc_Effects = [e1, e2]\<rparr>"
      "\<lparr>rc_IsPoison = True, rc_Effects = [e2, e1\<lparr>ei_RawCost := 0x3F800000\<rparr>]\<rparr>"]
  by (simp add: effect_key_def)

end
