(* ===== verification/Character_Record.thy ===== *)
theory Character_Record
  imports Script Recipes
begin

text \<open>
  What is kept of a character: its actor values, perks and spells, and the record the host's save keeps
  of a player (\<open>Structs/ActorValues\<close>, \<open>ActorData\<close>, \<open>Perks\<close>, \<open>PlayerKnowledge\<close>, \<open>PlayerRecord\<close>).
\<close>

section \<open>Actor values\<close>

type_synonym value_map = "(u32 \<times> float32) list"

definition value_serialize :: "u32 \<times> float32 \<Rightarrow> (writer, unit) state" where
  "value_serialize x = do {
     write_u32 (fst x);
     write_float (snd x);
     State_Monad.return ()
   }"

definition value_deserialize :: "(reader, u32 \<times> float32) state" where
  "value_deserialize = do {
     key \<leftarrow> read_u32;
     value \<leftarrow> read_float;
     State_Monad.return (key, value)
   }"

lemma codes_value [codec_intros]: "codes (value_serialize x) value_deserialize x"
  unfolding value_serialize_def value_deserialize_def
  by (rule codec_intros | simp)+

lemma safe_value [safe_intros]: "safe_reader value_deserialize"
  unfolding value_deserialize_def by (intro safe_intros)

text \<open>\<open>insert\<close> keeps a key's value that is there, \<open>operator[]\<close> replaces it.\<close>

definition read_values_kept :: "value_map \<Rightarrow> (reader, value_map) state" where
  "read_values_kept old = do {
     xs \<leftarrow> read_list value_deserialize;
     State_Monad.return (fold (\<lambda>(k, v). map_insert k v) xs old)
   }"

definition read_values_replaced :: "value_map \<Rightarrow> (reader, value_map) state" where
  "read_values_replaced old = do {
     xs \<leftarrow> read_list value_deserialize;
     State_Monad.return (fold (\<lambda>(k, v). map_put k v) xs old)
   }"

lemma ordered_values_length: "ordered (m :: value_map) \<Longrightarrow> length m < 2 ^ 64"
  using ordered_words_length [of m] by simp

lemma codes_values [codec_intros]:
  "ordered m \<Longrightarrow> codes (write_list value_serialize m) (read_values_kept []) m"
  "ordered m \<Longrightarrow> codes (write_list value_serialize m) (read_values_replaced []) m"
  unfolding read_values_kept_def read_values_replaced_def
  by (rule codes_last [OF codes_list [OF ordered_values_length codes_value]];
      simp add: fold_insert_ordered fold_put_ordered)+

lemma safe_values [safe_intros]:
  "safe_reader (read_values_kept old)" "safe_reader (read_values_replaced old)"
  unfolding read_values_kept_def read_values_replaced_def by (intro safe_intros)+

record actor_values =
  av_ActorValuesList :: value_map
  av_ActorMaxValuesList :: value_map
  av_ActorTemporaryValuesList :: value_map

definition no_actor_values :: actor_values where
  "no_actor_values = \<lparr>av_ActorValuesList = [], av_ActorMaxValuesList = [], av_ActorTemporaryValuesList = []\<rparr>"

definition actor_values_serialize :: "actor_values \<Rightarrow> (writer, unit) state" where
  "actor_values_serialize x = do {
     write_list value_serialize (av_ActorValuesList x);
     write_list value_serialize (av_ActorMaxValuesList x);
     write_list value_serialize (av_ActorTemporaryValuesList x);
     State_Monad.return ()
   }"

definition actor_values_deserialize :: "actor_values \<Rightarrow> (reader, actor_values) state" where
  "actor_values_deserialize old = do {
     values \<leftarrow> read_values_kept (av_ActorValuesList old);
     maxima \<leftarrow> read_values_kept (av_ActorMaxValuesList old);
     temporary \<leftarrow> read_values_replaced (av_ActorTemporaryValuesList old);
     State_Monad.return \<lparr>av_ActorValuesList = values, av_ActorMaxValuesList = maxima,
       av_ActorTemporaryValuesList = temporary\<rparr>
   }"

definition actor_values_valid :: "actor_values \<Rightarrow> bool" where
  "actor_values_valid x \<longleftrightarrow> ordered (av_ActorValuesList x) \<and> ordered (av_ActorMaxValuesList x) \<and>
     ordered (av_ActorTemporaryValuesList x)"

lemma codes_actor_values [codec_intros]:
  "actor_values_valid x \<Longrightarrow> codes (actor_values_serialize x) (actor_values_deserialize no_actor_values) x"
  unfolding actor_values_serialize_def actor_values_deserialize_def actor_values_valid_def
    no_actor_values_def actor_values.simps
  by (rule codec_intros | simp)+

lemma safe_actor_values [safe_intros]: "safe_reader (actor_values_deserialize old)"
  unfolding actor_values_deserialize_def by (intro safe_intros)

interpretation actor_values_wire: wire_codec actor_values_serialize
    "actor_values_deserialize no_actor_values" actor_values_valid
  by unfold_locales (simp_all add: codes_actor_values safe_actor_values)

record actor_data =
  ad_InitialActorValues :: "actor_values"
  ad_InitialInventory :: "inventory"
  ad_IsDead :: "bool"
  ad_IsWeaponDrawn :: "bool"

definition actor_data_serialize :: "actor_data \<Rightarrow> (writer, unit) state" where
  "actor_data_serialize x = do {
     actor_values_serialize (ad_InitialActorValues x);
     inventory_serialize (ad_InitialInventory x);
     write_bool (ad_IsDead x);
     write_bool (ad_IsWeaponDrawn x);
     State_Monad.return ()
   }"

definition actor_data_deserialize :: "(reader, actor_data) state" where
  "actor_data_deserialize = do {
     vInitialActorValues \<leftarrow> actor_values_deserialize no_actor_values;
     vInitialInventory \<leftarrow> inventory_deserialize no_inventory;
     vIsDead \<leftarrow> read_bool;
     vIsWeaponDrawn \<leftarrow> read_bool;
     State_Monad.return \<lparr>ad_InitialActorValues = vInitialActorValues,
       ad_InitialInventory = vInitialInventory, ad_IsDead = vIsDead,
       ad_IsWeaponDrawn = vIsWeaponDrawn\<rparr>
   }"

definition actor_data_valid :: "actor_data \<Rightarrow> bool" where
  "actor_data_valid x \<longleftrightarrow> actor_values_valid (ad_InitialActorValues x) \<and>
     inventory_valid (ad_InitialInventory x)"

lemma codes_actor_data [codec_intros]:
  "actor_data_valid x \<Longrightarrow> codes (actor_data_serialize x) actor_data_deserialize x"
  unfolding actor_data_serialize_def actor_data_deserialize_def actor_data_valid_def
  by (rule codec_intros | simp)+

lemma safe_actor_data [safe_intros]: "safe_reader actor_data_deserialize"
  unfolding actor_data_deserialize_def by (intro safe_intros)

interpretation actor_data_wire: wire_codec actor_data_serialize actor_data_deserialize "actor_data_valid"
  by unfold_locales (simp_all add: codes_actor_data safe_actor_data)


section \<open>Perks and spells\<close>

record perk =
  perk_Id :: "game_id"
  perk_Rank :: "u8"

definition perk_serialize :: "perk \<Rightarrow> (writer, unit) state" where
  "perk_serialize x = do {
     game_id_serialize (perk_Id x);
     write_u8 (perk_Rank x);
     State_Monad.return ()
   }"

definition perk_deserialize :: "(reader, perk) state" where
  "perk_deserialize = do {
     vId \<leftarrow> game_id_deserialize;
     vRank \<leftarrow> read_u8;
     State_Monad.return \<lparr>perk_Id = vId, perk_Rank = vRank\<rparr>
   }"

lemma codes_perk [codec_intros]:
  "codes (perk_serialize x) perk_deserialize x"
  unfolding perk_serialize_def perk_deserialize_def
  by (rule codec_intros | simp)+

lemma safe_perk [safe_intros]: "safe_reader perk_deserialize"
  unfolding perk_deserialize_def by (intro safe_intros)

interpretation perk_wire: wire_codec perk_serialize perk_deserialize "\<lambda>_. True"
  by unfold_locales (simp_all add: codes_perk safe_perk)


lemma writes_some_perk: "writes_some (perk_serialize x)"
  unfolding perk_serialize_def
  by (rule writes_some_bind [OF writes_some_game_id codes_game_id]) (rule codec_intros refl)+

record perks =
  perks_Ranks :: "perk list"
  perks_Spells :: "game_id list"

definition perks_serialize :: "perks \<Rightarrow> (writer, unit) state" where
  "perks_serialize x = do {
     write_list perk_serialize (perks_Ranks x);
     write_list game_id_serialize (perks_Spells x);
     State_Monad.return ()
   }"

definition perks_deserialize :: "(reader, perks) state" where
  "perks_deserialize = do {
     ranks \<leftarrow> read_list_until_eof 4096 perk_deserialize;
     spells \<leftarrow> read_list_until_eof 4096 game_id_deserialize;
     State_Monad.return \<lparr>perks_Ranks = ranks, perks_Spells = spells\<rparr>
   }"

definition perks_valid :: "perks \<Rightarrow> bool" where
  "perks_valid x \<longleftrightarrow> length (perks_Ranks x) \<le> 4096 \<and> length (perks_Spells x) \<le> 4096"

lemma codes_perks [codec_intros]: "perks_valid x \<Longrightarrow> codes (perks_serialize x) perks_deserialize x"
  unfolding perks_serialize_def perks_deserialize_def perks_valid_def
  by (rule codec_intros writes_some_perk writes_some_game_id | simp)+

lemma safe_perks [safe_intros]: "safe_reader perks_deserialize"
  unfolding perks_deserialize_def by (intro safe_intros)

interpretation perks_wire: wire_codec perks_serialize perks_deserialize perks_valid
  by unfold_locales (simp_all add: codes_perks safe_perks)

section \<open>The record of a player\<close>

record skill =
  skill_Level :: "float32"
  skill_Experience :: "float32"
  skill_Threshold :: "float32"
  skill_Legendary :: "u32"

definition skill_serialize :: "skill \<Rightarrow> (writer, unit) state" where
  "skill_serialize x = do {
     write_float (skill_Level x);
     write_float (skill_Experience x);
     write_float (skill_Threshold x);
     write_u32 (skill_Legendary x);
     State_Monad.return ()
   }"

definition skill_deserialize :: "(reader, skill) state" where
  "skill_deserialize = do {
     vLevel \<leftarrow> read_float;
     vExperience \<leftarrow> read_float;
     vThreshold \<leftarrow> read_float;
     vLegendary \<leftarrow> read_u32;
     State_Monad.return \<lparr>skill_Level = vLevel, skill_Experience = vExperience, skill_Threshold = vThreshold,
       skill_Legendary = vLegendary\<rparr>
   }"

lemma codes_skill [codec_intros]:
  "codes (skill_serialize x) skill_deserialize x"
  unfolding skill_serialize_def skill_deserialize_def
  by (rule codec_intros | simp)+

lemma safe_skill [safe_intros]: "safe_reader skill_deserialize"
  unfolding skill_deserialize_def by (intro safe_intros)

interpretation skill_wire: wire_codec skill_serialize skill_deserialize "\<lambda>_. True"
  by unfold_locales (simp_all add: codes_skill safe_skill)


record base_value =
  value_Index :: "u8"
  value_Base :: "float32"

definition base_value_serialize :: "base_value \<Rightarrow> (writer, unit) state" where
  "base_value_serialize x = do {
     write_u8 (value_Index x);
     write_float (value_Base x);
     State_Monad.return ()
   }"

definition base_value_deserialize :: "(reader, base_value) state" where
  "base_value_deserialize = do {
     vIndex \<leftarrow> read_u8;
     vBase \<leftarrow> read_float;
     State_Monad.return \<lparr>value_Index = vIndex, value_Base = vBase\<rparr>
   }"

lemma codes_base_value [codec_intros]:
  "codes (base_value_serialize x) base_value_deserialize x"
  unfolding base_value_serialize_def base_value_deserialize_def
  by (rule codec_intros | simp)+

lemma safe_base_value [safe_intros]: "safe_reader base_value_deserialize"
  unfolding base_value_deserialize_def by (intro safe_intros)

interpretation base_value_wire: wire_codec base_value_serialize base_value_deserialize "\<lambda>_. True"
  by unfold_locales (simp_all add: codes_base_value safe_base_value)


text \<open>The four effects of an ingredient, a bit each: only four bits are read.\<close>

definition read_nibble :: "(reader, u16) state" where
  "read_nibble = do { v \<leftarrow> read_varint; State_Monad.return (ucast (v AND 0xF)) }"

lemma codes_nibble [codec_intros]:
  assumes "unat v < 16"
  shows "codes (write_u16 v) read_nibble v"
proof -
  have "bit v n \<Longrightarrow> n < 4" for n
  proof -
    have "take_bit 4 (unat v) = unat v"
      using assms by (simp add: take_bit_nat_eq_self)
    then have "bit (unat v) n \<Longrightarrow> n < 4"
      by (metis bit_take_bit_iff)
    then show "bit v n \<Longrightarrow> n < 4"
      by (simp add: bit_unsigned_iff bit_imp_le_length)
  qed
  then have "(ucast ((ucast v :: u64) AND mask 4) :: u16) = v"
    by (intro bit_word_eqI) (auto simp: bit_ucast_iff bit_and_iff bit_mask_iff)
  moreover have "(0xF :: u64) = mask 4"
    by (simp add: mask_eq_exp_minus_1)
  ultimately have "(ucast ((ucast v :: u64) AND 0xF) :: u16) = v"
    by simp
  then show ?thesis
    unfolding write_u16_def read_nibble_def
    by (intro codes_last [OF codes_varint]) simp
qed

lemma safe_nibble [safe_intros]: "safe_reader read_nibble"
  unfolding read_nibble_def by (intro safe_intros)

record ingredient =
  ing_Id :: "game_id"
  ing_Effects :: "u16"
  ing_Uses :: "u16"

definition ingredient_serialize :: "ingredient \<Rightarrow> (writer, unit) state" where
  "ingredient_serialize x = do {
     game_id_serialize (ing_Id x);
     write_u16 (ing_Effects x);
     write_u16 (ing_Uses x);
     State_Monad.return ()
   }"

definition ingredient_deserialize :: "(reader, ingredient) state" where
  "ingredient_deserialize = do {
     vId \<leftarrow> game_id_deserialize;
     vEffects \<leftarrow> read_nibble;
     vUses \<leftarrow> read_u16;
     State_Monad.return \<lparr>ing_Id = vId, ing_Effects = vEffects, ing_Uses = vUses\<rparr>
   }"

definition ingredient_valid :: "ingredient \<Rightarrow> bool" where
  "ingredient_valid x \<longleftrightarrow> unat (ing_Effects x) < 16"

lemma codes_ingredient [codec_intros]:
  "ingredient_valid x \<Longrightarrow> codes (ingredient_serialize x) ingredient_deserialize x"
  unfolding ingredient_serialize_def ingredient_deserialize_def ingredient_valid_def
  by (rule codec_intros | simp)+

lemma safe_ingredient [safe_intros]: "safe_reader ingredient_deserialize"
  unfolding ingredient_deserialize_def by (intro safe_intros)

interpretation ingredient_wire: wire_codec ingredient_serialize ingredient_deserialize "ingredient_valid"
  by unfold_locales (simp_all add: codes_ingredient safe_ingredient)


record knowledge =
  kn_Present :: bool
  kn_Ingredients :: "ingredient list"
  kn_Enchantments :: "game_id list"

definition no_knowledge :: knowledge where
  "no_knowledge = \<lparr>kn_Present = False, kn_Ingredients = [], kn_Enchantments = []\<rparr>"

definition write_blob :: "string \<Rightarrow> (writer, unit) state" where
  "write_blob s = do {
     write_varint (of_nat (length s));
     write_bytes (map char_byte s);
     State_Monad.return ()
   }"

definition read_blob :: "(reader, string) state" where
  "read_blob = do {
     n \<leftarrow> read_varint;
     (_, bytes) \<leftarrow> read_bytes (replicate (unat (n AND mask 24)) 0);
     State_Monad.return (map byte_char bytes)
   }"

lemma codes_blob [codec_intros]:
  assumes "length s < 2 ^ 24"
  shows "codes (write_blob s) read_blob s"
  unfolding write_blob_def read_blob_def
  by (rule codes_bind [OF codes_varint], rule codes_bind [OF codes_bytes],
      simp only: unat_count_mask [OF assms] length_replicate length_map, simp, rule codes_return, simp)

lemma safe_blob [safe_intros]: "safe_reader read_blob"
  unfolding read_blob_def by (intro safe_intros)

definition extra_serialize :: "string \<times> string \<Rightarrow> (writer, unit) state" where
  "extra_serialize x = do {
     write_string (fst x);
     write_blob (snd x);
     State_Monad.return ()
   }"

definition extra_deserialize :: "(reader, string \<times> string) state" where
  "extra_deserialize = do {
     name \<leftarrow> read_string;
     data \<leftarrow> read_blob;
     State_Monad.return (name, data)
   }"

lemma codes_extra:
  "length (fst x) < 65536 \<Longrightarrow> length (snd x) < 2 ^ 24 \<Longrightarrow> codes (extra_serialize x) extra_deserialize x"
  unfolding extra_serialize_def extra_deserialize_def
  by (rule codec_intros | simp)+

lemma safe_extra [safe_intros]: "safe_reader extra_deserialize"
  unfolding extra_deserialize_def by (intro safe_intros)

definition read_extras :: "(reader, (string \<times> string) list) state" where
  "read_extras = do {
     xs \<leftarrow> read_list_masked 8 extra_deserialize;
     State_Monad.return (fold (\<lambda>(k, v). map_put k v) xs [])
   }"

definition extras_valid :: "(string \<times> string) list \<Rightarrow> bool" where
  "extras_valid m \<longleftrightarrow> ordered m \<and> length m < 256 \<and>
     (\<forall>x \<in> set m. length (fst x) < 65536 \<and> length (snd x) < 2 ^ 24)"

lemma codes_extras [codec_intros]:
  "extras_valid m \<Longrightarrow> codes (write_list extra_serialize m) read_extras m"
  unfolding read_extras_def extras_valid_def
  by (rule codes_last, rule codes_list_masked; (rule codes_extra | simp add: fold_put_ordered)+)

lemma safe_extras [safe_intros]: "safe_reader read_extras"
  unfolding read_extras_def by (intro safe_intros)

record player_record =
  pr_Key :: string
  pr_Name :: string
  pr_Level :: u16
  pr_Base :: string
  pr_BaseFlags :: u32
  pr_FaceTints :: "tint list"
  pr_Weight :: float32
  pr_LevelExperience :: float32
  pr_LevelThreshold :: float32
  pr_Skills :: "skill list"
  pr_PerkPoints :: u8
  pr_Perks :: "perk list"
  pr_Spells :: "game_id list"
  pr_Values :: "base_value list"
  pr_Items :: inventory
  pr_Extras :: "(string \<times> string) list"
  pr_Cell :: game_id
  pr_WorldSpace :: game_id
  pr_Position :: "float32 list"
  pr_Words :: "game_id list"
  pr_PermanentValues :: "base_value list"
  pr_Knowledge :: knowledge
  pr_Recipes :: "recipe list"

definition skill_count :: nat where "skill_count = 18"

definition has_place :: "player_record \<Rightarrow> bool" where
  "has_place r \<longleftrightarrow> game_id_set (pr_Cell r) \<or> game_id_set (pr_WorldSpace r)"

text \<open>
  The record's serialization in two parts: what every build writes, and the parts later builds added,
  each read only while bytes are left.
\<close>

definition record_head_serialize :: "player_record \<Rightarrow> (writer, unit) state" where
  "record_head_serialize x = do {
     write_string (pr_Key x);
     write_string (pr_Name x);
     write_u16 (pr_Level x);
     write_string (pr_Base x);
     write_u32 (pr_BaseFlags x);
     tints_serialize (pr_FaceTints x);
     write_float (pr_Weight x);
     write_float (pr_LevelExperience x);
     write_float (pr_LevelThreshold x);
     write_each skill_serialize (pr_Skills x);
     write_u8 (pr_PerkPoints x);
     write_list perk_serialize (pr_Perks x);
     write_list game_id_serialize (pr_Spells x);
     write_list base_value_serialize (pr_Values x);
     inventory_serialize (pr_Items x);
     write_list extra_serialize (pr_Extras x);
     game_id_serialize (pr_Cell x);
     game_id_serialize (pr_WorldSpace x);
     write_each write_float (pr_Position x);
     State_Monad.return ()
   }"

definition knowledge_serialize :: "knowledge \<Rightarrow> (writer, unit) state" where
  "knowledge_serialize x = do {
     write_varint (if kn_Present x then 1 else 0);
     (if kn_Present x then do {
        write_list ingredient_serialize (kn_Ingredients x);
        write_list game_id_serialize (kn_Enchantments x);
        State_Monad.return ()
      } else State_Monad.return ())
   }"

definition record_tail_serialize :: "player_record \<Rightarrow> (writer, unit) state" where
  "record_tail_serialize x = do {
     write_list game_id_serialize (pr_Words x);
     write_list base_value_serialize (pr_PermanentValues x);
     knowledge_serialize (pr_Knowledge x);
     write_list recipe_serialize (pr_Recipes x);
     State_Monad.return ()
   }"

definition player_record_serialize :: "player_record \<Rightarrow> (writer, unit) state" where
  "player_record_serialize x = do {
     record_head_serialize x;
     record_tail_serialize x;
     State_Monad.return ()
   }"

text \<open>Reading a part only while bytes are left (\<open>if (!aReader.Eof())\<close>), else its default.\<close>

definition unless_eof :: "'a \<Rightarrow> (reader, 'a) state \<Rightarrow> (reader, 'a) state" where
  "unless_eof def d = do { r \<leftarrow> State_Monad.get; (if reader_eof r then State_Monad.return def else d) }"

definition record_head_deserialize :: "(reader, player_record) state" where
  "record_head_deserialize = do {
     key \<leftarrow> read_string;
     name \<leftarrow> read_string;
     level \<leftarrow> read_u16;
     base \<leftarrow> read_string;
     base_flags \<leftarrow> read_u32;
     tints \<leftarrow> tints_deserialize [];
     weight \<leftarrow> read_float;
     experience \<leftarrow> read_float;
     threshold \<leftarrow> read_float;
     skills \<leftarrow> read_times skill_count skill_deserialize;
     points \<leftarrow> read_u8;
     perks \<leftarrow> read_list_masked 16 perk_deserialize;
     spells \<leftarrow> read_list_masked 16 game_id_deserialize;
     values \<leftarrow> read_list_masked 8 base_value_deserialize;
     items \<leftarrow> inventory_deserialize no_inventory;
     extras \<leftarrow> read_extras;
     cell \<leftarrow> game_id_deserialize;
     world \<leftarrow> game_id_deserialize;
     position \<leftarrow> read_times 3 read_float;
     State_Monad.return \<lparr>pr_Key = key, pr_Name = name, pr_Level = level, pr_Base = base,
       pr_BaseFlags = base_flags, pr_FaceTints = tints, pr_Weight = weight,
       pr_LevelExperience = experience, pr_LevelThreshold = threshold, pr_Skills = skills,
       pr_PerkPoints = points, pr_Perks = perks, pr_Spells = spells, pr_Values = values,
       pr_Items = items, pr_Extras = extras, pr_Cell = cell, pr_WorldSpace = world,
       pr_Position = position, pr_Words = [], pr_PermanentValues = [],
       pr_Knowledge = no_knowledge, pr_Recipes = []\<rparr>
   }"

definition knowledge_deserialize :: "(reader, knowledge) state" where
  "knowledge_deserialize = do {
     present \<leftarrow> read_varint;
     (if present = 1 then do {
        ingredients \<leftarrow> read_list_masked 16 ingredient_deserialize;
        enchantments \<leftarrow> read_list_masked 16 game_id_deserialize;
        State_Monad.return \<lparr>kn_Present = True, kn_Ingredients = ingredients, kn_Enchantments = enchantments\<rparr>
      } else State_Monad.return no_knowledge)
   }"

definition record_tail_deserialize :: "player_record \<Rightarrow> (reader, player_record) state" where
  "record_tail_deserialize x = do {
     words \<leftarrow> unless_eof [] (read_list_masked 16 game_id_deserialize);
     permanent \<leftarrow> unless_eof [] (read_list_masked 8 base_value_deserialize);
     knowledge \<leftarrow> unless_eof no_knowledge knowledge_deserialize;
     recipes \<leftarrow> unless_eof [] (read_list_masked 16 recipe_deserialize);
     State_Monad.return (x\<lparr>pr_Words := words, pr_PermanentValues := permanent,
       pr_Knowledge := knowledge, pr_Recipes := recipes\<rparr>)
   }"

definition player_record_deserialize :: "(reader, player_record) state" where
  "player_record_deserialize = do {
     x \<leftarrow> record_head_deserialize;
     y \<leftarrow> record_tail_deserialize x;
     State_Monad.return y
   }"

definition knowledge_valid :: "knowledge \<Rightarrow> bool" where
  "knowledge_valid x \<longleftrightarrow> (if kn_Present x
     then length (kn_Ingredients x) < 65536 \<and> (\<forall>i \<in> set (kn_Ingredients x). ingredient_valid i) \<and>
       length (kn_Enchantments x) < 65536
     else x = no_knowledge)"

definition record_head_valid :: "player_record \<Rightarrow> bool" where
  "record_head_valid x \<longleftrightarrow> length (pr_Key x) < 65536 \<and> length (pr_Name x) < 65536 \<and>
     length (pr_Base x) < 65536 \<and> tints_valid (pr_FaceTints x) \<and> length (pr_Skills x) = skill_count \<and>
     length (pr_Perks x) < 65536 \<and> length (pr_Spells x) < 65536 \<and> length (pr_Values x) < 256 \<and>
     inventory_valid (pr_Items x) \<and> extras_valid (pr_Extras x) \<and> length (pr_Position x) = 3"

definition record_tail_valid :: "player_record \<Rightarrow> bool" where
  "record_tail_valid x \<longleftrightarrow> length (pr_Words x) < 65536 \<and> length (pr_PermanentValues x) < 256 \<and>
     knowledge_valid (pr_Knowledge x) \<and> length (pr_Recipes x) < 65536 \<and>
     (\<forall>r \<in> set (pr_Recipes x). recipe_valid r)"

definition player_record_valid :: "player_record \<Rightarrow> bool" where
  "player_record_valid x \<longleftrightarrow> record_head_valid x \<and> record_tail_valid x"

text \<open>The record without what later builds added.\<close>

definition record_head :: "player_record \<Rightarrow> player_record" where
  "record_head x = x\<lparr>pr_Words := [], pr_PermanentValues := [], pr_Knowledge := no_knowledge, pr_Recipes := []\<rparr>"

lemma codes_record_head:
  "record_head_valid x \<Longrightarrow> codes (record_head_serialize x) record_head_deserialize (record_head x)"
  unfolding record_head_serialize_def record_head_deserialize_def record_head_valid_def
  by (rule codec_intros | simp add: record_head_def skill_count_def)+

text \<open>What follows the flag.\<close>

lemma codes_knowledge_rest:
  assumes "knowledge_valid x"
  shows "codes
     (if kn_Present x then do {
        write_list ingredient_serialize (kn_Ingredients x);
        write_list game_id_serialize (kn_Enchantments x);
        State_Monad.return ()
      } else State_Monad.return ())
     (if kn_Present x then do {
        ingredients \<leftarrow> read_list_masked 16 ingredient_deserialize;
        enchantments \<leftarrow> read_list_masked 16 game_id_deserialize;
        State_Monad.return \<lparr>kn_Present = True, kn_Ingredients = ingredients, kn_Enchantments = enchantments\<rparr>
      } else State_Monad.return no_knowledge) x"
  using assms unfolding knowledge_valid_def
  by (rule_tac codes_if) ((rule codec_intros | simp)+)

lemma codes_knowledge:
  assumes "knowledge_valid x"
  shows "codes (knowledge_serialize x) knowledge_deserialize x"
  unfolding knowledge_serialize_def knowledge_deserialize_def
  by (rule codes_bind [OF codes_varint])
    (use codes_knowledge_rest [OF assms] in \<open>cases "kn_Present x"; simp\<close>)

lemma writes_some_knowledge: "knowledge_valid x \<Longrightarrow> writes_some (knowledge_serialize x)"
  unfolding knowledge_serialize_def
  by (rule writes_some_bind [OF writes_some_varint codes_varint codes_knowledge_rest])

lemma codes_unless_eof: "codes s d x \<Longrightarrow> writes_some s \<Longrightarrow> codes s (unless_eof def d) x"
  unfolding unless_eof_def by (rule codes_not_eof)

lemma writes_some_list:
  assumes "\<And>x. x \<in> set xs \<Longrightarrow> codes (s x) d x"
  shows "writes_some (write_list s xs)"
  unfolding write_list_def
  by (rule writes_some_bind [OF writes_some_varint codes_varint codes_each [OF assms refl]])

lemma codes_record_tail:
  assumes "record_tail_valid x"
  shows "codes (record_tail_serialize x) (record_tail_deserialize (record_head x)) x"
  using assms unfolding record_tail_serialize_def record_tail_deserialize_def record_tail_valid_def
  by (intro codes_bind [OF codes_unless_eof [OF codes_list_masked]]
      codes_bind [OF codes_unless_eof [OF codes_knowledge]] codes_return)
    (auto simp: record_head_def intro: writes_some_list writes_some_knowledge codec_intros)

lemma codes_player_record [codec_intros]:
  "player_record_valid x \<Longrightarrow> codes (player_record_serialize x) player_record_deserialize x"
  unfolding player_record_serialize_def player_record_deserialize_def player_record_valid_def
  by (rule codes_record_head codes_record_tail codec_intros | simp)+

lemma safe_unless_eof [safe_intros]: "safe_reader d \<Longrightarrow> safe_reader (unless_eof def d)"
  unfolding unless_eof_def by (intro safe_intros)

lemma safe_player_record [safe_intros]: "safe_reader player_record_deserialize"
  unfolding player_record_deserialize_def record_head_deserialize_def record_tail_deserialize_def
    knowledge_deserialize_def
  by (intro safe_intros)

interpretation player_record_wire: wire_codec player_record_serialize player_record_deserialize player_record_valid
  by unfold_locales (simp_all add: codes_player_record safe_player_record)

section \<open>Records of older builds\<close>

text \<open>A serializer whose last write is of whole bytes stops at one.\<close>

definition ends_whole :: "(writer, 'b) state \<Rightarrow> bool" where
  "ends_whole s \<longleftrightarrow> (\<forall>w. writer_ok w \<and> wr_grows w \<longrightarrow> 8 dvd wr_pos (snd (run_state s w)))"

lemma ends_whole_bind:
  assumes "codes s1 d a" and "ends_whole s2"
  shows "ends_whole (State_Monad.bind s1 (\<lambda>_. s2))"
  unfolding ends_whole_def
proof (intro allI impI)
  fix w assume "writer_ok w \<and> wr_grows w"
  then obtain y w1 where "run_state s1 w = (y, w1)" "writer_ok w1" "wr_grows w1"
    using codesE [OF assms(1)] by metis
  then show "8 dvd wr_pos (snd (run_state (State_Monad.bind s1 (\<lambda>_. s2)) w))"
    using assms(2) by (simp add: ends_whole_def)
qed

lemma ends_whole_float: "ends_whole (do { write_float f; State_Monad.return () })"
  unfolding ends_whole_def
proof (intro allI impI)
  fix w assume w: "writer_ok w \<and> wr_grows w"
  obtain w' where run: "run_state (write_bytes (le_bytes 4 f)) w = (True, w')"
    using write_bytes_grows w by blast
  then have "wr_pos w' = next_whole_byte (wr_pos w) + 8 * length (le_bytes 4 f)"
    using write_bytes_result(1) w by blast
  then show "8 dvd wr_pos (snd (run_state (do { write_float f; State_Monad.return () }) w))"
    using next_whole_byte_div [of "wr_pos w"] by (simp add: write_float_def run) presburger
qed

lemma ends_whole_floats:
  "xs \<noteq> [] \<Longrightarrow> ends_whole (do { write_each write_float xs; State_Monad.return () })"
proof (induction xs rule: list_nonempty_induct)
  case (single x)
  then show ?case
    using ends_whole_float [of x] by simp
next
  case (cons x xs)
  have "ends_whole (do { write_float x; write_each write_float xs; State_Monad.return () })"
    by (rule ends_whole_bind [OF codes_float cons.IH])
  then show ?case by simp
qed

lemma record_head_ends_whole: "record_head_valid x \<Longrightarrow> ends_whole (record_head_serialize x)"
  unfolding record_head_serialize_def record_head_valid_def
  by (rule ends_whole_floats, force | rule ends_whole_bind | rule codec_intros | simp add: skill_count_def)+

lemma tail_at_end:
  assumes "8 * length D \<le> p"
  shows "fst (run_state (record_tail_deserialize x) \<lparr>rd_data = D, rd_pos = p\<rparr>) = record_head x"
  using assms by (simp add: record_tail_deserialize_def unless_eof_def reader_eof_def record_head_def)

text \<open>
  A record an older build saved, which ends after the character's place, is read
  as that character, with no words of power, no permanent values, no knowledge and no recipes.
\<close>

theorem old_record_read:
  assumes "record_head_valid x"
  shows "decode player_record_deserialize (encode (record_head_serialize x)) = record_head x"
proof -
  obtain y w where w: "run_state (record_head_serialize x) (buffer_writer []) = (y, w)" "writer_ok w"
    "\<And>D. agree (wr_pos w) (wr_data w) D \<Longrightarrow>
       run_state record_head_deserialize \<lparr>rd_data = D, rd_pos = 0\<rparr> =
         (record_head x, \<lparr>rd_data = D, rd_pos = wr_pos w\<rparr>)"
    by (rule codesE [OF codes_record_head [OF assms], of "buffer_writer []"])
      (simp_all add: buffer_writer_def writer_ok_def)
  have "8 dvd wr_pos w"
    using record_head_ends_whole [OF assms, unfolded ends_whole_def, rule_format, of "buffer_writer []"] w(1)
    by (simp add: buffer_writer_def writer_ok_def)
  then have p: "wr_pos w = 8 * writer_size w"
    by (auto simp: writer_size_def elim!: dvdE)
  let ?D = "encode (record_head_serialize x)"
  have D: "?D = take (writer_size w) (wr_data w)"
    by (simp add: encode_def w(1))
  have "writer_size w \<le> length (wr_data w)"
    using w(2) p by (simp add: writer_ok_def)
  then have len: "length ?D = writer_size w"
    by (simp add: D)
  have "agree (wr_pos w) (wr_data w) ?D"
    using \<open>writer_size w \<le> _\<close> unfolding agree_def D bit_at_def
    by (auto simp: p less_mult_imp_div_less mult.commute)
  then have "run_state record_head_deserialize (new_reader ?D) =
      (record_head x, \<lparr>rd_data = ?D, rd_pos = wr_pos w\<rparr>)"
    using w(3) by (simp add: new_reader_def)
  moreover have "8 * length ?D \<le> wr_pos w"
    by (simp add: len p)
  ultimately show ?thesis
    using tail_at_end [of ?D "wr_pos w" "record_head x"]
    by (simp add: decode_def player_record_deserialize_def record_head_def split: prod.splits)
qed

text \<open>A new character: eighteen skills at level 15, ten gold, a place in Whiterun.\<close>

lemma old_record_read_witness:
  defines "r \<equiv> \<lparr>pr_Key = ''id:1'', pr_Name = ''Lydia'', pr_Level = 1, pr_Base = [], pr_BaseFlags = 0,
      pr_FaceTints = [], pr_Weight = 0x42480000, pr_LevelExperience = 0, pr_LevelThreshold = 0x42C80000,
      pr_Skills = replicate 18 \<lparr>skill_Level = 0x41700000, skill_Experience = 0, skill_Threshold = 0, skill_Legendary = 0\<rparr>,
      pr_PerkPoints = 0, pr_Perks = [], pr_Spells = [], pr_Values = [],
      pr_Items = \<lparr>inv_Entries = [new_entry\<lparr>en_BaseId := \<lparr>gid_BaseId = 0xF, gid_ModId = 0\<rparr>, en_Count := 10\<rparr>],
        inv_CurrentMagicEquipment = no_magic_equipment\<rparr>,
      pr_Extras = [], pr_Cell = \<lparr>gid_BaseId = 0x165A3, gid_ModId = 0\<rparr>, pr_WorldSpace = no_id,
      pr_Position = [0, 0, 0], pr_Words = [no_id], pr_PermanentValues = [], pr_Knowledge = no_knowledge,
      pr_Recipes = []\<rparr>"
  shows "pr_Words (decode player_record_deserialize (encode (record_head_serialize r))) = []"
proof -
  have "record_head_valid r"
    by (simp add: r_def record_head_valid_def skill_count_def tints_valid_def inventory_valid_def
        entry_valid_def new_entry_def extras_valid_def ordered_def)
  then show ?thesis
    using old_record_read by (simp add: record_head_def)
qed

end
