(* ===== verification/Actors.thy ===== *)
theory Actors
  imports Character_Record
begin

text \<open>
  What actors do and where they are: AI state (\<open>Structs/ActorAiState\<close>), whereabouts, physics bodies
  (\<open>Structs/BodyFrame\<close>: keys, poses and pushes) and dialogue options.
\<close>

section \<open>AI state\<close>

record ai_target =
  ait_SessionId :: "u32"
  ait_RefId :: "game_id"

definition ai_target_serialize :: "ai_target \<Rightarrow> (writer, unit) state" where
  "ai_target_serialize x = do {
     write_u32 (ait_SessionId x);
     game_id_serialize (ait_RefId x);
     State_Monad.return ()
   }"

definition ai_target_deserialize :: "(reader, ai_target) state" where
  "ai_target_deserialize = do {
     vSessionId \<leftarrow> read_u32;
     vRefId \<leftarrow> game_id_deserialize;
     State_Monad.return \<lparr>ait_SessionId = vSessionId, ait_RefId = vRefId\<rparr>
   }"

lemma codes_ai_target [codec_intros]:
  "codes (ai_target_serialize x) ai_target_deserialize x"
  unfolding ai_target_serialize_def ai_target_deserialize_def
  by (rule codec_intros | simp)+

lemma safe_ai_target [safe_intros]: "safe_reader ai_target_deserialize"
  unfolding ai_target_deserialize_def by (intro safe_intros)

interpretation ai_target_wire: wire_codec ai_target_serialize ai_target_deserialize "\<lambda>_. True"
  by unfold_locales (simp_all add: codes_ai_target safe_ai_target)


definition no_target :: ai_target where
  "no_target = \<lparr>ait_SessionId = 0, ait_RefId = no_id\<rparr>"

text \<open>\<open>HeadTrack\<close> is a \<open>std::array\<close> of six: a list of that length.\<close>

record actor_ai_state =
  ai_Package :: game_id
  ai_Scene :: game_id
  ai_Combat :: u8
  ai_CombatTarget :: ai_target
  ai_HeadTrack :: "ai_target list"

definition head_track_slots :: nat where "head_track_slots = 6"

text \<open>The set slots' mask, from slot \<open>i\<close> up, and the loops over them.\<close>

fun head_track_mask :: "nat \<Rightarrow> ai_target list \<Rightarrow> u64" where
  "head_track_mask i [] = 0"
| "head_track_mask i (t # ts) = push_bit i (if t \<noteq> no_target then 1 else 0) OR head_track_mask (Suc i) ts"

fun write_slots :: "u64 \<Rightarrow> nat \<Rightarrow> ai_target list \<Rightarrow> (writer, unit) state" where
  "write_slots slots i [] = State_Monad.return ()"
| "write_slots slots i (t # ts) = do {
     (if bit slots i then ai_target_serialize t else State_Monad.return ());
     write_slots slots (Suc i) ts
   }"

fun read_slots :: "u64 \<Rightarrow> nat \<Rightarrow> nat \<Rightarrow> (reader, ai_target list) state" where
  "read_slots slots i 0 = State_Monad.return []"
| "read_slots slots i (Suc n) = do {
     t \<leftarrow> (if bit slots i then ai_target_deserialize else State_Monad.return no_target);
     ts \<leftarrow> read_slots slots (Suc i) n;
     State_Monad.return (t # ts)
   }"

definition actor_ai_state_serialize :: "actor_ai_state \<Rightarrow> (writer, unit) state" where
  "actor_ai_state_serialize x = do {
     game_id_serialize (ai_Package x);
     game_id_serialize (ai_Scene x);
     write_byte (ai_Combat x);
     ai_target_serialize (ai_CombatTarget x);
     write_bits (head_track_mask 0 (ai_HeadTrack x)) head_track_slots;
     write_slots (head_track_mask 0 (ai_HeadTrack x)) 0 (ai_HeadTrack x);
     State_Monad.return ()
   }"

definition actor_ai_state_deserialize :: "(reader, actor_ai_state) state" where
  "actor_ai_state_deserialize = do {
     package \<leftarrow> game_id_deserialize;
     scene \<leftarrow> game_id_deserialize;
     combat \<leftarrow> read_byte;
     target \<leftarrow> ai_target_deserialize;
     slots \<leftarrow> read_uint head_track_slots;
     track \<leftarrow> read_slots slots 0 head_track_slots;
     State_Monad.return \<lparr>ai_Package = package, ai_Scene = scene, ai_Combat = combat,
       ai_CombatTarget = target, ai_HeadTrack = track\<rparr>
   }"

definition actor_ai_state_valid :: "actor_ai_state \<Rightarrow> bool" where
  "actor_ai_state_valid x \<longleftrightarrow> length (ai_HeadTrack x) = head_track_slots"

lemma bit_head_track_mask:
  "bit (head_track_mask i ts) n \<longleftrightarrow> n < 64 \<and> i \<le> n \<and> n < i + length ts \<and> ts ! (n - i) \<noteq> no_target"
proof (induction i ts rule: head_track_mask.induct)
  case (2 i t ts)
  have "bit (push_bit i (if t \<noteq> no_target then 1 else 0) :: u64) n \<longleftrightarrow> n < 64 \<and> n = i \<and> t \<noteq> no_target"
    by (auto simp: bit_push_bit_iff bit_1_iff)
  then show ?case
    using 2 by (auto simp: bit_or_iff nth_Cons' Suc_le_eq)
qed simp

lemma codes_slots:
  assumes "\<And>k. k < length ts \<Longrightarrow> bit slots (i + k) \<longleftrightarrow> ts ! k \<noteq> no_target" and "n = length ts"
  shows "codes (write_slots slots i ts) (read_slots slots i n) ts"
  unfolding assms(2) using assms(1)
proof (induction ts arbitrary: i)
  case (Cons t ts)
  have t: "bit slots i \<longleftrightarrow> t \<noteq> no_target"
    using Cons.prems [of 0] by simp
  have "codes (write_slots slots (Suc i) ts) (do { ts \<leftarrow> read_slots slots (Suc i) (length ts);
      State_Monad.return (t # ts) }) (t # ts)"
    by (rule codes_last [OF Cons.IH]) (use Cons.prems [of "Suc _"] in auto)
  then show ?case
    unfolding write_slots.simps list.size add_Suc_right add_0_right read_slots.simps
    by (intro codes_bind codes_if) (use t in \<open>auto intro: codec_intros\<close>)
qed (simp add: codes_return)

lemma codes_actor_ai_state [codec_intros]:
  assumes "actor_ai_state_valid x"
  shows "codes (actor_ai_state_serialize x) actor_ai_state_deserialize x"
proof -
  let ?set = "head_track_mask 0 (ai_HeadTrack x)"
  have len: "head_track_slots = length (ai_HeadTrack x)" and six: "length (ai_HeadTrack x) = 6"
    using assms by (simp_all add: actor_ai_state_valid_def head_track_slots_def)
  have "take_bit head_track_slots ?set = ?set"
    by (rule bit_word_eqI) (auto simp: bit_take_bit_iff bit_head_track_mask len)
  then have bits: "codes (write_bits ?set head_track_slots) (read_uint head_track_slots) ?set"
    using codes_uint [of head_track_slots ?set] by (simp add: head_track_slots_def)
  have slots: "codes (write_slots ?set 0 (ai_HeadTrack x)) (read_slots ?set 0 head_track_slots) (ai_HeadTrack x)"
    by (rule codes_slots) (simp_all add: len bit_head_track_mask six)
  show ?thesis
    unfolding actor_ai_state_serialize_def actor_ai_state_deserialize_def
    by (rule bits slots | rule codec_intros | simp)+
qed

lemma safe_slots [safe_intros]: "safe_reader (read_slots slots i n)"
proof (induction n arbitrary: i)
  case (Suc n)
  then show ?case
    by (auto intro!: safe_bind safe_if safe_return safe_ai_target)
qed (simp add: safe_return)

lemma safe_actor_ai_state [safe_intros]: "safe_reader actor_ai_state_deserialize"
  unfolding actor_ai_state_deserialize_def by (intro safe_intros)

interpretation actor_ai_state_wire: wire_codec actor_ai_state_serialize actor_ai_state_deserialize actor_ai_state_valid
  by unfold_locales (simp_all add: codes_actor_ai_state safe_actor_ai_state)

section \<open>Whereabouts\<close>

text \<open>\<open>State\<close> is one byte, and a byte off the wire is cast to it unchecked.\<close>

definition where_unknown :: u8 where "where_unknown = 0"
definition where_placed :: u8 where "where_placed = 1"
definition where_disabled :: u8 where "where_disabled = 2"
definition where_deleted :: u8 where "where_deleted = 3"

record actor_whereabouts =
  aw_Where :: u8
  aw_CellId :: game_id
  aw_WorldSpaceId :: game_id
  aw_Position :: vec3
  aw_Heading :: float32

definition no_whereabouts :: actor_whereabouts where
  "no_whereabouts = \<lparr>aw_Where = where_unknown, aw_CellId = no_id, aw_WorldSpaceId = no_id,
     aw_Position = \<lparr>v3_x = 0, v3_y = 0, v3_z = 0\<rparr>, aw_Heading = 0\<rparr>"

definition actor_whereabouts_serialize :: "actor_whereabouts \<Rightarrow> (writer, unit) state" where
  "actor_whereabouts_serialize x = do {
     write_byte (aw_Where x);
     (if aw_Where x \<noteq> where_placed then State_Monad.return ()
      else do {
        game_id_serialize (aw_CellId x);
        game_id_serialize (aw_WorldSpaceId x);
        vec3_serialize (aw_Position x);
        write_float (aw_Heading x);
        State_Monad.return ()
      })
   }"

definition actor_whereabouts_deserialize :: "(reader, actor_whereabouts) state" where
  "actor_whereabouts_deserialize = do {
     w \<leftarrow> read_byte;
     (if w \<noteq> where_placed then State_Monad.return (no_whereabouts\<lparr>aw_Where := w\<rparr>)
      else do {
        cell \<leftarrow> game_id_deserialize;
        world \<leftarrow> game_id_deserialize;
        position \<leftarrow> vec3_deserialize;
        heading \<leftarrow> read_float;
        State_Monad.return \<lparr>aw_Where = w, aw_CellId = cell, aw_WorldSpaceId = world,
          aw_Position = position, aw_Heading = heading\<rparr>
      })
   }"

definition actor_whereabouts_valid :: "actor_whereabouts \<Rightarrow> bool" where
  "actor_whereabouts_valid x \<longleftrightarrow>
     (if aw_Where x = where_placed then vec3_valid (aw_Position x)
      else x = no_whereabouts\<lparr>aw_Where := aw_Where x\<rparr>)"

lemma codes_actor_whereabouts [codec_intros]:
  "actor_whereabouts_valid x \<Longrightarrow> codes (actor_whereabouts_serialize x) actor_whereabouts_deserialize x"
  unfolding actor_whereabouts_serialize_def actor_whereabouts_deserialize_def actor_whereabouts_valid_def
  by (rule codec_intros | simp split: if_splits)+

lemma safe_actor_whereabouts [safe_intros]: "safe_reader actor_whereabouts_deserialize"
  unfolding actor_whereabouts_deserialize_def by (intro safe_intros)

interpretation actor_whereabouts_wire: wire_codec actor_whereabouts_serialize
    actor_whereabouts_deserialize actor_whereabouts_valid
  by unfold_locales (simp_all add: codes_actor_whereabouts safe_actor_whereabouts)

section \<open>Physics bodies\<close>

record body_key =
  bk_Object :: "game_id"
  bk_Actor :: "u32"
  bk_Index :: "u8"

definition body_key_serialize :: "body_key \<Rightarrow> (writer, unit) state" where
  "body_key_serialize x = do {
     game_id_serialize (bk_Object x);
     write_u32 (bk_Actor x);
     write_byte (bk_Index x);
     State_Monad.return ()
   }"

definition body_key_deserialize :: "(reader, body_key) state" where
  "body_key_deserialize = do {
     vObject \<leftarrow> game_id_deserialize;
     vActor \<leftarrow> read_u32;
     vIndex \<leftarrow> read_byte;
     State_Monad.return \<lparr>bk_Object = vObject, bk_Actor = vActor, bk_Index = vIndex\<rparr>
   }"

lemma codes_body_key [codec_intros]:
  "codes (body_key_serialize x) body_key_deserialize x"
  unfolding body_key_serialize_def body_key_deserialize_def
  by (rule codec_intros | simp)+

lemma safe_body_key [safe_intros]: "safe_reader body_key_deserialize"
  unfolding body_key_deserialize_def by (intro safe_intros)

interpretation body_key_wire: wire_codec body_key_serialize body_key_deserialize "\<lambda>_. True"
  by unfold_locales (simp_all add: codes_body_key safe_body_key)


text \<open>\<open>operator<=>\<close>: by plugin, form, actor, then body.\<close>

definition body_key_less :: "body_key \<Rightarrow> body_key \<Rightarrow> bool" where
  "body_key_less a b \<longleftrightarrow>
     (gid_ModId (bk_Object a), gid_BaseId (bk_Object a), bk_Actor a, bk_Index a) <
     (gid_ModId (bk_Object b), gid_BaseId (bk_Object b), bk_Actor b, bk_Index b)"

text \<open>Full-precision vectors and rotations: \<open>glm::vec3\<close>, \<open>glm::quat\<close>.\<close>

record quat =
  q_x :: float32
  q_y :: float32
  q_z :: float32
  q_w :: float32

definition vec3_write :: "vec3 \<Rightarrow> (writer, unit) state" where
  "vec3_write v = do {
     write_float (v3_x v);
     write_float (v3_y v);
     write_float (v3_z v);
     State_Monad.return ()
   }"

definition vec3_read :: "(reader, vec3) state" where
  "vec3_read = do {
     x \<leftarrow> read_float;
     y \<leftarrow> read_float;
     z \<leftarrow> read_float;
     State_Monad.return \<lparr>v3_x = x, v3_y = y, v3_z = z\<rparr>
   }"

lemma codes_vec3_full [codec_intros]: "codes (vec3_write v) vec3_read v"
  unfolding vec3_write_def vec3_read_def by (rule codec_intros | simp)+

lemma safe_vec3_full [safe_intros]: "safe_reader vec3_read"
  unfolding vec3_read_def by (intro safe_intros)

record body_pose =
  bp_Key :: body_key
  bp_Position :: vec3
  bp_Rotation :: quat
  bp_Knocked :: bool

definition body_pose_serialize :: "body_pose \<Rightarrow> (writer, unit) state" where
  "body_pose_serialize x = do {
     body_key_serialize (bp_Key x);
     vec3_write (bp_Position x);
     write_float (q_x (bp_Rotation x));
     write_float (q_y (bp_Rotation x));
     write_float (q_z (bp_Rotation x));
     write_float (q_w (bp_Rotation x));
     (if bk_Actor (bp_Key x) \<noteq> 0 then do { write_bool (bp_Knocked x); State_Monad.return () }
      else State_Monad.return ())
   }"

definition body_pose_deserialize :: "(reader, body_pose) state" where
  "body_pose_deserialize = do {
     key \<leftarrow> body_key_deserialize;
     position \<leftarrow> vec3_read;
     x \<leftarrow> read_float;
     y \<leftarrow> read_float;
     z \<leftarrow> read_float;
     w \<leftarrow> read_float;
     (if bk_Actor key \<noteq> 0 then do {
        knocked \<leftarrow> read_bool;
        State_Monad.return \<lparr>bp_Key = key, bp_Position = position,
          bp_Rotation = \<lparr>q_x = x, q_y = y, q_z = z, q_w = w\<rparr>, bp_Knocked = knocked\<rparr>
      } else State_Monad.return \<lparr>bp_Key = key, bp_Position = position,
          bp_Rotation = \<lparr>q_x = x, q_y = y, q_z = z, q_w = w\<rparr>, bp_Knocked = False\<rparr>)
   }"

definition body_pose_valid :: "body_pose \<Rightarrow> bool" where
  "body_pose_valid x \<longleftrightarrow> (bp_Knocked x \<longrightarrow> bk_Actor (bp_Key x) \<noteq> 0)"

lemma codes_body_pose [codec_intros]:
  "body_pose_valid x \<Longrightarrow> codes (body_pose_serialize x) body_pose_deserialize x"
  unfolding body_pose_serialize_def body_pose_deserialize_def body_pose_valid_def
  by (rule codec_intros | simp)+

lemma safe_body_pose [safe_intros]: "safe_reader body_pose_deserialize"
  unfolding body_pose_deserialize_def by (intro safe_intros)

interpretation body_pose_wire: wire_codec body_pose_serialize body_pose_deserialize body_pose_valid
  by unfold_locales (simp_all add: codes_body_pose safe_body_pose)

record body_push =
  bpu_Key :: "body_key"
  bpu_Impulse :: "vec3"
  bpu_Point :: "vec3"

definition body_push_serialize :: "body_push \<Rightarrow> (writer, unit) state" where
  "body_push_serialize x = do {
     body_key_serialize (bpu_Key x);
     vec3_write (bpu_Impulse x);
     vec3_write (bpu_Point x);
     State_Monad.return ()
   }"

definition body_push_deserialize :: "(reader, body_push) state" where
  "body_push_deserialize = do {
     vKey \<leftarrow> body_key_deserialize;
     vImpulse \<leftarrow> vec3_read;
     vPoint \<leftarrow> vec3_read;
     State_Monad.return \<lparr>bpu_Key = vKey, bpu_Impulse = vImpulse, bpu_Point = vPoint\<rparr>
   }"

lemma codes_body_push [codec_intros]:
  "codes (body_push_serialize x) body_push_deserialize x"
  unfolding body_push_serialize_def body_push_deserialize_def
  by (rule codec_intros | simp)+

lemma safe_body_push [safe_intros]: "safe_reader body_push_deserialize"
  unfolding body_push_deserialize_def by (intro safe_intros)

interpretation body_push_wire: wire_codec body_push_serialize body_push_deserialize "\<lambda>_. True"
  by unfold_locales (simp_all add: codes_body_push safe_body_push)


section \<open>Dialogue options\<close>

definition max_players :: nat where "max_players = 250"
definition max_options :: nat where "max_options = 64"

record dialogue_option =
  do_Topic :: "game_id"
  do_Info :: "game_id"
  do_Quest :: "game_id"
  do_Text :: "string"
  do_Players :: "u32 list"

definition dialogue_option_serialize :: "dialogue_option \<Rightarrow> (writer, unit) state" where
  "dialogue_option_serialize x = do {
     game_id_serialize (do_Topic x);
     game_id_serialize (do_Info x);
     game_id_serialize (do_Quest x);
     write_string (do_Text x);
     write_list write_u32 (do_Players x);
     State_Monad.return ()
   }"

definition dialogue_option_deserialize :: "(reader, dialogue_option) state" where
  "dialogue_option_deserialize = do {
     vTopic \<leftarrow> game_id_deserialize;
     vInfo \<leftarrow> game_id_deserialize;
     vQuest \<leftarrow> game_id_deserialize;
     vText \<leftarrow> read_string;
     vPlayers \<leftarrow> read_list_capped max_players read_u32;
     State_Monad.return \<lparr>do_Topic = vTopic, do_Info = vInfo, do_Quest = vQuest, do_Text = vText,
       do_Players = vPlayers\<rparr>
   }"

definition dialogue_option_valid :: "dialogue_option \<Rightarrow> bool" where
  "dialogue_option_valid x \<longleftrightarrow> length (do_Text x) < 65536 \<and>
     length (do_Players x) \<le> max_players"

lemma codes_dialogue_option [codec_intros]:
  "dialogue_option_valid x \<Longrightarrow> codes (dialogue_option_serialize x) dialogue_option_deserialize x"
  unfolding dialogue_option_serialize_def dialogue_option_deserialize_def dialogue_option_valid_def
  by (rule codec_intros | simp add: max_players_def)+

lemma safe_dialogue_option [safe_intros]: "safe_reader dialogue_option_deserialize"
  unfolding dialogue_option_deserialize_def by (intro safe_intros)

interpretation dialogue_option_wire: wire_codec dialogue_option_serialize dialogue_option_deserialize "dialogue_option_valid"
  by unfold_locales (simp_all add: codes_dialogue_option safe_dialogue_option)


type_synonym dialogue_options = "dialogue_option list"

definition dialogue_options_serialize :: "dialogue_options \<Rightarrow> (writer, unit) state" where
  "dialogue_options_serialize xs = write_list dialogue_option_serialize xs"

definition dialogue_options_deserialize :: "(reader, dialogue_options) state" where
  "dialogue_options_deserialize = read_list_capped max_options dialogue_option_deserialize"

definition dialogue_options_valid :: "dialogue_options \<Rightarrow> bool" where
  "dialogue_options_valid xs \<longleftrightarrow> length xs \<le> max_options \<and> (\<forall>x \<in> set xs. dialogue_option_valid x)"

lemma codes_dialogue_options [codec_intros]:
  "dialogue_options_valid xs \<Longrightarrow> codes (dialogue_options_serialize xs) dialogue_options_deserialize xs"
  unfolding dialogue_options_serialize_def dialogue_options_deserialize_def dialogue_options_valid_def
  by (rule codec_intros | simp add: max_options_def)+

lemma safe_dialogue_options [safe_intros]: "safe_reader dialogue_options_deserialize"
  unfolding dialogue_options_deserialize_def by (intro safe_intros)

interpretation dialogue_options_wire: wire_codec dialogue_options_serialize dialogue_options_deserialize
    dialogue_options_valid
  by unfold_locales (simp_all add: codes_dialogue_options safe_dialogue_options)

record player_dialogue_options =
  pdo_PlayerId :: u32
  pdo_Options :: dialogue_options

definition player_dialogue_options_serialize :: "player_dialogue_options \<Rightarrow> (writer, unit) state" where
  "player_dialogue_options_serialize x = do {
     write_u32 (pdo_PlayerId x);
     dialogue_options_serialize (pdo_Options x);
     State_Monad.return ()
   }"

definition player_dialogue_options_deserialize :: "(reader, player_dialogue_options) state" where
  "player_dialogue_options_deserialize = do {
     player \<leftarrow> read_u32;
     options \<leftarrow> dialogue_options_deserialize;
     State_Monad.return \<lparr>pdo_PlayerId = player, pdo_Options = options\<rparr>
   }"

definition player_options_serialize :: "player_dialogue_options list \<Rightarrow> (writer, unit) state" where
  "player_options_serialize xs = write_list player_dialogue_options_serialize xs"

definition player_options_deserialize :: "(reader, player_dialogue_options list) state" where
  "player_options_deserialize = read_list_capped max_players player_dialogue_options_deserialize"

definition player_options_valid :: "player_dialogue_options list \<Rightarrow> bool" where
  "player_options_valid xs \<longleftrightarrow> length xs \<le> max_players \<and> (\<forall>x \<in> set xs. dialogue_options_valid (pdo_Options x))"

lemma codes_player_dialogue_options:
  "dialogue_options_valid (pdo_Options x) \<Longrightarrow>
   codes (player_dialogue_options_serialize x) player_dialogue_options_deserialize x"
  unfolding player_dialogue_options_serialize_def player_dialogue_options_deserialize_def
  by (rule codec_intros | simp)+

lemma codes_player_options [codec_intros]:
  "player_options_valid xs \<Longrightarrow> codes (player_options_serialize xs) player_options_deserialize xs"
  unfolding player_options_serialize_def player_options_deserialize_def player_options_valid_def
  by (rule codec_intros codes_player_dialogue_options | simp add: max_players_def)+

lemma safe_player_options [safe_intros]: "safe_reader player_options_deserialize"
  unfolding player_options_deserialize_def player_dialogue_options_deserialize_def by (intro safe_intros)

interpretation player_options_wire: wire_codec player_options_serialize player_options_deserialize
    player_options_valid
  by unfold_locales (simp_all add: codes_player_options safe_player_options)

end
