(* ===== verification/Payloads.thy ===== *)
theory Payloads
  imports Actors
begin

text \<open>
  What requests and their notifications carry when the host passes them on (\<open>Messages/Payloads\<close>), each
  with \<open>SerializePayload\<close> and \<open>DeserializePayload\<close>. A payload is read into a fresh object, as the
  message factories make one for each message.
\<close>

section \<open>Fights\<close>

record melee_stagger =
  mst_HitteeId :: "u32"
  mst_HitterId :: "u32"
  mst_Magnitude :: "float32"

definition melee_stagger_serialize :: "melee_stagger \<Rightarrow> (writer, unit) state" where
  "melee_stagger_serialize x = do {
     write_u32 (mst_HitteeId x);
     write_u32 (mst_HitterId x);
     write_float (mst_Magnitude x);
     State_Monad.return ()
   }"

definition melee_stagger_deserialize :: "(reader, melee_stagger) state" where
  "melee_stagger_deserialize = do {
     vHitteeId \<leftarrow> read_u32;
     vHitterId \<leftarrow> read_u32;
     vMagnitude \<leftarrow> read_float;
     State_Monad.return \<lparr>mst_HitteeId = vHitteeId, mst_HitterId = vHitterId, mst_Magnitude = vMagnitude\<rparr>
   }"

lemma codes_melee_stagger [codec_intros]:
  "codes (melee_stagger_serialize x) melee_stagger_deserialize x"
  unfolding melee_stagger_serialize_def melee_stagger_deserialize_def
  by (rule codec_intros | simp)+

lemma safe_melee_stagger [safe_intros]: "safe_reader melee_stagger_deserialize"
  unfolding melee_stagger_deserialize_def by (intro safe_intros)

interpretation melee_stagger_wire: wire_codec melee_stagger_serialize melee_stagger_deserialize "\<lambda>_. True"
  by unfold_locales (simp_all add: codes_melee_stagger safe_melee_stagger)


record actor_perks =
  ap_SessionId :: "u32"
  ap_Content :: "perks"

definition actor_perks_serialize :: "actor_perks \<Rightarrow> (writer, unit) state" where
  "actor_perks_serialize x = do {
     write_u32 (ap_SessionId x);
     perks_serialize (ap_Content x);
     State_Monad.return ()
   }"

definition actor_perks_deserialize :: "(reader, actor_perks) state" where
  "actor_perks_deserialize = do {
     vSessionId \<leftarrow> read_u32;
     vContent \<leftarrow> perks_deserialize;
     State_Monad.return \<lparr>ap_SessionId = vSessionId, ap_Content = vContent\<rparr>
   }"

definition actor_perks_valid :: "actor_perks \<Rightarrow> bool" where
  "actor_perks_valid x \<longleftrightarrow> perks_valid (ap_Content x)"

lemma codes_actor_perks [codec_intros]:
  "actor_perks_valid x \<Longrightarrow> codes (actor_perks_serialize x) actor_perks_deserialize x"
  unfolding actor_perks_serialize_def actor_perks_deserialize_def actor_perks_valid_def
  by (rule codec_intros | simp)+

lemma safe_actor_perks [safe_intros]: "safe_reader actor_perks_deserialize"
  unfolding actor_perks_deserialize_def by (intro safe_intros)

interpretation actor_perks_wire: wire_codec actor_perks_serialize actor_perks_deserialize "actor_perks_valid"
  by unfold_locales (simp_all add: codes_actor_perks safe_actor_perks)


record equipment_snapshot =
  es_SessionId :: "u32"
  es_Equipment :: "inventory"

definition equipment_snapshot_serialize :: "equipment_snapshot \<Rightarrow> (writer, unit) state" where
  "equipment_snapshot_serialize x = do {
     write_u32 (es_SessionId x);
     inventory_serialize (es_Equipment x);
     State_Monad.return ()
   }"

definition equipment_snapshot_deserialize :: "(reader, equipment_snapshot) state" where
  "equipment_snapshot_deserialize = do {
     vSessionId \<leftarrow> read_u32;
     vEquipment \<leftarrow> inventory_deserialize no_inventory;
     State_Monad.return \<lparr>es_SessionId = vSessionId, es_Equipment = vEquipment\<rparr>
   }"

definition equipment_snapshot_valid :: "equipment_snapshot \<Rightarrow> bool" where
  "equipment_snapshot_valid x \<longleftrightarrow> inventory_valid (es_Equipment x)"

lemma codes_equipment_snapshot [codec_intros]:
  "equipment_snapshot_valid x \<Longrightarrow> codes (equipment_snapshot_serialize x) equipment_snapshot_deserialize x"
  unfolding equipment_snapshot_serialize_def equipment_snapshot_deserialize_def equipment_snapshot_valid_def
  by (rule codec_intros | simp)+

lemma safe_equipment_snapshot [safe_intros]: "safe_reader equipment_snapshot_deserialize"
  unfolding equipment_snapshot_deserialize_def by (intro safe_intros)

interpretation equipment_snapshot_wire: wire_codec equipment_snapshot_serialize equipment_snapshot_deserialize "equipment_snapshot_valid"
  by unfold_locales (simp_all add: codes_equipment_snapshot safe_equipment_snapshot)


record draw_weapon =
  dw_Id :: "u32"
  dw_IsWeaponDrawn :: "bool"

definition draw_weapon_serialize :: "draw_weapon \<Rightarrow> (writer, unit) state" where
  "draw_weapon_serialize x = do {
     write_u32 (dw_Id x);
     write_bool (dw_IsWeaponDrawn x);
     State_Monad.return ()
   }"

definition draw_weapon_deserialize :: "(reader, draw_weapon) state" where
  "draw_weapon_deserialize = do {
     vId \<leftarrow> read_u32;
     vIsWeaponDrawn \<leftarrow> read_bool;
     State_Monad.return \<lparr>dw_Id = vId, dw_IsWeaponDrawn = vIsWeaponDrawn\<rparr>
   }"

lemma codes_draw_weapon [codec_intros]:
  "codes (draw_weapon_serialize x) draw_weapon_deserialize x"
  unfolding draw_weapon_serialize_def draw_weapon_deserialize_def
  by (rule codec_intros | simp)+

lemma safe_draw_weapon [safe_intros]: "safe_reader draw_weapon_deserialize"
  unfolding draw_weapon_deserialize_def by (intro safe_intros)

interpretation draw_weapon_wire: wire_codec draw_weapon_serialize draw_weapon_deserialize "\<lambda>_. True"
  by unfold_locales (simp_all add: codes_draw_weapon safe_draw_weapon)


record actor_value_changes =
  avc_Id :: "u32"
  avc_Values :: "value_map"
  avc_TemporaryValues :: "value_map"

definition actor_value_changes_serialize :: "actor_value_changes \<Rightarrow> (writer, unit) state" where
  "actor_value_changes_serialize x = do {
     write_u32 (avc_Id x);
     write_list value_serialize (avc_Values x);
     write_list value_serialize (avc_TemporaryValues x);
     State_Monad.return ()
   }"

definition actor_value_changes_deserialize :: "(reader, actor_value_changes) state" where
  "actor_value_changes_deserialize = do {
     vId \<leftarrow> read_u32;
     vValues \<leftarrow> read_values_kept [];
     vTemporaryValues \<leftarrow> read_values_replaced [];
     State_Monad.return \<lparr>avc_Id = vId, avc_Values = vValues, avc_TemporaryValues = vTemporaryValues\<rparr>
   }"

definition actor_value_changes_valid :: "actor_value_changes \<Rightarrow> bool" where
  "actor_value_changes_valid x \<longleftrightarrow> ordered (avc_Values x) \<and>
     ordered (avc_TemporaryValues x)"

lemma codes_actor_value_changes [codec_intros]:
  "actor_value_changes_valid x \<Longrightarrow> codes (actor_value_changes_serialize x) actor_value_changes_deserialize x"
  unfolding actor_value_changes_serialize_def actor_value_changes_deserialize_def actor_value_changes_valid_def
  by (rule codec_intros | simp)+

lemma safe_actor_value_changes [safe_intros]: "safe_reader actor_value_changes_deserialize"
  unfolding actor_value_changes_deserialize_def by (intro safe_intros)

interpretation actor_value_changes_wire: wire_codec actor_value_changes_serialize actor_value_changes_deserialize "actor_value_changes_valid"
  by unfold_locales (simp_all add: codes_actor_value_changes safe_actor_value_changes)


record actor_max_value_changes =
  amvc_Id :: "u32"
  amvc_Values :: "value_map"

definition actor_max_value_changes_serialize :: "actor_max_value_changes \<Rightarrow> (writer, unit) state" where
  "actor_max_value_changes_serialize x = do {
     write_u32 (amvc_Id x);
     write_list value_serialize (amvc_Values x);
     State_Monad.return ()
   }"

definition actor_max_value_changes_deserialize :: "(reader, actor_max_value_changes) state" where
  "actor_max_value_changes_deserialize = do {
     vId \<leftarrow> read_u32;
     vValues \<leftarrow> read_values_kept [];
     State_Monad.return \<lparr>amvc_Id = vId, amvc_Values = vValues\<rparr>
   }"

definition actor_max_value_changes_valid :: "actor_max_value_changes \<Rightarrow> bool" where
  "actor_max_value_changes_valid x \<longleftrightarrow> ordered (amvc_Values x)"

lemma codes_actor_max_value_changes [codec_intros]:
  "actor_max_value_changes_valid x \<Longrightarrow> codes (actor_max_value_changes_serialize x) actor_max_value_changes_deserialize x"
  unfolding actor_max_value_changes_serialize_def actor_max_value_changes_deserialize_def actor_max_value_changes_valid_def
  by (rule codec_intros | simp)+

lemma safe_actor_max_value_changes [safe_intros]: "safe_reader actor_max_value_changes_deserialize"
  unfolding actor_max_value_changes_deserialize_def by (intro safe_intros)

interpretation actor_max_value_changes_wire: wire_codec actor_max_value_changes_serialize actor_max_value_changes_deserialize "actor_max_value_changes_valid"
  by unfold_locales (simp_all add: codes_actor_max_value_changes safe_actor_max_value_changes)


text \<open>An optional tick: a flag, then its value.\<close>

definition write_optional :: "u64 option \<Rightarrow> (writer, unit) state" where
  "write_optional v = do {
     write_bool (v \<noteq> None);
     (case v of None \<Rightarrow> State_Monad.return () | Some t \<Rightarrow> write_varint t)
   }"

definition read_optional :: "(reader, u64 option) state" where
  "read_optional = do {
     has \<leftarrow> read_bool;
     (if has then do { t \<leftarrow> read_varint; State_Monad.return (Some t) } else State_Monad.return None)
   }"

lemma codes_optional_time [codec_intros]: "codes (write_optional v) read_optional v"
proof (cases v)
  case None
  then show ?thesis
    unfolding write_optional_def read_optional_def
    by (intro codes_bind [OF codes_bool]) (simp add: codes_return)
next
  case (Some t)
  then show ?thesis
    unfolding write_optional_def read_optional_def
    by (intro codes_bind [OF codes_bool]) (simp add: codes_last [OF codes_varint])
qed

lemma safe_optional [safe_intros]: "safe_reader read_optional"
  unfolding read_optional_def by (intro safe_intros)

record death_state_change =
  dsc_Id :: "u32"
  dsc_IsDead :: "bool"
  dsc_DeathActionTick :: "u64 option"

definition death_state_change_serialize :: "death_state_change \<Rightarrow> (writer, unit) state" where
  "death_state_change_serialize x = do {
     write_u32 (dsc_Id x);
     write_bool (dsc_IsDead x);
     write_optional (dsc_DeathActionTick x);
     State_Monad.return ()
   }"

definition death_state_change_deserialize :: "(reader, death_state_change) state" where
  "death_state_change_deserialize = do {
     vId \<leftarrow> read_u32;
     vIsDead \<leftarrow> read_bool;
     vDeathActionTick \<leftarrow> read_optional;
     State_Monad.return \<lparr>dsc_Id = vId, dsc_IsDead = vIsDead, dsc_DeathActionTick = vDeathActionTick\<rparr>
   }"

lemma codes_death_state_change [codec_intros]:
  "codes (death_state_change_serialize x) death_state_change_deserialize x"
  unfolding death_state_change_serialize_def death_state_change_deserialize_def
  by (rule codec_intros | simp)+

lemma safe_death_state_change [safe_intros]: "safe_reader death_state_change_deserialize"
  unfolding death_state_change_deserialize_def by (intro safe_intros)

interpretation death_state_change_wire: wire_codec death_state_change_serialize death_state_change_deserialize "\<lambda>_. True"
  by unfold_locales (simp_all add: codes_death_state_change safe_death_state_change)


record health_change =
  hc_Id :: "u32"
  hc_DeltaHealth :: "float32"
  hc_HasAttacker :: "bool"
  hc_AttackerId :: "u32"

definition health_change_serialize :: "health_change \<Rightarrow> (writer, unit) state" where
  "health_change_serialize x = do {
     write_u32 (hc_Id x);
     write_float (hc_DeltaHealth x);
     write_bool (hc_HasAttacker x);
     write_u32 (hc_AttackerId x);
     State_Monad.return ()
   }"

definition health_change_deserialize :: "(reader, health_change) state" where
  "health_change_deserialize = do {
     vId \<leftarrow> read_u32;
     vDeltaHealth \<leftarrow> read_float;
     vHasAttacker \<leftarrow> read_bool;
     vAttackerId \<leftarrow> read_u32;
     State_Monad.return \<lparr>hc_Id = vId, hc_DeltaHealth = vDeltaHealth, hc_HasAttacker = vHasAttacker,
       hc_AttackerId = vAttackerId\<rparr>
   }"

lemma codes_health_change [codec_intros]:
  "codes (health_change_serialize x) health_change_deserialize x"
  unfolding health_change_serialize_def health_change_deserialize_def
  by (rule codec_intros | simp)+

lemma safe_health_change [safe_intros]: "safe_reader health_change_deserialize"
  unfolding health_change_deserialize_def by (intro safe_intros)

interpretation health_change_wire: wire_codec health_change_serialize health_change_deserialize "\<lambda>_. True"
  by unfold_locales (simp_all add: codes_health_change safe_health_change)


section \<open>Magic\<close>

record spell_cast =
  sc_CasterId :: "u32"
  sc_SpellFormId :: "game_id"
  sc_CastingSource :: "i32"
  sc_IsDualCasting :: "bool"
  sc_DesiredTarget :: "u32"

definition spell_cast_serialize :: "spell_cast \<Rightarrow> (writer, unit) state" where
  "spell_cast_serialize x = do {
     write_u32 (sc_CasterId x);
     game_id_serialize (sc_SpellFormId x);
     write_i32 (sc_CastingSource x);
     write_bool (sc_IsDualCasting x);
     write_u32 (sc_DesiredTarget x);
     State_Monad.return ()
   }"

definition spell_cast_deserialize :: "(reader, spell_cast) state" where
  "spell_cast_deserialize = do {
     vCasterId \<leftarrow> read_u32;
     vSpellFormId \<leftarrow> game_id_deserialize;
     vCastingSource \<leftarrow> read_u32;
     vIsDualCasting \<leftarrow> read_bool;
     vDesiredTarget \<leftarrow> read_u32;
     State_Monad.return \<lparr>sc_CasterId = vCasterId, sc_SpellFormId = vSpellFormId,
       sc_CastingSource = vCastingSource, sc_IsDualCasting = vIsDualCasting,
       sc_DesiredTarget = vDesiredTarget\<rparr>
   }"

lemma codes_spell_cast [codec_intros]:
  "codes (spell_cast_serialize x) spell_cast_deserialize x"
  unfolding spell_cast_serialize_def spell_cast_deserialize_def
  by (rule codec_intros | simp)+

lemma safe_spell_cast [safe_intros]: "safe_reader spell_cast_deserialize"
  unfolding spell_cast_deserialize_def by (intro safe_intros)

interpretation spell_cast_wire: wire_codec spell_cast_serialize spell_cast_deserialize "\<lambda>_. True"
  by unfold_locales (simp_all add: codes_spell_cast safe_spell_cast)


record interrupt_cast =
  ic_CasterId :: "u32"
  ic_CastingSource :: "i32"

definition interrupt_cast_serialize :: "interrupt_cast \<Rightarrow> (writer, unit) state" where
  "interrupt_cast_serialize x = do {
     write_u32 (ic_CasterId x);
     write_i32 (ic_CastingSource x);
     State_Monad.return ()
   }"

definition interrupt_cast_deserialize :: "(reader, interrupt_cast) state" where
  "interrupt_cast_deserialize = do {
     vCasterId \<leftarrow> read_u32;
     vCastingSource \<leftarrow> read_u32;
     State_Monad.return \<lparr>ic_CasterId = vCasterId, ic_CastingSource = vCastingSource\<rparr>
   }"

lemma codes_interrupt_cast [codec_intros]:
  "codes (interrupt_cast_serialize x) interrupt_cast_deserialize x"
  unfolding interrupt_cast_serialize_def interrupt_cast_deserialize_def
  by (rule codec_intros | simp)+

lemma safe_interrupt_cast [safe_intros]: "safe_reader interrupt_cast_deserialize"
  unfolding interrupt_cast_deserialize_def by (intro safe_intros)

interpretation interrupt_cast_wire: wire_codec interrupt_cast_serialize interrupt_cast_deserialize "\<lambda>_. True"
  by unfold_locales (simp_all add: codes_interrupt_cast safe_interrupt_cast)


record projectile_launch =
  pl_ShooterID :: "u32"
  pl_OriginX :: "float32"
  pl_OriginY :: "float32"
  pl_OriginZ :: "float32"
  pl_ProjectileBaseID :: "game_id"
  pl_WeaponID :: "game_id"
  pl_AmmoID :: "game_id"
  pl_ZAngle :: "float32"
  pl_XAngle :: "float32"
  pl_YAngle :: "float32"
  pl_ParentCellID :: "game_id"
  pl_SpellID :: "game_id"
  pl_CastingSource :: "i32"
  pl_Area :: "i32"
  pl_Power :: "float32"
  pl_Scale :: "float32"
  pl_AlwaysHit :: "bool"
  pl_NoDamageOutsideCombat :: "bool"
  pl_AutoAim :: "bool"
  pl_DeferInitialization :: "bool"
  pl_ForceConeOfFire :: "bool"
  pl_UnkBool1 :: "bool"
  pl_UnkBool2 :: "bool"

definition projectile_launch_serialize :: "projectile_launch \<Rightarrow> (writer, unit) state" where
  "projectile_launch_serialize x = do {
     write_u32 (pl_ShooterID x);
     write_float (pl_OriginX x);
     write_float (pl_OriginY x);
     write_float (pl_OriginZ x);
     game_id_serialize (pl_ProjectileBaseID x);
     game_id_serialize (pl_WeaponID x);
     game_id_serialize (pl_AmmoID x);
     write_float (pl_ZAngle x);
     write_float (pl_XAngle x);
     write_float (pl_YAngle x);
     game_id_serialize (pl_ParentCellID x);
     game_id_serialize (pl_SpellID x);
     write_i32 (pl_CastingSource x);
     write_i32 (pl_Area x);
     write_float (pl_Power x);
     write_float (pl_Scale x);
     write_bool (pl_AlwaysHit x);
     write_bool (pl_NoDamageOutsideCombat x);
     write_bool (pl_AutoAim x);
     write_bool (pl_DeferInitialization x);
     write_bool (pl_ForceConeOfFire x);
     write_bool (pl_UnkBool1 x);
     write_bool (pl_UnkBool2 x);
     State_Monad.return ()
   }"

definition projectile_launch_deserialize :: "(reader, projectile_launch) state" where
  "projectile_launch_deserialize = do {
     vShooterID \<leftarrow> read_u32;
     vOriginX \<leftarrow> read_float;
     vOriginY \<leftarrow> read_float;
     vOriginZ \<leftarrow> read_float;
     vProjectileBaseID \<leftarrow> game_id_deserialize;
     vWeaponID \<leftarrow> game_id_deserialize;
     vAmmoID \<leftarrow> game_id_deserialize;
     vZAngle \<leftarrow> read_float;
     vXAngle \<leftarrow> read_float;
     vYAngle \<leftarrow> read_float;
     vParentCellID \<leftarrow> game_id_deserialize;
     vSpellID \<leftarrow> game_id_deserialize;
     vCastingSource \<leftarrow> read_u32;
     vArea \<leftarrow> read_u32;
     vPower \<leftarrow> read_float;
     vScale \<leftarrow> read_float;
     vAlwaysHit \<leftarrow> read_bool;
     vNoDamageOutsideCombat \<leftarrow> read_bool;
     vAutoAim \<leftarrow> read_bool;
     vDeferInitialization \<leftarrow> read_bool;
     vForceConeOfFire \<leftarrow> read_bool;
     vUnkBool1 \<leftarrow> read_bool;
     vUnkBool2 \<leftarrow> read_bool;
     State_Monad.return \<lparr>pl_ShooterID = vShooterID, pl_OriginX = vOriginX, pl_OriginY = vOriginY,
       pl_OriginZ = vOriginZ, pl_ProjectileBaseID = vProjectileBaseID,
       pl_WeaponID = vWeaponID, pl_AmmoID = vAmmoID, pl_ZAngle = vZAngle,
       pl_XAngle = vXAngle, pl_YAngle = vYAngle, pl_ParentCellID = vParentCellID,
       pl_SpellID = vSpellID, pl_CastingSource = vCastingSource, pl_Area = vArea,
       pl_Power = vPower, pl_Scale = vScale, pl_AlwaysHit = vAlwaysHit,
       pl_NoDamageOutsideCombat = vNoDamageOutsideCombat, pl_AutoAim = vAutoAim,
       pl_DeferInitialization = vDeferInitialization,
       pl_ForceConeOfFire = vForceConeOfFire, pl_UnkBool1 = vUnkBool1,
       pl_UnkBool2 = vUnkBool2\<rparr>
   }"

lemma codes_projectile_launch [codec_intros]:
  "codes (projectile_launch_serialize x) projectile_launch_deserialize x"
  unfolding projectile_launch_serialize_def projectile_launch_deserialize_def
  by (rule codec_intros | simp)+

lemma safe_projectile_launch [safe_intros]: "safe_reader projectile_launch_deserialize"
  unfolding projectile_launch_deserialize_def by (intro safe_intros)

interpretation projectile_launch_wire: wire_codec projectile_launch_serialize projectile_launch_deserialize "\<lambda>_. True"
  by unfold_locales (simp_all add: codes_projectile_launch safe_projectile_launch)


record add_target =
  at_TargetId :: "u32"
  at_CasterId :: "u32"
  at_SpellId :: "game_id"
  at_EffectId :: "game_id"
  at_Magnitude :: "float32"
  at_IsDualCasting :: "bool"
  at_ApplyHealPerkBonus :: "bool"
  at_ApplyStaminaPerkBonus :: "bool"

definition add_target_serialize :: "add_target \<Rightarrow> (writer, unit) state" where
  "add_target_serialize x = do {
     write_u32 (at_TargetId x);
     write_u32 (at_CasterId x);
     game_id_serialize (at_SpellId x);
     game_id_serialize (at_EffectId x);
     write_float (at_Magnitude x);
     write_bool (at_IsDualCasting x);
     write_bool (at_ApplyHealPerkBonus x);
     write_bool (at_ApplyStaminaPerkBonus x);
     State_Monad.return ()
   }"

definition add_target_deserialize :: "(reader, add_target) state" where
  "add_target_deserialize = do {
     vTargetId \<leftarrow> read_u32;
     vCasterId \<leftarrow> read_u32;
     vSpellId \<leftarrow> game_id_deserialize;
     vEffectId \<leftarrow> game_id_deserialize;
     vMagnitude \<leftarrow> read_float;
     vIsDualCasting \<leftarrow> read_bool;
     vApplyHealPerkBonus \<leftarrow> read_bool;
     vApplyStaminaPerkBonus \<leftarrow> read_bool;
     State_Monad.return \<lparr>at_TargetId = vTargetId, at_CasterId = vCasterId, at_SpellId = vSpellId,
       at_EffectId = vEffectId, at_Magnitude = vMagnitude,
       at_IsDualCasting = vIsDualCasting, at_ApplyHealPerkBonus = vApplyHealPerkBonus,
       at_ApplyStaminaPerkBonus = vApplyStaminaPerkBonus\<rparr>
   }"

lemma codes_add_target [codec_intros]:
  "codes (add_target_serialize x) add_target_deserialize x"
  unfolding add_target_serialize_def add_target_deserialize_def
  by (rule codec_intros | simp)+

lemma safe_add_target [safe_intros]: "safe_reader add_target_deserialize"
  unfolding add_target_deserialize_def by (intro safe_intros)

interpretation add_target_wire: wire_codec add_target_serialize add_target_deserialize "\<lambda>_. True"
  by unfold_locales (simp_all add: codes_add_target safe_add_target)


record remove_spell =
  rs_TargetId :: "u32"
  rs_SpellId :: "game_id"

definition remove_spell_serialize :: "remove_spell \<Rightarrow> (writer, unit) state" where
  "remove_spell_serialize x = do {
     write_u32 (rs_TargetId x);
     game_id_serialize (rs_SpellId x);
     State_Monad.return ()
   }"

definition remove_spell_deserialize :: "(reader, remove_spell) state" where
  "remove_spell_deserialize = do {
     vTargetId \<leftarrow> read_u32;
     vSpellId \<leftarrow> game_id_deserialize;
     State_Monad.return \<lparr>rs_TargetId = vTargetId, rs_SpellId = vSpellId\<rparr>
   }"

lemma codes_remove_spell [codec_intros]:
  "codes (remove_spell_serialize x) remove_spell_deserialize x"
  unfolding remove_spell_serialize_def remove_spell_deserialize_def
  by (rule codec_intros | simp)+

lemma safe_remove_spell [safe_intros]: "safe_reader remove_spell_deserialize"
  unfolding remove_spell_deserialize_def by (intro safe_intros)

interpretation remove_spell_wire: wire_codec remove_spell_serialize remove_spell_deserialize "\<lambda>_. True"
  by unfold_locales (simp_all add: codes_remove_spell safe_remove_spell)


record active_effects =
  ae_SessionId :: "u32"
  ae_EffectIds :: "game_id list"

definition active_effects_serialize :: "active_effects \<Rightarrow> (writer, unit) state" where
  "active_effects_serialize x = do {
     write_u32 (ae_SessionId x);
     write_list game_id_serialize (ae_EffectIds x);
     State_Monad.return ()
   }"

definition active_effects_deserialize :: "(reader, active_effects) state" where
  "active_effects_deserialize = do {
     vSessionId \<leftarrow> read_u32;
     vEffectIds \<leftarrow> read_list_capped 256 game_id_deserialize;
     State_Monad.return \<lparr>ae_SessionId = vSessionId, ae_EffectIds = vEffectIds\<rparr>
   }"

definition active_effects_valid :: "active_effects \<Rightarrow> bool" where
  "active_effects_valid x \<longleftrightarrow> length (ae_EffectIds x) < 257"

lemma codes_active_effects [codec_intros]:
  "active_effects_valid x \<Longrightarrow> codes (active_effects_serialize x) active_effects_deserialize x"
  unfolding active_effects_serialize_def active_effects_deserialize_def active_effects_valid_def
  by (rule codec_intros | simp)+

lemma safe_active_effects [safe_intros]: "safe_reader active_effects_deserialize"
  unfolding active_effects_deserialize_def by (intro safe_intros)

interpretation active_effects_wire: wire_codec active_effects_serialize active_effects_deserialize "active_effects_valid"
  by unfold_locales (simp_all add: codes_active_effects safe_active_effects)


record effect_flash =
  ef_SessionId :: "u32"
  ef_EffectId :: "game_id"

definition effect_flash_serialize :: "effect_flash \<Rightarrow> (writer, unit) state" where
  "effect_flash_serialize x = do {
     write_u32 (ef_SessionId x);
     game_id_serialize (ef_EffectId x);
     State_Monad.return ()
   }"

definition effect_flash_deserialize :: "(reader, effect_flash) state" where
  "effect_flash_deserialize = do {
     vSessionId \<leftarrow> read_u32;
     vEffectId \<leftarrow> game_id_deserialize;
     State_Monad.return \<lparr>ef_SessionId = vSessionId, ef_EffectId = vEffectId\<rparr>
   }"

lemma codes_effect_flash [codec_intros]:
  "codes (effect_flash_serialize x) effect_flash_deserialize x"
  unfolding effect_flash_serialize_def effect_flash_deserialize_def
  by (rule codec_intros | simp)+

lemma safe_effect_flash [safe_intros]: "safe_reader effect_flash_deserialize"
  unfolding effect_flash_deserialize_def by (intro safe_intros)

interpretation effect_flash_wire: wire_codec effect_flash_serialize effect_flash_deserialize "\<lambda>_. True"
  by unfold_locales (simp_all add: codes_effect_flash safe_effect_flash)


section \<open>Actors and players\<close>

record player_name =
  pn_PlayerId :: "u32"
  pn_Name :: "string"

definition player_name_serialize :: "player_name \<Rightarrow> (writer, unit) state" where
  "player_name_serialize x = do {
     write_u32 (pn_PlayerId x);
     write_string (pn_Name x);
     State_Monad.return ()
   }"

definition player_name_deserialize :: "(reader, player_name) state" where
  "player_name_deserialize = do {
     vPlayerId \<leftarrow> read_u32;
     vName \<leftarrow> read_string;
     State_Monad.return \<lparr>pn_PlayerId = vPlayerId, pn_Name = vName\<rparr>
   }"

definition player_name_valid :: "player_name \<Rightarrow> bool" where
  "player_name_valid x \<longleftrightarrow> length (pn_Name x) < 65536"

lemma codes_player_name [codec_intros]:
  "player_name_valid x \<Longrightarrow> codes (player_name_serialize x) player_name_deserialize x"
  unfolding player_name_serialize_def player_name_deserialize_def player_name_valid_def
  by (rule codec_intros | simp)+

lemma safe_player_name [safe_intros]: "safe_reader player_name_deserialize"
  unfolding player_name_deserialize_def by (intro safe_intros)

interpretation player_name_wire: wire_codec player_name_serialize player_name_deserialize "player_name_valid"
  by unfold_locales (simp_all add: codes_player_name safe_player_name)


record actor_name =
  an_ActorId :: "u32"
  an_Name :: "string"

definition actor_name_serialize :: "actor_name \<Rightarrow> (writer, unit) state" where
  "actor_name_serialize x = do {
     write_u32 (an_ActorId x);
     write_string (an_Name x);
     State_Monad.return ()
   }"

definition actor_name_deserialize :: "(reader, actor_name) state" where
  "actor_name_deserialize = do {
     vActorId \<leftarrow> read_u32;
     vName \<leftarrow> read_string;
     State_Monad.return \<lparr>an_ActorId = vActorId, an_Name = vName\<rparr>
   }"

definition actor_name_valid :: "actor_name \<Rightarrow> bool" where
  "actor_name_valid x \<longleftrightarrow> length (an_Name x) < 65536"

lemma codes_actor_name [codec_intros]:
  "actor_name_valid x \<Longrightarrow> codes (actor_name_serialize x) actor_name_deserialize x"
  unfolding actor_name_serialize_def actor_name_deserialize_def actor_name_valid_def
  by (rule codec_intros | simp)+

lemma safe_actor_name [safe_intros]: "safe_reader actor_name_deserialize"
  unfolding actor_name_deserialize_def by (intro safe_intros)

interpretation actor_name_wire: wire_codec actor_name_serialize actor_name_deserialize "actor_name_valid"
  by unfold_locales (simp_all add: codes_actor_name safe_actor_name)


record mount =
  mo_RiderId :: "u32"
  mo_MountId :: "u32"

definition mount_serialize :: "mount \<Rightarrow> (writer, unit) state" where
  "mount_serialize x = do {
     write_u32 (mo_RiderId x);
     write_u32 (mo_MountId x);
     State_Monad.return ()
   }"

definition mount_deserialize :: "(reader, mount) state" where
  "mount_deserialize = do {
     vRiderId \<leftarrow> read_u32;
     vMountId \<leftarrow> read_u32;
     State_Monad.return \<lparr>mo_RiderId = vRiderId, mo_MountId = vMountId\<rparr>
   }"

lemma codes_mount [codec_intros]:
  "codes (mount_serialize x) mount_deserialize x"
  unfolding mount_serialize_def mount_deserialize_def
  by (rule codec_intros | simp)+

lemma safe_mount [safe_intros]: "safe_reader mount_deserialize"
  unfolding mount_deserialize_def by (intro safe_intros)

interpretation mount_wire: wire_codec mount_serialize mount_deserialize "\<lambda>_. True"
  by unfold_locales (simp_all add: codes_mount safe_mount)


record dismount =
  dm_Mount :: "mount"
  dm_Whereabouts :: "actor_whereabouts"

definition dismount_serialize :: "dismount \<Rightarrow> (writer, unit) state" where
  "dismount_serialize x = do {
     mount_serialize (dm_Mount x);
     actor_whereabouts_serialize (dm_Whereabouts x);
     State_Monad.return ()
   }"

definition dismount_deserialize :: "(reader, dismount) state" where
  "dismount_deserialize = do {
     vMount \<leftarrow> mount_deserialize;
     vWhereabouts \<leftarrow> actor_whereabouts_deserialize;
     State_Monad.return \<lparr>dm_Mount = vMount, dm_Whereabouts = vWhereabouts\<rparr>
   }"

definition dismount_valid :: "dismount \<Rightarrow> bool" where
  "dismount_valid x \<longleftrightarrow> actor_whereabouts_valid (dm_Whereabouts x)"

lemma codes_dismount [codec_intros]:
  "dismount_valid x \<Longrightarrow> codes (dismount_serialize x) dismount_deserialize x"
  unfolding dismount_serialize_def dismount_deserialize_def dismount_valid_def
  by (rule codec_intros | simp)+

lemma safe_dismount [safe_intros]: "safe_reader dismount_deserialize"
  unfolding dismount_deserialize_def by (intro safe_intros)

interpretation dismount_wire: wire_codec dismount_serialize dismount_deserialize "dismount_valid"
  by unfold_locales (simp_all add: codes_dismount safe_dismount)


record ai_state =
  ais_SessionId :: "u32"
  ais_State :: "actor_ai_state"

definition ai_state_serialize :: "ai_state \<Rightarrow> (writer, unit) state" where
  "ai_state_serialize x = do {
     write_u32 (ais_SessionId x);
     actor_ai_state_serialize (ais_State x);
     State_Monad.return ()
   }"

definition ai_state_deserialize :: "(reader, ai_state) state" where
  "ai_state_deserialize = do {
     vSessionId \<leftarrow> read_u32;
     vState \<leftarrow> actor_ai_state_deserialize;
     State_Monad.return \<lparr>ais_SessionId = vSessionId, ais_State = vState\<rparr>
   }"

definition ai_state_valid :: "ai_state \<Rightarrow> bool" where
  "ai_state_valid x \<longleftrightarrow> actor_ai_state_valid (ais_State x)"

lemma codes_ai_state [codec_intros]:
  "ai_state_valid x \<Longrightarrow> codes (ai_state_serialize x) ai_state_deserialize x"
  unfolding ai_state_serialize_def ai_state_deserialize_def ai_state_valid_def
  by (rule codec_intros | simp)+

lemma safe_ai_state [safe_intros]: "safe_reader ai_state_deserialize"
  unfolding ai_state_deserialize_def by (intro safe_intros)

interpretation ai_state_wire: wire_codec ai_state_serialize ai_state_deserialize "ai_state_valid"
  by unfold_locales (simp_all add: codes_ai_state safe_ai_state)


record dialogue =
  dl_SessionId :: "u32"
  dl_SoundFilename :: "string"

definition dialogue_serialize :: "dialogue \<Rightarrow> (writer, unit) state" where
  "dialogue_serialize x = do {
     write_u32 (dl_SessionId x);
     write_string (dl_SoundFilename x);
     State_Monad.return ()
   }"

definition dialogue_deserialize :: "(reader, dialogue) state" where
  "dialogue_deserialize = do {
     vSessionId \<leftarrow> read_u32;
     vSoundFilename \<leftarrow> read_string;
     State_Monad.return \<lparr>dl_SessionId = vSessionId, dl_SoundFilename = vSoundFilename\<rparr>
   }"

definition dialogue_valid :: "dialogue \<Rightarrow> bool" where
  "dialogue_valid x \<longleftrightarrow> length (dl_SoundFilename x) < 65536"

lemma codes_dialogue [codec_intros]:
  "dialogue_valid x \<Longrightarrow> codes (dialogue_serialize x) dialogue_deserialize x"
  unfolding dialogue_serialize_def dialogue_deserialize_def dialogue_valid_def
  by (rule codec_intros | simp)+

lemma safe_dialogue [safe_intros]: "safe_reader dialogue_deserialize"
  unfolding dialogue_deserialize_def by (intro safe_intros)

interpretation dialogue_wire: wire_codec dialogue_serialize dialogue_deserialize "dialogue_valid"
  by unfold_locales (simp_all add: codes_dialogue safe_dialogue)


record subtitle =
  st_SessionId :: "u32"
  st_Text :: "string"
  st_TopicFormId :: "u32"
  st_Force :: "bool"

definition subtitle_serialize :: "subtitle \<Rightarrow> (writer, unit) state" where
  "subtitle_serialize x = do {
     write_u32 (st_SessionId x);
     write_string (st_Text x);
     write_u32 (st_TopicFormId x);
     write_bool (st_Force x);
     State_Monad.return ()
   }"

definition subtitle_deserialize :: "(reader, subtitle) state" where
  "subtitle_deserialize = do {
     vSessionId \<leftarrow> read_u32;
     vText \<leftarrow> read_string;
     vTopicFormId \<leftarrow> read_u32;
     vForce \<leftarrow> read_bool;
     State_Monad.return \<lparr>st_SessionId = vSessionId, st_Text = vText, st_TopicFormId = vTopicFormId,
       st_Force = vForce\<rparr>
   }"

definition subtitle_valid :: "subtitle \<Rightarrow> bool" where
  "subtitle_valid x \<longleftrightarrow> length (st_Text x) < 65536"

lemma codes_subtitle [codec_intros]:
  "subtitle_valid x \<Longrightarrow> codes (subtitle_serialize x) subtitle_deserialize x"
  unfolding subtitle_serialize_def subtitle_deserialize_def subtitle_valid_def
  by (rule codec_intros | simp)+

lemma safe_subtitle [safe_intros]: "safe_reader subtitle_deserialize"
  unfolding subtitle_deserialize_def by (intro safe_intros)

interpretation subtitle_wire: wire_codec subtitle_serialize subtitle_deserialize "subtitle_valid"
  by unfold_locales (simp_all add: codes_subtitle safe_subtitle)


record bug_report =
  br_Text :: "string"
  br_Id :: "string"
  br_By :: "string"
  br_SessionTick :: "u64"

definition bug_report_serialize :: "bug_report \<Rightarrow> (writer, unit) state" where
  "bug_report_serialize x = do {
     write_string (br_Text x);
     write_string (br_Id x);
     write_string (br_By x);
     write_varint (br_SessionTick x);
     State_Monad.return ()
   }"

definition bug_report_deserialize :: "(reader, bug_report) state" where
  "bug_report_deserialize = do {
     vText \<leftarrow> read_string;
     vId \<leftarrow> read_string;
     vBy \<leftarrow> read_string;
     vSessionTick \<leftarrow> read_varint;
     State_Monad.return \<lparr>br_Text = vText, br_Id = vId, br_By = vBy, br_SessionTick = vSessionTick\<rparr>
   }"

definition bug_report_valid :: "bug_report \<Rightarrow> bool" where
  "bug_report_valid x \<longleftrightarrow> length (br_Text x) < 65536 \<and>
     length (br_Id x) < 65536 \<and>
     length (br_By x) < 65536"

lemma codes_bug_report [codec_intros]:
  "bug_report_valid x \<Longrightarrow> codes (bug_report_serialize x) bug_report_deserialize x"
  unfolding bug_report_serialize_def bug_report_deserialize_def bug_report_valid_def
  by (rule codec_intros | simp)+

lemma safe_bug_report [safe_intros]: "safe_reader bug_report_deserialize"
  unfolding bug_report_deserialize_def by (intro safe_intros)

interpretation bug_report_wire: wire_codec bug_report_serialize bug_report_deserialize "bug_report_valid"
  by unfold_locales (simp_all add: codes_bug_report safe_bug_report)


record dialogue_skip =
  dsk_Conversation :: "u32"
  dsk_Step :: "u32"

definition dialogue_skip_serialize :: "dialogue_skip \<Rightarrow> (writer, unit) state" where
  "dialogue_skip_serialize x = do {
     write_u32 (dsk_Conversation x);
     write_u32 (dsk_Step x);
     State_Monad.return ()
   }"

definition dialogue_skip_deserialize :: "(reader, dialogue_skip) state" where
  "dialogue_skip_deserialize = do {
     vConversation \<leftarrow> read_u32;
     vStep \<leftarrow> read_u32;
     State_Monad.return \<lparr>dsk_Conversation = vConversation, dsk_Step = vStep\<rparr>
   }"

lemma codes_dialogue_skip [codec_intros]:
  "codes (dialogue_skip_serialize x) dialogue_skip_deserialize x"
  unfolding dialogue_skip_serialize_def dialogue_skip_deserialize_def
  by (rule codec_intros | simp)+

lemma safe_dialogue_skip [safe_intros]: "safe_reader dialogue_skip_deserialize"
  unfolding dialogue_skip_deserialize_def by (intro safe_intros)

interpretation dialogue_skip_wire: wire_codec dialogue_skip_serialize dialogue_skip_deserialize "\<lambda>_. True"
  by unfold_locales (simp_all add: codes_dialogue_skip safe_dialogue_skip)


record dialogue_highlight =
  dh_Conversation :: "u32"
  dh_Step :: "u32"
  dh_Index :: "u32"
  dh_PlayerId :: "u32"

definition dialogue_highlight_serialize :: "dialogue_highlight \<Rightarrow> (writer, unit) state" where
  "dialogue_highlight_serialize x = do {
     write_u32 (dh_Conversation x);
     write_u32 (dh_Step x);
     write_u32 (dh_Index x);
     write_u32 (dh_PlayerId x);
     State_Monad.return ()
   }"

definition dialogue_highlight_deserialize :: "(reader, dialogue_highlight) state" where
  "dialogue_highlight_deserialize = do {
     vConversation \<leftarrow> read_u32;
     vStep \<leftarrow> read_u32;
     vIndex \<leftarrow> read_u32;
     vPlayerId \<leftarrow> read_u32;
     State_Monad.return \<lparr>dh_Conversation = vConversation, dh_Step = vStep, dh_Index = vIndex,
       dh_PlayerId = vPlayerId\<rparr>
   }"

lemma codes_dialogue_highlight [codec_intros]:
  "codes (dialogue_highlight_serialize x) dialogue_highlight_deserialize x"
  unfolding dialogue_highlight_serialize_def dialogue_highlight_deserialize_def
  by (rule codec_intros | simp)+

lemma safe_dialogue_highlight [safe_intros]: "safe_reader dialogue_highlight_deserialize"
  unfolding dialogue_highlight_deserialize_def by (intro safe_intros)

interpretation dialogue_highlight_wire: wire_codec dialogue_highlight_serialize dialogue_highlight_deserialize "\<lambda>_. True"
  by unfold_locales (simp_all add: codes_dialogue_highlight safe_dialogue_highlight)


section \<open>Script calls\<close>

text \<open>Two bits of \<open>CallTo\<close>: a fourth value is read as the last.\<close>

fun call_to_bits :: "call_to \<Rightarrow> u64" where
  "call_to_bits ToHost = 0"
| "call_to_bits ToOwner = 1"
| "call_to_bits ToOthers = 2"

definition write_call_to :: "call_to \<Rightarrow> (writer, bool) state" where
  "write_call_to t = write_bits (call_to_bits t) 2"

definition read_call_to :: "(reader, call_to) state" where
  "read_call_to = do {
     to \<leftarrow> read_uint 2;
     State_Monad.return (if to \<le> 2 then (if to = 0 then ToHost else if to = 1 then ToOwner else ToOthers)
       else ToOthers)
   }"

lemma codes_call_to [codec_intros]: "codes (write_call_to t) read_call_to t"
  unfolding write_call_to_def read_call_to_def
  by (rule codes_last [OF codes_uint]) (cases t; simp add: take_bit_eq_mod)+

lemma safe_call_to [safe_intros]: "safe_reader read_call_to"
  unfolding read_call_to_def by (intro safe_intros)

text \<open>A result of a kind this build does not know is None.\<close>

definition script_value_or_none :: "(reader, script_value) state" where
  "script_value_or_none = do {
     v \<leftarrow> script_value_deserialize;
     State_Monad.return (case v of None \<Rightarrow> SVNone | Some x \<Rightarrow> x)
   }"

lemma codes_script_value_or_none [codec_intros]:
  "script_value_valid v \<Longrightarrow> codes (script_value_serialize v) script_value_or_none v"
  unfolding script_value_or_none_def
  by (rule codes_last [OF codes_script_value]) simp_all

lemma safe_script_value_or_none [safe_intros]: "safe_reader script_value_or_none"
  unfolding script_value_or_none_def by (intro safe_intros)

record routed_call =
  rc_To :: "call_to"
  rc_SessionId :: "u32"
  rc_Source :: "u32"
  rc_ReplyId :: "u32"
  rc_Call :: "script_call"

definition routed_call_serialize :: "routed_call \<Rightarrow> (writer, unit) state" where
  "routed_call_serialize x = do {
     write_call_to (rc_To x);
     write_u32 (rc_SessionId x);
     write_u32 (rc_Source x);
     write_u32 (rc_ReplyId x);
     script_call_serialize (rc_Call x);
     State_Monad.return ()
   }"

definition routed_call_deserialize :: "(reader, routed_call) state" where
  "routed_call_deserialize = do {
     vTo \<leftarrow> read_call_to;
     vSessionId \<leftarrow> read_u32;
     vSource \<leftarrow> read_u32;
     vReplyId \<leftarrow> read_u32;
     vCall \<leftarrow> script_call_deserialize;
     State_Monad.return \<lparr>rc_To = vTo, rc_SessionId = vSessionId, rc_Source = vSource, rc_ReplyId = vReplyId,
       rc_Call = vCall\<rparr>
   }"

definition routed_call_valid :: "routed_call \<Rightarrow> bool" where
  "routed_call_valid x \<longleftrightarrow> script_call_valid (rc_Call x)"

lemma codes_routed_call [codec_intros]:
  "routed_call_valid x \<Longrightarrow> codes (routed_call_serialize x) routed_call_deserialize x"
  unfolding routed_call_serialize_def routed_call_deserialize_def routed_call_valid_def
  by (rule codec_intros | simp)+

lemma safe_routed_call [safe_intros]: "safe_reader routed_call_deserialize"
  unfolding routed_call_deserialize_def by (intro safe_intros)

interpretation routed_call_wire: wire_codec routed_call_serialize routed_call_deserialize "routed_call_valid"
  by unfold_locales (simp_all add: codes_routed_call safe_routed_call)


record call_ended =
  ce_Source :: "u32"
  ce_Key :: "u32"
  ce_Result :: "script_value"

definition call_ended_serialize :: "call_ended \<Rightarrow> (writer, unit) state" where
  "call_ended_serialize x = do {
     write_u32 (ce_Source x);
     write_u32 (ce_Key x);
     script_value_serialize (ce_Result x);
     State_Monad.return ()
   }"

definition call_ended_deserialize :: "(reader, call_ended) state" where
  "call_ended_deserialize = do {
     vSource \<leftarrow> read_u32;
     vKey \<leftarrow> read_u32;
     vResult \<leftarrow> script_value_or_none;
     State_Monad.return \<lparr>ce_Source = vSource, ce_Key = vKey, ce_Result = vResult\<rparr>
   }"

definition call_ended_valid :: "call_ended \<Rightarrow> bool" where
  "call_ended_valid x \<longleftrightarrow> script_value_valid (ce_Result x)"

lemma codes_call_ended [codec_intros]:
  "call_ended_valid x \<Longrightarrow> codes (call_ended_serialize x) call_ended_deserialize x"
  unfolding call_ended_serialize_def call_ended_deserialize_def call_ended_valid_def
  by (rule codec_intros | simp)+

lemma safe_call_ended [safe_intros]: "safe_reader call_ended_deserialize"
  unfolding call_ended_deserialize_def by (intro safe_intros)

interpretation call_ended_wire: wire_codec call_ended_serialize call_ended_deserialize "call_ended_valid"
  by unfold_locales (simp_all add: codes_call_ended safe_call_ended)


record player_native_result =
  pnr_ReplyId :: "u32"
  pnr_Result :: "script_value"

definition player_native_result_serialize :: "player_native_result \<Rightarrow> (writer, unit) state" where
  "player_native_result_serialize x = do {
     write_u32 (pnr_ReplyId x);
     script_value_serialize (pnr_Result x);
     State_Monad.return ()
   }"

definition player_native_result_deserialize :: "(reader, player_native_result) state" where
  "player_native_result_deserialize = do {
     vReplyId \<leftarrow> read_u32;
     vResult \<leftarrow> script_value_or_none;
     State_Monad.return \<lparr>pnr_ReplyId = vReplyId, pnr_Result = vResult\<rparr>
   }"

definition player_native_result_valid :: "player_native_result \<Rightarrow> bool" where
  "player_native_result_valid x \<longleftrightarrow> script_value_valid (pnr_Result x)"

lemma codes_player_native_result [codec_intros]:
  "player_native_result_valid x \<Longrightarrow> codes (player_native_result_serialize x) player_native_result_deserialize x"
  unfolding player_native_result_serialize_def player_native_result_deserialize_def player_native_result_valid_def
  by (rule codec_intros | simp)+

lemma safe_player_native_result [safe_intros]: "safe_reader player_native_result_deserialize"
  unfolding player_native_result_deserialize_def by (intro safe_intros)

interpretation player_native_result_wire: wire_codec player_native_result_serialize player_native_result_deserialize "player_native_result_valid"
  by unfold_locales (simp_all add: codes_player_native_result safe_player_native_result)


section \<open>Bodies\<close>

text \<open>A count past the limit ends the reading, with no bodies (and what follows left as it was).\<close>

definition max_bodies :: nat where "max_bodies = 4096"

definition read_bodies :: "(reader, 'a) state \<Rightarrow> (reader, 'a list) state" where
  "read_bodies d = do {
     n \<leftarrow> read_varint;
     (if unat n > max_bodies then State_Monad.return [] else read_times (unat n) d)
   }"

lemma codes_bodies [codec_intros]:
  assumes "length xs \<le> max_bodies" and "\<And>x. x \<in> set xs \<Longrightarrow> codes (s x) d x"
  shows "codes (write_list s xs) (read_bodies d) xs"
proof -
  have n: "unat (of_nat (length xs) :: u64) = length xs"
    using assms(1) by (simp add: unat_count max_bodies_def)
  have "codes (write_each s xs) (read_times (unat (of_nat (length xs) :: u64)) d) xs"
    by (rule codes_each [OF assms(2) n])
  then have "codes (write_each s xs)
      (if unat (of_nat (length xs) :: u64) > max_bodies then State_Monad.return []
       else read_times (unat (of_nat (length xs) :: u64)) d) xs"
    using assms(1) by (simp only: n not_less [symmetric] if_False simp_thms)
  then show ?thesis
    unfolding write_list_def read_bodies_def by (rule codes_bind [OF codes_varint])
qed

lemma safe_bodies [safe_intros]: "safe_reader d \<Longrightarrow> safe_reader (read_bodies d)"
  unfolding read_bodies_def by (intro safe_intros)

record body_rests =
  bre_Tick :: "u64"
  bre_Rests :: "body_pose list"

definition body_rests_serialize :: "body_rests \<Rightarrow> (writer, unit) state" where
  "body_rests_serialize x = do {
     write_varint (bre_Tick x);
     write_list body_pose_serialize (bre_Rests x);
     State_Monad.return ()
   }"

definition body_rests_deserialize :: "(reader, body_rests) state" where
  "body_rests_deserialize = do {
     vTick \<leftarrow> read_varint;
     vRests \<leftarrow> read_bodies body_pose_deserialize;
     State_Monad.return \<lparr>bre_Tick = vTick, bre_Rests = vRests\<rparr>
   }"

definition body_rests_valid :: "body_rests \<Rightarrow> bool" where
  "body_rests_valid x \<longleftrightarrow> length (bre_Rests x) \<le> max_bodies \<and> (\<forall>x \<in> set (bre_Rests x). body_pose_valid x)"

lemma codes_body_rests [codec_intros]:
  "body_rests_valid x \<Longrightarrow> codes (body_rests_serialize x) body_rests_deserialize x"
  unfolding body_rests_serialize_def body_rests_deserialize_def body_rests_valid_def
  by (rule codec_intros | simp)+

lemma safe_body_rests [safe_intros]: "safe_reader body_rests_deserialize"
  unfolding body_rests_deserialize_def by (intro safe_intros)

interpretation body_rests_wire: wire_codec body_rests_serialize body_rests_deserialize "body_rests_valid"
  by unfold_locales (simp_all add: codes_body_rests safe_body_rests)


record body_pushes =
  bpus_Pushes :: "body_push list"

definition body_pushes_serialize :: "body_pushes \<Rightarrow> (writer, unit) state" where
  "body_pushes_serialize x = do {
     write_list body_push_serialize (bpus_Pushes x);
     State_Monad.return ()
   }"

definition body_pushes_deserialize :: "(reader, body_pushes) state" where
  "body_pushes_deserialize = do {
     vPushes \<leftarrow> read_bodies body_push_deserialize;
     State_Monad.return \<lparr>bpus_Pushes = vPushes\<rparr>
   }"

definition body_pushes_valid :: "body_pushes \<Rightarrow> bool" where
  "body_pushes_valid x \<longleftrightarrow> length (bpus_Pushes x) \<le> max_bodies"

lemma codes_body_pushes [codec_intros]:
  "body_pushes_valid x \<Longrightarrow> codes (body_pushes_serialize x) body_pushes_deserialize x"
  unfolding body_pushes_serialize_def body_pushes_deserialize_def body_pushes_valid_def
  by (rule codec_intros | simp)+

lemma safe_body_pushes [safe_intros]: "safe_reader body_pushes_deserialize"
  unfolding body_pushes_deserialize_def by (intro safe_intros)

interpretation body_pushes_wire: wire_codec body_pushes_serialize body_pushes_deserialize "body_pushes_valid"
  by unfold_locales (simp_all add: codes_body_pushes safe_body_pushes)


section \<open>What the party shares\<close>

record party_gold =
  pg_Gold :: "u32"
  pg_Shown :: "i32"

definition party_gold_serialize :: "party_gold \<Rightarrow> (writer, unit) state" where
  "party_gold_serialize x = do {
     write_u32 (pg_Gold x);
     write_u32 (pg_Shown x);
     State_Monad.return ()
   }"

definition party_gold_deserialize :: "(reader, party_gold) state" where
  "party_gold_deserialize = do {
     vGold \<leftarrow> read_u32;
     vShown \<leftarrow> read_u32;
     State_Monad.return \<lparr>pg_Gold = vGold, pg_Shown = vShown\<rparr>
   }"

lemma codes_party_gold [codec_intros]:
  "codes (party_gold_serialize x) party_gold_deserialize x"
  unfolding party_gold_serialize_def party_gold_deserialize_def
  by (rule codec_intros | simp)+

lemma safe_party_gold [safe_intros]: "safe_reader party_gold_deserialize"
  unfolding party_gold_deserialize_def by (intro safe_intros)

interpretation party_gold_wire: wire_codec party_gold_serialize party_gold_deserialize "\<lambda>_. True"
  by unfold_locales (simp_all add: codes_party_gold safe_party_gold)


record party_item =
  pi_Item :: "entry"
  pi_Shown :: "i32"

definition party_item_serialize :: "party_item \<Rightarrow> (writer, unit) state" where
  "party_item_serialize x = do {
     entry_serialize (pi_Item x);
     write_u32 (pi_Shown x);
     State_Monad.return ()
   }"

definition party_item_deserialize :: "(reader, party_item) state" where
  "party_item_deserialize = do {
     vItem \<leftarrow> entry_deserialize new_entry;
     vShown \<leftarrow> read_u32;
     State_Monad.return \<lparr>pi_Item = vItem, pi_Shown = vShown\<rparr>
   }"

definition party_item_valid :: "party_item \<Rightarrow> bool" where
  "party_item_valid x \<longleftrightarrow> entry_valid (pi_Item x)"

lemma codes_party_item [codec_intros]:
  "party_item_valid x \<Longrightarrow> codes (party_item_serialize x) party_item_deserialize x"
  unfolding party_item_serialize_def party_item_deserialize_def party_item_valid_def
  by (rule codec_intros | simp)+

lemma safe_party_item [safe_intros]: "safe_reader party_item_deserialize"
  unfolding party_item_deserialize_def by (intro safe_intros)

interpretation party_item_wire: wire_codec party_item_serialize party_item_deserialize "party_item_valid"
  by unfold_locales (simp_all add: codes_party_item safe_party_item)


record party_items =
  pis_Items :: "entry list"

definition party_items_serialize :: "party_items \<Rightarrow> (writer, unit) state" where
  "party_items_serialize x = do {
     write_list entry_serialize (pis_Items x);
     State_Monad.return ()
   }"

definition party_items_deserialize :: "(reader, party_items) state" where
  "party_items_deserialize = do {
     vItems \<leftarrow> read_list (entry_deserialize new_entry);
     State_Monad.return \<lparr>pis_Items = vItems\<rparr>
   }"

definition party_items_valid :: "party_items \<Rightarrow> bool" where
  "party_items_valid x \<longleftrightarrow> length (pis_Items x) < 18446744073709551616 \<and> (\<forall>x \<in> set (pis_Items x). entry_valid (x))"

lemma codes_party_items [codec_intros]:
  "party_items_valid x \<Longrightarrow> codes (party_items_serialize x) party_items_deserialize x"
  unfolding party_items_serialize_def party_items_deserialize_def party_items_valid_def
  by (rule codec_intros | simp)+

lemma safe_party_items [safe_intros]: "safe_reader party_items_deserialize"
  unfolding party_items_deserialize_def by (intro safe_intros)

interpretation party_items_wire: wire_codec party_items_serialize party_items_deserialize "party_items_valid"
  by unfold_locales (simp_all add: codes_party_items safe_party_items)


record system_quests =
  sqp_Quests :: "game_id list"

definition system_quests_serialize :: "system_quests \<Rightarrow> (writer, unit) state" where
  "system_quests_serialize x = do {
     write_list game_id_serialize (sqp_Quests x);
     State_Monad.return ()
   }"

definition system_quests_deserialize :: "(reader, system_quests) state" where
  "system_quests_deserialize = do {
     vQuests \<leftarrow> read_list_masked 16 game_id_deserialize;
     State_Monad.return \<lparr>sqp_Quests = vQuests\<rparr>
   }"

definition system_quests_valid :: "system_quests \<Rightarrow> bool" where
  "system_quests_valid x \<longleftrightarrow> length (sqp_Quests x) < 65536"

lemma codes_system_quests [codec_intros]:
  "system_quests_valid x \<Longrightarrow> codes (system_quests_serialize x) system_quests_deserialize x"
  unfolding system_quests_serialize_def system_quests_deserialize_def system_quests_valid_def
  by (rule codec_intros | simp)+

lemma safe_system_quests [safe_intros]: "safe_reader system_quests_deserialize"
  unfolding system_quests_deserialize_def by (intro safe_intros)

interpretation system_quests_wire: wire_codec system_quests_serialize system_quests_deserialize "system_quests_valid"
  by unfold_locales (simp_all add: codes_system_quests safe_system_quests)


record recipes =
  rcp_Known :: "recipe list"

definition recipes_serialize :: "recipes \<Rightarrow> (writer, unit) state" where
  "recipes_serialize x = do {
     write_list recipe_serialize (rcp_Known x);
     State_Monad.return ()
   }"

definition recipes_deserialize :: "(reader, recipes) state" where
  "recipes_deserialize = do {
     vKnown \<leftarrow> read_list_masked 16 recipe_deserialize;
     State_Monad.return \<lparr>rcp_Known = vKnown\<rparr>
   }"

definition recipes_valid :: "recipes \<Rightarrow> bool" where
  "recipes_valid x \<longleftrightarrow> length (rcp_Known x) < 65536 \<and> (\<forall>x \<in> set (rcp_Known x). recipe_valid (x))"

lemma codes_recipes [codec_intros]:
  "recipes_valid x \<Longrightarrow> codes (recipes_serialize x) recipes_deserialize x"
  unfolding recipes_serialize_def recipes_deserialize_def recipes_valid_def
  by (rule codec_intros | simp)+

lemma safe_recipes [safe_intros]: "safe_reader recipes_deserialize"
  unfolding recipes_deserialize_def by (intro safe_intros)

interpretation recipes_wire: wire_codec recipes_serialize recipes_deserialize "recipes_valid"
  by unfold_locales (simp_all add: codes_recipes safe_recipes)


text \<open>Gold001, the item the purse is made of.\<close>

definition gold_id :: game_id where
  "gold_id = \<lparr>gid_BaseId = 0xF, gid_ModId = 0\<rparr>"

end
