(* ===== verification/Save_Transfer.thy ===== *)
theory Save_Transfer
  imports Ordered_Map Structs
begin

text \<open>
  The host's save on its way to a joining game (\<open>Services/SaveTransfer\<close>): its two files packed, split into
  blocks at boundaries their content decides, the blocks the guest's last save has sent as a hash only,
  and put together again. SHA-256 (picosha2, Windows CNG) and snappy are parameters of the model.
\<close>

section \<open>A block on the wire\<close>

record save_chunk =
  ch_Offset :: "u32"
  ch_Total :: "u32"
  ch_RawSize :: "u32"
  ch_Hash :: "string"
  ch_Data :: "string"

definition save_chunk_serialize :: "save_chunk \<Rightarrow> (writer, unit) state" where
  "save_chunk_serialize x = do {
     write_u32 (ch_Offset x);
     write_u32 (ch_Total x);
     write_u32 (ch_RawSize x);
     write_string (ch_Hash x);
     write_string (ch_Data x);
     State_Monad.return ()
   }"

definition save_chunk_deserialize :: "(reader, save_chunk) state" where
  "save_chunk_deserialize = do {
     vOffset \<leftarrow> read_u32;
     vTotal \<leftarrow> read_u32;
     vRawSize \<leftarrow> read_u32;
     vHash \<leftarrow> read_string;
     vData \<leftarrow> read_string;
     State_Monad.return \<lparr>ch_Offset = vOffset, ch_Total = vTotal, ch_RawSize = vRawSize, ch_Hash = vHash,
       ch_Data = vData\<rparr>
   }"

definition save_chunk_valid :: "save_chunk \<Rightarrow> bool" where
  "save_chunk_valid x \<longleftrightarrow> length (ch_Hash x) < 65536 \<and>
     length (ch_Data x) < 65536"

lemma codes_save_chunk [codec_intros]:
  "save_chunk_valid x \<Longrightarrow> codes (save_chunk_serialize x) save_chunk_deserialize x"
  unfolding save_chunk_serialize_def save_chunk_deserialize_def save_chunk_valid_def
  by (rule codec_intros | simp)+

lemma safe_save_chunk [safe_intros]: "safe_reader save_chunk_deserialize"
  unfolding save_chunk_deserialize_def by (intro safe_intros)

interpretation save_chunk_wire: wire_codec save_chunk_serialize save_chunk_deserialize "save_chunk_valid"
  by unfold_locales (simp_all add: codes_save_chunk safe_save_chunk)


definition max_chunk_data :: nat where "max_chunk_data = 32 * 1024"
definition max_save :: nat where "max_save = 128 * 1024 * 1024"
definition min_block :: nat where "min_block = 8 * 1024"
definition max_block :: nat where "max_block = 24 * 1024"

text \<open>The third-party functions: SHA-256, and snappy's \<open>Compress\<close>, \<open>GetUncompressedLength\<close>, \<open>Uncompress\<close>.\<close>

record codec =
  cd_digest :: "string \<Rightarrow> string"
  cd_compress :: "string \<Rightarrow> string"
  cd_raw_length :: "string \<Rightarrow> nat option"
  cd_uncompress :: "string \<Rightarrow> string option"

text \<open>
  What is documented of them: a SHA-256 digest has 32 bytes; what snappy compresses is not empty, is at
  most \<open>32 + n + n / 6\<close> bytes (\<open>MaxCompressedLength\<close>), says its length and uncompresses to itself.
\<close>

definition codec_ok :: "codec \<Rightarrow> bool" where
  "codec_ok c \<longleftrightarrow> (\<forall>b. length (cd_digest c b) = 32 \<and>
     (length b \<le> max_block \<longrightarrow> cd_compress c b \<noteq> [] \<and>
       length (cd_compress c b) \<le> 32 + length b + length b div 6 \<and>
       cd_raw_length c (cd_compress c b) = Some (length b) \<and> cd_uncompress c (cd_compress c b) = Some b))"

section \<open>Packing\<close>

record save_files =
  svf_Game :: string
  svf_CoSave :: string

definition save_pack :: "save_files \<Rightarrow> string" where
  "save_pack f =
     (if length (svf_Game f) > max_save - 4 \<or> length (svf_CoSave f) > max_save - 4 - length (svf_Game f) then []
      else map byte_char (le_bytes 4 (of_nat (length (svf_Game f)) :: u32)) @ svf_Game f @ svf_CoSave f)"

definition save_unpack :: "string \<Rightarrow> save_files option" where
  "save_unpack s =
     (if length s < 4 \<or> length s > max_save then None
      else let game_size = unat (of_le_bytes (map char_byte (take 4 s)) :: u32)
           in if game_size > length s - 4 then None
              else Some \<lparr>svf_Game = take game_size (drop 4 s), svf_CoSave = drop (4 + game_size) s\<rparr>)"

section \<open>Blocks\<close>

text \<open>\<open>cGear\<close>'s entry for a byte.\<close>

definition gear :: "u8 \<Rightarrow> u64" where
  "gear i =
     (let v = ucast i + 0x9e3779b97f4a7c15;
          v = (v XOR drop_bit 30 v) * 0xbf58476d1ce4e5b9;
          v = (v XOR drop_bit 27 v) * 0x94d049bb133111eb
      in v XOR drop_bit 31 v)"

text \<open>
  The loop of \<open>Blocks\<close>: where the current block starts, the rolling hash, the block's bytes so far, and
  the bytes to come. What it visits: each block's offset and bytes.
\<close>

fun blocks_loop :: "nat \<Rightarrow> u64 \<Rightarrow> string \<Rightarrow> string \<Rightarrow> (nat \<times> string) list" where
  "blocks_loop start rolling block [] = []"
| "blocks_loop start rolling block (b # rest) =
     (let rolling = push_bit 1 rolling + gear (char_byte b);
          block = block @ [b];
          size = length block
      in if size = max_block \<or> (size \<ge> min_block \<and> rolling AND 0x1FFF = 0) \<or> rest = []
         then (start, block) # blocks_loop (start + size) 0 [] rest
         else blocks_loop start rolling block rest)"

definition blocks :: "string \<Rightarrow> (nat \<times> string) list" where
  "blocks s = blocks_loop 0 0 [] s"

definition make_chunk :: "codec \<Rightarrow> nat \<Rightarrow> nat \<times> string \<Rightarrow> save_chunk" where
  "make_chunk c whole b = (case b of (offset, block) \<Rightarrow>
     \<lparr>ch_Offset = of_nat offset, ch_Total = of_nat whole, ch_RawSize = of_nat (length block),
      ch_Hash = cd_digest c block, ch_Data = cd_compress c block\<rparr>)"

definition save_split :: "codec \<Rightarrow> string \<Rightarrow> save_chunk list" where
  "save_split c s = (if s = [] \<or> length s > max_save then [] else map (make_chunk c (length s)) (blocks s))"

section \<open>The guest's cache\<close>

record cache =
  ca_data :: string
  ca_blocks :: "(string \<times> nat \<times> nat) list"

definition cache_clear :: cache where
  "cache_clear = \<lparr>ca_data = [], ca_blocks = []\<rparr>"

definition cache_load :: "codec \<Rightarrow> save_files \<Rightarrow> cache" where
  "cache_load c f =
     (let packed = save_pack f
      in \<lparr>ca_data = packed,
          ca_blocks = fold (\<lambda>(offset, block). map_insert (cd_digest c block) (offset, length block))
            (blocks packed) []\<rparr>)"

definition cache_hashes :: "cache \<Rightarrow> string list" where
  "cache_hashes k = map fst (ca_blocks k)"

definition cache_find :: "cache \<Rightarrow> string \<Rightarrow> string option" where
  "cache_find k h = (case map_of (ca_blocks k) h of None \<Rightarrow> None
     | Some (offset, n) \<Rightarrow> Some (take n (drop offset (ca_data k))))"

section \<open>Putting blocks together\<close>

record assembly =
  as_data :: string
  as_total :: u32

definition new_assembly :: assembly where
  "new_assembly = \<lparr>as_data = [], as_total = 0\<rparr>"

definition assembly_complete :: "assembly \<Rightarrow> bool" where
  "assembly_complete a \<longleftrightarrow> as_total a \<noteq> 0 \<and> length (as_data a) = unat (as_total a)"

text \<open>The block's bytes: the cache's for an empty one, else uncompressed.\<close>

definition chunk_raw :: "codec \<Rightarrow> cache option \<Rightarrow> save_chunk \<Rightarrow> string option" where
  "chunk_raw c k x =
     (if ch_Data x = [] then (case k of None \<Rightarrow> None | Some k \<Rightarrow> cache_find k (ch_Hash x))
      else case cd_raw_length c (ch_Data x) of None \<Rightarrow> None
        | Some n \<Rightarrow> if n \<noteq> unat (ch_RawSize x) then None else cd_uncompress c (ch_Data x))"

text \<open>\<open>Assembly::Add\<close>: its result and the assembly after it. Sizes compare as \<open>size_t\<close>.\<close>

definition assembly_add :: "codec \<Rightarrow> cache option \<Rightarrow> save_chunk \<Rightarrow> assembly \<Rightarrow> bool \<times> assembly" where
  "assembly_add c k x a =
     (if ch_Total x = 0 \<or> unat (ch_Total x) > max_save \<or> ch_RawSize x = 0 \<or> unat (ch_RawSize x) > max_block \<or>
         length (ch_Hash x) \<noteq> 32 \<or> length (ch_Data x) > max_chunk_data
      then (False, a)
      else let a = (if ch_Offset x = 0 then \<lparr>as_data = [], as_total = ch_Total x\<rparr> else a)
           in if ch_Total x \<noteq> as_total a \<or> unat (ch_Offset x) \<noteq> length (as_data a) \<or>
                 (ucast (ch_RawSize x) :: u64) > ucast (as_total a) - of_nat (length (as_data a))
              then (False, a)
              else case chunk_raw c k x of None \<Rightarrow> (False, a)
                | Some raw \<Rightarrow>
                    if length raw \<noteq> unat (ch_RawSize x) \<or> cd_digest c raw \<noteq> ch_Hash x then (False, a)
                    else (True, a\<lparr>as_data := as_data a @ raw\<rparr>))"

fun assembly_add_all :: "codec \<Rightarrow> cache option \<Rightarrow> save_chunk list \<Rightarrow> assembly \<Rightarrow> bool list \<times> assembly" where
  "assembly_add_all c k [] a = ([], a)"
| "assembly_add_all c k (x # xs) a =
     (let (ok, a) = assembly_add c k x a; (oks, a) = assembly_add_all c k xs a in (ok # oks, a))"

section \<open>Packing keeps both files\<close>

lemma save_unpack_pack:
  assumes "length (svf_Game f) + length (svf_CoSave f) \<le> max_save - 4"
  shows "save_unpack (save_pack f) = Some f"
proof -
  have g: "length (svf_Game f) < 2 ^ 32"
    using assms by (simp add: max_save_def)
  have p: "save_pack f = map byte_char (le_bytes 4 (of_nat (length (svf_Game f)) :: u32)) @ svf_Game f @ svf_CoSave f"
    using assms by (auto simp: save_pack_def)
  have four: "length (le_bytes 4 (of_nat (length (svf_Game f)) :: u32)) = 4"
    by simp
  have "unat (of_le_bytes (map char_byte (take 4 (save_pack f))) :: u32) = length (svf_Game f)"
    using g by (simp add: p comp_def of_le_bytes_le_bytes unsigned_of_nat take_bit_nat_eq_self)
  then show ?thesis
    using assms by (simp add: save_unpack_def Let_def p max_save_def)
qed

section \<open>What the blocks are\<close>

declare blocks_loop.simps [simp del]

lemma blocks_loop_Nil [simp]: "blocks_loop start rolling block [] = []"
  by (simp add: blocks_loop.simps)

text \<open>One step: the block is closed, or goes on.\<close>

lemma blocks_loop_cases:
  obtains "blocks_loop start rolling block (b # rest) =
      (start, block @ [b]) # blocks_loop (start + length (block @ [b])) 0 [] rest"
      "length (block @ [b]) = max_block \<or> min_block \<le> length (block @ [b]) \<or> rest = []"
  | rolling' where "blocks_loop start rolling block (b # rest) = blocks_loop start rolling' (block @ [b]) rest"
      "length (block @ [b]) \<noteq> max_block" "rest \<noteq> []"
proof (cases "length (block @ [b]) = max_block \<or> (length (block @ [b]) \<ge> min_block \<and>
    (push_bit 1 rolling + gear (char_byte b)) AND 0x1FFF = 0) \<or> rest = []")
  case True
  have "blocks_loop start rolling block (b # rest) =
      (start, block @ [b]) # blocks_loop (start + length (block @ [b])) 0 [] rest"
    by (simp only: blocks_loop.simps Let_def if_P [OF True])
  then show ?thesis
    using True by (intro that(1)) auto
next
  case False
  have "blocks_loop start rolling block (b # rest) =
      blocks_loop start (push_bit 1 rolling + gear (char_byte b)) (block @ [b]) rest"
    by (simp only: blocks_loop.simps Let_def if_not_P [OF False])
  then show ?thesis
    using False by (intro that(2)) auto
qed

lemma blocks_loop_concat:
  "concat (map snd (blocks_loop start rolling block rest)) = (if rest = [] then [] else block @ rest)"
proof (induction rest arbitrary: start rolling block)
  case (Cons b rest)
  show ?case
    by (rule blocks_loop_cases [of start rolling block b rest]) (auto simp: Cons)
qed simp

lemma blocks_loop_size:
  "length block < max_block \<Longrightarrow> (off, x) \<in> set (blocks_loop start rolling block rest) \<Longrightarrow>
     0 < length x \<and> length x \<le> max_block"
proof (induction rest arbitrary: start rolling block)
  case (Cons b rest)
  show ?case
  proof (rule blocks_loop_cases [of start rolling block b rest])
    assume "blocks_loop start rolling block (b # rest) =
      (start, block @ [b]) # blocks_loop (start + length (block @ [b])) 0 [] rest"
    with Cons.prems have "x = block @ [b] \<or> (off, x) \<in> set (blocks_loop (start + length (block @ [b])) 0 [] rest)"
      by auto
    then show ?thesis
      using Cons.prems(1) Cons.IH [of "[]"] by (auto simp: max_block_def)
  next
    fix rolling'
    assume "blocks_loop start rolling block (b # rest) = blocks_loop start rolling' (block @ [b]) rest"
      "length (block @ [b]) \<noteq> max_block"
    then show ?thesis
      using Cons.prems Cons.IH [of "block @ [b]"] by simp
  qed
qed simp

text \<open>Blocks that follow one another from an offset.\<close>

fun laid_out :: "nat \<Rightarrow> (nat \<times> string) list \<Rightarrow> bool" where
  "laid_out start [] \<longleftrightarrow> True"
| "laid_out start ((off, b) # bs) \<longleftrightarrow> off = start \<and> laid_out (start + length b) bs"

lemma blocks_loop_laid_out: "laid_out start (blocks_loop start rolling block rest)"
proof (induction rest arbitrary: start rolling block)
  case (Cons b rest)
  show ?case
    by (rule blocks_loop_cases [of start rolling block b rest]) (auto simp: Cons simp del: length_append)
qed simp

lemma blocks_loop_min:
  "(off, x) \<in> set (butlast (blocks_loop start rolling block rest)) \<Longrightarrow> min_block \<le> length x"
proof (induction rest arbitrary: start rolling block)
  case (Cons b rest)
  show ?case
  proof (rule blocks_loop_cases [of start rolling block b rest])
    assume c: "blocks_loop start rolling block (b # rest) =
      (start, block @ [b]) # blocks_loop (start + length (block @ [b])) 0 [] rest"
      "length (block @ [b]) = max_block \<or> min_block \<le> length (block @ [b]) \<or> rest = []"
    then show ?thesis
      using Cons.prems Cons.IH by (auto simp: max_block_def min_block_def split: if_splits)
  next
    fix rolling'
    assume "blocks_loop start rolling block (b # rest) = blocks_loop start rolling' (block @ [b]) rest"
    then show ?thesis
      using Cons by simp
  qed
qed simp

text \<open>Where the blocks start does not change how they are cut.\<close>

lemma blocks_loop_shift:
  "map snd (blocks_loop start rolling block rest) = map snd (blocks_loop start' rolling block rest)"
proof (induction rest arbitrary: start start' rolling block)
  case (Cons b rest)
  show ?case
    by (simp add: blocks_loop.simps Let_def) (metis Cons)
qed simp

lemma blocks_loop_first:
  "blocks_loop start rolling block rest = (off, x) # bs \<Longrightarrow> length block < length x"
proof (induction rest arbitrary: start rolling block)
  case (Cons b rest)
  show ?case
  proof (rule blocks_loop_cases [of start rolling block b rest])
    fix rolling'
    assume "blocks_loop start rolling block (b # rest) = blocks_loop start rolling' (block @ [b]) rest"
    then show ?thesis
      using Cons.IH [of start rolling' "block @ [b]"] Cons.prems by simp
  qed (use Cons.prems in auto)
qed simp

text \<open>After a block is closed, the rest is cut as if it stood alone.\<close>

lemma blocks_loop_resync:
  "blocks_loop start rolling block rest = ps @ qs \<Longrightarrow> ps \<noteq> [] \<Longrightarrow>
     map snd qs = map snd (blocks (drop (length (concat (map snd ps)) - length block) rest))"
proof (induction rest arbitrary: start rolling block ps)
  case (Cons b rest)
  show ?case
  proof (rule blocks_loop_cases [of start rolling block b rest])
    assume c: "blocks_loop start rolling block (b # rest) =
      (start, block @ [b]) # blocks_loop (start + length (block @ [b])) 0 [] rest"
    with Cons.prems obtain ps' where ps: "ps = (start, block @ [b]) # ps'"
      "blocks_loop (start + length (block @ [b])) 0 [] rest = ps' @ qs"
      by (cases ps) auto
    show ?thesis
    proof (cases "ps' = []")
      case True
      then show ?thesis
        using ps blocks_loop_shift [of "start + length (block @ [b])" 0 "[]" rest 0] by (simp add: blocks_def)
    next
      case False
      have "map snd qs = map snd (blocks (drop (length (concat (map snd ps'))) rest))"
        using Cons.IH [OF ps(2) False] by simp
      then show ?thesis
        by (simp add: ps(1))
    qed
  next
    fix rolling'
    assume c: "blocks_loop start rolling block (b # rest) = blocks_loop start rolling' (block @ [b]) rest"
    have IH: "map snd qs = map snd (blocks (drop (length (concat (map snd ps)) - length (block @ [b])) rest))"
      using Cons.IH [of start rolling' "block @ [b]" ps] c Cons.prems by simp
    obtain off x ps' where ps: "ps = (off, x) # ps'"
      using Cons.prems(2) by (cases ps) auto
    then have "length (block @ [b]) < length x"
      by (intro blocks_loop_first [of start rolling' _ rest off x "ps' @ qs"]) (metis append_Cons c Cons.prems(1))
    then have "length (concat (map snd ps)) - length block = Suc (length (concat (map snd ps)) - length (block @ [b]))"
      by (simp add: ps)
    then show ?thesis
      using IH by (simp only: drop_Suc_Cons)
  qed
qed simp

text \<open>
  The blocks of a save are the save, in order: each starts where the one before it
  ends, none is empty or larger than 24 KB, and none but the last is smaller than 8 KB.
\<close>

theorem blocks_partition:
  "concat (map snd (blocks s)) = s \<and> laid_out 0 (blocks s) \<and>
   list_all (\<lambda>(off, b). 0 < length b \<and> length b \<le> max_block) (blocks s) \<and>
   list_all (\<lambda>(off, b). min_block \<le> length b) (butlast (blocks s))"
  unfolding blocks_def
  by (auto simp: blocks_loop_concat blocks_loop_laid_out list_all_iff max_block_def
      dest: blocks_loop_size [where block = "[]", rotated] blocks_loop_min)

lemma blocks_tail: "blocks s = ps @ qs \<Longrightarrow> map snd qs = map snd (blocks (concat (map snd qs)))"
proof (cases "ps = []")
  case False
  assume b: "blocks s = ps @ qs"
  have "concat (map snd ps) @ concat (map snd qs) = s"
    using arg_cong [OF b, of "\<lambda>x. concat (map snd x)"]
    by (simp add: blocks_def blocks_loop_concat split: if_splits)
  then have "drop (length (concat (map snd ps))) s = concat (map snd qs)"
    by (metis append_eq_conv_conj)
  then show ?thesis
    using blocks_loop_resync [of 0 0 "[]" s ps qs] b False by (simp add: blocks_def)
qed (auto simp: blocks_def blocks_loop_concat)

text \<open>
  C38: two saves that both have a block boundary before the same tail are cut alike
  from there on, whatever came before: the tail's blocks are the same, so they can be sent as hashes.
\<close>

theorem blocks_resynchronize:
  assumes "blocks s = ps @ qs" and "blocks t = ps' @ qs'" and "concat (map snd qs) = concat (map snd qs')"
  shows "map snd qs = map snd qs'"
  using blocks_tail [OF assms(1)] blocks_tail [OF assms(2)] assms(3) by simp

section \<open>A save arrives\<close>

lemma laid_out_take:
  "laid_out (length pre) bs \<Longrightarrow> (off, b) \<in> set bs \<Longrightarrow>
     take (length b) (drop off (pre @ concat (map snd bs))) = b"
proof (induction bs arbitrary: pre)
  case (Cons x bs)
  obtain o' b' where x: "x = (o', b')" by fastforce
  show ?case
  proof (cases "(off, b) = x")
    case True
    then show ?thesis using Cons.prems by (auto simp: x)
  next
    case False
    then show ?thesis
      using Cons.IH [of "pre @ b'"] Cons.prems by (auto simp: x)
  qed
qed simp

lemma cache_load_blocks:
  "map_of (ca_blocks (cache_load c f)) =
     map_of (map (\<lambda>(off, b). (cd_digest c b, (off, length b))) (blocks (save_pack f)))"
proof -
  have f: "fold (\<lambda>(off, b). map_insert (cd_digest c b) (off, length b)) bs m =
      fold (\<lambda>(k, v). map_insert k v) (map (\<lambda>(off, b). (cd_digest c b, (off, length b))) bs) m" for bs m
    by (induction bs arbitrary: m) auto
  have "ordered ([] :: (string \<times> nat \<times> nat) list)"
    by (simp add: ordered_def)
  then show ?thesis
    using std_map.insert_all [of "[]" "map (\<lambda>(off, b). (cd_digest c b, (off, length b))) (blocks (save_pack f))"]
    by (simp add: cache_load_def Let_def f)
qed

lemma cache_find_block:
  assumes "cache_find (cache_load c f) h = Some b"
  shows "\<exists>off. (off, b) \<in> set (blocks (save_pack f)) \<and> cd_digest c b = h"
proof -
  let ?bs = "blocks (save_pack f)"
  obtain off n where l: "map_of (ca_blocks (cache_load c f)) h = Some (off, n)"
    and b: "b = take n (drop off (save_pack f))"
    using assms by (auto simp: cache_find_def cache_load_def Let_def split: option.splits)
  obtain x where x: "(off, x) \<in> set ?bs" "cd_digest c x = h" "n = length x"
    using map_of_SomeD [OF l [unfolded cache_load_blocks]] by auto
  have "take (length x) (drop off (save_pack f)) = x"
    using laid_out_take [of "[]" ?bs off x] x(1) blocks_loop_laid_out [of 0 0 "[]" "save_pack f"]
    by (auto simp: blocks_def blocks_loop_concat split: if_splits)
  then show ?thesis
    using x b by auto
qed

lemma cache_hash_found:
  assumes "h \<in> set (cache_hashes (cache_load c f))"
  shows "\<exists>b. cache_find (cache_load c f) h = Some b"
proof -
  have "map_of (ca_blocks (cache_load c f)) h \<noteq> None"
    using assms by (simp add: cache_hashes_def map_of_eq_None_iff)
  then show ?thesis
    by (auto simp: cache_find_def)
qed

text \<open>What the host sends of a block: its hash only, when the guest said it has that.\<close>

definition sent_chunk :: "string set \<Rightarrow> save_chunk \<Rightarrow> save_chunk" where
  "sent_chunk cached x = (if ch_Hash x \<in> cached then x\<lparr>ch_Data := []\<rparr> else x)"

text \<open>A chunk that brings a block to a game with that cache.\<close>

definition brings :: "codec \<Rightarrow> cache option \<Rightarrow> nat \<Rightarrow> nat \<times> string \<Rightarrow> save_chunk \<Rightarrow> bool" where
  "brings c k whole ob x \<longleftrightarrow> (case ob of (off, b) \<Rightarrow>
     ch_Total x = of_nat whole \<and> ch_Offset x = of_nat off \<and> ch_RawSize x = of_nat (length b) \<and>
     ch_Hash x = cd_digest c b \<and>
     (ch_Data x = cd_compress c b \<or>
      ch_Data x = [] \<and> (\<exists>k'. k = Some k' \<and> cache_find k' (cd_digest c b) = Some b)))"

lemma unat_small32: "n \<le> max_save \<Longrightarrow> unat (of_nat n :: u32) = n"
  by (simp add: max_save_def unsigned_of_nat take_bit_nat_eq_self)

lemma chunk_raw_brings:
  assumes "codec_ok c" and "brings c k whole (off, b) x" and "length b \<le> max_block"
  shows "chunk_raw c k x = Some b"
proof -
  have n: "unat (of_nat (length b) :: u32) = length b"
    using assms(3) by (intro unat_small32) (simp add: max_block_def max_save_def)
  have c: "cd_compress c b \<noteq> []" "cd_raw_length c (cd_compress c b) = Some (length b)"
    "cd_uncompress c (cd_compress c b) = Some b"
    using assms(1,3) by (simp_all add: codec_ok_def)
  show ?thesis
  proof (cases "ch_Data x = []")
    case True
    with assms(2) c(1) show ?thesis
      by (auto simp: brings_def chunk_raw_def)
  next
    case False
    with assms(2) c n show ?thesis
      by (auto simp: brings_def chunk_raw_def)
  qed
qed

text \<open>What is left of the save, as \<open>size_t\<close>.\<close>

lemma room_left:
  assumes "length d + n \<le> whole" and "whole \<le> max_save"
  shows "\<not> (ucast (of_nat n :: u32) :: u64) > ucast (of_nat whole :: u32) - of_nat (length d)"
proof -
  have d: "unat (of_nat (length d) :: u64) = length d"
    using assms by (simp add: max_save_def unsigned_of_nat take_bit_nat_eq_self)
  have t: "unat (ucast (of_nat whole :: u32) :: u64) = whole" "unat (ucast (of_nat n :: u32) :: u64) = n"
    using assms by (simp_all add: max_save_def unsigned_ucast_eq unsigned_of_nat take_bit_nat_eq_self)
  have "(of_nat (length d) :: u64) \<le> ucast (of_nat whole :: u32)"
    using assms(1) by (simp only: word_le_nat_alt d t)
  then have "unat (ucast (of_nat whole :: u32) - of_nat (length d) :: u64) = whole - length d"
    by (simp only: unat_sub d t)
  then show ?thesis
    using assms(1) by (simp only: word_less_nat_alt t)
qed

lemma assembly_add_brings:
  assumes c: "codec_ok c" and b: "brings c k whole (length d, b) x"
    and w: "0 < whole" "whole \<le> max_save" and sz: "0 < length b" "length b \<le> max_block"
    and room: "length d + length b \<le> whole"
    and a: "d = [] \<or> a = \<lparr>as_data = d, as_total = of_nat whole\<rparr>"
  shows "assembly_add c k x a = (True, \<lparr>as_data = d @ b, as_total = of_nat whole\<rparr>)"
proof -
  have u: "unat (ch_Total x) = whole" "unat (ch_RawSize x) = length b" "unat (ch_Offset x) = length d"
    using b w sz room by (auto simp: brings_def max_block_def max_save_def intro!: unat_small32)
  have nz: "ch_Total x \<noteq> 0" "ch_RawSize x \<noteq> 0" "ch_Offset x = 0 \<longleftrightarrow> d = []"
    using u w sz by (auto simp flip: unat_eq_zero)
  have "length (cd_compress c b) \<le> 32 + length b + length b div 6"
    using c sz by (simp add: codec_ok_def)
  then have "length (cd_compress c b) \<le> max_chunk_data"
    using sz by (simp add: max_block_def max_chunk_data_def)
  then have data: "length (ch_Hash x) = 32" "length (ch_Data x) \<le> max_chunk_data"
    using b c by (auto simp: brings_def codec_ok_def)
  have a': "(if ch_Offset x = 0 then \<lparr>as_data = [], as_total = ch_Total x\<rparr> else a) =
      \<lparr>as_data = d, as_total = of_nat whole\<rparr>"
    using a nz(3) b by (auto simp: brings_def)
  have eqs: "ch_Total x = of_nat whole" "ch_RawSize x = of_nat (length b)" "ch_Hash x = cd_digest c b"
    using b by (auto simp: brings_def)
  show ?thesis
    unfolding assembly_add_def Let_def a'
    using nz u w sz data room_left [OF room w(2)] chunk_raw_brings [OF c b sz(2)]
    by (simp add: eqs not_less)
qed

lemma assembly_add_all_brings:
  assumes "codec_ok c" and "list_all2 (brings c k whole) bs xs" and "laid_out (length d) bs"
    and "\<forall>(off, b) \<in> set bs. 0 < length b \<and> length b \<le> max_block"
    and "length d + length (concat (map snd bs)) = whole" and "0 < whole" "whole \<le> max_save"
    and "d = [] \<and> bs \<noteq> [] \<or> a = \<lparr>as_data = d, as_total = of_nat whole\<rparr>"
  shows "assembly_add_all c k xs a =
     (replicate (length xs) True, \<lparr>as_data = d @ concat (map snd bs), as_total = of_nat whole\<rparr>)"
  using assms(2-)
proof (induction bs xs arbitrary: d a rule: list_all2_induct)
  case (Cons ob bs x xs)
  obtain b where ob: "ob = (length d, b)"
    using Cons.prems(1) by (cases ob) auto
  have "assembly_add c k x a = (True, \<lparr>as_data = d @ b, as_total = of_nat whole\<rparr>)"
    by (rule assembly_add_brings [OF assms(1)]) (use Cons ob in auto)
  moreover have "assembly_add_all c k xs \<lparr>as_data = d @ b, as_total = of_nat whole\<rparr> =
      (replicate (length xs) True, \<lparr>as_data = (d @ b) @ concat (map snd bs), as_total = of_nat whole\<rparr>)"
    by (rule Cons.IH) (use Cons.prems ob in auto)
  ultimately show ?case
    by (simp add: ob)
qed simp

lemma brings_sent:
  assumes "\<forall>h \<in> cached. \<exists>k'. k = Some k' \<and> (\<exists>b'. cache_find k' h = Some b' \<and> (cd_digest c b = h \<longrightarrow> b' = b))"
  shows "brings c k whole (off, b) (sent_chunk cached (make_chunk c whole (off, b)))"
  using assms by (force simp: brings_def sent_chunk_def make_chunk_def)

text \<open>A save split, the blocks of \<open>cached\<close> as hashes only, is put together by a game with that cache.\<close>

lemma save_assembled:
  assumes "codec_ok c" and "length (svf_Game f) + length (svf_CoSave f) \<le> max_save - 4"
    and "\<And>b b'. b \<in> snd ` set (blocks (save_pack old)) \<Longrightarrow> b' \<in> snd ` set (blocks (save_pack f)) \<Longrightarrow>
      cd_digest c b = cd_digest c b' \<Longrightarrow> b = b'"
  defines "k \<equiv> cache_load c old"
  assumes cached: "cached \<subseteq> set (cache_hashes k)"
  defines "sent \<equiv> map (sent_chunk cached) (save_split c (save_pack f))"
  shows "list_all id (fst (assembly_add_all c (Some k) sent a)) \<and>
     assembly_complete (snd (assembly_add_all c (Some k) sent a)) \<and>
     save_unpack (as_data (snd (assembly_add_all c (Some k) sent a))) = Some f"
proof -
  let ?s = "save_pack f"
  have s: "?s = map byte_char (le_bytes 4 (of_nat (length (svf_Game f)) :: u32)) @ svf_Game f @ svf_CoSave f"
    using assms(2) by (auto simp: save_pack_def)
  have len: "0 < length ?s" "length ?s \<le> max_save"
    using assms(2) by (simp_all add: s max_save_def)
  have split: "save_split c ?s = map (make_chunk c (length ?s)) (blocks ?s)"
    using len by (auto simp: save_split_def)
  have whole: "concat (map snd (blocks ?s)) = ?s"
    using len by (simp add: blocks_def blocks_loop_concat)
  have "brings c (Some k) (length ?s) ob (sent_chunk cached (make_chunk c (length ?s) ob))"
    if ob: "ob \<in> set (blocks ?s)" for ob
  proof -
    obtain off b where p: "ob = (off, b)" by fastforce
    have "\<exists>k'. Some k = Some k' \<and> (\<exists>b'. cache_find k' h = Some b' \<and> (cd_digest c b = h \<longrightarrow> b' = b))"
      if "h \<in> cached" for h
    proof -
      have h: "h \<in> set (cache_hashes k)"
        using that cached by auto
      obtain b' where b': "cache_find k h = Some b'"
        using cache_hash_found [OF h [unfolded k_def]] unfolding k_def by blast
      moreover have "b' \<in> snd ` set (blocks (save_pack old))" "cd_digest c b' = h"
        using cache_find_block [of c old h b'] b' by (force simp: k_def)+
      moreover have "b \<in> snd ` set (blocks ?s)"
        using ob p by force
      ultimately show ?thesis
        using assms(3) by metis
    qed
    then show ?thesis
      using brings_sent ob p by simp
  qed
  then have "list_all2 (brings c (Some k) (length ?s)) (blocks ?s) sent"
    unfolding sent_def split by (simp add: list_all2_conv_all_nth)
  moreover have "blocks ?s \<noteq> []"
    using whole len(1) by force
  moreover have "\<forall>(off, b) \<in> set (blocks ?s). 0 < length b \<and> length b \<le> max_block"
    using blocks_loop_size [of "[]"] by (fastforce simp: blocks_def max_block_def)
  ultimately have "assembly_add_all c (Some k) sent a =
      (replicate (length sent) True, \<lparr>as_data = [] @ concat (map snd (blocks ?s)), as_total = of_nat (length ?s)\<rparr>)"
    using assms(1) whole len blocks_loop_laid_out [of 0 0 "[]" ?s]
    by (intro assembly_add_all_brings) (auto simp: blocks_def)
  then show ?thesis
    using len unat_small32 [OF len(2)] save_unpack_pack [OF assms(2)]
    by (auto simp: whole assembly_complete_def list_all_iff simp flip: unat_eq_zero)
qed

text \<open>
  C10: a guest that told the host the blocks of its last save (\<open>old\<close>) and gets the host's save
  (\<open>f\<close>), those blocks as hashes only, accepts every block, whatever it was assembling before, has the
  complete save and unpacks the host's two files, byte for byte, unless two different blocks share a digest.
\<close>

theorem save_arrives:
  assumes "codec_ok c" and "length (svf_Game f) + length (svf_CoSave f) \<le> max_save - 4"
    and "\<And>b b'. b \<in> snd ` set (blocks (save_pack old)) \<Longrightarrow> b' \<in> snd ` set (blocks (save_pack f)) \<Longrightarrow>
      cd_digest c b = cd_digest c b' \<Longrightarrow> b = b'"
  defines "k \<equiv> cache_load c old"
  defines "sent \<equiv> map (sent_chunk (set (cache_hashes k))) (save_split c (save_pack f))"
  shows "list_all id (fst (assembly_add_all c (Some k) sent a)) \<and>
     assembly_complete (snd (assembly_add_all c (Some k) sent a)) \<and>
     save_unpack (as_data (snd (assembly_add_all c (Some k) sent a))) = Some f"
  unfolding sent_def k_def by (rule save_assembled [OF assms(1-3)]) auto

section \<open>Any chunks at all\<close>

lemma assembly_add_accepts:
  assumes "assembly_add c k x a = (True, a')"
  shows "\<exists>raw. chunk_raw c k x = Some raw \<and> cd_digest c raw = ch_Hash x \<and>
     as_data a' = (if ch_Offset x = 0 then [] else as_data a) @ raw"
  using assms
  by (auto simp: assembly_add_def Let_def split: if_splits option.splits)

definition assembly_ok :: "assembly \<Rightarrow> bool" where
  "assembly_ok a \<longleftrightarrow> length (as_data a) \<le> unat (as_total a) \<and> unat (as_total a) \<le> max_save"

lemma room_left_iff:
  assumes "length d \<le> unat t"
  shows "(ucast (n :: u32) :: u64) > ucast (t :: u32) - of_nat (length d) \<longleftrightarrow> unat n > unat t - length d"
proof -
  have "unat t < 2 ^ 32" using unsigned_less [of t] by simp
  then have d: "unat (of_nat (length d) :: u64) = length d"
    using assms by (simp add: unsigned_of_nat take_bit_nat_eq_self)
  have u: "unat (ucast v :: u64) = unat v" for v :: u32
  proof -
    have "unat v < 2 ^ 32" using unsigned_less [of v] by simp
    then show ?thesis by (simp add: unsigned_ucast_eq take_bit_nat_eq_self)
  qed
  have "(of_nat (length d) :: u64) \<le> ucast t"
    using assms by (simp only: word_le_nat_alt d u)
  then show ?thesis
    by (simp only: word_less_nat_alt unat_sub d u)
qed

lemma assembly_add_ok:
  assumes "assembly_ok a"
  shows "assembly_ok (snd (assembly_add c k x a))"
proof -
  define a0 where "a0 = (if ch_Offset x = 0 then \<lparr>as_data = [], as_total = ch_Total x\<rparr> else a)"
  show ?thesis
  proof (cases "ch_Total x = 0 \<or> unat (ch_Total x) > max_save \<or> ch_RawSize x = 0 \<or> unat (ch_RawSize x) > max_block \<or>
         length (ch_Hash x) \<noteq> 32 \<or> length (ch_Data x) > max_chunk_data")
    case True
    then show ?thesis using assms by (simp add: assembly_add_def)
  next
    case False
    then have a0: "assembly_ok a0"
      using assms by (auto simp: a0_def assembly_ok_def)
    have "assembly_ok (a0\<lparr>as_data := as_data a0 @ raw\<rparr>)"
      if "length raw = unat (ch_RawSize x)"
        "\<not> (ucast (ch_RawSize x) :: u64) > ucast (as_total a0) - of_nat (length (as_data a0))" for raw
    proof -
      have "\<not> unat (ch_RawSize x) > unat (as_total a0) - length (as_data a0)"
        using that(2) a0 room_left_iff [of "as_data a0" "as_total a0" "ch_RawSize x"]
        unfolding assembly_ok_def by blast
      then show ?thesis
        using a0 that(1) unfolding assembly_ok_def by simp linarith
    qed
    with False a0 show ?thesis
      unfolding assembly_add_def Let_def a0_def [symmetric]
      by (auto split: option.splits simp: not_less)
qed
qed

lemma assembly_add_all_ok: "assembly_ok a \<Longrightarrow> assembly_ok (snd (assembly_add_all c k xs a))"
proof (induction xs arbitrary: a)
  case (Cons x xs)
  show ?case
    using Cons.IH [OF assembly_add_ok [OF Cons.prems, of c k x]] by (simp add: Let_def case_prod_unfold)
qed simp

lemma assembly_add_all_Cons:
  "assembly_add c k x a = (ok, a1) \<Longrightarrow> fst (assembly_add_all c k (x # xs) a) = ok # fst (assembly_add_all c k xs a1)"
  "assembly_add c k x a = (ok, a1) \<Longrightarrow> snd (assembly_add_all c k (x # xs) a) = snd (assembly_add_all c k xs a1)"
  by (simp_all add: Let_def case_prod_unfold)

text \<open>
  C37: whatever chunks arrive, in whatever order and from whomever, what a guest has put
  together never passes the size the save announced, nor 128 MB, and it is complete exactly at that size.
\<close>

theorem assembly_bounded:
  "length (as_data (snd (assembly_add_all c k xs new_assembly))) \<le>
     unat (as_total (snd (assembly_add_all c k xs new_assembly))) \<and>
   unat (as_total (snd (assembly_add_all c k xs new_assembly))) \<le> max_save"
  using assembly_add_all_ok [of new_assembly c k xs] by (simp add: assembly_ok_def new_assembly_def max_save_def)

lemma assembly_add_all_accepts:
  assumes "list_all id (fst (assembly_add_all c k xs a))" and "\<forall>x \<in> set xs. ch_Offset x \<noteq> 0"
  shows "\<exists>raws. map Some raws = map (chunk_raw c k) xs \<and> map (cd_digest c) raws = map ch_Hash xs \<and>
     as_data (snd (assembly_add_all c k xs a)) = as_data a @ concat raws"
  using assms
proof (induction xs arbitrary: a)
  case (Cons x xs)
  obtain ok a1 where 1: "assembly_add c k x a = (ok, a1)" by fastforce
  with Cons.prems have ok: "assembly_add c k x a = (True, a1)" and
    rest: "list_all id (fst (assembly_add_all c k xs a1))"
    by (simp_all add: assembly_add_all_Cons [OF 1] id_def del: assembly_add_all.simps)
  obtain raw where raw: "chunk_raw c k x = Some raw" "cd_digest c raw = ch_Hash x" "as_data a1 = as_data a @ raw"
    using assembly_add_accepts [OF ok] Cons.prems(2) by auto
  obtain raws where raws: "map Some raws = map (chunk_raw c k) xs" "map (cd_digest c) raws = map ch_Hash xs"
    "as_data (snd (assembly_add_all c k xs a1)) = as_data a1 @ concat raws"
    using Cons.IH [OF rest] Cons.prems(2) by auto
  then have "map Some (raw # raws) = map (chunk_raw c k) (x # xs)"
    "map (cd_digest c) (raw # raws) = map ch_Hash (x # xs)"
    "as_data (snd (assembly_add_all c k (x # xs) a)) = as_data a @ concat (raw # raws)"
    using raw by (simp_all add: assembly_add_all_Cons [OF ok] del: assembly_add_all.simps)
  then show ?case by blast
qed simp

text \<open>
  C9: chunks that carry the hashes of the host's save, in its order, are accepted only
  with its bytes: whatever their data, however it was compressed or cached, when all are accepted the guest
  has the host's save exactly, unless what one of them held is other bytes with its block's digest.
\<close>

theorem assembly_integrity:
  assumes "list_all id (fst (assembly_add_all c k (x # xs) a))"
    and "ch_Offset x = 0" and "\<forall>y \<in> set xs. ch_Offset y \<noteq> 0"
    and "map ch_Hash (x # xs) = map (\<lambda>(off, b). cd_digest c b) (blocks s)"
    and "\<And>b raw. b \<in> snd ` set (blocks s) \<Longrightarrow> Some raw \<in> chunk_raw c k ` set (x # xs) \<Longrightarrow>
      cd_digest c raw = cd_digest c b \<Longrightarrow> raw = b"
  shows "as_data (snd (assembly_add_all c k (x # xs) a)) = s"
proof -
  obtain ok a1 where 1: "assembly_add c k x a = (ok, a1)" by fastforce
  with assms(1) have ok: "assembly_add c k x a = (True, a1)" and
    rest: "list_all id (fst (assembly_add_all c k xs a1))"
    by (simp_all add: assembly_add_all_Cons [OF 1] id_def del: assembly_add_all.simps)
  obtain raw where raw: "chunk_raw c k x = Some raw" "cd_digest c raw = ch_Hash x" "as_data a1 = raw"
    using assembly_add_accepts [OF ok] assms(2) by auto
  obtain raws where raws: "map Some raws = map (chunk_raw c k) xs" "map (cd_digest c) raws = map ch_Hash xs"
    "as_data (snd (assembly_add_all c k xs a1)) = as_data a1 @ concat raws"
    using assembly_add_all_accepts [OF rest assms(3)] by auto
  have same: "map (cd_digest c) rs = map (cd_digest c) bs \<Longrightarrow> set bs \<subseteq> snd ` set (blocks s) \<Longrightarrow>
      Some ` set rs \<subseteq> chunk_raw c k ` set (x # xs) \<Longrightarrow> rs = bs" for rs bs
  proof (induction rs arbitrary: bs)
    case (Cons r rs)
    then obtain b bs' where "bs = b # bs'" by (cases bs) auto
    with Cons show ?case using assms(5) by auto
  qed simp
  have "map (cd_digest c) (raw # raws) = map (cd_digest c) (map snd (blocks s))"
    using assms(4) by (simp add: raw raws comp_def case_prod_unfold)
  moreover have "Some ` set (raw # raws) \<subseteq> chunk_raw c k ` set (x # xs)"
    using arg_cong [OF raws(1), of set] raw(1) by simp
  moreover have "set (map snd (blocks s)) \<subseteq> snd ` set (blocks s)"
    by simp
  ultimately have "raw # raws = map snd (blocks s)"
    using same by blast
  then have "concat (raw # raws) = s"
    using blocks_loop_concat [of 0 0 "[]" s] by (simp only: blocks_def) (simp split: if_splits)
  then show ?thesis
    using raws(3) raw(3) by (simp add: assembly_add_all_Cons [OF ok] del: assembly_add_all.simps)
qed

section \<open>A codec that keeps the laws\<close>

text \<open>
  For the examples: blocks behind a mark, and a digest that pads a short block to 32 bytes (or keeps the
  first bytes of a long one).
\<close>

definition plain_codec :: codec where
  "plain_codec = \<lparr>cd_digest = (\<lambda>b. take 32 (b @ replicate 32 CHR 0x00)), cd_compress = (\<lambda>b. CHR 0x01 # b),
     cd_raw_length = (\<lambda>z. Some (length z - 1)), cd_uncompress = (\<lambda>z. Some (tl z))\<rparr>"

lemma plain_codec_ok: "codec_ok plain_codec"
  by (auto simp: codec_ok_def plain_codec_def min_def)

lemma blocks_small:
  "length s < min_block \<Longrightarrow> s \<noteq> [] \<Longrightarrow> blocks s = [(0, s)]"
proof -
  have step: "length block + length rest < min_block \<Longrightarrow> rest \<noteq> [] \<Longrightarrow>
      blocks_loop start rolling block rest = [(start, block @ rest)]" for start rolling block rest
  proof (induction rest arbitrary: start rolling block)
    case (Cons b rest)
    show ?case
      by (rule blocks_loop_cases [of start rolling block b rest])
        (use Cons in \<open>auto simp: max_block_def min_block_def\<close>)
  qed simp
  show "length s < min_block \<Longrightarrow> s \<noteq> [] \<Longrightarrow> blocks s = [(0, s)]"
    unfolding blocks_def using step [of "[]" s] by simp
qed

lemma save_arrives_witness:
  "save_unpack (as_data (snd (assembly_add_all plain_codec
     (Some (cache_load plain_codec \<lparr>svf_Game = ''TESV'', svf_CoSave = ''SKSE''\<rparr>))
     (map (sent_chunk (set (cache_hashes (cache_load plain_codec \<lparr>svf_Game = ''TESV'', svf_CoSave = ''SKSE''\<rparr>))))
       (save_split plain_codec (save_pack \<lparr>svf_Game = ''TESV'', svf_CoSave = ''SKSE''\<rparr>))) new_assembly))) =
   Some \<lparr>svf_Game = ''TESV'', svf_CoSave = ''SKSE''\<rparr>"
proof -
  define f where "f = \<lparr>svf_Game = ''TESV'', svf_CoSave = ''SKSE''\<rparr>"
  have fits: "length (svf_Game f) + length (svf_CoSave f) \<le> max_save - 4"
    by (simp add: f_def max_save_def)
  then have "length (save_pack f) = 12"
    by (simp add: save_pack_def f_def max_save_def)
  then have b: "blocks (save_pack f) = [(0, save_pack f)]"
    by (intro blocks_small) (auto simp: min_block_def)
  show ?thesis
    using save_arrives [OF plain_codec_ok fits, of f new_assembly] by (simp only: b f_def [symmetric]) simp
qed

text \<open>
  A long run of one byte is cut only when the block is full: the hash of \<open>n\<close> such bytes is \<open>(2\<^sup>n - 1)\<close> times the
  byte's entry, whose low 13 bits are not all clear once \<open>n\<close> is 13 or more.
\<close>

definition never_cut :: "char \<Rightarrow> bool" where
  "never_cut c \<longleftrightarrow> take_bit 13 (gear (char_byte c)) \<noteq> 0"

lemma run_hash: "13 \<le> n \<Longrightarrow> never_cut c \<Longrightarrow> (2 ^ n * gear (char_byte c) - gear (char_byte c)) AND 0x1FFF \<noteq> 0"
proof
  let ?g = "gear (char_byte c)"
  assume n: "13 \<le> n" "never_cut c" and z: "(2 ^ n * ?g - ?g) AND 0x1FFF = 0"
  have "(0x1FFF :: u64) = mask 13"
    by (simp add: mask_eq_exp_minus_1)
  with z have "2 ^ 13 dvd 2 ^ n * ?g - ?g"
    by (simp only: take_bit_eq_mask [symmetric] take_bit_eq_0_iff)
  moreover have "(2 :: u64) ^ 13 dvd 2 ^ n * ?g"
    using n(1) by (intro dvd_mult2 le_imp_power_dvd)
  ultimately have "2 ^ 13 dvd 2 ^ n * ?g - (2 ^ n * ?g - ?g)"
    by (rule dvd_diff [rotated])
  with n(2) show False
    by (simp add: never_cut_def take_bit_eq_0_iff)
qed

lemma run_block:
  assumes "never_cut c" "rest \<noteq> []" "n < max_block" "n + k = max_block"
  shows "blocks_loop start (2 ^ n * gear (char_byte c) - gear (char_byte c)) (replicate n c) (replicate k c @ rest) =
    (start, replicate max_block c) # blocks_loop (start + max_block) 0 [] rest"
  using assms(3,4)
proof (induction k arbitrary: n)
  case (Suc k)
  let ?g = "gear (char_byte c)"
  have hash: "push_bit 1 (2 ^ n * ?g - ?g) + ?g = 2 ^ Suc n * ?g - ?g"
    by (simp add: push_bit_eq_mult algebra_simps)
  have more: "replicate n c @ [c] = replicate (Suc n) c"
    by (simp add: replicate_append_same)
  show ?case
  proof (cases "Suc n = max_block")
    case True
    then have "k = 0" using Suc.prems by simp
    have "blocks_loop start (2 ^ n * ?g - ?g) (replicate n c) (c # rest) =
        (start, replicate (Suc n) c) # blocks_loop (start + Suc n) 0 [] rest"
      using True by (simp only: blocks_loop.simps(2) Let_def hash more length_replicate) simp
    with \<open>k = 0\<close> True show ?thesis by simp
  next
    case False
    have "\<not> (min_block \<le> Suc n \<and> (2 ^ Suc n * ?g - ?g) AND 0x1FFF = 0)"
      using run_hash [of "Suc n" c] assms(1) by (auto simp: min_block_def simp del: power_Suc)
    then have "blocks_loop start (2 ^ n * ?g - ?g) (replicate n c) (c # replicate k c @ rest) =
        blocks_loop start (2 ^ Suc n * ?g - ?g) (replicate (Suc n) c) (replicate k c @ rest)"
      using False assms(2)
      by (simp only: blocks_loop.simps(2) Let_def hash more length_replicate) simp
    then show ?thesis
      using Suc.IH [of "Suc n"] Suc.prems False by simp
  qed
qed simp

lemma blocks_run:
  assumes "never_cut c" "rest \<noteq> []"
  shows "\<exists>qs. blocks (replicate max_block c @ rest) = (0, replicate max_block c) # qs \<and> concat (map snd qs) = rest"
  using run_block [OF assms, of 0 max_block 0] blocks_loop_concat [of max_block 0 "[]" rest] assms(2)
  by (simp add: blocks_def max_block_def)

lemma example_never_cut: "never_cut CHR ''a''" "never_cut CHR ''b''" "never_cut CHR ''c''"
  by (simp_all add: never_cut_def gear_def char_byte_def Let_def)

text \<open>
  One save starts with 24 KB of one byte, the other with 48 KB of two others, and both go on with 24 KB of a
  third and four bytes more: from there on their blocks are the same, at other offsets.
\<close>

lemma blocks_resynchronize_witness:
  "let tail = replicate max_block CHR ''a'' @ ''TESV'';
       s = replicate max_block CHR ''b'' @ tail;
       t = replicate max_block CHR ''c'' @ replicate max_block CHR ''b'' @ tail
   in s \<noteq> t \<and> (\<exists>qs qs'. blocks s = (0, replicate max_block CHR ''b'') # qs \<and>
        blocks t = (0, replicate max_block CHR ''c'') # (max_block, replicate max_block CHR ''b'') # qs' \<and>
        map snd qs = map snd qs' \<and> concat (map snd qs) = tail)"
proof -
  define tail where "tail = replicate max_block CHR ''a'' @ ''TESV''"
  have tail: "tail \<noteq> []" by (simp add: tail_def)
  obtain qs where qs: "blocks (replicate max_block CHR ''b'' @ tail) = (0, replicate max_block CHR ''b'') # qs"
      "concat (map snd qs) = tail"
    using blocks_run [OF example_never_cut(2) tail] by auto
  let ?qs' = "blocks_loop (max_block + max_block) 0 [] tail"
  have t: "blocks (replicate max_block CHR ''c'' @ replicate max_block CHR ''b'' @ tail) =
      [(0, replicate max_block CHR ''c''), (max_block, replicate max_block CHR ''b'')] @ ?qs'"
    using run_block [OF example_never_cut(3), of "replicate max_block CHR ''b'' @ tail" 0 max_block 0]
      run_block [OF example_never_cut(2) tail, of 0 max_block max_block] tail
    by (simp add: blocks_def max_block_def)
  have same: "concat (map snd qs) = concat (map snd ?qs')"
    using qs(2) blocks_loop_concat [of "max_block + max_block" 0 "[]" tail] tail by simp
  have "map snd qs = map snd ?qs'"
    using blocks_resynchronize [of _ "[(0, replicate max_block CHR ''b'')]" qs, OF _ t same] qs(1) by simp
  moreover have "length (replicate max_block CHR ''b'' @ tail) \<noteq>
      length (replicate max_block CHR ''c'' @ replicate max_block CHR ''b'' @ tail)"
    by (simp add: max_block_def)
  ultimately show ?thesis
    using qs t unfolding tail_def [symmetric] Let_def by fastforce
qed

lemma assembly_integrity_witness:
  "as_data (snd (assembly_add_all plain_codec None
     [\<lparr>ch_Offset = 0, ch_Total = 4, ch_RawSize = 4, ch_Hash = cd_digest plain_codec ''TESV'',
       ch_Data = CHR 0x02 # ''TESV''\<rparr>] new_assembly)) = ''TESV''"
proof (rule assembly_integrity)
  show "list_all id (fst (assembly_add_all plain_codec None
     [\<lparr>ch_Offset = 0, ch_Total = 4, ch_RawSize = 4, ch_Hash = cd_digest plain_codec ''TESV'',
       ch_Data = CHR 0x02 # ''TESV''\<rparr>] new_assembly))"
    by (simp add: assembly_add_def plain_codec_def chunk_raw_def new_assembly_def max_save_def max_block_def
        max_chunk_data_def)
qed (simp_all add: blocks_small min_block_def plain_codec_def chunk_raw_def)

end
