(* ===== verification/Simulation.thy ===== *)
theory Simulation
  imports Prelude
begin

text \<open>
  How a handler's runs are compared with what it promises: a run of a handler over events collects what it
  sends; a monitor reads what was sent, one output after the other, and follows the promise or refuses.
\<close>

section \<open>Runs and monitors\<close>

fun run :: "('e \<Rightarrow> 's \<Rightarrow> 's \<times> 'o list) \<Rightarrow> 'e list \<Rightarrow> 's \<Rightarrow> 's \<times> 'o list" where
  "run step [] s = (s, [])"
| "run step (e # es) s = (let (s, out) = step e s; (s, outs) = run step es s in (s, out @ outs))"

fun accepts :: "('o \<Rightarrow> 'v \<Rightarrow> 'v option) \<Rightarrow> 'o list \<Rightarrow> 'v \<Rightarrow> 'v option" where
  "accepts monitor [] v = Some v"
| "accepts monitor (x # xs) v = (case monitor x v of None \<Rightarrow> None | Some v \<Rightarrow> accepts monitor xs v)"

lemma run_Cons:
  "fst (run step (e # es) s) = fst (run step es (fst (step e s)))"
  "snd (run step (e # es) s) = snd (step e s) @ snd (run step es (fst (step e s)))"
  by (simp_all add: Let_def case_prod_unfold)

lemma run_snoc: "fst (run step (es @ [e]) s) = fst (step e (fst (run step es s)))"
  by (induction es arbitrary: s) (simp_all add: run_Cons Let_def case_prod_unfold)

declare run.simps(2) [simp del]

lemma run_append:
  "fst (run step (es @ es') s) = fst (run step es' (fst (run step es s)))"
  "snd (run step (es @ es') s) = snd (run step es s) @ snd (run step es' (fst (run step es s)))"
  by (induction es arbitrary: s) (simp_all add: run_Cons)

lemma accepts_append:
  "accepts monitor (xs @ ys) v = (case accepts monitor xs v of None \<Rightarrow> None | Some v \<Rightarrow> accepts monitor ys v)"
  by (induction xs arbitrary: v) (auto split: option.splits)

lemma accepts_ignored: "(\<And>x v. x \<in> set xs \<Longrightarrow> monitor x v = Some v) \<Longrightarrow> accepts monitor xs v = Some v"
  by (induction xs arbitrary: v) auto

section \<open>Keeping the promise\<close>

locale simulation =
  fixes step :: "'e \<Rightarrow> 's \<Rightarrow> 's \<times> 'o list"
    and inv :: "'s \<Rightarrow> bool"
    and allowed :: "'e \<Rightarrow> bool"
    and monitor :: "'o \<Rightarrow> 'v \<Rightarrow> 'v option"
    and view :: "'s \<Rightarrow> 'v"
  assumes step_inv: "inv s \<Longrightarrow> allowed e \<Longrightarrow> inv (fst (step e s))"
    and step_accepted: "inv s \<Longrightarrow> allowed e \<Longrightarrow> accepts monitor (snd (step e s)) (view s) = Some (view (fst (step e s)))"
begin

lemma run_inv: "inv s \<Longrightarrow> list_all allowed es \<Longrightarrow> inv (fst (run step es s))"
  by (induction es arbitrary: s) (auto simp: run_Cons step_inv)

lemma run_accepted:
  "inv s \<Longrightarrow> list_all allowed es \<Longrightarrow>
     accepts monitor (snd (run step es s)) (view s) = Some (view (fst (run step es s)))"
proof (induction es arbitrary: s)
  case (Cons e es)
  then show ?case
    by (simp add: run_Cons accepts_append step_accepted step_inv)
qed simp

end

text \<open>
  The stronger promise: a specification takes the same events, and what is seen of the state and of what is
  sent is its state and its outputs, step by step and so over every run.
\<close>

locale refinement =
  fixes step :: "'e \<Rightarrow> 's \<Rightarrow> 's \<times> 'o list"
    and inv :: "'s \<Rightarrow> bool"
    and spec :: "'e \<Rightarrow> 'v \<Rightarrow> 'v \<times> 'p list"
    and view :: "'s \<Rightarrow> 'v"
    and about :: "'o list \<Rightarrow> 'p list"
  assumes step_inv: "inv s \<Longrightarrow> inv (fst (step e s))"
    and step_refines: "inv s \<Longrightarrow> spec e (view s) = (view (fst (step e s)), about (snd (step e s)))"
    and about_nothing: "about [] = []"
    and about_append: "about (xs @ ys) = about xs @ about ys"
begin

lemma run_inv: "inv s \<Longrightarrow> inv (fst (run step es s))"
  by (induction es arbitrary: s) (auto simp: run_Cons step_inv)

lemma run_refines: "inv s \<Longrightarrow> run spec es (view s) = (view (fst (run step es s)), about (snd (run step es s)))"
proof (induction es arbitrary: s)
  case (Cons e es)
  have "run spec es (view (fst (step e s))) =
      (view (fst (run step es (fst (step e s)))), about (snd (run step es (fst (step e s)))))"
    by (rule Cons.IH) (rule step_inv [OF Cons.prems])
  then show ?case
    by (simp add: prod_eq_iff run_Cons step_refines [OF Cons.prems] about_append)
qed (simp add: about_nothing)

end

end
