(* ===== verification/Host_Players.thy ===== *)
theory Host_Players
  imports Recipes Simulation
begin

text \<open>
  The host's end of the session: its players (\<open>HostPlayers\<close>), the recipes its game knows
  (\<open>RecipeBook\<close>), and its connections (\<open>HostNetwork\<close>), which send a game the recipes it has not had before
  any message. What a handler sends is a list of connections and messages, in order.
\<close>

text \<open>\<open>Net::ConnectionId_t\<close>, a \<open>uintptr_t\<close> of the 64-bit builds.\<close>

type_synonym conn = u64
type_synonym 'm outbox = "(conn \<times> 'm) list"

text \<open>What one connection is sent, and a monitor of that.\<close>

definition to_conn :: "conn \<Rightarrow> 'm outbox \<Rightarrow> 'm list" where
  "to_conn c out = map snd (filter (\<lambda>(d, _). d = c) out)"

definition at_conn :: "conn \<Rightarrow> ('m \<Rightarrow> 'v \<Rightarrow> 'v option) \<Rightarrow> conn \<times> 'm \<Rightarrow> 'v \<Rightarrow> 'v option" where
  "at_conn c monitor x v = (if fst x = c then monitor (snd x) v else Some v)"

lemma accepts_at_conn: "accepts (at_conn c monitor) out v = accepts monitor (to_conn c out) v"
  by (induction out arbitrary: v) (auto simp: at_conn_def to_conn_def split: option.splits)

lemma to_conn_append [simp]: "to_conn c (xs @ ys) = to_conn c xs @ to_conn c ys"
  by (simp add: to_conn_def)

lemma to_conn_map: "distinct cs \<Longrightarrow> c \<in> set cs \<Longrightarrow> to_conn c (map (\<lambda>d. (d, f d)) cs) = [f c]"
proof (induction cs)
  case (Cons d cs)
  have "to_conn c (map (\<lambda>d. (d, f d)) cs) = []" if "c \<notin> set cs"
    using that by (induction cs) (auto simp: to_conn_def)
  with Cons show ?case
    by (cases "c = d") (auto simp: to_conn_def)
qed simp

section \<open>The players\<close>

record player =
  pl_Id :: u32
  pl_Name :: string
  pl_Level :: u16
  pl_IsHost :: bool
  pl_Key :: string

text \<open>
  \<open>m_players\<close> is an \<open>unordered_map\<close>: an association list, one entry for a connection, in whatever
  order it iterates (here the newest connection last); \<open>m_lastId\<close> counts the players that joined.
\<close>

record host_players =
  hp_players :: "(conn \<times> player) list"
  hp_lastId :: u32

definition no_players :: host_players where
  "no_players = \<lparr>hp_players = [], hp_lastId = 0\<rparr>"

fun assign :: "'k \<Rightarrow> 'v \<Rightarrow> ('k \<times> 'v) list \<Rightarrow> ('k \<times> 'v) list" where
  "assign k v [] = [(k, v)]"
| "assign k v ((k', v') # m) = (if k = k' then (k, v) # m else (k', v') # assign k v m)"

definition players_add :: "conn \<Rightarrow> string \<Rightarrow> u16 \<Rightarrow> bool \<Rightarrow> string \<Rightarrow> host_players \<Rightarrow> u32 \<times> host_players" where
  "players_add c name level is_host key p =
     (let i = hp_lastId p + 1
      in (i, \<lparr>hp_players = assign c \<lparr>pl_Id = i, pl_Name = name, pl_Level = level, pl_IsHost = is_host, pl_Key = key\<rparr>
                (hp_players p), hp_lastId = i\<rparr>))"

definition players_remove :: "conn \<Rightarrow> host_players \<Rightarrow> host_players" where
  "players_remove c p = p\<lparr>hp_players := map_erase c (hp_players p)\<rparr>"

definition players_find :: "conn \<Rightarrow> host_players \<Rightarrow> player option" where
  "players_find c p = map_of (hp_players p) c"

definition is_player :: "conn \<Rightarrow> host_players \<Rightarrow> bool" where
  "is_player c p \<longleftrightarrow> players_find c p \<noteq> None"

definition player_id_of :: "conn \<Rightarrow> host_players \<Rightarrow> u32" where
  "player_id_of c p = (case players_find c p of None \<Rightarrow> 0 | Some x \<Rightarrow> pl_Id x)"

definition player_name_of :: "conn \<Rightarrow> host_players \<Rightarrow> string" where
  "player_name_of c p = (case players_find c p of None \<Rightarrow> [] | Some x \<Rightarrow> pl_Name x)"

text \<open>\<open>Host\<close>: the first player that hosts, else 0.\<close>

definition players_host :: "host_players \<Rightarrow> conn" where
  "players_host p = (case find (\<lambda>(_, x). pl_IsHost x) (hp_players p) of None \<Rightarrow> 0 | Some (c, _) \<Rightarrow> c)"

definition connections :: "host_players \<Rightarrow> conn list" where
  "connections p = map fst (hp_players p)"

definition change_player :: "conn \<Rightarrow> (player \<Rightarrow> player) \<Rightarrow> host_players \<Rightarrow> host_players" where
  "change_player c f p = (case players_find c p of None \<Rightarrow> p
     | Some x \<Rightarrow> p\<lparr>hp_players := assign c (f x) (hp_players p)\<rparr>)"

definition players_set_name :: "conn \<Rightarrow> string \<Rightarrow> host_players \<Rightarrow> host_players" where
  "players_set_name c name = change_player c (pl_Name_update (\<lambda>_. name))"

definition players_set_level :: "conn \<Rightarrow> u16 \<Rightarrow> host_players \<Rightarrow> host_players" where
  "players_set_level c level = change_player c (pl_Level_update (\<lambda>_. level))"

definition send_to_others :: "'m \<Rightarrow> conn \<Rightarrow> host_players \<Rightarrow> 'm outbox" where
  "send_to_others msg excluded p = map (\<lambda>c. (c, msg)) (filter (\<lambda>c. c \<noteq> excluded) (connections p))"

text \<open>\<open>SendToAll\<close> excludes connection 0, which is none.\<close>

definition send_to_all :: "'m \<Rightarrow> host_players \<Rightarrow> 'm outbox" where
  "send_to_all msg p = send_to_others msg 0 p"

definition send_to :: "conn \<Rightarrow> 'm \<Rightarrow> host_players \<Rightarrow> 'm outbox" where
  "send_to c msg p = (if is_player c p then [(c, msg)] else [])"

text \<open>\<open>Kick\<close>: the connection the network is told to end.\<close>

definition players_kick :: "u32 \<Rightarrow> host_players \<Rightarrow> conn option" where
  "players_kick i p = (case find (\<lambda>(_, x). pl_Id x = i) (hp_players p) of None \<Rightarrow> None
     | Some (c, x) \<Rightarrow> if pl_IsHost x then None else Some c)"

section \<open>Who is in\<close>

lemma keys_assign: "fst ` set (assign k v m) = insert k (fst ` set m)"
  by (induction k v m rule: assign.induct) auto

lemma map_of_assign [simp]: "map_of (assign k v m) = (map_of m)(k \<mapsto> v)"
  by (induction k v m rule: assign.induct) (auto simp: fun_eq_iff)

lemma distinct_assign: "distinct (map fst m) \<Longrightarrow> distinct (map fst (assign k v m))"
proof (induction k v m rule: assign.induct)
  case (2 k v k' v' m)
  then show ?case
    using keys_assign [of k v m] by auto
qed simp

lemma distinct_erase: "distinct (map fst m) \<Longrightarrow> distinct (map fst (map_erase k m))"
  by (simp add: map_erase_def distinct_map_filter)

definition emplace :: "'k \<Rightarrow> 'v \<Rightarrow> ('k \<times> 'v) list \<Rightarrow> ('k \<times> 'v) list" where
  "emplace k v m = (if map_of m k = None then assign k v m else m)"

interpretation hash_map: map_laws "\<lambda>m. distinct (map fst m)" map_of assign emplace map_erase
  by unfold_locales (auto simp: emplace_def distinct_assign distinct_erase map_of_erase)

text \<open>
  What the list keeps: one entry for a connection, ids from 1 to the last given, each one player's (as
  long as fewer than \<open>2\<^sup>3\<^sup>2\<close> joined: \<open>n\<close> counts the joins).
\<close>

definition players_ok :: "nat \<Rightarrow> host_players \<Rightarrow> bool" where
  "players_ok n p \<longleftrightarrow> distinct (map fst (hp_players p)) \<and> unat (hp_lastId p) = n \<and>
     (\<forall>c x. map_of (hp_players p) c = Some x \<longrightarrow> 0 < unat (pl_Id x) \<and> unat (pl_Id x) \<le> n) \<and>
     (\<forall>c d x y. map_of (hp_players p) c = Some x \<longrightarrow> map_of (hp_players p) d = Some y \<longrightarrow>
        pl_Id x = pl_Id y \<longrightarrow> c = d)"

lemma players_ok_none: "players_ok 0 no_players"
  by (simp add: players_ok_def no_players_def)

lemma players_ok_add:
  assumes "players_ok n p" and "Suc n < 2 ^ 32"
  shows "players_ok (Suc n) (snd (players_add c name level is_host key p))"
    and "unat (fst (players_add c name level is_host key p)) = Suc n"
proof -
  have i: "unat (hp_lastId p + 1) = Suc n"
    using assms by (simp add: players_ok_def unat_word_ariths)
  then show "unat (fst (players_add c name level is_host key p)) = Suc n"
    by (simp add: players_add_def Let_def)
  have old: "pl_Id x \<noteq> hp_lastId p + 1" if "map_of (hp_players p) d = Some x" for d x
    using assms(1) i that by (fastforce simp: players_ok_def)
  show "players_ok (Suc n) (snd (players_add c name level is_host key p))"
    using assms(1) i old old [symmetric] unfolding players_ok_def players_add_def Let_def
    by (auto simp: distinct_assign simp del: map_of_eq_Some_iff split: if_splits intro: le_SucI)
qed

lemma players_ok_remove: "players_ok n p \<Longrightarrow> players_ok n (players_remove c p)"
  by (auto simp: players_ok_def players_remove_def distinct_erase map_of_erase simp del: map_of_eq_Some_iff
      split: if_splits)

lemma players_ok_change:
  "(\<And>x. pl_Id (f x) = pl_Id x) \<Longrightarrow> players_ok n p \<Longrightarrow> players_ok n (change_player c f p)"
proof (cases "map_of (hp_players p) c")
  case (Some x)
  assume f: "\<And>x. pl_Id (f x) = pl_Id x" and ok: "players_ok n p"
  have "players_ok n (p\<lparr>hp_players := assign c (f x) (hp_players p)\<rparr>)"
    using ok Some f unfolding players_ok_def
    by (auto simp: distinct_assign simp del: map_of_eq_Some_iff split: if_splits)
  then show ?thesis by (simp add: change_player_def players_find_def Some)
qed (simp add: change_player_def players_find_def)

text \<open>The session's changes to the list.\<close>

datatype player_event =
    Joins conn string u16 bool string
  | Leaves conn
  | Renamed conn string
  | Levels conn u16

fun player_step :: "player_event \<Rightarrow> host_players \<Rightarrow> host_players" where
  "player_step (Joins c name level is_host key) p = snd (players_add c name level is_host key p)"
| "player_step (Leaves c) p = players_remove c p"
| "player_step (Renamed c name) p = players_set_name c name p"
| "player_step (Levels c level) p = players_set_level c level p"

definition joins :: "player_event list \<Rightarrow> nat" where
  "joins es = length (filter (\<lambda>e. case e of Joins _ _ _ _ _ \<Rightarrow> True | _ \<Rightarrow> False) es)"

lemma players_ok_run:
  "joins (as @ es) < 2 ^ 32 \<Longrightarrow> players_ok (joins as) p \<Longrightarrow>
     players_ok (joins (as @ es)) (fold player_step es p)"
proof (induction es arbitrary: as p)
  case (Cons e es)
  have "players_ok (joins (as @ [e])) (player_step e p)"
    using Cons.prems players_ok_add [of "joins as" p]
    by (cases e)
      (auto simp: joins_def players_ok_remove players_ok_change players_set_name_def players_set_level_def)
  with Cons.IH [of "as @ [e]"] Cons.prems show ?case by simp
qed simp

lemma players_reachable: "joins es < 2 ^ 32 \<Longrightarrow> players_ok (joins es) (fold player_step es no_players)"
  using players_ok_run [of "[]" es no_players] players_ok_none by (simp add: joins_def)

text \<open>Who is in the session, and by which id, after a change of the list.\<close>

lemma is_player_in: "is_player c p \<longleftrightarrow> c \<in> set (connections p)"
  by (simp add: is_player_def players_find_def connections_def map_of_eq_None_iff)

lemma connections_add: "connections (snd (players_add c name level is_host key p)) =
    map fst (assign c \<lparr>pl_Id = hp_lastId p + 1, pl_Name = name, pl_Level = level, pl_IsHost = is_host, pl_Key = key\<rparr> (hp_players p))"
  by (simp add: connections_def players_add_def Let_def)

lemma connections_added:
  "set (connections (snd (players_add c name level is_host key p))) = insert c (set (connections p))"
  "distinct (connections p) \<Longrightarrow> distinct (connections (snd (players_add c name level is_host key p)))"
  unfolding connections_add set_map keys_assign by (simp_all add: connections_def distinct_assign)

lemma connections_removed:
  "set (connections (players_remove c p)) = set (connections p) - {c}"
  "distinct (connections p) \<Longrightarrow> distinct (connections (players_remove c p))"
  by (simp_all add: connections_def players_remove_def distinct_erase) (auto simp: map_erase_def)

lemma connections_renamed:
  "set (connections (change_player c f p)) = set (connections p)"
  "distinct (connections p) \<Longrightarrow> distinct (connections (change_player c f p))"
  using is_player_in [of c p]
  by (auto simp: change_player_def connections_def keys_assign distinct_assign is_player_def players_find_def split: option.split)

lemma player_id_kept:
  "d \<noteq> c \<Longrightarrow> player_id_of d (players_remove c p) = player_id_of d p"
  "d \<noteq> c \<Longrightarrow> player_id_of d (snd (players_add c name level is_host key p)) = player_id_of d p"
  "(\<And>x. pl_Id (f x) = pl_Id x) \<Longrightarrow> player_id_of d (change_player c f p) = player_id_of d p"
  by (auto simp: player_id_of_def players_find_def players_remove_def players_add_def change_player_def map_of_erase Let_def
      simp del: map_of_eq_Some_iff split: option.split)

lemma find_map_of: "distinct (map fst m) \<Longrightarrow> find P m = Some (c, x) \<Longrightarrow> map_of m c = Some x \<and> P (c, x)"
  by (auto simp: find_Some_iff in_set_conv_nth)

text \<open>
  The ids given over a session, each with the connection it was given to, in order: the players that
  have left since included.
\<close>

fun given_ids :: "host_players \<Rightarrow> player_event list \<Rightarrow> (conn \<times> u32) list" where
  "given_ids p [] = []"
| "given_ids p (Joins c name level is_host key # es) =
     (c, fst (players_add c name level is_host key p)) # given_ids (snd (players_add c name level is_host key p)) es"
| "given_ids p (e # es) = given_ids (player_step e p) es"

lemma given_append: "given_ids p (es @ fs) = given_ids p es @ given_ids (fold player_step es p) fs"
  by (induction p es rule: given_ids.induct) auto

lemma given_count_up:
  "players_ok n p \<Longrightarrow> n + joins es < 2 ^ 32 \<Longrightarrow> map (unat \<circ> snd) (given_ids p es) = [Suc n..<Suc (n + joins es)]"
proof (induction p es arbitrary: n rule: given_ids.induct)
  case (2 p c name level is_host key es)
  then have n: "Suc n < 2 ^ 32" "Suc n + joins es < 2 ^ 32"
    by (simp_all add: joins_def)
  have "map (unat \<circ> snd) (given_ids (snd (players_add c name level is_host key p)) es) = [Suc (Suc n)..<Suc (Suc n + joins es)]"
    using "2.IH" players_ok_add(1) [OF "2.prems"(1) n(1)] n(2) by blast
  then show ?case
    using players_ok_add(2) [OF "2.prems"(1) n(1)] by (simp add: joins_def comp_def upt_conv_Cons del: upt_Suc)
qed (auto simp: joins_def players_ok_remove players_ok_change players_set_name_def players_set_level_def)

lemma change_keeps_id:
  assumes f: "\<And>x. pl_Id (f x) = pl_Id x" and c: "map_of (hp_players (change_player d f p)) c = Some x"
  shows "\<exists>y. map_of (hp_players p) c = Some y \<and> pl_Id y = pl_Id x"
proof (cases "map_of (hp_players p) d")
  case None
  with c show ?thesis by (simp add: change_player_def players_find_def del: map_of_eq_Some_iff)
next
  case (Some z)
  with c f [of z] show ?thesis
    by (cases "c = d") (auto simp: change_player_def players_find_def simp del: map_of_eq_Some_iff)
qed

lemma last_given:
  "map_of (hp_players (fold player_step es no_players)) c = Some x \<Longrightarrow>
     map_of (rev (given_ids no_players es)) c = Some (pl_Id x)"
proof (induction es arbitrary: c x rule: rev_induct)
  case Nil
  then show ?case by (simp add: no_players_def)
next
  case (snoc e es)
  have e: "map_of (hp_players (player_step e (fold player_step es no_players))) c = Some x"
    using snoc.prems by simp
  show ?case
  proof (cases e)
    case (Joins d name level is_host key)
    show ?thesis
    proof (cases "d = c")
      case True
      with e Joins show ?thesis by (auto simp: given_append players_add_def Let_def)
    next
      case False
      with e Joins have "map_of (hp_players (fold player_step es no_players)) c = Some x"
        by (simp add: players_add_def Let_def del: map_of_eq_Some_iff)
      from snoc.IH [OF this] Joins False show ?thesis
        by (simp add: given_append del: map_of_eq_Some_iff)
    qed
  next
    case (Leaves d)
    with e have "map_of (hp_players (fold player_step es no_players)) c = Some x"
      by (simp add: players_remove_def map_of_erase del: map_of_eq_Some_iff split: if_splits)
    from snoc.IH [OF this] Leaves show ?thesis
      by (simp add: given_append del: map_of_eq_Some_iff)
  next
    case (Renamed d name)
    have "map_of (hp_players (change_player d (pl_Name_update (\<lambda>_. name)) (fold player_step es no_players))) c = Some x"
      using e unfolding Renamed player_step.simps players_set_name_def .
    from change_keeps_id [OF _ this] obtain y
      where "map_of (hp_players (fold player_step es no_players)) c = Some y" "pl_Id y = pl_Id x"
      by auto
    with snoc.IH [OF this(1)] Renamed show ?thesis
      by (simp add: given_append del: map_of_eq_Some_iff)
  next
    case (Levels d level)
    have "map_of (hp_players (change_player d (pl_Level_update (\<lambda>_. level)) (fold player_step es no_players))) c = Some x"
      using e unfolding Levels player_step.simps players_set_level_def .
    from change_keeps_id [OF _ this] obtain y
      where "map_of (hp_players (fold player_step es no_players)) c = Some y" "pl_Id y = pl_Id x"
      by auto
    with snoc.IH [OF this(1)] Levels show ?thesis
      by (simp add: given_append del: map_of_eq_Some_iff)
  qed
qed

lemma kick_finds:
  assumes ok: "players_ok n p" and c: "map_of (hp_players p) c = Some x"
  shows "players_kick (pl_Id x) p = (if pl_IsHost x then None else Some c)"
proof -
  have "\<exists>r. find (\<lambda>(_, y). pl_Id y = pl_Id x) (hp_players p) = Some r"
    using map_of_SomeD [OF c] unfolding not_None_eq [symmetric] find_None_iff by fastforce
  then obtain d y where f: "find (\<lambda>(_, y). pl_Id y = pl_Id x) (hp_players p) = Some (d, y)"
    by (metis surj_pair)
  then have "map_of (hp_players p) d = Some y" "pl_Id y = pl_Id x"
    using ok find_map_of [of "hp_players p" _ d y] by (auto simp: players_ok_def)
  then have "d = c" "y = x"
    using ok c unfolding players_ok_def by (metis option.inject)+
  then show ?thesis
    by (simp add: players_kick_def f)
qed

text \<open>
  C25: however players join, leave and are renamed, while fewer than \<open>2\<^sup>3\<^sup>2\<close> have joined: no id
  is given twice in the whole session, to one that comes after a player left either, and none is 0. Each
  player there goes by the id its connection was last given, and kicking that id ends its connection and no
  other; the host is never kicked.
\<close>

theorem players_known_by_id:
  assumes "joins es < 2 ^ 32"
  shows "distinct (map snd (given_ids no_players es)) \<and> 0 \<notin> snd ` set (given_ids no_players es) \<and>
    (\<forall>c x. map_of (hp_players (fold player_step es no_players)) c = Some x \<longrightarrow>
       map_of (rev (given_ids no_players es)) c = Some (pl_Id x) \<and>
       players_kick (pl_Id x) (fold player_step es no_players) = (if pl_IsHost x then None else Some c))"
proof -
  have up: "map unat (map snd (given_ids no_players es)) = [1..<Suc (joins es)]"
    using given_count_up [OF players_ok_none, of es] assms by simp
  then have "distinct (map unat (map snd (given_ids no_players es)))"
    by (metis distinct_upt)
  then have "distinct (map snd (given_ids no_players es))"
    by (rule distinct_map [THEN iffD1, THEN conjunct1])
  moreover have "set (map unat (map snd (given_ids no_players es))) = set [1..<Suc (joins es)]"
    by (simp only: up)
  then have "0 \<notin> unat ` (snd ` set (given_ids no_players es))"
    by (simp add: image_image)
  then have "0 \<notin> snd ` set (given_ids no_players es)"
    by (metis imageI unat_0)
  ultimately show ?thesis
    using last_given [of es] kick_finds [OF players_reachable [OF assms]] by blast
qed

text \<open>A guest leaves and another takes its connection: its id is a new one.\<close>

lemma players_known_by_id_witness:
  "let es = [Joins 7 ''Host'' 5 True [], Joins 9 ''Guest'' 3 False [], Leaves 9, Joins 9 ''Ralof'' 3 False [], Renamed 9 ''Hadvar'']
   in given_ids no_players es = [(7, 1), (9, 2), (9, 3)] \<and> players_kick 3 (fold player_step es no_players) = Some 9 \<and>
      distinct (map snd (given_ids no_players es))"
  using players_known_by_id
    [of "[Joins 7 ''Host'' 5 True [], Joins 9 ''Guest'' 3 False [], Leaves 9, Joins 9 ''Ralof'' 3 False [], Renamed 9 ''Hadvar'']"]
  by (simp add: joins_def players_add_def no_players_def Let_def players_set_name_def change_player_def players_find_def
      players_remove_def map_erase_def players_kick_def)

end
