(* ===== verification/Save_Hosting.thy ===== *)
theory Save_Hosting
  imports Save_Transfer Host_Players
begin

text \<open>
  The host's save for the games that join from the main menu (\<open>Services/Host/HostSaveTransfer\<close>): the host's
  game saves once for those waiting, then each gets that save's blocks, a few each update.
\<close>

section \<open>Who gets the save\<close>

text \<open>
  \<open>Save\<close> is shared and never changed: its chunks. \<open>Cached\<close> is an unordered set that is only asked what it
  contains: its elements.
\<close>

record save_receiver =
  rc_Save :: "save_chunk list option"
  rc_Next :: nat
  rc_Cached :: "string list"
  rc_ReusedBytes :: u64
  rc_SentBytes :: u64
  rc_Since :: u64

definition new_receiver :: save_receiver where
  "new_receiver = \<lparr>rc_Save = None, rc_Next = 0, rc_Cached = [], rc_ReusedBytes = 0, rc_SentBytes = 0, rc_Since = 0\<rparr>"

type_synonym receivers = "(conn \<times> save_receiver) list"

text \<open>What the network is told: a message to a game, or to end its connection.\<close>

datatype transfer_out =
    SaveChunk conn save_chunk
  | TransferFailed conn
  | PartyReload conn
  | Kicked conn

text \<open>
  What an update asks the rest of the host's game: \<open>SaveWorld\<close>, if the game has it (its answer to each call in the
  update), and the reliable packets queued for a connection (none: no such peer).
\<close>

record transfer_world =
  tw_SaveWorld :: "(nat \<Rightarrow> save_chunk list option) option"
  tw_Queued :: "conn \<Rightarrow> nat option"

definition chunks_per_update :: nat where "chunks_per_update = 64"
definition bytes_per_update :: nat where "bytes_per_update = 256 * 1024"
definition save_seconds :: u64 where "save_seconds = 60"

definition transfer_want :: "conn \<Rightarrow> string list \<Rightarrow> receivers \<Rightarrow> receivers" where
  "transfer_want c hashes m =
     map_put c (new_receiver\<lparr>rc_Cached := (if length hashes \<le> 16384 then filter (\<lambda>h. length h = 32) hashes else [])\<rparr>) m"

definition transfer_disconnected :: "conn \<Rightarrow> receivers \<Rightarrow> receivers" where
  "transfer_disconnected c m = map_erase c m"

section \<open>An update\<close>

definition chunk_cost :: "save_receiver \<Rightarrow> save_chunk \<Rightarrow> nat" where
  "chunk_cost r x = (if ch_Hash x \<in> set (rc_Cached r) then 0 else length (ch_Data x)) + 64"

text \<open>One chunk, to a game that has its block as its hash.\<close>

definition send_chunk :: "conn \<Rightarrow> save_chunk \<Rightarrow> save_receiver \<Rightarrow> save_receiver \<times> transfer_out list" where
  "send_chunk c x r =
     (let r = r\<lparr>rc_Next := rc_Next r + 1\<rparr>
      in if ch_Hash x \<in> set (rc_Cached r)
         then (r\<lparr>rc_ReusedBytes := rc_ReusedBytes r + ucast (ch_RawSize x)\<rparr>, [SaveChunk c (x\<lparr>ch_Data := []\<rparr>)])
         else (r\<lparr>rc_SentBytes := rc_SentBytes r + of_nat (length (ch_Data x))\<rparr>, [SaveChunk c x]))"

fun send_chunks :: "conn \<Rightarrow> save_chunk list \<Rightarrow> nat \<Rightarrow> nat \<Rightarrow> save_receiver \<Rightarrow> save_receiver \<times> transfer_out list" where
  "send_chunks c save 0 bytes r = (r, [])"
| "send_chunks c save (Suc i) bytes r =
     (if length save \<le> rc_Next r then (r, [])
      else let x = save ! rc_Next r; cost = chunk_cost r x
           in if bytes \<noteq> 0 \<and> bytes + cost > bytes_per_update then (r, [])
              else let (r, out) = send_chunk c x r; (r, outs) = send_chunks c save i (bytes + cost) r
                   in (r, out @ outs))"

text \<open>\<open>pSave\<close> and the calls made of \<open>SaveWorld\<close>: the save made in this update, if it was.\<close>

type_synonym saving = "save_chunk list option \<times> nat"

definition make_save :: "transfer_world \<Rightarrow> saving \<Rightarrow> saving \<times> bool" where
  "make_save w sv =
     (let (save, calls) = sv
      in case (save, tw_SaveWorld w) of
           (None, Some save_world) \<Rightarrow>
             (case save_world calls of
                None \<Rightarrow> ((None, calls + 1), False)
              | Some xs \<Rightarrow> if xs = [] then ((None, calls + 1), True) else ((Some xs, calls + 1), False))
         | _ \<Rightarrow> (sv, False))"

text \<open>One game's turn: what is left of it (none: it is done or refused).\<close>

definition update_receiver ::
    "u64 \<Rightarrow> transfer_world \<Rightarrow> conn \<Rightarrow> save_receiver \<Rightarrow> saving \<Rightarrow> saving \<times> save_receiver option \<times> transfer_out list" where
  "update_receiver tick w c r sv =
     (let (sv, refused, r) =
        (if rc_Save r \<noteq> None then (sv, False, r)
         else let r = (if rc_Since r = 0 then r\<lparr>rc_Since := tick\<rparr> else r);
                  (sv, invalid) = make_save w sv
              in if fst sv \<noteq> None then (sv, False, r\<lparr>rc_Save := fst sv\<rparr>)
                 else (sv, invalid \<or> tick - rc_Since r > save_seconds * 1000, r))
      in if refused then (sv, None, [TransferFailed c, Kicked c])
         else case rc_Save r of
             None \<Rightarrow> (sv, Some r, [])
           | Some save \<Rightarrow>
               if (case tw_Queued w c of None \<Rightarrow> False | Some queued \<Rightarrow> queued > 512) then (sv, Some r, [])
               else let (r, out) = send_chunks c save chunks_per_update 0 r
                    in (sv, if rc_Next r = length save then None else Some r, out))"

fun update_receivers :: "u64 \<Rightarrow> transfer_world \<Rightarrow> receivers \<Rightarrow> saving \<Rightarrow> receivers \<times> transfer_out list" where
  "update_receivers tick w [] sv = ([], [])"
| "update_receivers tick w ((c, r) # m) sv =
     (let (sv, left, out) = update_receiver tick w c r sv; (m, outs) = update_receivers tick w m sv
      in ((case left of None \<Rightarrow> m | Some r \<Rightarrow> (c, r) # m), out @ outs))"

definition transfer_update :: "u64 \<Rightarrow> transfer_world \<Rightarrow> receivers \<Rightarrow> receivers \<times> transfer_out list" where
  "transfer_update tick w m = update_receivers tick w m (None, 0)"

text \<open>A party wipe's save, to the guests and to whoever was joining.\<close>

definition transfer_checkpoint :: "save_chunk list \<Rightarrow> conn list \<Rightarrow> receivers \<Rightarrow> receivers \<times> transfer_out list" where
  "transfer_checkpoint chunks guests m =
     (let m = fold (\<lambda>c. map_insert c new_receiver) guests m
      in (map (\<lambda>(c, _). (c, new_receiver\<lparr>rc_Save := Some chunks\<rparr>)) m, map (\<lambda>(c, _). PartyReload c) m))"

definition is_sending :: "conn \<Rightarrow> receivers \<Rightarrow> bool" where
  "is_sending c m \<longleftrightarrow> map_of m c \<noteq> None"

section \<open>Runs\<close>

datatype transfer_event =
    Wants conn "string list"
  | Disconnects conn
  | Updates u64 transfer_world
  | Checkpoints "save_chunk list" "conn list"

fun transfer_step :: "transfer_event \<Rightarrow> receivers \<Rightarrow> receivers \<times> transfer_out list" where
  "transfer_step (Wants c hashes) m = (transfer_want c hashes m, [])"
| "transfer_step (Disconnects c) m = (transfer_disconnected c m, [])"
| "transfer_step (Updates tick w) m = transfer_update tick w m"
| "transfer_step (Checkpoints chunks guests) m = transfer_checkpoint chunks guests m"

abbreviation transfer_run :: "transfer_event list \<Rightarrow> receivers \<Rightarrow> receivers \<times> transfer_out list" where
  "transfer_run \<equiv> run transfer_step"

text \<open>The chunks a connection is sent.\<close>

fun chunk_for :: "conn \<Rightarrow> transfer_out \<Rightarrow> save_chunk list" where
  "chunk_for c (SaveChunk d x) = (if d = c then [x] else [])"
| "chunk_for c _ = []"

definition chunks_for :: "conn \<Rightarrow> transfer_out list \<Rightarrow> save_chunk list" where
  "chunks_for c out = concat (map (chunk_for c) out)"

lemma chunks_for_append [simp]: "chunks_for c (xs @ ys) = chunks_for c xs @ chunks_for c ys"
  and chunks_for_simps [simp]: "chunks_for c [] = []" "chunks_for c (x # xs) = chunk_for c x @ chunks_for c xs"
  by (simp_all add: chunks_for_def)

section \<open>One game's turn\<close>

text \<open>What a game is still to be sent of a save.\<close>

definition still_to_send :: "save_chunk list \<Rightarrow> save_receiver \<Rightarrow> save_chunk list" where
  "still_to_send save r = map (sent_chunk (set (rc_Cached r))) (drop (rc_Next r) save)"

lemma send_chunk_sent:
  "rc_Next (fst (send_chunk c x r)) = Suc (rc_Next r)" "rc_Cached (fst (send_chunk c x r)) = rc_Cached r"
  "rc_Save (fst (send_chunk c x r)) = rc_Save r"
  "snd (send_chunk c x r) = [SaveChunk c (sent_chunk (set (rc_Cached r)) x)]"
  by (auto simp: send_chunk_def sent_chunk_def Let_def)

lemma still_to_send_Cons:
  "rc_Next r < length save \<Longrightarrow> still_to_send save r =
     sent_chunk (set (rc_Cached r)) (save ! rc_Next r) # still_to_send save (fst (send_chunk c (save ! rc_Next r) r))"
  by (simp add: still_to_send_def send_chunk_sent flip: Cons_nth_drop_Suc)

lemma send_chunks_sent:
  assumes "rc_Next r \<le> length save" and "(r', out) = send_chunks c save i bytes r"
  shows "chunks_for c out @ still_to_send save r' = still_to_send save r \<and> rc_Cached r' = rc_Cached r \<and> rc_Save r' = rc_Save r \<and>
    rc_Next r' \<le> length save \<and> rc_Next r' = rc_Next r + length (chunks_for c out) \<and>
    (d \<noteq> c \<longrightarrow> chunks_for d out = [])"
  using assms
proof (induction c save i bytes r arbitrary: r' out rule: send_chunks.induct)
  case (2 c save i bytes r)
  define x where "x = save ! rc_Next r"
  show ?case
  proof (cases "rc_Next r = length save \<or> bytes \<noteq> 0 \<and> bytes + chunk_cost r x > bytes_per_update")
    case True
    then show ?thesis
      using 2(2,3) by (auto simp: x_def Let_def split: if_splits)
  next
    case False
    obtain r2 out2 where more: "send_chunks c save i (bytes + chunk_cost r x) (fst (send_chunk c x r)) = (r2, out2)"
      by fastforce
    have "(r', out) = (r2, snd (send_chunk c x r) @ out2)"
      using False 2(2,3) more by (auto simp: x_def Let_def case_prod_unfold)
    moreover have "chunks_for c out2 @ still_to_send save r2 = still_to_send save (fst (send_chunk c x r)) \<and>
        rc_Cached r2 = rc_Cached (fst (send_chunk c x r)) \<and> rc_Save r2 = rc_Save (fst (send_chunk c x r)) \<and>
        rc_Next r2 \<le> length save \<and> rc_Next r2 = rc_Next (fst (send_chunk c x r)) + length (chunks_for c out2) \<and>
        (d \<noteq> c \<longrightarrow> chunks_for d out2 = [])"
      by (rule 2(1) [of x "chunk_cost r x" "send_chunk c x r" "fst (send_chunk c x r)" "snd (send_chunk c x r)" r2 out2])
        (use False 2(2) more in \<open>simp_all add: x_def send_chunk_sent(1)\<close>)
    ultimately show ?thesis
      using still_to_send_Cons [of r save c] False 2(2) by (auto simp: x_def send_chunk_sent)
  qed
qed simp

lemma send_chunks_some:
  assumes "rc_Next r < length save" and "(r', out) = send_chunks c save (Suc i) 0 r"
  shows "chunks_for c out \<noteq> []"
  using assms by (auto simp: Let_def case_prod_unfold send_chunk_sent)

definition free_line :: "conn \<Rightarrow> transfer_event \<Rightarrow> bool" where
  "free_line c e = (case e of
       Updates _ w \<Rightarrow> (case tw_Queued w c of None \<Rightarrow> True | Some queued \<Rightarrow> queued \<le> 512)
     | _ \<Rightarrow> False)"

text \<open>A game that has its save: some more of it, or it is done.\<close>

lemma update_receiver_sending:
  assumes "rc_Save r = Some save" "rc_Next r < length save"
    and "update_receiver tick w c r sv = (sv', left, out)"
  shows "(case left of
       None \<Rightarrow> chunks_for c out = still_to_send save r
     | Some r' \<Rightarrow> rc_Save r' = Some save \<and> rc_Next r' < length save \<and> chunks_for c out @ still_to_send save r' = still_to_send save r) \<and>
    (free_line c (Updates tick w) \<longrightarrow> chunks_for c out \<noteq> [])"
proof (cases "case tw_Queued w c of None \<Rightarrow> False | Some queued \<Rightarrow> queued > 512")
  case True
  then show ?thesis
    using assms by (auto simp: update_receiver_def Let_def free_line_def split: option.splits)
next
  case False
  obtain r' out' where sent: "send_chunks c save chunks_per_update 0 r = (r', out')"
    by fastforce
  moreover have "chunks_per_update = Suc 63"
    by (simp add: chunks_per_update_def)
  ultimately have "chunks_for c out' \<noteq> []"
    using send_chunks_some [of r save r' out' c 63] assms(2) by simp
  moreover have "left = (if rc_Next r' = length save then None else Some r')" "out = out'"
    using assms(1,3) False sent by (auto simp: update_receiver_def Let_def)
  ultimately show ?thesis
    using send_chunks_sent [of r save r' out' c chunks_per_update 0 c] sent assms(1,2)
    by (auto simp: still_to_send_def)
qed

text \<open>A game is sent chunks in its own turn only.\<close>

lemma send_chunks_others: "d \<noteq> c \<Longrightarrow> chunks_for d (snd (send_chunks c save i bytes r)) = []"
  by (induction i arbitrary: bytes r) (auto simp: Let_def case_prod_unfold send_chunk_sent)

lemma update_receiver_others: "d \<noteq> c \<Longrightarrow> chunks_for d (snd (snd (update_receiver tick w c r sv))) = []"
  by (auto simp: update_receiver_def Let_def case_prod_unfold send_chunks_others split: option.split)

text \<open>So an update is its turn.\<close>

lemma update_receivers_Cons:
  "fst (update_receivers tick w ((d, q) # m) sv) =
     (case fst (snd (update_receiver tick w d q sv)) of
        None \<Rightarrow> fst (update_receivers tick w m (fst (update_receiver tick w d q sv)))
      | Some r \<Rightarrow> (d, r) # fst (update_receivers tick w m (fst (update_receiver tick w d q sv))))"
  "snd (update_receivers tick w ((d, q) # m) sv) =
     snd (snd (update_receiver tick w d q sv)) @ snd (update_receivers tick w m (fst (update_receiver tick w d q sv)))"
  by (simp_all add: Let_def case_prod_unfold)

declare update_receivers.simps(2) [simp del]

lemma update_receivers_absent: "c \<notin> set (map fst m) \<Longrightarrow> c \<notin> set (map fst (fst (update_receivers tick w m sv))) \<and>
    chunks_for c (snd (update_receivers tick w m sv)) = []"
proof (induction m arbitrary: sv)
  case (Cons x m)
  then show ?case
    using Cons.IH [of "fst (update_receiver tick w (fst x) (snd x) sv)"]
    by (cases x) (auto simp: update_receivers_Cons update_receiver_others split: option.split)
qed simp

lemma update_receivers_turn:
  assumes "distinct (map fst m)" "map_of m c = Some r" and P: "P sv" "\<And>d q sv. P sv \<Longrightarrow> P (fst (update_receiver tick w d q sv))"
  shows "\<exists>sv'. P sv' \<and> map_of (fst (update_receivers tick w m sv)) c = fst (snd (update_receiver tick w c r sv')) \<and>
    chunks_for c (snd (update_receivers tick w m sv)) = chunks_for c (snd (snd (update_receiver tick w c r sv')))"
  using assms(1-3)
proof (induction m arbitrary: sv)
  case (Cons x m)
  obtain d q where x: "x = (d, q)"
    by (cases x)
  let ?turn = "update_receiver tick w d q sv"
  note parts = update_receivers_Cons [of tick w d q m sv, folded x]
  show ?case
  proof (cases "d = c")
    case True
    then have "c \<notin> set (map fst m)" "q = r"
      using Cons.prems x by simp_all
    then show ?thesis
      using update_receivers_absent [of c m tick w "fst ?turn"] True Cons.prems(3) unfolding parts
      by (intro exI [of _ sv]) (auto split: option.split simp: map_of_eq_None_iff)
  next
    case False
    then have "distinct (map fst m)" "map_of m c = Some r"
      using Cons.prems x by auto
    from Cons.IH [OF this P(2) [OF Cons.prems(3), of d q]] show ?thesis
      using update_receiver_others [of c d tick w q sv] False unfolding parts by (auto split: option.split)
  qed
qed simp

lemma keys_update: "ordered m \<Longrightarrow> ordered (fst (update_receivers tick w m sv))"
proof (induction m arbitrary: sv)
  case (Cons x m)
  obtain d q where x: "x = (d, q)"
    by (cases x)
  let ?rest = "fst (update_receivers tick w m (fst (update_receiver tick w d q sv)))"
  have "set (map fst ?rest) \<subseteq> set (map fst m)"
    using update_receivers_absent [of _ m tick w "fst (update_receiver tick w d q sv)"] by blast
  then have "d < k" if "k \<in> set (map fst ?rest)" for k
    using that Cons.prems by (fastforce simp: x ordered_def)
  moreover have "ordered ?rest"
    using Cons by (simp add: x ordered_def)
  ultimately show ?case
    by (auto simp: x ordered_def update_receivers_Cons split: option.split)
qed simp

lemma ordered_step: "ordered m \<Longrightarrow> ordered (fst (transfer_step e m))"
proof (cases e)
  case (Checkpoints chunks guests)
  assume "ordered m"
  then have "ordered (fold (\<lambda>c. map_insert c new_receiver) guests m)"
    by (induction guests arbitrary: m) (simp_all add: std_map.insert_inv)
  then show ?thesis
    using Checkpoints by (simp add: transfer_checkpoint_def ordered_def Let_def case_prod_unfold comp_def)
qed (simp_all add: transfer_want_def transfer_disconnected_def transfer_update_def ordered_put ordered_erase keys_update)

lemma ordered_run: "ordered m \<Longrightarrow> ordered (fst (transfer_run es m))"
  by (induction es arbitrary: m) (simp_all add: run_Cons ordered_step)

section \<open>Its save, whole\<close>

text \<open>Events that leave a game's save alone: updates, and whatever concerns others.\<close>

definition undisturbed :: "conn \<Rightarrow> transfer_event \<Rightarrow> bool" where
  "undisturbed c e = (case e of Wants d _ \<Rightarrow> d \<noteq> c | Disconnects d \<Rightarrow> d \<noteq> c | Updates _ _ \<Rightarrow> True | Checkpoints _ _ \<Rightarrow> False)"

lemma undisturbed_other:
  assumes "undisturbed c e" "ordered m" "\<nexists>tick w. e = Updates tick w"
  shows "map_of (fst (transfer_step e m)) c = map_of m c \<and> chunks_for c (snd (transfer_step e m)) = [] \<and> \<not> free_line c e"
  using assms
  by (cases e) (simp_all add: undisturbed_def free_line_def transfer_want_def transfer_disconnected_def
    std_map.put_lookup std_map.erase_lookup)

lemma done_stays:
  assumes "ordered m" "map_of m c = None" "list_all (undisturbed c) es"
  shows "chunks_for c (snd (transfer_run es m)) = [] \<and> map_of (fst (transfer_run es m)) c = None"
  using assms
proof (induction es arbitrary: m)
  case (Cons e es)
  have "map_of (fst (transfer_step e m)) c = None \<and> chunks_for c (snd (transfer_step e m)) = []"
  proof (cases "\<exists>tick w. e = Updates tick w")
    case True
    then obtain tick w where "e = Updates tick w"
      by auto
    then show ?thesis
      using update_receivers_absent [of c m tick w "(None, 0)"] Cons.prems(2)
      by (simp add: transfer_update_def map_of_eq_None_iff)
  next
    case False
    then show ?thesis
      using undisturbed_other [of c e m] Cons.prems by simp
  qed
  then show ?case
    using Cons.IH [OF ordered_step [OF Cons.prems(1)]] Cons.prems(3) by (simp add: run_Cons)
qed simp

text \<open>Sent in order, something at every update its line is free for, and forgotten once it has everything.\<close>

definition served :: "conn \<Rightarrow> save_chunk list \<Rightarrow> transfer_event list \<Rightarrow> receivers \<Rightarrow> bool" where
  "served c xs es m \<longleftrightarrow>
     (\<exists>k. chunks_for c (snd (transfer_run es m)) = take k xs \<and>
        min (length (filter (free_line c) es)) (length xs) \<le> k \<and>
        (length xs \<le> k \<longrightarrow> map_of (fst (transfer_run es m)) c = None))"

lemma served_update:
  assumes "ordered m" "list_all (undisturbed c) es" "free_line c e \<Longrightarrow> sent \<noteq> []"
    and step: "map_of (fst (transfer_step e m)) c = left" "chunks_for c (snd (transfer_step e m)) = sent"
    and turn: "case left of None \<Rightarrow> sent = xs
      | Some r' \<Rightarrow> sent @ still_to_send save r' = xs \<and> served c (still_to_send save r') es (fst (transfer_step e m))"
  shows "served c xs (e # es) m"
proof (cases left)
  case None
  then show ?thesis
    using done_stays [OF ordered_step [OF assms(1)], of e c es] assms(2) step turn
    unfolding served_def by (intro exI [of _ "length xs"]) (simp add: run_Cons)
next
  case (Some r')
  then obtain k where k: "chunks_for c (snd (transfer_run es (fst (transfer_step e m)))) = take k (still_to_send save r')"
      "min (length (filter (free_line c) es)) (length (still_to_send save r')) \<le> k"
      "length (still_to_send save r') \<le> k \<longrightarrow> map_of (fst (transfer_run es (fst (transfer_step e m)))) c = None"
      and all: "xs = sent @ still_to_send save r'"
    using turn unfolding served_def by auto
  obtain n where n: "n = length sent" "free_line c e \<Longrightarrow> 1 \<le> n"
    using assms(3) by (simp add: Suc_le_eq)
  have "min (length (filter (free_line c) (e # es))) (n + length (still_to_send save r')) \<le> n + k"
    using k(2) n(2) by auto
  then show ?thesis
    using k(1,3) step n(1) unfolding served_def by (intro exI [of _ "n + k"]) (simp add: run_Cons all)
qed

lemma turn_at:
  assumes "ordered m" "map_of m c = Some r" "P (None, 0)" "\<And>d q sv. P sv \<Longrightarrow> P (fst (update_receiver tick w d q sv))"
  obtains sv where "P sv" "map_of (fst (transfer_step (Updates tick w) m)) c = fst (snd (update_receiver tick w c r sv))"
    "chunks_for c (snd (transfer_step (Updates tick w) m)) = chunks_for c (snd (snd (update_receiver tick w c r sv)))"
  using update_receivers_turn [of m c r P "(None, 0)" tick w] assms by (auto simp: transfer_update_def ordered_def strict_sorted_iff)

lemma run_sends:
  assumes "ordered m" "map_of m c = Some r" "rc_Save r = Some save" "rc_Next r < length save"
    and "list_all (undisturbed c) es"
  shows "served c (still_to_send save r) es m"
  using assms
proof (induction es arbitrary: m r)
  case Nil
  then show ?case
    unfolding served_def by (intro exI [of _ 0]) (auto simp: still_to_send_def)
next
  case (Cons e es)
  note ordered = ordered_step [OF Cons.prems(1), of e]
  show ?case
  proof (cases "\<exists>tick w. e = Updates tick w")
    case False
    then have "map_of (fst (transfer_step e m)) c = Some r \<and> chunks_for c (snd (transfer_step e m)) = [] \<and> \<not> free_line c e"
      using undisturbed_other [of c e m] Cons.prems(1,2,5) by simp
    then show ?thesis
      using Cons.IH [OF ordered _ Cons.prems(3,4)] Cons.prems(5) by (simp add: run_Cons served_def)
  next
    case True
    then obtain tick w where e: "e = Updates tick w"
      by auto
    obtain sv where sv: "map_of (fst (transfer_step e m)) c = fst (snd (update_receiver tick w c r sv))"
        "chunks_for c (snd (transfer_step e m)) = chunks_for c (snd (snd (update_receiver tick w c r sv)))"
      using turn_at [of m c r "\<lambda>_. True" tick w] Cons.prems(1,2) unfolding e by auto
    obtain sv' left out where turn: "update_receiver tick w c r sv = (sv', left, out)"
      by (cases "update_receiver tick w c r sv") auto
    note sent = update_receiver_sending [OF Cons.prems(3,4) turn]
    show ?thesis
      by (rule served_update [OF Cons.prems(1), of c es e "chunks_for c out" left])
        (use Cons.IH [OF ordered] Cons.prems(5) sv turn sent in \<open>auto simp: e split: option.splits\<close>)
  qed
qed

text \<open>A game waiting for the save, in an update that makes it.\<close>

lemma update_receiver_waiting:
  assumes "rc_Save r = None" "tw_SaveWorld w = Some (\<lambda>_. Some save)" "save \<noteq> []" "fst sv \<in> {None, Some save}"
  shows "\<exists>sv' since. update_receiver tick w c r sv =
    update_receiver tick w c (r\<lparr>rc_Since := since, rc_Save := Some save\<rparr>) sv'"
proof (intro exI)
  show "update_receiver tick w c r sv = update_receiver tick w c
      (r\<lparr>rc_Since := if rc_Since r = 0 then tick else rc_Since r, rc_Save := Some save\<rparr>)
      (Some save, if fst sv = None then snd sv + 1 else snd sv)"
    using assms by (cases sv) (auto simp: update_receiver_def make_save_def Let_def case_prod_unfold)
qed

lemma saving_same:
  assumes "tw_SaveWorld w = Some (\<lambda>_. Some save)" "save \<noteq> []" "fst sv \<in> {None, Some save}"
  shows "fst (fst (update_receiver tick w d q sv)) \<in> {None, Some save}"
  using assms by (auto simp: update_receiver_def make_save_def Let_def case_prod_unfold split: option.split)

lemma wanted_served:
  assumes "ordered m" "list_all (undisturbed c) es" "tw_SaveWorld w = Some (\<lambda>_. Some save)" "save \<noteq> []"
    and wanted: "map_of m c = Some r" "rc_Save r = None" "rc_Next r = 0"
  shows "served c (still_to_send save r) (Updates tick w # es) m"
proof -
  obtain sv where sv: "fst sv \<in> {None, Some save}"
      "map_of (fst (transfer_step (Updates tick w) m)) c = fst (snd (update_receiver tick w c r sv))"
      "chunks_for c (snd (transfer_step (Updates tick w) m)) = chunks_for c (snd (snd (update_receiver tick w c r sv)))"
    using turn_at [of m c r "\<lambda>sv. fst sv \<in> {None, Some save}" tick w] assms(1) wanted(1) saving_same [OF assms(3,4)] by auto
  obtain sv' since where same: "update_receiver tick w c r sv =
      update_receiver tick w c (r\<lparr>rc_Since := since, rc_Save := Some save\<rparr>) sv'"
    using update_receiver_waiting [OF wanted(2) assms(3,4) sv(1), of tick c] by auto
  let ?r = "r\<lparr>rc_Since := since, rc_Save := Some save\<rparr>"
  obtain sv2 left out where turn: "update_receiver tick w c ?r sv' = (sv2, left, out)"
    by (cases "update_receiver tick w c ?r sv'") auto
  have sent: "still_to_send save ?r = still_to_send save r"
    by (simp add: still_to_send_def)
  have "rc_Save ?r = Some save" "rc_Next ?r < length save"
    using wanted(3) assms(4) by simp_all
  note sending = update_receiver_sending [OF this turn, unfolded sent]
  show ?thesis
    by (rule served_update [OF assms(1,2), of "Updates tick w" "chunks_for c out" left])
      (use sending sv(2,3) same turn assms(2) run_sends [OF ordered_step [OF assms(1), of "Updates tick w", unfolded transfer_step.simps]] in \<open>auto split: option.splits\<close>)
qed

section \<open>A guest gets the host's world\<close>

text \<open>
  C1: a game joins with the cache of its last save (\<open>old\<close>); the host's game saves (\<open>f\<close>) at the
  next update. Whatever the other games do meanwhile, after as many updates with a free line as the save has blocks the
  chunks sent to it are the whole save in order, the blocks it has as hashes; it accepts every one, has the complete save
  and unpacks the host's files byte for byte, and the host has forgotten it. Blocks of the two saves with one digest are
  one block.
\<close>

theorem guest_gets_the_save:
  assumes "codec_ok c" "length (svf_Game f) + length (svf_CoSave f) \<le> max_save - 4"
    and "\<And>b b'. b \<in> snd ` set (blocks (save_pack old)) \<Longrightarrow> b' \<in> snd ` set (blocks (save_pack f)) \<Longrightarrow>
      cd_digest c b = cd_digest c b' \<Longrightarrow> b = b'"
    and save: "save = save_split c (save_pack f)" "tw_SaveWorld w = Some (\<lambda>_. Some save)"
    and "list_all (undisturbed g) es" "length save \<le> length (filter (free_line g) (Updates tick w # es))"
    and "r = transfer_run (before @ Wants g (cache_hashes (cache_load c old)) # Updates tick w # es) []"
    and "sent = chunks_for g (drop (length (snd (transfer_run before []))) (snd r))"
  shows "list_all id (fst (assembly_add_all c (Some (cache_load c old)) sent a)) \<and>
    assembly_complete (snd (assembly_add_all c (Some (cache_load c old)) sent a)) \<and>
    save_unpack (as_data (snd (assembly_add_all c (Some (cache_load c old)) sent a))) = Some f \<and>
    \<not> is_sending g (fst r)"
proof -
  let ?k = "cache_load c old" and ?m = "fst (transfer_run before [])"
  let ?m' = "transfer_want g (cache_hashes ?k) ?m"
  have m: "ordered ?m"
    by (rule ordered_run) (simp add: ordered_def)
  define q where "q = new_receiver\<lparr>rc_Cached := (if length (cache_hashes ?k) \<le> 16384 then filter (\<lambda>h. length h = 32) (cache_hashes ?k) else [])\<rparr>"
  have q: "map_of ?m' g = Some q" "rc_Save q = None" "rc_Next q = 0" "set (rc_Cached q) \<subseteq> set (cache_hashes ?k)"
    using std_map.put_lookup [OF m] by (auto simp: transfer_want_def q_def new_receiver_def)
  have pack: "save_pack f = map byte_char (le_bytes 4 (of_nat (length (svf_Game f)) :: u32)) @ svf_Game f @ svf_CoSave f"
    using assms(2) by (auto simp: save_pack_def)
  have "length (save_pack f) = 4 + length (svf_Game f) + length (svf_CoSave f)"
    unfolding pack by simp
  then have packed: "length (save_pack f) \<le> max_save" "save_pack f \<noteq> []"
    using assms(2) by (auto simp: max_save_def)
  moreover have "concat (map snd (blocks (save_pack f))) = save_pack f"
    using packed by (simp add: blocks_def blocks_loop_concat)
  ultimately have "save \<noteq> []"
    by (auto simp: save(1) save_split_def)
  have run: "snd r = snd (transfer_run before []) @ snd (transfer_run (Updates tick w # es) ?m')"
      "fst r = fst (transfer_run (Updates tick w # es) ?m')"
    unfolding assms(8) by (simp_all only: run_append run_Cons transfer_step.simps fst_conv snd_conv append_Nil)
  have "served g (still_to_send save q) (Updates tick w # es) ?m'"
    using wanted_served [OF _ assms(6) save(2) \<open>save \<noteq> []\<close> q(1-3)] m by (simp add: transfer_want_def ordered_put)
  then have "sent = map (sent_chunk (set (rc_Cached q))) save" and forgotten: "\<not> is_sending g (fst r)"
    using assms(7,9) q(3) unfolding served_def run is_sending_def by (auto simp: still_to_send_def)
  then have sent: "sent = map (sent_chunk (set (rc_Cached q))) (save_split c (save_pack f))"
    unfolding save(1) by blast
  show ?thesis
    unfolding sent by (intro conjI forgotten; use save_assembled [OF assms(1-3) q(4), of a] in blast)
qed

definition small_save :: save_files where
  "small_save = \<lparr>svf_Game = ''TESV'', svf_CoSave = ''SKSE''\<rparr>"

definition saving_world :: transfer_world where
  "saving_world = \<lparr>tw_SaveWorld = Some (\<lambda>_. Some (save_split plain_codec (save_pack small_save))), tw_Queued = \<lambda>_. None\<rparr>"

lemma small_save_blocks: "blocks (save_pack small_save) = [(0, save_pack small_save)]"
proof -
  have "length (save_pack small_save) = 12"
    by (simp add: save_pack_def small_save_def max_save_def)
  then show ?thesis
    by (intro blocks_small) (auto simp: min_block_def)
qed

theorem guest_gets_the_save_witness:
  "save_unpack (as_data (snd (assembly_add_all plain_codec (Some (cache_load plain_codec small_save))
     (chunks_for 7 (drop (length (snd (transfer_run [Wants 8 []] [])))
       (snd (transfer_run ([Wants 8 []] @ Wants 7 (cache_hashes (cache_load plain_codec small_save)) #
          Updates 1000 saving_world # [Disconnects 8]) [])))) new_assembly))) = Some small_save"
proof -
  have fits: "length (svf_Game small_save) + length (svf_CoSave small_save) \<le> max_save - 4"
    by (simp add: small_save_def max_save_def)
  have one: "length (save_split plain_codec (save_pack small_save)) \<le> 1"
    by (simp add: save_split_def small_save_blocks)
  show ?thesis
    using guest_gets_the_save [OF plain_codec_ok fits, of small_save _ saving_world 7 "[Disconnects 8]" 1000 _ "[Wants 8 []]", OF _ refl _ _ _ refl refl, of new_assembly]
      one by (simp add: small_save_blocks saving_world_def undisturbed_def free_line_def)
qed

end
