(* ===== verification/World_State.thy ===== *)
theory World_State
  imports Items
begin

text \<open>
  The world's state on the wire: globals, quests, objects' changes (\<open>Messages/WorldState\<close>), what a guest
  asks of a cell (\<open>CellStateRequest\<close>) and the messages of dropped items (\<open>DroppedItems\<close>). A count past a
  message's limit stops the reading where it is.
\<close>

section \<open>Counts a message refuses\<close>

text \<open>\<open>stopped\<close> is what the message is left with when the count is past the limit.\<close>

definition read_or_stop :: "nat \<Rightarrow> (reader, 'a) state \<Rightarrow> 'b \<Rightarrow> ('a list \<Rightarrow> (reader, 'b) state) \<Rightarrow> (reader, 'b) state" where
  "read_or_stop cap d stopped k = do {
     n \<leftarrow> read_varint;
     (if unat n > cap then State_Monad.return stopped else do { xs \<leftarrow> read_times (unat n) d; k xs })
   }"

lemma codes_or_stop [codec_intros]:
  assumes "length xs \<le> cap" and "cap < 2 ^ 64" and "\<And>x. x \<in> set xs \<Longrightarrow> codes (s x) d x" and "codes s2 (k xs) y"
  shows "codes (State_Monad.bind (write_list s xs) (\<lambda>_. s2)) (read_or_stop cap d stopped k) y"
proof -
  have n: "unat (of_nat (length xs) :: u64) = length xs"
    using unat_count [OF le_less_trans [OF assms(1,2)]] .
  have each: "codes (write_each s xs) (read_times (length xs) d) xs"
    by (rule codes_each) (simp_all add: assms(3))
  have "codes (State_Monad.bind (write_each s xs) (\<lambda>_. s2))
      (if unat (of_nat (length xs) :: u64) > cap then State_Monad.return stopped
       else do { xs \<leftarrow> read_times (unat (of_nat (length xs) :: u64)) d; k xs }) y"
    using assms(1) codes_bind [of _ _ xs s2 k y, OF each assms(4)] by (simp add: n)
  then show ?thesis
    unfolding write_list_def read_or_stop_def by (simp only: bind_assoc) (rule codes_bind [OF codes_varint])
qed

lemma safe_or_stop [safe_intros]:
  "safe_reader d \<Longrightarrow> (\<And>xs. safe_reader (k xs)) \<Longrightarrow> safe_reader (read_or_stop cap d stopped k)"
  unfolding read_or_stop_def by (intro safe_intros)

section \<open>Globals\<close>

record global_value =
  gv_Id :: "game_id"
  gv_Value :: "float32"

definition global_value_serialize :: "global_value \<Rightarrow> (writer, unit) state" where
  "global_value_serialize x = do {
     game_id_serialize (gv_Id x);
     write_float (gv_Value x);
     State_Monad.return ()
   }"

definition global_value_deserialize :: "(reader, global_value) state" where
  "global_value_deserialize = do {
     vId \<leftarrow> game_id_deserialize;
     vValue \<leftarrow> read_float;
     State_Monad.return \<lparr>gv_Id = vId, gv_Value = vValue\<rparr>
   }"

lemma codes_global_value [codec_intros]:
  "codes (global_value_serialize x) global_value_deserialize x"
  unfolding global_value_serialize_def global_value_deserialize_def
  by (rule codec_intros | simp)+

lemma safe_global_value [safe_intros]: "safe_reader global_value_deserialize"
  unfolding global_value_deserialize_def by (intro safe_intros)

interpretation global_value_wire: wire_codec global_value_serialize global_value_deserialize "\<lambda>_. True"
  by unfold_locales (simp_all add: codes_global_value safe_global_value)


definition max_globals :: nat where "max_globals = 0x10000"
definition max_quests :: nat where "max_quests = 0x10000"
definition max_per_quest :: nat where "max_per_quest = 0x1000"
definition max_object_changes :: nat where "max_object_changes = 0x1000"
definition max_changed :: nat where "max_changed = 0x4000"

lemmas max_defs = max_globals_def max_quests_def max_per_quest_def max_object_changes_def max_changed_def

definition globals_serialize :: "global_value list \<Rightarrow> (writer, unit) state" where
  "globals_serialize x = do { write_list global_value_serialize x; State_Monad.return () }"

definition globals_deserialize :: "(reader, global_value list) state" where
  "globals_deserialize = read_or_stop max_globals global_value_deserialize [] State_Monad.return"

lemma codes_globals [codec_intros]:
  "length x \<le> max_globals \<Longrightarrow> codes (globals_serialize x) globals_deserialize x"
  unfolding globals_serialize_def globals_deserialize_def
  by (rule codec_intros | simp | simp add: max_defs)+

lemma safe_globals [safe_intros]: "safe_reader globals_deserialize"
  unfolding globals_deserialize_def by (intro safe_intros)

interpretation globals_wire: wire_codec globals_serialize globals_deserialize "\<lambda>x. length x \<le> max_globals"
  by unfold_locales (simp_all add: codes_globals safe_globals)

section \<open>Quests\<close>

record quest_objective =
  qo_Index :: "u16"
  qo_State :: "u8"

definition quest_objective_serialize :: "quest_objective \<Rightarrow> (writer, unit) state" where
  "quest_objective_serialize x = do {
     write_u16 (qo_Index x);
     write_u8 (qo_State x);
     State_Monad.return ()
   }"

definition quest_objective_deserialize :: "(reader, quest_objective) state" where
  "quest_objective_deserialize = do {
     vIndex \<leftarrow> read_u16;
     vState \<leftarrow> read_u8;
     State_Monad.return \<lparr>qo_Index = vIndex, qo_State = vState\<rparr>
   }"

lemma codes_quest_objective [codec_intros]:
  "codes (quest_objective_serialize x) quest_objective_deserialize x"
  unfolding quest_objective_serialize_def quest_objective_deserialize_def
  by (rule codec_intros | simp)+

lemma safe_quest_objective [safe_intros]: "safe_reader quest_objective_deserialize"
  unfolding quest_objective_deserialize_def by (intro safe_intros)

interpretation quest_objective_wire: wire_codec quest_objective_serialize quest_objective_deserialize "\<lambda>_. True"
  by unfold_locales (simp_all add: codes_quest_objective safe_quest_objective)


record quest_alias_fill =
  qaf_AliasId :: "u32"
  qaf_Ref :: "game_id"
  qaf_HostOnly :: "bool"
  qaf_Cell :: "game_id"
  qaf_GridX :: "u16"
  qaf_GridY :: "u16"
  qaf_ActorId :: "u32"

definition quest_alias_fill_serialize :: "quest_alias_fill \<Rightarrow> (writer, unit) state" where
  "quest_alias_fill_serialize x = do {
     write_u32 (qaf_AliasId x);
     game_id_serialize (qaf_Ref x);
     write_bool (qaf_HostOnly x);
     game_id_serialize (qaf_Cell x);
     write_u16 (qaf_GridX x);
     write_u16 (qaf_GridY x);
     write_u32 (qaf_ActorId x);
     State_Monad.return ()
   }"

definition quest_alias_fill_deserialize :: "(reader, quest_alias_fill) state" where
  "quest_alias_fill_deserialize = do {
     vAliasId \<leftarrow> read_u32;
     vRef \<leftarrow> game_id_deserialize;
     vHostOnly \<leftarrow> read_bool;
     vCell \<leftarrow> game_id_deserialize;
     vGridX \<leftarrow> read_u16;
     vGridY \<leftarrow> read_u16;
     vActorId \<leftarrow> read_u32;
     State_Monad.return \<lparr>qaf_AliasId = vAliasId, qaf_Ref = vRef, qaf_HostOnly = vHostOnly, qaf_Cell = vCell,
       qaf_GridX = vGridX, qaf_GridY = vGridY, qaf_ActorId = vActorId\<rparr>
   }"

lemma codes_quest_alias_fill [codec_intros]:
  "codes (quest_alias_fill_serialize x) quest_alias_fill_deserialize x"
  unfolding quest_alias_fill_serialize_def quest_alias_fill_deserialize_def
  by (rule codec_intros | simp)+

lemma safe_quest_alias_fill [safe_intros]: "safe_reader quest_alias_fill_deserialize"
  unfolding quest_alias_fill_deserialize_def by (intro safe_intros)

interpretation quest_alias_fill_wire: wire_codec quest_alias_fill_serialize quest_alias_fill_deserialize "\<lambda>_. True"
  by unfold_locales (simp_all add: codes_quest_alias_fill safe_quest_alias_fill)


record quest_location_fill =
  qlf_AliasId :: "u32"
  qlf_Location :: "game_id"

definition quest_location_fill_serialize :: "quest_location_fill \<Rightarrow> (writer, unit) state" where
  "quest_location_fill_serialize x = do {
     write_u32 (qlf_AliasId x);
     game_id_serialize (qlf_Location x);
     State_Monad.return ()
   }"

definition quest_location_fill_deserialize :: "(reader, quest_location_fill) state" where
  "quest_location_fill_deserialize = do {
     vAliasId \<leftarrow> read_u32;
     vLocation \<leftarrow> game_id_deserialize;
     State_Monad.return \<lparr>qlf_AliasId = vAliasId, qlf_Location = vLocation\<rparr>
   }"

lemma codes_quest_location_fill [codec_intros]:
  "codes (quest_location_fill_serialize x) quest_location_fill_deserialize x"
  unfolding quest_location_fill_serialize_def quest_location_fill_deserialize_def
  by (rule codec_intros | simp)+

lemma safe_quest_location_fill [safe_intros]: "safe_reader quest_location_fill_deserialize"
  unfolding quest_location_fill_deserialize_def by (intro safe_intros)

interpretation quest_location_fill_wire: wire_codec quest_location_fill_serialize quest_location_fill_deserialize "\<lambda>_. True"
  by unfold_locales (simp_all add: codes_quest_location_fill safe_quest_location_fill)


record quest_state =
  qs_Id :: game_id
  qs_Flags :: u16
  qs_CurrentStage :: u16
  qs_DoneStages :: "u16 list"
  qs_Objectives :: "quest_objective list"
  qs_Aliases :: "quest_alias_fill list"
  qs_Locations :: "quest_location_fill list"

definition quest_state_serialize :: "quest_state \<Rightarrow> (writer, unit) state" where
  "quest_state_serialize x = do {
     game_id_serialize (qs_Id x);
     write_u16 (qs_Flags x);
     write_u16 (qs_CurrentStage x);
     write_list write_u16 (qs_DoneStages x);
     write_list quest_objective_serialize (qs_Objectives x);
     write_list quest_alias_fill_serialize (qs_Aliases x);
     write_list quest_location_fill_serialize (qs_Locations x);
     State_Monad.return ()
   }"

text \<open>\<open>Read\<close>: \<open>None\<close> where it returns false.\<close>

definition quest_state_deserialize :: "(reader, quest_state option) state" where
  "quest_state_deserialize = do {
     i \<leftarrow> game_id_deserialize;
     flags \<leftarrow> read_u16;
     stage \<leftarrow> read_u16;
     read_or_stop max_per_quest read_u16 None (\<lambda>done.
       read_or_stop max_per_quest quest_objective_deserialize None (\<lambda>objectives.
         read_or_stop max_per_quest quest_alias_fill_deserialize None (\<lambda>aliases.
           read_or_stop max_per_quest quest_location_fill_deserialize None (\<lambda>locations.
             State_Monad.return (Some \<lparr>qs_Id = i, qs_Flags = flags, qs_CurrentStage = stage, qs_DoneStages = done,
               qs_Objectives = objectives, qs_Aliases = aliases, qs_Locations = locations\<rparr>)))))
   }"

definition quest_state_valid :: "quest_state \<Rightarrow> bool" where
  "quest_state_valid x \<longleftrightarrow> length (qs_DoneStages x) \<le> max_per_quest \<and> length (qs_Objectives x) \<le> max_per_quest \<and>
     length (qs_Aliases x) \<le> max_per_quest \<and> length (qs_Locations x) \<le> max_per_quest"

lemma codes_quest_state [codec_intros]:
  "quest_state_valid x \<Longrightarrow> codes (quest_state_serialize x) quest_state_deserialize (Some x)"
  unfolding quest_state_serialize_def quest_state_deserialize_def quest_state_valid_def
  by (rule codec_intros | simp | simp add: max_defs)+

lemma safe_quest_state [safe_intros]: "safe_reader quest_state_deserialize"
  unfolding quest_state_deserialize_def by (intro safe_intros)

record quests_message =
  nq_Quests :: "quest_state list"
  nq_Join :: bool

definition quests_message_serialize :: "quests_message \<Rightarrow> (writer, unit) state" where
  "quests_message_serialize x = do {
     write_bool (nq_Join x);
     write_list quest_state_serialize (nq_Quests x);
     State_Monad.return ()
   }"

text \<open>A quest that cannot be read leaves none: the message was cut or forged.\<close>

fun read_quests :: "nat \<Rightarrow> (reader, quest_state list option) state" where
  "read_quests 0 = State_Monad.return (Some [])"
| "read_quests (Suc n) = do {
     q \<leftarrow> quest_state_deserialize;
     (case q of None \<Rightarrow> State_Monad.return None
      | Some q \<Rightarrow> do { qs \<leftarrow> read_quests n; State_Monad.return (map_option ((#) q) qs) })
   }"

definition quests_message_deserialize :: "(reader, quests_message) state" where
  "quests_message_deserialize = do {
     join \<leftarrow> read_bool;
     n \<leftarrow> read_varint;
     (if unat n > max_quests then State_Monad.return \<lparr>nq_Quests = [], nq_Join = join\<rparr>
      else do {
        qs \<leftarrow> read_quests (unat n);
        State_Monad.return \<lparr>nq_Quests = (case qs of None \<Rightarrow> [] | Some qs \<Rightarrow> qs), nq_Join = join\<rparr>
      })
   }"

definition quests_message_valid :: "quests_message \<Rightarrow> bool" where
  "quests_message_valid x \<longleftrightarrow> length (nq_Quests x) \<le> max_quests \<and> (\<forall>q \<in> set (nq_Quests x). quest_state_valid q)"

lemma codes_read_quests:
  "(\<And>q. q \<in> set qs \<Longrightarrow> quest_state_valid q) \<Longrightarrow>
     codes (write_each quest_state_serialize qs) (read_quests (length qs)) (Some qs)"
proof (induction qs)
  case Nil
  then show ?case by (auto intro: codes_return)
next
  case (Cons q qs)
  have "codes (State_Monad.bind (write_each quest_state_serialize qs) (\<lambda>_. State_Monad.return ()))
      (do { qs \<leftarrow> read_quests (length qs); State_Monad.return (map_option ((#) q) qs) }) (Some (q # qs))"
    by (rule codes_bind [OF Cons.IH]) (use Cons.prems in \<open>auto intro: codes_return\<close>)
  then have "codes (write_each quest_state_serialize qs)
      (do { qs \<leftarrow> read_quests (length qs); State_Monad.return (map_option ((#) q) qs) }) (Some (q # qs))"
    by (intro codes_last [OF Cons.IH]) (use Cons.prems in auto)
  then show ?case
    unfolding write_each.simps length_Cons read_quests.simps
    by (intro codes_bind [OF codes_quest_state]) (use Cons.prems in auto)
qed

lemma codes_quests_message [codec_intros]:
  assumes "quests_message_valid x"
  shows "codes (quests_message_serialize x) quests_message_deserialize x"
proof -
  have n: "unat (of_nat (length (nq_Quests x)) :: u64) = length (nq_Quests x)"
    using assms by (intro unat_count) (simp add: quests_message_valid_def max_defs)
  have "codes (State_Monad.bind (write_each quest_state_serialize (nq_Quests x)) (\<lambda>_. State_Monad.return ()))
      (do { qs \<leftarrow> read_quests (length (nq_Quests x));
            State_Monad.return \<lparr>nq_Quests = (case qs of None \<Rightarrow> [] | Some qs \<Rightarrow> qs), nq_Join = nq_Join x\<rparr> }) x"
    using assms by (intro codes_bind [OF codes_read_quests] codes_return) (auto simp: quests_message_valid_def)
  moreover have "\<not> unat (of_nat (length (nq_Quests x)) :: u64) > max_quests"
    using assms n by (simp add: quests_message_valid_def)
  ultimately show ?thesis
    unfolding quests_message_serialize_def quests_message_deserialize_def write_list_def bind_assoc
    by (intro codes_bind [OF codes_bool] codes_bind [OF codes_varint]) (simp only: n if_False)
qed

lemma safe_read_quests [safe_intros]: "safe_reader (read_quests n)"
proof (induction n)
  case (Suc n)
  have "safe_reader (case q of None \<Rightarrow> State_Monad.return None
      | Some q \<Rightarrow> do { qs \<leftarrow> read_quests n; State_Monad.return (map_option ((#) q) qs) })" for q
    by (cases q) (auto intro: safe_intros Suc)
  then show ?case
    by (auto intro: safe_intros)
qed (auto intro: safe_intros)

lemma safe_quests_message [safe_intros]: "safe_reader quests_message_deserialize"
  unfolding quests_message_deserialize_def by (intro safe_intros)

interpretation quests_wire: wire_codec quests_message_serialize quests_message_deserialize quests_message_valid
  by unfold_locales (simp_all add: codes_quests_message safe_quests_message)

section \<open>Objects\<close>

text \<open>\<open>ObjectChange::Kind\<close>, a byte: a value no kind has reads as one with no part of its own.\<close>

definition kActivate :: u8 where "kActivate = 0"
definition kAnimation :: u8 where "kAnimation = 1"
definition kItems :: u8 where "kItems = 2"
definition kSaveData :: u8 where "kSaveData = 5"
definition kMove :: u8 where "kMove = 7"
definition kOwner :: u8 where "kOwner = 9"
definition kContents :: u8 where "kContents = 10"
definition kBase :: u8 where "kBase = 11"
definition kCreate :: u8 where "kCreate = 12"
definition kGraph :: u8 where "kGraph = 14"

lemmas kind_defs = kActivate_def kAnimation_def kItems_def kSaveData_def kMove_def kOwner_def kContents_def
  kBase_def kCreate_def kGraph_def

definition has_data :: "u8 \<Rightarrow> bool" where
  "has_data k \<longleftrightarrow> k = kSaveData \<or> k = kMove \<or> k = kContents \<or> k = kCreate \<or> k = kGraph"

definition has_item :: "u8 \<Rightarrow> bool" where
  "has_item k \<longleftrightarrow> k = kItems \<or> k = kOwner \<or> k = kBase \<or> k = kCreate"

definition has_stacks :: "u8 \<Rightarrow> bool" where
  "has_stacks k \<longleftrightarrow> k = kItems \<or> k = kContents \<or> k = kCreate"

record object_change =
  oc_Type :: u8
  oc_Object :: game_id
  oc_Activator :: game_id
  oc_OpenState :: u8
  oc_Animation :: string
  oc_Event :: string
  oc_Item :: game_id
  oc_Value :: u32
  oc_Data :: string
  oc_Stacks :: "entry list"

definition new_change :: object_change where
  "new_change = \<lparr>oc_Type = 0, oc_Object = no_id, oc_Activator = no_id, oc_OpenState = 0, oc_Animation = [],
     oc_Event = [], oc_Item = no_id, oc_Value = 0, oc_Data = [], oc_Stacks = []\<rparr>"

definition object_change_serialize :: "object_change \<Rightarrow> (writer, unit) state" where
  "object_change_serialize x = do {
     write_u8 (oc_Type x);
     game_id_serialize (oc_Object x);
     (if oc_Type x = kActivate then do {
        game_id_serialize (oc_Activator x);
        write_byte (oc_OpenState x);
        State_Monad.return ()
      }
      else if oc_Type x = kAnimation then do {
        write_string (oc_Animation x);
        write_string (oc_Event x);
        State_Monad.return ()
      }
      else do {
        (if has_item (oc_Type x) then game_id_serialize (oc_Item x) else State_Monad.return ());
        write_u32 (oc_Value x);
        (if has_data (oc_Type x) then do { write_string (oc_Data x); State_Monad.return () } else State_Monad.return ());
        (if has_stacks (oc_Type x) then write_list entry_serialize (oc_Stacks x) else State_Monad.return ());
        State_Monad.return ()
      })
   }"

text \<open>Whether the message goes on, and the change.\<close>

definition object_change_deserialize :: "(reader, bool \<times> object_change) state" where
  "object_change_deserialize = do {
     type \<leftarrow> read_u8;
     object \<leftarrow> game_id_deserialize;
     (if type = kActivate then do {
        activator \<leftarrow> game_id_deserialize;
        open_state \<leftarrow> read_byte;
        State_Monad.return (True, new_change\<lparr>oc_Type := type, oc_Object := object, oc_Activator := activator,
          oc_OpenState := open_state\<rparr>)
      }
      else if type = kAnimation then do {
        animation \<leftarrow> read_string;
        event \<leftarrow> read_string;
        State_Monad.return (True, new_change\<lparr>oc_Type := type, oc_Object := object, oc_Animation := animation,
          oc_Event := event\<rparr>)
      }
      else do {
        item \<leftarrow> (if has_item type then game_id_deserialize else State_Monad.return no_id);
        value \<leftarrow> read_u32;
        data \<leftarrow> (if has_data type then read_string else State_Monad.return []);
        (if has_stacks type
         then read_or_stop max_object_changes (entry_deserialize new_entry)
           (False, new_change\<lparr>oc_Type := type, oc_Object := object, oc_Item := item, oc_Value := value, oc_Data := data\<rparr>)
           (\<lambda>stacks. State_Monad.return (True, new_change\<lparr>oc_Type := type, oc_Object := object, oc_Item := item,
             oc_Value := value, oc_Data := data, oc_Stacks := stacks\<rparr>))
         else State_Monad.return (True, new_change\<lparr>oc_Type := type, oc_Object := object, oc_Item := item,
           oc_Value := value, oc_Data := data\<rparr>))
      })
   }"

text \<open>What a change of its kind carries, and nothing else.\<close>

definition object_change_valid :: "object_change \<Rightarrow> bool" where
  "object_change_valid x \<longleftrightarrow>
     (oc_Type x \<noteq> kActivate \<longrightarrow> oc_Activator x = no_id \<and> oc_OpenState x = 0) \<and>
     (oc_Type x \<noteq> kAnimation \<longrightarrow> oc_Animation x = [] \<and> oc_Event x = []) \<and>
     (\<not> has_item (oc_Type x) \<longrightarrow> oc_Item x = no_id) \<and> (\<not> has_data (oc_Type x) \<longrightarrow> oc_Data x = []) \<and>
     (\<not> has_stacks (oc_Type x) \<longrightarrow> oc_Stacks x = []) \<and>
     (oc_Type x = kActivate \<or> oc_Type x = kAnimation \<longrightarrow> oc_Value x = 0) \<and>
     length (oc_Animation x) < 65536 \<and> length (oc_Event x) < 65536 \<and> length (oc_Data x) < 65536 \<and>
     length (oc_Stacks x) \<le> max_object_changes \<and> (\<forall>s \<in> set (oc_Stacks x). entry_valid s)"

lemma kinds_apart: "\<not> has_item kActivate" "\<not> has_data kActivate" "\<not> has_stacks kActivate"
  "\<not> has_item kAnimation" "\<not> has_data kAnimation" "\<not> has_stacks kAnimation" "kAnimation \<noteq> kActivate"
  by (simp_all add: has_item_def has_data_def has_stacks_def kind_defs)

lemma codes_object_change:
  assumes "object_change_valid x"
  shows "codes (object_change_serialize x) object_change_deserialize (True, x)"
proof -
  have x: "x = \<lparr>oc_Type = oc_Type x, oc_Object = oc_Object x, oc_Activator = oc_Activator x, oc_OpenState = oc_OpenState x,
      oc_Animation = oc_Animation x, oc_Event = oc_Event x, oc_Item = oc_Item x, oc_Value = oc_Value x,
      oc_Data = oc_Data x, oc_Stacks = oc_Stacks x\<rparr>"
    by simp
  note v = assms [unfolded object_change_valid_def]
  consider "oc_Type x = kActivate" | "oc_Type x = kAnimation" | "oc_Type x \<noteq> kActivate" "oc_Type x \<noteq> kAnimation"
    by blast
  then show ?thesis
  proof cases
    case 1
    have "codes (do { game_id_serialize (oc_Activator x); write_byte (oc_OpenState x); State_Monad.return () })
      (do {
        activator \<leftarrow> game_id_deserialize;
        open_state \<leftarrow> read_byte;
        State_Monad.return (True, new_change\<lparr>oc_Type := oc_Type x, oc_Object := oc_Object x, oc_Activator := activator,
          oc_OpenState := open_state\<rparr>)
      }) (True, x)"
      by (rule codec_intros)+ (use v 1 kinds_apart in \<open>simp add: new_change_def\<close>)
    then show ?thesis
      unfolding object_change_serialize_def object_change_deserialize_def
      by (intro codes_bind [OF codes_u8] codes_bind [OF codes_game_id]) (simp only: 1 if_True refl)
  next
    case 2
    have "codes (do { write_string (oc_Animation x); write_string (oc_Event x); State_Monad.return () })
      (do {
        animation \<leftarrow> read_string;
        event \<leftarrow> read_string;
        State_Monad.return (True, new_change\<lparr>oc_Type := oc_Type x, oc_Object := oc_Object x, oc_Animation := animation,
          oc_Event := event\<rparr>)
      }) (True, x)"
      by (rule codec_intros | use v in blast)+ (use v 2 kinds_apart in \<open>simp add: new_change_def\<close>)
    then show ?thesis
      unfolding object_change_serialize_def object_change_deserialize_def
      by (intro codes_bind [OF codes_u8] codes_bind [OF codes_game_id]) (simp only: 2 kinds_apart if_True if_False refl)
  next
    case 3
    have stacks: "codes (do {
          (if has_stacks (oc_Type x) then write_list entry_serialize (oc_Stacks x) else State_Monad.return ());
          State_Monad.return ()
        })
        (if has_stacks (oc_Type x)
         then read_or_stop max_object_changes (entry_deserialize new_entry)
           (False, new_change\<lparr>oc_Type := oc_Type x, oc_Object := oc_Object x, oc_Item := oc_Item x,
             oc_Value := oc_Value x, oc_Data := oc_Data x\<rparr>)
           (\<lambda>stacks. State_Monad.return (True, new_change\<lparr>oc_Type := oc_Type x, oc_Object := oc_Object x,
             oc_Item := oc_Item x, oc_Value := oc_Value x, oc_Data := oc_Data x, oc_Stacks := stacks\<rparr>))
         else State_Monad.return (True, new_change\<lparr>oc_Type := oc_Type x, oc_Object := oc_Object x,
           oc_Item := oc_Item x, oc_Value := oc_Value x, oc_Data := oc_Data x\<rparr>)) (True, x)"
    proof (cases "has_stacks (oc_Type x)")
      case True
      then show ?thesis
        using v 3 by (simp only: if_True) (rule codes_or_stop codes_return codes_entry | simp add: max_defs new_change_def)+
    next
      case False
      then show ?thesis
        using v 3 by (simp add: new_change_def) (rule codes_return, simp)
    qed
    have item: "\<not> has_item (oc_Type x) \<Longrightarrow> no_id = oc_Item x" and data: "\<not> has_data (oc_Type x) \<Longrightarrow> [] = oc_Data x"
      and len: "length (oc_Data x) < 65536"
      using v by simp_all
    show ?thesis
      unfolding object_change_serialize_def object_change_deserialize_def
      by (intro codes_bind [OF codes_u8] codes_bind [OF codes_game_id], simp only: 3 if_False)
        (rule codes_bind [OF codes_if_return [OF codes_game_id item]] codes_bind [OF codes_u32]
          codes_bind [OF codes_if_return [OF codes_unit [OF codes_string [OF len]] data]] stacks | assumption)+
  qed
qed

lemma safe_object_change [safe_intros]: "safe_reader object_change_deserialize"
  unfolding object_change_deserialize_def by (intro safe_intros)

fun read_changes :: "nat \<Rightarrow> (reader, object_change list) state" where
  "read_changes 0 = State_Monad.return []"
| "read_changes (Suc n) = do {
     (ok, c) \<leftarrow> object_change_deserialize;
     (if ok then do { cs \<leftarrow> read_changes n; State_Monad.return (c # cs) }
      else State_Monad.return (c # replicate n new_change))
   }"

record object_changes =
  noc_Cell :: game_id
  noc_Changes :: "object_change list"

definition object_changes_serialize :: "object_changes \<Rightarrow> (writer, unit) state" where
  "object_changes_serialize x = do {
     game_id_serialize (noc_Cell x);
     write_list object_change_serialize (noc_Changes x);
     State_Monad.return ()
   }"

definition object_changes_deserialize :: "(reader, object_changes) state" where
  "object_changes_deserialize = do {
     cell \<leftarrow> game_id_deserialize;
     n \<leftarrow> read_varint;
     (if unat n > max_object_changes then State_Monad.return \<lparr>noc_Cell = cell, noc_Changes = []\<rparr>
      else do { cs \<leftarrow> read_changes (unat n); State_Monad.return \<lparr>noc_Cell = cell, noc_Changes = cs\<rparr> })
   }"

definition object_changes_valid :: "object_changes \<Rightarrow> bool" where
  "object_changes_valid x \<longleftrightarrow> length (noc_Changes x) \<le> max_object_changes \<and>
     (\<forall>c \<in> set (noc_Changes x). object_change_valid c)"

lemma codes_read_changes:
  "(\<And>c. c \<in> set cs \<Longrightarrow> object_change_valid c) \<Longrightarrow>
     codes (write_each object_change_serialize cs) (read_changes (length cs)) cs"
proof (induction cs)
  case Nil
  then show ?case by (auto intro: codes_return)
next
  case (Cons c cs)
  have "codes (write_each object_change_serialize cs)
      (do { cs \<leftarrow> read_changes (length cs); State_Monad.return (c # cs) }) (c # cs)"
    by (intro codes_last [OF Cons.IH]) (use Cons.prems in auto)
  then show ?case
    unfolding write_each.simps length_Cons read_changes.simps
    by (intro codes_bind [OF codes_object_change]) (use Cons.prems in auto)
qed

lemma codes_object_changes [codec_intros]:
  assumes "object_changes_valid x"
  shows "codes (object_changes_serialize x) object_changes_deserialize x"
proof -
  have n: "unat (of_nat (length (noc_Changes x)) :: u64) = length (noc_Changes x)"
    using assms by (intro unat_count) (simp add: object_changes_valid_def max_defs)
  have "codes (State_Monad.bind (write_each object_change_serialize (noc_Changes x)) (\<lambda>_. State_Monad.return ()))
      (do { cs \<leftarrow> read_changes (length (noc_Changes x)); State_Monad.return \<lparr>noc_Cell = noc_Cell x, noc_Changes = cs\<rparr> }) x"
    using assms by (intro codes_bind [OF codes_read_changes] codes_return) (auto simp: object_changes_valid_def)
  moreover have "\<not> unat (of_nat (length (noc_Changes x)) :: u64) > max_object_changes"
    using assms n by (simp add: object_changes_valid_def)
  ultimately show ?thesis
    unfolding object_changes_serialize_def object_changes_deserialize_def write_list_def bind_assoc
    by (intro codes_bind [OF codes_game_id] codes_bind [OF codes_varint]) (simp only: n if_False)
qed

lemma safe_read_changes [safe_intros]: "safe_reader (read_changes n)"
  by (induction n) (auto intro!: safe_intros)

lemma safe_object_changes [safe_intros]: "safe_reader object_changes_deserialize"
  unfolding object_changes_deserialize_def by (intro safe_intros)

interpretation object_changes_wire: wire_codec object_changes_serialize object_changes_deserialize object_changes_valid
  by unfold_locales (simp_all add: codes_object_changes safe_object_changes)

section \<open>Packed data\<close>

text \<open>32-bit values as they lie in memory, copied into a string and back.\<close>

definition words_string :: "u32 list \<Rightarrow> string" where
  "words_string ws = map byte_char (concat (map (le_bytes 4) ws))"

fun string_words :: "string \<Rightarrow> u32 list" where
  "string_words (a # b # c # d # r) = of_le_bytes (map char_byte [a, b, c, d]) # string_words r"
| "string_words r = []"

lemma le_bytes_four: "le_bytes 4 v = [le_bytes 4 v ! 0, le_bytes 4 v ! 1, le_bytes 4 v ! 2, le_bytes 4 v ! 3]"
  by (simp add: list_eq_iff_nth_eq less_Suc_eq numeral_eq_Suc nth_Cons')

lemma string_words_string [simp]: "string_words (words_string ws) = ws"
proof (induction ws)
  case (Cons w ws)
  have "words_string (w # ws) = byte_char (le_bytes 4 w ! 0) # byte_char (le_bytes 4 w ! 1) #
      byte_char (le_bytes 4 w ! 2) # byte_char (le_bytes 4 w ! 3) # words_string ws"
    unfolding words_string_def list.map concat.simps by (subst le_bytes_four) simp
  moreover have "of_le_bytes [le_bytes 4 w ! 0, le_bytes 4 w ! 1, le_bytes 4 w ! 2, le_bytes 4 w ! 3] = w"
    using of_le_bytes_le_bytes [of 4 w] by (simp only: le_bytes_four [symmetric]) simp
  ultimately show ?case
    using Cons by (simp del: of_le_bytes.simps)
qed (simp add: words_string_def)

lemma length_words_string [simp]: "length (words_string ws) = 4 * length ws"
  by (induction ws) (simp_all add: words_string_def)

text \<open>Where a created reference goes: \<open>float[3]\<close> as three floats.\<close>

record placement =
  pm_Cell :: game_id
  pm_WorldSpace :: game_id
  pm_Position :: vec3
  pm_Rotation :: vec3

definition no_placement :: placement where
  "no_placement = \<lparr>pm_Cell = no_id, pm_WorldSpace = no_id, pm_Position = \<lparr>v3_x = 0, v3_y = 0, v3_z = 0\<rparr>,
     pm_Rotation = \<lparr>v3_x = 0, v3_y = 0, v3_z = 0\<rparr>\<rparr>"

definition pack_placement :: "placement \<Rightarrow> string" where
  "pack_placement p = words_string
     [gid_ModId (pm_Cell p), gid_BaseId (pm_Cell p), gid_ModId (pm_WorldSpace p), gid_BaseId (pm_WorldSpace p),
      v3_x (pm_Position p), v3_y (pm_Position p), v3_z (pm_Position p),
      v3_x (pm_Rotation p), v3_y (pm_Rotation p), v3_z (pm_Rotation p)]"

definition unpack_placement :: "string \<Rightarrow> placement option" where
  "unpack_placement s =
     (if length s \<noteq> 40 then None
      else let w = string_words s
           in Some \<lparr>pm_Cell = game_id_make (w ! 0) (w ! 1), pm_WorldSpace = game_id_make (w ! 2) (w ! 3),
                pm_Position = \<lparr>v3_x = w ! 4, v3_y = w ! 5, v3_z = w ! 6\<rparr>,
                pm_Rotation = \<lparr>v3_x = w ! 7, v3_y = w ! 8, v3_z = w ! 9\<rparr>\<rparr>)"

record item_count =
  ic_Item :: game_id
  ic_Count :: i32

definition pack_contents :: "item_count list \<Rightarrow> string" where
  "pack_contents xs = words_string (concat (map (\<lambda>x. [gid_ModId (ic_Item x), gid_BaseId (ic_Item x), ic_Count x]) xs))"

text \<open>As many whole items as the data holds; what is left of it is not read.\<close>

fun contents_of :: "u32 list \<Rightarrow> item_count list" where
  "contents_of (m # b # c # r) = \<lparr>ic_Item = game_id_make m b, ic_Count = c\<rparr> # contents_of r"
| "contents_of r = []"

definition unpack_contents :: "string \<Rightarrow> item_count list" where
  "unpack_contents s = contents_of (string_words s)"

lemma contents_of_words [simp]:
  "contents_of (concat (map (\<lambda>x. [gid_ModId (ic_Item x), gid_BaseId (ic_Item x), ic_Count x]) xs)) = xs"
  by (induction xs) (simp_all add: game_id_make_def)

lemma unpack_pack_contents: "unpack_contents (pack_contents xs) = xs"
  by (simp add: unpack_contents_def pack_contents_def)

lemma unpack_pack_placement: "unpack_placement (pack_placement p) = Some p"
  by (simp add: unpack_placement_def pack_placement_def Let_def game_id_make_def)

definition created_mod_id :: u32 where "created_mod_id = 0xFFFFFFFF"

text \<open>
  A created container's row (\<open>kCreate\<close>, then \<open>kContents\<close>) as a message, and the rows of its cell.
\<close>

definition created_rows :: "game_id \<Rightarrow> game_id \<Rightarrow> placement \<Rightarrow> item_count list \<Rightarrow> object_change list" where
  "created_rows object base place items =
     [new_change\<lparr>oc_Type := kCreate, oc_Object := object, oc_Item := base, oc_Data := pack_placement place\<rparr>,
      new_change\<lparr>oc_Type := kContents, oc_Object := object, oc_Data := pack_contents items\<rparr>]"

text \<open>
  A cell's changed objects, and a created container with its place and its contents (up to
  5461 items, which fill a string), arrive as the host's game had them.
\<close>

theorem world_rows_roundtrip:
  assumes "\<forall>c \<in> set cs. object_change_valid c" and "length cs + 2 \<le> max_object_changes" and "length items \<le> 5461"
  shows "\<exists>created contents.
     decode object_changes_deserialize (encode (object_changes_serialize
       \<lparr>noc_Cell = cell, noc_Changes = cs @ created_rows object base place items\<rparr>) @ rest) =
       \<lparr>noc_Cell = cell, noc_Changes = cs @ [created, contents]\<rparr> \<and>
     oc_Object created = object \<and> oc_Item created = base \<and> unpack_placement (oc_Data created) = Some place \<and>
     oc_Object contents = object \<and> unpack_contents (oc_Data contents) = items"
proof -
  have len: "length (pack_contents items) < 65536" "length (pack_placement place) < 65536"
    using assms(3) by (simp_all add: pack_contents_def pack_placement_def length_concat comp_def sum_list_triv)
  then have "object_change_valid c" if "c \<in> set (created_rows object base place items)" for c
    using that by (auto simp: created_rows_def object_change_valid_def new_change_def has_item_def has_data_def
        has_stacks_def kind_defs)
  then have "object_changes_valid \<lparr>noc_Cell = cell, noc_Changes = cs @ created_rows object base place items\<rparr>"
    using assms by (auto simp: object_changes_valid_def created_rows_def)
  from object_changes_wire.decode_encode_rest [OF this, of rest] show ?thesis
    by (simp add: created_rows_def unpack_pack_contents unpack_pack_placement new_change_def)
qed

lemma world_rows_roundtrip_witness:
  "\<exists>created contents.
     decode object_changes_deserialize (encode (object_changes_serialize
       \<lparr>noc_Cell = no_id, noc_Changes = [] @ created_rows (game_id_make created_mod_id 0x801) no_id no_placement
         [\<lparr>ic_Item = game_id_make 0 0xF, ic_Count = 25\<rparr>]\<rparr>) @ [0]) =
       \<lparr>noc_Cell = no_id, noc_Changes = [] @ [created, contents]\<rparr> \<and>
     oc_Object created = game_id_make created_mod_id 0x801 \<and> oc_Item created = no_id \<and>
     unpack_placement (oc_Data created) = Some no_placement \<and>
     oc_Object contents = game_id_make created_mod_id 0x801 \<and>
     unpack_contents (oc_Data contents) = [\<lparr>ic_Item = game_id_make 0 0xF, ic_Count = 25\<rparr>]"
  by (rule world_rows_roundtrip) (simp_all add: max_defs)

end
