(* ===== verification/Host_Messages.thy ===== *)
theory Host_Messages
  imports World_State Actors
begin

text \<open>
  The messages between the host's services and the players' games: what a guest asks of a cell
  (\<open>CellStateRequest\<close>), dropped items (\<open>DroppedItems\<close>), the shared wait (\<open>WaitMessages\<close>) and a player's fall
  (\<open>DeathMessages\<close>).
\<close>

section \<open>What a guest asks of a cell\<close>

record changed_reference =
  cr_Id :: "game_id"
  cr_Flags :: "u32"

definition changed_reference_serialize :: "changed_reference \<Rightarrow> (writer, unit) state" where
  "changed_reference_serialize x = do {
     game_id_serialize (cr_Id x);
     write_u32 (cr_Flags x);
     State_Monad.return ()
   }"

definition changed_reference_deserialize :: "(reader, changed_reference) state" where
  "changed_reference_deserialize = do {
     vId \<leftarrow> game_id_deserialize;
     vFlags \<leftarrow> read_u32;
     State_Monad.return \<lparr>cr_Id = vId, cr_Flags = vFlags\<rparr>
   }"

lemma codes_changed_reference [codec_intros]:
  "codes (changed_reference_serialize x) changed_reference_deserialize x"
  unfolding changed_reference_serialize_def changed_reference_deserialize_def
  by (rule codec_intros | simp)+

lemma safe_changed_reference [safe_intros]: "safe_reader changed_reference_deserialize"
  unfolding changed_reference_deserialize_def by (intro safe_intros)

interpretation changed_reference_wire: wire_codec changed_reference_serialize changed_reference_deserialize "\<lambda>_. True"
  by unfold_locales (simp_all add: codes_changed_reference safe_changed_reference)


record cell_request =
  cs_Cell :: game_id
  cs_Changed :: "changed_reference list"

definition cell_request_serialize :: "cell_request \<Rightarrow> (writer, unit) state" where
  "cell_request_serialize x = do {
     game_id_serialize (cs_Cell x);
     write_list changed_reference_serialize (cs_Changed x);
     State_Monad.return ()
   }"

definition cell_request_deserialize :: "(reader, cell_request) state" where
  "cell_request_deserialize = do {
     cell \<leftarrow> game_id_deserialize;
     read_or_stop max_changed changed_reference_deserialize \<lparr>cs_Cell = cell, cs_Changed = []\<rparr>
       (\<lambda>changed. State_Monad.return \<lparr>cs_Cell = cell, cs_Changed = changed\<rparr>)
   }"

definition cell_request_valid :: "cell_request \<Rightarrow> bool" where
  "cell_request_valid x \<longleftrightarrow> length (cs_Changed x) \<le> max_changed"

lemma codes_cell_request [codec_intros]:
  "cell_request_valid x \<Longrightarrow> codes (cell_request_serialize x) cell_request_deserialize x"
  unfolding cell_request_serialize_def cell_request_deserialize_def cell_request_valid_def
  by (rule codec_intros | simp | simp add: max_defs)+

lemma safe_cell_request [safe_intros]: "safe_reader cell_request_deserialize"
  unfolding cell_request_deserialize_def by (intro safe_intros)

interpretation cell_request_wire: wire_codec cell_request_serialize cell_request_deserialize cell_request_valid
  by unfold_locales (simp_all add: codes_cell_request safe_cell_request)

section \<open>Dropped items\<close>

definition placement_serialize :: "placement \<Rightarrow> (writer, unit) state" where
  "placement_serialize x = do {
     game_id_serialize (pm_Cell x);
     game_id_serialize (pm_WorldSpace x);
     vec3_write (pm_Position x);
     vec3_write (pm_Rotation x);
     State_Monad.return ()
   }"

definition placement_deserialize :: "(reader, placement) state" where
  "placement_deserialize = do {
     cell \<leftarrow> game_id_deserialize;
     world_space \<leftarrow> game_id_deserialize;
     position \<leftarrow> vec3_read;
     rotation \<leftarrow> vec3_read;
     State_Monad.return \<lparr>pm_Cell = cell, pm_WorldSpace = world_space, pm_Position = position, pm_Rotation = rotation\<rparr>
   }"

lemma codes_placement [codec_intros]: "codes (placement_serialize x) placement_deserialize x"
  unfolding placement_serialize_def placement_deserialize_def
  by (rule codec_intros | simp)+

lemma safe_placement [safe_intros]: "safe_reader placement_deserialize"
  unfolding placement_deserialize_def by (intro safe_intros)

record drop_item_request =
  dir_Tag :: "u32"
  dir_Item :: "entry"
  dir_Placement :: "placement"

definition drop_item_request_serialize :: "drop_item_request \<Rightarrow> (writer, unit) state" where
  "drop_item_request_serialize x = do {
     write_u32 (dir_Tag x);
     entry_serialize (dir_Item x);
     placement_serialize (dir_Placement x);
     State_Monad.return ()
   }"

definition drop_item_request_deserialize :: "(reader, drop_item_request) state" where
  "drop_item_request_deserialize = do {
     vTag \<leftarrow> read_u32;
     vItem \<leftarrow> entry_deserialize new_entry;
     vPlacement \<leftarrow> placement_deserialize;
     State_Monad.return \<lparr>dir_Tag = vTag, dir_Item = vItem, dir_Placement = vPlacement\<rparr>
   }"

definition drop_item_request_valid :: "drop_item_request \<Rightarrow> bool" where
  "drop_item_request_valid x \<longleftrightarrow> entry_valid (dir_Item x)"

lemma codes_drop_item_request [codec_intros]:
  "drop_item_request_valid x \<Longrightarrow> codes (drop_item_request_serialize x) drop_item_request_deserialize x"
  unfolding drop_item_request_serialize_def drop_item_request_deserialize_def drop_item_request_valid_def
  by (rule codec_intros | simp)+

lemma safe_drop_item_request [safe_intros]: "safe_reader drop_item_request_deserialize"
  unfolding drop_item_request_deserialize_def by (intro safe_intros)

interpretation drop_item_request_wire: wire_codec drop_item_request_serialize drop_item_request_deserialize "drop_item_request_valid"
  by unfold_locales (simp_all add: codes_drop_item_request safe_drop_item_request)


record item_dropped =
  nid_Tag :: "u32"
  nid_Object :: "game_id"

definition item_dropped_serialize :: "item_dropped \<Rightarrow> (writer, unit) state" where
  "item_dropped_serialize x = do {
     write_u32 (nid_Tag x);
     game_id_serialize (nid_Object x);
     State_Monad.return ()
   }"

definition item_dropped_deserialize :: "(reader, item_dropped) state" where
  "item_dropped_deserialize = do {
     vTag \<leftarrow> read_u32;
     vObject \<leftarrow> game_id_deserialize;
     State_Monad.return \<lparr>nid_Tag = vTag, nid_Object = vObject\<rparr>
   }"

lemma codes_item_dropped [codec_intros]:
  "codes (item_dropped_serialize x) item_dropped_deserialize x"
  unfolding item_dropped_serialize_def item_dropped_deserialize_def
  by (rule codec_intros | simp)+

lemma safe_item_dropped [safe_intros]: "safe_reader item_dropped_deserialize"
  unfolding item_dropped_deserialize_def by (intro safe_intros)

interpretation item_dropped_wire: wire_codec item_dropped_serialize item_dropped_deserialize "\<lambda>_. True"
  by unfold_locales (simp_all add: codes_item_dropped safe_item_dropped)


record pick_up_request =
  pur_Object :: "game_id"
  pur_Tag :: "u32"

definition pick_up_request_serialize :: "pick_up_request \<Rightarrow> (writer, unit) state" where
  "pick_up_request_serialize x = do {
     game_id_serialize (pur_Object x);
     write_u32 (pur_Tag x);
     State_Monad.return ()
   }"

definition pick_up_request_deserialize :: "(reader, pick_up_request) state" where
  "pick_up_request_deserialize = do {
     vObject \<leftarrow> game_id_deserialize;
     vTag \<leftarrow> read_u32;
     State_Monad.return \<lparr>pur_Object = vObject, pur_Tag = vTag\<rparr>
   }"

lemma codes_pick_up_request [codec_intros]:
  "codes (pick_up_request_serialize x) pick_up_request_deserialize x"
  unfolding pick_up_request_serialize_def pick_up_request_deserialize_def
  by (rule codec_intros | simp)+

lemma safe_pick_up_request [safe_intros]: "safe_reader pick_up_request_deserialize"
  unfolding pick_up_request_deserialize_def by (intro safe_intros)

interpretation pick_up_request_wire: wire_codec pick_up_request_serialize pick_up_request_deserialize "\<lambda>_. True"
  by unfold_locales (simp_all add: codes_pick_up_request safe_pick_up_request)


record pick_up =
  npu_Object :: "game_id"
  npu_Tag :: "u32"
  npu_Item :: "entry"

definition pick_up_serialize :: "pick_up \<Rightarrow> (writer, unit) state" where
  "pick_up_serialize x = do {
     game_id_serialize (npu_Object x);
     write_u32 (npu_Tag x);
     entry_serialize (npu_Item x);
     State_Monad.return ()
   }"

definition pick_up_deserialize :: "(reader, pick_up) state" where
  "pick_up_deserialize = do {
     vObject \<leftarrow> game_id_deserialize;
     vTag \<leftarrow> read_u32;
     vItem \<leftarrow> entry_deserialize new_entry;
     State_Monad.return \<lparr>npu_Object = vObject, npu_Tag = vTag, npu_Item = vItem\<rparr>
   }"

definition pick_up_valid :: "pick_up \<Rightarrow> bool" where
  "pick_up_valid x \<longleftrightarrow> entry_valid (npu_Item x)"

lemma codes_pick_up [codec_intros]:
  "pick_up_valid x \<Longrightarrow> codes (pick_up_serialize x) pick_up_deserialize x"
  unfolding pick_up_serialize_def pick_up_deserialize_def pick_up_valid_def
  by (rule codec_intros | simp)+

lemma safe_pick_up [safe_intros]: "safe_reader pick_up_deserialize"
  unfolding pick_up_deserialize_def by (intro safe_intros)

interpretation pick_up_wire: wire_codec pick_up_serialize pick_up_deserialize "pick_up_valid"
  by unfold_locales (simp_all add: codes_pick_up safe_pick_up)


section \<open>The shared wait\<close>

text \<open>\<open>WaitAction\<close> and \<open>WaitPhase\<close>, bytes: a request's action may be no action at all.\<close>

definition waStart :: u8 where "waStart = 0"
definition waReady :: u8 where "waReady = 1"
definition waProgress :: u8 where "waProgress = 2"
definition waCancel :: u8 where "waCancel = 3"
definition waFailed :: u8 where "waFailed = 4"

lemmas action_defs = waStart_def waReady_def waProgress_def waCancel_def waFailed_def

definition wpPreparing :: u8 where "wpPreparing = 0"
definition wpRunning :: u8 where "wpRunning = 1"
definition wpProgress :: u8 where "wpProgress = 2"
definition wpFinished :: u8 where "wpFinished = 3"
definition wpRefused :: u8 where "wpRefused = 4"

lemmas phase_defs = wpPreparing_def wpRunning_def wpProgress_def wpFinished_def wpRefused_def

record wait_request =
  wr_Action :: "u8"
  wr_Id :: "u32"
  wr_Hours :: "u32"
  wr_RemainingSeconds :: "u32"
  wr_Sleeping :: "bool"

definition wait_request_serialize :: "wait_request \<Rightarrow> (writer, unit) state" where
  "wait_request_serialize x = do {
     write_byte (wr_Action x);
     write_u32 (wr_Id x);
     write_u32 (wr_Hours x);
     write_u32 (wr_RemainingSeconds x);
     write_bool (wr_Sleeping x);
     State_Monad.return ()
   }"

definition wait_request_deserialize :: "(reader, wait_request) state" where
  "wait_request_deserialize = do {
     vAction \<leftarrow> read_byte;
     vId \<leftarrow> read_u32;
     vHours \<leftarrow> read_u32;
     vRemainingSeconds \<leftarrow> read_u32;
     vSleeping \<leftarrow> read_bool;
     State_Monad.return \<lparr>wr_Action = vAction, wr_Id = vId, wr_Hours = vHours,
       wr_RemainingSeconds = vRemainingSeconds, wr_Sleeping = vSleeping\<rparr>
   }"

lemma codes_wait_request [codec_intros]:
  "codes (wait_request_serialize x) wait_request_deserialize x"
  unfolding wait_request_serialize_def wait_request_deserialize_def
  by (rule codec_intros | simp)+

lemma safe_wait_request [safe_intros]: "safe_reader wait_request_deserialize"
  unfolding wait_request_deserialize_def by (intro safe_intros)

interpretation wait_request_wire: wire_codec wait_request_serialize wait_request_deserialize "\<lambda>_. True"
  by unfold_locales (simp_all add: codes_wait_request safe_wait_request)


record wait_state =
  nws_Phase :: "u8"
  nws_Id :: "u32"
  nws_Hours :: "u32"
  nws_RemainingSeconds :: "u32"
  nws_Sleeping :: "bool"
  nws_Driver :: "bool"
  nws_Calendar :: "time_model"

definition wait_state_serialize :: "wait_state \<Rightarrow> (writer, unit) state" where
  "wait_state_serialize x = do {
     write_byte (nws_Phase x);
     write_u32 (nws_Id x);
     write_u32 (nws_Hours x);
     write_u32 (nws_RemainingSeconds x);
     write_bool (nws_Sleeping x);
     write_bool (nws_Driver x);
     time_model_serialize (nws_Calendar x);
     State_Monad.return ()
   }"

definition wait_state_deserialize :: "(reader, wait_state) state" where
  "wait_state_deserialize = do {
     vPhase \<leftarrow> read_byte;
     vId \<leftarrow> read_u32;
     vHours \<leftarrow> read_u32;
     vRemainingSeconds \<leftarrow> read_u32;
     vSleeping \<leftarrow> read_bool;
     vDriver \<leftarrow> read_bool;
     vCalendar \<leftarrow> time_model_deserialize;
     State_Monad.return \<lparr>nws_Phase = vPhase, nws_Id = vId, nws_Hours = vHours,
       nws_RemainingSeconds = vRemainingSeconds, nws_Sleeping = vSleeping,
       nws_Driver = vDriver, nws_Calendar = vCalendar\<rparr>
   }"

lemma codes_wait_state [codec_intros]:
  "codes (wait_state_serialize x) wait_state_deserialize x"
  unfolding wait_state_serialize_def wait_state_deserialize_def
  by (rule codec_intros | simp)+

lemma safe_wait_state [safe_intros]: "safe_reader wait_state_deserialize"
  unfolding wait_state_deserialize_def by (intro safe_intros)

interpretation wait_state_wire: wire_codec wait_state_serialize wait_state_deserialize "\<lambda>_. True"
  by unfold_locales (simp_all add: codes_wait_state safe_wait_state)


record wait_world_request =
  wwr_Id :: "u32"
  wwr_State :: "cell_request"

definition wait_world_request_serialize :: "wait_world_request \<Rightarrow> (writer, unit) state" where
  "wait_world_request_serialize x = do {
     write_u32 (wwr_Id x);
     cell_request_serialize (wwr_State x);
     State_Monad.return ()
   }"

definition wait_world_request_deserialize :: "(reader, wait_world_request) state" where
  "wait_world_request_deserialize = do {
     vId \<leftarrow> read_u32;
     vState \<leftarrow> cell_request_deserialize;
     State_Monad.return \<lparr>wwr_Id = vId, wwr_State = vState\<rparr>
   }"

definition wait_world_request_valid :: "wait_world_request \<Rightarrow> bool" where
  "wait_world_request_valid x \<longleftrightarrow> cell_request_valid (wwr_State x)"

lemma codes_wait_world_request [codec_intros]:
  "wait_world_request_valid x \<Longrightarrow> codes (wait_world_request_serialize x) wait_world_request_deserialize x"
  unfolding wait_world_request_serialize_def wait_world_request_deserialize_def wait_world_request_valid_def
  by (rule codec_intros | simp)+

lemma safe_wait_world_request [safe_intros]: "safe_reader wait_world_request_deserialize"
  unfolding wait_world_request_deserialize_def by (intro safe_intros)

interpretation wait_world_request_wire: wire_codec wait_world_request_serialize wait_world_request_deserialize "wait_world_request_valid"
  by unfold_locales (simp_all add: codes_wait_world_request safe_wait_world_request)


record wait_world =
  nww_Id :: "u32"
  nww_Last :: "bool"
  nww_State :: "object_changes"

definition wait_world_serialize :: "wait_world \<Rightarrow> (writer, unit) state" where
  "wait_world_serialize x = do {
     write_u32 (nww_Id x);
     write_bool (nww_Last x);
     object_changes_serialize (nww_State x);
     State_Monad.return ()
   }"

definition wait_world_deserialize :: "(reader, wait_world) state" where
  "wait_world_deserialize = do {
     vId \<leftarrow> read_u32;
     vLast \<leftarrow> read_bool;
     vState \<leftarrow> object_changes_deserialize;
     State_Monad.return \<lparr>nww_Id = vId, nww_Last = vLast, nww_State = vState\<rparr>
   }"

definition wait_world_valid :: "wait_world \<Rightarrow> bool" where
  "wait_world_valid x \<longleftrightarrow> object_changes_valid (nww_State x)"

lemma codes_wait_world [codec_intros]:
  "wait_world_valid x \<Longrightarrow> codes (wait_world_serialize x) wait_world_deserialize x"
  unfolding wait_world_serialize_def wait_world_deserialize_def wait_world_valid_def
  by (rule codec_intros | simp)+

lemma safe_wait_world [safe_intros]: "safe_reader wait_world_deserialize"
  unfolding wait_world_deserialize_def by (intro safe_intros)

interpretation wait_world_wire: wire_codec wait_world_serialize wait_world_deserialize "wait_world_valid"
  by unfold_locales (simp_all add: codes_wait_world safe_wait_world)


section \<open>A player's fall\<close>

record player_death_request =
  pdr_SessionId :: "u32"
  pdr_Generation :: "u32"
  pdr_Down :: "bool"
  pdr_KillerId :: "u32"

definition player_death_request_serialize :: "player_death_request \<Rightarrow> (writer, unit) state" where
  "player_death_request_serialize x = do {
     write_u32 (pdr_SessionId x);
     write_u32 (pdr_Generation x);
     write_bool (pdr_Down x);
     write_u32 (pdr_KillerId x);
     State_Monad.return ()
   }"

definition player_death_request_deserialize :: "(reader, player_death_request) state" where
  "player_death_request_deserialize = do {
     vSessionId \<leftarrow> read_u32;
     vGeneration \<leftarrow> read_u32;
     vDown \<leftarrow> read_bool;
     vKillerId \<leftarrow> read_u32;
     State_Monad.return \<lparr>pdr_SessionId = vSessionId, pdr_Generation = vGeneration, pdr_Down = vDown,
       pdr_KillerId = vKillerId\<rparr>
   }"

lemma codes_player_death_request [codec_intros]:
  "codes (player_death_request_serialize x) player_death_request_deserialize x"
  unfolding player_death_request_serialize_def player_death_request_deserialize_def
  by (rule codec_intros | simp)+

lemma safe_player_death_request [safe_intros]: "safe_reader player_death_request_deserialize"
  unfolding player_death_request_deserialize_def by (intro safe_intros)

interpretation player_death_request_wire: wire_codec player_death_request_serialize player_death_request_deserialize "\<lambda>_. True"
  by unfold_locales (simp_all add: codes_player_death_request safe_player_death_request)


record party_death_player =
  pdp_SessionId :: "u32"
  pdp_Generation :: "u32"
  pdp_Down :: "bool"

definition party_death_player_serialize :: "party_death_player \<Rightarrow> (writer, unit) state" where
  "party_death_player_serialize x = do {
     write_u32 (pdp_SessionId x);
     write_u32 (pdp_Generation x);
     write_bool (pdp_Down x);
     State_Monad.return ()
   }"

definition party_death_player_deserialize :: "(reader, party_death_player) state" where
  "party_death_player_deserialize = do {
     vSessionId \<leftarrow> read_u32;
     vGeneration \<leftarrow> read_u32;
     vDown \<leftarrow> read_bool;
     State_Monad.return \<lparr>pdp_SessionId = vSessionId, pdp_Generation = vGeneration, pdp_Down = vDown\<rparr>
   }"

lemma codes_party_death_player [codec_intros]:
  "codes (party_death_player_serialize x) party_death_player_deserialize x"
  unfolding party_death_player_serialize_def party_death_player_deserialize_def
  by (rule codec_intros | simp)+

lemma safe_party_death_player [safe_intros]: "safe_reader party_death_player_deserialize"
  unfolding party_death_player_deserialize_def by (intro safe_intros)

interpretation party_death_player_wire: wire_codec party_death_player_serialize party_death_player_deserialize "\<lambda>_. True"
  by unfold_locales (simp_all add: codes_party_death_player safe_party_death_player)


record party_death =
  npd_Players :: "party_death_player list"
  npd_Combat :: bool
  npd_Wiped :: bool
  npd_RemainingMs :: u32
  npd_Error :: string

definition party_death_serialize :: "party_death \<Rightarrow> (writer, unit) state" where
  "party_death_serialize x = do {
     write_list party_death_player_serialize (npd_Players x);
     write_bool (npd_Combat x);
     write_bool (npd_Wiped x);
     write_u32 (npd_RemainingMs x);
     write_string (npd_Error x);
     State_Monad.return ()
   }"

definition party_death_deserialize :: "(reader, party_death) state" where
  "party_death_deserialize =
     read_or_stop max_players party_death_player_deserialize
       \<lparr>npd_Players = [], npd_Combat = False, npd_Wiped = False, npd_RemainingMs = 0, npd_Error = []\<rparr>
       (\<lambda>players. do {
          combat \<leftarrow> read_bool;
          wiped \<leftarrow> read_bool;
          remaining \<leftarrow> read_u32;
          error \<leftarrow> read_string;
          State_Monad.return \<lparr>npd_Players = players, npd_Combat = combat, npd_Wiped = wiped, npd_RemainingMs = remaining,
            npd_Error = error\<rparr>
        })"

definition party_death_valid :: "party_death \<Rightarrow> bool" where
  "party_death_valid x \<longleftrightarrow> length (npd_Players x) \<le> max_players \<and> length (npd_Error x) < 65536"

lemma codes_party_death [codec_intros]:
  "party_death_valid x \<Longrightarrow> codes (party_death_serialize x) party_death_deserialize x"
  unfolding party_death_serialize_def party_death_deserialize_def party_death_valid_def
  by (rule codec_intros | simp | simp add: max_players_def)+

lemma safe_party_death [safe_intros]: "safe_reader party_death_deserialize"
  unfolding party_death_deserialize_def by (intro safe_intros)

interpretation party_death_wire: wire_codec party_death_serialize party_death_deserialize party_death_valid
  by unfold_locales (simp_all add: codes_party_death safe_party_death)

record player_respawn =
  npr_SessionId :: "u32"
  npr_Generation :: "u32"
  npr_AnchorId :: "u32"
  npr_CellId :: "game_id"
  npr_WorldSpaceId :: "game_id"
  npr_Position :: "vec3"
  npr_Heading :: "float32"

definition player_respawn_serialize :: "player_respawn \<Rightarrow> (writer, unit) state" where
  "player_respawn_serialize x = do {
     write_u32 (npr_SessionId x);
     write_u32 (npr_Generation x);
     write_u32 (npr_AnchorId x);
     game_id_serialize (npr_CellId x);
     game_id_serialize (npr_WorldSpaceId x);
     vec3_serialize (npr_Position x);
     write_float (npr_Heading x);
     State_Monad.return ()
   }"

definition player_respawn_deserialize :: "(reader, player_respawn) state" where
  "player_respawn_deserialize = do {
     vSessionId \<leftarrow> read_u32;
     vGeneration \<leftarrow> read_u32;
     vAnchorId \<leftarrow> read_u32;
     vCellId \<leftarrow> game_id_deserialize;
     vWorldSpaceId \<leftarrow> game_id_deserialize;
     vPosition \<leftarrow> vec3_deserialize;
     vHeading \<leftarrow> read_float;
     State_Monad.return \<lparr>npr_SessionId = vSessionId, npr_Generation = vGeneration, npr_AnchorId = vAnchorId,
       npr_CellId = vCellId, npr_WorldSpaceId = vWorldSpaceId, npr_Position = vPosition,
       npr_Heading = vHeading\<rparr>
   }"

definition player_respawn_valid :: "player_respawn \<Rightarrow> bool" where
  "player_respawn_valid x \<longleftrightarrow> vec3_valid (npr_Position x)"

lemma codes_player_respawn [codec_intros]:
  "player_respawn_valid x \<Longrightarrow> codes (player_respawn_serialize x) player_respawn_deserialize x"
  unfolding player_respawn_serialize_def player_respawn_deserialize_def player_respawn_valid_def
  by (rule codec_intros | simp)+

lemma safe_player_respawn [safe_intros]: "safe_reader player_respawn_deserialize"
  unfolding player_respawn_deserialize_def by (intro safe_intros)

interpretation player_respawn_wire: wire_codec player_respawn_serialize player_respawn_deserialize "player_respawn_valid"
  by unfold_locales (simp_all add: codes_player_respawn safe_player_respawn)


record player_perished =
  npp_PlayerId :: "u32"
  npp_Username :: "string"
  npp_KillerName :: "string"

definition player_perished_serialize :: "player_perished \<Rightarrow> (writer, unit) state" where
  "player_perished_serialize x = do {
     write_u32 (npp_PlayerId x);
     write_string (npp_Username x);
     write_string (npp_KillerName x);
     State_Monad.return ()
   }"

definition player_perished_deserialize :: "(reader, player_perished) state" where
  "player_perished_deserialize = do {
     vPlayerId \<leftarrow> read_u32;
     vUsername \<leftarrow> read_string;
     vKillerName \<leftarrow> read_string;
     State_Monad.return \<lparr>npp_PlayerId = vPlayerId, npp_Username = vUsername, npp_KillerName = vKillerName\<rparr>
   }"

definition player_perished_valid :: "player_perished \<Rightarrow> bool" where
  "player_perished_valid x \<longleftrightarrow> length (npp_Username x) < 65536 \<and>
     length (npp_KillerName x) < 65536"

lemma codes_player_perished [codec_intros]:
  "player_perished_valid x \<Longrightarrow> codes (player_perished_serialize x) player_perished_deserialize x"
  unfolding player_perished_serialize_def player_perished_deserialize_def player_perished_valid_def
  by (rule codec_intros | simp)+

lemma safe_player_perished [safe_intros]: "safe_reader player_perished_deserialize"
  unfolding player_perished_deserialize_def by (intro safe_intros)

interpretation player_perished_wire: wire_codec player_perished_serialize player_perished_deserialize "player_perished_valid"
  by unfold_locales (simp_all add: codes_player_perished safe_player_perished)


end
