(* ===== verification/Float_Arith.thy ===== *)
theory Float_Arith
  imports Float32 Structs
begin

text \<open>
  Float arithmetic the program does with its positions, rotations and body frames: IEEE single precision, each
  result the exact one rounded to nearest, ties to even. On it: \<open>Structs/Rotator2_NetQuantize\<close> and
  \<open>GridCellCoords::CalculateGridCellCoords\<close>.
\<close>

section \<open>Exact values and rounding\<close>

text \<open>A finite float is \<open>m * 2 ^ e\<close>.\<close>

definition f32_is_inf :: "float32 \<Rightarrow> bool" where
  "f32_is_inf f \<longleftrightarrow> f32_exponent f = 255 \<and> f32_fraction f = 0"

definition f32_mantissa :: "float32 \<Rightarrow> int" where
  "f32_mantissa f =
     (let m = int ((if f32_exponent f = 0 then 0 else 2 ^ 23) + f32_fraction f) in if f32_negative f then - m else m)"

definition f32_scale :: "float32 \<Rightarrow> int" where
  "f32_scale f = int (max 1 (f32_exponent f)) - 150"

definition half_even :: "nat \<Rightarrow> nat \<Rightarrow> nat" where
  "half_even n k =
     (let q = n div 2 ^ k; r = n mod 2 ^ k
      in if 2 * r < 2 ^ k \<or> 2 * r = 2 ^ k \<and> even q then q else q + 1)"

text \<open>\<open>n * 2 ^ e\<close> with a sign: 24 bits of it, fewer below \<open>2 ^ -126\<close>; what is too large is an infinity.\<close>

definition f32_round :: "bool \<Rightarrow> nat \<Rightarrow> int \<Rightarrow> float32" where
  "f32_round neg n e =
     (let q = max (int (log2_floor n) + e - 23) (- 149);
          t = (if q \<le> e then n * 2 ^ nat (e - q) else half_even n (nat (q - e)));
          bits = nat (q + 149) * 2 ^ 23 + t
      in f32_make neg 0 (if n = 0 then 0 else if bits < 0x7F800000 then bits else 0x7F800000))"

text \<open>A NaN's payload is not kept.\<close>

definition f32_nan :: float32 where "f32_nan = 0x7FC00000"
definition f32_inf :: "bool \<Rightarrow> float32" where "f32_inf neg = f32_make neg 255 0"

section \<open>Operations\<close>

definition f32_mul :: "float32 \<Rightarrow> float32 \<Rightarrow> float32" where
  "f32_mul a b =
     (let neg = (f32_negative a \<noteq> f32_negative b)
      in if f32_is_nan a \<or> f32_is_nan b then f32_nan
         else if f32_is_inf a \<or> f32_is_inf b then (if f32_is_zero a \<or> f32_is_zero b then f32_nan else f32_inf neg)
         else f32_round neg (nat \<bar>f32_mantissa a * f32_mantissa b\<bar>) (f32_scale a + f32_scale b))"

text \<open>Two finite ones; what is exactly 0 is positive unless both are negative.\<close>

definition f32_add :: "float32 \<Rightarrow> float32 \<Rightarrow> float32" where
  "f32_add a b =
     (if f32_is_nan a \<or> f32_is_nan b then f32_nan
      else if f32_is_inf a then (if f32_is_inf b \<and> f32_negative a \<noteq> f32_negative b then f32_nan else a)
      else if f32_is_inf b then b
      else let e = min (f32_scale a) (f32_scale b);
               s = f32_mantissa a * 2 ^ nat (f32_scale a - e) + f32_mantissa b * 2 ^ nat (f32_scale b - e)
           in if s = 0 then (if f32_negative a \<and> f32_negative b then 0x80000000 else 0)
              else f32_round (s < 0) (nat \<bar>s\<bar>) e)"

text \<open>\<open>std::fmod\<close>: exact, with the sign of the first.\<close>

definition f32_fmod :: "float32 \<Rightarrow> float32 \<Rightarrow> float32" where
  "f32_fmod a b =
     (if f32_is_nan a \<or> f32_is_nan b \<or> f32_is_inf a \<or> f32_is_zero b then f32_nan
      else if f32_is_inf b then a
      else let e = min (f32_scale a) (f32_scale b);
               n = nat (\<bar>f32_mantissa a\<bar> * 2 ^ nat (f32_scale a - e)) mod nat (\<bar>f32_mantissa b\<bar> * 2 ^ nat (f32_scale b - e))
           in f32_round (f32_negative a) n e)"

definition f32_less_zero :: "float32 \<Rightarrow> bool" where
  "f32_less_zero f \<longleftrightarrow> f32_negative f \<and> \<not> f32_is_nan f \<and> \<not> f32_is_zero f"

text \<open>
  \<open>static_cast<uint32_t>\<close> on x86-64: truncated to 64 bits, of which the low 32; what does not fit 64 is
  \<open>2 ^ 63\<close>, whose low half is 0.
\<close>

definition f32_trunc_u32 :: "float32 \<Rightarrow> u32" where
  "f32_trunc_u32 f =
     (if f32_exponent f \<ge> 127 + 63 then 0
      else let m = \<bar>f32_mantissa f\<bar>; e = f32_scale f; n = (if 0 \<le> e then m * 2 ^ nat e else m div 2 ^ nat (- e))
           in word_of_int (if f32_negative f then - n else n))"

text \<open>\<open>static_cast<int32_t>(std::floor(f))\<close>.\<close>

definition f32_floor_i32 :: "float32 \<Rightarrow> i32" where
  "f32_floor_i32 f =
     (if f32_exponent f = 255 then 0x80000000
      else let m = f32_mantissa f; e = f32_scale f; n = (if 0 \<le> e then m * 2 ^ nat e else m div 2 ^ nat (- e))
           in if - (2 ^ 31) \<le> n \<and> n < 2 ^ 31 then word_of_int n else 0x80000000)"

section \<open>Cells of a position\<close>

text \<open>\<open>/ 4096.f\<close>, a power of two, is \<open>* 2 ^ -12\<close> in every rounding.\<close>

definition calculate_grid_cell :: "float32 \<Rightarrow> float32 \<Rightarrow> grid_cell" where
  "calculate_grid_cell x y =
     \<lparr>grid_X = f32_floor_i32 (f32_mul x 0x39800000), grid_Y = f32_floor_i32 (f32_mul y 0x39800000)\<rparr>"

definition grid_cell_of :: "vec3 \<Rightarrow> grid_cell" where
  "grid_cell_of v = calculate_grid_cell (v3_x v) (v3_y v)"

section \<open>Quantized rotations\<close>

record rotator =
  ro_x :: float32
  ro_y :: float32

text \<open>\<open>float(0xFFFF) / (2.0f * std::numbers::pi_v<float>)\<close>, one over it, and \<open>2.f * std::numbers::pi_v<float>\<close>.\<close>

definition scaling_factor :: float32 where "scaling_factor = 0x4622F8E0"
definition reverse_scaling_factor :: float32 where "reverse_scaling_factor = 0x38C910A4"
definition two_pi :: float32 where "two_pi = 0x40C90FDB"

definition wrap_angle :: "float32 \<Rightarrow> float32" where
  "wrap_angle a = (let a = f32_fmod a two_pi in if f32_less_zero a then f32_add a two_pi else a)"

definition angle_pack :: "float32 \<Rightarrow> u32" where
  "angle_pack a = f32_trunc_u32 (f32_mul (wrap_angle a) scaling_factor) AND 0xFFFF"

definition angle_unpack :: "u32 \<Rightarrow> float32" where
  "angle_unpack n = f32_mul (f32_of_nat (unat n)) reverse_scaling_factor"

definition rotator_pack :: "rotator \<Rightarrow> u32" where
  "rotator_pack r = (let ix = angle_pack (ro_x r); iy = angle_pack (ro_y r) in ix OR push_bit 16 iy)"

definition rotator_unpack :: "u32 \<Rightarrow> rotator" where
  "rotator_unpack n = \<lparr>ro_x = angle_unpack (n AND 0xFFFF), ro_y = angle_unpack (drop_bit 16 n AND 0xFFFF)\<rparr>"

definition rotator_eq :: "rotator \<Rightarrow> rotator \<Rightarrow> bool" where
  "rotator_eq a b \<longleftrightarrow> rotator_pack a = rotator_pack b"

definition rotator_serialize :: "rotator \<Rightarrow> (writer, unit) state" where
  "rotator_serialize r = do {
     write_word (rotator_pack r);
     State_Monad.return ()
   }"

definition rotator_deserialize :: "(reader, rotator) state" where
  "rotator_deserialize = do { n \<leftarrow> read_word; State_Monad.return (rotator_unpack n) }"

text \<open>A rotation the other game gets as it is.\<close>

definition rotator_valid :: "rotator \<Rightarrow> bool" where
  "rotator_valid r \<longleftrightarrow> rotator_unpack (rotator_pack r) = r"

lemma codes_rotator [codec_intros]: "rotator_valid r \<Longrightarrow> codes (rotator_serialize r) rotator_deserialize r"
  unfolding rotator_serialize_def rotator_deserialize_def
  by (rule codec_intros | simp add: rotator_valid_def)+

lemma safe_rotator [safe_intros]: "safe_reader rotator_deserialize"
  unfolding rotator_deserialize_def by (intro safe_intros)

interpretation rotator_wire: wire_codec rotator_serialize rotator_deserialize rotator_valid
  by unfold_locales (simp_all add: codes_rotator safe_rotator)

lemma rotator_zero: "rotator_valid \<lparr>ro_x = 0, ro_y = 0\<rparr>"
  by (simp add: rotator_valid_def rotator_unpack_def angle_unpack_def f32_of_nat_def reverse_scaling_factor_def f32_mul_def
      Let_def f32_is_nan_def f32_exponent_def f32_fraction_def f32_is_inf_def f32_round_def f32_mantissa_def f32_make_def
      rotator_pack_def angle_pack_def wrap_angle_def f32_fmod_def f32_is_zero_def two_pi_def scaling_factor_def
      f32_trunc_u32_def f32_less_zero_def f32_scale_def f32_negative_def)

end
