(* ===== verification/Action_Event.thy ===== *)
theory Action_Event
  imports Float_Arith
begin

text \<open>
  An actor's actions on the wire, as what changed since the one before: the behaviour graph's variables
  (\<open>Structs/AnimationVariables\<close>) and the action itself (\<open>Structs/ActionEvent\<close>).
\<close>

section \<open>Bits packed in a string\<close>

text \<open>\<open>VectorBool_to_String\<close>: eight a character, the first in its lowest bit.\<close>

function bools_to_string :: "bool list \<Rightarrow> string" where
  "bools_to_string bs =
     (if bs = [] then [] else byte_char (horner_sum of_bool 2 (take 8 bs)) # bools_to_string (drop 8 bs))"
  by auto

termination by (relation "measure length") auto

declare bools_to_string.simps [simp del]

text \<open>
  \<open>String_to_VectorBool\<close>. It reads on past a string too short for the bits asked for, which is undefined
  in C++; here those bits are unset.
\<close>

definition string_to_bools :: "string \<Rightarrow> nat \<Rightarrow> bool list" where
  "string_to_bools s n = map (\<lambda>i. i div 8 < length s \<and> bit (char_byte (s ! (i div 8))) (i mod 8)) [0..<n]"

lemma length_bools_to_string: "length (bools_to_string bs) = (length bs + 7) div 8"
proof (induction bs rule: bools_to_string.induct)
  case (1 bs)
  then show ?case
    by (cases "length bs < 8") (auto simp: bools_to_string.simps [of bs] neq_Nil_conv)
qed

lemma nth_bools_to_string:
  "8 * j < length bs \<Longrightarrow> bools_to_string bs ! j = byte_char (horner_sum of_bool 2 (take 8 (drop (8 * j) bs)))"
proof (induction bs arbitrary: j rule: bools_to_string.induct)
  case (1 bs)
  show ?case
  proof (cases j)
    case (Suc k)
    then show ?thesis
      using 1 by (auto simp: bools_to_string.simps [of bs] add.commute)
  qed (use 1 in \<open>simp add: bools_to_string.simps [of bs]\<close>)
qed

lemma bools_roundtrip: "string_to_bools (bools_to_string bs) (length bs) = bs"
proof (rule nth_equalityI)
  fix i
  assume "i < length (string_to_bools (bools_to_string bs) (length bs))"
  then have i: "i < length bs" by (simp add: string_to_bools_def)
  have j: "8 * (i div 8) < length bs" "i div 8 < (length bs + 7) div 8"
    using i by auto
  have rest: "i mod 8 < length bs - 8 * (i div 8)"
    using i by presburger
  have "bit (horner_sum of_bool 2 (take 8 (drop (8 * (i div 8)) bs)) :: u8) (i mod 8) = bs ! i"
    using i rest by (simp add: bit_horner_sum_bit_word_iff)
  then show "string_to_bools (bools_to_string bs) (length bs) ! i = bs ! i"
    using i j by (simp add: string_to_bools_def nth_bools_to_string length_bools_to_string)
qed (simp add: string_to_bools_def)

section \<open>The variables of a behaviour graph\<close>

record anim =
  av_Booleans :: "bool list"
  av_Integers :: "u32 list"
  av_Floats :: "float32 list"
  av_GraphRandom :: u32

definition new_anim :: anim where
  "new_anim = \<lparr>av_Booleans = [], av_Integers = [], av_Floats = [], av_GraphRandom = 0\<rparr>"

definition anim_eq :: "anim \<Rightarrow> anim \<Rightarrow> bool" where
  "anim_eq a b \<longleftrightarrow> av_Booleans a = av_Booleans b \<and> av_Integers a = av_Integers b \<and>
     list_all2 f32_eq (av_Floats a) (av_Floats b) \<and> av_GraphRandom a = av_GraphRandom b"

text \<open>Which values of a vector are to be sent: all of them when its size changed.\<close>

definition changed :: "('a \<Rightarrow> 'a \<Rightarrow> bool) \<Rightarrow> 'a list \<Rightarrow> 'a list \<Rightarrow> bool list" where
  "changed eq prev xs = map (\<lambda>i. length prev \<noteq> length xs \<or> \<not> eq (prev ! i) (xs ! i)) [0..<length xs]"

fun write_changed :: "('a \<Rightarrow> (writer, 'b) state) \<Rightarrow> bool list \<Rightarrow> 'a list \<Rightarrow> (writer, unit) state" where
  "write_changed ser (c # cs) (x # xs) = do {
     (if c then do { ser x; State_Monad.return () } else State_Monad.return ());
     write_changed ser cs xs
   }"
| "write_changed ser _ _ = State_Monad.return ()"

fun read_changed :: "(reader, 'a) state \<Rightarrow> bool list \<Rightarrow> 'a list \<Rightarrow> (reader, 'a list) state" where
  "read_changed de (c # cs) (x # xs) = do {
     y \<leftarrow> (if c then de else State_Monad.return x);
     ys \<leftarrow> read_changed de cs xs;
     State_Monad.return (y # ys)
   }"
| "read_changed de _ xs = State_Monad.return xs"

definition anim_generate :: "anim \<Rightarrow> anim \<Rightarrow> (writer, unit) state" where
  "anim_generate prev x =
     (let ci = changed (=) (av_Integers prev) (av_Integers x); cf = changed f32_eq (av_Floats prev) (av_Floats x)
      in do {
        write_varint (of_nat (length (av_Booleans x)));
        write_varint (of_nat (length (av_Integers x)));
        write_varint (of_nat (length (av_Floats x)));
        write_string (bools_to_string (av_Booleans x @ ci @ cf));
        write_changed write_u32 ci (av_Integers x);
        write_changed write_float cf (av_Floats x);
        write_bool (av_GraphRandom prev \<noteq> av_GraphRandom x);
        (if av_GraphRandom prev \<noteq> av_GraphRandom x then do { write_u32 (av_GraphRandom x); State_Monad.return () }
         else State_Monad.return ());
        State_Monad.return ()
      })"

text \<open>\<open>assign\<close> when the size is another.\<close>

definition resized :: "nat \<Rightarrow> 'a \<Rightarrow> 'a list \<Rightarrow> 'a list" where
  "resized n z xs = (if length xs \<noteq> n then replicate n z else xs)"

definition anim_apply :: "anim \<Rightarrow> (reader, anim) state" where
  "anim_apply prev = do {
     nb \<leftarrow> read_varint;
     ni \<leftarrow> read_varint;
     nf \<leftarrow> read_varint;
     chars \<leftarrow> read_string;
     (let b = unat nb; i = unat ni; f = unat nf; bits = string_to_bools chars (b + i + f)
      in do {
        ws \<leftarrow> read_changed read_u32 (take i (drop b bits)) (resized i 0 (av_Integers prev));
        fs \<leftarrow> read_changed read_float (drop (b + i) bits) (resized f 0 (av_Floats prev));
        random \<leftarrow> read_bool;
        r \<leftarrow> (if random then read_u32 else State_Monad.return (av_GraphRandom prev));
        State_Monad.return \<lparr>av_Booleans = take b bits, av_Integers = ws, av_Floats = fs, av_GraphRandom = r\<rparr>
      })
   }"

text \<open>What the receiver has then: a float that did not change (the zeros count as the same) is the one before.\<close>

definition settle :: "float32 list \<Rightarrow> float32 list \<Rightarrow> float32 list" where
  "settle prev xs = map (\<lambda>i. if length prev = length xs \<and> f32_eq (prev ! i) (xs ! i) then prev ! i else xs ! i) [0..<length xs]"

definition anim_settled :: "anim \<Rightarrow> anim \<Rightarrow> anim" where
  "anim_settled prev x = x\<lparr>av_Floats := settle (av_Floats prev) (av_Floats x)\<rparr>"

definition anim_valid :: "anim \<Rightarrow> bool" where
  "anim_valid x \<longleftrightarrow> length (av_Booleans x) + length (av_Integers x) + length (av_Floats x) \<le> 524280"

lemma codes_changed:
  assumes "\<And>x. codes (ser x) de x"
  shows "length cs = length xs \<Longrightarrow> length ys = length xs \<Longrightarrow>
    codes (write_changed ser cs xs) (read_changed de cs ys) (map (\<lambda>i. if cs ! i then xs ! i else ys ! i) [0..<length xs])"
proof (induction cs xs arbitrary: ys rule: list_induct2)
  case Nil
  then show ?case by (auto intro: codes_return)
next
  case (Cons c cs x xs)
  then obtain y zs where ys: "ys = y # zs" "length zs = length xs"
    by (cases ys) auto
  have split: "map (\<lambda>i. if (c # cs) ! i then (x # xs) ! i else ys ! i) [0..<length (x # xs)] =
      (if c then x else y) # map (\<lambda>i. if cs ! i then xs ! i else zs ! i) [0..<length xs]"
    using ys by (simp add: map_upt_Suc del: upt_Suc)
  show ?case
    unfolding split unfolding ys(1) write_changed.simps read_changed.simps
    by (rule codes_bind [OF codes_optional [OF assms] codes_last [OF Cons.IH [OF ys(2)]]]) simp
qed

lemma length_changed [simp]: "length (changed eq prev xs) = length xs"
  by (simp add: changed_def)

lemma settled_changed:
  "(\<And>a b. eq a b \<Longrightarrow> P a b = a) \<Longrightarrow> (\<And>a b. \<not> eq a b \<Longrightarrow> P a b = b) \<Longrightarrow>
   map (\<lambda>i. if changed eq prev xs ! i then xs ! i else resized (length xs) z prev ! i) [0..<length xs] =
   map (\<lambda>i. if length prev = length xs then P (prev ! i) (xs ! i) else xs ! i) [0..<length xs]"
  by (intro map_cong) (auto simp: changed_def resized_def)

lemma codes_anim:
  assumes "anim_valid x"
  shows "codes (anim_generate prev x) (anim_apply prev) (anim_settled prev x)"
proof -
  define b where "b = av_Booleans x"
  define ws where "ws = av_Integers x"
  define fs where "fs = av_Floats x"
  define ci where "ci = changed (=) (av_Integers prev) ws"
  define cf where "cf = changed f32_eq (av_Floats prev) fs"
  have small: "length b + length ws + length fs \<le> 524280"
    using assms by (simp add: anim_valid_def b_def ws_def fs_def)
  then have sizes: "unat (of_nat (length b) :: u64) = length b" "unat (of_nat (length ws) :: u64) = length ws"
    "unat (of_nat (length fs) :: u64) = length fs"
    by (auto intro!: unat_count)
  have lens: "length ci = length ws" "length cf = length fs"
    by (simp_all add: ci_def cf_def)
  have chars: "length (bools_to_string (b @ ci @ cf)) < 65536"
    using small lens by (simp add: length_bools_to_string)
  have bits: "string_to_bools (bools_to_string (b @ ci @ cf)) (length b + length ws + length fs) = b @ ci @ cf"
    using bools_roundtrip [of "b @ ci @ cf"] lens by (simp add: add.assoc)
  have slices: "take (length b) (b @ ci @ cf) = b" "take (length ws) (drop (length b) (b @ ci @ cf)) = ci"
    "drop (length b + length ws) (b @ ci @ cf) = cf"
    using lens by simp_all
  have ints: "map (\<lambda>i. if ci ! i then ws ! i else resized (length ws) 0 (av_Integers prev) ! i) [0..<length ws] = ws"
    unfolding ci_def by (subst settled_changed [where P = "\<lambda>a b. b"]) (auto intro: nth_equalityI)
  have floats: "map (\<lambda>i. if cf ! i then fs ! i else resized (length fs) 0 (av_Floats prev) ! i) [0..<length fs] = settle (av_Floats prev) fs"
    unfolding cf_def settle_def
    by (subst settled_changed [where P = "\<lambda>a b. if f32_eq a b then a else b"]) (auto intro!: map_cong)
  have cints: "codes (write_changed write_u32 ci ws) (read_changed read_u32 ci (resized (length ws) 0 (av_Integers prev))) ws"
    using codes_changed [OF codes_u32, of ci ws "resized (length ws) 0 (av_Integers prev)"] lens ints
    by (simp add: resized_def split: if_splits)
  have cfloats: "codes (write_changed write_float cf fs) (read_changed read_float cf (resized (length fs) 0 (av_Floats prev)))
      (settle (av_Floats prev) fs)"
    using codes_changed [OF codes_float, of cf fs "resized (length fs) 0 (av_Floats prev)"] lens floats
    by (simp add: resized_def split: if_splits)
  show ?thesis
    unfolding anim_generate_def anim_apply_def Let_def b_def [symmetric] ws_def [symmetric] fs_def [symmetric]
      ci_def [symmetric] cf_def [symmetric]
    apply (rule codes_bind [OF codes_varint] codes_bind [OF codes_string [OF chars]])+
    apply (simp only: sizes bits slices)
    apply (rule codes_bind [OF cints] codes_bind [OF cfloats] codes_bind [OF codes_bool] codes_bind [OF codes_optional [OF codes_u32]])+
    apply (rule codes_return)
    apply (simp add: anim_settled_def b_def ws_def fs_def)
    done
qed

text \<open>Between a fresh graph's variables and these, nothing is left out.\<close>

lemma anim_settled_new: "anim_settled new_anim x = x"
  by (auto simp: anim_settled_def new_anim_def settle_def intro!: nth_equalityI anim.equality)

lemma codes_anim_new [codec_intros]: "anim_valid x \<Longrightarrow> codes (anim_generate new_anim x) (anim_apply new_anim) x"
  using codes_anim [of x new_anim] by (simp add: anim_settled_new)

lemma safe_changed [safe_intros]: "safe_reader de \<Longrightarrow> safe_reader (read_changed de cs xs)"
  by (induction cs xs rule: read_changed.induct) (auto intro: safe_intros)

lemma safe_anim [safe_intros]: "safe_reader (anim_apply prev)"
  unfolding anim_apply_def Let_def by (intro safe_intros)

interpretation anim_wire: wire_codec "anim_generate new_anim" "anim_apply new_anim" anim_valid
  by unfold_locales (simp_all add: codes_anim_new safe_anim)

section \<open>Actions\<close>

record action_event =
  ae_Tick :: u64
  ae_ActorId :: u32
  ae_ActionId :: u32
  ae_TargetId :: u32
  ae_TargetActor :: u32
  ae_IdleId :: u32
  ae_State1 :: u32
  ae_State2 :: u32
  ae_Type :: u32
  ae_EventName :: string
  ae_TargetEventName :: string
  ae_Variables :: anim
  ae_GraphState :: string
  ae_GraphCounters :: string

definition new_action :: action_event where
  "new_action = \<lparr>ae_Tick = 0, ae_ActorId = 0, ae_ActionId = 0, ae_TargetId = 0, ae_TargetActor = 0, ae_IdleId = 0,
     ae_State1 = 0, ae_State2 = 0, ae_Type = 0, ae_EventName = [], ae_TargetEventName = [], ae_Variables = new_anim,
     ae_GraphState = [], ae_GraphCounters = []\<rparr>"

text \<open>\<open>==\<close>, which leaves the actor's id in this game out.\<close>

definition action_eq :: "action_event \<Rightarrow> action_event \<Rightarrow> bool" where
  "action_eq a b \<longleftrightarrow> ae_Tick a = ae_Tick b \<and> ae_ActionId a = ae_ActionId b \<and> ae_State1 a = ae_State1 b \<and>
     ae_State2 a = ae_State2 b \<and> ae_Type a = ae_Type b \<and> ae_TargetId a = ae_TargetId b \<and>
     ae_TargetActor a = ae_TargetActor b \<and> ae_IdleId a = ae_IdleId b \<and> ae_EventName a = ae_EventName b \<and>
     ae_TargetEventName a = ae_TargetEventName b \<and> anim_eq (ae_Variables a) (ae_Variables b) \<and>
     ae_GraphState a = ae_GraphState b \<and> ae_GraphCounters a = ae_GraphCounters b"

text \<open>The flags, in the order of their bits: a field is there when it is not as it was.\<close>

definition action_flags :: "action_event \<Rightarrow> action_event \<Rightarrow> bool list" where
  "action_flags prev x =
     [ae_ActionId x \<noteq> ae_ActionId prev, ae_TargetId x \<noteq> ae_TargetId prev, ae_IdleId x \<noteq> ae_IdleId prev,
      ae_State1 x \<noteq> ae_State1 prev \<or> ae_State2 x \<noteq> ae_State2 prev, ae_Type x \<noteq> ae_Type prev,
      ae_EventName x \<noteq> ae_EventName prev, ae_TargetEventName x \<noteq> ae_TargetEventName prev,
      \<not> anim_eq (ae_Variables x) (ae_Variables prev), ae_TargetActor x \<noteq> ae_TargetActor prev,
      ae_GraphState x \<noteq> ae_GraphState prev, ae_GraphCounters x \<noteq> ae_GraphCounters prev]"

definition flag_bits :: nat where "flag_bits = 11"

text \<open>A field on the wire when its flag is set, else as it was.\<close>

definition write_flagged :: "bool \<Rightarrow> (writer, 'a) state \<Rightarrow> (writer, unit) state" where
  "write_flagged f ser = (if f then do { ser; State_Monad.return () } else State_Monad.return ())"

definition read_flagged :: "bool \<Rightarrow> (reader, 'a) state \<Rightarrow> 'a \<Rightarrow> (reader, 'a) state" where
  "read_flagged f de v = (if f then de else State_Monad.return v)"

definition action_generate :: "action_event \<Rightarrow> action_event \<Rightarrow> (writer, unit) state" where
  "action_generate prev x =
     (let flags = action_flags prev x
      in do {
        write_bits (horner_sum of_bool 2 flags) flag_bits;
        write_varint (ae_Tick x - ae_Tick prev);
        write_flagged (flags ! 0) (write_u32 (ae_ActionId x));
        write_flagged (flags ! 1) (write_u32 (ae_TargetId x));
        write_flagged (flags ! 2) (write_u32 (ae_IdleId x));
        write_flagged (flags ! 3) (write_word (ae_State1 x));
        write_flagged (flags ! 3) (write_word (ae_State2 x));
        write_flagged (flags ! 4) (write_u32 (ae_Type x));
        write_flagged (flags ! 5) (write_string (ae_EventName x));
        write_flagged (flags ! 6) (write_string (ae_TargetEventName x));
        write_flagged (flags ! 7) (anim_generate (ae_Variables prev) (ae_Variables x));
        write_flagged (flags ! 8) (write_u32 (ae_TargetActor x));
        write_flagged (flags ! 9) (write_string (ae_GraphState x));
        write_flagged (flags ! 10) (write_string (ae_GraphCounters x));
        State_Monad.return ()
      })"

definition action_apply :: "action_event \<Rightarrow> (reader, action_event) state" where
  "action_apply prev = do {
     flags \<leftarrow> read_uint flag_bits;
     diff \<leftarrow> read_varint;
     vActionId \<leftarrow> read_flagged (bit flags 0) read_u32 (ae_ActionId prev);
     vTargetId \<leftarrow> read_flagged (bit flags 1) read_u32 (ae_TargetId prev);
     vIdleId \<leftarrow> read_flagged (bit flags 2) read_u32 (ae_IdleId prev);
     vState1 \<leftarrow> read_flagged (bit flags 3) read_word (ae_State1 prev);
     vState2 \<leftarrow> read_flagged (bit flags 3) read_word (ae_State2 prev);
     vType \<leftarrow> read_flagged (bit flags 4) read_u32 (ae_Type prev);
     vEventName \<leftarrow> read_flagged (bit flags 5) read_string (ae_EventName prev);
     vTargetEventName \<leftarrow> read_flagged (bit flags 6) read_string (ae_TargetEventName prev);
     vVariables \<leftarrow> read_flagged (bit flags 7) (anim_apply (ae_Variables prev)) (ae_Variables prev);
     vTargetActor \<leftarrow> read_flagged (bit flags 8) read_u32 (ae_TargetActor prev);
     vGraphState \<leftarrow> read_flagged (bit flags 9) read_string (ae_GraphState prev);
     vGraphCounters \<leftarrow> read_flagged (bit flags 10) read_string (ae_GraphCounters prev);
     State_Monad.return \<lparr>ae_Tick = ae_Tick prev + diff, ae_ActorId = ae_ActorId prev, ae_ActionId = vActionId,
       ae_TargetId = vTargetId, ae_TargetActor = vTargetActor, ae_IdleId = vIdleId, ae_State1 = vState1,
       ae_State2 = vState2, ae_Type = vType, ae_EventName = vEventName, ae_TargetEventName = vTargetEventName,
       ae_Variables = vVariables, ae_GraphState = vGraphState, ae_GraphCounters = vGraphCounters\<rparr>
   }"

text \<open>What the receiver has: the action with the actor's id it had, and the variables as they settle.\<close>

definition action_settled :: "action_event \<Rightarrow> action_event \<Rightarrow> action_event" where
  "action_settled prev x =
     x\<lparr>ae_ActorId := ae_ActorId prev, ae_Variables := anim_settled (ae_Variables prev) (ae_Variables x)\<rparr>"

definition action_valid :: "action_event \<Rightarrow> bool" where
  "action_valid x \<longleftrightarrow> anim_valid (ae_Variables x) \<and> length (ae_EventName x) < 65536 \<and>
     length (ae_TargetEventName x) < 65536 \<and> length (ae_GraphState x) < 65536 \<and> length (ae_GraphCounters x) < 65536"

lemma codes_flagged: "codes s d x \<Longrightarrow> codes (write_flagged f s) (read_flagged f d v) (if f then x else v)"
  unfolding write_flagged_def read_flagged_def by (rule codes_optional)

lemma flag_read:
  "length flags = 11 \<Longrightarrow> i < 11 \<Longrightarrow> bit (take_bit flag_bits (horner_sum of_bool 2 flags :: u64)) i = flags ! i"
  by (simp add: flag_bits_def bit_take_bit_iff bit_horner_sum_bit_word_iff)

lemma anim_unchanged:
  assumes "anim_eq x prev" shows "anim_settled prev x = prev"
proof -
  have "settle (av_Floats prev) (av_Floats x) = av_Floats prev"
    using assms unfolding anim_eq_def settle_def list_all2_conv_all_nth
    by (intro nth_equalityI) (auto simp: f32_eq_sym)
  then show ?thesis
    using assms by (simp add: anim_settled_def anim_eq_def)
qed

lemma codes_action:
  assumes "action_valid x"
  shows "codes (action_generate prev x) (action_apply prev) (action_settled prev x)"
proof -
  define flags where "flags = action_flags prev x"
  have n: "length flags = 11"
    by (simp add: flags_def action_flags_def)
  have texts: "length (ae_EventName x) < 65536" "length (ae_TargetEventName x) < 65536"
    "length (ae_GraphState x) < 65536" "length (ae_GraphCounters x) < 65536" and vars: "anim_valid (ae_Variables x)"
    using assms by (simp_all add: action_valid_def)
  have b11: "flag_bits \<le> 64"
    by (simp add: flag_bits_def)
  have read: "bit (take_bit flag_bits (horner_sum of_bool 2 flags :: u64)) i = flags ! i" if "i < 11" for i
    by (rule flag_read [OF n that])
  have reads: "bit (take_bit flag_bits (horner_sum of_bool 2 flags :: u64)) 0 = flags ! 0"
    "bit (take_bit flag_bits (horner_sum of_bool 2 flags :: u64)) 1 = flags ! 1"
    "bit (take_bit flag_bits (horner_sum of_bool 2 flags :: u64)) 2 = flags ! 2"
    "bit (take_bit flag_bits (horner_sum of_bool 2 flags :: u64)) 3 = flags ! 3"
    "bit (take_bit flag_bits (horner_sum of_bool 2 flags :: u64)) 4 = flags ! 4"
    "bit (take_bit flag_bits (horner_sum of_bool 2 flags :: u64)) 5 = flags ! 5"
    "bit (take_bit flag_bits (horner_sum of_bool 2 flags :: u64)) 6 = flags ! 6"
    "bit (take_bit flag_bits (horner_sum of_bool 2 flags :: u64)) 7 = flags ! 7"
    "bit (take_bit flag_bits (horner_sum of_bool 2 flags :: u64)) 8 = flags ! 8"
    "bit (take_bit flag_bits (horner_sum of_bool 2 flags :: u64)) 9 = flags ! 9"
    "bit (take_bit flag_bits (horner_sum of_bool 2 flags :: u64)) 10 = flags ! 10"
    by (rule read, simp)+
  have settled: "\<lparr>ae_Tick = ae_Tick prev + (ae_Tick x - ae_Tick prev), ae_ActorId = ae_ActorId prev,
      ae_ActionId = if flags ! 0 then ae_ActionId x else ae_ActionId prev,
      ae_TargetId = if flags ! 1 then ae_TargetId x else ae_TargetId prev,
      ae_TargetActor = if flags ! 8 then ae_TargetActor x else ae_TargetActor prev,
      ae_IdleId = if flags ! 2 then ae_IdleId x else ae_IdleId prev,
      ae_State1 = if flags ! 3 then ae_State1 x else ae_State1 prev,
      ae_State2 = if flags ! 3 then ae_State2 x else ae_State2 prev,
      ae_Type = if flags ! 4 then ae_Type x else ae_Type prev,
      ae_EventName = if flags ! 5 then ae_EventName x else ae_EventName prev,
      ae_TargetEventName = if flags ! 6 then ae_TargetEventName x else ae_TargetEventName prev,
      ae_Variables = if flags ! 7 then anim_settled (ae_Variables prev) (ae_Variables x) else ae_Variables prev,
      ae_GraphState = if flags ! 9 then ae_GraphState x else ae_GraphState prev,
      ae_GraphCounters = if flags ! 10 then ae_GraphCounters x else ae_GraphCounters prev\<rparr> = action_settled prev x"
    by (simp add: flags_def action_flags_def action_settled_def anim_unchanged)
  show ?thesis
    unfolding action_generate_def action_apply_def Let_def flags_def [symmetric]
    apply (rule codes_bind [OF codes_uint [OF b11]])
    apply (unfold reads)
    apply (rule codes_bind [OF codes_varint] codes_bind [OF codes_flagged] codes_u32 codes_word codes_anim vars
           codes_string texts)+
    apply (rule codes_return, rule settled)
    done
qed

lemma action_settled_new: "action_settled new_action x = x\<lparr>ae_ActorId := 0\<rparr>"
  by (simp add: action_settled_def new_action_def anim_settled_new)

lemma codes_action_new [codec_intros]:
  "action_valid x \<Longrightarrow> ae_ActorId x = 0 \<Longrightarrow> codes (action_generate new_action x) (action_apply new_action) x"
  using codes_action [of x new_action] by (cases x) (simp add: action_settled_new)

lemma safe_flagged [safe_intros]: "safe_reader d \<Longrightarrow> safe_reader (read_flagged f d v)"
  unfolding read_flagged_def by (intro safe_intros)

lemma safe_action [safe_intros]: "safe_reader (action_apply prev)"
  unfolding action_apply_def by (intro safe_intros)

interpretation action_wire: wire_codec "action_generate new_action" "action_apply new_action"
    "\<lambda>x. action_valid x \<and> ae_ActorId x = 0"
  by unfold_locales (auto simp: codes_action_new safe_action)

lemma settle_eq:
  assumes "\<forall>f \<in> set xs. \<not> f32_is_nan f"
  shows "list_all2 f32_eq (settle prev xs) xs"
  unfolding list_all2_conv_all_nth settle_def using assms by (auto simp: f32_eq_refl)

section \<open>What a differential carries\<close>

text \<open>
  C39: an action sent as what differs from any earlier one comes out, at a game that has that
  one, as the action itself: equal to it by the program's own comparison unless a variable is a NaN, and from a fresh
  action the same in every field but the actor's id, which each game fills in. Up to 524280 variables and texts below
  65536 characters.
\<close>

theorem action_differential:
  assumes "action_valid x"
  shows "let y = decode (action_apply prev) (encode (action_generate prev x) @ rest)
    in y = action_settled prev x \<and>
       (prev = new_action \<longrightarrow> y = x\<lparr>ae_ActorId := 0\<rparr>) \<and>
       ((\<forall>f \<in> set (av_Floats (ae_Variables x)). \<not> f32_is_nan f) \<longrightarrow> action_eq y x)"
proof -
  have "decode (action_apply prev) (encode (action_generate prev x) @ rest) = action_settled prev x"
    by (rule decode_encode_codes [OF codes_action [OF assms]])
  moreover have "action_eq (action_settled prev x) x" if "\<forall>f \<in> set (av_Floats (ae_Variables x)). \<not> f32_is_nan f"
    using settle_eq [OF that] by (simp add: action_eq_def anim_eq_def action_settled_def anim_settled_def)
  ultimately show ?thesis
    by (simp add: action_settled_new)
qed

lemma action_differential_witness:
  "let prev = new_action\<lparr>ae_ActionId := 3, ae_ActorId := 9, ae_Variables := new_anim\<lparr>av_Floats := [0x80000000, 0x3F800000]\<rparr>\<rparr>;
       x = new_action\<lparr>ae_ActionId := 4, ae_ActorId := 8, ae_Variables := new_anim\<lparr>av_Booleans := [True], av_Floats := [0, 0x40000000]\<rparr>\<rparr>;
       y = decode (action_apply prev) (encode (action_generate prev x))
   in ae_ActionId y = 4 \<and> ae_ActorId y = 9 \<and> av_Floats (ae_Variables y) = [0x80000000, 0x40000000] \<and> action_eq y x"
  using action_differential
      [of "new_action\<lparr>ae_ActionId := 4, ae_ActorId := 8, ae_Variables := new_anim\<lparr>av_Booleans := [True], av_Floats := [0, 0x40000000]\<rparr>\<rparr>"
        "new_action\<lparr>ae_ActionId := 3, ae_ActorId := 9, ae_Variables := new_anim\<lparr>av_Floats := [0x80000000, 0x3F800000]\<rparr>\<rparr>" "[]"]
  by (simp add: action_valid_def anim_valid_def new_action_def new_anim_def Let_def action_settled_def anim_settled_def
      settle_def f32_eq_def f32_is_nan_def f32_is_zero_def f32_exponent_def f32_fraction_def upt_rec
      action_eq_def anim_eq_def)

end
