(* ===== verification/Session_Messages.thy ===== *)
theory Session_Messages
  imports Action_Event Actors World_State
begin

text \<open>
  The messages a session's life is made of: joining, characters announced, spawned, removed and made again, their
  movement, arrivals and travel, items and equipment, objects, chat, levels, settings and time.
\<close>

text \<open>
  \<open>Factions::Deserialize\<close> may throw; nothing catches it, and a message's \<open>DeserializeRaw\<close> is \<open>noexcept\<close>:
  \<open>Inl\<close> is the program's end.
\<close>

definition or_throw :: "(reader, 'e + 'a) state \<Rightarrow> ('a \<Rightarrow> (reader, 'e + 'b) state) \<Rightarrow> (reader, 'e + 'b) state" where
  "or_throw d k = do { r \<leftarrow> d; (case r of Inl err \<Rightarrow> State_Monad.return (Inl err) | Inr a \<Rightarrow> k a) }"

lemma codes_or_throw [codec_intros]:
  assumes "codes s d (Inr a)" and "codes s2 (k a) y"
  shows "codes (State_Monad.bind s (\<lambda>_. s2)) (or_throw d k) y"
  unfolding or_throw_def by (rule codes_bind [OF assms(1)]) (simp add: assms(2))

lemma safe_or_throw [safe_intros]: "safe_reader d \<Longrightarrow> (\<And>a. safe_reader (k a)) \<Longrightarrow> safe_reader (or_throw d k)"
  unfolding or_throw_def by (intro safe_intros) (auto intro: safe_intros split: sum.split)

declare codes_factions [codec_intros]

section \<open>Joining\<close>

text \<open>The hashes of a guest's cached blocks: 32 characters each, or none of them.\<close>

fun read_hashes :: "nat \<Rightarrow> string list \<Rightarrow> (reader, string list) state" where
  "read_hashes 0 hs = State_Monad.return hs"
| "read_hashes (Suc n) hs = do {
     h \<leftarrow> read_string;
     (if length h \<noteq> 32 then State_Monad.return [] else read_hashes n (hs @ [h]))
   }"

definition max_cached_blocks :: nat where "max_cached_blocks = 16384"

definition cached_blocks_deserialize :: "(reader, string list) state" where
  "cached_blocks_deserialize = do {
     n \<leftarrow> read_varint;
     (if unat n > max_cached_blocks then State_Monad.return [] else read_hashes (unat n) [])
   }"

definition cached_blocks_valid :: "string list \<Rightarrow> bool" where
  "cached_blocks_valid hs \<longleftrightarrow> length hs \<le> max_cached_blocks \<and> (\<forall>h \<in> set hs. length h = 32)"

lemma codes_hashes:
  "\<forall>h \<in> set hs. length h = 32 \<Longrightarrow> codes (write_each write_string hs) (read_hashes (length hs) gs) (gs @ hs)"
proof (induction hs arbitrary: gs)
  case Nil
  then show ?case by (auto intro: codes_return)
next
  case (Cons h hs)
  then have "length h = 32" and IH: "codes (write_each write_string hs) (read_hashes (length hs) (gs @ [h])) (gs @ h # hs)"
    using Cons.IH [of "gs @ [h]"] by auto
  then have "length h < 65536"
    by simp
  from codes_string [OF this] IH \<open>length h = 32\<close> show ?case
    unfolding write_each.simps length_Cons read_hashes.simps
    by (intro codes_bind [where a = h]) simp_all
qed

lemma codes_cached_blocks [codec_intros]:
  assumes "cached_blocks_valid hs"
  shows "codes (write_list write_string hs) cached_blocks_deserialize hs"
proof -
  have n: "unat (of_nat (length hs) :: u64) = length hs" "\<not> unat (of_nat (length hs) :: u64) > max_cached_blocks"
    using assms unat_count [of "length hs"] by (auto simp: cached_blocks_valid_def max_cached_blocks_def)
  show ?thesis
    unfolding write_list_def cached_blocks_deserialize_def
    using assms codes_hashes [of hs "[]"] n
    by (intro codes_bind [OF codes_varint]) (simp_all add: cached_blocks_valid_def)
qed

lemma safe_hashes [safe_intros]: "safe_reader (read_hashes n hs)"
  by (induction n arbitrary: hs) (auto intro!: safe_intros)

lemma safe_cached_blocks [safe_intros]: "safe_reader cached_blocks_deserialize"
  unfolding cached_blocks_deserialize_def by (intro safe_intros)

text \<open>\<open>AuthenticationRequest\<close>.\<close>

record authentication_request =
  aq_Game :: "game_versions"
  aq_Version :: "string"
  aq_UserMods :: "mods"
  aq_Username :: "string"
  aq_WorldSpaceId :: "game_id"
  aq_CellId :: "game_id"
  aq_Level :: "u16"
  aq_PlayerTime :: "time_model"
  aq_PlayerKey :: "string"
  aq_WantsWorld :: "bool"
  aq_HasCharacter :: "bool"
  aq_CachedSaveBlocks :: "string list"

definition authentication_request_serialize :: "authentication_request \<Rightarrow> (writer, unit) state" where
  "authentication_request_serialize x = do {
     game_versions_serialize (aq_Game x);
     write_string (aq_Version x);
     mods_serialize (aq_UserMods x);
     write_string (aq_Username x);
     game_id_serialize (aq_WorldSpaceId x);
     game_id_serialize (aq_CellId x);
     write_u16 (aq_Level x);
     time_model_serialize (aq_PlayerTime x);
     write_string (aq_PlayerKey x);
     write_bool (aq_WantsWorld x);
     write_bool (aq_HasCharacter x);
     write_list write_string (aq_CachedSaveBlocks x);
     State_Monad.return ()
   }"

definition authentication_request_deserialize :: "(reader, authentication_request) state" where
  "authentication_request_deserialize = do {
     vGame \<leftarrow> game_versions_deserialize;
     vVersion \<leftarrow> read_string;
     vUserMods \<leftarrow> mods_deserialize;
     vUsername \<leftarrow> read_string;
     vWorldSpaceId \<leftarrow> game_id_deserialize;
     vCellId \<leftarrow> game_id_deserialize;
     vLevel \<leftarrow> read_u16;
     vPlayerTime \<leftarrow> time_model_deserialize;
     vPlayerKey \<leftarrow> read_string;
     vWantsWorld \<leftarrow> read_bool;
     vHasCharacter \<leftarrow> read_bool;
     vCachedSaveBlocks \<leftarrow> cached_blocks_deserialize;
     State_Monad.return \<lparr>aq_Game = vGame, aq_Version = vVersion, aq_UserMods = vUserMods,
       aq_Username = vUsername, aq_WorldSpaceId = vWorldSpaceId, aq_CellId = vCellId,
       aq_Level = vLevel, aq_PlayerTime = vPlayerTime, aq_PlayerKey = vPlayerKey,
       aq_WantsWorld = vWantsWorld, aq_HasCharacter = vHasCharacter,
       aq_CachedSaveBlocks = vCachedSaveBlocks\<rparr>
   }"

definition authentication_request_valid :: "authentication_request \<Rightarrow> bool" where
  "authentication_request_valid x \<longleftrightarrow> length (aq_Version x) < 65536 \<and>
     mods_valid (aq_UserMods x) \<and>
     length (aq_Username x) < 65536 \<and>
     length (aq_PlayerKey x) < 65536 \<and>
     cached_blocks_valid (aq_CachedSaveBlocks x)"

lemma codes_authentication_request [codec_intros]:
  "authentication_request_valid x \<Longrightarrow> codes (authentication_request_serialize x) authentication_request_deserialize x"
  unfolding authentication_request_serialize_def authentication_request_deserialize_def authentication_request_valid_def
  by (rule codec_intros | simp)+

lemma safe_authentication_request [safe_intros]: "safe_reader authentication_request_deserialize"
  unfolding authentication_request_deserialize_def by (intro safe_intros)

interpretation authentication_request_wire: wire_codec authentication_request_serialize authentication_request_deserialize "authentication_request_valid"
  by unfold_locales (simp_all add: codes_authentication_request safe_authentication_request)


text \<open>\<open>AuthenticationResponse\<close>.\<close>

record authentication_response =
  ar_Type :: "u8"
  ar_Version :: "string"
  ar_Game :: "game_versions"
  ar_UserMods :: "mods"
  ar_Difficulty :: "u32"
  ar_PlayerId :: "u32"
  ar_CharacterId :: "u32"

definition authentication_response_serialize :: "authentication_response \<Rightarrow> (writer, unit) state" where
  "authentication_response_serialize x = do {
     write_u8 (ar_Type x);
     write_string (ar_Version x);
     game_versions_serialize (ar_Game x);
     mods_serialize (ar_UserMods x);
     write_u32 (ar_Difficulty x);
     write_u32 (ar_PlayerId x);
     write_u32 (ar_CharacterId x);
     State_Monad.return ()
   }"

definition authentication_response_deserialize :: "(reader, authentication_response) state" where
  "authentication_response_deserialize = do {
     vType \<leftarrow> read_u8;
     vVersion \<leftarrow> read_string;
     vGame \<leftarrow> game_versions_deserialize;
     vUserMods \<leftarrow> mods_deserialize;
     vDifficulty \<leftarrow> read_u32;
     vPlayerId \<leftarrow> read_u32;
     vCharacterId \<leftarrow> read_u32;
     State_Monad.return \<lparr>ar_Type = vType, ar_Version = vVersion, ar_Game = vGame, ar_UserMods = vUserMods,
       ar_Difficulty = vDifficulty, ar_PlayerId = vPlayerId,
       ar_CharacterId = vCharacterId\<rparr>
   }"

definition authentication_response_valid :: "authentication_response \<Rightarrow> bool" where
  "authentication_response_valid x \<longleftrightarrow> length (ar_Version x) < 65536 \<and>
     mods_valid (ar_UserMods x)"

lemma codes_authentication_response [codec_intros]:
  "authentication_response_valid x \<Longrightarrow> codes (authentication_response_serialize x) authentication_response_deserialize x"
  unfolding authentication_response_serialize_def authentication_response_deserialize_def authentication_response_valid_def
  by (rule codec_intros | simp)+

lemma safe_authentication_response [safe_intros]: "safe_reader authentication_response_deserialize"
  unfolding authentication_response_deserialize_def by (intro safe_intros)

interpretation authentication_response_wire: wire_codec authentication_response_serialize authentication_response_deserialize "authentication_response_valid"
  by unfold_locales (simp_all add: codes_authentication_response safe_authentication_response)


text \<open>\<open>NotifyPlayerJoined\<close>.\<close>

record player_joined =
  pj_PlayerId :: "u32"
  pj_Username :: "string"
  pj_Level :: "u16"
  pj_IsHost :: "bool"
  pj_Arrived :: "bool"

definition player_joined_serialize :: "player_joined \<Rightarrow> (writer, unit) state" where
  "player_joined_serialize x = do {
     write_u32 (pj_PlayerId x);
     write_string (pj_Username x);
     write_u16 (pj_Level x);
     write_bool (pj_IsHost x);
     write_bool (pj_Arrived x);
     State_Monad.return ()
   }"

definition player_joined_deserialize :: "(reader, player_joined) state" where
  "player_joined_deserialize = do {
     vPlayerId \<leftarrow> read_u32;
     vUsername \<leftarrow> read_string;
     vLevel \<leftarrow> read_u16;
     vIsHost \<leftarrow> read_bool;
     vArrived \<leftarrow> read_bool;
     State_Monad.return \<lparr>pj_PlayerId = vPlayerId, pj_Username = vUsername, pj_Level = vLevel,
       pj_IsHost = vIsHost, pj_Arrived = vArrived\<rparr>
   }"

definition player_joined_valid :: "player_joined \<Rightarrow> bool" where
  "player_joined_valid x \<longleftrightarrow> length (pj_Username x) < 65536"

lemma codes_player_joined [codec_intros]:
  "player_joined_valid x \<Longrightarrow> codes (player_joined_serialize x) player_joined_deserialize x"
  unfolding player_joined_serialize_def player_joined_deserialize_def player_joined_valid_def
  by (rule codec_intros | simp)+

lemma safe_player_joined [safe_intros]: "safe_reader player_joined_deserialize"
  unfolding player_joined_deserialize_def by (intro safe_intros)

interpretation player_joined_wire: wire_codec player_joined_serialize player_joined_deserialize "player_joined_valid"
  by unfold_locales (simp_all add: codes_player_joined safe_player_joined)


text \<open>\<open>NotifyPlayerLeft\<close>.\<close>

record player_left =
  pl_PlayerId :: "u32"
  pl_Username :: "string"

definition player_left_serialize :: "player_left \<Rightarrow> (writer, unit) state" where
  "player_left_serialize x = do {
     write_u32 (pl_PlayerId x);
     write_string (pl_Username x);
     State_Monad.return ()
   }"

definition player_left_deserialize :: "(reader, player_left) state" where
  "player_left_deserialize = do {
     vPlayerId \<leftarrow> read_u32;
     vUsername \<leftarrow> read_string;
     State_Monad.return \<lparr>pl_PlayerId = vPlayerId, pl_Username = vUsername\<rparr>
   }"

definition player_left_valid :: "player_left \<Rightarrow> bool" where
  "player_left_valid x \<longleftrightarrow> length (pl_Username x) < 65536"

lemma codes_player_left [codec_intros]:
  "player_left_valid x \<Longrightarrow> codes (player_left_serialize x) player_left_deserialize x"
  unfolding player_left_serialize_def player_left_deserialize_def player_left_valid_def
  by (rule codec_intros | simp)+

lemma safe_player_left [safe_intros]: "safe_reader player_left_deserialize"
  unfolding player_left_deserialize_def by (intro safe_intros)

interpretation player_left_wire: wire_codec player_left_serialize player_left_deserialize "player_left_valid"
  by unfold_locales (simp_all add: codes_player_left safe_player_left)


text \<open>\<open>NotifyPlayerLevel\<close>.\<close>

record player_level =
  npl_PlayerId :: "u32"
  npl_NewLevel :: "u16"

definition player_level_serialize :: "player_level \<Rightarrow> (writer, unit) state" where
  "player_level_serialize x = do {
     write_u32 (npl_PlayerId x);
     write_u16 (npl_NewLevel x);
     State_Monad.return ()
   }"

definition player_level_deserialize :: "(reader, player_level) state" where
  "player_level_deserialize = do {
     vPlayerId \<leftarrow> read_u32;
     vNewLevel \<leftarrow> read_u16;
     State_Monad.return \<lparr>npl_PlayerId = vPlayerId, npl_NewLevel = vNewLevel\<rparr>
   }"

lemma codes_player_level [codec_intros]:
  "codes (player_level_serialize x) player_level_deserialize x"
  unfolding player_level_serialize_def player_level_deserialize_def
  by (rule codec_intros | simp)+

lemma safe_player_level [safe_intros]: "safe_reader player_level_deserialize"
  unfolding player_level_deserialize_def by (intro safe_intros)

interpretation player_level_wire: wire_codec player_level_serialize player_level_deserialize "\<lambda>_. True"
  by unfold_locales (simp_all add: codes_player_level safe_player_level)


text \<open>\<open>PlayerLevelRequest\<close>.\<close>

record level_request =
  lq_NewLevel :: "u16"

definition level_request_serialize :: "level_request \<Rightarrow> (writer, unit) state" where
  "level_request_serialize x = do {
     write_u16 (lq_NewLevel x);
     State_Monad.return ()
   }"

definition level_request_deserialize :: "(reader, level_request) state" where
  "level_request_deserialize = do {
     vNewLevel \<leftarrow> read_u16;
     State_Monad.return \<lparr>lq_NewLevel = vNewLevel\<rparr>
   }"

lemma codes_level_request [codec_intros]:
  "codes (level_request_serialize x) level_request_deserialize x"
  unfolding level_request_serialize_def level_request_deserialize_def
  by (rule codec_intros | simp)+

lemma safe_level_request [safe_intros]: "safe_reader level_request_deserialize"
  unfolding level_request_deserialize_def by (intro safe_intros)

interpretation level_request_wire: wire_codec level_request_serialize level_request_deserialize "\<lambda>_. True"
  by unfold_locales (simp_all add: codes_level_request safe_level_request)


text \<open>\<open>NotifySettingsChange\<close>.\<close>

record settings_change =
  sc_Difficulty :: "u32"

definition settings_change_serialize :: "settings_change \<Rightarrow> (writer, unit) state" where
  "settings_change_serialize x = do {
     write_u32 (sc_Difficulty x);
     State_Monad.return ()
   }"

definition settings_change_deserialize :: "(reader, settings_change) state" where
  "settings_change_deserialize = do {
     vDifficulty \<leftarrow> read_u32;
     State_Monad.return \<lparr>sc_Difficulty = vDifficulty\<rparr>
   }"

lemma codes_settings_change [codec_intros]:
  "codes (settings_change_serialize x) settings_change_deserialize x"
  unfolding settings_change_serialize_def settings_change_deserialize_def
  by (rule codec_intros | simp)+

lemma safe_settings_change [safe_intros]: "safe_reader settings_change_deserialize"
  unfolding settings_change_deserialize_def by (intro safe_intros)

interpretation settings_change_wire: wire_codec settings_change_serialize settings_change_deserialize "\<lambda>_. True"
  by unfold_locales (simp_all add: codes_settings_change safe_settings_change)


section \<open>Characters\<close>

text \<open>\<open>AnnounceCharacterRequest\<close>.\<close>

record announce =
  an_SessionId :: "u32"
  an_ReferenceId :: "game_id"
  an_FormId :: "game_id"
  an_CellId :: "game_id"
  an_WorldSpaceId :: "game_id"
  an_Position :: "vec3"
  an_Rotation :: "rotator"
  an_ChangeFlags :: "u32"
  an_AppearanceBuffer :: "string"
  an_DisplayName :: "string"
  an_FactionsContent :: "factions"
  an_LatestAction :: "action_event"
  an_GraphState :: "string"
  an_AiState :: "actor_ai_state"
  an_PerksContent :: "perks"
  an_EffectIds :: "game_id list"
  an_FaceTints :: "tint list"
  an_Weight :: "float32"
  an_IsDragon :: "bool"
  an_IsMount :: "bool"
  an_IsPlayerSummon :: "bool"
  an_CurrentActorData :: "actor_data"

definition announce_serialize :: "announce \<Rightarrow> (writer, unit) state" where
  "announce_serialize x = do {
     write_u32 (an_SessionId x);
     game_id_serialize (an_ReferenceId x);
     game_id_serialize (an_FormId x);
     game_id_serialize (an_CellId x);
     game_id_serialize (an_WorldSpaceId x);
     vec3_serialize (an_Position x);
     rotator_serialize (an_Rotation x);
     write_word (an_ChangeFlags x);
     write_string (an_AppearanceBuffer x);
     write_string (an_DisplayName x);
     factions_serialize (an_FactionsContent x);
     action_generate new_action (an_LatestAction x);
     tints_serialize (an_FaceTints x);
     write_float (an_Weight x);
     write_bool (an_IsDragon x);
     write_bool (an_IsMount x);
     write_bool (an_IsPlayerSummon x);
     actor_data_serialize (an_CurrentActorData x);
     write_string (an_GraphState x);
     actor_ai_state_serialize (an_AiState x);
     perks_serialize (an_PerksContent x);
     write_list game_id_serialize (an_EffectIds x);
     State_Monad.return ()
   }"

definition announce_deserialize :: "(reader, factions_error + announce) state" where
  "announce_deserialize = do {
     vSessionId \<leftarrow> read_u32;
     vReferenceId \<leftarrow> game_id_deserialize;
     vFormId \<leftarrow> game_id_deserialize;
     vCellId \<leftarrow> game_id_deserialize;
     vWorldSpaceId \<leftarrow> game_id_deserialize;
     vPosition \<leftarrow> vec3_deserialize;
     vRotation \<leftarrow> rotator_deserialize;
     vChangeFlags \<leftarrow> read_word;
     vAppearanceBuffer \<leftarrow> read_string;
     vDisplayName \<leftarrow> read_string;
     or_throw factions_deserialize (\<lambda>vFactionsContent. do {
     vLatestAction \<leftarrow> action_apply new_action;
     vFaceTints \<leftarrow> tints_deserialize [];
     vWeight \<leftarrow> read_float;
     vIsDragon \<leftarrow> read_bool;
     vIsMount \<leftarrow> read_bool;
     vIsPlayerSummon \<leftarrow> read_bool;
     vCurrentActorData \<leftarrow> actor_data_deserialize;
     vGraphState \<leftarrow> read_string;
     vAiState \<leftarrow> actor_ai_state_deserialize;
     vPerksContent \<leftarrow> perks_deserialize;
     vEffectIds \<leftarrow> read_list_capped 256 game_id_deserialize;
     State_Monad.return (Inr \<lparr>an_SessionId = vSessionId, an_ReferenceId = vReferenceId, an_FormId = vFormId,
       an_CellId = vCellId, an_WorldSpaceId = vWorldSpaceId, an_Position = vPosition,
       an_Rotation = vRotation, an_ChangeFlags = vChangeFlags,
       an_AppearanceBuffer = vAppearanceBuffer, an_DisplayName = vDisplayName,
       an_FactionsContent = vFactionsContent, an_LatestAction = vLatestAction,
       an_GraphState = vGraphState, an_AiState = vAiState,
       an_PerksContent = vPerksContent, an_EffectIds = vEffectIds,
       an_FaceTints = vFaceTints, an_Weight = vWeight, an_IsDragon = vIsDragon,
       an_IsMount = vIsMount, an_IsPlayerSummon = vIsPlayerSummon,
       an_CurrentActorData = vCurrentActorData\<rparr>)
   })}"

definition announce_valid :: "announce \<Rightarrow> bool" where
  "announce_valid x \<longleftrightarrow> vec3_valid (an_Position x) \<and>
     rotator_valid (an_Rotation x) \<and>
     length (an_AppearanceBuffer x) < 65536 \<and>
     length (an_DisplayName x) < 65536 \<and>
     factions_valid (an_FactionsContent x) \<and>
     action_valid (an_LatestAction x) \<and> ae_ActorId (an_LatestAction x) = 0 \<and>
     length (an_GraphState x) < 65536 \<and>
     actor_ai_state_valid (an_AiState x) \<and>
     perks_valid (an_PerksContent x) \<and>
     length (an_EffectIds x) < 257 \<and>
     tints_valid (an_FaceTints x) \<and>
     actor_data_valid (an_CurrentActorData x)"

lemma codes_announce [codec_intros]:
  "announce_valid x \<Longrightarrow> codes (announce_serialize x) announce_deserialize (Inr x)"
  unfolding announce_serialize_def announce_deserialize_def announce_valid_def
  by (rule codec_intros | simp)+

lemma safe_announce [safe_intros]: "safe_reader announce_deserialize"
  unfolding announce_deserialize_def by (intro safe_intros)


text \<open>\<open>NotifyCharacterSpawn\<close>.\<close>

record spawn =
  sp_SessionId :: "u32"
  sp_FormId :: "game_id"
  sp_BaseId :: "game_id"
  sp_CellId :: "game_id"
  sp_Position :: "vec3"
  sp_Rotation :: "rotator"
  sp_ChangeFlags :: "u32"
  sp_AppearanceBuffer :: "string"
  sp_DisplayName :: "string"
  sp_InventoryContent :: "inventory"
  sp_FactionsContent :: "factions"
  sp_LatestAction :: "action_event"
  sp_GraphState :: "string"
  sp_AiState :: "actor_ai_state"
  sp_PerksContent :: "perks"
  sp_EffectIds :: "game_id list"
  sp_FaceTints :: "tint list"
  sp_Weight :: "float32"
  sp_InitialActorValues :: "actor_values"
  sp_PlayerId :: "u32"
  sp_IsDead :: "bool"
  sp_IsPlayer :: "bool"
  sp_IsWeaponDrawn :: "bool"
  sp_IsPlayerSummon :: "bool"

definition spawn_serialize :: "spawn \<Rightarrow> (writer, unit) state" where
  "spawn_serialize x = do {
     write_u32 (sp_SessionId x);
     game_id_serialize (sp_FormId x);
     game_id_serialize (sp_BaseId x);
     game_id_serialize (sp_CellId x);
     vec3_serialize (sp_Position x);
     rotator_serialize (sp_Rotation x);
     write_word (sp_ChangeFlags x);
     write_string (sp_AppearanceBuffer x);
     write_string (sp_DisplayName x);
     inventory_serialize (sp_InventoryContent x);
     factions_serialize (sp_FactionsContent x);
     action_generate new_action (sp_LatestAction x);
     tints_serialize (sp_FaceTints x);
     write_float (sp_Weight x);
     actor_values_serialize (sp_InitialActorValues x);
     write_u32 (sp_PlayerId x);
     write_bool (sp_IsDead x);
     write_bool (sp_IsPlayer x);
     write_bool (sp_IsWeaponDrawn x);
     write_bool (sp_IsPlayerSummon x);
     write_string (sp_GraphState x);
     actor_ai_state_serialize (sp_AiState x);
     perks_serialize (sp_PerksContent x);
     write_list game_id_serialize (sp_EffectIds x);
     State_Monad.return ()
   }"

definition spawn_deserialize :: "(reader, factions_error + spawn) state" where
  "spawn_deserialize = do {
     vSessionId \<leftarrow> read_u32;
     vFormId \<leftarrow> game_id_deserialize;
     vBaseId \<leftarrow> game_id_deserialize;
     vCellId \<leftarrow> game_id_deserialize;
     vPosition \<leftarrow> vec3_deserialize;
     vRotation \<leftarrow> rotator_deserialize;
     vChangeFlags \<leftarrow> read_word;
     vAppearanceBuffer \<leftarrow> read_string;
     vDisplayName \<leftarrow> read_string;
     vInventoryContent \<leftarrow> inventory_deserialize no_inventory;
     or_throw factions_deserialize (\<lambda>vFactionsContent. do {
     vLatestAction \<leftarrow> action_apply new_action;
     vFaceTints \<leftarrow> tints_deserialize [];
     vWeight \<leftarrow> read_float;
     vInitialActorValues \<leftarrow> actor_values_deserialize no_actor_values;
     vPlayerId \<leftarrow> read_u32;
     vIsDead \<leftarrow> read_bool;
     vIsPlayer \<leftarrow> read_bool;
     vIsWeaponDrawn \<leftarrow> read_bool;
     vIsPlayerSummon \<leftarrow> read_bool;
     vGraphState \<leftarrow> read_string;
     vAiState \<leftarrow> actor_ai_state_deserialize;
     vPerksContent \<leftarrow> perks_deserialize;
     vEffectIds \<leftarrow> read_list_capped 256 game_id_deserialize;
     State_Monad.return (Inr \<lparr>sp_SessionId = vSessionId, sp_FormId = vFormId, sp_BaseId = vBaseId,
       sp_CellId = vCellId, sp_Position = vPosition, sp_Rotation = vRotation,
       sp_ChangeFlags = vChangeFlags, sp_AppearanceBuffer = vAppearanceBuffer,
       sp_DisplayName = vDisplayName, sp_InventoryContent = vInventoryContent,
       sp_FactionsContent = vFactionsContent, sp_LatestAction = vLatestAction,
       sp_GraphState = vGraphState, sp_AiState = vAiState,
       sp_PerksContent = vPerksContent, sp_EffectIds = vEffectIds,
       sp_FaceTints = vFaceTints, sp_Weight = vWeight,
       sp_InitialActorValues = vInitialActorValues, sp_PlayerId = vPlayerId,
       sp_IsDead = vIsDead, sp_IsPlayer = vIsPlayer, sp_IsWeaponDrawn = vIsWeaponDrawn,
       sp_IsPlayerSummon = vIsPlayerSummon\<rparr>)
   })}"

definition spawn_valid :: "spawn \<Rightarrow> bool" where
  "spawn_valid x \<longleftrightarrow> vec3_valid (sp_Position x) \<and>
     rotator_valid (sp_Rotation x) \<and>
     length (sp_AppearanceBuffer x) < 65536 \<and>
     length (sp_DisplayName x) < 65536 \<and>
     inventory_valid (sp_InventoryContent x) \<and>
     factions_valid (sp_FactionsContent x) \<and>
     action_valid (sp_LatestAction x) \<and> ae_ActorId (sp_LatestAction x) = 0 \<and>
     length (sp_GraphState x) < 65536 \<and>
     actor_ai_state_valid (sp_AiState x) \<and>
     perks_valid (sp_PerksContent x) \<and>
     length (sp_EffectIds x) < 257 \<and>
     tints_valid (sp_FaceTints x) \<and>
     actor_values_valid (sp_InitialActorValues x)"

lemma codes_spawn [codec_intros]:
  "spawn_valid x \<Longrightarrow> codes (spawn_serialize x) spawn_deserialize (Inr x)"
  unfolding spawn_serialize_def spawn_deserialize_def spawn_valid_def
  by (rule codec_intros | simp)+

lemma safe_spawn [safe_intros]: "safe_reader spawn_deserialize"
  unfolding spawn_deserialize_def by (intro safe_intros)


text \<open>The player's own reference, and \<open>std::numeric_limits<uint32_t>::max()\<close>.\<close>

definition player_ref :: game_id where "player_ref = \<lparr>gid_BaseId = 0x14, gid_ModId = 0\<rparr>"

text \<open>\<open>NotifyCharacterSpawn::FromAnnouncement\<close>.\<close>

definition from_announcement :: "announce \<Rightarrow> u32 \<Rightarrow> u32 \<Rightarrow> spawn" where
  "from_announcement a session player =
     (let is_player = (an_ReferenceId a = player_ref); is_temporary = (gid_ModId (an_ReferenceId a) = 0xFFFFFFFF)
      in \<lparr>sp_SessionId = session, sp_FormId = (if \<not> is_player \<and> \<not> is_temporary then an_ReferenceId a else no_id),
          sp_BaseId = an_FormId a, sp_CellId = an_CellId a, sp_Position = an_Position a, sp_Rotation = an_Rotation a,
          sp_ChangeFlags = an_ChangeFlags a, sp_AppearanceBuffer = an_AppearanceBuffer a,
          sp_DisplayName = an_DisplayName a, sp_InventoryContent = ad_InitialInventory (an_CurrentActorData a),
          sp_FactionsContent = an_FactionsContent a, sp_LatestAction = an_LatestAction a,
          sp_GraphState = an_GraphState a, sp_AiState = an_AiState a, sp_PerksContent = an_PerksContent a,
          sp_EffectIds = an_EffectIds a, sp_FaceTints = an_FaceTints a, sp_Weight = an_Weight a,
          sp_InitialActorValues = ad_InitialActorValues (an_CurrentActorData a),
          sp_PlayerId = (if is_player then player else 0), sp_IsDead = ad_IsDead (an_CurrentActorData a),
          sp_IsPlayer = is_player, sp_IsWeaponDrawn = ad_IsWeaponDrawn (an_CurrentActorData a),
          sp_IsPlayerSummon = an_IsPlayerSummon a\<rparr>)"

text \<open>\<open>RequestRemoveCharacter\<close>.\<close>

record remove_request =
  rr_SessionId :: "u32"
  rr_Whereabouts :: "actor_whereabouts"

definition remove_request_serialize :: "remove_request \<Rightarrow> (writer, unit) state" where
  "remove_request_serialize x = do {
     write_u32 (rr_SessionId x);
     actor_whereabouts_serialize (rr_Whereabouts x);
     State_Monad.return ()
   }"

definition remove_request_deserialize :: "(reader, remove_request) state" where
  "remove_request_deserialize = do {
     vSessionId \<leftarrow> read_u32;
     vWhereabouts \<leftarrow> actor_whereabouts_deserialize;
     State_Monad.return \<lparr>rr_SessionId = vSessionId, rr_Whereabouts = vWhereabouts\<rparr>
   }"

definition remove_request_valid :: "remove_request \<Rightarrow> bool" where
  "remove_request_valid x \<longleftrightarrow> actor_whereabouts_valid (rr_Whereabouts x)"

lemma codes_remove_request [codec_intros]:
  "remove_request_valid x \<Longrightarrow> codes (remove_request_serialize x) remove_request_deserialize x"
  unfolding remove_request_serialize_def remove_request_deserialize_def remove_request_valid_def
  by (rule codec_intros | simp)+

lemma safe_remove_request [safe_intros]: "safe_reader remove_request_deserialize"
  unfolding remove_request_deserialize_def by (intro safe_intros)

interpretation remove_request_wire: wire_codec remove_request_serialize remove_request_deserialize "remove_request_valid"
  by unfold_locales (simp_all add: codes_remove_request safe_remove_request)


text \<open>\<open>NotifyRemoveCharacter\<close>.\<close>

record remove_character =
  nr_SessionId :: "u32"
  nr_Whereabouts :: "actor_whereabouts"

definition remove_character_serialize :: "remove_character \<Rightarrow> (writer, unit) state" where
  "remove_character_serialize x = do {
     write_u32 (nr_SessionId x);
     actor_whereabouts_serialize (nr_Whereabouts x);
     State_Monad.return ()
   }"

definition remove_character_deserialize :: "(reader, remove_character) state" where
  "remove_character_deserialize = do {
     vSessionId \<leftarrow> read_u32;
     vWhereabouts \<leftarrow> actor_whereabouts_deserialize;
     State_Monad.return \<lparr>nr_SessionId = vSessionId, nr_Whereabouts = vWhereabouts\<rparr>
   }"

definition remove_character_valid :: "remove_character \<Rightarrow> bool" where
  "remove_character_valid x \<longleftrightarrow> actor_whereabouts_valid (nr_Whereabouts x)"

lemma codes_remove_character [codec_intros]:
  "remove_character_valid x \<Longrightarrow> codes (remove_character_serialize x) remove_character_deserialize x"
  unfolding remove_character_serialize_def remove_character_deserialize_def remove_character_valid_def
  by (rule codec_intros | simp)+

lemma safe_remove_character [safe_intros]: "safe_reader remove_character_deserialize"
  unfolding remove_character_deserialize_def by (intro safe_intros)

interpretation remove_character_wire: wire_codec remove_character_serialize remove_character_deserialize "remove_character_valid"
  by unfold_locales (simp_all add: codes_remove_character safe_remove_character)


text \<open>\<open>RequestRespawn\<close>: the owner's state only when it has it.\<close>

record respawn_request =
  rs_ActorId :: u32
  rs_AppearanceBuffer :: string
  rs_ChangeFlags :: u32
  rs_FaceTints :: "tint list"
  rs_Weight :: float32
  rs_HasState :: bool
  rs_LatestAction :: action_event
  rs_GraphState :: string
  rs_Data :: actor_data

definition no_actor_data :: actor_data where
  "no_actor_data = \<lparr>ad_InitialActorValues = no_actor_values, ad_InitialInventory = no_inventory, ad_IsDead = False,
     ad_IsWeaponDrawn = False\<rparr>"

definition respawn_request_serialize :: "respawn_request \<Rightarrow> (writer, unit) state" where
  "respawn_request_serialize x = do {
     write_u32 (rs_ActorId x);
     write_string (rs_AppearanceBuffer x);
     write_u32 (rs_ChangeFlags x);
     tints_serialize (rs_FaceTints x);
     write_float (rs_Weight x);
     write_bool (rs_HasState x);
     (if \<not> rs_HasState x then State_Monad.return () else do {
        action_generate new_action (rs_LatestAction x);
        write_string (rs_GraphState x);
        actor_data_serialize (rs_Data x);
        State_Monad.return ()
      })
   }"

definition respawn_request_deserialize :: "(reader, respawn_request) state" where
  "respawn_request_deserialize = do {
     actor \<leftarrow> read_u32;
     appearance \<leftarrow> read_string;
     flags \<leftarrow> read_u32;
     tints \<leftarrow> tints_deserialize [];
     weight \<leftarrow> read_float;
     has_state \<leftarrow> read_bool;
     (let x = \<lparr>rs_ActorId = actor, rs_AppearanceBuffer = appearance, rs_ChangeFlags = flags, rs_FaceTints = tints,
        rs_Weight = weight, rs_HasState = has_state, rs_LatestAction = new_action, rs_GraphState = [], rs_Data = no_actor_data\<rparr>
      in if \<not> has_state then State_Monad.return x else do {
        action \<leftarrow> action_apply new_action;
        graph \<leftarrow> read_string;
        data \<leftarrow> actor_data_deserialize;
        State_Monad.return (x\<lparr>rs_LatestAction := action, rs_GraphState := graph, rs_Data := data\<rparr>)
      })
   }"

definition respawn_request_valid :: "respawn_request \<Rightarrow> bool" where
  "respawn_request_valid x \<longleftrightarrow> length (rs_AppearanceBuffer x) < 65536 \<and> tints_valid (rs_FaceTints x) \<and>
     (if rs_HasState x
      then action_valid (rs_LatestAction x) \<and> ae_ActorId (rs_LatestAction x) = 0 \<and> length (rs_GraphState x) < 65536 \<and>
        actor_data_valid (rs_Data x)
      else rs_LatestAction x = new_action \<and> rs_GraphState x = [] \<and> rs_Data x = no_actor_data)"

lemma codes_respawn_request [codec_intros]:
  "respawn_request_valid x \<Longrightarrow> codes (respawn_request_serialize x) respawn_request_deserialize x"
  unfolding respawn_request_serialize_def respawn_request_deserialize_def respawn_request_valid_def Let_def
  by (cases x; cases "rs_HasState x"; simp; (rule codec_intros codes_last | simp)+)

lemma safe_respawn_request [safe_intros]: "safe_reader respawn_request_deserialize"
  unfolding respawn_request_deserialize_def Let_def by (intro safe_intros)

interpretation respawn_request_wire: wire_codec respawn_request_serialize respawn_request_deserialize respawn_request_valid
  by unfold_locales (simp_all add: codes_respawn_request safe_respawn_request)

text \<open>\<open>NotifyRespawn\<close>: looks only with an appearance.\<close>

record respawn =
  nrs_ActorId :: u32
  nrs_AppearanceBuffer :: string
  nrs_ChangeFlags :: u32
  nrs_FaceTints :: "tint list"
  nrs_Weight :: float32

text \<open>\<open>NotifyRespawn{}\<close>: a weight of 50.\<close>

definition new_respawn :: respawn where
  "new_respawn = \<lparr>nrs_ActorId = 0, nrs_AppearanceBuffer = [], nrs_ChangeFlags = 0, nrs_FaceTints = [], nrs_Weight = 0x42480000\<rparr>"

definition respawn_serialize :: "respawn \<Rightarrow> (writer, unit) state" where
  "respawn_serialize x = do {
     write_u32 (nrs_ActorId x);
     write_string (nrs_AppearanceBuffer x);
     (if nrs_AppearanceBuffer x = [] then State_Monad.return () else do {
        write_u32 (nrs_ChangeFlags x);
        tints_serialize (nrs_FaceTints x);
        write_float (nrs_Weight x);
        State_Monad.return ()
      })
   }"

definition respawn_deserialize :: "(reader, respawn) state" where
  "respawn_deserialize = do {
     actor \<leftarrow> read_u32;
     appearance \<leftarrow> read_string;
     (if appearance = [] then State_Monad.return (new_respawn\<lparr>nrs_ActorId := actor\<rparr>) else do {
        flags \<leftarrow> read_u32;
        tints \<leftarrow> tints_deserialize [];
        weight \<leftarrow> read_float;
        State_Monad.return \<lparr>nrs_ActorId = actor, nrs_AppearanceBuffer = appearance, nrs_ChangeFlags = flags,
          nrs_FaceTints = tints, nrs_Weight = weight\<rparr>
      })
   }"

definition respawn_valid :: "respawn \<Rightarrow> bool" where
  "respawn_valid x \<longleftrightarrow> length (nrs_AppearanceBuffer x) < 65536 \<and> tints_valid (nrs_FaceTints x) \<and>
     (nrs_AppearanceBuffer x = [] \<longrightarrow> x = new_respawn\<lparr>nrs_ActorId := nrs_ActorId x\<rparr>)"

lemma codes_respawn [codec_intros]: "respawn_valid x \<Longrightarrow> codes (respawn_serialize x) respawn_deserialize x"
  unfolding respawn_serialize_def respawn_deserialize_def respawn_valid_def
  by (cases x; cases "nrs_AppearanceBuffer x = []"; simp; (rule codec_intros codes_last | simp add: new_respawn_def)+)

lemma safe_respawn [safe_intros]: "safe_reader respawn_deserialize"
  unfolding respawn_deserialize_def by (intro safe_intros)

interpretation respawn_wire: wire_codec respawn_serialize respawn_deserialize respawn_valid
  by unfold_locales (simp_all add: codes_respawn safe_respawn)

section \<open>Where characters go\<close>

text \<open>\<open>EnterCellRequest\<close>.\<close>

record enter_cell =
  ec_CellId :: "game_id"
  ec_WorldSpaceId :: "game_id"
  ec_Position :: "vec3"
  ec_Heading :: "float32"
  ec_How :: "u8"
  ec_LatestAction :: "action_event"
  ec_GraphState :: "string"
  ec_Data :: "actor_data"

definition enter_cell_serialize :: "enter_cell \<Rightarrow> (writer, unit) state" where
  "enter_cell_serialize x = do {
     game_id_serialize (ec_CellId x);
     game_id_serialize (ec_WorldSpaceId x);
     vec3_serialize (ec_Position x);
     write_float (ec_Heading x);
     write_byte (ec_How x);
     action_generate new_action (ec_LatestAction x);
     write_string (ec_GraphState x);
     actor_data_serialize (ec_Data x);
     State_Monad.return ()
   }"

definition enter_cell_deserialize :: "(reader, enter_cell) state" where
  "enter_cell_deserialize = do {
     vCellId \<leftarrow> game_id_deserialize;
     vWorldSpaceId \<leftarrow> game_id_deserialize;
     vPosition \<leftarrow> vec3_deserialize;
     vHeading \<leftarrow> read_float;
     vHow \<leftarrow> read_byte;
     vLatestAction \<leftarrow> action_apply new_action;
     vGraphState \<leftarrow> read_string;
     vData \<leftarrow> actor_data_deserialize;
     State_Monad.return \<lparr>ec_CellId = vCellId, ec_WorldSpaceId = vWorldSpaceId, ec_Position = vPosition,
       ec_Heading = vHeading, ec_How = vHow, ec_LatestAction = vLatestAction,
       ec_GraphState = vGraphState, ec_Data = vData\<rparr>
   }"

definition enter_cell_valid :: "enter_cell \<Rightarrow> bool" where
  "enter_cell_valid x \<longleftrightarrow> vec3_valid (ec_Position x) \<and>
     action_valid (ec_LatestAction x) \<and> ae_ActorId (ec_LatestAction x) = 0 \<and>
     length (ec_GraphState x) < 65536 \<and>
     actor_data_valid (ec_Data x)"

lemma codes_enter_cell [codec_intros]:
  "enter_cell_valid x \<Longrightarrow> codes (enter_cell_serialize x) enter_cell_deserialize x"
  unfolding enter_cell_serialize_def enter_cell_deserialize_def enter_cell_valid_def
  by (rule codec_intros | simp)+

lemma safe_enter_cell [safe_intros]: "safe_reader enter_cell_deserialize"
  unfolding enter_cell_deserialize_def by (intro safe_intros)

interpretation enter_cell_wire: wire_codec enter_cell_serialize enter_cell_deserialize "enter_cell_valid"
  by unfold_locales (simp_all add: codes_enter_cell safe_enter_cell)


text \<open>\<open>EnterCellRequest::Travel\<close>.\<close>

definition travel_own :: u8 where "travel_own = 0"
definition travel_tether :: u8 where "travel_tether = 1"
definition travel_before_joining :: u8 where "travel_before_joining = 2"

text \<open>\<open>NotifyPartyTravel\<close>.\<close>

record party_travel =
  pt_CellId :: "game_id"
  pt_WorldSpaceId :: "game_id"
  pt_Position :: "vec3"
  pt_Heading :: "float32"

definition party_travel_serialize :: "party_travel \<Rightarrow> (writer, unit) state" where
  "party_travel_serialize x = do {
     game_id_serialize (pt_CellId x);
     game_id_serialize (pt_WorldSpaceId x);
     vec3_serialize (pt_Position x);
     write_float (pt_Heading x);
     State_Monad.return ()
   }"

definition party_travel_deserialize :: "(reader, party_travel) state" where
  "party_travel_deserialize = do {
     vCellId \<leftarrow> game_id_deserialize;
     vWorldSpaceId \<leftarrow> game_id_deserialize;
     vPosition \<leftarrow> vec3_deserialize;
     vHeading \<leftarrow> read_float;
     State_Monad.return \<lparr>pt_CellId = vCellId, pt_WorldSpaceId = vWorldSpaceId, pt_Position = vPosition,
       pt_Heading = vHeading\<rparr>
   }"

definition party_travel_valid :: "party_travel \<Rightarrow> bool" where
  "party_travel_valid x \<longleftrightarrow> vec3_valid (pt_Position x)"

lemma codes_party_travel [codec_intros]:
  "party_travel_valid x \<Longrightarrow> codes (party_travel_serialize x) party_travel_deserialize x"
  unfolding party_travel_serialize_def party_travel_deserialize_def party_travel_valid_def
  by (rule codec_intros | simp)+

lemma safe_party_travel [safe_intros]: "safe_reader party_travel_deserialize"
  unfolding party_travel_deserialize_def by (intro safe_intros)

interpretation party_travel_wire: wire_codec party_travel_serialize party_travel_deserialize "party_travel_valid"
  by unfold_locales (simp_all add: codes_party_travel safe_party_travel)


text \<open>\<open>TravelTimeRequest\<close>.\<close>

record travel_time =
  tt_Hours :: "float32"

definition travel_time_serialize :: "travel_time \<Rightarrow> (writer, unit) state" where
  "travel_time_serialize x = do {
     write_float (tt_Hours x);
     State_Monad.return ()
   }"

definition travel_time_deserialize :: "(reader, travel_time) state" where
  "travel_time_deserialize = do {
     vHours \<leftarrow> read_float;
     State_Monad.return \<lparr>tt_Hours = vHours\<rparr>
   }"

lemma codes_travel_time [codec_intros]:
  "codes (travel_time_serialize x) travel_time_deserialize x"
  unfolding travel_time_serialize_def travel_time_deserialize_def
  by (rule codec_intros | simp)+

lemma safe_travel_time [safe_intros]: "safe_reader travel_time_deserialize"
  unfolding travel_time_deserialize_def by (intro safe_intros)

interpretation travel_time_wire: wire_codec travel_time_serialize travel_time_deserialize "\<lambda>_. True"
  by unfold_locales (simp_all add: codes_travel_time safe_travel_time)


section \<open>Items and objects\<close>

text \<open>\<open>RequestInventoryChanges\<close>.\<close>

record inventory_request =
  irq_SessionId :: "u32"
  irq_Item :: "entry"
  irq_Drop :: "bool"
  irq_UpdateClients :: "bool"
  irq_NewPartyItem :: "bool"
  irq_StoryGiven :: "bool"

definition inventory_request_serialize :: "inventory_request \<Rightarrow> (writer, unit) state" where
  "inventory_request_serialize x = do {
     write_u32 (irq_SessionId x);
     entry_serialize (irq_Item x);
     write_bool (irq_Drop x);
     write_bool (irq_UpdateClients x);
     write_bool (irq_NewPartyItem x);
     write_bool (irq_StoryGiven x);
     State_Monad.return ()
   }"

definition inventory_request_deserialize :: "(reader, inventory_request) state" where
  "inventory_request_deserialize = do {
     vSessionId \<leftarrow> read_u32;
     vItem \<leftarrow> entry_deserialize new_entry;
     vDrop \<leftarrow> read_bool;
     vUpdateClients \<leftarrow> read_bool;
     vNewPartyItem \<leftarrow> read_bool;
     vStoryGiven \<leftarrow> read_bool;
     State_Monad.return \<lparr>irq_SessionId = vSessionId, irq_Item = vItem, irq_Drop = vDrop,
       irq_UpdateClients = vUpdateClients, irq_NewPartyItem = vNewPartyItem,
       irq_StoryGiven = vStoryGiven\<rparr>
   }"

definition inventory_request_valid :: "inventory_request \<Rightarrow> bool" where
  "inventory_request_valid x \<longleftrightarrow> entry_valid (irq_Item x)"

lemma codes_inventory_request [codec_intros]:
  "inventory_request_valid x \<Longrightarrow> codes (inventory_request_serialize x) inventory_request_deserialize x"
  unfolding inventory_request_serialize_def inventory_request_deserialize_def inventory_request_valid_def
  by (rule codec_intros | simp)+

lemma safe_inventory_request [safe_intros]: "safe_reader inventory_request_deserialize"
  unfolding inventory_request_deserialize_def by (intro safe_intros)

interpretation inventory_request_wire: wire_codec inventory_request_serialize inventory_request_deserialize "inventory_request_valid"
  by unfold_locales (simp_all add: codes_inventory_request safe_inventory_request)


text \<open>\<open>NotifyInventoryChanges\<close>.\<close>

record inventory_change =
  nic_SessionId :: "u32"
  nic_Item :: "entry"
  nic_Drop :: "bool"

definition inventory_change_serialize :: "inventory_change \<Rightarrow> (writer, unit) state" where
  "inventory_change_serialize x = do {
     write_u32 (nic_SessionId x);
     entry_serialize (nic_Item x);
     write_bool (nic_Drop x);
     State_Monad.return ()
   }"

definition inventory_change_deserialize :: "(reader, inventory_change) state" where
  "inventory_change_deserialize = do {
     vSessionId \<leftarrow> read_u32;
     vItem \<leftarrow> entry_deserialize new_entry;
     vDrop \<leftarrow> read_bool;
     State_Monad.return \<lparr>nic_SessionId = vSessionId, nic_Item = vItem, nic_Drop = vDrop\<rparr>
   }"

definition inventory_change_valid :: "inventory_change \<Rightarrow> bool" where
  "inventory_change_valid x \<longleftrightarrow> entry_valid (nic_Item x)"

lemma codes_inventory_change [codec_intros]:
  "inventory_change_valid x \<Longrightarrow> codes (inventory_change_serialize x) inventory_change_deserialize x"
  unfolding inventory_change_serialize_def inventory_change_deserialize_def inventory_change_valid_def
  by (rule codec_intros | simp)+

lemma safe_inventory_change [safe_intros]: "safe_reader inventory_change_deserialize"
  unfolding inventory_change_deserialize_def by (intro safe_intros)

interpretation inventory_change_wire: wire_codec inventory_change_serialize inventory_change_deserialize "inventory_change_valid"
  by unfold_locales (simp_all add: codes_inventory_change safe_inventory_change)


text \<open>\<open>RequestEquipmentChanges\<close>.\<close>

record equipment_request =
  eq_SessionId :: "u32"
  eq_ItemId :: "game_id"
  eq_EquipSlotId :: "game_id"
  eq_Count :: "u32"
  eq_Unequip :: "bool"
  eq_IsSpell :: "bool"
  eq_IsShout :: "bool"
  eq_IsAmmo :: "bool"
  eq_CurrentInventory :: "inventory"

definition equipment_request_serialize :: "equipment_request \<Rightarrow> (writer, unit) state" where
  "equipment_request_serialize x = do {
     write_u32 (eq_SessionId x);
     game_id_serialize (eq_ItemId x);
     game_id_serialize (eq_EquipSlotId x);
     write_u32 (eq_Count x);
     write_bool (eq_Unequip x);
     write_bool (eq_IsSpell x);
     write_bool (eq_IsShout x);
     write_bool (eq_IsAmmo x);
     inventory_serialize (eq_CurrentInventory x);
     State_Monad.return ()
   }"

definition equipment_request_deserialize :: "(reader, equipment_request) state" where
  "equipment_request_deserialize = do {
     vSessionId \<leftarrow> read_u32;
     vItemId \<leftarrow> game_id_deserialize;
     vEquipSlotId \<leftarrow> game_id_deserialize;
     vCount \<leftarrow> read_u32;
     vUnequip \<leftarrow> read_bool;
     vIsSpell \<leftarrow> read_bool;
     vIsShout \<leftarrow> read_bool;
     vIsAmmo \<leftarrow> read_bool;
     vCurrentInventory \<leftarrow> inventory_deserialize no_inventory;
     State_Monad.return \<lparr>eq_SessionId = vSessionId, eq_ItemId = vItemId, eq_EquipSlotId = vEquipSlotId,
       eq_Count = vCount, eq_Unequip = vUnequip, eq_IsSpell = vIsSpell,
       eq_IsShout = vIsShout, eq_IsAmmo = vIsAmmo,
       eq_CurrentInventory = vCurrentInventory\<rparr>
   }"

definition equipment_request_valid :: "equipment_request \<Rightarrow> bool" where
  "equipment_request_valid x \<longleftrightarrow> inventory_valid (eq_CurrentInventory x)"

lemma codes_equipment_request [codec_intros]:
  "equipment_request_valid x \<Longrightarrow> codes (equipment_request_serialize x) equipment_request_deserialize x"
  unfolding equipment_request_serialize_def equipment_request_deserialize_def equipment_request_valid_def
  by (rule codec_intros | simp)+

lemma safe_equipment_request [safe_intros]: "safe_reader equipment_request_deserialize"
  unfolding equipment_request_deserialize_def by (intro safe_intros)

interpretation equipment_request_wire: wire_codec equipment_request_serialize equipment_request_deserialize "equipment_request_valid"
  by unfold_locales (simp_all add: codes_equipment_request safe_equipment_request)


text \<open>\<open>NotifyEquipmentChanges\<close>.\<close>

record equipment_change =
  nec_SessionId :: "u32"
  nec_ItemId :: "game_id"
  nec_EquipSlotId :: "game_id"
  nec_Count :: "u32"
  nec_Unequip :: "bool"
  nec_IsSpell :: "bool"
  nec_IsShout :: "bool"

definition equipment_change_serialize :: "equipment_change \<Rightarrow> (writer, unit) state" where
  "equipment_change_serialize x = do {
     write_u32 (nec_SessionId x);
     game_id_serialize (nec_ItemId x);
     game_id_serialize (nec_EquipSlotId x);
     write_u32 (nec_Count x);
     write_bool (nec_Unequip x);
     write_bool (nec_IsSpell x);
     write_bool (nec_IsShout x);
     State_Monad.return ()
   }"

definition equipment_change_deserialize :: "(reader, equipment_change) state" where
  "equipment_change_deserialize = do {
     vSessionId \<leftarrow> read_u32;
     vItemId \<leftarrow> game_id_deserialize;
     vEquipSlotId \<leftarrow> game_id_deserialize;
     vCount \<leftarrow> read_u32;
     vUnequip \<leftarrow> read_bool;
     vIsSpell \<leftarrow> read_bool;
     vIsShout \<leftarrow> read_bool;
     State_Monad.return \<lparr>nec_SessionId = vSessionId, nec_ItemId = vItemId, nec_EquipSlotId = vEquipSlotId,
       nec_Count = vCount, nec_Unequip = vUnequip, nec_IsSpell = vIsSpell,
       nec_IsShout = vIsShout\<rparr>
   }"

lemma codes_equipment_change [codec_intros]:
  "codes (equipment_change_serialize x) equipment_change_deserialize x"
  unfolding equipment_change_serialize_def equipment_change_deserialize_def
  by (rule codec_intros | simp)+

lemma safe_equipment_change [safe_intros]: "safe_reader equipment_change_deserialize"
  unfolding equipment_change_deserialize_def by (intro safe_intros)

interpretation equipment_change_wire: wire_codec equipment_change_serialize equipment_change_deserialize "\<lambda>_. True"
  by unfold_locales (simp_all add: codes_equipment_change safe_equipment_change)


text \<open>\<open>ContainerTransferRequest\<close>.\<close>

record container_transfer =
  ct_Container :: "game_id"
  ct_ContainerActorId :: "u32"
  ct_Item :: "entry"
  ct_Steal :: "bool"

definition container_transfer_serialize :: "container_transfer \<Rightarrow> (writer, unit) state" where
  "container_transfer_serialize x = do {
     game_id_serialize (ct_Container x);
     write_u32 (ct_ContainerActorId x);
     entry_serialize (ct_Item x);
     write_bool (ct_Steal x);
     State_Monad.return ()
   }"

definition container_transfer_deserialize :: "(reader, container_transfer) state" where
  "container_transfer_deserialize = do {
     vContainer \<leftarrow> game_id_deserialize;
     vContainerActorId \<leftarrow> read_u32;
     vItem \<leftarrow> entry_deserialize new_entry;
     vSteal \<leftarrow> read_bool;
     State_Monad.return \<lparr>ct_Container = vContainer, ct_ContainerActorId = vContainerActorId,
       ct_Item = vItem, ct_Steal = vSteal\<rparr>
   }"

definition container_transfer_valid :: "container_transfer \<Rightarrow> bool" where
  "container_transfer_valid x \<longleftrightarrow> entry_valid (ct_Item x)"

lemma codes_container_transfer [codec_intros]:
  "container_transfer_valid x \<Longrightarrow> codes (container_transfer_serialize x) container_transfer_deserialize x"
  unfolding container_transfer_serialize_def container_transfer_deserialize_def container_transfer_valid_def
  by (rule codec_intros | simp)+

lemma safe_container_transfer [safe_intros]: "safe_reader container_transfer_deserialize"
  unfolding container_transfer_deserialize_def by (intro safe_intros)

interpretation container_transfer_wire: wire_codec container_transfer_serialize container_transfer_deserialize "container_transfer_valid"
  by unfold_locales (simp_all add: codes_container_transfer safe_container_transfer)


text \<open>\<open>ContainerChangeRequest\<close>: with more stacks than \<open>kMaxStacks\<close> none are read.\<close>

definition max_stacks :: nat where "max_stacks = 0x1000"

record container_change =
  cc_Container :: game_id
  cc_Item :: game_id
  cc_Count :: u32
  cc_Stacks :: "entry list"

definition container_change_serialize :: "container_change \<Rightarrow> (writer, unit) state" where
  "container_change_serialize x = do {
     game_id_serialize (cc_Container x);
     game_id_serialize (cc_Item x);
     write_u32 (cc_Count x);
     write_list entry_serialize (cc_Stacks x);
     State_Monad.return ()
   }"

definition container_change_deserialize :: "(reader, container_change) state" where
  "container_change_deserialize = do {
     container \<leftarrow> game_id_deserialize;
     item \<leftarrow> game_id_deserialize;
     count \<leftarrow> read_u32;
     (let x = (\<lambda>stacks. \<lparr>cc_Container = container, cc_Item = item, cc_Count = count, cc_Stacks = stacks\<rparr>)
      in read_or_stop max_stacks (entry_deserialize new_entry) (x []) (\<lambda>stacks. State_Monad.return (x stacks)))
   }"

definition container_change_valid :: "container_change \<Rightarrow> bool" where
  "container_change_valid x \<longleftrightarrow> length (cc_Stacks x) \<le> max_stacks \<and> (\<forall>s \<in> set (cc_Stacks x). entry_valid s)"

lemma codes_container_change [codec_intros]:
  "container_change_valid x \<Longrightarrow> codes (container_change_serialize x) container_change_deserialize x"
  unfolding container_change_serialize_def container_change_deserialize_def container_change_valid_def Let_def
  by (rule codec_intros | simp | simp add: max_stacks_def)+

lemma safe_container_change [safe_intros]: "safe_reader container_change_deserialize"
  unfolding container_change_deserialize_def Let_def by (intro safe_intros)

interpretation container_change_wire: wire_codec container_change_serialize container_change_deserialize container_change_valid
  by unfold_locales (simp_all add: codes_container_change safe_container_change)

text \<open>\<open>ActivateRequest\<close>.\<close>

record activate_request =
  atq_Id :: "game_id"
  atq_NpcId :: "u32"
  atq_CellId :: "game_id"
  atq_ActivatorId :: "u32"
  atq_PreActivationOpenState :: "u8"

definition activate_request_serialize :: "activate_request \<Rightarrow> (writer, unit) state" where
  "activate_request_serialize x = do {
     game_id_serialize (atq_Id x);
     game_id_serialize (atq_CellId x);
     write_u32 (atq_ActivatorId x);
     write_byte (atq_PreActivationOpenState x);
     write_u32 (atq_NpcId x);
     State_Monad.return ()
   }"

definition activate_request_deserialize :: "(reader, activate_request) state" where
  "activate_request_deserialize = do {
     vId \<leftarrow> game_id_deserialize;
     vCellId \<leftarrow> game_id_deserialize;
     vActivatorId \<leftarrow> read_u32;
     vPreActivationOpenState \<leftarrow> read_byte;
     vNpcId \<leftarrow> read_u32;
     State_Monad.return \<lparr>atq_Id = vId, atq_NpcId = vNpcId, atq_CellId = vCellId,
       atq_ActivatorId = vActivatorId,
       atq_PreActivationOpenState = vPreActivationOpenState\<rparr>
   }"

lemma codes_activate_request [codec_intros]:
  "codes (activate_request_serialize x) activate_request_deserialize x"
  unfolding activate_request_serialize_def activate_request_deserialize_def
  by (rule codec_intros | simp)+

lemma safe_activate_request [safe_intros]: "safe_reader activate_request_deserialize"
  unfolding activate_request_deserialize_def by (intro safe_intros)

interpretation activate_request_wire: wire_codec activate_request_serialize activate_request_deserialize "\<lambda>_. True"
  by unfold_locales (simp_all add: codes_activate_request safe_activate_request)


text \<open>\<open>NotifyActivate\<close>.\<close>

record activate =
  na_Id :: "game_id"
  na_NpcId :: "u32"
  na_ActivatorId :: "u32"
  na_PreActivationOpenState :: "u8"

definition activate_serialize :: "activate \<Rightarrow> (writer, unit) state" where
  "activate_serialize x = do {
     game_id_serialize (na_Id x);
     write_u32 (na_ActivatorId x);
     write_byte (na_PreActivationOpenState x);
     write_u32 (na_NpcId x);
     State_Monad.return ()
   }"

definition activate_deserialize :: "(reader, activate) state" where
  "activate_deserialize = do {
     vId \<leftarrow> game_id_deserialize;
     vActivatorId \<leftarrow> read_u32;
     vPreActivationOpenState \<leftarrow> read_byte;
     vNpcId \<leftarrow> read_u32;
     State_Monad.return \<lparr>na_Id = vId, na_NpcId = vNpcId, na_ActivatorId = vActivatorId,
       na_PreActivationOpenState = vPreActivationOpenState\<rparr>
   }"

lemma codes_activate [codec_intros]:
  "codes (activate_serialize x) activate_deserialize x"
  unfolding activate_serialize_def activate_deserialize_def
  by (rule codec_intros | simp)+

lemma safe_activate [safe_intros]: "safe_reader activate_deserialize"
  unfolding activate_deserialize_def by (intro safe_intros)

interpretation activate_wire: wire_codec activate_serialize activate_deserialize "\<lambda>_. True"
  by unfold_locales (simp_all add: codes_activate safe_activate)


text \<open>\<open>LockChangeRequest\<close>.\<close>

record lock_change =
  lc_Id :: "game_id"
  lc_CellId :: "game_id"
  lc_IsLocked :: "bool"
  lc_LockLevel :: "u8"

definition lock_change_serialize :: "lock_change \<Rightarrow> (writer, unit) state" where
  "lock_change_serialize x = do {
     game_id_serialize (lc_Id x);
     game_id_serialize (lc_CellId x);
     write_bool (lc_IsLocked x);
     write_byte (lc_LockLevel x);
     State_Monad.return ()
   }"

definition lock_change_deserialize :: "(reader, lock_change) state" where
  "lock_change_deserialize = do {
     vId \<leftarrow> game_id_deserialize;
     vCellId \<leftarrow> game_id_deserialize;
     vIsLocked \<leftarrow> read_bool;
     vLockLevel \<leftarrow> read_byte;
     State_Monad.return \<lparr>lc_Id = vId, lc_CellId = vCellId, lc_IsLocked = vIsLocked,
       lc_LockLevel = vLockLevel\<rparr>
   }"

lemma codes_lock_change [codec_intros]:
  "codes (lock_change_serialize x) lock_change_deserialize x"
  unfolding lock_change_serialize_def lock_change_deserialize_def
  by (rule codec_intros | simp)+

lemma safe_lock_change [safe_intros]: "safe_reader lock_change_deserialize"
  unfolding lock_change_deserialize_def by (intro safe_intros)

interpretation lock_change_wire: wire_codec lock_change_serialize lock_change_deserialize "\<lambda>_. True"
  by unfold_locales (simp_all add: codes_lock_change safe_lock_change)


section \<open>Chat, map, time and weather\<close>

text \<open>\<open>SendChatMessageRequest\<close>.\<close>

record chat_request =
  chq_ChatMessage :: "string"

definition chat_request_serialize :: "chat_request \<Rightarrow> (writer, unit) state" where
  "chat_request_serialize x = do {
     write_string (chq_ChatMessage x);
     State_Monad.return ()
   }"

definition chat_request_deserialize :: "(reader, chat_request) state" where
  "chat_request_deserialize = do {
     vChatMessage \<leftarrow> read_string;
     State_Monad.return \<lparr>chq_ChatMessage = vChatMessage\<rparr>
   }"

definition chat_request_valid :: "chat_request \<Rightarrow> bool" where
  "chat_request_valid x \<longleftrightarrow> length (chq_ChatMessage x) < 65536"

lemma codes_chat_request [codec_intros]:
  "chat_request_valid x \<Longrightarrow> codes (chat_request_serialize x) chat_request_deserialize x"
  unfolding chat_request_serialize_def chat_request_deserialize_def chat_request_valid_def
  by (rule codec_intros | simp)+

lemma safe_chat_request [safe_intros]: "safe_reader chat_request_deserialize"
  unfolding chat_request_deserialize_def by (intro safe_intros)

interpretation chat_request_wire: wire_codec chat_request_serialize chat_request_deserialize "chat_request_valid"
  by unfold_locales (simp_all add: codes_chat_request safe_chat_request)


text \<open>\<open>NotifyChatMessageBroadcast\<close>.\<close>

record chat =
  ch_MessageType :: "u8"
  ch_PlayerName :: "string"
  ch_ChatMessage :: "string"

definition chat_serialize :: "chat \<Rightarrow> (writer, unit) state" where
  "chat_serialize x = do {
     write_u8 (ch_MessageType x);
     write_string (ch_PlayerName x);
     write_string (ch_ChatMessage x);
     State_Monad.return ()
   }"

definition chat_deserialize :: "(reader, chat) state" where
  "chat_deserialize = do {
     vMessageType \<leftarrow> read_u8;
     vPlayerName \<leftarrow> read_string;
     vChatMessage \<leftarrow> read_string;
     State_Monad.return \<lparr>ch_MessageType = vMessageType, ch_PlayerName = vPlayerName,
       ch_ChatMessage = vChatMessage\<rparr>
   }"

definition chat_valid :: "chat \<Rightarrow> bool" where
  "chat_valid x \<longleftrightarrow> length (ch_PlayerName x) < 65536 \<and>
     length (ch_ChatMessage x) < 65536"

lemma codes_chat [codec_intros]:
  "chat_valid x \<Longrightarrow> codes (chat_serialize x) chat_deserialize x"
  unfolding chat_serialize_def chat_deserialize_def chat_valid_def
  by (rule codec_intros | simp)+

lemma safe_chat [safe_intros]: "safe_reader chat_deserialize"
  unfolding chat_deserialize_def by (intro safe_intros)

interpretation chat_wire: wire_codec chat_serialize chat_deserialize "chat_valid"
  by unfold_locales (simp_all add: codes_chat safe_chat)


text \<open>\<open>RequestSetWaypoint\<close>.\<close>

record set_waypoint_request =
  swq_Position :: "vec3"
  swq_WorldSpaceFormID :: "game_id"

definition set_waypoint_request_serialize :: "set_waypoint_request \<Rightarrow> (writer, unit) state" where
  "set_waypoint_request_serialize x = do {
     vec3_serialize (swq_Position x);
     game_id_serialize (swq_WorldSpaceFormID x);
     State_Monad.return ()
   }"

definition set_waypoint_request_deserialize :: "(reader, set_waypoint_request) state" where
  "set_waypoint_request_deserialize = do {
     vPosition \<leftarrow> vec3_deserialize;
     vWorldSpaceFormID \<leftarrow> game_id_deserialize;
     State_Monad.return \<lparr>swq_Position = vPosition, swq_WorldSpaceFormID = vWorldSpaceFormID\<rparr>
   }"

definition set_waypoint_request_valid :: "set_waypoint_request \<Rightarrow> bool" where
  "set_waypoint_request_valid x \<longleftrightarrow> vec3_valid (swq_Position x)"

lemma codes_set_waypoint_request [codec_intros]:
  "set_waypoint_request_valid x \<Longrightarrow> codes (set_waypoint_request_serialize x) set_waypoint_request_deserialize x"
  unfolding set_waypoint_request_serialize_def set_waypoint_request_deserialize_def set_waypoint_request_valid_def
  by (rule codec_intros | simp)+

lemma safe_set_waypoint_request [safe_intros]: "safe_reader set_waypoint_request_deserialize"
  unfolding set_waypoint_request_deserialize_def by (intro safe_intros)

interpretation set_waypoint_request_wire: wire_codec set_waypoint_request_serialize set_waypoint_request_deserialize "set_waypoint_request_valid"
  by unfold_locales (simp_all add: codes_set_waypoint_request safe_set_waypoint_request)


text \<open>\<open>NotifySetWaypoint\<close>.\<close>

record set_waypoint =
  sw_Position :: "vec3"
  sw_WorldSpaceFormID :: "game_id"

definition set_waypoint_serialize :: "set_waypoint \<Rightarrow> (writer, unit) state" where
  "set_waypoint_serialize x = do {
     vec3_serialize (sw_Position x);
     game_id_serialize (sw_WorldSpaceFormID x);
     State_Monad.return ()
   }"

definition set_waypoint_deserialize :: "(reader, set_waypoint) state" where
  "set_waypoint_deserialize = do {
     vPosition \<leftarrow> vec3_deserialize;
     vWorldSpaceFormID \<leftarrow> game_id_deserialize;
     State_Monad.return \<lparr>sw_Position = vPosition, sw_WorldSpaceFormID = vWorldSpaceFormID\<rparr>
   }"

definition set_waypoint_valid :: "set_waypoint \<Rightarrow> bool" where
  "set_waypoint_valid x \<longleftrightarrow> vec3_valid (sw_Position x)"

lemma codes_set_waypoint [codec_intros]:
  "set_waypoint_valid x \<Longrightarrow> codes (set_waypoint_serialize x) set_waypoint_deserialize x"
  unfolding set_waypoint_serialize_def set_waypoint_deserialize_def set_waypoint_valid_def
  by (rule codec_intros | simp)+

lemma safe_set_waypoint [safe_intros]: "safe_reader set_waypoint_deserialize"
  unfolding set_waypoint_deserialize_def by (intro safe_intros)

interpretation set_waypoint_wire: wire_codec set_waypoint_serialize set_waypoint_deserialize "set_waypoint_valid"
  by unfold_locales (simp_all add: codes_set_waypoint safe_set_waypoint)


text \<open>\<open>SetTimeCommandRequest\<close>.\<close>

record set_time_request =
  stq_Hours :: "u8"
  stq_Minutes :: "u8"
  stq_PlayerId :: "u32"

definition set_time_request_serialize :: "set_time_request \<Rightarrow> (writer, unit) state" where
  "set_time_request_serialize x = do {
     write_byte (stq_Hours x);
     write_byte (stq_Minutes x);
     write_word (stq_PlayerId x);
     State_Monad.return ()
   }"

definition set_time_request_deserialize :: "(reader, set_time_request) state" where
  "set_time_request_deserialize = do {
     vHours \<leftarrow> read_byte;
     vMinutes \<leftarrow> read_byte;
     vPlayerId \<leftarrow> read_word;
     State_Monad.return \<lparr>stq_Hours = vHours, stq_Minutes = vMinutes, stq_PlayerId = vPlayerId\<rparr>
   }"

lemma codes_set_time_request [codec_intros]:
  "codes (set_time_request_serialize x) set_time_request_deserialize x"
  unfolding set_time_request_serialize_def set_time_request_deserialize_def
  by (rule codec_intros | simp)+

lemma safe_set_time_request [safe_intros]: "safe_reader set_time_request_deserialize"
  unfolding set_time_request_deserialize_def by (intro safe_intros)

interpretation set_time_request_wire: wire_codec set_time_request_serialize set_time_request_deserialize "\<lambda>_. True"
  by unfold_locales (simp_all add: codes_set_time_request safe_set_time_request)


text \<open>\<open>TimeScaleRequest\<close>.\<close>

record time_scale_request =
  tsq_Multiplier :: "float32"

definition time_scale_request_serialize :: "time_scale_request \<Rightarrow> (writer, unit) state" where
  "time_scale_request_serialize x = do {
     write_float (tsq_Multiplier x);
     State_Monad.return ()
   }"

definition time_scale_request_deserialize :: "(reader, time_scale_request) state" where
  "time_scale_request_deserialize = do {
     vMultiplier \<leftarrow> read_float;
     State_Monad.return \<lparr>tsq_Multiplier = vMultiplier\<rparr>
   }"

lemma codes_time_scale_request [codec_intros]:
  "codes (time_scale_request_serialize x) time_scale_request_deserialize x"
  unfolding time_scale_request_serialize_def time_scale_request_deserialize_def
  by (rule codec_intros | simp)+

lemma safe_time_scale_request [safe_intros]: "safe_reader time_scale_request_deserialize"
  unfolding time_scale_request_deserialize_def by (intro safe_intros)

interpretation time_scale_request_wire: wire_codec time_scale_request_serialize time_scale_request_deserialize "\<lambda>_. True"
  by unfold_locales (simp_all add: codes_time_scale_request safe_time_scale_request)


text \<open>\<open>NotifyTimeScale\<close>.\<close>

record time_scale_message =
  ts_Multiplier :: "float32"

definition time_scale_message_serialize :: "time_scale_message \<Rightarrow> (writer, unit) state" where
  "time_scale_message_serialize x = do {
     write_float (ts_Multiplier x);
     State_Monad.return ()
   }"

definition time_scale_message_deserialize :: "(reader, time_scale_message) state" where
  "time_scale_message_deserialize = do {
     vMultiplier \<leftarrow> read_float;
     State_Monad.return \<lparr>ts_Multiplier = vMultiplier\<rparr>
   }"

lemma codes_time_scale_message [codec_intros]:
  "codes (time_scale_message_serialize x) time_scale_message_deserialize x"
  unfolding time_scale_message_serialize_def time_scale_message_deserialize_def
  by (rule codec_intros | simp)+

lemma safe_time_scale_message [safe_intros]: "safe_reader time_scale_message_deserialize"
  unfolding time_scale_message_deserialize_def by (intro safe_intros)

interpretation time_scale_message_wire: wire_codec time_scale_message_serialize time_scale_message_deserialize "\<lambda>_. True"
  by unfold_locales (simp_all add: codes_time_scale_message safe_time_scale_message)


text \<open>\<open>NotifyTimeSettings\<close>.\<close>

record time_settings =
  nts_timeModel :: "time_model"

definition time_settings_serialize :: "time_settings \<Rightarrow> (writer, unit) state" where
  "time_settings_serialize x = do {
     time_model_serialize (nts_timeModel x);
     State_Monad.return ()
   }"

definition time_settings_deserialize :: "(reader, time_settings) state" where
  "time_settings_deserialize = do {
     vtimeModel \<leftarrow> time_model_deserialize;
     State_Monad.return \<lparr>nts_timeModel = vtimeModel\<rparr>
   }"

lemma codes_time_settings [codec_intros]:
  "codes (time_settings_serialize x) time_settings_deserialize x"
  unfolding time_settings_serialize_def time_settings_deserialize_def
  by (rule codec_intros | simp)+

lemma safe_time_settings [safe_intros]: "safe_reader time_settings_deserialize"
  unfolding time_settings_deserialize_def by (intro safe_intros)

interpretation time_settings_wire: wire_codec time_settings_serialize time_settings_deserialize "\<lambda>_. True"
  by unfold_locales (simp_all add: codes_time_settings safe_time_settings)


text \<open>\<open>NotifyWeatherChange\<close>.\<close>

record weather_change =
  wc_Id :: "game_id"

definition weather_change_serialize :: "weather_change \<Rightarrow> (writer, unit) state" where
  "weather_change_serialize x = do {
     game_id_serialize (wc_Id x);
     State_Monad.return ()
   }"

definition weather_change_deserialize :: "(reader, weather_change) state" where
  "weather_change_deserialize = do {
     vId \<leftarrow> game_id_deserialize;
     State_Monad.return \<lparr>wc_Id = vId\<rparr>
   }"

lemma codes_weather_change [codec_intros]:
  "codes (weather_change_serialize x) weather_change_deserialize x"
  unfolding weather_change_serialize_def weather_change_deserialize_def
  by (rule codec_intros | simp)+

lemma safe_weather_change [safe_intros]: "safe_reader weather_change_deserialize"
  unfolding weather_change_deserialize_def by (intro safe_intros)

interpretation weather_change_wire: wire_codec weather_change_serialize weather_change_deserialize "\<lambda>_. True"
  by unfold_locales (simp_all add: codes_weather_change safe_weather_change)


end
