(* ===== verification/Movement_Messages.thy ===== *)
theory Movement_Messages
  imports Session_Messages
begin

text \<open>
  Movement: what an owner's game says of its actors each snapshot (\<open>Structs/Movement\<close>,
  \<open>Structs/ReferenceUpdate\<close>), and the messages that carry it (\<open>ReferencesMoveRequest\<close>,
  \<open>NotifyReferencesMove\<close>, one format).
\<close>

record movement =
  mv_CellId :: "game_id"
  mv_WorldSpaceId :: "game_id"
  mv_Position :: "vec3"
  mv_Rotation :: "rotator"
  mv_Variables :: "anim"
  mv_Direction :: "float32"
  mv_Teleported :: "bool"
  mv_Lying :: "bool"
  mv_Knocked :: "bool"
  mv_OnGround :: "bool"
  mv_CapsuleCollides :: "bool"

definition movement_serialize :: "movement \<Rightarrow> (writer, unit) state" where
  "movement_serialize x = do {
     game_id_serialize (mv_CellId x);
     game_id_serialize (mv_WorldSpaceId x);
     vec3_serialize (mv_Position x);
     rotator_serialize (mv_Rotation x);
     anim_generate new_anim (mv_Variables x);
     write_word (mv_Direction x);
     write_bool (mv_Teleported x);
     write_bool (mv_Lying x);
     write_bool (mv_Knocked x);
     write_bool (mv_OnGround x);
     write_bool (mv_CapsuleCollides x);
     State_Monad.return ()
   }"

definition movement_deserialize :: "(reader, movement) state" where
  "movement_deserialize = do {
     vCellId \<leftarrow> game_id_deserialize;
     vWorldSpaceId \<leftarrow> game_id_deserialize;
     vPosition \<leftarrow> vec3_deserialize;
     vRotation \<leftarrow> rotator_deserialize;
     vVariables \<leftarrow> anim_apply new_anim;
     vDirection \<leftarrow> read_word;
     vTeleported \<leftarrow> read_bool;
     vLying \<leftarrow> read_bool;
     vKnocked \<leftarrow> read_bool;
     vOnGround \<leftarrow> read_bool;
     vCapsuleCollides \<leftarrow> read_bool;
     State_Monad.return \<lparr>mv_CellId = vCellId, mv_WorldSpaceId = vWorldSpaceId, mv_Position = vPosition,
       mv_Rotation = vRotation, mv_Variables = vVariables, mv_Direction = vDirection,
       mv_Teleported = vTeleported, mv_Lying = vLying, mv_Knocked = vKnocked,
       mv_OnGround = vOnGround, mv_CapsuleCollides = vCapsuleCollides\<rparr>
   }"

definition movement_valid :: "movement \<Rightarrow> bool" where
  "movement_valid x \<longleftrightarrow> vec3_valid (mv_Position x) \<and>
     rotator_valid (mv_Rotation x) \<and>
     anim_valid (mv_Variables x)"

lemma codes_movement [codec_intros]:
  "movement_valid x \<Longrightarrow> codes (movement_serialize x) movement_deserialize x"
  unfolding movement_serialize_def movement_deserialize_def movement_valid_def
  by (rule codec_intros | simp)+

lemma safe_movement [safe_intros]: "safe_reader movement_deserialize"
  unfolding movement_deserialize_def by (intro safe_intros)

interpretation movement_wire: wire_codec movement_serialize movement_deserialize "movement_valid"
  by unfold_locales (simp_all add: codes_movement safe_movement)


section \<open>A reference's update\<close>

record reference_update =
  ru_UpdatedMovement :: movement
  ru_ActionEvents :: "action_event list"

definition reference_update_serialize :: "reference_update \<Rightarrow> (writer, unit) state" where
  "reference_update_serialize x = do {
     movement_serialize (ru_UpdatedMovement x);
     write_list (action_generate new_action) (ru_ActionEvents x);
     State_Monad.return ()
   }"

text \<open>
  The actions are resized (a count no memory holds ends the program) and each read over the one that was there,
  \<open>old\<close>: \<open>ReferenceUpdate{}\<close>'s none unless a message names a reference twice.
\<close>

definition resized_actions :: "nat \<Rightarrow> action_event list \<Rightarrow> action_event list" where
  "resized_actions n old = take n old @ replicate (n - length old) new_action"

fun read_actions :: "action_event list \<Rightarrow> (reader, action_event list) state" where
  "read_actions [] = State_Monad.return []"
| "read_actions (a # as) = do {
     x \<leftarrow> action_apply a;
     xs \<leftarrow> read_actions as;
     State_Monad.return (x # xs)
   }"

definition reference_update_deserialize :: "action_event list \<Rightarrow> (reader, reference_update) state" where
  "reference_update_deserialize old = do {
     mv \<leftarrow> movement_deserialize;
     n \<leftarrow> read_varint;
     actions \<leftarrow> read_actions (resized_actions (unat n) old);
     State_Monad.return \<lparr>ru_UpdatedMovement = mv, ru_ActionEvents = actions\<rparr>
   }"

definition reference_update_valid :: "reference_update \<Rightarrow> bool" where
  "reference_update_valid x \<longleftrightarrow> movement_valid (ru_UpdatedMovement x) \<and> length (ru_ActionEvents x) < 2 ^ 64 \<and>
     (\<forall>a \<in> set (ru_ActionEvents x). action_valid a \<and> ae_ActorId a = 0)"

lemma codes_actions:
  "\<forall>a \<in> set as. action_valid a \<and> ae_ActorId a = 0 \<Longrightarrow>
   codes (write_each (action_generate new_action) as) (read_actions (replicate (length as) new_action)) as"
proof (induction as)
  case Nil
  then show ?case by (auto intro: codes_return)
next
  case (Cons a as)
  then have a: "codes (action_generate new_action a) (action_apply new_action) a"
    by (auto intro: codes_action_new)
  have "codes (write_each (action_generate new_action) as)
      (do { xs \<leftarrow> read_actions (replicate (length as) new_action); State_Monad.return (a # xs) }) (a # as)"
    by (rule codes_last [OF Cons.IH]) (use Cons.prems in auto)
  then show ?case
    unfolding write_each.simps length_Cons replicate_Suc read_actions.simps
    by (intro codes_bind [OF a])
qed

lemma codes_reference_update [codec_intros]:
  assumes "reference_update_valid x"
  shows "codes (reference_update_serialize x) (reference_update_deserialize []) x"
proof -
  have n: "unat (of_nat (length (ru_ActionEvents x)) :: u64) = length (ru_ActionEvents x)"
    using assms unat_count by (auto simp: reference_update_valid_def)
  have mv: "codes (movement_serialize (ru_UpdatedMovement x)) movement_deserialize (ru_UpdatedMovement x)"
    using assms by (auto simp: reference_update_valid_def intro: codes_movement)
  have actions: "codes (write_each (action_generate new_action) (ru_ActionEvents x))
      (read_actions (resized_actions (unat (of_nat (length (ru_ActionEvents x)) :: u64)) [])) (ru_ActionEvents x)"
    using assms codes_actions [of "ru_ActionEvents x"] by (simp add: reference_update_valid_def n resized_actions_def)
  show ?thesis
    unfolding reference_update_serialize_def reference_update_deserialize_def write_list_def bind_assoc
    by (rule codes_bind [OF mv] codes_bind [OF codes_varint] codes_bind [OF actions])+ (simp add: codes_return)
qed

lemma safe_actions [safe_intros]: "safe_reader (read_actions as)"
  by (induction as) (auto intro: safe_intros)

lemma safe_reference_update [safe_intros]: "safe_reader (reference_update_deserialize old)"
  unfolding reference_update_deserialize_def by (intro safe_intros)

section \<open>A snapshot\<close>

record moves =
  rm_Tick :: u64
  rm_Updates :: "(u32 \<times> reference_update) list"

definition update_serialize :: "u32 \<times> reference_update \<Rightarrow> (writer, unit) state" where
  "update_serialize u = do {
     write_u32 (fst u);
     reference_update_serialize (snd u);
     State_Monad.return ()
   }"

definition moves_serialize :: "moves \<Rightarrow> (writer, unit) state" where
  "moves_serialize x = do {
     write_varint (rm_Tick x);
     write_list update_serialize (rm_Updates x);
     State_Monad.return ()
   }"

text \<open>
  The reading loop counts in 32 bits (\<open>auto i = 0u\<close>) up to a count of 64 bits the sender chose: it may not
  end, so it is a partial function.
\<close>

definition known_actions :: "u32 \<Rightarrow> (u32 \<times> reference_update) list \<Rightarrow> action_event list" where
  "known_actions i m = (case map_of m i of None \<Rightarrow> [] | Some u \<Rightarrow> ru_ActionEvents u)"

definition read_update :: "(u32 \<times> reference_update) list \<Rightarrow> (reader, (u32 \<times> reference_update) list) state" where
  "read_update m = do {
     i \<leftarrow> read_u32;
     u \<leftarrow> reference_update_deserialize (known_actions i m);
     State_Monad.return (map_put i u m)
   }"

partial_function (option) read_updates ::
    "u32 \<Rightarrow> u64 \<Rightarrow> (u32 \<times> reference_update) list \<Rightarrow> reader \<Rightarrow> ((u32 \<times> reference_update) list \<times> reader) option" where
  "read_updates i n m r =
     (if ucast i < n
      then let (m', r') = run_state (read_update m) r in read_updates (i + 1) n m' r'
      else Some (m, r))"

definition moves_deserialize :: "reader \<Rightarrow> (moves \<times> reader) option" where
  "moves_deserialize r =
     (let (tick, r1) = run_state read_varint r; (n, r2) = run_state read_varint r1
      in map_option (\<lambda>(m, r). (\<lparr>rm_Tick = tick, rm_Updates = m\<rparr>, r)) (read_updates 0 n [] r2))"

definition moves_valid :: "moves \<Rightarrow> bool" where
  "moves_valid x \<longleftrightarrow> ordered (rm_Updates x) \<and> length (rm_Updates x) < 2 ^ 32 \<and>
     (\<forall>u \<in> set (rm_Updates x). reference_update_valid (snd u))"

text \<open>\<open>MustArrive\<close>: actions and teleports are not followed by a snapshot that says them again.\<close>

definition must_arrive :: "(u32 \<times> reference_update) list \<Rightarrow> bool" where
  "must_arrive us \<longleftrightarrow> (\<exists>u \<in> set us. ru_ActionEvents (snd u) \<noteq> [] \<or> mv_Teleported (ru_UpdatedMovement (snd u)))"

lemma read_updates_stuck:
  assumes "read_updates i n m r = Some y"
  shows "n \<le> 0xFFFFFFFF"
proof (rule read_updates.raw_induct [OF _ assms])
  fix go :: "u32 \<Rightarrow> u64 \<Rightarrow> (u32 \<times> reference_update) list \<Rightarrow> reader \<Rightarrow> ((u32 \<times> reference_update) list \<times> reader) option"
    and i n m r y
  assume IH: "\<And>i n m r y. go i n m r = Some y \<Longrightarrow> n \<le> 0xFFFFFFFF"
    and step: "(if ucast i < n then let (m', r') = run_state (read_update m) r in go (i + 1) n m' r' else Some (m, r)) = Some y"
  show "n \<le> 0xFFFFFFFF"
  proof (cases "ucast i < n")
    case True
    then show ?thesis
      using step IH by (auto simp: Let_def split_beta)
  next
    case False
    have "unat i < 2 ^ LENGTH(32)"
      by (rule unsigned_less)
    then have "unat (ucast i :: u64) \<le> 0xFFFFFFFF"
      by (simp add: unat_ucast_up)
    then show ?thesis
      using False by (simp add: word_le_nat_alt word_less_nat_alt)
  qed
qed

text \<open>The loop as it runs when it ends: \<open>n\<close> updates, one after another.\<close>

fun read_times_put :: "nat \<Rightarrow> (u32 \<times> reference_update) list \<Rightarrow> (reader, (u32 \<times> reference_update) list) state" where
  "read_times_put 0 m = State_Monad.return m"
| "read_times_put (Suc n) m = do { m' \<leftarrow> read_update m; read_times_put n m' }"

lemma read_updates_ends:
  assumes "unat n < 2 ^ 32"
  shows "unat i + k = unat n \<Longrightarrow> read_updates i n m r = Some (run_state (read_times_put k m) r)"
proof (induction k arbitrary: i m r)
  case 0
  then show ?case
    by (simp add: read_updates.simps [of i] word_less_nat_alt unat_ucast_up)
next
  case (Suc k)
  have "unat (i + 1) + k = unat n"
    using assms Suc.prems unsigned_less [of i] by (simp add: unat_word_ariths)
  moreover have "(ucast i :: u64) < n"
    using Suc.prems by (simp add: word_less_nat_alt unat_ucast_up)
  ultimately show ?case
    using Suc.IH by (simp add: read_updates.simps [of i] Let_def split_beta)
qed

text \<open>
  C30: reading a movement message ends exactly when the count in it fits 32 bits. With a larger one,
  which ten bytes from any guest can carry, the loop's counter wraps before it and the host's game never leaves it.
\<close>

theorem movement_read_ends:
  "moves_deserialize r = None \<longleftrightarrow> fst (run_state read_varint (snd (run_state read_varint r))) > 0xFFFFFFFF"
proof -
  obtain tick r1 n r2 where run: "run_state read_varint r = (tick, r1)" "run_state read_varint r1 = (n, r2)"
    by (metis surj_pair)
  have "read_updates 0 n [] r2 \<noteq> None" if "n \<le> 0xFFFFFFFF"
    using read_updates_ends [of n 0 "unat n" "[]" r2] that by (simp add: word_le_nat_alt)
  moreover have "read_updates 0 n [] r2 = None" if "n > 0xFFFFFFFF"
    using read_updates_stuck [of 0 n "[]" r2] that by (cases "read_updates 0 n [] r2") auto
  ultimately show ?thesis
    unfolding moves_deserialize_def using run by (cases "n \<le> 0xFFFFFFFF") auto
qed

lemma codes_update:
  assumes "reference_update_valid (snd u)" and "ordered (m @ [u])"
  shows "codes (update_serialize u) (read_update m) (m @ [u])"
proof -
  have new: "map_of m (fst u) = None" "map_put (fst u) (snd u) m = m @ [u]"
    using assms(2) not_in_smaller [of m "fst u"] put_last [of m "fst u" "snd u"]
    by (auto simp: ordered_def sorted_wrt_append)
  have known: "known_actions (fst u) m = []"
    using new by (simp add: known_actions_def)
  show ?thesis
    unfolding update_serialize_def read_update_def
    by (rule codes_bind [OF codes_u32], unfold known, rule codes_bind [OF codes_reference_update [OF assms(1)]])
      (simp add: codes_return new)
qed

lemma codes_updates:
  "ordered (m @ us) \<Longrightarrow> \<forall>u \<in> set us. reference_update_valid (snd u) \<Longrightarrow>
   codes (write_each update_serialize us) (read_times_put (length us) m) (m @ us)"
proof (induction us arbitrary: m)
  case Nil
  then show ?case by (simp add: codes_return)
next
  case (Cons u us)
  have "ordered (m @ [u])"
    using Cons.prems(1) by (auto simp: ordered_def sorted_wrt_append)
  then have u: "codes (update_serialize u) (read_update m) (m @ [u])"
    using Cons.prems(2) by (intro codes_update) auto
  have us: "codes (write_each update_serialize us) (read_times_put (length us) (m @ [u])) (m @ u # us)"
    using Cons.IH [of "m @ [u]"] Cons.prems by simp
  show ?case
    unfolding write_each.simps length_Cons read_times_put.simps by (intro codes_bind [where a = "m @ [u]"] u us)
qed

text \<open>
  A snapshot of up to \<open>2 ^ 32 - 1\<close> references, each with what its game says of it, is read as it
  was written, whatever follows it, and reading ends there.
\<close>

theorem movement_arrives:
  assumes "moves_valid x"
  shows "\<exists>r. moves_deserialize (new_reader (encode (moves_serialize x) @ rest)) = Some (x, r)"
proof -
  let ?us = "rm_Updates x"
  have len: "unat (of_nat (length ?us) :: u64) = length ?us"
    using assms by (intro unat_count) (simp add: moves_valid_def)
  have each: "codes (write_each update_serialize ?us) (read_times_put (length ?us) []) ?us"
    using codes_updates [of "[]" ?us] assms by (simp add: moves_valid_def)
  have "codes (moves_serialize x)
      (do { tick \<leftarrow> read_varint; n \<leftarrow> read_varint; m \<leftarrow> read_times_put (unat n) []; State_Monad.return (tick, n, m) })
      (rm_Tick x, of_nat (length ?us), ?us)"
    unfolding moves_serialize_def write_list_def bind_assoc
    by (rule codes_bind [OF codes_varint])+ (simp add: len codes_last [OF each] codes_unit)
  from decode_encode_codes [OF this, of rest] obtain r1 r2 m r3
    where run: "run_state read_varint (new_reader (encode (moves_serialize x) @ rest)) = (rm_Tick x, r1)"
      "run_state read_varint r1 = (of_nat (length ?us), r2)"
      "run_state (read_times_put (length ?us) []) r2 = (?us, r3)"
    by (auto simp: decode_def len split: prod.splits)
  have "read_updates 0 (of_nat (length ?us)) [] r2 = Some (?us, r3)"
    using read_updates_ends [of "of_nat (length ?us)" 0 "length ?us" "[]" r2] assms run(3)
    by (simp add: len moves_valid_def)
  then show ?thesis
    using run(1,2) by (simp add: moves_deserialize_def)
qed

text \<open>Two references, one with an action.\<close>

lemma movement_arrives_witness:
  "let mv = \<lparr>mv_CellId = \<lparr>gid_BaseId = 7, gid_ModId = 0\<rparr>, mv_WorldSpaceId = no_id, mv_Position = vec3_unpack 0,
         mv_Rotation = \<lparr>ro_x = 0, ro_y = 0\<rparr>, mv_Variables = new_anim, mv_Direction = 0, mv_Teleported = False,
         mv_Lying = False, mv_Knocked = False, mv_OnGround = True, mv_CapsuleCollides = True\<rparr>;
       x = \<lparr>rm_Tick = 1234, rm_Updates = [(3, \<lparr>ru_UpdatedMovement = mv, ru_ActionEvents = [new_action\<lparr>ae_ActionId := 5\<rparr>]\<rparr>),
         (8, \<lparr>ru_UpdatedMovement = mv\<lparr>mv_Lying := True\<rparr>, ru_ActionEvents = []\<rparr>)]\<rparr>
   in \<exists>r. moves_deserialize (new_reader (encode (moves_serialize x))) = Some (x, r)"
proof -
  have v: "vec3_valid (vec3_unpack 0)"
    by (simp add: vec3_valid_def vec3_unpack_def vec3_pack_def signed_float_def f32_of_nat_def f32_neg_def f32_trunc_def
        f32_exponent_def i32_less_zero_def i32_abs_def f32_fraction_def f32_negative_def)
  show ?thesis
    unfolding Let_def
    by (rule movement_arrives [of _ "[]", simplified])
      (simp add: moves_valid_def ordered_def reference_update_valid_def movement_valid_def v rotator_zero action_valid_def anim_valid_def
        new_action_def new_anim_def)
qed


end
