(* ===== verification/Host_Network.thy ===== *)
theory Host_Network
  imports Host_Players
begin

text \<open>
  The recipes of player-made potions a game knows (\<open>RecipeBook\<close>) and the host's connections
  (\<open>HostNetwork\<close>): in-process routes, and the recipes each game is sent before a message that may name one.
\<close>

section \<open>The book\<close>

text \<open>\<open>m_recipes\<close>, \<open>m_index\<close> and \<open>m_forms\<close>.\<close>

record recipe_book =
  rb_recipes :: "recipe list"
  rb_index :: "game_id \<rightharpoonup> nat"
  rb_forms :: "game_id \<rightharpoonup> u32"

definition new_book :: recipe_book where
  "new_book = \<lparr>rb_recipes = [], rb_index = Map.empty, rb_forms = Map.empty\<rparr>"

definition book_learn :: "recipe \<Rightarrow> u32 \<Rightarrow> recipe_book \<Rightarrow> game_id \<times> recipe_book" where
  "book_learn r form b =
     (let i = recipe_id r;
          b = (if form \<noteq> 0 then b\<lparr>rb_forms := (rb_forms b)(i \<mapsto> form)\<rparr> else b)
      in if rb_index b i \<noteq> None then (i, b)
         else (i, b\<lparr>rb_index := (rb_index b)(i \<mapsto> length (rb_recipes b)), rb_recipes := rb_recipes b @ [r]\<rparr>))"

definition book_find :: "game_id \<Rightarrow> recipe_book \<Rightarrow> recipe option" where
  "book_find i b = map_option (\<lambda>k. rb_recipes b ! k) (rb_index b i)"

text \<open>
  \<open>FormFor\<close>: the game's readers (\<open>acRecipeOf\<close>, \<open>acMake\<close>) are arguments.
\<close>

definition book_form_for ::
    "game_id \<Rightarrow> (u32 \<Rightarrow> recipe option) \<Rightarrow> (recipe \<Rightarrow> u32) \<Rightarrow> recipe_book \<Rightarrow> u32 \<times> recipe_book" where
  "book_form_for i recipe_of make_form b =
     (case book_find i b of None \<Rightarrow> (0, b)
      | Some r \<Rightarrow>
          let made = (case rb_forms b i of None \<Rightarrow> 0 | Some f \<Rightarrow> f)
          in if made \<noteq> 0 \<and> (case recipe_of made of None \<Rightarrow> False | Some r' \<Rightarrow> recipe_eq r' r) then (made, b)
             else let made = make_form r
                  in if made = 0 then (made, b) else (made, snd (book_learn r made b)))"

text \<open>\<open>Unsent\<close>: what a game told of \<open>sent\<close> recipes has not had, and what it has had now.\<close>

definition book_unsent :: "nat \<Rightarrow> recipe_book \<Rightarrow> recipe list \<times> nat" where
  "book_unsent sent b =
     (if sent \<ge> length (rb_recipes b) then ([], sent) else (drop sent (rb_recipes b), length (rb_recipes b)))"

definition book_add_named :: "recipe_book \<Rightarrow> game_id \<Rightarrow> recipe list \<Rightarrow> recipe list" where
  "book_add_named b i rs =
     (if recipe_is_id i
      then case book_find i b of None \<Rightarrow> rs
         | Some r \<Rightarrow> if find (\<lambda>r'. recipe_eq r' r) rs = None then rs @ [r] else rs
      else rs)"

definition book_of :: "inventory \<Rightarrow> recipe_book \<Rightarrow> recipe list" where
  "book_of items b = fold (\<lambda>e rs. book_add_named b (en_ExtraPoisonId e) (book_add_named b (en_BaseId e) rs))
     (inv_Entries items) []"

section \<open>The book's index\<close>

definition book_ok :: "recipe_book \<Rightarrow> bool" where
  "book_ok b \<longleftrightarrow>
     (\<forall>i k. rb_index b i = Some k \<longrightarrow> k < length (rb_recipes b) \<and> recipe_id (rb_recipes b ! k) = i) \<and>
     (\<forall>k < length (rb_recipes b). rb_index b (recipe_id (rb_recipes b ! k)) = Some k)"

lemma book_ok_new: "book_ok new_book"
  by (simp add: book_ok_def new_book_def)

lemma book_learn_parts:
  "rb_index (snd (book_learn r form b)) = (if rb_index b (recipe_id r) = None
     then (rb_index b)(recipe_id r \<mapsto> length (rb_recipes b)) else rb_index b)"
  "rb_recipes (snd (book_learn r form b)) = (if rb_index b (recipe_id r) = None
     then rb_recipes b @ [r] else rb_recipes b)"
  by (auto simp: book_learn_def Let_def)

lemma book_ok_learn:
  assumes "book_ok b"
  shows "book_ok (snd (book_learn r form b))"
proof (cases "rb_index b (recipe_id r) = None")
  case True
  have known: "k < length (rb_recipes b) \<and> recipe_id (rb_recipes b ! k) = i" if "rb_index b i = Some k" for i k
    using assms that by (simp add: book_ok_def)
  have index: "rb_index b (recipe_id (rb_recipes b ! k)) = Some k" if "k < length (rb_recipes b)" for k
    using assms that by (simp add: book_ok_def)
  have new: "recipe_id (rb_recipes b ! k) \<noteq> recipe_id r" if "k < length (rb_recipes b)" for k
    using index [OF that] True by auto
  have parts: "rb_index (snd (book_learn r form b)) = (rb_index b)(recipe_id r \<mapsto> length (rb_recipes b))"
    "rb_recipes (snd (book_learn r form b)) = rb_recipes b @ [r]"
    using True by (simp_all add: book_learn_parts)
  show ?thesis
    unfolding book_ok_def parts using new index
    by (auto simp: nth_append less_Suc_eq dest: known)
next
  case False
  then have "rb_index (snd (book_learn r form b)) = rb_index b" "rb_recipes (snd (book_learn r form b)) = rb_recipes b"
    by (auto simp: book_learn_parts)
  then show ?thesis using assms by (simp add: book_ok_def)
qed

lemma book_ok_form_for: "book_ok b \<Longrightarrow> book_ok (snd (book_form_for i recipe_of make_form b))"
  by (auto simp: book_form_for_def Let_def book_ok_learn split: option.splits)

lemma book_find_id: "book_ok b \<Longrightarrow> book_find i b = Some r \<Longrightarrow> r \<in> set (rb_recipes b) \<and> recipe_id r = i"
  by (auto simp: book_find_def book_ok_def)

lemma book_learn_keeps: "\<exists>rs. rb_recipes (snd (book_learn r form b)) = rb_recipes b @ rs"
  by (simp add: book_learn_parts)

lemma book_learn_found:
  "book_ok b \<Longrightarrow> book_find (recipe_id r) (snd (book_learn r form b)) =
     (case book_find (recipe_id r) b of None \<Rightarrow> Some r | Some r' \<Rightarrow> Some r')"
  by (auto simp: book_find_def book_learn_parts split: option.splits)

lemma book_ids_distinct:
  assumes "book_ok b"
  shows "distinct (map recipe_id (rb_recipes b))"
proof -
  have index: "rb_index b (recipe_id (rb_recipes b ! k)) = Some k" if "k < length (rb_recipes b)" for k
    using assms that by (simp add: book_ok_def)
  then show ?thesis
    unfolding distinct_conv_nth by simp (metis index option.inject)
qed

text \<open>
  The form a game uses for a recipe's id is one it made for that recipe before and that
  still is that potion, or one it makes now; and for as long as that form still is the potion, asking again
  gives the same one and makes none.
\<close>

theorem form_for_is_the_potion:
  assumes "book_ok b" and "book_form_for i recipe_of make_form b = (f, b')" and "f \<noteq> 0"
  shows "\<exists>r. book_find i b = Some r \<and> recipe_id r = i \<and>
     (f = make_form r \<or> (\<exists>r'. recipe_of f = Some r' \<and> recipe_eq r' r)) \<and>
     (\<forall>recipe_of' make_form'. (\<exists>r'. recipe_of' f = Some r' \<and> recipe_eq r' r) \<longrightarrow>
        book_form_for i recipe_of' make_form' b' = (f, b'))"
proof -
  obtain r where r: "book_find i b = Some r"
    using assms(2,3) by (auto simp: book_form_for_def split: option.splits)
  have i: "recipe_id r = i" using book_find_id assms(1) r by blast
  consider "b' = b" "rb_forms b i = Some f" "\<exists>r'. recipe_of f = Some r' \<and> recipe_eq r' r"
    | "f = make_form r" "b' = snd (book_learn r f b)"
    using assms(2,3) r by (auto simp: book_form_for_def Let_def split: if_splits option.splits)
  then have *: "book_find i b' = Some r \<and> rb_forms b' i = Some f \<and>
      (f = make_form r \<or> (\<exists>r'. recipe_of f = Some r' \<and> recipe_eq r' r))"
  proof cases
    case 2
    have "rb_forms b' i = Some f"
      using assms(3) i by (simp add: 2(2) book_learn_def Let_def)
    moreover have "book_find i b' = Some r"
      using book_learn_found [OF assms(1), of r f] r i by (simp add: 2(2))
    ultimately show ?thesis using 2(1) by simp
  qed (use r in simp)
  then have "book_form_for i recipe_of' make_form' b' = (f, b')"
    if "\<exists>r'. recipe_of' f = Some r' \<and> recipe_eq r' r" for recipe_of' make_form'
    using that assms(3) by (auto simp: book_form_for_def Let_def)
  then show ?thesis
    using r i * by blast
qed

section \<open>Connections\<close>

text \<open>
  The maps by connection are read by lookup only. \<open>nw_routes\<close> are the in-process games (their inboxes are
  the caller's); the others are ENet's.
\<close>

record network =
  nw_names :: "conn \<rightharpoonup> string"
  nw_routes :: "conn list"
  nw_host :: conn
  nw_recipesSent :: "conn \<rightharpoonup> nat"

definition new_network :: network where
  "new_network = \<lparr>nw_names = Map.empty, nw_routes = [], nw_host = 0, nw_recipesSent = Map.empty\<rparr>"

text \<open>What leaves the host: packets (recipes, or a handler's message), and connections that ended.\<close>

datatype 'm wire_event = SentRecipes conn "recipe list" | SentMessage conn 'm | Ended conn

definition name_connection :: "conn \<Rightarrow> string \<Rightarrow> network \<Rightarrow> network" where
  "name_connection c name n = n\<lparr>nw_names := (nw_names n)(c \<mapsto> name)\<rparr>"

definition connection_name :: "conn \<Rightarrow> network \<Rightarrow> string" where
  "connection_name c n = (case nw_names n c of None \<Rightarrow> [] | Some s \<Rightarrow> s)"

definition open_route :: "conn \<Rightarrow> network \<Rightarrow> network" where
  "open_route c n =
     (let n = (if nw_routes n = [] then n\<lparr>nw_host := c\<rparr> else n)
      in n\<lparr>nw_routes := c # removeAll c (nw_routes n)\<rparr>)"

text \<open>\<open>OnDisconnection\<close>: the handler it calls (\<open>m_disconnected\<close>) sees the event.\<close>

definition on_disconnection :: "conn \<Rightarrow> network \<Rightarrow> network \<times> 'm wire_event list" where
  "on_disconnection c n =
     (n\<lparr>nw_names := (nw_names n)(c := None), nw_recipesSent := (nw_recipesSent n)(c := None)\<rparr>, [Ended c])"

definition close_route :: "conn \<Rightarrow> network \<Rightarrow> network \<times> 'm wire_event list" where
  "close_route c n =
     (if c \<notin> set (nw_routes n) then (n, [])
      else let n = n\<lparr>nw_routes := removeAll c (nw_routes n)\<rparr>;
               n = (if c = nw_host n then n\<lparr>nw_host := 0\<rparr> else n);
               n = n\<lparr>nw_names := (nw_names n)(c := None), nw_recipesSent := (nw_recipesSent n)(c := None)\<rparr>
           in on_disconnection c n)"

text \<open>\<open>Send\<close>: first the recipes that game has not had.\<close>

definition net_send :: "recipe_book option \<Rightarrow> conn \<Rightarrow> 'm \<Rightarrow> network \<Rightarrow> network \<times> 'm wire_event list" where
  "net_send book c msg n =
     (case book of
        Some b \<Rightarrow>
          if c \<noteq> nw_host n
          then let (known, sent) = book_unsent (case nw_recipesSent n c of None \<Rightarrow> 0 | Some k \<Rightarrow> k) b;
                   n = n\<lparr>nw_recipesSent := (nw_recipesSent n)(c \<mapsto> sent)\<rparr>
               in (n, (if known \<noteq> [] then [SentRecipes c known] else []) @ [SentMessage c msg])
          else (n, [SentMessage c msg])
      | None \<Rightarrow> (n, [SentMessage c msg]))"

text \<open>
  \<open>Listen\<close>, with ENet's \<open>Host\<close> as \<open>host\<close>: the port counts up in 16 bits while it is below \<open>aPort + 16\<close>
  as an \<open>int\<close>. \<open>None\<close> is a call that never returns.
\<close>

partial_function (option) listen_from :: "nat \<Rightarrow> (u16 \<Rightarrow> bool) \<Rightarrow> u16 \<Rightarrow> bool option" where
  "listen_from limit host port =
     (if unat port < limit
      then if host port then Some True else listen_from limit host (port + 1)
      else Some False)"

definition listen :: "(u16 \<Rightarrow> bool) \<Rightarrow> u16 \<Rightarrow> bool option" where
  "listen host port = listen_from (unat port + 16) host port"

section \<open>Recipes before messages\<close>

text \<open>What the host does with its book and its connections.\<close>

datatype 'm net_event =
    Learns recipe u32
  | Sends conn 'm
  | OpensRoute conn
  | ClosesRoute conn
  | LosesPeer conn
  | Names conn string

fun net_step :: "'m net_event \<Rightarrow> recipe_book \<times> network \<times> 'm wire_event list \<Rightarrow> recipe_book \<times> network \<times> 'm wire_event list" where
  "net_step (Learns r form) (b, n, log) = (snd (book_learn r form b), n, log)"
| "net_step (Sends c msg) (b, n, log) = (let (n, out) = net_send (Some b) c msg n in (b, n, log @ out))"
| "net_step (OpensRoute c) (b, n, log) = (b, open_route c n, log)"
| "net_step (ClosesRoute c) (b, n, log) = (let (n, out) = close_route c n in (b, n, log @ out))"
| "net_step (LosesPeer c) (b, n, log) = (let (n, out) = on_disconnection c n in (b, n, log @ out))"
| "net_step (Names c name) (b, n, log) = (b, name_connection c name n, log)"

definition net_run :: "'m net_event list \<Rightarrow> recipe_book \<times> network \<times> 'm wire_event list" where
  "net_run es = fold net_step es (new_book, new_network, [])"

text \<open>The recipes a game was told on its connection, in order, since that connection last ended.\<close>

fun told_step :: "conn \<Rightarrow> 'm wire_event \<Rightarrow> recipe list \<Rightarrow> recipe list" where
  "told_step c (SentRecipes d rs) told = (if d = c then told @ rs else told)"
| "told_step c (SentMessage d msg) told = told"
| "told_step c (Ended d) told = (if d = c then [] else told)"

definition told :: "conn \<Rightarrow> 'm wire_event list \<Rightarrow> recipe list" where
  "told c log = fold (told_step c) log []"

definition sent_to :: "conn \<Rightarrow> network \<Rightarrow> nat" where
  "sent_to c n = (case nw_recipesSent n c of None \<Rightarrow> 0 | Some k \<Rightarrow> k)"

definition net_ok :: "recipe_book \<times> network \<times> 'm wire_event list \<Rightarrow> bool" where
  "net_ok s \<longleftrightarrow> (case s of (b, n, log) \<Rightarrow> book_ok b \<and>
     (\<forall>c. sent_to c n \<le> length (rb_recipes b) \<and> told c log = take (sent_to c n) (rb_recipes b)))"

lemma told_append: "told c (xs @ ys) = fold (told_step c) ys (told c xs)"
  by (simp add: told_def)

lemma unsent_rest: "k \<le> length (rb_recipes b) \<Longrightarrow> book_unsent k b = (drop k (rb_recipes b), length (rb_recipes b))"
  by (auto simp: book_unsent_def)

lemma net_send_told:
  assumes "net_ok (b, n, log)" and "net_send (Some b) c msg n = (n', out)"
  shows "told d (log @ out) = take (sent_to d n') (rb_recipes b)" and "sent_to d n' \<le> length (rb_recipes b)"
    and "c \<noteq> nw_host n \<Longrightarrow> sent_to c n' = length (rb_recipes b)"
  using assms unsent_rest [of "sent_to c n" b]
  by (auto simp: net_ok_def net_send_def told_append sent_to_def Let_def split: if_splits)

lemma net_ok_step: "net_ok s \<Longrightarrow> net_ok (net_step e s)"
proof (cases s)
  case s: (fields b n log)
  assume ok: "net_ok s"
  show ?thesis
  proof (cases e)
    case (Learns r form)
    obtain rs where "rb_recipes (snd (book_learn r form b)) = rb_recipes b @ rs"
      using book_learn_keeps by blast
    then show ?thesis
      using ok by (auto simp: net_ok_def s Learns book_ok_learn intro: trans_le_add1)
  next
    case (Sends c msg)
    obtain n' out where o: "net_send (Some b) c msg n = (n', out)" by fastforce
    then show ?thesis
      using ok net_send_told [OF ok [unfolded s] o] by (auto simp: net_ok_def s Sends)
  qed (use ok in \<open>auto simp: net_ok_def s sent_to_def open_route_def close_route_def on_disconnection_def
      name_connection_def told_append Let_def\<close>)
qed

lemma net_ok_fold: "net_ok s \<Longrightarrow> net_ok (fold net_step es s)"
  by (induction es arbitrary: s) (auto simp: net_ok_step)

lemma net_ok_run: "net_ok (net_run es)"
  unfolding net_run_def
  by (rule net_ok_fold) (simp add: net_ok_def book_ok_new new_network_def sent_to_def told_def)

text \<open>
  C16: whatever the host learned, sent and lost before, when a message goes to another game that
  game has been told, on that connection, every recipe of the host's book, each once, in the book's order,
  before the message; what it was told is never ahead of the book.
\<close>

theorem recipes_come_first:
  assumes "net_run es = (b, n, log)" and "c \<noteq> nw_host n" and "net_step (Sends c msg) (b, n, log) = (b', n', log')"
  shows "\<exists>out. log' = log @ out @ [SentMessage c msg] \<and> told c (log @ out) = rb_recipes b \<and> rb_recipes b' = rb_recipes b \<and>
     distinct (map recipe_id (told c (log @ out)))"
proof -
  have ok: "net_ok (b, n, log)"
    using net_ok_run [of es] assms(1) by simp
  obtain out where o: "net_send (Some b) c msg n = (n', out)" "log' = log @ out" "b' = b"
    using assms(3) by (auto split: prod.splits)
  have all: "told c (log @ out) = rb_recipes b"
    using net_send_told [OF ok o(1)] assms(2) by simp
  obtain out' where out': "out = out' @ [SentMessage c msg]"
    using o(1) by (auto simp: net_send_def Let_def split: prod.splits if_splits)
  then have "told c (log @ out') = rb_recipes b"
    using all by (simp add: told_append)
  moreover have "distinct (map recipe_id (rb_recipes b))"
    using ok by (intro book_ids_distinct) (simp add: net_ok_def)
  ultimately show ?thesis
    using o out' by auto
qed

lemma listen_from_below:
  assumes "limit \<le> 65535"
  shows "unat p + j = limit \<Longrightarrow> listen_from limit host p = Some (\<exists>k < j. host (p + of_nat k))"
proof (induction j arbitrary: p)
  case 0
  then show ?case by (simp add: listen_from.simps)
next
  case (Suc j)
  then have "unat (p + 1) = unat p + 1"
    using assms by (simp add: unat_word_ariths)
  then have "listen_from limit host (p + 1) = Some (\<exists>k < j. host (p + 1 + of_nat k))"
    using Suc by (intro Suc.IH) simp
  moreover have "(\<exists>k < Suc j. host (p + of_nat k)) \<longleftrightarrow> host p \<or> (\<exists>k < j. host (p + 1 + of_nat k))"
    by (auto simp: Ex_less_Suc2 add.assoc)
  ultimately show ?case
    using Suc.prems by (simp add: listen_from.simps [of limit host p])
qed

lemma listen_from_wraps:
  assumes "listen_from limit host p = Some y"
  shows "65536 \<le> limit \<longrightarrow> (\<exists>q. host q)"
proof (rule listen_from.raw_induct [OF _ assms])
  fix go limit host and p :: u16 and y
  assume IH: "\<And>limit host p y. go limit host p = Some y \<Longrightarrow> 65536 \<le> limit \<longrightarrow> (\<exists>q. host q)"
    and step: "(if unat p < limit then if host p then Some True else go limit host (p + 1) else Some False) = Some y"
  show "65536 \<le> limit \<longrightarrow> (\<exists>q. host q)"
  proof
    assume l: "65536 \<le> limit"
    have "unat p < 65536"
      using unsigned_less [of p] by simp
    with l have "unat p < limit" by simp
    then show "\<exists>q. host q"
      using step IH [of limit host "p + 1" y] l by (auto split: if_splits)
  qed
qed

text \<open>
  C29: asked for a port up to 65519, the listener tries at most 16 and answers whether one was free;
  from 65520 on, where the counter wraps below its bound, it answers only if some port is free.
\<close>

theorem listen_gives_up:
  "(unat port < 65520 \<longrightarrow> listen host port = Some (\<exists>k < 16. host (port + of_nat k))) \<and>
   (unat port \<ge> 65520 \<longrightarrow> (\<forall>p. \<not> host p) \<longrightarrow> listen host port = None)"
proof (intro conjI impI)
  assume "unat port < 65520"
  then show "listen host port = Some (\<exists>k < 16. host (port + of_nat k))"
    unfolding listen_def by (intro listen_from_below) simp_all
next
  assume "unat port \<ge> 65520" "\<forall>p. \<not> host p"
  then show "listen host port = None"
    unfolding listen_def using listen_from_wraps [of "unat port + 16" host port] by (cases "listen_from (unat port + 16) host port") auto
qed

text \<open>A port of the usual range with the first two taken; and 65530, never answered.\<close>

lemma listen_gives_up_witness:
  "listen (\<lambda>p. p = 10580) 10578 = Some True \<and> listen (\<lambda>p. False) 65530 = None"
proof
  have "\<exists>k < 16. (10578 :: u16) + of_nat k = 10580"
    by (rule exI [of _ 2]) simp
  then show "listen (\<lambda>p. p = 10580) 10578 = Some True"
    using listen_gives_up [of 10578 "\<lambda>p. p = 10580"] by simp
  show "listen (\<lambda>p. False) 65530 = None"
    using listen_gives_up [of 65530 "\<lambda>p. False"] by simp
qed

lemma form_for_is_the_potion_witness:
  defines "r \<equiv> \<lparr>rc_IsPoison = True, rc_Effects = []\<rparr>"
  shows "book_form_for (recipe_id r) (\<lambda>_. Some r) (\<lambda>_. 0)
     (snd (book_form_for (recipe_id r) (\<lambda>_. None) (\<lambda>_. 0xFF000800) (snd (book_learn r 0 new_book)))) =
   (0xFF000800, snd (book_form_for (recipe_id r) (\<lambda>_. None) (\<lambda>_. 0xFF000800) (snd (book_learn r 0 new_book))))"
proof -
  let ?b = "snd (book_learn r 0 new_book)"
  have "book_find (recipe_id r) ?b = Some r"
    using book_learn_found [OF book_ok_new, of r 0] by (simp add: book_find_def new_book_def)
  then have "fst (book_form_for (recipe_id r) (\<lambda>_. None) (\<lambda>_. 0xFF000800) ?b) = 0xFF000800"
    by (simp add: book_form_for_def Let_def split: option.split)
  then obtain b' where "book_form_for (recipe_id r) (\<lambda>_. None) (\<lambda>_. 0xFF000800) ?b = (0xFF000800, b')"
    by (metis prod.collapse)
  with form_for_is_the_potion [OF book_ok_learn [OF book_ok_new], OF this]
  show ?thesis
    by (auto simp: recipe_eq_iff \<open>book_find (recipe_id r) ?b = Some r\<close>)
qed

text \<open>A potion learned after the guest was last sent something goes ahead of the next message.\<close>

lemma recipes_come_first_witness:
  defines "r \<equiv> \<lparr>rc_IsPoison = False, rc_Effects = []\<rparr>"
  shows "\<exists>n' out. net_step (Sends 9 ''hello'') (net_run [OpensRoute 1, Sends 9 ''welcome'', Learns r 0]) =
       (snd (book_learn r 0 new_book), n', [SentMessage 9 ''welcome''] @ out @ [SentMessage 9 ''hello'']) \<and>
     told 9 ([SentMessage 9 ''welcome''] @ out) = [r]"
proof -
  let ?s = "net_run [OpensRoute 1, Sends 9 ''welcome'', Learns r 0]"
  obtain b n log where s: "?s = (b, n, log)" by (metis surj_pair)
  have run: "b = snd (book_learn r 0 new_book)" "nw_host n = 1" "log = [SentMessage 9 ''welcome'']"
    using s by (simp_all add: net_run_def new_network_def open_route_def net_send_def book_unsent_def new_book_def Let_def)
      (auto)
  have "rb_recipes b = [r]"
    using run(1) by (simp add: book_learn_parts new_book_def)
  moreover obtain b' n' log' where t: "net_step (Sends 9 ''hello'') ?s = (b', n', log')" by (metis surj_pair)
  moreover have "b' = b"
    using t by (auto simp: s split: prod.splits)
  ultimately show ?thesis
    using recipes_come_first [OF s, of 9 "''hello''" b' n' log'] run by (auto simp: s)
qed

end
