(* ===== verification/Shared_Wait.thy ===== *)
theory Shared_Wait
  imports Host_Players Host_Messages
begin

text \<open>
  One countdown for the whole party (\<open>HostWait\<close>): a player asks for it, every game opens and pauses its
  menu, the host's game counts down, and any player's cancel, a player's arrival or departure, or fifteen
  seconds without progress ends it. The session's players, the host's clock and its cells are arguments.
\<close>

section \<open>State\<close>

record wait =
  wt_Id :: u32
  wt_Hours :: u32
  wt_RemainingSeconds :: u32
  wt_Requester :: conn
  wt_Sleeping :: bool
  wt_Running :: bool
  wt_LastActivity :: u64
  wt_Pending :: "conn set"

record host_wait =
  hw_wait :: "wait option"
  hw_lastId :: u32
  hw_completedId :: u32
  hw_tick :: u64

definition new_host_wait :: host_wait where
  "new_host_wait = \<lparr>hw_wait = None, hw_lastId = 0, hw_completedId = 0, hw_tick = 0\<rparr>"

datatype wait_message = WaitState wait_state | WaitWorld wait_world

definition stall_ticks :: u64 where "stall_ticks = 15000"

section \<open>The handlers\<close>

definition wait_tell :: "host_players \<Rightarrow> time_model \<Rightarrow> u8 \<Rightarrow> host_wait \<Rightarrow> wait_message outbox" where
  "wait_tell p calendar phase s =
     (case hw_wait s of None \<Rightarrow> []
      | Some w \<Rightarrow> map (\<lambda>c.
          let driver = (c = players_host p)
          in (c, WaitState \<lparr>nws_Phase = phase, nws_Id = wt_Id w, nws_Hours = wt_Hours w,
                nws_RemainingSeconds = wt_RemainingSeconds w,
                nws_Sleeping = (wt_Sleeping w \<and> (driver \<or> c = wt_Requester w)), nws_Driver = driver,
                nws_Calendar = calendar\<rparr>)) (connections p))"

definition wait_end :: "host_players \<Rightarrow> time_model \<Rightarrow> host_wait \<Rightarrow> host_wait \<times> wait_message outbox" where
  "wait_end p calendar s =
     (case hw_wait s of None \<Rightarrow> (s, [])
      | Some w \<Rightarrow> let s = s\<lparr>hw_completedId := wt_Id w\<rparr>
                  in (s\<lparr>hw_wait := None\<rparr>, wait_tell p calendar wpFinished s))"

definition refused :: wait_state where
  "refused = \<lparr>nws_Phase = wpRefused, nws_Id = 0, nws_Hours = 0, nws_RemainingSeconds = 0, nws_Sleeping = False,
     nws_Driver = False, nws_Calendar = \<lparr>tm_TimeScale = 0, tm_Time = 0, tm_Year = 0, tm_Month = 0, tm_Day = 0,
       tm_DaysPassed = 0\<rparr>\<rparr>"

definition wait_on_request ::
    "host_players \<Rightarrow> time_model \<Rightarrow> wait_request \<Rightarrow> conn \<Rightarrow> host_wait \<Rightarrow> host_wait \<times> wait_message outbox" where
  "wait_on_request p calendar r sender s =
     (if wr_Action r = waStart then
        (if hw_wait s \<noteq> None then (s, [])
         else if wr_Hours r = 0 \<or> wr_Hours r > 24 then (s, [(sender, WaitState refused)])
         else let i = hw_lastId s + 1;
                  w = \<lparr>wt_Id = i, wt_Hours = wr_Hours r, wt_RemainingSeconds = wr_Hours r * 3600, wt_Requester = sender,
                    wt_Sleeping = wr_Sleeping r, wt_Running = False, wt_LastActivity = hw_tick s,
                    wt_Pending = set (connections p)\<rparr>;
                  s = s\<lparr>hw_lastId := i, hw_wait := Some w\<rparr>
              in (s, wait_tell p calendar wpPreparing s))
      else case hw_wait s of None \<Rightarrow> (s, [])
        | Some w \<Rightarrow>
            if wr_Id r \<noteq> wt_Id w then (s, [])
            else if wr_Action r = waReady then
              (if \<not> wt_Running w \<and> sender \<in> wt_Pending w
               then let w = w\<lparr>wt_Pending := wt_Pending w - {sender}\<rparr>
                    in if wt_Pending w = {}
                       then let s = s\<lparr>hw_wait := Some (w\<lparr>wt_Running := True, wt_LastActivity := hw_tick s\<rparr>)\<rparr>
                            in (s, wait_tell p calendar wpRunning s)
                       else (s\<lparr>hw_wait := Some w\<rparr>, [])
               else (s, []))
            else if wr_Action r = waProgress then
              (if sender = players_host p \<and> wt_Running w \<and> wr_RemainingSeconds r < wt_RemainingSeconds w
               then let s = s\<lparr>hw_wait := Some (w\<lparr>wt_RemainingSeconds := wr_RemainingSeconds r, wt_LastActivity := hw_tick s\<rparr>)\<rparr>;
                        told = wait_tell p calendar wpProgress s
                    in if wr_RemainingSeconds r = 0
                       then let (s, out) = wait_end p calendar s in (s, told @ out)
                       else (s, told)
               else (s, []))
            else if wr_Action r = waCancel \<or> wr_Action r = waFailed then wait_end p calendar s
            else (s, []))"

definition wait_update :: "host_players \<Rightarrow> time_model \<Rightarrow> u64 \<Rightarrow> host_wait \<Rightarrow> host_wait \<times> wait_message outbox" where
  "wait_update p calendar tick s =
     (let s = s\<lparr>hw_tick := tick\<rparr>
      in case hw_wait s of None \<Rightarrow> (s, [])
         | Some w \<Rightarrow> if tick \<ge> wt_LastActivity w \<and> tick - wt_LastActivity w \<ge> stall_ticks
                     then wait_end p calendar s else (s, []))"

text \<open>\<open>OnPlayerLeft\<close> and \<open>OnPlayerEntered\<close>.\<close>

definition wait_on_player_left :: "host_players \<Rightarrow> time_model \<Rightarrow> host_wait \<Rightarrow> host_wait \<times> wait_message outbox" where
  "wait_on_player_left p calendar s = wait_end p calendar s"

definition wait_on_player_entered :: "host_players \<Rightarrow> time_model \<Rightarrow> host_wait \<Rightarrow> host_wait \<times> wait_message outbox" where
  "wait_on_player_entered p calendar s = wait_end p calendar s"

section \<open>The completed wait's cells\<close>

text \<open>\<open>AddCreatedContents\<close>: a created container's contents follow its row. The reader may be missing.\<close>

fun add_created :: "(game_id \<Rightarrow> object_change option) \<Rightarrow> object_change list \<Rightarrow> object_change list" where
  "add_created contents [] = []"
| "add_created contents (c # cs) =
     c # (if oc_Type c = kCreate then (case contents (oc_Object c) of None \<Rightarrow> [] | Some x \<Rightarrow> [x]) else []) @
     add_created contents cs"

definition add_created_contents ::
    "(game_id \<Rightarrow> object_change option) option \<Rightarrow> object_change list \<Rightarrow> object_change list" where
  "add_created_contents read_contents cs = (case read_contents of None \<Rightarrow> cs | Some f \<Rightarrow> add_created f cs)"

definition rows_per_message :: nat where "rows_per_message = 1024"

text \<open>The rows of each message: at least one message, however few rows.\<close>

function split_rows :: "'a list \<Rightarrow> 'a list list" where
  "split_rows rows =
     (if length rows \<le> rows_per_message then [rows]
      else take rows_per_message rows # split_rows (drop rows_per_message rows))"
  by pat_completeness auto
termination
  by (relation "measure length") (auto simp: rows_per_message_def)

declare split_rows.simps [simp del]

fun world_replies :: "u32 \<Rightarrow> game_id \<Rightarrow> object_change list list \<Rightarrow> wait_world list" where
  "world_replies i cell [] = []"
| "world_replies i cell (rows # rest) =
     \<lparr>nww_Id = i, nww_Last = (rest = []), nww_State = \<lparr>noc_Cell = cell, noc_Changes = rows\<rparr>\<rparr> # world_replies i cell rest"

definition wait_on_world_request ::
    "host_players \<Rightarrow> (game_id \<Rightarrow> changed_reference list \<Rightarrow> object_change list option) option \<Rightarrow>
     (game_id \<Rightarrow> object_change option) option \<Rightarrow> wait_world_request \<Rightarrow> conn \<Rightarrow> host_wait \<Rightarrow> wait_message outbox" where
  "wait_on_world_request p read_cell read_contents r sender s =
     (if hw_wait s \<noteq> None \<or> hw_completedId s = 0 \<or> wwr_Id r \<noteq> hw_completedId s \<or> sender = players_host p then []
      else case read_cell of None \<Rightarrow> []
        | Some read \<Rightarrow>
            let rows = (case read (cs_Cell (wwr_State r)) (cs_Changed (wwr_State r)) of None \<Rightarrow> []
                  | Some cs \<Rightarrow> add_created_contents read_contents cs)
            in map (\<lambda>m. (sender, WaitWorld m)) (world_replies (wwr_Id r) (cs_Cell (wwr_State r)) (split_rows rows)))"

section \<open>What happens to it\<close>

datatype wait_event = Requested wait_request conn | Updated u64 | PlayerLeft | PlayerEntered

fun wait_step :: "host_players \<times> time_model \<times> wait_event \<Rightarrow> host_wait \<Rightarrow> host_wait \<times> wait_message outbox" where
  "wait_step (p, calendar, Requested r sender) s = wait_on_request p calendar r sender s"
| "wait_step (p, calendar, Updated tick) s = wait_update p calendar tick s"
| "wait_step (p, calendar, PlayerLeft) s = wait_on_player_left p calendar s"
| "wait_step (p, calendar, PlayerEntered) s = wait_on_player_entered p calendar s"

text \<open>The players and the clock may be others at every event.\<close>

abbreviation wait_run :: "(host_players \<times> time_model \<times> wait_event) list \<Rightarrow> host_wait \<Rightarrow> host_wait \<times> wait_message outbox" where
  "wait_run \<equiv> run wait_step"

section \<open>Its invariant\<close>

definition wait_ok :: "host_wait \<Rightarrow> bool" where
  "wait_ok s \<longleftrightarrow> (\<forall>w. hw_wait s = Some w \<longrightarrow>
     wt_Id w = hw_lastId s \<and> 0 < unat (wt_Hours w) \<and> unat (wt_Hours w) \<le> 24 \<and>
     0 < unat (wt_RemainingSeconds w) \<and> unat (wt_RemainingSeconds w) \<le> unat (wt_Hours w) * 3600 \<and>
     (wt_Running w \<longrightarrow> wt_Pending w = {}))"

lemma wait_end_cases:
  "fst (wait_end p calendar s) = (case hw_wait s of None \<Rightarrow> s | Some w \<Rightarrow> s\<lparr>hw_completedId := wt_Id w, hw_wait := None\<rparr>)"
  by (simp add: wait_end_def Let_def split: option.split)

lemma wait_end_none [simp]: "hw_wait (fst (wait_end p calendar s)) = None"
  by (simp add: wait_end_cases split: option.split)

lemma hours_seconds:
  assumes "h \<noteq> 0" and "\<not> h > (24 :: u32)"
  shows "unat (h * 3600) = unat h * 3600" and "0 < unat h" and "unat h \<le> 24"
proof -
  show "unat h \<le> 24" using assms(2) by (simp add: word_less_nat_alt)
  then show "unat (h * 3600) = unat h * 3600"
    by (simp add: unat_word_ariths)
  show "0 < unat h" using assms(1) by (simp add: unat_gt_0)
qed

text \<open>How a wait can be what it is after an event.\<close>

lemma wait_step_wait:
  assumes "wait_step (p, calendar, e) s = (s', out)" and "hw_wait s' = Some w'"
  obtains
    (started) r sender where "e = Requested r sender" "wr_Action r = waStart" "hw_wait s = None"
      "wr_Hours r \<noteq> 0" "\<not> wr_Hours r > 24" "s' = s\<lparr>hw_lastId := hw_lastId s + 1, hw_wait := Some w'\<rparr>"
      "w' = \<lparr>wt_Id = hw_lastId s + 1, wt_Hours = wr_Hours r, wt_RemainingSeconds = wr_Hours r * 3600,
        wt_Requester = sender, wt_Sleeping = wr_Sleeping r, wt_Running = False, wt_LastActivity = hw_tick s,
        wt_Pending = set (connections p)\<rparr>"
      "out = wait_tell p calendar wpPreparing s'"
  | (kept) "hw_wait s = Some w'" "s' = s" "out = []" "\<And>t. e \<noteq> Updated t"
      "\<And>r c. e = Requested r c \<Longrightarrow> wr_Action r = waReady \<Longrightarrow> wr_Id r = wt_Id w' \<Longrightarrow> wt_Running w' \<or> c \<notin> wt_Pending w'"
  | (updated) t where "e = Updated t" "hw_wait s = Some w'" "s' = s\<lparr>hw_tick := t\<rparr>" "out = []"
      "\<not> (t \<ge> wt_LastActivity w' \<and> t - wt_LastActivity w' \<ge> stall_ticks)"
  | (ready) w r sender where "e = Requested r sender" "hw_wait s = Some w" "wr_Action r = waReady" "wr_Id r = wt_Id w"
      "\<not> wt_Running w" "sender \<in> wt_Pending w" "wt_Pending w - {sender} \<noteq> {}"
      "w' = w\<lparr>wt_Pending := wt_Pending w - {sender}\<rparr>" "s' = s\<lparr>hw_wait := Some w'\<rparr>" "out = []"
  | (runs) w r sender where "e = Requested r sender" "hw_wait s = Some w" "wr_Action r = waReady" "wr_Id r = wt_Id w"
      "\<not> wt_Running w" "wt_Pending w = {sender}"
      "w' = w\<lparr>wt_Pending := {}, wt_Running := True, wt_LastActivity := hw_tick s\<rparr>" "s' = s\<lparr>hw_wait := Some w'\<rparr>"
      "out = wait_tell p calendar wpRunning s'"
  | (progress) w r sender where "e = Requested r sender" "hw_wait s = Some w" "wr_Action r = waProgress" "wr_Id r = wt_Id w"
      "sender = players_host p" "wt_Running w" "wr_RemainingSeconds r < wt_RemainingSeconds w" "wr_RemainingSeconds r \<noteq> 0"
      "w' = w\<lparr>wt_RemainingSeconds := wr_RemainingSeconds r, wt_LastActivity := hw_tick s\<rparr>"
      "s' = s\<lparr>hw_wait := Some w'\<rparr>" "out = wait_tell p calendar wpProgress s'"
proof -
  have ended: "wait_end p calendar t \<noteq> (s', out)" for t
    using assms(2) wait_end_none [of p calendar t] by (metis fst_conv option.distinct(1))
  show thesis
  proof (cases e)
  case e: (Requested r sender)
  show ?thesis
  proof (cases "wr_Action r = waStart")
    case True
    then show ?thesis
      using assms e that(1,2) by (auto simp: wait_on_request_def Let_def action_defs split: if_splits)
  next
    case False
    then obtain w where w: "hw_wait s = Some w"
      using assms e by (auto simp: wait_on_request_def split: option.splits)
    have req: "wait_on_request p calendar r sender s = (s', out)"
      using assms(1) e by simp
    have actions: "waReady \<noteq> waStart" "waProgress \<noteq> waStart" "waProgress \<noteq> waReady" "waReady \<noteq> waProgress"
      by (simp_all add: action_defs)
    consider "wr_Id r \<noteq> wt_Id w"
      | "wr_Id r = wt_Id w" "wr_Action r = waReady" "\<not> wt_Running w" "sender \<in> wt_Pending w"
      | "wr_Id r = wt_Id w" "wr_Action r = waReady" "wt_Running w \<or> sender \<notin> wt_Pending w"
      | "wr_Id r = wt_Id w" "wr_Action r = waProgress" "sender = players_host p" "wt_Running w"
          "wr_RemainingSeconds r < wt_RemainingSeconds w"
      | "wr_Id r = wt_Id w" "wr_Action r = waProgress"
          "\<not> (sender = players_host p \<and> wt_Running w \<and> wr_RemainingSeconds r < wt_RemainingSeconds w)"
      | "wr_Id r = wt_Id w" "wr_Action r \<noteq> waReady" "wr_Action r \<noteq> waProgress"
      by blast
    then show ?thesis
    proof cases
      case 2
      show ?thesis
      proof (cases "wt_Pending w - {sender} = {}")
        case True
        then have "wt_Pending w = {sender}" using 2 by blast
        then show ?thesis
          using req 2 False w assms(2) e
          by (intro that(5)) (auto simp: wait_on_request_def actions Let_def)
      next
        case n: False
        then show ?thesis
          using req 2 False w assms(2) e
          by (intro that(4)) (auto simp: wait_on_request_def actions Let_def)
      qed
    next
      case 4
      have "wr_RemainingSeconds r \<noteq> 0"
      proof
        assume "wr_RemainingSeconds r = 0"
        then have "fst (s', out) = fst (wait_end p calendar (s\<lparr>hw_wait := Some (w\<lparr>wt_RemainingSeconds := 0, wt_LastActivity := hw_tick s\<rparr>)\<rparr>))"
          unfolding req [symmetric] using 4 False w by (simp add: wait_on_request_def actions Let_def case_prod_unfold)
        then show False
          using assms(2) wait_end_none by (metis fst_conv option.distinct(1))
      qed
      then show ?thesis
        using req 4 False w assms(2) e by (intro that(6)) (auto simp: wait_on_request_def actions Let_def)
    qed (use req False w assms(2) e ended in \<open>auto simp: wait_on_request_def actions Let_def split: if_splits intro!: that(2)\<close>)
  qed
next
  case (Updated t)
  then show ?thesis
    using assms that(3) [of t] ended
    by (auto simp: wait_update_def Let_def split: option.splits if_splits)
  qed (use assms ended in \<open>auto simp: wait_on_player_left_def wait_on_player_entered_def\<close>)
qed

lemma wait_tell_wait: "hw_wait s = hw_wait t \<Longrightarrow> wait_tell p calendar phase s = wait_tell p calendar phase t"
  by (simp add: wait_tell_def)

lemma wait_tell_tick [simp]: "wait_tell p calendar phase (s\<lparr>hw_tick := t\<rparr>) = wait_tell p calendar phase s"
  by (rule wait_tell_wait) simp

lemma wait_end_eq:
  "wait_end p calendar s = (case hw_wait s of None \<Rightarrow> (s, [])
     | Some w \<Rightarrow> (s\<lparr>hw_completedId := wt_Id w, hw_wait := None\<rparr>, wait_tell p calendar wpFinished s))"
  by (auto simp: wait_end_def Let_def intro: wait_tell_wait split: option.split)

text \<open>And how it can be over.\<close>

lemma wait_step_none:
  assumes "wait_step (p, calendar, e) s = (s', out)" and "hw_wait s' = None"
  obtains
    (idle) sender where "hw_wait s = None" "out = [] \<or> out = [(sender, WaitState refused)]"
  | (ended) w where "hw_wait s = Some w" "out = wait_tell p calendar wpFinished s"
  | (counted) w s1 where "hw_wait s = Some w" "wt_Running w" "0 < wt_RemainingSeconds w"
      "hw_wait s1 = Some (w\<lparr>wt_RemainingSeconds := 0, wt_LastActivity := hw_tick s\<rparr>)"
      "out = wait_tell p calendar wpProgress s1 @ wait_tell p calendar wpFinished s1"
proof (cases "hw_wait s")
  case None
  have "out = [] \<or> (\<exists>sender. out = [(sender, WaitState refused)])"
  proof (cases e)
    case (Requested r sender)
    then show ?thesis
      using assms None by (auto simp: wait_on_request_def Let_def split: if_splits)
  qed (use assms None in \<open>auto simp: wait_update_def wait_on_player_left_def wait_on_player_entered_def
      wait_end_def Let_def\<close>)
  then show ?thesis using that(1) None by blast
next
  case w: (Some w)
  show ?thesis
  proof (cases e)
    case e: (Requested r sender)
    show ?thesis
    proof (cases "wr_Action r = waProgress \<and> wr_Id r = wt_Id w \<and> sender = players_host p \<and> wt_Running w \<and>
        wr_RemainingSeconds r < wt_RemainingSeconds w")
      case True
      then show ?thesis
        using assms w that(3) [of w "s\<lparr>hw_wait := Some (w\<lparr>wt_RemainingSeconds := 0, wt_LastActivity := hw_tick s\<rparr>)\<rparr>"]
        by (auto simp: wait_on_request_def e action_defs Let_def wait_end_eq split: if_splits)
    next
      case False
      then show ?thesis
        using assms w that(2) by (auto simp: wait_on_request_def e Let_def wait_end_eq split: if_splits)
    qed
  next
    case (Updated t)
    then show ?thesis
      using assms w that(2) by (auto simp: wait_update_def Let_def wait_end_eq split: if_splits intro: wait_tell_wait)
  qed (use assms w that(2) in \<open>auto simp: wait_on_player_left_def wait_on_player_entered_def wait_end_eq\<close>)
qed

lemma wait_ok_step:
  assumes "wait_ok s"
  shows "wait_ok (fst (wait_step e s))"
proof -
  obtain p calendar v where e: "e = (p, calendar, v)" by (metis surj_pair)
  obtain s' out where step: "wait_step e s = (s', out)" by fastforce
  have "wait_ok s'"
  proof (cases "hw_wait s'")
    case (Some w')
    from step [unfolded e] Some show ?thesis
    proof (cases rule: wait_step_wait)
      case (started r sender)
      then show ?thesis
        using hours_seconds [OF started(4,5)] by (simp add: wait_ok_def)
    next
      case (progress w r sender)
      then show ?thesis
        using assms by (auto simp: wait_ok_def word_less_nat_alt unat_gt_0)
    qed (use assms in \<open>auto simp: wait_ok_def\<close>)
  qed (simp add: wait_ok_def)
  then show ?thesis by (simp add: step)
qed

lemma wait_ok_run: "wait_ok s \<Longrightarrow> wait_ok (fst (wait_run es s))"
proof (induction es arbitrary: s)
  case (Cons e es)
  show ?case
    using Cons.IH [OF wait_ok_step [OF Cons.prems]] by (simp add: run_Cons)
qed simp

section \<open>What a player's game is told\<close>

text \<open>
  The promise to a guest: a wait is announced, it may start counting, the seconds left only go down, and it
  ends once; between two waits nothing but a refusal.
\<close>

datatype wait_view = Idle | Preparing u32 | Counting u32 nat

fun follows :: "wait_message \<Rightarrow> wait_view \<Rightarrow> wait_view option" where
  "follows (WaitWorld m) v = Some v"
| "follows (WaitState m) Idle =
     (if nws_Phase m = wpPreparing then Some (Preparing (nws_Id m)) else if nws_Phase m = wpRefused then Some Idle else None)"
| "follows (WaitState m) (Preparing i) =
     (if nws_Id m \<noteq> i then None
      else if nws_Phase m = wpRunning then Some (Counting i (unat (nws_RemainingSeconds m)))
      else if nws_Phase m = wpFinished then Some Idle else None)"
| "follows (WaitState m) (Counting i n) =
     (if nws_Id m \<noteq> i then None
      else if nws_Phase m = wpProgress \<and> unat (nws_RemainingSeconds m) < n then Some (Counting i (unat (nws_RemainingSeconds m)))
      else if nws_Phase m = wpFinished then Some Idle else None)"

definition view_of :: "host_wait \<Rightarrow> wait_view" where
  "view_of s = (case hw_wait s of None \<Rightarrow> Idle
     | Some w \<Rightarrow> if wt_Running w then Counting (wt_Id w) (unat (wt_RemainingSeconds w)) else Preparing (wt_Id w))"

lemma told:
  assumes "distinct (connections p)" and "c \<in> set (connections p)" and "hw_wait s = Some w"
  obtains m where "to_conn c (wait_tell p calendar phase s) = [WaitState m]" "nws_Phase m = phase"
    "nws_Id m = wt_Id w" "nws_RemainingSeconds m = wt_RemainingSeconds w"
proof -
  have *: "to_conn c (map (\<lambda>d. (d, f d)) (connections p)) = [f c]" for f :: "conn \<Rightarrow> wait_message"
    by (rule to_conn_map [OF assms(1,2)])
  show thesis
    by (rule that, unfold wait_tell_def Let_def assms(3) option.case *, rule refl) simp_all
qed

lemma phases_apart: "wpPreparing \<noteq> wpRefused" "wpRunning \<noteq> wpFinished" "wpProgress \<noteq> wpFinished"
  "wpRunning \<noteq> wpProgress"
  by (simp_all add: phase_defs)

lemma wait_step_follows:
  assumes "distinct (connections p)" and "c \<in> set (connections p)"
  shows "accepts follows (to_conn c (snd (wait_step (p, calendar, e) s))) (view_of s) =
     Some (view_of (fst (wait_step (p, calendar, e) s)))"
proof -
  obtain s' out where step: "wait_step (p, calendar, e) s = (s', out)" by fastforce
  note here = told [OF assms, where calendar = calendar]
  have "accepts follows (to_conn c out) (view_of s) = Some (view_of s')"
  proof (cases "hw_wait s'")
    case None
    from step None show ?thesis
    proof (cases rule: wait_step_none)
      case (idle sender)
      then show ?thesis
        using None phases_apart by (auto simp: view_of_def to_conn_def refused_def)
    next
      case (ended w)
      show ?thesis
        by (rule here [OF ended(1), of wpFinished]) (use None ended phases_apart in \<open>auto simp: view_of_def\<close>)
    next
      case (counted w s1)
      show ?thesis
        by (rule here [OF counted(4), of wpProgress], rule here [OF counted(4), of wpFinished])
          (use None counted phases_apart in \<open>auto simp: view_of_def unat_gt_0 word_less_nat_alt\<close>)
    qed
  next
    case (Some w')
    from step Some show ?thesis
    proof (cases rule: wait_step_wait)
      case (started r sender)
      show ?thesis
        by (rule here [OF Some, of wpPreparing]) (use Some started in \<open>auto simp: view_of_def\<close>)
    next
      case (runs w r sender)
      show ?thesis
        by (rule here [OF Some, of wpRunning]) (use Some runs in \<open>auto simp: view_of_def\<close>)
    next
      case (progress w r sender)
      show ?thesis
        by (rule here [OF Some, of wpProgress]) (use Some progress in \<open>auto simp: view_of_def word_less_nat_alt\<close>)
    qed (auto simp: view_of_def to_conn_def)
  qed
  then show ?thesis by (simp add: step)
qed

interpretation wait_sim: simulation wait_step "\<lambda>_. True"
    "\<lambda>(p, calendar, e). distinct (connections p) \<and> c \<in> set (connections p)" "at_conn c follows" view_of for c
  by unfold_locales (auto simp: accepts_at_conn wait_step_follows simp del: wait_step.simps)

text \<open>
  C6: whatever the players ask, whoever comes and goes and however time passes, a game that stays in the
  session is told of one wait at a time: prepared, then counting, its seconds only going down, then finished
  once; and what it was told last is what the host's wait is.
\<close>

theorem wait_protocol:
  assumes "\<forall>(p, calendar, e) \<in> set es. distinct (connections p) \<and> c \<in> set (connections p)"
  shows "accepts follows (to_conn c (snd (wait_run es new_host_wait))) Idle = Some (view_of (fst (wait_run es new_host_wait)))"
  using wait_sim.run_accepted [where c = c and s = new_host_wait and es = es] assms
  by (simp add: list_all_iff accepts_at_conn view_of_def new_host_wait_def)

text \<open>A guest's 2-hour wait, one menu ready after the other, counted down and over.\<close>

lemma wait_protocol_witness:
  defines "p \<equiv> snd (players_add 9 ''Guest'' 3 False [] (snd (players_add 7 ''Host'' 5 True [] no_players)))"
    and "cal \<equiv> \<lparr>tm_TimeScale = 0, tm_Time = 0, tm_Year = 0, tm_Month = 0, tm_Day = 0, tm_DaysPassed = 0\<rparr>"
    and "r \<equiv> \<lparr>wr_Action = waStart, wr_Id = 0, wr_Hours = 2, wr_RemainingSeconds = 0, wr_Sleeping = True\<rparr>"
  shows "accepts follows (to_conn 9 (snd (wait_run [(p, cal, Updated 1000), (p, cal, Requested r 9),
      (p, cal, Requested (r\<lparr>wr_Action := waReady, wr_Id := 1\<rparr>) 7), (p, cal, Requested (r\<lparr>wr_Action := waReady, wr_Id := 1\<rparr>) 9),
      (p, cal, Requested (r\<lparr>wr_Action := waProgress, wr_Id := 1\<rparr>) 7)] new_host_wait))) Idle = Some Idle"
proof -
  have p: "connections p = [7, 9]" "players_host p = 7"
    by (simp_all add: p_def connections_def players_host_def players_add_def no_players_def Let_def)
  have "view_of (fst (wait_run [(p, cal, Updated 1000), (p, cal, Requested r 9),
      (p, cal, Requested (r\<lparr>wr_Action := waReady, wr_Id := 1\<rparr>) 7), (p, cal, Requested (r\<lparr>wr_Action := waReady, wr_Id := 1\<rparr>) 9),
      (p, cal, Requested (r\<lparr>wr_Action := waProgress, wr_Id := 1\<rparr>) 7)] new_host_wait)) = Idle"
    by (simp add: run_Cons wait_update_def wait_on_request_def new_host_wait_def r_def action_defs p wait_end_eq
        view_of_def Let_def insert_Diff_if case_prod_unfold)
  then show ?thesis
    using wait_protocol [of "[(p, cal, Updated 1000), (p, cal, Requested r 9),
      (p, cal, Requested (r\<lparr>wr_Action := waReady, wr_Id := 1\<rparr>) 7), (p, cal, Requested (r\<lparr>wr_Action := waReady, wr_Id := 1\<rparr>) 9),
      (p, cal, Requested (r\<lparr>wr_Action := waProgress, wr_Id := 1\<rparr>) 7)]" 9] by (simp add: p)
qed

section \<open>Nobody is hurried, nobody is stuck\<close>

definition is_ready :: "u32 \<Rightarrow> conn \<Rightarrow> host_players \<times> time_model \<times> wait_event \<Rightarrow> bool" where
  "is_ready i c e \<longleftrightarrow> (\<exists>p calendar r. e = (p, calendar, Requested r c) \<and> wr_Action r = waReady \<and> wr_Id r = i)"

text \<open>Where the current wait started, and who has been ready since.\<close>

definition since_start :: "(host_players \<times> time_model \<times> wait_event) list \<Rightarrow> wait \<Rightarrow> bool" where
  "since_start es w \<longleftrightarrow> (\<exists>pre p calendar r sender mid.
     es = pre @ (p, calendar, Requested r sender) # mid \<and> wr_Action r = waStart \<and> hw_wait (fst (wait_run pre new_host_wait)) = None \<and>
     wt_Hours w = wr_Hours r \<and> wt_Requester w = sender \<and> wt_Sleeping w = wr_Sleeping r \<and>
     wt_Pending w = set (connections p) - {c. \<exists>e \<in> set mid. is_ready (wt_Id w) c e} \<and> (wt_Running w \<longrightarrow> wt_Pending w = {}))"

lemma since_start_kept:
  assumes "since_start es w" and "wt_Id w' = wt_Id w" "wt_Hours w' = wt_Hours w" "wt_Requester w' = wt_Requester w"
    "wt_Sleeping w' = wt_Sleeping w" "wt_Pending w' = wt_Pending w - {c. is_ready (wt_Id w) c e}"
    "wt_Running w' \<longrightarrow> wt_Pending w' = {}"
  shows "since_start (es @ [e]) w'"
proof -
  obtain pre p calendar r sender mid where *: "es = pre @ (p, calendar, Requested r sender) # mid" "wr_Action r = waStart"
    "hw_wait (fst (wait_run pre new_host_wait)) = None" "wt_Hours w = wr_Hours r" "wt_Requester w = sender"
    "wt_Sleeping w = wr_Sleeping r" "wt_Pending w = set (connections p) - {c. \<exists>e \<in> set mid. is_ready (wt_Id w) c e}"
    using assms(1) unfolding since_start_def by blast
  show ?thesis
    unfolding since_start_def
    by (rule exI [of _ pre], rule exI [of _ p], rule exI [of _ calendar], rule exI [of _ r], rule exI [of _ sender],
        rule exI [of _ "mid @ [e]"]) (use * assms(2-) in auto)
qed

lemma since_start_run:
  "hw_wait (fst (wait_run es new_host_wait)) = Some w \<Longrightarrow> since_start es w"
proof (induction es arbitrary: w rule: rev_induct)
  case Nil
  then show ?case by (simp add: new_host_wait_def)
next
  case (snoc e es)
  let ?s = "fst (wait_run es new_host_wait)"
  obtain p calendar v where e: "e = (p, calendar, v)" by (metis surj_pair)
  obtain s' out where step: "wait_step (p, calendar, v) ?s = (s', out)" by fastforce
  have w: "hw_wait s' = Some w"
    using snoc.prems step by (simp add: run_snoc e)
  have ok: "wait_ok ?s"
    by (rule wait_ok_run) (simp add: wait_ok_def new_host_wait_def)
  have apart: "waReady \<noteq> waProgress" "waReady \<noteq> waStart"
    by (simp_all add: action_defs)
  from step w show ?case
  proof (cases rule: wait_step_wait)
    case (started r sender)
    have none: "{c. \<exists>e \<in> set []. is_ready (wt_Id w) c e} = {}" by simp
    show ?thesis
      unfolding since_start_def
      by (rule exI [of _ es], rule exI [of _ p], rule exI [of _ calendar], rule exI [of _ r], rule exI [of _ sender],
          rule exI [of _ "[]"]) (use started in \<open>simp add: e\<close>)
  next
    case (ready w0 r sender)
    show ?thesis
      by (rule since_start_kept [OF snoc.IH [OF ready(2)]]) (use ready in \<open>auto simp: is_ready_def e\<close>)
  next
    case (runs w0 r sender)
    show ?thesis
      by (rule since_start_kept [OF snoc.IH [OF runs(2)]]) (use runs in \<open>auto simp: is_ready_def e\<close>)
  next
    case (progress w0 r sender)
    show ?thesis
      by (rule since_start_kept [OF snoc.IH [OF progress(2)]])
        (use progress ok apart in \<open>auto simp: is_ready_def e wait_ok_def\<close>)
  next
    case (updated t)
    have "wt_Running w \<longrightarrow> wt_Pending w = {}"
      using ok updated(2) by (simp add: wait_ok_def)
    then show ?thesis
      using updated by (intro since_start_kept [OF snoc.IH [OF updated(2)]]) (auto simp: is_ready_def e)
  next
    case kept
    have "wt_Running w \<longrightarrow> wt_Pending w = {}"
      using ok kept(1) by (simp add: wait_ok_def)
    then show ?thesis
      using kept(5) by (intro since_start_kept [OF snoc.IH [OF kept(1)]]) (auto simp: is_ready_def e)
  qed
qed

text \<open>
  C23: the countdown never starts before every player that was in the session when the wait was
  asked for has said, for that wait, that its menu is ready; hours, requester and bed are those of the request.
\<close>

theorem wait_runs_when_all_ready:
  assumes "hw_wait (fst (wait_run es new_host_wait)) = Some w" and "wt_Running w"
  shows "\<exists>pre p calendar r sender mid. es = pre @ (p, calendar, Requested r sender) # mid \<and> wr_Action r = waStart \<and>
     hw_wait (fst (wait_run pre new_host_wait)) = None \<and>
     wt_Hours w = wr_Hours r \<and> wt_Requester w = sender \<and> wt_Sleeping w = wr_Sleeping r \<and>
     (\<forall>c \<in> set (connections p). \<exists>e \<in> set mid. is_ready (wt_Id w) c e)"
  using since_start_run [OF assms(1)] assms(2) unfolding since_start_def by blast

lemma wait_runs_when_all_ready_witness:
  defines "p \<equiv> snd (players_add 7 ''Host'' 5 True [] no_players)"
    and "cal \<equiv> \<lparr>tm_TimeScale = 0, tm_Time = 0, tm_Year = 0, tm_Month = 0, tm_Day = 0, tm_DaysPassed = 0\<rparr>"
    and "r \<equiv> \<lparr>wr_Action = waStart, wr_Id = 0, wr_Hours = 2, wr_RemainingSeconds = 0, wr_Sleeping = True\<rparr>"
  shows "\<exists>e \<in> set [(p, cal, Requested r 7), (p, cal, Requested (r\<lparr>wr_Action := waReady, wr_Id := 1\<rparr>) 7)]. is_ready 1 7 e"
proof -
  let ?es = "[(p, cal, Requested r 7), (p, cal, Requested (r\<lparr>wr_Action := waReady, wr_Id := 1\<rparr>) 7)]"
  have p: "connections p = [7]"
    by (simp add: p_def connections_def players_add_def no_players_def Let_def)
  have w: "\<exists>w. hw_wait (fst (wait_run ?es new_host_wait)) = Some w \<and> wt_Running w \<and> wt_Id w = 1"
    by (simp add: run_Cons wait_on_request_def new_host_wait_def r_def action_defs p Let_def)
  then obtain w where w: "hw_wait (fst (wait_run ?es new_host_wait)) = Some w" "wt_Running w" "wt_Id w = 1"
    by blast
  obtain pre q calendar r' sender mid where s: "?es = pre @ (q, calendar, Requested r' sender) # mid" "wr_Action r' = waStart"
      "\<forall>c \<in> set (connections q). \<exists>e \<in> set mid. is_ready (wt_Id w) c e"
    using wait_runs_when_all_ready [OF w(1,2)] by blast
  then have "q = p" "set mid \<subseteq> set ?es"
    by (auto simp: Cons_eq_append_conv)
  then show ?thesis
    using s(3) w(3) by (auto simp: p)
qed

section \<open>It ends\<close>

text \<open>
  The last tick a wait can see, if its ticks never go back: fifteen seconds for the menus, and for each second
  left to count.
\<close>

definition deadline :: "wait \<Rightarrow> nat" where
  "deadline w = unat (wt_LastActivity w) + 15000 * (1 + (if wt_Running w then 0 else 1) + unat (wt_RemainingSeconds w))"

definition in_time :: "host_wait \<Rightarrow> bool" where
  "in_time s \<longleftrightarrow> (\<forall>w. hw_wait s = Some w \<longrightarrow> unat (wt_LastActivity w) \<le> unat (hw_tick s) \<and>
     unat (hw_tick s) < unat (wt_LastActivity w) + 15000)"

fun ticks_on :: "u64 \<Rightarrow> (host_players \<times> time_model \<times> wait_event) list \<Rightarrow> bool" where
  "ticks_on t [] \<longleftrightarrow> True"
| "ticks_on t ((p, calendar, e) # es) \<longleftrightarrow> (case e of Updated t' \<Rightarrow> t \<le> t' \<and> ticks_on t' es | _ \<Rightarrow> ticks_on t es)"

lemma not_stalled:
  assumes "\<not> (t \<ge> a \<and> t - a \<ge> stall_ticks)" and "a \<le> (t :: u64)"
  shows "unat t < unat a + 15000"
  using assms by (simp add: stall_ticks_def word_le_nat_alt word_less_nat_alt unat_sub_if')

lemma in_time_step:
  assumes "wait_step (p, calendar, e) s = (s', out)" and "in_time s" and "\<And>t. e = Updated t \<Longrightarrow> hw_tick s \<le> t"
  shows "in_time s'"
    and "hw_wait s = Some w \<Longrightarrow> hw_wait s' = Some w' \<Longrightarrow> deadline w' \<le> deadline w"
proof -
  show "in_time s'"
    unfolding in_time_def
  proof (intro allI impI)
    fix w' assume "hw_wait s' = Some w'"
    from assms(1) this
    show "unat (wt_LastActivity w') \<le> unat (hw_tick s') \<and> unat (hw_tick s') < unat (wt_LastActivity w') + 15000"
    proof (cases rule: wait_step_wait)
      case (updated t)
      then have "wt_LastActivity w' \<le> t"
        using assms(2,3) by (force simp: in_time_def word_le_nat_alt)
      then show ?thesis
        using not_stalled [OF updated(5)] updated by (simp add: word_le_nat_alt)
    qed (use assms(2) in \<open>auto simp: in_time_def\<close>)
  qed
  show "deadline w' \<le> deadline w" if w: "hw_wait s = Some w" "hw_wait s' = Some w'"
  proof -
    have now: "unat (hw_tick s) < unat (wt_LastActivity w) + 15000"
      using assms(2) w(1) by (simp add: in_time_def)
    from assms(1) w(2) show ?thesis
    proof (cases rule: wait_step_wait)
      case (progress w0 r sender)
      then have "unat (wr_RemainingSeconds r) < unat (wt_RemainingSeconds w)"
        using w by (simp add: word_less_nat_alt)
      then show ?thesis
        using progress w now by (simp add: deadline_def)
    qed (use w now in \<open>auto simp: deadline_def\<close>)
  qed
qed

lemma wait_step_tick:
  "hw_tick (fst (wait_step (p, calendar, e) s)) = (case e of Updated t \<Rightarrow> t | _ \<Rightarrow> hw_tick s)"
  by (cases e) (auto simp: wait_on_request_def wait_update_def wait_on_player_left_def wait_on_player_entered_def
      wait_end_eq Let_def split: option.splits)

lemma ticks_on_Cons:
  "ticks_on (hw_tick s) (e # es) \<Longrightarrow> ticks_on (hw_tick (fst (wait_step e s))) es \<and> (\<forall>p c t. e = (p, c, Updated t) \<longrightarrow> hw_tick s \<le> t)"
  by (cases e) (auto simp: wait_step_tick split: wait_event.splits)

lemma ticks_on_append:
  "ticks_on (hw_tick s) (xs @ ys) \<Longrightarrow> ticks_on (hw_tick s) xs \<and> ticks_on (hw_tick (fst (wait_run xs s))) ys"
proof (induction xs arbitrary: s)
  case (Cons e xs)
  have "ticks_on (hw_tick (fst (wait_step e s))) (xs @ ys)"
    using ticks_on_Cons [of s e "xs @ ys"] Cons.prems by simp
  from Cons.IH [OF this] show ?case
    using Cons.prems by (cases e) (auto simp: run_Cons wait_step_tick split: wait_event.splits)
qed simp

lemma in_time_run: "in_time s \<Longrightarrow> ticks_on (hw_tick s) es \<Longrightarrow> in_time (fst (wait_run es s))"
proof (induction es arbitrary: s)
  case (Cons e es)
  obtain p calendar v where e: "e = (p, calendar, v)" by (metis surj_pair)
  have "in_time (fst (wait_step e s))"
    using in_time_step(1) [of p calendar v s] Cons.prems ticks_on_Cons [OF Cons.prems(2)] unfolding e
    by (metis prod.collapse)
  then show ?case
    using Cons.IH ticks_on_Cons [OF Cons.prems(2)] by (simp add: run_Cons)
qed simp

lemma wait_outlived:
  "in_time s \<Longrightarrow> hw_wait s = Some w \<Longrightarrow> ticks_on (hw_tick s) es \<Longrightarrow>
     \<forall>n. hw_wait (fst (wait_run (take n es) s)) \<noteq> None \<Longrightarrow>
     \<exists>w'. hw_wait (fst (wait_run es s)) = Some w' \<and> deadline w' \<le> deadline w"
proof (induction es arbitrary: s w)
  case (Cons e es)
  obtain p calendar v where e: "e = (p, calendar, v)" by (metis surj_pair)
  obtain s' out where step: "wait_step (p, calendar, v) s = (s', out)" by fastforce
  have later: "hw_wait (fst (wait_run (take n es) s')) \<noteq> None" for n
    using Cons.prems(4) [rule_format, of "Suc n"] step by (simp add: run_Cons e)
  obtain w1 where w1: "hw_wait s' = Some w1"
    using later [of 0] by auto
  have mono: "hw_tick s \<le> t" if "v = Updated t" for t
    using ticks_on_Cons [OF Cons.prems(3)] that by (simp add: e)
  have "ticks_on (hw_tick s') es"
    using ticks_on_Cons [OF Cons.prems(3)] step by (simp add: e)
  then obtain w' where "hw_wait (fst (wait_run es s')) = Some w'" "deadline w' \<le> deadline w1"
    using Cons.IH [OF in_time_step(1) [OF step Cons.prems(1) mono] w1] later by blast
  moreover have "deadline w1 \<le> deadline w"
    using in_time_step(2) [OF step Cons.prems(1) mono Cons.prems(2) w1] .
  ultimately show ?case
    using step by (auto simp: run_Cons e)
qed simp

text \<open>
  C22: whatever the players' games send or fail to send, while the host's clock does not go back, a wait ends:
  by the host's update fifteen seconds later for every second it had left, and thirty more, it has been over.
\<close>

theorem wait_ends:
  assumes "hw_wait (fst (wait_run pre new_host_wait)) = Some w"
    and "ticks_on 0 (pre @ es @ [(p, calendar, Updated t)])" and "deadline w \<le> unat t"
  shows "\<exists>n. hw_wait (fst (wait_run (take n (es @ [(p, calendar, Updated t)])) (fst (wait_run pre new_host_wait)))) = None"
proof (rule ccontr)
  let ?s = "fst (wait_run pre new_host_wait)" and ?es = "es @ [(p, calendar, Updated t)]"
  have ticks: "ticks_on (hw_tick new_host_wait) pre" "ticks_on (hw_tick ?s) ?es"
    using ticks_on_append [of new_host_wait pre ?es] assms(2) by (simp_all add: new_host_wait_def)
  have in_time: "in_time ?s" "in_time (fst (wait_run ?es ?s))"
    using in_time_run [of new_host_wait pre] in_time_run [of ?s ?es] ticks by (simp_all add: in_time_def new_host_wait_def)
  assume "\<nexists>n. hw_wait (fst (wait_run (take n ?es) ?s)) = None"
  then obtain w' where w': "hw_wait (fst (wait_run ?es ?s)) = Some w'" "deadline w' \<le> deadline w"
    using wait_outlived [OF in_time(1) assms(1) ticks(2)] by auto
  have "hw_tick (fst (wait_run ?es ?s)) = t"
    by (simp add: run_snoc wait_step_tick del: wait_step.simps)
  then have "unat t < unat (wt_LastActivity w') + 15000"
    using w'(1) in_time(2) by (simp add: in_time_def)
  then show False
    using w'(2) assms(3) by (simp add: deadline_def)
qed

text \<open>A one-hour wait whose menus never opened.\<close>

lemma wait_ends_witness:
  defines "p \<equiv> snd (players_add 7 ''Host'' 5 True [] no_players)"
    and "cal \<equiv> \<lparr>tm_TimeScale = 0, tm_Time = 0, tm_Year = 0, tm_Month = 0, tm_Day = 0, tm_DaysPassed = 0\<rparr>"
    and "r \<equiv> \<lparr>wr_Action = waStart, wr_Id = 0, wr_Hours = 1, wr_RemainingSeconds = 0, wr_Sleeping = False\<rparr>"
  shows "\<exists>n. hw_wait (fst (wait_run (take n ([] @ [(p, cal, Updated 54030000)]))
     (fst (wait_run [(p, cal, Requested r 7)] new_host_wait)))) = None"
proof -
  have "\<exists>w. hw_wait (fst (wait_run [(p, cal, Requested r 7)] new_host_wait)) = Some w \<and> deadline w \<le> 54030000"
    by (simp add: run_Cons wait_on_request_def new_host_wait_def r_def action_defs Let_def deadline_def)
  then obtain w where "hw_wait (fst (wait_run [(p, cal, Requested r 7)] new_host_wait)) = Some w" "deadline w \<le> 54030000"
    by blast
  then show ?thesis
    by (intro wait_ends) simp_all
qed

section \<open>The cells of a completed wait arrive\<close>

lemma split_rows_concat: "concat (split_rows rows) = rows"
  by (induction rows rule: split_rows.induct) (subst split_rows.simps, simp)

lemma split_rows_bound: "r \<in> set (split_rows rows) \<Longrightarrow> length r \<le> rows_per_message"
proof (induction rows rule: split_rows.induct)
  case (1 rows)
  then show ?case
    by (subst (asm) (2) split_rows.simps) (auto split: if_splits)
qed

lemma split_rows_some: "split_rows rows \<noteq> []"
  by (subst split_rows.simps) simp

lemma replies_rows: "map (\<lambda>m. noc_Changes (nww_State m)) (world_replies i cell rss) = rss"
  by (induction rss) auto

lemma replies_last: "map nww_Last (world_replies i cell rss) = replicate (length rss - 1) False @ (if rss = [] then [] else [True])"
proof (induction rss)
  case (Cons rs rss)
  then show ?case by (cases rss) auto
qed simp

lemma replies_one:
  "m \<in> set (world_replies i cell rss) \<Longrightarrow> nww_Id m = i \<and> noc_Cell (nww_State m) = cell \<and> noc_Changes (nww_State m) \<in> set rss"
  by (induction rss) auto

text \<open>
  Asked for a cell after the party's wait, the host answers its game's rows for the cell, each
  created container's contents after its row: what the guest reads from the messages, put together, is all of
  them in order, each message small enough for its reader, exactly the last one marked so.
\<close>

theorem world_refresh_arrives:
  assumes "hw_wait s = None" and "hw_completedId s \<noteq> 0" and "wwr_Id r = hw_completedId s" and "sender \<noteq> players_host p"
    and "read (cs_Cell (wwr_State r)) (cs_Changed (wwr_State r)) = Some cs"
    and "\<forall>c \<in> set (add_created contents cs). object_change_valid c"
  shows "\<exists>ms. wait_on_world_request p (Some read) (Some contents) r sender s = map (\<lambda>m. (sender, WaitWorld m)) ms \<and>
     (\<forall>m \<in> set ms. decode wait_world_deserialize (encode (wait_world_serialize m)) = m \<and> nww_Id m = wwr_Id r \<and>
        noc_Cell (nww_State m) = cs_Cell (wwr_State r)) \<and>
     concat (map (\<lambda>m. noc_Changes (nww_State m)) ms) = add_created contents cs \<and>
     map nww_Last ms = replicate (length ms - 1) False @ [True]"
proof -
  define ms where "ms = world_replies (wwr_Id r) (cs_Cell (wwr_State r)) (split_rows (add_created contents cs))"
  have "wait_world_valid m" if m: "m \<in> set ms" for m
  proof -
    have rs: "noc_Changes (nww_State m) \<in> set (split_rows (add_created contents cs))"
      using m replies_one unfolding ms_def by blast
    then have "set (noc_Changes (nww_State m)) \<subseteq> set (add_created contents cs)"
      using arg_cong [OF split_rows_concat [of "add_created contents cs"], of set] by auto
    with rs show ?thesis
      using split_rows_bound [OF rs] assms(6)
      by (auto simp: wait_world_valid_def object_changes_valid_def rows_per_message_def max_defs)
  qed
  then have "\<forall>m \<in> set ms. decode wait_world_deserialize (encode (wait_world_serialize m)) = m"
    using wait_world_wire.decode_encode by blast
  moreover have "length ms = length (split_rows (add_created contents cs))"
    unfolding ms_def by (metis length_map replies_rows)
  moreover have "map nww_Last ms = replicate (length ms - 1) False @ [True]"
    unfolding calculation(2) by (simp add: ms_def replies_last split_rows_some)
  moreover have "concat (map (\<lambda>m. noc_Changes (nww_State m)) ms) = add_created contents cs"
    by (simp add: ms_def replies_rows split_rows_concat)
  moreover have "\<forall>m \<in> set ms. nww_Id m = wwr_Id r \<and> noc_Cell (nww_State m) = cs_Cell (wwr_State r)"
    using replies_one unfolding ms_def by blast
  moreover have "wait_on_world_request p (Some read) (Some contents) r sender s = map (\<lambda>m. (sender, WaitWorld m)) ms"
    using assms(1-5) by (simp add: wait_on_world_request_def add_created_contents_def Let_def ms_def)
  ultimately show ?thesis by blast
qed

lemma world_refresh_arrives_witness:
  defines "c \<equiv> new_change\<lparr>oc_Type := kOwner, oc_Object := game_id_make 0 0x1A2B3, oc_Value := 1\<rparr>"
    and "r \<equiv> \<lparr>wwr_Id = 1, wwr_State = \<lparr>cs_Cell = game_id_make 0 0x16203, cs_Changed = []\<rparr>\<rparr>"
  shows "\<exists>ms. wait_on_world_request no_players (Some (\<lambda>_ _. Some [c])) (Some (\<lambda>_. None)) r 9
       (new_host_wait\<lparr>hw_completedId := 1\<rparr>) = map (\<lambda>m. (9, WaitWorld m)) ms \<and>
     concat (map (\<lambda>m. noc_Changes (nww_State m)) ms) = [c] \<and> map nww_Last ms = replicate (length ms - 1) False @ [True]"
proof -
  have "object_change_valid c"
    by (simp add: c_def object_change_valid_def new_change_def has_item_def has_data_def has_stacks_def kind_defs)
  moreover have "add_created (\<lambda>_. None) [c] = [c]"
    by simp
  ultimately show ?thesis
    using world_refresh_arrives [of "new_host_wait\<lparr>hw_completedId := 1\<rparr>" r 9 no_players "\<lambda>_ _. Some [c]" "[c]" "\<lambda>_. None"]
    by (auto simp: new_host_wait_def r_def players_host_def no_players_def)
qed

end
