(* ===== verification/Held_Bodies.thy ===== *)
theory Held_Bodies
  imports Host_Players Payloads
begin

text \<open>
  A guest's hand on the host's bodies (\<open>HostHands\<close>): pushes, holds, releases and its own ragdolls. Calls into
  the host's game and to the session's players are outputs, in order.
\<close>

section \<open>Bodies as keys\<close>

text \<open>\<open>BodyKey\<close>'s order, as \<open>std::map\<close> uses it.\<close>

instantiation body_key_ext :: (linorder) linorder
begin

definition less_eq_body_key_ext :: "'a body_key_ext \<Rightarrow> 'a body_key_ext \<Rightarrow> bool" where
  "a \<le> b \<longleftrightarrow> (gid_ModId (bk_Object a), gid_BaseId (bk_Object a), bk_Actor a, bk_Index a, body_key.more a) \<le>
     (gid_ModId (bk_Object b), gid_BaseId (bk_Object b), bk_Actor b, bk_Index b, body_key.more b)"

definition less_body_key_ext :: "'a body_key_ext \<Rightarrow> 'a body_key_ext \<Rightarrow> bool" where
  "a < b \<longleftrightarrow> (gid_ModId (bk_Object a), gid_BaseId (bk_Object a), bk_Actor a, bk_Index a, body_key.more a) <
     (gid_ModId (bk_Object b), gid_BaseId (bk_Object b), bk_Actor b, bk_Index b, body_key.more b)"

instance
proof
  fix a b c :: "'a body_key_ext"
  show "a < b \<longleftrightarrow> a \<le> b \<and> \<not> b \<le> a"
    unfolding less_eq_body_key_ext_def less_body_key_ext_def by (rule less_le_not_le)
  show "a \<le> a" unfolding less_eq_body_key_ext_def by simp
  show "a \<le> b \<Longrightarrow> b \<le> c \<Longrightarrow> a \<le> c"
    unfolding less_eq_body_key_ext_def by (rule order_trans)
  show "a \<le> b \<Longrightarrow> b \<le> a \<Longrightarrow> a = b"
    unfolding less_eq_body_key_ext_def
    by (drule (1) antisym) (cases a, cases b, cases "bk_Object a", cases "bk_Object b", simp)
  show "a \<le> b \<or> b \<le> a"
    unfolding less_eq_body_key_ext_def by (rule linear)
qed

end

lemma body_key_less_iff: "body_key_less a b \<longleftrightarrow> a < b"
  by (auto simp: body_key_less_def less_body_key_ext_def)

section \<open>Frames and holds\<close>

record body_frame =
  bf_Key :: body_key
  bf_Position :: vec3
  bf_Rotation :: quat
  bf_LinearVelocity :: vec3
  bf_AngularVelocity :: vec3
  bf_Gravity :: bool
  bf_Knocked :: bool

definition zero_vec3 :: vec3 where
  "zero_vec3 = \<lparr>v3_x = 0, v3_y = 0, v3_z = 0\<rparr>"

definition new_frame :: body_frame where
  "new_frame = \<lparr>bf_Key = \<lparr>bk_Object = no_id, bk_Actor = 0, bk_Index = 0\<rparr>, bf_Position = zero_vec3,
     bf_Rotation = \<lparr>q_x = 0, q_y = 0, q_z = 0, q_w = 0x3F800000\<rparr>, bf_LinearVelocity = zero_vec3,
     bf_AngularVelocity = zero_vec3, bf_Gravity = False, bf_Knocked = False\<rparr>"

text \<open>The payload of \<open>BodyFramesRequest\<close>, \<open>BodyReleaseRequest\<close> and \<open>NotifyBodyFrames\<close>.\<close>

record body_frames =
  bfs_Tick :: u64
  bfs_Frames :: "body_frame list"
  bfs_Held :: bool

record hold =
  hd_Holder :: conn
  hd_Last :: body_frame
  hd_Tick :: u64
  hd_At :: u64

record hands =
  hh_pushed :: "(body_key \<times> u64) list"
  hh_holds :: "(body_key \<times> hold) list"
  hh_released :: "(body_key \<times> u64) list"
  hh_ragdolls :: "(body_key \<times> u32) list"
  hh_tick :: u64

definition new_hands :: hands where
  "new_hands = \<lparr>hh_pushed = [], hh_holds = [], hh_released = [], hh_ragdolls = [], hh_tick = 0\<rparr>"

definition silent_ms :: u64 where "silent_ms = 2000"

text \<open>
  What it does outside: \<open>SendToOthers\<close> (frames unreliably, rests reliably) and the game's \<open>PushBody\<close> and
  \<open>FreeBody\<close>.
\<close>

datatype hands_out =
    FramesToOthers body_frames conn
  | RestsToOthers body_rests conn
  | PushesBody body_push
  | FreesBody body_frame u64

section \<open>The handlers\<close>

text \<open>\<open>owner\<close> is \<open>HostCharacters::OwnerOf\<close>: a character's connection, 0 for none.\<close>

definition owns_ragdoll :: "(u32 \<Rightarrow> conn) \<Rightarrow> body_key \<Rightarrow> conn \<Rightarrow> bool" where
  "owns_ragdoll owner k sender \<longleftrightarrow> bk_Actor k \<noteq> 0 \<and> owner (bk_Actor k) = sender"

text \<open>The game's \<open>PushBody\<close>, which may be missing, answers whether it has the body.\<close>

fun push_each :: "(body_push \<Rightarrow> bool) \<Rightarrow> body_push list \<Rightarrow> hands \<Rightarrow> hands \<times> hands_out list" where
  "push_each push [] h = (h, [])"
| "push_each push (x # xs) h =
     (if map_of (hh_holds h) (bpu_Key x) \<noteq> None then push_each push xs h
      else let h' = (if push x then h\<lparr>hh_pushed := map_put (bpu_Key x) (hh_tick h) (hh_pushed h)\<rparr> else h);
               (h'', out) = push_each push xs h'
           in (h'', PushesBody x # out))"

definition on_pushes :: "(body_push \<Rightarrow> bool) option \<Rightarrow> body_pushes \<Rightarrow> hands \<Rightarrow> hands \<times> hands_out list" where
  "on_pushes push_body msg h = (case push_body of None \<Rightarrow> (h, []) | Some push \<Rightarrow> push_each push (bpus_Pushes msg) h)"

definition take_held :: "body_frame \<Rightarrow> u64 \<Rightarrow> conn \<Rightarrow> hands \<Rightarrow> bool \<times> hands" where
  "take_held f tick sender h =
     (let k = bf_Key f; released = map_of (hh_released h) k
      in if released \<noteq> None \<and> tick \<le> the released then (False, h)
         else let h = (if released \<noteq> None then h\<lparr>hh_released := map_erase k (hh_released h)\<rparr> else h);
                  new = (map_of (hh_holds h) k = None);
                  h = h\<lparr>hh_holds := map_insert k \<lparr>hd_Holder = sender, hd_Last = new_frame, hd_Tick = 0, hd_At = 0\<rparr> (hh_holds h)\<rparr>;
                  it = the (map_of (hh_holds h) k)
              in if hd_Holder it \<noteq> sender then (False, h)
                 else if \<not> new \<and> tick < hd_Tick it then (False, h)
                 else (True, h\<lparr>hh_holds := map_put k (it\<lparr>hd_Last := f, hd_Tick := tick, hd_At := hh_tick h\<rparr>) (hh_holds h)\<rparr>))"

text \<open>\<open>OnHeld\<close>'s loop: the ragdolls' frames and the held ones, in order.\<close>

fun held_each :: "(u32 \<Rightarrow> conn) \<Rightarrow> u64 \<Rightarrow> conn \<Rightarrow> body_frame list \<Rightarrow> hands \<Rightarrow> body_frame list \<times> body_frame list \<times> hands" where
  "held_each owner tick sender [] h = ([], [], h)"
| "held_each owner tick sender (f # fs) h =
     (if bk_Actor (bf_Key f) \<noteq> 0 then
        (if \<not> owns_ragdoll owner (bf_Key f) sender then held_each owner tick sender fs h
         else let n = (case map_of (hh_ragdolls h) (bf_Key f) of None \<Rightarrow> 0 | Some n \<Rightarrow> n) + 1;
                  h = h\<lparr>hh_ragdolls := map_put (bf_Key f) n (hh_ragdolls h)\<rparr>;
                  (ragdolls, held, h) = held_each owner tick sender fs h
              in (f # ragdolls, held, h))
      else let (taken, h) = take_held f tick sender h;
               (ragdolls, held, h) = held_each owner tick sender fs h
           in (ragdolls, if taken then f # held else held, h))"

definition on_held :: "(u32 \<Rightarrow> conn) \<Rightarrow> body_frames \<Rightarrow> conn \<Rightarrow> hands \<Rightarrow> hands \<times> hands_out list" where
  "on_held owner msg sender h =
     (let (ragdolls, held, h) = held_each owner (bfs_Tick msg) sender (bfs_Frames msg) h
      in (h, (if ragdolls \<noteq> [] then [FramesToOthers \<lparr>bfs_Tick = bfs_Tick msg, bfs_Frames = ragdolls, bfs_Held = False\<rparr> sender] else []) @
             (if held \<noteq> [] then [FramesToOthers \<lparr>bfs_Tick = bfs_Tick msg, bfs_Frames = held, bfs_Held = True\<rparr> sender] else [])))"

fun rests_each :: "(u32 \<Rightarrow> conn) \<Rightarrow> conn \<Rightarrow> body_pose list \<Rightarrow> hands \<Rightarrow> body_pose list \<times> hands" where
  "rests_each owner sender [] h = ([], h)"
| "rests_each owner sender (x # xs) h =
     (if owns_ragdoll owner (bp_Key x) sender
      then let (rests, h) = rests_each owner sender xs (h\<lparr>hh_ragdolls := map_erase (bp_Key x) (hh_ragdolls h)\<rparr>)
           in (x # rests, h)
      else rests_each owner sender xs h)"

definition on_rests :: "(u32 \<Rightarrow> conn) \<Rightarrow> body_rests \<Rightarrow> conn \<Rightarrow> hands \<Rightarrow> hands \<times> hands_out list" where
  "on_rests owner msg sender h =
     (let (rests, h) = rests_each owner sender (bre_Rests msg) h
      in (h, if rests \<noteq> [] then [RestsToOthers \<lparr>bre_Tick = bre_Tick msg, bre_Rests = rests\<rparr> sender] else []))"

text \<open>\<open>Free\<close>: \<open>frees\<close> says whether the game has a \<open>FreeBody\<close>; what it answers is only logged.\<close>

definition free_hold :: "bool \<Rightarrow> body_frame \<Rightarrow> u64 \<Rightarrow> hands \<Rightarrow> hands \<times> hands_out list" where
  "free_hold frees f released_at h =
     (h\<lparr>hh_holds := map_erase (bf_Key f) (hh_holds h)\<rparr>,
      if frees then [FreesBody f (if released_at \<noteq> 0 then released_at else hh_tick h)] else [])"

fun release_each :: "bool \<Rightarrow> u64 \<Rightarrow> conn \<Rightarrow> body_frame list \<Rightarrow> hands \<Rightarrow> hands \<times> hands_out list" where
  "release_each frees tick sender [] h = (h, [])"
| "release_each frees tick sender (f # fs) h =
     (let k = bf_Key f; it = map_of (hh_holds h) k; last = map_of (hh_released h) k
      in if bk_Actor k \<noteq> 0 \<or> (it \<noteq> None \<and> (hd_Holder (the it) \<noteq> sender \<or> tick < hd_Tick (the it)))
         then release_each frees tick sender fs h
         else if last \<noteq> None \<and> tick \<le> the last then release_each frees tick sender fs h
         else let h = h\<lparr>hh_released := map_put k tick (hh_released h)\<rparr>;
                  (h, out) = free_hold frees f tick h;
                  (h, outs) = release_each frees tick sender fs h
              in (h, out @ outs))"

definition on_released :: "bool \<Rightarrow> body_frames \<Rightarrow> conn \<Rightarrow> hands \<Rightarrow> hands \<times> hands_out list" where
  "on_released frees msg sender h = release_each frees (bfs_Tick msg) sender (bfs_Frames msg) h"

text \<open>What is dropped stands still.\<close>

definition dropped :: "body_frame \<Rightarrow> body_frame" where
  "dropped f = f\<lparr>bf_LinearVelocity := zero_vec3, bf_AngularVelocity := zero_vec3\<rparr>"

fun drop_each :: "bool \<Rightarrow> body_frame list \<Rightarrow> hands \<Rightarrow> hands \<times> hands_out list" where
  "drop_each frees [] h = (h, [])"
| "drop_each frees (f # fs) h =
     (let (h, out) = free_hold frees (dropped f) 0 h; (h, outs) = drop_each frees fs h in (h, out @ outs))"

definition hands_update :: "bool \<Rightarrow> u64 \<Rightarrow> hands \<Rightarrow> hands \<times> hands_out list" where
  "hands_update frees tick h =
     (let h = h\<lparr>hh_tick := tick, hh_pushed := filter (\<lambda>(_, at). \<not> tick - at > 1000) (hh_pushed h)\<rparr>;
          silent = map (\<lambda>(_, x). hd_Last x) (filter (\<lambda>(_, x). tick - hd_At x > silent_ms) (hh_holds h))
      in drop_each frees silent h)"

definition hands_on_player_left :: "bool \<Rightarrow> (u32 \<Rightarrow> conn) \<Rightarrow> conn \<Rightarrow> hands \<Rightarrow> hands \<times> hands_out list" where
  "hands_on_player_left frees owner player h =
     (let h = h\<lparr>hh_ragdolls := filter (\<lambda>(k, _). owner (bk_Actor k) \<noteq> 0) (hh_ragdolls h)\<rparr>;
          held = map (\<lambda>(_, x). hd_Last x) (filter (\<lambda>(_, x). hd_Holder x = player) (hh_holds h))
      in drop_each frees held h)"

section \<open>What happens, and a body's life\<close>

text \<open>The game's answers and its owners may be others at every event.\<close>

datatype hands_event =
    Pushed "(body_push \<Rightarrow> bool) option" body_pushes
  | HeldFrames "u32 \<Rightarrow> conn" body_frames conn
  | Releases body_frames conn
  | Rested "u32 \<Rightarrow> conn" body_rests conn
  | Ticks u64
  | PlayerGone "u32 \<Rightarrow> conn" conn

fun hands_handle :: "hands_event \<Rightarrow> hands \<Rightarrow> hands \<times> hands_out list" where
  "hands_handle (Pushed push msg) h = on_pushes push msg h"
| "hands_handle (HeldFrames owner msg sender) h = on_held owner msg sender h"
| "hands_handle (Releases msg sender) h = on_released True msg sender h"
| "hands_handle (Rested owner msg sender) h = on_rests owner msg sender h"
| "hands_handle (Ticks t) h = hands_update True t h"
| "hands_handle (PlayerGone owner c) h = hands_on_player_left True owner c h"

text \<open>
  One body's life, for itself. Free, it may have been let go at a tick; held, there is its holder with its last
  frame, that frame's tick and when it came. What is sent about it: a frame shown to the others (as held, or a
  ragdoll's), a ragdoll's rest, a push given to the host's body, and the body given back to the host's game.
\<close>

datatype body_view = Free "u64 option" | HeldBy hold

datatype body_out = Shown bool u64 conn body_frame | Rests u64 conn body_pose | Shoved body_push | Given_Back body_frame u64

definition view_body :: "body_key \<Rightarrow> hands \<Rightarrow> body_view" where
  "view_body k h = (case map_of (hh_holds h) k of Some x \<Rightarrow> HeldBy x | None \<Rightarrow> Free (map_of (hh_released h) k))"

fun about_body :: "body_key \<Rightarrow> hands_out \<Rightarrow> body_out list" where
  "about_body k (FramesToOthers m c) = map (Shown (bfs_Held m) (bfs_Tick m) c) (filter (\<lambda>f. bf_Key f = k) (bfs_Frames m))"
| "about_body k (RestsToOthers m c) = map (Rests (bre_Tick m) c) (filter (\<lambda>r. bp_Key r = k) (bre_Rests m))"
| "about_body k (PushesBody x) = (if bpu_Key x = k then [Shoved x] else [])"
| "about_body k (FreesBody f t) = (if bf_Key f = k then [Given_Back f t] else [])"

definition about :: "body_key \<Rightarrow> hands_out list \<Rightarrow> body_out list" where
  "about k out = concat (map (about_body k) out)"

lemma about_simps [simp]: "about k [] = []" "about k (x # out) = about_body k x @ about k out" "about k (out @ out') = about k out @ about k out'"
  by (simp_all add: about_def)

text \<open>
  The specification. Whose frame or release counts: anyone's of a free body, after the tick it was let go at; of
  a held one only its holder's, none older than the last.
\<close>

definition may_take :: "body_view \<Rightarrow> conn \<Rightarrow> u64 \<Rightarrow> bool" where
  "may_take v c t = (case v of Free r \<Rightarrow> r = None \<or> the r < t | HeldBy x \<Rightarrow> hd_Holder x = c \<and> hd_Tick x \<le> t)"

text \<open>The holder is gone or silent: the body stands still where it was last held.\<close>

definition let_fall :: "bool \<Rightarrow> u64 \<Rightarrow> hold \<Rightarrow> (u64 \<times> body_view) \<times> body_out list" where
  "let_fall falls now x = (if falls then ((now, Free None), [Given_Back (dropped (hd_Last x)) now]) else ((now, HeldBy x), []))"

fun body_step :: "body_key \<Rightarrow> hands_event \<Rightarrow> u64 \<times> body_view \<Rightarrow> (u64 \<times> body_view) \<times> body_out list" where
  "body_step k (Pushed push msg) (now, v) =
     ((now, v), case (push, v) of (Some _, Free _) \<Rightarrow> map Shoved (filter (\<lambda>x. bpu_Key x = k) (bpus_Pushes msg)) | _ \<Rightarrow> [])"
| "body_step k (HeldFrames owner msg c) (now, v) =
     (let mine = filter (\<lambda>f. bf_Key f = k) (bfs_Frames msg)
      in if bk_Actor k \<noteq> 0 then ((now, v), if owner (bk_Actor k) = c then map (Shown False (bfs_Tick msg) c) mine else [])
         else if mine = [] \<or> \<not> may_take v c (bfs_Tick msg) then ((now, v), [])
         else ((now, HeldBy \<lparr>hd_Holder = c, hd_Last = last mine, hd_Tick = bfs_Tick msg, hd_At = now\<rparr>),
               map (Shown True (bfs_Tick msg) c) mine))"
| "body_step k (Releases msg c) (now, v) =
     (let mine = filter (\<lambda>f. bf_Key f = k) (bfs_Frames msg)
      in if bk_Actor k \<noteq> 0 \<or> mine = [] \<or> \<not> may_take v c (bfs_Tick msg) then ((now, v), [])
         else ((now, Free (Some (bfs_Tick msg))), [Given_Back (hd mine) (if bfs_Tick msg \<noteq> 0 then bfs_Tick msg else now)]))"
| "body_step k (Rested owner msg c) (now, v) =
     ((now, v), if owns_ragdoll owner k c then map (Rests (bre_Tick msg) c) (filter (\<lambda>r. bp_Key r = k) (bre_Rests msg)) else [])"
| "body_step k (Ticks t) (now, v) = (case v of Free r \<Rightarrow> ((t, v), []) | HeldBy x \<Rightarrow> let_fall (t - hd_At x > silent_ms) t x)"
| "body_step k (PlayerGone owner c) (now, v) = (case v of Free r \<Rightarrow> ((now, v), []) | HeldBy x \<Rightarrow> let_fall (hd_Holder x = c) now x)"

section \<open>The handlers follow it\<close>

definition hands_ok :: "hands \<Rightarrow> bool" where
  "hands_ok h \<longleftrightarrow> ordered (hh_holds h) \<and> ordered (hh_released h) \<and>
     (\<forall>k x. map_of (hh_holds h) k = Some x \<longrightarrow> bf_Key (hd_Last x) = k \<and> bk_Actor k = 0 \<and> map_of (hh_released h) k = None)"

lemma hands_okD:
  "hands_ok h \<Longrightarrow> ordered (hh_holds h)" "hands_ok h \<Longrightarrow> ordered (hh_released h)"
  "hands_ok h \<Longrightarrow> map_of (hh_holds h) k = Some x \<Longrightarrow> bf_Key (hd_Last x) = k \<and> bk_Actor k = 0 \<and> map_of (hh_released h) k = None"
  by (auto simp: hands_ok_def)

lemmas map_ops = map_of_put map_of_erase std_map.insert_lookup ordered_put ordered_erase std_map.insert_inv

lemma take_held_life:
  assumes "hands_ok h" and "bk_Actor (bf_Key f) = 0" and "take_held f tick sender h = (taken, h')"
  shows "hands_ok h' \<and> hh_tick h' = hh_tick h \<and> (taken \<longleftrightarrow> may_take (view_body (bf_Key f) h) sender tick) \<and>
    (\<forall>k. view_body k h' = (if k = bf_Key f \<and> taken
       then HeldBy \<lparr>hd_Holder = sender, hd_Last = f, hd_Tick = tick, hd_At = hh_tick h\<rparr> else view_body k h))"
proof (cases "map_of (hh_holds h) (bf_Key f)")
  case None
  then show ?thesis
    using assms(2,3) assms(1) [unfolded hands_ok_def]
    by (auto simp: take_held_def Let_def view_body_def may_take_def hands_ok_def map_ops not_le
        simp del: map_of_eq_Some_iff split: if_splits option.split)
next
  case (Some x)
  then have "map_of (hh_released h) (bf_Key f) = None"
    using hands_okD(3) [OF assms(1)] by blast
  then show ?thesis
    using Some assms(2,3) assms(1) [unfolded hands_ok_def]
    by (cases x) (auto simp: take_held_def Let_def view_body_def may_take_def hands_ok_def map_ops not_less
        simp del: map_of_eq_Some_iff split: if_splits option.split)
qed

text \<open>What \<open>OnHeld\<close>'s loop makes of one body's frames: all of them, or none.\<close>

definition held_ends :: "body_key \<Rightarrow> u64 \<Rightarrow> conn \<Rightarrow> body_frame list \<Rightarrow> u64 \<Rightarrow> body_view \<Rightarrow> body_frame list \<times> body_view" where
  "held_ends k tick sender mine now v =
     (if bk_Actor k \<noteq> 0 \<or> mine = [] \<or> \<not> may_take v sender tick then ([], v)
      else (mine, HeldBy \<lparr>hd_Holder = sender, hd_Last = last mine, hd_Tick = tick, hd_At = now\<rparr>))"

lemma held_each_life:
  "held_each owner tick sender fs h = (ragdolls, held, h') \<Longrightarrow> hands_ok h \<Longrightarrow>
     hands_ok h' \<and> hh_tick h' = hh_tick h \<and>
     filter (\<lambda>f. bf_Key f = k) ragdolls = (if owns_ragdoll owner k sender then filter (\<lambda>f. bf_Key f = k) fs else []) \<and>
     (filter (\<lambda>f. bf_Key f = k) held, view_body k h') =
       held_ends k tick sender (filter (\<lambda>f. bf_Key f = k) fs) (hh_tick h) (view_body k h)"
proof (induction fs arbitrary: h ragdolls held h')
  case Nil
  then show ?case by (simp add: held_ends_def)
next
  case (Cons f fs)
  show ?case
  proof (cases "bk_Actor (bf_Key f) = 0")
    case True
    obtain taken h1 where 1: "take_held f tick sender h = (taken, h1)" by fastforce
    obtain r' held' h2 where e: "held_each owner tick sender fs h1 = (r', held', h2)" by (metis surj_pair)
    note life = take_held_life [OF Cons.prems(2) True 1]
    have IH: "hands_ok h2 \<and> hh_tick h2 = hh_tick h1 \<and>
       filter (\<lambda>f. bf_Key f = k) r' = (if owns_ragdoll owner k sender then filter (\<lambda>f. bf_Key f = k) fs else []) \<and>
       (filter (\<lambda>f. bf_Key f = k) held', view_body k h2) =
         held_ends k tick sender (filter (\<lambda>f. bf_Key f = k) fs) (hh_tick h1) (view_body k h1)"
      using Cons.IH [OF e] life by blast
    have results: "held = (if taken then f # held' else held')" "h' = h2" "ragdolls = r'"
      using Cons.prems(1) True 1 e by (auto simp: Let_def)
    have no_ragdoll: "k = bf_Key f \<Longrightarrow> \<not> owns_ragdoll owner k sender"
      using True by (simp add: owns_ragdoll_def)
    show ?thesis
      using IH life no_ragdoll True unfolding results
      by (cases "k = bf_Key f"; cases taken) (auto simp: held_ends_def may_take_def split: if_splits)
  next
    case False
    let ?h = "h\<lparr>hh_ragdolls := map_put (bf_Key f) ((case map_of (hh_ragdolls h) (bf_Key f) of None \<Rightarrow> 0 | Some n \<Rightarrow> n) + 1) (hh_ragdolls h)\<rparr>"
    have same: "hands_ok ?h" "view_body k ?h = view_body k h" "hh_tick ?h = hh_tick h"
      using Cons.prems(2) by (simp_all add: hands_ok_def view_body_def split: option.split)
    show ?thesis
    proof (cases "owns_ragdoll owner (bf_Key f) sender")
      case True
      obtain r' held' h2 where e: "held_each owner tick sender fs ?h = (r', held', h2)" by (metis surj_pair)
      then have "held = held'" "h' = h2" "ragdolls = f # r'"
        using Cons.prems(1) False True by (auto simp: Let_def)
      then show ?thesis
        using Cons.IH [OF e same(1)] False True unfolding same(2,3) by (auto simp: held_ends_def)
    next
      case no: False
      then show ?thesis
        using Cons.IH [of h ragdolls held h'] Cons.prems False by (auto simp: held_ends_def)
    qed
  qed
qed

definition release_ends :: "body_key \<Rightarrow> u64 \<Rightarrow> conn \<Rightarrow> body_frame list \<Rightarrow> u64 \<Rightarrow> body_view \<Rightarrow> body_view \<times> body_out list" where
  "release_ends k tick sender mine now v =
     (if bk_Actor k \<noteq> 0 \<or> mine = [] \<or> \<not> may_take v sender tick then (v, [])
      else (Free (Some tick), [Given_Back (hd mine) (if tick \<noteq> 0 then tick else now)]))"

lemma release_each_life:
  "release_each True tick sender fs h = (h', out) \<Longrightarrow> hands_ok h \<Longrightarrow>
     hands_ok h' \<and> hh_tick h' = hh_tick h \<and>
     (view_body k h', about k out) = release_ends k tick sender (filter (\<lambda>f. bf_Key f = k) fs) (hh_tick h) (view_body k h)"
proof (induction fs arbitrary: h h' out)
  case Nil
  then show ?case by (simp add: release_ends_def)
next
  case (Cons f fs)
  let ?k = "bf_Key f"
  let ?skip = "bk_Actor ?k \<noteq> 0 \<or>
    (map_of (hh_holds h) ?k \<noteq> None \<and> (hd_Holder (the (map_of (hh_holds h) ?k)) \<noteq> sender \<or> tick < hd_Tick (the (map_of (hh_holds h) ?k)))) \<or>
    (map_of (hh_released h) ?k \<noteq> None \<and> tick \<le> the (map_of (hh_released h) ?k))"
  note ok = hands_okD [OF Cons.prems(2)]
  have skip: "?skip \<longleftrightarrow> bk_Actor ?k \<noteq> 0 \<or> \<not> may_take (view_body ?k h) sender tick"
    using ok(3) [of ?k] by (auto simp: may_take_def view_body_def not_le not_less simp del: map_of_eq_Some_iff split: option.splits)
  show ?case
  proof (cases ?skip)
    case True
    then have "release_each True tick sender fs h = (h', out)"
      using Cons.prems(1) by (auto simp: Let_def split: if_splits)
    then show ?thesis
      using Cons.IH [of h h' out] Cons.prems(2) skip True by (auto simp: release_ends_def)
  next
    case False
    let ?h = "h\<lparr>hh_released := map_put ?k tick (hh_released h), hh_holds := map_erase ?k (hh_holds h)\<rparr>"
    obtain out' where o: "release_each True tick sender fs ?h = (h', out')"
        "out = FreesBody f (if tick \<noteq> 0 then tick else hh_tick h) # out'"
      using Cons.prems(1) False by (auto simp: Let_def free_hold_def split: prod.splits)
    have ok': "hands_ok ?h"
      using Cons.prems(2) unfolding hands_ok_def
      by (auto simp: map_ops simp del: map_of_eq_Some_iff split: if_splits)
    have view: "view_body k ?h = (if k = ?k then Free (Some tick) else view_body k h)"
      using ok by (simp add: view_body_def map_ops split: option.split)
    have take: "bk_Actor ?k = 0" "may_take (view_body ?k h) sender tick" "\<not> may_take (Free (Some tick)) sender tick"
      using False skip by (auto simp: may_take_def)
    show ?thesis
      using Cons.IH [OF o(1) ok'] take unfolding o(2) view
      by (cases "k = ?k") (auto simp: release_ends_def)
  qed
qed

lemma drop_each_parts:
  "hh_holds (fst (drop_each True fs h)) = filter (\<lambda>(k, _). k \<notin> bf_Key ` set fs) (hh_holds h) \<and>
   hh_released (fst (drop_each True fs h)) = hh_released h \<and>
   hh_tick (fst (drop_each True fs h)) = hh_tick h \<and>
   snd (drop_each True fs h) = map (\<lambda>f. FreesBody (dropped f) (hh_tick h)) fs"
proof (induction fs arbitrary: h)
  case (Cons f fs)
  have e: "(\<lambda>(k, v). k \<notin> bf_Key ` set (f # fs)) = (\<lambda>x. (case x of (k, v) \<Rightarrow> k \<notin> bf_Key ` set fs) \<and> (case x of (k, v) \<Rightarrow> k \<noteq> bf_Key f))"
    by auto
  show ?case
    using Cons [of "h\<lparr>hh_holds := map_erase (bf_Key f) (hh_holds h)\<rparr>"]
    unfolding e by (simp add: Let_def case_prod_unfold free_hold_def dropped_def map_erase_def conj_commute)
qed simp

lemma map_of_filter_keys: "map_of (filter (\<lambda>(k, _). P k) m) k = (if P k then map_of m k else None)"
  by (induction m) auto

text \<open>What a silent holder held, or a player who left, and nothing else.\<close>

lemma one_of_key: "distinct (map fst m) \<Longrightarrow> map_of m k = Some x \<Longrightarrow> filter (\<lambda>(k', _). k' = k) m = [(k, x)]"
proof (induction m)
  case (Cons a m)
  obtain k' y where a: "a = (k', y)" by (cases a)
  show ?case
  proof (cases "k' = k")
    case True
    then have "filter (\<lambda>(k', _). k' = k) m = []"
      using Cons.prems(1) by (force simp: a filter_empty_conv)
    with True Cons.prems show ?thesis by (simp add: a)
  qed (use Cons in \<open>simp add: a\<close>)
qed simp

lemma drop_life:
  assumes ok: "hands_ok h" and h': "hh_holds h' = hh_holds h" "hh_released h' = hh_released h"
    and fs: "fs = map (\<lambda>(_, x). hd_Last x) (filter (\<lambda>(_, x). P x) (hh_holds h))"
    and run: "drop_each True fs h' = (h'', out)"
  shows "hands_ok h''" and "map_of (hh_holds h'') k = (case map_of (hh_holds h) k of None \<Rightarrow> None | Some x \<Rightarrow> if P x then None else Some x)"
    and "((hh_tick h'', view_body k h''), about k out) = (case view_body k h of
      Free r \<Rightarrow> ((hh_tick h', Free r), []) | HeldBy x \<Rightarrow> let_fall (P x) (hh_tick h') x)"
proof -
  note okD = hands_okD [OF ok]
  have dist: "distinct (map fst (hh_holds h))"
    using okD(1) by (simp add: ordered_def strict_sorted_iff)
  have keyed: "bf_Key (hd_Last x) = k'" if "(k', x) \<in> set (hh_holds h)" for k' x
    using okD(3) [of k' x] dist that by simp
  have mine: "filter (\<lambda>f. bf_Key f = k) fs = (case map_of (hh_holds h) k of None \<Rightarrow> [] | Some x \<Rightarrow> if P x then [hd_Last x] else [])" for k
  proof -
    have "filter (\<lambda>f. bf_Key f = k) fs = map (\<lambda>(_, x). hd_Last x) (filter (\<lambda>(_, x). P x) (filter (\<lambda>(k', _). k' = k) (hh_holds h)))"
      unfolding fs filter_map filter_filter comp_def
      by (intro arg_cong [of _ _ "map _"] filter_cong) (auto simp: keyed)
    moreover have "filter (\<lambda>(k', _). k' = k) (hh_holds h) = (case map_of (hh_holds h) k of None \<Rightarrow> [] | Some x \<Rightarrow> [(k, x)])"
    proof (cases "map_of (hh_holds h) k")
      case None
      then have "k \<notin> fst ` set (hh_holds h)"
        by (simp only: map_of_eq_None_iff) simp
      then show ?thesis
        using None by (force simp: filter_empty_conv)
    qed (simp add: one_of_key [OF dist])
    ultimately show ?thesis
      by (simp only:) (simp split: option.split)
  qed
  have keys: "k \<in> bf_Key ` set fs \<longleftrightarrow> (\<exists>x. map_of (hh_holds h) k = Some x \<and> P x)" for k
  proof -
    have "k \<in> bf_Key ` set fs \<longleftrightarrow> filter (\<lambda>f. bf_Key f = k) fs \<noteq> []"
      by (auto simp: filter_empty_conv)
    then show ?thesis
      unfolding mine by (auto simp del: map_of_eq_Some_iff split: option.split)
  qed
  note parts = drop_each_parts [of fs h', unfolded run fst_conv snd_conv h']
  have about: "about k (map (\<lambda>f. FreesBody (dropped f) t) fs) = map (\<lambda>f. Given_Back (dropped f) t) (filter (\<lambda>f. bf_Key f = k) fs)" for t fs
    by (induction fs) (auto simp: dropped_def)
  have h: "map_of (hh_holds h'') k = (if k \<in> bf_Key ` set fs then None else map_of (hh_holds h) k)" for k
    using parts by (simp add: map_of_filter_keys)
  then show "map_of (hh_holds h'') k = (case map_of (hh_holds h) k of None \<Rightarrow> None | Some x \<Rightarrow> if P x then None else Some x)"
    unfolding keys by (auto split: option.split)
  show "hands_ok h''"
    unfolding hands_ok_def h using parts okD
    by (auto simp: ordered_def sorted_wrt_map sorted_wrt_filter simp del: map_of_eq_Some_iff split: if_splits)
  show "((hh_tick h'', view_body k h''), about k out) = (case view_body k h of
      Free r \<Rightarrow> ((hh_tick h', Free r), []) | HeldBy x \<Rightarrow> let_fall (P x) (hh_tick h') x)"
    unfolding view_body_def h keys using parts okD(3) [of k]
    by (auto simp: about mine let_fall_def simp del: map_of_eq_Some_iff split: option.split)
qed

lemma push_each_life:
  "push_each push xs h = (h', out) \<Longrightarrow> hh_holds h' = hh_holds h \<and> hh_released h' = hh_released h \<and> hh_tick h' = hh_tick h \<and>
     about k out = (if map_of (hh_holds h) k = None then map Shoved (filter (\<lambda>x. bpu_Key x = k) xs) else [])"
proof (induction xs arbitrary: h h' out)
  case (Cons x xs)
  show ?case
  proof (cases "map_of (hh_holds h) (bpu_Key x)")
    case None
    let ?h = "if push x then h\<lparr>hh_pushed := map_put (bpu_Key x) (hh_tick h) (hh_pushed h)\<rparr> else h"
    obtain h1 out1 where 1: "push_each push xs ?h = (h1, out1)" by fastforce
    then have "h' = h1" "out = PushesBody x # out1"
      using Cons.prems None by (auto simp: Let_def)
    then show ?thesis
      using Cons.IH [OF 1] None by auto
  next
    case (Some y)
    then show ?thesis
      using Cons.IH [of h h' out] Cons.prems by auto
  qed
qed simp

lemma rests_each_life:
  "rests_each owner sender xs h = (rests, h') \<Longrightarrow>
     hh_holds h' = hh_holds h \<and> hh_released h' = hh_released h \<and> hh_tick h' = hh_tick h \<and>
     filter (\<lambda>r. bp_Key r = k) rests = (if owns_ragdoll owner k sender then filter (\<lambda>r. bp_Key r = k) xs else [])"
proof (induction xs arbitrary: h rests h')
  case (Cons x xs)
  show ?case
  proof (cases "owns_ragdoll owner (bp_Key x) sender")
    case True
    let ?h = "h\<lparr>hh_ragdolls := map_erase (bp_Key x) (hh_ragdolls h)\<rparr>"
    obtain r1 h1 where 1: "rests_each owner sender xs ?h = (r1, h1)" by fastforce
    then have "rests = x # r1" "h' = h1"
      using Cons.prems True by auto
    then show ?thesis
      using Cons.IH [OF 1] True by auto
  next
    case False
    then show ?thesis
      using Cons.IH [of h rests h'] Cons.prems by auto
  qed
qed simp

lemma same_maps:
  "hh_holds h' = hh_holds h \<Longrightarrow> hh_released h' = hh_released h \<Longrightarrow>
     view_body k h' = view_body k h \<and> hands_ok h' = hands_ok h"
  by (simp add: view_body_def hands_ok_def split: option.split)

lemma hands_handle_life:
  assumes "hands_ok h"
  shows "hands_ok (fst (hands_handle e h))"
    and "body_step k e (hh_tick h, view_body k h) =
      ((hh_tick (fst (hands_handle e h)), view_body k (fst (hands_handle e h))), about k (snd (hands_handle e h)))"
proof -
  obtain h' out where run: "hands_handle e h = (h', out)" by fastforce
  have "hands_ok h' \<and> body_step k e (hh_tick h, view_body k h) = ((hh_tick h', view_body k h'), about k out)"
  proof (cases e)
    case e: (Pushed push msg)
    show ?thesis
    proof (cases push)
      case (Some p)
      then have "push_each p (bpus_Pushes msg) h = (h', out)"
        using run by (simp add: e on_pushes_def)
      note life = push_each_life [OF this, of k]
      then have "view_body k h' = view_body k h" "hands_ok h' = hands_ok h"
        using same_maps [of h' h k] by simp_all
      then show ?thesis
        using assms life by (auto simp: e Some view_body_def simp del: map_of_eq_Some_iff split: option.split)
    qed (use assms run in \<open>simp add: e on_pushes_def\<close>)
  next
    case e: (HeldFrames owner msg sender)
    obtain ragdolls held h1 where h: "held_each owner (bfs_Tick msg) sender (bfs_Frames msg) h = (ragdolls, held, h1)"
      by (metis surj_pair)
    have h1: "h' = h1" and out: "about k out = map (Shown False (bfs_Tick msg) sender) (filter (\<lambda>f. bf_Key f = k) ragdolls) @
        map (Shown True (bfs_Tick msg) sender) (filter (\<lambda>f. bf_Key f = k) held)"
      using run by (auto simp: e on_held_def h)
    show ?thesis
      using held_each_life [OF h assms, of k] unfolding e out h1
      by (auto simp: held_ends_def owns_ragdoll_def Let_def split: if_splits)
  next
    case e: (Releases msg sender)
    then show ?thesis
      using release_each_life [of "bfs_Tick msg" sender "bfs_Frames msg" h h' out k] run assms
      by (auto simp: on_released_def release_ends_def Let_def split: if_splits)
  next
    case e: (Rested owner msg sender)
    obtain rests h1 where h: "rests_each owner sender (bre_Rests msg) h = (rests, h1)" by fastforce
    have h1: "h' = h1" and out: "about k out = map (Rests (bre_Tick msg) sender) (filter (\<lambda>r. bp_Key r = k) rests)"
      using run by (auto simp: e on_rests_def h)
    show ?thesis
      using rests_each_life [OF h, of k] same_maps [of h1 h k] assms unfolding e out h1 by simp
  next
    case e: (Ticks t)
    let ?h = "h\<lparr>hh_tick := t, hh_pushed := filter (\<lambda>(_, at). \<not> t - at > 1000) (hh_pushed h)\<rparr>"
    have d: "drop_each True (map (\<lambda>(_, x). hd_Last x) (filter (\<lambda>(_, x). t - hd_At x > silent_ms) (hh_holds h))) ?h = (h', out)"
      using run by (simp add: e hands_update_def Let_def)
    note life = drop_life [OF assms, of ?h, OF _ _ refl d, simplified]
    show ?thesis
      using life(1) life(3) [of k] by (simp add: e split: body_view.split)
  next
    case e: (PlayerGone owner c)
    let ?h = "h\<lparr>hh_ragdolls := filter (\<lambda>(k, _). owner (bk_Actor k) \<noteq> 0) (hh_ragdolls h)\<rparr>"
    have d: "drop_each True (map (\<lambda>(_, x). hd_Last x) (filter (\<lambda>(_, x). hd_Holder x = c) (hh_holds h))) ?h = (h', out)"
      using run by (simp add: e hands_on_player_left_def Let_def)
    note life = drop_life [OF assms, of ?h, OF _ _ refl d, simplified]
    show ?thesis
      using life(1) life(3) [of k] by (simp add: e split: body_view.split)
  qed
  then show "hands_ok (fst (hands_handle e h))"
    "body_step k e (hh_tick h, view_body k h) =
      ((hh_tick (fst (hands_handle e h)), view_body k (fst (hands_handle e h))), about k (snd (hands_handle e h)))"
    by (simp_all add: run)
qed

interpretation hands_spec: refinement hands_handle hands_ok "body_step k" "\<lambda>h. (hh_tick h, view_body k h)" "about k" for k
  by unfold_locales (simp_all add: hands_handle_life)

lemma hands_ok_new: "hands_ok new_hands"
  by (simp add: hands_ok_def new_hands_def ordered_def)

text \<open>
  C24: whatever the guests' games send, in whatever order, each body's life, and all that is sent about it,
  is that of its own specification, which knows no other body. Free, it goes to the first whose frame comes, if that is
  not of a time before it was last let go. Held, every frame of its holder that is not older than the last is shown to
  the others, and nobody else's is; pushes of it are not passed to the host's game, as those of a free body are. The
  game is given it back once, where it was last: when its holder lets it go, with the tick of that; when the
  holder leaves, or at an update more than 2000 ms after its last frame came, standing still; and at no other time.
  A ragdoll's frames and rests are its owner's, and shown to the others.
\<close>

theorem bodies_have_one_holder:
  "run (body_step k) es (0, Free None) =
     (let (h, out) = run hands_handle es new_hands in ((hh_tick h, view_body k h), about k out))"
proof -
  have "hh_tick new_hands = 0" "view_body k new_hands = Free None"
    by (simp_all add: view_body_def new_hands_def)
  then show ?thesis
    using hands_spec.run_refines [of new_hands k es] hands_ok_new by (simp add: case_prod_unfold Let_def)
qed

text \<open>
  A guest (9) holds a body at 100; a push of it and another's (8) frame come to nothing; at 2101 it falls.
\<close>

lemma bodies_have_one_holder_witness:
  defines "k \<equiv> \<lparr>bk_Object = game_id_make 0 0x1B3, bk_Actor = 0, bk_Index = 1\<rparr>"
  defines "f \<equiv> new_frame\<lparr>bf_Key := k\<rparr>"
  shows "about k (snd (run hands_handle
     [Ticks 100, HeldFrames (\<lambda>_. 0) \<lparr>bfs_Tick = 90, bfs_Frames = [f], bfs_Held = False\<rparr> 9,
      HeldFrames (\<lambda>_. 0) \<lparr>bfs_Tick = 95, bfs_Frames = [f], bfs_Held = False\<rparr> 8,
      Pushed (Some (\<lambda>_. True)) \<lparr>bpus_Pushes = [\<lparr>bpu_Key = k, bpu_Impulse = zero_vec3, bpu_Point = zero_vec3\<rparr>]\<rparr>,
      Ticks 2100, Ticks 2101] new_hands)) =
   [Shown True 90 9 f, Given_Back f 2101]"
proof -
  have "dropped f = f"
    by (simp add: dropped_def f_def new_frame_def)
  then show ?thesis
    using bodies_have_one_holder [of k "[Ticks 100, HeldFrames (\<lambda>_. 0) \<lparr>bfs_Tick = 90, bfs_Frames = [f], bfs_Held = False\<rparr> 9,
      HeldFrames (\<lambda>_. 0) \<lparr>bfs_Tick = 95, bfs_Frames = [f], bfs_Held = False\<rparr> 8,
      Pushed (Some (\<lambda>_. True)) \<lparr>bpus_Pushes = [\<lparr>bpu_Key = k, bpu_Impulse = zero_vec3, bpu_Point = zero_vec3\<rparr>]\<rparr>,
      Ticks 2100, Ticks 2101]"]
    by (simp add: run.simps(2) k_def f_def may_take_def let_fall_def silent_ms_def case_prod_unfold Let_def)
qed

end
