(* ===== verification/Characters.thy ===== *)
theory Characters
  imports Host_Players Movement_Messages Payloads
begin

text \<open>
  The session's characters on the host (\<open>Services/Host/HostCharacters\<close>): their ids and owners, the records of
  the players' characters, and who is sent what as players appear, move, ride, travel, are made again and leave.
\<close>

section \<open>What it keeps\<close>

record character =
  hc_Owner :: conn
  hc_PlayerRecord :: "spawn option"

text \<open>Where a player's game is: a worldspace (outdoors) or an interior cell.\<close>

record place =
  place_WorldSpaceId :: game_id
  place_CellId :: game_id

text \<open>The unordered maps and sets are lists in the order they are iterated.\<close>

record characters =
  hcs_characters :: "(u32 \<times> character) list"
  hcs_lastSessionId :: u32
  hcs_playerCharacters :: "(conn \<times> u32) list"
  hcs_places :: "(conn \<times> place) list"
  hcs_aheadOfHost :: "conn list"
  hcs_broughtToParty :: "conn list"
  hcs_partyTravel :: "party_travel option"

definition no_characters :: characters where
  "no_characters = \<lparr>hcs_characters = [], hcs_lastSessionId = 0, hcs_playerCharacters = [], hcs_places = [],
     hcs_aheadOfHost = [], hcs_broughtToParty = [], hcs_partyTravel = None\<rparr>"

text \<open>The host's game (\<open>HostGame\<close>): its own actors' spawns, and its copy of a player's character read into a spawn.\<close>

record spawn_game =
  sg_OwnSpawns :: "u32 \<Rightarrow> spawn list"
  sg_ReadCopy :: "u32 \<Rightarrow> spawn \<Rightarrow> spawn"

text \<open>
  What it sends to a player's game, movement reliably or not, and what it tells \<open>HostAuthority\<close>
  (\<open>PlayerBodyEntered\<close>, \<open>PlayerEntered\<close>, \<open>ActorAnnounced\<close>), in order.
\<close>

datatype char_message =
    Spawned spawn
  | Moved bool moves
  | Removed remove_character
  | Remade respawn
  | Mounted mount
  | Dismounted dismount
  | PerksShown actor_perks
  | EffectsShown active_effects
  | Travelled party_travel

datatype char_out =
    Sent conn char_message
  | BodyEntered conn u32
  | WorldEntered conn u32
  | Announced u32 actor_ai_state

definition sent :: "char_message outbox \<Rightarrow> char_out list" where
  "sent out = map (\<lambda>(c, m). Sent c m) out"

definition set_insert :: "'a \<Rightarrow> 'a list \<Rightarrow> 'a list" where
  "set_insert x xs = (if x \<in> set xs then xs else xs @ [x])"

definition set_erase :: "'a \<Rightarrow> 'a list \<Rightarrow> 'a list" where
  "set_erase x xs = filter (\<lambda>y. y \<noteq> x) xs"

section \<open>Ids and owners\<close>

definition char_find :: "u32 \<Rightarrow> characters \<Rightarrow> character option" where
  "char_find i s = map_of (hcs_characters s) i"

definition char_set :: "u32 \<Rightarrow> character \<Rightarrow> characters \<Rightarrow> characters" where
  "char_set i c s = s\<lparr>hcs_characters := assign i c (hcs_characters s)\<rparr>"

definition owner_of :: "u32 \<Rightarrow> characters \<Rightarrow> conn" where
  "owner_of i s = (case char_find i s of None \<Rightarrow> 0 | Some c \<Rightarrow> hc_Owner c)"

definition new_character_id :: "characters \<Rightarrow> u32 \<times> characters" where
  "new_character_id s = (let i = hcs_lastSessionId s + 1 in (i, s\<lparr>hcs_lastSessionId := i\<rparr>))"

definition reserve_player_character :: "conn \<Rightarrow> characters \<Rightarrow> u32 \<times> characters" where
  "reserve_player_character player s =
     (let (i, s) = new_character_id s
      in (i, s\<lparr>hcs_playerCharacters := assign player i (hcs_playerCharacters s)\<rparr>))"

definition player_character_of :: "conn \<Rightarrow> characters \<Rightarrow> u32" where
  "player_character_of player s =
     (case find (\<lambda>(_, c). hc_Owner c = player \<and> hc_PlayerRecord c \<noteq> None) (hcs_characters s) of
        None \<Rightarrow> 0 | Some (i, _) \<Rightarrow> i)"

text \<open>A player's record changed, where the character has one.\<close>

definition change_record :: "u32 \<Rightarrow> (spawn \<Rightarrow> spawn) \<Rightarrow> characters \<Rightarrow> characters" where
  "change_record i f s =
     (case char_find i s of None \<Rightarrow> s | Some c \<Rightarrow> char_set i (c\<lparr>hc_PlayerRecord := map_option f (hc_PlayerRecord c)\<rparr>) s)"

text \<open>The character it finds has a record: \<open>PlayerCharacterOf\<close> looks for one (0, which no character has, else).\<close>

definition set_player_name :: "conn \<Rightarrow> string \<Rightarrow> characters \<Rightarrow> characters" where
  "set_player_name player name s = change_record (player_character_of player s) (\<lambda>r. r\<lparr>sp_DisplayName := name\<rparr>) s"

definition is_player_character :: "u32 \<Rightarrow> characters \<Rightarrow> bool" where
  "is_player_character i s \<longleftrightarrow> list_ex (\<lambda>(_, j). j = i) (hcs_playerCharacters s)"

section \<open>Places\<close>

definition place_of :: "game_id \<Rightarrow> game_id \<Rightarrow> place" where
  "place_of cell world_space =
     (if game_id_set world_space then \<lparr>place_WorldSpaceId = world_space, place_CellId = no_id\<rparr>
      else \<lparr>place_WorldSpaceId = no_id, place_CellId = cell\<rparr>)"

definition with_host :: "host_players \<Rightarrow> conn \<Rightarrow> characters \<Rightarrow> bool" where
  "with_host p player s =
     (case (map_of (hcs_places s) player, map_of (hcs_places s) (players_host p)) of
        (Some a, Some b) \<Rightarrow> a = b
      | _ \<Rightarrow> True)"

definition in_same_grid :: "vec3 \<Rightarrow> vec3 \<Rightarrow> bool" where
  "in_same_grid a b = is_cell_in_grid_cell (grid_cell_of a) (grid_cell_of b) False"

definition in_host_grid :: "host_players \<Rightarrow> vec3 \<Rightarrow> characters \<Rightarrow> bool" where
  "in_host_grid p pos s =
     (case (char_find (player_character_of (players_host p) s) s, map_of (hcs_places s) (players_host p)) of
        (Some c, Some place) \<Rightarrow>
          (if \<not> game_id_set (place_WorldSpaceId place) then True
           else case hc_PlayerRecord c of None \<Rightarrow> True | Some r \<Rightarrow> in_same_grid pos (sp_Position r))
      | _ \<Rightarrow> True)"

section \<open>Spawns\<close>

definition build_spawn :: "spawn_game \<Rightarrow> host_players \<Rightarrow> u32 \<Rightarrow> characters \<Rightarrow> spawn option" where
  "build_spawn g p i s =
     (case char_find i s of
        None \<Rightarrow> None
      | Some c \<Rightarrow>
          (case hc_PlayerRecord c of
             Some r \<Rightarrow> if hc_Owner c \<noteq> players_host p then Some (sg_ReadCopy g i r)
               else find (\<lambda>x. sp_SessionId x = i) (sg_OwnSpawns g 0)
           | None \<Rightarrow> find (\<lambda>x. sp_SessionId x = i) (sg_OwnSpawns g 0)))"

definition send_host_spawns :: "spawn_game \<Rightarrow> conn \<Rightarrow> u32 \<Rightarrow> char_message outbox" where
  "send_host_spawns g player excluded = map (\<lambda>x. (player, Spawned x)) (sg_OwnSpawns g excluded)"

definition send_host_actors :: "spawn_game \<Rightarrow> host_players \<Rightarrow> conn \<Rightarrow> characters \<Rightarrow> char_message outbox" where
  "send_host_actors g p player s = send_host_spawns g player (player_character_of (players_host p) s)"

definition send_to_others_with_host :: "host_players \<Rightarrow> spawn \<Rightarrow> conn \<Rightarrow> characters \<Rightarrow> char_message outbox" where
  "send_to_others_with_host p x sender s =
     map (\<lambda>c. (c, Spawned x)) (filter (\<lambda>c. c \<noteq> sender \<and> with_host p c s) (connections p))"

text \<open>The spawns of the characters chosen, to one player.\<close>

definition send_characters ::
    "spawn_game \<Rightarrow> host_players \<Rightarrow> conn \<Rightarrow> (u32 \<times> character \<Rightarrow> bool) \<Rightarrow> characters \<Rightarrow> char_message outbox" where
  "send_characters g p player wanted s =
     map (\<lambda>x. (player, Spawned x)) (List.map_filter (\<lambda>(i, c). if wanted (i, c) then build_spawn g p i s else None) (hcs_characters s))"

definition send_existing_characters :: "spawn_game \<Rightarrow> host_players \<Rightarrow> conn \<Rightarrow> u32 \<Rightarrow> characters \<Rightarrow> char_message outbox" where
  "send_existing_characters g p player own s =
     send_host_spawns g player own @
     send_characters g p player (\<lambda>(i, c). \<not> (i = own \<or> hc_Owner c = players_host p \<or> hc_PlayerRecord c = None \<or>
       \<not> with_host p (hc_Owner c) s)) s"

definition send_players_met :: "spawn_game \<Rightarrow> host_players \<Rightarrow> conn \<Rightarrow> characters \<Rightarrow> char_message outbox" where
  "send_players_met g p player s =
     (case build_spawn g p (player_character_of player s) s of None \<Rightarrow> [] | Some x \<Rightarrow> send_to_others_with_host p x player s) @
     send_characters g p player (\<lambda>(i, c). hc_PlayerRecord c \<noteq> None \<and> hc_Owner c \<noteq> player \<and> with_host p (hc_Owner c) s) s"

definition bring_to_party :: "host_players \<Rightarrow> conn \<Rightarrow> characters \<Rightarrow> characters \<times> char_message outbox" where
  "bring_to_party p player s =
     (case (char_find (player_character_of (players_host p) s) s, map_of (hcs_places s) (players_host p)) of
        (Some c, Some place) \<Rightarrow>
          (case hc_PlayerRecord c of
             None \<Rightarrow> (s, [])
           | Some r \<Rightarrow>
               (s\<lparr>hcs_broughtToParty := set_insert player (hcs_broughtToParty s)\<rparr>,
                [(player, Travelled \<lparr>pt_CellId = sp_CellId r, pt_WorldSpaceId = place_WorldSpaceId place,
                   pt_Position = sp_Position r, pt_Heading = ro_y (sp_Rotation r)\<rparr>)]))
      | _ \<Rightarrow> (s, []))"

definition char_remove :: "host_players \<Rightarrow> u32 \<Rightarrow> actor_whereabouts \<Rightarrow> characters \<Rightarrow> characters \<times> char_message outbox" where
  "char_remove p i whereabouts s =
     (case char_find i s of
        None \<Rightarrow> (s, [])
      | Some c \<Rightarrow>
          (s\<lparr>hcs_characters := map_erase i (hcs_characters s)\<rparr>,
           send_to_others (Removed \<lparr>nr_SessionId = i, nr_Whereabouts = whereabouts\<rparr>) (hc_Owner c) p))"

definition character_place :: "spawn_game \<Rightarrow> host_players \<Rightarrow> u32 \<Rightarrow> characters \<Rightarrow> party_travel option" where
  "character_place g p i s =
     (case char_find i s of
        None \<Rightarrow> None
      | Some c \<Rightarrow>
          if hc_PlayerRecord c = None then None
          else case (if hc_Owner c = players_host p then build_spawn g p i s else hc_PlayerRecord c,
              map_of (hcs_places s) (hc_Owner c)) of
            (Some body, Some place) \<Rightarrow>
              Some \<lparr>pt_CellId = sp_CellId body, pt_WorldSpaceId = place_WorldSpaceId place,
                pt_Position = sp_Position body, pt_Heading = ro_y (sp_Rotation body)\<rparr>
          | _ \<Rightarrow> None)"

section \<open>Movement\<close>

text \<open>One update of a snapshot: its owner's go on, and into a player's record.\<close>

definition move_one :: "conn \<Rightarrow> u32 \<times> reference_update \<Rightarrow> characters \<times> (u32 \<times> reference_update) list \<Rightarrow>
    characters \<times> (u32 \<times> reference_update) list" where
  "move_one sender u acc =
     (let (i, upd) = u; (s, out) = acc; mv = ru_UpdatedMovement upd
      in case char_find i s of
           None \<Rightarrow> (s, out)
         | Some c \<Rightarrow>
             if hc_Owner c \<noteq> sender then (s, out)
             else (change_record i (\<lambda>r. r\<lparr>sp_CellId := mv_CellId mv, sp_Position := mv_Position mv,
                 sp_Rotation := mv_Rotation mv\<rparr>) s, map_put i upd out))"

definition on_movement :: "host_players \<Rightarrow> moves \<Rightarrow> conn \<Rightarrow> characters \<Rightarrow> characters \<times> char_out list" where
  "on_movement p m sender s =
     (let (s, updates) = fold (move_one sender) (rm_Updates m) (s, [])
      in (s, if updates = [] then []
             else sent (send_to_others (Moved (must_arrive updates) \<lparr>rm_Tick = rm_Tick m, rm_Updates = updates\<rparr>) sender p)))"

section \<open>Appearing, leaving, coming back\<close>

definition announce_refused :: "host_players \<Rightarrow> announce \<Rightarrow> conn \<Rightarrow> characters \<Rightarrow> bool" where
  "announce_refused p a sender s =
     (let is_player = (an_ReferenceId a = player_ref); i = an_SessionId a
      in \<not> is_player \<and> sender \<noteq> players_host p \<or>
         (if is_player then map_of (hcs_playerCharacters s) sender \<noteq> Some i
          else i = 0 \<or> i > hcs_lastSessionId s \<or> char_find i s \<noteq> None \<or> is_player_character i s))"

definition on_announce :: "host_players \<Rightarrow> announce \<Rightarrow> conn \<Rightarrow> characters \<Rightarrow> characters \<times> char_out list" where
  "on_announce p a sender s =
     (if announce_refused p a sender s then (s, [])
      else let is_player = (an_ReferenceId a = player_ref); i = an_SessionId a;
               (s, out1) = (if is_player then char_remove p i no_whereabouts s else (s, []));
               x = from_announcement a i (if is_player then player_id_of sender p else 0);
               s = char_set i \<lparr>hc_Owner = sender, hc_PlayerRecord = if is_player then Some x else None\<rparr> s;
               (s, out2) =
                 (if \<not> is_player then (s, [])
                  else let s = s\<lparr>hcs_places := assign sender (place_of (an_CellId a) (an_WorldSpaceId a)) (hcs_places s)\<rparr>
                       in if sender = players_host p then (s, [BodyEntered sender i])
                          else if \<not> with_host p sender s \<or> \<not> in_host_grid p (an_Position a) s
                          then let (s, out) = bring_to_party p sender s
                               in (s, BodyEntered sender i # WorldEntered sender i # sent out)
                          else (s, [BodyEntered sender i, WorldEntered sender i]))
           in (s, sent out1 @ out2 @ Announced i (sp_AiState x) # sent (send_to_others_with_host p x sender s)))"

definition on_remove :: "host_players \<Rightarrow> remove_request \<Rightarrow> conn \<Rightarrow> characters \<Rightarrow> characters \<times> char_out list" where
  "on_remove p r sender s =
     (if owner_of (rr_SessionId r) s = sender
      then let (s, out) = char_remove p (rr_SessionId r) (rr_Whereabouts r) s in (s, sent out) else (s, []))"

text \<open>What a respawn request with the owner's state, or the host's copy, makes of a record.\<close>

definition respawn_record :: "spawn_game \<Rightarrow> respawn_request \<Rightarrow> spawn \<Rightarrow> spawn" where
  "respawn_record g r x =
     (if rs_HasState r
      then x\<lparr>sp_LatestAction := rs_LatestAction r, sp_GraphState := rs_GraphState r,
        sp_InventoryContent := ad_InitialInventory (rs_Data r), sp_InitialActorValues := ad_InitialActorValues (rs_Data r),
        sp_IsDead := ad_IsDead (rs_Data r), sp_IsWeaponDrawn := ad_IsWeaponDrawn (rs_Data r)\<rparr>
      else if rs_AppearanceBuffer r = [] then sg_ReadCopy g (rs_ActorId r) x else x)"

definition looks_record :: "respawn_request \<Rightarrow> spawn \<Rightarrow> spawn" where
  "looks_record r x = x\<lparr>sp_AppearanceBuffer := rs_AppearanceBuffer r, sp_ChangeFlags := rs_ChangeFlags r,
     sp_FaceTints := rs_FaceTints r, sp_Weight := rs_Weight r\<rparr>"

definition on_respawn :: "spawn_game \<Rightarrow> host_players \<Rightarrow> respawn_request \<Rightarrow> conn \<Rightarrow> characters \<Rightarrow> characters \<times> char_out list" where
  "on_respawn g p r sender s =
     (let i = rs_ActorId r
      in case char_find i s of
           None \<Rightarrow> (s, [])
         | Some c \<Rightarrow>
             if hc_Owner c \<noteq> sender
             then (s, case build_spawn g p i s of None \<Rightarrow> [] | Some x \<Rightarrow> [Sent sender (Spawned x)])
             else let s = change_record i (respawn_record g r) s
                  in if rs_AppearanceBuffer r \<noteq> []
                     then (if hc_PlayerRecord c = None then (s, [])
                           else (change_record i (looks_record r) s,
                             sent (send_to_others (Remade \<lparr>nrs_ActorId = i, nrs_AppearanceBuffer = rs_AppearanceBuffer r,
                               nrs_ChangeFlags = rs_ChangeFlags r, nrs_FaceTints = rs_FaceTints r, nrs_Weight = rs_Weight r\<rparr>)
                               sender p)))
                     else (s, sent (send_to_others (Remade (new_respawn\<lparr>nrs_ActorId := i\<rparr>)) sender p)))"

section \<open>Mounts\<close>

definition on_mount :: "host_players \<Rightarrow> mount \<Rightarrow> conn \<Rightarrow> characters \<Rightarrow> characters \<times> char_out list" where
  "on_mount p m sender s =
     (case char_find (mo_MountId m) s of
        None \<Rightarrow> (s, [])
      | Some c \<Rightarrow>
          if owner_of (mo_RiderId m) s \<noteq> sender \<or> hc_PlayerRecord c \<noteq> None then (s, [])
          else (char_set (mo_MountId m) (c\<lparr>hc_Owner := sender\<rparr>) s,
            sent (if hc_Owner c = sender then send_to_others (Mounted m) sender p else send_to_all (Mounted m) p)))"

definition give_back :: "host_players \<Rightarrow> u32 \<Rightarrow> u32 \<Rightarrow> actor_whereabouts \<Rightarrow> characters \<Rightarrow> characters \<times> char_message outbox" where
  "give_back p m rider whereabouts s =
     (let host = players_host p
      in if host = 0 then (s, [])
         else case char_find m s of
             None \<Rightarrow> (s, [])
           | Some c \<Rightarrow>
               (char_set m (c\<lparr>hc_Owner := host\<rparr>) s,
                send_to_all (Dismounted \<lparr>dm_Mount = \<lparr>mo_RiderId = rider, mo_MountId = m\<rparr>, dm_Whereabouts = whereabouts\<rparr>) p))"

definition on_dismount :: "host_players \<Rightarrow> dismount \<Rightarrow> conn \<Rightarrow> characters \<Rightarrow> characters \<times> char_out list" where
  "on_dismount p d sender s =
     (let m = mo_MountId (dm_Mount d); rider = mo_RiderId (dm_Mount d)
      in case char_find m s of
           None \<Rightarrow> (s, [])
         | Some c \<Rightarrow>
             if owner_of rider s \<noteq> sender \<or> hc_PlayerRecord c \<noteq> None \<or> hc_Owner c \<noteq> sender then (s, [])
             else let (s, out) = give_back p m rider (dm_Whereabouts d) s in (s, sent out))"

section \<open>Records kept current\<close>

definition on_perks :: "host_players \<Rightarrow> actor_perks \<Rightarrow> conn \<Rightarrow> characters \<Rightarrow> characters \<times> char_out list" where
  "on_perks p a sender s =
     (case char_find (ap_SessionId a) s of
        None \<Rightarrow> (s, [])
      | Some c \<Rightarrow>
          if hc_Owner c \<noteq> sender \<or> hc_PlayerRecord c = None then (s, [])
          else (change_record (ap_SessionId a) (\<lambda>r. r\<lparr>sp_PerksContent := ap_Content a\<rparr>) s,
            sent (send_to_others (PerksShown a) sender p)))"

definition on_active_effects :: "host_players \<Rightarrow> active_effects \<Rightarrow> conn \<Rightarrow> characters \<Rightarrow> characters \<times> char_out list" where
  "on_active_effects p a sender s =
     (case char_find (ae_SessionId a) s of
        None \<Rightarrow> (s, [])
      | Some c \<Rightarrow>
          if hc_Owner c \<noteq> sender then (s, [])
          else (change_record (ae_SessionId a) (\<lambda>r. r\<lparr>sp_EffectIds := ae_EffectIds a\<rparr>) s,
            sent (send_to_others (EffectsShown a) sender p)))"

definition put_values :: "value_map \<Rightarrow> value_map \<Rightarrow> value_map" where
  "put_values new old = fold (\<lambda>(k, v). map_put k v) new old"

text \<open>What an owner may change of its player's record.\<close>

definition own_record :: "conn \<Rightarrow> u32 \<Rightarrow> (spawn \<Rightarrow> spawn) \<Rightarrow> characters \<Rightarrow> characters" where
  "own_record sender i f s =
     (case char_find i s of
        None \<Rightarrow> s
      | Some c \<Rightarrow> if hc_Owner c \<noteq> sender \<or> hc_PlayerRecord c = None then s else change_record i f s)"

definition keep_values :: "u32 \<Rightarrow> value_map \<Rightarrow> bool \<Rightarrow> conn \<Rightarrow> characters \<Rightarrow> characters" where
  "keep_values i new maximum sender s =
     own_record sender i (\<lambda>r. r\<lparr>sp_InitialActorValues :=
       (let kept = sp_InitialActorValues r
        in if maximum then kept\<lparr>av_ActorMaxValuesList := put_values new (av_ActorMaxValuesList kept)\<rparr>
           else kept\<lparr>av_ActorValuesList := put_values new (av_ActorValuesList kept)\<rparr>)\<rparr>) s"

text \<open>\<open>ActorPools::IsPool\<close>: health, magicka and stamina.\<close>

definition is_pool :: "u32 \<Rightarrow> bool" where
  "is_pool i \<longleftrightarrow> 24 \<le> i \<and> i \<le> 26"

definition on_values :: "actor_value_changes \<Rightarrow> conn \<Rightarrow> characters \<Rightarrow> characters" where
  "on_values r sender s =
     (let s = keep_values (avc_Id r) (avc_Values r) False sender s
      in own_record sender (avc_Id r) (\<lambda>x. x\<lparr>sp_InitialActorValues :=
           (let kept = sp_InitialActorValues x
            in kept\<lparr>av_ActorTemporaryValuesList :=
                 put_values (filter (\<lambda>(k, _). is_pool k) (avc_TemporaryValues r)) (av_ActorTemporaryValuesList kept)\<rparr>)\<rparr>) s)"

definition on_max_values :: "actor_max_value_changes \<Rightarrow> conn \<Rightarrow> characters \<Rightarrow> characters" where
  "on_max_values r sender s = keep_values (amvc_Id r) (amvc_Values r) True sender s"

section \<open>Travel\<close>

definition on_travel_queued :: "host_players \<Rightarrow> party_travel \<Rightarrow> conn \<Rightarrow> characters \<Rightarrow> characters \<times> char_out list" where
  "on_travel_queued p destination sender s =
     (if player_character_of sender s = 0 then (s, [])
      else (s\<lparr>hcs_partyTravel := Some destination\<rparr>, sent (send_to_others (Travelled destination) sender p)))"

text \<open>A fresh \<open>AnnounceCharacterRequest\<close>.\<close>

definition new_announce :: announce where
  "new_announce = \<lparr>an_SessionId = 0, an_ReferenceId = no_id, an_FormId = no_id, an_CellId = no_id, an_WorldSpaceId = no_id,
     an_Position = \<lparr>v3_x = 0, v3_y = 0, v3_z = 0\<rparr>, an_Rotation = \<lparr>ro_x = 0, ro_y = 0\<rparr>, an_ChangeFlags = 0,
     an_AppearanceBuffer = [], an_DisplayName = [], an_FactionsContent = \<lparr>factions_NpcFactions = [], factions_ExtraFactions = []\<rparr>,
     an_LatestAction = new_action, an_GraphState = [],
     an_AiState = \<lparr>ai_Package = no_id, ai_Scene = no_id, ai_Combat = 0, ai_CombatTarget = no_target, ai_HeadTrack = replicate 6 no_target\<rparr>,
     an_PerksContent = \<lparr>perks_Ranks = [], perks_Spells = []\<rparr>, an_EffectIds = [], an_FaceTints = [], an_Weight = 0x42480000,
     an_IsDragon = False, an_IsMount = False, an_IsPlayerSummon = False, an_CurrentActorData = no_actor_data\<rparr>"

text \<open>A follower where the party went: in its worldspace near it, or in its cell.\<close>

definition arrived_there :: "enter_cell \<Rightarrow> party_travel \<Rightarrow> bool" where
  "arrived_there r t \<longleftrightarrow>
     (if game_id_set (ec_WorldSpaceId r)
      then ec_WorldSpaceId r = pt_WorldSpaceId t \<and> in_same_grid (ec_Position r) (pt_Position t)
      else \<not> game_id_set (pt_WorldSpaceId t) \<and> ec_CellId r = pt_CellId t)"

definition enter_record :: "enter_cell \<Rightarrow> spawn \<Rightarrow> spawn" where
  "enter_record r x = x\<lparr>sp_CellId := ec_CellId r, sp_Position := ec_Position r, sp_LatestAction := ec_LatestAction r,
     sp_GraphState := ec_GraphState r, sp_InventoryContent := ad_InitialInventory (ec_Data r),
     sp_InitialActorValues := ad_InitialActorValues (ec_Data r), sp_IsDead := ad_IsDead (ec_Data r),
     sp_IsWeaponDrawn := ad_IsWeaponDrawn (ec_Data r)\<rparr>"

definition change_owned :: "conn \<Rightarrow> (spawn \<Rightarrow> spawn) \<Rightarrow> characters \<Rightarrow> characters" where
  "change_owned owner f s = s\<lparr>hcs_characters := map (\<lambda>(i, c).
     (i, if hc_Owner c = owner then c\<lparr>hc_PlayerRecord := map_option f (hc_PlayerRecord c)\<rparr> else c)) (hcs_characters s)\<rparr>"

definition lead_or_follow :: "host_players \<Rightarrow> enter_cell \<Rightarrow> conn \<Rightarrow> characters \<Rightarrow> characters \<times> char_message outbox" where
  "lead_or_follow p r sender s =
     (if ec_How r = travel_own
      then let t = \<lparr>pt_CellId = ec_CellId r, pt_WorldSpaceId = ec_WorldSpaceId r, pt_Position = ec_Position r,
             pt_Heading = ec_Heading r\<rparr>
           in (s\<lparr>hcs_partyTravel := Some t\<rparr>, send_to_others (Travelled t) sender p)
      else (s, case hcs_partyTravel s of
          None \<Rightarrow> []
        | Some t \<Rightarrow> if ec_How r = travel_tether \<and> \<not> arrived_there r t then [(sender, Travelled t)] else []))"

definition on_enter_cell :: "spawn_game \<Rightarrow> host_players \<Rightarrow> enter_cell \<Rightarrow> conn \<Rightarrow> characters \<Rightarrow> characters \<times> char_out list" where
  "on_enter_cell g p r sender s =
     (let s = s\<lparr>hcs_places := assign sender (place_of (ec_CellId r) (ec_WorldSpaceId r)) (hcs_places s)\<rparr>;
          (s, out) = lead_or_follow p r sender s;
          s = change_owned sender (enter_record r) s
      in if \<not> with_host p sender s then (s\<lparr>hcs_aheadOfHost := set_insert sender (hcs_aheadOfHost s)\<rparr>, sent out)
         else let s = s\<lparr>hcs_aheadOfHost := set_erase sender (hcs_aheadOfHost s)\<rparr>
              in if sender \<noteq> players_host p
                 then let out = out @ send_host_actors g p sender s
                      in if ec_How r = travel_tether \<and> sender \<in> set (hcs_broughtToParty s)
                         then let s = s\<lparr>hcs_broughtToParty := set_erase sender (hcs_broughtToParty s)\<rparr>
                              in (s, sent (out @ send_players_met g p sender s))
                         else (s, sent out)
                 else let arrived = filter (\<lambda>c. with_host p c s) (hcs_aheadOfHost s)
                      in (s\<lparr>hcs_aheadOfHost := filter (\<lambda>c. c \<notin> set arrived) (hcs_aheadOfHost s)\<rparr>,
                          sent (out @ concat (map (\<lambda>c. send_host_actors g p c s) arrived))))"

section \<open>A player leaves\<close>

definition give_back_all :: "host_players \<Rightarrow> u32 \<Rightarrow> u32 list \<Rightarrow> characters \<Rightarrow> characters \<times> char_message outbox" where
  "give_back_all p rider ms s = run (\<lambda>m s. give_back p m rider no_whereabouts s) ms s"

definition remove_all :: "host_players \<Rightarrow> u32 list \<Rightarrow> characters \<Rightarrow> characters \<times> char_message outbox" where
  "remove_all p is s = run (\<lambda>i s. char_remove p i no_whereabouts s) is s"

definition owned_by :: "conn \<Rightarrow> bool \<Rightarrow> characters \<Rightarrow> u32 list" where
  "owned_by player recorded s =
     map fst (filter (\<lambda>(_, c). hc_Owner c = player \<and> (hc_PlayerRecord c \<noteq> None) = recorded) (hcs_characters s))"

definition on_player_left :: "host_players \<Rightarrow> conn \<Rightarrow> characters \<Rightarrow> characters \<times> char_out list" where
  "on_player_left p player s =
     (let rider = player_character_of player s;
          s = s\<lparr>hcs_playerCharacters := map_erase player (hcs_playerCharacters s),
              hcs_places := map_erase player (hcs_places s),
              hcs_aheadOfHost := set_erase player (hcs_aheadOfHost s),
              hcs_broughtToParty := set_erase player (hcs_broughtToParty s)\<rparr>;
          owned = owned_by player True s; ridden = owned_by player False s;
          (s, out1) = give_back_all p rider ridden s;
          (s, out2) = remove_all p owned s
      in (s, sent (out1 @ out2)))"

end
