(* ===== verification/Character_Owners.thy ===== *)
theory Character_Owners
  imports Characters
begin

text \<open>
  Whose a character is: what the host's handlers of characters keep, whatever the games send. A player's
  character is known by the id its join gave it and is its own game's alone.
\<close>

lemma find_Some_set: "find P xs = Some x \<Longrightarrow> x \<in> set xs \<and> P x"
  by (induction xs) (auto split: if_splits)

section \<open>What happens to the characters\<close>

text \<open>
  \<open>Joins\<close> is \<open>ReservePlayerCharacter\<close>, which \<open>HostSession\<close> calls for a game that is not a player yet, so
  has no id. The host's game and the players may be others at every event.
\<close>

datatype char_event =
    Joins
  | Leaves
  | NewId
  | Announces announce
  | Removes remove_request
  | Respawns respawn_request
  | Moves moves
  | Mounts mount
  | Dismounts dismount
  | ShowsPerks actor_perks
  | ShowsEffects active_effects
  | ChangesValues actor_value_changes
  | ChangesMaxima actor_max_value_changes
  | QueuesTravel party_travel
  | Enters enter_cell
  | Renames string

fun char_step :: "spawn_game \<times> host_players \<times> conn \<times> char_event \<Rightarrow> characters \<Rightarrow> characters \<times> char_out list" where
  "char_step (g, p, c, Joins) s =
     (if map_of (hcs_playerCharacters s) c \<noteq> None then (s, []) else (snd (reserve_player_character c s), []))"
| "char_step (g, p, c, Leaves) s = on_player_left p c s"
| "char_step (g, p, c, NewId) s = (snd (new_character_id s), [])"
| "char_step (g, p, c, Announces a) s = on_announce p a c s"
| "char_step (g, p, c, Removes r) s = on_remove p r c s"
| "char_step (g, p, c, Respawns r) s = on_respawn g p r c s"
| "char_step (g, p, c, Moves m) s = on_movement p m c s"
| "char_step (g, p, c, Mounts m) s = on_mount p m c s"
| "char_step (g, p, c, Dismounts d) s = on_dismount p d c s"
| "char_step (g, p, c, ShowsPerks a) s = on_perks p a c s"
| "char_step (g, p, c, ShowsEffects a) s = on_active_effects p a c s"
| "char_step (g, p, c, ChangesValues r) s = (on_values r c s, [])"
| "char_step (g, p, c, ChangesMaxima r) s = (on_max_values r c s, [])"
| "char_step (g, p, c, QueuesTravel t) s = on_travel_queued p t c s"
| "char_step (g, p, c, Enters r) s = on_enter_cell g p r c s"
| "char_step (g, p, c, Renames name) s = (set_player_name c name s, [])"

abbreviation char_run :: "(spawn_game \<times> host_players \<times> conn \<times> char_event) list \<Rightarrow> characters \<Rightarrow> characters \<times> char_out list" where
  "char_run \<equiv> run char_step"

fun sender_of :: "spawn_game \<times> host_players \<times> conn \<times> char_event \<Rightarrow> conn" where
  "sender_of (g, p, c, e) = c"

fun makes_id :: "spawn_game \<times> host_players \<times> conn \<times> char_event \<Rightarrow> bool" where
  "makes_id (g, p, c, e) \<longleftrightarrow> e = Joins \<or> e = NewId"

definition ids_made :: "(spawn_game \<times> host_players \<times> conn \<times> char_event) list \<Rightarrow> nat" where
  "ids_made es = length (filter makes_id es)"

section \<open>Changes of a sender's own\<close>

text \<open>
  Only characters the sender owns changed, and of those only the records: ids, owners and which are players' are as
  they were.
\<close>

definition own_change :: "conn \<Rightarrow> characters \<Rightarrow> characters \<Rightarrow> bool" where
  "own_change sender s s' \<longleftrightarrow>
     hcs_lastSessionId s' = hcs_lastSessionId s \<and> hcs_playerCharacters s' = hcs_playerCharacters s \<and>
     map fst (hcs_characters s') = map fst (hcs_characters s) \<and>
     (\<forall>i. rel_option (\<lambda>c c'. hc_Owner c' = hc_Owner c \<and> (hc_PlayerRecord c' = None \<longleftrightarrow> hc_PlayerRecord c = None) \<and>
        (hc_Owner c \<noteq> sender \<longrightarrow> c' = c)) (char_find i s) (char_find i s'))"

lemma own_change_refl: "own_change sender s s"
  by (auto simp: own_change_def intro: option.rel_refl)

lemma own_change_trans:
  assumes "own_change sender s t" and "own_change sender t u" shows "own_change sender s u"
proof -
  have "rel_option (\<lambda>c c'. hc_Owner c' = hc_Owner c \<and> (hc_PlayerRecord c' = None \<longleftrightarrow> hc_PlayerRecord c = None) \<and>
        (hc_Owner c \<noteq> sender \<longrightarrow> c' = c)) (char_find i s) (char_find i u)" for i
    using assms unfolding own_change_def by (cases "char_find i s"; cases "char_find i t"; cases "char_find i u") (auto dest!: spec [of _ i])
  then show ?thesis
    using assms unfolding own_change_def by simp
qed

lemma keys_assign_same: "map_of m k \<noteq> None \<Longrightarrow> map fst (assign k v m) = map fst m"
  by (induction m) auto

lemma char_find_set: "char_find j (char_set i c s) = (if j = i then Some c else char_find j s)"
  by (simp add: char_find_def char_set_def)

lemma own_change_fields:
  "own_change sender s (s\<lparr>hcs_places := x\<rparr>)" "own_change sender s (s\<lparr>hcs_aheadOfHost := y\<rparr>)"
  "own_change sender s (s\<lparr>hcs_broughtToParty := y\<rparr>)" "own_change sender s (s\<lparr>hcs_partyTravel := z\<rparr>)"
  by (auto simp: own_change_def char_find_def intro: option.rel_refl)

lemmas own_change_then = own_change_trans [OF _ own_change_fields(2)] own_change_trans [OF _ own_change_fields(3)]

lemma own_change_if: "own_change c s (fst x) \<Longrightarrow> own_change c s (fst y) \<Longrightarrow> own_change c s (fst (if b then x else y))"
  by simp

lemma own_change_record:
  assumes "\<And>c. char_find i s = Some c \<Longrightarrow> hc_Owner c = sender \<or> hc_PlayerRecord c = None"
  shows "own_change sender s (change_record i f s)"
proof (cases "char_find i s")
  case None
  then show ?thesis by (simp add: change_record_def own_change_refl)
next
  case (Some c)
  define c' where "c' = c\<lparr>hc_PlayerRecord := map_option f (hc_PlayerRecord c)\<rparr>"
  have changed: "change_record i f s = char_set i c' s"
    using Some by (simp add: change_record_def c'_def)
  have keys: "map fst (assign i c' (hcs_characters s)) = map fst (hcs_characters s)"
    using Some by (intro keys_assign_same) (simp add: char_find_def)
  have c': "hc_Owner c' = hc_Owner c" "hc_PlayerRecord c' = None \<longleftrightarrow> hc_PlayerRecord c = None"
    "hc_Owner c \<noteq> sender \<longrightarrow> c' = c"
    using assms [OF Some] by (auto simp: c'_def)
  have "rel_option (\<lambda>c c'. hc_Owner c' = hc_Owner c \<and> (hc_PlayerRecord c' = None \<longleftrightarrow> hc_PlayerRecord c = None) \<and>
        (hc_Owner c \<noteq> sender \<longrightarrow> c' = c)) (char_find j s) (char_find j (char_set i c' s))" for j
    using Some c' by (auto simp: char_find_set intro: option.rel_refl)
  then show ?thesis
    unfolding own_change_def changed using keys by (simp add: char_set_def)
qed

lemma own_change_own_record: "own_change sender s (own_record sender i f s)"
  unfolding own_record_def by (auto split: option.split intro: own_change_refl own_change_record)

lemma own_change_owned: "own_change sender s (change_owned sender f s)"
proof -
  have "map_of (map (\<lambda>(i, c). (i, h c)) m) j = map_option h (map_of m j)" for h and m :: "(u32 \<times> character) list" and j
    by (induction m) auto
  note find = this [of "\<lambda>c. if hc_Owner c = sender then c\<lparr>hc_PlayerRecord := map_option f (hc_PlayerRecord c)\<rparr> else c"]
  show ?thesis
    unfolding own_change_def change_owned_def
    by (auto simp: char_find_def find option.rel_map split_beta comp_def intro!: option.rel_refl_strong)
qed

section \<open>The handlers that change only the sender's own\<close>

named_theorems own_intros

lemmas [own_intros] = own_change_refl own_change_fields own_change_own_record own_change_owned

lemma own_movement:
  "own_change sender s (fst (fold (move_one sender) us (s, out)))"
proof (induction us arbitrary: s out)
  case (Cons u us)
  have "own_change sender s (fst (move_one sender u (s, out)))"
    by (auto simp: move_one_def Let_def split: prod.split option.split intro!: own_change_refl own_change_record)
  moreover have "own_change sender (fst (move_one sender u (s, out))) (fst (fold (move_one sender) us (move_one sender u (s, out))))"
    using Cons.IH [of "fst (move_one sender u (s, out))" "snd (move_one sender u (s, out))"] by simp
  ultimately show ?case
    using own_change_trans by simp
qed (simp add: own_change_refl)

lemma own_on_movement [own_intros]: "own_change sender s (fst (on_movement p m sender s))"
  using own_movement [of sender s "rm_Updates m" "[]"] by (simp add: on_movement_def case_prod_unfold Let_def)

lemma own_on_respawn [own_intros]: "own_change sender s (fst (on_respawn g p r sender s))"
proof (cases "char_find (rs_ActorId r) s")
  case (Some c)
  have "own_change sender s (change_record (rs_ActorId r) f (change_record (rs_ActorId r) f' s))" if "hc_Owner c = sender" for f f'
  proof (rule own_change_trans)
    show "own_change sender s (change_record (rs_ActorId r) f' s)"
      using Some that by (intro own_change_record) auto
    show "own_change sender (change_record (rs_ActorId r) f' s) (change_record (rs_ActorId r) f (change_record (rs_ActorId r) f' s))"
      using Some that by (intro own_change_record) (auto simp: change_record_def char_find_set)
  qed
  moreover have "own_change sender s (change_record (rs_ActorId r) f s)" if "hc_Owner c = sender" for f
    using Some that by (intro own_change_record) auto
  ultimately show ?thesis
    using Some by (simp add: on_respawn_def Let_def own_change_refl)
qed (simp add: on_respawn_def own_change_refl)

lemma own_small [own_intros]:
  "own_change sender s (fst (on_perks p a sender s))"
  "own_change sender s (fst (on_active_effects p e sender s))"
  "own_change sender s (fst (on_travel_queued p t sender s))"
  "own_change sender s (on_max_values v sender s)"
  unfolding on_perks_def on_active_effects_def on_travel_queued_def on_max_values_def keep_values_def
  by (auto split: option.split intro: own_intros own_change_record)

lemma own_on_values [own_intros]: "own_change sender s (on_values r sender s)"
  unfolding on_values_def keep_values_def Let_def by (blast intro: own_intros own_change_trans)

lemma own_on_enter_cell [own_intros]: "own_change sender s (fst (on_enter_cell g p r sender s))"
proof -
  let ?s1 = "s\<lparr>hcs_places := assign sender (place_of (ec_CellId r) (ec_WorldSpaceId r)) (hcs_places s)\<rparr>"
  let ?s2 = "fst (lead_or_follow p r sender ?s1)"
  let ?s3 = "change_owned sender (enter_record r) ?s2"
  have "own_change sender ?s1 ?s2"
    by (auto simp: lead_or_follow_def Let_def intro: own_intros)
  then have "own_change sender s ?s2"
    by (rule own_change_trans [OF own_change_fields(1)])
  then have s3: "own_change sender s ?s3"
    by (rule own_change_trans) (rule own_change_owned)
  show ?thesis
    unfolding on_enter_cell_def Let_def case_prod_unfold fst_conv
    by (intro own_change_if; simp only: fst_conv; intro own_change_then s3)
qed

section \<open>Whose is whose\<close>

text \<open>
  Ids are given in order; a player's character goes by the id its join gave its owner, no two players have one id,
  and no actor of the host's has a player's.
\<close>

definition char_ok :: "nat \<Rightarrow> (conn \<times> u32) list \<Rightarrow> u32 \<Rightarrow> character \<Rightarrow> bool" where
  "char_ok n pcs i c \<longleftrightarrow> i \<noteq> 0 \<and> unat i \<le> n \<and>
     (if hc_PlayerRecord c = None then \<forall>a. map_of pcs a \<noteq> Some i else map_of pcs (hc_Owner c) = Some i)"

definition ids_ok :: "nat \<Rightarrow> (conn \<times> u32) list \<Rightarrow> bool" where
  "ids_ok n pcs \<longleftrightarrow> distinct (map fst pcs) \<and> (\<forall>a i. map_of pcs a = Some i \<longrightarrow> i \<noteq> 0 \<and> unat i \<le> n) \<and>
     (\<forall>a b i. map_of pcs a = Some i \<and> map_of pcs b = Some i \<longrightarrow> a = b)"

definition chars_ok :: "nat \<Rightarrow> characters \<Rightarrow> bool" where
  "chars_ok n s \<longleftrightarrow> unat (hcs_lastSessionId s) = n \<and> distinct (map fst (hcs_characters s)) \<and>
     ids_ok n (hcs_playerCharacters s) \<and> (\<forall>i c. char_find i s = Some c \<longrightarrow> char_ok n (hcs_playerCharacters s) i c)"

lemma chars_okD:
  assumes "chars_ok n s"
  shows "unat (hcs_lastSessionId s) = n" "distinct (map fst (hcs_characters s))" "ids_ok n (hcs_playerCharacters s)"
    "char_find i s = Some c \<Longrightarrow> char_ok n (hcs_playerCharacters s) i c"
  using assms by (auto simp: chars_ok_def)

lemma ids_okD:
  assumes "ids_ok n pcs" and "map_of pcs a = Some i"
  shows "i \<noteq> 0" "unat i \<le> n" "map_of pcs b = Some i \<Longrightarrow> b = a"
  using assms by (auto simp: ids_ok_def simp del: map_of_eq_Some_iff)

lemma chars_ok_none: "chars_ok 0 no_characters"
  by (simp add: chars_ok_def no_characters_def char_find_def ids_ok_def)

lemma chars_ok_own:
  assumes ok: "chars_ok n s" and own: "own_change sender s s'"
  shows "chars_ok n s'"
proof -
  have "\<exists>c. char_find i s = Some c \<and> hc_Owner c' = hc_Owner c \<and> (hc_PlayerRecord c' = None \<longleftrightarrow> hc_PlayerRecord c = None)"
    if "char_find i s' = Some c'" for i c'
    using own that unfolding own_change_def by (auto simp: option_rel_Some2 dest!: spec [of _ i])
  then have "char_ok n (hcs_playerCharacters s) i c'" if "char_find i s' = Some c'" for i c'
    using that chars_okD(4) [OF ok, of i] unfolding char_ok_def by metis
  then show ?thesis
    using ok own by (simp add: chars_ok_def own_change_def)
qed

text \<open>\<open>PlayerCharacterOf\<close> has the one character there is to find.\<close>

lemma player_character_of_ok:
  assumes "chars_ok n s"
  shows "(case char_find (player_character_of c s) s of None \<Rightarrow> \<forall>i x. char_find i s = Some x \<longrightarrow> hc_Owner x = c \<longrightarrow> hc_PlayerRecord x = None
    | Some x \<Rightarrow> hc_Owner x = c \<and> hc_PlayerRecord x \<noteq> None)"
proof (cases "find (\<lambda>(_, x). hc_Owner x = c \<and> hc_PlayerRecord x \<noteq> None) (hcs_characters s)")
  case None
  have "char_find 0 s = None"
    using chars_okD(4) [OF assms, of 0] by (cases "char_find 0 s") (auto simp: char_ok_def)
  moreover have "hc_PlayerRecord x = None" if "char_find i s = Some x" "hc_Owner x = c" for i x
    using None that map_of_SomeD [of "hcs_characters s" i x] by (auto simp: find_None_iff char_find_def)
  ultimately show ?thesis
    using None by (simp add: player_character_of_def)
next
  case (Some ix)
  obtain i x where ix: "ix = (i, x)"
    by (cases ix)
  have "ix \<in> set (hcs_characters s)" "case ix of (_, x) \<Rightarrow> hc_Owner x = c \<and> hc_PlayerRecord x \<noteq> None"
    using find_Some_set [OF Some] by simp_all
  then have "(i, x) \<in> set (hcs_characters s)" and owned: "hc_Owner x = c \<and> hc_PlayerRecord x \<noteq> None"
    unfolding ix by simp_all
  then have "char_find i s = Some x"
    using chars_okD(2) [OF assms] unfolding char_find_def by (simp add: map_of_eq_Some_iff)
  then show ?thesis
    using Some owned by (simp add: player_character_of_def ix)
qed

lemma own_rename:
  assumes "chars_ok n s" shows "own_change sender s (set_player_name sender name s)"
  unfolding set_player_name_def
  using player_character_of_ok [OF assms, of sender] by (intro own_change_record) (auto split: option.splits)

section \<open>What the others keep of it\<close>

lemma chars_ok_set:
  assumes "chars_ok n s" "char_ok n (hcs_playerCharacters s) i c"
  shows "chars_ok n (char_set i c s)"
proof -
  have "char_ok n (hcs_playerCharacters s) j d" if "char_find j (char_set i c s) = Some d" for j d
    using that assms chars_okD(4) [OF assms(1), of j] by (auto simp: char_find_set split: if_splits)
  moreover have "distinct (map fst (hcs_characters (char_set i c s)))"
    using chars_okD(2) [OF assms(1)] by (simp add: char_set_def distinct_assign)
  ultimately show ?thesis
    using assms(1) by (simp add: chars_ok_def) (simp add: char_set_def)
qed

lemma char_find_erase: "char_find j (s\<lparr>hcs_characters := map_erase i (hcs_characters s)\<rparr>) = (if j = i then None else char_find j s)"
  by (simp add: char_find_def map_of_erase)

lemma chars_ok_remove: "chars_ok n s \<Longrightarrow> chars_ok n (fst (char_remove p i w s))"
  by (auto simp: char_remove_def chars_ok_def char_find_erase distinct_erase split: option.split)

lemma chars_ok_field: "chars_ok n (s\<lparr>hcs_places := x\<rparr>) = chars_ok n s" "chars_ok n (s\<lparr>hcs_broughtToParty := y\<rparr>) = chars_ok n s"
  by (simp_all add: chars_ok_def char_find_def)

lemma char_find_remove: "char_find j (fst (char_remove p i w s)) = (if j = i then None else char_find j s)"
  by (auto simp: char_remove_def char_find_erase split: option.split)

text \<open>A new id is past every other; a join that takes it keeps the players' apart.\<close>

lemma new_id_fresh:
  assumes "chars_ok n s" "n + 1 < 2 ^ 32"
  shows "unat (hcs_lastSessionId s + 1) = n + 1"
  using chars_okD(1) [OF assms(1)] assms(2) by (simp add: unat_word_ariths)

lemma char_ok_later: "char_ok n pcs i c \<Longrightarrow> char_ok (Suc n) pcs i c"
  by (simp add: char_ok_def)

lemma ids_ok_later: "ids_ok n pcs \<Longrightarrow> ids_ok (Suc n) pcs"
  unfolding ids_ok_def by (auto simp del: map_of_eq_Some_iff intro: le_SucI)

lemma chars_ok_new_id:
  assumes "chars_ok n s" "n + 1 < 2 ^ 32"
  shows "chars_ok (n + 1) (snd (new_character_id s))"
proof -
  have "snd (new_character_id s) = s\<lparr>hcs_lastSessionId := hcs_lastSessionId s + 1\<rparr>"
    by (simp add: new_character_id_def Let_def)
  then show ?thesis
    using assms(1) new_id_fresh [OF assms]
    by (simp add: chars_ok_def char_find_def char_ok_later ids_ok_later del: map_of_eq_Some_iff)
qed

lemma chars_ok_join:
  assumes "chars_ok n s" "n + 1 < 2 ^ 32" "map_of (hcs_playerCharacters s) c = None"
  shows "chars_ok (n + 1) (snd (reserve_player_character c s))"
proof -
  let ?pcs = "hcs_playerCharacters s" and ?i = "hcs_lastSessionId s + 1"
  have i: "unat ?i = n + 1"
    using assms(1,2) by (rule new_id_fresh)
  have "map_of ?pcs a \<noteq> Some ?i" for a
    using ids_okD(2) [OF chars_okD(3) [OF assms(1)], of a ?i] i by auto
  then have "ids_ok (n + 1) (assign c ?i ?pcs)"
    using chars_okD(3) [OF assms(1)] i unfolding ids_ok_def
    by (auto simp: distinct_assign simp del: map_of_eq_Some_iff intro: le_SucI split: if_splits)
  moreover have "char_ok (n + 1) (assign c ?i ?pcs) j d" if "char_find j s = Some d" for j d
    using chars_okD(4) [OF assms(1) that] assms(3) i by (auto simp: char_ok_def simp del: map_of_eq_Some_iff)
  moreover have "snd (reserve_player_character c s) =
      s\<lparr>hcs_lastSessionId := ?i, hcs_playerCharacters := assign c ?i ?pcs\<rparr>"
    by (simp add: reserve_player_character_def new_character_id_def Let_def)
  ultimately show ?thesis
    using assms(1) i by (simp add: chars_ok_def char_find_def del: map_of_eq_Some_iff)
qed

section \<open>The handlers that give and take\<close>

lemma on_announce_state:
  "fst (on_announce p a sender s) =
     (if announce_refused p a sender s then s
      else let i = an_SessionId a; is_player = (an_ReferenceId a = player_ref);
               s1 = (if is_player then fst (char_remove p i no_whereabouts s) else s);
               x = from_announcement a i (if is_player then player_id_of sender p else 0);
               s2 = char_set i \<lparr>hc_Owner = sender, hc_PlayerRecord = if is_player then Some x else None\<rparr> s1;
               s3 = s2\<lparr>hcs_places := assign sender (place_of (an_CellId a) (an_WorldSpaceId a)) (hcs_places s2)\<rparr>
           in if \<not> is_player then s2 else if sender \<noteq> players_host p \<and> (\<not> with_host p sender s3 \<or> \<not> in_host_grid p (an_Position a) s3)
             then fst (bring_to_party p sender s3) else s3)"
  by (simp add: on_announce_def Let_def case_prod_unfold)

lemma chars_ok_bring: "chars_ok n (fst (bring_to_party p c s)) = chars_ok n s"
  by (simp add: bring_to_party_def chars_ok_field split: option.split)

lemma char_find_bring: "char_find i (fst (bring_to_party p c s)) = char_find i s"
  by (simp add: bring_to_party_def char_find_def split: option.split)

lemma char_find_places: "char_find i (s\<lparr>hcs_places := x\<rparr>) = char_find i s"
  by (simp add: char_find_def)

lemma remove_players: "hcs_playerCharacters (fst (char_remove p i w s)) = hcs_playerCharacters s"
  by (simp add: char_remove_def split: option.split)

lemma chars_ok_announce:
  assumes "chars_ok n s" shows "chars_ok n (fst (on_announce p a sender s))"
proof (cases "announce_refused p a sender s")
  case False
  let ?i = "an_SessionId a"
  show ?thesis
  proof (cases "an_ReferenceId a = player_ref")
    case True
    then have i: "map_of (hcs_playerCharacters s) sender = Some ?i"
      using False by (simp add: announce_refused_def Let_def)
    then have "char_ok n (hcs_playerCharacters s) ?i \<lparr>hc_Owner = sender, hc_PlayerRecord = Some x\<rparr>" for x
      using ids_okD(1,2) [OF chars_okD(3) [OF assms] i] by (simp add: char_ok_def del: map_of_eq_Some_iff)
    then show ?thesis
      unfolding on_announce_state Let_def using True False assms
      by (simp add: chars_ok_bring chars_ok_field chars_ok_set chars_ok_remove remove_players)
  next
    case actor: False
    then have "?i \<noteq> 0" "?i \<le> hcs_lastSessionId s" "\<not> is_player_character ?i s"
      using False by (auto simp: announce_refused_def Let_def)
    moreover from this have "unat ?i \<le> n"
      using chars_okD(1) [OF assms] by (simp add: word_le_nat_alt)
    ultimately have "char_ok n (hcs_playerCharacters s) ?i \<lparr>hc_Owner = sender, hc_PlayerRecord = None\<rparr>"
      by (auto simp: char_ok_def is_player_character_def list_ex_iff dest: map_of_SomeD simp del: map_of_eq_Some_iff)
    then show ?thesis
      unfolding on_announce_state Let_def using actor False assms by (simp add: chars_ok_set)
  qed
qed (simp add: on_announce_state assms)

text \<open>A player's character, as others' announcements leave it.\<close>

lemma announce_keeps:
  assumes "chars_ok n s" and i: "char_find i s = Some c" and "hc_PlayerRecord c \<noteq> None" "hc_Owner c \<noteq> sender"
  shows "char_find i (fst (on_announce p a sender s)) = Some c"
proof (cases "announce_refused p a sender s")
  case False
  have owner: "map_of (hcs_playerCharacters s) (hc_Owner c) = Some i"
    using chars_okD(4) [OF assms(1) i] assms(3) by (simp add: char_ok_def del: map_of_eq_Some_iff)
  have "an_SessionId a \<noteq> i"
    using False owner i assms(4) ids_okD(3) [OF chars_okD(3) [OF assms(1)] owner, of sender]
    by (auto simp: announce_refused_def Let_def split: if_splits simp del: map_of_eq_Some_iff)
  then show ?thesis
    unfolding on_announce_state Let_def
    by (simp add: i char_find_bring char_find_places char_find_set char_find_remove False)
qed (simp add: on_announce_state i)

section \<open>A leaver's characters\<close>

lemma give_back_state:
  "fst (give_back p m rider w s) =
     (case char_find m s of Some c \<Rightarrow> if players_host p = 0 then s else char_set m (c\<lparr>hc_Owner := players_host p\<rparr>) s | None \<Rightarrow> s)"
  by (simp add: give_back_def Let_def split: option.split)

lemma give_back_all_state:
  "hcs_playerCharacters (fst (give_back_all p rider ms s)) = hcs_playerCharacters s \<and>
   hcs_lastSessionId (fst (give_back_all p rider ms s)) = hcs_lastSessionId s \<and>
   (distinct (map fst (hcs_characters s)) \<longrightarrow> distinct (map fst (hcs_characters (fst (give_back_all p rider ms s))))) \<and>
   char_find i (fst (give_back_all p rider ms s)) =
     (if i \<in> set ms \<and> players_host p \<noteq> 0 then map_option (hc_Owner_update (\<lambda>_. players_host p)) (char_find i s) else char_find i s)"
proof (induction ms arbitrary: s)
  case (Cons m ms)
  let ?s = "fst (give_back p m rider no_whereabouts s)"
  have one: "hcs_playerCharacters ?s = hcs_playerCharacters s" "hcs_lastSessionId ?s = hcs_lastSessionId s"
    "distinct (map fst (hcs_characters s)) \<Longrightarrow> distinct (map fst (hcs_characters ?s))"
    "char_find i ?s = (if i = m \<and> players_host p \<noteq> 0 then map_option (hc_Owner_update (\<lambda>_. players_host p)) (char_find i s) else char_find i s)"
    by (auto simp: give_back_state char_find_set char_set_def distinct_assign split: option.split) (auto simp: char_find_def)
  have "fst (give_back_all p rider (m # ms) s) = fst (give_back_all p rider ms ?s)"
    by (simp add: give_back_all_def run_Cons)
  then show ?case
    using one Cons.IH [of ?s] by (cases "char_find i s") auto
qed (simp add: give_back_all_def)

lemma remove_all_state:
  "hcs_playerCharacters (fst (remove_all p is s)) = hcs_playerCharacters s \<and>
   hcs_lastSessionId (fst (remove_all p is s)) = hcs_lastSessionId s \<and>
   (distinct (map fst (hcs_characters s)) \<longrightarrow> distinct (map fst (hcs_characters (fst (remove_all p is s))))) \<and>
   char_find i (fst (remove_all p is s)) = (if i \<in> set is then None else char_find i s)"
proof (induction "is" arbitrary: s)
  case (Cons j js)
  let ?s = "fst (char_remove p j no_whereabouts s)"
  have one: "hcs_playerCharacters ?s = hcs_playerCharacters s" "hcs_lastSessionId ?s = hcs_lastSessionId s"
    "distinct (map fst (hcs_characters s)) \<Longrightarrow> distinct (map fst (hcs_characters ?s))"
    by (auto simp: char_remove_def distinct_erase split: option.split)
  have "fst (remove_all p (j # js) s) = fst (remove_all p js ?s)"
    by (simp add: remove_all_def run_Cons)
  then show ?case
    using one Cons.IH [of ?s] by (auto simp: char_find_remove)
qed (simp add: remove_all_def)

lemma owned_by_iff:
  assumes "distinct (map fst (hcs_characters s))"
  shows "i \<in> set (owned_by c b s) \<longleftrightarrow> (\<exists>x. char_find i s = Some x \<and> hc_Owner x = c \<and> (hc_PlayerRecord x \<noteq> None) = b)"
  using assms by (auto simp: owned_by_def char_find_def image_iff simp del: not_None_eq)

lemma left_state:
  "hcs_playerCharacters (fst (on_player_left p c s)) = map_erase c (hcs_playerCharacters s) \<and>
   hcs_lastSessionId (fst (on_player_left p c s)) = hcs_lastSessionId s \<and>
   (distinct (map fst (hcs_characters s)) \<longrightarrow> distinct (map fst (hcs_characters (fst (on_player_left p c s)))) \<and>
   char_find i (fst (on_player_left p c s)) =
     (case char_find i s of
        None \<Rightarrow> None
      | Some x \<Rightarrow> if hc_Owner x \<noteq> c then Some x else if hc_PlayerRecord x \<noteq> None then None
          else if players_host p = 0 then Some x else Some (x\<lparr>hc_Owner := players_host p\<rparr>)))"
proof -
  let ?s = "s\<lparr>hcs_playerCharacters := map_erase c (hcs_playerCharacters s), hcs_places := map_erase c (hcs_places s),
              hcs_aheadOfHost := set_erase c (hcs_aheadOfHost s), hcs_broughtToParty := set_erase c (hcs_broughtToParty s)\<rparr>"
  let ?given = "fst (give_back_all p (player_character_of c s) (owned_by c False ?s) ?s)"
  have same: "char_find i ?s = char_find i s" for i
    by (simp add: char_find_def)
  have "fst (on_player_left p c s) = fst (remove_all p (owned_by c True ?s) ?given)"
    by (simp add: on_player_left_def Let_def case_prod_unfold)
  then show ?thesis
    using remove_all_state [of p "owned_by c True ?s" ?given i]
      give_back_all_state [of p "player_character_of c s" "owned_by c False ?s" ?s i]
      owned_by_iff [of ?s i c]
    by (auto simp: same split: option.split)
qed

lemma chars_ok_left:
  assumes "chars_ok n s" shows "chars_ok n (fst (on_player_left p c s))"
proof -
  let ?s = "fst (on_player_left p c s)" and ?pcs = "map_erase c (hcs_playerCharacters s)"
  have "ids_ok n ?pcs"
    using chars_okD(3) [OF assms] by (auto simp: ids_ok_def map_of_erase distinct_erase simp del: map_of_eq_Some_iff)
  moreover have "char_ok n ?pcs i x" if i: "char_find i ?s = Some x" for i x
  proof -
    obtain y where y: "char_find i s = Some y"
      using i left_state [of p c s i] chars_okD(2) [OF assms] by (auto split: option.splits)
    then show ?thesis
      using i left_state [of p c s i] chars_okD(2) [OF assms] chars_okD(4) [OF assms y]
      by (auto simp: char_ok_def map_of_erase split: if_splits simp del: map_of_eq_Some_iff)
  qed
  ultimately show ?thesis
    using left_state [of p c s] chars_okD(1,2) [OF assms] by (simp add: chars_ok_def)
qed

text \<open>A mount has no record: its owner may be another.\<close>

lemma chars_ok_owner:
  assumes "chars_ok n s" "char_find i s = Some c" "hc_PlayerRecord c = None"
  shows "chars_ok n (char_set i (c\<lparr>hc_Owner := a\<rparr>) s)"
  using assms(1) by (rule chars_ok_set) (use chars_okD(4) [OF assms(1,2)] assms(3) in \<open>simp add: char_ok_def\<close>)

lemma chars_ok_mounts:
  assumes "chars_ok n s"
  shows "chars_ok n (fst (on_mount p m c s))" "chars_ok n (fst (on_dismount p d c s))"
  using assms chars_ok_owner
  by (auto simp: on_mount_def on_dismount_def Let_def case_prod_unfold give_back_state split: option.split)

lemma chars_ok_on_remove: "chars_ok n s \<Longrightarrow> chars_ok n (fst (on_remove p r c s))"
  by (simp add: on_remove_def case_prod_unfold Let_def chars_ok_remove)

section \<open>Every step\<close>

lemma chars_ok_step:
  assumes ok: "chars_ok n s" and n: "makes_id e \<Longrightarrow> n + 1 < 2 ^ 32"
  shows "\<exists>m \<le> n + of_bool (makes_id e). chars_ok m (fst (char_step e s))"
proof -
  obtain g p c x where e: "e = (g, p, c, x)"
    by (cases e)
  note kept = chars_ok_own [OF ok own_on_movement] chars_ok_own [OF ok own_on_respawn] chars_ok_own [OF ok own_small(1)]
    chars_ok_own [OF ok own_small(2)] chars_ok_own [OF ok own_small(3)] chars_ok_own [OF ok own_small(4)]
    chars_ok_own [OF ok own_on_values] chars_ok_own [OF ok own_on_enter_cell] chars_ok_own [OF ok own_rename [OF ok]]
    chars_ok_announce [OF ok] chars_ok_left [OF ok] chars_ok_mounts [OF ok] chars_ok_on_remove [OF ok]
  show ?thesis
  proof (cases x)
    case Joins
    show ?thesis
    proof (cases "map_of (hcs_playerCharacters s) c")
      case None
      then show ?thesis
        using n chars_ok_join [OF ok] Joins unfolding e by (auto intro!: exI [of _ "Suc n"])
    next
      case (Some i)
      then show ?thesis
        using ok Joins unfolding e by (auto simp del: map_of_eq_Some_iff intro!: exI [of _ n])
    qed
  next
    case NewId
    then show ?thesis
      using n chars_ok_new_id [OF ok] unfolding e by (auto intro!: exI [of _ "Suc n"])
  qed (use kept in \<open>auto simp: e intro!: exI [of _ n]\<close>)
qed

lemma step_keeps:
  assumes ok: "chars_ok n s" and i: "char_find i s = Some x" and "hc_PlayerRecord x \<noteq> None" "sender_of e \<noteq> hc_Owner x"
  shows "char_find i (fst (char_step e s)) = Some x"
proof -
  obtain g p c y where e: "e = (g, p, c, y)"
    by (cases e)
  then have c: "hc_Owner x \<noteq> c"
    using assms(4) by simp
  have own: "char_find i s' = Some x" if "own_change c s s'" for s'
    using that i c unfolding own_change_def by (auto dest!: spec [of _ i] simp: option_rel_Some1)
  note kept = own [OF own_on_movement] own [OF own_on_respawn] own [OF own_small(1)]
    own [OF own_small(2)] own [OF own_small(3)] own [OF own_small(4)]
    own [OF own_on_values] own [OF own_on_enter_cell] own [OF own_rename [OF ok]]
    announce_keeps [OF ok i assms(3) c]
  have "char_find i (fst (on_player_left p c s)) = Some x"
    using left_state [of p c s i] chars_okD(2) [OF ok] i c by simp
  moreover have "char_find i (fst (on_remove p r c s)) = Some x" for r
    using i c by (auto simp: on_remove_def case_prod_unfold Let_def char_find_remove owner_of_def)
  moreover have "char_find i (fst (on_mount p m c s)) = Some x" "char_find i (fst (on_dismount p d c s)) = Some x" for m d
    using i c assms(3)
    by (auto simp: on_mount_def on_dismount_def Let_def case_prod_unfold give_back_state char_find_set split: option.split)
  moreover have "char_find i (snd (new_character_id s)) = Some x" "char_find i (snd (reserve_player_character c s)) = Some x"
    using i by (simp_all add: reserve_player_character_def new_character_id_def char_find_def Let_def)
  ultimately show ?thesis
    using i kept unfolding e by (cases y) auto
qed

lemma run_ok:
  assumes "chars_ok n s" and "n + ids_made es < 2 ^ 32"
  shows "\<exists>m \<le> n + ids_made es. chars_ok m (fst (char_run es s))"
  using assms
proof (induction es arbitrary: n s)
  case (Cons e es)
  have "makes_id e \<Longrightarrow> n + 1 < 2 ^ 32"
    using Cons.prems(2) by (simp add: ids_made_def)
  then obtain m where m: "m \<le> n + of_bool (makes_id e)" "chars_ok m (fst (char_step e s))"
    using chars_ok_step [OF Cons.prems(1), of e] by blast
  then have "m + ids_made es < 2 ^ 32"
    using Cons.prems(2) by (auto simp: ids_made_def split: if_splits)
  from Cons.IH [OF m(2) this] obtain k where "k \<le> m + ids_made es" "chars_ok k (fst (char_run es (fst (char_step e s))))"
    by auto
  then show ?case
    using m(1) by (auto simp: run_Cons ids_made_def intro!: exI [of _ k] split: if_splits)
qed (auto simp: ids_made_def)

lemma run_from_none: "ids_made es < 2 ^ 32 \<Longrightarrow> \<exists>n \<le> ids_made es. chars_ok n (fst (char_run es no_characters))"
  using run_ok [OF chars_ok_none, of es] by simp

section \<open>What the host promises its players\<close>

lemma run_keeps:
  assumes "chars_ok n s" "n + ids_made es < 2 ^ 32" "char_find i s = Some x" "hc_PlayerRecord x \<noteq> None"
    and "\<forall>e \<in> set es. sender_of e \<noteq> hc_Owner x"
  shows "char_find i (fst (char_run es s)) = Some x"
  using assms
proof (induction es arbitrary: n s)
  case (Cons e es)
  have "makes_id e \<Longrightarrow> n + 1 < 2 ^ 32"
    using Cons.prems(2) by (simp add: ids_made_def)
  then obtain m where m: "m \<le> n + of_bool (makes_id e)" "chars_ok m (fst (char_step e s))"
    using chars_ok_step [OF Cons.prems(1), of e] by blast
  then have "m + ids_made es < 2 ^ 32"
    using Cons.prems(2) by (auto simp: ids_made_def split: if_splits)
  moreover have "char_find i (fst (char_step e s)) = Some x"
    using step_keeps [OF Cons.prems(1,3,4)] Cons.prems(5) by simp
  ultimately show ?case
    using Cons.IH [OF m(2)] Cons.prems(4,5) by (simp add: run_Cons)
qed simp

text \<open>
  C3: a player's character on the host is its own game's alone. Whatever any other game
  sends, the host's and another joining or leaving among them, in whatever order, the character's owner and record
  stay exactly as its own game last left them.
\<close>

theorem players_own_their_characters:
  assumes "ids_made (es @ es') < 2 ^ 32"
    and "char_find i (fst (char_run es no_characters)) = Some x" "hc_PlayerRecord x \<noteq> None"
    and "\<forall>e \<in> set es'. sender_of e \<noteq> hc_Owner x"
  shows "char_find i (fst (char_run (es @ es') no_characters)) = Some x"
proof -
  obtain n where n: "n \<le> ids_made es" "chars_ok n (fst (char_run es no_characters))"
    using run_from_none [of es] assms(1) by (auto simp: ids_made_def)
  then have "n + ids_made es' < 2 ^ 32"
    using assms(1) by (simp add: ids_made_def)
  then show ?thesis
    using run_keeps [OF n(2) _ assms(2-4)] by (simp add: run_append)
qed

text \<open>
  C14: after any events that give out fewer than 2^32 ids, a player's character goes by the id its
  join gave its owner, it is the one \<open>PlayerCharacterOf\<close> finds, and two characters with a record have different owners.
\<close>

theorem one_character_each:
  assumes "ids_made es < 2 ^ 32" and "s = fst (char_run es no_characters)"
    and "char_find i s = Some x" "hc_PlayerRecord x \<noteq> None"
  shows "i \<noteq> 0 \<and> map_of (hcs_playerCharacters s) (hc_Owner x) = Some i \<and> player_character_of (hc_Owner x) s = i \<and>
    (\<forall>j y. char_find j s = Some y \<and> hc_PlayerRecord y \<noteq> None \<and> hc_Owner y = hc_Owner x \<longrightarrow> j = i)"
proof -
  obtain n where ok: "chars_ok n s"
    using run_from_none [OF assms(1)] assms(2) by auto
  have one: "j \<noteq> 0 \<and> map_of (hcs_playerCharacters s) (hc_Owner y) = Some j" if "char_find j s = Some y" "hc_PlayerRecord y \<noteq> None" for j y
    using chars_okD(4) [OF ok that(1)] that(2) by (simp add: char_ok_def del: map_of_eq_Some_iff)
  moreover have "player_character_of (hc_Owner x) s = i"
    using player_character_of_ok [OF ok, of "hc_Owner x"] assms(3,4) one [OF assms(3,4)]
    by (cases "char_find (player_character_of (hc_Owner x) s) s") (auto dest: one simp del: map_of_eq_Some_iff)
  ultimately show ?thesis
    using assms(3,4) by (fastforce dest: one simp del: map_of_eq_Some_iff)
qed

text \<open>
  When a player leaves, its player characters are gone, the actors it rode are the
  host's again (where a host is in), every other character is as it was, and the leaver has no character's id left.
\<close>

theorem leaver_takes_its_characters:
  assumes "ids_made es < 2 ^ 32" and "s = fst (char_run es no_characters)"
  shows "map_of (hcs_playerCharacters (fst (on_player_left p c s))) c = None \<and>
    char_find i (fst (on_player_left p c s)) =
     (case char_find i s of
        None \<Rightarrow> None
      | Some x \<Rightarrow> if hc_Owner x \<noteq> c then Some x else if hc_PlayerRecord x \<noteq> None then None
          else if players_host p = 0 then Some x else Some (x\<lparr>hc_Owner := players_host p\<rparr>))"
proof -
  obtain n where "chars_ok n s"
    using run_from_none [OF assms(1)] assms(2) by auto
  then show ?thesis
    using left_state [of p c s i] chars_okD(2) by (simp add: map_of_erase)
qed

section \<open>One player\<close>

text \<open>A player who joins and is announced.\<close>

definition player_announce :: announce where
  "player_announce = new_announce\<lparr>an_SessionId := 1, an_ReferenceId := player_ref\<rparr>"

definition joined_player :: "(spawn_game \<times> host_players \<times> conn \<times> char_event) list" where
  "joined_player =
     (let g = \<lparr>sg_OwnSpawns = \<lambda>_. [], sg_ReadCopy = \<lambda>_ x. x\<rparr>
      in [(g, no_players, 5, Joins), (g, no_players, 5, Announces player_announce)])"

definition intruders :: "(spawn_game \<times> host_players \<times> conn \<times> char_event) list" where
  "intruders =
     (let g = \<lparr>sg_OwnSpawns = \<lambda>_. [], sg_ReadCopy = \<lambda>_ x. x\<rparr>
      in [(g, no_players, 7, Joins), (g, no_players, 7, Announces player_announce),
          (g, no_players, 7, Removes \<lparr>rr_SessionId = 1, rr_Whereabouts = no_whereabouts\<rparr>), (g, no_players, 7, Leaves)])"

lemma joined_player_found:
  "char_find 1 (fst (char_run joined_player no_characters)) =
     Some \<lparr>hc_Owner = 5, hc_PlayerRecord = Some (from_announcement player_announce 1 0)\<rparr>"
  by (simp add: joined_player_def Let_def run_Cons on_announce_state announce_refused_def player_announce_def
    reserve_player_character_def new_character_id_def no_characters_def char_find_bring char_find_places char_find_set
    player_id_of_def players_find_def no_players_def)

theorem players_own_their_characters_witness:
  "char_find 1 (fst (char_run (joined_player @ intruders) no_characters)) =
     Some \<lparr>hc_Owner = 5, hc_PlayerRecord = Some (from_announcement player_announce 1 0)\<rparr>"
  by (rule players_own_their_characters [OF _ joined_player_found])
    (simp_all add: ids_made_def joined_player_def intruders_def Let_def)

theorem one_character_each_witness:
  "player_character_of 5 (fst (char_run joined_player no_characters)) = 1"
  using one_character_each [OF _ refl joined_player_found] by (simp add: ids_made_def joined_player_def Let_def)

theorem leaver_takes_its_characters_witness:
  "char_find 1 (fst (on_player_left no_players 5 (fst (char_run joined_player no_characters)))) = None"
  using leaver_takes_its_characters [of joined_player, OF _ refl, of no_players 5 1]
  by (simp add: joined_player_found) (simp add: ids_made_def joined_player_def Let_def)

end
