(* ===== verification/Text.thy ===== *)
theory Text
  imports Prelude
begin

text \<open>
  Texts: a string as C reads it, numbers in words, and a player's text as chat shows it (\<open>ChatText\<close> of
  \<open>Services/Host/HostAuthority\<close>).
\<close>

text \<open>A string as C reads it, up to its first zero.\<close>

definition c_str :: "string \<Rightarrow> string" where
  "c_str s = takeWhile (\<lambda>c. c \<noteq> CHR 0x00) s"

function decimal :: "nat \<Rightarrow> string" where
  "decimal n = (if n < 10 then [char_of (48 + n)] else decimal (n div 10) @ [char_of (48 + n mod 10)])"
  by auto

termination
  by (relation "measure id") auto

declare decimal.simps [simp del]

definition decimal_int :: "int \<Rightarrow> string" where
  "decimal_int i = (if i < 0 then ''-'' @ decimal (nat (- i)) else decimal (nat i))"

section \<open>Chat\<close>

definition chat_max_length :: nat where "chat_max_length = 200"

definition continuation :: "char \<Rightarrow> bool" where
  "continuation c \<longleftrightarrow> char_byte c AND 0xC0 = 0x80"

text \<open>Back to the start of a character the limit cuts through.\<close>

fun cut_char :: "string \<Rightarrow> nat \<Rightarrow> nat" where
  "cut_char s 0 = 0"
| "cut_char s (Suc n) = (if Suc n < length s \<and> continuation (s ! Suc n) then cut_char s n else Suc n)"

definition shown_char :: "char \<Rightarrow> bool" where
  "shown_char c \<longleftrightarrow> 0x20 \<le> char_byte c \<and> c \<noteq> CHR 0x7F"

definition chat_text :: "string \<Rightarrow> string" where
  "chat_text s = filter shown_char (take (cut_char s (min (length s) chat_max_length)) s)"

section \<open>Whole characters\<close>

text \<open>UTF-8: how many continuation bytes a first byte is followed by, and a text with \<open>n\<close> of them still due.\<close>

definition utf8_follow :: "char \<Rightarrow> nat option" where
  "utf8_follow c =
     (let b = char_byte c
      in if b < 0x80 then Some 0 else if b AND 0xE0 = 0xC0 then Some 1 else if b AND 0xF0 = 0xE0 then Some 2
         else if b AND 0xF8 = 0xF0 then Some 3 else None)"

fun utf8 :: "nat \<Rightarrow> string \<Rightarrow> bool" where
  "utf8 n [] \<longleftrightarrow> n = 0"
| "utf8 n (c # s) \<longleftrightarrow>
     (if continuation c then 0 < n \<and> utf8 (n - 1) s
      else n = 0 \<and> (case utf8_follow c of None \<Rightarrow> False | Some k \<Rightarrow> utf8 k s))"

lemma utf8_take:
  "utf8 n s \<Longrightarrow> k \<le> length s \<Longrightarrow> k = length s \<or> \<not> continuation (s ! k) \<Longrightarrow> utf8 n (take k s)"
proof (induction s arbitrary: n k)
  case (Cons c s)
  then show ?case
    by (cases k) (auto split: if_splits option.splits)
qed simp

lemma hidden_char: "\<not> shown_char c \<Longrightarrow> \<not> continuation c \<and> utf8_follow c = Some 0"
proof -
  assume "\<not> shown_char c"
  then have "char_byte c < 0x20 \<or> char_byte c = 0x7F"
    by (auto simp: shown_char_def not_le char_byte_def)
  then have small: "char_byte c < 0x80"
    by (auto simp: word_less_nat_alt)
  moreover have "b AND 0xC0 \<noteq> 0x80" if "b < 0x80" for b :: u8
  proof
    assume "b AND 0xC0 = 0x80"
    then have "0x80 \<le> b"
      by (metis word_and_le2)
    then show False
      using that by simp
  qed
  ultimately show ?thesis
    by (simp add: continuation_def utf8_follow_def)
qed

lemma utf8_shown: "utf8 n s \<Longrightarrow> utf8 n (filter shown_char s)"
  by (induction s arbitrary: n) (auto split: if_splits option.splits dest: hidden_char)

lemma cut_char_bounds: "cut_char s n \<le> n"
  by (induction n) auto

lemma cut_char_boundary: "n \<le> length s \<Longrightarrow> utf8 0 s \<Longrightarrow>
    cut_char s n = length s \<or> cut_char s n < length s \<and> \<not> continuation (s ! cut_char s n)"
proof (induction n)
  case 0
  then show ?case by (cases s) auto
qed auto

text \<open>
  A player's text, as chat shows it, has at most 200 bytes and no control character; a text in UTF-8 stays
  in UTF-8, no character cut through; and a text that fits loses its control characters only.
\<close>

theorem chat_text_whole:
  "length (chat_text s) \<le> 200 \<and> (\<forall>c. c \<in> set (chat_text s) \<longrightarrow> 0x20 \<le> char_byte c \<and> c \<noteq> CHR 0x7F) \<and>
   (utf8 0 s \<longrightarrow> utf8 0 (chat_text s)) \<and>
   (length s \<le> 200 \<longrightarrow> chat_text s = filter shown_char s)"
proof (intro conjI impI allI)
  let ?n = "min (length s) chat_max_length"
  have "length (chat_text s) \<le> length (take (cut_char s ?n) s)"
    unfolding chat_text_def by (rule length_filter_le)
  also have "\<dots> \<le> 200"
    using cut_char_bounds [of s ?n] by (simp add: chat_max_length_def)
  finally show "length (chat_text s) \<le> 200" .
  show "0x20 \<le> char_byte c" "c \<noteq> CHR 0x7F" if "c \<in> set (chat_text s)" for c
    using that by (auto simp: chat_text_def shown_char_def)
  show "utf8 0 (chat_text s)" if "utf8 0 s"
    using cut_char_boundary [of ?n s] utf8_take [OF that, of "cut_char s ?n"] utf8_shown that
    by (auto simp: chat_text_def)
  show "chat_text s = filter shown_char s" if "length s \<le> 200"
    using that by (cases s) (auto simp: chat_text_def chat_max_length_def)
qed

theorem chat_text_whole_witness:
  "utf8 0 (chat_text (replicate 199 CHR ''a'' @ [CHR 0xC3, CHR 0xA9]))"
proof -
  have "utf8 0 (replicate n CHR ''a'' @ [CHR 0xC3, CHR 0xA9])" for n
    by (induction n) (simp_all add: continuation_def utf8_follow_def char_byte_def of_char_def)
  then show ?thesis
    using chat_text_whole by blast
qed

end
