(* ===== verification/Join_Gate.thy ===== *)
theory Join_Gate
  imports Text Characters Save_Hosting Host_Network
begin

text \<open>
  The host's gate: how two games' plugins differ (\<open>Structs/LoadOrder\<close>), what a refused game and the host's chat
  are told (\<open>Services/Host/JoinRefusal\<close>), and the handler that lets games in (\<open>Services/Host/HostSession\<close>).
\<close>

section \<open>Load orders\<close>

text \<open>\<open>tolower\<close> of the \<open>C\<close> locale.\<close>

definition lower_char :: "char \<Rightarrow> char" where
  "lower_char c = (if CHR ''A'' \<le> c \<and> c \<le> CHR ''Z'' then char_of (of_char c + (32 :: nat)) else c)"

definition lower_name :: "string \<Rightarrow> string" where
  "lower_name s = map lower_char (c_str s)"

datatype difference_kind = Plugin_Missing | Plugin_Extra | Plugin_Light | Plugin_Order

record load_order_difference =
  ld_What :: difference_kind
  ld_Plugin :: string
  ld_Theirs :: string
  ld_After :: string
  ld_Light :: bool

definition plugin_differs :: "difference_kind \<Rightarrow> string \<Rightarrow> load_order_difference" where
  "plugin_differs what plugin = \<lparr>ld_What = what, ld_Plugin = plugin, ld_Theirs = [], ld_After = [], ld_Light = False\<rparr>"

definition find_plugin :: "mods \<Rightarrow> string \<Rightarrow> mod_entry option" where
  "find_plugin ms name = find (\<lambda>e. lower_name (mod_Filename e) = name) ms"

text \<open>The host's plugins: the differences, and those the player loads too.\<close>

fun compare_hosts :: "mods \<Rightarrow> mods \<Rightarrow> load_order_difference list \<times> mods" where
  "compare_hosts [] player = ([], [])"
| "compare_hosts (e # es) player =
     (let (differences, shared) = compare_hosts es player
      in case find_plugin player (lower_name (mod_Filename e)) of
           None \<Rightarrow> (plugin_differs Plugin_Missing (c_str (mod_Filename e)) # differences, shared)
         | Some theirs \<Rightarrow>
             ((if mod_IsLite theirs \<noteq> mod_IsLite e
               then [(plugin_differs Plugin_Light (c_str (mod_Filename e)))\<lparr>ld_Light := mod_IsLite e\<rparr>] else []) @ differences,
              e # shared))"

fun compare_players :: "mods \<Rightarrow> mods \<Rightarrow> load_order_difference list \<times> mods" where
  "compare_players host [] = ([], [])"
| "compare_players host (e # es) =
     (let (differences, shared) = compare_players host es
      in case find_plugin host (lower_name (mod_Filename e)) of
           None \<Rightarrow> (plugin_differs Plugin_Extra (c_str (mod_Filename e)) # differences, shared)
         | Some _ \<Rightarrow> (differences, e # shared))"

text \<open>
  The first place the shared ones part, from index \<open>i\<close> up; none where the code would read past the player's
  (\<open>playerShared[i]\<close>, undefined), which takes a host that names a plugin twice.
\<close>

fun compare_order :: "mods \<Rightarrow> mods \<Rightarrow> string \<Rightarrow> load_order_difference list option" where
  "compare_order [] player after = Some []"
| "compare_order (h # hs) [] after = None"
| "compare_order (h # hs) (p # ps) after =
     (if lower_name (mod_Filename h) = lower_name (mod_Filename p) then compare_order hs ps (c_str (mod_Filename h))
      else Some [\<lparr>ld_What = Plugin_Order, ld_Plugin = c_str (mod_Filename h), ld_Theirs = c_str (mod_Filename p),
        ld_After = after, ld_Light = False\<rparr>])"

definition compare_load_orders :: "mods \<Rightarrow> mods \<Rightarrow> load_order_difference list option" where
  "compare_load_orders host player =
     (let (differences, host_shared) = compare_hosts host player; (extra, player_shared) = compare_players host player
      in map_option (\<lambda>order. differences @ extra @ order) (compare_order host_shared player_shared []))"

section \<open>Words for a refusal\<close>

text \<open>\<open>GameVersions::Format\<close>.\<close>

definition format_version :: "u32 \<Rightarrow> string" where
  "format_version v =
     decimal (unat (drop_bit 24 v)) @ ''.'' @ decimal (unat (drop_bit 16 v AND 0xFF)) @ ''.'' @
     decimal (unat (drop_bit 4 v AND 0xFFF)) @ (if v AND 0xF \<noteq> 0 then ''.'' @ decimal (unat (v AND 0xF)) else [])"

definition describe_game :: "game_versions \<Rightarrow> string" where
  "describe_game g = ''Skyrim '' @ format_version (gv_Runtime g) @ '' with SKSE '' @ format_version (gv_Skse g)"

definition describe_difference :: "load_order_difference \<Rightarrow> string" where
  "describe_difference d =
     (case ld_What d of
        Plugin_Missing \<Rightarrow> ''missing '' @ ld_Plugin d
      | Plugin_Extra \<Rightarrow> ''extra '' @ ld_Plugin d
      | Plugin_Light \<Rightarrow> ''light '' @ ld_Plugin d @ '': the host loads it as '' @ (if ld_Light d then ''a light'' else ''a full'') @
          '' plugin, you as '' @ (if ld_Light d then ''a full one'' else ''a light one'')
      | Plugin_Order \<Rightarrow> ''order: '' @ (if ld_After d = [] then ''first'' else ''after '' @ ld_After d) @ '' the host loads '' @
          ld_Plugin d @ '', you load '' @ ld_Theirs d)"

datatype response_type =
    Accepted
  | Wrong_Version
  | Mods_Mismatch
  | Session_Full
  | Wrong_Game
  | World_Follows
  | Transfer_Failed
  | No_Character

definition response_code :: "response_type \<Rightarrow> u8" where
  "response_code t =
     (case t of Accepted \<Rightarrow> 0 | Wrong_Version \<Rightarrow> 1 | Mods_Mismatch \<Rightarrow> 2 | Session_Full \<Rightarrow> 5 | Wrong_Game \<Rightarrow> 6 | World_Follows \<Rightarrow> 7
      | Transfer_Failed \<Rightarrow> 8 | No_Character \<Rightarrow> 9)"

datatype join_state =
    Join_Idle
  | Join_Connecting
  | Joined_Session
  | Join_Refused
  | Join_Checking
  | Receiving_World
  | Loading_World
  | Creating_Character
  | Join_Reconnecting
  | Join_Ended

record join_status =
  js_Current :: join_state
  js_Reason :: string
  js_Message :: string
  js_Details :: "string list"
  js_Progress :: float32

definition join_failed :: "string \<Rightarrow> join_status" where
  "join_failed reason = \<lparr>js_Current = Join_Refused, js_Reason = reason, js_Message =
     (if reason = ''unreachable'' then ''Couldn't reach the host's game. Check the address, or that the host is still hosting.''
      else if reason = ''lost_connection'' then ''The connection to the host dropped while joining. Try again.''
      else if reason = ''transfer_failed'' then ''The host's world didn't arrive or didn't load. Try joining again.''
      else if reason = ''placement_failed'' then
        ''Couldn't find room beside the host. Ask the host to move to an open spot, then join again.''
      else if reason = ''creation_unavailable'' then
        ''Character creation is unavailable. Install and enable the bundled SkyrimCoopStart.esp, then accept the invite again.''
      else if reason = ''creation_failed'' then
        ''Character creation couldn't finish starting or preparing your character. Return to the main menu and try the invite again.''
      else if reason = ''no_character'' then
        ''The host's game has no character of yours yet: start or load a game of your own, then join from it.''
      else ''The join didn't finish.''), js_Details = [], js_Progress = 0\<rparr>"

definition join_ended :: "string \<Rightarrow> join_status" where
  "join_ended reason =
     (let st = \<lparr>js_Current = Join_Ended, js_Reason = reason, js_Message = [], js_Details = [], js_Progress = 0\<rparr>
      in if reason = ''kicked'' then st\<lparr>js_Message := ''The host removed you from the session.''\<rparr>
         else if reason = ''host_left'' then st\<lparr>js_Message := ''The host ended the session.''\<rparr>
         else st\<lparr>js_Message := ''Lost connection to the host.'', js_Details :=
           [''Reconnecting didn't work.'', ''Join again through Steam, or restart the game.'']\<rparr>)"

text \<open>What a game runs, as the gate compares it.\<close>

record game_install =
  in_Build :: string
  in_Game :: game_versions
  in_Plugins :: mods

definition differences_word :: "nat \<Rightarrow> string" where
  "differences_word n = decimal n @ '' '' @ (if n = 1 then ''difference'' else ''differences'')"

text \<open>None where comparing the load orders is undefined (\<open>compare_load_orders\<close>).\<close>

definition refusal_for_player :: "authentication_response \<Rightarrow> game_install \<Rightarrow> join_status option" where
  "refusal_for_player r ours =
     (let st = \<lparr>js_Current = Join_Refused, js_Reason = [], js_Message = [], js_Details = [], js_Progress = 0\<rparr>
      in if ar_Type r = response_code Wrong_Version
         then Some (st\<lparr>js_Reason := ''wrong_build'', js_Message := ''The host runs SkyrimCoop '' @ c_str (ar_Version r) @
           '', you run '' @ in_Build ours @ ''. You both need the same build.''\<rparr>)
         else if ar_Type r = response_code Wrong_Game
         then Some (st\<lparr>js_Reason := ''wrong_game'', js_Message := ''The host runs '' @ describe_game (ar_Game r) @ '', you run '' @
           describe_game (in_Game ours) @ ''. You both need the same versions.''\<rparr>)
         else if ar_Type r = response_code Mods_Mismatch
         then map_option (\<lambda>ds. st\<lparr>js_Reason := ''mods_differ'', js_Details := map describe_difference ds, js_Message :=
             ''Your plugins differ from the host's ('' @ differences_word (length ds) @
             ''). You both need the same plugins in the same order.''\<rparr>)
           (compare_load_orders (ar_UserMods r) (in_Plugins ours))
         else if ar_Type r = response_code Session_Full
         then Some (st\<lparr>js_Reason := ''full'', js_Message := ''The session is full.''\<rparr>)
         else if ar_Type r = response_code Transfer_Failed then Some (join_failed ''transfer_failed'')
         else if ar_Type r = response_code No_Character then Some (join_failed ''no_character'')
         else Some (st\<lparr>js_Reason := ''refused'', js_Message := ''The host turned the join down.''\<rparr>))"

definition refusal_for_host :: "response_type \<Rightarrow> authentication_request \<Rightarrow> game_install \<Rightarrow> string option" where
  "refusal_for_host reason q ours =
     (let name = (if aq_Username q = [] then ''A player'' else c_str (aq_Username q))
      in case reason of
           Wrong_Version \<Rightarrow> Some (name @ '' couldn't join: they run SkyrimCoop '' @ c_str (aq_Version q) @ '', you run '' @ in_Build ours @ ''.'')
         | Wrong_Game \<Rightarrow> Some (name @ '' couldn't join: they run '' @ describe_game (aq_Game q) @ '', you run '' @
             describe_game (in_Game ours) @ ''.'')
         | Mods_Mismatch \<Rightarrow> map_option (\<lambda>ds. name @ '' couldn't join: their plugins differ from yours ('' @
             differences_word (length ds) @ '').'') (compare_load_orders (in_Plugins ours) (aq_UserMods q))
         | Session_Full \<Rightarrow> Some (name @ '' couldn't join: the session is full.'')
         | Transfer_Failed \<Rightarrow> Some (name @ '' couldn't join: your game could not save for them.'')
         | No_Character \<Rightarrow> Some (name @ '' needs a new character before joining your game.'')
         | _ \<Rightarrow> Some (name @ '' couldn't join.''))"

section \<open>The gate\<close>

text \<open>
  What the handler changes: the players, their characters' ids, the names of connections and the save's receivers.
\<close>

record session =
  ss_players :: host_players
  ss_characters :: characters
  ss_network :: network
  ss_transfer :: receivers

text \<open>The host's game: its install, whether its save has a character (if it says), and the difficulty it reads.\<close>

record gate_game =
  gg_Install :: game_install
  gg_HasRecord :: "(string \<Rightarrow> bool) option"
  gg_Difficulty :: u32

datatype session_out =
    Answered conn authentication_response
  | Turned_Away conn
  | Host_Told conn chat
  | Joined_Told conn player_joined
  | Left_Told conn player_left
  | Settings_Told conn u32

definition max_session_players :: nat where "max_session_players = 250"

definition new_response :: "gate_game \<Rightarrow> authentication_response" where
  "new_response g = \<lparr>ar_Type = 0, ar_Version = in_Build (gg_Install g), ar_Game = in_Game (gg_Install g), ar_UserMods = [],
     ar_Difficulty = 0, ar_PlayerId = 0, ar_CharacterId = 0\<rparr>"

text \<open>\<open>kSystemMessage\<close> is 0.\<close>

definition gate_refuse :: "gate_game \<Rightarrow> response_type \<Rightarrow> mods \<Rightarrow> authentication_request \<Rightarrow> conn \<Rightarrow> session \<Rightarrow> (session \<times> session_out list) option" where
  "gate_refuse g reason plugins q sender s =
     map_option (\<lambda>line. (s,
         [Answered sender ((new_response g)\<lparr>ar_Type := response_code reason, ar_UserMods := plugins\<rparr>), Turned_Away sender] @
         (let host = players_host (ss_players s)
          in if host = 0 then [] else [Host_Told host \<lparr>ch_MessageType = 0, ch_PlayerName = [], ch_ChatMessage = c_str line\<rparr>])))
       (refusal_for_host reason q (gg_Install g))"

definition joined_message :: "player \<Rightarrow> bool \<Rightarrow> player_joined" where
  "joined_message x arrived = \<lparr>pj_PlayerId = pl_Id x, pj_Username = pl_Name x, pj_Level = pl_Level x, pj_IsHost = pl_IsHost x,
     pj_Arrived = arrived\<rparr>"

definition session_announce :: "conn \<Rightarrow> host_players \<Rightarrow> session_out list" where
  "session_announce newcomer p =
     (case players_find newcomer p of
        None \<Rightarrow> []
      | Some x \<Rightarrow> concat (map (\<lambda>(c, y). if c = newcomer then []
          else [Joined_Told newcomer (joined_message y False), Joined_Told c (joined_message x True)]) (hp_players p)))"

definition on_authentication :: "gate_game \<Rightarrow> authentication_request \<Rightarrow> conn \<Rightarrow> session \<Rightarrow> (session \<times> session_out list) option" where
  "on_authentication g q sender s =
     (if is_player sender (ss_players s) then Some (s, [])
      else if aq_Version q \<noteq> in_Build (gg_Install g) then gate_refuse g Wrong_Version [] q sender s
      else if aq_Game q \<noteq> in_Game (gg_Install g) then gate_refuse g Wrong_Game [] q sender s
      else case compare_load_orders (in_Plugins (gg_Install g)) (aq_UserMods q) of
          None \<Rightarrow> None
        | Some differences \<Rightarrow>
            if differences \<noteq> [] then gate_refuse g Mods_Mismatch (in_Plugins (gg_Install g)) q sender s
            else if length (hp_players (ss_players s)) \<ge> max_session_players then gate_refuse g Session_Full [] q sender s
            else if aq_WantsWorld q then
              let known = (case gg_HasRecord g of None \<Rightarrow> False | Some has \<Rightarrow> has (aq_PlayerKey q))
              in if \<not> known \<and> \<not> aq_HasCharacter q then gate_refuse g No_Character [] q sender s
                 else Some (s\<lparr>ss_network := name_connection sender (aq_Username q) (ss_network s),
                     ss_transfer := transfer_want sender (aq_CachedSaveBlocks q) (ss_transfer s)\<rparr>,
                   [Answered sender ((new_response g)\<lparr>ar_Type := response_code World_Follows\<rparr>)])
            else
              let (i, p) = players_add sender (aq_Username q) (aq_Level q) (sender = nw_host (ss_network s)) (aq_PlayerKey q) (ss_players s);
                  (character, cs) = reserve_player_character sender (ss_characters s)
              in Some (s\<lparr>ss_network := name_connection sender (aq_Username q) (ss_network s), ss_players := p, ss_characters := cs\<rparr>,
                Answered sender ((new_response g)\<lparr>ar_Type := response_code Accepted, ar_PlayerId := i, ar_CharacterId := character,
                  ar_Difficulty := gg_Difficulty g\<rparr>) # session_announce sender p))"

definition on_difficulty_change :: "u32 \<Rightarrow> host_players \<Rightarrow> session_out list" where
  "on_difficulty_change difficulty p =
     (let host = players_host p
      in if host = 0 then [] else map (\<lambda>(c, d). Settings_Told c d) (send_to_others difficulty host p))"

definition session_player_left :: "conn \<Rightarrow> host_players \<Rightarrow> session_out list" where
  "session_player_left c p =
     (case players_find c p of
        None \<Rightarrow> []
      | Some x \<Rightarrow> map (\<lambda>(d, m). Left_Told d m) (send_to_others \<lparr>pl_PlayerId = pl_Id x, pl_Username = pl_Name x\<rparr> c p))"

section \<open>What comparing load orders says\<close>

abbreviation plugin_name :: "mod_entry \<Rightarrow> string" where
  "plugin_name e \<equiv> lower_name (mod_Filename e)"

definition plugin_key :: "mod_entry \<Rightarrow> string \<times> bool" where
  "plugin_key e = (plugin_name e, mod_IsLite e)"

lemma find_plugin_None: "find_plugin ms n = None \<longleftrightarrow> n \<notin> plugin_name ` set ms"
  by (auto simp: find_plugin_def find_None_iff)

lemma find_plugin_in: "find_plugin ms n = Some t \<Longrightarrow> n \<in> plugin_name ` set ms"
  using find_plugin_None [of ms n] by auto

lemma find_plugin_distinct:
  assumes "distinct (map plugin_name ms)" "e \<in> set ms"
  shows "find_plugin ms (plugin_name e) = Some e"
  using assms unfolding find_plugin_def by (induction ms) (auto simp: image_iff)

lemma compare_hosts_eq:
  "snd (compare_hosts host player) = filter (\<lambda>e. plugin_name e \<in> plugin_name ` set player) host"
  "fst (compare_hosts host player) = [] \<longleftrightarrow>
     (\<forall>e \<in> set host. \<exists>t. find_plugin player (plugin_name e) = Some t \<and> mod_IsLite t = mod_IsLite e)"
  by (induction host) (auto simp: Let_def case_prod_unfold find_plugin_None dest: find_plugin_in split: option.split)

lemma compare_players_eq:
  "snd (compare_players host player) = filter (\<lambda>e. plugin_name e \<in> plugin_name ` set host) player"
  "fst (compare_players host player) = [] \<longleftrightarrow> plugin_name ` set player \<subseteq> plugin_name ` set host"
  by (induction player) (auto simp: Let_def case_prod_unfold find_plugin_None dest: find_plugin_in split: option.split)

lemma compare_order_eq:
  "length hs \<le> length ps \<Longrightarrow> compare_order hs ps after \<noteq> None"
  "length hs \<le> length ps \<Longrightarrow> compare_order hs ps after = Some [] \<longleftrightarrow> map plugin_name hs = take (length hs) (map plugin_name ps)"
  by (induction hs ps after rule: compare_order.induct) auto

lemma shared_length:
  assumes "distinct (map plugin_name host)"
  shows "length (filter (\<lambda>e. plugin_name e \<in> plugin_name ` set player) host) \<le>
    length (filter (\<lambda>e. plugin_name e \<in> plugin_name ` set host) player)" (is "length ?hs \<le> length ?ps")
proof -
  have "distinct (map plugin_name ?hs)"
    using assms by (simp add: distinct_map_filter)
  from distinct_card [OF this] have "length ?hs = card (plugin_name ` set ?hs)"
    by (simp only: set_map length_map)
  also have "plugin_name ` set ?hs \<subseteq> plugin_name ` set ?ps"
  proof (rule image_subsetI)
    fix e assume "e \<in> set ?hs"
    then obtain t where t: "t \<in> set player" "plugin_name t = plugin_name e" "e \<in> set host"
      by auto
    then have "t \<in> set ?ps"
      by simp
    then show "plugin_name e \<in> plugin_name ` set ?ps"
      using t(2) by (metis imageI)
  qed
  then have "card (plugin_name ` set ?hs) \<le> card (plugin_name ` set ?ps)"
    by (intro card_mono) simp_all
  also have "\<dots> \<le> length ?ps"
    using card_image_le [of "set ?ps" plugin_name] card_length [of ?ps] by simp
  finally show ?thesis .
qed

lemma compare_defined: "distinct (map plugin_name host) \<Longrightarrow> compare_load_orders host player \<noteq> None"
  using compare_order_eq(1) [OF shared_length [of host player]]
  by (simp add: compare_load_orders_def case_prod_unfold Let_def compare_hosts_eq compare_players_eq del: not_None_eq)

lemma compare_agrees:
  assumes host: "distinct (map plugin_name host)" and player: "distinct (map plugin_name player)"
  shows "compare_load_orders host player = Some [] \<longleftrightarrow> map plugin_key host = map plugin_key player"
proof
  assume same: "map plugin_key host = map plugin_key player"
  then have "map fst (map plugin_key host) = map fst (map plugin_key player)"
    by simp
  then have names: "map plugin_name host = map plugin_name player"
    by (simp add: plugin_key_def comp_def)
  then have sets: "plugin_name ` set host = plugin_name ` set player"
    by (metis set_map)
  have "\<exists>t. find_plugin player (plugin_name e) = Some t \<and> mod_IsLite t = mod_IsLite e" if "e \<in> set host" for e
  proof -
    have "plugin_key e \<in> plugin_key ` set player"
      using that same by (metis image_eqI set_map)
    then obtain t where "t \<in> set player" "plugin_key t = plugin_key e"
      by auto
    then show ?thesis
      using find_plugin_distinct [OF player, of t] by (auto simp: plugin_key_def)
  qed
  moreover have "filter (\<lambda>e. plugin_name e \<in> plugin_name ` set player) host = host"
      "filter (\<lambda>e. plugin_name e \<in> plugin_name ` set host) player = player"
    using sets by (auto simp: filter_id_conv)
  moreover have "compare_order host player [] = Some []"
    using names compare_order_eq(2) [of host player "[]"] by (metis length_map order_refl take_all)
  ultimately show "compare_load_orders host player = Some []"
    using sets by (simp add: compare_load_orders_def case_prod_unfold Let_def compare_hosts_eq compare_players_eq)
next
  assume "compare_load_orders host player = Some []"
  then have none: "fst (compare_hosts host player) = []" "fst (compare_players host player) = []"
    and order: "compare_order (snd (compare_hosts host player)) (snd (compare_players host player)) [] = Some []"
    by (auto simp: compare_load_orders_def case_prod_unfold Let_def)
  note lite = none(1) [unfolded compare_hosts_eq(2)] and extra = none(2) [unfolded compare_players_eq(2)]
  have missing: "plugin_name ` set host \<subseteq> plugin_name ` set player"
    using lite find_plugin_in by blast
  have all: "filter (\<lambda>e. plugin_name e \<in> plugin_name ` set player) host = host"
      "filter (\<lambda>e. plugin_name e \<in> plugin_name ` set host) player = player"
    using missing extra by (auto simp: filter_id_conv)
  have lengths: "length host = length player"
    using distinct_card [OF host] distinct_card [OF player] subset_antisym [OF missing extra] by simp
  then have names: "map plugin_name host = map plugin_name player"
    using order compare_order_eq(2) [of host player "[]"] unfolding compare_hosts_eq compare_players_eq all by simp
  show "map plugin_key host = map plugin_key player"
  proof (rule nth_equalityI)
    fix j assume "j < length (map plugin_key host)"
    then have j: "j < length host" "j < length player"
      using lengths by auto
    then have "plugin_name (host ! j) = plugin_name (player ! j)"
      using names by (metis nth_map)
    moreover from this have "mod_IsLite (player ! j) = mod_IsLite (host ! j)"
      using lite j find_plugin_distinct [OF player, of "player ! j"] by (metis nth_mem option.inject)
    ultimately show "map plugin_key host ! j = map plugin_key player ! j"
      using j by (simp add: plugin_key_def)
  qed (simp add: lengths)
qed

text \<open>
  With no plugin named twice on either side (names compare without case), comparing two load
  orders finds no difference exactly when both games load the same plugins in the same order, each as the same kind.
\<close>

theorem load_orders_agree:
  assumes "distinct (map plugin_name host)" and "distinct (map plugin_name player)"
  shows "compare_load_orders host player = Some [] \<longleftrightarrow> map plugin_key host = map plugin_key player"
  using assms by (rule compare_agrees)

definition example_plugins :: "mods \<times> mods" where
  "example_plugins =
     ([\<lparr>mod_Filename = ''Skyrim.esm'', mod_Id = 0, mod_IsLite = False\<rparr>, \<lparr>mod_Filename = ''A.esp'', mod_Id = 1, mod_IsLite = True\<rparr>],
      [\<lparr>mod_Filename = ''SKYRIM.esm'', mod_Id = 3, mod_IsLite = False\<rparr>, \<lparr>mod_Filename = ''a.ESP'', mod_Id = 7, mod_IsLite = True\<rparr>])"

lemma example_names: "map plugin_name (fst example_plugins) = [''skyrim.esm'', ''a.esp'']"
    "map plugin_name (snd example_plugins) = [''skyrim.esm'', ''a.esp'']"
    "map plugin_key (fst example_plugins) = [(''skyrim.esm'', False), (''a.esp'', True)]"
    "map plugin_key (snd example_plugins) = [(''skyrim.esm'', False), (''a.esp'', True)]"
  unfolding example_plugins_def plugin_key_def by code_simp+

theorem load_orders_agree_witness: "compare_load_orders (fst example_plugins) (snd example_plugins) = Some []"
  using load_orders_agree [of "fst example_plugins" "snd example_plugins"] unfolding example_names by simp

section \<open>Who gets in\<close>

text \<open>What a game is told of the others.\<close>

fun told_joined :: "conn \<Rightarrow> session_out \<Rightarrow> player_joined list" where
  "told_joined c (Joined_Told d m) = (if d = c then [m] else [])"
| "told_joined c _ = []"

definition told_of :: "conn \<Rightarrow> session_out list \<Rightarrow> player_joined list" where
  "told_of c out = concat (map (told_joined c) out)"

lemma told_of_append:
  "told_of c [] = []" "told_of c (xs @ ys) = told_of c xs @ told_of c ys" "told_of c (x # xs) = told_joined c x @ told_of c xs"
  by (simp_all add: told_of_def)

lemma told_others:
  assumes "distinct (map fst m)" "newcomer \<notin> set (map fst m)"
  shows "told_of newcomer (concat (map (\<lambda>(c, y). if c = newcomer then []
        else [Joined_Told newcomer (f y), Joined_Told c x]) m)) = map (\<lambda>(_, y). f y) m"
    "c \<noteq> newcomer \<Longrightarrow> told_of c (concat (map (\<lambda>(c, y). if c = newcomer then []
        else [Joined_Told newcomer (f y), Joined_Told c x]) m)) = (if c \<in> set (map fst m) then [x] else [])"
  using assms by (induction m) (auto simp: told_of_append simp del: set_map)

lemma assign_new: "k \<notin> set (map fst m) \<Longrightarrow> assign k v m = m @ [(k, v)]"
  by (induction m) auto

lemma announce_new:
  assumes "newcomer \<notin> set (map fst m)" "hp_players p = m @ [(newcomer, x)]"
  shows "session_announce newcomer p = concat (map (\<lambda>(c, y). if c = newcomer then []
      else [Joined_Told newcomer (joined_message y False), Joined_Told c (joined_message x True)]) m)"
proof -
  have "map_of m newcomer = None"
    using assms(1) by (simp add: map_of_eq_None_iff)
  then have "players_find newcomer p = Some x"
    using assms(2) by (simp add: players_find_def map_add_Some_iff)
  then show ?thesis
    by (simp add: session_announce_def assms(2))
qed

lemma gate_refuse_some:
  assumes "distinct (map plugin_name (in_Plugins (gg_Install g)))"
  shows "\<exists>out. gate_refuse g reason plugins q sender s = Some (s, out) \<and> Turned_Away sender \<in> set out \<and>
    (\<exists>a. Answered sender a \<in> set out \<and> ar_Type a = response_code reason) \<and> (\<forall>c. told_of c out = [])"
proof -
  obtain line where "refusal_for_host reason q (gg_Install g) = Some line"
    using compare_defined [OF assms, of "aq_UserMods q"] unfolding refusal_for_host_def Let_def by (cases reason) auto
  then show ?thesis
    by (auto simp: gate_refuse_def Let_def told_of_def)
qed

text \<open>A game the host's can play with, and that there is room for.\<close>

definition gate_matches :: "gate_game \<Rightarrow> authentication_request \<Rightarrow> session \<Rightarrow> bool" where
  "gate_matches g q s \<longleftrightarrow> aq_Version q = in_Build (gg_Install g) \<and> aq_Game q = in_Game (gg_Install g) \<and>
     map plugin_key (in_Plugins (gg_Install g)) = map plugin_key (aq_UserMods q) \<and> length (hp_players (ss_players s)) < 250"

text \<open>
  C11: the gate lets in a game not in yet exactly when it runs the host's build and versions and loads its plugins
  in its order and the session has room. Such a game becomes a player, with a new id, known to every other player by one
  message and told of each of them once, the others unchanged and at most 250 players in all; one from the main menu waits
  for the host's save instead, if the save or it has a character; any other is answered with a refusal and turned away,
  with nothing changed. (No plugin is named twice on either side; connections have one player each.)
\<close>

theorem gate_admits:
  assumes "distinct (map plugin_name (in_Plugins (gg_Install g)))" "distinct (map plugin_name (aq_UserMods q))"
    and "distinct (connections (ss_players s))" "\<not> is_player sender (ss_players s)"
  shows "\<exists>s' out. on_authentication g q sender s = Some (s', out) \<and>
    (if gate_matches g q s \<and> \<not> aq_WantsWorld q
     then \<exists>x. hp_players (ss_players s') = hp_players (ss_players s) @ [(sender, x)] \<and>
         pl_Id x = hp_lastId (ss_players s) + 1 \<and> pl_Name x = aq_Username q \<and> length (hp_players (ss_players s')) \<le> 250 \<and>
         map_of (hcs_playerCharacters (ss_characters s')) sender = Some (hcs_lastSessionId (ss_characters s) + 1) \<and>
         told_of sender out = map (\<lambda>(_, y). joined_message y False) (hp_players (ss_players s)) \<and>
         (\<forall>c. c \<noteq> sender \<longrightarrow> told_of c out = (if c \<in> set (connections (ss_players s)) then [joined_message x True] else []))
     else if gate_matches g q s \<and> (aq_HasCharacter q \<or> (\<exists>has. gg_HasRecord g = Some has \<and> has (aq_PlayerKey q)))
     then ss_players s' = ss_players s \<and> ss_characters s' = ss_characters s \<and>
         ss_transfer s' = transfer_want sender (aq_CachedSaveBlocks q) (ss_transfer s)
     else s' = s \<and> Turned_Away sender \<in> set out \<and> (\<forall>c. told_of c out = []))"
proof -
  note same = compare_agrees [OF assms(1,2)] and refused = gate_refuse_some [OF assms(1)]
  obtain ds where ds: "compare_load_orders (in_Plugins (gg_Install g)) (aq_UserMods q) = Some ds"
    using compare_defined [OF assms(1)] by auto
  have fresh: "sender \<notin> set (map fst (hp_players (ss_players s)))"
    using assms(4) by (simp add: is_player_def players_find_def map_of_eq_None_iff)
  show ?thesis
  proof (cases "gate_matches g q s")
    case False
    have "ds = [] \<longleftrightarrow> map plugin_key (in_Plugins (gg_Install g)) = map plugin_key (aq_UserMods q)"
      using same ds by simp
    with False have "aq_Version q \<noteq> in_Build (gg_Install g) \<or> aq_Game q \<noteq> in_Game (gg_Install g) \<or> ds \<noteq> [] \<or>
        length (hp_players (ss_players s)) \<ge> max_session_players"
      unfolding gate_matches_def max_session_players_def by linarith
    then consider "aq_Version q \<noteq> in_Build (gg_Install g)" | "aq_Game q \<noteq> in_Game (gg_Install g)" | "ds \<noteq> []"
      | "length (hp_players (ss_players s)) \<ge> max_session_players"
      by blast
    then have "\<exists>reason plugins. on_authentication g q sender s = gate_refuse g reason plugins q sender s"
      using assms(4) ds by cases (auto simp: on_authentication_def)
    then obtain reason plugins where "on_authentication g q sender s = gate_refuse g reason plugins q sender s"
      by auto
    then show ?thesis
      using False refused [of reason plugins q sender s] by auto
  next
    case True
    then have ok: "aq_Version q = in_Build (gg_Install g)" "aq_Game q = in_Game (gg_Install g)" "ds = []"
        "\<not> length (hp_players (ss_players s)) \<ge> max_session_players"
      using same ds by (simp_all add: gate_matches_def max_session_players_def)
    show ?thesis
    proof (cases "aq_WantsWorld q")
      case False
      define x where "x = \<lparr>pl_Id = hp_lastId (ss_players s) + 1, pl_Name = aq_Username q, pl_Level = aq_Level q,
          pl_IsHost = (sender = nw_host (ss_network s)), pl_Key = aq_PlayerKey q\<rparr>"
      define p where "p = \<lparr>hp_players = hp_players (ss_players s) @ [(sender, x)], hp_lastId = hp_lastId (ss_players s) + 1\<rparr>"
      have add: "players_add sender (aq_Username q) (aq_Level q) (sender = nw_host (ss_network s)) (aq_PlayerKey q) (ss_players s) =
          (hp_lastId (ss_players s) + 1, p)"
        using fresh by (simp add: players_add_def Let_def assign_new p_def x_def)
      obtain character cs where reserved: "reserve_player_character sender (ss_characters s) = (character, cs)"
        by fastforce
      then have "map_of (hcs_playerCharacters cs) sender = Some (hcs_lastSessionId (ss_characters s) + 1)"
        by (auto simp: reserve_player_character_def new_character_id_def Let_def)
      then show ?thesis
        using True False ok assms(4) ds add reserved announce_new [OF fresh, of p x]
          told_others [OF assms(3) [unfolded connections_def] fresh]
        by (simp add: on_authentication_def told_of_append connections_def max_session_players_def p_def del: map_of_eq_Some_iff)
          (simp add: x_def)
    next
      case wants: True
      show ?thesis
      proof (cases "aq_HasCharacter q \<or> (\<exists>has. gg_HasRecord g = Some has \<and> has (aq_PlayerKey q))")
        case True
        then show ?thesis
          using \<open>gate_matches g q s\<close> wants ok assms(4) ds
          by (auto simp: on_authentication_def Let_def told_of_append)
      next
        case False
        then have "on_authentication g q sender s = gate_refuse g No_Character [] q sender s"
          using wants ok assms(4) ds by (auto simp: on_authentication_def Let_def split: option.split)
        then show ?thesis
          using False wants refused [of No_Character "[]" q sender s] by auto
      qed
    qed
  qed
qed

text \<open>A guest that names the host's plugins in other cases joins a session of one.\<close>

definition example_gate :: gate_game where
  "example_gate = \<lparr>gg_Install = \<lparr>in_Build = ''abc'', in_Game = \<lparr>gv_Runtime = 1, gv_Skse = 2\<rparr>, in_Plugins = fst example_plugins\<rparr>,
     gg_HasRecord = None, gg_Difficulty = 2\<rparr>"

definition example_request :: authentication_request where
  "example_request = \<lparr>aq_Game = \<lparr>gv_Runtime = 1, gv_Skse = 2\<rparr>, aq_Version = ''abc'', aq_UserMods = snd example_plugins,
     aq_Username = ''Lydia'', aq_WorldSpaceId = no_id, aq_CellId = no_id, aq_Level = 3,
     aq_PlayerTime = \<lparr>tm_TimeScale = 0, tm_Time = 0, tm_Year = 0, tm_Month = 0, tm_Day = 0, tm_DaysPassed = 0\<rparr>, aq_PlayerKey = [], aq_WantsWorld = False, aq_HasCharacter = False, aq_CachedSaveBlocks = []\<rparr>"

definition example_session :: session where
  "example_session = \<lparr>ss_players = no_players, ss_characters = no_characters, ss_network = new_network, ss_transfer = []\<rparr>"

theorem gate_admits_witness:
  "\<exists>s' out x. on_authentication example_gate example_request 7 example_session = Some (s', out) \<and>
     hp_players (ss_players s') = [(7, x)] \<and> pl_Id x = 1 \<and> pl_Name x = ''Lydia''"
proof -
  have "gate_matches example_gate example_request example_session" "\<not> aq_WantsWorld example_request"
    by (simp_all add: gate_matches_def example_gate_def example_request_def example_session_def example_names no_players_def)
  moreover have "hp_players (ss_players example_session) = []" "hp_lastId (ss_players example_session) = 0"
      "aq_Username example_request = ''Lydia''"
    by (simp_all add: example_session_def no_players_def example_request_def)
  ultimately show ?thesis
    using gate_admits [of example_gate example_request example_session 7]
    by (auto simp: example_gate_def example_request_def example_names connections_def is_player_def players_find_def)
qed

end
