(* ===== verification/Party_Goods.thy ===== *)
theory Party_Goods
  imports Text Characters
begin

text \<open>
  What the party shares: which stacks are the party's (\<open>Games/PartyItems\<close>), the one purse
  (\<open>Services/Host/HostPurse\<close>), and the items every player carries a copy of (\<open>Services/Host/HostPartyItems\<close>).
\<close>

section \<open>Party items\<close>

definition starts_with :: "string \<Rightarrow> string \<Rightarrow> bool" where
  "starts_with tag s \<longleftrightarrow> take (length tag) s = tag"

definition party_tag :: string where "party_tag = ''[P] ''"

definition is_party :: "entry \<Rightarrow> bool" where
  "is_party e \<longleftrightarrow> en_IsQuestItem e \<or> starts_with party_tag (en_ExtraName e)"

text \<open>Gold is form 0xF, and a key's form type is 45.\<close>

definition arrives_as_party :: "u32 \<Rightarrow> u8 \<Rightarrow> bool \<Rightarrow> bool \<Rightarrow> bool" where
  "arrives_as_party form form_type quest_item story_given \<longleftrightarrow> form \<noteq> 0xF \<and> (form_type = 45 \<or> quest_item \<or> story_given)"

definition same_stack :: "entry \<Rightarrow> entry \<Rightarrow> bool" where
  "same_stack party stack \<longleftrightarrow>
     (if en_BaseId party \<noteq> en_BaseId stack then False
      else if en_IsQuestItem stack then en_IsQuestItem party
      else en_ExtraName stack = en_ExtraName party \<and> f32_eq (en_ExtraHealth stack) (en_ExtraHealth party) \<and>
        is_same_enchantment stack party \<and> en_ExtraEnchantCharge stack = en_ExtraEnchantCharge party)"

definition tagged :: "string \<Rightarrow> string \<Rightarrow> string" where
  "tagged custom_name form_name =
     (let name = (if custom_name = [] then form_name else custom_name)
      in if starts_with party_tag name then name else party_tag @ name)"

section \<open>The host's game\<close>

text \<open>
  The host's game, of states \<open>'w\<close>, as these handlers use it. The code calls \<open>AddPartyItem\<close> wherever it has
  \<open>ReadPartyItem\<close>.
\<close>

record 'w goods_game =
  gd_ReadPartyGold :: "('w \<Rightarrow> u32) option"
  gd_AddPartyGold :: "(i32 \<Rightarrow> 'w \<Rightarrow> 'w) option"
  gd_ReadPartyItem :: "(entry \<Rightarrow> 'w \<Rightarrow> i32) option"
  gd_AddPartyItem :: "entry \<Rightarrow> 'w \<Rightarrow> 'w"
  gd_ReadPartyItems :: "('w \<Rightarrow> entry list) option"
  gd_ItemName :: "(game_id \<Rightarrow> string) option"

datatype goods_message =
    Gold_Shown party_gold
  | Item_Shown party_item
  | Items_Shown party_items
  | Chat_Line chat
  | Item_Changed inventory_change

definition system_line :: "string \<Rightarrow> goods_message" where
  "system_line text = Chat_Line \<lparr>ch_MessageType = 0, ch_PlayerName = [], ch_ChatMessage = text\<rparr>"

section \<open>The purse\<close>

definition party_gold_id :: game_id where
  "party_gold_id = \<lparr>gid_BaseId = 0xF, gid_ModId = 0\<rparr>"

definition spend_words :: "string list" where
  "spend_words = [''siphoned'', ''funneled'', ''stole'', ''coveted'', ''devoured'', ''tax-evaded'', ''donated to the chatholic church'',
     ''iatethosefood'', ''me -> ur mom'', ''uhm guys?'']"

definition purse_send :: "'w goods_game \<Rightarrow> host_players \<Rightarrow> i32 \<Rightarrow> conn \<Rightarrow> 'w \<Rightarrow> goods_message outbox" where
  "purse_send g p shown changer w =
     (case gd_ReadPartyGold g of
        None \<Rightarrow> []
      | Some read \<Rightarrow>
          (if changer \<noteq> 0 then send_to changer (Gold_Shown \<lparr>pg_Gold = read w, pg_Shown = 0\<rparr>) p else []) @
          send_to_others (Gold_Shown \<lparr>pg_Gold = read w, pg_Shown = shown\<rparr>) changer p)"

text \<open>
  Whether it was the purse's to change. \<open>random\<close> is what \<open>s_random\<close> gives. Negating the least count, which C++
  leaves undefined, wraps here.
\<close>

definition purse_change ::
    "'w goods_game \<Rightarrow> host_players \<Rightarrow> characters \<Rightarrow> u32 \<Rightarrow> inventory_request \<Rightarrow> conn \<Rightarrow> 'w \<Rightarrow> bool \<times> 'w \<times> goods_message outbox" where
  "purse_change g p cs random q sender w =
     (let i = irq_SessionId q; item_count = en_Count (irq_Item q); host = players_host p
      in if en_BaseId (irq_Item q) \<noteq> party_gold_id \<or> \<not> is_player_character i cs then (False, w, [])
         else if sender \<noteq> host \<and> owner_of i cs \<noteq> sender then (True, w, [])
         else
           let w = (case gd_AddPartyGold g of
                 Some add \<Rightarrow> if i \<noteq> player_character_of host cs then add item_count w else w
               | None \<Rightarrow> w);
               changer = owner_of i cs;
               told = purse_send g p item_count (if changer = sender then changer else 0) w;
               line = (if item_count <s 0
                 then send_to_all (system_line (chat_text (player_name_of changer p @ '' '' @ spend_words ! (unat random mod 10) @ '' '' @
                   decimal_int (sint (- item_count)) @ '' gold''))) p
                 else [])
           in (True, w, told @ line))"

section \<open>The party's items\<close>

definition unworn :: "entry \<Rightarrow> entry" where
  "unworn e = e\<lparr>en_ExtraWorn := False, en_ExtraWornLeft := False\<rparr>"

definition party_items_send :: "'w goods_game \<Rightarrow> host_players \<Rightarrow> 'w \<Rightarrow> goods_message outbox" where
  "party_items_send g p w =
     (case gd_ReadPartyItems g of
        None \<Rightarrow> []
      | Some read \<Rightarrow> send_to_all (Items_Shown \<lparr>pis_Items = map unworn (read w)\<rparr>) p)"

definition found_name :: "'w goods_game \<Rightarrow> entry \<Rightarrow> string" where
  "found_name g e =
     (if starts_with party_tag (en_ExtraName e) then drop (length party_tag) (en_ExtraName e)
      else case gd_ItemName g of None \<Rightarrow> [] | Some name \<Rightarrow> name (en_BaseId e))"

definition party_items_change ::
    "'w goods_game \<Rightarrow> host_players \<Rightarrow> characters \<Rightarrow> inventory_request \<Rightarrow> conn \<Rightarrow> 'w \<Rightarrow> bool \<times> 'w \<times> goods_message outbox" where
  "party_items_change g p cs q sender w =
     (let e = irq_Item q; i = irq_SessionId q; host = players_host p
      in case gd_ReadPartyItem g of
           None \<Rightarrow> (False, w, [])
         | Some read \<Rightarrow>
             if \<not> is_party e \<or> \<not> is_player_character i cs then (False, w, [])
             else
               let changer = owner_of i cs
               in if sender \<noteq> host \<and> changer \<noteq> sender then (True, w, [])
                  else
                    let w = (if i \<noteq> player_character_of host cs \<or> irq_NewPartyItem q \<and> \<not> en_IsQuestItem e
                          then gd_AddPartyItem g e w else w);
                        named = (case gd_ItemName g of
                            Some name \<Rightarrow> if en_IsQuestItem e \<and> en_ExtraName e = [] then e\<lparr>en_ExtraName := tagged [] (name (en_BaseId e))\<rparr> else e
                          | None \<Rightarrow> e);
                        item = unworn (named\<lparr>en_Count := read named w\<rparr>);
                        shown_there = (if changer = sender then changer else 0);
                        line = (if irq_NewPartyItem q \<and> 0 <s en_Count e
                          then send_to_all (system_line (chat_text
                            (if irq_StoryGiven q then ''The party received '' @ found_name g e
                             else player_name_of changer p @ '' found '' @ found_name g e @ '' for the party''))) p
                          else [])
                    in (True, w,
                      (if shown_there \<noteq> 0 then send_to shown_there (Item_Shown \<lparr>pi_Item = item, pi_Shown = 0\<rparr>) p else []) @
                      send_to_others (Item_Shown \<lparr>pi_Item = item, pi_Shown = en_Count e\<rparr>) shown_there p @ line))"

section \<open>One purse\<close>

fun gold_shown :: "goods_message \<Rightarrow> party_gold list" where
  "gold_shown (Gold_Shown m) = [m]"
| "gold_shown _ = []"

definition gold_at :: "conn \<Rightarrow> goods_message outbox \<Rightarrow> party_gold list" where
  "gold_at c out = concat (map gold_shown (to_conn c out))"

lemma gold_at_append [simp]: "gold_at c (xs @ ys) = gold_at c xs @ gold_at c ys" "gold_at c [] = []" "to_conn c [] = []"
  by (simp_all add: gold_at_def to_conn_def)

lemma to_conn_others:
  assumes "distinct (connections p)" "c \<in> set (connections p)"
  shows "to_conn c (send_to_others m excluded p) = (if c = excluded then [] else [m])"
proof (cases "c = excluded")
  case True
  then show ?thesis by (simp add: to_conn_def send_to_others_def)
next
  case False
  then show ?thesis
    using to_conn_map [of "filter (\<lambda>c. c \<noteq> excluded) (connections p)" c "\<lambda>_. m"] assms
    by (simp add: send_to_others_def)
qed

lemma to_conn_to: "to_conn c (send_to d m p) = (if c = d \<and> is_player c p then [m] else [])"
  by (simp add: send_to_def to_conn_def)

lemma is_player_connection: "is_player c p \<longleftrightarrow> c \<in> set (connections p)"
  by (simp add: is_player_def players_find_def connections_def map_of_eq_None_iff)

lemma no_gold_line: "gold_at c (send_to_all (system_line t) p) = []"
  by (auto simp: gold_at_def to_conn_def send_to_all_def send_to_others_def system_line_def)

text \<open>
  C20: a change of a player's gold is the purse's. Made by that player's own game, or by the host's for
  anyone, it changes the party's gold by that much once (the host's player's own is in it already), and every game in the
  session is told once of what the party has now, each but the one whose engine showed it with the change to show; made by
  any other game it changes nothing and nobody hears of it.
\<close>

theorem party_gold_shared:
  assumes "gd_ReadPartyGold g = Some read" "gd_AddPartyGold g = Some add"
    and gold: "en_BaseId (irq_Item q) = party_gold_id" "is_player_character (irq_SessionId q) cs"
    and "distinct (connections p)" "0 \<notin> set (connections p)"
    and "owner = owner_of (irq_SessionId q) cs"
    and "(handled, w', out) = purse_change g p cs random q sender w"
  shows "handled \<and>
    (if sender = players_host p \<or> sender = owner
     then w' = (if irq_SessionId q = player_character_of (players_host p) cs then w else add (en_Count (irq_Item q)) w) \<and>
       (\<forall>c \<in> set (connections p). gold_at c out =
          [\<lparr>pg_Gold = read w', pg_Shown = if c = owner \<and> c = sender then 0 else en_Count (irq_Item q)\<rparr>])
     else w' = w \<and> out = [])"
proof (cases "sender = players_host p \<or> sender = owner")
  case False
  then show ?thesis
    using assms by (auto simp: purse_change_def Let_def)
next
  case True
  define changer where "changer = (if owner = sender then owner else 0)"
  have out: "w' = (if irq_SessionId q = player_character_of (players_host p) cs then w else add (en_Count (irq_Item q)) w)"
      "handled" "\<exists>ls. (\<forall>c. gold_at c ls = []) \<and> out = purse_send g p (en_Count (irq_Item q)) changer w' @ ls"
    using assms True by (auto simp: purse_change_def Let_def changer_def no_gold_line)
  have "gold_at c (purse_send g p (en_Count (irq_Item q)) changer w') =
      [\<lparr>pg_Gold = read w', pg_Shown = if c = owner \<and> c = sender then 0 else en_Count (irq_Item q)\<rparr>]"
    if c: "c \<in> set (connections p)" for c
    using c assms(1,6) by (auto simp: purse_send_def gold_at_def to_conn_to is_player_connection changer_def to_conn_others [OF assms(5) c])
  then show ?thesis
    using out True by auto
qed

text \<open>A guest (7) of a host (5) spends 40 gold of 100.\<close>

definition example_party :: host_players where
  "example_party = \<lparr>hp_players = [(5, \<lparr>pl_Id = 1, pl_Name = ''Host'', pl_Level = 1, pl_IsHost = True, pl_Key = []\<rparr>),
     (7, \<lparr>pl_Id = 2, pl_Name = ''Lydia'', pl_Level = 1, pl_IsHost = False, pl_Key = []\<rparr>)], hp_lastId = 2\<rparr>"

definition example_characters :: characters where
  "example_characters = no_characters\<lparr>hcs_characters := [(3, \<lparr>hc_Owner = 7, hc_PlayerRecord = None\<rparr>)], hcs_playerCharacters := [(7, 3)]\<rparr>"

definition example_purse :: "u32 goods_game" where
  "example_purse = \<lparr>gd_ReadPartyGold = Some id, gd_AddPartyGold = Some (\<lambda>n w. w + n), gd_ReadPartyItem = None,
     gd_AddPartyItem = \<lambda>_ w. w, gd_ReadPartyItems = None, gd_ItemName = None\<rparr>"

definition example_spending :: inventory_request where
  "example_spending = \<lparr>irq_SessionId = 3, irq_Item = new_entry\<lparr>en_BaseId := party_gold_id, en_Count := - 40\<rparr>, irq_Drop = False,
     irq_UpdateClients = True, irq_NewPartyItem = False, irq_StoryGiven = False\<rparr>"

theorem party_gold_shared_witness:
  "gold_at 5 (snd (snd (purse_change example_purse example_party example_characters 4 example_spending 7 100))) = [\<lparr>pg_Gold = 60, pg_Shown = - 40\<rparr>]"
proof -
  obtain handled w' out where e: "(handled, w', out) = purse_change example_purse example_party example_characters 4 example_spending 7 100"
    by (cases "purse_change example_purse example_party example_characters 4 example_spending 7 100") auto
  have "owner_of (irq_SessionId example_spending) example_characters = 7" "player_character_of (players_host example_party) example_characters = 0"
    by (simp_all add: owner_of_def char_find_def example_spending_def example_characters_def player_character_of_def example_party_def
      players_host_def no_characters_def)
  note found = this
  have parts: "irq_SessionId example_spending = 3" "en_Count (irq_Item example_spending) = - 40"
      "en_BaseId (irq_Item example_spending) = party_gold_id" "is_player_character 3 example_characters"
      "connections example_party = [5, 7]" "gd_ReadPartyGold example_purse = Some id" "gd_AddPartyGold example_purse = Some (\<lambda>n w. w + n)"
    by (simp_all add: example_spending_def example_characters_def example_purse_def example_party_def is_player_character_def connections_def)
  have "(\<lambda>n w. w + n) (- 40) 100 = (60 :: u32)"
    by simp
  with party_gold_shared [OF parts(6,7,3) _ _ _ _ e, unfolded parts found, OF parts(4) _ _ refl]
  have "gold_at 5 out = [\<lparr>pg_Gold = 60, pg_Shown = - 40\<rparr>]"
    by (simp add: found(1) [unfolded parts])
  then show ?thesis
    unfolding e [symmetric] by simp
qed

end
