(* ===== verification/Dropped_Items.thy ===== *)
theory Dropped_Items
  imports Party_Goods Host_Messages "HOL-Library.Multiset" "HOL-Library.Product_Lexorder"
begin

text \<open>
  A loose item exists once, in the host's world (\<open>Services/Host/HostItems\<close>): guests' drops are made there, their
  pickups are the host's to grant, and what they move to and from containers.
\<close>

section \<open>The host's world\<close>

text \<open>
  The host's game, of states \<open>'w\<close>: \<open>CreateItem\<close> (none: the cell is not loaded; no id: it cannot be made),
  \<open>TakeItem\<close> (none: it is gone), \<open>TakeQuestObject\<close> and \<open>TransferContainer\<close>, where it has them.
\<close>

record 'w item_world =
  iw_CreateItem :: "(entry \<Rightarrow> placement \<Rightarrow> 'w \<Rightarrow> game_id option \<times> 'w) option"
  iw_TakeItem :: "(game_id \<Rightarrow> 'w \<Rightarrow> entry option \<times> 'w) option"
  iw_TakeQuestObject :: "(game_id \<Rightarrow> 'w \<Rightarrow> bool \<times> 'w) option"
  iw_TransferContainer :: "(container_transfer \<Rightarrow> u32 \<Rightarrow> 'w \<Rightarrow> entry \<times> 'w) option"

text \<open>Drops waiting for their cell, oldest first, and a guest's drops made, by its tag.\<close>

record items =
  it_pending :: "(conn \<times> drop_item_request) list"
  it_made :: "((conn \<times> u32) \<times> game_id) list"

definition no_items :: items where
  "no_items = \<lparr>it_pending = [], it_made = []\<rparr>"

definition max_pending :: nat where "max_pending = 64"

datatype item_message = Item_Dropped item_dropped | Picked_Up pick_up

section \<open>Drops\<close>

text \<open>Whether it was made (or never can be), its world and what its dropper is told.\<close>

definition make_drop :: "'w item_world \<Rightarrow> conn \<Rightarrow> drop_item_request \<Rightarrow> ((conn \<times> u32) \<times> game_id) list \<Rightarrow> 'w \<Rightarrow>
    bool \<times> ((conn \<times> u32) \<times> game_id) list \<times> 'w \<times> item_message outbox" where
  "make_drop W c q made w =
     (case iw_CreateItem W of
        None \<Rightarrow> (False, made, w, [])
      | Some create \<Rightarrow>
          (case create (dir_Item q) (dir_Placement q) w of
             (None, w) \<Rightarrow> (False, made, w, [])
           | (Some object, w) \<Rightarrow>
               (True, if object = no_id then made else map_put (c, dir_Tag q) object made, w,
                [(c, Item_Dropped \<lparr>nid_Tag = dir_Tag q, nid_Object = object\<rparr>)])))"

definition on_drop :: "'w item_world \<Rightarrow> host_players \<Rightarrow> drop_item_request \<Rightarrow> conn \<Rightarrow> items \<times> 'w \<Rightarrow> (items \<times> 'w) \<times> item_message outbox" where
  "on_drop W p q sender s =
     (let (it, w) = s
      in if sender = players_host p \<or> iw_CreateItem W = None then (s, [])
         else let (done, made, w, out) = make_drop W sender q (it_made it) w; it = it\<lparr>it_made := made\<rparr>
              in if done then ((it, w), out)
                 else let waiting = (if max_pending \<le> length (it_pending it) then tl (it_pending it) else it_pending it)
                      in ((it\<lparr>it_pending := waiting @ [(sender, q)]\<rparr>, w), out))"

text \<open>The waiting drops, each tried once, oldest first.\<close>

fun try_drops :: "'w item_world \<Rightarrow> (conn \<times> drop_item_request) list \<Rightarrow> ((conn \<times> u32) \<times> game_id) list \<Rightarrow> 'w \<Rightarrow>
    (conn \<times> drop_item_request) list \<times> ((conn \<times> u32) \<times> game_id) list \<times> 'w \<times> item_message outbox" where
  "try_drops W [] made w = ([], made, w, [])"
| "try_drops W ((c, q) # ps) made w =
     (let (done, made, w, out) = make_drop W c q made w; (ps, made, w, outs) = try_drops W ps made w
      in (if done then ps else (c, q) # ps, made, w, out @ outs))"

definition items_update :: "'w item_world \<Rightarrow> items \<times> 'w \<Rightarrow> (items \<times> 'w) \<times> item_message outbox" where
  "items_update W s =
     (let (it, w) = s; (ps, made, w, out) = try_drops W (it_pending it) (it_made it) w
      in ((\<lparr>it_pending = ps, it_made = made\<rparr>, w), out))"

definition items_player_left :: "conn \<Rightarrow> items \<Rightarrow> items" where
  "items_player_left c it = \<lparr>it_pending = filter (\<lambda>(d, _). d \<noteq> c) (it_pending it), it_made = filter (\<lambda>((d, _), _). d \<noteq> c) (it_made it)\<rparr>"

section \<open>Pickups\<close>

definition grant :: "conn \<Rightarrow> game_id \<Rightarrow> u32 \<Rightarrow> entry \<Rightarrow> item_message outbox" where
  "grant c object tag e = [(c, Picked_Up \<lparr>npu_Object = object, npu_Tag = tag, npu_Item = e\<rparr>)]"

text \<open>The first waiting drop of a player's with that tag, and the others.\<close>

fun take_pending :: "conn \<Rightarrow> u32 \<Rightarrow> (conn \<times> drop_item_request) list \<Rightarrow> (drop_item_request \<times> (conn \<times> drop_item_request) list) option" where
  "take_pending c tag [] = None"
| "take_pending c tag ((d, q) # ps) =
     (if tag \<noteq> 0 \<and> d = c \<and> dir_Tag q = tag then Some (q, ps)
      else map_option (\<lambda>(q', ps). (q', (d, q) # ps)) (take_pending c tag ps))"

text \<open>A quest object is the party's; any other goes to the player, if it is still there.\<close>

definition take_loose :: "'w item_world \<Rightarrow> (game_id \<Rightarrow> 'w \<Rightarrow> entry option \<times> 'w) \<Rightarrow> conn \<Rightarrow> game_id \<Rightarrow> u32 \<Rightarrow> 'w \<Rightarrow> 'w \<times> item_message outbox" where
  "take_loose W take_item c object tag w =
     (let (quest, w) = (case iw_TakeQuestObject W of None \<Rightarrow> (False, w) | Some take_quest \<Rightarrow> take_quest object w)
      in if quest then (w, [])
         else case take_item object w of (None, w) \<Rightarrow> (w, []) | (Some e, w) \<Rightarrow> (w, grant c object tag e))"

definition on_pick_up :: "'w item_world \<Rightarrow> host_players \<Rightarrow> pick_up_request \<Rightarrow> conn \<Rightarrow> items \<times> 'w \<Rightarrow> (items \<times> 'w) \<times> item_message outbox" where
  "on_pick_up W p q sender s =
     (let (it, w) = s
      in case iw_TakeItem W of
           None \<Rightarrow> (s, [])
         | Some take_item \<Rightarrow>
             if sender = players_host p then (s, [])
             else case take_pending sender (pur_Tag q) (it_pending it) of
                 Some (drop_q, ps) \<Rightarrow> ((it\<lparr>it_pending := ps\<rparr>, w), grant sender no_id (pur_Tag q) (dir_Item drop_q))
               | None \<Rightarrow>
                   let object = (case map_of (it_made it) (sender, pur_Tag q) of
                         Some made \<Rightarrow> if pur_Tag q \<noteq> 0 then made else pur_Object q
                       | None \<Rightarrow> pur_Object q);
                       it = it\<lparr>it_made := filter (\<lambda>(_, made). made \<noteq> object) (it_made it)\<rparr>
                   in if object = no_id then ((it, w), [])
                      else let (w, out) = take_loose W take_item sender object (pur_Tag q) w in ((it, w), out))"

section \<open>Containers\<close>

text \<open>What moved is the party's (the purse's, or a party item), or every other game's to show.\<close>

definition on_container_transfer ::
    "'w item_world \<Rightarrow> 'w goods_game \<Rightarrow> host_players \<Rightarrow> characters \<Rightarrow> u32 \<Rightarrow> container_transfer \<Rightarrow> conn \<Rightarrow> 'w \<Rightarrow> 'w \<times> goods_message outbox" where
  "on_container_transfer W g p cs random q sender w =
     (let player = player_character_of sender cs; host = players_host p; i = ct_ContainerActorId q; asked = en_Count (ct_Item q)
      in case iw_TransferContainer W of
           None \<Rightarrow> (w, [])
         | Some transfer \<Rightarrow>
             if sender = host \<or> player = 0 \<or> asked = 0 \<or> asked = 0x80000000 \<or>
                i \<noteq> 0 \<and> (is_player_character i cs \<or> owner_of i cs \<noteq> host)
             then (w, [])
             else
               let (moved, w) = transfer q player w
               in if en_Count moved = 0 then (w, [])
                  else
                    let change = \<lparr>irq_SessionId = player, irq_Item = moved, irq_Drop = False, irq_UpdateClients = True,
                            irq_NewPartyItem = False, irq_StoryGiven = False\<rparr>;
                        (purse, w, out1) = purse_change g p cs random change host w;
                        (party, w, out2) = (if purse then (True, w, []) else party_items_change g p cs change sender w);
                        out3 = (if party then [] else send_to_others (Item_Changed \<lparr>nic_SessionId = player, nic_Item = moved, nic_Drop = False\<rparr>) host p);
                        out4 = (if i = 0 then [] else send_to_others (Item_Changed \<lparr>nic_SessionId = i,
                          nic_Item = moved\<lparr>en_Count := - en_Count moved\<rparr>, nic_Drop = False\<rparr>) host p)
                    in (w, out1 @ out2 @ out3 @ out4))"

section \<open>Where items are\<close>

text \<open>The items granted to players, and those of waiting drops.\<close>

fun granted_item :: "conn \<times> item_message \<Rightarrow> entry list" where
  "granted_item (c, Picked_Up m) = [npu_Item m]"
| "granted_item _ = []"

definition granted :: "item_message outbox \<Rightarrow> entry multiset" where
  "granted out = mset (concat (map granted_item out))"

definition waiting :: "(conn \<times> drop_item_request) list \<Rightarrow> entry multiset" where
  "waiting ps = mset (map (\<lambda>(_, q). dir_Item q) ps)"

lemma granted_simps [simp]: "granted [] = {#}" "granted (xs @ ys) = granted xs + granted ys"
    "granted [(c, Item_Dropped m)] = {#}" "granted (grant c object tag e) = {#e#}"
  by (simp_all add: granted_def grant_def)

lemma waiting_simps [simp]: "waiting [] = {#}" "waiting ((c, q) # ps) = add_mset (dir_Item q) (waiting ps)"
    "waiting (xs @ ys) = waiting xs + waiting ys"
  by (simp_all add: waiting_def)

text \<open>
  What the host's game promises of the loose items of its world (\<open>holds\<close>): an item it creates is added, one it takes
  is removed, and a quest object the party takes is not one more.
\<close>

definition world_ok :: "'w item_world \<Rightarrow> ('w \<Rightarrow> entry multiset) \<Rightarrow> bool" where
  "world_ok W holds \<longleftrightarrow>
     (\<forall>create. iw_CreateItem W = Some create \<longrightarrow> (\<forall>e at w. holds (snd (create e at w)) =
        (case fst (create e at w) of None \<Rightarrow> holds w | Some i \<Rightarrow> if i = no_id then holds w else add_mset e (holds w)))) \<and>
     (\<forall>take_item. iw_TakeItem W = Some take_item \<longrightarrow> (\<forall>i w. holds w =
        (case fst (take_item i w) of None \<Rightarrow> holds (snd (take_item i w)) | Some e \<Rightarrow> add_mset e (holds (snd (take_item i w)))))) \<and>
     (\<forall>take_quest. iw_TakeQuestObject W = Some take_quest \<longrightarrow> (\<forall>i w. holds (snd (take_quest i w)) \<subseteq># holds w))"

lemma make_drop_held:
  assumes "world_ok W holds" "make_drop W c q made w = (done, made', w', out)"
  shows "granted out = {#} \<and> holds w' + (if done then {#} else {#dir_Item q#}) \<subseteq># add_mset (dir_Item q) (holds w)"
proof (cases "iw_CreateItem W")
  case (Some create)
  then have "holds (snd (create (dir_Item q) (dir_Placement q) w)) =
      (case fst (create (dir_Item q) (dir_Placement q) w) of None \<Rightarrow> holds w
        | Some i \<Rightarrow> if i = no_id then holds w else add_mset (dir_Item q) (holds w))"
    using assms(1) by (simp add: world_ok_def)
  then show ?thesis
    using assms(2) Some by (cases "create (dir_Item q) (dir_Placement q) w") (auto simp: make_drop_def split: option.splits if_splits)
qed (use assms(2) in \<open>auto simp: make_drop_def\<close>)

lemma try_drops_held:
  assumes "world_ok W holds" "try_drops W ps made w = (ps', made', w', out)"
  shows "granted out = {#} \<and> holds w' + waiting ps' \<subseteq># holds w + waiting ps \<and> length ps' \<le> length ps"
  using assms(2)
proof (induction ps arbitrary: made w ps' made' w' out)
  case (Cons x ps)
  obtain c q where x: "x = (c, q)" by (cases x)
  obtain ok made1 w1 out1 where m: "make_drop W c q made w = (ok, made1, w1, out1)" by (cases "make_drop W c q made w") auto
  obtain ps2 made2 w2 out2 where t: "try_drops W ps made1 w1 = (ps2, made2, w2, out2)" by (cases "try_drops W ps made1 w1") auto
  note one = make_drop_held [OF assms(1) m] and rest = Cons.IH [OF t]
  have "holds w2 + waiting ps2 + (if ok then {#} else {#dir_Item q#}) \<subseteq># holds w1 + (if ok then {#} else {#dir_Item q#}) + waiting ps"
    using rest by simp
  also have "\<dots> \<subseteq># add_mset (dir_Item q) (holds w) + waiting ps"
    using one by (intro subset_mset.add_right_mono) simp
  finally show ?case
    using Cons.prems one rest by (auto simp: x m t ac_simps split: if_splits)
qed simp

lemma take_pending_waiting: "take_pending c tag ps = Some (q, ps') \<Longrightarrow> waiting ps = add_mset (dir_Item q) (waiting ps') \<and> length ps' \<le> length ps"
  by (induction ps arbitrary: ps') (auto split: if_splits)

lemma waiting_filter: "waiting (filter P ps) \<subseteq># waiting ps"
proof -
  have "image_mset (\<lambda>(_, q). dir_Item q) (filter_mset P (mset ps)) \<subseteq># image_mset (\<lambda>(_, q). dir_Item q) (mset ps)"
    by (intro image_mset_subseteq_mono multiset_filter_subset)
  then show ?thesis
    by (simp add: waiting_def)
qed

section \<open>Events\<close>

datatype item_event =
    Drops host_players drop_item_request conn
  | Picks_Up host_players pick_up_request conn
  | Tries_Drops
  | Leaves_Session conn

fun item_step :: "'w item_world \<Rightarrow> item_event \<Rightarrow> items \<times> 'w \<Rightarrow> (items \<times> 'w) \<times> item_message outbox" where
  "item_step W (Drops p q c) s = on_drop W p q c s"
| "item_step W (Picks_Up p q c) s = on_pick_up W p q c s"
| "item_step W Tries_Drops s = items_update W s"
| "item_step W (Leaves_Session c) s = ((items_player_left c (fst s), snd s), [])"

fun dropped_item :: "item_event \<Rightarrow> entry list" where
  "dropped_item (Drops p q c) = (if c = players_host p then [] else [dir_Item q])"
| "dropped_item _ = []"

definition dropped_by :: "item_event list \<Rightarrow> entry multiset" where
  "dropped_by es = mset (concat (map dropped_item es))"

text \<open>Where the items are after an event: none is in two places.\<close>

definition ledger :: "('w \<Rightarrow> entry multiset) \<Rightarrow> items \<times> 'w \<Rightarrow> entry multiset" where
  "ledger holds s = holds (snd s) + waiting (it_pending (fst s))"

lemma on_drop_ledger:
  assumes "world_ok W holds"
  shows "granted (snd (on_drop W p q c s)) + ledger holds (fst (on_drop W p q c s)) \<subseteq># mset (dropped_item (Drops p q c)) + ledger holds s"
proof (cases "c = players_host p \<or> iw_CreateItem W = None")
  case False
  obtain it w where s: "s = (it, w)" by (cases s)
  obtain ok made w' out where m: "make_drop W c q (it_made it) w = (ok, made, w', out)" by (cases "make_drop W c q (it_made it) w") auto
  note one = make_drop_held [OF assms m]
  have "waiting (tl ps) \<subseteq># waiting ps" for ps
    by (cases ps) auto
  then have kept: "waiting (if max_pending \<le> length (it_pending it) then tl (it_pending it) else it_pending it) \<subseteq># waiting (it_pending it)"
    by simp
  show ?thesis
  proof (cases ok)
    case True
    then show ?thesis
      using one False m by (simp add: on_drop_def s ledger_def ac_simps)
  next
    case not_made: False
    then have "holds w' \<subseteq># holds w"
      using one by simp
    then show ?thesis
      using kept one False m not_made by (auto simp: on_drop_def s ledger_def Let_def intro!: subset_mset.add_mono)
  qed
qed (auto simp: on_drop_def)

lemma take_loose_ledger:
  assumes "world_ok W holds" "iw_TakeItem W = Some take_item"
  shows "granted (snd (take_loose W take_item c i tag w)) + holds (fst (take_loose W take_item c i tag w)) \<subseteq># holds w"
proof -
  define qw where "qw = (case iw_TakeQuestObject W of None \<Rightarrow> (False, w) | Some take_quest \<Rightarrow> take_quest i w)"
  have quest: "holds (snd qw) \<subseteq># holds w"
    using assms(1) by (auto simp: world_ok_def qw_def split: option.split)
  have "holds (snd qw) = (case fst (take_item i (snd qw)) of None \<Rightarrow> holds (snd (take_item i (snd qw)))
      | Some e \<Rightarrow> add_mset e (holds (snd (take_item i (snd qw)))))"
    using assms by (simp add: world_ok_def)
  then show ?thesis
    using quest by (cases qw; cases "take_item i (snd qw)") (auto simp: take_loose_def simp flip: qw_def split: option.splits)
qed

lemma on_pick_up_ledger:
  assumes "world_ok W holds"
  shows "granted (snd (on_pick_up W p q c s)) + ledger holds (fst (on_pick_up W p q c s)) \<subseteq># ledger holds s"
proof -
  obtain it w where s: "s = (it, w)" by (cases s)
  show ?thesis
  proof (cases "iw_TakeItem W")
    case take_item: (Some take_item)
    show ?thesis
    proof (cases "take_pending c (pur_Tag q) (it_pending it)")
      case None
      note loose = take_loose_ledger [OF assms take_item]
      show ?thesis
        using take_item None
        by (simp add: on_pick_up_def s ledger_def Let_def case_prod_unfold loose flip: add.assoc)
    next
      case (Some x)
      then show ?thesis
        using take_pending_waiting [of c "pur_Tag q" "it_pending it" "fst x" "snd x"] take_item
        by (auto simp: on_pick_up_def s ledger_def split: prod.split)
    qed
  qed (simp add: on_pick_up_def s)
qed

lemma item_step_ledger:
  assumes "world_ok W holds"
  shows "granted (snd (item_step W e s)) + ledger holds (fst (item_step W e s)) \<subseteq># mset (dropped_item e) + ledger holds s"
proof (cases e)
  case (Drops p q c)
  then show ?thesis
    using on_drop_ledger [OF assms, of p q c s] by simp
next
  case (Picks_Up p q c)
  then show ?thesis
    using on_pick_up_ledger [OF assms, of p q c s] by simp
next
  case Tries_Drops
  obtain it v where s: "s = (it, v)" by (cases s)
  obtain ps made w out where t: "try_drops W (it_pending it) (it_made it) v = (ps, made, w, out)"
    by (cases "try_drops W (it_pending it) (it_made it) v") auto
  show ?thesis
    using try_drops_held [OF assms t] by (simp add: Tries_Drops s items_update_def ledger_def t)
next
  case (Leaves_Session c)
  then show ?thesis
    using waiting_filter by (auto simp: ledger_def items_player_left_def)
qed

lemma try_drops_shorter: "length (fst (try_drops W ps made w)) \<le> length ps"
proof (induction ps arbitrary: made w)
  case (Cons x ps)
  then show ?case
    by (cases x) (auto simp: Let_def case_prod_unfold intro: le_SucI)
qed simp

lemma take_pending_shorter: "take_pending c tag ps = Some (q, ps') \<Longrightarrow> length ps' \<le> length ps"
  by (induction ps arbitrary: ps') (auto split: if_splits)

lemma pending_bound:
  assumes "length (it_pending (fst s)) \<le> 64"
  shows "length (it_pending (fst (fst (item_step W e s)))) \<le> 64"
proof (cases e)
  case (Drops p q c)
  then show ?thesis
    using assms by (auto simp: on_drop_def Let_def case_prod_unfold max_pending_def)
next
  case (Picks_Up p q c)
  then show ?thesis
    using assms by (auto simp: on_pick_up_def Let_def case_prod_unfold split: option.split dest!: take_pending_shorter)
next
  case Tries_Drops
  then show ?thesis
    using assms order_trans [OF try_drops_shorter] by (auto simp: items_update_def Let_def case_prod_unfold)
next
  case (Leaves_Session c)
  then show ?thesis
    using assms order_trans [OF length_filter_le] by (auto simp: items_player_left_def)
qed

lemma run_ledger:
  assumes "world_ok W holds"
  shows "granted (snd (run (item_step W) es s)) + ledger holds (fst (run (item_step W) es s)) \<subseteq># dropped_by es + ledger holds s"
proof (induction es arbitrary: s)
  case (Cons e es)
  let ?s = "fst (item_step W e s)"
  have "granted (snd (item_step W e s)) + (granted (snd (run (item_step W) es ?s)) + ledger holds (fst (run (item_step W) es ?s))) \<subseteq>#
      granted (snd (item_step W e s)) + (dropped_by es + ledger holds ?s)"
    using Cons.IH [of ?s] by (intro subset_mset.add_left_mono)
  also have "\<dots> = granted (snd (item_step W e s)) + ledger holds ?s + dropped_by es"
    by simp
  also have "\<dots> \<subseteq># mset (dropped_item e) + ledger holds s + dropped_by es"
    using item_step_ledger [OF assms, of e s] by (intro subset_mset.add_right_mono)
  finally show ?case
    by (simp add: run_Cons dropped_by_def ac_simps)
qed (simp add: dropped_by_def)

text \<open>
  C17: where the host's game keeps what it promises, then whatever guests drop, pick up and whenever they
  leave, the items granted to players, those waiting for their cell and those loose in the host's world are together at most
  what was there before and what guests dropped since: no item is granted twice, and none both granted and still there. No
  more than 64 wait.
\<close>

theorem items_never_doubled:
  assumes "world_ok W holds" and "r = run (item_step W) es (no_items, w)"
  shows "granted (snd r) + waiting (it_pending (fst (fst r))) + holds (snd (fst r)) \<subseteq># dropped_by es + holds w \<and>
    length (it_pending (fst (fst r))) \<le> 64"
proof
  show "granted (snd r) + waiting (it_pending (fst (fst r))) + holds (snd (fst r)) \<subseteq># dropped_by es + holds w"
    using run_ledger [OF assms(1), of es "(no_items, w)"] by (simp add: assms(2) ledger_def no_items_def ac_simps)
  have "length (it_pending (fst (fst (run (item_step W) es s)))) \<le> 64" if "length (it_pending (fst s)) \<le> 64" for s
    using that by (induction es arbitrary: s) (simp_all add: run_Cons pending_bound)
  then show "length (it_pending (fst (fst r))) \<le> 64"
    by (simp add: assms(2) no_items_def)
qed

text \<open>A world of ids counted up: a guest drops an item, and two ask for it.\<close>

fun take_first :: "game_id \<Rightarrow> (game_id \<times> entry) list \<Rightarrow> entry option \<times> (game_id \<times> entry) list" where
  "take_first i [] = (None, [])"
| "take_first i ((j, e) # l) = (if i = j then (Some e, l) else let (r, l) = take_first i l in (r, (j, e) # l))"

definition example_world :: "(game_id \<times> entry) list item_world" where
  "example_world = \<lparr>iw_CreateItem = Some (\<lambda>e _ l. (Some \<lparr>gid_BaseId = of_nat (length l) + 1, gid_ModId = 0xFF\<rparr>,
       (\<lparr>gid_BaseId = of_nat (length l) + 1, gid_ModId = 0xFF\<rparr>, e) # l)),
     iw_TakeItem = Some take_first, iw_TakeQuestObject = None, iw_TransferContainer = None\<rparr>"

lemma example_world_ok: "world_ok example_world (\<lambda>l. image_mset snd (mset l))"
proof -
  have "image_mset snd (mset l) = (case fst (take_first i l) of None \<Rightarrow> image_mset snd (mset (snd (take_first i l)))
      | Some e \<Rightarrow> add_mset e (image_mset snd (mset (snd (take_first i l)))))" for i and l :: "(game_id \<times> entry) list"
    by (induction i l rule: take_first.induct) (auto simp: Let_def case_prod_unfold split: option.splits)
  then show ?thesis
    unfolding world_ok_def by (auto simp: example_world_def no_id_def simp del: mset_map)
qed

definition example_drops :: "item_event list" where
  "example_drops =
     (let q = \<lparr>dir_Tag = 4, dir_Item = new_entry\<lparr>en_Count := 1\<rparr>, dir_Placement = no_placement\<rparr>;
          pick = \<lparr>pur_Object = \<lparr>gid_BaseId = 1, gid_ModId = 0xFF\<rparr>, pur_Tag = 0\<rparr>
      in [Drops example_party q 7, Picks_Up example_party pick 7, Picks_Up example_party pick 8])"

theorem items_never_doubled_witness:
  "granted (snd (run (item_step example_world) example_drops (no_items, []))) \<subseteq># {#new_entry\<lparr>en_Count := 1\<rparr>#}"
proof -
  have "dropped_by example_drops = {#new_entry\<lparr>en_Count := 1\<rparr>#}"
    by (simp add: dropped_by_def example_drops_def Let_def example_party_def players_host_def)
  then show ?thesis
    using items_never_doubled [OF example_world_ok refl, of example_drops "[]"] subset_mset.dual_order.trans by fastforce
qed

end
