(* ===== verification/Float64.thy ===== *)
theory Float64
  imports Float_Arith
begin

text \<open>
  Arithmetic on \<open>double\<close>s, as the host's clocks and scores use it: IEEE double precision by its bits, each result the
  exact one rounded to nearest, ties to even; and the order of \<open>float\<close>s and \<open>double\<close>s.
\<close>

type_synonym float64 = u64

section \<open>Order\<close>

text \<open>Sign and magnitude: the key of a number, in whose order it is compared. A NaN is not compared.\<close>

definition f32_key :: "float32 \<Rightarrow> int" where
  "f32_key f = (let m = uint (f AND 0x7FFFFFFF) in if bit f 31 then - m else m)"

definition f32_less :: "float32 \<Rightarrow> float32 \<Rightarrow> bool" where
  "f32_less a b \<longleftrightarrow> \<not> f32_is_nan a \<and> \<not> f32_is_nan b \<and> f32_key a < f32_key b"

definition f32_less_eq :: "float32 \<Rightarrow> float32 \<Rightarrow> bool" where
  "f32_less_eq a b \<longleftrightarrow> \<not> f32_is_nan a \<and> \<not> f32_is_nan b \<and> f32_key a \<le> f32_key b"

text \<open>\<open>std::min\<close> and \<open>std::max\<close>: the first, unless the second is less, or greater.\<close>

definition f32_min :: "float32 \<Rightarrow> float32 \<Rightarrow> float32" where
  "f32_min a b = (if f32_less b a then b else a)"

definition f64_exponent :: "float64 \<Rightarrow> nat" where
  "f64_exponent f = unat (drop_bit 52 f AND 0x7FF)"

definition f64_fraction :: "float64 \<Rightarrow> nat" where
  "f64_fraction f = unat (f AND 0xFFFFFFFFFFFFF)"

definition f64_negative :: "float64 \<Rightarrow> bool" where
  "f64_negative f = bit f 63"

definition f64_is_nan :: "float64 \<Rightarrow> bool" where
  "f64_is_nan f \<longleftrightarrow> f64_exponent f = 0x7FF \<and> f64_fraction f \<noteq> 0"

definition f64_is_inf :: "float64 \<Rightarrow> bool" where
  "f64_is_inf f \<longleftrightarrow> f64_exponent f = 0x7FF \<and> f64_fraction f = 0"

definition f64_is_finite :: "float64 \<Rightarrow> bool" where
  "f64_is_finite f \<longleftrightarrow> f64_exponent f \<noteq> 0x7FF"

definition f64_is_zero :: "float64 \<Rightarrow> bool" where
  "f64_is_zero f \<longleftrightarrow> f AND 0x7FFFFFFFFFFFFFFF = 0"

definition f64_key :: "float64 \<Rightarrow> int" where
  "f64_key f = (let m = uint (f AND 0x7FFFFFFFFFFFFFFF) in if f64_negative f then - m else m)"

definition f64_less :: "float64 \<Rightarrow> float64 \<Rightarrow> bool" where
  "f64_less a b \<longleftrightarrow> \<not> f64_is_nan a \<and> \<not> f64_is_nan b \<and> f64_key a < f64_key b"

definition f64_less_eq :: "float64 \<Rightarrow> float64 \<Rightarrow> bool" where
  "f64_less_eq a b \<longleftrightarrow> \<not> f64_is_nan a \<and> \<not> f64_is_nan b \<and> f64_key a \<le> f64_key b"

definition f64_eq :: "float64 \<Rightarrow> float64 \<Rightarrow> bool" where
  "f64_eq a b \<longleftrightarrow> \<not> f64_is_nan a \<and> \<not> f64_is_nan b \<and> f64_key a = f64_key b"

definition f64_max :: "float64 \<Rightarrow> float64 \<Rightarrow> float64" where
  "f64_max a b = (if f64_less a b then b else a)"

definition f64_abs :: "float64 \<Rightarrow> float64" where
  "f64_abs f = f AND 0x7FFFFFFFFFFFFFFF"

definition f64_neg :: "float64 \<Rightarrow> float64" where
  "f64_neg f = f XOR 0x8000000000000000"

lemma f64_less_trans: "f64_less a b \<Longrightarrow> f64_less b c \<Longrightarrow> f64_less a c"
  by (simp add: f64_less_def)

lemma f64_less_eq_trans: "f64_less_eq a b \<Longrightarrow> f64_less_eq b c \<Longrightarrow> f64_less_eq a c"
  by (simp add: f64_less_eq_def)

lemma f32_less_irrefl [simp]: "\<not> f32_less a a"
  by (simp add: f32_less_def)

section \<open>Exact values and rounding\<close>

text \<open>A finite one is \<open>m * 2 ^ e\<close>.\<close>

definition f64_mantissa :: "float64 \<Rightarrow> int" where
  "f64_mantissa f =
     (let m = int ((if f64_exponent f = 0 then 0 else 2 ^ 52) + f64_fraction f) in if f64_negative f then - m else m)"

definition f64_scale :: "float64 \<Rightarrow> int" where
  "f64_scale f = int (max 1 (f64_exponent f)) - 1075"

definition f64_make :: "bool \<Rightarrow> nat \<Rightarrow> float64" where
  "f64_make neg bits = word_of_nat ((if neg then 2 ^ 63 else 0) + bits)"

text \<open>\<open>n * 2 ^ e\<close> with a sign: 53 bits of it, fewer below \<open>2 ^ -1022\<close>; what is too large is an infinity.\<close>

definition f64_round :: "bool \<Rightarrow> nat \<Rightarrow> int \<Rightarrow> float64" where
  "f64_round neg n e =
     (let q = max (int (log2_floor n) + e - 52) (- 1074);
          t = (if q \<le> e then n * 2 ^ nat (e - q) else half_even n (nat (q - e)));
          bits = nat (q + 1074) * 2 ^ 52 + t
      in f64_make neg (if n = 0 then 0 else if bits < 0x7FF0000000000000 then bits else 0x7FF0000000000000))"

definition f64_nan :: float64 where "f64_nan = 0x7FF8000000000000"
definition f64_inf :: "bool \<Rightarrow> float64" where "f64_inf neg = f64_make neg 0x7FF0000000000000"

section \<open>Operations\<close>

definition f64_mul :: "float64 \<Rightarrow> float64 \<Rightarrow> float64" where
  "f64_mul a b =
     (let neg = (f64_negative a \<noteq> f64_negative b)
      in if f64_is_nan a \<or> f64_is_nan b then f64_nan
         else if f64_is_inf a \<or> f64_is_inf b then (if f64_is_zero a \<or> f64_is_zero b then f64_nan else f64_inf neg)
         else f64_round neg (nat \<bar>f64_mantissa a * f64_mantissa b\<bar>) (f64_scale a + f64_scale b))"

definition f64_add :: "float64 \<Rightarrow> float64 \<Rightarrow> float64" where
  "f64_add a b =
     (if f64_is_nan a \<or> f64_is_nan b then f64_nan
      else if f64_is_inf a then (if f64_is_inf b \<and> f64_negative a \<noteq> f64_negative b then f64_nan else a)
      else if f64_is_inf b then b
      else let e = min (f64_scale a) (f64_scale b);
               s = f64_mantissa a * 2 ^ nat (f64_scale a - e) + f64_mantissa b * 2 ^ nat (f64_scale b - e)
           in if s = 0 then (if f64_negative a \<and> f64_negative b then 0x8000000000000000 else 0)
              else f64_round (s < 0) (nat \<bar>s\<bar>) e)"

definition f64_sub :: "float64 \<Rightarrow> float64 \<Rightarrow> float64" where
  "f64_sub a b = f64_add a (f64_neg b)"

text \<open>
  A quotient: its first 66 bits or more, and a last one set when there is more of it, which is enough for rounding to
  nearest.
\<close>

definition f64_div :: "float64 \<Rightarrow> float64 \<Rightarrow> float64" where
  "f64_div a b =
     (let neg = (f64_negative a \<noteq> f64_negative b)
      in if f64_is_nan a \<or> f64_is_nan b then f64_nan
         else if f64_is_inf a then (if f64_is_inf b then f64_nan else f64_inf neg)
         else if f64_is_inf b then f64_round neg 0 0
         else if f64_is_zero b then (if f64_is_zero a then f64_nan else f64_inf neg)
         else let n = nat \<bar>f64_mantissa a\<bar> * 2 ^ 120; d = nat \<bar>f64_mantissa b\<bar>
              in f64_round neg (2 * (n div d) + (if n mod d = 0 then 0 else 1)) (f64_scale a - f64_scale b - 121))"

section \<open>Conversions\<close>

definition f64_of_int :: "int \<Rightarrow> float64" where
  "f64_of_int i = f64_round (i < 0) (nat \<bar>i\<bar>) 0"

definition f64_of_f32 :: "float32 \<Rightarrow> float64" where
  "f64_of_f32 f =
     (if f32_is_nan f then f64_nan else if f32_is_inf f then f64_inf (f32_negative f)
      else f64_round (f32_negative f) (nat \<bar>f32_mantissa f\<bar>) (f32_scale f))"

definition f32_of_f64 :: "float64 \<Rightarrow> float32" where
  "f32_of_f64 f =
     (if f64_is_nan f then f32_nan else if f64_is_inf f then f32_inf (f64_negative f)
      else f32_round (f64_negative f) (nat \<bar>f64_mantissa f\<bar>) (f64_scale f))"

text \<open>
  \<open>static_cast<uint32_t>(std::ceil(f))\<close> on x86-64: the low half of the 64-bit integer; what does not fit 64 bits is
  \<open>2 ^ 63\<close>, whose low half is 0.
\<close>

definition f64_ceil_u32 :: "float64 \<Rightarrow> u32" where
  "f64_ceil_u32 f =
     (if f64_exponent f \<ge> 1023 + 63 then 0
      else let m = f64_mantissa f; e = f64_scale f; n = (if 0 \<le> e then m * 2 ^ nat e else - ((- m) div 2 ^ nat (- e)))
           in word_of_int n)"

section \<open>Integers, quotients, differences\<close>

text \<open>
  \<open>static_cast<float>\<close> of an integer, a quotient (rounded to a double first, which changes nothing: a double has more
  than twice a float's bits), a difference and whether it is finite.
\<close>

definition f32_of_int :: "int \<Rightarrow> float32" where
  "f32_of_int i = f32_round (i < 0) (nat \<bar>i\<bar>) 0"

definition f32_div :: "float32 \<Rightarrow> float32 \<Rightarrow> float32" where
  "f32_div a b = f32_of_f64 (f64_div (f64_of_f32 a) (f64_of_f32 b))"

definition f32_sub :: "float32 \<Rightarrow> float32 \<Rightarrow> float32" where
  "f32_sub a b = f32_add a (f32_neg b)"

definition f32_is_finite :: "float32 \<Rightarrow> bool" where
  "f32_is_finite a \<longleftrightarrow> \<not> f32_is_nan a \<and> \<not> f32_is_inf a"

definition f32_abs :: "float32 \<Rightarrow> float32" where
  "f32_abs a = a AND 0x7FFFFFFF"

text \<open>What evaluates an operation on given floats: their parts first, then the rounding.\<close>

lemmas f32_parts = f32_is_nan_def f32_is_inf_def f32_is_zero_def f32_exponent_def f32_fraction_def f32_negative_def
  f32_mantissa_def f32_scale_def
lemmas f32_rounds = f32_round_def f32_make_def half_even_def log2_floor.simps
lemmas f64_parts = f64_is_nan_def f64_is_inf_def f64_is_zero_def f64_exponent_def f64_fraction_def f64_negative_def
  f64_mantissa_def f64_scale_def
lemmas f64_rounds = f64_round_def f64_make_def half_even_def log2_floor.simps

end
