(* ===== verification/Deaths.thy ===== *)
theory Deaths
  imports Float64 Characters Host_Messages
begin

text \<open>
  The party going down and coming back (\<open>Services/Host/HostDeath\<close>): who is down, who fights, the recovery timer, the
  respawns beside a standing player, and the wipe.
\<close>

section \<open>The party\<close>

record fallen =
  fa_Body :: party_death_player
  fa_Known :: bool
  fa_Respawning :: bool

definition new_fallen :: fallen where
  "new_fallen = \<lparr>fa_Body = \<lparr>pdp_SessionId = 0, pdp_Generation = 0, pdp_Down = False\<rparr>, fa_Known = False, fa_Respawning = False\<rparr>"

record deaths =
  dt_party :: "(conn \<times> fallen) list"
  dt_ai :: "(u32 \<times> actor_ai_state) list"
  dt_targets :: "(u32 \<times> u32 set) list"
  dt_now :: float64
  dt_recoveryAt :: "float64 option"
  dt_combat :: bool
  dt_wiped :: bool
  dt_error :: string

definition new_deaths :: deaths where
  "new_deaths = \<lparr>dt_party = [], dt_ai = [], dt_targets = [], dt_now = 0, dt_recoveryAt = None, dt_combat = False,
     dt_wiped = False, dt_error = []\<rparr>"

text \<open>The session around it at an event; \<open>de_PartyWipe\<close> says whether the host's game has that call.\<close>

record death_env =
  de_players :: host_players
  de_characters :: characters
  de_game :: spawn_game
  de_PartyWipe :: bool

datatype death_message = Perished player_perished | Party_State party_death | Respawn_There player_respawn
datatype death_out = Told conn death_message | Wipe

definition told_all :: "death_message outbox \<Rightarrow> death_out list" where
  "told_all = map (\<lambda>(c, m). Told c m)"

text \<open>\<open>kRecoverySeconds\<close> is 10, \<open>kRespawnDistance\<close> 100, \<open>kRespawnTurn\<close> a sixth of a turn.\<close>

definition recovery_seconds :: float64 where "recovery_seconds = f64_of_int 10"
definition respawn_distance :: float32 where "respawn_distance = 0x42C80000"
definition respawn_turn :: float32 where "respawn_turn = 0x3F860A92"

definition standing :: "conn \<Rightarrow> deaths \<Rightarrow> bool" where
  "standing c s = (case map_of (dt_party s) c of None \<Rightarrow> False | Some x \<Rightarrow> fa_Known x \<and> \<not> pdp_Down (fa_Body x))"

definition death_broadcast :: "death_env \<Rightarrow> deaths \<Rightarrow> death_out list" where
  "death_broadcast E s = told_all (send_to_all (Party_State
     \<lparr>npd_Players = map (\<lambda>(_, x). fa_Body x) (dt_party s), npd_Combat = dt_combat s, npd_Wiped = dt_wiped s,
      npd_RemainingMs = (case dt_recoveryAt s of
          Some at \<Rightarrow> f64_ceil_u32 (f64_mul (f64_max 0 (f64_sub at (dt_now s))) (f64_of_int 1000))
        | None \<Rightarrow> 0),
      npd_Error = dt_error s\<rparr>) (de_players E))"

section \<open>Who decides\<close>

definition standing_ids :: "deaths \<Rightarrow> u32 set" where
  "standing_ids s = set (map (\<lambda>(_, x). pdp_SessionId (fa_Body x)) (filter (\<lambda>(_, x). \<not> pdp_Down (fa_Body x)) (dt_party s)))"

definition some_down :: "deaths \<Rightarrow> bool" where
  "some_down s \<longleftrightarrow> list_ex (\<lambda>(_, x). pdp_Down (fa_Body x)) (dt_party s)"

definition all_known :: "deaths \<Rightarrow> bool" where
  "all_known s \<longleftrightarrow> dt_party s \<noteq> [] \<and> list_all (\<lambda>(_, x). fa_Known x) (dt_party s)"

text \<open>A standing player's own fight, or one of the host's characters with a standing player, now or since it started.\<close>

definition fights :: "death_env \<Rightarrow> u32 set \<Rightarrow> (u32 \<times> u32 set) list \<Rightarrow> u32 \<times> actor_ai_state \<Rightarrow> bool" where
  "fights E up targets x =
     (case x of (i, ai) \<Rightarrow>
        ai_Combat ai \<noteq> 0 \<and>
        (i \<in> up \<or>
         owner_of i (de_characters E) = players_host (de_players E) \<and>
         (ait_SessionId (ai_CombatTarget ai) \<in> up \<or>
          (case map_of targets i of None \<Rightarrow> False | Some ts \<Rightarrow> ts \<inter> up \<noteq> {}))))"

definition standing_player_fights :: "death_env \<Rightarrow> deaths \<Rightarrow> bool" where
  "standing_player_fights E s \<longleftrightarrow> list_ex (fights E (standing_ids s) (dt_targets s)) (dt_ai s)"

definition same_time :: "float64 option \<Rightarrow> float64 option \<Rightarrow> bool" where
  "same_time a b = (case (a, b) of (None, None) \<Rightarrow> True | (Some x, Some y) \<Rightarrow> f64_eq x y | _ \<Rightarrow> False)"

definition reconsider :: "death_env \<Rightarrow> deaths \<Rightarrow> deaths \<times> death_out list" where
  "reconsider E s =
     (if dt_wiped s then (s, [])
      else if all_known s \<and> some_down s \<and> standing_ids s = {}
      then let s = s\<lparr>dt_wiped := True, dt_recoveryAt := None\<rparr>
           in (s, death_broadcast E s @ (if de_PartyWipe E then [Wipe] else []))
      else
        let combat = standing_player_fights E s;
            at = (if \<not> all_known s \<or> \<not> some_down s \<or> combat then None
                  else case dt_recoveryAt s of None \<Rightarrow> Some (f64_add (dt_now s) recovery_seconds) | Some at \<Rightarrow> Some at);
            s' = s\<lparr>dt_combat := combat, dt_recoveryAt := at\<rparr>
        in (s', if \<not> same_time (dt_recoveryAt s) at \<or> combat \<noteq> dt_combat s then death_broadcast E s' else []))"

section \<open>Events\<close>

definition death_entered :: "death_env \<Rightarrow> conn \<Rightarrow> u32 \<Rightarrow> deaths \<Rightarrow> deaths \<times> death_out list" where
  "death_entered E c i s =
     (let x = (case map_of (dt_party s) c of Some x \<Rightarrow> x | None \<Rightarrow> new_fallen);
          (s, out) = reconsider E (s\<lparr>dt_party := map_put c (x\<lparr>fa_Body := (fa_Body x)\<lparr>pdp_SessionId := i\<rparr>\<rparr>) (dt_party s)\<rparr>)
      in (s, out @ death_broadcast E s))"

definition initial_ai :: "death_env \<Rightarrow> u32 \<Rightarrow> actor_ai_state \<Rightarrow> deaths \<Rightarrow> deaths \<times> death_out list" where
  "initial_ai E i ai s = reconsider E (s\<lparr>dt_ai := map_put i ai (dt_ai s)\<rparr>)"

definition death_left :: "death_env \<Rightarrow> conn \<Rightarrow> deaths \<Rightarrow> deaths \<times> death_out list" where
  "death_left E c s =
     (let s = (case map_of (dt_party s) c of
                 Some x \<Rightarrow> s\<lparr>dt_ai := map_erase (pdp_SessionId (fa_Body x)) (dt_ai s), dt_party := map_erase c (dt_party s)\<rparr>
               | None \<Rightarrow> s);
          (s, out) = reconsider E s
      in (s, out @ death_broadcast E s))"

definition on_ai_state :: "death_env \<Rightarrow> ai_state \<Rightarrow> conn \<Rightarrow> deaths \<Rightarrow> deaths \<times> death_out list" where
  "on_ai_state E q sender s =
     (let i = ais_SessionId q; ai = ais_State q; target = ait_SessionId (ai_CombatTarget ai); old = dt_targets s
      in if owner_of i (de_characters E) \<noteq> sender then (s, [])
         else reconsider E (s\<lparr>dt_ai := map_put i ai (dt_ai s),
           dt_targets := (if ai_Combat ai = 0 then map_erase i old
             else if target \<noteq> 0 then map_put i (insert target (case map_of old i of None \<Rightarrow> {} | Some ts \<Rightarrow> ts)) old
             else old)\<rparr>))"

text \<open>Friendly fire: another player's own character killed it.\<close>

definition killer_name :: "death_env \<Rightarrow> u32 \<Rightarrow> conn \<Rightarrow> string" where
  "killer_name E killer sender =
     (let c = owner_of killer (de_characters E)
      in if killer \<noteq> 0 \<and> c \<noteq> sender \<and> is_player c (de_players E) \<and> player_character_of c (de_characters E) = killer
         then player_name_of c (de_players E) else [])"

definition perished_notice :: "death_env \<Rightarrow> player_death_request \<Rightarrow> conn \<Rightarrow> death_out list" where
  "perished_notice E q sender = told_all (send_to_all (Perished \<lparr>npp_PlayerId = player_id_of sender (de_players E),
     npp_Username = player_name_of sender (de_players E), npp_KillerName = killer_name E (pdr_KillerId q) sender\<rparr>) (de_players E))"

definition on_death :: "death_env \<Rightarrow> player_death_request \<Rightarrow> conn \<Rightarrow> deaths \<Rightarrow> deaths \<times> death_out list" where
  "on_death E q sender s =
     (case map_of (dt_party s) sender of
        None \<Rightarrow> (s, [])
      | Some x \<Rightarrow>
          let body = fa_Body x; gen = pdr_Generation q
          in if dt_wiped s \<or> pdr_SessionId q \<noteq> player_character_of sender (de_characters E) \<or> gen < pdp_Generation body then (s, [])
             else if pdr_Down q \<and> (gen = 0 \<or> gen = pdp_Generation body \<and> fa_Known x) then (s, [])
             else if \<not> pdr_Down q \<and> pdp_Down body \<and> (\<not> fa_Respawning x \<or> gen \<noteq> pdp_Generation body) then (s, [])
             else
               let x' = \<lparr>fa_Body = \<lparr>pdp_SessionId = pdr_SessionId q, pdp_Generation = gen, pdp_Down = pdr_Down q\<rparr>,
                     fa_Known = True, fa_Respawning = False\<rparr>;
                   perished = (if pdr_Down q then perished_notice E q sender else []);
                   (s, out) = reconsider E (s\<lparr>dt_party := map_put sender x' (dt_party s)\<rparr>)
               in (s, perished @ out @ death_broadcast E s))"

section \<open>Recovery\<close>

text \<open>The standing player with the lowest session id that has a place.\<close>

fun find_anchor :: "death_env \<Rightarrow> (conn \<times> fallen) list \<Rightarrow> (u32 \<times> party_travel) option \<Rightarrow> (u32 \<times> party_travel) option" where
  "find_anchor E [] best = best"
| "find_anchor E ((_, x) # xs) best =
     (let i = pdp_SessionId (fa_Body x);
          lower = (case best of None \<Rightarrow> True | Some (j, _) \<Rightarrow> j = 0 \<or> i < j);
          at = (if fa_Known x \<and> \<not> pdp_Down (fa_Body x) \<and> lower then character_place (de_game E) (de_players E) i (de_characters E) else None)
      in find_anchor E xs (case at of None \<Rightarrow> best | Some t \<Rightarrow> Some (i, t)))"

text \<open>Around it, a sixth of a turn on for each. \<open>cosf\<close> and \<open>sinf\<close> are the C library's.\<close>

definition respawn_at :: "(float32 \<Rightarrow> float32) \<Rightarrow> (float32 \<Rightarrow> float32) \<Rightarrow> u32 \<times> party_travel \<Rightarrow> nat \<Rightarrow> party_death_player \<Rightarrow> player_respawn" where
  "respawn_at cosf sinf anchor slot b =
     (let (i, t) = anchor; angle = f32_mul (f32_of_nat slot) respawn_turn; at = pt_Position t
      in \<lparr>npr_SessionId = pdp_SessionId b, npr_Generation = pdp_Generation b, npr_AnchorId = i, npr_CellId = pt_CellId t,
          npr_WorldSpaceId = pt_WorldSpaceId t,
          npr_Position = at\<lparr>v3_x := f32_add (v3_x at) (f32_mul respawn_distance (cosf angle)),
            v3_y := f32_add (v3_y at) (f32_mul respawn_distance (sinf angle))\<rparr>,
          npr_Heading = pt_Heading t\<rparr>)"

fun respawn_each :: "(float32 \<Rightarrow> float32) \<Rightarrow> (float32 \<Rightarrow> float32) \<Rightarrow> u32 \<times> party_travel \<Rightarrow> nat \<Rightarrow> (conn \<times> fallen) list \<Rightarrow>
    (conn \<times> fallen) list \<times> death_out list" where
  "respawn_each cosf sinf anchor slot [] = ([], [])"
| "respawn_each cosf sinf anchor slot ((c, x) # xs) =
     (if \<not> pdp_Down (fa_Body x) \<or> fa_Respawning x
      then let (xs, out) = respawn_each cosf sinf anchor slot xs in ((c, x) # xs, out)
      else let (xs, out) = respawn_each cosf sinf anchor (Suc slot) xs
           in ((c, x\<lparr>fa_Respawning := True\<rparr>) # xs, Told c (Respawn_There (respawn_at cosf sinf anchor slot (fa_Body x))) # out))"

definition respawn_all :: "(float32 \<Rightarrow> float32) \<Rightarrow> (float32 \<Rightarrow> float32) \<Rightarrow> death_env \<Rightarrow> deaths \<Rightarrow> deaths \<times> death_out list" where
  "respawn_all cosf sinf E s =
     (let s = s\<lparr>dt_recoveryAt := None\<rparr>
      in case find_anchor E (dt_party s) None of
           None \<Rightarrow> reconsider E s
         | Some anchor \<Rightarrow> let (xs, out) = respawn_each cosf sinf anchor 0 (dt_party s) in (s\<lparr>dt_party := xs\<rparr>, out))"

definition death_update :: "(float32 \<Rightarrow> float32) \<Rightarrow> (float32 \<Rightarrow> float32) \<Rightarrow> death_env \<Rightarrow> float64 \<Rightarrow> deaths \<Rightarrow> deaths \<times> death_out list" where
  "death_update cosf sinf E delta s =
     (let s = s\<lparr>dt_now := f64_add (dt_now s) (f64_max 0 delta)\<rparr>
      in case dt_recoveryAt s of
           Some at \<Rightarrow> if f64_less_eq at (dt_now s) then respawn_all cosf sinf E s else (s, [])
         | None \<Rightarrow> (s, []))"

definition fail_reload :: "death_env \<Rightarrow> string \<Rightarrow> deaths \<Rightarrow> deaths \<times> death_out list" where
  "fail_reload E err s = (let s = s\<lparr>dt_error := err\<rparr> in (s, death_broadcast E s))"

section \<open>The session's events\<close>

datatype death_event =
    Enters conn u32
  | Arrives_With u32 actor_ai_state
  | Departs conn
  | Tells_Ai ai_state conn
  | Tells_Death player_death_request conn
  | Ticks float64
  | Reload_Fails string

fun death_step :: "(float32 \<Rightarrow> float32) \<Rightarrow> (float32 \<Rightarrow> float32) \<Rightarrow> death_env \<times> death_event \<Rightarrow> deaths \<Rightarrow> deaths \<times> death_out list" where
  "death_step cosf sinf (E, Enters c i) s = death_entered E c i s"
| "death_step cosf sinf (E, Arrives_With i ai) s = initial_ai E i ai s"
| "death_step cosf sinf (E, Departs c) s = death_left E c s"
| "death_step cosf sinf (E, Tells_Ai q c) s = on_ai_state E q c s"
| "death_step cosf sinf (E, Tells_Death q c) s = on_death E q c s"
| "death_step cosf sinf (E, Ticks delta) s = death_update cosf sinf E delta s"
| "death_step cosf sinf (E, Reload_Fails err) s = fail_reload E err s"

text \<open>What a connection is told of respawning.\<close>

fun respawn_for :: "conn \<Rightarrow> death_out \<Rightarrow> player_respawn list" where
  "respawn_for c (Told d (Respawn_There r)) = (if d = c then [r] else [])"
| "respawn_for c _ = []"

definition respawns :: "conn \<Rightarrow> death_out list \<Rightarrow> player_respawn list" where
  "respawns c out = concat (map (respawn_for c) out)"

lemma respawns_simps [simp]:
  "respawns c [] = []" "respawns c (xs @ ys) = respawns c xs @ respawns c ys" "respawns c (x # xs) = respawn_for c x @ respawns c xs"
  by (simp_all add: respawns_def)

lemma told_all_quiet:
  "(\<And>r. m \<noteq> Respawn_There r) \<Longrightarrow> respawns c (told_all (send_to_all m p)) = []" "Wipe \<notin> set (told_all out)"
  by (cases m; auto simp: told_all_def send_to_all_def send_to_others_def respawns_def)+

lemma broadcast_quiet [simp]: "respawns c (death_broadcast E s) = []" "Wipe \<notin> set (death_broadcast E s)"
  by (simp_all add: death_broadcast_def told_all_quiet)

text \<open>
  The party as it may be: a player down is known and in a fall of some generation, one told to respawn is down; and the
  timer runs only while everyone is known, someone is down and someone stands, and not after a wipe.
\<close>

definition fallen_ok :: "fallen \<Rightarrow> bool" where
  "fallen_ok x \<longleftrightarrow> (fa_Respawning x \<longrightarrow> pdp_Down (fa_Body x)) \<and>
     (pdp_Down (fa_Body x) \<longrightarrow> fa_Known x \<and> pdp_Generation (fa_Body x) \<noteq> 0)"

definition timer_ok :: "deaths \<Rightarrow> bool" where
  "timer_ok s \<longleftrightarrow> (dt_recoveryAt s \<noteq> None \<longrightarrow> \<not> dt_wiped s \<and> all_known s \<and> some_down s \<and> standing_ids s \<noteq> {})"

definition deaths_ok :: "deaths \<Rightarrow> bool" where
  "deaths_ok s \<longleftrightarrow> ordered (dt_party s) \<and> list_all (\<lambda>(_, x). fallen_ok x) (dt_party s) \<and> timer_ok s"

lemma party_views [simp]:
  "all_known (s\<lparr>dt_combat := b\<rparr>) = all_known s" "all_known (s\<lparr>dt_recoveryAt := t\<rparr>) = all_known s" "all_known (s\<lparr>dt_wiped := b\<rparr>) = all_known s" "all_known (s\<lparr>dt_now := u\<rparr>) = all_known s"
  "all_known (s\<lparr>dt_error := e\<rparr>) = all_known s" "all_known (s\<lparr>dt_ai := ai\<rparr>) = all_known s" "all_known (s\<lparr>dt_targets := a\<rparr>) = all_known s"
  "some_down (s\<lparr>dt_combat := b\<rparr>) = some_down s" "some_down (s\<lparr>dt_recoveryAt := t\<rparr>) = some_down s" "some_down (s\<lparr>dt_wiped := b\<rparr>) = some_down s" "some_down (s\<lparr>dt_now := u\<rparr>) = some_down s"
  "some_down (s\<lparr>dt_error := e\<rparr>) = some_down s" "some_down (s\<lparr>dt_ai := ai\<rparr>) = some_down s" "some_down (s\<lparr>dt_targets := a\<rparr>) = some_down s"
  "standing_ids (s\<lparr>dt_combat := b\<rparr>) = standing_ids s" "standing_ids (s\<lparr>dt_recoveryAt := t\<rparr>) = standing_ids s" "standing_ids (s\<lparr>dt_wiped := b\<rparr>) = standing_ids s" "standing_ids (s\<lparr>dt_now := u\<rparr>) = standing_ids s"
  "standing_ids (s\<lparr>dt_error := e\<rparr>) = standing_ids s" "standing_ids (s\<lparr>dt_ai := ai\<rparr>) = standing_ids s" "standing_ids (s\<lparr>dt_targets := a\<rparr>) = standing_ids s"
  by (simp_all add: all_known_def some_down_def standing_ids_def)

lemma reconsider_keeps [simp]: "dt_party (fst (reconsider E s)) = dt_party s" "respawns c (snd (reconsider E s)) = []"
  "dt_wiped s \<Longrightarrow> reconsider E s = (s, [])"
  by (auto simp: reconsider_def Let_def)

lemma reconsider_timer: "dt_wiped s \<longrightarrow> dt_recoveryAt s = None \<Longrightarrow> timer_ok (fst (reconsider E s))"
  by (auto simp: reconsider_def Let_def timer_ok_def split: option.splits)

lemma reconsider_wipe:
  "Wipe \<in> set (snd (reconsider E s)) \<longleftrightarrow> de_PartyWipe E \<and> \<not> dt_wiped s \<and> dt_wiped (fst (reconsider E s))"
  "dt_wiped (fst (reconsider E s)) \<longleftrightarrow> dt_wiped s \<or> all_known s \<and> some_down s \<and> standing_ids s = {}"
  by (auto simp: reconsider_def Let_def)

lemma respawning_again: "fa_Respawning x \<Longrightarrow> x\<lparr>fa_Respawning := True\<rparr> = x"
  by (cases x) simp

lemma respawn_each_party:
  "map fst (fst (respawn_each cosf sinf a n xs)) = map fst xs"
  "map_of (fst (respawn_each cosf sinf a n xs)) c =
     map_option (\<lambda>x. if pdp_Down (fa_Body x) then x\<lparr>fa_Respawning := True\<rparr> else x) (map_of xs c)"
  by (induction cosf sinf a n xs rule: respawn_each.induct) (auto simp: Let_def case_prod_unfold respawning_again)

lemma respawn_each_other: "c \<notin> fst ` set xs \<Longrightarrow> respawns c (snd (respawn_each cosf sinf a n xs)) = []"
  by (induction cosf sinf a n xs rule: respawn_each.induct) (auto simp: Let_def case_prod_unfold)

lemma respawn_each_told:
  assumes "distinct (map fst xs)" "map_of xs c = Some x"
  shows "\<exists>k. respawns c (snd (respawn_each cosf sinf a n xs)) =
    (if pdp_Down (fa_Body x) \<and> \<not> fa_Respawning x then [respawn_at cosf sinf a k (fa_Body x)] else [])"
  using assms
  by (induction cosf sinf a n xs rule: respawn_each.induct)
    (auto simp: Let_def case_prod_unfold respawn_each_other split: if_splits)

lemma wiped_no_timer: "deaths_ok s \<Longrightarrow> dt_wiped s \<longrightarrow> dt_recoveryAt s = None"
  by (auto simp: deaths_ok_def timer_ok_def)

lemma fallen_okD: "deaths_ok s \<Longrightarrow> map_of (dt_party s) c = Some x \<Longrightarrow> fallen_ok x"
  by (auto simp: deaths_ok_def list_all_iff dest: map_of_SomeD)

lemma ok_reconsider:
  assumes "ordered (dt_party s)" "\<And>c x. map_of (dt_party s) c = Some x \<Longrightarrow> fallen_ok x" "dt_wiped s \<longrightarrow> dt_recoveryAt s = None"
  shows "deaths_ok (fst (reconsider E s))"
proof -
  have "distinct (map fst (dt_party s))"
    using assms(1) by (simp add: ordered_def strict_sorted_iff)
  then have "fallen_ok x" if "(c, x) \<in> set (dt_party s)" for c x
    using assms(2) that by simp
  then show ?thesis
    using assms(1) reconsider_timer [OF assms(3)] by (auto simp: deaths_ok_def list_all_iff)
qed

text \<open>
  What an event may do to a player. It is in from its entering, standing and not known, until it departs. Its generation never
  falls; down only by its own game's word, up only by its own game's word once the host told it to respawn from this fall; it is
  told so when the timer runs out, and not again until its own game says it rose, or fell anew. Its own game's word of a new fall,
  or of rising from this one after it was told, is taken.
\<close>

definition word_taken :: "death_env \<Rightarrow> deaths \<Rightarrow> player_death_request \<Rightarrow> conn \<Rightarrow> fallen \<Rightarrow> bool" where
  "word_taken E s q c x \<longleftrightarrow> \<not> dt_wiped s \<and> pdr_SessionId q = player_character_of c (de_characters E) \<and>
     (if pdr_Down q then pdp_Generation (fa_Body x) < pdr_Generation q
      else pdp_Down (fa_Body x) \<and> fa_Respawning x \<and> pdr_Generation q = pdp_Generation (fa_Body x))"

definition fallen_moves :: "death_env \<Rightarrow> deaths \<Rightarrow> death_event \<Rightarrow> conn \<Rightarrow> fallen \<Rightarrow> fallen \<Rightarrow> player_respawn list \<Rightarrow> bool" where
  "fallen_moves E s e c x x' told \<longleftrightarrow>
     (let b = fa_Body x; b' = fa_Body x'
      in pdp_Generation b \<le> pdp_Generation b' \<and>
         (pdp_Down b' \<and> \<not> pdp_Down b \<longrightarrow> (\<exists>q. e = Tells_Death q c \<and> pdr_Down q \<and> pdp_Generation b' = pdr_Generation q)) \<and>
         (pdp_Down b \<and> \<not> pdp_Down b' \<longrightarrow>
            (\<exists>q. e = Tells_Death q c \<and> \<not> pdr_Down q \<and> pdr_Generation q = pdp_Generation b \<and> fa_Respawning x)) \<and>
         (if fa_Respawning x' \<and> \<not> fa_Respawning x
          then pdp_Down b \<and> dt_recoveryAt s \<noteq> None \<and> (\<exists>d. e = Ticks d) \<and>
            (\<exists>r. told = [r] \<and> npr_Generation r = pdp_Generation b \<and> npr_SessionId r = pdp_SessionId b)
          else told = []) \<and>
         (fa_Respawning x \<and> \<not> fa_Respawning x' \<longrightarrow>
            (\<exists>q. e = Tells_Death q c \<and> (if pdr_Down q then pdp_Generation b < pdr_Generation q else pdr_Generation q = pdp_Generation b))) \<and>
         (\<forall>q. e = Tells_Death q c \<and> word_taken E s q c x \<longrightarrow>
            b' = \<lparr>pdp_SessionId = pdr_SessionId q, pdp_Generation = pdr_Generation q, pdp_Down = pdr_Down q\<rparr> \<and>
            fa_Known x' \<and> \<not> fa_Respawning x'))"

definition fall_step :: "death_env \<Rightarrow> deaths \<Rightarrow> deaths \<Rightarrow> death_event \<Rightarrow> conn \<Rightarrow> death_out list \<Rightarrow> bool" where
  "fall_step E s s' e c out \<longleftrightarrow>
     (case map_of (dt_party s) c of
        None \<Rightarrow> respawns c out = [] \<and> map_of (dt_party s') c =
          (case e of Enters d i \<Rightarrow> if d = c then Some (new_fallen\<lparr>fa_Body := (fa_Body new_fallen)\<lparr>pdp_SessionId := i\<rparr>\<rparr>) else None
           | _ \<Rightarrow> None)
      | Some x \<Rightarrow>
          if e = Departs c then respawns c out = [] \<and> map_of (dt_party s') c = None
          else \<exists>x'. map_of (dt_party s') c = Some x' \<and> fallen_moves E s e c x x' (respawns c out))"

lemma fall_step_same:
  assumes "dt_party s' = dt_party s" "respawns c out = []" "\<And>i. e \<noteq> Enters c i" "e \<noteq> Departs c"
    "\<And>q x. e = Tells_Death q c \<Longrightarrow> map_of (dt_party s) c = Some x \<Longrightarrow> \<not> word_taken E s q c x"
  shows "fall_step E s s' e c out"
  using assms
  by (auto simp: fall_step_def fallen_moves_def Let_def simp del: map_of_eq_Some_iff split: option.split death_event.split)

lemma death_entered_ok:
  assumes "deaths_ok s"
  shows "deaths_ok (fst (death_entered E d i s)) \<and>
    fall_step E s (fst (death_entered E d i s)) (Enters d i) c (snd (death_entered E d i s))"
proof -
  have o: "ordered (dt_party s)"
    using assms by (simp add: deaths_ok_def)
  define x0 where "x0 = (case map_of (dt_party s) d of Some x \<Rightarrow> x | None \<Rightarrow> new_fallen)"
  define s1 where "s1 = s\<lparr>dt_party := map_put d (x0\<lparr>fa_Body := (fa_Body x0)\<lparr>pdp_SessionId := i\<rparr>\<rparr>) (dt_party s)\<rparr>"
  have step: "death_entered E d i s = (fst (reconsider E s1), snd (reconsider E s1) @ death_broadcast E (fst (reconsider E s1)))"
    by (simp add: death_entered_def s1_def x0_def Let_def case_prod_unfold)
  have "fallen_ok x0"
    using fallen_okD [OF assms, of d] by (auto simp: x0_def new_fallen_def fallen_ok_def split: option.split)
  then have "deaths_ok (fst (reconsider E s1))"
    using o assms by (intro ok_reconsider) (auto simp: s1_def ordered_put map_of_put wiped_no_timer fallen_ok_def split: if_splits dest: fallen_okD)
  then show ?thesis
    by (auto simp: step fall_step_def fallen_moves_def s1_def map_of_put [OF o] x0_def Let_def simp del: map_of_eq_Some_iff split: option.split)
qed

lemma death_left_ok:
  assumes "deaths_ok s"
  shows "deaths_ok (fst (death_left E d s)) \<and> fall_step E s (fst (death_left E d s)) (Departs d) c (snd (death_left E d s))"
proof -
  have o: "ordered (dt_party s)"
    using assms by (simp add: deaths_ok_def)
  define s1 where "s1 = (case map_of (dt_party s) d of
     Some x \<Rightarrow> s\<lparr>dt_ai := map_erase (pdp_SessionId (fa_Body x)) (dt_ai s), dt_party := map_erase d (dt_party s)\<rparr> | None \<Rightarrow> s)"
  have step: "death_left E d s = (fst (reconsider E s1), snd (reconsider E s1) @ death_broadcast E (fst (reconsider E s1)))"
    by (simp add: death_left_def s1_def Let_def case_prod_unfold)
  have party: "ordered (dt_party s1)" "map_of (dt_party s1) = (map_of (dt_party s))(d := None)"
    using o by (auto simp: s1_def ordered_erase map_of_erase split: option.split)
  have "dt_wiped s1 \<longrightarrow> dt_recoveryAt s1 = None"
    using assms by (auto simp: s1_def wiped_no_timer split: option.split)
  then have "deaths_ok (fst (reconsider E s1))"
    using party assms by (intro ok_reconsider) (auto split: if_splits dest: fallen_okD)
  then show ?thesis
    by (auto simp: step fall_step_def fallen_moves_def party Let_def simp del: map_of_eq_Some_iff split: option.split)
qed

lemma death_ai_ok:
  assumes "deaths_ok s"
  shows "deaths_ok (fst (initial_ai E i ai s)) \<and> fall_step E s (fst (initial_ai E i ai s)) (Arrives_With i ai) c (snd (initial_ai E i ai s))"
    "deaths_ok (fst (on_ai_state E q d s)) \<and> fall_step E s (fst (on_ai_state E q d s)) (Tells_Ai q d) c (snd (on_ai_state E q d s))"
proof -
  have same: "deaths_ok (fst (reconsider E s1)) \<and> fall_step E s (fst (reconsider E s1)) e c (snd (reconsider E s1))"
    if "dt_party s1 = dt_party s" "dt_wiped s1 = dt_wiped s" "dt_recoveryAt s1 = dt_recoveryAt s"
      "e = Arrives_With i ai \<or> e = Tells_Ai q d" for s1 e
  proof
    show "deaths_ok (fst (reconsider E s1))"
      using assms that by (intro ok_reconsider) (auto simp: deaths_ok_def wiped_no_timer [OF assms] dest: fallen_okD [OF assms])
    show "fall_step E s (fst (reconsider E s1)) e c (snd (reconsider E s1))"
      using that(4) by (intro fall_step_same) (auto simp: that(1))
  qed
  show "deaths_ok (fst (initial_ai E i ai s)) \<and> fall_step E s (fst (initial_ai E i ai s)) (Arrives_With i ai) c (snd (initial_ai E i ai s))"
    unfolding initial_ai_def by (rule same) simp_all
  show "deaths_ok (fst (on_ai_state E q d s)) \<and> fall_step E s (fst (on_ai_state E q d s)) (Tells_Ai q d) c (snd (on_ai_state E q d s))"
  proof (cases "owner_of (ais_SessionId q) (de_characters E) = d")
    case True
    then show ?thesis
      unfolding on_ai_state_def Let_def by (simp only: not_True_eq_False simp_thms if_False) (rule same; simp)
  next
    case False
    then show ?thesis
      using assms by (auto simp: on_ai_state_def Let_def intro!: fall_step_same)
  qed
qed

lemma on_death_cases:
  obtains (ignored) "on_death E q d s = (s, [])" "\<And>x. map_of (dt_party s) d = Some x \<Longrightarrow> \<not> word_taken E s q d x"
  | (taken) x told s1 where "map_of (dt_party s) d = Some x" "\<not> dt_wiped s"
      "pdp_Generation (fa_Body x) \<le> pdr_Generation q"
      "pdr_Down q \<longrightarrow> pdr_Generation q \<noteq> 0 \<and> (fa_Known x \<longrightarrow> pdr_Generation q \<noteq> pdp_Generation (fa_Body x))"
      "\<not> pdr_Down q \<and> pdp_Down (fa_Body x) \<longrightarrow> fa_Respawning x \<and> pdr_Generation q = pdp_Generation (fa_Body x)"
      "s1 = s\<lparr>dt_party := map_put d \<lparr>fa_Body = \<lparr>pdp_SessionId = pdr_SessionId q, pdp_Generation = pdr_Generation q, pdp_Down = pdr_Down q\<rparr>,
         fa_Known = True, fa_Respawning = False\<rparr> (dt_party s)\<rparr>"
      "on_death E q d s = (fst (reconsider E s1), told @ snd (reconsider E s1) @ death_broadcast E (fst (reconsider E s1)))"
      "\<And>c. respawns c told = []" "Wipe \<notin> set told"
proof (cases "map_of (dt_party s) d")
  case None
  then show thesis
    by (intro ignored) (simp_all add: on_death_def)
next
  case (Some x)
  let ?b = "fa_Body x"
  let ?late = "dt_wiped s \<or> pdr_SessionId q \<noteq> player_character_of d (de_characters E) \<or> pdr_Generation q < pdp_Generation ?b \<or>
     pdr_Down q \<and> (pdr_Generation q = 0 \<or> pdr_Generation q = pdp_Generation ?b \<and> fa_Known x) \<or>
     \<not> pdr_Down q \<and> pdp_Down ?b \<and> (\<not> fa_Respawning x \<or> pdr_Generation q \<noteq> pdp_Generation ?b)"
  show thesis
  proof (cases ?late)
    case True
    then show thesis
      using Some by (intro ignored) (auto simp: on_death_def word_taken_def Let_def)
  next
    case False
    then show thesis
      using Some by (intro taken [OF Some _ _ _ _ refl, of "if pdr_Down q then perished_notice E q d else []"])
        (auto simp: on_death_def Let_def case_prod_unfold perished_notice_def told_all_quiet)
  qed
qed

lemma on_death_ok:
  assumes "deaths_ok s"
  shows "deaths_ok (fst (on_death E q d s)) \<and> fall_step E s (fst (on_death E q d s)) (Tells_Death q d) c (snd (on_death E q d s))"
proof (cases rule: on_death_cases [of E q d s])
  case ignored
  then show ?thesis
    using assms by (auto intro!: fall_step_same)
next
  case (taken x told s1)
  have o: "ordered (dt_party s)"
    using assms by (simp add: deaths_ok_def)
  have "fallen_ok \<lparr>fa_Body = \<lparr>pdp_SessionId = pdr_SessionId q, pdp_Generation = pdr_Generation q, pdp_Down = pdr_Down q\<rparr>,
     fa_Known = True, fa_Respawning = False\<rparr>"
    using taken by (simp add: fallen_ok_def)
  then have "deaths_ok (fst (reconsider E s1))"
    using o assms taken(2) unfolding taken(6) by (intro ok_reconsider) (auto simp: ordered_put map_of_put split: if_splits dest: fallen_okD)
  then show ?thesis
    using taken(1-5) fallen_okD [OF assms taken(1)]
    by (auto simp: taken(7,8) fall_step_def fallen_moves_def fallen_ok_def taken(6) map_of_put [OF o] Let_def
        simp del: map_of_eq_Some_iff split: option.split)
qed

text \<open>An update waits, starts over or has the fallen respawn.\<close>

lemma death_update_cases:
  fixes cosf sinf E delta s
  defines "s1 \<equiv> s\<lparr>dt_now := f64_add (dt_now s) (f64_max 0 delta)\<rparr>"
  obtains (waits) "death_update cosf sinf E delta s = (s1, [])"
  | (again) "dt_recoveryAt s \<noteq> None" "death_update cosf sinf E delta s = reconsider E (s1\<lparr>dt_recoveryAt := None\<rparr>)"
  | (respawn) a where "dt_recoveryAt s \<noteq> None" "death_update cosf sinf E delta s =
      (s1\<lparr>dt_recoveryAt := None, dt_party := fst (respawn_each cosf sinf a 0 (dt_party s))\<rparr>, snd (respawn_each cosf sinf a 0 (dt_party s)))"
proof (cases "\<exists>at. dt_recoveryAt s = Some at \<and> f64_less_eq at (dt_now s1)")
  case False
  then show thesis
    by (intro waits) (auto simp: death_update_def s1_def Let_def split: option.splits)
next
  case True
  show thesis
  proof (cases "find_anchor E (dt_party s) None")
    case None
    then show thesis
      using True by (intro again) (auto simp: death_update_def respawn_all_def s1_def)
  next
    case (Some a)
    then show thesis
      using True by (intro respawn [of a]) (auto simp: death_update_def respawn_all_def s1_def Let_def case_prod_unfold)
  qed
qed

lemma death_update_ok:
  assumes "deaths_ok s"
  shows "deaths_ok (fst (death_update cosf sinf E delta s)) \<and>
    fall_step E s (fst (death_update cosf sinf E delta s)) (Ticks delta) c (snd (death_update cosf sinf E delta s))"
proof (cases rule: death_update_cases [where cosf = cosf and sinf = sinf and E = E and delta = delta and s = s])
  case waits
  then show ?thesis
    using assms by (auto simp: deaths_ok_def timer_ok_def intro!: fall_step_same)
next
  case again
  let ?s1 = "s\<lparr>dt_now := f64_add (dt_now s) (f64_max 0 delta), dt_recoveryAt := None\<rparr>"
  have "deaths_ok (fst (reconsider E ?s1))"
    using assms by (intro ok_reconsider) (auto simp: deaths_ok_def dest: fallen_okD [OF assms])
  then show ?thesis
    using again by (auto intro!: fall_step_same)
next
  case (respawn a)
  let ?r = "respawn_each cosf sinf a 0 (dt_party s)"
  have dist: "distinct (map fst (dt_party s))" "ordered (dt_party s)"
    using assms by (auto simp: deaths_ok_def ordered_def strict_sorted_iff)
  have "fallen_ok x" if "(d, x) \<in> set (fst ?r)" for d x
  proof -
    have "map_of (fst ?r) d = Some x"
      using that dist by (simp add: respawn_each_party(1))
    then show ?thesis
      using fallen_okD [OF assms, of d] by (auto simp: respawn_each_party(2) fallen_ok_def split: if_splits)
  qed
  then have "list_all (\<lambda>(_, x). fallen_ok x) (fst ?r)"
    by (auto simp: list_all_iff)
  then have "deaths_ok (fst (death_update cosf sinf E delta s))"
    using dist(2) by (simp add: respawn(2) deaths_ok_def timer_ok_def ordered_def respawn_each_party(1))
  moreover have "fall_step E s (fst (death_update cosf sinf E delta s)) (Ticks delta) c (snd (death_update cosf sinf E delta s))"
  proof (cases "map_of (dt_party s) c")
    case (Some x)
    obtain k where "respawns c (snd ?r) = (if pdp_Down (fa_Body x) \<and> \<not> fa_Respawning x then [respawn_at cosf sinf a k (fa_Body x)] else [])"
      using respawn_each_told [OF dist(1) Some] by blast
    note told = this
    have after: "map_of (dt_party (fst (death_update cosf sinf E delta s))) c =
        Some (if pdp_Down (fa_Body x) then x\<lparr>fa_Respawning := True\<rparr> else x)"
      by (simp add: respawn(2) respawn_each_party(2) Some)
    have "snd (death_update cosf sinf E delta s) = snd ?r"
      by (simp add: respawn(2))
    then show ?thesis
      using fallen_okD [OF assms Some] respawn(1) told
      by (cases "pdp_Down (fa_Body x)"; cases "fa_Respawning x") (simp_all add: fall_step_def fallen_moves_def Some after Let_def respawn_at_def fallen_ok_def case_prod_unfold)
  next
    case None
    then have "respawns c (snd ?r) = []"
      by (intro respawn_each_other) (simp add: map_of_eq_None_iff)
    with None show ?thesis
      by (simp add: fall_step_def respawn(2) respawn_each_party(2))
  qed
  ultimately show ?thesis ..
qed

lemma death_step_ok:
  assumes "deaths_ok s"
  shows "deaths_ok (fst (death_step cosf sinf (E, e) s)) \<and> fall_step E s (fst (death_step cosf sinf (E, e) s)) e c (snd (death_step cosf sinf (E, e) s))"
proof (cases e)
  case (Reload_Fails err)
  then show ?thesis
    using assms by (auto simp: fail_reload_def Let_def deaths_ok_def timer_ok_def intro!: fall_step_same)
qed (simp_all add: assms death_entered_ok death_left_ok death_ai_ok on_death_ok death_update_ok)

lemma deaths_reachable: "deaths_ok (fst (run (death_step cosf sinf) es new_deaths))"
proof (induction es rule: rev_induct)
  case (snoc x es)
  then show ?case
    using death_step_ok [of _ cosf sinf "fst x" "snd x"] by (simp add: run_snoc)
qed (simp add: deaths_ok_def timer_ok_def new_deaths_def ordered_def)















section \<open>The recovery\<close>

definition place_there :: "death_env \<Rightarrow> u32 \<Rightarrow> party_travel option" where
  "place_there E i = character_place (de_game E) (de_players E) i (de_characters E)"

text \<open>The session ids of the players that stand.\<close>

definition stands :: "(conn \<times> fallen) list \<Rightarrow> u32 set" where
  "stands xs = {pdp_SessionId (fa_Body x) | c x. (c, x) \<in> set xs \<and> \<not> pdp_Down (fa_Body x)}"

lemma stands_Cons: "stands ((c, x) # xs) = (if pdp_Down (fa_Body x) then stands xs else insert (pdp_SessionId (fa_Body x)) (stands xs))"
  by (auto simp: stands_def)

lemma standing_ids_stands: "standing_ids s = stands (dt_party s)"
  by (force simp: standing_ids_def stands_def)

definition best_anchor :: "death_env \<Rightarrow> u32 set \<Rightarrow> (u32 \<times> party_travel) option \<Rightarrow> (u32 \<times> party_travel) option \<Rightarrow> bool" where
  "best_anchor E ups best r \<longleftrightarrow>
     (case r of
        None \<Rightarrow> best = None \<and> (\<forall>j \<in> ups. place_there E j = None)
      | Some (i, t) \<Rightarrow> (best = Some (i, t) \<or> i \<in> ups \<and> place_there E i = Some t) \<and>
          (\<forall>j \<in> ups. place_there E j \<noteq> None \<longrightarrow> i \<le> j) \<and> (\<forall>j t. best = Some (j, t) \<longrightarrow> i \<le> j))"

lemma find_anchor_lowest:
  "list_all (\<lambda>(_, x). fa_Known x) xs \<Longrightarrow> 0 \<notin> stands xs \<Longrightarrow> (\<And>j t. best = Some (j, t) \<Longrightarrow> j \<noteq> 0) \<Longrightarrow>
   best_anchor E (stands xs) best (find_anchor E xs best)"
proof (induction xs arbitrary: best)
  case Nil
  then show ?case
    by (auto simp: best_anchor_def stands_def split: option.split)
next
  case (Cons a xs)
  obtain c x where a: "a = (c, x)" by (cases a)
  let ?i = "pdp_SessionId (fa_Body x)"
  show ?case
  proof (cases "\<not> pdp_Down (fa_Body x) \<and> (case best of None \<Rightarrow> True | Some (j, _) \<Rightarrow> ?i < j) \<and> place_there E ?i \<noteq> None")
    case True
    then obtain t where t: "place_there E ?i = Some t"
      by auto
    have "find_anchor E (a # xs) best = find_anchor E xs (Some (?i, t))"
      using True Cons.prems t by (auto simp: a place_there_def Let_def split: option.splits)
    moreover have "best_anchor E (stands xs) (Some (?i, t)) (find_anchor E xs (Some (?i, t)))"
      using Cons.prems True by (intro Cons.IH) (auto simp: a stands_Cons)
    ultimately show ?thesis
      using True t by (auto simp: best_anchor_def a stands_Cons split: option.splits)
  next
    case False
    have "find_anchor E (a # xs) best = find_anchor E xs best"
      using False Cons.prems by (auto simp: a place_there_def Let_def split: option.splits)
    moreover have "best_anchor E (stands xs) best (find_anchor E xs best)"
      using Cons.prems by (intro Cons.IH) (auto simp: a stands_Cons split: if_splits)
    ultimately show ?thesis
      using False by (auto simp: best_anchor_def a stands_Cons not_less split: option.splits)
  qed
qed

text \<open>
  C26: while the recovery timer runs someone stands. Once it has run out, the update has every player
  down (and not told before) respawn, each told once, in its fall's generation, beside the standing player with the lowest
  session id that has a place; while none has, nobody is told. Before, an update only moves the clock.
\<close>

theorem recovery_beside_standing:
  assumes "s = fst (run (death_step cosf sinf) es new_deaths)" "dt_recoveryAt s = Some at" "0 \<notin> standing_ids s"
    and "now = f64_add (dt_now s) (f64_max 0 delta)" "(s', out) = death_update cosf sinf E delta s"
  shows "standing_ids s \<noteq> {} \<and>
    (if \<not> f64_less_eq at now then s' = s\<lparr>dt_now := now\<rparr> \<and> out = []
     else if \<forall>i \<in> standing_ids s. place_there E i = None then \<forall>c. respawns c out = []
     else \<exists>i t. i \<in> standing_ids s \<and> place_there E i = Some t \<and> (\<forall>j \<in> standing_ids s. place_there E j \<noteq> None \<longrightarrow> i \<le> j) \<and>
       (\<forall>c x. map_of (dt_party s) c = Some x \<and> pdp_Down (fa_Body x) \<longrightarrow>
          map_of (dt_party s') c = Some (x\<lparr>fa_Respawning := True\<rparr>) \<and>
          (\<exists>k. respawns c out = (if fa_Respawning x then [] else [respawn_at cosf sinf (i, t) k (fa_Body x)]))))"
proof -
  have ok: "deaths_ok s"
    by (simp add: assms(1) deaths_reachable)
  then have timer: "all_known s" "standing_ids s \<noteq> {}" "distinct (map fst (dt_party s))"
    using assms(2) by (auto simp: deaths_ok_def timer_ok_def ordered_def strict_sorted_iff)
  let ?s1 = "s\<lparr>dt_now := now, dt_recoveryAt := None\<rparr>"
  show ?thesis
  proof (cases "f64_less_eq at now")
    case late: True
    have best: "best_anchor E (standing_ids s) None (find_anchor E (dt_party s) None)"
      using timer assms(3) by (auto simp: standing_ids_stands all_known_def intro!: find_anchor_lowest)
    show ?thesis
    proof (cases "find_anchor E (dt_party s) None")
      case None
      then have "(s', out) = reconsider E ?s1" and none: "\<forall>i \<in> standing_ids s. place_there E i = None"
        using late assms best by (auto simp: death_update_def respawn_all_def Let_def best_anchor_def)
      then have "respawns c out = []" for c
        using reconsider_keeps(2) [of c E ?s1] by (cases "reconsider E ?s1") simp
      then show ?thesis
        using timer(2) late none by simp
    next
      case (Some a)
      obtain i t where a: "a = (i, t)" by (cases a)
      have s': "s' = ?s1\<lparr>dt_party := fst (respawn_each cosf sinf a 0 (dt_party s))\<rparr>" "out = snd (respawn_each cosf sinf a 0 (dt_party s))"
        using late assms Some by (auto simp: death_update_def respawn_all_def Let_def case_prod_unfold)
      have least: "i \<in> standing_ids s" "place_there E i = Some t" "\<forall>j \<in> standing_ids s. place_there E j \<noteq> None \<longrightarrow> i \<le> j"
        using best by (simp_all add: best_anchor_def Some a)
      have told: "map_of (dt_party s') c = Some (x\<lparr>fa_Respawning := True\<rparr>) \<and>
          (\<exists>k. respawns c out = (if fa_Respawning x then [] else [respawn_at cosf sinf (i, t) k (fa_Body x)]))"
        if "map_of (dt_party s) c = Some x \<and> pdp_Down (fa_Body x)" for c x
        using respawn_each_told [OF timer(3), of c x cosf sinf a 0] that by (auto simp: s' respawn_each_party(2) a split: if_splits)
      have "\<not> (\<forall>i \<in> standing_ids s. place_there E i = None)"
        using least by auto
      moreover have "\<exists>i t. i \<in> standing_ids s \<and> place_there E i = Some t \<and> (\<forall>j \<in> standing_ids s. place_there E j \<noteq> None \<longrightarrow> i \<le> j) \<and>
         (\<forall>c x. map_of (dt_party s) c = Some x \<and> pdp_Down (fa_Body x) \<longrightarrow>
            map_of (dt_party s') c = Some (x\<lparr>fa_Respawning := True\<rparr>) \<and>
            (\<exists>k. respawns c out = (if fa_Respawning x then [] else [respawn_at cosf sinf (i, t) k (fa_Body x)])))"
        by (intro exI [of _ i] exI [of _ t] conjI allI impI least) (use told in auto)
      ultimately show ?thesis
        using timer(2) late by (simp only: simp_thms if_False)
    qed
  qed (use assms timer in \<open>simp add: death_update_def Let_def\<close>)
qed

text \<open>
  A host (5) and a guest (7), whose character (2) falls while the host's (1) stands; the clock then runs as far as it can.
\<close>

definition example_env :: death_env where
  "example_env =
     (let one = \<lparr>pl_Id = 1, pl_Name = ''Host'', pl_Level = 1, pl_IsHost = True, pl_Key = []\<rparr>;
          two = \<lparr>pl_Id = 2, pl_Name = ''Lydia'', pl_Level = 1, pl_IsHost = False, pl_Key = []\<rparr>
      in \<lparr>de_players = \<lparr>hp_players = [(5, one), (7, two)], hp_lastId = 2\<rparr>,
          de_characters = no_characters\<lparr>hcs_characters :=
            [(1, \<lparr>hc_Owner = 5, hc_PlayerRecord = Some (from_announcement new_announce 1 1)\<rparr>),
             (2, \<lparr>hc_Owner = 7, hc_PlayerRecord = Some (from_announcement new_announce 2 2)\<rparr>)],
            hcs_places := [(5, \<lparr>place_WorldSpaceId = no_id, place_CellId = no_id\<rparr>)]\<rparr>,
          de_game = \<lparr>sg_OwnSpawns = (\<lambda>_. [from_announcement new_announce 1 1]), sg_ReadCopy = (\<lambda>_ x. x)\<rparr>, de_PartyWipe = True\<rparr>)"

definition example_fall :: "(death_env \<times> death_event) list" where
  "example_fall = [(example_env, Enters 5 1), (example_env, Enters 7 2), (example_env, Ticks (f64_inf False)),
     (example_env, Tells_Death \<lparr>pdr_SessionId = 1, pdr_Generation = 0, pdr_Down = False, pdr_KillerId = 0\<rparr> 5),
     (example_env, Tells_Death \<lparr>pdr_SessionId = 2, pdr_Generation = 1, pdr_Down = True, pdr_KillerId = 0\<rparr> 7)]"

definition example_fallen :: deaths where
  "example_fallen = \<lparr>dt_party = [(5, \<lparr>fa_Body = \<lparr>pdp_SessionId = 1, pdp_Generation = 0, pdp_Down = False\<rparr>, fa_Known = True, fa_Respawning = False\<rparr>),
      (7, \<lparr>fa_Body = \<lparr>pdp_SessionId = 2, pdp_Generation = 1, pdp_Down = True\<rparr>, fa_Known = True, fa_Respawning = False\<rparr>)],
     dt_ai = [], dt_targets = [], dt_now = f64_inf False, dt_recoveryAt = Some (f64_inf False), dt_combat = False, dt_wiped = False, dt_error = []\<rparr>"

lemma infinity: "f64_add 0 (f64_max 0 (f64_inf False)) = f64_inf False" "f64_add (f64_inf False) recovery_seconds = f64_inf False"
    "f64_less_eq (f64_inf False) (f64_add (f64_inf False) (f64_max 0 0))"
proof -
  have inf: "f64_is_inf (f64_inf False)" "\<not> f64_is_nan (f64_inf False)" "f64_key (f64_inf False) > 0"
    by (simp_all add: f64_inf_def f64_make_def f64_is_inf_def f64_is_nan_def f64_exponent_def f64_fraction_def f64_key_def f64_negative_def)
  have zero: "\<not> f64_is_inf 0" "\<not> f64_is_nan 0" "f64_key 0 = 0"
    by (simp_all add: f64_is_inf_def f64_is_nan_def f64_exponent_def f64_key_def)
  have ten: "recovery_seconds = 0x4024000000000000"
    by (simp add: recovery_seconds_def f64_of_int_def f64_round_def f64_make_def half_even_def log2_floor.simps)
  have "\<not> f64_is_inf recovery_seconds" "\<not> f64_is_nan recovery_seconds"
    by (simp_all add: ten f64_is_inf_def f64_is_nan_def f64_exponent_def drop_bit_eq_div)
  then show "f64_add 0 (f64_max 0 (f64_inf False)) = f64_inf False" "f64_add (f64_inf False) recovery_seconds = f64_inf False"
      "f64_less_eq (f64_inf False) (f64_add (f64_inf False) (f64_max 0 0))"
    using inf zero by (simp_all add: f64_add_def f64_max_def f64_less_def f64_less_eq_def)
qed

lemma example_fall_run: "fst (run (death_step cosf sinf) example_fall new_deaths) = example_fallen"
proof -
  have "player_character_of 5 (de_characters example_env) = 1" "player_character_of 7 (de_characters example_env) = 2"
    by (simp_all add: example_env_def Let_def player_character_of_def)
  then show ?thesis
    by (simp add: example_fall_def run_Cons new_deaths_def death_entered_def death_update_def on_death_def reconsider_def Let_def new_fallen_def
      all_known_def some_down_def standing_ids_def standing_player_fights_def infinity example_fallen_def case_prod_unfold)
qed



theorem recovery_beside_standing_witness:
  "\<exists>s' out x r. (s', out) = death_update id id example_env 0 example_fallen \<and>
     map_of (dt_party s') 7 = Some x \<and> fa_Respawning x \<and> respawns 7 out = [r] \<and> npr_AnchorId r = 1"
proof -
  obtain s' out where e: "(s', out) = death_update id id example_env 0 example_fallen"
    by (metis prod.exhaust_sel)
  have parts: "standing_ids example_fallen = {1}" "dt_recoveryAt example_fallen = Some (f64_inf False)"
    "dt_now example_fallen = f64_inf False" "map_of (dt_party example_fallen) 7 = Some \<lparr>fa_Body = \<lparr>pdp_SessionId = 2, pdp_Generation = 1, pdp_Down = True\<rparr>,
      fa_Known = True, fa_Respawning = False\<rparr>"
    by (simp_all add: example_fallen_def standing_ids_def)
  have place: "place_there example_env 1 \<noteq> None"
    by (simp add: place_there_def example_env_def Let_def character_place_def char_find_def build_spawn_def players_host_def from_announcement_def)
  have found: "(\<forall>i \<in> {1}. place_there example_env i = None) = False"
    using place by simp
  have zero_out: "(0 :: u32) \<notin> {1}"
    by simp
  have late: "(\<not> f64_less_eq (f64_inf False) (f64_add (f64_inf False) (f64_max 0 0))) = False"
    using infinity(3) by simp
  obtain i t where i: "i \<in> {1}" and told: "\<forall>c x. map_of (dt_party example_fallen) c = Some x \<and> pdp_Down (fa_Body x) \<longrightarrow>
          map_of (dt_party s') c = Some (x\<lparr>fa_Respawning := True\<rparr>) \<and>
          (\<exists>k. respawns c out = (if fa_Respawning x then [] else [respawn_at id id (i, t) k (fa_Body x)]))"
    using recovery_beside_standing [OF example_fall_run [symmetric] parts(2) _ refl e, unfolded parts(1,3) found late if_False, OF zero_out]
    by (elim conjE exE) (rule that)
  show ?thesis
    using told [rule_format, OF conjI, OF parts(4)] i
    by (intro exI [of _ s'] exI [of _ out]) (auto simp: respawn_at_def Let_def intro: e)
qed

end
