(* ===== verification/Relays.thy ===== *)
theory Relays
  imports Party_Goods Host_Messages Host_Network Deaths
begin

text \<open>
  The front door and the plain relays of \<open>Services/Host/HostAuthority\<close>: which rule a request has, who its
  notification goes to (\<open>Delivery\<close>), and the rules the authority handles itself.
\<close>

section \<open>Factions of many actors\<close>

text \<open>\<open>RequestFactionsChanges\<close> and \<open>NotifyFactionsChanges\<close>: an actor's factions each, by its id.\<close>

type_synonym factions_changes = "(u32 \<times> factions) list"

definition faction_change_serialize :: "u32 \<times> factions \<Rightarrow> (writer, unit) state" where
  "faction_change_serialize x = do { write_u32 (fst x); factions_serialize (snd x) }"

fun read_factions_changes :: "nat \<Rightarrow> factions_changes \<Rightarrow> (reader, factions_error + factions_changes) state" where
  "read_factions_changes 0 m = State_Monad.return (Inr m)"
| "read_factions_changes (Suc n) m = do {
     i \<leftarrow> read_u32;
     or_throw factions_deserialize (\<lambda>f. read_factions_changes n (map_put i f m))
   }"

definition factions_request_serialize :: "factions_changes \<Rightarrow> (writer, unit) state" where
  "factions_request_serialize m = do {
     _ \<leftarrow> write_bits (of_nat (length m) AND 0xFF) 8;
     write_each faction_change_serialize m
   }"

definition factions_request_deserialize :: "(reader, factions_error + factions_changes) state" where
  "factions_request_deserialize = do {
     n \<leftarrow> read_uint 8;
     read_factions_changes (unat n) []
   }"

definition factions_notify_serialize :: "factions_changes \<Rightarrow> (writer, unit) state" where
  "factions_notify_serialize m = do {
     write_varint (of_nat (length m));
     write_each faction_change_serialize m
   }"

definition factions_notify_deserialize :: "(reader, factions_error + factions_changes) state" where
  "factions_notify_deserialize = do {
     n \<leftarrow> read_varint;
     (if 0x400 \<le> n then State_Monad.return (Inr []) else read_factions_changes (unat n) [])
   }"

definition changes_valid :: "factions_changes \<Rightarrow> bool" where
  "changes_valid m \<longleftrightarrow> ordered m \<and> list_all (\<lambda>(_, f). factions_valid f) m"

lemma codes_changes:
  "list_all (\<lambda>(_, f). factions_valid f) xs \<Longrightarrow>
   codes (write_each faction_change_serialize xs) (read_factions_changes (length xs) m) (Inr (fold (\<lambda>(k, v). map_put k v) xs m))"
proof (induction xs arbitrary: m)
  case Nil
  show ?case by (simp add: codes_return)
next
  case (Cons x xs)
  obtain i f where x: "x = (i, f)" by (cases x)
  have "codes (do { write_u32 i; factions_serialize f; write_each faction_change_serialize xs })
      (read_factions_changes (length (x # xs)) m) (Inr (fold (\<lambda>(k, v). map_put k v) (x # xs) m))"
    unfolding read_factions_changes.simps list.size add_Suc_right add_0_right
    using Cons by (auto simp: x intro!: codes_bind [OF codes_u32] codes_or_throw [OF codes_factions])
  moreover have "write_each faction_change_serialize (x # xs) = do { write_u32 i; factions_serialize f; write_each faction_change_serialize xs }"
    by (subst write_each.simps(2), subst faction_change_serialize_def) (simp add: x)
  ultimately show ?case
    by simp
qed

lemma safe_changes [safe_intros]: "safe_reader (read_factions_changes n m)"
  by (induction n arbitrary: m) (auto intro!: safe_intros)

text \<open>Fewer than 256 actors arrive at the host, and fewer than 1024 from it.\<close>

lemma codes_factions_request:
  "changes_valid m \<Longrightarrow> length m < 0x100 \<Longrightarrow> codes (factions_request_serialize m) factions_request_deserialize (Inr m)"
  unfolding factions_request_serialize_def factions_request_deserialize_def changes_valid_def
  using codes_changes [of m "[]"] mask_count [of "length m" 8]
  by (auto simp: fold_put_ordered mask_eq_exp_minus_1 take_bit_of_nat take_bit_nat_eq_self unat_count intro!: codes_bind [OF codes_uint])

lemma codes_factions_notify:
  "changes_valid m \<Longrightarrow> length m < 0x400 \<Longrightarrow> codes (factions_notify_serialize m) factions_notify_deserialize (Inr m)"
  unfolding factions_notify_serialize_def factions_notify_deserialize_def changes_valid_def
  using codes_changes [of m "[]"]
  by (auto simp: fold_put_ordered word_le_nat_alt unat_count intro!: codes_bind [OF codes_varint])

section \<open>Requests and notifications\<close>

text \<open>
  The requests these rules take, and what they send. A relayed request and its notification carry the same payload
  (\<open>Relayed.h\<close>). \<open>N_Goods\<close> is what \<open>HostPurse\<close> and \<open>HostPartyItems\<close> send, and an item change or a
  chat line, as they do.
\<close>

datatype request =
    Q_Ai ai_state | Q_Dialogue dialogue | Q_Subtitle subtitle
  | Q_Equipment equipment_request | Q_Snapshot equipment_snapshot | Q_DrawWeapon draw_weapon
  | Q_Values actor_value_changes | Q_MaxValues actor_max_value_changes | Q_Death death_state_change | Q_Health health_change
  | Q_SpellCast spell_cast | Q_Interrupt interrupt_cast | Q_Projectile projectile_launch
  | Q_AddTarget add_target | Q_RemoveSpell remove_spell | Q_Flash effect_flash | Q_SystemQuests system_quests
  | Q_Waypoint set_waypoint_request | Q_NoWaypoint
  | Q_Inventory inventory_request | Q_Stagger melee_stagger | Q_Activate activate_request | Q_Recipes recipes
  | Q_Lock lock_change | Q_Container container_change | Q_Factions factions_changes
  | Q_Chat chat_request | Q_Bug bug_report | Q_Level level_request | Q_Name player_name

datatype notice =
    N_Ai ai_state | N_Dialogue dialogue | N_Subtitle subtitle
  | N_Equipment equipment_change | N_Snapshot equipment_snapshot | N_DrawWeapon draw_weapon
  | N_Values actor_value_changes | N_MaxValues actor_max_value_changes | N_Death death_state_change | N_Health health_change
  | N_SpellCast spell_cast | N_Interrupt interrupt_cast | N_Projectile projectile_launch
  | N_AddTarget add_target | N_RemoveSpell remove_spell | N_Flash effect_flash | N_SystemQuests system_quests
  | N_Waypoint set_waypoint | N_NoWaypoint
  | N_Goods goods_message | N_Stagger melee_stagger | N_Activate activate | N_Factions factions_changes
  | N_Bug bug_report | N_Level player_level | N_Name player_name | N_ActorName actor_name

text \<open>\<open>ToNotify\<close>, where it changes what it passes on.\<close>

definition inventory_notice :: "inventory_request \<Rightarrow> inventory_change" where
  "inventory_notice q = \<lparr>nic_SessionId = irq_SessionId q, nic_Item = irq_Item q, nic_Drop = False\<rparr>"

definition equipment_notice :: "equipment_request \<Rightarrow> equipment_change" where
  "equipment_notice q = \<lparr>nec_SessionId = eq_SessionId q, nec_ItemId = eq_ItemId q, nec_EquipSlotId = eq_EquipSlotId q,
     nec_Count = eq_Count q, nec_Unequip = eq_Unequip q, nec_IsSpell = eq_IsSpell q, nec_IsShout = eq_IsShout q\<rparr>"

definition activate_notice :: "activate_request \<Rightarrow> activate" where
  "activate_notice q = \<lparr>na_Id = atq_Id q, na_NpcId = atq_NpcId q, na_ActivatorId = atq_ActivatorId q,
     na_PreActivationOpenState = atq_PreActivationOpenState q\<rparr>"

definition waypoint_notice :: "set_waypoint_request \<Rightarrow> set_waypoint" where
  "waypoint_notice q = \<lparr>sw_Position = swq_Position q, sw_WorldSpaceFormID = swq_WorldSpaceFormID q\<rparr>"

section \<open>The relays\<close>

datatype delivery = FromOwner | FromAnyone | To_Owner

text \<open>The rules \<open>Relay\<close> makes: how a request is passed on, the actor that checks, and what is sent.\<close>

fun relay_rule :: "request \<Rightarrow> (delivery \<times> u32 \<times> notice) option" where
  "relay_rule (Q_Ai q) = Some (FromOwner, ais_SessionId q, N_Ai q)"
| "relay_rule (Q_Dialogue q) = Some (FromAnyone, 0, N_Dialogue q)"
| "relay_rule (Q_Subtitle q) = Some (FromAnyone, 0, N_Subtitle q)"
| "relay_rule (Q_Equipment q) = Some (FromAnyone, 0, N_Equipment (equipment_notice q))"
| "relay_rule (Q_Snapshot q) = Some (FromOwner, es_SessionId q, N_Snapshot q)"
| "relay_rule (Q_DrawWeapon q) = Some (FromOwner, dw_Id q, N_DrawWeapon q)"
| "relay_rule (Q_Values q) = Some (FromOwner, avc_Id q, N_Values q)"
| "relay_rule (Q_MaxValues q) = Some (FromOwner, amvc_Id q, N_MaxValues q)"
| "relay_rule (Q_Death q) = Some (FromOwner, dsc_Id q, N_Death q)"
| "relay_rule (Q_Health q) = Some (To_Owner, hc_Id q, N_Health q)"
| "relay_rule (Q_SpellCast q) = Some (FromOwner, sc_CasterId q, N_SpellCast q)"
| "relay_rule (Q_Interrupt q) = Some (FromOwner, ic_CasterId q, N_Interrupt q)"
| "relay_rule (Q_Projectile q) = Some (FromOwner, pl_ShooterID q, N_Projectile q)"
| "relay_rule (Q_AddTarget q) = Some (To_Owner, at_TargetId q, N_AddTarget q)"
| "relay_rule (Q_RemoveSpell q) = Some (FromAnyone, 0, N_RemoveSpell q)"
| "relay_rule (Q_Flash q) = Some (FromOwner, ef_SessionId q, N_Flash q)"
| "relay_rule (Q_SystemQuests q) = Some (FromAnyone, 0, N_SystemQuests q)"
| "relay_rule (Q_Waypoint q) = Some (FromAnyone, 0, N_Waypoint (waypoint_notice q))"
| "relay_rule Q_NoWaypoint = Some (FromAnyone, 0, N_NoWaypoint)"
| "relay_rule _ = None"

definition deliver :: "notice \<Rightarrow> delivery \<Rightarrow> u32 \<Rightarrow> conn \<Rightarrow> host_players \<Rightarrow> characters \<Rightarrow> notice outbox" where
  "deliver n d i sender p cs =
     (case d of
        FromOwner \<Rightarrow> if owner_of i cs = sender then send_to_others n sender p else []
      | FromAnyone \<Rightarrow> send_to_others n sender p
      | To_Owner \<Rightarrow> if owner_of i cs \<noteq> 0 \<and> owner_of i cs \<noteq> sender then [(owner_of i cs, n)] else [])"

section \<open>The authority's own rules\<close>

text \<open>
  What these rules keep and read: the players, their characters, who is down and fights, the connections' names, the
  host's recipe book, if it has one, and its game, of states \<open>'w\<close>. A report's name, the session's tick and a random
  number are given.
\<close>

record 'w relays =
  rl_players :: host_players
  rl_characters :: characters
  rl_deaths :: deaths
  rl_network :: network
  rl_book :: "recipe_book option"
  rl_world :: 'w

record 'w relay_game =
  rg_goods :: "'w goods_game"
  rg_SetLock :: "(game_id \<Rightarrow> bool \<Rightarrow> u8 \<Rightarrow> 'w \<Rightarrow> 'w) option"
  rg_SetItems :: "(object_change \<Rightarrow> 'w \<Rightarrow> 'w) option"
  rg_spawns :: spawn_game
  rg_PartyWipe :: bool
  rg_random :: u32
  rg_report :: string
  rg_tick :: u64

definition on_inventory_changes :: "'w relay_game \<Rightarrow> inventory_request \<Rightarrow> conn \<Rightarrow> 'w relays \<Rightarrow> 'w relays \<times> notice outbox" where
  "on_inventory_changes g q sender s =
     (let p = rl_players s; cs = rl_characters s;
          (purse, w, out) = purse_change (rg_goods g) p cs (rg_random g) q sender (rl_world s);
          (party, w, out) = (if purse then (True, w, out)
            else let (party, w, out') = party_items_change (rg_goods g) p cs q sender w in (party, w, out @ out'));
          relayed = (if \<not> party \<and> irq_UpdateClients q
            then deliver (N_Goods (Item_Changed (inventory_notice q))) FromAnyone 0 sender p cs else [])
      in (s\<lparr>rl_world := w\<rparr>, map (apsnd N_Goods) out @ relayed))"

text \<open>A magnitude that is finite and above zero.\<close>

definition f32_finite_positive :: "float32 \<Rightarrow> bool" where
  "f32_finite_positive x \<longleftrightarrow> f32_exponent x \<noteq> 255 \<and> \<not> f32_negative x \<and> \<not> f32_is_zero x"

definition on_melee_stagger :: "melee_stagger \<Rightarrow> conn \<Rightarrow> 'w relays \<Rightarrow> notice outbox" where
  "on_melee_stagger q sender s =
     (let cs = rl_characters s
      in if owner_of (mst_HitterId q) cs \<noteq> sender \<or> \<not> is_player_character (mst_HitterId q) cs \<or> \<not> f32_finite_positive (mst_Magnitude q) then []
         else deliver (N_Stagger q) To_Owner (mst_HitteeId q) sender (rl_players s) cs)"

definition on_activate :: "activate_request \<Rightarrow> conn \<Rightarrow> 'w relays \<Rightarrow> notice outbox" where
  "on_activate q sender s =
     (let cs = rl_characters s; p = rl_players s; owner = owner_of (atq_NpcId q) cs
      in if atq_NpcId q = 0 then deliver (N_Activate (activate_notice q)) FromAnyone 0 sender p cs
         else if owner_of (atq_ActivatorId q) cs \<noteq> sender \<or> is_player_character (atq_NpcId q) cs then []
         else if owner = players_host p \<and> owner \<noteq> sender then [(owner, N_Activate (activate_notice q))] else [])"

definition on_recipes :: "recipes \<Rightarrow> 'w relays \<Rightarrow> 'w relays" where
  "on_recipes q s = s\<lparr>rl_book := map_option (fold (\<lambda>r b. snd (book_learn r 0 b)) (rcp_Known q)) (rl_book s)\<rparr>"

definition on_lock_change :: "'w relay_game \<Rightarrow> lock_change \<Rightarrow> conn \<Rightarrow> 'w relays \<Rightarrow> 'w relays" where
  "on_lock_change g q sender s =
     (case rg_SetLock g of
        Some set_lock \<Rightarrow>
          if sender \<noteq> players_host (rl_players s)
          then s\<lparr>rl_world := set_lock (lc_Id q) (lc_IsLocked q) (lc_LockLevel q) (rl_world s)\<rparr> else s
      | None \<Rightarrow> s)"

definition on_container_change :: "'w relay_game \<Rightarrow> container_change \<Rightarrow> conn \<Rightarrow> 'w relays \<Rightarrow> 'w relays" where
  "on_container_change g q sender s =
     (case rg_SetItems g of
        Some set_items \<Rightarrow>
          if sender = players_host (rl_players s) then s
          else s\<lparr>rl_world := set_items (new_change\<lparr>oc_Type := kItems, oc_Object := cc_Container q, oc_Item := cc_Item q,
            oc_Value := cc_Count q, oc_Stacks := cc_Stacks q\<rparr>) (rl_world s)\<rparr>
      | None \<Rightarrow> s)"

definition on_factions_changes :: "factions_changes \<Rightarrow> conn \<Rightarrow> 'w relays \<Rightarrow> notice outbox" where
  "on_factions_changes q sender s =
     (let owned = fold (\<lambda>(i, f) m. if owner_of i (rl_characters s) = sender then map_put i f m else m) q []
      in if owned \<noteq> [] then send_to_others (N_Factions owned) sender (rl_players s) else [])"

text \<open>\<open>kPlayerChat\<close> is 1.\<close>

definition on_chat_message :: "chat_request \<Rightarrow> conn \<Rightarrow> 'w relays \<Rightarrow> notice outbox" where
  "on_chat_message q sender s =
     (let n = N_Goods (Chat_Line \<lparr>ch_MessageType = 1, ch_PlayerName = chat_text (player_name_of sender (rl_players s)),
            ch_ChatMessage = chat_text (chq_ChatMessage q)\<rparr>)
      in map (\<lambda>c. (c, n)) (connections (rl_players s)))"

definition on_bug_report :: "'w relay_game \<Rightarrow> bug_report \<Rightarrow> conn \<Rightarrow> 'w relays \<Rightarrow> notice outbox" where
  "on_bug_report g q sender s =
     (let n = N_Bug \<lparr>br_Text = chat_text (br_Text q), br_Id = rg_report g,
            br_By = chat_text (player_name_of sender (rl_players s)), br_SessionTick = rg_tick g\<rparr>
      in map (\<lambda>c. (c, n)) (connections (rl_players s)))"

definition on_player_level :: "level_request \<Rightarrow> conn \<Rightarrow> 'w relays \<Rightarrow> 'w relays \<times> notice outbox" where
  "on_player_level q sender s =
     (if lq_NewLevel q = 0 then (s, [])
      else let p = players_set_level sender (lq_NewLevel q) (rl_players s)
           in (s\<lparr>rl_players := p\<rparr>, send_to_others (N_Level \<lparr>npl_PlayerId = player_id_of sender p, npl_NewLevel = lq_NewLevel q\<rparr>) sender p))"

definition on_player_name :: "player_name \<Rightarrow> conn \<Rightarrow> 'w relays \<Rightarrow> 'w relays \<times> notice outbox" where
  "on_player_name q sender s =
     (let name = chat_text (pn_Name q)
      in if name = [] then (s, [])
         else let p = players_set_name sender name (rl_players s)
              in (s\<lparr>rl_players := p, rl_characters := set_player_name sender name (rl_characters s),
                   rl_network := name_connection sender name (rl_network s)\<rparr>,
                  send_to_others (N_Name \<lparr>pn_PlayerId = player_id_of sender p, pn_Name = name\<rparr>) sender p))"

definition name_actor :: "u32 \<Rightarrow> string \<Rightarrow> 'w relays \<Rightarrow> notice outbox" where
  "name_actor i name s = send_to_others (N_ActorName \<lparr>an_ActorId = i, an_Name = name\<rparr>) (players_host (rl_players s)) (rl_players s)"

section \<open>The front door\<close>

definition own_rule :: "'w relay_game \<Rightarrow> request \<Rightarrow> conn \<Rightarrow> 'w relays \<Rightarrow> 'w relays \<times> notice outbox" where
  "own_rule g q sender s =
     (case q of
        Q_Inventory q \<Rightarrow> on_inventory_changes g q sender s
      | Q_Stagger q \<Rightarrow> (s, on_melee_stagger q sender s)
      | Q_Activate q \<Rightarrow> (s, on_activate q sender s)
      | Q_Recipes q \<Rightarrow> (on_recipes q s, [])
      | Q_Lock q \<Rightarrow> (on_lock_change g q sender s, [])
      | Q_Container q \<Rightarrow> (on_container_change g q sender s, [])
      | Q_Factions q \<Rightarrow> (s, on_factions_changes q sender s)
      | Q_Chat q \<Rightarrow> (s, on_chat_message q sender s)
      | Q_Bug q \<Rightarrow> (s, on_bug_report g q sender s)
      | Q_Level q \<Rightarrow> on_player_level q sender s
      | Q_Name q \<Rightarrow> on_player_name q sender s
      | _ \<Rightarrow> (s, []))"

text \<open>
  The parts that watch a request (\<open>Watch\<close>) are told of it before its rule runs: \<open>HostCharacters\<close> of an actor's values,
  \<open>HostDeath\<close> of its AI state, of which it may tell the players at once. (\<open>HostRecords\<close> watches script calls, which are not
  among these requests: \<open>on_party_call\<close>.)
\<close>

definition relay_env :: "'w relay_game \<Rightarrow> 'w relays \<Rightarrow> death_env" where
  "relay_env g s = \<lparr>de_players = rl_players s, de_characters = rl_characters s, de_game = rg_spawns g, de_PartyWipe = rg_PartyWipe g\<rparr>"

definition watched :: "'w relay_game \<Rightarrow> request \<Rightarrow> conn \<Rightarrow> 'w relays \<Rightarrow> 'w relays \<times> death_out list" where
  "watched g q sender s =
     (case q of
        Q_Values q \<Rightarrow> (s\<lparr>rl_characters := on_values q sender (rl_characters s)\<rparr>, [])
      | Q_MaxValues q \<Rightarrow> (s\<lparr>rl_characters := on_max_values q sender (rl_characters s)\<rparr>, [])
      | Q_Ai q \<Rightarrow> let (d, said) = on_ai_state (relay_env g s) q sender (rl_deaths s) in (s\<lparr>rl_deaths := d\<rparr>, said)
      | _ \<Rightarrow> (s, []))"

text \<open>
  \<open>Handle\<close>, for these requests: none while the party reloads or is wiped out, none from a game that is not a player. What the
  watchers send goes before the rule's.
\<close>

definition handle :: "'w relay_game \<Rightarrow> bool \<Rightarrow> request \<Rightarrow> conn \<Rightarrow> 'w relays \<Rightarrow> bool \<times> 'w relays \<times> death_out list \<times> notice outbox" where
  "handle g reloading q sender s =
     (if reloading \<or> dt_wiped (rl_deaths s) \<or> \<not> is_player sender (rl_players s) then (False, s, [], [])
      else let (s, said) = watched g q sender s
           in case relay_rule q of
               Some (d, i, n) \<Rightarrow> (True, s, said, deliver n d i sender (rl_players s) (rl_characters s))
             | None \<Rightarrow> let (s, out) = own_rule g q sender s in (True, s, said, out))"

section \<open>Who may say what, and to whom\<close>

text \<open>
  Whose word a notification is. Of an actor (or several) its owner's; done to an actor, by another's hit or spell, or by a
  player's character that hits it; a use of an actor by another; a player's of itself; the session's own word (the party's
  goods, chat, reports, a renamed actor). The rest is anyone's, though some name an actor: speech and subtitles, a change of
  equipment or an item given (a peer may dress the host's follower), a spell taken off, the use of an object, the party's quests and the waypoint.
\<close>

datatype voice =
    Owner_Says "u32 set" | Done_To u32 | Hits u32 u32 | Uses u32 u32 | Player_Says u32 | Session_Says | Anyone_Says

fun voice_of :: "notice \<Rightarrow> voice" where
  "voice_of (N_Ai m) = Owner_Says {ais_SessionId m}"
| "voice_of (N_Snapshot m) = Owner_Says {es_SessionId m}"
| "voice_of (N_DrawWeapon m) = Owner_Says {dw_Id m}"
| "voice_of (N_Values m) = Owner_Says {avc_Id m}"
| "voice_of (N_MaxValues m) = Owner_Says {amvc_Id m}"
| "voice_of (N_Death m) = Owner_Says {dsc_Id m}"
| "voice_of (N_SpellCast m) = Owner_Says {sc_CasterId m}"
| "voice_of (N_Interrupt m) = Owner_Says {ic_CasterId m}"
| "voice_of (N_Projectile m) = Owner_Says {pl_ShooterID m}"
| "voice_of (N_Flash m) = Owner_Says {ef_SessionId m}"
| "voice_of (N_Factions m) = Owner_Says (fst ` set m)"
| "voice_of (N_Health m) = Done_To (hc_Id m)"
| "voice_of (N_AddTarget m) = Done_To (at_TargetId m)"
| "voice_of (N_Stagger m) = Hits (mst_HitterId m) (mst_HitteeId m)"
| "voice_of (N_Activate m) = (if na_NpcId m = 0 then Anyone_Says else Uses (na_ActivatorId m) (na_NpcId m))"
| "voice_of (N_Level m) = Player_Says (npl_PlayerId m)"
| "voice_of (N_Name m) = Player_Says (pn_PlayerId m)"
| "voice_of (N_Goods m) = Session_Says"
| "voice_of (N_Bug m) = Session_Says"
| "voice_of (N_ActorName m) = Session_Says"
| "voice_of (N_Dialogue m) = Anyone_Says"
| "voice_of (N_Subtitle m) = Anyone_Says"
| "voice_of (N_Equipment m) = Anyone_Says"
| "voice_of (N_RemoveSpell m) = Anyone_Says"
| "voice_of (N_SystemQuests m) = Anyone_Says"
| "voice_of (N_Waypoint m) = Anyone_Says"
| "voice_of N_NoWaypoint = Anyone_Says"

text \<open>Whether a game \<open>c\<close> may be told \<open>n\<close> on a request of \<open>sender\<close>'s.\<close>

definition may_hear :: "host_players \<Rightarrow> characters \<Rightarrow> conn \<Rightarrow> conn \<Rightarrow> notice \<Rightarrow> bool" where
  "may_hear p cs sender c n =
     (case voice_of n of
        Owner_Says is \<Rightarrow> (\<forall>i \<in> is. owner_of i cs = sender) \<and> c \<noteq> sender
      | Done_To i \<Rightarrow> owner_of i cs = c \<and> c \<noteq> sender
      | Hits i j \<Rightarrow> owner_of i cs = sender \<and> is_player_character i cs \<and> owner_of j cs = c \<and> c \<noteq> sender
      | Uses i j \<Rightarrow> owner_of i cs = sender \<and> \<not> is_player_character j cs \<and> owner_of j cs = c \<and> c = players_host p \<and> c \<noteq> sender
      | Player_Says i \<Rightarrow> i = player_id_of sender p \<and> c \<noteq> sender
      | Session_Says \<Rightarrow> True
      | Anyone_Says \<Rightarrow> c \<noteq> sender)"

lemma owner_of_own_record: "owner_of j (own_record sender i f cs) = owner_of j cs"
  by (auto simp: own_record_def change_record_def owner_of_def char_find_def char_set_def map_of_assign split: option.split)

text \<open>What a watcher may change: the values kept of a character, and, on its owner's word, who fights.\<close>

lemma watched_keeps:
  "rl_players (fst (watched g q sender s)) = rl_players s"
  "owner_of j (rl_characters (fst (watched g q sender s))) = owner_of j (rl_characters s)"
  by (auto simp: watched_def on_values_def on_max_values_def keep_values_def owner_of_own_record Let_def case_prod_unfold
      split: request.split)

lemma watched_others: "relay_rule q = None \<Longrightarrow> watched g q sender s = (s, [])"
  by (cases q) (simp_all add: watched_def)

lemma watched_tells: "snd (watched g q sender s) \<noteq> [] \<Longrightarrow> \<exists>a. q = Q_Ai a \<and> owner_of (ais_SessionId a) (rl_characters s) = sender"
  by (cases q) (auto simp: watched_def on_ai_state_def relay_env_def Let_def case_prod_unfold split: if_splits)

lemma relay_rule_voice:
  assumes "relay_rule q = Some (d, i, n)"
  shows "voice_of n = (case d of FromOwner \<Rightarrow> Owner_Says {i} | FromAnyone \<Rightarrow> Anyone_Says | To_Owner \<Rightarrow> Done_To i)"
  using assms by (cases q; auto)

lemma sent_to_others: "(c, n) \<in> set (send_to_others m excluded p) \<longleftrightarrow> n = m \<and> c \<noteq> excluded \<and> c \<in> set (connections p)"
  by (auto simp: send_to_others_def)

lemma to_conn_one: "to_conn c [(d, n)] = (if c = d then [n] else [])"
  by (simp add: to_conn_def)

lemma set_put: "set (map_put k v m) \<subseteq> insert (k, v) (set m)"
  by (induction k v m rule: map_put.induct) auto

lemma owned_factions:
  "(i, f) \<in> set (fold (\<lambda>(i, f) m. if owner_of i cs = sender then map_put i f m else m) q m) \<Longrightarrow>
   (i, f) \<in> set m \<or> owner_of i cs = sender"
proof (induction q arbitrary: m)
  case (Cons x q)
  obtain j g where x: "x = (j, g)" by (cases x)
  show ?case
    using Cons.IH [of "if owner_of j cs = sender then map_put j g m else m"] Cons.prems set_put [of j g m]
    by (auto simp: x split: if_splits)
qed simp

lemmas own_rules = own_rule_def on_inventory_changes_def on_melee_stagger_def on_activate_def on_factions_changes_def
  on_chat_message_def on_bug_report_def on_player_level_def on_player_name_def deliver_def

lemma own_rule_may:
  assumes "(c, n) \<in> set (snd (own_rule g q sender s))"
  shows "may_hear (rl_players s) (rl_characters s) sender c n"
  using assms
  by (cases q) (auto simp: own_rules may_hear_def activate_notice_def Let_def sent_to_others case_prod_unfold
      players_set_level_def players_set_name_def player_id_kept split: if_splits
      dest: owned_factions [unfolded case_prod_unfold])

text \<open>
  C4: of all these requests, whoever sends them: what the host tells a game of an actor's own doings came from the
  game that owns the actor, and goes to the others; what is done to an actor is told to its owner alone, a hit only when
  the hitter is the sender's own player character, and a use of an NPC only on the word of the user's owner, to the host, when the NPC is
  the host's; a level or a name is the sender's own. What anyone may say goes to the others, not back. A relay reaches
  each of the others (or the owner) exactly once, with the payload it came with, and changes nothing but what its watchers
  keep, the values of the sender's actor and who fights, and only of an actor's AI state, and from its owner, may the players be told
  of the party's state. While the party reloads or is wiped out, or from a game that is not a player, nothing happens.
\<close>

theorem requests_go_where_they_may:
  assumes "(ok, s', said, out) = handle g reloading q sender s"
  shows "(ok \<longleftrightarrow> \<not> reloading \<and> \<not> dt_wiped (rl_deaths s) \<and> is_player sender (rl_players s)) \<and>
    (\<not> ok \<longrightarrow> s' = s \<and> said = [] \<and> out = []) \<and>
    (\<forall>(c, n) \<in> set out. may_hear (rl_players s) (rl_characters s) sender c n) \<and>
    (said \<noteq> [] \<longrightarrow> (\<exists>a. q = Q_Ai a \<and> owner_of (ais_SessionId a) (rl_characters s) = sender)) \<and>
    (\<forall>d i n c. ok \<and> relay_rule q = Some (d, i, n) \<and> distinct (connections (rl_players s)) \<and> c \<in> set (connections (rl_players s)) \<longrightarrow>
       (s', said) = watched g q sender s \<and>
       to_conn c out = (if c \<noteq> sender \<and> (case d of FromOwner \<Rightarrow> owner_of i (rl_characters s) = sender | FromAnyone \<Rightarrow> True
         | To_Owner \<Rightarrow> owner_of i (rl_characters s) = c \<and> c \<noteq> 0) then [n] else []))"
proof -
  let ?p = "rl_players s" and ?cs = "rl_characters s"
  obtain s1 said1 where w: "watched g q sender s = (s1, said1)"
    by (cases "watched g q sender s")
  have kept: "rl_players s1 = ?p" "owner_of j (rl_characters s1) = owner_of j ?cs" for j
    using watched_keeps [where g = g and q = q and sender = sender and s = s] w by simp_all
  show ?thesis
  proof (cases "reloading \<or> dt_wiped (rl_deaths s) \<or> \<not> is_player sender ?p")
    case True
    then show ?thesis
      using assms by (auto simp: handle_def)
  next
    case door: False
    have tells: "said1 \<noteq> [] \<longrightarrow> (\<exists>a. q = Q_Ai a \<and> owner_of (ais_SessionId a) ?cs = sender)"
      using watched_tells [of g q sender s] w by simp
    show ?thesis
    proof (cases "relay_rule q")
      case None
      then have "s1 = s"
        using watched_others [OF None, of g sender s] w by simp
      then have "ok" "out = snd (own_rule g q sender s)" "said = said1"
        using assms door None w by (cases "own_rule g q sender s"; simp add: handle_def Let_def)+
      note out = this
      have "\<forall>(c, n) \<in> set out. may_hear ?p ?cs sender c n"
        unfolding out(2) using own_rule_may [of _ _ g q sender s] by blast
      then show ?thesis
        using None door out(1,3) tells by simp
    next
      case (Some x)
      obtain d i n where x: "x = (d, i, n)" by (cases x)
      have "ok" "s' = s1" "said = said1" and out: "out = deliver n d i sender ?p (rl_characters s1)"
        using assms door Some w by (auto simp: handle_def x kept)
      moreover note voice = relay_rule_voice [OF Some [unfolded x]]
      moreover have "to_conn c out = (if c \<noteq> sender \<and> (case d of FromOwner \<Rightarrow> owner_of i ?cs = sender | FromAnyone \<Rightarrow> True
           | To_Owner \<Rightarrow> owner_of i ?cs = c \<and> c \<noteq> 0) then [n] else [])"
        if "distinct (connections ?p)" "c \<in> set (connections ?p)" for c
        using to_conn_others [OF that, of n sender] by (cases d; cases "c = sender") (auto simp: out deliver_def to_conn_one kept)
      moreover have "\<forall>(c, n) \<in> set out. may_hear ?p ?cs sender c n"
        using voice by (cases d) (auto simp: out deliver_def may_hear_def sent_to_others kept split: if_splits)
      ultimately show ?thesis
        using door tells Some x w by auto
    qed
  qed
qed

text \<open>A guest (7) says what its character (3) does: the host (5) hears it.\<close>

definition example_relays :: "unit relays" where
  "example_relays = \<lparr>rl_players = example_party, rl_characters = example_characters, rl_deaths = new_deaths, rl_network = new_network,
     rl_book = None, rl_world = ()\<rparr>"

theorem requests_go_where_they_may_witness:
  "\<forall>g. \<exists>s' said out. handle g False (Q_DrawWeapon \<lparr>dw_Id = 3, dw_IsWeaponDrawn = True\<rparr>) 7 example_relays = (True, s', said, out) \<and>
     to_conn 5 out = [N_DrawWeapon \<lparr>dw_Id = 3, dw_IsWeaponDrawn = True\<rparr>] \<and> to_conn 7 out = []"
proof
  fix g :: "unit relay_game"
  let ?q = "Q_DrawWeapon \<lparr>dw_Id = 3, dw_IsWeaponDrawn = True\<rparr>"
  obtain ok s' said out where r: "(ok, s', said, out) = handle g False ?q 7 example_relays"
    by (cases "handle g False ?q 7 example_relays") auto
  have parts: "connections (rl_players example_relays) = [5, 7]" "is_player 7 (rl_players example_relays)"
      "owner_of 3 (rl_characters example_relays) = 7" "\<not> dt_wiped (rl_deaths example_relays)"
    by (simp_all add: example_relays_def example_party_def example_characters_def connections_def is_player_def players_find_def
      owner_of_def char_find_def new_deaths_def)
  from requests_go_where_they_may [OF r] have "ok" "to_conn 5 out = [N_DrawWeapon \<lparr>dw_Id = 3, dw_IsWeaponDrawn = True\<rparr>]" "to_conn 7 out = []"
    by (auto simp: parts)
  with r show "\<exists>s' said out. handle g False ?q 7 example_relays = (True, s', said, out) \<and>
      to_conn 5 out = [N_DrawWeapon \<lparr>dw_Id = 3, dw_IsWeaponDrawn = True\<rparr>] \<and> to_conn 7 out = []"
    by (metis (full_types))
qed

end
