(* ===== verification/Animation_Graphs.thy ===== *)
theory Animation_Graphs
  imports Prelude
begin

text \<open>
  Which of an animation graph's variables a session keeps in step (\<open>Structs/AnimationGraphDescriptor\<close>,
  \<open>Structs/AnimationGraphDescriptorManager\<close> and the descriptors of \<open>Structs/Skyrim\<close>): a graph's variables by
  number, in the order of its \<open>enum\<close>, and the booleans, floats and integers of them that are sent.
\<close>

named_theorems described \<open>descriptors, by number\<close>

section \<open>Descriptors\<close>

record descriptor =
  ad_booleans :: "u32 list"
  ad_floats :: "u32 list"
  ad_integers :: "u32 list"

text \<open>What \<open>IsSynced\<close> looks for.\<close>

definition is_synced :: "u32 \<Rightarrow> descriptor \<Rightarrow> bool" where
  "is_synced i d \<longleftrightarrow> i \<in> set (ad_booleans d) \<or> i \<in> set (ad_floats d) \<or> i \<in> set (ad_integers d)"

text \<open>Each graph's \<open>enum\<close>, its key and its lists.\<close>

section \<open>The graphs\<close>

definition graph_master_behavior :: "u64 \<times> descriptor" where
  "graph_master_behavior =
    (let kSpeed = 0 :: u32; kDirection = 1 :: u32; kTurnDelta = 2 :: u32; kiSyncIdleLocomotion = 3 :: u32;
       kSpeedWalk = 4 :: u32; kSpeedRun = 5 :: u32; kfSpeedMin = 6 :: u32; kuseShield = 7 :: u32; kuseMLh = 8 :: u32;
       kblendMoveStart = 9 :: u32; kblendMoveStop = 10 :: u32; kblendDefault = 11 :: u32; kWalkSpeedMult = 12 :: u32;
       kTurnDeltaDamped = 13 :: u32; kTurnMin = 14 :: u32; kIsFirstPerson = 15 :: u32; kPitch = 16 :: u32;
       kPitchLook = 17 :: u32; kblendAttackPowerFast = 18 :: u32; kblendAttackPowerSlow = 19 :: u32;
       kblendFast = 20 :: u32; kIsPlayer = 21 :: u32; kattackPowerStartTime = 22 :: u32; kblendMove1stP = 23 :: u32;
       kIntVariable = 24 :: u32; kIsNPC = 25 :: u32; kblendSlow = 26 :: u32; kPitchDefault = 27 :: u32;
       kPitchOverride = 28 :: u32; kstaggerMagnitude = 29 :: u32; kblockDown = 30 :: u32; kblockLeft = 31 :: u32;
       kblockRight = 32 :: u32; kblockUp = 33 :: u32; krecoilMagnitude = 34 :: u32; kiRightHandType = 35 :: u32;
       kIsBlocking = 36 :: u32; kiWantBlock = 37 :: u32; kIsAttackReady = 38 :: u32; kiAnnotation = 39 :: u32;
       kSpeedSampled = 40 :: u32; kbMotionDriven = 41 :: u32; kblendAttackRelease = 42 :: u32;
       kattackComboStartFraction = 43 :: u32; kblendAttackCombo = 44 :: u32; kattackIntroLength = 45 :: u32;
       kIsShouting = 46 :: u32; kweaponSpeedMult = 47 :: u32; kiSyncTurnState = 48 :: u32; ki1stPerson = 49 :: u32;
       kIsSprinting = 50 :: u32; kbIsSynced = 51 :: u32; kIsBlockHit = 52 :: u32; kTimeDelta = 53 :: u32;
       kPitchOffset = 54 :: u32; kPitchAcc = 55 :: u32; kPitchThresh = 56 :: u32; kUsePitch = 57 :: u32;
       kDisablePitch = 58 :: u32; kweapAdj = 59 :: u32; kiLeftHandType = 60 :: u32;
       kweapChangeStartFraction = 61 :: u32; k1stPRot = 62 :: u32; k1stPRotDamped = 63 :: u32; kRotMax = 64 :: u32;
       kPitchManualOverride = 65 :: u32; kSpeedAcc = 66 :: u32; kIsCastingRight = 67 :: u32;
       kIsCastingLeft = 68 :: u32; kCastBlend = 69 :: u32; kbVoiceReady = 70 :: u32; kbWantCastLeft = 71 :: u32;
       kbWantCastRight = 72 :: u32; kbWantCastVoice = 73 :: u32; kBlendDamped = 74 :: u32;
       kb1HM_MLh_attack = 75 :: u32; kIs1HM = 76 :: u32; ki1HMState = 77 :: u32; kRawBlend = 78 :: u32;
       kBlendAcc = 79 :: u32; kb1HMCombat = 80 :: u32; kbAnimationDriven = 81 :: u32; kbCastReady = 82 :: u32;
       kIsStaggering = 83 :: u32; kIsRecoiling = 84 :: u32; kIsAttacking = 85 :: u32; kIsInCastState = 86 :: u32;
       kbleedoutTurnMult = 87 :: u32; kIsInCastStateDamped = 88 :: u32; kbAllowRotation = 89 :: u32;
       kbMagicDraw = 90 :: u32; kCastBlendDamped = 91 :: u32; kbMLh_Ready = 92 :: u32; kbMRh_Ready = 93 :: u32;
       kiState = 94 :: u32; kiState_NPCSprinting = 95 :: u32; kiState_NPCDefault = 96 :: u32;
       kfIsFirstPerson = 97 :: u32; kbInMoveState = 98 :: u32; kiState_NPCSneaking = 99 :: u32;
       kiState_NPCBowDrawn = 100 :: u32; kBoolVariable = 101 :: u32; kDualMagicState = 102 :: u32;
       kiDualMagicState = 103 :: u32; kInDualMagicState = 104 :: u32; kiState_NPCBlocking = 105 :: u32;
       kiState_NPCBleedout = 106 :: u32; kiBlockState = 107 :: u32; kbSprintOK = 108 :: u32;
       kiSyncSprintState = 109 :: u32; kIsEquipping = 110 :: u32; kIsUnequipping = 111 :: u32;
       kiIsInSneak = 112 :: u32; kcurrentDefaultState = 113 :: u32; kBowZoom = 114 :: u32; kbowZoomAmt = 115 :: u32;
       kbIdlePlaying = 116 :: u32; kiMagicEquipped = 117 :: u32; kiEquippedItemState = 118 :: u32;
       kiMagicState = 119 :: u32; kIsCastingDual = 120 :: u32; kbIsDialogueExpressive = 121 :: u32;
       kiIsDialogueExpressive = 122 :: u32; kbAnimObjectLoaded = 123 :: u32; kfEquipWeapAdj = 124 :: u32;
       kbEquipUnequip = 125 :: u32; kbAttached = 126 :: u32; kbodyMorphWeight = 127 :: u32; kIsBashing = 128 :: u32;
       kbEquipOk = 129 :: u32; kIsBleedingOut = 130 :: u32; kfMagicForceEquipBlendValue = 131 :: u32;
       kFemaleOffset = 132 :: u32; kblendVerySlow = 133 :: u32; kblendDialogue = 134 :: u32;
       kiSyncIdleState = 135 :: u32; kfIdleTimer = 136 :: u32; kbIsH2HSolo = 137 :: u32;
       kAdditiveHeadTransl = 138 :: u32; kAdditiveHeadScale = 139 :: u32; kAdditiveHeadRot = 140 :: u32;
       k2HMweaponSpeedMult = 141 :: u32; kiState_NPC1HM = 142 :: u32; kiState_NPC2HM = 143 :: u32;
       kiState_NPCBow = 144 :: u32; kiState_NPCMagic = 145 :: u32; kiState_NPCMagicCasting = 146 :: u32;
       kiState_NPCHorse = 147 :: u32; kiState_HorseSprint = 148 :: u32; kiCharacterSelector = 149 :: u32;
       krandomStartTime = 150 :: u32; kbHeadTracking = 151 :: u32; kbIsRiding = 152 :: u32; kfMinSpeed = 153 :: u32;
       kiCombatStance = 154 :: u32; kturnSpeedMult = 155 :: u32; kiSyncTurnDirection = 156 :: u32;
       kfTwistDirection = 157 :: u32; kIntDirection = 158 :: u32; kDirectionRange = 159 :: u32;
       kDirectionRangeDamped = 160 :: u32; kDirectionDamped = 161 :: u32; kIsDismounting = 162 :: u32;
       kTargetLocation = 163 :: u32; kbTalkable = 164 :: u32; kbNeutralState = 165 :: u32; kCastOK = 166 :: u32;
       kblendFromAnimDriven = 167 :: u32; kwalkBackRate = 168 :: u32; kbRitualSpellActive = 169 :: u32;
       kSwimDirection = 170 :: u32; kiRegularAttack = 171 :: u32; kIsAttackReady_32 = 172 :: u32;
       kcamerafromx = 173 :: u32; kcamerafromy = 174 :: u32; kcamerafromz = 175 :: u32; kVelocityZ = 176 :: u32;
       kbInJumpState = 177 :: u32; kLookAtOutOfRange = 178 :: u32; kiRightHandEquipped = 179 :: u32;
       kiLeftHandEquipped = 180 :: u32; ktestint = 181 :: u32; kiIsPlayer = 182 :: u32; kSpeedDamped = 183 :: u32;
       kbodyMorphMuscular = 184 :: u32; kbHeadTrackSpine = 185 :: u32; kIsSneaking = 186 :: u32;
       kiGetUpType = 187 :: u32; kiState_NPCAttacking = 188 :: u32; kiState_NPCPowerAttacking = 189 :: u32;
       kiState_NPCAttacking2H = 190 :: u32; kLookAtOnGain = 191 :: u32; kLookAtOffGain = 192 :: u32;
       kLookAtEyeOnGain = 193 :: u32; kLookAtEyeOffGain = 194 :: u32; kiDrunkVariable = 195 :: u32;
       kiState_NPCDrunk = 196 :: u32; kleftWeaponSpeedMult = 197 :: u32; kbLeftHandAttack = 198 :: u32;
       kBlendJump = 199 :: u32; kbIsInMT = 200 :: u32; kBoolVariable00 = 201 :: u32;
       kbHumanoidFootIKEnable = 202 :: u32; ktestPitchOffset = 203 :: u32; kbBowDrawn = 204 :: u32;
       kIsBeastRace = 205 :: u32; kbHumanoidFootIKDisable = 206 :: u32; kiTempSwitch = 207 :: u32;
       kiState_NPCBowDrawnQuickShot = 208 :: u32; kiState_NPCBlockingShieldCharge = 209 :: u32;
       kbStaggerPlayerOverride = 210 :: u32; kbNoStagger = 211 :: u32; kbIsStaffLeftCasting = 212 :: u32;
       kIs3rdPKillOnly = 213 :: u32; kbPerkShieldCharge = 214 :: u32; kbPerkQuickShot = 215 :: u32;
       km_bEnablePitchTwistModifier = 216 :: u32; km_worldFromModelFeedbackGain = 217 :: u32;
       kIsBleedingOutTransition = 218 :: u32; kbMesmerize = 219 :: u32; kiIsHorse = 220 :: u32;
       kbWantMountedWeaponAnims = 221 :: u32; kiUseMountedSwimming = 222 :: u32; kAimPitchCurrent = 223 :: u32;
       kAimHeadingCurrent = 224 :: u32; kbAimActive = 225 :: u32; kAimGainOff = 226 :: u32;
       kAimGainOnMounted = 227 :: u32; kAimGainOnDragonMount = 228 :: u32; kiWantMountedWeaponAnims = 229 :: u32;
       kiWeaponReady = 230 :: u32; kZoomAcc = 231 :: u32; kAimHeadingMax = 232 :: u32; kAimPitchMax = 233 :: u32;
       kAimGainOn = 234 :: u32; kbDisableInterp = 235 :: u32; kBowAimOffsetPitch = 236 :: u32;
       kBowAimOffsetHeading = 237 :: u32; kbPerkQuickDraw = 238 :: u32; kbForceIdleStop = 239 :: u32;
       kIsInDWattack = 240 :: u32; kbShortKillMove = 241 :: u32; kbLongKillMove = 242 :: u32;
       kiCrossbowState = 243 :: u32; kInt32Variable = 244 :: u32; kAllowBlockModify = 245 :: u32;
       k_iState_NPCSneaking = 246 :: u32; kMagicLeftActive = 247 :: u32; kAllowMagicModify = 248 :: u32;
       kMagicAimOffsetHeading = 249 :: u32; kMagicAimOffsetPitch = 250 :: u32; kNotCasting = 251 :: u32;
       kCastBlendGain = 252 :: u32; kiWantBlock01 = 253 :: u32; kstaggerDirection = 254 :: u32;
       kiSyncForwardState = 255 :: u32; kfMinTurnDelta = 256 :: u32; kbHeadTrackingOn = 257 :: u32;
       km_onOffGain = 258 :: u32; km_groundAscendingGain = 259 :: u32; km_groundDescendingGain = 260 :: u32;
       km_footPlantedGain = 261 :: u32; km_footRaisedGain = 262 :: u32; km_footUnlockGain = 263 :: u32;
       km_errorUpDownBias = 264 :: u32; km_alignWorldFromModelGain = 265 :: u32; km_hipOrientationGain = 266 :: u32;
       km_footPlantedAnkleHeightMS = 267 :: u32; km_footRaisedAnkleHeightMS = 268 :: u32;
       km_maxAnkleHeightMS = 269 :: u32; km_minAnkleHeightMS = 270 :: u32; kbDisableHeadTrack = 271 :: u32;
       kbCanHeadTrack = 272 :: u32; kisIdleSitting = 273 :: u32; kbMirroredAttack = 274 :: u32;
       kfMinMoveSpeed = 275 :: u32; kiState_HorseDefault = 276 :: u32; kHorseSpeedSampled = 277 :: u32;
       kwalkBackSpeedMult = 278 :: u32; kiState_HorseFall = 279 :: u32; kbInSwimState = 280 :: u32;
       kiState_HorseSwim = 281 :: u32; kbHorseFootIKEnable = 282 :: u32; kbNoHeadTrack = 283 :: u32;
       kisMoving = 284 :: u32; kblendVeryFast = 285 :: u32; kAimHeadingMaxMounted = 286 :: u32;
       kAimPitchMaxMounted = 287 :: u32; kMC_2HM_WeapSpeed = 288 :: u32; kiSyncDialogueResponse = 289 :: u32;
       kbBlendOutSlow = 290 :: u32; kisInFurniture = 291 :: u32; kbIdleBeforeConversation = 292 :: u32;
       kbMotionDrivenDialogue = 293 :: u32; kbAnimationDrivenDialogue = 294 :: u32; kbHDDialogue = 295 :: u32;
       kbHHDialogue = 296 :: u32; kbTalkableWithItem = 297 :: u32; kisCarryItem = 298 :: u32;
       kIsRomanticFollower = 299 :: u32; kIsRF_Talk = 300 :: u32
     in (17585368238253125375, \<lparr>ad_booleans =
        [kbEquipOk, kbMotionDriven, kIsBeastRace, kIsSneaking, kIsBleedingOut, kIsCastingDual, kIs1HM,
         kIsCastingRight, kIsCastingLeft, kIsBlockHit, kIsPlayer, kIsNPC, kbIsSynced, kbVoiceReady, kbWantCastLeft,
         kbWantCastRight, kbWantCastVoice, kb1HM_MLh_attack, kb1HMCombat, kbAnimationDriven, kbCastReady,
         kIsAttacking, kbAllowRotation, kbMagicDraw, kbMLh_Ready, kbMRh_Ready, kbInMoveState, kbSprintOK,
         kbIdlePlaying, kbIsDialogueExpressive, kbAnimObjectLoaded, kbEquipUnequip, kbAttached, kbIsH2HSolo,
         kbHeadTracking, kbIsRiding, kbTalkable, kbRitualSpellActive, kbInJumpState, kbHeadTrackSpine,
         kbLeftHandAttack, kbIsInMT, kbHumanoidFootIKEnable, kbHumanoidFootIKDisable, kbStaggerPlayerOverride,
         kbNoStagger, kbIsStaffLeftCasting, kbPerkShieldCharge, kbPerkQuickShot, kIsBlocking, kIsBashing,
         kIsStaggering, kIsRecoiling, kIsEquipping, kIsUnequipping, kisInFurniture, kbNeutralState, kbBowDrawn,
         kPitchOverride],
      ad_floats =
        [kTurnDelta, kDirection, kSpeedSampled, kweapAdj, kSpeed, kCastBlend, kPitchOffset, kSpeedDamped, kPitch,
         kVelocityZ, k1stPRot, k1stPRotDamped, kCastBlendDamped],
      ad_integers =
        [kiRightHandEquipped, kiLeftHandEquipped, ki1HMState, kiState, kiLeftHandType, kiRightHandType,
         kiSyncIdleLocomotion, kiSyncForwardState, kiSyncTurnState, kiIsInSneak, kiWantBlock, kiRegularAttack,
         kiGetUpType, ktestint]\<rparr>))"

lemma described_master_behavior [described]: "graph_master_behavior = (17585368238253125375, \<lparr>ad_booleans =
        [129, 41, 205, 186, 130, 120, 76, 67, 68, 52, 21, 25, 51, 70, 71, 72, 73, 75, 80, 81, 82, 85, 89, 90, 92, 93,
         98, 108, 116, 121, 123, 125, 126, 137, 151, 152, 164, 169, 177, 185, 198, 200, 202, 206, 210, 211, 212, 214,
         215, 36, 128, 83, 84, 110, 111, 291, 165, 204, 28],
      ad_floats = [2, 1, 40, 59, 0, 69, 54, 183, 16, 176, 62, 63, 91],
      ad_integers = [179, 180, 77, 94, 60, 35, 3, 255, 48, 112, 37, 171, 187, 181]\<rparr>)"
  unfolding graph_master_behavior_def Let_def by (rule refl)

definition graph_bhr_master :: "u64 \<times> descriptor" where
  "graph_bhr_master =
    (let kPitch = 0 :: u32; kTurnDelta = 1 :: u32; kiSyncIdleLocomotion = 2 :: u32; kdefaultBlend = 3 :: u32;
       kbHeadTracking = 4 :: u32; kDirection = 5 :: u32; kfMinSpeed = 6 :: u32; kSpeed = 7 :: u32;
       kTargetSpeed = 8 :: u32; kTurnMin = 9 :: u32; kMaxAcc = 10 :: u32; kMaxDec = 11 :: u32;
       kPitchDeltaDampedGain = 12 :: u32; kTargetSpeedThresholdMax = 13 :: u32; kTargetSpeedThresholdMin = 14 :: u32;
       kDrag = 15 :: u32; kTargetSpeedMaxScale = 16 :: u32; kTurnDeltaDamped = 17 :: u32;
       kPitchDeltaDamped = 18 :: u32; kTurnDeltaDampedGain = 19 :: u32; kMinSpeed = 20 :: u32; kMaxSpeed = 21 :: u32;
       kPathAngleThreshold = 22 :: u32; kTargetSpeedDamped = 23 :: u32; kMaxSpeedDamped = 24 :: u32;
       kbAnimationDriven = 25 :: u32; kbVoiceReady = 26 :: u32; kiInjured = 27 :: u32; kInjured = 28 :: u32;
       kbWantCastVoice = 29 :: u32; kInjuredScale = 30 :: u32; kInjuredScaleCurrent = 31 :: u32;
       kMaxSpeedCurrent = 32 :: u32; kIsAttackReady = 33 :: u32; kIsShouting = 34 :: u32; kiCombat = 35 :: u32;
       kLookAtHeadingMaxAngle = 36 :: u32; kIsIdle = 37 :: u32; kisMoving = 38 :: u32; kbSpeedSynced = 39 :: u32;
       kiSyncTurnState = 40 :: u32; kiDirectionForward = 41 :: u32; kIsOnGround = 42 :: u32;
       kbAllowRotation = 43 :: u32; km_errorOut = 44 :: u32; km_worldFromModelFeedbackGain = 45 :: u32;
       kFlightPitchBlend = 46 :: u32; kTargetLocation = 47 :: u32; kiState = 48 :: u32;
       kiState_DragonDefault = 49 :: u32; kiState_DragonFlying = 50 :: u32; kiState_DragonHovering = 51 :: u32;
       kbLookAtTarget = 52 :: u32; kbCanLookAtTarget = 53 :: u32; kTweenEntryDirection = 54 :: u32;
       kFlightHitInjuredSpeedMin = 55 :: u32; kFlightHitInjuredDecGain = 56 :: u32;
       km_rearMinAnkleHeightMS = 57 :: u32; km_rearMaxAnkleHeightMS = 58 :: u32; km_frontMinAnkleHeightMS = 59 :: u32;
       km_frontMaxAnkleHeightMS = 60 :: u32; km_frontFootRaisedAnkleHeightMS = 61 :: u32;
       km_frontFootPlantedAnkleHeightMS = 62 :: u32; km_rearFootRaisedAnkleHeightMS = 63 :: u32;
       km_rearFootPlantedAnkleHeightMS = 64 :: u32; kbEquipOk = 65 :: u32; kLipBigAah = 66 :: u32;
       kLipDST = 67 :: u32; kLipEee = 68 :: u32; kLipFV = 69 :: u32; kLipK = 70 :: u32; kLipL = 71 :: u32;
       kLipR = 72 :: u32; kLipTh = 73 :: u32; kPhonemeBlend = 74 :: u32; kInvPhonemeBlend = 75 :: u32;
       kIsBusy = 76 :: u32; kcamerafromx = 77 :: u32; kcamerafromy = 78 :: u32; kcamerafromz = 79 :: u32;
       kLipAcc = 80 :: u32; kLipBigAahDamped = 81 :: u32; kLipDSTDamped = 82 :: u32; kLipEeeDamped = 83 :: u32;
       kLipFVDamped = 84 :: u32; kLipKDamped = 85 :: u32; kLipLDamped = 86 :: u32; kLipRDamped = 87 :: u32;
       kLipThDamped = 88 :: u32; kiState_DragonPerching = 89 :: u32; kbIsSynced = 90 :: u32; kPitchDelta = 91 :: u32;
       kMovementDirection = 92 :: u32; kIsFeathering = 93 :: u32; kIsFlapping = 94 :: u32; kIsGliding = 95 :: u32;
       kTweenPosition = 96 :: u32; kTweenRotation = 97 :: u32; kDistToGoal = 98 :: u32; kTweenSpeed = 99 :: u32;
       kHasTweenSpeed = 100 :: u32; kTweenSpeedMin = 101 :: u32; kTweenSpeedDamped = 102 :: u32;
       kIsTurningLeft = 103 :: u32; kIsTurningRight = 104 :: u32; kIsMovingBackward = 105 :: u32;
       kIsMovingForward = 106 :: u32; kPathAngle = 107 :: u32; kBSLookAtModifier_m_onGain_Combat = 108 :: u32;
       kBSLookAtModifier_m_offGain_Combat = 109 :: u32; kBSLookAtModifier_m_onGain_Default = 110 :: u32;
       kBSLookAtModifier_m_offGain_Default = 111 :: u32; kBSLookAtModifier_m_onGain = 112 :: u32;
       kBSLookAtModifier_m_offGain = 113 :: u32; kBSLookAtModifier_CanLookOutsideLimit = 114 :: u32;
       kTurnDeltaScale = 115 :: u32; kPickNewIdleTimer = 116 :: u32; kPickNewIdleTime = 117 :: u32;
       kBSLookAtModifier_m_onGain_Shouting = 118 :: u32; kBSLookAtModifier_m_offGain_Shouting = 119 :: u32;
       kTimeStep = 120 :: u32; kMoveDirZ = 121 :: u32; kFlightPitchBlendGain = 122 :: u32;
       km_raycastDistanceDown = 123 :: u32; km_raycastDistanceUp = 124 :: u32; km_errorOutTranslation = 125 :: u32;
       km_alignWithGroundRotation = 126 :: u32; kbFullyMotionDriven = 127 :: u32; kDirectionDamped = 128 :: u32;
       kbNoFootIK = 129 :: u32; kbFootIK = 130 :: u32; km_ankeOrientationGain = 131 :: u32;
       km_alignWorldFromModelGain = 132 :: u32; km_rearMaxAnkleAngleDegrees = 133 :: u32;
       km_useAlignWithGroundRotation = 134 :: u32; kIsTrailer = 135 :: u32; kLookAtOutOfRange = 136 :: u32;
       kTurnDeltaTarget = 137 :: u32; kPitchDeltaTarget = 138 :: u32; kFlightPitchBlendTarget = 139 :: u32;
       kbFlightKillGrabAction = 140 :: u32; kbAllowFlightKillGrabTween = 141 :: u32;
       kbAllowFlightGrabTweenDefault = 142 :: u32; kiGetUpType = 143 :: u32; kTweenEntryDirectionPrev = 144 :: u32;
       kTweenEntryDirectionFlightKillGrab = 145 :: u32; kConstraintOffset = 146 :: u32;
       kTweenEntryDirectionCur = 147 :: u32; kbTweenUpdate = 148 :: u32; kLipGain = 149 :: u32;
       kPhonemeBlendTarget = 150 :: u32; kbDisableInterp = 151 :: u32; kfPhonemeDefaultWeight = 152 :: u32
     in (18331100224015734760, \<lparr>ad_booleans =
        [kbAnimationDriven, kbVoiceReady, kbWantCastVoice, kIsAttackReady, kIsShouting, kisMoving, kbSpeedSynced,
         kIsOnGround, kbLookAtTarget, kbCanLookAtTarget, kbEquipOk, kIsBusy, kbIsSynced, kIsFlapping, kIsGliding,
         kHasTweenSpeed, kIsTurningLeft, kIsTurningRight, kIsMovingForward, kBSLookAtModifier_CanLookOutsideLimit,
         kMoveDirZ, kbFullyMotionDriven, kbNoFootIK, kbFootIK, kLookAtOutOfRange],
      ad_floats =
        [kPitch, kTurnDelta, kDirection, kSpeed, kTargetSpeed, kTurnDeltaDamped, kPitchDeltaDamped,
         kTargetSpeedDamped, kMaxSpeedDamped, kLookAtHeadingMaxAngle, km_errorOut, kFlightPitchBlend,
         kTweenEntryDirection, kLipBigAah, kLipDST, kLipEee, kLipFV, kPitchDelta, kDistToGoal, kPathAngle,
         kBSLookAtModifier_m_onGain, kBSLookAtModifier_m_offGain, kTimeStep, kDirectionDamped, kTurnDeltaTarget,
         kPitchDeltaTarget, kFlightPitchBlendTarget],
      ad_integers =
        [kiSyncIdleLocomotion, kiSyncTurnState, kiState]\<rparr>))"

lemma described_bhr_master [described]: "graph_bhr_master = (18331100224015734760, \<lparr>ad_booleans =
        [25, 26, 29, 33, 34, 38, 39, 42, 52, 53, 65, 76, 90, 94, 95, 100, 103, 104, 106, 114, 121, 127, 129, 130, 136],
      ad_floats = [0, 1, 5, 7, 8, 17, 18, 23, 24, 36, 44, 46, 54, 66, 67, 68, 69, 91, 98, 107, 112, 113, 120, 128, 137, 138, 139],
      ad_integers = [2, 40, 48]\<rparr>)"
  unfolding graph_bhr_master_def Let_def by (rule refl)

definition graph_wolf_root_behavior :: "u64 \<times> descriptor" where
  "graph_wolf_root_behavior =
    (let kiSyncIdleLocomotion = 0 :: u32; kblendDefault = 1 :: u32; kfMinSpeed = 2 :: u32; kSpeed = 3 :: u32;
       kiSyncTurnState = 4 :: u32; kiSyncForwardState = 5 :: u32; kTurnDelta = 6 :: u32; kfMinTurnDelta = 7 :: u32;
       kturnSpeedMult = 8 :: u32; kiCombatStance = 9 :: u32; ktest = 10 :: u32; kbHeadTrackingOn = 11 :: u32;
       kTargetLocation = 12 :: u32; kFootIKEnable = 13 :: u32; km_onOffGain = 14 :: u32;
       km_groundAscendingGain = 15 :: u32; km_groundDescendingGain = 16 :: u32; km_footPlantedGain = 17 :: u32;
       km_footRaisedGain = 18 :: u32; km_footUnlockGain = 19 :: u32; km_worldFromModelFeedbackGain = 20 :: u32;
       km_errorUpDownBias = 21 :: u32; km_alignWorldFromModelGain = 22 :: u32; km_hipOrientationGain = 23 :: u32;
       km_footPlantedAnkleHeightMS = 24 :: u32; km_footRaisedAnkleHeightMS = 25 :: u32;
       km_maxAnkleHeightMS = 26 :: u32; km_minAnkleHeightMS = 27 :: u32; kblendFast = 28 :: u32;
       kbAnimationDriven = 29 :: u32; kbAllowRotation = 30 :: u32; kbHeadTracking = 31 :: u32;
       kbDisableHeadTrack = 32 :: u32; kIsRecoiling = 33 :: u32; kIsStaggering = 34 :: u32; kIsAttacking = 35 :: u32;
       kbIsWolf = 36 :: u32; kstaggerMagnitude = 37 :: u32; kIsBleedingOut = 38 :: u32; kbIsSynced = 39 :: u32;
       kbEquipOk = 40 :: u32; kbCanHeadTrack = 41 :: u32; kblendSlow = 42 :: u32; kisIdleSitting = 43 :: u32;
       kbMirroredAttack = 44 :: u32; kiState = 45 :: u32; kiState_WolfDefault = 46 :: u32; kbSkeeverLunge = 47 :: u32;
       kiCharacterSelector = 48 :: u32; kfMinMoveSpeed = 49 :: u32; kDirection = 50 :: u32; kiIsCanine = 51 :: u32;
       kiTurnMirrored = 52 :: u32; kIsAttackReady = 53 :: u32; kTurnDeltaDamped = 54 :: u32;
       kSpeedSampled = 55 :: u32; kIsBashing = 56 :: u32; kwalkBackRate = 57 :: u32; kiMovementSpeed = 58 :: u32;
       kstaggerDirection = 59 :: u32; kbFootIKDisable = 60 :: u32; kiGetUpType = 61 :: u32;
       kiState_WolfRun = 62 :: u32; kiState_CowDefault = 63 :: u32; kiState_DogDefault = 64 :: u32;
       kiState_SabreCatDefault = 65 :: u32; kiState_SkeeverDefault = 66 :: u32; kiState_SkeeverLunge = 67 :: u32;
       kiState_HorseDefault = 68 :: u32; kiState_BearDefault = 69 :: u32; kiState_DeerDefault = 70 :: u32;
       kiState_GoatDefault = 71 :: u32; kiState_HorkerDefault = 72 :: u32; kiState_MammothDefault = 73 :: u32;
       kiState_HorseSprint = 74 :: u32; kiSyncSprintState = 75 :: u32; kfTwistDirection = 76 :: u32;
       kOldDirection = 77 :: u32; kbNoHeadTrack = 78 :: u32; kcamerafromx = 79 :: u32; kcamerafromy = 80 :: u32;
       kcamerafromz = 81 :: u32; kwalkBackSpeedMult = 82 :: u32; kIsSideAttacking = 83 :: u32; kisIdleLay = 84 :: u32;
       kbFootIKEnable = 85 :: u32; kiState_CowSwimDefault = 86 :: u32; kiState_HorkerSwimDefault = 87 :: u32;
       kiState_BearSwimDefault = 88 :: u32; kisSwimming = 89 :: u32; kisMoving = 90 :: u32;
       kbForceIdleStop = 91 :: u32; kiState_DeerDefaultRun = 92 :: u32
     in (1344932221912162919, \<lparr>ad_booleans =
        [kbHeadTrackingOn, kbAnimationDriven, kbAllowRotation, kbHeadTracking, kbDisableHeadTrack, kIsRecoiling,
         kIsStaggering, kIsAttacking, kbSkeeverLunge, kbFootIKEnable, kisMoving],
      ad_floats =
        [kSpeed, kTurnDelta, kturnSpeedMult, kDirection, kTurnDeltaDamped, kSpeedSampled, kwalkBackSpeedMult],
      ad_integers =
        [kiSyncIdleLocomotion, kiSyncTurnState, kiSyncForwardState, kiCombatStance, kiMovementSpeed, kiSyncSprintState]\<rparr>))"

lemma described_wolf_root_behavior [described]: "graph_wolf_root_behavior = (1344932221912162919, \<lparr>ad_booleans =
        [11, 29, 30, 31, 32, 33, 34, 35, 47, 85, 90],
      ad_floats = [3, 6, 8, 50, 54, 55, 82],
      ad_integers = [0, 4, 5, 9, 58, 75]\<rparr>)"
  unfolding graph_wolf_root_behavior_def Let_def by (rule refl)

definition graph_chaurus :: "u64 \<times> descriptor" where
  "graph_chaurus =
    (let kblendDefault = 0 :: u32; kblendFast = 1 :: u32; kblendSlow = 2 :: u32; kDirection = 3 :: u32;
       kIsBlocking = 4 :: u32; kSpeed = 5 :: u32; kstaggerMagnitude = 6 :: u32; kTurnDelta = 7 :: u32;
       kIsAttackReady = 8 :: u32; kweaponSpeedMult = 9 :: u32; kFootIKEnable = 10 :: u32; km_onOffGain = 11 :: u32;
       km_groundAscendingGain = 12 :: u32; km_groundDescendingGain = 13 :: u32; km_footPlantedGain = 14 :: u32;
       km_footRaisedGain = 15 :: u32; km_footUnlockGain = 16 :: u32; km_worldFromModelFeedbackGain = 17 :: u32;
       km_errorUpDownBias = 18 :: u32; km_alignWorldFromModelGain = 19 :: u32; km_hipOrientationGain = 20 :: u32;
       km_footPlantedAnkleHeightMS = 21 :: u32; km_footRaisedAnkleHeightMS = 22 :: u32;
       km_maxAnkleHeightMS = 23 :: u32; km_minAnkleHeightMS = 24 :: u32; kbAllowRotation = 25 :: u32;
       kturnSpeedMult = 26 :: u32; kiCombatStance = 27 :: u32; kiSyncTurnState = 28 :: u32; kIntDirection = 29 :: u32;
       kbMotionDriven = 30 :: u32; kiSyncIdleLocomotion = 31 :: u32; kfMinTurnDelta = 32 :: u32;
       kbAnimationDriven = 33 :: u32; kBoolVariable00 = 34 :: u32; kIsAttacking = 35 :: u32;
       kiLeftHandType = 36 :: u32; kiWeapCategory = 37 :: u32; kbWantCastLeft = 38 :: u32; kbMLh_Ready = 39 :: u32;
       kiState_DefaultChaurus_MT = 40 :: u32; kiState = 41 :: u32; kIsBashing = 42 :: u32; kbEquipOk = 43 :: u32;
       kIsStaggering = 44 :: u32; kIsRecoiling = 45 :: u32; km_state = 46 :: u32; km_direction = 47 :: u32;
       km_goalSpeed = 48 :: u32; km_speedOut = 49 :: u32; kSpeedDamped = 50 :: u32; km_enable = 51 :: u32;
       km_limitAngleDegrees = 52 :: u32; km_startBoneIndex = 53 :: u32; km_gain = 54 :: u32;
       km_boneRadius = 55 :: u32; km_endBoneIndex = 56 :: u32; km_castOffset = 57 :: u32; kSpeedSampled = 58 :: u32;
       kbHeadTracking = 59 :: u32; kTargetLocation = 60 :: u32; kbHeadTrackingOff = 61 :: u32; kSlowBlend = 62 :: u32;
       kbNoHeadTrack = 63 :: u32; kAggroWarningBlend = 64 :: u32; kstaggerDirection = 65 :: u32;
       kiCurrentStateID = 66 :: u32; kiGetUpType = 67 :: u32; kIsSideAttacking = 68 :: u32; kisIdleLay = 69 :: u32;
       kisIdleSitting = 70 :: u32; kspeedRight = 71 :: u32; kspeedMultRight = 72 :: u32; kspeedLeft = 73 :: u32;
       kspeedMultLeft = 74 :: u32; kspeedBackward = 75 :: u32; kspeedMultBackward = 76 :: u32;
       kspeedForward = 77 :: u32; kspeedMultForward = 78 :: u32
     in (6432093022549018934, \<lparr>ad_booleans =
        [kIsAttackReady, kbAllowRotation, kbAnimationDriven, kbMLh_Ready, kbEquipOk, kIsRecoiling],
      ad_floats =
        [kDirection, kSpeed, kTurnDelta, kturnSpeedMult, kSpeedSampled, kspeedMultRight, kspeedMultLeft,
         kspeedMultForward],
      ad_integers =
        [kiSyncTurnState, kiSyncIdleLocomotion]\<rparr>))"

lemma described_chaurus [described]: "graph_chaurus = (6432093022549018934, \<lparr>ad_booleans =
        [8, 25, 33, 39, 43, 45],
      ad_floats = [3, 5, 7, 26, 58, 72, 74, 78],
      ad_integers = [28, 31]\<rparr>)"
  unfolding graph_chaurus_def Let_def by (rule refl)

definition graph_troll_behavior :: "u64 \<times> descriptor" where
  "graph_troll_behavior =
    (let kiSyncTurnState = 0 :: u32; kTurnDelta = 1 :: u32; kDirection = 2 :: u32; kSpeed = 3 :: u32;
       kbAnimationDriven = 4 :: u32; kbIsSynced = 5 :: u32; kIsRecoiling = 6 :: u32; kIsStaggering = 7 :: u32;
       kSpeedStartVar = 8 :: u32; kTurnDeltaDamped = 9 :: u32; kTurnMin = 10 :: u32; kIsAttackReady = 11 :: u32;
       kIntDirection = 12 :: u32; kSpeedDamped = 13 :: u32; kIsAttacking = 14 :: u32; kbAllowRotation = 15 :: u32;
       kFootIKEnable = 16 :: u32; kbHeadTrackingOff = 17 :: u32; kstaggerMagnitude = 18 :: u32; kbEquipOk = 19 :: u32;
       kcurrentDefaultState = 20 :: u32; kiState = 21 :: u32; kiState_TrollDefault = 22 :: u32;
       kSampledSpeed = 23 :: u32; kIsCrouching = 24 :: u32; kiSyncIdleLocomotion = 25 :: u32; kblendShort = 26 :: u32;
       kblendNormal = 27 :: u32; kisMoving = 28 :: u32; kDirectionOffset = 29 :: u32; kDirDamped = 30 :: u32;
       kTimeDelta = 31 :: u32; kDirAcc = 32 :: u32; kDirectionBlendA = 33 :: u32; kDirectionBlendB = 34 :: u32;
       kActiveBlend = 35 :: u32; kbDirBlendA = 36 :: u32; kbDirBlendB = 37 :: u32; kblendThresh = 38 :: u32;
       kblendAttack = 39 :: u32; kbHeadTracking = 40 :: u32; kTargetLocation = 41 :: u32; kcamerafromx = 42 :: u32;
       kcamerafromy = 43 :: u32; kcamerafromz = 44 :: u32; kiGetUpType = 45 :: u32; kstaggerDirection = 46 :: u32;
       kbForceIdleStop = 47 :: u32
     in (12972242470338891659, \<lparr>ad_booleans =
        [kbAnimationDriven, kIsAttackReady, kbAllowRotation, kbHeadTrackingOff, kisMoving, kIsAttacking],
      ad_floats =
        [kTurnDelta, kDirection, kSpeed, kSampledSpeed, kDirDamped, kDirectionBlendA],
      ad_integers =
        [kiSyncTurnState, kiSyncIdleLocomotion]\<rparr>))"

lemma described_troll_behavior [described]: "graph_troll_behavior = (12972242470338891659, \<lparr>ad_booleans =
        [4, 11, 15, 17, 28, 14],
      ad_floats = [1, 2, 3, 23, 30, 33],
      ad_integers = [0, 25]\<rparr>)"
  unfolding graph_troll_behavior_def Let_def by (rule refl)

definition graph_draugr_behavior :: "u64 \<times> descriptor" where
  "graph_draugr_behavior =
    (let kblendMoveStart = 0 :: u32; kblendMove1stP = 1 :: u32; kblendMoveStop = 2 :: u32; kTurnDelta = 3 :: u32;
       kblendDefault = 4 :: u32; kDirection = 5 :: u32; kSpeed = 6 :: u32; kiWantSprint = 7 :: u32;
       kiSyncTurnState = 8 :: u32; kiRightHandType = 9 :: u32; kiLeftHandType = 10 :: u32; kbIsSynced = 11 :: u32;
       kbAnimationDriven = 12 :: u32; kIsStaggering = 13 :: u32; kiSyncIdleLocomotion = 14 :: u32;
       kblendFast = 15 :: u32; kIsAttackReady = 16 :: u32; kbAllowRotation = 17 :: u32; kIsBlocking = 18 :: u32;
       kIsPlayer = 19 :: u32; kPitch = 20 :: u32; kIsFiringBow = 21 :: u32; kBowZoom = 22 :: u32;
       kBoolVariable = 23 :: u32; kIsEquipping = 24 :: u32; kIsUnequipping = 25 :: u32; kbWeapReady = 26 :: u32;
       kstaggerMagnitude = 27 :: u32; kcurrentDefaultState = 28 :: u32; kbEquipOk = 29 :: u32;
       kiWantBlock = 30 :: u32; ki1HMState = 31 :: u32; kIsBashing = 32 :: u32; kiState = 33 :: u32;
       kiState_DraugrDefault = 34 :: u32; kiState_DraugrBlocking = 35 :: u32; kSampledSpeed = 36 :: u32;
       kiEquippedItemState = 37 :: u32; kbMLh_Ready = 38 :: u32; kIsCastingLeft = 39 :: u32;
       kIsCastingRight = 40 :: u32; kInDualMagicState = 41 :: u32; kIsCastingDual = 42 :: u32;
       kIsInCastStateDamped = 43 :: u32; kIsBlockHit = 44 :: u32; kbWantCastLeft = 45 :: u32;
       kIsInCastState = 46 :: u32; kBlendAcc = 47 :: u32; kbInMoveState = 48 :: u32; kIsPowerAttacking = 49 :: u32;
       kbCastReady = 50 :: u32; kbVoiceReady = 51 :: u32; kbWantCastVoice = 52 :: u32; kTimeDelta = 53 :: u32;
       kiState_DraugrRanged = 54 :: u32; kiState_Draugr1HM = 55 :: u32; kiState_DraugrBattleAxe = 56 :: u32;
       kiState_DraugrGreatSword = 57 :: u32; kiState_DraugrH2H = 58 :: u32; kiState_DraugrBow = 59 :: u32;
       kiState_DraugrBowDrawn = 60 :: u32; kiState_Draugr2GSBlocking = 61 :: u32;
       kiState_Draugr2HMBlocking = 62 :: u32; kbHeadTrackingOn = 63 :: u32; kTargetLocation = 64 :: u32;
       kcamerafromx = 65 :: u32; kcamerafromy = 66 :: u32; kcamerafromz = 67 :: u32; kbCanHeadTrack = 68 :: u32;
       kIsBleedingOut = 69 :: u32; kbHeadTracking = 70 :: u32; kiState_DraugrShieldBlocking = 71 :: u32;
       kblendCyclic = 72 :: u32; kstaggerDirection = 73 :: u32; kbInFurniture = 74 :: u32; kiGetUpType = 75 :: u32;
       ktest = 76 :: u32
     in (1556693752012287718, \<lparr>ad_booleans =
        [kbAnimationDriven, kIsAttackReady, kbAllowRotation, kIsFiringBow, kIsEquipping, kIsUnequipping, kbWeapReady,
         kbEquipOk, kbMLh_Ready, kbCastReady, kbCanHeadTrack, kbHeadTracking],
      ad_floats =
        [kTurnDelta, kDirection, kSpeed, kSampledSpeed],
      ad_integers =
        [kiSyncTurnState, kiRightHandType, kiLeftHandType, kiSyncIdleLocomotion, kcurrentDefaultState, kiState]\<rparr>))"

lemma described_draugr_behavior [described]: "graph_draugr_behavior = (1556693752012287718, \<lparr>ad_booleans =
        [12, 16, 17, 21, 24, 25, 26, 29, 38, 50, 68, 70],
      ad_floats = [3, 5, 6, 36],
      ad_integers = [8, 9, 10, 14, 28, 33]\<rparr>)"
  unfolding graph_draugr_behavior_def Let_def by (rule refl)

definition graph_giant_root_behavior :: "u64 \<times> descriptor" where
  "graph_giant_root_behavior =
    (let kiSyncIdleLocomotion = 0 :: u32; kSpeed = 1 :: u32; kDirection = 2 :: u32; kbAnimationDriven = 3 :: u32;
       kblendDefault = 4 :: u32; kIsAttacking = 5 :: u32; kblendFast = 6 :: u32; kTurnDelta = 7 :: u32;
       kiSyncTurnState = 8 :: u32; kIsAttackReady = 9 :: u32; kIsRecoiling = 10 :: u32; kIsStaggering = 11 :: u32;
       kstaggerMagnitude = 12 :: u32; kTargetLocation = 13 :: u32; kIsBleedingOut = 14 :: u32; kblendSlow = 15 :: u32;
       kFootIKEnable = 16 :: u32; km_onOffGain = 17 :: u32; km_groundAscendingGain = 18 :: u32;
       km_groundDescendingGain = 19 :: u32; km_footPlantedGain = 20 :: u32; km_footRaisedGain = 21 :: u32;
       km_footUnlockGain = 22 :: u32; km_worldFromModelFeedbackGain = 23 :: u32; km_errorUpDownBias = 24 :: u32;
       km_alignWorldFromModelGain = 25 :: u32; km_hipOrientationGain = 26 :: u32;
       km_footPlantedAnkleHeightMS = 27 :: u32; km_footRaisedAnkleHeightMS = 28 :: u32;
       km_maxAnkleHeightMS = 29 :: u32; km_minAnkleHeightMS = 30 :: u32; kbEquipOk = 31 :: u32;
       kiSyncDefaultState = 32 :: u32; kbHeadTrackingOn = 33 :: u32; kbCanHeadTrack = 34 :: u32;
       kfMinSpeed = 35 :: u32; kfMinTurnSpeed = 36 :: u32; kiState = 37 :: u32; kiState_GiantDefault = 38 :: u32;
       km_footEndLS = 39 :: u32; kSpeedSampled = 40 :: u32; kIsBashing = 41 :: u32;
       kiState_GiantCombatRun = 42 :: u32; kcamerafromx = 43 :: u32; kcamerafromy = 44 :: u32;
       kcamerafromz = 45 :: u32; kDirectionDamped = 46 :: u32; kDirectionGain = 47 :: u32; kIsRooting = 48 :: u32;
       km_raycastDistanceUp = 49 :: u32; km_raycastDistanceDown = 50 :: u32; kstaggerDirection = 51 :: u32;
       km_errorOutTranslation = 52 :: u32; kbAllowRotation = 53 :: u32; kiGetUpType = 54 :: u32;
       kbHeadTracking = 55 :: u32; kbIsSynced = 56 :: u32; kiStateRunWalk = 57 :: u32;
       kiState_GiantCombatWalk = 58 :: u32; kiStateCurrent = 59 :: u32; kIsBleedingOutTransition = 60 :: u32
     in (14787123347890181413, \<lparr>ad_booleans =
        [kbAnimationDriven, kIsAttackReady, kIsStaggering, kbEquipOk, kbHeadTrackingOn, kbAllowRotation],
      ad_floats =
        [kSpeed, kDirection, kTurnDelta, kSpeedSampled],
      ad_integers =
        [kiSyncIdleLocomotion, kiSyncDefaultState, kiSyncTurnState, kiState, kiStateCurrent]\<rparr>))"

lemma described_giant_root_behavior [described]: "graph_giant_root_behavior = (14787123347890181413, \<lparr>ad_booleans =
        [3, 9, 11, 31, 33, 53],
      ad_floats = [1, 2, 7, 40],
      ad_integers = [0, 32, 8, 37, 59]\<rparr>)"
  unfolding graph_giant_root_behavior_def Let_def by (rule refl)

definition graph_dog_root_behavior :: "u64 \<times> descriptor" where
  "graph_dog_root_behavior =
    (let kiSyncIdleLocomotion = 0 :: u32; kblendDefault = 1 :: u32; kfMinSpeed = 2 :: u32; kSpeed = 3 :: u32;
       kiSyncTurnState = 4 :: u32; kiSyncForwardState = 5 :: u32; kTurnDelta = 6 :: u32; kfMinTurnDelta = 7 :: u32;
       kturnSpeedMult = 8 :: u32; kiCombatStance = 9 :: u32; ktest = 10 :: u32; kbHeadTrackingOn = 11 :: u32;
       kTargetLocation = 12 :: u32; kFootIKEnable = 13 :: u32; km_onOffGain = 14 :: u32;
       km_groundAscendingGain = 15 :: u32; km_groundDescendingGain = 16 :: u32; km_footPlantedGain = 17 :: u32;
       km_footRaisedGain = 18 :: u32; km_footUnlockGain = 19 :: u32; km_worldFromModelFeedbackGain = 20 :: u32;
       km_errorUpDownBias = 21 :: u32; km_alignWorldFromModelGain = 22 :: u32; km_hipOrientationGain = 23 :: u32;
       km_footPlantedAnkleHeightMS = 24 :: u32; km_footRaisedAnkleHeightMS = 25 :: u32;
       km_maxAnkleHeightMS = 26 :: u32; km_minAnkleHeightMS = 27 :: u32; kblendFast = 28 :: u32;
       kbAnimationDriven = 29 :: u32; kbAllowRotation = 30 :: u32; kbHeadTracking = 31 :: u32;
       kbDisableHeadTrack = 32 :: u32; kIsRecoiling = 33 :: u32; kIsStaggering = 34 :: u32; kIsAttacking = 35 :: u32;
       kbIsWolf = 36 :: u32; kstaggerMagnitude = 37 :: u32; kIsBleedingOut = 38 :: u32; kbIsSynced = 39 :: u32;
       kbEquipOk = 40 :: u32; kbCanHeadTrack = 41 :: u32; kblendSlow = 42 :: u32; kisIdleSitting = 43 :: u32;
       kbMirroredAttack = 44 :: u32; kiState = 45 :: u32; kiState_DogDefault = 46 :: u32; kbSkeeverLunge = 47 :: u32;
       kiCharacterSelector = 48 :: u32; kfMinMoveSpeed = 49 :: u32; kDirection = 50 :: u32; kiIsCanine = 51 :: u32;
       kiTurnMirrored = 52 :: u32; kIsAttackReady = 53 :: u32; kTurnDeltaDamped = 54 :: u32;
       kSpeedSampled = 55 :: u32; kIsBashing = 56 :: u32; kwalkBackRate = 57 :: u32; kiMovementSpeed = 58 :: u32;
       kisIdleLay = 59 :: u32; kstaggerDirection = 60 :: u32; kbFootIKDisable = 61 :: u32; kiGetUpType = 62 :: u32;
       kbForceIdleStop = 63 :: u32; kiState_DogRun = 64 :: u32; kiState_CowDefault = 65 :: u32;
       kiState_WolfDefault = 66 :: u32; kiState_SabreCatDefault = 67 :: u32; kiState_SkeeverDefault = 68 :: u32;
       kiState_SkeeverLunge = 69 :: u32; kiState_HorseDefault = 70 :: u32; kiState_BearDefault = 71 :: u32;
       kiState_DeerDefault = 72 :: u32; kiState_GoatDefault = 73 :: u32; kiState_HorkerDefault = 74 :: u32;
       kiState_MammothDefault = 75 :: u32; kiState_HorseSprint = 76 :: u32; kiSyncSprintState = 77 :: u32;
       kfTwistDirection = 78 :: u32; kOldDirection = 79 :: u32; kbNoHeadTrack = 80 :: u32; kcamerafromx = 81 :: u32;
       kcamerafromy = 82 :: u32; kcamerafromz = 83 :: u32; kwalkBackSpeedMult = 84 :: u32;
       kIsSideAttacking = 85 :: u32; kbFootIKEnable = 86 :: u32; kiState_CowSwimDefault = 87 :: u32;
       kiState_HorkerSwimDefault = 88 :: u32; kiState_BearSwimDefault = 89 :: u32; kisSwimming = 90 :: u32;
       kisMoving = 91 :: u32; kiState_DeerDefaultRun = 92 :: u32
     in (16093192286272613165, \<lparr>ad_booleans =
        [kbHeadTrackingOn, kbAnimationDriven, kbAllowRotation, kbHeadTracking, kbDisableHeadTrack, kIsStaggering,
         kIsAttacking, kbEquipOk, kbSkeeverLunge, kbFootIKEnable, kisMoving],
      ad_floats =
        [kSpeed, kTurnDelta, kturnSpeedMult, kDirection, kTurnDeltaDamped, kSpeedSampled, kwalkBackSpeedMult],
      ad_integers =
        [kiSyncIdleLocomotion, kiSyncTurnState, kiSyncForwardState, kiCombatStance, kiMovementSpeed]\<rparr>))"

lemma described_dog_root_behavior [described]: "graph_dog_root_behavior = (16093192286272613165, \<lparr>ad_booleans =
        [11, 29, 30, 31, 32, 34, 35, 40, 47, 86, 91],
      ad_floats = [3, 6, 8, 50, 54, 55, 84],
      ad_integers = [0, 4, 5, 9, 58]\<rparr>)"
  unfolding graph_dog_root_behavior_def Let_def by (rule refl)

definition graph_cow_root_behavior :: "u64 \<times> descriptor" where
  "graph_cow_root_behavior =
    (let kiSyncIdleLocomotion = 0 :: u32; kblendDefault = 1 :: u32; kfMinSpeed = 2 :: u32; kSpeed = 3 :: u32;
       kiSyncTurnState = 4 :: u32; kiSyncForwardState = 5 :: u32; kTurnDelta = 6 :: u32; kfMinTurnDelta = 7 :: u32;
       kturnSpeedMult = 8 :: u32; kiCombatStance = 9 :: u32; ktest = 10 :: u32; kbHeadTrackingOn = 11 :: u32;
       kTargetLocation = 12 :: u32; kFootIKEnable = 13 :: u32; km_onOffGain = 14 :: u32;
       km_groundAscendingGain = 15 :: u32; km_groundDescendingGain = 16 :: u32; km_footPlantedGain = 17 :: u32;
       km_footRaisedGain = 18 :: u32; km_footUnlockGain = 19 :: u32; km_worldFromModelFeedbackGain = 20 :: u32;
       km_errorUpDownBias = 21 :: u32; km_alignWorldFromModelGain = 22 :: u32; km_hipOrientationGain = 23 :: u32;
       km_footPlantedAnkleHeightMS = 24 :: u32; km_footRaisedAnkleHeightMS = 25 :: u32;
       km_maxAnkleHeightMS = 26 :: u32; km_minAnkleHeightMS = 27 :: u32; kblendFast = 28 :: u32;
       kbAnimationDriven = 29 :: u32; kbAllowRotation = 30 :: u32; kbHeadTracking = 31 :: u32;
       kbDisableHeadTrack = 32 :: u32; kIsRecoiling = 33 :: u32; kIsStaggering = 34 :: u32; kIsAttacking = 35 :: u32;
       kbIsWolf = 36 :: u32; kstaggerMagnitude = 37 :: u32; kIsBleedingOut = 38 :: u32; kbIsSynced = 39 :: u32;
       kbEquipOk = 40 :: u32; kbCanHeadTrack = 41 :: u32; kblendSlow = 42 :: u32; kisIdleSitting = 43 :: u32;
       kbMirroredAttack = 44 :: u32; kiState = 45 :: u32; kiState_CowDefault = 46 :: u32; kbSkeeverLunge = 47 :: u32;
       kiCharacterSelector = 48 :: u32; kfMinMoveSpeed = 49 :: u32; kDirection = 50 :: u32; kiIsCanine = 51 :: u32;
       kiTurnMirrored = 52 :: u32; kIsAttackReady = 53 :: u32; kTurnDeltaDamped = 54 :: u32;
       kSpeedSampled = 55 :: u32; kIsBashing = 56 :: u32; kbNoHeadTrack = 57 :: u32; kwalkBackRate = 58 :: u32;
       kiState_CowSiwmDefault = 59 :: u32; kiGetUpType = 60 :: u32; kiState_DogDefault = 61 :: u32;
       kiState_WolfDefault = 62 :: u32; kiState_SabreCatDefault = 63 :: u32; kiState_SkeeverDefault = 64 :: u32;
       kiState_SkeeverLunge = 65 :: u32; kiState_HorseDefault = 66 :: u32; kiState_BearDefault = 67 :: u32;
       kiState_DeerDefault = 68 :: u32; kiState_GoatDefault = 69 :: u32; kiState_HorkerDefault = 70 :: u32;
       kiState_MammothDefault = 71 :: u32; kiState_HorseSprint = 72 :: u32; kiSyncSprintState = 73 :: u32;
       kfTwistDirection = 74 :: u32; kOldDirection = 75 :: u32; kcamerafromx = 76 :: u32; kcamerafromy = 77 :: u32;
       kcamerafromz = 78 :: u32; kwalkBackSpeedMult = 79 :: u32; kiMovementSpeed = 80 :: u32;
       kIsSideAttacking = 81 :: u32; kisIdleLay = 82 :: u32; kstaggerDirection = 83 :: u32;
       kbFootIKEnable = 84 :: u32; kiState_CowSwimDefault = 85 :: u32; kiState_HorkerSwimDefault = 86 :: u32;
       kiState_BearSwimDefault = 87 :: u32; kisSwimming = 88 :: u32; kisMoving = 89 :: u32;
       kbForceIdleStop = 90 :: u32; kiState_DeerDefaultRun = 91 :: u32; kSlowBlend = 92 :: u32
     in (17103635255379484992, \<lparr>ad_booleans =
        [kbHeadTrackingOn, kbAnimationDriven, kbAllowRotation, kbHeadTracking, kbDisableHeadTrack, kIsRecoiling,
         kIsStaggering, kIsAttacking, kbSkeeverLunge, kbFootIKEnable, kisMoving],
      ad_floats =
        [kSpeed, kTurnDelta, kturnSpeedMult, kDirection, kTurnDeltaDamped, kSpeedSampled],
      ad_integers =
        [kiSyncIdleLocomotion, kiSyncTurnState, kiSyncForwardState, kiMovementSpeed]\<rparr>))"

lemma described_cow_root_behavior [described]: "graph_cow_root_behavior = (17103635255379484992, \<lparr>ad_booleans =
        [11, 29, 30, 31, 32, 33, 34, 35, 47, 84, 89],
      ad_floats = [3, 6, 8, 50, 54, 55],
      ad_integers = [0, 4, 5, 80]\<rparr>)"
  unfolding graph_cow_root_behavior_def Let_def by (rule refl)

definition graph_goat_root_behavior :: "u64 \<times> descriptor" where
  "graph_goat_root_behavior =
    (let kiSyncIdleLocomotion = 0 :: u32; kblendDefault = 1 :: u32; kfMinSpeed = 2 :: u32; kSpeed = 3 :: u32;
       kiSyncTurnState = 4 :: u32; kiSyncForwardState = 5 :: u32; kTurnDelta = 6 :: u32; kfMinTurnDelta = 7 :: u32;
       kturnSpeedMult = 8 :: u32; kiCombatStance = 9 :: u32; ktest = 10 :: u32; kbHeadTrackingOn = 11 :: u32;
       kTargetLocation = 12 :: u32; kFootIKEnable = 13 :: u32; km_onOffGain = 14 :: u32;
       km_groundAscendingGain = 15 :: u32; km_groundDescendingGain = 16 :: u32; km_footPlantedGain = 17 :: u32;
       km_footRaisedGain = 18 :: u32; km_footUnlockGain = 19 :: u32; km_worldFromModelFeedbackGain = 20 :: u32;
       km_errorUpDownBias = 21 :: u32; km_alignWorldFromModelGain = 22 :: u32; km_hipOrientationGain = 23 :: u32;
       km_footPlantedAnkleHeightMS = 24 :: u32; km_footRaisedAnkleHeightMS = 25 :: u32;
       km_maxAnkleHeightMS = 26 :: u32; km_minAnkleHeightMS = 27 :: u32; kblendFast = 28 :: u32;
       kbAnimationDriven = 29 :: u32; kbAllowRotation = 30 :: u32; kbHeadTracking = 31 :: u32;
       kbDisableHeadTrack = 32 :: u32; kIsRecoiling = 33 :: u32; kIsStaggering = 34 :: u32; kIsAttacking = 35 :: u32;
       kbIsWolf = 36 :: u32; kstaggerMagnitude = 37 :: u32; kIsBleedingOut = 38 :: u32; kbIsSynced = 39 :: u32;
       kbEquipOk = 40 :: u32; kbCanHeadTrack = 41 :: u32; kblendSlow = 42 :: u32; kisIdleSitting = 43 :: u32;
       kbMirroredAttack = 44 :: u32; kiState = 45 :: u32; kiState_GoatDefault = 46 :: u32; kbSkeeverLunge = 47 :: u32;
       kiCharacterSelector = 48 :: u32; kfMinMoveSpeed = 49 :: u32; kDirection = 50 :: u32; kiIsCanine = 51 :: u32;
       kiTurnMirrored = 52 :: u32; kIsAttackReady = 53 :: u32; kTurnDeltaDamped = 54 :: u32; kIsBashing = 55 :: u32;
       kbNoHeadTrack = 56 :: u32; kcamerafromx = 57 :: u32; kcamerafromy = 58 :: u32; kcamerafromz = 59 :: u32;
       kwalkBackRate = 60 :: u32; kiGetUpType = 61 :: u32; kiState_CowDefault = 62 :: u32;
       kiState_DogDefault = 63 :: u32; kiState_WolfDefault = 64 :: u32; kiState_SabreCatDefault = 65 :: u32;
       kiState_SkeeverDefault = 66 :: u32; kiState_SkeeverLunge = 67 :: u32; kiState_HorseDefault = 68 :: u32;
       kiState_BearDefault = 69 :: u32; kiState_DeerDefault = 70 :: u32; kiState_HorkerDefault = 71 :: u32;
       kiState_MammothDefault = 72 :: u32; kiState_HorseSprint = 73 :: u32; kiSyncSprintState = 74 :: u32;
       kfTwistDirection = 75 :: u32; kOldDirection = 76 :: u32; kSpeedSampled = 77 :: u32;
       kwalkBackSpeedMult = 78 :: u32; kiMovementSpeed = 79 :: u32; kIsSideAttacking = 80 :: u32;
       kisIdleLay = 81 :: u32; kstaggerDirection = 82 :: u32; kbFootIKEnable = 83 :: u32;
       kiState_CowSwimDefault = 84 :: u32; kiState_HorkerSwimDefault = 85 :: u32; kiState_BearSwimDefault = 86 :: u32;
       kisSwimming = 87 :: u32; kisMoving = 88 :: u32; kbForceIdleStop = 89 :: u32;
       kiState_DeerDefaultRun = 90 :: u32; kSlowBlend = 91 :: u32
     in (5260053452598805463, \<lparr>ad_booleans =
        [kbHeadTrackingOn, kbAnimationDriven, kbAllowRotation, kbHeadTracking, kbDisableHeadTrack, kIsRecoiling,
         kIsStaggering, kIsAttacking, kbSkeeverLunge, kbFootIKEnable, kisMoving],
      ad_floats =
        [kSpeed, kTurnDelta, kturnSpeedMult, kDirection, kTurnDeltaDamped, kSpeedSampled, kwalkBackSpeedMult],
      ad_integers =
        [kiSyncIdleLocomotion, kiSyncTurnState, kiSyncForwardState, kiMovementSpeed]\<rparr>))"

lemma described_goat_root_behavior [described]: "graph_goat_root_behavior = (5260053452598805463, \<lparr>ad_booleans =
        [11, 29, 30, 31, 32, 33, 34, 35, 47, 83, 88],
      ad_floats = [3, 6, 8, 50, 54, 77, 78],
      ad_integers = [0, 4, 5, 79]\<rparr>)"
  unfolding graph_goat_root_behavior_def Let_def by (rule refl)

definition graph_horse_root_behavior :: "u64 \<times> descriptor" where
  "graph_horse_root_behavior =
    (let kiSyncIdleLocomotion = 0 :: u32; kblendDefault = 1 :: u32; kfMinSpeed = 2 :: u32; kSpeed = 3 :: u32;
       kiSyncTurnDirection = 4 :: u32; kiSyncForwardState = 5 :: u32; kTurnDelta = 6 :: u32;
       kfMinTurnDelta = 7 :: u32; kturnSpeedMult = 8 :: u32; kiCombatStance = 9 :: u32; kbHeadTrackingOn = 10 :: u32;
       kTargetLocation = 11 :: u32; km_onOffGain = 12 :: u32; km_groundAscendingGain = 13 :: u32;
       km_groundDescendingGain = 14 :: u32; km_footPlantedGain = 15 :: u32; km_footRaisedGain = 16 :: u32;
       km_footUnlockGain = 17 :: u32; km_worldFromModelFeedbackGain = 18 :: u32; km_errorUpDownBias = 19 :: u32;
       km_alignWorldFromModelGain = 20 :: u32; km_hipOrientationGain = 21 :: u32;
       km_footPlantedAnkleHeightMS = 22 :: u32; km_footRaisedAnkleHeightMS = 23 :: u32;
       km_maxAnkleHeightMS = 24 :: u32; km_minAnkleHeightMS = 25 :: u32; kblendFast = 26 :: u32;
       kbAnimationDriven = 27 :: u32; kbAllowRotation = 28 :: u32; kbHeadTracking = 29 :: u32;
       kbDisableHeadTrack = 30 :: u32; kIsRecoiling = 31 :: u32; kIsStaggering = 32 :: u32; kIsAttacking = 33 :: u32;
       kstaggerMagnitude = 34 :: u32; kIsBleedingOut = 35 :: u32; kbIsSynced = 36 :: u32; kbEquipOk = 37 :: u32;
       kbCanHeadTrack = 38 :: u32; kblendVerySlow = 39 :: u32; kisIdleSitting = 40 :: u32;
       kbMirroredAttack = 41 :: u32; kiState = 42 :: u32; kiCharacterSelector = 43 :: u32; kfMinMoveSpeed = 44 :: u32;
       kDirection = 45 :: u32; kIsAttackReady = 46 :: u32; kiState_HorseDefault = 47 :: u32;
       kTurnDeltaDamped = 48 :: u32; kiSyncSprintState = 49 :: u32; kiState_HorseSprint = 50 :: u32;
       kfTwistDirection = 51 :: u32; kIsSprinting = 52 :: u32; kHorseSpeedSampled = 53 :: u32;
       kDirectionDamped = 54 :: u32; kDirectionRange = 55 :: u32; kDirectionRangeDamped = 56 :: u32;
       kIsBashing = 57 :: u32; kIsDismounting = 58 :: u32; kblendFromAnimDriven = 59 :: u32;
       kwalkBackRate = 60 :: u32; kwalkBackSpeedMult = 61 :: u32; kcamerafromx = 62 :: u32; kcamerafromy = 63 :: u32;
       kcamerafromz = 64 :: u32; kbInJumpState = 65 :: u32; kiState_HorseFall = 66 :: u32; kiGetUpType = 67 :: u32;
       kbInSwimState = 68 :: u32; kiState_HorseSwim = 69 :: u32; kstaggerDirection = 70 :: u32;
       kblendSlow = 71 :: u32; kbForceIdleStop = 72 :: u32; kbHorseFootIKEnable = 73 :: u32;
       kbNoHeadTrack = 74 :: u32; kisMoving = 75 :: u32
     in (3064138997224155673, \<lparr>ad_booleans =
        [kbHeadTrackingOn, kbAnimationDriven, kbAllowRotation, kbHeadTracking, kbDisableHeadTrack, kIsRecoiling,
         kIsStaggering, kIsAttacking, kisMoving, kIsSprinting, kbHorseFootIKEnable],
      ad_floats =
        [kSpeed, kTurnDelta, kturnSpeedMult, kDirection, kTurnDeltaDamped, kwalkBackSpeedMult, kHorseSpeedSampled],
      ad_integers =
        [kiSyncIdleLocomotion, kiSyncForwardState, kiCombatStance, kiState, kiSyncSprintState]\<rparr>))"

lemma described_horse_root_behavior [described]: "graph_horse_root_behavior = (3064138997224155673, \<lparr>ad_booleans =
        [10, 27, 28, 29, 30, 31, 32, 33, 75, 52, 73],
      ad_floats = [3, 6, 8, 45, 48, 61, 53],
      ad_integers = [0, 5, 9, 42, 49]\<rparr>)"
  unfolding graph_horse_root_behavior_def Let_def by (rule refl)

definition graph_atronach_frost_root_behavior :: "u64 \<times> descriptor" where
  "graph_atronach_frost_root_behavior =
    (let kDefaultBlend = 0 :: u32; kDirection = 1 :: u32; kiSyncIdleLocomotion = 2 :: u32; kSpeed = 3 :: u32;
       kIsStaggering = 4 :: u32; kbEquipOk = 5 :: u32; kIsRecoiling = 6 :: u32; kbAnimationDriven = 7 :: u32;
       kIsAttackReady = 8 :: u32; kIsAttacking = 9 :: u32; kbAllowRotation = 10 :: u32; kfMinSpeed = 11 :: u32;
       kstaggerMagnitude = 12 :: u32; kiSyncDefaultState = 13 :: u32; kFastBlend = 14 :: u32; kIsBlocking = 15 :: u32;
       kIsBashing = 16 :: u32; kiWantBlock = 17 :: u32; kiState_AtronachFrostBlocking = 18 :: u32;
       kiState = 19 :: u32; kiState_AtronachFrostDefault = 20 :: u32; kTurnDelta = 21 :: u32;
       kiSyncTurnState = 22 :: u32; kTurnDamped = 23 :: u32; kSpeedAcc = 24 :: u32; kTimeDelta = 25 :: u32;
       kIsSummoned = 26 :: u32; km_onOffGain = 27 :: u32; km_groundAscendingGain = 28 :: u32;
       km_groundDescendingGain = 29 :: u32; km_footPlantedGain = 30 :: u32; km_footRaisedGain = 31 :: u32;
       km_footUnlockGain = 32 :: u32; km_worldFromModelFeedbackGain = 33 :: u32; km_errorUpDownBias = 34 :: u32;
       km_alignWorldFromModelGain = 35 :: u32; km_hipOrientationGain = 36 :: u32;
       km_footPlantedAnkleHeightMS = 37 :: u32; km_footRaisedAnkleHeightMS = 38 :: u32;
       km_maxAnkleHeightMS = 39 :: u32; km_minAnkleHeightMS = 40 :: u32; kFootIKEnable = 41 :: u32;
       kSpeedDamped = 42 :: u32; kIsBlockHit = 43 :: u32; kiWantBlockFalse = 44 :: u32; kSpeedSampled = 45 :: u32;
       kstaggerDirection = 46 :: u32; kiGetUpType = 47 :: u32
     in (14566708169643289121, \<lparr>ad_booleans =
        [kbEquipOk, kbAnimationDriven, kIsAttackReady, kbAllowRotation, kIsRecoiling, kIsStaggering, kIsAttacking],
      ad_floats =
        [kSpeed, kTurnDelta, kDirection, kSpeedSampled],
      ad_integers =
        [kiSyncIdleLocomotion, kiSyncTurnState]\<rparr>))"

lemma described_atronach_frost_root_behavior [described]: "graph_atronach_frost_root_behavior = (14566708169643289121, \<lparr>ad_booleans =
        [5, 7, 8, 10, 6, 4, 9],
      ad_floats = [3, 21, 1, 45],
      ad_integers = [2, 22]\<rparr>)"
  unfolding graph_atronach_frost_root_behavior_def Let_def by (rule refl)

definition graph_atronach_storm_behavior :: "u64 \<times> descriptor" where
  "graph_atronach_storm_behavior =
    (let kblendDefault = 0 :: u32; kiSyncIdleLocomotion = 1 :: u32; kblendSlow = 2 :: u32; kSpeed = 3 :: u32;
       kDirection = 4 :: u32; kIsStaggering = 5 :: u32; kIsRecoiling = 6 :: u32; kbEquipOk = 7 :: u32;
       kiState = 8 :: u32; kiState_AtronachStormDefault = 9 :: u32; kIsAttackReady = 10 :: u32;
       kbHeadTracking = 11 :: u32; kblendFast = 12 :: u32; kCombatSpeedMult = 13 :: u32; kIsAttacking = 14 :: u32;
       kiSyncDefaultState = 15 :: u32; kDirectionDamped = 16 :: u32; kSpeedAcc = 17 :: u32; kTimeDelta = 18 :: u32;
       kbAllowRotation = 19 :: u32; kstaggerMagnitude = 20 :: u32; kbAnimationDriven = 21 :: u32;
       kbMLh_Ready = 22 :: u32; kisCasting = 23 :: u32; kbWantCastLeft = 24 :: u32; kiLeftHandType = 25 :: u32;
       kIsSummoned = 26 :: u32; kIsBashing = 27 :: u32; kIsPowerAttacking = 28 :: u32; kstaggerDirection = 29 :: u32;
       kiCombatStateID = 30 :: u32; kiGetUpType = 31 :: u32
     in (9011796343880008240, \<lparr>ad_booleans =
        [kbEquipOk, kbWantCastLeft, kbAnimationDriven, kIsAttackReady, kbMLh_Ready, kbWantCastLeft, kisCasting,
         kbAllowRotation, kIsRecoiling, kIsStaggering, kIsAttacking],
      ad_floats =
        [kSpeed, kDirection],
      ad_integers =
        [kiSyncIdleLocomotion, kiSyncDefaultState, kiCombatStateID]\<rparr>))"

lemma described_atronach_storm_behavior [described]: "graph_atronach_storm_behavior = (9011796343880008240, \<lparr>ad_booleans =
        [7, 24, 21, 10, 22, 24, 23, 19, 6, 5, 14],
      ad_floats = [3, 4],
      ad_integers = [1, 15, 30]\<rparr>)"
  unfolding graph_atronach_storm_behavior_def Let_def by (rule refl)

definition graph_steam_behavior :: "u64 \<times> descriptor" where
  "graph_steam_behavior =
    (let kcurrentDefaultState = 0 :: u32; kiSyncIdleLocomotion = 1 :: u32; kiSyncTurnState = 2 :: u32;
       kTurnDelta = 3 :: u32; kiState = 4 :: u32; kiState_SteamDefault = 5 :: u32; kDirection = 6 :: u32;
       kSampledSpeed = 7 :: u32; kSpeed = 8 :: u32; kiLeftHandType = 9 :: u32; kiRightHandType = 10 :: u32;
       kbAnimationDriven = 11 :: u32; kIsRecoiling = 12 :: u32; kIsStaggering = 13 :: u32; kIsAttacking = 14 :: u32;
       kbAllowRotation = 15 :: u32; kbEquipOk = 16 :: u32; kIsEquipping = 17 :: u32; kIsUnequipping = 18 :: u32;
       kbWeapReady = 19 :: u32; kIsAttackReady = 20 :: u32; kiState_SteamCombat = 21 :: u32; kIsBlocking = 22 :: u32;
       kstaggerMagnitude = 23 :: u32; kIsBashing = 24 :: u32; kbAttached = 25 :: u32; kisCasting = 26 :: u32;
       kbWantCastVoice = 27 :: u32; kbMLh_Ready = 28 :: u32; kInt32Variable = 29 :: u32;
       kstaggerDirection = 30 :: u32; kIsShouting = 31 :: u32; kiGetUpType = 32 :: u32; kbVoiceReady = 33 :: u32;
       kbHeadTrackingOn = 34 :: u32; kTargetLocation = 35 :: u32; kcamerafromx = 36 :: u32; kcamerafromy = 37 :: u32;
       kcamerafromz = 38 :: u32; kbCastReady = 39 :: u32; kbIsSynced = 40 :: u32
     in (12323911819758128165, \<lparr>ad_booleans =
        [kbEquipOk, kbAnimationDriven, kIsAttackReady, kbAllowRotation, kIsRecoiling, kIsStaggering, kIsAttacking,
         kbVoiceReady, kbWeapReady, kIsShouting, kbAttached, kbWantCastVoice],
      ad_floats =
        [kTurnDelta, kSpeed, kSampledSpeed, kDirection],
      ad_integers =
        [kcurrentDefaultState, kiSyncIdleLocomotion, kiSyncTurnState]\<rparr>))"

lemma described_steam_behavior [described]: "graph_steam_behavior = (12323911819758128165, \<lparr>ad_booleans =
        [16, 11, 20, 15, 12, 13, 14, 33, 19, 31, 25, 27],
      ad_floats = [3, 8, 7, 6],
      ad_integers = [0, 1, 2]\<rparr>)"
  unfolding graph_steam_behavior_def Let_def by (rule refl)

definition graph_falmer_master_behavior :: "u64 \<times> descriptor" where
  "graph_falmer_master_behavior =
    (let kiSyncIdleLocomotion = 0 :: u32; kiSyncTurnState = 1 :: u32; kSpeed = 2 :: u32; kblendDefault = 3 :: u32;
       kDirection = 4 :: u32; kbEquipOk = 5 :: u32; kiRightHandType = 6 :: u32; kiWantBlock = 7 :: u32;
       kiLeftHandType = 8 :: u32; kiEquippedItemState = 9 :: u32; kIsAttackReady = 10 :: u32;
       kIsRecoiling = 11 :: u32; kIsStaggering = 12 :: u32; kbWeapReady = 13 :: u32; kIsAttacking = 14 :: u32;
       kcurrentDefaultState = 15 :: u32; kblendFast = 16 :: u32; kbAnimationDriven = 17 :: u32;
       kstaggerMagnitude = 18 :: u32; kbAllowRotation = 19 :: u32; kbHeadTracking = 20 :: u32;
       kTargetLocation = 21 :: u32; kbHeadTrackingOn = 22 :: u32; kbCanHeadTrack = 23 :: u32; kIsBlocking = 24 :: u32;
       kiBlockState = 25 :: u32; kiSyncAttackStance = 26 :: u32; kIsBashing = 27 :: u32; kFootIKEnable = 28 :: u32;
       km_onOffGain = 29 :: u32; km_groundAscendingGain = 30 :: u32; km_groundDescendingGain = 31 :: u32;
       km_footPlantedGain = 32 :: u32; km_footRaisedGain = 33 :: u32; km_footUnlockGain = 34 :: u32;
       km_worldFromModeFeedbackGain = 35 :: u32; km_errorUpDownBias = 36 :: u32;
       km_alignWorldFromModelGain = 37 :: u32; km_hipOrientationGain = 38 :: u32;
       km_footPlantedAnkleHeightMS = 39 :: u32; km_footRaisedAnkleHeightMS = 40 :: u32;
       km_maxAnkleHeightMS = 41 :: u32; km_minAnkleHeightMS = 42 :: u32; km_footEndLS = 43 :: u32;
       kiState = 44 :: u32; kSpeedDamped = 45 :: u32; kTurnDelta = 46 :: u32; kIsFiringBow = 47 :: u32;
       kPitch = 48 :: u32; kSpeedSampled = 49 :: u32; kisCasting = 50 :: u32; kbWantCastLeft = 51 :: u32;
       kbMLh_Ready = 52 :: u32; kiState_FalmerDefault = 53 :: u32; kturnSpeedMult = 54 :: u32;
       kIsUnequipping = 55 :: u32; kIsBleedingOut = 56 :: u32; kcamerafromx = 57 :: u32; kcamerafromy = 58 :: u32;
       kcamerafromz = 59 :: u32; kiGetUpType = 60 :: u32; kbIsSynced = 61 :: u32; kstaggerDirection = 62 :: u32;
       kiState_FalmerBowDrawn = 63 :: u32; kIsSquatting = 64 :: u32; kiCombatState = 65 :: u32;
       kiLeftHandEquipped = 66 :: u32; kiStateRunWalk = 67 :: u32; kiStateCurrent = 68 :: u32;
       kiState_Falmer1HMRun = 69 :: u32; kiState_Falmer1HMWalk = 70 :: u32; kInt8Variable = 71 :: u32;
       kbWantCastRight = 72 :: u32; kbMRh_Ready = 73 :: u32
     in (3009402738794250552, \<lparr>ad_booleans =
        [kbEquipOk, kbAnimationDriven, kIsAttackReady, kIsBlocking, kbAllowRotation, kIsRecoiling, kIsStaggering,
         kIsAttacking, kbHeadTracking, kbWeapReady, kIsBashing],
      ad_floats =
        [kSpeed, kTurnDelta, kDirection, kSpeedSampled],
      ad_integers =
        [kcurrentDefaultState, kiSyncIdleLocomotion, kiSyncTurnState, kiCombatState]\<rparr>))"

lemma described_falmer_master_behavior [described]: "graph_falmer_master_behavior = (3009402738794250552, \<lparr>ad_booleans =
        [5, 17, 10, 24, 19, 11, 12, 14, 20, 13, 27],
      ad_floats = [2, 46, 4, 49],
      ad_integers = [15, 0, 1, 65]\<rparr>)"
  unfolding graph_falmer_master_behavior_def Let_def by (rule refl)

definition graph_hagraven_master_behavior :: "u64 \<times> descriptor" where
  "graph_hagraven_master_behavior =
    (let kSpeed = 0 :: u32; kIsStaggering = 1 :: u32; kIsAttacking = 2 :: u32; kIsRecoiling = 3 :: u32;
       kDirection = 4 :: u32; kSpeedSampled = 5 :: u32; kiSyncDefaultState = 6 :: u32;
       kiSyncIdleLocomotion = 7 :: u32; kiState = 8 :: u32; kiState_HagravenDefault = 9 :: u32;
       kTurnDelta = 10 :: u32; kturnSpeedMult = 11 :: u32; kiSyncTurnState = 12 :: u32; kiRightHandType = 13 :: u32;
       kbWeapReady = 14 :: u32; kiEquippedItemState = 15 :: u32; kIsAttackReady = 16 :: u32; kbMLh_Ready = 17 :: u32;
       kbMRh_Ready = 18 :: u32; kIntDirection = 19 :: u32; kblendFast = 20 :: u32; kblendDefault = 21 :: u32;
       kisCasting = 22 :: u32; kbWantCastRight = 23 :: u32; kbWantCastLeft = 24 :: u32; kbHeadTrackingOn = 25 :: u32;
       kTargetLocation = 26 :: u32; kcamerafromx = 27 :: u32; kcamerafromy = 28 :: u32; kcamerafromz = 29 :: u32;
       kbCanHeadTrack = 30 :: u32; kbHeadTracking = 31 :: u32; kbEquipOk = 32 :: u32; kbAnimationDriven = 33 :: u32;
       kstaggerMagnitude = 34 :: u32; kbIsSynced = 35 :: u32; kiGetUpType = 36 :: u32; kstaggerDirection = 37 :: u32;
       kTimeStep = 38 :: u32; kbFullyMotionDriven = 39 :: u32; kDirectionDamped = 40 :: u32; kbFootIK = 41 :: u32;
       kbNoFootIK = 42 :: u32; kIsShouting = 43 :: u32; kIsBusy = 44 :: u32; kIsIdle = 45 :: u32;
       kbVoiceReady = 46 :: u32; kbWantCastVoice = 47 :: u32; kiCombat = 48 :: u32; kTweenEntryDirection = 49 :: u32;
       kiDirectionForward = 50 :: u32; kPhonemeBlendTarget = 51 :: u32; kLipBigAah = 52 :: u32; kLipDST = 53 :: u32;
       kLipEee = 54 :: u32; kLipFV = 55 :: u32; kLipK = 56 :: u32; kLipL = 57 :: u32; kLipR = 58 :: u32;
       kLipTh = 59 :: u32; kPhonemeBlend = 60 :: u32; kLipAcc = 61 :: u32; kInvPhonemeBlend = 62 :: u32;
       kbLookAtTarget = 63 :: u32; kbCanLookAtTarget = 64 :: u32; km_worldFromModelFeedbackGain = 65 :: u32;
       km_alignWorldFromModelGain = 66 :: u32; km_ankeOrientationGain = 67 :: u32;
       km_frontFootPlantedAnkleHeightMS = 68 :: u32; km_frontFootRaisedAnkleHeightMS = 69 :: u32;
       km_frontMaxAnkleHeightMS = 70 :: u32; km_frontMinAnkleHeightMS = 71 :: u32;
       km_rearFootPlantedAnkleHeightMS = 72 :: u32; km_rearFootRaisedAnkleHeightMS = 73 :: u32;
       km_rearMaxAnkleHeightMS = 74 :: u32; km_rearMinAnkleHeightMS = 75 :: u32;
       km_rearMaxAnkleAngleDegrees = 76 :: u32; km_raycastDistanceUp = 77 :: u32; km_raycastDistanceDown = 78 :: u32;
       km_errorOut = 79 :: u32; km_errorOutTranslation = 80 :: u32; km_alignWithGroundRotation = 81 :: u32;
       kBSLookAtModifier_m_onGain = 82 :: u32; kBSLookAtModifier_m_offGain = 83 :: u32;
       kLookAtHeadingMaxAngle = 84 :: u32; kBSLookAtModifier_CanLookOutsideLimit = 85 :: u32;
       kLookAtOutOfRange = 86 :: u32; kbSpeedSynced = 87 :: u32; kdefaultBlend = 88 :: u32;
       kHasTweenSpeed = 89 :: u32; kTweenSpeed = 90 :: u32; kDistToGoal = 91 :: u32; kTurnDeltaDamped = 92 :: u32;
       kPitchDeltaDamped = 93 :: u32; kFlightPitchBlend = 94 :: u32; kPathAngle = 95 :: u32;
       kMovementDirection = 96 :: u32; kMoveDirZ = 97 :: u32; kBSLookAtModifier_m_onGain_Shouting = 98 :: u32;
       kBSLookAtModifier_m_onGain_Combat = 99 :: u32; kBSLookAtModifier_m_offGain_Shouting = 100 :: u32;
       kBSLookAtModifier_m_offGain_Combat = 101 :: u32; kPitchDelta = 102 :: u32; kMaxSpeedCurrent = 103 :: u32;
       kMaxSpeed = 104 :: u32; kMinSpeed = 105 :: u32; kMaxSpeedDamped = 106 :: u32; kPathAngleThreshold = 107 :: u32;
       kTargetSpeedDamped = 108 :: u32; kTargetSpeed = 109 :: u32; kTweenSpeedDamped = 110 :: u32;
       kTweenSpeedMin = 111 :: u32; kMaxAcc = 112 :: u32; kTargetSpeedMaxScale = 113 :: u32; kMaxDec = 114 :: u32;
       kDrag = 115 :: u32; kTargetSpeedThresholdMin = 116 :: u32; kTargetSpeedThresholdMax = 117 :: u32;
       kIsFeathering = 118 :: u32; kTurnDeltaTarget = 119 :: u32; kTurnDeltaScale = 120 :: u32;
       kTurnDeltaDampedGain = 121 :: u32; kPitchDeltaTarget = 122 :: u32; kPitchDeltaDampedGain = 123 :: u32;
       kFlightPitchBlendTarget = 124 :: u32; kFlightPitchBlendGain = 125 :: u32; kPickNewIdleTime = 126 :: u32;
       kFlightHitInjuredSpeedMin = 127 :: u32; kFlightHitInjuredDecGain = 128 :: u32; kTurnMin = 129 :: u32;
       kIsTurningLeft = 130 :: u32; kIsTurningRight = 131 :: u32; kfMinSpeed = 132 :: u32; kisMoving = 133 :: u32;
       kIsMovingForward = 134 :: u32; kIsMovingBackward = 135 :: u32; kBSLookAtModifier_m_onGain_Default = 136 :: u32;
       kBSLookAtModifier_m_offGain_Default = 137 :: u32; kTweenRotation = 138 :: u32; kbAllowRotation = 139 :: u32;
       kTweenPosition = 140 :: u32; kConstraintOffset = 141 :: u32; kbTweenUpdate = 142 :: u32;
       kTweenEntryDirectionFlightKillGrab = 143 :: u32; kTweenEntryDirectionPrev = 144 :: u32;
       kTweenEntryDirectionCur = 145 :: u32; kLipBigAahDamped = 146 :: u32; kLipGain = 147 :: u32;
       kLipDSTDamped = 148 :: u32; kLipEeeDamped = 149 :: u32; kLipFVDamped = 150 :: u32; kLipKDamped = 151 :: u32;
       kLipLDamped = 152 :: u32; kLipRDamped = 153 :: u32; kLipThDamped = 154 :: u32
     in (3017922126943190855, \<lparr>ad_booleans =
        [kbEquipOk, kbAnimationDriven, kIsAttackReady, kbAllowRotation, kIsRecoiling, kIsStaggering, kIsAttacking,
         kbHeadTracking, kbHeadTrackingOn, kbWeapReady, kisCasting, kbCanHeadTrack, kbWantCastLeft, kbMLh_Ready],
      ad_floats =
        [kSpeed, kTurnDelta, kDirection, kSpeedSampled, kturnSpeedMult],
      ad_integers =
        [kiSyncDefaultState, kiSyncIdleLocomotion, kiSyncTurnState]\<rparr>))"

lemma described_hagraven_master_behavior [described]: "graph_hagraven_master_behavior = (3017922126943190855, \<lparr>ad_booleans =
        [32, 33, 16, 139, 3, 1, 2, 31, 25, 14, 22, 30, 24, 17],
      ad_floats = [0, 10, 4, 5, 11],
      ad_integers = [6, 7, 12]\<rparr>)"
  unfolding graph_hagraven_master_behavior_def Let_def by (rule refl)

definition graph_scrib_root_behavior :: "u64 \<times> descriptor" where
  "graph_scrib_root_behavior =
    (let kiSyncIdleLocomotion = 0 :: u32; kblendDefault = 1 :: u32; kfMinSpeed = 2 :: u32; kSpeed = 3 :: u32;
       kiSyncTurnState = 4 :: u32; kiSyncForwardState = 5 :: u32; kTurnDelta = 6 :: u32; kfMinTurnDelta = 7 :: u32;
       kturnSpeedMult = 8 :: u32; kiCombatStance = 9 :: u32; kbHeadTrackingOn = 10 :: u32;
       kTargetLocation = 11 :: u32; kFootIKEnable = 12 :: u32; km_onOffGain = 13 :: u32;
       km_groundAscendingGain = 14 :: u32; km_groundDescendingGain = 15 :: u32; km_footPlantedGain = 16 :: u32;
       km_footRaisedGain = 17 :: u32; km_footUnlockGain = 18 :: u32; km_worldFromModelFeedbackGain = 19 :: u32;
       km_errorUpDownBias = 20 :: u32; km_alignWorldFromModelGain = 21 :: u32; km_hipOrientationGain = 22 :: u32;
       km_footPlantedAnkleHeightMS = 23 :: u32; km_footRaisedAnkleHeightMS = 24 :: u32;
       km_maxAnkleHeightMS = 25 :: u32; km_minAnkleHeightMS = 26 :: u32; kblendFast = 27 :: u32;
       kbAnimationDriven = 28 :: u32; kbAllowRotation = 29 :: u32; kbHeadTracking = 30 :: u32;
       kbDisableHeadTrack = 31 :: u32; kIsRecoiling = 32 :: u32; kIsStaggering = 33 :: u32; kIsAttacking = 34 :: u32;
       kbIsWolf = 35 :: u32; kstaggerMagnitude = 36 :: u32; kIsBleedingOut = 37 :: u32; kbIsSynced = 38 :: u32;
       kbEquipOk = 39 :: u32; kbCanHeadTrack = 40 :: u32; kblendSlow = 41 :: u32; kisIdleSitting = 42 :: u32;
       kbMirroredAttack = 43 :: u32; kiState = 44 :: u32; kbSkeeverLunge = 45 :: u32; kiCharacterSelector = 46 :: u32;
       kfMinMoveSpeed = 47 :: u32; kDirection = 48 :: u32; kiIsCanine = 49 :: u32; kiTurnMirrored = 50 :: u32;
       kIsAttackReady = 51 :: u32; kTurnDeltaDamped = 52 :: u32; kIsBashing = 53 :: u32; kbNoHeadTrack = 54 :: u32;
       kcamerafromx = 55 :: u32; kcamerafromy = 56 :: u32; kcamerafromz = 57 :: u32; kwalkBackRate = 58 :: u32;
       km_footPlantedAnkleHeightMS_Front = 59 :: u32; km_footRaisedAnkleHeightMS_Front = 60 :: u32;
       km_maxAnkleHeightMS_Front = 61 :: u32; km_footPlantedAnkleHeightMS_Rear = 62 :: u32;
       km_footRaisedAnkleHeightMS_Rear = 63 :: u32; km_maxAnkleHeightMS_Rear = 64 :: u32;
       km_minCharControllerSeparation = 65 :: u32; km_maxCharControllerSeparation = 66 :: u32;
       km_errorOut = 67 :: u32; km_hitSomething_0 = 68 :: u32; km_hitSomething_1 = 69 :: u32;
       km_hitSomething_2 = 70 :: u32; km_hitSomething_3 = 71 :: u32; kbLegCastResults = 72 :: u32;
       kIsSideAttacking = 73 :: u32; kiGetUpType = 74 :: u32; kiGetUpType00 = 75 :: u32; kiMovementSpeed = 76 :: u32;
       kisMoving = 77 :: u32; kbForceIdleStop = 78 :: u32; kbFootIKEnable = 79 :: u32; kisIdleLay = 80 :: u32;
       kisSwimming00 = 81 :: u32; kiState_ScribDefault = 82 :: u32; kwalkBackSpeedMult = 83 :: u32;
       kstaggerDirection = 84 :: u32; kSpeedSampled = 85 :: u32; kSlowBlend = 86 :: u32; kdefaultBlend = 87 :: u32
     in (5600819660802946846, \<lparr>ad_booleans =
        [kbHeadTrackingOn, kbAnimationDriven, kbAllowRotation, kbHeadTracking, kbDisableHeadTrack, kIsRecoiling,
         kIsStaggering, kIsAttacking, kbSkeeverLunge, kbFootIKEnable, kisMoving],
      ad_floats =
        [kSpeed, kTurnDelta, kturnSpeedMult, kDirection, kTurnDeltaDamped, kSpeedSampled, kwalkBackSpeedMult],
      ad_integers =
        [kiSyncIdleLocomotion, kiSyncTurnState, kiSyncForwardState, kiMovementSpeed, kiCombatStance]\<rparr>))"

lemma described_scrib_root_behavior [described]: "graph_scrib_root_behavior = (5600819660802946846, \<lparr>ad_booleans =
        [10, 28, 29, 30, 31, 32, 33, 34, 45, 79, 77],
      ad_floats = [3, 6, 8, 48, 52, 85, 83],
      ad_integers = [0, 4, 5, 76, 9]\<rparr>)"
  unfolding graph_scrib_root_behavior_def Let_def by (rule refl)

definition graph_bear_root_behavior :: "u64 \<times> descriptor" where
  "graph_bear_root_behavior =
    (let kiSyncIdleLocomotion = 0 :: u32; kblendDefault = 1 :: u32; kfMinSpeed = 2 :: u32; kSpeed = 3 :: u32;
       kiSyncTurnState = 4 :: u32; kiSyncForwardState = 5 :: u32; kTurnDelta = 6 :: u32; kfMinTurnDelta = 7 :: u32;
       kturnSpeedMult = 8 :: u32; kiCombatStance = 9 :: u32; ktest = 10 :: u32; kbHeadTrackingOn = 11 :: u32;
       kTargetLocation = 12 :: u32; kFootIKEnable = 13 :: u32; km_onOffGain = 14 :: u32;
       km_groundAscendingGain = 15 :: u32; km_groundDescendingGain = 16 :: u32; km_footPlantedGain = 17 :: u32;
       km_footRaisedGain = 18 :: u32; km_footUnlockGain = 19 :: u32; km_worldFromModelFeedbackGain = 20 :: u32;
       km_errorUpDownBias = 21 :: u32; km_alignWorldFromModelGain = 22 :: u32; km_hipOrientationGain = 23 :: u32;
       km_footPlantedAnkleHeightMS = 24 :: u32; km_footRaisedAnkleHeightMS = 25 :: u32;
       km_maxAnkleHeightMS = 26 :: u32; km_minAnkleHeightMS = 27 :: u32; kblendFast = 28 :: u32;
       kbAnimationDriven = 29 :: u32; kbAllowRotation = 30 :: u32; kbHeadTracking = 31 :: u32;
       kbDisableHeadTrack = 32 :: u32; kIsRecoiling = 33 :: u32; kIsStaggering = 34 :: u32; kIsAttacking = 35 :: u32;
       kbIsWolf = 36 :: u32; kstaggerMagnitude = 37 :: u32; kIsBleedingOut = 38 :: u32; kbIsSynced = 39 :: u32;
       kbEquipOk = 40 :: u32; kbCanHeadTrack = 41 :: u32; kblendSlow = 42 :: u32; kisIdleSitting = 43 :: u32;
       kbMirroredAttack = 44 :: u32; kiState = 45 :: u32; kbSkeeverLunge = 46 :: u32; kiCharacterSelector = 47 :: u32;
       kfMinMoveSpeed = 48 :: u32; kDirection = 49 :: u32; kiIsCanine = 50 :: u32; kiTurnMirrored = 51 :: u32;
       kIsAttackReady = 52 :: u32; kTurnDeltaDamped = 53 :: u32; kIsBashing = 54 :: u32; kbNoHeadTrack = 55 :: u32;
       kcamerafromx = 56 :: u32; kcamerafromy = 57 :: u32; kcamerafromz = 58 :: u32; kwalkBackRate = 59 :: u32;
       kiState_BearDefault = 60 :: u32; km_footPlantedAnkleHeightMS_Front = 61 :: u32;
       km_footRaisedAnkleHeightMS_Front = 62 :: u32; km_maxAnkleHeightMS_Front = 63 :: u32;
       km_footPlantedAnkleHeightMS_Rear = 64 :: u32; km_footRaisedAnkleHeightMS_Rear = 65 :: u32;
       km_maxAnkleHeightMS_Rear = 66 :: u32; km_minCharControllerSeparation = 67 :: u32;
       km_maxCharControllerSeparation = 68 :: u32; km_errorOut = 69 :: u32; km_hitSomething_0 = 70 :: u32;
       km_hitSomething_1 = 71 :: u32; km_hitSomething_2 = 72 :: u32; km_hitSomething_3 = 73 :: u32;
       kbLegCastResults = 74 :: u32; kIsSideAttacking = 75 :: u32; kiState_BearSwimDefault = 76 :: u32;
       kiGetUpType = 77 :: u32; kiGetUpType00 = 78 :: u32; kiMovementSpeed = 79 :: u32; kisMoving = 80 :: u32;
       kbForceIdleStop = 81 :: u32; kbFootIKEnable = 82 :: u32; kisIdleLay = 83 :: u32;
       kiState_CowDefault = 84 :: u32; kiState_DogDefault = 85 :: u32; kiState_WolfDefault = 86 :: u32;
       kiState_SabreCatDefault = 87 :: u32; kiState_SkeeverDefault = 88 :: u32; kiState_SkeeverLunge = 89 :: u32;
       kiState_HorseDefault = 90 :: u32; kiState_DeerDefault = 91 :: u32; kiState_GoatDefault = 92 :: u32;
       kiState_HorkerDefault = 93 :: u32; kiState_MammothDefault = 94 :: u32; kiState_HorseSprint = 95 :: u32;
       kiSyncSprintState = 96 :: u32; kfTwistDirection = 97 :: u32; kOldDirection = 98 :: u32;
       kSpeedSampled = 99 :: u32; kwalkBackSpeedMult = 100 :: u32; kstaggerDirection = 101 :: u32;
       kiState_CowSwimDefault = 102 :: u32; kiState_HorkerSwimDefault = 103 :: u32; kisSwimming = 104 :: u32;
       kiState_DeerDefaultRun = 105 :: u32
     in (12283352931604624777, \<lparr>ad_booleans =
        [kbHeadTrackingOn, kbAnimationDriven, kbAllowRotation, kbHeadTracking, kbDisableHeadTrack, kIsRecoiling,
         kIsStaggering, kIsAttacking, kbSkeeverLunge, kbFootIKEnable, kisMoving],
      ad_floats =
        [kSpeed, kTurnDelta, kturnSpeedMult, kDirection, kTurnDeltaDamped, kSpeedSampled, kwalkBackSpeedMult],
      ad_integers =
        [kiSyncSprintState, kiSyncIdleLocomotion, kiSyncTurnState, kiSyncForwardState, kiMovementSpeed, kiCombatStance]\<rparr>))"

lemma described_bear_root_behavior [described]: "graph_bear_root_behavior = (12283352931604624777, \<lparr>ad_booleans =
        [11, 29, 30, 31, 32, 33, 34, 35, 46, 82, 80],
      ad_floats = [3, 6, 8, 49, 53, 99, 100],
      ad_integers = [96, 0, 4, 5, 79, 9]\<rparr>)"
  unfolding graph_bear_root_behavior_def Let_def by (rule refl)

definition graph_sabre_cat_root_behavior :: "u64 \<times> descriptor" where
  "graph_sabre_cat_root_behavior =
    (let kiSyncIdleLocomotion = 0 :: u32; kblendDefault = 1 :: u32; kfMinSpeed = 2 :: u32; kSpeed = 3 :: u32;
       kiSyncTurnState = 4 :: u32; kiSyncForwardState = 5 :: u32; kTurnDelta = 6 :: u32; kfMinTurnDelta = 7 :: u32;
       kturnSpeedMult = 8 :: u32; kiCombatStance = 9 :: u32; ktest = 10 :: u32; kbHeadTrackingOn = 11 :: u32;
       kTargetLocation = 12 :: u32; kFootIKEnable = 13 :: u32; km_onOffGain = 14 :: u32;
       km_groundAscendingGain = 15 :: u32; km_groundDescendingGain = 16 :: u32; km_footPlantedGain = 17 :: u32;
       km_footRaisedGain = 18 :: u32; km_footUnlockGain = 19 :: u32; km_worldFromModelFeedbackGain = 20 :: u32;
       km_errorUpDownBias = 21 :: u32; km_alignWorldFromModelGain = 22 :: u32; km_hipOrientationGain = 23 :: u32;
       km_footPlantedAnkleHeightMS = 24 :: u32; km_footRaisedAnkleHeightMS = 25 :: u32;
       km_maxAnkleHeightMS = 26 :: u32; km_minAnkleHeightMS = 27 :: u32; kblendFast = 28 :: u32;
       kbAnimationDriven = 29 :: u32; kbAllowRotation = 30 :: u32; kbHeadTracking = 31 :: u32;
       kbDisableHeadTrack = 32 :: u32; kIsRecoiling = 33 :: u32; kIsStaggering = 34 :: u32; kIsAttacking = 35 :: u32;
       kbIsWolf = 36 :: u32; kstaggerMagnitude = 37 :: u32; kIsBleedingOut = 38 :: u32; kbIsSynced = 39 :: u32;
       kbEquipOk = 40 :: u32; kbCanHeadTrack = 41 :: u32; kblendSlow = 42 :: u32; kisIdleSitting = 43 :: u32;
       kbMirroredAttack = 44 :: u32; kiState = 45 :: u32; kiState_SabreCatDefault = 46 :: u32;
       kbSkeeverLunge = 47 :: u32; kiCharacterSelector = 48 :: u32; kDirection = 49 :: u32; kiIsCanine = 50 :: u32;
       kiTurnMirrored = 51 :: u32; kIsAttackReady = 52 :: u32; kTurnDeltaDamped = 53 :: u32; kIsBashing = 54 :: u32;
       kwalkBackRate = 55 :: u32; kiGetUpType = 56 :: u32; kiState_SabreCatRun = 57 :: u32;
       kiState_CowDefault = 58 :: u32; kiState_DogDefault = 59 :: u32; kiState_WolfDefault = 60 :: u32;
       kiState_SkeeverDefault = 61 :: u32; kiState_SkeeverLunge = 62 :: u32; kiState_HorseDefault = 63 :: u32;
       kiState_BearDefault = 64 :: u32; kiState_DeerDefault = 65 :: u32; kiState_GoatDefault = 66 :: u32;
       kiState_HorkerDefault = 67 :: u32; kiState_MammothDefault = 68 :: u32; kiState_HorseSprint = 69 :: u32;
       kiSyncSprintState = 70 :: u32; kfTwistDirection = 71 :: u32; kOldDirection = 72 :: u32;
       kSpeedSampled = 73 :: u32; kbNoHeadTrack = 74 :: u32; kcamerafromx = 75 :: u32; kcamerafromy = 76 :: u32;
       kcamerafromz = 77 :: u32; kwalkBackSpeedMult = 78 :: u32; kiMovementSpeed = 79 :: u32;
       kIsSideAttacking = 80 :: u32; kisIdleLay = 81 :: u32; kstaggerDirection = 82 :: u32;
       kbFootIKEnable = 83 :: u32; kiState_CowSwimDefault = 84 :: u32; kiState_HorkerSwimDefault = 85 :: u32;
       kiState_BearSwimDefault = 86 :: u32; kisSwimming = 87 :: u32; kisMoving = 88 :: u32;
       kbForceIdleStop = 89 :: u32; kiState_DeerDefaultRun = 90 :: u32
     in (8391591236278645567, \<lparr>ad_booleans =
        [kbHeadTrackingOn, kbAnimationDriven, kbAllowRotation, kbHeadTracking, kbDisableHeadTrack, kIsRecoiling,
         kIsStaggering, kIsAttacking, kbSkeeverLunge, kbFootIKEnable, kisMoving],
      ad_floats =
        [kSpeed, kTurnDelta, kturnSpeedMult, kDirection, kTurnDeltaDamped, kSpeedSampled, kwalkBackSpeedMult],
      ad_integers =
        [kiSyncSprintState, kiSyncIdleLocomotion, kiSyncTurnState, kiSyncForwardState, kiMovementSpeed, kiCombatStance]\<rparr>))"

lemma described_sabre_cat_root_behavior [described]: "graph_sabre_cat_root_behavior = (8391591236278645567, \<lparr>ad_booleans =
        [11, 29, 30, 31, 32, 33, 34, 35, 47, 83, 88],
      ad_floats = [3, 6, 8, 49, 53, 73, 78],
      ad_integers = [70, 0, 4, 5, 79, 9]\<rparr>)"
  unfolding graph_sabre_cat_root_behavior_def Let_def by (rule refl)

definition graph_skeever_root_behavior :: "u64 \<times> descriptor" where
  "graph_skeever_root_behavior =
    (let kiSyncIdleLocomotion = 0 :: u32; kblendDefault = 1 :: u32; kfMinSpeed = 2 :: u32; kSpeed = 3 :: u32;
       kiSyncTurnState = 4 :: u32; kiSyncForwardState = 5 :: u32; kTurnDelta = 6 :: u32; kfMinTurnDelta = 7 :: u32;
       kturnSpeedMult = 8 :: u32; kiCombatStance = 9 :: u32; ktest = 10 :: u32; kbHeadTrackingOn = 11 :: u32;
       kTargetLocation = 12 :: u32; kFootIKEnable = 13 :: u32; km_onOffGain = 14 :: u32;
       km_groundAscendingGain = 15 :: u32; km_groundDescendingGain = 16 :: u32; km_footPlantedGain = 17 :: u32;
       km_footRaisedGain = 18 :: u32; km_footUnlockGain = 19 :: u32; km_worldFromModelFeedbackGain = 20 :: u32;
       km_errorUpDownBias = 21 :: u32; km_alignWorldFromModelGain = 22 :: u32; km_hipOrientationGain = 23 :: u32;
       km_footPlantedAnkleHeightMS = 24 :: u32; km_footRaisedAnkleHeightMS = 25 :: u32;
       km_maxAnkleHeightMS = 26 :: u32; km_minAnkleHeightMS = 27 :: u32; kblendFast = 28 :: u32;
       kbAnimationDriven = 29 :: u32; kbAllowRotation = 30 :: u32; kbHeadTracking = 31 :: u32;
       kbDisableHeadTrack = 32 :: u32; kIsRecoiling = 33 :: u32; kIsStaggering = 34 :: u32; kIsAttacking = 35 :: u32;
       kbIsWolf = 36 :: u32; kstaggerMagnitude = 37 :: u32; kIsBleedingOut = 38 :: u32; kbIsSynced = 39 :: u32;
       kbEquipOk = 40 :: u32; kbCanHeadTrack = 41 :: u32; kblendSlow = 42 :: u32; kisIdleSitting = 43 :: u32;
       kbMirroredAttack = 44 :: u32; kiState = 45 :: u32; kiState_SkeeverDefault = 46 :: u32;
       kiState_SkeeverLunge = 47 :: u32; kbSkeeverLunge = 48 :: u32; kiCharacterSelector = 49 :: u32;
       kfMinMoveSpeed = 50 :: u32; kDirection = 51 :: u32; kiIsCanine = 52 :: u32; kiTurnMirrored = 53 :: u32;
       kIsAttackReady = 54 :: u32; kTurnDeltaDamped = 55 :: u32; kSpeedSampled = 56 :: u32; kIsBashing = 57 :: u32;
       kwalkBackRate = 58 :: u32; kstaggerDirection = 59 :: u32; kbNoHeadTrack = 60 :: u32; kiGetUpType = 61 :: u32;
       kbFootIKDisable = 62 :: u32; kiState_CowDefault = 63 :: u32; kiState_DogDefault = 64 :: u32;
       kiState_WolfDefault = 65 :: u32; kiState_SabreCatDefault = 66 :: u32; kiState_HorseDefault = 67 :: u32;
       kiState_BearDefault = 68 :: u32; kiState_DeerDefault = 69 :: u32; kiState_GoatDefault = 70 :: u32;
       kiState_HorkerDefault = 71 :: u32; kiState_MammothDefault = 72 :: u32; kiState_HorseSprint = 73 :: u32;
       kiSyncSprintState = 74 :: u32; kfTwistDirection = 75 :: u32; kOldDirection = 76 :: u32;
       kcamerafromx = 77 :: u32; kcamerafromy = 78 :: u32; kcamerafromz = 79 :: u32; kwalkBackSpeedMult = 80 :: u32;
       kiMovementSpeed = 81 :: u32; kIsSideAttacking = 82 :: u32; kisIdleLay = 83 :: u32; kbFootIKEnable = 84 :: u32;
       kiState_CowSwimDefault = 85 :: u32; kiState_HorkerSwimDefault = 86 :: u32; kiState_BearSwimDefault = 87 :: u32;
       kisSwimming = 88 :: u32; kisMoving = 89 :: u32; kbForceIdleStop = 90 :: u32;
       kiState_DeerDefaultRun = 91 :: u32
     in (2357248884501192123, \<lparr>ad_booleans =
        [kbHeadTrackingOn, kbAnimationDriven, kbAllowRotation, kbHeadTracking, kbDisableHeadTrack, kIsRecoiling,
         kIsStaggering, kIsAttacking, kbSkeeverLunge, kbFootIKEnable, kisMoving],
      ad_floats =
        [kSpeed, kTurnDelta, kturnSpeedMult, kDirection, kTurnDeltaDamped, kSpeedSampled, kwalkBackSpeedMult],
      ad_integers =
        [kiSyncSprintState, kiSyncIdleLocomotion, kiSyncTurnState, kiSyncForwardState, kiMovementSpeed,
         kiCombatStance, kiState]\<rparr>))"

lemma described_skeever_root_behavior [described]: "graph_skeever_root_behavior = (2357248884501192123, \<lparr>ad_booleans =
        [11, 29, 30, 31, 32, 33, 34, 35, 48, 84, 89],
      ad_floats = [3, 6, 8, 51, 55, 56, 80],
      ad_integers = [74, 0, 4, 5, 81, 9, 45]\<rparr>)"
  unfolding graph_skeever_root_behavior_def Let_def by (rule refl)

definition graph_horker_root_behavior :: "u64 \<times> descriptor" where
  "graph_horker_root_behavior =
    (let kiSyncIdleLocomotion = 0 :: u32; kblendDefault = 1 :: u32; kfMinSpeed = 2 :: u32; kSpeed = 3 :: u32;
       kiSyncTurnState = 4 :: u32; kiSyncForwardState = 5 :: u32; kTurnDelta = 6 :: u32; kfMinTurnDelta = 7 :: u32;
       kturnSpeedMult = 8 :: u32; kiCombatStance = 9 :: u32; ktest = 10 :: u32; kbHeadTrackingOn = 11 :: u32;
       kTargetLocation = 12 :: u32; kFootIKEnable = 13 :: u32; km_onOffGain = 14 :: u32;
       km_groundAscendingGain = 15 :: u32; km_groundDescendingGain = 16 :: u32; km_footPlantedGain = 17 :: u32;
       km_footRaisedGain = 18 :: u32; km_footUnlockGain = 19 :: u32; km_worldFromModelFeedbackGain = 20 :: u32;
       km_errorUpDownBias = 21 :: u32; km_alignWorldFromModelGain = 22 :: u32; km_hipOrientationGain = 23 :: u32;
       km_footPlantedAnkleHeightMS = 24 :: u32; km_footRaisedAnkleHeightMS = 25 :: u32;
       km_maxAnkleHeightMS = 26 :: u32; km_minAnkleHeightMS = 27 :: u32; kblendFast = 28 :: u32;
       kbAnimationDriven = 29 :: u32; kbAllowRotation = 30 :: u32; kbHeadTracking = 31 :: u32;
       kbDisableHeadTrack = 32 :: u32; kIsRecoiling = 33 :: u32; kIsStaggering = 34 :: u32; kIsAttacking = 35 :: u32;
       kbIsWolf = 36 :: u32; kstaggerMagnitude = 37 :: u32; kIsBleedingOut = 38 :: u32; kbIsSynced = 39 :: u32;
       kbEquipOk = 40 :: u32; kbCanHeadTrack = 41 :: u32; kblendSlow = 42 :: u32; kisIdleSitting = 43 :: u32;
       kbMirroredAttack = 44 :: u32; kiState = 45 :: u32; kiState_HorkerDefault = 46 :: u32;
       kbSkeeverLunge = 47 :: u32; kiCharacterSelector = 48 :: u32; kDirection = 49 :: u32; kiIsCanine = 50 :: u32;
       kiTurnMirrored = 51 :: u32; kIsAttackReady = 52 :: u32; kTurnDeltaDamped = 53 :: u32; kIsBashing = 54 :: u32;
       kwalkBackRate = 55 :: u32; kiState_HorkerSwimDefault = 56 :: u32; kiGetUpType = 57 :: u32;
       kiState_CowDefault = 58 :: u32; kiState_DogDefault = 59 :: u32; kiState_WolfDefault = 60 :: u32;
       kiState_SabreCatDefault = 61 :: u32; kiState_SkeeverDefault = 62 :: u32; kiState_SkeeverLunge = 63 :: u32;
       kiState_HorseDefault = 64 :: u32; kiState_BearDefault = 65 :: u32; kiState_DeerDefault = 66 :: u32;
       kiState_GoatDefault = 67 :: u32; kiState_MammothDefault = 68 :: u32; kiState_HorseSprint = 69 :: u32;
       kiSyncSprintState = 70 :: u32; kfTwistDirection = 71 :: u32; kOldDirection = 72 :: u32;
       kSpeedSampled = 73 :: u32; kbNoHeadTrack = 74 :: u32; kcamerafromx = 75 :: u32; kcamerafromy = 76 :: u32;
       kcamerafromz = 77 :: u32; kwalkBackSpeedMult = 78 :: u32; kiMovementSpeed = 79 :: u32;
       kIsSideAttacking = 80 :: u32; kisIdleLay = 81 :: u32; kstaggerDirection = 82 :: u32;
       kbFootIKEnable = 83 :: u32; kiState_CowSwimDefault = 84 :: u32; kiState_BearSwimDefault = 85 :: u32;
       kisSwimming = 86 :: u32; kisMoving = 87 :: u32; kbForceIdleStop = 88 :: u32;
       kiState_DeerDefaultRun = 89 :: u32
     in (6046020211772183226, \<lparr>ad_booleans =
        [kbHeadTrackingOn, kbAnimationDriven, kbAllowRotation, kbHeadTracking, kbDisableHeadTrack, kIsRecoiling,
         kIsStaggering, kIsAttacking, kbSkeeverLunge, kbFootIKEnable, kisMoving],
      ad_floats =
        [kSpeed, kTurnDelta, kturnSpeedMult, kDirection, kTurnDeltaDamped, kSpeedSampled, kwalkBackSpeedMult],
      ad_integers =
        [kiSyncSprintState, kiSyncIdleLocomotion, kiSyncTurnState, kiSyncForwardState, kiMovementSpeed,
         kiCombatStance, kiState]\<rparr>))"

lemma described_horker_root_behavior [described]: "graph_horker_root_behavior = (6046020211772183226, \<lparr>ad_booleans =
        [11, 29, 30, 31, 32, 33, 34, 35, 47, 83, 87],
      ad_floats = [3, 6, 8, 49, 53, 73, 78],
      ad_integers = [70, 0, 4, 5, 79, 9, 45]\<rparr>)"
  unfolding graph_horker_root_behavior_def Let_def by (rule refl)

definition graph_werewolf_behavior :: "u64 \<times> descriptor" where
  "graph_werewolf_behavior =
    (let kiSyncTurnState = 0 :: u32; kTurnDelta = 1 :: u32; kDirection = 2 :: u32; kSpeed = 3 :: u32;
       kbAnimationDriven = 4 :: u32; kbIsSynced = 5 :: u32; kIsRecoiling = 6 :: u32; kIsStaggering = 7 :: u32;
       kSpeedStartVar = 8 :: u32; kTurnDeltaDamped = 9 :: u32; kTurnMin = 10 :: u32; kIsAttackReady = 11 :: u32;
       kIntDirection = 12 :: u32; kSpeedDamped = 13 :: u32; kIsAttacking = 14 :: u32; kbAllowRotation = 15 :: u32;
       kFootIKEnable = 16 :: u32; kbHeadTrackingOff = 17 :: u32; kstaggerMagnitude = 18 :: u32; kbEquipOk = 19 :: u32;
       kcurrentDefaultState = 20 :: u32; kiState = 21 :: u32; kiState_WerewolfBeastDefault = 22 :: u32;
       kSampledSpeed = 23 :: u32; kIsCrouching = 24 :: u32; kiSyncIdleLocomotion = 25 :: u32; kblendShort = 26 :: u32;
       kblendNormal = 27 :: u32; kisMoving = 28 :: u32; kDirectionOffset = 29 :: u32; kDirDamped = 30 :: u32;
       kTimeDelta = 31 :: u32; kDirAcc = 32 :: u32; kDirectionBlendA = 33 :: u32; kDirectionBlendB = 34 :: u32;
       kActiveBlend = 35 :: u32; kbDirBlendA = 36 :: u32; kbDirBlendB = 37 :: u32; kblendThresh = 38 :: u32;
       kblendAttack = 39 :: u32; kbHeadTracking = 40 :: u32; kTargetLocation = 41 :: u32; kcamerafromx = 42 :: u32;
       kcamerafromy = 43 :: u32; kcamerafromz = 44 :: u32; kiGetUpType = 45 :: u32; kPitch = 46 :: u32;
       kweaponSpeedMult = 47 :: u32; kiWantBlock = 48 :: u32; kiAttackState = 49 :: u32;
       kiState_WerewolfBeastSprint = 50 :: u32; kIsSprinting = 51 :: u32; kiSyncSprintState = 52 :: u32;
       kbVoiceReady = 53 :: u32; kbWantCastVoice = 54 :: u32; kSpeedSampled = 55 :: u32; kFootIKDisable = 56 :: u32;
       kblendDefault = 57 :: u32; kbInJumpState = 58 :: u32; kVelocityZ = 59 :: u32; kiIsInSneak = 60 :: u32;
       kIsSneaking = 61 :: u32; kbFailMoveStart = 62 :: u32; kBeginCastVoice = 63 :: u32; kbNoStagger = 64 :: u32;
       kbDelayMoveStart = 65 :: u32; kisHowling = 66 :: u32; kIsNPC = 67 :: u32
     in (9732983738769370819, \<lparr>ad_booleans =
        [kbEquipOk, kbAnimationDriven, kIsAttackReady, kbAllowRotation, kIsRecoiling, kIsStaggering, kIsAttacking,
         kbHeadTracking, kbDelayMoveStart, kbFailMoveStart, kbVoiceReady, kbNoStagger],
      ad_floats =
        [kSpeed, kTurnDelta, kDirection, kSpeedSampled, kSampledSpeed],
      ad_integers =
        [kiSyncIdleLocomotion, kiSyncTurnState, kiAttackState]\<rparr>))"

lemma described_werewolf_behavior [described]: "graph_werewolf_behavior = (9732983738769370819, \<lparr>ad_booleans =
        [19, 4, 11, 15, 6, 7, 14, 40, 65, 62, 53, 64],
      ad_floats = [3, 1, 2, 55, 23],
      ad_integers = [25, 0, 49]\<rparr>)"
  unfolding graph_werewolf_behavior_def Let_def by (rule refl)

definition graph_mammoth_root_behavior :: "u64 \<times> descriptor" where
  "graph_mammoth_root_behavior =
    (let kiSyncIdleLocomotion = 0 :: u32; kblendDefault = 1 :: u32; kfMinSpeed = 2 :: u32; kSpeed = 3 :: u32;
       kiSyncTurnState = 4 :: u32; kiSyncForwardState = 5 :: u32; kTurnDelta = 6 :: u32; kfMinTurnDelta = 7 :: u32;
       kturnSpeedMult = 8 :: u32; kiCombatStance = 9 :: u32; ktest = 10 :: u32; kbHeadTrackingOn = 11 :: u32;
       kTargetLocation = 12 :: u32; kFootIKEnable = 13 :: u32; km_onOffGain = 14 :: u32;
       km_groundAscendingGain = 15 :: u32; km_groundDescendingGain = 16 :: u32; km_footPlantedGain = 17 :: u32;
       km_footRaisedGain = 18 :: u32; km_footUnlockGain = 19 :: u32; km_worldFromModelFeedbackGain = 20 :: u32;
       km_errorUpDownBias = 21 :: u32; km_alignWorldFromModelGain = 22 :: u32; km_hipOrientationGain = 23 :: u32;
       km_footPlantedAnkleHeightMS = 24 :: u32; km_footRaisedAnkleHeightMS = 25 :: u32;
       km_maxAnkleHeightMS = 26 :: u32; km_minAnkleHeightMS = 27 :: u32; kblendFast = 28 :: u32;
       kbAnimationDriven = 29 :: u32; kbAllowRotation = 30 :: u32; kbHeadTracking = 31 :: u32;
       kbDisableHeadTrack = 32 :: u32; kIsRecoiling = 33 :: u32; kIsStaggering = 34 :: u32; kIsAttacking = 35 :: u32;
       kbIsWolf = 36 :: u32; kstaggerMagnitude = 37 :: u32; kIsBleedingOut = 38 :: u32; kbIsSynced = 39 :: u32;
       kbEquipOk = 40 :: u32; kbCanHeadTrack = 41 :: u32; kblendSlow = 42 :: u32; kisIdleSitting = 43 :: u32;
       kbMirroredAttack = 44 :: u32; kiState = 45 :: u32; kiState_MammothDefault = 46 :: u32;
       kbSkeeverLunge = 47 :: u32; kiCharacterSelector = 48 :: u32; kfMinMoveSpeed = 49 :: u32;
       kDirection = 50 :: u32; kiIsCanine = 51 :: u32; kiTurnMirrored = 52 :: u32; kIsAttackReady = 53 :: u32;
       kTurnDeltaDamped = 54 :: u32; kIsBashing = 55 :: u32; kbNoHeadTrack = 56 :: u32; kcamerafromx = 57 :: u32;
       kcamerafromy = 58 :: u32; kcamerafromz = 59 :: u32; kwalkBackRate = 60 :: u32; kstaggerDirection = 61 :: u32;
       km_footPlantedAnkleHeightMS_Front = 62 :: u32; km_footRaisedAnkleHeightMS_Front = 63 :: u32;
       km_maxAnkleHeightMS_Front = 64 :: u32; km_hitSomething_0 = 65 :: u32; km_hitSomething_1 = 66 :: u32;
       km_footPlantedAnkleHeightMS_Rear = 67 :: u32; km_footRaisedAnkleHeightMS_Rear = 68 :: u32;
       km_maxAnkleHeightMS_Rear = 69 :: u32; km_hitSomething_2 = 70 :: u32; km_errorOut = 71 :: u32;
       km_hitSomething_3 = 72 :: u32; kbLegCastResults = 73 :: u32; kiGetUpType = 74 :: u32;
       km_velocityGain = 75 :: u32; km_positionGain = 76 :: u32; km_positionMaxLinearVelocity = 77 :: u32;
       km_snapMaxLinearVelocity = 78 :: u32; kiState_CowDefault = 79 :: u32; kiState_DogDefault = 80 :: u32;
       kiState_WolfDefault = 81 :: u32; kiState_SabreCatDefault = 82 :: u32; kiState_SkeeverDefault = 83 :: u32;
       kiState_SkeeverLunge = 84 :: u32; kiState_HorseDefault = 85 :: u32; kiState_BearDefault = 86 :: u32;
       kiState_DeerDefault = 87 :: u32; kiState_GoatDefault = 88 :: u32; kiState_HorkerDefault = 89 :: u32;
       kiState_HorseSprint = 90 :: u32; kiSyncSprintState = 91 :: u32; kfTwistDirection = 92 :: u32;
       kOldDirection = 93 :: u32; kSpeedSampled = 94 :: u32; kwalkBackSpeedMult = 95 :: u32;
       kiMovementSpeed = 96 :: u32; kIsSideAttacking = 97 :: u32; kisIdleLay = 98 :: u32; kbFootIKEnable = 99 :: u32;
       kiState_CowSwimDefault = 100 :: u32; kiState_HorkerSwimDefault = 101 :: u32;
       kiState_BearSwimDefault = 102 :: u32; kisSwimming = 103 :: u32; kisMoving = 104 :: u32;
       kbForceIdleStop = 105 :: u32; kiState_DeerDefaultRun = 106 :: u32; kDefaultBlend = 107 :: u32
     in (13065750443784029010, \<lparr>ad_booleans =
        [kbHeadTrackingOn, kbAnimationDriven, kbAllowRotation, kbHeadTracking, kbDisableHeadTrack, kIsRecoiling,
         kIsStaggering, kIsAttacking, kbSkeeverLunge, kbFootIKEnable, kisMoving],
      ad_floats =
        [kSpeed, kTurnDelta, kturnSpeedMult, kDirection, kTurnDeltaDamped, kSpeedSampled, kwalkBackSpeedMult],
      ad_integers =
        [kiSyncSprintState, kiSyncIdleLocomotion, kiSyncTurnState, kiSyncForwardState, kiMovementSpeed,
         kiCombatStance, kiState]\<rparr>))"

lemma described_mammoth_root_behavior [described]: "graph_mammoth_root_behavior = (13065750443784029010, \<lparr>ad_booleans =
        [11, 29, 30, 31, 32, 33, 34, 35, 47, 99, 104],
      ad_floats = [3, 6, 8, 50, 54, 94, 95],
      ad_integers = [91, 0, 4, 5, 96, 9, 45]\<rparr>)"
  unfolding graph_mammoth_root_behavior_def Let_def by (rule refl)

definition graph_deer_root_behavior :: "u64 \<times> descriptor" where
  "graph_deer_root_behavior =
    (let kiSyncIdleLocomotion = 0 :: u32; kblendDefault = 1 :: u32; kfMinSpeed = 2 :: u32; kSpeed = 3 :: u32;
       kiSyncTurnState = 4 :: u32; kiSyncForwardState = 5 :: u32; kTurnDelta = 6 :: u32; kfMinTurnDelta = 7 :: u32;
       kturnSpeedMult = 8 :: u32; kiCombatStance = 9 :: u32; ktest = 10 :: u32; kbHeadTrackingOn = 11 :: u32;
       kTargetLocation = 12 :: u32; kFootIKEnable = 13 :: u32; km_onOffGain = 14 :: u32;
       km_groundAscendingGain = 15 :: u32; km_groundDescendingGain = 16 :: u32; km_footPlantedGain = 17 :: u32;
       km_footRaisedGain = 18 :: u32; km_footUnlockGain = 19 :: u32; km_worldFromModelFeedbackGain = 20 :: u32;
       km_errorUpDownBias = 21 :: u32; km_alignWorldFromModelGain = 22 :: u32; km_hipOrientationGain = 23 :: u32;
       km_footPlantedAnkleHeightMS = 24 :: u32; km_footRaisedAnkleHeightMS = 25 :: u32;
       km_maxAnkleHeightMS = 26 :: u32; km_minAnkleHeightMS = 27 :: u32; kblendFast = 28 :: u32;
       kbAnimationDriven = 29 :: u32; kbAllowRotation = 30 :: u32; kbHeadTracking = 31 :: u32;
       kbDisableHeadTrack = 32 :: u32; kIsRecoiling = 33 :: u32; kIsStaggering = 34 :: u32; kIsAttacking = 35 :: u32;
       kbIsWolf = 36 :: u32; kstaggerMagnitude = 37 :: u32; kIsBleedingOut = 38 :: u32; kbIsSynced = 39 :: u32;
       kbEquipOk = 40 :: u32; kbCanHeadTrack = 41 :: u32; kblendSlow = 42 :: u32; kisIdleSitting = 43 :: u32;
       kbMirroredAttack = 44 :: u32; kiState = 45 :: u32; kiState_DeerDefault = 46 :: u32; kbSkeeverLunge = 47 :: u32;
       kiCharacterSelector = 48 :: u32; kfMinMoveSpeed = 49 :: u32; kDirection = 50 :: u32; kiIsCanine = 51 :: u32;
       kiTurnMirrored = 52 :: u32; kIsAttackReady = 53 :: u32; kTurnDeltaDamped = 54 :: u32; kIsBashing = 55 :: u32;
       kbNoHeadTrack = 56 :: u32; kcamerafromx = 57 :: u32; kcamerafromy = 58 :: u32; kcamerafromz = 59 :: u32;
       kwalkBackRate = 60 :: u32; kstaggerDirection = 61 :: u32; kiMovementSpeed = 62 :: u32;
       kiState_DeerDefaultRun = 63 :: u32; kiGetUpType = 64 :: u32; kiState_CowDefault = 65 :: u32;
       kiState_DogDefault = 66 :: u32; kiState_WolfDefault = 67 :: u32; kiState_SabreCatDefault = 68 :: u32;
       kiState_SkeeverDefault = 69 :: u32; kiState_SkeeverLunge = 70 :: u32; kiState_HorseDefault = 71 :: u32;
       kiState_BearDefault = 72 :: u32; kiState_GoatDefault = 73 :: u32; kiState_HorkerDefault = 74 :: u32;
       kiState_MammothDefault = 75 :: u32; kiState_HorseSprint = 76 :: u32; kiSyncSprintState = 77 :: u32;
       kfTwistDirection = 78 :: u32; kOldDirection = 79 :: u32; kSpeedSampled = 80 :: u32;
       kwalkBackSpeedMult = 81 :: u32; kIsSideAttacking = 82 :: u32; kisIdleLay = 83 :: u32;
       kbFootIKEnable = 84 :: u32; kiState_CowSwimDefault = 85 :: u32; kiState_HorkerSwimDefault = 86 :: u32;
       kiState_BearSwimDefault = 87 :: u32; kisSwimming = 88 :: u32; kisMoving = 89 :: u32;
       kbForceIdleStop = 90 :: u32; kSlowBlend = 91 :: u32; kDefaultBlend = 92 :: u32
     in (1832497254465648632, \<lparr>ad_booleans =
        [kbHeadTrackingOn, kbAnimationDriven, kbAllowRotation, kbHeadTracking, kbDisableHeadTrack, kIsRecoiling,
         kIsStaggering, kIsAttacking, kbSkeeverLunge, kbFootIKEnable, kisMoving],
      ad_floats =
        [kSpeed, kTurnDelta, kturnSpeedMult, kDirection, kTurnDeltaDamped, kSpeedSampled, kwalkBackSpeedMult],
      ad_integers =
        [kiSyncSprintState, kiSyncIdleLocomotion, kiSyncTurnState, kiSyncForwardState, kiMovementSpeed,
         kiCombatStance, kiState]\<rparr>))"

lemma described_deer_root_behavior [described]: "graph_deer_root_behavior = (1832497254465648632, \<lparr>ad_booleans =
        [11, 29, 30, 31, 32, 33, 34, 35, 47, 84, 89],
      ad_floats = [3, 6, 8, 50, 54, 80, 81],
      ad_integers = [77, 0, 4, 5, 62, 9, 45]\<rparr>)"
  unfolding graph_deer_root_behavior_def Let_def by (rule refl)

definition graph_vampire_brute_root_behavior :: "u64 \<times> descriptor" where
  "graph_vampire_brute_root_behavior =
    (let kiSyncIdleLocomotion = 0 :: u32; kSpeed = 1 :: u32; kDirection = 2 :: u32; kbAnimationDriven = 3 :: u32;
       kBlendNormal = 4 :: u32; kIsAttacking = 5 :: u32; kblendFast = 6 :: u32; kTurnDelta = 7 :: u32;
       kiSyncTurnState = 8 :: u32; kIsAttackReady = 9 :: u32; kIsRecoiling = 10 :: u32; kIsStaggering = 11 :: u32;
       kstaggerMagnitude = 12 :: u32; kTargetLocation = 13 :: u32; kIsBleedingOut = 14 :: u32; kblendSlow = 15 :: u32;
       kFootIKEnable = 16 :: u32; km_onOffGain = 17 :: u32; km_groundAscendingGain = 18 :: u32;
       km_groundDescendingGain = 19 :: u32; km_footPlantedGain = 20 :: u32; km_footRaisedGain = 21 :: u32;
       km_footUnlockGain = 22 :: u32; km_worldFromModelFeedbackGain = 23 :: u32; km_errorUpDownBias = 24 :: u32;
       km_alignWorldFromModelGain = 25 :: u32; km_hipOrientationGain = 26 :: u32;
       km_footPlantedAnkleHeightMS = 27 :: u32; km_footRaisedAnkleHeightMS = 28 :: u32;
       km_maxAnkleHeightMS = 29 :: u32; km_minAnkleHeightMS = 30 :: u32; kbEquipOk = 31 :: u32;
       kiSyncDefaultState = 32 :: u32; kbHeadTrackingOn = 33 :: u32; kbCanHeadTrack = 34 :: u32;
       kfMinSpeed = 35 :: u32; kfMinTurnSpeed = 36 :: u32; kiState = 37 :: u32; kiState_GargoyleDefault = 38 :: u32;
       km_footEndLS = 39 :: u32; kSpeedSampled = 40 :: u32; kIsBashing = 41 :: u32;
       kiState_GargoyleCombatRun = 42 :: u32; kcamerafromx = 43 :: u32; kcamerafromy = 44 :: u32;
       kcamerafromz = 45 :: u32; kDirectionDamped = 46 :: u32; kDirectionGain = 47 :: u32;
       km_raycastDistanceUp = 48 :: u32; km_raycastDistanceDown = 49 :: u32; kstaggerDirection = 50 :: u32;
       km_errorOutTranslation = 51 :: u32; kbAllowRotation = 52 :: u32; kiGetUpType = 53 :: u32;
       kbHeadTracking = 54 :: u32; kbIsSynced = 55 :: u32; kiStateRunWalk = 56 :: u32;
       kiState_GargoyleCombatWalk = 57 :: u32; kiStateCurrent = 58 :: u32; kIsBleedingOutTransition = 59 :: u32
     in (6408297713843182476, \<lparr>ad_booleans =
        [kbEquipOk, kbAnimationDriven, kIsAttackReady, kbAllowRotation, kIsRecoiling, kIsStaggering, kIsAttacking,
         kbHeadTracking, kbHeadTrackingOn, kbCanHeadTrack],
      ad_floats =
        [kSpeed, kTurnDelta, kDirection, kSpeedSampled],
      ad_integers =
        [kiSyncDefaultState, kiSyncIdleLocomotion, kiSyncTurnState]\<rparr>))"

lemma described_vampire_brute_root_behavior [described]: "graph_vampire_brute_root_behavior = (6408297713843182476, \<lparr>ad_booleans =
        [31, 3, 9, 52, 10, 11, 5, 54, 33, 34],
      ad_floats = [1, 7, 2, 40],
      ad_integers = [32, 0, 8]\<rparr>)"
  unfolding graph_vampire_brute_root_behavior_def Let_def by (rule refl)

definition graph_vampire_lord_behavior :: "u64 \<times> descriptor" where
  "graph_vampire_lord_behavior =
    (let kiSyncTurnState = 0 :: u32; kTurnDelta = 1 :: u32; kDirection = 2 :: u32; kSpeed = 3 :: u32;
       kbAnimationDriven = 4 :: u32; kbIsSynced = 5 :: u32; kIsRecoiling = 6 :: u32; kIsStaggering = 7 :: u32;
       kSpeedStartVar = 8 :: u32; kTurnDeltaDamped = 9 :: u32; kTurnMin = 10 :: u32; kIsAttackReady = 11 :: u32;
       kSpeedDamped = 12 :: u32; kIsAttacking = 13 :: u32; kbAllowRotation = 14 :: u32; kFootIKEnable = 15 :: u32;
       kbHeadTrackingOff = 16 :: u32; kstaggerMagnitude = 17 :: u32; kbEquipOk = 18 :: u32; kiState = 19 :: u32;
       kiState_VampireLordDefault = 20 :: u32; kSampledSpeed = 21 :: u32; kiSyncIdleLocomotion = 22 :: u32;
       kTimeDelta = 23 :: u32; kbHeadTracking = 24 :: u32; kTargetLocation = 25 :: u32; kcamerafromx = 26 :: u32;
       kcamerafromy = 27 :: u32; kcamerafromz = 28 :: u32; kiGetUpType = 29 :: u32; kPitch = 30 :: u32;
       kiAttackState = 31 :: u32; kiState_VampireLordSprint = 32 :: u32; kIsSprinting = 33 :: u32;
       kiSyncSprintState = 34 :: u32; kbVoiceReady = 35 :: u32; kbWantCastVoice = 36 :: u32;
       kSpeedSampled = 37 :: u32; kFootIKDisable = 38 :: u32; kbInJumpState = 39 :: u32; kVelocityZ = 40 :: u32;
       kiIsInSneak = 41 :: u32; kbFailMoveStart = 42 :: u32; kBeginCastVoice = 43 :: u32; kbNoStagger = 44 :: u32;
       kbDelayMoveStart = 45 :: u32; kisHowling = 46 :: u32; kIsNPC = 47 :: u32; kisLevitating = 48 :: u32;
       kbWantCastLeft = 49 :: u32; kbWantCastRight = 50 :: u32; kbMLh_Ready = 51 :: u32; kbMRh_Ready = 52 :: u32;
       kCastBlendDamped = 53 :: u32; kCastBlend = 54 :: u32; kNotCasting = 55 :: u32; kstaggerDirection = 56 :: u32;
       kAimHeadingMax = 57 :: u32; kAimPitchMax = 58 :: u32; kBowAimOffsetHeading = 59 :: u32;
       kBowAimOffsetPitch = 60 :: u32; kAimGainOn = 61 :: u32; kAimGainOff = 62 :: u32; kbAimActive = 63 :: u32;
       kAimHeadingCurrent = 64 :: u32; kAimPitchCurrent = 65 :: u32; kIsCastingLeft = 66 :: u32;
       kIsCastingRight = 67 :: u32; kiSyncMT_Idle = 68 :: u32; kiCamera_Sync = 69 :: u32; kIsPlayer = 70 :: u32;
       kBatSprintDirection = 71 :: u32; kDeathSpeed = 72 :: u32; kDeathSpeedDamped = 73 :: u32
     in (16269673692629748097, \<lparr>ad_booleans =
        [kbEquipOk, kbAnimationDriven, kIsAttackReady, kbAllowRotation, kIsRecoiling, kIsStaggering, kIsAttacking,
         kbHeadTracking, kbMRh_Ready, kbInJumpState, kIsCastingRight, kbWantCastRight, kbVoiceReady, kisLevitating,
         kIsSprinting, kNotCasting, kbWantCastLeft, kbMLh_Ready, kIsCastingLeft, kbDelayMoveStart],
      ad_floats =
        [kSpeed, kTurnDelta, kDirection, kSpeedSampled, kCastBlend, kPitch, kTurnDeltaDamped, kCastBlendDamped,
         kSampledSpeed, kVelocityZ],
      ad_integers =
        [kiSyncIdleLocomotion, kiSyncTurnState, kiSyncSprintState, kiState]\<rparr>))"

lemma described_vampire_lord_behavior [described]: "graph_vampire_lord_behavior = (16269673692629748097, \<lparr>ad_booleans =
        [18, 4, 11, 14, 6, 7, 13, 24, 52, 39, 67, 50, 35, 48, 33, 55, 49, 51, 66, 45],
      ad_floats = [3, 1, 2, 37, 54, 30, 9, 53, 21, 40],
      ad_integers = [22, 0, 34, 19]\<rparr>)"
  unfolding graph_vampire_lord_behavior_def Let_def by (rule refl)

definition graph_chicken :: "u64 \<times> descriptor" where
  "graph_chicken =
    (let kblendDefault = 0 :: u32; kblendFast = 1 :: u32; kblendSlow = 2 :: u32; kDirection = 3 :: u32;
       kIsBlocking = 4 :: u32; kSpeed = 5 :: u32; kstaggerMagnitude = 6 :: u32; kTurnDelta = 7 :: u32;
       kIsAttackReady = 8 :: u32; kweaponSpeedMult = 9 :: u32; kFootIKEnable = 10 :: u32; kbAllowRotation = 11 :: u32;
       kturnSpeedMult = 12 :: u32; kiCombatStance = 13 :: u32; kiSyncTurnState = 14 :: u32; kIntDirection = 15 :: u32;
       kbMotionDriven = 16 :: u32; kiSyncIdleLocomotion = 17 :: u32; kfMinTurnDelta = 18 :: u32;
       kbAnimationDriven = 19 :: u32; kBoolVariable00 = 20 :: u32; kIsAttacking = 21 :: u32;
       kiLeftHandType = 22 :: u32; kiWeapCategory = 23 :: u32; kbWantCastLeft = 24 :: u32; kbMLh_Ready = 25 :: u32;
       kiState_Chicken_Default_MT = 26 :: u32; kiState = 27 :: u32; kIsBashing = 28 :: u32; kIsStaggering = 29 :: u32;
       kIsRecoiling = 30 :: u32; kSpeedDamped = 31 :: u32; kSpeedSampled = 32 :: u32; kbHeadTracking = 33 :: u32;
       kTargetLocation = 34 :: u32; kbHeadTrackingOff = 35 :: u32; kSlowBlend = 36 :: u32; kbNoHeadTrack = 37 :: u32;
       kAggroWarningBlend = 38 :: u32; kstaggerDirection = 39 :: u32; kiCurrentStateID = 40 :: u32;
       kiGetUpType = 41 :: u32; kiTurnMirrored = 42 :: u32; kEC_iSyncIdleLocomotion_1 = 43 :: u32;
       kisIdleSitting = 44 :: u32; kisIdleLay = 45 :: u32; kbForceIdleStop = 46 :: u32
     in (5224687413749858422, \<lparr>ad_booleans =
        [kbAnimationDriven, kbAllowRotation, kbHeadTracking, kIsRecoiling, kIsStaggering, kIsAttacking],
      ad_floats =
        [kSpeed, kTurnDelta, kturnSpeedMult, kDirection, kSpeedSampled],
      ad_integers =
        [kiSyncIdleLocomotion, kiSyncTurnState, kiCombatStance]\<rparr>))"

lemma described_chicken [described]: "graph_chicken = (5224687413749858422, \<lparr>ad_booleans =
        [19, 11, 33, 30, 29, 21],
      ad_floats = [5, 7, 12, 3, 32],
      ad_integers = [17, 14, 13]\<rparr>)"
  unfolding graph_chicken_def Let_def by (rule refl)

definition graph_dwarven_spider :: "u64 \<times> descriptor" where
  "graph_dwarven_spider =
    (let kblendDefault = 0 :: u32; kblendFast = 1 :: u32; kblendSlow = 2 :: u32; kDirection = 3 :: u32;
       kIsBlocking = 4 :: u32; kSpeed = 5 :: u32; kstaggerMagnitude = 6 :: u32; kTurnDelta = 7 :: u32;
       kIsAttackReady = 8 :: u32; kweaponSpeedMult = 9 :: u32; kFootIKEnable = 10 :: u32; km_onOffGain = 11 :: u32;
       km_groundAscendingGain = 12 :: u32; km_groundDescendingGain = 13 :: u32; km_footPlantedGain = 14 :: u32;
       km_footRaisedGain = 15 :: u32; km_footUnlockGain = 16 :: u32; km_worldFromModelFeedbackGain = 17 :: u32;
       km_errorUpDownBias = 18 :: u32; km_alignWorldFromModelGain = 19 :: u32; km_hipOrientationGain = 20 :: u32;
       km_footPlantedAnkleHeightMS = 21 :: u32; km_footRaisedAnkleHeightMS = 22 :: u32;
       km_maxAnkleHeightMS = 23 :: u32; km_minAnkleHeightMS = 24 :: u32; kbAllowRotation = 25 :: u32;
       kturnSpeedMult = 26 :: u32; kiCombatStance = 27 :: u32; kiSyncTurnState = 28 :: u32; kIntDirection = 29 :: u32;
       kbMotionDriven = 30 :: u32; kiSyncIdleLocomotion = 31 :: u32; kfMinTurnDelta = 32 :: u32;
       kbAnimationDriven = 33 :: u32; kBoolVariable00 = 34 :: u32; kIsAttacking = 35 :: u32;
       kiLeftHandType = 36 :: u32; kiWeapCategory = 37 :: u32; kbWantCastLeft = 38 :: u32; kbMLh_Ready = 39 :: u32;
       kiState_CombatSpider_MT = 40 :: u32; kiState_DefaultSpider_MT = 41 :: u32; kiState = 42 :: u32;
       kIsBashing = 43 :: u32; kbEquipOk = 44 :: u32; kIsStaggering = 45 :: u32; kIsRecoiling = 46 :: u32;
       km_state = 47 :: u32; km_direction = 48 :: u32; km_goalSpeed = 49 :: u32; km_speedOut = 50 :: u32;
       kSpeedDamped = 51 :: u32; km_enable = 52 :: u32; km_limitAngleDegrees = 53 :: u32;
       km_startBoneIndex = 54 :: u32; km_gain = 55 :: u32; km_boneRadius = 56 :: u32; km_endBoneIndex = 57 :: u32;
       km_castOffset = 58 :: u32; kSpeedSampled = 59 :: u32; kiCurrentStateID = 60 :: u32;
       kspeedMultForward = 61 :: u32; kspeedMultBackward = 62 :: u32; kspeedMultLeft = 63 :: u32;
       kspeedMultRight = 64 :: u32; kspeedForward = 65 :: u32; kspeedBackward = 66 :: u32; kspeedLeft = 67 :: u32;
       kspeedRight = 68 :: u32; kIsSideAttacking = 69 :: u32; kbFootIKDisable = 70 :: u32; kiGetUpType = 71 :: u32
     in (15924684633707834553, \<lparr>ad_booleans =
        [kbAnimationDriven, kbAllowRotation, kIsRecoiling, kIsStaggering, kIsAttacking, kbMLh_Ready, kbEquipOk,
         kIsAttackReady],
      ad_floats =
        [kSpeed, kTurnDelta, kturnSpeedMult, kDirection, kSpeedSampled, kspeedMultBackward, kspeedMultRight,
         kspeedMultForward, kspeedMultLeft],
      ad_integers =
        [kiSyncIdleLocomotion, kiSyncTurnState, kiCombatStance, kiCurrentStateID]\<rparr>))"

lemma described_dwarven_spider [described]: "graph_dwarven_spider = (15924684633707834553, \<lparr>ad_booleans =
        [33, 25, 46, 45, 35, 39, 44, 8],
      ad_floats = [5, 7, 26, 3, 59, 62, 64, 61, 63],
      ad_integers = [31, 28, 27, 60]\<rparr>)"
  unfolding graph_dwarven_spider_def Let_def by (rule refl)

definition graph_frostbite_spider :: "u64 \<times> descriptor" where
  "graph_frostbite_spider =
    (let kblendDefault = 0 :: u32; kblendFast = 1 :: u32; kblendSlow = 2 :: u32; kDirection = 3 :: u32;
       kIsBlocking = 4 :: u32; kSpeed = 5 :: u32; kstaggerMagnitude = 6 :: u32; kTurnDelta = 7 :: u32;
       kIsAttackReady = 8 :: u32; kweaponSpeedMult = 9 :: u32; kbAllowRotation = 10 :: u32;
       kturnSpeedMult = 11 :: u32; kiCombatStance = 12 :: u32; kiSyncTurnState = 13 :: u32; kIntDirection = 14 :: u32;
       kbMotionDriven = 15 :: u32; kiSyncIdleLocomotion = 16 :: u32; kfMinTurnDelta = 17 :: u32;
       kbAnimationDriven = 18 :: u32; kIsAttacking = 19 :: u32; kiLeftHandType = 20 :: u32;
       kiWeapCategory = 21 :: u32; kbWantCastLeft = 22 :: u32; kbMLh_Ready = 23 :: u32;
       kiState_CombatSpider_MT = 24 :: u32; kiState_DefaultSpider_MT = 25 :: u32; kiState = 26 :: u32;
       kIsBashing = 27 :: u32; kbEquipOk = 28 :: u32; kIsStaggering = 29 :: u32; kIsRecoiling = 30 :: u32;
       kSpeedDamped = 31 :: u32; kSpeedSampled = 32 :: u32; kiCurrentStateID = 33 :: u32; kiGetUpType = 34 :: u32;
       kbIsSynced = 35 :: u32
     in (1928879069472700161, \<lparr>ad_booleans =
        [kbAnimationDriven, kbAllowRotation, kIsRecoiling, kIsStaggering, kIsAttacking, kbMLh_Ready, kbEquipOk,
         kIsAttackReady, kbWantCastLeft],
      ad_floats =
        [kSpeed, kTurnDelta, kturnSpeedMult, kDirection, kSpeedSampled],
      ad_integers =
        [kiLeftHandType, kiSyncIdleLocomotion, kiSyncTurnState, kiCombatStance, kiCurrentStateID]\<rparr>))"

lemma described_frostbite_spider [described]: "graph_frostbite_spider = (1928879069472700161, \<lparr>ad_booleans =
        [18, 10, 30, 29, 19, 23, 28, 8, 22],
      ad_floats = [5, 7, 11, 3, 32],
      ad_integers = [20, 16, 13, 12, 33]\<rparr>)"
  unfolding graph_frostbite_spider_def Let_def by (rule refl)

definition graph_spriggan :: "u64 \<times> descriptor" where
  "graph_spriggan =
    (let kSpeed = 0 :: u32; kfMinSpeed = 1 :: u32; kbHeadTrackingOn = 2 :: u32; kTargetLocation = 3 :: u32;
       kcamerafromx = 4 :: u32; kcamerafromy = 5 :: u32; kcamerafromz = 6 :: u32; kTurnDelta = 7 :: u32;
       kiSyncTurnState = 8 :: u32; kDirection = 9 :: u32; kiState = 10 :: u32; kiState_SprigganDefault = 11 :: u32;
       kbHeadTracking = 12 :: u32; kbCanHeadTrack = 13 :: u32; kIsStaggering = 14 :: u32; kIsRecoiling = 15 :: u32;
       kIsAttacking = 16 :: u32; kisCasting = 17 :: u32; kIsSummoned = 18 :: u32; kbWantCastLeft = 19 :: u32;
       kbMLh_Ready = 20 :: u32; kbWantCastRight = 21 :: u32; kbMRh_Ready = 22 :: u32; kblendDefault = 23 :: u32;
       kblendSlow = 24 :: u32; kIntDirection = 25 :: u32; kIsAttackReady = 26 :: u32;
       kiSyncIdleLocomotion = 27 :: u32; kbAnimationDriven = 28 :: u32; kiSyncDefaultState = 29 :: u32;
       kblendFast = 30 :: u32; kstaggerMagnitude = 31 :: u32; kSpeedSampled = 32 :: u32;
       kSpeedSampledGain = 33 :: u32; kSpeedSampledDamped = 34 :: u32; kDirectionGain = 35 :: u32;
       kbEquipOk = 36 :: u32; kIsDualActive = 37 :: u32; kiState_SprigganCombat = 38 :: u32;
       kbNoHeadTrack = 39 :: u32; kiGetUpType = 40 :: u32; kbIsSynced = 41 :: u32; kbForceIdleStop = 42 :: u32;
       kstaggerDirection = 43 :: u32
     in (10099378323021197839, \<lparr>ad_booleans =
        [kbEquipOk, kbAnimationDriven, kIsAttackReady, kIsRecoiling, kIsStaggering, kIsAttacking, kbHeadTracking,
         kbHeadTrackingOn, kbCanHeadTrack, kbMLh_Ready, kbMRh_Ready, kbNoHeadTrack, kisCasting, kbWantCastLeft],
      ad_floats =
        [kSpeed, kTurnDelta, kDirection, kSpeedSampled],
      ad_integers =
        [kiSyncDefaultState, kiSyncIdleLocomotion, kiSyncTurnState, kiState]\<rparr>))"

lemma described_spriggan [described]: "graph_spriggan = (10099378323021197839, \<lparr>ad_booleans =
        [36, 28, 26, 15, 14, 16, 12, 2, 13, 20, 22, 39, 17, 19],
      ad_floats = [0, 7, 9, 32],
      ad_integers = [29, 27, 8, 10]\<rparr>)"
  unfolding graph_spriggan_def Let_def by (rule refl)

definition graph_mudcrab :: "u64 \<times> descriptor" where
  "graph_mudcrab =
    (let kblendDefault = 0 :: u32; kblendFast = 1 :: u32; kblendSlow = 2 :: u32; kDirection = 3 :: u32;
       kIsBlocking = 4 :: u32; kSpeed = 5 :: u32; kstaggerMagnitude = 6 :: u32; kTurnDelta = 7 :: u32;
       kIsAttackReady = 8 :: u32; kFootIKEnable = 9 :: u32; kbAllowRotation = 10 :: u32; kturnSpeedMult = 11 :: u32;
       kiCombatStance = 12 :: u32; kiSyncTurnState = 13 :: u32; kIntDirection = 14 :: u32; kbMotionDriven = 15 :: u32;
       kiSyncIdleLocomotion = 16 :: u32; kfMinTurnDelta = 17 :: u32; kbAnimationDriven = 18 :: u32;
       kBoolVariable00 = 19 :: u32; kIsAttacking = 20 :: u32; kiLeftHandType = 21 :: u32; kiWeapCategory = 22 :: u32;
       kbWantCastLeft = 23 :: u32; kiState_MCrab_Default_MT = 24 :: u32; kiState = 25 :: u32; kIsBashing = 26 :: u32;
       kbEquipOk = 27 :: u32; kIsStaggering = 28 :: u32; kIsRecoiling = 29 :: u32; kSpeedDamped = 30 :: u32;
       kSpeedSampled = 31 :: u32; kbHeadTracking = 32 :: u32; kTargetLocation = 33 :: u32;
       kbHeadTrackingOff = 34 :: u32; kSlowBlend = 35 :: u32; kbNoHeadTrack = 36 :: u32;
       kAggroWarningBlend = 37 :: u32; kstaggerDirection = 38 :: u32; kiCurrentStateID = 39 :: u32;
       kisIdleLay = 40 :: u32; kisIdleSitting = 41 :: u32; kiGetUpType = 42 :: u32; kIsSideAttacking = 43 :: u32
     in (9498225481650921683, \<lparr>ad_booleans =
        [kbAnimationDriven, kbAllowRotation, kbHeadTracking, kIsRecoiling, kIsStaggering, kIsAttacking,
         kIsAttackReady, kbEquipOk],
      ad_floats =
        [kSpeed, kTurnDelta, kturnSpeedMult, kDirection, kSpeedSampled],
      ad_integers =
        [kiSyncIdleLocomotion, kiSyncTurnState, kiCombatStance, kiCurrentStateID]\<rparr>))"

lemma described_mudcrab [described]: "graph_mudcrab = (9498225481650921683, \<lparr>ad_booleans =
        [18, 10, 32, 29, 28, 20, 8, 27],
      ad_floats = [5, 7, 11, 3, 31],
      ad_integers = [16, 13, 12, 39]\<rparr>)"
  unfolding graph_mudcrab_def Let_def by (rule refl)

definition graph_rabbit :: "u64 \<times> descriptor" where
  "graph_rabbit =
    (let kblendDefault = 0 :: u32; kblendFast = 1 :: u32; kblendSlow = 2 :: u32; kDirection = 3 :: u32;
       kIsBlocking = 4 :: u32; kSpeed = 5 :: u32; kstaggerMagnitude = 6 :: u32; kTurnDelta = 7 :: u32;
       kIsAttackReady = 8 :: u32; kweaponSpeedMult = 9 :: u32; kFootIKEnable = 10 :: u32; kbAllowRotation = 11 :: u32;
       kturnSpeedMult = 12 :: u32; kiCombatStance = 13 :: u32; kiSyncTurnDirection = 14 :: u32;
       kIntDirection = 15 :: u32; kbMotionDriven = 16 :: u32; kiSyncIdleLocomotion = 17 :: u32;
       kfMinTurnDelta = 18 :: u32; kbAnimationDriven = 19 :: u32; kBoolVariable00 = 20 :: u32;
       kIsAttacking = 21 :: u32; kiLeftHandType = 22 :: u32; kiWeapCategory = 23 :: u32; kbWantCastLeft = 24 :: u32;
       kbMLh_Ready = 25 :: u32; kiState_Hare_Default_MT = 26 :: u32; kiState = 27 :: u32; kIsBashing = 28 :: u32;
       kIsStaggering = 29 :: u32; kIsRecoiling = 30 :: u32; kSpeedDamped = 31 :: u32; kSpeedSampled = 32 :: u32;
       kbHeadTracking = 33 :: u32; kTargetLocation = 34 :: u32; kbHeadTrackingOff = 35 :: u32; kSlowBlend = 36 :: u32;
       kbNoHeadTrack = 37 :: u32; kAggroWarningBlend = 38 :: u32; kstaggerDirection = 39 :: u32;
       kiCurrentStateID = 40 :: u32; kiGetUpType = 41 :: u32; kEC_iSyncIdleLocomotion_1 = 42 :: u32;
       kisIdleSitting = 43 :: u32; kisIdleLay = 44 :: u32; kbForceIdleStop = 45 :: u32
     in (11071881714804970071, \<lparr>ad_booleans =
        [kbAnimationDriven, kbAllowRotation, kbHeadTracking, kIsRecoiling, kIsStaggering, kIsAttacking],
      ad_floats =
        [kSpeed, kTurnDelta, kturnSpeedMult, kDirection, kSpeedSampled],
      ad_integers =
        [kiSyncIdleLocomotion, kiCombatStance]\<rparr>))"

lemma described_rabbit [described]: "graph_rabbit = (11071881714804970071, \<lparr>ad_booleans =
        [19, 11, 33, 30, 29, 21],
      ad_floats = [5, 7, 12, 3, 32],
      ad_integers = [17, 13]\<rparr>)"
  unfolding graph_rabbit_def Let_def by (rule refl)

section \<open>The manager\<close>

text \<open>\<open>Register\<close> keeps a key's first descriptor.\<close>

definition graph_register :: "u64 \<Rightarrow> descriptor \<Rightarrow> (u64 \<times> descriptor) list \<Rightarrow> (u64 \<times> descriptor) list" where
  "graph_register key d ds = (if map_of ds key \<noteq> None then ds else ds @ [(key, d)])"

definition all_graphs :: "(u64 \<times> descriptor) list" where
  "all_graphs =
    [graph_master_behavior, graph_bhr_master, graph_wolf_root_behavior, graph_chaurus, graph_troll_behavior,
     graph_draugr_behavior, graph_giant_root_behavior, graph_dog_root_behavior, graph_cow_root_behavior,
     graph_goat_root_behavior, graph_horse_root_behavior, graph_atronach_frost_root_behavior,
     graph_atronach_storm_behavior, graph_steam_behavior, graph_falmer_master_behavior,
     graph_hagraven_master_behavior, graph_scrib_root_behavior, graph_bear_root_behavior,
     graph_sabre_cat_root_behavior, graph_skeever_root_behavior, graph_horker_root_behavior, graph_werewolf_behavior,
     graph_mammoth_root_behavior, graph_deer_root_behavior, graph_vampire_brute_root_behavior,
     graph_vampire_lord_behavior, graph_chicken, graph_dwarven_spider, graph_frostbite_spider, graph_spriggan,
     graph_mudcrab, graph_rabbit]"

definition graph_descriptors :: "(u64 \<times> descriptor) list" where
  "graph_descriptors = fold (\<lambda>(key, d). graph_register key d) all_graphs []"

definition get_descriptor :: "u64 \<Rightarrow> descriptor option" where
  "get_descriptor key = map_of graph_descriptors key"

lemma register_all:
  "distinct (map fst (ds @ gs)) \<Longrightarrow> fold (\<lambda>(key, d). graph_register key d) gs ds = ds @ gs"
proof (induction gs arbitrary: ds)
  case (Cons g gs)
  obtain k d where g: "g = (k, d)" by (cases g)
  have "map_of ds k = None"
    using Cons.prems by (auto simp: g map_of_eq_None_iff)
  then show ?case
    using Cons by (simp add: g graph_register_def)
qed simp

lemma graph_keys: "distinct (map fst all_graphs)"
  by (simp add: all_graphs_def described)

lemma graphs_small:
  "list_all (\<lambda>(_, d). length (ad_booleans d) \<le> 64 \<and> 1 + length (ad_floats d) + length (ad_integers d) \<le> 64) all_graphs"
  by (simp add: all_graphs_def described)

definition descriptor_apart :: "descriptor \<Rightarrow> bool" where
  "descriptor_apart d \<longleftrightarrow> distinct (ad_floats d) \<and> distinct (ad_integers d) \<and> set (ad_booleans d) \<inter> set (ad_floats d) = {} \<and>
     set (ad_booleans d) \<inter> set (ad_integers d) = {} \<and> set (ad_floats d) \<inter> set (ad_integers d) = {}"

lemma graphs_apart: "list_all (\<lambda>(_, d). descriptor_apart d) all_graphs"
  by (simp add: all_graphs_def described descriptor_apart_def)

lemma graphs_once: "list_all (\<lambda>(key, d). distinct (ad_booleans d) = (key \<noteq> 9011796343880008240)) all_graphs"
  by (simp add: all_graphs_def described)

text \<open>
  Every graph's key finds the descriptor written for that graph, whose booleans fit 64 and whose
  floats and integers, with the booleans' word, fit 64 more. No variable is sent as two kinds, and none twice but one: the
  storm atronach's \<open>bWantCastLeft\<close>, in its booleans two times.
\<close>

theorem graphs_are_described:
  assumes "(key, d) \<in> set all_graphs"
  shows "get_descriptor key = Some d \<and> length (ad_booleans d) \<le> 64 \<and> 1 + length (ad_floats d) + length (ad_integers d) \<le> 64 \<and>
    descriptor_apart d \<and> (distinct (ad_booleans d) \<longleftrightarrow> key \<noteq> fst graph_atronach_storm_behavior)"
proof -
  have "graph_descriptors = all_graphs"
    using register_all [of "[]" all_graphs] graph_keys by (simp add: graph_descriptors_def)
  then have "get_descriptor key = Some d"
    using assms graph_keys by (simp add: get_descriptor_def)
  moreover have "fst graph_atronach_storm_behavior = 9011796343880008240"
    by (simp add: described)
  ultimately show ?thesis
    using assms graphs_small graphs_apart graphs_once by (fastforce simp: list_all_iff)
qed

theorem graphs_are_described_witness:
  "get_descriptor 9011796343880008240 = Some (snd graph_atronach_storm_behavior)"
  using graphs_are_described [of 9011796343880008240 "snd graph_atronach_storm_behavior"] by (simp add: all_graphs_def described)

end
