(* ===== verification/Host_World.thy ===== *)
theory Host_World
  imports Party_Goods Shared_Wait
begin

text \<open>
  The world is the host's (\<open>Services/Host/HostWorldState\<close>): its globals and quests go to the others when they change,
  and whole to a player that enters; its objects' changes go out every frame, and a guest's loaded cell gets the host's
  state once the host's game has that cell too.
\<close>

section \<open>The host's game and what was told of it\<close>

record host_global =
  hg_Id :: game_id
  hg_Value :: float32
  hg_Clock :: bool

text \<open>What each call returns at an event (none where the host's game lacks it); \<open>Take...\<close> empties what it returns.\<close>

record world_game =
  wg_ReadGlobals :: "host_global list option"
  wg_TakeGlobalChanges :: "host_global list option"
  wg_ReadQuests :: "quest_state list option"
  wg_TakeQuestChanges :: "quest_state list option"
  wg_TakeObjectChanges :: "object_change list option"
  wg_ReadCellState :: "(game_id \<Rightarrow> changed_reference list \<Rightarrow> object_change list option) option"
  wg_ReadContents :: "(game_id \<Rightarrow> object_change option) option"

record world =
  wo_globals :: "(u64 \<times> u32) list"
  wo_globalsRead :: bool
  wo_questIndex :: "(u64 \<times> nat) list"
  wo_quests :: "quest_state list"
  wo_questsRead :: bool
  wo_pendingCells :: "(conn \<times> cell_request) list"

definition new_world :: world where
  "new_world = \<lparr>wo_globals = [], wo_globalsRead = False, wo_questIndex = [], wo_quests = [], wo_questsRead = False,
     wo_pendingCells = []\<rparr>"

definition max_pending_cells :: nat where "max_pending_cells = 64"

datatype world_message =
    World_Quests quests_message
  | World_Globals "global_value list"
  | World_Objects object_changes

text \<open>\<open>Key\<close>, and the id it is made of.\<close>

definition game_key :: "game_id \<Rightarrow> u64" where
  "game_key i = push_bit 32 (ucast (gid_ModId i)) OR ucast (gid_BaseId i)"

definition key_id :: "u64 \<Rightarrow> game_id" where
  "key_id k = \<lparr>gid_BaseId = ucast k, gid_ModId = ucast (drop_bit 32 k)\<rparr>"

section \<open>Globals and quests\<close>

text \<open>The values that differ from those told, which they replace. The calendar is the clock's.\<close>

fun note_globals :: "host_global list \<Rightarrow> (u64 \<times> u32) list \<Rightarrow> (u64 \<times> u32) list \<times> global_value list" where
  "note_globals [] m = (m, [])"
| "note_globals (g # gs) m =
     (let k = game_key (hg_Id g)
      in if hg_Clock g \<or> map_of m k = Some (hg_Value g) then note_globals gs m
         else let (m, news) = note_globals gs (assign k (hg_Value g) m)
              in (m, \<lparr>gv_Id = hg_Id g, gv_Value = hg_Value g\<rparr> # news))"

definition update_globals :: "world_game \<Rightarrow> host_players \<Rightarrow> world \<Rightarrow> world \<times> world_message outbox" where
  "update_globals g p s =
     (let host = players_host p
      in case wg_ReadGlobals g of
           None \<Rightarrow> (s, [])
         | Some every \<Rightarrow>
             if host = 0 then (s, [])
             else
               let globals = (if \<not> wo_globalsRead s then every else case wg_TakeGlobalChanges g of None \<Rightarrow> [] | Some xs \<Rightarrow> xs);
                   (m, news) = note_globals globals (wo_globals s)
               in (s\<lparr>wo_globals := m, wo_globalsRead := True\<rparr>,
                   if news = [] then [] else send_to_others (World_Globals news) host p))"

fun note_quests :: "quest_state list \<Rightarrow> (u64 \<times> nat) list \<Rightarrow> quest_state list \<Rightarrow>
    (u64 \<times> nat) list \<times> quest_state list \<times> quest_state list" where
  "note_quests [] idx held = (idx, held, [])"
| "note_quests (q # qs) idx held =
     (case map_of idx (game_key (qs_Id q)) of
        None \<Rightarrow>
          (let (idx, held, news) = note_quests qs (assign (game_key (qs_Id q)) (length held) idx) (held @ [q])
           in (idx, held, q # news))
      | Some i \<Rightarrow>
          if held ! i = q then note_quests qs idx held
          else let (idx, held, news) = note_quests qs idx (held[i := q]) in (idx, held, q # news))"

text \<open>The first look sends every quest, as a load.\<close>

definition update_quests :: "world_game \<Rightarrow> host_players \<Rightarrow> world \<Rightarrow> world \<times> world_message outbox" where
  "update_quests g p s =
     (let host = players_host p
      in case wg_ReadQuests g of
           None \<Rightarrow> (s, [])
         | Some every \<Rightarrow>
             if host = 0 then (s, [])
             else
               let quests = (if \<not> wo_questsRead s then every else case wg_TakeQuestChanges g of None \<Rightarrow> [] | Some xs \<Rightarrow> xs);
                   (idx, held, news) = note_quests quests (wo_questIndex s) (wo_quests s)
               in (s\<lparr>wo_questIndex := idx, wo_quests := held, wo_questsRead := True\<rparr>,
                   if news = [] then []
                   else send_to_others (World_Quests \<lparr>nq_Quests = news, nq_Join = \<not> wo_questsRead s\<rparr>) host p))"

section \<open>Objects and cells\<close>

definition update_object_changes :: "world_game \<Rightarrow> host_players \<Rightarrow> world_message outbox" where
  "update_object_changes g p =
     (case wg_TakeObjectChanges g of
        None \<Rightarrow> []
      | Some taken \<Rightarrow>
          let changes = add_created_contents (wg_ReadContents g) taken; host = players_host p
          in if host = 0 \<or> changes = [] then []
             else send_to_others (World_Objects \<lparr>noc_Cell = no_id, noc_Changes = changes\<rparr>) host p)"

text \<open>None while the cell is not loaded in the host's game; else its rows, an empty answer too.\<close>

definition send_cell_state :: "world_game \<Rightarrow> conn \<Rightarrow> cell_request \<Rightarrow> world_message outbox option" where
  "send_cell_state g c q =
     (case wg_ReadCellState g of
        None \<Rightarrow> None
      | Some read \<Rightarrow>
          map_option (\<lambda>rows. map (\<lambda>part. (c, World_Objects \<lparr>noc_Cell = cs_Cell q, noc_Changes = part\<rparr>))
            (split_rows (add_created_contents (wg_ReadContents g) rows))) (read (cs_Cell q) (cs_Changed q)))"

definition on_cell_state :: "world_game \<Rightarrow> host_players \<Rightarrow> cell_request \<Rightarrow> conn \<Rightarrow> world \<Rightarrow> world \<times> world_message outbox" where
  "on_cell_state g p q sender s =
     (if sender = players_host p \<or> wg_ReadCellState g = None then (s, [])
      else
        let others = filter (\<lambda>(c, r). \<not> (c = sender \<and> cs_Cell r = cs_Cell q)) (wo_pendingCells s)
        in case send_cell_state g sender q of
             Some out \<Rightarrow> (s\<lparr>wo_pendingCells := others\<rparr>, out)
           | None \<Rightarrow>
               (s\<lparr>wo_pendingCells := (if max_pending_cells \<le> length others then tl others else others) @ [(sender, q)]\<rparr>, []))"

fun answer_cells :: "world_game \<Rightarrow> (conn \<times> cell_request) list \<Rightarrow> (conn \<times> cell_request) list \<times> world_message outbox" where
  "answer_cells g [] = ([], [])"
| "answer_cells g ((c, q) # ps) =
     (let (waiting, out) = answer_cells g ps
      in case send_cell_state g c q of None \<Rightarrow> ((c, q) # waiting, out) | Some answer \<Rightarrow> (waiting, answer @ out))"

definition update_pending_cells :: "world_game \<Rightarrow> world \<Rightarrow> world \<times> world_message outbox" where
  "update_pending_cells g s =
     (let (waiting, out) = answer_cells g (wo_pendingCells s) in (s\<lparr>wo_pendingCells := waiting\<rparr>, out))"

definition world_update :: "world_game \<Rightarrow> host_players \<Rightarrow> world \<Rightarrow> world \<times> world_message outbox" where
  "world_update g p s =
     (let out1 = update_object_changes g p;
          (s, out2) = update_pending_cells g s;
          (s, out3) = update_globals g p s;
          (s, out4) = update_quests g p s
      in (s, out1 @ out2 @ out3 @ out4))"

definition world_player_left :: "conn \<Rightarrow> world \<Rightarrow> world" where
  "world_player_left c s = s\<lparr>wo_pendingCells := filter (\<lambda>(d, _). d \<noteq> c) (wo_pendingCells s)\<rparr>"

definition send_world_state :: "conn \<Rightarrow> world \<Rightarrow> world_message outbox" where
  "send_world_state c s =
     (if wo_quests s = [] then [] else [(c, World_Quests \<lparr>nq_Quests = wo_quests s, nq_Join = True\<rparr>)]) @
     (if wo_globals s = [] then [] else [(c, World_Globals (map (\<lambda>(k, v). \<lparr>gv_Id = key_id k, gv_Value = v\<rparr>) (wo_globals s)))])"

section \<open>Keys\<close>

lemma key_id [simp]: "key_id (game_key i) = i"
proof -
  have beyond: "\<not> bit (gid_BaseId i) (32 + n)" for n
    using bit_imp_le_length [of "gid_BaseId i" "32 + n"] by auto
  have "gid_ModId (key_id (game_key i)) = gid_ModId i" "gid_BaseId (key_id (game_key i)) = gid_BaseId i"
    by (auto simp: key_id_def game_key_def bit_simps beyond intro!: bit_word_eqI)
  then show ?thesis
    by simp
qed

lemma game_key_id [simp]: "game_key (key_id k) = k"
  by (auto simp: key_id_def game_key_def bit_simps intro!: bit_word_eqI)

lemma game_key_inj [simp]: "game_key i = game_key j \<longleftrightarrow> i = j"
  by (metis key_id)

section \<open>What the others hold\<close>

text \<open>A game holding the quests and globals it was told, each by its id; a later message replaces.\<close>

type_synonym world_view = "(u64 \<rightharpoonup> quest_state) \<times> (u64 \<rightharpoonup> u32)"

definition hold_quest :: "quest_state \<Rightarrow> (u64 \<rightharpoonup> quest_state) \<Rightarrow> u64 \<rightharpoonup> quest_state" where
  "hold_quest x q = q(game_key (qs_Id x) \<mapsto> x)"

definition hold_global :: "global_value \<Rightarrow> (u64 \<rightharpoonup> u32) \<Rightarrow> u64 \<rightharpoonup> u32" where
  "hold_global x g = g(game_key (gv_Id x) \<mapsto> gv_Value x)"

fun hold :: "world_message \<Rightarrow> world_view \<Rightarrow> world_view" where
  "hold (World_Quests m) (q, g) = (fold hold_quest (nq_Quests m) q, g)"
| "hold (World_Globals vs) (q, g) = (q, fold hold_global vs g)"
| "hold (World_Objects m) v = v"

definition held_by :: "conn \<Rightarrow> conn \<times> world_message \<Rightarrow> world_view \<Rightarrow> world_view option" where
  "held_by c = at_conn c (\<lambda>m v. Some (hold m v))"

text \<open>What the host has told: the quests, which its index finds, and the globals.\<close>

definition indexed :: "(u64 \<times> nat) list \<Rightarrow> quest_state list \<Rightarrow> u64 \<rightharpoonup> quest_state" where
  "indexed idx held k = map_option (\<lambda>i. held ! i) (map_of idx k)"

definition world_told :: "world \<Rightarrow> world_view" where
  "world_told s = (indexed (wo_questIndex s) (wo_quests s), map_of (wo_globals s))"

definition index_ok :: "(u64 \<times> nat) list \<Rightarrow> quest_state list \<Rightarrow> bool" where
  "index_ok idx held \<longleftrightarrow> (\<forall>k i. map_of idx k = Some i \<longrightarrow> i < length held \<and> game_key (qs_Id (held ! i)) = k) \<and>
     (\<forall>i < length held. map_of idx (game_key (qs_Id (held ! i))) = Some i)"

lemma index_ok_at:
  assumes "index_ok idx held"
  shows "map_of idx k = Some i \<longleftrightarrow> i < length held \<and> game_key (qs_Id (held ! i)) = k"
  using assms by (auto simp: index_ok_def simp del: map_of_eq_Some_iff)

lemma index_okI: "(\<And>k i. map_of idx k = Some i \<longleftrightarrow> i < length held \<and> game_key (qs_Id (held ! i)) = k) \<Longrightarrow> index_ok idx held"
  by (simp add: index_ok_def del: map_of_eq_Some_iff game_key_inj)

lemma index_add:
  assumes "index_ok idx held" "map_of idx k = None" "game_key (qs_Id q) = k"
  shows "index_ok (assign k (length held) idx) (held @ [q])" (is ?ok)
    and "indexed (assign k (length held) idx) (held @ [q]) = hold_quest q (indexed idx held)"
proof -
  have "game_key (qs_Id (held ! i)) \<noteq> k" if "i < length held" for i
    using index_ok_at [OF assms(1), of k i] assms(2) that by simp
  then show ?ok
    using index_ok_at [OF assms(1)] assms(3)
    by (intro index_okI) (auto simp: nth_append less_Suc_eq simp del: map_of_eq_Some_iff game_key_inj)
  show "indexed (assign k (length held) idx) (held @ [q]) = hold_quest q (indexed idx held)"
    using index_ok_at [OF assms(1)] assms(3)
    by (auto simp: indexed_def hold_quest_def fun_eq_iff nth_append option.map_comp comp_def simp del: map_of_eq_Some_iff
        intro!: option.map_cong)
qed

lemma index_replace:
  assumes "index_ok idx held" "map_of idx k = Some i" "game_key (qs_Id q) = k"
  shows "index_ok idx (held[i := q])" and "indexed idx (held[i := q]) = hold_quest q (indexed idx held)"
proof -
  note at = index_ok_at [OF assms(1)]
  have i: "i < length held" "game_key (qs_Id (held ! i)) = k"
    using at assms(2) by auto
  have "game_key (qs_Id (held[i := q] ! j)) = game_key (qs_Id (held ! j))" if "j < length held" for j
    using that i assms(3) by (cases "j = i") simp_all
  then show "index_ok idx (held[i := q])"
    using at by (intro index_okI) (auto simp del: map_of_eq_Some_iff game_key_inj)
  show "indexed idx (held[i := q]) = hold_quest q (indexed idx held)"
  proof
    fix k'
    show "indexed idx (held[i := q]) k' = hold_quest q (indexed idx held) k'"
    proof (cases "map_of idx k'")
      case (Some j)
      then have "j < length held" "k' = k \<longleftrightarrow> j = i"
        using at [of k' j] at [of k j] at [of k i] assms(2) i by (auto simp del: map_of_eq_Some_iff game_key_inj)
      then show ?thesis
        using Some assms(3) i by (simp add: indexed_def hold_quest_def)
    qed (use assms(2,3) in \<open>auto simp: indexed_def hold_quest_def\<close>)
  qed
qed

lemma note_quests_told:
  assumes "note_quests qs idx held = (idx', held', news)" "index_ok idx held"
  shows "fold hold_quest news (indexed idx held) = indexed idx' held' \<and> index_ok idx' held' \<and>
    fold hold_quest qs (indexed idx held) = indexed idx' held'"
  using assms
proof (induction qs arbitrary: idx held news)
  case (Cons q qs)
  let ?k = "game_key (qs_Id q)"
  show ?case
  proof (cases "map_of idx ?k")
    case None
    then obtain rest where "note_quests qs (assign ?k (length held) idx) (held @ [q]) = (idx', held', rest)" "news = q # rest"
      using Cons.prems(1) by (auto simp del: map_of_eq_Some_iff split: prod.splits)
    then show ?thesis
      using Cons.IH [OF _ index_add(1) [OF Cons.prems(2) None refl]] index_add(2) [OF Cons.prems(2) None refl] by simp
  next
    case (Some i)
    show ?thesis
    proof (cases "held ! i = q")
      case False
      then obtain rest where "note_quests qs idx (held[i := q]) = (idx', held', rest)" "news = q # rest"
        using Cons.prems(1) Some by (auto simp del: map_of_eq_Some_iff split: prod.splits)
      then show ?thesis
        using Cons.IH [OF _ index_replace(1) [OF Cons.prems(2) Some refl]] index_replace(2) [OF Cons.prems(2) Some refl] by simp
    next
      case True
      then have "hold_quest q (indexed idx held) = indexed idx held"
        using Some by (auto simp: hold_quest_def indexed_def fun_eq_iff simp del: map_of_eq_Some_iff)
      with Cons Some True show ?thesis by simp
    qed
  qed
qed simp

text \<open>The values of globals but the calendar's.\<close>

definition global_values :: "host_global list \<Rightarrow> global_value list" where
  "global_values gs = map (\<lambda>g. \<lparr>gv_Id = hg_Id g, gv_Value = hg_Value g\<rparr>) (filter (\<lambda>g. \<not> hg_Clock g) gs)"

lemma note_globals_told:
  assumes "note_globals gs m = (m', news)" "distinct (map fst m)"
  shows "fold hold_global news (map_of m) = map_of m' \<and> distinct (map fst m') \<and>
    fold hold_global (global_values gs) (map_of m) = map_of m'"
  using assms
proof (induction gs arbitrary: m news)
  case (Cons g gs)
  let ?m = "assign (game_key (hg_Id g)) (hg_Value g) m"
  show ?case
  proof (cases "hg_Clock g \<or> map_of m (game_key (hg_Id g)) = Some (hg_Value g)")
    case False
    then obtain rest where "note_globals gs ?m = (m', rest)" "news = \<lparr>gv_Id = hg_Id g, gv_Value = hg_Value g\<rparr> # rest"
      using Cons.prems(1) by (auto simp: Let_def simp del: map_of_eq_Some_iff split: prod.splits)
    moreover have "map_of ?m = hold_global \<lparr>gv_Id = hg_Id g, gv_Value = hg_Value g\<rparr> (map_of m)"
      by (simp add: hold_global_def)
    ultimately show ?thesis
      using Cons.IH [of ?m] distinct_assign [OF Cons.prems(2)] False by (simp add: global_values_def)
  next
    case True
    then have "hold_global \<lparr>gv_Id = hg_Id g, gv_Value = hg_Value g\<rparr> (map_of m) = map_of m" if "\<not> hg_Clock g"
      using that by (auto simp: hold_global_def fun_eq_iff simp del: map_of_eq_Some_iff)
    with Cons True show ?thesis by (auto simp: Let_def global_values_def simp del: map_of_eq_Some_iff)
  qed
qed (simp add: global_values_def)

definition world_ok :: "world \<Rightarrow> bool" where
  "world_ok s \<longleftrightarrow> index_ok (wo_questIndex s) (wo_quests s) \<and> distinct (map fst (wo_globals s))"

lemma fold_hold:
  "fold hold_quest qs m = m ++ map_of (rev (map (\<lambda>q. (game_key (qs_Id q), q)) qs))"
  "fold hold_global gs g = g ++ map_of (rev (map (\<lambda>x. (game_key (gv_Id x), gv_Value x)) gs))"
  by (induction qs arbitrary: m, auto simp: hold_quest_def) (induction gs arbitrary: g, auto simp: hold_global_def)

lemma map_of_rev: "distinct (map fst xs) \<Longrightarrow> map_of (rev xs) = map_of xs"
  by (subst map_of_inject_set) (simp_all add: rev_map [symmetric])

lemma same_option: "(\<And>x. a = Some x \<longleftrightarrow> b = Some x) \<Longrightarrow> a = b"
  by (cases a; cases b) auto

lemma all_indexed:
  assumes "index_ok idx held"
  shows "map_of (rev (map (\<lambda>q. (game_key (qs_Id q), q)) held)) = indexed idx held"
proof -
  note at = index_ok_at [OF assms]
  let ?xs = "map (\<lambda>q. (game_key (qs_Id q), q)) held"
  have "i = j" if "i < length held" "j < length held" "game_key (qs_Id (held ! i)) = game_key (qs_Id (held ! j))" for i j
    using at [of "game_key (qs_Id (held ! i))" i] at [of "game_key (qs_Id (held ! i))" j] that
    by (simp del: map_of_eq_Some_iff game_key_inj)
  then have d: "distinct (map fst ?xs)"
    by (auto simp: distinct_conv_nth simp del: game_key_inj)
  then have "map_of (rev ?xs) = map_of ?xs"
    by (rule map_of_rev)
  also have "\<dots> = indexed idx held"
  proof
    fix k
    have "map_of ?xs k = Some x \<longleftrightarrow> (\<exists>i < length held. game_key (qs_Id (held ! i)) = k \<and> held ! i = x)" for x
      using d by (fastforce simp: in_set_conv_nth image_iff simp del: game_key_inj)
    moreover have "indexed idx held k = Some x \<longleftrightarrow> (\<exists>i < length held. game_key (qs_Id (held ! i)) = k \<and> held ! i = x)" for x
      using at [of k] by (auto simp: indexed_def simp del: game_key_inj map_of_eq_Some_iff)
    ultimately show "map_of ?xs k = indexed idx held k"
      by (intro same_option) (simp only:)
  qed
  finally show ?thesis .
qed

lemma world_state_told:
  assumes "world_ok s" "\<And>k x. v k = Some x \<Longrightarrow> indexed (wo_questIndex s) (wo_quests s) k \<noteq> None"
    "\<And>k x. g k = Some x \<Longrightarrow> map_of (wo_globals s) k \<noteq> None"
  shows "fold hold (to_conn c (send_world_state c s)) (v, g) = world_told s"
proof -
  have more: "m ++ n = n" if "\<And>k x. m k = Some x \<Longrightarrow> n k \<noteq> None" for m n :: "u64 \<rightharpoonup> 'a"
    using that by (force simp: fun_eq_iff map_add_def split: option.splits)
  let ?gs = "map (\<lambda>(k, v). \<lparr>gv_Id = key_id k, gv_Value = v\<rparr>) (wo_globals s)"
  have "map (\<lambda>x. (game_key (gv_Id x), gv_Value x)) ?gs = wo_globals s"
    by (auto simp: comp_def case_prod_unfold intro: map_idI)
  moreover have "map_of (rev (wo_globals s)) = map_of (wo_globals s)"
    using assms(1) by (simp add: world_ok_def map_of_rev)
  ultimately have "fold hold_global ?gs g = map_of (wo_globals s)"
    using more [of g "map_of (wo_globals s)"] assms(3) by (simp add: fold_hold)
  moreover have "fold hold_quest (wo_quests s) v = indexed (wo_questIndex s) (wo_quests s)"
    using assms more [of v "indexed (wo_questIndex s) (wo_quests s)"] by (simp add: fold_hold all_indexed [of "wo_questIndex s"] world_ok_def)
  moreover have "g = Map.empty" if "wo_globals s = []"
    using assms(3) that by (auto simp: fun_eq_iff) (metis option.exhaust)
  moreover have "v = Map.empty" if "wo_quests s = []"
    using assms(1,2) that index_ok_at [of "wo_questIndex s" "wo_quests s"]
    by (auto simp: fun_eq_iff world_ok_def indexed_def simp del: map_of_eq_Some_iff) (metis option.exhaust)
  ultimately show ?thesis
    by (auto simp: send_world_state_def world_told_def to_conn_def)
qed

section \<open>Events\<close>

datatype world_event =
    World_Updated world_game
  | Cell_Loaded world_game cell_request conn
  | Guest_In conn
  | Guest_Out conn

fun world_step :: "host_players \<times> world_event \<Rightarrow> world \<Rightarrow> world \<times> world_message outbox" where
  "world_step (p, World_Updated g) s = world_update g p s"
| "world_step (p, Cell_Loaded g q c) s = on_cell_state g p q c s"
| "world_step (p, Guest_In c) s = (s, send_world_state c s)"
| "world_step (p, Guest_Out c) s = (world_player_left c s, [])"

definition guest_there :: "conn \<Rightarrow> host_players \<times> world_event \<Rightarrow> bool" where
  "guest_there c pe \<longleftrightarrow> distinct (connections (fst pe)) \<and> c \<in> set (connections (fst pe)) \<and> c \<noteq> players_host (fst pe)"

lemma to_conn_guest:
  assumes "guest_there c (p, e)"
  shows "to_conn c (send_to_others m (players_host p) p) = [m]"
  using assms by (simp add: guest_there_def send_to_others_def to_conn_map)

lemma cell_state_objects: "send_cell_state g d q = Some out \<Longrightarrow> fold hold (to_conn c out) v = v"
proof -
  have "fold hold (to_conn c (map (\<lambda>m. (d, World_Objects (f m))) ms)) v = v" for f :: "'b \<Rightarrow> object_changes" and ms
    by (induction ms) (auto simp: to_conn_def)
  then show "send_cell_state g d q = Some out \<Longrightarrow> fold hold (to_conn c out) v = v"
    by (auto simp: send_cell_state_def split: option.splits)
qed

lemma answer_cells_objects: "fold hold (to_conn c (snd (answer_cells g ps))) v = v"
proof (induction g ps rule: answer_cells.induct)
  case (2 g d q ps)
  then show ?case
    using cell_state_objects [of g d q _ c v] by (auto simp: case_prod_unfold Let_def split: option.splits)
qed simp

lemma update_globals_told:
  assumes "world_ok s" "guest_there c (p, e)"
  shows "world_ok (fst (update_globals g p s)) \<and>
    fold hold (to_conn c (snd (update_globals g p s))) (world_told s) = world_told (fst (update_globals g p s))"
proof -
  let ?gs = "if \<not> wo_globalsRead s then the (wg_ReadGlobals g) else case wg_TakeGlobalChanges g of None \<Rightarrow> [] | Some xs \<Rightarrow> xs"
  obtain m news where n: "note_globals ?gs (wo_globals s) = (m, news)"
    by (cases "note_globals ?gs (wo_globals s)")
  then have "fold hold_global news (map_of (wo_globals s)) = map_of m \<and> distinct (map fst m)"
    using note_globals_told [OF n] assms(1) by (simp add: world_ok_def)
  then show ?thesis
    using assms n
    by (auto simp: to_conn_guest [OF assms(2)] update_globals_def world_ok_def world_told_def Let_def simp del: map_of_eq_Some_iff split: option.split)
qed

lemma update_quests_told:
  assumes "world_ok s" "guest_there c (p, e)"
  shows "world_ok (fst (update_quests g p s)) \<and>
    fold hold (to_conn c (snd (update_quests g p s))) (world_told s) = world_told (fst (update_quests g p s))"
proof -
  let ?qs = "if \<not> wo_questsRead s then the (wg_ReadQuests g) else case wg_TakeQuestChanges g of None \<Rightarrow> [] | Some xs \<Rightarrow> xs"
  obtain idx held news where n: "note_quests ?qs (wo_questIndex s) (wo_quests s) = (idx, held, news)"
    by (cases "note_quests ?qs (wo_questIndex s) (wo_quests s)") auto
  then have "fold hold_quest news (indexed (wo_questIndex s) (wo_quests s)) = indexed idx held \<and> index_ok idx held"
    using note_quests_told [OF n] assms(1) by (simp add: world_ok_def)
  then show ?thesis
    using assms n
    by (auto simp: to_conn_guest [OF assms(2)] update_quests_def world_ok_def world_told_def Let_def simp del: map_of_eq_Some_iff split: option.split)
qed

lemma world_step_told:
  assumes "world_ok s" "guest_there c (p, e)"
  shows "world_ok (fst (world_step (p, e) s)) \<and>
    fold hold (to_conn c (snd (world_step (p, e) s))) (world_told s) = world_told (fst (world_step (p, e) s))"
proof (cases e)
  case (World_Updated g)
  let ?s = "s\<lparr>wo_pendingCells := fst (answer_cells g (wo_pendingCells s))\<rparr>"
  let ?s' = "fst (update_globals g p ?s)"
  have objects: "fold hold (to_conn c (update_object_changes g p)) v = v" for v
    by (auto simp: to_conn_guest [OF assms(2)] update_object_changes_def Let_def to_conn_def [of c "[]"] split: option.split)
  have s: "world_ok ?s" "world_told ?s = world_told s"
    using assms(1) by (simp_all add: world_ok_def world_told_def)
  note globals = update_globals_told [OF s(1) assms(2), of g]
  then have "world_ok ?s'" ..
  note quests = update_quests_told [OF this assms(2), of g]
  show ?thesis
    using globals quests s objects answer_cells_objects [of c g "wo_pendingCells s"] World_Updated
    by (simp add: world_update_def update_pending_cells_def Let_def case_prod_unfold)
next
  case (Cell_Loaded g q d)
  then show ?thesis
    using assms(1) cell_state_objects [of g d q _ c "world_told s"]
    by (auto simp: on_cell_state_def Let_def world_ok_def world_told_def to_conn_def [of c "[]"] split: option.splits)
next
  case (Guest_In d)
  have "fold hold (to_conn c (send_world_state d s)) (world_told s) = world_told s"
  proof (cases "d = c")
    case True
    then show ?thesis
      using world_state_told [OF assms(1), of "indexed (wo_questIndex s) (wo_quests s)" "map_of (wo_globals s)" c]
      by (simp add: world_told_def del: map_of_eq_Some_iff)
  qed (simp add: send_world_state_def to_conn_def)
  with Guest_In assms(1) show ?thesis by simp
qed (use assms(1) in \<open>simp add: world_player_left_def world_ok_def world_told_def to_conn_def\<close>)

interpretation guest_world: simulation world_step world_ok "guest_there c" "at_conn c (\<lambda>m v. Some (hold m v))" world_told for c
proof
  have holds: "accepts (\<lambda>m v. Some (hold m v)) ms v = Some (fold hold ms v)" for ms v
    by (induction ms arbitrary: v) auto
  fix s e
  assume "world_ok s" "guest_there c e"
  then show "world_ok (fst (world_step e s))"
      "accepts (at_conn c (\<lambda>m v. Some (hold m v))) (snd (world_step e s)) (world_told s) = Some (world_told (fst (world_step e s)))"
    using world_step_told [of s c "fst e" "snd e"] by (simp_all add: accepts_at_conn holds)
qed

section \<open>What the host's game reported\<close>

text \<open>
  What the host's game said of its quests and globals since its player is in the session: everything at the first
  look, then what it reports as written, the last word on each.
\<close>

definition reports :: "bool \<Rightarrow> 'a list option \<Rightarrow> 'a list option \<Rightarrow> 'a list" where
  "reports looked every news = (case every of None \<Rightarrow> [] | Some xs \<Rightarrow> if \<not> looked then xs else case news of None \<Rightarrow> [] | Some ys \<Rightarrow> ys)"

fun reported :: "host_players \<times> world_event \<Rightarrow> (bool \<times> bool) \<times> world_view \<Rightarrow> (bool \<times> bool) \<times> world_view" where
  "reported (p, World_Updated g) ((looked_g, looked_q), (qs, gs)) =
     (if players_host p = 0 then ((looked_g, looked_q), (qs, gs))
      else ((looked_g \<or> wg_ReadGlobals g \<noteq> None, looked_q \<or> wg_ReadQuests g \<noteq> None),
        (fold hold_quest (reports looked_q (wg_ReadQuests g) (wg_TakeQuestChanges g)) qs,
         fold hold_global (global_values (reports looked_g (wg_ReadGlobals g) (wg_TakeGlobalChanges g))) gs)))"
| "reported _ v = v"

definition world_report :: "world \<Rightarrow> (bool \<times> bool) \<times> world_view" where
  "world_report s = ((wo_globalsRead s, wo_questsRead s), world_told s)"

lemma globals_reported:
  assumes "world_ok s" "players_host p \<noteq> 0" "fst (update_globals g p s) = s'"
  shows "world_ok s' \<and> wo_questIndex s' = wo_questIndex s \<and> wo_quests s' = wo_quests s \<and> wo_questsRead s' = wo_questsRead s \<and>
    wo_globalsRead s' = (wo_globalsRead s \<or> wg_ReadGlobals g \<noteq> None) \<and>
    map_of (wo_globals s') =
      fold hold_global (global_values (reports (wo_globalsRead s) (wg_ReadGlobals g) (wg_TakeGlobalChanges g))) (map_of (wo_globals s))"
proof (cases "wg_ReadGlobals g")
  case (Some every)
  let ?gs = "reports (wo_globalsRead s) (wg_ReadGlobals g) (wg_TakeGlobalChanges g)"
  obtain m news where n: "note_globals ?gs (wo_globals s) = (m, news)"
    by (cases "note_globals ?gs (wo_globals s)")
  then show ?thesis
    using note_globals_told [OF n] assms Some
    by (auto simp: update_globals_def reports_def world_ok_def Let_def simp del: map_of_eq_Some_iff)
qed (use assms in \<open>auto simp: update_globals_def reports_def global_values_def\<close>)

lemma quests_reported:
  assumes "world_ok s" "players_host p \<noteq> 0" "fst (update_quests g p s) = s'"
  shows "world_ok s' \<and> wo_globals s' = wo_globals s \<and> wo_globalsRead s' = wo_globalsRead s \<and>
    wo_questsRead s' = (wo_questsRead s \<or> wg_ReadQuests g \<noteq> None) \<and>
    indexed (wo_questIndex s') (wo_quests s') =
      fold hold_quest (reports (wo_questsRead s) (wg_ReadQuests g) (wg_TakeQuestChanges g)) (indexed (wo_questIndex s) (wo_quests s))"
proof (cases "wg_ReadQuests g")
  case (Some every)
  let ?qs = "reports (wo_questsRead s) (wg_ReadQuests g) (wg_TakeQuestChanges g)"
  obtain idx held news where n: "note_quests ?qs (wo_questIndex s) (wo_quests s) = (idx, held, news)"
    by (cases "note_quests ?qs (wo_questIndex s) (wo_quests s)") auto
  then show ?thesis
    using note_quests_told [OF n] assms Some
    by (auto simp: update_quests_def reports_def world_ok_def Let_def simp del: map_of_eq_Some_iff)
qed (use assms in \<open>auto simp: update_quests_def reports_def\<close>)

lemma step_reported:
  assumes "world_ok s"
  shows "world_ok (fst (world_step pe s)) \<and> world_report (fst (world_step pe s)) = reported pe (world_report s)"
proof -
  obtain p e where pe: "pe = (p, e)" by (cases pe)
  show ?thesis
  proof (cases e)
    case (World_Updated g)
    let ?s = "s\<lparr>wo_pendingCells := fst (answer_cells g (wo_pendingCells s))\<rparr>"
    let ?s' = "fst (update_globals g p ?s)"
    have s: "world_ok ?s" using assms by (simp add: world_ok_def)
    have step: "fst (world_step pe s) = fst (update_quests g p ?s')"
      by (simp add: pe World_Updated world_update_def update_pending_cells_def Let_def case_prod_unfold)
    show ?thesis
    proof (cases "players_host p = 0")
      case True
      then have "fst (update_quests g p ?s') = ?s"
        by (simp add: update_quests_def update_globals_def split: option.split)
      with True s show ?thesis
        unfolding step by (simp add: pe World_Updated world_report_def world_told_def)
    next
      case False
      note globals = globals_reported [OF s False refl, of g]
      then have "world_ok ?s'" by simp
      note quests = quests_reported [OF this False refl, of g]
      show ?thesis
        using globals quests False unfolding step by (simp add: pe World_Updated world_report_def world_told_def)
    qed
  next
    case (Cell_Loaded g q c)
    then show ?thesis
      using assms by (auto simp: pe on_cell_state_def Let_def world_ok_def world_report_def world_told_def split: option.split)
  qed (use assms in \<open>auto simp: pe world_player_left_def world_ok_def world_report_def world_told_def\<close>)
qed

lemma run_reported:
  "world_ok s \<Longrightarrow> world_ok (fst (run world_step es s)) \<and> world_report (fst (run world_step es s)) = fold reported es (world_report s)"
  by (induction es arbitrary: s) (auto simp: run_Cons step_reported)

lemma world_ok_new: "world_ok new_world" "world_report new_world = ((False, False), (Map.empty, Map.empty))"
  by (auto simp: world_ok_def new_world_def index_ok_def world_report_def world_told_def indexed_def)

text \<open>
  C2: a guest that enters the session at any time, sent the world's state then and what follows
  while it stays, holds of every quest and global exactly the last state the host's game reported, and no other.
\<close>

theorem guests_hold_the_world:
  assumes "s = fst (run world_step es new_world)" and "list_all (guest_there c) later"
  shows "fold hold (to_conn c (send_world_state c s @ snd (run world_step later s))) (Map.empty, Map.empty) =
    snd (fold reported (es @ later) ((False, False), (Map.empty, Map.empty)))"
proof -
  have ok: "world_ok s" "world_report s = fold reported es ((False, False), (Map.empty, Map.empty))"
    using run_reported [OF world_ok_new(1)] world_ok_new(2) assms(1) by auto
  have holds: "accepts (\<lambda>m v. Some (hold m v)) ms v = Some (fold hold ms v)" for ms v
    by (induction ms arbitrary: v) auto
  have "fold hold (to_conn c (send_world_state c s)) (Map.empty, Map.empty) = world_told s"
    using world_state_told [OF ok(1), of Map.empty Map.empty c] by simp
  moreover have "fold hold (to_conn c (snd (run world_step later s))) (world_told s) = world_told (fst (run world_step later s))"
    using guest_world.run_accepted [OF ok(1) assms(2)] by (simp add: accepts_at_conn holds)
  ultimately show ?thesis
    using run_reported [OF ok(1), of later] ok(2) by (simp add: world_report_def) (metis snd_conv)
qed

text \<open>A quest's stage set while a guest (7) is there.\<close>

definition example_quest :: "u16 \<Rightarrow> quest_state" where
  "example_quest stage = \<lparr>qs_Id = \<lparr>gid_BaseId = 3, gid_ModId = 1\<rparr>, qs_Flags = 1, qs_CurrentStage = stage, qs_DoneStages = [],
     qs_Objectives = [], qs_Aliases = [], qs_Locations = []\<rparr>"

definition example_world_game :: "quest_state list \<Rightarrow> quest_state list \<Rightarrow> object_change list option \<Rightarrow> world_game" where
  "example_world_game every news rows = \<lparr>wg_ReadGlobals = None, wg_TakeGlobalChanges = None, wg_ReadQuests = Some every,
     wg_TakeQuestChanges = Some news, wg_TakeObjectChanges = None, wg_ReadCellState = Some (\<lambda>_ _. rows), wg_ReadContents = None\<rparr>"

lemma example_party_host: "players_host example_party = 5" "connections example_party = [5, 7]"
  by (simp_all add: example_party_def players_host_def connections_def)

theorem guests_hold_the_world_witness:
  "let before = [(example_party, World_Updated (example_world_game [example_quest 10] [] None))];
       later = [(example_party, World_Updated (example_world_game [] [example_quest 20] None))];
       s = fst (run world_step before new_world)
   in fst (fold hold (to_conn 7 (send_world_state 7 s @ snd (run world_step later s))) (Map.empty, Map.empty))
        (game_key \<lparr>gid_BaseId = 3, gid_ModId = 1\<rparr>) = Some (example_quest 20)"
proof -
  define before where "before = [(example_party, World_Updated (example_world_game [example_quest 10] [] None))]"
  define later where "later = [(example_party, World_Updated (example_world_game [] [example_quest 20] None))]"
  have "list_all (guest_there 7) later"
    by (simp add: later_def guest_there_def example_party_host)
  moreover have "fst (snd (fold reported (before @ later) ((False, False), (Map.empty, Map.empty)))) (game_key \<lparr>gid_BaseId = 3, gid_ModId = 1\<rparr>)
      = Some (example_quest 20)"
    by (simp add: before_def later_def example_party_host reports_def example_world_game_def hold_quest_def example_quest_def)
  ultimately show ?thesis
    unfolding Let_def before_def [symmetric] later_def [symmetric] by (simp only: guests_hold_the_world [OF refl])
qed

section \<open>Cells\<close>

definition cells_ok :: "world \<Rightarrow> bool" where
  "cells_ok s \<longleftrightarrow> length (wo_pendingCells s) \<le> max_pending_cells \<and> distinct (map (\<lambda>(c, q). (c, cs_Cell q)) (wo_pendingCells s))"

lemma answer_cells_parts:
  "answer_cells g ps = (filter (\<lambda>(c, q). send_cell_state g c q = None) ps,
     concat (map (\<lambda>(c, q). case send_cell_state g c q of None \<Rightarrow> [] | Some answer \<Rightarrow> answer) ps))"
  by (induction g ps rule: answer_cells.induct) (auto split: option.splits)

lemma updates_keep_cells:
  "wo_pendingCells (fst (update_globals g p s)) = wo_pendingCells s" "wo_pendingCells (fst (update_quests g p s)) = wo_pendingCells s"
  by (simp_all add: update_globals_def update_quests_def Let_def case_prod_unfold split: option.split)

lemma update_pending:
  "wo_pendingCells (fst (world_update g p s)) = filter (\<lambda>(c, q). send_cell_state g c q = None) (wo_pendingCells s)"
  by (simp add: world_update_def update_pending_cells_def answer_cells_parts updates_keep_cells Let_def case_prod_unfold)

lemma cells_filtered: "cells_ok s \<Longrightarrow> cells_ok (s\<lparr>wo_pendingCells := filter P (wo_pendingCells s)\<rparr>)"
  by (simp add: cells_ok_def distinct_map_filter le_trans [OF length_filter_le])

lemma not_in_tl: "x \<notin> set xs \<Longrightarrow> x \<notin> set (tl xs)"
  by (cases xs) auto

lemma cells_step: "cells_ok s \<Longrightarrow> cells_ok (fst (world_step pe s))"
proof -
  assume ok: "cells_ok s"
  obtain p e where pe: "pe = (p, e)" by (cases pe)
  show ?thesis
  proof (cases e)
    case (World_Updated g)
    then show ?thesis
      using cells_filtered [OF ok] by (simp add: pe cells_ok_def update_pending)
  next
    case (Cell_Loaded g q c)
    let ?others = "filter (\<lambda>(d, r). \<not> (d = c \<and> cs_Cell r = cs_Cell q)) (wo_pendingCells s)"
    have others: "cells_ok (s\<lparr>wo_pendingCells := ?others\<rparr>)" "(c, cs_Cell q) \<notin> set (map (\<lambda>(c, q). (c, cs_Cell q)) ?others)"
      using cells_filtered [OF ok] by auto
    then have "(c, cs_Cell q) \<notin> set (tl (map (\<lambda>(c, q). (c, cs_Cell q)) ?others))"
      using not_in_tl by metis
    with others show ?thesis
      using ok by (auto simp: pe Cell_Loaded on_cell_state_def cells_ok_def max_pending_cells_def Let_def map_tl distinct_tl split: option.split)
  qed (use ok cells_filtered in \<open>simp_all add: pe world_player_left_def\<close>)
qed

lemma cells_run: "cells_ok s \<Longrightarrow> cells_ok (fst (run world_step es s))"
  by (induction es arbitrary: s) (auto simp: run_Cons cells_step)

text \<open>The rows of a cell a game was sent, in order.\<close>

fun rows_of :: "game_id \<Rightarrow> world_message \<Rightarrow> object_change list" where
  "rows_of cell (World_Objects m) = (if noc_Cell m = cell then noc_Changes m else [])"
| "rows_of cell _ = []"

definition cell_rows :: "conn \<Rightarrow> game_id \<Rightarrow> world_message outbox \<Rightarrow> object_change list" where
  "cell_rows c cell out = concat (map (rows_of cell) (to_conn c out))"

lemma cell_rows_append [simp]: "cell_rows c cell (xs @ ys) = cell_rows c cell xs @ cell_rows c cell ys"
  by (simp add: cell_rows_def)

lemma cell_rows_sent:
  "send_cell_state g d q = Some answer \<Longrightarrow> cell_rows c cell answer =
     (if d = c \<and> cs_Cell q = cell
      then add_created_contents (wg_ReadContents g) (the (the (wg_ReadCellState g) (cs_Cell q) (cs_Changed q))) else [])"
proof -
  have "cell_rows c cell (map (\<lambda>part. (d, World_Objects \<lparr>noc_Cell = i, noc_Changes = part\<rparr>)) parts) =
      (if d = c \<and> i = cell then concat parts else [])" for i parts
    by (induction parts) (auto simp: cell_rows_def to_conn_def)
  then show "send_cell_state g d q = Some answer \<Longrightarrow> ?thesis"
    by (auto simp: send_cell_state_def split_rows_concat split: option.splits)
qed

lemma cell_rows_none: "(c, cell) \<notin> (\<lambda>(c, q). (c, cs_Cell q)) ` set ps \<Longrightarrow> cell_rows c cell (snd (answer_cells g ps)) = []"
proof (induction ps)
  case (Cons x ps)
  then show ?case
    using cell_rows_sent [of g "fst x" "snd x" _ c cell]
    by (cases x) (auto simp: Let_def case_prod_unfold split: option.split)
qed (simp add: cell_rows_def to_conn_def)

lemma rows_of_update:
  assumes "cell \<noteq> no_id"
  shows "cell_rows c cell (snd (world_update g p s)) = cell_rows c cell (snd (answer_cells g (wo_pendingCells s)))"
proof -
  have none: "cell_rows c cell (send_to_others m x p) = []" if "rows_of cell m = []" for m x
    using that by (auto simp: cell_rows_def to_conn_def send_to_others_def)
  have "cell_rows c cell (update_object_changes g p) = []" "cell_rows c cell (snd (update_globals g p s')) = []"
      "cell_rows c cell (snd (update_quests g p s')) = []" for s'
    using assms none [of "World_Objects _"] none [of "World_Globals _"] none [of "World_Quests _"]
    by (auto simp: update_object_changes_def update_globals_def update_quests_def Let_def case_prod_unfold cell_rows_def [of c cell "[]"]
        to_conn_def [of c "[]"] split: option.split)
  then show ?thesis
    by (simp add: world_update_def update_pending_cells_def Let_def case_prod_unfold)
qed

text \<open>
  C27: whatever cells guests load, at most 64 requests wait, one for a player and cell; at the
  first update where the host's game has the cell loaded the guest is sent its rows, every one once and in order, and
  the request is forgotten; until then it waits and nothing of the cell is sent.
\<close>

theorem loaded_cells_answered:
  assumes "s = fst (run world_step es new_world)" "(c, q) \<in> set (wo_pendingCells s)" "cs_Cell q \<noteq> no_id"
    "wg_ReadCellState g = Some read" "world_update g p s = (s', out)"
  shows "length (wo_pendingCells s) \<le> 64 \<and> distinct (map (\<lambda>(c, q). (c, cs_Cell q)) (wo_pendingCells s)) \<and>
    (case read (cs_Cell q) (cs_Changed q) of
       None \<Rightarrow> (c, q) \<in> set (wo_pendingCells s') \<and> cell_rows c (cs_Cell q) out = []
     | Some rows \<Rightarrow> (c, q) \<notin> set (wo_pendingCells s') \<and> cell_rows c (cs_Cell q) out = add_created_contents (wg_ReadContents g) rows)"
proof -
  have "cells_ok s"
    using assms(1) cells_run [of new_world es] by (simp add: cells_ok_def new_world_def)
  then have ok: "length (wo_pendingCells s) \<le> 64" "distinct (map (\<lambda>(c, q). (c, cs_Cell q)) (wo_pendingCells s))"
    by (simp_all add: cells_ok_def max_pending_cells_def)
  obtain as bs where split: "wo_pendingCells s = as @ (c, q) # bs"
    using assms(2) by (meson split_list)
  then have apart: "(c, cs_Cell q) \<notin> (\<lambda>(c, q). (c, cs_Cell q)) ` set as" "(c, cs_Cell q) \<notin> (\<lambda>(c, q). (c, cs_Cell q)) ` set bs"
    using ok(2) by auto
  have "snd (answer_cells g (wo_pendingCells s)) = snd (answer_cells g as) @
      (case send_cell_state g c q of None \<Rightarrow> [] | Some answer \<Rightarrow> answer) @ snd (answer_cells g bs)"
    by (simp add: split answer_cells_parts)
  then have rows: "cell_rows c (cs_Cell q) out =
      cell_rows c (cs_Cell q) (case send_cell_state g c q of None \<Rightarrow> [] | Some answer \<Rightarrow> answer)"
    using rows_of_update [OF assms(3), of c g p s] assms(5) apart by (simp add: cell_rows_none)
  have waiting: "wo_pendingCells s' = filter (\<lambda>(c, q). send_cell_state g c q = None) (wo_pendingCells s)"
    using update_pending [of g p s] assms(5) by simp
  show ?thesis
  proof (cases "read (cs_Cell q) (cs_Changed q)")
    case None
    then have "send_cell_state g c q = None"
      using assms(4) by (simp add: send_cell_state_def)
    with None ok rows waiting assms(2) show ?thesis
      by (simp add: cell_rows_def to_conn_def)
  next
    case (Some changes)
    then obtain answer where a: "send_cell_state g c q = Some answer"
      using assms(4) by (simp add: send_cell_state_def)
    with Some ok rows waiting cell_rows_sent [OF a, of c "cs_Cell q"] assms(4) show ?thesis
      by simp
  qed
qed

theorem loaded_cells_answered_witness:
  "let q = \<lparr>cs_Cell = \<lparr>gid_BaseId = 9, gid_ModId = 0\<rparr>, cs_Changed = []\<rparr>;
       s = fst (run world_step [(example_party, Cell_Loaded (example_world_game [] [] None) q 7)] new_world)
   in (7, q) \<in> set (wo_pendingCells s) \<and>
      (7, q) \<notin> set (wo_pendingCells (fst (world_update (example_world_game [] [] (Some [])) example_party s)))"
proof -
  define q where "q = \<lparr>cs_Cell = \<lparr>gid_BaseId = 9, gid_ModId = 0\<rparr>, cs_Changed = []\<rparr>"
  define es where "es = [(example_party, Cell_Loaded (example_world_game [] [] None) q 7)]"
  define s where "s = fst (run world_step es new_world)"
  have parts: "(7, q) \<in> set (wo_pendingCells s)" "cs_Cell q \<noteq> no_id"
      "wg_ReadCellState (example_world_game [] [] (Some [])) = Some (\<lambda>_ _. Some [])"
    by (simp_all add: s_def es_def on_cell_state_def example_party_host example_world_game_def send_cell_state_def new_world_def
        q_def no_id_def run_Cons max_pending_cells_def)
  obtain s' out where u: "world_update (example_world_game [] [] (Some [])) example_party s = (s', out)"
    by (cases "world_update (example_world_game [] [] (Some [])) example_party s")
  show ?thesis
    unfolding Let_def q_def [symmetric] es_def [symmetric] s_def [symmetric]
    using loaded_cells_answered [OF s_def parts u] parts(1) u by simp
qed

end
