(* ===== verification/Talk_Messages.thy ===== *)
theory Talk_Messages
  imports World_State Actors
begin

text \<open>
  The messages of the party's conversation (\<open>Messages/SharedDialogue\<close>), of guests' story events
  (\<open>Messages/StoryEventRequest\<close>) and of their crimes (\<open>Messages/CrimeMessages\<close>).
\<close>

section \<open>The conversation\<close>

text \<open>\<open>DialogueStartRequest\<close>.\<close>

record talk_start_request =
  dsr_NpcId :: "u32"

definition talk_start_request_serialize :: "talk_start_request \<Rightarrow> (writer, unit) state" where
  "talk_start_request_serialize x = do {
     write_u32 (dsr_NpcId x);
     State_Monad.return ()
   }"

definition talk_start_request_deserialize :: "(reader, talk_start_request) state" where
  "talk_start_request_deserialize = do {
     vNpcId \<leftarrow> read_u32;
     State_Monad.return \<lparr>dsr_NpcId = vNpcId\<rparr>
   }"

lemma codes_talk_start_request [codec_intros]:
  "codes (talk_start_request_serialize x) talk_start_request_deserialize x"
  unfolding talk_start_request_serialize_def talk_start_request_deserialize_def
  by (rule codec_intros | simp)+

lemma safe_talk_start_request [safe_intros]: "safe_reader talk_start_request_deserialize"
  unfolding talk_start_request_deserialize_def by (intro safe_intros)

interpretation talk_start_request_wire: wire_codec talk_start_request_serialize talk_start_request_deserialize "\<lambda>_. True"
  by unfold_locales (simp_all add: codes_talk_start_request safe_talk_start_request)


text \<open>\<open>DialogueOpenedRequest\<close>.\<close>

record talk_opened =
  dop_NpcId :: "u32"
  dop_Everyone :: "bool"
  dop_Greeting :: "game_id"

definition talk_opened_serialize :: "talk_opened \<Rightarrow> (writer, unit) state" where
  "talk_opened_serialize x = do {
     write_u32 (dop_NpcId x);
     write_bool (dop_Everyone x);
     game_id_serialize (dop_Greeting x);
     State_Monad.return ()
   }"

definition talk_opened_deserialize :: "(reader, talk_opened) state" where
  "talk_opened_deserialize = do {
     vNpcId \<leftarrow> read_u32;
     vEveryone \<leftarrow> read_bool;
     vGreeting \<leftarrow> game_id_deserialize;
     State_Monad.return \<lparr>dop_NpcId = vNpcId, dop_Everyone = vEveryone, dop_Greeting = vGreeting\<rparr>
   }"

lemma codes_talk_opened [codec_intros]:
  "codes (talk_opened_serialize x) talk_opened_deserialize x"
  unfolding talk_opened_serialize_def talk_opened_deserialize_def
  by (rule codec_intros | simp)+

lemma safe_talk_opened [safe_intros]: "safe_reader talk_opened_deserialize"
  unfolding talk_opened_deserialize_def by (intro safe_intros)

interpretation talk_opened_wire: wire_codec talk_opened_serialize talk_opened_deserialize "\<lambda>_. True"
  by unfold_locales (simp_all add: codes_talk_opened safe_talk_opened)


text \<open>\<open>DialogueOptionsRequest\<close>.\<close>

record talk_options =
  dor_Conversation :: "u32"
  dor_Step :: "u32"
  dor_Choices :: "bool"
  dor_Options :: "dialogue_options"
  dor_Players :: "player_dialogue_options list"

definition talk_options_serialize :: "talk_options \<Rightarrow> (writer, unit) state" where
  "talk_options_serialize x = do {
     write_u32 (dor_Conversation x);
     write_u32 (dor_Step x);
     write_bool (dor_Choices x);
     dialogue_options_serialize (dor_Options x);
     player_options_serialize (dor_Players x);
     State_Monad.return ()
   }"

definition talk_options_deserialize :: "(reader, talk_options) state" where
  "talk_options_deserialize = do {
     vConversation \<leftarrow> read_u32;
     vStep \<leftarrow> read_u32;
     vChoices \<leftarrow> read_bool;
     vOptions \<leftarrow> dialogue_options_deserialize;
     vPlayers \<leftarrow> player_options_deserialize;
     State_Monad.return \<lparr>dor_Conversation = vConversation, dor_Step = vStep, dor_Choices = vChoices,
       dor_Options = vOptions, dor_Players = vPlayers\<rparr>
   }"

definition talk_options_valid :: "talk_options \<Rightarrow> bool" where
  "talk_options_valid x \<longleftrightarrow> dialogue_options_valid (dor_Options x) \<and>
     player_options_valid (dor_Players x)"

lemma codes_talk_options [codec_intros]:
  "talk_options_valid x \<Longrightarrow> codes (talk_options_serialize x) talk_options_deserialize x"
  unfolding talk_options_serialize_def talk_options_deserialize_def talk_options_valid_def
  by (rule codec_intros | simp)+

lemma safe_talk_options [safe_intros]: "safe_reader talk_options_deserialize"
  unfolding talk_options_deserialize_def by (intro safe_intros)

interpretation talk_options_wire: wire_codec talk_options_serialize talk_options_deserialize "talk_options_valid"
  by unfold_locales (simp_all add: codes_talk_options safe_talk_options)


text \<open>\<open>DialoguePickRequest\<close>.\<close>

record talk_pick =
  dpr_Conversation :: "u32"
  dpr_Step :: "u32"
  dpr_Topic :: "game_id"
  dpr_Info :: "game_id"
  dpr_Text :: "string"

definition talk_pick_serialize :: "talk_pick \<Rightarrow> (writer, unit) state" where
  "talk_pick_serialize x = do {
     write_u32 (dpr_Conversation x);
     write_u32 (dpr_Step x);
     game_id_serialize (dpr_Topic x);
     game_id_serialize (dpr_Info x);
     write_string (dpr_Text x);
     State_Monad.return ()
   }"

definition talk_pick_deserialize :: "(reader, talk_pick) state" where
  "talk_pick_deserialize = do {
     vConversation \<leftarrow> read_u32;
     vStep \<leftarrow> read_u32;
     vTopic \<leftarrow> game_id_deserialize;
     vInfo \<leftarrow> game_id_deserialize;
     vText \<leftarrow> read_string;
     State_Monad.return \<lparr>dpr_Conversation = vConversation, dpr_Step = vStep, dpr_Topic = vTopic,
       dpr_Info = vInfo, dpr_Text = vText\<rparr>
   }"

definition talk_pick_valid :: "talk_pick \<Rightarrow> bool" where
  "talk_pick_valid x \<longleftrightarrow> length (dpr_Text x) < 65536"

lemma codes_talk_pick [codec_intros]:
  "talk_pick_valid x \<Longrightarrow> codes (talk_pick_serialize x) talk_pick_deserialize x"
  unfolding talk_pick_serialize_def talk_pick_deserialize_def talk_pick_valid_def
  by (rule codec_intros | simp)+

lemma safe_talk_pick [safe_intros]: "safe_reader talk_pick_deserialize"
  unfolding talk_pick_deserialize_def by (intro safe_intros)

interpretation talk_pick_wire: wire_codec talk_pick_serialize talk_pick_deserialize "talk_pick_valid"
  by unfold_locales (simp_all add: codes_talk_pick safe_talk_pick)


text \<open>\<open>DialogueCloseRequest\<close>.\<close>

record talk_close =
  dcr_Conversation :: "u32"
  dcr_Ended :: "bool"

definition talk_close_serialize :: "talk_close \<Rightarrow> (writer, unit) state" where
  "talk_close_serialize x = do {
     write_u32 (dcr_Conversation x);
     write_bool (dcr_Ended x);
     State_Monad.return ()
   }"

definition talk_close_deserialize :: "(reader, talk_close) state" where
  "talk_close_deserialize = do {
     vConversation \<leftarrow> read_u32;
     vEnded \<leftarrow> read_bool;
     State_Monad.return \<lparr>dcr_Conversation = vConversation, dcr_Ended = vEnded\<rparr>
   }"

lemma codes_talk_close [codec_intros]:
  "codes (talk_close_serialize x) talk_close_deserialize x"
  unfolding talk_close_serialize_def talk_close_deserialize_def
  by (rule codec_intros | simp)+

lemma safe_talk_close [safe_intros]: "safe_reader talk_close_deserialize"
  unfolding talk_close_deserialize_def by (intro safe_intros)

interpretation talk_close_wire: wire_codec talk_close_serialize talk_close_deserialize "\<lambda>_. True"
  by unfold_locales (simp_all add: codes_talk_close safe_talk_close)


text \<open>\<open>DialogueJoinRequest\<close>.\<close>

record talk_join =
  djr_Conversation :: "u32"

definition talk_join_serialize :: "talk_join \<Rightarrow> (writer, unit) state" where
  "talk_join_serialize x = do {
     write_u32 (djr_Conversation x);
     State_Monad.return ()
   }"

definition talk_join_deserialize :: "(reader, talk_join) state" where
  "talk_join_deserialize = do {
     vConversation \<leftarrow> read_u32;
     State_Monad.return \<lparr>djr_Conversation = vConversation\<rparr>
   }"

lemma codes_talk_join [codec_intros]:
  "codes (talk_join_serialize x) talk_join_deserialize x"
  unfolding talk_join_serialize_def talk_join_deserialize_def
  by (rule codec_intros | simp)+

lemma safe_talk_join [safe_intros]: "safe_reader talk_join_deserialize"
  unfolding talk_join_deserialize_def by (intro safe_intros)

interpretation talk_join_wire: wire_codec talk_join_serialize talk_join_deserialize "\<lambda>_. True"
  by unfold_locales (simp_all add: codes_talk_join safe_talk_join)


text \<open>\<open>DialogueStartFailedRequest\<close>.\<close>

record talk_start_failed =
  dsf_NpcId :: "u32"

definition talk_start_failed_serialize :: "talk_start_failed \<Rightarrow> (writer, unit) state" where
  "talk_start_failed_serialize x = do {
     write_u32 (dsf_NpcId x);
     State_Monad.return ()
   }"

definition talk_start_failed_deserialize :: "(reader, talk_start_failed) state" where
  "talk_start_failed_deserialize = do {
     vNpcId \<leftarrow> read_u32;
     State_Monad.return \<lparr>dsf_NpcId = vNpcId\<rparr>
   }"

lemma codes_talk_start_failed [codec_intros]:
  "codes (talk_start_failed_serialize x) talk_start_failed_deserialize x"
  unfolding talk_start_failed_serialize_def talk_start_failed_deserialize_def
  by (rule codec_intros | simp)+

lemma safe_talk_start_failed [safe_intros]: "safe_reader talk_start_failed_deserialize"
  unfolding talk_start_failed_deserialize_def by (intro safe_intros)

interpretation talk_start_failed_wire: wire_codec talk_start_failed_serialize talk_start_failed_deserialize "\<lambda>_. True"
  by unfold_locales (simp_all add: codes_talk_start_failed safe_talk_start_failed)


text \<open>\<open>NotifyDialogueStart\<close>.\<close>

record talk_start =
  nds_NpcId :: "u32"

definition talk_start_serialize :: "talk_start \<Rightarrow> (writer, unit) state" where
  "talk_start_serialize x = do {
     write_u32 (nds_NpcId x);
     State_Monad.return ()
   }"

definition talk_start_deserialize :: "(reader, talk_start) state" where
  "talk_start_deserialize = do {
     vNpcId \<leftarrow> read_u32;
     State_Monad.return \<lparr>nds_NpcId = vNpcId\<rparr>
   }"

lemma codes_talk_start [codec_intros]:
  "codes (talk_start_serialize x) talk_start_deserialize x"
  unfolding talk_start_serialize_def talk_start_deserialize_def
  by (rule codec_intros | simp)+

lemma safe_talk_start [safe_intros]: "safe_reader talk_start_deserialize"
  unfolding talk_start_deserialize_def by (intro safe_intros)

interpretation talk_start_wire: wire_codec talk_start_serialize talk_start_deserialize "\<lambda>_. True"
  by unfold_locales (simp_all add: codes_talk_start safe_talk_start)


text \<open>\<open>NotifyDialogueOpen\<close>.\<close>

record talk_open =
  ndo_Conversation :: "u32"
  ndo_NpcId :: "u32"
  ndo_Everyone :: "bool"
  ndo_Greeting :: "game_id"

definition talk_open_serialize :: "talk_open \<Rightarrow> (writer, unit) state" where
  "talk_open_serialize x = do {
     write_u32 (ndo_Conversation x);
     write_u32 (ndo_NpcId x);
     write_bool (ndo_Everyone x);
     game_id_serialize (ndo_Greeting x);
     State_Monad.return ()
   }"

definition talk_open_deserialize :: "(reader, talk_open) state" where
  "talk_open_deserialize = do {
     vConversation \<leftarrow> read_u32;
     vNpcId \<leftarrow> read_u32;
     vEveryone \<leftarrow> read_bool;
     vGreeting \<leftarrow> game_id_deserialize;
     State_Monad.return \<lparr>ndo_Conversation = vConversation, ndo_NpcId = vNpcId, ndo_Everyone = vEveryone,
       ndo_Greeting = vGreeting\<rparr>
   }"

lemma codes_talk_open [codec_intros]:
  "codes (talk_open_serialize x) talk_open_deserialize x"
  unfolding talk_open_serialize_def talk_open_deserialize_def
  by (rule codec_intros | simp)+

lemma safe_talk_open [safe_intros]: "safe_reader talk_open_deserialize"
  unfolding talk_open_deserialize_def by (intro safe_intros)

interpretation talk_open_wire: wire_codec talk_open_serialize talk_open_deserialize "\<lambda>_. True"
  by unfold_locales (simp_all add: codes_talk_open safe_talk_open)


text \<open>\<open>NotifyDialogueList\<close>.\<close>

record talk_list =
  ndl_Conversation :: "u32"
  ndl_Step :: "u32"
  ndl_Choices :: "bool"
  ndl_Options :: "dialogue_options"

definition talk_list_serialize :: "talk_list \<Rightarrow> (writer, unit) state" where
  "talk_list_serialize x = do {
     write_u32 (ndl_Conversation x);
     write_u32 (ndl_Step x);
     write_bool (ndl_Choices x);
     dialogue_options_serialize (ndl_Options x);
     State_Monad.return ()
   }"

definition talk_list_deserialize :: "(reader, talk_list) state" where
  "talk_list_deserialize = do {
     vConversation \<leftarrow> read_u32;
     vStep \<leftarrow> read_u32;
     vChoices \<leftarrow> read_bool;
     vOptions \<leftarrow> dialogue_options_deserialize;
     State_Monad.return \<lparr>ndl_Conversation = vConversation, ndl_Step = vStep, ndl_Choices = vChoices,
       ndl_Options = vOptions\<rparr>
   }"

definition talk_list_valid :: "talk_list \<Rightarrow> bool" where
  "talk_list_valid x \<longleftrightarrow> dialogue_options_valid (ndl_Options x)"

lemma codes_talk_list [codec_intros]:
  "talk_list_valid x \<Longrightarrow> codes (talk_list_serialize x) talk_list_deserialize x"
  unfolding talk_list_serialize_def talk_list_deserialize_def talk_list_valid_def
  by (rule codec_intros | simp)+

lemma safe_talk_list [safe_intros]: "safe_reader talk_list_deserialize"
  unfolding talk_list_deserialize_def by (intro safe_intros)

interpretation talk_list_wire: wire_codec talk_list_serialize talk_list_deserialize "talk_list_valid"
  by unfold_locales (simp_all add: codes_talk_list safe_talk_list)


text \<open>\<open>NotifyDialoguePicked\<close>.\<close>

record talk_picked =
  ndp_Conversation :: "u32"
  ndp_Step :: "u32"
  ndp_Topic :: "game_id"
  ndp_Info :: "game_id"
  ndp_PlayerId :: "u32"

definition talk_picked_serialize :: "talk_picked \<Rightarrow> (writer, unit) state" where
  "talk_picked_serialize x = do {
     write_u32 (ndp_Conversation x);
     write_u32 (ndp_Step x);
     game_id_serialize (ndp_Topic x);
     game_id_serialize (ndp_Info x);
     write_u32 (ndp_PlayerId x);
     State_Monad.return ()
   }"

definition talk_picked_deserialize :: "(reader, talk_picked) state" where
  "talk_picked_deserialize = do {
     vConversation \<leftarrow> read_u32;
     vStep \<leftarrow> read_u32;
     vTopic \<leftarrow> game_id_deserialize;
     vInfo \<leftarrow> game_id_deserialize;
     vPlayerId \<leftarrow> read_u32;
     State_Monad.return \<lparr>ndp_Conversation = vConversation, ndp_Step = vStep, ndp_Topic = vTopic,
       ndp_Info = vInfo, ndp_PlayerId = vPlayerId\<rparr>
   }"

lemma codes_talk_picked [codec_intros]:
  "codes (talk_picked_serialize x) talk_picked_deserialize x"
  unfolding talk_picked_serialize_def talk_picked_deserialize_def
  by (rule codec_intros | simp)+

lemma safe_talk_picked [safe_intros]: "safe_reader talk_picked_deserialize"
  unfolding talk_picked_deserialize_def by (intro safe_intros)

interpretation talk_picked_wire: wire_codec talk_picked_serialize talk_picked_deserialize "\<lambda>_. True"
  by unfold_locales (simp_all add: codes_talk_picked safe_talk_picked)


text \<open>\<open>NotifyDialogueClosed\<close>.\<close>

record talk_closed =
  ndc_Conversation :: "u32"

definition talk_closed_serialize :: "talk_closed \<Rightarrow> (writer, unit) state" where
  "talk_closed_serialize x = do {
     write_u32 (ndc_Conversation x);
     State_Monad.return ()
   }"

definition talk_closed_deserialize :: "(reader, talk_closed) state" where
  "talk_closed_deserialize = do {
     vConversation \<leftarrow> read_u32;
     State_Monad.return \<lparr>ndc_Conversation = vConversation\<rparr>
   }"

lemma codes_talk_closed [codec_intros]:
  "codes (talk_closed_serialize x) talk_closed_deserialize x"
  unfolding talk_closed_serialize_def talk_closed_deserialize_def
  by (rule codec_intros | simp)+

lemma safe_talk_closed [safe_intros]: "safe_reader talk_closed_deserialize"
  unfolding talk_closed_deserialize_def by (intro safe_intros)

interpretation talk_closed_wire: wire_codec talk_closed_serialize talk_closed_deserialize "\<lambda>_. True"
  by unfold_locales (simp_all add: codes_talk_closed safe_talk_closed)


text \<open>\<open>NotifyDialogueRefused\<close>.\<close>

record talk_refused =
  ndr_NpcId :: "u32"

definition talk_refused_serialize :: "talk_refused \<Rightarrow> (writer, unit) state" where
  "talk_refused_serialize x = do {
     write_u32 (ndr_NpcId x);
     State_Monad.return ()
   }"

definition talk_refused_deserialize :: "(reader, talk_refused) state" where
  "talk_refused_deserialize = do {
     vNpcId \<leftarrow> read_u32;
     State_Monad.return \<lparr>ndr_NpcId = vNpcId\<rparr>
   }"

lemma codes_talk_refused [codec_intros]:
  "codes (talk_refused_serialize x) talk_refused_deserialize x"
  unfolding talk_refused_serialize_def talk_refused_deserialize_def
  by (rule codec_intros | simp)+

lemma safe_talk_refused [safe_intros]: "safe_reader talk_refused_deserialize"
  unfolding talk_refused_deserialize_def by (intro safe_intros)

interpretation talk_refused_wire: wire_codec talk_refused_serialize talk_refused_deserialize "\<lambda>_. True"
  by unfold_locales (simp_all add: codes_talk_refused safe_talk_refused)


section \<open>Story events\<close>

text \<open>A member's kind is a byte: 2 a reference and 3 a form have an id, 4 an integer a value, the others nothing.\<close>

record story_member =
  sm_Type :: u8
  sm_Form :: game_id
  sm_Value :: u32

record story_event =
  sev_Type :: u32
  sev_Character :: u32
  sev_Members :: "story_member list"

definition max_members :: nat where "max_members = 6"

definition story_member_serialize :: "story_member \<Rightarrow> (writer, unit) state" where
  "story_member_serialize x = do {
     write_byte (sm_Type x);
     (if sm_Type x = 2 \<or> sm_Type x = 3 then do { game_id_serialize (sm_Form x); State_Monad.return () }
      else if sm_Type x = 4 then do { write_u32 (sm_Value x); State_Monad.return () }
      else State_Monad.return ())
   }"

definition story_member_deserialize :: "(reader, story_member) state" where
  "story_member_deserialize = do {
     kind \<leftarrow> read_byte;
     (if kind = 2 \<or> kind = 3
      then do { form \<leftarrow> game_id_deserialize; State_Monad.return \<lparr>sm_Type = kind, sm_Form = form, sm_Value = 0\<rparr> }
      else if kind = 4
      then do { v \<leftarrow> read_u32; State_Monad.return \<lparr>sm_Type = kind, sm_Form = no_id, sm_Value = v\<rparr> }
      else State_Monad.return \<lparr>sm_Type = kind, sm_Form = no_id, sm_Value = 0\<rparr>)
   }"

text \<open>A member as its kind has it: no id or value the wire does not carry.\<close>

definition story_member_valid :: "story_member \<Rightarrow> bool" where
  "story_member_valid x \<longleftrightarrow> (sm_Type x = 2 \<or> sm_Type x = 3 \<or> sm_Form x = no_id) \<and> (sm_Type x = 4 \<or> sm_Value x = 0)"

definition story_event_serialize :: "story_event \<Rightarrow> (writer, unit) state" where
  "story_event_serialize x = do {
     write_word (sev_Type x);
     write_list story_member_serialize (sev_Members x);
     State_Monad.return ()
   }"

text \<open>The character is the host's to fill in; members past the sixth are left unread.\<close>

definition story_event_deserialize :: "(reader, story_event) state" where
  "story_event_deserialize = do {
     kind \<leftarrow> read_word;
     members \<leftarrow> read_list_capped max_members story_member_deserialize;
     State_Monad.return \<lparr>sev_Type = kind, sev_Character = 0, sev_Members = members\<rparr>
   }"

definition story_event_valid :: "story_event \<Rightarrow> bool" where
  "story_event_valid x \<longleftrightarrow> sev_Character x = 0 \<and> length (sev_Members x) \<le> max_members \<and>
     (\<forall>m \<in> set (sev_Members x). story_member_valid m)"

lemma codes_story_member [codec_intros]:
  "story_member_valid x \<Longrightarrow> codes (story_member_serialize x) story_member_deserialize x"
  unfolding story_member_serialize_def story_member_deserialize_def
  by (rule codes_bind, rule codec_intros, cases x) (auto simp: story_member_valid_def intro!: codes_last [OF codes_game_id] codes_last [OF codes_u32] codes_return)

lemma codes_story_event [codec_intros]:
  "story_event_valid x \<Longrightarrow> codes (story_event_serialize x) story_event_deserialize x"
  unfolding story_event_serialize_def story_event_deserialize_def story_event_valid_def
  by (rule codec_intros | simp add: max_members_def)+

lemma safe_story_event [safe_intros]: "safe_reader story_event_deserialize"
  unfolding story_event_deserialize_def story_member_deserialize_def by (intro safe_intros | simp | rule conjI impI)+

interpretation story_event_wire: wire_codec story_event_serialize story_event_deserialize story_event_valid
  by unfold_locales (simp_all add: codes_story_event safe_story_event)

section \<open>Crimes\<close>

record crime_gold =
  cg_Faction :: "game_id"
  cg_Violent :: "u32"
  cg_NonViolent :: "u32"
  cg_NonViolentInfamy :: "u32"
  cg_ViolentInfamy :: "u32"
  cg_PlayerEnemy :: "bool"

definition crime_gold_serialize :: "crime_gold \<Rightarrow> (writer, unit) state" where
  "crime_gold_serialize x = do {
     game_id_serialize (cg_Faction x);
     write_u32 (cg_Violent x);
     write_u32 (cg_NonViolent x);
     write_u32 (cg_NonViolentInfamy x);
     write_u32 (cg_ViolentInfamy x);
     write_bool (cg_PlayerEnemy x);
     State_Monad.return ()
   }"

definition crime_gold_deserialize :: "(reader, crime_gold) state" where
  "crime_gold_deserialize = do {
     vFaction \<leftarrow> game_id_deserialize;
     vViolent \<leftarrow> read_u32;
     vNonViolent \<leftarrow> read_u32;
     vNonViolentInfamy \<leftarrow> read_u32;
     vViolentInfamy \<leftarrow> read_u32;
     vPlayerEnemy \<leftarrow> read_bool;
     State_Monad.return \<lparr>cg_Faction = vFaction, cg_Violent = vViolent, cg_NonViolent = vNonViolent,
       cg_NonViolentInfamy = vNonViolentInfamy, cg_ViolentInfamy = vViolentInfamy,
       cg_PlayerEnemy = vPlayerEnemy\<rparr>
   }"

lemma codes_crime_gold [codec_intros]:
  "codes (crime_gold_serialize x) crime_gold_deserialize x"
  unfolding crime_gold_serialize_def crime_gold_deserialize_def
  by (rule codec_intros | simp)+

lemma safe_crime_gold [safe_intros]: "safe_reader crime_gold_deserialize"
  unfolding crime_gold_deserialize_def by (intro safe_intros)

interpretation crime_gold_wire: wire_codec crime_gold_serialize crime_gold_deserialize "\<lambda>_. True"
  by unfold_locales (simp_all add: codes_crime_gold safe_crime_gold)


definition max_crime_entries :: nat where "max_crime_entries = 4096"

text \<open>\<open>NotifyCrimeState\<close>: too many rows are none.\<close>

definition crime_state_serialize :: "crime_gold list \<Rightarrow> (writer, unit) state" where
  "crime_state_serialize x = do { write_list crime_gold_serialize x; State_Monad.return () }"

definition crime_state_deserialize :: "(reader, crime_gold list) state" where
  "crime_state_deserialize = read_or_stop max_crime_entries crime_gold_deserialize [] State_Monad.return"

lemma codes_crime_state [codec_intros]:
  "length x \<le> max_crime_entries \<Longrightarrow> codes (crime_state_serialize x) crime_state_deserialize x"
  unfolding crime_state_serialize_def crime_state_deserialize_def
  by (rule codec_intros | simp | simp add: max_crime_entries_def)+

lemma safe_crime_state [safe_intros]: "safe_reader crime_state_deserialize"
  unfolding crime_state_deserialize_def by (intro safe_intros)

interpretation crime_state_wire: wire_codec crime_state_serialize crime_state_deserialize "\<lambda>x. length x \<le> max_crime_entries"
  by unfold_locales (simp_all add: codes_crime_state safe_crime_state)

text \<open>\<open>NotifyLockCrime\<close>.\<close>

record lock_crime =
  nlc_Attempt :: "u32"

definition lock_crime_serialize :: "lock_crime \<Rightarrow> (writer, unit) state" where
  "lock_crime_serialize x = do {
     write_u32 (nlc_Attempt x);
     State_Monad.return ()
   }"

definition lock_crime_deserialize :: "(reader, lock_crime) state" where
  "lock_crime_deserialize = do {
     vAttempt \<leftarrow> read_u32;
     State_Monad.return \<lparr>nlc_Attempt = vAttempt\<rparr>
   }"

lemma codes_lock_crime [codec_intros]:
  "codes (lock_crime_serialize x) lock_crime_deserialize x"
  unfolding lock_crime_serialize_def lock_crime_deserialize_def
  by (rule codec_intros | simp)+

lemma safe_lock_crime [safe_intros]: "safe_reader lock_crime_deserialize"
  unfolding lock_crime_deserialize_def by (intro safe_intros)

interpretation lock_crime_wire: wire_codec lock_crime_serialize lock_crime_deserialize "\<lambda>_. True"
  by unfold_locales (simp_all add: codes_lock_crime safe_lock_crime)


text \<open>\<open>NotifyCrimeConfiscation\<close>.\<close>

record crime_confiscation =
  ncc_Id :: "u32"
  ncc_Faction :: "game_id"

definition crime_confiscation_serialize :: "crime_confiscation \<Rightarrow> (writer, unit) state" where
  "crime_confiscation_serialize x = do {
     write_u32 (ncc_Id x);
     game_id_serialize (ncc_Faction x);
     State_Monad.return ()
   }"

definition crime_confiscation_deserialize :: "(reader, crime_confiscation) state" where
  "crime_confiscation_deserialize = do {
     vId \<leftarrow> read_u32;
     vFaction \<leftarrow> game_id_deserialize;
     State_Monad.return \<lparr>ncc_Id = vId, ncc_Faction = vFaction\<rparr>
   }"

lemma codes_crime_confiscation [codec_intros]:
  "codes (crime_confiscation_serialize x) crime_confiscation_deserialize x"
  unfolding crime_confiscation_serialize_def crime_confiscation_deserialize_def
  by (rule codec_intros | simp)+

lemma safe_crime_confiscation [safe_intros]: "safe_reader crime_confiscation_deserialize"
  unfolding crime_confiscation_deserialize_def by (intro safe_intros)

interpretation crime_confiscation_wire: wire_codec crime_confiscation_serialize crime_confiscation_deserialize "\<lambda>_. True"
  by unfold_locales (simp_all add: codes_crime_confiscation safe_crime_confiscation)


text \<open>The actions, a byte: a request's may be none of them.\<close>

definition caTheft :: u8 where "caTheft = 0"
definition caPickpocket :: u8 where "caPickpocket = 1"
definition caLockpick :: u8 where "caLockpick = 2"
definition caContainerTheft :: u8 where "caContainerTheft = 3"
definition caPayFine :: u8 where "caPayFine = 4"

lemmas crime_action_defs = caTheft_def caPickpocket_def caLockpick_def caContainerTheft_def caPayFine_def

record crime_owner =
  co_Owner :: game_id
  co_Count :: u32

record crime_item =
  ci_Item :: entry
  ci_Owners :: "crime_owner list"
  ci_Taking :: bool

record crime_request =
  cq_Sequence :: u32
  cq_Action :: u8
  cq_Target :: game_id
  cq_TargetActor :: u32
  cq_Item :: game_id
  cq_Count :: u32
  cq_GoToJail :: bool
  cq_RemoveStolenItems :: bool
  cq_AllowWarning :: bool
  cq_Items :: "crime_item list"

text \<open>The lines of a container theft: the entries counted so far (lines, and the owners of those before).\<close>

fun lines_valid :: "nat \<Rightarrow> crime_item list \<Rightarrow> bool" where
  "lines_valid entries [] = True"
| "lines_valid entries (x # xs) =
     (let entries = entries + length (ci_Owners x)
      in en_BaseId (ci_Item x) \<noteq> no_id \<and> 0 <s en_Count (ci_Item x) \<and> entries \<le> max_crime_entries \<and>
         (\<forall>c \<in> set (ci_Owners x). co_Count c \<noteq> 0 \<and> co_Count c \<le> 0x7FFF) \<and> lines_valid entries xs)"

definition crime_is_valid :: "crime_request \<Rightarrow> bool" where
  "crime_is_valid x \<longleftrightarrow>
     (if cq_Sequence x = 0 \<or> cq_Target x = no_id \<and> cq_TargetActor x = 0 then False
      else if cq_Action x = caTheft \<or> cq_Action x = caPickpocket
      then cq_Item x \<noteq> no_id \<and> cq_Count x \<noteq> 0 \<and> cq_Count x \<le> 0x7FFFFFFF
      else if cq_Action x = caLockpick then cq_Count x \<noteq> 0
      else if cq_Action x = caPayFine then cq_Target x \<noteq> no_id
      else if cq_Action x = caContainerTheft
      then cq_Items x \<noteq> [] \<and> length (cq_Items x) \<le> max_crime_entries \<and> lines_valid (length (cq_Items x)) (cq_Items x)
      else False)"

definition crime_owner_serialize :: "crime_owner \<Rightarrow> (writer, unit) state" where
  "crime_owner_serialize x = do { game_id_serialize (co_Owner x); write_u32 (co_Count x); State_Monad.return () }"

definition crime_item_serialize :: "crime_item \<Rightarrow> (writer, unit) state" where
  "crime_item_serialize x = do {
     entry_serialize (ci_Item x);
     write_bool (ci_Taking x);
     write_list crime_owner_serialize (ci_Owners x);
     State_Monad.return ()
   }"

definition crime_request_serialize :: "crime_request \<Rightarrow> (writer, unit) state" where
  "crime_request_serialize x = do {
     write_u32 (cq_Sequence x);
     write_byte (cq_Action x);
     game_id_serialize (cq_Target x);
     write_u32 (cq_TargetActor x);
     game_id_serialize (cq_Item x);
     write_u32 (cq_Count x);
     write_bool (cq_GoToJail x);
     write_bool (cq_RemoveStolenItems x);
     write_bool (cq_AllowWarning x);
     write_list crime_item_serialize (cq_Items x);
     State_Monad.return ()
   }"

text \<open>
  Reading stops at the first owner with no count or too large a one, and at the first line with more owners than the
  entries left: what was read so far stays, the rest is as \<open>resize\<close> made it, and the result says whether it stopped.
\<close>

definition no_crime_owner :: crime_owner where "no_crime_owner = \<lparr>co_Owner = no_id, co_Count = 0\<rparr>"
definition no_crime_item :: crime_item where "no_crime_item = \<lparr>ci_Item = new_entry, ci_Owners = [], ci_Taking = False\<rparr>"

fun read_owners :: "nat \<Rightarrow> (reader, bool \<times> crime_owner list) state" where
  "read_owners 0 = State_Monad.return (True, [])"
| "read_owners (Suc n) = do {
     owner \<leftarrow> game_id_deserialize;
     quantity \<leftarrow> read_varint;
     (if quantity = 0 \<or> quantity > 0x7FFF
      then State_Monad.return (False, \<lparr>co_Owner = owner, co_Count = 0\<rparr> # replicate n no_crime_owner)
      else do {
        rest \<leftarrow> read_owners n;
        State_Monad.return (fst rest, \<lparr>co_Owner = owner, co_Count = ucast quantity\<rparr> # snd rest)
      })
   }"

fun read_lines :: "nat \<Rightarrow> nat \<Rightarrow> (reader, bool \<times> crime_item list) state" where
  "read_lines entries 0 = State_Monad.return (True, [])"
| "read_lines entries (Suc n) = do {
     item \<leftarrow> entry_deserialize new_entry;
     taking \<leftarrow> read_bool;
     owners \<leftarrow> read_varint;
     (if unat owners > max_crime_entries - entries
      then State_Monad.return (False, \<lparr>ci_Item = item, ci_Owners = [], ci_Taking = taking\<rparr> # replicate n no_crime_item)
      else do {
        got \<leftarrow> read_owners (unat owners);
        (if \<not> fst got
         then State_Monad.return (False, \<lparr>ci_Item = item, ci_Owners = snd got, ci_Taking = taking\<rparr> # replicate n no_crime_item)
         else do {
           rest \<leftarrow> read_lines (entries + unat owners) n;
           State_Monad.return (fst rest, \<lparr>ci_Item = item, ci_Owners = snd got, ci_Taking = taking\<rparr> # snd rest)
         })
      })
   }"

definition crime_request_deserialize :: "(reader, crime_request) state" where
  "crime_request_deserialize = do {
     sequence \<leftarrow> read_u32;
     action \<leftarrow> read_byte;
     target \<leftarrow> game_id_deserialize;
     target_actor \<leftarrow> read_u32;
     item \<leftarrow> game_id_deserialize;
     quantity \<leftarrow> read_u32;
     jail \<leftarrow> read_bool;
     remove \<leftarrow> read_bool;
     warning \<leftarrow> read_bool;
     n \<leftarrow> read_varint;
     got \<leftarrow> (if unat n > max_crime_entries then State_Monad.return (False, []) else read_lines (unat n) (unat n));
     State_Monad.return \<lparr>cq_Sequence = sequence, cq_Action = (if fst got then action else 255), cq_Target = target,
       cq_TargetActor = target_actor, cq_Item = item, cq_Count = quantity, cq_GoToJail = jail,
       cq_RemoveStolenItems = remove, cq_AllowWarning = warning, cq_Items = snd got\<rparr>
   }"

text \<open>A request within the limits of the wire: those a reader keeps.\<close>

definition owners_fit :: "crime_owner list \<Rightarrow> bool" where
  "owners_fit xs \<longleftrightarrow> (\<forall>c \<in> set xs. co_Count c \<noteq> 0 \<and> co_Count c \<le> 0x7FFF)"

fun lines_fit :: "nat \<Rightarrow> crime_item list \<Rightarrow> bool" where
  "lines_fit entries [] = True"
| "lines_fit entries (x # xs) =
     (length (ci_Owners x) \<le> max_crime_entries - entries \<and> owners_fit (ci_Owners x) \<and>
      lines_fit (entries + length (ci_Owners x)) xs)"

definition crime_fits :: "crime_request \<Rightarrow> bool" where
  "crime_fits x \<longleftrightarrow> length (cq_Items x) \<le> max_crime_entries \<and> lines_fit (length (cq_Items x)) (cq_Items x) \<and>
     (\<forall>i \<in> set (cq_Items x). entry_valid (ci_Item i))"

lemma small_count:
  fixes c :: u32
  assumes "c \<noteq> 0" "c \<le> 0x7FFF"
  shows "\<not> ((ucast c :: u64) = 0 \<or> (ucast c :: u64) > 0x7FFF)" and "(ucast (ucast c :: u64) :: u32) = c"
proof -
  have "unat (ucast c :: u64) = unat c"
    using unsigned_less [of c, where 'a = nat] by (simp add: unsigned_ucast_eq take_bit_nat_eq_self_iff)
  then show "\<not> ((ucast c :: u64) = 0 \<or> (ucast c :: u64) > 0x7FFF)"
    using assms by (auto simp: word_le_nat_alt word_less_nat_alt unat_eq_zero simp flip: unat_eq_zero)
  show "(ucast (ucast c :: u64) :: u32) = c"
    by (simp add: ucast_ucast_up)
qed

lemma codes_owners: "owners_fit xs \<Longrightarrow> codes (write_each crime_owner_serialize xs) (read_owners (length xs)) (True, xs)"
proof (induction xs)
  case (Cons c xs)
  then have c: "co_Count c \<noteq> 0" "co_Count c \<le> 0x7FFF" and IH: "codes (write_each crime_owner_serialize xs) (read_owners (length xs)) (True, xs)"
    by (auto simp: owners_fit_def)
  show ?case
    unfolding write_each.simps read_owners.simps length_Cons crime_owner_serialize_def [of c] write_u32_def [of "co_Count c"] bind_assoc bind_left_identity
    by (rule codes_bind [OF codes_game_id] codes_bind [OF codes_varint])+ (simp add: small_count [OF c], rule codes_last [OF IH], cases c, simp)
qed (simp add: codes_return)

lemma codes_lines: "lines_fit entries xs \<Longrightarrow> \<forall>x \<in> set xs. entry_valid (ci_Item x) \<Longrightarrow>
    codes (write_each crime_item_serialize xs) (read_lines entries (length xs)) (True, xs)"
proof (induction xs arbitrary: entries)
  case (Cons x xs)
  let ?n = "length (ci_Owners x)"
  have fit: "entry_valid (ci_Item x)" "?n \<le> max_crime_entries - entries" "owners_fit (ci_Owners x)" "lines_fit (entries + ?n) xs"
    using Cons.prems by auto
  then have n: "unat (of_nat ?n :: u64) = ?n"
    by (intro unat_count) (auto simp: max_crime_entries_def)
  have small: "(max_crime_entries - entries < ?n) = False"
    using fit(2) by simp
  have IH: "codes (write_each crime_item_serialize xs) (read_lines (entries + ?n) (length xs)) (True, xs)"
    using Cons.IH [OF fit(4)] Cons.prems(2) by simp
  show ?case
    unfolding write_each.simps read_lines.simps length_Cons crime_item_serialize_def [of x] write_list_def [of _ "ci_Owners x"] bind_assoc bind_left_identity
    by (rule codes_bind [OF codes_entry [OF fit(1)]] codes_bind [OF codes_bool] codes_bind [OF codes_varint])+
      (simp only: n small if_False, rule codes_bind [OF codes_owners [OF fit(3)]], simp, rule codes_last [OF IH], cases x, simp)
qed (simp add: codes_return)

text \<open>What was written within the limits is read as it was.\<close>

lemma codes_crime_request [codec_intros]:
  assumes "crime_fits x"
  shows "codes (crime_request_serialize x) crime_request_deserialize x"
proof -
  have items: "length (cq_Items x) \<le> max_crime_entries" "lines_fit (length (cq_Items x)) (cq_Items x)"
      "\<forall>i \<in> set (cq_Items x). entry_valid (ci_Item i)"
    using assms by (simp_all add: crime_fits_def)
  then have n: "unat (of_nat (length (cq_Items x)) :: u64) = length (cq_Items x)"
    by (intro unat_count) (simp add: max_crime_entries_def)
  have small: "(max_crime_entries < length (cq_Items x)) = False"
    using items by simp
  show ?thesis
    unfolding crime_request_serialize_def crime_request_deserialize_def write_list_def [of _ "cq_Items x"] bind_assoc
    by (rule codes_bind [OF codes_u32] codes_bind [OF codes_byte] codes_bind [OF codes_game_id] codes_bind [OF codes_bool]
        codes_bind [OF codes_varint])+
      (simp only: n small if_False, rule codes_bind [OF codes_lines [OF items(2,3)]], simp add: codes_return)
qed

lemma safe_crime_request [safe_intros]: "safe_reader crime_request_deserialize"
proof -
  have owners: "safe_reader (read_owners n)" for n
    by (induction n) (auto intro!: safe_intros)
  have lines: "safe_reader (read_lines entries n)" for entries n
    by (induction n arbitrary: entries) (auto intro!: safe_intros owners)
  show ?thesis
    unfolding crime_request_deserialize_def by (intro safe_intros lines)
qed

interpretation crime_request_wire: wire_codec crime_request_serialize crime_request_deserialize crime_fits
  by unfold_locales (simp_all add: codes_crime_request safe_crime_request)

text \<open>Whatever bytes arrive, a request that keeps an action read all it holds within the limits.\<close>

lemma read_owners_fit:
  "length (snd (fst (run_state (read_owners n) r))) = n \<and>
     (fst (fst (run_state (read_owners n) r)) \<longrightarrow> owners_fit (snd (fst (run_state (read_owners n) r))))"
proof (induction n arbitrary: r)
  case (Suc n)
  have "(ucast q :: u32) \<noteq> 0 \<and> (ucast q :: u32) \<le> 0x7FFF" if "\<not> (q = 0 \<or> q > 0x7FFF)" for q :: u64
  proof -
    have "unat (ucast q :: u32) = unat q"
      using that by (simp add: unsigned_ucast_eq take_bit_nat_eq_self_iff word_less_nat_alt)
    then show ?thesis
      using that by (auto simp: word_le_nat_alt word_less_nat_alt simp flip: unat_eq_zero)
  qed
  with Suc show ?case
    by (auto simp: owners_fit_def case_prod_unfold)
qed (simp add: owners_fit_def)

lemma read_lines_fit:
  "length (snd (fst (run_state (read_lines entries n) r))) = n \<and>
     (fst (fst (run_state (read_lines entries n) r)) \<longrightarrow> lines_fit entries (snd (fst (run_state (read_lines entries n) r))))"
proof (induction n arbitrary: entries r)
  case (Suc n)
  then show ?case
    using read_owners_fit by (auto simp: case_prod_unfold)
qed simp

text \<open>
  C40: a crime request written within the limits of the wire is read as it was written; and of
  whatever bytes arrive, one that is not refused names at most 4096 lines and owners, none of them with a count of
  none or more than the engine holds.
\<close>

theorem crimes_within_limits:
  "(\<forall>x. crime_fits x \<longrightarrow> codes (crime_request_serialize x) crime_request_deserialize x) \<and>
   (let x = fst (run_state crime_request_deserialize r)
    in crime_is_valid x \<longrightarrow> length (cq_Items x) \<le> max_crime_entries \<and> lines_fit (length (cq_Items x)) (cq_Items x))"
proof -
  have refused: "crime_is_valid x \<Longrightarrow> cq_Action x = 255 \<Longrightarrow> False" for x
    by (auto simp: crime_is_valid_def crime_action_defs split: if_splits)
  show ?thesis
    using codes_crime_request read_lines_fit
    by (auto simp: Let_def) (auto simp: crime_request_deserialize_def case_prod_unfold split: if_splits dest: refused)
qed

text \<open>A guest takes one thing with one owner out of a container.\<close>

definition example_crime :: crime_request where
  "example_crime = \<lparr>cq_Sequence = 1, cq_Action = caContainerTheft, cq_Target = \<lparr>gid_BaseId = 9, gid_ModId = 0\<rparr>, cq_TargetActor = 0,
     cq_Item = no_id, cq_Count = 0, cq_GoToJail = False, cq_RemoveStolenItems = False, cq_AllowWarning = True,
     cq_Items = [\<lparr>ci_Item = new_entry\<lparr>en_BaseId := \<lparr>gid_BaseId = 5, gid_ModId = 0\<rparr>, en_Count := 1\<rparr>,
       ci_Owners = [\<lparr>co_Owner = no_id, co_Count = 1\<rparr>], ci_Taking = True\<rparr>]\<rparr>"

theorem crimes_within_limits_witness: "crime_is_valid example_crime \<and> codes (crime_request_serialize example_crime) crime_request_deserialize example_crime"
proof -
  have "crime_fits example_crime"
    by (simp add: crime_fits_def example_crime_def owners_fit_def entry_valid_def new_entry_def max_crime_entries_def)
  then have "codes (crime_request_serialize example_crime) crime_request_deserialize example_crime"
    using crimes_within_limits [of "new_reader []"] by blast
  moreover have "crime_is_valid example_crime"
    by (simp add: crime_is_valid_def example_crime_def crime_action_defs no_id_def new_entry_def max_crime_entries_def word_sless_alt)
  ultimately show ?thesis by simp
qed

end
