(* ===== verification/Player_Calls.thy ===== *)
theory Player_Calls
  imports Host_World Payloads Talk_Messages
begin

text \<open>
  What one game asks of others: script calls and their answers (\<open>Services/Host/HostPlayerNatives\<close>), guests' story
  events (\<open>Services/Host/HostStory\<close>), and the guests' records kept for the host's save
  (\<open>Services/Host/HostRecords\<close>).
\<close>

section \<open>Script calls\<close>

datatype call_message = Called routed_call | Call_Ended call_ended | Native_Answer player_native_result

text \<open>\<open>m_waiting\<close>: the game asked, by reply id.\<close>

type_synonym waiting_calls = "(u32 \<times> conn) list"

definition call_answer :: "host_players \<Rightarrow> u32 \<Rightarrow> script_value \<Rightarrow> call_message outbox" where
  "call_answer p i r = (if players_host p \<noteq> 0 then [(players_host p, Native_Answer \<lparr>pnr_ReplyId = i, pnr_Result = r\<rparr>)] else [])"

definition to_owner :: "host_players \<Rightarrow> characters \<Rightarrow> routed_call \<Rightarrow> conn \<Rightarrow> waiting_calls \<Rightarrow> waiting_calls \<times> call_message outbox" where
  "to_owner p cs q sender s =
     (if sender \<noteq> players_host p then (s, [])
      else let owner = owner_of (rc_SessionId q) cs
           in if owner = 0 \<or> owner = sender
              then (s, if rc_ReplyId q \<noteq> 0 then call_answer p (rc_ReplyId q) SVNone else [])
              else (if rc_ReplyId q \<noteq> 0 then assign (rc_ReplyId q) owner s else s, [(owner, Called q)]))"

definition to_host :: "host_players \<Rightarrow> characters \<Rightarrow> routed_call \<Rightarrow> conn \<Rightarrow> call_message outbox" where
  "to_host p cs q sender =
     (let host = players_host p; character = (if sender \<noteq> host then player_character_of sender cs else 0)
      in if host = 0 \<or> character = 0 then [] else [(host, Called (q\<lparr>rc_SessionId := character\<rparr>))])"

definition to_others :: "host_players \<Rightarrow> routed_call \<Rightarrow> conn \<Rightarrow> call_message outbox" where
  "to_others p q sender =
     (case players_find sender p of None \<Rightarrow> [] | Some x \<Rightarrow> send_to_others (Called (q\<lparr>rc_Source := pl_Id x\<rparr>)) sender p)"

definition on_call :: "host_players \<Rightarrow> characters \<Rightarrow> routed_call \<Rightarrow> conn \<Rightarrow> waiting_calls \<Rightarrow> waiting_calls \<times> call_message outbox" where
  "on_call p cs q sender s =
     (case rc_To q of
        ToOwner \<Rightarrow> to_owner p cs q sender s
      | ToHost \<Rightarrow> (s, to_host p cs q sender)
      | ToOthers \<Rightarrow> (s, to_others p q sender))"

definition on_call_ended :: "host_players \<Rightarrow> call_ended \<Rightarrow> conn \<Rightarrow> call_message outbox" where
  "on_call_ended p q sender =
     (case players_find sender p of None \<Rightarrow> [] | Some x \<Rightarrow> send_to_others (Call_Ended (q\<lparr>ce_Source := pl_Id x\<rparr>)) sender p)"

definition on_native_result :: "host_players \<Rightarrow> player_native_result \<Rightarrow> conn \<Rightarrow> waiting_calls \<Rightarrow> waiting_calls \<times> call_message outbox" where
  "on_native_result p q sender s =
     (if map_of s (pnr_ReplyId q) \<noteq> Some sender then (s, [])
      else (map_erase (pnr_ReplyId q) s, call_answer p (pnr_ReplyId q) (pnr_Result q)))"

definition calls_player_left :: "host_players \<Rightarrow> conn \<Rightarrow> waiting_calls \<Rightarrow> waiting_calls \<times> call_message outbox" where
  "calls_player_left p c s =
     (let unanswered = map fst (filter (\<lambda>(_, asked). asked = c) s)
      in (fold map_erase unanswered s, concat (map (\<lambda>i. call_answer p i SVNone) unanswered)))"

section \<open>Story events\<close>

text \<open>The event raised in the host's game, if any.\<close>

definition on_story_event :: "bool \<Rightarrow> host_players \<Rightarrow> characters \<Rightarrow> story_event \<Rightarrow> conn \<Rightarrow> story_event option" where
  "on_story_event raises p cs e sender =
     (let character = player_character_of sender cs
      in if sender = players_host p \<or> \<not> raises \<or> character = 0 then None else Some (e\<lparr>sev_Character := character\<rparr>))"

section \<open>Records\<close>

text \<open>What the host's game is told to keep, and which of these calls it has.\<close>

datatype record_out =
    Store_Record player_record
  | Store_Place string game_id game_id "float32 \<times> float32 \<times> float32"
  | Store_Story_Spell game_id bool

record record_game =
  rg_StoreRecord :: bool
  rg_StorePlace :: bool
  rg_StoreStorySpell :: bool

definition player_form :: game_id where "player_form = \<lparr>gid_BaseId = 0x14, gid_ModId = 0\<rparr>"

text \<open>The host's script adds a spell to, or removes it from, the party's players: a story spell.\<close>

definition on_party_call :: "record_game \<Rightarrow> host_players \<Rightarrow> routed_call \<Rightarrow> conn \<Rightarrow> record_out list" where
  "on_party_call g p q sender =
     (let call = rc_Call q
      in if sender \<noteq> players_host p \<or> rc_To q \<noteq> ToOthers \<or> \<not> rg_StoreStorySpell g then []
         else case call_Self call of
             SVForm self \<Rightarrow>
               if call_Class call \<noteq> ''Actor'' \<or> sf_SessionId self \<noteq> 0 \<or> sf_Form self \<noteq> player_form \<or> call_Arguments call = [] \<or>
                  call_Function call \<noteq> ''AddSpell'' \<and> call_Function call \<noteq> ''RemoveSpell'' then []
               else (case hd (call_Arguments call) of
                   SVForm spell \<Rightarrow>
                     if sf_SessionId spell = 0 \<and> sf_Form spell \<noteq> no_id
                     then [Store_Story_Spell (sf_Form spell) (call_Function call = ''AddSpell'')] else []
                 | _ \<Rightarrow> [])
           | _ \<Rightarrow> [])"

definition on_player_record :: "record_game \<Rightarrow> host_players \<Rightarrow> player_record \<Rightarrow> conn \<Rightarrow> record_out list" where
  "on_player_record g p r sender =
     (case players_find sender p of
        None \<Rightarrow> []
      | Some x \<Rightarrow>
          if pl_IsHost x \<or> pl_Key x = [] \<or> pl_Key x \<noteq> pr_Key r then []
          else if rg_StoreRecord g then [Store_Record r] else [])"

definition store_place :: "record_game \<Rightarrow> spawn_game \<Rightarrow> host_players \<Rightarrow> characters \<Rightarrow> conn \<Rightarrow> record_out list" where
  "store_place g w p cs c =
     (case players_find c p of
        None \<Rightarrow> []
      | Some x \<Rightarrow>
          if \<not> rg_StorePlace g \<or> pl_IsHost x \<or> pl_Key x = [] then []
          else case character_place w p (player_character_of c cs) cs of
              None \<Rightarrow> []
            | Some at \<Rightarrow> [Store_Place (pl_Key x) (pt_WorldSpaceId at) (pt_CellId at)
                (v3_x (pt_Position at), v3_y (pt_Position at), v3_z (pt_Position at))])"

definition on_saving :: "record_game \<Rightarrow> spawn_game \<Rightarrow> host_players \<Rightarrow> characters \<Rightarrow> record_out list" where
  "on_saving g w p cs = concat (map (store_place g w p cs) (connections p))"

definition records_player_left :: "record_game \<Rightarrow> spawn_game \<Rightarrow> host_players \<Rightarrow> characters \<Rightarrow> conn \<Rightarrow> record_out list" where
  "records_player_left g w p cs c = store_place g w p cs c"

section \<open>A script waits for one answer\<close>

datatype call_event = Calls routed_call conn | Returns player_native_result conn | Goes conn

fun calls_step :: "host_players \<times> characters \<times> call_event \<Rightarrow> waiting_calls \<Rightarrow> waiting_calls \<times> call_message outbox" where
  "calls_step (p, cs, Calls q c) s = on_call p cs q c s"
| "calls_step (p, cs, Returns q c) s = on_native_result p q c s"
| "calls_step (p, cs, Goes c) s = calls_player_left p c s"

text \<open>The reply ids the host's scripts wait on.\<close>

fun asked_id :: "host_players \<times> characters \<times> call_event \<Rightarrow> u32 list" where
  "asked_id (p, cs, Calls q c) = (if rc_To q = ToOwner \<and> c = players_host p \<and> rc_ReplyId q \<noteq> 0 then [rc_ReplyId q] else [])"
| "asked_id _ = []"

definition asked_ids :: "(host_players \<times> characters \<times> call_event) list \<Rightarrow> u32 list" where
  "asked_ids es = concat (map asked_id es)"

text \<open>What passes about one reply id: the game asked, and what a game is answered.\<close>

datatype exchange = Asks conn | Answers conn script_value

fun exchange_of :: "u32 \<Rightarrow> conn \<times> call_message \<Rightarrow> exchange list" where
  "exchange_of i (c, Native_Answer m) = (if pnr_ReplyId m = i then [Answers c (pnr_Result m)] else [])"
| "exchange_of i (c, Called q) = (if rc_To q = ToOwner \<and> rc_ReplyId q = i \<and> i \<noteq> 0 then [Asks c] else [])"
| "exchange_of i _ = []"

definition exchanges :: "u32 \<Rightarrow> call_message outbox \<Rightarrow> exchange list" where
  "exchanges i out = concat (map (exchange_of i) out)"

lemma exchanges_simps [simp]:
  "exchanges i [] = []" "exchanges i (xs @ ys) = exchanges i xs @ exchanges i ys"
  "exchanges i [(c, Called q)] = (if rc_To q = ToOwner \<and> rc_ReplyId q = i \<and> i \<noteq> 0 then [Asks c] else [])"
  "players_host p \<noteq> 0 \<Longrightarrow> exchanges i (call_answer p j v) = (if i = j then [Answers (players_host p) v] else [])"
  by (auto simp: exchanges_def call_answer_def)

lemma exchanges_others: "(\<And>c. exchange_of i (c, m) = []) \<Longrightarrow> exchanges i (send_to_others m c p) = []"
  by (auto simp: exchanges_def send_to_others_def)

lemma fold_erase: "fold map_erase ks m = filter (\<lambda>(k, _). k \<notin> set ks) m"
  by (induction ks arbitrary: m) (auto simp: map_erase_def intro: filter_cong)

lemma map_of_without: "map_of (filter (\<lambda>(k, _). k \<notin> A) m) r = (if r \<in> A then None else map_of m r)"
  by (induction m) auto

text \<open>What one event does to the calls waiting and the exchange of one id.\<close>

definition call_moves :: "u32 \<Rightarrow> host_players \<times> characters \<times> call_event \<Rightarrow> waiting_calls \<Rightarrow> conn option \<times> exchange list" where
  "call_moves r e s =
     (case e of
        (p, cs, Calls q c) \<Rightarrow>
          if r \<in> set (asked_id e)
          then (if owner_of (rc_SessionId q) cs = 0 \<or> owner_of (rc_SessionId q) cs = c then (map_of s r, [Answers c SVNone])
                else (Some (owner_of (rc_SessionId q) cs), [Asks (owner_of (rc_SessionId q) cs)]))
          else (map_of s r, [])
      | (p, cs, Returns q c) \<Rightarrow>
          if pnr_ReplyId q = r \<and> map_of s r = Some c then (None, [Answers (players_host p) (pnr_Result q)]) else (map_of s r, [])
      | (p, cs, Goes c) \<Rightarrow>
          if map_of s r = Some c then (None, [Answers (players_host p) SVNone]) else (map_of s r, []))"

lemma calls_step_moves:
  assumes "distinct (map fst s)" "players_host (fst e) \<noteq> 0"
  shows "distinct (map fst (fst (calls_step e s))) \<and>
    (map_of (fst (calls_step e s)) r, exchanges r (snd (calls_step e s))) = call_moves r e s"
proof -
  obtain p cs ev where e: "e = (p, cs, ev)" by (cases e)
  have host: "players_host p \<noteq> 0" using assms(2) e by simp
  show ?thesis
  proof (cases ev)
    case (Calls q c)
    then show ?thesis
      using assms(1) host
      by (auto simp: e call_moves_def on_call_def to_owner_def to_host_def to_others_def exchanges_others distinct_assign Let_def
          simp del: map_of_eq_Some_iff split: call_to.split option.split)
  next
    case (Returns q c)
    then show ?thesis
      using assms(1) host
      by (auto simp: e call_moves_def on_native_result_def distinct_erase map_of_erase simp del: map_of_eq_Some_iff)
  next
    case (Goes c)
    define ids where "ids = map fst (filter (\<lambda>(_, asked). asked = c) s)"
    have ids: "r \<in> set ids \<longleftrightarrow> map_of s r = Some c" "distinct ids"
      using assms(1) by (force simp: ids_def image_iff) (simp add: ids_def assms(1) distinct_map_filter)
    have "exchanges r (concat (map (\<lambda>i. call_answer p i SVNone) is)) = (if r \<in> set is then [Answers (players_host p) SVNone] else [])"
      if "distinct is" for "is"
      using that host by (induction "is") auto
    then show ?thesis
      using assms(1) ids
      by (simp add: e Goes call_moves_def calls_player_left_def ids_def [symmetric] fold_erase map_of_without distinct_map_filter
          del: map_of_eq_Some_iff)
  qed
qed

text \<open>
  What a script may expect of a reply id, whatever the table of waiting calls: it is asked of the game
  that owns the character, or answered none at once when no other game does; then the answer of that
  game, and of no other, or its leaving, settles it.
\<close>

datatype reply = Unasked | Waiting conn | Answered "conn option" conn script_value

fun reply_step :: "u32 \<Rightarrow> host_players \<times> characters \<times> call_event \<Rightarrow> reply \<Rightarrow> reply" where
  "reply_step r (p, cs, Calls q c) Unasked =
     (if c = players_host p \<and> rc_To q = ToOwner \<and> rc_ReplyId q = r \<and> r \<noteq> 0
      then if owner_of (rc_SessionId q) cs = 0 \<or> owner_of (rc_SessionId q) cs = c then Answered None c SVNone
           else Waiting (owner_of (rc_SessionId q) cs)
      else Unasked)"
| "reply_step r (p, cs, Returns q c) (Waiting d) =
     (if c = d \<and> pnr_ReplyId q = r then Answered (Some d) (players_host p) (pnr_Result q) else Waiting d)"
| "reply_step r (p, cs, Goes c) (Waiting d) = (if c = d then Answered (Some d) (players_host p) SVNone else Waiting d)"
| "reply_step r _ v = v"

fun waits_on :: "reply \<Rightarrow> conn option" where
  "waits_on (Waiting d) = Some d"
| "waits_on _ = None"

fun exchanged :: "reply \<Rightarrow> exchange list" where
  "exchanged Unasked = []"
| "exchanged (Waiting d) = [Asks d]"
| "exchanged (Answered None h v) = [Answers h v]"
| "exchanged (Answered (Some d) h v) = [Asks d, Answers h v]"

text \<open>A step of the table is a step of that, as long as an id that was asked is not asked again.\<close>

lemma call_moves_reply:
  assumes "map_of s r = waits_on v" "r \<in> set (asked_id e) \<Longrightarrow> v = Unasked"
  shows "fst (call_moves r e s) = waits_on (reply_step r e v) \<and>
    exchanged v @ snd (call_moves r e s) = exchanged (reply_step r e v)"
proof -
  obtain p cs ev where e: "e = (p, cs, ev)" by (cases e)
  show ?thesis
    using assms unfolding e call_moves_def
    by (cases ev; cases v) (auto simp del: map_of_eq_Some_iff split: if_splits)
qed

lemma reply_asked: "reply_step r e v \<noteq> Unasked \<Longrightarrow> v \<noteq> Unasked \<or> r \<in> set (asked_id e)"
  by (induction r e v rule: reply_step.induct) (auto split: if_splits)

lemma replies_asked: "fold (reply_step r) es Unasked \<noteq> Unasked \<Longrightarrow> r \<in> set (asked_ids es)"
proof (induction es rule: rev_induct)
  case (snoc e es)
  then show ?case
    using reply_asked [of r e "fold (reply_step r) es Unasked"] by (auto simp: asked_ids_def)
qed simp

text \<open>
  C15: a script of the host's game that asks about a character, under a reply id of its own, is
  answered once and no other way than this: at once, with none, when no other game owns the character; else
  that game is asked, and the script gets what that very game returns for the id, or none when it leaves
  first, whichever comes first. An answer from any other game, or a second one, changes nothing, and until
  then the script waits. (The host is there throughout: its leaving ends the session.)
\<close>

theorem scripts_answered_once:
  assumes "list_all (\<lambda>e. players_host (fst e) \<noteq> 0) es" "distinct (asked_ids es)"
  shows "let (s, out) = run calls_step es []; v = fold (reply_step r) es Unasked
    in map_of s r = waits_on v \<and> exchanges r out = exchanged v"
proof -
  have "distinct (map fst (fst (run calls_step es []))) \<and>
      map_of (fst (run calls_step es [])) r = waits_on (fold (reply_step r) es Unasked) \<and>
      exchanges r (snd (run calls_step es [])) = exchanged (fold (reply_step r) es Unasked)"
    using assms
  proof (induction es rule: rev_induct)
    case (snoc e es)
    let ?s = "fst (run calls_step es [])"
    have IH: "distinct (map fst ?s)" "map_of ?s r = waits_on (fold (reply_step r) es Unasked)"
        "exchanges r (snd (run calls_step es [])) = exchanged (fold (reply_step r) es Unasked)"
      using snoc by (simp_all add: asked_ids_def)
    have host: "players_host (fst e) \<noteq> 0" using snoc.prems by simp
    have "r \<in> set (asked_id e) \<Longrightarrow> fold (reply_step r) es Unasked = Unasked"
      using snoc.prems(2) replies_asked [of r es] by (auto simp: asked_ids_def)
    from call_moves_reply [OF IH(2) this] calls_step_moves [OF IH(1) host, of r] IH(3)
    show ?case
      by (auto simp: run_snoc run_append run_Cons prod_eq_iff simp del: map_of_eq_Some_iff)
  qed simp
  then show ?thesis
    by (simp add: case_prod_beta Let_def)
qed

text \<open>
  The host (5) asks the guest (7) something about its character (3): an answer another connection (8) makes up
  is not taken, and the guest's is.
\<close>

definition example_call :: routed_call where
  "example_call = \<lparr>rc_To = ToOwner, rc_SessionId = 3, rc_Source = 0, rc_ReplyId = 9, rc_Call =
     \<lparr>call_Class = ''Game'', call_Function = ''QueryStat'', call_Self = SVNone, call_Arguments = []\<rparr>\<rparr>"

definition example_calls :: "(host_players \<times> characters \<times> call_event) list" where
  "example_calls = [(example_party, example_characters, Calls example_call 5),
     (example_party, example_characters, Returns \<lparr>pnr_ReplyId = 9, pnr_Result = SVInt 2\<rparr> 8),
     (example_party, example_characters, Returns \<lparr>pnr_ReplyId = 9, pnr_Result = SVInt 4\<rparr> 7),
     (example_party, example_characters, Goes 7)]"

theorem scripts_answered_once_witness:
  "exchanges 9 (snd (run calls_step example_calls [])) = [Asks 7, Answers 5 (SVInt 4)]"
proof -
  have parts: "list_all (\<lambda>e. players_host (fst e) \<noteq> 0) example_calls" "distinct (asked_ids example_calls)"
    by (simp_all add: example_calls_def asked_ids_def example_party_host example_call_def)
  have "owner_of 3 example_characters = 7"
    by (simp add: owner_of_def char_find_def example_characters_def)
  then have "fold (reply_step 9) example_calls Unasked = Answered (Some 7) 5 (SVInt 4)"
    by (simp add: example_calls_def example_call_def example_party_host)
  then show ?thesis
    using scripts_answered_once [OF parts, of 9] by (simp add: case_prod_beta Let_def)
qed

end
