(* ===== verification/Host_Sky.thy ===== *)
theory Host_Sky
  imports Float64 Host_World Session_Messages
begin

text \<open>
  The session's time and weather: the calendar (\<open>common/DateTime\<close>), the host's clock that peers follow
  (\<open>Services/Host/HostClock\<close>), how fast every game's clock runs (\<open>Services/Host/HostTimeScale\<close>), and the host's
  weather (\<open>Services/Host/HostWeather\<close>).
\<close>

section \<open>The calendar\<close>

definition day_lengths :: "u32 list" where
  "day_lengths = [31, 28, 31, 30, 31, 30, 31, 31, 30, 31, 30, 31]"

text \<open>
  \<open>GetNumberOfDaysByMonthIndex\<close> of the index as an \<open>int\<close>: a negative one that is no multiple of 12 is read before the
  array (none).
\<close>

definition days_of_month :: "u32 \<Rightarrow> u32 option" where
  "days_of_month i =
     (let r = sint i - 12 * (if sint i < 0 then - (- sint i div 12) else sint i div 12)
      in if r < 0 then None else Some (day_lengths ! nat r))"

lemma days_of_month_small:
  assumes "unat i < 2 ^ 31"
  shows "days_of_month i = Some (day_lengths ! (unat i mod 12))"
proof -
  have "uint i < 2 ^ 31"
    using assms by (metis nat_less_iff nat_uint_eq of_nat_numeral of_nat_power uint_ge_0)
  then have "sint i = uint i"
    by (simp add: sint_uint signed_take_bit_int_eq_self_iff order_trans [OF _ uint_ge_0])
  then have "sint i = int (unat i)"
    by simp
  then show ?thesis
    by (simp add: days_of_month_def Let_def minus_mult_div_eq_mod nat_mod_distrib)
qed

lemma day_lengths_some: "i < 12 \<Longrightarrow> 28 \<le> unat (day_lengths ! i) \<and> unat (day_lengths ! i) \<le> 31"
proof -
  assume "i < 12"
  then have "day_lengths ! i \<in> set day_lengths"
    by (intro nth_mem) (simp add: day_lengths_def)
  moreover have "\<forall>n \<in> set day_lengths. 28 \<le> unat n \<and> unat n \<le> 31"
    by (simp add: day_lengths_def)
  ultimately show ?thesis by blast
qed

lemma days_of_month_some: "days_of_month m = Some n \<Longrightarrow> 28 \<le> unat n \<and> unat n \<le> 31"
proof -
  assume n: "days_of_month m = Some n"
  define r where "r = sint m - 12 * (if sint m < 0 then - (- sint m div 12) else sint m div 12)"
  have "r < 12"
    using mult_div_mod_eq [of 12 "sint m"] mult_div_mod_eq [of 12 "- sint m"] pos_mod_bound [of 12 "sint m"] pos_mod_sign [of 12 "- sint m"]
    unfolding r_def by (cases "sint m < 0") simp_all
  moreover have "\<not> r < 0" "n = day_lengths ! nat r"
    using n by (auto simp: days_of_month_def r_def [symmetric] Let_def split: if_splits)
  ultimately show ?thesis
    using day_lengths_some [of "nat r"] by simp
qed

text \<open>The days that are over go to the next months; the loop takes at least 28 of them each time.\<close>

function carry_days :: "u32 \<Rightarrow> u32 \<Rightarrow> (u32 \<times> u32) option" where
  "carry_days day month =
     (case days_of_month month of
        None \<Rightarrow> None
      | Some n \<Rightarrow> if day > n then carry_days (day - n) (month + 1) else Some (day, month))"
  by pat_completeness auto
termination
proof (relation "measure (\<lambda>(day, _). unat day)")
  fix day month n :: u32
  assume "days_of_month month = Some n" "n < day"
  then show "((day - n, month + 1), (day, month)) \<in> measure (\<lambda>(day, _). unat day)"
    using days_of_month_some [of month n] by (simp add: unat_sub word_less_nat_alt order_less_imp_le)
qed simp

declare carry_days.simps [simp del]

definition delta_time :: "u64 \<Rightarrow> time_model \<Rightarrow> float32" where
  "delta_time delta t =
     f32_mul (f32_div (f32_of_int (uint delta)) (f32_of_int 1000)) (f32_mul (tm_TimeScale t) 0x3991A2B4)"

definition midnights :: "float32 \<Rightarrow> u32" where
  "midnights time = f32_trunc_u32 (f32_div time (f32_of_int 24))"

definition date_update :: "u64 \<Rightarrow> time_model \<Rightarrow> time_model option" where
  "date_update delta t =
     (let time = f32_add (tm_Time t) (delta_time delta t); over = midnights time
      in map_option (\<lambda>(day, month). t\<lparr>tm_Time := f32_fmod time (f32_of_int 24), tm_DaysPassed := tm_DaysPassed t + over,
           tm_Day := day, tm_Year := tm_Year t + month div 12, tm_Month := month mod 12\<rparr>)
         (carry_days (tm_Day t + over) (tm_Month t)))"

text \<open>The days of a date counted from year 0, a year of 365.\<close>

definition days_before :: "nat \<Rightarrow> nat" where
  "days_before m = 365 * (m div 12) + sum_list (map unat (take (m mod 12) day_lengths))"

lemma day_lengths_length: "length day_lengths = 12"
  by (simp add: day_lengths_def)

lemma days_before_Suc: "days_before (Suc m) = days_before m + unat (day_lengths ! (m mod 12))"
proof -
  have "m mod 12 < 12" by simp
  then consider "m mod 12 < 11" | "m mod 12 = 11" by linarith
  then show ?thesis
  proof cases
    case 1
    then have "Suc m div 12 = m div 12" "Suc m mod 12 = Suc (m mod 12)"
      by (auto simp: div_Suc mod_Suc)
    then show ?thesis
      using 1 by (simp add: days_before_def take_Suc_conv_app_nth [of "m mod 12" day_lengths] day_lengths_length)
  next
    case 2
    then have "Suc m div 12 = Suc (m div 12)" "Suc m mod 12 = 0"
      by (auto simp: div_Suc mod_Suc)
    with 2 show ?thesis
      by (simp add: days_before_def day_lengths_def)
  qed
qed

lemma carry_days_ok:
  assumes "unat month + unat day < 2 ^ 31"
  shows "\<exists>d m. carry_days day month = Some (d, m) \<and> unat m < 2 ^ 31 \<and> unat d \<le> unat (day_lengths ! (unat m mod 12)) \<and>
    days_before (unat m) + unat d = days_before (unat month) + unat day \<and> (day \<noteq> 0 \<longrightarrow> d \<noteq> 0) \<and> unat month \<le> unat m"
  using assms
proof (induction day month rule: carry_days.induct)
  case (1 day month)
  have n: "days_of_month month = Some (day_lengths ! (unat month mod 12))" (is "_ = Some ?n")
    using "1.prems" by (intro days_of_month_small) simp
  show ?case
  proof (cases "day > ?n")
    case True
    note len = days_of_month_some [OF n]
    have next_day: "unat (day - ?n) = unat day - unat ?n" "unat (month + 1) = Suc (unat month)"
      using True "1.prems" by (auto simp: unat_sub word_less_nat_alt order_less_imp_le unat_word_ariths)
    then have "unat (month + 1) + unat (day - ?n) < 2 ^ 31" "day - ?n \<noteq> 0"
      using "1.prems" len True by (auto simp: word_less_nat_alt)
    with "1.IH" [OF n True] obtain d m where "carry_days (day - ?n) (month + 1) = Some (d, m)" "unat m < 2 ^ 31"
        "unat d \<le> unat (day_lengths ! (unat m mod 12))" "d \<noteq> 0" "unat (month + 1) \<le> unat m"
        "days_before (unat m) + unat d = days_before (unat (month + 1)) + unat (day - ?n)"
      by auto
    then show ?thesis
      using True n next_day by (subst carry_days.simps) (auto simp: days_before_Suc word_less_nat_alt)
  next
    case False
    then show ?thesis
      using n "1.prems" False by (subst carry_days.simps) (simp add: word_less_nat_alt)
  qed
qed

definition day_number :: "time_model \<Rightarrow> nat" where
  "day_number t = 365 * unat (tm_Year t) + days_before (unat (tm_Month t)) + unat (tm_Day t)"

lemma days_before_year: "days_before m = 365 * (m div 12) + days_before (m mod 12)"
  by (simp add: days_before_def)

text \<open>
  C28: from a date whose month is one of the twelve, whose day with the midnights that pass is below
  \<open>2\<^sup>3\<^sup>0\<close> and whose year is below \<open>2\<^sup>3\<^sup>1\<close>, the calendar comes back from an update: with a date of the year whose day is
  one of its month, as many days on as midnights passed, each counted once in the days since the game began.
  (A date that does not meet the bounds, which a record or a message may hold, is not covered: the month is an
  unchecked index.)
\<close>

theorem calendar_advances:
  assumes "unat (tm_Month t) < 12" "midnights (f32_add (tm_Time t) (delta_time delta t)) = over"
    "unat (tm_Day t) + unat over < 2 ^ 30" "unat (tm_Year t) < 2 ^ 31"
  shows "\<exists>t'. date_update delta t = Some t' \<and> unat (tm_Month t') < 12 \<and>
    unat (tm_Day t') \<le> unat (day_lengths ! unat (tm_Month t')) \<and> (tm_Day t + over \<noteq> 0 \<longrightarrow> tm_Day t' \<noteq> 0) \<and>
    day_number t' = day_number t + unat over \<and> tm_DaysPassed t' = tm_DaysPassed t + over \<and> tm_TimeScale t' = tm_TimeScale t"
proof -
  have day: "unat (tm_Day t + over) = unat (tm_Day t) + unat over"
    using assms(3) by (simp add: unat_word_ariths)
  then have "unat (tm_Month t) + unat (tm_Day t + over) < 2 ^ 31"
    using assms(1,3) by simp
  from carry_days_ok [OF this] obtain d m where c: "carry_days (tm_Day t + over) (tm_Month t) = Some (d, m)" "unat m < 2 ^ 31"
      "unat d \<le> unat (day_lengths ! (unat m mod 12))" "tm_Day t + over \<noteq> 0 \<longrightarrow> d \<noteq> 0"
      "days_before (unat m) + unat d = days_before (unat (tm_Month t)) + unat (tm_Day t + over)"
    by blast
  define t' where "t' = t\<lparr>tm_Time := f32_fmod (f32_add (tm_Time t) (delta_time delta t)) (f32_of_int 24),
    tm_DaysPassed := tm_DaysPassed t + over, tm_Day := d, tm_Year := tm_Year t + m div 12, tm_Month := m mod 12\<rparr>"
  have "unat (tm_Year t + m div 12) = unat (tm_Year t) + unat m div 12"
    using assms(4) c(2) by (simp add: unat_word_ariths unat_div)
  moreover have "unat (m mod 12) = unat m mod 12"
    by (simp add: unat_mod)
  ultimately have "day_number t' = day_number t + unat over"
    using c(5) day days_before_year [of "unat m"] by (simp add: day_number_def t'_def)
  moreover have "date_update delta t = Some t'"
    using c(1) assms(2) by (simp add: date_update_def Let_def t'_def)
  ultimately show ?thesis
    using c(3,4) by (intro exI [of _ t']) (simp add: t'_def unat_mod)
qed

definition example_time :: time_model where
  "example_time = \<lparr>tm_TimeScale = 0x41A00000, tm_Time = 0x42400000, tm_Year = 201, tm_Month = 11, tm_Day = 31, tm_DaysPassed = 9\<rparr>"

lemma example_floats:
  "f32_of_int 0 = 0" "f32_of_int 24 = 0x41C00000" "f32_of_int 1000 = 0x447A0000"
  by (simp_all add: f32_of_int_def f32_rounds)

lemma example_doubles:
  "f64_of_f32 0 = 0" "f64_of_f32 0x42400000 = 0x4048000000000000" "f64_of_f32 0x41C00000 = 0x4038000000000000"
  "f64_of_f32 0x447A0000 = 0x408F400000000000" "f32_of_f64 0x4000000000000000 = 0x40000000" "f32_of_f64 0 = 0"
  by (simp_all add: f64_of_f32_def f32_of_f64_def f32_parts f64_parts f64_rounds f32_rounds)

lemma example_quotients: "f64_div 0x4048000000000000 0x4038000000000000 = 0x4000000000000000" "f64_div 0 0x408F400000000000 = 0"
  by (simp_all add: f64_div_def f64_parts) (simp_all add: f64_rounds)

lemma example_speed: "f32_mul 0x41A00000 0x3991A2B4 = 0x3BB60B61"
  by (simp add: f32_mul_def f32_parts) (simp add: f32_rounds)

lemma example_no_time: "f32_mul 0 0x3BB60B61 = 0"
  by (simp add: f32_mul_def f32_parts) (simp add: f32_rounds)

lemma example_stays: "f32_add 0x42400000 0 = 0x42400000"
  by (simp add: f32_add_def f32_parts) (simp add: f32_rounds)

lemma example_midnights: "midnights 0x42400000 = 2"
  by (simp add: midnights_def f32_div_def example_floats example_doubles example_quotients f32_trunc_u32_def f32_parts)

theorem calendar_advances_witness:
  "\<exists>t'. date_update 0 example_time = Some t' \<and> unat (tm_Month t') < 12 \<and> day_number t' = day_number example_time + 2"
proof -
  have "delta_time 0 example_time = 0"
    using example_speed example_no_time by (simp add: delta_time_def example_floats f32_div_def example_doubles example_quotients example_time_def)
  then have "midnights (f32_add (tm_Time example_time) (delta_time 0 example_time)) = 2"
    by (simp add: example_time_def example_stays example_midnights)
  from calendar_advances [OF _ this] show ?thesis
    by (auto simp: example_time_def)
qed

section \<open>The clock\<close>

text \<open>\<open>MinutesBetween\<close> and \<open>SameDate\<close>; 24, 60 and 1 as doubles.\<close>

definition minutes_between :: "time_model \<Rightarrow> time_model \<Rightarrow> float64" where
  "minutes_between from_time to_time =
     (let days = uint (tm_DaysPassed to_time) - uint (tm_DaysPassed from_time)
      in f64_mul (f64_add (f64_mul (f64_of_int days) 0x4038000000000000) (f64_of_f32 (f32_sub (tm_Time to_time) (tm_Time from_time))))
           0x404E000000000000)"

definition same_date :: "time_model \<Rightarrow> time_model \<Rightarrow> bool" where
  "same_date l r \<longleftrightarrow> tm_Day l = tm_Day r \<and> tm_Month l = tm_Month r \<and> tm_Year l = tm_Year r"

datatype sky_message = Time_Settings time_settings | Weather_Change weather_change | Time_Scale time_scale_message

record host_clock =
  hk_peersClock :: "time_model option"
  hk_peersClockTick :: u64

definition new_clock :: host_clock where
  "new_clock = \<lparr>hk_peersClock = None, hk_peersClockTick = 0\<rparr>"

definition clock_told :: "host_players \<Rightarrow> time_model \<Rightarrow> sky_message outbox" where
  "clock_told p now = send_to_others (Time_Settings \<lparr>nts_timeModel = now\<rparr>) (players_host p) p"

text \<open>
  \<open>HostClock::Update\<close> with the host's time; none where the calendar of a projected clock is read before its array.
\<close>

definition clock_follows :: "time_model \<Rightarrow> time_model \<Rightarrow> bool" where
  "clock_follows projected now \<longleftrightarrow> f64_less (f64_abs (minutes_between projected now)) 0x3FF0000000000000 \<and>
     same_date projected now \<and> f32_eq (tm_TimeScale projected) (tm_TimeScale now)"

definition clock_update :: "host_players \<Rightarrow> time_model \<Rightarrow> u64 \<Rightarrow> host_clock \<Rightarrow> (host_clock \<times> sky_message outbox) option" where
  "clock_update p now tick s =
     (let jump = (\<lparr>hk_peersClock = Some now, hk_peersClockTick = tick\<rparr>, clock_told p now)
      in case hk_peersClock s of
           None \<Rightarrow> Some jump
         | Some peers \<Rightarrow>
             (case date_update (tick - hk_peersClockTick s) peers of
                None \<Rightarrow> None
              | Some projected \<Rightarrow>
                  Some (if clock_follows projected now
                    then (\<lparr>hk_peersClock = Some projected, hk_peersClockTick = tick\<rparr>, []) else jump)))"

definition send_time :: "conn \<Rightarrow> time_model \<Rightarrow> sky_message outbox" where
  "send_time c now = [(c, Time_Settings \<lparr>nts_timeModel = now\<rparr>)]"

text \<open>The hour the host's clock is set to, and the hours it is advanced by.\<close>

definition on_set_time_command :: "set_time_request \<Rightarrow> float32 option" where
  "on_set_time_command q =
     (if stq_Hours q < 24 \<and> stq_Minutes q < 60
      then Some (f32_add (f32_of_int (uint (stq_Hours q))) (f32_div (f32_of_int (uint (stq_Minutes q))) 0x42700000)) else None)"

definition on_travel_time :: "bool \<Rightarrow> host_players \<Rightarrow> travel_time \<Rightarrow> conn \<Rightarrow> float32 option" where
  "on_travel_time advances p q sender =
     (if sender \<noteq> players_host p \<and> f32_is_finite (tt_Hours q) \<and> f32_less 0 (tt_Hours q) \<and> advances then Some (tt_Hours q) else None)"

section \<open>The weather\<close>

text \<open>The state is what peers hold, no form at first.\<close>

definition weather_update :: "host_players \<Rightarrow> game_id \<Rightarrow> game_id \<Rightarrow> game_id \<times> sky_message outbox" where
  "weather_update p weather held =
     (if players_host p = 0 \<or> \<not> game_id_set weather \<or> weather = held then (held, [])
      else (weather, send_to_others (Weather_Change \<lparr>wc_Id = weather\<rparr>) (players_host p) p))"

definition send_weather :: "conn \<Rightarrow> game_id \<Rightarrow> sky_message outbox" where
  "send_weather c held = (if \<not> game_id_set held then [] else [(c, Weather_Change \<lparr>wc_Id = held\<rparr>)])"

section \<open>How fast the clocks run\<close>

record time_scales =
  sc_wanted :: "(conn \<times> float32) list"
  sc_told :: "(conn \<times> float32) list"

definition no_scales :: time_scales where "no_scales = \<lparr>sc_wanted = [], sc_told = []\<rparr>"

definition f32_one :: float32 where "f32_one = 0x3F800000"

definition slowest_besides :: "conn \<Rightarrow> time_scales \<Rightarrow> float32" where
  "slowest_besides c s = fold (\<lambda>(d, wanted) slowest. if d \<noteq> c then f32_min slowest wanted else slowest) (sc_wanted s) f32_one"

definition tell_scale :: "conn \<Rightarrow> float32 \<Rightarrow> time_scales \<Rightarrow> time_scales \<times> sky_message outbox" where
  "tell_scale c m s = (s\<lparr>sc_told := assign c m (sc_told s)\<rparr>, [(c, Time_Scale \<lparr>ts_Multiplier = m\<rparr>)])"

fun tell_scales :: "conn list \<Rightarrow> time_scales \<Rightarrow> time_scales \<times> sky_message outbox" where
  "tell_scales [] s = (s, [])"
| "tell_scales (c # cs) s =
     (let slowest = slowest_besides c s;
          (s, out) = (if \<not> f32_eq (case map_of (sc_told s) c of None \<Rightarrow> f32_one | Some m \<Rightarrow> m) slowest then tell_scale c slowest s else (s, []));
          (s, outs) = tell_scales cs s
      in (s, out @ outs))"

definition on_time_scale :: "host_players \<Rightarrow> time_scale_request \<Rightarrow> conn \<Rightarrow> time_scales \<Rightarrow> time_scales \<times> sky_message outbox" where
  "on_time_scale p q sender s = tell_scales (connections p) (s\<lparr>sc_wanted := assign sender (tsq_Multiplier q) (sc_wanted s)\<rparr>)"

definition scales_player_left :: "host_players \<Rightarrow> conn \<Rightarrow> time_scales \<Rightarrow> time_scales \<times> sky_message outbox" where
  "scales_player_left p c s =
     tell_scales (connections p) (s\<lparr>sc_wanted := map_erase c (sc_wanted s), sc_told := map_erase c (sc_told s)\<rparr>)"

definition send_time_scale :: "conn \<Rightarrow> time_scales \<Rightarrow> time_scales \<times> sky_message outbox" where
  "send_time_scale c s =
     (let slowest = slowest_besides c s in if \<not> f32_eq slowest f32_one then tell_scale c slowest s else (s, []))"

section \<open>Everyone runs at the slowest other clock\<close>

text \<open>
  The session as the clocks see it: a player joins, says how fast its clock should run, has its character in the world, and
  leaves; a message of a game that is no player is dropped.
\<close>

datatype scale_event = Joins conn string u16 bool string | Wants conn time_scale_request | Enters conn | Leaves conn

fun scale_step :: "scale_event \<Rightarrow> host_players \<times> time_scales \<Rightarrow> (host_players \<times> time_scales) \<times> sky_message outbox" where
  "scale_step (Joins c name level is_host key) (p, s) =
     (((if is_player c p then p else snd (players_add c name level is_host key p)), s), [])"
| "scale_step (Wants c q) (p, s) = (if is_player c p then let (s, out) = on_time_scale p q c s in ((p, s), out) else ((p, s), []))"
| "scale_step (Enters c) (p, s) = (if is_player c p then let (s, out) = send_time_scale c s in ((p, s), out) else ((p, s), []))"
| "scale_step (Leaves c) (p, s) =
     (if is_player c p
      then let p = players_remove c p; (s, out) = scales_player_left p c s in ((p, s), out)
      else ((p, s), []))"

text \<open>What each player wants last, told by the events alone, and what a player hears.\<close>

fun wanted_after :: "scale_event \<Rightarrow> (conn \<rightharpoonup> float32) \<times> conn set \<Rightarrow> (conn \<rightharpoonup> float32) \<times> conn set" where
  "wanted_after (Joins c _ _ _ _) (w, ins) = (w, insert c ins)"
| "wanted_after (Wants c q) (w, ins) = (if c \<in> ins then (w(c \<mapsto> tsq_Multiplier q), ins) else (w, ins))"
| "wanted_after (Enters c) (w, ins) = (w, ins)"
| "wanted_after (Leaves c) (w, ins) = (w(c := None), ins - {c})"

fun scale_of :: "sky_message \<Rightarrow> float32 option" where
  "scale_of (Time_Scale m) = Some (ts_Multiplier m)"
| "scale_of _ = None"

definition heard :: "conn \<Rightarrow> sky_message outbox \<Rightarrow> float32 list" where
  "heard c out = List.map_filter scale_of (to_conn c out)"

text \<open>The slowest speed the others want, 1 when none wants a slower one.\<close>

definition is_slowest :: "conn \<Rightarrow> (conn \<rightharpoonup> float32) \<Rightarrow> float32 \<Rightarrow> bool" where
  "is_slowest c w v \<longleftrightarrow> (v = f32_one \<or> (\<exists>d. d \<noteq> c \<and> w d = Some v)) \<and> \<not> f32_is_nan v \<and> \<not> f32_less f32_one v \<and>
     (\<forall>d m. d \<noteq> c \<longrightarrow> w d = Some m \<longrightarrow> \<not> f32_less m v)"

definition scales_ok :: "host_players \<times> time_scales \<Rightarrow> bool" where
  "scales_ok ps \<longleftrightarrow> distinct (connections (fst ps)) \<and> distinct (map fst (sc_wanted (snd ps))) \<and> distinct (map fst (sc_told (snd ps))) \<and>
     fst ` set (sc_wanted (snd ps)) \<subseteq> set (connections (fst ps)) \<and> fst ` set (sc_told (snd ps)) \<subseteq> set (connections (fst ps))"

definition told_scale :: "conn \<Rightarrow> time_scales \<Rightarrow> float32" where
  "told_scale c s = (case map_of (sc_told s) c of None \<Rightarrow> f32_one | Some m \<Rightarrow> m)"

lemma f32_less_negated: "\<not> f32_is_nan a \<Longrightarrow> \<not> f32_is_nan b \<Longrightarrow> \<not> f32_is_nan c \<Longrightarrow> \<not> f32_less b a \<Longrightarrow> f32_less c a \<Longrightarrow> \<not> f32_less b c"
  by (simp add: f32_less_def)

lemma f32_one_not_nan: "\<not> f32_is_nan f32_one"
  by (simp add: f32_one_def f32_parts)

lemma slowest_fold:
  fixes c :: conn
  assumes "distinct (map fst ws)" "\<not> f32_is_nan v"
  defines "r \<equiv> fold (\<lambda>(d, wanted) slowest. if d \<noteq> c then f32_min slowest wanted else slowest) ws v"
  shows "(r = v \<or> (\<exists>d. d \<noteq> c \<and> map_of ws d = Some r)) \<and> \<not> f32_is_nan r \<and> \<not> f32_less v r \<and>
    (\<forall>d m. d \<noteq> c \<longrightarrow> map_of ws d = Some m \<longrightarrow> \<not> f32_less m r)"
  using assms(1,2) unfolding r_def
proof (induction ws arbitrary: v)
  case (Cons x ws)
  obtain d m where x: "x = (d, m)" by (cases x)
  define u where "u = (if d \<noteq> c then f32_min v m else v)"
  have u: "\<not> f32_is_nan u" "d \<noteq> c \<longrightarrow> \<not> f32_less m u" "\<not> f32_less v u" "u = v \<or> d \<noteq> c \<and> u = m"
    using Cons.prems(2) by (auto simp: u_def f32_min_def f32_less_def)
  have keys: "map_of ws d = None" "distinct (map fst ws)"
    using Cons.prems(1) by (simp_all add: x map_of_eq_None_iff)
  have less: "\<not> f32_less a u \<Longrightarrow> \<not> f32_is_nan b \<Longrightarrow> \<not> f32_less u b \<Longrightarrow> \<not> f32_less a b" for a b
    using u(1) by (auto simp: f32_less_def)
  define r where "r = fold (\<lambda>(d, wanted) slowest. if d \<noteq> c then f32_min slowest wanted else slowest) ws u"
  have r: "r = u \<or> (\<exists>d. d \<noteq> c \<and> map_of ws d = Some r)" "\<not> f32_is_nan r" "\<not> f32_less u r"
      "\<And>d m. d \<noteq> c \<Longrightarrow> map_of ws d = Some m \<Longrightarrow> \<not> f32_less m r"
    using Cons.IH [OF keys(2) u(1)] unfolding r_def by blast+
  have eq: "fold (\<lambda>(d, wanted) slowest. if d \<noteq> c then f32_min slowest wanted else slowest) (x # ws) v = r"
    by (simp add: x r_def u_def)
  have "r = v \<or> (\<exists>d. d \<noteq> c \<and> map_of (x # ws) d = Some r)"
  proof (cases "r = u")
    case True
    then show ?thesis using u(4) by (auto simp: x)
  next
    case False
    then obtain k where "k \<noteq> c" "map_of ws k = Some r" using r(1) by blast
    then show ?thesis using keys(1) by (intro disjI2 exI [of _ k]) (auto simp: x)
  qed
  moreover have "\<not> f32_less v r"
    using less [OF u(3) r(2,3)] .
  moreover have "\<not> f32_less n r" if "k \<noteq> c" "map_of (x # ws) k = Some n" for k n
  proof (cases "k = d")
    case True
    then have "\<not> f32_less n u" using that u(2) by (simp add: x)
    then show ?thesis using less [OF _ r(2,3)] by blast
  next
    case False
    then show ?thesis using that r(4) [of k n] by (simp add: x)
  qed
  ultimately show ?case
    using r(2) unfolding eq by blast
qed simp

lemma slowest_besides_is_slowest:
  "distinct (map fst (sc_wanted s)) \<Longrightarrow> is_slowest c (map_of (sc_wanted s)) (slowest_besides c s)"
  using slowest_fold [of "sc_wanted s" f32_one c] unfolding is_slowest_def slowest_besides_def
  by (simp add: f32_one_not_nan)

lemma slowest_besides_cong: "sc_wanted s = sc_wanted s' \<Longrightarrow> slowest_besides c s = slowest_besides c s'"
  by (simp add: slowest_besides_def)

lemma heard_simps [simp]: "heard c [] = []" "heard c (xs @ ys) = heard c xs @ heard c ys"
    "heard c (snd (tell_scale d m s)) = (if c = d then [m] else [])"
  by (simp_all add: heard_def to_conn_def tell_scale_def map_filter_def)

lemma told_scale_tell: "told_scale c (fst (tell_scale d m s)) = (if c = d then m else told_scale c s)"
    "sc_wanted (fst (tell_scale d m s)) = sc_wanted s"
  by (simp_all add: told_scale_def tell_scale_def)

text \<open>One player's turn in the loop that tells them.\<close>

definition tell_changed :: "conn \<Rightarrow> time_scales \<Rightarrow> time_scales \<times> sky_message outbox" where
  "tell_changed c s = (if \<not> f32_eq (told_scale c s) (slowest_besides c s) then tell_scale c (slowest_besides c s) s else (s, []))"

lemma tell_scales_Cons:
  "tell_scales (c # cs) s = (fst (tell_scales cs (fst (tell_changed c s))), snd (tell_changed c s) @ snd (tell_scales cs (fst (tell_changed c s))))"
  by (simp add: tell_changed_def told_scale_def Let_def split: prod.split)

declare tell_scales.simps(2) [simp del]

lemma tell_scales_wanted: "sc_wanted (fst (tell_scales cs s)) = sc_wanted s"
  by (induction cs arbitrary: s) (simp_all add: tell_scales_Cons tell_changed_def told_scale_tell(2))

lemma tell_changed_facts:
  assumes "distinct (map fst (sc_wanted s))"
  shows "sc_wanted (fst (tell_changed c s)) = sc_wanted s"
    "f32_eq (told_scale c (fst (tell_changed c s))) (slowest_besides c s)"
    "told_scale d (fst (tell_changed c s)) = last (told_scale d s # heard d (snd (tell_changed c s)))"
    "d \<noteq> c \<Longrightarrow> heard d (snd (tell_changed c s)) = []"
    "distinct (map fst (sc_told s)) \<Longrightarrow> distinct (map fst (sc_told (fst (tell_changed c s))))"
    "fst ` set (sc_told (fst (tell_changed c s))) \<subseteq> insert c (fst ` set (sc_told s))"
proof -
  have "f32_eq (slowest_besides c s) (slowest_besides c s)"
    using slowest_besides_is_slowest [OF assms, of c] by (simp add: is_slowest_def f32_eq_refl)
  then show "f32_eq (told_scale c (fst (tell_changed c s))) (slowest_besides c s)"
    by (simp add: tell_changed_def told_scale_tell)
  show "fst ` set (sc_told (fst (tell_changed c s))) \<subseteq> insert c (fst ` set (sc_told s))"
    by (simp add: tell_changed_def tell_scale_def keys_assign subset_insertI)
qed (simp_all add: tell_changed_def told_scale_tell, simp_all add: tell_scale_def distinct_assign)

lemma tell_scales_facts:
  assumes "distinct (map fst (sc_wanted s))" "distinct (map fst (sc_told s))"
  shows "distinct (map fst (sc_told (fst (tell_scales cs s)))) \<and>
    fst ` set (sc_told (fst (tell_scales cs s))) \<subseteq> set cs \<union> fst ` set (sc_told s) \<and>
    told_scale c (fst (tell_scales cs s)) = last (told_scale c s # heard c (snd (tell_scales cs s))) \<and>
    (c \<in> set cs \<or> f32_eq (told_scale c s) (slowest_besides c s) \<longrightarrow> f32_eq (told_scale c (fst (tell_scales cs s))) (slowest_besides c s))"
  using assms
proof (induction cs arbitrary: s)
  case (Cons d cs)
  note facts = tell_changed_facts [OF Cons.prems(1), where c = d]
  have same: "slowest_besides c (fst (tell_changed d s)) = slowest_besides c s"
    by (rule slowest_besides_cong [OF facts(1)])
  have here: "f32_eq (told_scale c (fst (tell_changed d s))) (slowest_besides c s)"
    if "c = d \<or> f32_eq (told_scale c s) (slowest_besides c s)"
    using that facts(2) facts(3) [of c] facts(4) [of c] by (cases "c = d") auto
  have "distinct (map fst (sc_wanted (fst (tell_changed d s))))" "distinct (map fst (sc_told (fst (tell_changed d s))))"
    using Cons.prems facts(1,5) by simp_all
  note IH = Cons.IH [OF this, unfolded same]
  have ends: "last (told_scale c s # heard c (snd (tell_changed d s)) @ heard c (snd (tell_scales cs (fst (tell_changed d s))))) =
      last (told_scale c (fst (tell_changed d s)) # heard c (snd (tell_scales cs (fst (tell_changed d s)))))"
    using facts(3) [of c] by (cases "heard c (snd (tell_scales cs (fst (tell_changed d s))))") (simp_all add: last_append)
  have keys: "set cs \<union> fst ` set (sc_told (fst (tell_changed d s))) \<subseteq> set (d # cs) \<union> fst ` set (sc_told s)"
    using facts(6) by auto
  show ?case
    unfolding tell_scales_Cons fst_conv snd_conv heard_simps
  proof (intro conjI)
    show "fst ` set (sc_told (fst (tell_scales cs (fst (tell_changed d s))))) \<subseteq> set (d # cs) \<union> fst ` set (sc_told s)"
      using IH keys by blast
    show "told_scale c (fst (tell_scales cs (fst (tell_changed d s)))) =
        last (told_scale c s # heard c (snd (tell_changed d s)) @ heard c (snd (tell_scales cs (fst (tell_changed d s)))))"
      unfolding ends using IH by blast
    show "c \<in> set (d # cs) \<or> f32_eq (told_scale c s) (slowest_besides c s) \<longrightarrow>
        f32_eq (told_scale c (fst (tell_scales cs (fst (tell_changed d s))))) (slowest_besides c s)"
      using IH here by auto
  qed (use IH in blast)
qed simp

text \<open>What a player hears in one step, from the first message after its joining on.\<close>

definition scale_good :: "conn \<Rightarrow> bool \<Rightarrow> float32 \<Rightarrow> host_players \<times> time_scales \<Rightarrow> bool" where
  "scale_good c entered h ps \<longleftrightarrow> scales_ok ps \<and> c \<in> set (connections (fst ps)) \<and> told_scale c (snd ps) = h \<and>
     (entered \<or> c \<in> fst ` set (sc_told (snd ps)) \<longrightarrow> f32_eq h (slowest_besides c (snd ps)))"

definition wanted_view :: "host_players \<times> time_scales \<Rightarrow> (conn \<rightharpoonup> float32) \<times> conn set" where
  "wanted_view ps = (map_of (sc_wanted (snd ps)), set (connections (fst ps)))"

definition after_telling :: "host_players \<Rightarrow> time_scales \<Rightarrow> (host_players \<times> time_scales) \<times> sky_message outbox" where
  "after_telling p s = ((p, fst (tell_scales (connections p) s)), snd (tell_scales (connections p) s))"

lemma after_telling_facts:
  assumes "scales_ok (p, s)"
  shows "scales_ok (fst (after_telling p s))" "wanted_view (fst (after_telling p s)) = wanted_view (p, s)"
    "c \<in> set (connections p) \<Longrightarrow> scale_good c entered (last (told_scale c s # heard c (snd (after_telling p s)))) (fst (after_telling p s))"
proof -
  have ok: "distinct (map fst (sc_wanted s))" "distinct (map fst (sc_told s))"
    using assms by (simp_all add: scales_ok_def)
  note facts = tell_scales_facts [OF ok, of "connections p"]
  have same: "slowest_besides c (fst (tell_scales (connections p) s)) = slowest_besides c s" for c
    by (rule slowest_besides_cong [OF tell_scales_wanted])
  show one: "scales_ok (fst (after_telling p s))"
    using assms facts [of 0] unfolding scales_ok_def after_telling_def tell_scales_wanted fst_conv snd_conv by blast
  show "wanted_view (fst (after_telling p s)) = wanted_view (p, s)"
    by (simp add: wanted_view_def after_telling_def tell_scales_wanted)
  show "scale_good c entered (last (told_scale c s # heard c (snd (after_telling p s)))) (fst (after_telling p s))"
    if "c \<in> set (connections p)" for c
    using that one facts [of c] same [of c] by (auto simp: scale_good_def after_telling_def split: if_splits)
qed

lemma scales_ok_changed:
  assumes "scales_ok (p, s)" "is_player c p"
  shows "scales_ok (p, s\<lparr>sc_wanted := assign c m (sc_wanted s)\<rparr>)"
    "scales_ok (players_remove c p, s\<lparr>sc_wanted := map_erase c (sc_wanted s), sc_told := map_erase c (sc_told s)\<rparr>)"
  using assms by (auto simp: scales_ok_def distinct_assign keys_assign is_player_in connections_removed distinct_erase)
    (auto simp: map_erase_def)

lemma scale_step_cases:
  "scale_step (Wants c q) (p, s) = (if is_player c p then after_telling p (s\<lparr>sc_wanted := assign c (tsq_Multiplier q) (sc_wanted s)\<rparr>) else ((p, s), []))"
  "scale_step (Leaves c) (p, s) = (if is_player c p
     then after_telling (players_remove c p) (s\<lparr>sc_wanted := map_erase c (sc_wanted s), sc_told := map_erase c (sc_told s)\<rparr>) else ((p, s), []))"
  by (simp_all add: on_time_scale_def scales_player_left_def after_telling_def Let_def split: prod.split)

lemma scale_step_ok:
  assumes "scales_ok ps"
  shows "scales_ok (fst (scale_step e ps)) \<and> wanted_view (fst (scale_step e ps)) = wanted_after e (wanted_view ps)"
proof -
  obtain p s where ps: "ps = (p, s)" by (cases ps)
  note ok = assms [unfolded ps]
  show ?thesis
  proof (cases e)
    case (Joins c)
    then show ?thesis
      using ok by (auto simp: ps scales_ok_def connections_added wanted_view_def is_player_in)
  next
    case (Wants c)
    then show ?thesis
      using ok after_telling_facts [OF scales_ok_changed(1) [OF ok]] unfolding ps Wants scale_step_cases
      by (simp add: wanted_view_def is_player_in)
  next
    case (Enters c)
    then show ?thesis
      using ok
      by (auto simp: ps scales_ok_def wanted_view_def is_player_in send_time_scale_def tell_scale_def distinct_assign keys_assign Let_def)
  next
    case (Leaves c)
    have "map_of (sc_wanted s) c = None" if "\<not> is_player c p"
      using ok that by (auto simp: scales_ok_def is_player_in map_of_eq_None_iff)
    then show ?thesis
      using ok after_telling_facts [OF scales_ok_changed(2) [OF ok]] unfolding ps Leaves scale_step_cases
      by (auto simp: wanted_view_def is_player_in connections_removed map_of_erase fun_upd_idem)
  qed
qed

lemma scale_step_good:
  assumes "scale_good c entered h ps" "e \<noteq> Leaves c"
  shows "scale_good c (entered \<or> e = Enters c) (last (h # heard c (snd (scale_step e ps)))) (fst (scale_step e ps))"
proof -
  obtain p s where ps: "ps = (p, s)" by (cases ps)
  have ok: "scales_ok (p, s)" and c: "c \<in> set (connections p)" and h: "told_scale c s = h"
    using assms(1) by (simp_all add: scale_good_def ps)
  show ?thesis
  proof (cases e)
    case (Joins d)
    then show ?thesis
      using assms(1) scale_step_ok [OF ok, of e] by (auto simp: ps scale_good_def connections_added)
  next
    case (Wants d q)
    have "told_scale c (s\<lparr>sc_wanted := w\<rparr>) = h" for w
      using h by (simp add: told_scale_def)
    then show ?thesis
      using assms(1) after_telling_facts(3) [OF scales_ok_changed(1) [OF ok], of d c] c unfolding ps Wants scale_step_cases
      by (cases "is_player d p") auto
  next
    case (Enters d)
    have c_told: "map_of (sc_told s) c = None \<longleftrightarrow> c \<notin> fst ` set (sc_told s)"
      by (simp add: map_of_eq_None_iff)
    have slowest: "slowest_besides x (s\<lparr>sc_told := w\<rparr>) = slowest_besides x s" for x w
      by (rule slowest_besides_cong) simp
    have "f32_eq (slowest_besides c s) (slowest_besides c s)"
      using slowest_besides_is_slowest [of s c] ok by (simp add: is_slowest_def scales_ok_def f32_eq_refl)
    moreover have "scales_ok (fst (scale_step e (p, s)))"
      using scale_step_ok [OF ok, of e] by blast
    moreover have "h = f32_one" if "c \<notin> fst ` set (sc_told s)"
      using h that by (simp add: told_scale_def c_told [symmetric])
    ultimately show ?thesis
      using assms(1) c h unfolding ps Enters
      by (cases "c \<in> fst ` set (sc_told s)"; cases "is_player d p"; cases "d = c"; cases "f32_eq (slowest_besides d s) f32_one")
        (simp_all add: scale_good_def send_time_scale_def Let_def  slowest tell_scale_def told_scale_def heard_def to_conn_def map_filter_def keys_assign is_player_in f32_eq_sym)
  next
    case (Leaves d)
    then have "told_scale c (s\<lparr>sc_wanted := w, sc_told := map_erase d (sc_told s)\<rparr>) = h" for w
      using h assms(2) by (simp add: told_scale_def map_of_erase)
    moreover have "c \<in> set (connections (players_remove d p))"
      using c assms(2) Leaves by (simp add: connections_removed)
    ultimately show ?thesis
      using assms(1) after_telling_facts(3) [OF scales_ok_changed(2) [OF ok], of d c] unfolding ps Leaves scale_step_cases
      by (cases "is_player d p") auto
  qed
qed

lemma scale_run_ok:
  "scales_ok ps \<Longrightarrow> scales_ok (fst (run scale_step es ps)) \<and> wanted_view (fst (run scale_step es ps)) = fold wanted_after es (wanted_view ps)"
  by (induction es arbitrary: ps) (simp_all add: run_Cons scale_step_ok)

lemma scale_run_good:
  assumes "scale_good c entered h ps" "\<forall>e \<in> set es. e \<noteq> Leaves c"
  shows "scale_good c (entered \<or> Enters c \<in> set es) (last (h # heard c (snd (run scale_step es ps)))) (fst (run scale_step es ps))"
  using assms
proof (induction es arbitrary: entered h ps)
  case (Cons e es)
  have ends: "last (last (h # heard c (snd (scale_step e ps))) # heard c (snd (run scale_step es (fst (scale_step e ps))))) =
      last (h # heard c (snd (scale_step e ps)) @ heard c (snd (run scale_step es (fst (scale_step e ps)))))"
    by (cases "heard c (snd (run scale_step es (fst (scale_step e ps))))") (simp_all add: last_append)
  have e: "e \<noteq> Leaves c" "\<forall>e \<in> set es. e \<noteq> Leaves c"
      "(entered \<or> Enters c \<in> set (e # es)) = ((entered \<or> e = Enters c) \<or> Enters c \<in> set es)"
    using Cons.prems(2) by auto
  show ?case
    using Cons.IH [OF scale_step_good [OF Cons.prems(1) e(1)] e(2)] unfolding run_Cons heard_simps ends e(3) .
qed simp

definition new_scales :: "host_players \<times> time_scales" where "new_scales = (no_players, no_scales)"

lemma new_scales_ok: "scales_ok new_scales" "wanted_view new_scales = (Map.empty, {})"
  by (simp_all add: scales_ok_def wanted_view_def new_scales_def no_players_def no_scales_def connections_def)

text \<open>
  C12: from its entering the world on, until it leaves, a game's last word of how fast to run its
  clock (as it runs on its own when it was told nothing) is the slowest of what the other players there want, in whatever
  order they ask, join, enter and leave.
\<close>

theorem clocks_follow_the_slowest:
  fixes name key :: string and level :: u16 and is_host :: bool and c :: conn and before :: "scale_event list"
  assumes "\<not> is_player c (fst (fst (run scale_step before new_scales)))"
    "\<forall>e \<in> set after. e \<noteq> Leaves c" "Enters c \<in> set after"
  defines "joined \<equiv> before @ [Joins c name level is_host key]"
  shows "\<exists>v. is_slowest c (fst (fold wanted_after (joined @ after) (Map.empty, {}))) v \<and>
    f32_eq (last (f32_one # heard c (snd (run scale_step after (fst (run scale_step joined new_scales)))))) v"
proof -
  define ps where "ps = fst (run scale_step before new_scales)"
  have ok: "scales_ok ps" "wanted_view ps = fold wanted_after before (Map.empty, {})"
    using scale_run_ok [OF new_scales_ok(1), of before] by (simp_all add: ps_def new_scales_ok(2))
  obtain p s where p: "ps = (p, s)" by (cases ps)
  define j where "j = fst (run scale_step joined new_scales)"
  have j: "j = fst (scale_step (Joins c name level is_host key) ps)"
    by (simp add: j_def joined_def run_snoc ps_def)
  have fresh: "c \<notin> set (connections p)"
    using assms(1) by (simp add: ps_def [symmetric] p is_player_in)
  then have "map_of (sc_told s) c = None"
    using ok(1) by (auto simp: scales_ok_def p map_of_eq_None_iff)
  moreover have joined: "scales_ok j" "wanted_view j = fold wanted_after joined (Map.empty, {})"
    using scale_run_ok [OF new_scales_ok(1), of joined] by (simp_all add: j_def new_scales_ok(2))
  ultimately have "scale_good c False f32_one j"
    using fresh ok(1) by (auto simp: scale_good_def j p is_player_in connections_added told_scale_def scales_ok_def)
  from scale_run_good [OF this assms(2)] assms(3)
  have good: "scale_good c True (last (f32_one # heard c (snd (run scale_step after j)))) (fst (run scale_step after j))"
    by simp
  have "wanted_view (fst (run scale_step after j)) = fold wanted_after (joined @ after) (Map.empty, {})"
    using scale_run_ok [OF joined(1), of after] joined(2) by simp
  then have "map_of (sc_wanted (snd (fst (run scale_step after j)))) = fst (fold wanted_after (joined @ after) (Map.empty, {}))"
    by (metis fst_conv wanted_view_def)
  moreover have "is_slowest c (map_of (sc_wanted (snd (fst (run scale_step after j))))) (slowest_besides c (snd (fst (run scale_step after j))))"
    using good by (intro slowest_besides_is_slowest) (simp add: scale_good_def scales_ok_def)
  ultimately show ?thesis
    using good unfolding j_def [symmetric] by (auto simp: scale_good_def)
qed

theorem clocks_follow_the_slowest_witness:
  "\<exists>v. is_slowest 2 [1 \<mapsto> 0x3F000000] v \<and>
     f32_eq (last (f32_one # heard 2 (snd (run scale_step [Enters 2]
       (fst (run scale_step [Joins 1 ''Host'' 1 True [], Wants 1 \<lparr>tsq_Multiplier = 0x3F000000\<rparr>, Joins 2 ''Guest'' 1 False []] new_scales)))))) v"
proof -
  have "\<not> is_player 2 (fst (fst (run scale_step [Joins 1 ''Host'' 1 True [], Wants 1 \<lparr>tsq_Multiplier = 0x3F000000\<rparr>] new_scales)))"
    by (simp add: new_scales_def no_players_def run_Cons players_add_def is_player_def players_find_def Let_def case_prod_unfold)
  from clocks_follow_the_slowest [OF this, of "[Enters 2]" "''Guest''" 1 False "[]"] show ?thesis
    by simp
qed

end
