(* ===== verification/Host_Talk.thy ===== *)
theory Host_Talk
  imports Talk_Messages Payloads Session_Messages Text Characters
begin

text \<open>
  The party's conversation: the lists of its players merged to one (\<open>MergeDialogueLists\<close>), the texts of its menu
  (\<open>Services/Generic/PartyOptionText\<close>), and the conversation the host runs (\<open>Services/Host/HostDialogue\<close>).
\<close>

section \<open>Texts\<close>

fun joined_names :: "string list \<Rightarrow> string" where
  "joined_names [] = []"
| "joined_names [n] = n"
| "joined_names (n # ns) = n @ '', '' @ joined_names ns"

definition party_option_text :: "string \<Rightarrow> string list \<Rightarrow> string" where
  "party_option_text txt names = (if names = [] then txt else txt @ '' ['' @ joined_names names @ '']'')"

definition cannot_say_text :: "string \<Rightarrow> string" where
  "cannot_say_text name = ''I'm sorry '' @ name @ '', you don't know how to say that.''"

definition can_say :: "u32 list \<Rightarrow> u32 \<Rightarrow> bool" where
  "can_say players i \<longleftrightarrow> players = [] \<or> i \<in> set players"

section \<open>The party's list\<close>

definition same_dialogue_option :: "dialogue_option \<Rightarrow> dialogue_option \<Rightarrow> bool" where
  "same_dialogue_option a l \<longleftrightarrow> do_Topic l = do_Topic a \<and> (do_Info l = do_Info a \<or> do_Text l = do_Text a)"

definition same_option_in :: "dialogue_option \<Rightarrow> dialogue_options \<Rightarrow> dialogue_option option" where
  "same_option_in a ls = find (same_dialogue_option a) ls"

definition dialogue_line_for :: "game_id \<Rightarrow> game_id \<Rightarrow> dialogue_options \<Rightarrow> dialogue_option option" where
  "dialogue_line_for topic info own = find (\<lambda>l. do_Topic l = topic \<and> do_Info l = info) own"

text \<open>\<open>PartyDialogueList\<close>: a player's id and its own list.\<close>

type_synonym party_list = "u32 \<times> dialogue_options"

definition who_has :: "party_list list \<Rightarrow> dialogue_option \<Rightarrow> u32 list" where
  "who_has ms a = map fst (filter (\<lambda>(_, own). same_option_in a own \<noteq> None) ms)"

definition merge_add :: "party_list list \<Rightarrow> dialogue_option \<Rightarrow> dialogue_options \<Rightarrow> dialogue_options" where
  "merge_add ms a merged =
     (if same_option_in a merged \<noteq> None then merged
      else let who = who_has ms a
           in if who = [] then merged else merged @ [a\<lparr>do_Players := (if length who = length ms then [] else who)\<rparr>])"

definition merge_topic :: "party_list list \<Rightarrow> dialogue_option \<Rightarrow> dialogue_options \<Rightarrow> dialogue_options" where
  "merge_topic ms a merged =
     fold (merge_add ms) (filter (\<lambda>own. do_Topic own = do_Topic a) (concat (map snd ms))) (merge_add ms a merged)"

definition merge_dialogue_lists :: "dialogue_options \<Rightarrow> party_list list \<Rightarrow> dialogue_options" where
  "merge_dialogue_lists base ms = fold (merge_add ms) (concat (map snd ms)) (fold (merge_topic ms) base [])"

section \<open>The conversation\<close>

record conversation =
  tk_Id :: u32
  tk_NpcId :: u32
  tk_Step :: u32
  tk_Players :: "conn list"
  tk_Options :: "dialogue_options option"
  tk_PlayerOptions :: "(u32 \<times> dialogue_options) list"
  tk_Merged :: dialogue_options
  tk_Choices :: bool

record talks =
  tks_conversation :: "conversation option"
  tks_lastId :: u32
  tks_asked :: "(conn \<times> u32) option"

definition new_talks :: talks where
  "new_talks = \<lparr>tks_conversation = None, tks_lastId = 0, tks_asked = None\<rparr>"

datatype talk_message =
    Talk_Start talk_start
  | Talk_Open talk_open
  | Talk_List talk_list
  | Talk_Picked talk_picked
  | Talk_Closed talk_closed
  | Talk_Refused talk_refused
  | Talk_Highlight dialogue_highlight
  | Talk_Skip dialogue_skip
  | Talk_Chat chat

definition talk_current :: "u32 \<Rightarrow> talks \<Rightarrow> conversation option" where
  "talk_current i t = (case tks_conversation t of None \<Rightarrow> None | Some v \<Rightarrow> if tk_Id v = i then Some v else None)"

definition talk_at_step :: "u32 \<Rightarrow> u32 \<Rightarrow> talks \<Rightarrow> conversation option" where
  "talk_at_step i step t = (case talk_current i t of None \<Rightarrow> None | Some v \<Rightarrow> if tk_Step v = step then Some v else None)"

definition talk_line :: "string \<Rightarrow> talk_message" where
  "talk_line txt = Talk_Chat \<lparr>ch_MessageType = 0, ch_PlayerName = [], ch_ChatMessage = txt\<rparr>"

definition talk_refuse :: "conn \<Rightarrow> u32 \<Rightarrow> string option \<Rightarrow> talk_message outbox" where
  "talk_refuse c npc why = (c, Talk_Refused \<lparr>ndr_NpcId = npc\<rparr>) # (case why of None \<Rightarrow> [] | Some txt \<Rightarrow> [(c, talk_line txt)])"

text \<open>\<open>OptionsFor\<close>, \<open>Members\<close>, \<open>Merge\<close> and \<open>SendList\<close> of an open conversation.\<close>

definition options_for :: "host_players \<Rightarrow> conversation \<Rightarrow> conn \<Rightarrow> dialogue_options option" where
  "options_for p v c =
     (case tk_Options v of None \<Rightarrow> None
      | Some host \<Rightarrow> Some (case map_of (tk_PlayerOptions v) (player_id_of c p) of Some own \<Rightarrow> own | None \<Rightarrow> host))"

definition talk_members :: "host_players \<Rightarrow> conversation \<Rightarrow> party_list list" where
  "talk_members p v = List.map_filter (\<lambda>c. map_option (\<lambda>own. (player_id_of c p, own)) (options_for p v c)) (tk_Players v)"

definition send_list :: "conversation \<Rightarrow> conn \<Rightarrow> talk_message outbox" where
  "send_list v c = (if tk_Options v = None then []
     else [(c, Talk_List \<lparr>ndl_Conversation = tk_Id v, ndl_Step = tk_Step v, ndl_Choices = tk_Choices v, ndl_Options = tk_Merged v\<rparr>)])"

definition talk_merge :: "host_players \<Rightarrow> conversation \<Rightarrow> conversation \<times> talk_message outbox" where
  "talk_merge p v =
     (case tk_Options v of None \<Rightarrow> (v, [])
      | Some host \<Rightarrow> let v = v\<lparr>tk_Merged := merge_dialogue_lists host (talk_members p v)\<rparr>
                     in (v, concat (map (send_list v) (tk_Players v))))"

definition talk_end :: "host_players \<Rightarrow> conn \<Rightarrow> conversation \<Rightarrow> talks \<Rightarrow> talks \<times> talk_message outbox" where
  "talk_end p except v t = (t\<lparr>tks_conversation := None\<rparr>, send_to_others (Talk_Closed \<lparr>ndc_Conversation = tk_Id v\<rparr>) except p)"

definition talk_leave :: "host_players \<Rightarrow> conn \<Rightarrow> conversation \<Rightarrow> talks \<Rightarrow> talks \<times> talk_message outbox" where
  "talk_leave p c v t =
     (if c \<notin> set (tk_Players v) then (t, [])
      else let v = v\<lparr>tk_Players := filter (\<lambda>d. d \<noteq> c) (tk_Players v)\<rparr>
           in if tk_Players v = [] then talk_end p 0 v t
              else let (v, out) = talk_merge p v in (t\<lparr>tks_conversation := Some v\<rparr>, out))"

section \<open>Its handlers\<close>

definition on_talk_start :: "host_players \<Rightarrow> characters \<Rightarrow> talk_start_request \<Rightarrow> conn \<Rightarrow> talks \<Rightarrow> talks \<times> talk_message outbox" where
  "on_talk_start p cs q sender t =
     (let host = players_host p
      in if host = 0 \<or> owner_of (dsr_NpcId q) cs \<noteq> host then (t, talk_refuse sender (dsr_NpcId q) None)
         else case tks_conversation t of
             Some v \<Rightarrow> (t, if tk_NpcId v \<noteq> dsr_NpcId q
               then talk_refuse sender (dsr_NpcId q) (Some ''Someone else is in a conversation already.'') else [])
           | None \<Rightarrow> (t\<lparr>tks_asked := Some (sender, dsr_NpcId q)\<rparr>, [(host, Talk_Start \<lparr>nds_NpcId = dsr_NpcId q\<rparr>)]))"

definition opened_players :: "host_players \<Rightarrow> talk_opened \<Rightarrow> conn \<Rightarrow> talks \<Rightarrow> conn list" where
  "opened_players p q sender t =
     (if dop_Everyone q then filter (\<lambda>c. c \<noteq> sender) (connections p)
      else case tks_asked t of Some (c, npc) \<Rightarrow> if npc = dop_NpcId q then [c] else [] | None \<Rightarrow> [])"

definition on_talk_opened :: "host_players \<Rightarrow> talk_opened \<Rightarrow> conn \<Rightarrow> talks \<Rightarrow> talks \<times> talk_message outbox" where
  "on_talk_opened p q sender t =
     (if sender \<noteq> players_host p then (t, [])
      else let (t, ended) = (case tks_conversation t of Some v \<Rightarrow> talk_end p sender v t | None \<Rightarrow> (t, []));
               i = tks_lastId t + 1;
               v = \<lparr>tk_Id = i, tk_NpcId = dop_NpcId q, tk_Step = 1, tk_Players = opened_players p q sender t, tk_Options = None,
                    tk_PlayerOptions = [], tk_Merged = [], tk_Choices = False\<rparr>
           in (\<lparr>tks_conversation = Some v, tks_lastId = i, tks_asked = None\<rparr>,
               ended @ send_to_all (Talk_Open \<lparr>ndo_Conversation = i, ndo_NpcId = dop_NpcId q, ndo_Everyone = dop_Everyone q,
                 ndo_Greeting = dop_Greeting q\<rparr>) p))"

definition on_talk_options :: "host_players \<Rightarrow> talk_options \<Rightarrow> conn \<Rightarrow> talks \<Rightarrow> talks \<times> talk_message outbox" where
  "on_talk_options p q sender t =
     (case talk_at_step (dor_Conversation q) (dor_Step q) t of
        None \<Rightarrow> (t, [])
      | Some v \<Rightarrow>
          if sender \<noteq> players_host p then (t, [])
          else let v = v\<lparr>tk_Options := Some (dor_Options q),
                   tk_PlayerOptions := fold (\<lambda>x. map_put (pdo_PlayerId x) (pdo_Options x)) (dor_Players q) [],
                   tk_Choices := dor_Choices q\<rparr>;
                   (v, out) = talk_merge p v
               in (t\<lparr>tks_conversation := Some v\<rparr>, out))"

text \<open>The line a pick says: the picker's own of the listed option; and the listed option.\<close>

definition picked_option :: "talk_pick \<Rightarrow> conversation option \<Rightarrow> dialogue_option option" where
  "picked_option q step =
     (case step of None \<Rightarrow> None
      | Some v \<Rightarrow> if tk_Options v = None then None else dialogue_line_for (dpr_Topic q) (dpr_Info q) (tk_Merged v))"

definition picked_line :: "host_players \<Rightarrow> talk_pick \<Rightarrow> conn \<Rightarrow> conversation option \<Rightarrow> dialogue_option option" where
  "picked_line p q sender step =
     (case picked_option q step of None \<Rightarrow> None
      | Some listed \<Rightarrow>
          (case step of None \<Rightarrow> None
           | Some v \<Rightarrow>
               (case options_for p v sender of None \<Rightarrow> None
                | Some own \<Rightarrow> if sender \<in> set (tk_Players v) then same_option_in listed own else None)))"

definition on_talk_pick :: "host_players \<Rightarrow> talk_pick \<Rightarrow> conn \<Rightarrow> talks \<Rightarrow> talks \<times> talk_message outbox" where
  "on_talk_pick p q sender t =
     (let step = talk_at_step (dpr_Conversation q) (dpr_Step q) t
      in case picked_line p q sender step of
           None \<Rightarrow>
             (t, (case talk_current (dpr_Conversation q) t of None \<Rightarrow> []
                  | Some v \<Rightarrow> if sender \<in> set (tk_Players v) then send_list v sender else []) @
                 (case step of None \<Rightarrow> []
                  | Some v \<Rightarrow> if picked_option q step \<noteq> None \<and> sender \<in> set (tk_Players v)
                      then [(sender, talk_line (chat_text (cannot_say_text (player_name_of sender p))))] else []))
         | Some line \<Rightarrow>
             (case step of None \<Rightarrow> (t, [])
              | Some v \<Rightarrow>
                  let next = tk_Step v + 1
                  in (t\<lparr>tks_conversation := Some (v\<lparr>tk_Step := next, tk_Options := None, tk_PlayerOptions := [], tk_Merged := []\<rparr>)\<rparr>,
                      send_to_all (Talk_Picked \<lparr>ndp_Conversation = tk_Id v, ndp_Step = next, ndp_Topic = dpr_Topic q,
                          ndp_Info = do_Info line, ndp_PlayerId = player_id_of sender p\<rparr>) p @
                      send_to_all (Talk_Chat \<lparr>ch_MessageType = 1, ch_PlayerName = chat_text (player_name_of sender p),
                          ch_ChatMessage = chat_text (do_Text line)\<rparr>) p)))"

definition on_talk_close :: "host_players \<Rightarrow> talk_close \<Rightarrow> conn \<Rightarrow> talks \<Rightarrow> talks \<times> talk_message outbox" where
  "on_talk_close p q sender t =
     (case tks_conversation t of None \<Rightarrow> (t, [])
      | Some v \<Rightarrow>
          if sender = players_host p \<and> dcr_Ended q then talk_end p sender v t
          else if tk_Id v = dcr_Conversation q then talk_leave p sender v t else (t, []))"

definition on_talk_join :: "host_players \<Rightarrow> talk_join \<Rightarrow> conn \<Rightarrow> talks \<Rightarrow> talks \<times> talk_message outbox" where
  "on_talk_join p q sender t =
     (case talk_current (djr_Conversation q) t of None \<Rightarrow> (t, [])
      | Some v \<Rightarrow>
          if sender \<in> set (tk_Players v) then (t, [])
          else let (v, out) = talk_merge p (v\<lparr>tk_Players := tk_Players v @ [sender]\<rparr>) in (t\<lparr>tks_conversation := Some v\<rparr>, out))"

definition on_talk_highlight :: "host_players \<Rightarrow> dialogue_highlight \<Rightarrow> conn \<Rightarrow> talks \<Rightarrow> talk_message outbox" where
  "on_talk_highlight p q sender t =
     (case talk_at_step (dh_Conversation q) (dh_Step q) t of None \<Rightarrow> []
      | Some v \<Rightarrow>
          if sender \<notin> set (tk_Players v) then []
          else map (\<lambda>c. (c, Talk_Highlight (q\<lparr>dh_PlayerId := player_id_of sender p\<rparr>))) (filter (\<lambda>c. c \<noteq> sender) (tk_Players v)))"

definition on_talk_skip :: "host_players \<Rightarrow> dialogue_skip \<Rightarrow> conn \<Rightarrow> talks \<Rightarrow> talk_message outbox" where
  "on_talk_skip p q sender t =
     (case talk_at_step (dsk_Conversation q) (dsk_Step q) t of None \<Rightarrow> []
      | Some v \<Rightarrow>
          if sender \<notin> set (tk_Players v) then []
          else send_to_others (Talk_Skip q) (if sender = players_host p then sender else 0) p)"

definition on_talk_start_failed :: "host_players \<Rightarrow> talk_start_failed \<Rightarrow> conn \<Rightarrow> talks \<Rightarrow> talks \<times> talk_message outbox" where
  "on_talk_start_failed p q sender t =
     (case tks_asked t of None \<Rightarrow> (t, [])
      | Some (c, npc) \<Rightarrow>
          if sender \<noteq> players_host p \<or> npc \<noteq> dsf_NpcId q then (t, [])
          else (t\<lparr>tks_asked := None\<rparr>, talk_refuse c (dsf_NpcId q) (Some ''The host can't talk to them right now.'')))"

definition talk_player_left :: "host_players \<Rightarrow> conn \<Rightarrow> talks \<Rightarrow> talks \<times> talk_message outbox" where
  "talk_player_left p c t =
     (let t = (if map_option fst (tks_asked t) = Some c then t\<lparr>tks_asked := None\<rparr> else t)
      in case tks_conversation t of None \<Rightarrow> (t, []) | Some v \<Rightarrow> talk_leave p c v t)"

section \<open>The merged list\<close>

lemma same_option_in_iff: "same_option_in a ls = None \<longleftrightarrow> (\<forall>l \<in> set ls. \<not> same_dialogue_option a l)"
  by (auto simp: same_option_in_def find_None_iff)

lemma same_dialogue_option_refl [simp]: "same_dialogue_option a a"
  by (simp add: same_dialogue_option_def)

lemma same_dialogue_option_players [simp]:
  "same_dialogue_option (a\<lparr>do_Players := x\<rparr>) l = same_dialogue_option a l"
  "same_dialogue_option a (l\<lparr>do_Players := x\<rparr>) = same_dialogue_option a l"
  by (simp_all add: same_dialogue_option_def)

lemma who_has_players [simp]: "who_has ms (a\<lparr>do_Players := x\<rparr>) = who_has ms a"
proof -
  have "same_option_in (a\<lparr>do_Players := x\<rparr>) own = same_option_in a own" for own
    unfolding same_option_in_def by (rule arg_cong [of _ _ "\<lambda>P. find P own"]) (simp add: fun_eq_iff)
  then show ?thesis by (simp add: who_has_def)
qed

text \<open>No option twice, each tagged with who has it, and one that nobody has left out.\<close>

definition list_tagged :: "party_list list \<Rightarrow> dialogue_options \<Rightarrow> bool" where
  "list_tagged ms merged \<longleftrightarrow> sorted_wrt (\<lambda>l a. \<not> same_dialogue_option a l) merged \<and>
     (\<forall>l \<in> set merged. who_has ms l \<noteq> [] \<and> do_Players l = (if length (who_has ms l) = length ms then [] else who_has ms l))"

definition has_option :: "dialogue_options \<Rightarrow> dialogue_option \<Rightarrow> bool" where
  "has_option merged a \<longleftrightarrow> (\<exists>l \<in> set merged. same_dialogue_option a l)"

lemma merge_add_facts:
  "list_tagged ms merged \<Longrightarrow> list_tagged ms (merge_add ms a merged)"
  "has_option merged b \<Longrightarrow> has_option (merge_add ms a merged) b"
  "who_has ms a \<noteq> [] \<Longrightarrow> has_option (merge_add ms a merged) a"
  by (auto simp: list_tagged_def merge_add_def has_option_def same_option_in_iff sorted_wrt_append Let_def)

lemma merge_fold_facts:
  "list_tagged ms merged \<Longrightarrow> list_tagged ms (fold (merge_add ms) as merged)"
  "has_option merged b \<Longrightarrow> has_option (fold (merge_add ms) as merged) b"
  by (induction as arbitrary: merged) (simp_all add: merge_add_facts)

lemma merge_fold_covers: "a \<in> set as \<Longrightarrow> who_has ms a \<noteq> [] \<Longrightarrow> has_option (fold (merge_add ms) as merged) a"
  by (induction as arbitrary: merged) (auto intro: merge_fold_facts(2) merge_add_facts(3))

lemma merge_topics_tagged: "list_tagged ms merged \<Longrightarrow> list_tagged ms (fold (merge_topic ms) base merged)"
  by (induction base arbitrary: merged) (simp_all add: merge_topic_def merge_fold_facts merge_add_facts)

lemma merged_tagged: "list_tagged ms (merge_dialogue_lists base ms)"
  unfolding merge_dialogue_lists_def by (intro merge_fold_facts merge_topics_tagged) (simp add: list_tagged_def)

lemma who_has_in: "i \<in> set (who_has ms a) \<longleftrightarrow> (\<exists>own. (i, own) \<in> set ms \<and> same_option_in a own \<noteq> None)"
  by (force simp: who_has_def)

lemma merged_covers: "(i, own) \<in> set ms \<Longrightarrow> a \<in> set own \<Longrightarrow> has_option (merge_dialogue_lists base ms) a"
proof -
  assume own: "(i, own) \<in> set ms" "a \<in> set own"
  then have "same_option_in a own \<noteq> None"
    using same_dialogue_option_refl unfolding same_option_in_iff by blast
  then have "i \<in> set (who_has ms a)" using own(1) unfolding who_has_in by blast
  moreover have "a \<in> set (concat (map snd ms))"
    using own by force
  ultimately show ?thesis
    unfolding merge_dialogue_lists_def by (intro merge_fold_covers) auto
qed

lemma merged_can_say:
  assumes "distinct (map fst ms)" "(i, own) \<in> set ms" "l \<in> set (merge_dialogue_lists base ms)"
  shows "can_say (do_Players l) i \<longleftrightarrow> same_option_in l own \<noteq> None"
proof -
  have l: "who_has ms l \<noteq> []" "do_Players l = (if length (who_has ms l) = length ms then [] else who_has ms l)"
    using merged_tagged [of ms base] assms(3) by (auto simp: list_tagged_def)
  have own: "i \<in> set (who_has ms l) \<longleftrightarrow> same_option_in l own \<noteq> None"
    using assms(1,2) unfolding who_has_in by (metis eq_key_imp_eq_value)
  show ?thesis
  proof (cases "length (who_has ms l) = length ms")
    case True
    have "same_option_in l own \<noteq> None"
      using assms(2) True length_filter_less [of "(i, own)" ms "\<lambda>(_, own). same_option_in l own \<noteq> None"]
      by (auto simp: who_has_def)
    then show ?thesis using l True by (simp add: can_say_def)
  next
    case False
    then show ?thesis using l own by (simp add: can_say_def)
  qed
qed

section \<open>The conversation in the session\<close>

datatype talk_request =
    Ask_Start talk_start_request
  | Ask_Opened talk_opened
  | Ask_Options talk_options
  | Ask_Pick talk_pick
  | Ask_Close talk_close
  | Ask_Join talk_join
  | Ask_Failed talk_start_failed
  | Ask_Highlight dialogue_highlight
  | Ask_Skip dialogue_skip

fun talk_handle :: "host_players \<Rightarrow> characters \<Rightarrow> talk_request \<Rightarrow> conn \<Rightarrow> talks \<Rightarrow> talks \<times> talk_message outbox" where
  "talk_handle p cs (Ask_Start q) c t = on_talk_start p cs q c t"
| "talk_handle p cs (Ask_Opened q) c t = on_talk_opened p q c t"
| "talk_handle p cs (Ask_Options q) c t = on_talk_options p q c t"
| "talk_handle p cs (Ask_Pick q) c t = on_talk_pick p q c t"
| "talk_handle p cs (Ask_Close q) c t = on_talk_close p q c t"
| "talk_handle p cs (Ask_Join q) c t = on_talk_join p q c t"
| "talk_handle p cs (Ask_Failed q) c t = on_talk_start_failed p q c t"
| "talk_handle p cs (Ask_Highlight q) c t = (t, on_talk_highlight p q c t)"
| "talk_handle p cs (Ask_Skip q) c t = (t, on_talk_skip p q c t)"

datatype talk_event = Session player_event | Asks conn characters talk_request

text \<open>The session's list changes, or a player's message comes (any other game's is dropped).\<close>

fun talk_step :: "talk_event \<Rightarrow> host_players \<times> talks \<Rightarrow> (host_players \<times> talks) \<times> talk_message outbox" where
  "talk_step (Session (Joins c name level is_host key)) (p, t) =
     ((if is_player c p then p else player_step (Joins c name level is_host key) p, t), [])"
| "talk_step (Session (Leaves c)) (p, t) =
     (if \<not> is_player c p then ((p, t), [])
      else let p = player_step (Leaves c) p; (t, out) = talk_player_left p c t in ((p, t), out))"
| "talk_step (Session (Renamed c name)) (p, t) = ((player_step (Renamed c name) p, t), [])"
| "talk_step (Session (Levels c level)) (p, t) = ((player_step (Levels c level) p, t), [])"
| "talk_step (Asks c cs q) (p, t) =
     (if \<not> is_player c p then ((p, t), []) else let (t, out) = talk_handle p cs q c t in ((p, t), out))"

text \<open>Who is in it is in the session, once; the party's list is that of its players now.\<close>

definition conversation_ok :: "host_players \<Rightarrow> conversation \<Rightarrow> bool" where
  "conversation_ok p v \<longleftrightarrow> distinct (tk_Players v) \<and> set (tk_Players v) \<subseteq> set (connections p) \<and>
     (\<forall>host. tk_Options v = Some host \<longrightarrow> tk_Merged v = merge_dialogue_lists host (talk_members p v))"

definition talk_ok :: "host_players \<times> talks \<Rightarrow> bool" where
  "talk_ok pt \<longleftrightarrow> distinct (connections (fst pt)) \<and> (\<forall>c npc. tks_asked (snd pt) = Some (c, npc) \<longrightarrow> c \<in> set (connections (fst pt))) \<and>
     (\<forall>v. tks_conversation (snd pt) = Some v \<longrightarrow> conversation_ok (fst pt) v)"

lemma talk_members_some:
  "tk_Options v = Some host \<Longrightarrow> talk_members p v =
     map (\<lambda>c. (player_id_of c p, case map_of (tk_PlayerOptions v) (player_id_of c p) of Some own \<Rightarrow> own | None \<Rightarrow> host)) (tk_Players v)"
  by (simp add: talk_members_def options_for_def map_filter_def o_def)

lemma conversation_ok_merge:
  assumes "distinct (tk_Players v)" "set (tk_Players v) \<subseteq> set (connections p)"
  shows "conversation_ok p (fst (talk_merge p v))"
proof (cases "tk_Options v")
  case (Some host)
  then show ?thesis
    using assms by (simp add: conversation_ok_def talk_merge_def Let_def talk_members_some)
qed (use assms in \<open>simp add: conversation_ok_def talk_merge_def\<close>)

lemma conversation_ok_players:
  assumes "conversation_ok p v" "set (tk_Players v) \<subseteq> set (connections p')" "\<And>c. c \<in> set (tk_Players v) \<Longrightarrow> player_id_of c p' = player_id_of c p"
  shows "conversation_ok p' v"
proof -
  have "talk_members p' v = talk_members p v" if "tk_Options v = Some host" for host
    using assms(3) that by (simp add: talk_members_some)
  then show ?thesis
    using assms by (auto simp: conversation_ok_def)
qed

lemma talk_leave_ok:
  assumes "talk_ok (p, t)" "tks_conversation t = Some v"
  shows "talk_ok (p, fst (talk_leave p c v t))"
proof -
  have v: "conversation_ok p v" and t: "distinct (connections p)" "\<forall>c npc. tks_asked t = Some (c, npc) \<longrightarrow> c \<in> set (connections p)"
    using assms by (simp_all add: talk_ok_def)
  define w where "w = v\<lparr>tk_Players := filter (\<lambda>d. d \<noteq> c) (tk_Players v)\<rparr>"
  have "distinct (tk_Players w)" "set (tk_Players w) \<subseteq> set (connections p)"
    using v by (auto simp: conversation_ok_def w_def)
  then have "conversation_ok p (fst (talk_merge p w))"
    by (rule conversation_ok_merge)
  then show ?thesis
    using assms t by (auto simp: talk_leave_def talk_end_def w_def [symmetric] talk_ok_def Let_def split: prod.split)
qed

lemma opened_ok: "distinct (connections p) \<Longrightarrow> \<forall>c npc. tks_asked t = Some (c, npc) \<longrightarrow> c \<in> set (connections p) \<Longrightarrow>
    distinct (opened_players p q sender t) \<and> set (opened_players p q sender t) \<subseteq> set (connections p)"
  by (auto simp: opened_players_def split: option.split)

lemma talk_handle_ok:
  assumes "talk_ok (p, t)" "is_player c p"
  shows "talk_ok (p, fst (talk_handle p cs q c t))"
proof -
  have t: "distinct (connections p)" "\<forall>c npc. tks_asked t = Some (c, npc) \<longrightarrow> c \<in> set (connections p)"
    and v: "\<And>v. tks_conversation t = Some v \<Longrightarrow> conversation_ok p v"
    using assms(1) by (simp_all add: talk_ok_def)
  have c: "c \<in> set (connections p)"
    using assms(2) by (simp add: is_player_def players_find_def connections_def map_of_eq_None_iff)
  have merged: "talk_ok (p, t\<lparr>tks_conversation := Some (fst (talk_merge p w))\<rparr>)"
    if "distinct (tk_Players w)" "set (tk_Players w) \<subseteq> set (connections p)" for w
    using conversation_ok_merge [OF that] t by (simp add: talk_ok_def)
  show ?thesis
  proof (cases q)
    case (Ask_Opened q)
    then show ?thesis
      using assms(1) opened_ok [OF t] opened_ok [OF t(1), of "t\<lparr>tks_conversation := None\<rparr>"] t
      by (auto simp: on_talk_opened_def talk_end_def talk_ok_def conversation_ok_def Let_def split: option.split)
  next
    case (Ask_Options q)
    then show ?thesis
      using assms(1) merged v
      by (auto simp: on_talk_options_def talk_at_step_def talk_current_def Let_def case_prod_unfold conversation_ok_def
          split: option.splits if_splits)
  next
    case (Ask_Pick q)
    then show ?thesis
      using assms(1) t v
      by (auto simp: on_talk_pick_def talk_at_step_def talk_current_def Let_def talk_ok_def conversation_ok_def split: option.splits if_splits)
  next
    case (Ask_Close q)
    then show ?thesis
      using assms(1) t v talk_leave_ok [OF assms(1)] by (auto simp: on_talk_close_def talk_end_def talk_ok_def split: option.split)
  next
    case (Ask_Join q)
    then show ?thesis
      using assms(1) merged v c
      by (auto simp: on_talk_join_def talk_current_def Let_def case_prod_unfold conversation_ok_def split: option.splits if_splits)
  qed (use assms(1) c in \<open>auto simp: on_talk_start_def on_talk_start_failed_def talk_ok_def Let_def split: option.split\<close>)
qed

lemma talk_left_ok:
  assumes "talk_ok (p, t)"
  shows "talk_ok (players_remove c p, fst (talk_player_left (players_remove c p) c t))"
proof -
  define p' where "p' = players_remove c p"
  define t' where "t' = (if map_option fst (tks_asked t) = Some c then t\<lparr>tks_asked := None\<rparr> else t)"
  have t': "distinct (connections p')" "\<forall>d npc. tks_asked t' = Some (d, npc) \<longrightarrow> d \<in> set (connections p')"
      "tks_conversation t' = tks_conversation t"
    using assms by (auto simp: talk_ok_def p'_def t'_def connections_removed)
  have "talk_ok (p', fst (talk_leave p' c v t'))" if v: "tks_conversation t = Some v" for v
  proof (cases "c \<in> set (tk_Players v)")
    case True
    define w where "w = v\<lparr>tk_Players := filter (\<lambda>d. d \<noteq> c) (tk_Players v)\<rparr>"
    have "distinct (tk_Players w)" "set (tk_Players w) \<subseteq> set (connections p')"
      using assms v by (auto simp: talk_ok_def conversation_ok_def w_def p'_def connections_removed)
    then have "conversation_ok p' (fst (talk_merge p' w))"
      by (rule conversation_ok_merge)
    then show ?thesis
      using t' True by (simp add: talk_leave_def talk_end_def w_def [symmetric] talk_ok_def Let_def case_prod_unfold)
  next
    case False
    have ok: "conversation_ok p v"
      using assms v by (simp add: talk_ok_def)
    then have "conversation_ok p' v"
      using False by (intro conversation_ok_players [OF ok])
        (auto simp: conversation_ok_def p'_def connections_removed intro!: player_id_kept(1))
    then show ?thesis
      using t' v False by (simp add: talk_leave_def talk_ok_def)
  qed
  moreover have "talk_player_left p' c t = (case tks_conversation t' of None \<Rightarrow> (t', []) | Some v \<Rightarrow> talk_leave p' c v t')"
    unfolding talk_player_left_def Let_def t'_def ..
  ultimately show ?thesis
    using t' unfolding p'_def [symmetric] by (cases "tks_conversation t") (simp_all add: talk_ok_def)
qed

lemma talk_step_ok: "talk_ok pt \<Longrightarrow> talk_ok (fst (talk_step e pt))"
proof -
  assume ok: "talk_ok pt"
  obtain p t where pt: "pt = (p, t)" by (cases pt)
  have t: "distinct (connections p)" "\<forall>c npc. tks_asked t = Some (c, npc) \<longrightarrow> c \<in> set (connections p)"
    and v: "\<And>v. tks_conversation t = Some v \<Longrightarrow> conversation_ok p v"
    using ok by (simp_all add: talk_ok_def pt)
  have in_p: "set (tk_Players v) \<subseteq> set (connections p)" if "tks_conversation t = Some v" for v
    using v [OF that] by (simp add: conversation_ok_def)
  have renamed: "talk_ok (change_player c f p, t)" if "\<And>x. pl_Id (f x) = pl_Id x" for c f
    using t in_p conversation_ok_players [OF v] player_id_kept(3) [OF that]
    by (simp add: talk_ok_def connections_renamed)
  show ?thesis
  proof (cases e)
    case (Session x)
    show ?thesis
    proof (cases x)
      case (Joins c name level is_host key)
      have "conversation_ok (snd (players_add c name level is_host key p)) v"
        if "c \<notin> set (connections p)" "tks_conversation t = Some v" for v
        using in_p [OF that(2)] that(1)
        by (intro conversation_ok_players [OF v [OF that(2)]]) (auto simp: connections_added intro!: player_id_kept(2))
      then show ?thesis
        using ok t by (auto simp: pt Session Joins talk_ok_def is_player_in connections_added)
    next
      case (Leaves c)
      then show ?thesis
        using ok talk_left_ok [of p t c] by (simp add: pt Session case_prod_unfold Let_def)
    next
      case (Renamed c name)
      then show ?thesis using renamed by (simp add: pt Session players_set_name_def)
    next
      case (Levels c level)
      then show ?thesis using renamed by (simp add: pt Session players_set_level_def)
    qed
  next
    case (Asks c cs q)
    then show ?thesis
      using ok talk_handle_ok [of p t c cs q] by (simp add: pt case_prod_unfold Let_def)
  qed
qed

lemma talk_run_ok: "talk_ok pt \<Longrightarrow> talk_ok (fst (run talk_step es pt))"
  by (induction es arbitrary: pt) (simp_all add: run_Cons talk_step_ok)

definition new_session :: "host_players \<times> talks" where "new_session = (no_players, new_talks)"

lemma new_session_ok: "talk_ok new_session"
  by (simp add: talk_ok_def new_session_def new_talks_def no_players_def connections_def)

text \<open>How many joined: each gets an id of its own as long as they are fewer than \<open>2\<^sup>3\<^sup>2\<close>.\<close>

definition talk_joins :: "talk_event list \<Rightarrow> nat" where
  "talk_joins es = length (filter (\<lambda>e. case e of Session (Joins _ _ _ _ _) \<Rightarrow> True | _ \<Rightarrow> False) es)"

lemma talk_players_ok:
  "n + talk_joins es < 2 ^ 32 \<Longrightarrow> players_ok n (fst pt) \<Longrightarrow> \<exists>m. players_ok m (fst (fst (run talk_step es pt)))"
proof (induction es arbitrary: n pt)
  case (Cons e es)
  obtain p t where pt: "pt = (p, t)" by (cases pt)
  have "\<exists>k. k + talk_joins es \<le> n + talk_joins (e # es) \<and> players_ok k (fst (fst (talk_step e pt)))"
  proof (cases e)
    case (Session x)
    show ?thesis
    proof (cases x)
      case (Joins c name level is_host key)
      then show ?thesis
        using Cons.prems players_ok_add(1) [of n p c name level is_host key]
        by (intro exI [of _ "if is_player c p then n else Suc n"]) (simp add: pt Session talk_joins_def)
    qed (use Cons.prems in \<open>auto simp: pt Session talk_joins_def case_prod_unfold Let_def players_ok_remove players_ok_change
        players_set_name_def players_set_level_def intro!: exI [of _ n]\<close>)
  next
    case (Asks c cs q)
    then show ?thesis
      using Cons.prems by (intro exI [of _ n]) (simp add: pt talk_joins_def case_prod_unfold Let_def)
  qed
  then obtain k where "k + talk_joins es < 2 ^ 32" "players_ok k (fst (fst (talk_step e pt)))"
    using Cons.prems(1) by (metis order_le_less_trans)
  from Cons.IH [OF this] show ?case by (simp add: run_Cons)
qed auto

lemma ids_distinct:
  assumes "players_ok n p" "distinct cs" "set cs \<subseteq> set (connections p)"
  shows "distinct (map (\<lambda>c. player_id_of c p) cs)"
proof -
  have "inj_on (\<lambda>c. player_id_of c p) (set cs)"
  proof (rule inj_onI)
    fix c d assume cd: "c \<in> set cs" "d \<in> set cs" "player_id_of c p = player_id_of d p"
    then obtain x y where "map_of (hp_players p) c = Some x" "map_of (hp_players p) d = Some y"
      using assms(3) by (metis (no_types, lifting) is_player_def is_player_in not_None_eq players_find_def subsetD)
    with cd(3) show "c = d"
      using assms(1) by (auto simp: players_ok_def player_id_of_def players_find_def simp del: map_of_eq_Some_iff)
  qed
  with assms(2) show ?thesis by (simp add: distinct_map)
qed

text \<open>
  C5: however the party's conversation went, a player in it that picks an option of the party's list
  says it exactly when the option's tag lets it: then every game is told the pick, with the picker's own line, and the step
  is over; else nothing changes and only the picker is told, the list again and why.
\<close>

theorem tags_decide_who_speaks:
  assumes "talk_joins es < 2 ^ 32" "fst (run talk_step es new_session) = (p, t)"
    "talk_at_step (dpr_Conversation q) (dpr_Step q) t = Some v" "c \<in> set (tk_Players v)"
    "picked_option q (Some v) = Some l"
  shows "if can_say (do_Players l) (player_id_of c p)
    then \<exists>own line. options_for p v c = Some own \<and> line \<in> set own \<and> same_dialogue_option l line \<and>
      on_talk_pick p q c t =
        (t\<lparr>tks_conversation := Some (v\<lparr>tk_Step := tk_Step v + 1, tk_Options := None, tk_PlayerOptions := [], tk_Merged := []\<rparr>)\<rparr>,
         send_to_all (Talk_Picked \<lparr>ndp_Conversation = tk_Id v, ndp_Step = tk_Step v + 1, ndp_Topic = dpr_Topic q,
           ndp_Info = do_Info line, ndp_PlayerId = player_id_of c p\<rparr>) p @
         send_to_all (Talk_Chat \<lparr>ch_MessageType = 1, ch_PlayerName = chat_text (player_name_of c p),
           ch_ChatMessage = chat_text (do_Text line)\<rparr>) p)
    else on_talk_pick p q c t =
      (t, send_list v c @ [(c, talk_line (chat_text (cannot_say_text (player_name_of c p))))])"
proof -
  have ok: "talk_ok (p, t)"
    using talk_run_ok [OF new_session_ok, of es] assms(2) by simp
  have current: "talk_current (dpr_Conversation q) t = Some v" "tks_conversation t = Some v"
    using assms(3) by (auto simp: talk_at_step_def talk_current_def split: option.splits if_splits)
  then have v: "conversation_ok p v"
    using ok by (simp add: talk_ok_def)
  obtain host where host: "tk_Options v = Some host"
    using assms(5) by (auto simp: picked_option_def split: if_splits)
  have l: "l \<in> set (merge_dialogue_lists host (talk_members p v))"
    using assms(5) v host by (auto simp: picked_option_def dialogue_line_for_def conversation_ok_def find_Some_iff split: if_splits)
  obtain own where own: "options_for p v c = Some own"
    using host by (auto simp: options_for_def)
  have "players_ok 0 (fst new_session)"
    by (simp add: new_session_def players_ok_none)
  then obtain n where "players_ok n p"
    using talk_players_ok [of 0 es new_session] assms(1,2) by auto
  then have "distinct (map fst (talk_members p v))"
    using ids_distinct [of n p "tk_Players v"] v host by (simp add: talk_members_some conversation_ok_def o_def)
  moreover have "(player_id_of c p, own) \<in> set (talk_members p v)"
    using assms(4) own host by (auto simp: talk_members_some options_for_def)
  ultimately have can: "can_say (do_Players l) (player_id_of c p) \<longleftrightarrow> same_option_in l own \<noteq> None"
    using l by (rule merged_can_say)
  have line: "picked_line p q c (Some v) = same_option_in l own"
    using assms(4,5) own by (simp add: picked_line_def)
  show ?thesis
  proof (cases "same_option_in l own")
    case None
    then show ?thesis
      using can line current assms(3,4,5) by (simp add: on_talk_pick_def Let_def)
  next
    case (Some x)
    then have "x \<in> set own" "same_dialogue_option l x"
      by (auto simp: same_option_in_def find_Some_iff)
    then show ?thesis
      using Some can line assms(3) own by (auto simp: on_talk_pick_def Let_def)
  qed
qed

text \<open>The host (1) is greeted, its game's list has one option, and the guest (2) in the conversation picks it.\<close>

definition example_option :: dialogue_option where
  "example_option = \<lparr>do_Topic = \<lparr>gid_BaseId = 5, gid_ModId = 0\<rparr>, do_Info = \<lparr>gid_BaseId = 6, gid_ModId = 0\<rparr>, do_Quest = no_id,
     do_Text = ''Farewell'', do_Players = []\<rparr>"

definition example_talk :: "characters \<Rightarrow> talk_event list" where
  "example_talk cs = [Session (Joins 1 ''Host'' 1 True []), Session (Joins 2 ''Guest'' 1 False []),
     Asks 1 cs (Ask_Opened \<lparr>dop_NpcId = 7, dop_Everyone = True, dop_Greeting = no_id\<rparr>),
     Asks 1 cs (Ask_Options \<lparr>dor_Conversation = 1, dor_Step = 1, dor_Choices = False, dor_Options = [example_option], dor_Players = []\<rparr>)]"

definition example_talkers :: host_players where
  "example_talkers = \<lparr>hp_players = [(1, \<lparr>pl_Id = 1, pl_Name = ''Host'', pl_Level = 1, pl_IsHost = True, pl_Key = []\<rparr>),
     (2, \<lparr>pl_Id = 2, pl_Name = ''Guest'', pl_Level = 1, pl_IsHost = False, pl_Key = []\<rparr>)], hp_lastId = 2\<rparr>"

definition example_conversation :: conversation where
  "example_conversation = \<lparr>tk_Id = 1, tk_NpcId = 7, tk_Step = 1, tk_Players = [2], tk_Options = Some [example_option],
     tk_PlayerOptions = [], tk_Merged = [example_option], tk_Choices = False\<rparr>"

lemma example_merged: "merge_dialogue_lists [example_option] [(2, [example_option])] = [example_option]"
  by (simp add: merge_dialogue_lists_def merge_topic_def merge_add_def who_has_def same_option_in_def same_dialogue_option_def example_option_def)

lemma example_talk_run: "fst (run talk_step (example_talk cs) new_session) =
    (example_talkers, \<lparr>tks_conversation = Some example_conversation, tks_lastId = 1, tks_asked = None\<rparr>)"
  by (simp add: example_talk_def new_session_def new_talks_def no_players_def run_Cons players_add_def is_player_def players_find_def
      on_talk_opened_def players_host_def opened_players_def connections_def on_talk_options_def talk_at_step_def talk_current_def
      talk_merge_def talk_members_def options_for_def map_filter_def player_id_of_def example_merged example_talkers_def
      example_conversation_def Let_def)

theorem tags_decide_who_speaks_witness:
  "\<exists>t' out. on_talk_pick example_talkers \<lparr>dpr_Conversation = 1, dpr_Step = 1, dpr_Topic = do_Topic example_option,
       dpr_Info = do_Info example_option, dpr_Text = []\<rparr> 2
       \<lparr>tks_conversation = Some example_conversation, tks_lastId = 1, tks_asked = None\<rparr> = (t', out) \<and>
     map_option tk_Step (tks_conversation t') = Some 2"
proof -
  define q where "q = \<lparr>dpr_Conversation = 1, dpr_Step = 1, dpr_Topic = do_Topic example_option, dpr_Info = do_Info example_option, dpr_Text = []\<rparr>"
  have "picked_option q (Some example_conversation) = Some example_option" "can_say (do_Players example_option) (player_id_of 2 example_talkers)"
    by (simp_all add: picked_option_def example_conversation_def dialogue_line_for_def q_def can_say_def example_option_def)
  moreover have "talk_at_step (dpr_Conversation q) (dpr_Step q) \<lparr>tks_conversation = Some example_conversation, tks_lastId = 1, tks_asked = None\<rparr> =
      Some example_conversation" "2 \<in> set (tk_Players example_conversation)" "tk_Step example_conversation = 1"
    by (simp_all add: talk_at_step_def talk_current_def example_conversation_def q_def)
  moreover have "talk_joins (example_talk undefined) < 2 ^ 32"
    by (simp add: talk_joins_def example_talk_def)
  ultimately show ?thesis
    using tags_decide_who_speaks [OF _ example_talk_run, of undefined q example_conversation 2 example_option]
    unfolding q_def [symmetric] by auto
qed

end
