(* ===== verification/Host_Crime.thy ===== *)
theory Host_Crime
  imports Talk_Messages Party_Goods Characters Simulation
begin

text \<open>
  Guests' crimes, judged by the host's game (\<open>Services/Host/HostCrime\<close>): a guest sends what it did, the host's game
  judges it for the guest's character, and everyone is told the bounties.
\<close>

section \<open>The handlers\<close>

text \<open>The host's game, of states \<open>'w\<close>; each call may be missing.\<close>

record 'w crime_game =
  cy_JudgeCrime :: "(u32 \<Rightarrow> crime_request \<Rightarrow> 'w \<Rightarrow> bool \<times> 'w) option"
  cy_ReadCrimeGold :: "('w \<Rightarrow> crime_gold list) option"
  cy_TakeCrimeConfiscations :: "('w \<Rightarrow> (u32 \<times> game_id) list \<times> 'w) option"

record crimes =
  hm_sequences :: "(conn \<times> u32) list"
  hm_caughtLocks :: "(conn \<times> u32) list"
  hm_gold :: "crime_gold list"
  hm_confiscationId :: u32

definition no_crimes :: crimes where
  "no_crimes = \<lparr>hm_sequences = [], hm_caughtLocks = [], hm_gold = [], hm_confiscationId = 0\<rparr>"

datatype crime_message = Lock_Crime lock_crime | Crime_Confiscation crime_confiscation | Crime_State "crime_gold list"

text \<open>What a handler does besides: the judgements it asks of the host's game with their answer, and what it sends.\<close>

datatype crime_out = Judged conn u32 crime_request bool | Crime_Sent conn crime_message

text \<open>\<open>map[k]\<close>: the value at \<open>k\<close>, 0 put there when it has none.\<close>

definition at_key :: "'k \<Rightarrow> ('k \<times> u32) list \<Rightarrow> u32 \<times> ('k \<times> u32) list" where
  "at_key k m = (case map_of m k of Some v \<Rightarrow> (v, m) | None \<Rightarrow> (0, assign k 0 m))"

definition crimes_sent :: "crime_message outbox \<Rightarrow> crime_out list" where
  "crimes_sent = map (\<lambda>(c, m). Crime_Sent c m)"

definition confiscate :: "host_players \<Rightarrow> characters \<Rightarrow> u32 \<times> game_id \<Rightarrow> crimes \<times> crime_out list \<Rightarrow> crimes \<times> crime_out list" where
  "confiscate p cs due so =
     (let (s, out) = so; owner = owner_of (fst due) cs
      in if owner = 0 \<or> owner = players_host p then (s, out)
         else let i = hm_confiscationId s + 1
              in (s\<lparr>hm_confiscationId := i\<rparr>, out @ [Crime_Sent owner (Crime_Confiscation \<lparr>ncc_Id = i, ncc_Faction = snd due\<rparr>)]))"

definition crime_update :: "'w crime_game \<Rightarrow> host_players \<Rightarrow> characters \<Rightarrow> crimes \<times> 'w \<Rightarrow> (crimes \<times> 'w) \<times> crime_out list" where
  "crime_update g p cs sw =
     (let (s, w) = sw;
          (dues, w) = (case cy_TakeCrimeConfiscations g of None \<Rightarrow> ([], w) | Some taken \<Rightarrow> taken w);
          (s, out) = fold (confiscate p cs) dues (s, [])
      in case cy_ReadCrimeGold g of
           None \<Rightarrow> ((s, w), out)
         | Some read \<Rightarrow>
             if read w = hm_gold s then ((s, w), out)
             else ((s\<lparr>hm_gold := read w\<rparr>, w), out @ crimes_sent (send_to_others (Crime_State (read w)) (players_host p) p)))"

definition judged_lock :: "crime_request \<Rightarrow> bool" where
  "judged_lock q \<longleftrightarrow> cq_Action q = caLockpick"

definition on_crime_request ::
    "'w crime_game \<Rightarrow> host_players \<Rightarrow> characters \<Rightarrow> crime_request \<Rightarrow> conn \<Rightarrow> crimes \<times> 'w \<Rightarrow> (crimes \<times> 'w) \<times> crime_out list" where
  "on_crime_request g p cs q sender sw =
     (let (s, w) = sw
      in if \<not> is_player sender p \<or> sender = players_host p then (sw, [])
         else case cy_JudgeCrime g of
             None \<Rightarrow> (sw, [])
           | Some judge \<Rightarrow>
               if \<not> crime_is_valid q then (sw, [])
               else let (last, sequences) = at_key sender (hm_sequences s); s = s\<lparr>hm_sequences := sequences\<rparr>
                    in if cq_Sequence q \<le> last then ((s, w), [])
                       else let actor = player_character_of sender cs
                            in if actor = 0 then ((s, w), [])
                               else let s = s\<lparr>hm_sequences := assign sender (cq_Sequence q) (hm_sequences s)\<rparr>;
                                        (known, locks) = (if judged_lock q
                                          then (case at_key sender (hm_caughtLocks s) of (n, locks) \<Rightarrow> (n = cq_Count q, locks))
                                          else (False, hm_caughtLocks s));
                                        s = s\<lparr>hm_caughtLocks := locks\<rparr>;
                                        (caught, w, out) = (if known then (True, w, [])
                                          else (case judge actor q w of (caught, w) \<Rightarrow> (caught, w, [Judged sender actor q caught])));
                                        (s, out) = (if judged_lock q \<and> caught
                                          then (s\<lparr>hm_caughtLocks := assign sender (cq_Count q) (hm_caughtLocks s)\<rparr>,
                                                out @ [Crime_Sent sender (Lock_Crime \<lparr>nlc_Attempt = cq_Count q\<rparr>)])
                                          else (s, out));
                                        (sw, outs) = crime_update g p cs (s, w)
                                    in (sw, out @ outs))"

definition crime_entered :: "'w crime_game \<Rightarrow> host_players \<Rightarrow> conn \<Rightarrow> 'w \<Rightarrow> crime_out list" where
  "crime_entered g p c w =
     (case cy_ReadCrimeGold g of None \<Rightarrow> []
      | Some read \<Rightarrow> if c = players_host p then [] else [Crime_Sent c (Crime_State (read w))])"

definition crime_left :: "conn \<Rightarrow> crimes \<Rightarrow> crimes" where
  "crime_left c s = s\<lparr>hm_sequences := map_erase c (hm_sequences s), hm_caughtLocks := map_erase c (hm_caughtLocks s)\<rparr>"

section \<open>Judged once\<close>

datatype crime_event = Crime_Asked host_players characters crime_request conn | Crime_Frame host_players characters
  | Crime_Entered host_players conn | Crime_Left conn

fun crime_step :: "'w crime_game \<Rightarrow> crime_event \<Rightarrow> crimes \<times> 'w \<Rightarrow> (crimes \<times> 'w) \<times> crime_out list" where
  "crime_step g (Crime_Asked p cs q c) sw = on_crime_request g p cs q c sw"
| "crime_step g (Crime_Frame p cs) sw = crime_update g p cs sw"
| "crime_step g (Crime_Entered p c) (s, w) = ((s, w), crime_entered g p c w)"
| "crime_step g (Crime_Left c) (s, w) = ((crime_left c s, w), [])"

text \<open>The crimes of a player that were judged, and those of its lockpicking attempts that were caught.\<close>

definition judged_of :: "conn \<Rightarrow> crime_out list \<Rightarrow> (u32 \<times> crime_request \<times> bool) list" where
  "judged_of c = List.map_filter (\<lambda>x. case x of Judged d actor q caught \<Rightarrow> if d = c then Some (actor, q, caught) else None | _ \<Rightarrow> None)"

definition caught_attempts :: "(u32 \<times> crime_request \<times> bool) list \<Rightarrow> u32 list" where
  "caught_attempts js = map (\<lambda>(_, q, _). cq_Count q) (filter (\<lambda>(_, q, caught). judged_lock q \<and> caught) js)"

lemma judged_simps [simp]:
  "judged_of c [] = []" "judged_of c (xs @ ys) = judged_of c xs @ judged_of c ys" "judged_of c (crimes_sent out) = []"
  "judged_of c (Crime_Sent d m # xs) = judged_of c xs"
  "judged_of c (Judged d actor q caught # xs) = (if d = c then (actor, q, caught) # judged_of c xs else judged_of c xs)"
  by (auto simp: judged_of_def crimes_sent_def map_filter_def filter_empty_conv)

lemma fold_confiscate:
  "hm_sequences (fst (fold (confiscate p cs) dues (s, out))) = hm_sequences s \<and>
   hm_caughtLocks (fst (fold (confiscate p cs) dues (s, out))) = hm_caughtLocks s \<and>
   judged_of c (snd (fold (confiscate p cs) dues (s, out))) = judged_of c out"
  by (induction dues arbitrary: s out) (auto simp: confiscate_def Let_def)

lemma crime_update_judges:
  "hm_sequences (fst (fst (crime_update g p cs sw))) = hm_sequences (fst sw)"
  "hm_caughtLocks (fst (fst (crime_update g p cs sw))) = hm_caughtLocks (fst sw)"
  "judged_of c (snd (crime_update g p cs sw)) = []"
  using fold_confiscate [where out = "[]"]
  by (simp_all add: crime_update_def Let_def case_prod_unfold split: option.split)

text \<open>One request: nothing of the others changes; what is judged is newer than what was.\<close>

definition last_of :: "conn \<Rightarrow> (conn \<times> u32) list \<Rightarrow> u32" where
  "last_of c m = (case map_of m c of Some v \<Rightarrow> v | None \<Rightarrow> 0)"

lemma at_key_facts: "fst (at_key d m) = last_of d m" "last_of c (snd (at_key d m)) = last_of c m"
  by (auto simp: at_key_def last_of_def split: option.split)

lemma last_of_assign [simp]: "last_of c (assign d v m) = (if c = d then v else last_of c m)"
  by (simp add: last_of_def)

lemma last_of_erase: "d \<noteq> c \<Longrightarrow> last_of c (map_erase d m) = last_of c m"
  by (simp add: last_of_def map_of_erase)

definition may_judge :: "host_players \<Rightarrow> characters \<Rightarrow> crime_request \<Rightarrow> conn \<Rightarrow> crimes \<Rightarrow> bool" where
  "may_judge p cs q c s \<longleftrightarrow> is_player c p \<and> c \<noteq> players_host p \<and> crime_is_valid q \<and> last_of c (hm_sequences s) < cq_Sequence q \<and>
     player_character_of c cs \<noteq> 0"

lemma on_crime_request_others:
  assumes "d \<noteq> c"
  shows "last_of c (hm_sequences (fst (fst (on_crime_request g p cs q d (s, w))))) = last_of c (hm_sequences s)"
    "last_of c (hm_caughtLocks (fst (fst (on_crime_request g p cs q d (s, w))))) = last_of c (hm_caughtLocks s)"
    "judged_of c (snd (on_crime_request g p cs q d (s, w))) = []"
  using assms
  by (auto simp: on_crime_request_def Let_def case_prod_unfold crime_update_judges at_key_facts split: option.split)

lemma on_crime_request_own:
  obtains
    (dropped) "last_of c (hm_sequences (fst (fst (on_crime_request g p cs q c (s, w))))) = last_of c (hm_sequences s)"
      "last_of c (hm_caughtLocks (fst (fst (on_crime_request g p cs q c (s, w))))) = last_of c (hm_caughtLocks s)"
      "judged_of c (snd (on_crime_request g p cs q c (s, w))) = []"
  | (repeated) "may_judge p cs q c s" "last_of c (hm_sequences (fst (fst (on_crime_request g p cs q c (s, w))))) = cq_Sequence q"
      "last_of c (hm_caughtLocks (fst (fst (on_crime_request g p cs q c (s, w))))) = last_of c (hm_caughtLocks s)"
      "judged_of c (snd (on_crime_request g p cs q c (s, w))) = []"
  | (judged) caught where "may_judge p cs q c s"
      "last_of c (hm_sequences (fst (fst (on_crime_request g p cs q c (s, w))))) = cq_Sequence q"
      "judged_of c (snd (on_crime_request g p cs q c (s, w))) = [(player_character_of c cs, q, caught)]"
      "last_of c (hm_caughtLocks (fst (fst (on_crime_request g p cs q c (s, w))))) =
         (if judged_lock q \<and> caught then cq_Count q else last_of c (hm_caughtLocks s))"
      "judged_lock q \<longrightarrow> last_of c (hm_caughtLocks s) \<noteq> cq_Count q"
proof (cases "\<exists>judge. cy_JudgeCrime g = Some judge \<and> may_judge p cs q c s")
  case False
  then show thesis
    by (intro dropped) (auto simp: on_crime_request_def Let_def case_prod_unfold at_key_facts may_judge_def not_less split: option.split)
next
  case True
  then obtain judge where g: "cy_JudgeCrime g = Some judge" and may: "may_judge p cs q c s" by blast
  show thesis
  proof (cases "judged_lock q \<and> last_of c (hm_caughtLocks s) = cq_Count q")
    case True
    then show thesis
      using g may by (intro repeated)
        (auto simp: on_crime_request_def Let_def case_prod_unfold at_key_facts may_judge_def not_less crime_update_judges)
  next
    case False
    then show thesis
      using g may by (intro judged [of "fst (judge (player_character_of c cs) q w)"])
        (auto simp: on_crime_request_def Let_def case_prod_unfold at_key_facts may_judge_def not_less crime_update_judges)
  qed
qed

lemma crime_entered_judges: "judged_of c (crime_entered g p d w) = []"
  by (simp add: crime_entered_def split: option.split)

text \<open>What was judged of a player so far, as the state knows it.\<close>

definition judged_known :: "conn \<Rightarrow> (u32 \<times> crime_request \<times> bool) list \<Rightarrow> crimes \<Rightarrow> bool" where
  "judged_known c js s \<longleftrightarrow> sorted_wrt (<) (map (\<lambda>(_, q, _). cq_Sequence q) js) \<and>
     (\<forall>(_, q, _) \<in> set js. cq_Sequence q \<le> last_of c (hm_sequences s)) \<and>
     successively (\<noteq>) (caught_attempts js) \<and> last_of c (hm_caughtLocks s) = last (0 # caught_attempts js)"

lemma crime_step_known:
  assumes "judged_known c js (fst sw)" "e \<noteq> Crime_Left c"
  shows "judged_known c (js @ judged_of c (snd (crime_step g e sw))) (fst (fst (crime_step g e sw)))"
proof -
  obtain s w where sw: "sw = (s, w)" by (cases sw)
  have same: "judged_known c js s'"
    if "last_of c (hm_sequences s') = last_of c (hm_sequences s)" "last_of c (hm_caughtLocks s') = last_of c (hm_caughtLocks s)" for s'
    using assms(1) that by (simp add: judged_known_def sw)
  show ?thesis
  proof (cases e)
    case (Crime_Asked p cs q d)
    show ?thesis
    proof (cases "d = c")
      case True
      show ?thesis
      proof (cases rule: on_crime_request_own [of c g p cs q s w])
        case dropped
        then show ?thesis using same by (simp add: Crime_Asked True sw)
      next
        case repeated
        then show ?thesis
          using assms(1) by (auto simp: Crime_Asked True sw judged_known_def may_judge_def)
      next
        case (judged caught)
        then show ?thesis
          using assms(1)
          by (auto simp: Crime_Asked True sw judged_known_def may_judge_def sorted_wrt_append caught_attempts_def successively_append_iff
              split: if_splits)
      qed
    next
      case False
      then show ?thesis using same by (simp add: on_crime_request_others Crime_Asked sw)
    qed
  next
    case (Crime_Frame p cs)
    then show ?thesis using same by (simp add: sw crime_update_judges)
  next
    case (Crime_Entered p d)
    then show ?thesis using same by (simp add: sw crime_entered_judges)
  next
    case (Crime_Left d)
    then show ?thesis using same assms(2) by (simp add: sw crime_left_def last_of_erase)
  qed
qed

lemma crime_run_known:
  "judged_known c js (fst sw) \<Longrightarrow> Crime_Left c \<notin> set es \<Longrightarrow>
     judged_known c (js @ judged_of c (snd (run (crime_step g) es sw))) (fst (fst (run (crime_step g) es sw)))"
proof (induction es arbitrary: js sw)
  case (Cons e es)
  from Cons.IH [OF crime_step_known [OF Cons.prems(1)]] Cons.prems(2) show ?case
    by (auto simp: run_Cons)
qed simp

lemma crime_run_asked:
  "(actor, q, caught) \<in> set (judged_of c (snd (run (crime_step g) es sw))) \<Longrightarrow>
     \<exists>p cs. Crime_Asked p cs q c \<in> set es \<and> is_player c p \<and> c \<noteq> players_host p \<and> crime_is_valid q \<and>
       actor = player_character_of c cs \<and> actor \<noteq> 0"
proof (induction es arbitrary: sw)
  case (Cons e es)
  obtain s w where sw: "sw = (s, w)" by (cases sw)
  have "(\<exists>p cs. e = Crime_Asked p cs q c \<and> is_player c p \<and> c \<noteq> players_host p \<and> crime_is_valid q \<and>
      actor = player_character_of c cs \<and> actor \<noteq> 0)" if "(actor, q, caught) \<in> set (judged_of c (snd (crime_step g e sw)))"
  proof (cases e)
    case (Crime_Asked p cs q' d)
    show ?thesis
    proof (cases "d = c")
      case True
      show ?thesis
        by (cases rule: on_crime_request_own [of c g p cs q' s w]) (use that in \<open>auto simp: Crime_Asked True sw may_judge_def\<close>)
    qed (use that in \<open>simp add: on_crime_request_others Crime_Asked sw\<close>)
  qed (use that in \<open>simp_all add: sw crime_update_judges crime_entered_judges\<close>)
  moreover have "(actor, q, caught) \<in> set (judged_of c (snd (crime_step g e sw))) \<or>
      (actor, q, caught) \<in> set (judged_of c (snd (run (crime_step g) es (fst (crime_step g e sw)))))"
    using Cons.prems by (simp add: run_Cons)
  ultimately show ?case
    using Cons.IH by (metis list.set_intros)
qed simp

text \<open>
  C13: while a player is in, whatever comes in whatever order, the host's game judges only valid crimes of
  it, a guest, for its own character, each with a greater number than those before (so none twice), and a lockpicking attempt
  that was caught is not judged again until another one was caught.
\<close>

theorem crimes_judged_once:
  fixes g :: "'w crime_game" and w :: 'w
  assumes "map_of (hm_sequences s) c = None" "map_of (hm_caughtLocks s) c = None" "Crime_Left c \<notin> set es"
  defines "js \<equiv> judged_of c (snd (run (crime_step g) es (s, w)))"
  shows "sorted_wrt (<) (map (\<lambda>(_, q, _). cq_Sequence q) js) \<and> successively (\<noteq>) (caught_attempts js) \<and>
    (\<forall>(actor, q, caught) \<in> set js. \<exists>p cs. Crime_Asked p cs q c \<in> set es \<and> is_player c p \<and> c \<noteq> players_host p \<and>
       crime_is_valid q \<and> actor = player_character_of c cs \<and> actor \<noteq> 0)"
proof -
  have "judged_known c [] s"
    using assms(1,2) by (simp add: judged_known_def caught_attempts_def last_of_def)
  from crime_run_known [of c "[]" "(s, w)" es g] this assms(3) have "judged_known c js (fst (fst (run (crime_step g) es (s, w))))"
    by (simp add: js_def)
  moreover have "\<exists>p cs. Crime_Asked p cs q c \<in> set es \<and> is_player c p \<and> c \<noteq> players_host p \<and>
      crime_is_valid q \<and> actor = player_character_of c cs \<and> actor \<noteq> 0" if "(actor, q, caught) \<in> set js" for actor q caught
    using that unfolding js_def by (rule crime_run_asked)
  ultimately show ?thesis
    unfolding judged_known_def by blast
qed

text \<open>The guest (7) picks a lock and is caught, then the same attempt is asked again: judged once.\<close>

definition example_lockpick :: "u32 \<Rightarrow> crime_request" where
  "example_lockpick n = \<lparr>cq_Sequence = n, cq_Action = caLockpick, cq_Target = no_id, cq_TargetActor = 5, cq_Item = no_id, cq_Count = 4,
     cq_GoToJail = False, cq_RemoveStolenItems = False, cq_AllowWarning = False, cq_Items = []\<rparr>"

definition example_judge :: "nat crime_game" where
  "example_judge = \<lparr>cy_JudgeCrime = Some (\<lambda>_ _ n. (True, Suc n)), cy_ReadCrimeGold = None, cy_TakeCrimeConfiscations = None\<rparr>"

definition example_thief :: characters where
  "example_thief = no_characters\<lparr>hcs_characters := [(3, \<lparr>hc_Owner = 7, hc_PlayerRecord = Some (from_announcement new_announce 1 3)\<rparr>)], hcs_playerCharacters := [(7, 3)]\<rparr>"

definition example_lockpicks :: "crime_event list" where
  "example_lockpicks = map (\<lambda>n. Crime_Asked example_party example_thief (example_lockpick n) 7) [1, 2]"

lemma example_locks_judged:
  "judged_of 7 (snd (run (crime_step example_judge) example_lockpicks (no_crimes, 0))) = [(3, example_lockpick 1, True)]"
  by (simp add: run_Cons example_lockpicks_def on_crime_request_def example_judge_def example_party_def example_thief_def
      is_player_def players_find_def players_host_def crime_is_valid_def example_lockpick_def crime_action_defs judged_lock_def
      no_crimes_def at_key_def player_character_of_def no_characters_def crime_update_def Let_def)

theorem crimes_judged_once_witness:
  "judged_of 7 (snd (run (crime_step example_judge) example_lockpicks (no_crimes, 0))) = [(3, example_lockpick 1, True)] \<and>
   successively (\<noteq>) (caught_attempts [(3, example_lockpick 1, True)]) \<and> crime_is_valid (example_lockpick 1)"
  using crimes_judged_once [of no_crimes 7 example_lockpicks example_judge 0] example_locks_judged
  by (simp add: no_crimes_def) (auto simp: example_lockpicks_def)

end
