(* ===== verification/Whole_Bytes.thy ===== *)
theory Whole_Bytes
  imports Codec
begin

text \<open>
  Writers that keep to whole bytes, as the records of a save are written: what is read back when reading starts at a whole
  byte, and reads that look first whether enough is left.
\<close>

section \<open>Whole bytes\<close>

text \<open>A writer that ends on a whole byte when it starts on one.\<close>

definition whole_bytes :: "(writer, 'b) state \<Rightarrow> bool" where
  "whole_bytes s \<longleftrightarrow> (\<forall>w. writer_ok w \<and> wr_grows w \<and> wr_pos w mod 8 = 0 \<longrightarrow> wr_pos (snd (run_state s w)) mod 8 = 0)"

lemma whole_bytesD:
  "whole_bytes s \<Longrightarrow> writer_ok w \<Longrightarrow> wr_grows w \<Longrightarrow> wr_pos w mod 8 = 0 \<Longrightarrow> wr_pos (snd (run_state s w)) mod 8 = 0"
  by (simp add: whole_bytes_def)

lemma whole_bytes_bind:
  assumes "codes s1 d a" "whole_bytes s1" "whole_bytes s2"
  shows "whole_bytes (State_Monad.bind s1 (\<lambda>_. s2))"
  unfolding whole_bytes_def
proof (intro allI impI)
  fix w :: writer assume w: "writer_ok w \<and> wr_grows w \<and> wr_pos w mod 8 = 0"
  then obtain y w' where r: "run_state s1 w = (y, w')" "writer_ok w'" "wr_grows w'"
    using codesE [OF assms(1), of w] by metis
  moreover have "wr_pos w' mod 8 = 0"
    using whole_bytesD [OF assms(2), of w] w r(1) by simp
  ultimately show "wr_pos (snd (run_state (State_Monad.bind s1 (\<lambda>_. s2)) w)) mod 8 = 0"
    using whole_bytesD [OF assms(3), of w'] by simp
qed

lemma write_bits_adds:
  assumes "writer_ok w" "wr_grows w" "n \<le> 64"
  obtains w' where "run_state (write_bits v n) w = (True, w')" "writer_ok w'" "wr_grows w'" "wr_pos w' = wr_pos w + n"
  using assms write_bits_grows [of w v n] write_bits_result by metis

lemma whole_bytes_varint: "whole_bytes (write_varint v)"
proof (induction v rule: write_varint.induct)
  case (1 v)
  show ?case
    unfolding whole_bytes_def
  proof (intro allI impI)
    fix w :: writer assume w: "writer_ok w \<and> wr_grows w \<and> wr_pos w mod 8 = 0"
    then obtain w1 where 1: "run_state (write_bits v 7) w = (True, w1)" "writer_ok w1" "wr_grows w1" "wr_pos w1 = wr_pos w + 7"
      using write_bits_adds [of w 7 v] by auto
    obtain w2 where 2: "run_state (write_bool (drop_bit 7 v \<noteq> 0)) w1 = (True, w2)" "writer_ok w2" "wr_grows w2" "wr_pos w2 = wr_pos w1 + 1"
      using write_bits_adds [OF 1(2,3), of 1] unfolding write_bool_def by (metis one_le_numeral)
    have "wr_pos w2 mod 8 = 0"
      using 1(4) 2(4) w by (simp add: mod_Suc)
    then show "wr_pos (snd (run_state (write_varint v) w)) mod 8 = 0"
      using whole_bytesD [OF "1.IH" 2(2,3)] 1(1) 2(1)
      by (subst write_varint.simps) (auto simp: State_Monad.return_def)
  qed
qed

lemma whole_bytes_bytes: "whole_bytes (write_bytes bs)"
  unfolding whole_bytes_def
proof (intro allI impI)
  fix w :: writer assume w: "writer_ok w \<and> wr_grows w \<and> wr_pos w mod 8 = 0"
  then obtain w' where "run_state (write_bytes bs) w = (True, w')"
    using write_bytes_grows by blast
  then show "wr_pos (snd (run_state (write_bytes bs) w)) mod 8 = 0"
    using write_bytes_result(1) w next_whole_byte_bounds(3) [of "wr_pos w"] by (metis mod_mult_self2 snd_conv)
qed

lemma whole_bytes_each:
  "(\<And>x. x \<in> set xs \<Longrightarrow> codes (s x) (d x) (g x)) \<Longrightarrow> (\<And>x. whole_bytes (s x)) \<Longrightarrow> whole_bytes (write_each s xs)"
proof (induction xs)
  case Nil
  show ?case by (simp add: whole_bytes_def State_Monad.return_def)
next
  case (Cons x xs)
  then have "whole_bytes (write_each s xs)" "codes (s x) (d x) (g x)" "whole_bytes (s x)"
    by simp_all
  then show ?case by simp (rule whole_bytes_bind)
qed

text \<open>A read that checks first that what it reads is there.\<close>

lemma codes_checked_bytes:
  assumes "length dest = length src" "\<not> Q"
  shows "codes (write_bytes src)
    (do { at \<leftarrow> State_Monad.get;
       (if Q \<or> rd_pos at div 8 + length dest > length (rd_data at) then State_Monad.return None
        else do { (_, bytes) \<leftarrow> read_bytes dest; State_Monad.return (Some (f bytes)) }) }) (Some (f src))" (is "codes _ ?d _")
proof (rule codesI)
  fix w :: writer assume w: "writer_ok w" "wr_grows w"
  obtain y w' where r: "run_state (write_bytes src) w = (y, w')" "writer_ok w'" "wr_grows w'" "wr_pos w \<le> wr_pos w'"
      "agree (wr_pos w) (wr_data w) (wr_data w')"
      "\<And>D. agree (wr_pos w') (wr_data w') D \<Longrightarrow>
         run_state (read_bytes dest) \<lparr>rd_data = D, rd_pos = wr_pos w\<rparr> = ((True, src), \<lparr>rd_data = D, rd_pos = wr_pos w'\<rparr>)"
    using codesE [OF codes_bytes [OF assms(1)] w] by metis
  have "y" using write_bytes_grows [OF w(2), of src] r(1) by auto
  then have pos: "wr_pos w' = next_whole_byte (wr_pos w) + 8 * length src"
    using write_bytes_result(1) [of src w w'] r(1) w by simp
  have "run_state ?d \<lparr>rd_data = D, rd_pos = wr_pos w\<rparr> = (Some (f src), \<lparr>rd_data = D, rd_pos = wr_pos w'\<rparr>)"
    if D: "agree (wr_pos w') (wr_data w') D" for D
  proof -
    have "wr_pos w + 8 * length src \<le> 8 * length D"
      using agree_length [OF D] pos next_whole_byte_bounds(1) [of "wr_pos w"] by simp
    then have "wr_pos w div 8 + length dest \<le> length D"
      using assms(1) by simp
    then show ?thesis
      using r(6) [OF D] assms(2) by (simp add: State_Monad.get_def State_Monad.return_def not_less)
  qed
  then show "\<exists>y w'. run_state (write_bytes src) w = (y, w') \<and> writer_ok w' \<and> wr_grows w' \<and> wr_pos w \<le> wr_pos w' \<and>
      agree (wr_pos w) (wr_data w) (wr_data w') \<and> (\<forall>D. agree (wr_pos w') (wr_data w') D \<longrightarrow>
         run_state ?d \<lparr>rd_data = D, rd_pos = wr_pos w\<rparr> = (Some (f src), \<lparr>rd_data = D, rd_pos = wr_pos w'\<rparr>))"
    using r(1-5) by blast
qed

section \<open>Read back from a whole byte\<close>

definition byte_codes :: "(writer, 'b) state \<Rightarrow> (reader, 'a) state \<Rightarrow> 'a \<Rightarrow> bool" where
  "byte_codes s d x \<longleftrightarrow> (\<forall>w. writer_ok w \<and> wr_grows w \<and> wr_pos w mod 8 = 0 \<longrightarrow>
     (let w' = snd (run_state s w)
      in writer_ok w' \<and> wr_grows w' \<and> wr_pos w \<le> wr_pos w' \<and> agree (wr_pos w) (wr_data w) (wr_data w') \<and>
         (\<forall>D. agree (wr_pos w') (wr_data w') D \<longrightarrow>
            run_state d \<lparr>rd_data = D, rd_pos = wr_pos w\<rparr> = (x, \<lparr>rd_data = D, rd_pos = wr_pos w'\<rparr>))))"

lemma byte_codesI: "codes s d x \<Longrightarrow> byte_codes s d x"
  by (simp add: codes_def byte_codes_def)

lemma byte_codesE:
  assumes "byte_codes s d x" "writer_ok w" "wr_grows w" "wr_pos w mod 8 = 0"
  obtains y w' where "run_state s w = (y, w')" "writer_ok w'" "wr_grows w'" "wr_pos w \<le> wr_pos w'"
    "agree (wr_pos w) (wr_data w) (wr_data w')"
    "\<And>D. agree (wr_pos w') (wr_data w') D \<Longrightarrow>
       run_state d \<lparr>rd_data = D, rd_pos = wr_pos w\<rparr> = (x, \<lparr>rd_data = D, rd_pos = wr_pos w'\<rparr>)"
  using assms by (cases "run_state s w") (auto simp: byte_codes_def Let_def)

lemma byte_codes_then:
  assumes "byte_codes s1 d1 a" "whole_bytes s1" "byte_codes s2 (d2 a) x"
  shows "byte_codes (State_Monad.bind s1 (\<lambda>_. s2)) (State_Monad.bind d1 d2) x"
  unfolding byte_codes_def
proof (intro allI impI)
  fix w :: writer assume w: "writer_ok w \<and> wr_grows w \<and> wr_pos w mod 8 = 0"
  obtain y w1 where 1: "run_state s1 w = (y, w1)" "writer_ok w1" "wr_grows w1" "wr_pos w \<le> wr_pos w1"
      "agree (wr_pos w) (wr_data w) (wr_data w1)"
      "\<And>D. agree (wr_pos w1) (wr_data w1) D \<Longrightarrow>
         run_state d1 \<lparr>rd_data = D, rd_pos = wr_pos w\<rparr> = (a, \<lparr>rd_data = D, rd_pos = wr_pos w1\<rparr>)"
    using byte_codesE [OF assms(1), of w] w by metis
  have "wr_pos w1 mod 8 = 0"
    using whole_bytesD [OF assms(2), of w] w 1(1) by simp
  then obtain z w2 where 2: "run_state s2 w1 = (z, w2)" "writer_ok w2" "wr_grows w2" "wr_pos w1 \<le> wr_pos w2"
      "agree (wr_pos w1) (wr_data w1) (wr_data w2)"
      "\<And>D. agree (wr_pos w2) (wr_data w2) D \<Longrightarrow>
         run_state (d2 a) \<lparr>rd_data = D, rd_pos = wr_pos w1\<rparr> = (x, \<lparr>rd_data = D, rd_pos = wr_pos w2\<rparr>)"
    using byte_codesE [OF assms(3) 1(2,3)] by metis
  have "agree (wr_pos w1) (wr_data w1) D" if "agree (wr_pos w2) (wr_data w2) D" for D
    using agree_trans [OF 2(5) that 2(4)] .
  moreover have "agree (wr_pos w) (wr_data w) (wr_data w2)"
    using agree_trans [OF 1(5) 2(5) 1(4)] .
  ultimately show "let w' = snd (run_state (State_Monad.bind s1 (\<lambda>_. s2)) w)
      in writer_ok w' \<and> wr_grows w' \<and> wr_pos w \<le> wr_pos w' \<and> agree (wr_pos w) (wr_data w) (wr_data w') \<and>
         (\<forall>D. agree (wr_pos w') (wr_data w') D \<longrightarrow>
            run_state (State_Monad.bind d1 d2) \<lparr>rd_data = D, rd_pos = wr_pos w\<rparr> = (x, \<lparr>rd_data = D, rd_pos = wr_pos w'\<rparr>))"
    using 1 2 by simp
qed

lemmas byte_codes_bind = byte_codes_then [OF byte_codesI]

text \<open>A look at the reader that lets reading go on.\<close>

definition lets_pass :: "(writer, 'b) state \<Rightarrow> (reader \<Rightarrow> bool) \<Rightarrow> bool" where
  "lets_pass s P \<longleftrightarrow> (\<forall>w D. writer_ok w \<and> wr_grows w \<and> wr_pos w mod 8 = 0 \<and> wr_pos (snd (run_state s w)) \<le> 8 * length D \<longrightarrow>
     P \<lparr>rd_data = D, rd_pos = wr_pos w\<rparr>)"

lemma byte_codes_look:
  assumes "byte_codes s d x" "lets_pass s P"
  shows "byte_codes s (do { r \<leftarrow> State_Monad.get; (if P r then d else e) }) x"
  unfolding byte_codes_def
proof (intro allI impI)
  fix w :: writer assume w: "writer_ok w \<and> wr_grows w \<and> wr_pos w mod 8 = 0"
  obtain y w1 where 1: "run_state s w = (y, w1)" "writer_ok w1" "wr_grows w1" "wr_pos w \<le> wr_pos w1"
      "agree (wr_pos w) (wr_data w) (wr_data w1)"
      "\<And>D. agree (wr_pos w1) (wr_data w1) D \<Longrightarrow>
         run_state d \<lparr>rd_data = D, rd_pos = wr_pos w\<rparr> = (x, \<lparr>rd_data = D, rd_pos = wr_pos w1\<rparr>)"
    using byte_codesE [OF assms(1), of w] w by metis
  have "P \<lparr>rd_data = D, rd_pos = wr_pos w\<rparr>" if "agree (wr_pos w1) (wr_data w1) D" for D
    using assms(2) agree_length [OF that] w 1(1) by (simp add: lets_pass_def)
  then show "let w' = snd (run_state s w)
      in writer_ok w' \<and> wr_grows w' \<and> wr_pos w \<le> wr_pos w' \<and> agree (wr_pos w) (wr_data w) (wr_data w') \<and>
         (\<forall>D. agree (wr_pos w') (wr_data w') D \<longrightarrow>
            run_state (do { r \<leftarrow> State_Monad.get; (if P r then d else e) }) \<lparr>rd_data = D, rd_pos = wr_pos w\<rparr> =
              (x, \<lparr>rd_data = D, rd_pos = wr_pos w'\<rparr>))"
    using 1 by (simp add: State_Monad.get_def)
qed

lemma byte_codes_look_not:
  assumes "byte_codes s d x" "lets_pass s (\<lambda>r. \<not> P r)"
  shows "byte_codes s (do { r \<leftarrow> State_Monad.get; (if P r then e else d) }) x"
proof -
  have "(if P r then e else d) = (if \<not> P r then d else e)" for r
    by simp
  then show ?thesis
    using byte_codes_look [OF assms, of e] by presburger
qed

text \<open>A whole record, from its first byte.\<close>

lemma bytes_read_back:
  assumes "byte_codes s d x"
  defines "w \<equiv> snd (run_state s (buffer_writer []))"
  shows "run_state d (new_reader (encode s)) = (x, \<lparr>rd_data = encode s, rd_pos = wr_pos w\<rparr>)" "length (encode s) = writer_size w"
proof -
  have 1: "writer_ok w"
    "\<And>D. agree (wr_pos w) (wr_data w) D \<Longrightarrow> run_state d \<lparr>rd_data = D, rd_pos = 0\<rparr> = (x, \<lparr>rd_data = D, rd_pos = wr_pos w\<rparr>)"
    unfolding w_def by (rule byte_codesE [OF assms(1), of "buffer_writer []"]; simp add: buffer_writer_def writer_ok_def)+
  have size: "wr_pos w \<le> 8 * writer_size w" "writer_size w \<le> length (wr_data w)"
    using round_up_8 [of "wr_pos w"] 1(1) by (auto simp: writer_size_def writer_ok_def)
  have "bit_at (wr_data w) i = bit_at (take (writer_size w) (wr_data w)) i" if "i < wr_pos w" for i
    using that size by (simp add: bit_at_def less_mult_imp_div_less mult.commute)
  then have "agree (wr_pos w) (wr_data w) (take (writer_size w) (wr_data w))"
    using size 1(1) by (simp add: agree_def writer_ok_def)
  then show "run_state d (new_reader (encode s)) = (x, \<lparr>rd_data = encode s, rd_pos = wr_pos w\<rparr>)"
    using 1(2) by (simp add: encode_def Let_def w_def [symmetric] new_reader_def)
  show "length (encode s) = writer_size w"
    using size(2) by (simp add: encode_def Let_def w_def [symmetric])
qed

section \<open>How much is written\<close>

text \<open>A writer that writes \<open>n\<close> bits or more.\<close>

definition writes_at_least :: "nat \<Rightarrow> (writer, 'b) state \<Rightarrow> bool" where
  "writes_at_least n s \<longleftrightarrow> (\<forall>w. writer_ok w \<and> wr_grows w \<longrightarrow>
     writer_ok (snd (run_state s w)) \<and> wr_grows (snd (run_state s w)) \<and> wr_pos w + n \<le> wr_pos (snd (run_state s w)))"

lemma writes_at_leastD:
  assumes "writes_at_least n s" "writer_ok w" "wr_grows w"
  obtains y w' where "run_state s w = (y, w')" "writer_ok w'" "wr_grows w'" "wr_pos w + n \<le> wr_pos w'"
proof (rule that)
  show "run_state s w = (fst (run_state s w), snd (run_state s w))"
    by simp
qed (use assms in \<open>simp_all add: writes_at_least_def\<close>)

lemma writes_at_leastI:
  "(\<And>w. writer_ok w \<Longrightarrow> wr_grows w \<Longrightarrow> \<exists>y w'. run_state s w = (y, w') \<and> writer_ok w' \<and> wr_grows w' \<and> wr_pos w + n \<le> wr_pos w') \<Longrightarrow>
    writes_at_least n s"
  unfolding writes_at_least_def by (metis snd_conv)

lemma writes_at_least_bind:
  "writes_at_least m s1 \<Longrightarrow> writes_at_least n s2 \<Longrightarrow> writes_at_least (m + n) (State_Monad.bind s1 (\<lambda>_. s2))"
proof (rule writes_at_leastI)
  fix w :: writer assume one: "writes_at_least m s1" "writer_ok w" "wr_grows w" and two: "writes_at_least n s2"
  obtain y w1 where 1: "run_state s1 w = (y, w1)" "writer_ok w1" "wr_grows w1" "wr_pos w + m \<le> wr_pos w1"
    by (rule writes_at_leastD [OF one])
  obtain z w2 where "run_state s2 w1 = (z, w2)" "writer_ok w2" "wr_grows w2" "wr_pos w1 + n \<le> wr_pos w2"
    by (rule writes_at_leastD [OF two 1(2,3)])
  with 1 show "\<exists>y w'. run_state (State_Monad.bind s1 (\<lambda>_. s2)) w = (y, w') \<and> writer_ok w' \<and> wr_grows w' \<and>
      wr_pos w + (m + n) \<le> wr_pos w'"
    by simp
qed

lemma writes_at_least_codes: "codes s d x \<Longrightarrow> writes_at_least 0 s"
  by (rule writes_at_leastI) (erule (2) codesE, simp)

lemma writes_at_least_bits: "n \<le> 64 \<Longrightarrow> writes_at_least n (write_bits v n)"
  by (rule writes_at_leastI) (erule (2) write_bits_adds [where v = v], auto)

lemma writes_at_least_varint: "writes_at_least 8 (write_varint v)"
proof -
  have bool: "writes_at_least 1 (write_bool b)" for b
    unfolding write_bool_def by (rule writes_at_least_bits) simp
  have rest: "writes_at_least 0 (if q then write_varint u else State_Monad.return ())" for q u
    using writes_at_least_codes [OF codes_varint] by (simp add: writes_at_least_def State_Monad.return_def)
  have "writes_at_least (7 + (1 + 0)) (write_varint v)"
    by (subst write_varint.simps) (intro writes_at_least_bind writes_at_least_bits bool rest; simp)
  then show ?thesis by simp
qed

lemma writes_at_least_bytes: "writes_at_least (8 * length bs) (write_bytes bs)"
proof (rule writes_at_leastI)
  fix w :: writer assume w: "writer_ok w" "wr_grows w"
  obtain y w' where r: "run_state (write_bytes bs) w = (y, w')" "writer_ok w'" "wr_grows w'"
    using codesE [OF codes_bytes [of "replicate (length bs) 0" bs] w] by (metis length_replicate)
  moreover have "wr_pos w' = next_whole_byte (wr_pos w) + 8 * length bs"
    using write_bytes_grows [OF w(2), of bs] write_bytes_result(1) [of bs w w'] w(1) r(1) by auto
  ultimately show "\<exists>y w'. run_state (write_bytes bs) w = (y, w') \<and> writer_ok w' \<and> wr_grows w' \<and> wr_pos w + 8 * length bs \<le> wr_pos w'"
    using next_whole_byte_bounds(1) [of "wr_pos w"] by simp
qed

lemma writes_at_least_each:
  "(\<And>x. x \<in> set xs \<Longrightarrow> writes_at_least (n x) (s x)) \<Longrightarrow> writes_at_least (\<Sum>x \<leftarrow> xs. n x) (write_each s xs)"
proof (induction xs)
  case Nil
  show ?case by (simp add: writes_at_least_def State_Monad.return_def)
next
  case (Cons x xs)
  then have "writes_at_least (n x + (\<Sum>x \<leftarrow> xs. n x)) (do { s x; write_each s xs })"
    by (intro writes_at_least_bind) simp_all
  then show ?case by simp
qed

lemma lets_pass_least:
  "writes_at_least n s \<Longrightarrow> (\<And>r. rd_pos r mod 8 = 0 \<Longrightarrow> rd_pos r + n \<le> 8 * length (rd_data r) \<Longrightarrow> P r) \<Longrightarrow> lets_pass s P"
  unfolding lets_pass_def
proof (intro allI impI)
  fix w :: writer and D :: "u8 list"
  assume s: "writes_at_least n s" and P: "\<And>r. rd_pos r mod 8 = 0 \<Longrightarrow> rd_pos r + n \<le> 8 * length (rd_data r) \<Longrightarrow> P r"
    and w: "writer_ok w \<and> wr_grows w \<and> wr_pos w mod 8 = 0 \<and> wr_pos (snd (run_state s w)) \<le> 8 * length D"
  then have "wr_pos w + n \<le> 8 * length D"
    by (meson le_trans writes_at_least_def)
  with P w show "P \<lparr>rd_data = D, rd_pos = wr_pos w\<rparr>"
    by simp
qed

lemma writes_length:
  assumes "writes_at_least n s"
  shows "n \<le> 8 * length (encode s)"
proof -
  obtain y w where w: "run_state s (buffer_writer []) = (y, w)" "writer_ok w" "n \<le> wr_pos w"
    by (rule writes_at_leastD [OF assms, of "buffer_writer []"]) (simp_all add: buffer_writer_def writer_ok_def)
  then have "n \<le> 8 * writer_size w" "writer_size w \<le> length (wr_data w)"
    using round_up_8 [of "wr_pos w"] by (auto simp: writer_size_def writer_ok_def)
  then show ?thesis
    using w(1) by (simp add: encode_def)
qed

section \<open>No more than so much\<close>

text \<open>A writer that writes \<open>n\<close> bits or fewer.\<close>

definition writes_at_most :: "nat \<Rightarrow> (writer, 'b) state \<Rightarrow> bool" where
  "writes_at_most n s \<longleftrightarrow> (\<forall>w. writer_ok w \<and> wr_grows w \<longrightarrow>
     writer_ok (snd (run_state s w)) \<and> wr_grows (snd (run_state s w)) \<and> wr_pos (snd (run_state s w)) \<le> wr_pos w + n)"

lemma writes_at_mostD:
  assumes "writes_at_most n s" "writer_ok w" "wr_grows w"
  obtains y w' where "run_state s w = (y, w')" "writer_ok w'" "wr_grows w'" "wr_pos w' \<le> wr_pos w + n"
proof (rule that)
  show "run_state s w = (fst (run_state s w), snd (run_state s w))"
    by simp
qed (use assms in \<open>simp_all add: writes_at_most_def\<close>)

lemma writes_at_mostI:
  "(\<And>w. writer_ok w \<Longrightarrow> wr_grows w \<Longrightarrow> \<exists>y w'. run_state s w = (y, w') \<and> writer_ok w' \<and> wr_grows w' \<and> wr_pos w' \<le> wr_pos w + n) \<Longrightarrow>
    writes_at_most n s"
  unfolding writes_at_most_def by (metis snd_conv)

lemma writes_at_most_bind:
  "writes_at_most m s1 \<Longrightarrow> writes_at_most n s2 \<Longrightarrow> writes_at_most (m + n) (State_Monad.bind s1 (\<lambda>_. s2))"
proof (rule writes_at_mostI)
  fix w :: writer assume one: "writes_at_most m s1" "writer_ok w" "wr_grows w" and two: "writes_at_most n s2"
  obtain y w1 where 1: "run_state s1 w = (y, w1)" "writer_ok w1" "wr_grows w1" "wr_pos w1 \<le> wr_pos w + m"
    by (rule writes_at_mostD [OF one])
  obtain z w2 where "run_state s2 w1 = (z, w2)" "writer_ok w2" "wr_grows w2" "wr_pos w2 \<le> wr_pos w1 + n"
    by (rule writes_at_mostD [OF two 1(2,3)])
  with 1 show "\<exists>y w'. run_state (State_Monad.bind s1 (\<lambda>_. s2)) w = (y, w') \<and> writer_ok w' \<and> wr_grows w' \<and>
      wr_pos w' \<le> wr_pos w + (m + n)"
    by simp
qed

lemma writes_at_most_mono: "writes_at_most m s \<Longrightarrow> m \<le> n \<Longrightarrow> writes_at_most n s"
  unfolding writes_at_most_def by (meson add_left_mono le_trans)

lemma writes_at_most_return: "writes_at_most 0 (State_Monad.return x)"
  by (simp add: writes_at_most_def State_Monad.return_def)

lemma writes_at_most_bits: "n \<le> 64 \<Longrightarrow> writes_at_most n (write_bits v n)"
  by (rule writes_at_mostI) (erule (2) write_bits_adds [where v = v], auto)

lemma writes_at_most_bool: "writes_at_most 1 (write_bool b)"
  unfolding write_bool_def by (rule writes_at_most_bits) simp

lemma varint_within: "unat v < 2 ^ (7 * Suc k) \<Longrightarrow> writes_at_most (8 * Suc k) (write_varint v)"
proof (induction k arbitrary: v)
  case 0
  then have "unat (drop_bit 7 v) = 0"
    by (simp add: drop_bit_eq_div unat_div_distrib)
  then have "drop_bit 7 v = 0"
    by (simp only: unat_eq_0)
  then have "writes_at_most (7 + (1 + 0)) (write_varint v)"
    by (subst write_varint.simps) (simp only: if_False not_True_eq_False simp_thms,
      intro writes_at_most_bind writes_at_most_bits writes_at_most_bool writes_at_most_return, simp)
  then show ?case by simp
next
  case (Suc k)
  have "unat (drop_bit 7 v) = unat v div 128"
    by (simp add: drop_bit_eq_div unat_div_distrib)
  moreover have "unat v < 2 ^ (7 * Suc k) * 128"
    using Suc.prems by (simp add: power_add)
  ultimately have "unat (drop_bit 7 v) < 2 ^ (7 * Suc k)"
    by (simp only: less_mult_imp_div_less)
  from Suc.IH [OF this] have "writes_at_most (8 * Suc k) (if q then write_varint (drop_bit 7 v) else State_Monad.return ())" for q
    using writes_at_most_mono [OF writes_at_most_return, of "8 * Suc k"] by (cases q) simp_all
  then have "writes_at_most (7 + (1 + 8 * Suc k)) (write_varint v)"
    by (subst write_varint.simps) (intro writes_at_most_bind writes_at_most_bits writes_at_most_bool, simp_all)
  then show ?case by simp
qed

lemma writes_at_most_varint: "writes_at_most 80 (write_varint v)"
proof -
  have "unat v < 2 ^ LENGTH(64)"
    by (rule unsigned_less)
  then have "unat v < 2 ^ (7 * Suc 9)"
    by simp
  from varint_within [OF this] show ?thesis by simp
qed

lemma writes_at_most_bytes: "writes_at_most (8 * length bs + 7) (write_bytes bs)"
proof (rule writes_at_mostI)
  fix w :: writer assume w: "writer_ok w" "wr_grows w"
  obtain y w' where r: "run_state (write_bytes bs) w = (y, w')" "writer_ok w'" "wr_grows w'"
    using codesE [OF codes_bytes [of "replicate (length bs) 0" bs] w] by (metis length_replicate)
  moreover have "wr_pos w' = next_whole_byte (wr_pos w) + 8 * length bs"
    using write_bytes_grows [OF w(2), of bs] write_bytes_result(1) [of bs w w'] w(1) r(1) by auto
  moreover have "next_whole_byte (wr_pos w) \<le> wr_pos w + 7"
    using next_whole_byte_bounds(2) [of "wr_pos w"] by simp
  ultimately show "\<exists>y w'. run_state (write_bytes bs) w = (y, w') \<and> writer_ok w' \<and> wr_grows w' \<and>
      wr_pos w' \<le> wr_pos w + (8 * length bs + 7)"
    by simp
qed

lemma writes_at_most_float: "writes_at_most 39 (write_float f)"
  using writes_at_most_bytes [of "le_bytes 4 f"] by (simp add: write_float_def length_le_bytes)

lemma writes_at_most_string: "writes_at_most (87 + 8 * length x) (write_string x)"
proof -
  have "writes_at_most (8 * length x + 7) (write_bytes (map char_byte (take n x)))" for n
    by (rule writes_at_most_mono [OF writes_at_most_bytes]) simp
  from writes_at_most_bind [OF writes_at_most_varint this] show ?thesis
    by (simp add: write_string_def Let_def add.commute add.left_commute)
qed

lemma writes_at_most_each:
  "(\<And>x. x \<in> set xs \<Longrightarrow> writes_at_most n (s x)) \<Longrightarrow> writes_at_most (n * length xs) (write_each s xs)"
proof (induction xs)
  case Nil
  show ?case by (simp add: writes_at_most_return)
next
  case (Cons x xs)
  then have "writes_at_most (n + n * length xs) (do { s x; write_each s xs })"
    by (intro writes_at_most_bind) simp_all
  then show ?case by simp
qed

lemma writes_at_most_list:
  "(\<And>x. x \<in> set xs \<Longrightarrow> writes_at_most n (s x)) \<Longrightarrow> writes_at_most (80 + n * length xs) (write_list s xs)"
  unfolding write_list_def by (intro writes_at_most_bind writes_at_most_varint writes_at_most_each)

lemma length_at_most:
  assumes "writes_at_most n s"
  shows "8 * length (encode s) \<le> n + 7"
proof -
  obtain y w where w: "run_state s (buffer_writer []) = (y, w)" "wr_pos w \<le> n"
    by (rule writes_at_mostD [OF assms, of "buffer_writer []"]) (simp_all add: buffer_writer_def writer_ok_def)
  then have "8 * writer_size w \<le> n + 7"
    using round_up_8 [of "wr_pos w"] by (auto simp: writer_size_def)
  then show ?thesis
    using w(1) by (simp add: encode_def)
qed

lemma writes_at_most_nil: "writes_at_most 80 (write_list s [])"
  using writes_at_most_list [of "[]" 0 s] by simp

end
