(* ===== verification/Followers.thy ===== *)
theory Followers
  imports Party_Goods Deaths Text Whole_Bytes
begin

text \<open>
  The party's followers: which member each follows and the co-save record of it (\<open>Followers/Anchors\<close>,
  \<open>Followers/Records\<close>), their trade messages (\<open>encoding/Messages/FollowerMessages\<close>), and the host's part
  (\<open>Services/Host/HostFollowers\<close>).
\<close>

section \<open>Messages\<close>

record follower_trade =
  nft_NpcId :: u32

definition follower_trade_serialize :: "follower_trade \<Rightarrow> (writer, unit) state" where
  "follower_trade_serialize x = write_u32 (nft_NpcId x)"

definition follower_trade_deserialize :: "(reader, follower_trade) state" where
  "follower_trade_deserialize = do { vNpcId \<leftarrow> read_u32; State_Monad.return \<lparr>nft_NpcId = vNpcId\<rparr> }"

record trade_closed =
  ftc_NpcId :: u32

definition trade_closed_serialize :: "trade_closed \<Rightarrow> (writer, unit) state" where
  "trade_closed_serialize x = write_u32 (ftc_NpcId x)"

definition trade_closed_deserialize :: "(reader, trade_closed) state" where
  "trade_closed_deserialize = do { vNpcId \<leftarrow> read_u32; State_Monad.return \<lparr>ftc_NpcId = vNpcId\<rparr> }"

lemma codes_follower_trade [codec_intros]: "codes (follower_trade_serialize x) follower_trade_deserialize x"
  unfolding follower_trade_serialize_def follower_trade_deserialize_def by (rule codes_last [OF codes_u32]) (rule arg_cong [of _ _ State_Monad.return], simp)

lemma codes_trade_closed [codec_intros]: "codes (trade_closed_serialize x) trade_closed_deserialize x"
  unfolding trade_closed_serialize_def trade_closed_deserialize_def by (rule codes_last [OF codes_u32]) (rule arg_cong [of _ _ State_Monad.return], simp)

lemma safe_follower_trade [safe_intros]: "safe_reader follower_trade_deserialize"
  unfolding follower_trade_deserialize_def read_u32_def by (intro safe_intros)

lemma safe_trade_closed [safe_intros]: "safe_reader trade_closed_deserialize"
  unfolding trade_closed_deserialize_def read_u32_def by (intro safe_intros)

interpretation follower_trade_wire: wire_codec follower_trade_serialize follower_trade_deserialize "\<lambda>_. True"
  by unfold_locales (simp_all add: codes_follower_trade safe_follower_trade)

interpretation trade_closed_wire: wire_codec trade_closed_serialize trade_closed_deserialize "\<lambda>_. True"
  by unfold_locales (simp_all add: codes_trade_closed safe_trade_closed)

section \<open>Anchors\<close>

record follower_place =
  fp_World :: u32
  fp_Cell :: u32
  fp_Position :: "float32 \<times> float32 \<times> float32"

record member =
  mb_Key :: string
  mb_Character :: u32
  mb_Host :: bool
  mb_Standing :: bool
  mb_At :: follower_place

text \<open>The member each follower (its reference in the host's world) is bound to, by key.\<close>

type_synonym anchors = "(u32 \<times> string) list"

definition anchors_follow :: "u32 \<Rightarrow> string \<Rightarrow> anchors \<Rightarrow> anchors" where
  "anchors_follow r k m = (if r \<noteq> 0 \<and> k \<noteq> [] then map_put r k m else m)"

definition anchors_retain :: "u32 list \<Rightarrow> anchors \<Rightarrow> anchors" where
  "anchors_retain rs m = filter (\<lambda>(r, _). r \<in> set rs) m"

definition anchors_desired :: "u32 \<Rightarrow> anchors \<Rightarrow> string" where
  "anchors_desired r m = (case map_of m r of None \<Rightarrow> [] | Some k \<Rightarrow> k)"

text \<open>\<open>std::pow\<close> of a difference and 2 is the C library's, a parameter.\<close>

definition anchor_distance :: "(float64 \<Rightarrow> float64) \<Rightarrow> follower_place \<Rightarrow> follower_place \<Rightarrow> float64" where
  "anchor_distance square here there =
     (let same = (if fp_World here \<noteq> 0 then fp_World here = fp_World there
                  else fp_World there = 0 \<and> fp_Cell here = fp_Cell there);
          term = (\<lambda>a b. square (f64_sub (f64_of_f32 a) (f64_of_f32 b)));
          (x, y, z) = fp_Position here; (x', y', z') = fp_Position there
      in if same then f64_add (f64_add (f64_add 0 (term x x')) (term y y')) (term z z') else f64_inf False)"

text \<open>The loop of \<open>Choose\<close>: the member it returns at once, else the last host and the nearest seen.\<close>

definition may_lead :: "member \<Rightarrow> bool" where
  "may_lead mb \<longleftrightarrow> mb_Standing mb \<and> mb_Character mb \<noteq> 0 \<and> mb_Key mb \<noteq> []"

definition nearer :: "(float64 \<Rightarrow> float64) \<Rightarrow> follower_place \<Rightarrow> member \<Rightarrow> (member \<times> float64) option \<Rightarrow> (member \<times> float64) option" where
  "nearer square here mb best =
     (let d = anchor_distance square here (mb_At mb)
      in case best of None \<Rightarrow> Some (mb, d)
         | Some (b, e) \<Rightarrow> if f64_less d e \<or> f64_eq d e \<and> mb_Key mb < mb_Key b then Some (mb, d) else best)"

fun choose_from :: "(float64 \<Rightarrow> float64) \<Rightarrow> string \<Rightarrow> follower_place \<Rightarrow> member list \<Rightarrow> member option \<Rightarrow> (member \<times> float64) option \<Rightarrow> u32" where
  "choose_from square desired here [] host best =
     (case host of Some h \<Rightarrow> mb_Character h | None \<Rightarrow> (case best of Some (b, _) \<Rightarrow> mb_Character b | None \<Rightarrow> 0))"
| "choose_from square desired here (mb # mbs) host best =
     (if \<not> may_lead mb then choose_from square desired here mbs host best
      else if mb_Key mb = desired then mb_Character mb
      else choose_from square desired here mbs (if mb_Host mb then Some mb else host) (nearer square here mb best))"

definition anchors_choose :: "(float64 \<Rightarrow> float64) \<Rightarrow> u32 \<Rightarrow> follower_place \<Rightarrow> member list \<Rightarrow> anchors \<Rightarrow> u32" where
  "anchors_choose square r here mbs m = choose_from square (anchors_desired r m) here mbs None None"

section \<open>The co-save record\<close>

definition anchor_write :: "u32 \<times> string \<Rightarrow> (writer, bool) state" where
  "anchor_write = (\<lambda>(r, k). do { write_varint (ucast r); write_string k })"

definition anchors_encode :: "anchors \<Rightarrow> u8 list" where
  "anchors_encode m = encode (do { write_varint (of_nat (length m)); write_each anchor_write m })"

text \<open>One entry: none when its reference or key is out of range, or the key passes the end.\<close>

definition anchor_read :: "(reader, (u32 \<times> string) option) state" where
  "anchor_read = do {
     r \<leftarrow> read_varint;
     n \<leftarrow> read_varint;
     at \<leftarrow> State_Monad.get;
     (if r = 0 \<or> r > 0xFFFFFFFF \<or> n = 0 \<or> n > 1024 \<or> rd_pos at div 8 + unat n > length (rd_data at)
      then State_Monad.return None
      else do { (_, bytes) \<leftarrow> read_bytes (replicate (unat n) 0); State_Monad.return (Some (ucast r, map byte_char bytes)) })
   }"

text \<open>References are resolved when a resolver is given; one that is not is left out.\<close>

definition anchor_resolved :: "(u32 \<Rightarrow> u32 option) option \<Rightarrow> u32 \<times> string \<Rightarrow> anchors \<Rightarrow> anchors" where
  "anchor_resolved resolve rk m =
     (case resolve of None \<Rightarrow> anchors_follow (fst rk) (snd rk) m
      | Some f \<Rightarrow> (case f (fst rk) of None \<Rightarrow> m | Some r \<Rightarrow> anchors_follow r (snd rk) m))"

fun anchors_read :: "(u32 \<Rightarrow> u32 option) option \<Rightarrow> nat \<Rightarrow> anchors \<Rightarrow> (reader, anchors option) state" where
  "anchors_read resolve 0 m = State_Monad.return (Some m)"
| "anchors_read resolve (Suc n) m = do {
     x \<leftarrow> anchor_read;
     (case x of None \<Rightarrow> State_Monad.return None | Some rk \<Rightarrow> anchors_read resolve n (anchor_resolved resolve rk m))
   }"

definition anchors_body :: "(u32 \<Rightarrow> u32 option) option \<Rightarrow> (reader, anchors option) state" where
  "anchors_body resolve = do {
     n \<leftarrow> read_varint;
     (if n > 64 then State_Monad.return None else anchors_read resolve (unat n) [])
   }"

text \<open>\<open>Decode\<close>: whether it read, and the anchors it leaves.\<close>

definition anchors_decode :: "(u32 \<Rightarrow> u32 option) option \<Rightarrow> u8 list \<Rightarrow> u32 \<Rightarrow> bool \<times> anchors" where
  "anchors_decode resolve data version =
     (if version \<noteq> 1 \<or> data = [] \<or> length data > 65536 then (False, [])
      else case run_state (anchors_body resolve) (new_reader data) of
          (None, _) \<Rightarrow> (False, [])
        | (Some m, r) \<Rightarrow> if rd_pos r div 8 \<noteq> length data then (False, []) else (True, m))"

section \<open>The host's part\<close>

record follower =
  fw_Reference :: u32
  fw_At :: follower_place
  fw_Waiting :: bool
  fw_Dead :: bool
  fw_Session :: u32

datatype follower_command = Recruit | Follow | Wait_Here | Dismiss | Trade

record follower_order =
  fo_Reference :: u32
  fo_Character :: u32
  fo_What :: follower_command

text \<open>What the host's game holds for these handlers: the followers as it reads them, and the anchors it keeps.\<close>

record follower_game =
  fg_ready :: bool \<comment> \<open>the calls of \<open>HostGame\<close> are there\<close>
  fg_orders :: "follower_order list option" \<comment> \<open>\<open>TakeFollowerOrders\<close>\<close>
  fg_followers :: "follower list option" \<comment> \<open>\<open>ReadFollowers\<close>; none during a load\<close>

record host_followers =
  hf_trading :: "(u32 \<times> conn) list"
  hf_pending :: "(follower_order \<times> u64) list"

definition no_followers :: host_followers where
  "no_followers = \<lparr>hf_trading = [], hf_pending = []\<rparr>"

datatype follower_out = Follower_Trade conn follower_trade | Follower_Chat conn chat | Follower_Targets "(u32 \<times> u32) list"

definition grant_trade :: "host_players \<Rightarrow> characters \<Rightarrow> follower \<Rightarrow> conn \<Rightarrow> host_followers \<Rightarrow> host_followers \<times> follower_out list" where
  "grant_trade p cs f picker s =
     (if owner_of (fw_Session f) cs \<noteq> players_host p \<or> is_player_character (fw_Session f) cs then (s, [])
      else if map_of (hf_trading s) (fw_Session f) \<noteq> None
      then (s, [Follower_Chat picker \<lparr>ch_MessageType = 0, ch_PlayerName = [], ch_ChatMessage = ''Someone is already trading with this follower.''\<rparr>])
      else (s\<lparr>hf_trading := map_put (fw_Session f) picker (hf_trading s)\<rparr>, [Follower_Trade picker \<lparr>nft_NpcId = fw_Session f\<rparr>]))"

definition on_trade_closed :: "trade_closed \<Rightarrow> conn \<Rightarrow> host_followers \<Rightarrow> host_followers" where
  "on_trade_closed q sender s =
     (if map_of (hf_trading s) (ftc_NpcId q) = Some sender then s\<lparr>hf_trading := map_erase (ftc_NpcId q) (hf_trading s)\<rparr> else s)"

text \<open>One pending order: whether it is done with, and what it changes.\<close>

definition pending_order ::
    "host_players \<Rightarrow> characters \<Rightarrow> u64 \<Rightarrow> follower list \<Rightarrow> follower_order \<times> u64 \<Rightarrow> host_followers \<Rightarrow> anchors \<Rightarrow>
       bool \<times> host_followers \<times> anchors \<times> follower_out list" where
  "pending_order p cs tick fs ou s m =
     (let (ord, til) = ou; active = map fw_Reference (filter (\<lambda>f. \<not> fw_Dead f) fs)
      in if fo_Reference ord \<notin> set active then (tick \<ge> til, s, m, [])
         else case players_find (owner_of (fo_Character ord) cs) p of
             None \<Rightarrow> (True, s, m, [])
           | Some x \<Rightarrow>
               if pl_Key x = [] then (True, s, m, [])
               else
                 let m' = (if fo_What ord = Follow \<or> fo_What ord = Recruit then anchors_follow (fo_Reference ord) (pl_Key x) m else m)
                 in if fo_What ord = Trade
                    then (case find (\<lambda>f. fw_Reference f = fo_Reference ord) fs of
                        None \<Rightarrow> (True, s, m, [])
                      | Some f \<Rightarrow>
                          if fw_Session f = 0 then (tick \<ge> til, s, m, [])
                          else let (s, out) = grant_trade p cs f (owner_of (fo_Character ord) cs) s in (True, s, m', out))
                    else (True, s, m', []))"

fun pending_orders ::
    "host_players \<Rightarrow> characters \<Rightarrow> u64 \<Rightarrow> follower list \<Rightarrow> (follower_order \<times> u64) list \<Rightarrow> host_followers \<Rightarrow> anchors \<Rightarrow>
       (follower_order \<times> u64) list \<times> host_followers \<times> anchors \<times> follower_out list" where
  "pending_orders p cs tick fs [] s m = ([], s, m, [])"
| "pending_orders p cs tick fs (x # xs) s m =
     (let (gone, s, m, out) = pending_order p cs tick fs x s m; (left, s, m, outs) = pending_orders p cs tick fs xs s m
      in (if gone then left else x # left, s, m, out @ outs))"

text \<open>\<open>ToGame\<close>: the wire's id as the game's form id.\<close>

definition to_game :: "game_id \<Rightarrow> u32" where
  "to_game i = (if gid_ModId i \<ge> 0xFF \<or> gid_BaseId i > 0x00FFFFFF then 0 else push_bit 24 (gid_ModId i) OR gid_BaseId i)"

definition follower_member :: "spawn_game \<Rightarrow> deaths \<Rightarrow> host_players \<Rightarrow> characters \<Rightarrow> conn \<times> player \<Rightarrow> member" where
  "follower_member w d p cs cx =
     (let character = player_character_of (fst cx) cs; at = character_place w p character cs
      in \<lparr>mb_Key = pl_Key (snd cx), mb_Character = character, mb_Host = pl_IsHost (snd cx),
          mb_Standing = standing (fst cx) d \<and> at \<noteq> None,
          mb_At = (case at of None \<Rightarrow> \<lparr>fp_World = 0, fp_Cell = 0, fp_Position = (0, 0, 0)\<rparr>
            | Some t \<Rightarrow> \<lparr>fp_World = to_game (pt_WorldSpaceId t), fp_Cell = to_game (pt_CellId t),
                fp_Position = (v3_x (pt_Position t), v3_y (pt_Position t), v3_z (pt_Position t))\<rparr>)\<rparr>)"

fun follower_targets :: "(float64 \<Rightarrow> float64) \<Rightarrow> string option \<Rightarrow> member list \<Rightarrow> follower list \<Rightarrow> anchors \<Rightarrow> anchors \<times> (u32 \<times> u32) list" where
  "follower_targets square host mbs [] m = (m, [])"
| "follower_targets square host mbs (f # fs) m =
     (if fw_Dead f then follower_targets square host mbs fs m
      else let m = (case host of Some k \<Rightarrow> if anchors_desired (fw_Reference f) m = [] then anchors_follow (fw_Reference f) k m else m
                    | None \<Rightarrow> m);
               target = (if fw_Waiting f then 0 else anchors_choose square (fw_Reference f) (fw_At f) mbs m);
               (m, ts) = follower_targets square host mbs fs m
           in (m, (fw_Reference f, target) # ts))"

definition followers_update ::
    "(float64 \<Rightarrow> float64) \<Rightarrow> follower_game \<Rightarrow> spawn_game \<Rightarrow> deaths \<Rightarrow> host_players \<Rightarrow> characters \<Rightarrow> u64 \<Rightarrow> host_followers \<Rightarrow> anchors \<Rightarrow>
       host_followers \<times> anchors \<times> follower_out list" where
  "followers_update square g w d p cs tick s m =
     (if \<not> fg_ready g then (s, m, [])
      else let s = (case fg_orders g of None \<Rightarrow> s | Some os \<Rightarrow> s\<lparr>hf_pending := hf_pending s @ map (\<lambda>ord. (ord, tick + 10000)) os\<rparr>)
           in case fg_followers g of None \<Rightarrow> (s, m, [])
              | Some fs \<Rightarrow>
                  let m = anchors_retain (map fw_Reference (filter (\<lambda>f. \<not> fw_Dead f) fs)) m;
                      s = s\<lparr>hf_trading := filter (\<lambda>(i, c). is_player c p \<and> (\<exists>f \<in> set fs. \<not> fw_Dead f \<and> fw_Session f = i)) (hf_trading s)\<rparr>;
                      (left, s, m, out) = pending_orders p cs tick fs (hf_pending s) s m;
                      s = s\<lparr>hf_pending := left\<rparr>;
                      mbs = map (follower_member w d p cs) (hp_players p);
                      host = map_option pl_Key (players_find (players_host p) p);
                      (m, ts) = follower_targets square host mbs fs m
                  in (s, m, out @ [Follower_Targets ts]))"

section \<open>Records survive saving\<close>

lemma whole_bytes_anchor: "whole_bytes (anchor_write rk)"
  unfolding anchor_write_def write_string_def case_prod_unfold Let_def
  by (intro whole_bytes_bind [OF codes_varint] whole_bytes_varint whole_bytes_bytes)

lemma codes_anchor:
  assumes "fst rk \<noteq> 0" "snd rk \<noteq> []" "length (snd rk) \<le> 1024"
  shows "codes (anchor_write rk) anchor_read (Some rk)"
proof -
  obtain r k where rk: "rk = (r, k)" by (cases rk)
  have n: "unat (of_nat (length k) :: u16) = length k" "unat (of_nat (length k) :: u64) = length k"
    using assms(3) by (simp_all add: rk unsigned_of_nat take_bit_nat_eq_self)
  have len: "(ucast (of_nat (length k) :: u16) :: u64) = of_nat (length k)"
    using assms(3) by (intro word_unat_eq_iff [THEN iffD2]) (simp add: n rk unsigned_ucast_eq take_bit_nat_eq_self)
  have r32: "unat r < 2 ^ LENGTH(32)"
    by (rule unsigned_less)
  have "unat (ucast r :: u64) = unat r"
    by (rule unat_ucast_up) simp
  then have "(ucast r :: u64) \<noteq> 0" "\<not> (ucast r :: u64) > 0xFFFFFFFF" "(ucast (ucast r :: u64) :: u32) = r"
    using assms(1) r32 by (auto simp: rk word_less_nat_alt unat_eq_zero ucast_ucast_up)
  moreover have "(of_nat (length k) :: u64) \<noteq> 0" "\<not> (of_nat (length k) :: u64) > 1024"
    using assms(2,3) n(2) by (auto simp: rk word_less_nat_alt unat_eq_zero)
  moreover have "map byte_char (map char_byte k) = k"
    by simp
  ultimately show ?thesis
    using codes_checked_bytes [of "replicate (length k) 0" "map char_byte k"
        "(ucast r :: u64) = 0 \<or> (ucast r :: u64) > 0xFFFFFFFF \<or> (of_nat (length k) :: u64) = 0 \<or> (of_nat (length k) :: u64) > 1024"
        "\<lambda>bs. (ucast (ucast r :: u64) :: u32, map byte_char bs)"]
    unfolding anchor_write_def anchor_read_def write_string_def rk prod.case Let_def n(1) len
    by (intro codes_bind [OF codes_varint]) (simp add: n disj_assoc cong: if_cong)
qed

lemma codes_anchors:
  assumes "\<And>rk. rk \<in> set m \<Longrightarrow> fst rk \<noteq> 0 \<and> snd rk \<noteq> [] \<and> length (snd rk) \<le> 1024"
  shows "codes (write_each anchor_write m) (anchors_read resolve (length m) m') (Some (fold (anchor_resolved resolve) m m'))"
  using assms
proof (induction m arbitrary: m')
  case (Cons rk m)
  have "codes (write_each anchor_write m) (anchors_read resolve (length m) (anchor_resolved resolve rk m'))
      (Some (fold (anchor_resolved resolve) (rk # m) m'))"
    using Cons by simp
  then show ?case
    using Cons.prems [of rk] by (simp del: fold_simps) (rule codes_bind [OF codes_anchor], auto)
qed (simp add: codes_return)

lemma codes_record:
  assumes "length m \<le> 64" "\<forall>(r, k) \<in> set m. r \<noteq> 0 \<and> k \<noteq> [] \<and> length k \<le> 1024"
  shows "codes (do { write_varint (of_nat (length m)); write_each anchor_write m }) (anchors_body resolve)
    (Some (fold (anchor_resolved resolve) m []))"
proof -
  have n: "unat (of_nat (length m) :: u64) = length m"
    using assms(1) by (intro unat_count) simp
  then have small: "\<not> (of_nat (length m) :: u64) > 64"
    using assms(1) by (simp add: word_less_nat_alt)
  have "codes (write_each anchor_write m) (anchors_read resolve (length m) []) (Some (fold (anchor_resolved resolve) m []))"
    using assms(2) by (intro codes_anchors) auto
  then show ?thesis
    unfolding anchors_body_def by (intro codes_bind [OF codes_varint]) (simp only: n small if_False)
qed

text \<open>
  The record the save keeps of up to 64 followers is read back whole: each follower is bound to
  the member it was, under the reference it has now, and one that is gone is left out.
\<close>

theorem followers_keep_their_members:
  assumes "length m \<le> 64" "\<forall>(r, k) \<in> set m. r \<noteq> 0 \<and> k \<noteq> [] \<and> length k \<le> 1024" "length (anchors_encode m) \<le> 65536"
  shows "anchors_decode resolve (anchors_encode m) 1 = (True, fold (anchor_resolved resolve) m []) \<and>
    (ordered m \<longrightarrow> anchors_decode None (anchors_encode m) 1 = (True, m))"
proof -
  define s where "s = do { write_varint (of_nat (length m)); write_each anchor_write m }"
  note body = codes_record [OF assms(1,2), folded s_def]
  define w where "w = snd (run_state s (buffer_writer []))"
  have "whole_bytes s"
    unfolding s_def
    by (intro whole_bytes_bind [OF codes_varint] whole_bytes_varint whole_bytes_each [of m _ "\<lambda>_. anchor_read" Some])
      (use assms(2) codes_anchor whole_bytes_anchor in auto)
  then have "wr_pos w mod 8 = 0"
    unfolding w_def by (rule whole_bytesD) (simp_all add: buffer_writer_def writer_ok_def)
  then have bytes: "writer_size w = wr_pos w div 8"
    by (simp add: writer_size_def div_add1_eq)
  have "writes_some s"
    unfolding s_def by (rule writes_some_bind [OF writes_some_varint codes_varint codes_anchors]) (use assms(2) in auto)
  then have "0 < wr_pos w"
    using writer_ok_new(1) [of "[]"] unfolding writes_some_def w_def
    by (metis buffer_writer_def gr_zeroI not_less_zero writer.select_convs(2))
  have enc: "anchors_encode m = encode s"
    by (simp add: anchors_encode_def s_def)
  have "0 < writer_size w"
    using \<open>0 < wr_pos w\<close> by (simp add: writer_size_def)
  then have "encode s \<noteq> []"
    using read_back(2) [OF body, folded w_def] by auto
  then have read: "anchors_decode resolve (anchors_encode m) 1 = (True, fold (anchor_resolved resolve) m [])" for resolve
    using assms(3) bytes read_back(1) [OF body, where rest = "[]", folded w_def] read_back(2) [OF body, folded w_def]
    by (simp add: anchors_decode_def enc)
  have "fold (anchor_resolved None) m [] = fold (\<lambda>(r, k). map_put r k) m []"
    using assms(2) by (intro fold_cong) (auto simp: fun_eq_iff anchor_resolved_def anchors_follow_def)
  then show ?thesis
    using read fold_put_ordered by auto
qed

text \<open>How many bytes a small record takes.\<close>

definition adds_bytes :: "(writer, 'b) state \<Rightarrow> nat \<Rightarrow> bool" where
  "adds_bytes s n \<longleftrightarrow> (\<forall>w. writer_ok w \<and> wr_grows w \<and> wr_pos w mod 8 = 0 \<longrightarrow> wr_pos (snd (run_state s w)) = wr_pos w + 8 * n)"

lemma adds_bytes_bind:
  assumes "codes s1 d a" "adds_bytes s1 m" "adds_bytes s2 n"
  shows "adds_bytes (State_Monad.bind s1 (\<lambda>_. s2)) (m + n)"
  unfolding adds_bytes_def
proof (intro allI impI)
  fix w :: writer assume w: "writer_ok w \<and> wr_grows w \<and> wr_pos w mod 8 = 0"
  then obtain y w' where r: "run_state s1 w = (y, w')" "writer_ok w'" "wr_grows w'"
    using codesE [OF assms(1), of w] by metis
  moreover have "wr_pos w' = wr_pos w + 8 * m"
    using assms(2) w r(1) by (auto simp: adds_bytes_def)
  ultimately show "wr_pos (snd (run_state (State_Monad.bind s1 (\<lambda>_. s2)) w)) = wr_pos w + 8 * (m + n)"
    using assms(3) w by (simp add: adds_bytes_def)
qed

lemma adds_bytes_varint: "drop_bit 7 v = 0 \<Longrightarrow> adds_bytes (write_varint v) 1"
  unfolding adds_bytes_def
proof (intro allI impI)
  fix w :: writer assume v: "drop_bit 7 v = 0" and w: "writer_ok w \<and> wr_grows w \<and> wr_pos w mod 8 = 0"
  then obtain w1 where 1: "run_state (write_bits v 7) w = (True, w1)" "writer_ok w1" "wr_grows w1" "wr_pos w1 = wr_pos w + 7"
    using write_bits_adds [of w 7 v] by auto
  obtain w2 where "run_state (write_bool (drop_bit 7 v \<noteq> 0)) w1 = (True, w2)" "wr_pos w2 = wr_pos w1 + 1"
    using write_bits_adds [OF 1(2,3), of 1] unfolding write_bool_def by (metis one_le_numeral)
  then show "wr_pos (snd (run_state (write_varint v) w)) = wr_pos w + 8 * 1"
    using 1(1,4) v by (subst write_varint.simps) (simp add: State_Monad.return_def)
qed

lemma adds_bytes_bytes: "adds_bytes (write_bytes bs) (length bs)"
  unfolding adds_bytes_def
proof (intro allI impI)
  fix w :: writer assume w: "writer_ok w \<and> wr_grows w \<and> wr_pos w mod 8 = 0"
  then obtain w' where "run_state (write_bytes bs) w = (True, w')"
    using write_bytes_grows by blast
  then show "wr_pos (snd (run_state (write_bytes bs) w)) = wr_pos w + 8 * length bs"
    using write_bytes_result(1) w by (auto simp: next_whole_byte_def)
qed

lemma adds_bytes_anchor:
  assumes "drop_bit 7 (ucast r :: u64) = 0" "length k < 128"
  shows "adds_bytes (anchor_write (r, k)) (2 + length k)"
proof -
  have n: "unat (of_nat (length k) :: u16) = length k"
    using assms(2) by (simp add: unsigned_of_nat take_bit_nat_eq_self)
  then have "drop_bit 7 (ucast (of_nat (length k) :: u16) :: u64) = 0"
    using assms(2) by (intro word_unat_eq_iff [THEN iffD2]) (simp add: drop_bit_eq_div unat_div unat_ucast_up)
  note v = adds_bytes_varint [OF assms(1)] adds_bytes_varint [OF this]
  show ?thesis
    using adds_bytes_bind [OF codes_varint v(1) adds_bytes_bind [OF codes_varint v(2) adds_bytes_bytes [of "map char_byte k"]]] n
    by (simp add: anchor_write_def write_string_def Let_def)
qed

theorem followers_keep_their_members_witness:
  "anchors_decode (Some (\<lambda>r. if r = 9 then None else Some (r + 1))) (anchors_encode [(5, ''lydia''), (9, ''host'')]) 1 = (True, [(6, ''lydia'')])"
proof -
  define m :: anchors where "m = [(5, ''lydia''), (9, ''host'')]"
  have one: "adds_bytes (anchor_write (5, ''lydia'')) 7" "adds_bytes (anchor_write (9, ''host'')) 6"
    using adds_bytes_anchor [of 5 "''lydia''"] adds_bytes_anchor [of 9 "''host''"] by simp_all
  have codes: "codes (anchor_write (5, ''lydia'')) anchor_read (Some (5, ''lydia''))" "codes (anchor_write (9, ''host'')) anchor_read (Some (9, ''host''))"
    by (rule codes_anchor; simp)+
  have none: "adds_bytes (State_Monad.return () :: (writer, unit) state) 0"
    by (simp add: adds_bytes_def State_Monad.return_def)
  have each: "adds_bytes (write_each anchor_write m) 13"
    using adds_bytes_bind [OF codes(1) one(1) adds_bytes_bind [OF codes(2) one(2) none]] by (simp add: m_def)
  have "adds_bytes (do { write_varint (of_nat (length m)); write_each anchor_write m }) (1 + 13)"
    by (rule adds_bytes_bind [OF codes_varint adds_bytes_varint each]) (simp add: m_def)
  then have "wr_pos (snd (run_state (do { write_varint (of_nat (length m)); write_each anchor_write m }) (buffer_writer []))) = 112"
    using writer_ok_new(1) [of "[]"] by (simp add: adds_bytes_def buffer_writer_def)
  then have "length (anchors_encode m) \<le> 65536"
    using read_back(2) [OF codes_record [of m None]] by (simp add: m_def anchors_encode_def writer_size_def)
  from followers_keep_their_members [OF _ _ this, of "Some (\<lambda>r. if r = 9 then None else Some (r + 1))"] show ?thesis
    by (simp add: m_def anchor_resolved_def anchors_follow_def)
qed

section \<open>Whom a follower follows\<close>

definition leads_best :: "(float64 \<Rightarrow> float64) \<Rightarrow> follower_place \<Rightarrow> member list \<Rightarrow> (member \<times> float64) option \<Rightarrow> bool" where
  "leads_best square here seen best \<longleftrightarrow>
     (case best of None \<Rightarrow> seen = []
      | Some (b, e) \<Rightarrow> b \<in> set seen \<and> e = anchor_distance square here (mb_At b) \<and>
          (\<forall>x \<in> set seen. \<not> f64_less (anchor_distance square here (mb_At x)) e))"

lemma leads_best_nearer: "leads_best square here seen best \<Longrightarrow> leads_best square here (mb # seen) (nearer square here mb best)"
proof (cases best)
  case (Some be)
  assume ok: "leads_best square here seen best"
  obtain b e where be: "be = (b, e)" by (cases be)
  define d where "d = anchor_distance square here (mb_At mb)"
  have self: "\<not> f64_less d d"
    by (simp add: f64_less_def)
  have "\<not> f64_less x d" if "f64_less d e \<or> f64_eq d e" "\<not> f64_less x e" for x
    using that by (auto simp: f64_less_def f64_eq_def)
  with ok self show ?thesis
    by (auto simp: leads_best_def nearer_def Let_def Some be d_def [symmetric])
qed (simp add: leads_best_def nearer_def f64_less_def)

text \<open>The leader found: the desired member, else a host seen, else the nearest seen.\<close>

definition good_leader :: "(float64 \<Rightarrow> float64) \<Rightarrow> string \<Rightarrow> follower_place \<Rightarrow> member list \<Rightarrow> u32 \<Rightarrow> bool" where
  "good_leader square desired here leaders i \<longleftrightarrow>
     (if \<exists>x \<in> set leaders. mb_Key x = desired then \<exists>x \<in> set leaders. mb_Key x = desired \<and> i = mb_Character x
      else if \<exists>x \<in> set leaders. mb_Host x then \<exists>x \<in> set leaders. mb_Host x \<and> i = mb_Character x
      else if leaders = [] then i = 0
      else \<exists>x \<in> set leaders. i = mb_Character x \<and>
        (\<forall>y \<in> set leaders. \<not> f64_less (anchor_distance square here (mb_At y)) (anchor_distance square here (mb_At x))))"

lemma choose_from_good:
  assumes "leads_best square here seen best" "\<forall>x \<in> set seen. mb_Key x \<noteq> desired"
    "case host of None \<Rightarrow> \<forall>x \<in> set seen. \<not> mb_Host x | Some h \<Rightarrow> h \<in> set seen \<and> mb_Host h"
  shows "good_leader square desired here (rev seen @ filter may_lead mbs) (choose_from square desired here mbs host best)"
  using assms
proof (induction mbs arbitrary: seen host best)
  case Nil
  then show ?case
    by (cases host; cases best) (auto simp: good_leader_def leads_best_def)
next
  case (Cons mb mbs)
  consider "\<not> may_lead mb" | "may_lead mb" "mb_Key mb = desired" | "may_lead mb" "mb_Key mb \<noteq> desired" by blast
  then show ?case
  proof cases
    case 3
    have "good_leader square desired here (rev (mb # seen) @ filter may_lead mbs)
        (choose_from square desired here mbs (if mb_Host mb then Some mb else host) (nearer square here mb best))"
      using Cons.prems 3 by (intro Cons.IH leads_best_nearer) (auto split: option.splits)
    with 3 show ?thesis by simp
  next
    case 2
    then show ?thesis by (auto simp: good_leader_def)
  qed (use Cons in simp)
qed

text \<open>
  C31: a follower is sent after the member it is bound to whenever that one stands; else after the host
  if it stands; else after a standing member no other is nearer than; and after nobody only when nobody stands.
\<close>

theorem followers_have_a_leader:
  "good_leader square (anchors_desired r m) here (filter may_lead mbs) (anchors_choose square r here mbs m)"
  using choose_from_good [of square here "[]" None "anchors_desired r m" None mbs]
  by (simp add: anchors_choose_def leads_best_def)

end
