(* ===== verification/Party_Threat.thy ===== *)
theory Party_Threat
  imports Float64 Host_Players
begin

text \<open>
  Which player of the party an enemy fights: the damage each did, fading with time, and the pick among the candidates
  (\<open>Services/Host/PartyThreat\<close>), kept by the host's game as fights go on (\<open>Services/Host/HostAggro\<close>).
\<close>

section \<open>State\<close>

definition damage_half_life :: float64 where "damage_half_life = 0x4020000000000000"
definition target_hold :: float64 where "target_hold = 0x3FF8000000000000"
definition switch_ratio :: float64 where "switch_ratio = 0x3FF3333333333333"
definition recent_hit :: float64 where "recent_hit = 0x4008000000000000"

record damage =
  dm_Amount :: float64
  dm_At :: float64

record combat =
  cb_Target :: u32
  cb_ChangedAt :: float64

record candidate =
  cd_ActorId :: u32
  cd_Distance :: float32
  cd_Eligible :: bool

record perception =
  pc_Known :: bool
  pc_Lost :: bool
  pc_Detection :: i32
  pc_Stealth :: float32
  pc_Invisible :: bool
  pc_Sneaking :: bool
  pc_LineOfSight :: bool
  pc_ClearPath :: bool

record threat =
  th_Active :: bool
  th_Now :: float64
  th_Players :: "u32 list"
  th_DamageByPair :: "(u64 \<times> damage) list"
  th_Combats :: "(u32 \<times> combat) list"
  th_CrimeFights :: "u32 list"

definition no_threat :: threat where
  "no_threat = \<lparr>th_Active = False, th_Now = 0, th_Players = [], th_DamageByPair = [], th_Combats = [], th_CrimeFights = []\<rparr>"

definition threat_key :: "u32 \<Rightarrow> u32 \<Rightarrow> u64" where
  "threat_key victim attacker = push_bit 32 (ucast victim) OR ucast attacker"

definition threat_player :: "threat \<Rightarrow> u32 \<Rightarrow> bool" where
  "threat_player t a \<longleftrightarrow> a \<in> set (th_Players t)"

section \<open>Damage\<close>

text \<open>\<open>std::exp2\<close> is the C library's, a parameter.\<close>

definition damage_of :: "(float64 \<Rightarrow> float64) \<Rightarrow> threat \<Rightarrow> u32 \<Rightarrow> u32 \<Rightarrow> float64" where
  "damage_of pow2 t victim attacker =
     (case map_of (th_DamageByPair t) (threat_key victim attacker) of
        None \<Rightarrow> 0
      | Some d \<Rightarrow> f64_mul (dm_Amount d) (pow2 (f64_div (f64_neg (f64_max 0 (f64_sub (th_Now t) (dm_At d)))) damage_half_life)))"

definition threat_hit :: "(float64 \<Rightarrow> float64) \<Rightarrow> u32 \<Rightarrow> u32 \<Rightarrow> float32 \<Rightarrow> threat \<Rightarrow> threat" where
  "threat_hit pow2 victim attacker amount t =
     (if \<not> th_Active t \<or> \<not> threat_player t attacker \<or> victim = 0 \<or> threat_player t victim \<or>
         f32_is_nan amount \<or> f32_is_inf amount \<or> f32_less_eq amount 0 \<or> \<not> f64_is_finite (th_Now t) then t
      else t\<lparr>th_DamageByPair := assign (threat_key victim attacker)
        \<lparr>dm_Amount = f64_add (damage_of pow2 t victim attacker) (f64_of_f32 amount), dm_At = th_Now t\<rparr> (th_DamageByPair t)\<rparr>)"

definition recently_hit :: "threat \<Rightarrow> u32 \<Rightarrow> u32 \<Rightarrow> bool" where
  "recently_hit t victim attacker =
     (case map_of (th_DamageByPair t) (threat_key victim attacker) of
        None \<Rightarrow> False
      | Some d \<Rightarrow> f64_less 0 (dm_Amount d) \<and> f64_less_eq (dm_At d) (th_Now t) \<and>
          f64_less_eq (f64_sub (th_Now t) (dm_At d)) recent_hit)"

section \<open>Targets\<close>

definition can_target :: "threat \<Rightarrow> u32 \<Rightarrow> u32 \<Rightarrow> u32 \<Rightarrow> perception \<Rightarrow> bool" where
  "can_target t victim player current x \<longleftrightarrow>
     (if \<not> th_Active t \<or> \<not> threat_player t player \<or> pc_Invisible x \<or> pc_Sneaking x \<and> sint (pc_Detection x) \<le> 0 then False
      else if \<not> pc_Lost x \<and> (0 < sint (pc_Detection x) \<and> f32_less_eq (pc_Stealth x) 0 \<or> player = current \<and> pc_Known x) then True
      else if victim \<in> set (th_CrimeFights t) \<and> \<not> pc_Lost x \<and> pc_Known x \<and> 0 < sint (pc_Detection x) then True
      else (pc_LineOfSight x \<or> pc_ClearPath x) \<and> (player = current \<or> recently_hit t victim player))"

definition may_fight :: "threat \<Rightarrow> candidate \<Rightarrow> bool" where
  "may_fight t c \<longleftrightarrow> cd_Eligible c \<and> threat_player t (cd_ActorId c) \<and> \<not> f32_is_nan (cd_Distance c) \<and> \<not> f32_is_inf (cd_Distance c) \<and>
     f32_less_eq 0 (cd_Distance c)"

text \<open>20, 1, 512 and 4 as doubles.\<close>

definition threat_score :: "(float64 \<Rightarrow> float64) \<Rightarrow> threat \<Rightarrow> u32 \<Rightarrow> candidate \<Rightarrow> float64" where
  "threat_score pow2 t actor c =
     f64_add (f64_div 0x4034000000000000 (f64_add 0x3FF0000000000000 (f64_div (f64_of_f32 (cd_Distance c)) 0x4080000000000000)))
       (f64_mul 0x4010000000000000 (damage_of pow2 t actor (cd_ActorId c)))"

text \<open>The loop over the candidates: the best actor and its score.\<close>

fun best_target :: "(candidate \<Rightarrow> bool) \<Rightarrow> (candidate \<Rightarrow> float64) \<Rightarrow> candidate list \<Rightarrow> u32 \<times> float64 \<Rightarrow> u32 \<times> float64" where
  "best_target valid score [] b = b"
| "best_target valid score (c # cs) b =
     best_target valid score cs (if valid c \<and> f64_less (snd b) (score c) then (cd_ActorId c, score c) else b)"

definition choose_target :: "(float64 \<Rightarrow> float64) \<Rightarrow> threat \<Rightarrow> u32 \<Rightarrow> u32 \<Rightarrow> candidate list \<Rightarrow> u32" where
  "choose_target pow2 t actor current cs =
     (case map_of (th_Combats t) actor of
        None \<Rightarrow> current
      | Some b \<Rightarrow>
          if \<not> th_Active t \<or> \<not> threat_player t current \<or> cb_Target b \<noteq> current then current
          else let now = find (\<lambda>c. cd_ActorId c = current \<and> may_fight t c) cs
               in if now \<noteq> None \<and> f64_less (f64_sub (th_Now t) (cb_ChangedAt b)) target_hold then current
                  else let score = (case now of None \<Rightarrow> 0xBFF0000000000000 | Some c \<Rightarrow> threat_score pow2 t actor c);
                           (best, high) = best_target (may_fight t) (threat_score pow2 t actor) cs
                             (if now \<noteq> None then current else 0, score)
                       in if best = 0 \<or> now \<noteq> None \<and> best \<noteq> current \<and> f64_less_eq high (f64_mul score switch_ratio)
                          then current else best)"

definition resolve_target :: "(float64 \<Rightarrow> float64) \<Rightarrow> threat \<Rightarrow> u32 \<Rightarrow> u32 \<Rightarrow> u32 \<Rightarrow> candidate list \<Rightarrow> u32" where
  "resolve_target pow2 t actor current native cs =
     (if \<not> th_Active t \<or> \<not> threat_player t native \<or> \<not> threat_player t current \<or> map_of (th_Combats t) actor = None then native
      else let chosen = choose_target pow2 t actor current cs
           in if \<exists>c \<in> set cs. cd_ActorId c = chosen \<and> cd_Eligible c \<and> \<not> f32_is_nan (cd_Distance c) \<and> \<not> f32_is_inf (cd_Distance c) \<and>
                f32_less_eq 0 (cd_Distance c) then chosen else native)"

section \<open>Kept by the host's game\<close>

text \<open>The host's game as this part reads it.\<close>

record threat_world =
  tw_connected :: bool
  tw_ending :: bool
  tw_self :: u32
  tw_partners :: "u32 list" \<comment> \<open>the other session players' characters here that exist\<close>
  tw_locals :: "u32 list" \<comment> \<open>this game's characters that are no players\<close>
  tw_exists :: "u32 \<Rightarrow> bool"
  tw_dead :: "u32 \<Rightarrow> bool"
  tw_copy :: "u32 \<Rightarrow> bool"
  tw_fighting :: "u32 \<Rightarrow> bool"
  tw_target :: "u32 \<Rightarrow> u32"
  tw_crime_hostile :: "(u32 \<Rightarrow> bool) option"

definition on_damage :: "(float64 \<Rightarrow> float64) \<Rightarrow> threat_world \<Rightarrow> u32 \<Rightarrow> u32 \<Rightarrow> float32 \<Rightarrow> threat \<Rightarrow> threat" where
  "on_damage pow2 w victim attacker amount t =
     (if th_Active t \<and> threat_player t attacker \<and> \<not> threat_player t victim \<and> tw_exists w victim \<and> \<not> tw_copy w victim
      then threat_hit pow2 victim attacker amount t else t)"

definition damage_goes :: "threat_world \<Rightarrow> threat \<Rightarrow> u64 \<times> damage \<Rightarrow> bool" where
  "damage_goes w t kd =
     (let actor = ucast (drop_bit 32 (fst kd)) :: u32; player = ucast (fst kd) :: u32
      in \<not> threat_player t player \<or> \<not> tw_exists w actor \<or> tw_dead w actor \<or> tw_copy w actor \<or>
         \<not> tw_fighting w actor \<and> f64_less recent_hit (f64_sub (th_Now t) (dm_At (snd kd))))"

definition crime_fight :: "threat_world \<Rightarrow> threat \<Rightarrow> u32 \<Rightarrow> bool" where
  "crime_fight w t i \<longleftrightarrow> tw_fighting w i \<and> threat_player t (tw_target w i) \<and> (case tw_crime_hostile w of None \<Rightarrow> False | Some f \<Rightarrow> f i)"

definition combat_now :: "threat_world \<Rightarrow> threat \<Rightarrow> u32 \<Rightarrow> combat" where
  "combat_now w t actor =
     (let target = tw_target w actor; old = map_of (th_Combats t) actor;
          start = \<lparr>cb_Target = target,
            cb_ChangedAt = f64_sub (th_Now t) (if old = None \<and> actor \<in> set (th_CrimeFights t) then target_hold else 0)\<rparr>
      in case old of Some b \<Rightarrow> if cb_Target b = target then b else start | None \<Rightarrow> start)"

text \<open>\<open>m_publish\<close> is given the state an update leaves.\<close>

definition aggro_update :: "threat_world \<Rightarrow> float64 \<Rightarrow> threat \<Rightarrow> threat" where
  "aggro_update w delta t =
     (if \<not> tw_connected w \<or> tw_ending w then no_threat
      else let t = t\<lparr>th_Active := True, th_Now := (if f64_is_finite delta \<and> f64_less 0 delta then f64_add (th_Now t) delta else th_Now t),
                 th_Players := remdups_adj (sort (tw_self w # tw_partners w))\<rparr>;
               t = t\<lparr>th_DamageByPair := filter (\<lambda>kd. \<not> damage_goes w t kd) (th_DamageByPair t)\<rparr>;
               crimes = filter (crime_fight w t) (tw_locals w);
               fights = map (\<lambda>kd. ucast (drop_bit 32 (fst kd))) (th_DamageByPair t) @ crimes;
               t = t\<lparr>th_CrimeFights := crimes\<rparr>
           in t\<lparr>th_Combats := map (\<lambda>i. (i, combat_now w t i)) (remdups fights)\<rparr>)"

section \<open>An enemy keeps its target unless it is outdone\<close>

lemma best_target_facts:
  fixes cs :: "candidate list" and valid score
  defines "r \<equiv> best_target valid score cs"
  shows "(r b = b \<or> (\<exists>c \<in> set cs. valid c \<and> r b = (cd_ActorId c, score c) \<and> f64_less (snd b) (score c))) \<and>
    (\<forall>d \<in> set cs. valid d \<longrightarrow> \<not> f64_less (snd (r b)) (score d))"
  unfolding r_def
proof (induction cs arbitrary: b)
  case (Cons c cs)
  define b' where "b' = (if valid c \<and> f64_less (snd b) (score c) then (cd_ActorId c, score c) else b)"
  define r where "r = best_target valid score cs b'"
  have IH: "r = b' \<or> (\<exists>c \<in> set cs. valid c \<and> r = (cd_ActorId c, score c) \<and> f64_less (snd b') (score c))"
      "\<forall>d \<in> set cs. valid d \<longrightarrow> \<not> f64_less (snd r) (score d)"
    using Cons.IH [of b'] by (simp_all add: r_def)
  have r: "best_target valid score (c # cs) b = r"
    by (simp add: r_def b'_def)
  have up: "snd b' = snd b \<or> f64_less (snd b) (snd b')" "snd r = snd b' \<or> f64_less (snd b') (snd r)"
    using IH(1) by (auto simp: b'_def)
  have c: "\<not> f64_less (snd r) (score c)" if "valid c"
  proof
    assume less: "f64_less (snd r) (score c)"
    then have "f64_less (snd b') (score c)"
      using up(2) f64_less_trans by metis
    with that up(1) show False
      by (auto simp: b'_def f64_less_def split: if_splits)
  qed
  from IH(1) have "r = b \<or> (\<exists>d \<in> set (c # cs). valid d \<and> r = (cd_ActorId d, score d) \<and> f64_less (snd b) (score d))"
  proof
    assume "r = b'"
    then show ?thesis by (auto simp: b'_def)
  next
    assume "\<exists>c \<in> set cs. valid c \<and> r = (cd_ActorId c, score c) \<and> f64_less (snd b') (score c)"
    then obtain d where d: "d \<in> set cs" "valid d" "r = (cd_ActorId d, score d)" "f64_less (snd b') (score d)"
      by blast
    then have "f64_less (snd b) (score d)"
      using up(1) f64_less_trans by fastforce
    with d(1-3) show ?thesis
      by (metis list.set_intros(2))
  qed
  with IH(2) c show ?case unfolding r by simp
qed simp

text \<open>
  C21: an enemy in a fight turns from the player it fights only to another one it may fight, whom
  no other outdoes; and while it may still fight the first, only once it fought it for the hold time and the other's threat is
  more than 1.2 times as high.
\<close>

theorem targets_kept_unless_outdone:
  assumes "choose_target pow2 t actor current cs \<noteq> current"
  shows "\<exists>c \<in> set cs. cd_ActorId c = choose_target pow2 t actor current cs \<and> may_fight t c \<and>
    (\<forall>d \<in> set cs. may_fight t d \<longrightarrow> \<not> f64_less (threat_score pow2 t actor c) (threat_score pow2 t actor d)) \<and>
    (\<forall>x. find (\<lambda>c. cd_ActorId c = current \<and> may_fight t c) cs = Some x \<longrightarrow>
       \<not> f64_less (f64_sub (th_Now t) (cb_ChangedAt (the (map_of (th_Combats t) actor)))) target_hold \<and>
       f64_less (threat_score pow2 t actor x) (threat_score pow2 t actor c) \<and>
       \<not> f64_less_eq (threat_score pow2 t actor c) (f64_mul (threat_score pow2 t actor x) switch_ratio))"
proof -
  define now where "now = find (\<lambda>c. cd_ActorId c = current \<and> may_fight t c) cs"
  define score where "score = (case now of None \<Rightarrow> 0xBFF0000000000000 | Some c \<Rightarrow> threat_score pow2 t actor c)"
  define b where "b = (if now \<noteq> None then current else 0, score)"
  define r where "r = best_target (may_fight t) (threat_score pow2 t actor) cs b"
  obtain x where x: "map_of (th_Combats t) actor = Some x"
    using assms by (auto simp: choose_target_def split: option.splits)
  have active: "th_Active t" "threat_player t current" "cb_Target x = current"
    using assms x by (auto simp: choose_target_def split: if_splits)
  have held: "\<not> (now \<noteq> None \<and> f64_less (f64_sub (th_Now t) (cb_ChangedAt x)) target_hold)"
    using assms x active by (auto simp: choose_target_def now_def Let_def split: if_splits)
  then have choice: "choose_target pow2 t actor current cs =
      (if fst r = 0 \<or> now \<noteq> None \<and> fst r \<noteq> current \<and> f64_less_eq (snd r) (f64_mul score switch_ratio) then current else fst r)"
    unfolding choose_target_def now_def [symmetric]
    by (simp only: x option.case active simp_thms if_False held Let_def score_def [symmetric] b_def [symmetric]
        r_def [symmetric] case_prod_unfold)
  then have turned: "fst r \<noteq> 0" "fst r \<noteq> current" "now \<noteq> None \<longrightarrow> \<not> f64_less_eq (snd r) (f64_mul score switch_ratio)"
      "choose_target pow2 t actor current cs = fst r"
    using assms by (auto split: if_splits)
  then have "r \<noteq> b"
    by (auto simp: b_def split: if_splits)
  moreover have "snd b = score"
    by (simp add: b_def)
  moreover note best_target_facts [of "may_fight t" "threat_score pow2 t actor" cs b, folded r_def]
  ultimately obtain c where c: "c \<in> set cs" "may_fight t c" "r = (cd_ActorId c, threat_score pow2 t actor c)"
      "f64_less score (threat_score pow2 t actor c)"
      and highest: "\<forall>d \<in> set cs. may_fight t d \<longrightarrow> \<not> f64_less (snd r) (threat_score pow2 t actor d)"
    by blast
  have "\<not> f64_less (f64_sub (th_Now t) (cb_ChangedAt (the (map_of (th_Combats t) actor)))) target_hold \<and>
       f64_less (threat_score pow2 t actor y) (threat_score pow2 t actor c) \<and>
       \<not> f64_less_eq (threat_score pow2 t actor c) (f64_mul (threat_score pow2 t actor y) switch_ratio)" if "now = Some y" for y
    using that held turned(3) c(3,4) x by (simp add: score_def)
  then show ?thesis
    using c(1-3) highest turned(4) by (intro bexI [of _ c]) (simp_all add: now_def)
qed

definition example_threat :: threat where
  "example_threat = no_threat\<lparr>th_Active := True, th_Now := 0x4008000000000000, th_Players := [5, 7],
     th_DamageByPair := [(threat_key 1 5, \<lparr>dm_Amount = 0x3FF0000000000000, dm_At = 0x4008000000000000\<rparr>),
       (threat_key 1 7, \<lparr>dm_Amount = 0x4024000000000000, dm_At = 0x4008000000000000\<rparr>)],
     th_Combats := [(1, \<lparr>cb_Target = 5, cb_ChangedAt = 0x3FF0000000000000\<rparr>)]\<rparr>"

definition example_candidates :: "candidate list" where
  "example_candidates = [\<lparr>cd_ActorId = 5, cd_Distance = 0x44000000, cd_Eligible = True\<rparr>,
     \<lparr>cd_ActorId = 7, cd_Distance = 0x44000000, cd_Eligible = True\<rparr>]"

abbreviation "unfaded \<equiv> (\<lambda>_ :: float64. 0x3FF0000000000000 :: float64)"

lemma example_quotients_of_threat:
  "f64_of_f32 0x44000000 = 0x4080000000000000" "f64_div 0x4080000000000000 0x4080000000000000 = 0x3FF0000000000000"
  "f64_div 0x4034000000000000 0x4000000000000000 = 0x4024000000000000"
  by (simp_all add: f64_of_f32_def f64_div_def f32_parts f64_parts) (simp_all add: f64_rounds)

lemma example_sums_of_threat:
  "f64_add 0x3FF0000000000000 0x3FF0000000000000 = 0x4000000000000000"
  "f64_add 0x4024000000000000 0x4010000000000000 = 0x402C000000000000"
  "f64_add 0x4024000000000000 0x4044000000000000 = 0x4049000000000000"
  by (simp_all add: f64_add_def f64_parts) (simp_all add: f64_rounds)

lemma example_products_of_threat:
  "f64_mul 0x4024000000000000 0x3FF0000000000000 = 0x4024000000000000"
  "f64_mul 0x3FF0000000000000 0x3FF0000000000000 = 0x3FF0000000000000"
  "f64_mul 0x4010000000000000 0x3FF0000000000000 = 0x4010000000000000"
  "f64_mul 0x4010000000000000 0x4024000000000000 = 0x4044000000000000"
  "f64_mul 0x402C000000000000 switch_ratio = 0x4030CCCCCCCCCCCD"
  by (simp_all add: f64_mul_def f64_parts switch_ratio_def) (simp_all add: f64_rounds)

lemma example_held_for: "f64_sub 0x4008000000000000 0x3FF0000000000000 = 0x4000000000000000"
  by (simp add: f64_sub_def f64_neg_def f64_add_def f64_parts) (simp add: f64_rounds)

lemma example_damage:
  "damage_of unfaded example_threat 1 5 = 0x3FF0000000000000" "damage_of unfaded example_threat 1 7 = 0x4024000000000000"
  by (simp_all add: damage_of_def example_threat_def threat_key_def example_products_of_threat)

lemma example_choice: "choose_target unfaded example_threat 1 5 example_candidates = 7"
proof -
  have fights: "may_fight example_threat \<lparr>cd_ActorId = i, cd_Distance = 0x44000000, cd_Eligible = True\<rparr> \<longleftrightarrow> i = 5 \<or> i = 7" for i
    by (auto simp: may_fight_def threat_player_def example_threat_def f32_less_eq_def f32_key_def f32_parts)
  have scores: "threat_score unfaded example_threat 1 \<lparr>cd_ActorId = 5, cd_Distance = 0x44000000, cd_Eligible = True\<rparr> = 0x402C000000000000"
      "threat_score unfaded example_threat 1 \<lparr>cd_ActorId = 7, cd_Distance = 0x44000000, cd_Eligible = True\<rparr> = 0x4049000000000000"
    by (simp_all add: threat_score_def example_damage example_quotients_of_threat example_sums_of_threat example_products_of_threat)
  have less: "\<not> f64_less 0x4000000000000000 target_hold" "f64_less 0x402C000000000000 0x4049000000000000"
      "\<not> f64_less 0x402C000000000000 0x402C000000000000" "\<not> f64_less_eq 0x4049000000000000 0x4030CCCCCCCCCCCD"
    by (simp_all add: f64_less_def f64_less_eq_def f64_key_def f64_parts target_hold_def)
  have t: "th_Active example_threat" "threat_player example_threat 5" "th_Now example_threat = 0x4008000000000000"
      "map_of (th_Combats example_threat) 1 = Some \<lparr>cb_Target = 5, cb_ChangedAt = 0x3FF0000000000000\<rparr>"
    by (simp_all add: example_threat_def threat_player_def)
  show ?thesis
    by (simp add: choose_target_def example_candidates_def t fights scores less example_held_for example_products_of_threat)
qed

lemma targets_kept_unless_outdone_witness:
  "\<exists>c \<in> set example_candidates. cd_ActorId c = 7 \<and>
    \<not> f64_less_eq (threat_score unfaded example_threat 1 c)
      (f64_mul (threat_score unfaded example_threat 1 (hd example_candidates)) switch_ratio)"
proof -
  have "find (\<lambda>c. cd_ActorId c = 5 \<and> may_fight example_threat c) example_candidates = Some (hd example_candidates)"
    by (simp add: example_candidates_def may_fight_def threat_player_def example_threat_def f32_less_eq_def f32_key_def f32_parts)
  moreover have "choose_target unfaded example_threat 1 5 example_candidates \<noteq> 5"
    by (simp add: example_choice)
  ultimately show ?thesis
    using targets_kept_unless_outdone [of unfaded example_threat 1 5 example_candidates] by (auto simp: example_choice)
qed

end
