(* ===== verification/Scaled_Floats.thy ===== *)
theory Scaled_Floats
  imports Float64
begin

text \<open>
  Floats that are not too small, as \<open>m * 2 ^ e\<close>: their parts and what rounds to them; and whole numbers, which divided by
  a power of two and multiplied by it again are themselves.
\<close>

section \<open>Rounding what fits\<close>

lemma log2_floor_unique:
  assumes "2 ^ k \<le> n" "n < 2 ^ Suc k"
  shows "log2_floor n = k"
proof -
  have "0 < n"
    by (rule less_le_trans [OF _ assms(1)]) simp
  note b = log2_floor_bounds [OF this]
  have "(2::nat) ^ log2_floor n < 2 ^ Suc k" "(2::nat) ^ k < 2 ^ Suc (log2_floor n)"
    using b assms by simp_all
  then have "log2_floor n < Suc k" "k < Suc (log2_floor n)"
    by (simp_all only: power_strict_increasing_iff one_less_numeral_iff semiring_norm)
  then show ?thesis by simp
qed

lemma half_even_exact: "half_even (m * 2 ^ k) k = m"
  by (simp add: half_even_def)

lemma log2_floor_shifted: "2 ^ k \<le> m \<Longrightarrow> m < 2 ^ Suc k \<Longrightarrow> log2_floor (m * 2 ^ j) = k + j"
  by (rule log2_floor_unique) (simp_all add: power_add)

section \<open>Single precision\<close>

definition f32_normal :: "bool \<Rightarrow> nat \<Rightarrow> int \<Rightarrow> float32" where
  "f32_normal neg m e = f32_make neg (nat (e + 150)) (m - 2 ^ 23)"

definition f32_fits :: "nat \<Rightarrow> int \<Rightarrow> bool" where
  "f32_fits m e \<longleftrightarrow> 2 ^ 23 \<le> m \<and> m < 2 ^ 24 \<and> - 149 \<le> e \<and> e \<le> 104"

lemma f32_normal_parts:
  assumes "f32_fits m e"
  shows "f32_negative (f32_normal neg m e) = neg" "\<not> f32_is_nan (f32_normal neg m e)" "\<not> f32_is_inf (f32_normal neg m e)"
    "\<not> f32_is_zero (f32_normal neg m e)" "f32_mantissa (f32_normal neg m e) = (if neg then - int m else int m)"
    "f32_scale (f32_normal neg m e) = e"
proof -
  have b: "nat (e + 150) < 256" "m - 2 ^ 23 < 2 ^ 23" "0 < nat (e + 150)" "nat (e + 150) < 255"
    using assms by (auto simp: f32_fits_def)
  note p = f32_make_parts [OF b(1,2), of neg, folded f32_normal_def]
  show "f32_negative (f32_normal neg m e) = neg" "\<not> f32_is_nan (f32_normal neg m e)" "\<not> f32_is_inf (f32_normal neg m e)"
    using p b by (simp_all add: f32_is_nan_def f32_is_inf_def)
  show "f32_mantissa (f32_normal neg m e) = (if neg then - int m else int m)" "f32_scale (f32_normal neg m e) = e"
    using p b assms by (auto simp: f32_mantissa_def f32_scale_def f32_fits_def Let_def)
  show "\<not> f32_is_zero (f32_normal neg m e)"
  proof
    assume z: "f32_is_zero (f32_normal neg m e)"
    have "drop_bit 23 (f32_normal neg m e) AND 0xFF = drop_bit 23 (f32_normal neg m e AND 0x7FFFFFFF) AND 0xFF"
    proof -
      have masks: "(0xFF :: float32) = mask 8" "(0x7FFFFFFF :: float32) = mask 31"
        by (simp_all add: mask_eq_exp_minus_1)
      show ?thesis
        unfolding masks by (rule bit_word_eqI) (auto simp: bit_and_iff bit_drop_bit_eq bit_mask_iff)
    qed
    with z have "f32_exponent (f32_normal neg m e) = 0"
      by (simp add: f32_is_zero_def f32_exponent_def)
    with p(1) b(3) show False by simp
  qed
qed

lemma f32_make_normal: "2 ^ 23 \<le> m \<Longrightarrow> - 149 \<le> e \<Longrightarrow> f32_make neg 0 (nat (e + 149) * 2 ^ 23 + m) = f32_normal neg m e"
proof -
  assume "2 ^ 23 \<le> m" "- 149 \<le> e"
  then have "nat (e + 149) * 2 ^ 23 + m = nat (e + 150) * 2 ^ 23 + (m - 2 ^ 23)"
    by (simp add: nat_add_distrib Suc_nat_eq_nat_zadd1 algebra_simps)
  then show ?thesis
    by (simp add: f32_normal_def f32_make_def add.assoc)
qed

text \<open>Whatever the number's last bits are counted in.\<close>

lemma f32_round_down:
  assumes "f32_fits m e"
  shows "f32_round neg (m * 2 ^ j) (e - int j) = f32_normal neg m e"
proof -
  have m: "2 ^ 23 \<le> m" "m < 2 ^ Suc 23" "0 < m" and e: "- 149 \<le> e" "e \<le> 104"
    using assms by (simp_all add: f32_fits_def)
  have q: "max (int (log2_floor (m * 2 ^ j)) + (e - int j) - 23) (- 149) = e"
    using log2_floor_shifted [OF m(1,2)] e by simp
  have t: "(if e \<le> e - int j then m * 2 ^ j * 2 ^ nat (e - int j - e) else half_even (m * 2 ^ j) (nat (e - (e - int j)))) = m"
    using half_even_exact [of m j] by (cases "j = 0") simp_all
  have "nat (e + 149) \<le> 253"
    using e by simp
  then have "nat (e + 149) * 2 ^ 23 + m < 0x7F800000"
    using m(2) by simp
  then show ?thesis
    unfolding f32_round_def Let_def q t using m(3) f32_make_normal [OF m(1) e(1), of neg] by simp
qed

lemma f32_round_up:
  assumes "f32_fits (n * 2 ^ k) (e - int k)"
  shows "f32_round neg n e = f32_normal neg (n * 2 ^ k) (e - int k)"
proof -
  let ?m = "n * 2 ^ k"
  have m: "2 ^ 23 \<le> ?m" "?m < 2 ^ Suc 23" "0 < n" and e: "- 149 \<le> e - int k" "e - int k \<le> 104"
    using assms by (auto simp: f32_fits_def intro: Nat.gr0I)
  have "0 < n" by fact
  note b = log2_floor_bounds [OF this]
  have "log2_floor n + k = 23"
    using log2_floor_shifted [of "log2_floor n" n k] b log2_floor_unique [OF m(1,2)] by simp
  then have q: "max (int (log2_floor n) + e - 23) (- 149) = e - int k"
    using e by linarith
  have t: "(if e - int k \<le> e then n * 2 ^ nat (e - (e - int k)) else half_even n (nat (e - int k - e))) = ?m"
    by simp
  have "nat (e - int k + 149) \<le> 253"
    using e by simp
  then have "nat (e - int k + 149) * 2 ^ 23 + ?m < 0x7F800000"
    using m(2) by simp
  then show ?thesis
    unfolding f32_round_def Let_def q t using m(3) f32_make_normal [OF m(1) e(1), of neg] by simp
qed

section \<open>Double precision\<close>

definition f64_normal :: "bool \<Rightarrow> nat \<Rightarrow> int \<Rightarrow> float64" where
  "f64_normal neg m e = f64_make neg (nat (e + 1074) * 2 ^ 52 + m)"

definition f64_fits :: "nat \<Rightarrow> int \<Rightarrow> bool" where
  "f64_fits m e \<longleftrightarrow> 2 ^ 52 \<le> m \<and> m < 2 ^ 53 \<and> - 1074 \<le> e \<and> e \<le> 970"

lemma f64_normal_parts:
  assumes "f64_fits m e"
  shows "f64_negative (f64_normal neg m e) = neg" "\<not> f64_is_nan (f64_normal neg m e)" "\<not> f64_is_inf (f64_normal neg m e)"
    "\<not> f64_is_zero (f64_normal neg m e)" "f64_mantissa (f64_normal neg m e) = (if neg then - int m else int m)"
    "f64_scale (f64_normal neg m e) = e"
proof -
  define E where "E = nat (e + 1075)"
  define F where "F = m - 2 ^ 52"
  have b: "0 < E" "E < 0x7FF" "F < 2 ^ 52" "2 ^ 52 + F = m" "int E = e + 1075"
    using assms by (auto simp: f64_fits_def E_def F_def)
  define f where "f = f64_normal neg m e"
  have sum: "nat (e + 1074) * 2 ^ 52 + m = E * 2 ^ 52 + F"
  proof -
    have "E = Suc (nat (e + 1074))"
      using assms unfolding f64_fits_def E_def by arith
    then show ?thesis
      using b(4) by simp
  qed
  have small: "E * 2 ^ 52 + F < 2 ^ 63"
    using b(2,3) by simp
  then have u: "unat f = (if neg then 2 ^ 63 else 0) + (E * 2 ^ 52 + F)"
  proof -
    have "(if neg then 2 ^ 63 else 0) + (E * 2 ^ 52 + F) < 2 ^ LENGTH(64)"
      using small by simp
    then show ?thesis
      unfolding f_def f64_normal_def f64_make_def sum unsigned_of_nat by (simp only: take_bit_nat_eq_self of_nat_id)
  qed
  have masks: "(0x7FF :: float64) = mask 11" "(0xFFFFFFFFFFFFF :: float64) = mask 52" "(0x7FFFFFFFFFFFFFFF :: float64) = mask 63"
    by (simp_all add: mask_eq_exp_minus_1)
  have u': "unat f = F + ((if neg then 2 ^ 11 else 0) + E) * 2 ^ 52"
    unfolding u by simp
  have d: "unat f div 2 ^ 52 = (if neg then 2 ^ 11 else 0) + E" "unat f mod 2 ^ 52 = F"
    unfolding u' using b(3) by (simp_all only: div_mult_self1 mod_mult_self1, simp_all)
  have e: "f64_exponent f = E"
    unfolding f64_exponent_def masks and_mask_unat
    using d(1) b(2) by (simp add: drop_bit_eq_div unat_div_distrib)
  have fr: "f64_fraction f = F"
    unfolding f64_fraction_def masks and_mask_unat using d(2) .
  have "unat f = (E * 2 ^ 52 + F) + (if neg then 1 else 0) * 2 ^ 63"
    unfolding u by simp
  then have "unat f div 2 ^ 63 = (if neg then 1 else 0)"
    using small by (simp only: div_mult_self1, simp)
  then have "bit (unat f) 63 = neg"
    by (simp add: bit_iff_odd del: power_numeral)
  then have n: "f64_negative f = neg"
    by (simp add: f64_negative_def bit_unsigned_iff)
  have "unat (f AND 0x7FFFFFFFFFFFFFFF) = E * 2 ^ 52 + F"
    unfolding masks and_mask_unat u using small by simp
  then have "\<not> f64_is_zero f"
    using b(1) by (auto simp: f64_is_zero_def)
  then show "f64_negative (f64_normal neg m e) = neg" "\<not> f64_is_nan (f64_normal neg m e)" "\<not> f64_is_inf (f64_normal neg m e)"
    "\<not> f64_is_zero (f64_normal neg m e)" "f64_mantissa (f64_normal neg m e) = (if neg then - int m else int m)"
    "f64_scale (f64_normal neg m e) = e"
    using e fr n b unfolding f_def [symmetric]
    by (simp_all add: f64_is_nan_def f64_is_inf_def f64_mantissa_def f64_scale_def Let_def) 
qed

lemma f64_round_down:
  assumes "f64_fits m e"
  shows "f64_round neg (m * 2 ^ j) (e - int j) = f64_normal neg m e"
proof -
  have m: "2 ^ 52 \<le> m" "m < 2 ^ Suc 52" "0 < m" and e: "- 1074 \<le> e" "e \<le> 970"
    using assms by (simp_all add: f64_fits_def)
  have q: "max (int (log2_floor (m * 2 ^ j)) + (e - int j) - 52) (- 1074) = e"
    using log2_floor_shifted [OF m(1,2)] e by simp
  have t: "(if e \<le> e - int j then m * 2 ^ j * 2 ^ nat (e - int j - e) else half_even (m * 2 ^ j) (nat (e - (e - int j)))) = m"
    using half_even_exact [of m j] by (cases "j = 0") simp_all
  have "nat (e + 1074) \<le> 2044"
    using e by simp
  then have "nat (e + 1074) * 2 ^ 52 + m < 0x7FF0000000000000"
    using m(2) by simp
  then show ?thesis
    unfolding f64_round_def Let_def q t f64_normal_def using m(3) by simp
qed

lemma f64_round_up:
  assumes "f64_fits (n * 2 ^ k) (e - int k)"
  shows "f64_round neg n e = f64_normal neg (n * 2 ^ k) (e - int k)"
proof -
  let ?m = "n * 2 ^ k"
  have m: "2 ^ 52 \<le> ?m" "?m < 2 ^ Suc 52" "0 < n" and e: "- 1074 \<le> e - int k" "e - int k \<le> 970"
    using assms by (auto simp: f64_fits_def intro: Nat.gr0I)
  note b = log2_floor_bounds [OF m(3)]
  have "log2_floor n + k = 52"
    using log2_floor_shifted [of "log2_floor n" n k] b log2_floor_unique [OF m(1,2)] by simp
  then have q: "max (int (log2_floor n) + e - 52) (- 1074) = e - int k"
    using e by linarith
  have t: "(if e - int k \<le> e then n * 2 ^ nat (e - (e - int k)) else half_even n (nat (e - int k - e))) = ?m"
    by simp
  have "nat (e - int k + 1074) \<le> 2044"
    using e by simp
  then have "nat (e - int k + 1074) * 2 ^ 52 + ?m < 0x7FF0000000000000"
    using m(2) by simp
  then show ?thesis
    unfolding f64_round_def Let_def q t f64_normal_def using m(3) by simp
qed

section \<open>By a power of two and back\<close>

definition f32_power :: "nat \<Rightarrow> float32" where
  "f32_power c = f32_normal False (2 ^ 23) (int c - 23)"

text \<open>A float as a double, with 29 more bits.\<close>

lemma f64_of_normal:
  assumes "f32_fits m e"
  shows "f64_of_f32 (f32_normal neg m e) = f64_normal neg (m * 2 ^ 29) (e - 29)" "f64_fits (m * 2 ^ 29) (e - 29)"
proof -
  show fits: "f64_fits (m * 2 ^ 29) (e - 29)"
    using assms by (simp add: f32_fits_def f64_fits_def)
  then show "f64_of_f32 (f32_normal neg m e) = f64_normal neg (m * 2 ^ 29) (e - 29)"
    using f32_normal_parts [OF assms, of neg] f64_round_up [of m 29 e neg] by (cases neg) (simp_all add: f64_of_f32_def)
qed

lemma f64_div_power:
  assumes "f64_fits m e" "- 1074 \<le> e - int c" "c \<le> 900"
  shows "f64_div (f64_normal neg m e) (f64_normal False (2 ^ 52) (int c - 52)) = f64_normal neg m (e - int c)"
proof -
  have s: "f64_fits (2 ^ 52) (int c - 52)"
    using assms(3) by (simp add: f64_fits_def)
  have fits: "f64_fits m (e - int c)"
    using assms by (simp add: f64_fits_def)
  have n: "nat \<bar>if neg then - int m else int m\<bar> * 2 ^ 120 = m * 2 ^ 68 * 2 ^ 52"
    by simp
  have d: "nat \<bar>if False then - int (2 ^ 52) else int (2 ^ 52)\<bar> = 2 ^ 52"
    by simp
  have q: "m * 2 ^ 68 * 2 ^ 52 div 2 ^ 52 = m * 2 ^ 68" "m * 2 ^ 68 * 2 ^ 52 mod 2 ^ 52 = (0::nat)"
    by (rule nonzero_mult_div_cancel_right, simp) (rule mod_mult_self2_is_0)
  have two: "2 * (m * 2 ^ 68) + 0 = m * 2 ^ 69"
    by simp
  have e: "e - (int c - 52) - 121 = e - int c - int 69"
    by simp
  note a = f64_normal_parts [OF assms(1), of neg] and b = f64_normal_parts [OF s, of False]
  show ?thesis
    unfolding f64_div_def Let_def a(1,5,6) b(1,5,6) n d q two e using a(2-4) b(2-4) f64_round_down [OF fits, of neg 69]
    by (simp add: mult.commute)
qed

lemma f32_of_f64_normal:
  assumes "f32_fits m e"
  shows "f32_of_f64 (f64_normal neg (m * 2 ^ 29) (e - 29)) = f32_normal neg m e"
  using f64_normal_parts [OF f64_of_normal(2) [OF assms], of neg] f32_round_down [OF assms, of neg 29]
  by (cases neg) (simp_all add: f32_of_f64_def nat_mult_distrib)

lemma f32_div_power:
  assumes "f32_fits m e" "- 149 \<le> e - int c" "c \<le> 100"
  shows "f32_div (f32_normal neg m e) (f32_power c) = f32_normal neg m (e - int c)"
proof -
  have s: "f32_fits (2 ^ 23) (int c - 23)" and r: "f32_fits m (e - int c)"
    using assms by (simp_all add: f32_fits_def)
  have "f64_of_f32 (f32_power c) = f64_normal False (2 ^ 52) (int c - 52)"
    using f64_of_normal(1) [OF s, of False] by (simp add: f32_power_def)
  moreover have "f64_div (f64_normal neg (m * 2 ^ 29) (e - 29)) (f64_normal False (2 ^ 52) (int c - 52)) =
      f64_normal neg (m * 2 ^ 29) (e - int c - 29)"
    using f64_div_power [OF f64_of_normal(2) [OF assms(1)], of c neg] assms(2,3) by (simp add: algebra_simps)
  ultimately show ?thesis
    using f32_of_f64_normal [OF r, of neg] by (simp add: f32_div_def f64_of_normal(1) [OF assms(1)])
qed

lemma f32_mul_power:
  assumes "f32_fits m e" "e + int c \<le> 104" "c \<le> 100"
  shows "f32_mul (f32_normal neg m e) (f32_power c) = f32_normal neg m (e + int c)"
proof -
  have s: "f32_fits (2 ^ 23) (int c - 23)" and r: "f32_fits m (e + int c)"
    using assms by (simp_all add: f32_fits_def)
  note a = f32_normal_parts [OF assms(1), of neg] and b = f32_normal_parts [OF s, of False]
  have "nat \<bar>(if neg then - int m else int m) * (if False then - int (2 ^ 23) else int (2 ^ 23))\<bar> = m * 2 ^ 23"
    by (simp add: nat_mult_distrib abs_mult)
  then show ?thesis
    unfolding f32_mul_def Let_def f32_power_def a(1,5,6) b(1,5,6) using a(2-4) b(2-4) f32_round_down [OF r, of neg 23]
    by (simp add: algebra_simps)
qed

text \<open>A whole number of up to 24 bits.\<close>

lemma f32_of_whole:
  assumes "i \<noteq> 0" "\<bar>i\<bar> < 2 ^ 24"
  obtains m k where "f32_fits m (- int k)" "k \<le> 23" "f32_of_int i = f32_normal (i < 0) m (- int k)" "m = nat \<bar>i\<bar> * 2 ^ k"
proof -
  define n where "n = nat \<bar>i\<bar>"
  have n: "0 < n" "n < 2 ^ 24"
    using assms by (simp_all add: n_def nat_less_iff)
  define k where "k = 23 - log2_floor n"
  note p = f32_of_nat_parts(2-4) [OF n, folded k_def]
  have fits: "f32_fits (n * 2 ^ k) (- int k)"
    using p(2,3) by (simp add: f32_fits_def k_def)
  have "f32_of_int i = f32_normal (i < 0) (n * 2 ^ k) (- int k)"
    using f32_round_up [of n k 0 "i < 0"] fits by (simp add: f32_of_int_def n_def)
  then show ?thesis
    using that [OF fits] by (simp add: k_def n_def)
qed

lemma whole_scaled:
  assumes "\<bar>i\<bar> < 2 ^ 24" "c \<le> 100"
  shows "f32_mul (f32_div (f32_of_int i) (f32_power c)) (f32_power c) = f32_of_int i"
proof (cases "i = 0")
  case False
  obtain m k where m: "f32_fits m (- int k)" "k \<le> 23" "f32_of_int i = f32_normal (i < 0) m (- int k)"
    using f32_of_whole [OF False assms(1)] by metis
  have "f32_fits m (- int k - int c)"
    using m(1,2) assms(2) by (simp add: f32_fits_def)
  then show ?thesis
    using f32_div_power [OF m(1), of c "i < 0"] f32_mul_power [of m "- int k - int c" c "i < 0"] m(2) assms(2)
    by (simp add: m(3))
next
  case True
  have s: "f32_fits (2 ^ 23) (int c - 23)"
    using assms(2) by (simp add: f32_fits_def)
  have zero: "f32_of_int 0 = 0" "f64_of_f32 0 = 0"
    by (simp_all add: f32_of_int_def f64_of_f32_def f32_rounds f64_rounds f32_parts)
  have "f64_div 0 (f64_of_f32 (f32_power c)) = 0"
    using f64_normal_parts [OF f64_of_normal(2) [OF s], of False] f64_of_normal(1) [OF s, of False]
    by (simp add: f32_power_def f64_div_def f64_parts) (simp add: f64_rounds)
  then have "f32_div (f32_of_int 0) (f32_power c) = 0"
    by (simp add: f32_div_def zero) (simp add: f32_of_f64_def f64_parts f32_rounds)
  moreover have "f32_mul 0 (f32_power c) = 0"
    using f32_normal_parts [OF s, of False] by (simp add: f32_power_def f32_mul_def f32_parts) (simp add: f32_rounds)
  ultimately show ?thesis
    by (simp add: True zero)
qed

end
