(* ===== verification/Body_Frames.thy ===== *)
theory Body_Frames
  imports Held_Bodies Scaled_Floats
begin

text \<open>
  Frames of physics bodies on the wire: \<open>encoding/Structs/BodyFrame\<close> (quantized positions, velocities and rotations) and the
  payload \<open>BodyFrames\<close> of \<open>encoding/Messages/Payloads\<close>.
\<close>

section \<open>Quantities\<close>

text \<open>
  What the code takes from the C and \<open>glm\<close> libraries: \<open>std::llround\<close> and \<open>std::lround\<close> (to the nearest integer),
  \<open>std::sqrt\<close>, \<open>glm::normalize\<close> of a quaternion.
\<close>

record frame_math =
  fx_round :: "float32 \<Rightarrow> int"
  fx_sqrt :: "float32 \<Rightarrow> float32"
  fx_normalize :: "quat \<Rightarrow> quat"

text \<open>\<open>kPositionScale\<close> 32, \<open>kVelocityScale\<close> 4, \<open>kAngularScale\<close> 512, \<open>kRotationRange\<close> 0.70710678.\<close>

definition position_scale :: float32 where "position_scale = 0x42000000"
definition velocity_scale :: float32 where "velocity_scale = 0x40800000"
definition angular_scale :: float32 where "angular_scale = 0x44000000"
definition position_bits :: nat where "position_bits = 24"
definition velocity_bits :: nat where "velocity_bits = 16"
definition rotation_bits :: nat where "rotation_bits = 10"
definition rotation_range :: float32 where "rotation_range = 0x3F3504F3"

definition to_bits :: "frame_math \<Rightarrow> float32 \<Rightarrow> float32 \<Rightarrow> nat \<Rightarrow> u64" where
  "to_bits E v scale n =
     (let half = 2 ^ (n - 1) :: int
      in word_of_int (max (- half) (min (half - 1) (fx_round E (f32_mul v scale))) + half))"

definition from_bits :: "u64 \<Rightarrow> float32 \<Rightarrow> nat \<Rightarrow> float32" where
  "from_bits v scale n = f32_div (f32_of_int (sint v - 2 ^ (n - 1))) scale"

definition quantized_vec3 :: "frame_math \<Rightarrow> vec3 \<Rightarrow> float32 \<Rightarrow> nat \<Rightarrow> vec3" where
  "quantized_vec3 E v scale n =
     \<lparr>v3_x = from_bits (to_bits E (v3_x v) scale n) scale n, v3_y = from_bits (to_bits E (v3_y v) scale n) scale n,
      v3_z = from_bits (to_bits E (v3_z v) scale n) scale n\<rparr>"

definition write_vector :: "frame_math \<Rightarrow> vec3 \<Rightarrow> float32 \<Rightarrow> nat \<Rightarrow> (writer, unit) state" where
  "write_vector E v scale n = do {
     write_bits (to_bits E (v3_x v) scale n) n;
     write_bits (to_bits E (v3_y v) scale n) n;
     write_bits (to_bits E (v3_z v) scale n) n;
     State_Monad.return ()
   }"

definition read_vector :: "float32 \<Rightarrow> nat \<Rightarrow> (reader, vec3) state" where
  "read_vector scale n = do {
     x \<leftarrow> read_uint n;
     y \<leftarrow> read_uint n;
     z \<leftarrow> read_uint n;
     State_Monad.return \<lparr>v3_x = from_bits x scale n, v3_y = from_bits y scale n, v3_z = from_bits z scale n\<rparr>
   }"

section \<open>Rotations\<close>

definition quat_components :: "quat \<Rightarrow> float32 list" where
  "quat_components q = [q_x q, q_y q, q_z q, q_w q]"

definition largest_component :: "float32 list \<Rightarrow> nat" where
  "largest_component cs = fold (\<lambda>i l. if f32_less (f32_abs (cs ! l)) (f32_abs (cs ! i)) then i else l) [1, 2, 3] 0"

text \<open>\<open>std::clamp\<close> to 0 and 1; the components but the largest, with their slots.\<close>

definition f32_unit :: "float32 \<Rightarrow> float32" where
  "f32_unit f = (if f32_less f 0 then 0 else if f32_less 0x3F800000 f then 0x3F800000 else f)"

definition other_components :: "nat \<Rightarrow> (nat \<times> nat) list" where
  "other_components l = List.enumerate 0 (filter (\<lambda>i. i \<noteq> l) [0, 1, 2, 3])"

definition pack_rotation :: "frame_math \<Rightarrow> quat \<Rightarrow> u32" where
  "pack_rotation E q =
     (let cs = quat_components (fx_normalize E q); l = largest_component cs;
          sign = (if f32_less (cs ! l) 0 then 0xBF800000 else 0x3F800000);
          component = (\<lambda>i. word_of_int (fx_round E (f32_mul (f32_unit (f32_mul (f32_add (f32_div (f32_mul sign (cs ! i)) rotation_range)
            0x3F800000) 0x3F000000)) 0x447FC000)) :: u32)
      in fold (\<lambda>(slot, i) packed. packed OR push_bit (2 + rotation_bits * slot) (component i)) (other_components l) (of_nat l))"

definition unpack_rotation :: "frame_math \<Rightarrow> u32 \<Rightarrow> quat" where
  "unpack_rotation E packed =
     (let l = unat (packed AND 3);
          component = (\<lambda>slot. f32_mul (f32_sub (f32_mul (f32_div (f32_of_int (uint (drop_bit (2 + rotation_bits * slot) packed AND 0x3FF)))
            0x447FC000) 0x40000000) 0x3F800000) rotation_range);
          cs = fold (\<lambda>(slot, i) cs. cs[i := component slot]) (other_components l) (replicate 4 0);
          sum = fold (\<lambda>(slot, i) sum. f32_add sum (f32_mul (component slot) (component slot))) (other_components l) 0;
          left = f32_sub 0x3F800000 sum;
          cs = cs[l := fx_sqrt E (if f32_less 0 left then left else 0)]
      in fx_normalize E \<lparr>q_x = cs ! 0, q_y = cs ! 1, q_z = cs ! 2, q_w = cs ! 3\<rparr>)"

section \<open>Frames\<close>

definition frame_serialize :: "frame_math \<Rightarrow> body_frame \<Rightarrow> (writer, unit) state" where
  "frame_serialize E x = do {
     body_key_serialize (bf_Key x);
     write_vector E (bf_Position x) position_scale position_bits;
     write_bits (ucast (pack_rotation E (bf_Rotation x))) 32;
     write_vector E (bf_LinearVelocity x) velocity_scale velocity_bits;
     write_vector E (bf_AngularVelocity x) angular_scale velocity_bits;
     write_bool (bf_Gravity x);
     (if bk_Actor (bf_Key x) \<noteq> 0 then do { write_bool (bf_Knocked x); State_Monad.return () } else State_Monad.return ())
   }"

definition frame_deserialize :: "frame_math \<Rightarrow> (reader, body_frame) state" where
  "frame_deserialize E = do {
     key \<leftarrow> body_key_deserialize;
     position \<leftarrow> read_vector position_scale position_bits;
     rotation \<leftarrow> read_uint 32;
     linear \<leftarrow> read_vector velocity_scale velocity_bits;
     angular \<leftarrow> read_vector angular_scale velocity_bits;
     gravity \<leftarrow> read_bool;
     knocked \<leftarrow> (if bk_Actor key \<noteq> 0 then read_bool else State_Monad.return False);
     State_Monad.return \<lparr>bf_Key = key, bf_Position = position, bf_Rotation = unpack_rotation E (ucast rotation),
       bf_LinearVelocity = linear, bf_AngularVelocity = angular, bf_Gravity = gravity, bf_Knocked = knocked\<rparr>
   }"

definition frame_quantized :: "frame_math \<Rightarrow> body_frame \<Rightarrow> body_frame" where
  "frame_quantized E x = x\<lparr>bf_Position := quantized_vec3 E (bf_Position x) position_scale position_bits,
     bf_LinearVelocity := quantized_vec3 E (bf_LinearVelocity x) velocity_scale velocity_bits,
     bf_AngularVelocity := quantized_vec3 E (bf_AngularVelocity x) angular_scale velocity_bits,
     bf_Rotation := unpack_rotation E (pack_rotation E (bf_Rotation x))\<rparr>"

text \<open>The payload: past \<open>kMaxBodies\<close> nothing more is read.\<close>

definition body_frames_serialize :: "frame_math \<Rightarrow> body_frames \<Rightarrow> (writer, unit) state" where
  "body_frames_serialize E x = do {
     write_varint (bfs_Tick x);
     write_list (frame_serialize E) (bfs_Frames x);
     write_bool (bfs_Held x);
     State_Monad.return ()
   }"

definition body_frames_deserialize :: "frame_math \<Rightarrow> (reader, body_frames) state" where
  "body_frames_deserialize E = do {
     tick \<leftarrow> read_varint;
     n \<leftarrow> read_varint;
     (if unat n > max_bodies then State_Monad.return \<lparr>bfs_Tick = tick, bfs_Frames = [], bfs_Held = False\<rparr>
      else do {
        frames \<leftarrow> read_times (unat n) (frame_deserialize E);
        held \<leftarrow> read_bool;
        State_Monad.return \<lparr>bfs_Tick = tick, bfs_Frames = frames, bfs_Held = held\<rparr>
      })
   }"

section \<open>What arrives is what the sender keeps\<close>

lemma to_bits_fits: "1 \<le> n \<Longrightarrow> n \<le> 62 \<Longrightarrow> take_bit n (to_bits E v scale n) = to_bits E v scale n"
proof -
  assume n: "1 \<le> n" "n \<le> 62"
  define half where "half = (2::int) ^ (n - 1)"
  define i where "i = max (- half) (min (half - 1) (fx_round E (f32_mul v scale))) + half"
  have "(2::int) ^ n = 2 * half"
    using n(1) by (simp add: half_def power_Suc [symmetric] del: power_Suc)
  moreover have "half > 0"
    by (simp add: half_def)
  ultimately have i: "0 \<le> i" "i < 2 ^ n"
    by (auto simp: i_def)
  have "to_bits E v scale n = word_of_int i"
    by (simp add: to_bits_def i_def half_def Let_def)
  moreover have "take_bit n (word_of_int i :: u64) = word_of_int (take_bit n i)"
    using n(2) by (simp add: take_bit_word_eq_self take_bit_of_int)
  ultimately show ?thesis
    using i by (simp add: take_bit_int_eq_self)
qed

lemma codes_vector:
  assumes "1 \<le> n" "n \<le> 62"
  shows "codes (write_vector E v scale n) (read_vector scale n) (quantized_vec3 E v scale n)"
proof -
  have bits: "codes (write_bits (to_bits E u scale n) n) (read_uint n) (to_bits E u scale n)" for u
    using codes_uint [of n "to_bits E u scale n"] assms by (simp add: to_bits_fits)
  show ?thesis
    unfolding write_vector_def read_vector_def quantized_vec3_def
    by (rule codes_bind [OF bits] codes_return | simp)+
qed

lemma codes_rotation: "codes (write_bits (ucast (pack_rotation E q)) 32) (read_uint 32) (ucast (pack_rotation E q))"
proof -
  have "take_bit 32 (ucast (pack_rotation E q) :: u64) = ucast (pack_rotation E q)"
    by (rule bit_word_eqI) (auto simp: bit_simps dest: bit_imp_le_length)
  then show ?thesis
    using codes_uint [of 32 "ucast (pack_rotation E q)"] by simp
qed

definition frame_valid :: "body_frame \<Rightarrow> bool" where
  "frame_valid x \<longleftrightarrow> (bf_Knocked x \<longrightarrow> bk_Actor (bf_Key x) \<noteq> 0)"

lemma codes_knocked:
  "codes (if k then do { write_bool b; State_Monad.return () } else State_Monad.return ())
     (if k then read_bool else State_Monad.return False) (k \<and> b)"
  by (simp add: codes_unit codes_bool codes_return)

lemma codes_frame:
  assumes "frame_valid x"
  shows "codes (frame_serialize E x) (frame_deserialize E) (frame_quantized E x)"
proof -
  have "frame_quantized E x = \<lparr>bf_Key = bf_Key x, bf_Position = quantized_vec3 E (bf_Position x) position_scale position_bits,
      bf_Rotation = unpack_rotation E (pack_rotation E (bf_Rotation x)),
      bf_LinearVelocity = quantized_vec3 E (bf_LinearVelocity x) velocity_scale velocity_bits,
      bf_AngularVelocity = quantized_vec3 E (bf_AngularVelocity x) angular_scale velocity_bits,
      bf_Gravity = bf_Gravity x, bf_Knocked = (bk_Actor (bf_Key x) \<noteq> 0 \<and> bf_Knocked x)\<rparr>"
    using assms by (auto simp: frame_quantized_def frame_valid_def intro: body_frame.equality)
  then show ?thesis
    unfolding frame_serialize_def frame_deserialize_def
    by (intro codes_bind [OF codes_body_key] codes_bind [OF codes_vector] codes_bind [OF codes_rotation]
        codes_bind [OF codes_bool] codes_last [OF codes_knocked])
      (simp_all add: position_bits_def velocity_bits_def ucast_ucast_up)
qed

lemma codes_each_as:
  assumes "\<And>x. x \<in> set xs \<Longrightarrow> codes (s x) d (f x)"
  shows "codes (write_each s xs) (read_times (length xs) d) (map f xs)"
  using assms
proof (induction xs)
  case (Cons x xs)
  then show ?case
    by (simp, intro codes_bind [of "s x" d "f x"] codes_last) simp_all
qed (simp add: codes_return)

lemma codes_body_frames:
  assumes "list_all frame_valid (bfs_Frames x)" "length (bfs_Frames x) \<le> 4096"
  shows "codes (body_frames_serialize E x) (body_frames_deserialize E) (x\<lparr>bfs_Frames := map (frame_quantized E) (bfs_Frames x)\<rparr>)"
proof -
  have n: "unat (of_nat (length (bfs_Frames x)) :: u64) = length (bfs_Frames x)" "\<not> max_bodies < length (bfs_Frames x)"
    using assms(2) by (simp_all add: unat_count max_bodies_def)
  show ?thesis
    unfolding body_frames_serialize_def body_frames_deserialize_def write_list_def State_Monad.bind_assoc
    apply (rule codes_bind [OF codes_varint])+
    apply (simp only: n if_False)
    apply (rule codes_bind [OF codes_each_as])
    apply (rule codes_frame)
    using assms(1) apply (simp add: list_all_iff)
    apply (rule codes_bind [OF codes_bool])
    apply (simp add: codes_return)
    done
qed

section \<open>Quantized twice\<close>

text \<open>
  What \<open>std::llround\<close> is documented to do to whole numbers, as far as it is needed: a float that is one (of up to 24 bits)
  rounds to it.
\<close>

definition rounds_whole :: "frame_math \<Rightarrow> bool" where
  "rounds_whole E \<longleftrightarrow> (\<forall>i. \<bar>i\<bar> \<le> 2 ^ 23 \<longrightarrow> fx_round E (f32_of_int i) = i)"

lemma scales: "position_scale = f32_power 5" "velocity_scale = f32_power 2" "angular_scale = f32_power 9"
  by (simp_all add: position_scale_def velocity_scale_def angular_scale_def f32_power_def f32_normal_def f32_make_def)

lemma to_bits_again:
  assumes "rounds_whole E" "1 \<le> n" "n \<le> 24" "c \<le> 100"
  shows "to_bits E (from_bits (to_bits E v (f32_power c) n) (f32_power c) n) (f32_power c) n = to_bits E v (f32_power c) n"
proof -
  define half where "half = (2::int) ^ (n - 1)"
  define i where "i = max (- half) (min (half - 1) (fx_round E (f32_mul v (f32_power c))))"
  have "half \<le> 2 ^ 23"
    unfolding half_def using assms(3) by (intro power_increasing) auto
  moreover have half: "half > 0"
    by (simp add: half_def)
  ultimately have i: "- half \<le> i" "i \<le> half - 1" "\<bar>i\<bar> \<le> 2 ^ 23"
    by (auto simp: i_def)
  have all: "to_bits E u (f32_power c) n = word_of_int (max (- half) (min (half - 1) (fx_round E (f32_mul u (f32_power c)))) + half)" for u
    by (simp only: to_bits_def half_def Let_def)
  then have bits: "to_bits E v (f32_power c) n = word_of_int (i + half)"
    by (simp only: i_def)
  have "sint (word_of_int (i + half) :: u64) = i + half"
  proof -
    define w where "w = i + half"
    have "- (2 ^ 63) \<le> w" "w < 2 ^ 63"
      using i half \<open>half \<le> 2 ^ 23\<close> by (simp_all add: w_def)
    then have "sint (word_of_int w :: u64) = w"
      by (simp add: signed_of_int signed_take_bit_int_eq_self)
    then show ?thesis
      by (simp only: w_def)
  qed
  then have "from_bits (to_bits E v (f32_power c) n) (f32_power c) n = f32_div (f32_of_int i) (f32_power c)"
    by (simp add: from_bits_def bits half_def)
  moreover have "f32_mul (f32_div (f32_of_int i) (f32_power c)) (f32_power c) = f32_of_int i"
    using i(3) assms(4) by (intro whole_scaled) simp_all
  moreover have "fx_round E (f32_of_int i) = i"
    using assms(1) i(3) by (simp add: rounds_whole_def)
  moreover have "max (- half) (min (half - 1) i) = i"
    using i by simp
  ultimately show ?thesis
    by (simp only: bits) (simp only: all)
qed

lemma quantized_vec3_again:
  assumes "rounds_whole E" "1 \<le> n" "n \<le> 24" "c \<le> 100"
  shows "quantized_vec3 E (quantized_vec3 E v (f32_power c) n) (f32_power c) n = quantized_vec3 E v (f32_power c) n"
  by (simp add: quantized_vec3_def to_bits_again [OF assms])

text \<open>A frame with its rotation packed and unpacked once more; the same one, when the rotation packs to itself.\<close>

definition as_guessed :: "frame_math \<Rightarrow> body_frame \<Rightarrow> body_frame" where
  "as_guessed E y = y\<lparr>bf_Rotation := unpack_rotation E (pack_rotation E (bf_Rotation y))\<rparr>"

lemma quantized_again:
  assumes "rounds_whole E"
  shows "frame_quantized E (frame_quantized E x) = as_guessed E (frame_quantized E x)"
  unfolding frame_quantized_def as_guessed_def scales
  by (simp add: quantized_vec3_again [OF assms] position_bits_def velocity_bits_def)

text \<open>
  C34: the frames a game sends arrive, as many as the receiver takes, as the sender's own guesses of what its
  receivers hold (\<open>Quantized\<close>), in order and with the tick and the hold, whatever follows them in the message; a frame
  arrives knocked only if it is an actor's.
\<close>

theorem frames_arrive_as_guessed:
  assumes "length (bfs_Frames x) \<le> 4096" "list_all frame_valid (bfs_Frames x)"
  shows "decode (body_frames_deserialize E) (encode (body_frames_serialize E x) @ rest) =
    x\<lparr>bfs_Frames := map (frame_quantized E) (bfs_Frames x)\<rparr>"
  using decode_encode_codes [OF codes_body_frames [OF assms(2,1)]] .

definition example_frames :: body_frames where
  "example_frames = \<lparr>bfs_Tick = 900, bfs_Frames =
     [new_frame\<lparr>bf_Key := \<lparr>bk_Object = no_id, bk_Actor = 5, bk_Index = 2\<rparr>, bf_Knocked := True\<rparr>, new_frame], bfs_Held = True\<rparr>"

lemma frames_arrive_as_guessed_witness:
  "\<forall>E. decode (body_frames_deserialize E) (encode (body_frames_serialize E example_frames) @ [7]) =
    example_frames\<lparr>bfs_Frames := map (frame_quantized E) (bfs_Frames example_frames)\<rparr>"
  by (intro allI frames_arrive_as_guessed) (simp_all add: example_frames_def frame_valid_def new_frame_def)

end
