(* ===== verification/Body_Guesses.thy ===== *)
theory Body_Guesses
  imports Body_Frames
begin

text \<open>
  What every game guesses a body does after a frame (\<open>Physics/BodyPrediction\<close>), which frames are due to a guest
  (\<open>Physics/BodySends\<close>, \<open>Physics/BodyRelevance\<close>) and frames that wait for a copy (\<open>Physics/RagdollPending.h\<close>).
\<close>

section \<open>The library\<close>

text \<open>What the code takes of \<open>glm\<close> and of the C library's functions; \<open>gl_scale\<close> is a vector times a number.\<close>

record glm =
  gl_frames :: frame_math
  gl_add :: "vec3 \<Rightarrow> vec3 \<Rightarrow> vec3"
  gl_sub :: "vec3 \<Rightarrow> vec3 \<Rightarrow> vec3"
  gl_scale :: "vec3 \<Rightarrow> float32 \<Rightarrow> vec3"
  gl_over :: "vec3 \<Rightarrow> float32 \<Rightarrow> vec3"
  gl_length :: "vec3 \<Rightarrow> float32"
  gl_distance :: "vec3 \<Rightarrow> vec3 \<Rightarrow> float32"
  gl_mix :: "vec3 \<Rightarrow> vec3 \<Rightarrow> float32 \<Rightarrow> vec3"
  gl_dot :: "quat \<Rightarrow> quat \<Rightarrow> float32"
  gl_angle_axis :: "float32 \<Rightarrow> vec3 \<Rightarrow> quat"
  gl_times :: "quat \<Rightarrow> quat \<Rightarrow> quat"
  gl_inverse :: "quat \<Rightarrow> quat"
  gl_negate :: "quat \<Rightarrow> quat"
  gl_slerp :: "quat \<Rightarrow> quat \<Rightarrow> float32 \<Rightarrow> quat"
  gl_acos :: "float32 \<Rightarrow> float32"
  gl_atan2 :: "float32 \<Rightarrow> float32 \<Rightarrow> float32"

abbreviation gl_normalize :: "glm \<Rightarrow> quat \<Rightarrow> quat" where
  "gl_normalize G \<equiv> fx_normalize (gl_frames G)"

definition f32_max :: "float32 \<Rightarrow> float32 \<Rightarrow> float32" where
  "f32_max a b = (if f32_less a b then b else a)"

definition f32_clamp :: "float32 \<Rightarrow> float32 \<Rightarrow> float32 \<Rightarrow> float32" where
  "f32_clamp f low high = (if f32_less f low then low else if f32_less high f then high else f)"

section \<open>Guesses\<close>

text \<open>\<open>kGravity\<close> is -9.8 / 0.0142875, \<open>kMaxSeconds\<close> 1, \<open>kSteerSeconds\<close> 0.05; the limits of \<open>PlaceDistance\<close>.\<close>

definition world_gravity :: float32 where "world_gravity = 0xC42B7A84"
definition max_guess :: float32 where "max_guess = 0x3F800000"
definition steer_seconds :: float32 where "steer_seconds = 0x3D4CCCCD"

definition place_distance :: "bool \<Rightarrow> float32" where
  "place_distance first_frame = (if first_frame then 0x41800000 else 0x42800000)"

text \<open>1e-6, 0.5 and 0.25 as floats.\<close>

definition body_predict :: "glm \<Rightarrow> body_frame \<Rightarrow> float32 \<Rightarrow> float32 \<Rightarrow> body_frame" where
  "body_predict G x seconds gravity =
     (let s = f32_clamp seconds (f32_neg max_guess) max_guess;
          g = (if bf_Gravity x then \<lparr>v3_x = 0, v3_y = 0, v3_z = gravity\<rparr> else zero_vec3);
          speed = gl_length G (bf_AngularVelocity x)
      in x\<lparr>bf_Position := gl_add G (gl_add G (bf_Position x) (gl_scale G (bf_LinearVelocity x) s))
             (gl_scale G (gl_scale G (gl_scale G g 0x3F000000) s) s),
           bf_LinearVelocity := gl_add G (bf_LinearVelocity x) (gl_scale G g s),
           bf_Rotation := (if f32_less 0x358637BD speed
             then gl_normalize G (gl_times G (gl_angle_axis G (f32_mul speed s) (gl_over G (bf_AngularVelocity x) speed)) (bf_Rotation x))
             else bf_Rotation x)\<rparr>)"

record guess_error =
  ge_Distance :: float32
  ge_Angle :: float32

definition between :: "glm \<Rightarrow> body_frame \<Rightarrow> body_frame \<Rightarrow> guess_error" where
  "between G a b =
     \<lparr>ge_Distance = gl_distance G (bf_Position a) (bf_Position b),
      ge_Angle = f32_mul 0x40000000 (gl_acos G (f32_min 0x3F800000 (f32_abs (gl_dot G (bf_Rotation a) (bf_Rotation b)))))\<rparr>"

definition steer :: "glm \<Rightarrow> vec3 \<Rightarrow> quat \<Rightarrow> body_frame \<Rightarrow> float32 \<Rightarrow> vec3 \<times> vec3" where
  "steer G at rotation target seconds =
     (let linear = gl_add G (bf_LinearVelocity target) (gl_over G (gl_sub G (bf_Position target) at) seconds);
          turn = gl_normalize G (gl_times G (bf_Rotation target) (gl_inverse G rotation));
          turn = (if f32_less (q_w turn) 0 then gl_negate G turn else turn);
          axis = \<lparr>v3_x = q_x turn, v3_y = q_y turn, v3_z = q_z turn\<rparr>;
          sine = gl_length G axis
      in (linear, if f32_less 0x358637BD sine
            then gl_add G (bf_AngularVelocity target)
              (gl_scale G (gl_over G axis sine) (f32_div (f32_mul 0x40000000 (gl_atan2 G sine (q_w turn))) seconds))
            else bf_AngularVelocity target))"

definition falls_freely :: "glm \<Rightarrow> vec3 \<Rightarrow> vec3 \<Rightarrow> float32 \<Rightarrow> float32 \<Rightarrow> bool" where
  "falls_freely G before now seconds gravity \<longleftrightarrow>
     \<not> f32_less_eq seconds 0 \<and>
     (let a = gl_over G (gl_sub G now before) seconds; tolerance = f32_mul (f32_abs gravity) 0x3E800000
      in f32_less (f32_abs (v3_x a)) tolerance \<and> f32_less (f32_abs (v3_y a)) tolerance \<and>
         f32_less (f32_abs (f32_sub (v3_z a) gravity)) tolerance)"

section \<open>Frames that are due\<close>

record send_limits =
  sl_Distance :: float32
  sl_Angle :: float32
  sl_RefreshMs :: u64
  sl_BytesPerSecond :: float32
  sl_BurstBytes :: float32

definition send_limits :: send_limits where
  "send_limits = \<lparr>sl_Distance = 0x40000000, sl_Angle = 0x3D4CCCCD, sl_RefreshMs = 500, sl_BytesPerSecond = 0x46000000,
     sl_BurstBytes = 0x45000000\<rparr>"

record body_sends =
  bs_limits :: send_limits
  bs_sent :: "(body_key \<times> (body_frame \<times> u64)) list"
  bs_allowance :: float32
  bs_lastTick :: u64

definition new_sends :: "send_limits \<Rightarrow> body_sends" where
  "new_sends l = \<lparr>bs_limits = l, bs_sent = [], bs_allowance = sl_BurstBytes l, bs_lastTick = 0\<rparr>"

definition refilled :: "u64 \<Rightarrow> body_sends \<Rightarrow> float32" where
  "refilled tick s =
     (if bs_lastTick s \<noteq> 0 \<and> tick > bs_lastTick s
      then f32_min (sl_BurstBytes (bs_limits s))
        (f32_add (bs_allowance s) (f32_div (f32_mul (sl_BytesPerSecond (bs_limits s)) (f32_of_int (uint (tick - bs_lastTick s)))) 0x447A0000))
      else bs_allowance s)"

text \<open>A candidate with its priority (1e9 when it was never sent), if it is one.\<close>

definition send_candidate :: "glm \<Rightarrow> u64 \<Rightarrow> body_sends \<Rightarrow> body_frame \<Rightarrow> (body_frame \<times> float32) option" where
  "send_candidate G tick s x =
     (case map_of (bs_sent s) (bf_Key x) of
        None \<Rightarrow> Some (x, 0x4E6E6B28)
      | Some (y, sent) \<Rightarrow>
          let seconds = f32_div (f32_of_int (uint (tick - min tick sent))) 0x447A0000;
              e = between G (body_predict G y seconds world_gravity) x;
              wrong = f32_max (f32_div (ge_Distance e) (sl_Distance (bs_limits s))) (f32_div (ge_Angle e) (sl_Angle (bs_limits s)));
              age = f32_div (f32_mul seconds 0x447A0000) (f32_of_int (uint (sl_RefreshMs (bs_limits s))))
          in if f32_less_eq 0x3F800000 wrong \<or> f32_less_eq 0x3F800000 age then Some (x, f32_max wrong age) else None)"

text \<open>\<open>kWireBytes\<close>, 32, as a float; the loop over the sorted candidates.\<close>

definition wire_bytes :: float32 where "wire_bytes = 0x42000000"

fun send_within :: "glm \<Rightarrow> u64 \<Rightarrow> (body_frame \<times> float32) list \<Rightarrow> body_sends \<Rightarrow> body_frame list \<times> body_sends" where
  "send_within G tick [] s = ([], s)"
| "send_within G tick ((x, p) # cs) s =
     (if f32_less (bs_allowance s) wire_bytes then ([], s)
      else let y = frame_quantized (gl_frames G) x;
               (due, s) = send_within G tick cs
                 (s\<lparr>bs_allowance := f32_sub (bs_allowance s) wire_bytes, bs_sent := map_put (bf_Key y) (y, tick) (bs_sent s)\<rparr>)
           in (y # due, s))"

text \<open>\<open>std::sort\<close> by falling priority, the order of equals its own, is the parameter \<open>arrange\<close>.\<close>

type_synonym arrange = "(body_frame \<times> float32) list \<Rightarrow> (body_frame \<times> float32) list"

definition arranges :: "arrange \<Rightarrow> bool" where
  "arranges arrange \<longleftrightarrow> (\<forall>cs. mset (arrange cs) = mset cs \<and> sorted_wrt (\<lambda>a b. \<not> f32_less (snd a) (snd b)) (arrange cs))"

definition sends_due :: "glm \<Rightarrow> arrange \<Rightarrow> body_frame list \<Rightarrow> u64 \<Rightarrow> body_sends \<Rightarrow> body_frame list \<times> body_sends" where
  "sends_due G arrange awake tick s =
     (let s = s\<lparr>bs_allowance := refilled tick s, bs_lastTick := tick\<rparr>
      in send_within G tick (arrange (List.map_filter (send_candidate G tick s) awake)) s)"

definition sends_forget :: "body_key \<Rightarrow> body_sends \<Rightarrow> body_sends" where
  "sends_forget k s = s\<lparr>bs_sent := map_erase k (bs_sent s)\<rparr>"

section \<open>Motions\<close>

record motion =
  mo_Velocity :: vec3
  mo_Tick :: u64
  mo_Gravity :: bool

type_synonym motions = "(body_key \<times> motion) list"

definition mark_one :: "glm \<Rightarrow> u64 \<Rightarrow> body_frame \<Rightarrow> motions \<Rightarrow> body_frame \<times> motions" where
  "mark_one G tick x m =
     (case map_of m (bf_Key x) of
        None \<Rightarrow> (x\<lparr>bf_Gravity := False\<rparr>, map_put (bf_Key x) \<lparr>mo_Velocity = bf_LinearVelocity x, mo_Tick = tick, mo_Gravity = False\<rparr> m)
      | Some l \<Rightarrow>
          let l = (if tick > mo_Tick l
                then \<lparr>mo_Velocity = bf_LinearVelocity x, mo_Tick = tick,
                  mo_Gravity = falls_freely G (mo_Velocity l) (bf_LinearVelocity x)
                    (f32_div (f32_of_int (uint (tick - mo_Tick l))) 0x447A0000) world_gravity\<rparr>
                else l)
          in (x\<lparr>bf_Gravity := mo_Gravity l\<rparr>, map_put (bf_Key x) l m))"

fun motions_mark :: "glm \<Rightarrow> u64 \<Rightarrow> body_frame list \<Rightarrow> motions \<Rightarrow> body_frame list \<times> motions" where
  "motions_mark G tick [] m = ([], m)"
| "motions_mark G tick (x # xs) m =
     (let (x, m) = mark_one G tick x m; (xs, m) = motions_mark G tick xs m in (x # xs, m))"

text \<open>\<open>kGuestRadius\<close>, 4096.\<close>

definition near_guest :: "glm \<Rightarrow> body_frame list \<Rightarrow> vec3 option \<Rightarrow> body_frame list" where
  "near_guest G awake guest =
     (case guest of None \<Rightarrow> awake
      | Some at \<Rightarrow> filter (\<lambda>x. f32_less_eq (gl_distance G (bf_Position x) at) 0x45800000) awake)"

section \<open>Frames that wait\<close>

record drive =
  dr_Frame :: body_frame
  dr_Place :: bool

type_synonym pending_drives = "(u32 \<times> (u8 \<times> drive) list) list"

definition pending_put :: "u32 \<Rightarrow> body_frame \<Rightarrow> bool \<Rightarrow> pending_drives \<Rightarrow> pending_drives" where
  "pending_put copy x place m =
     (let m = (if length m \<ge> 512 \<and> map_of m copy = None then [] else m);
          ds = (case map_of m copy of None \<Rightarrow> [] | Some ds \<Rightarrow> ds);
          placed = (case map_of ds (bk_Index (bf_Key x)) of None \<Rightarrow> False | Some d \<Rightarrow> dr_Place d)
      in map_put copy (map_put (bk_Index (bf_Key x)) \<lparr>dr_Frame = x, dr_Place = placed \<or> place\<rparr> ds) m)"

definition pending_take :: "u32 \<Rightarrow> pending_drives \<Rightarrow> drive list \<times> pending_drives" where
  "pending_take copy m =
     (case map_of m copy of None \<Rightarrow> ([], m) | Some ds \<Rightarrow> (map snd ds, map_erase copy m))"

section \<open>What is due\<close>

lemma near_guest_subset: "set (near_guest G awake guest) \<subseteq> set awake"
  by (auto simp: near_guest_def split: option.splits)

lemma send_candidate_frame: "send_candidate G tick s x = Some c \<Longrightarrow> fst c = x"
  by (auto simp: send_candidate_def Let_def split: option.splits if_splits)

lemma quantized_key [simp]: "bf_Key (frame_quantized E x) = bf_Key x"
  by (simp add: frame_quantized_def)

lemma quantized_valid: "frame_valid x \<Longrightarrow> frame_valid (frame_quantized E x)"
  by (simp add: frame_quantized_def frame_valid_def)

lemma send_within_sent:
  assumes "ordered (bs_sent s)" "send_within G tick cs s = (due, s')"
  shows "ordered (bs_sent s') \<and> map_of (bs_sent s') = foldl (\<lambda>v y. v(bf_Key y \<mapsto> (y, tick))) (map_of (bs_sent s)) due \<and>
    set due \<subseteq> frame_quantized (gl_frames G) ` fst ` set cs"
  using assms
proof (induction cs arbitrary: s due s')
  case (Cons c cs)
  show ?case
  proof (cases "f32_less (bs_allowance s) wire_bytes")
    case False
    define y where "y = frame_quantized (gl_frames G) (fst c)"
    define t where "t = s\<lparr>bs_allowance := f32_sub (bs_allowance s) wire_bytes, bs_sent := map_put (bf_Key y) (y, tick) (bs_sent s)\<rparr>"
    obtain rest where r: "send_within G tick cs t = (rest, s')" "due = y # rest"
      using Cons.prems(2) False by (cases c) (auto simp: y_def t_def Let_def split: prod.splits)
    have "ordered (bs_sent t)" "map_of (bs_sent t) = (map_of (bs_sent s))(bf_Key y \<mapsto> (y, tick))"
      using Cons.prems(1) by (simp_all add: t_def ordered_put map_of_put)
    then show ?thesis
      using Cons.IH [OF _ r(1)] r(2) by (auto simp: y_def)
  qed (use Cons.prems in \<open>cases c, auto\<close>)
qed auto

text \<open>The frames due are the first of the sorted candidates, as many as the budget allows.\<close>

lemma send_within_budget:
  "send_within G tick cs s = (due, s') \<Longrightarrow>
     \<exists>n \<le> length cs. due = map (\<lambda>c. frame_quantized (gl_frames G) (fst c)) (take n cs) \<and>
       (n < length cs \<longrightarrow> f32_less (bs_allowance s') wire_bytes)"
proof (induction cs arbitrary: s due)
  case (Cons c cs)
  show ?case
  proof (cases "f32_less (bs_allowance s) wire_bytes")
    case True
    with Cons.prems show ?thesis
      by (cases c) (auto intro!: exI [of _ 0])
  next
    case False
    define y where "y = frame_quantized (gl_frames G) (fst c)"
    obtain rest where r: "due = y # rest" "send_within G tick cs (s\<lparr>bs_allowance := f32_sub (bs_allowance s) wire_bytes,
        bs_sent := map_put (bf_Key y) (y, tick) (bs_sent s)\<rparr>) = (rest, s')"
      using Cons.prems False by (cases c) (auto simp: y_def Let_def split: prod.splits)
    obtain n where "n \<le> length cs" "rest = map (\<lambda>c. frame_quantized (gl_frames G) (fst c)) (take n cs)"
        "n < length cs \<longrightarrow> f32_less (bs_allowance s') wire_bytes"
      using Cons.IH [OF r(2)] by auto
    then show ?thesis
      using r(1) by (intro exI [of _ "Suc n"]) (auto simp: y_def)
  qed
qed auto

end
