(* ===== verification/Host_Physics.thy ===== *)
theory Host_Physics
  imports Body_Guesses Relays
begin

text \<open>
  The host's physics (\<open>Services/Host/HostPhysics\<close>): each guest gets the frames of the awake bodies near its copy that it
  would guess wrong, and everyone where bodies rest.
\<close>

section \<open>State\<close>

text \<open>
  The host's game as this part reads it at an update: the bodies taken (awake and rested), where its copy of a guest's
  character is by player id.
\<close>

record physics_game =
  pg_TakeBodies :: "(body_frame list \<times> body_pose list) option"
  pg_ReadPlayerPosition :: "(u32 \<Rightarrow> vec3 option) option"

record physics =
  ph_motions :: motions
  ph_sends :: "(conn \<times> body_sends) list"
  ph_sentFrames :: "(conn \<times> (body_key \<times> u32) list) list"
  ph_lastTick :: u64

definition new_physics :: physics where
  "new_physics = \<lparr>ph_motions = [], ph_sends = [], ph_sentFrames = [], ph_lastTick = 0\<rparr>"

text \<open>Frames, and rests: an update's, or the host's poses a guest asked for, which come as the same message.\<close>

datatype physics_message = Frames_Due body_frames | Bodies_Rest body_rests

section \<open>An update\<close>

text \<open>\<open>kFramesPerPacket\<close>, 1024 / 32, and \<open>kRestsPerMessage\<close>.\<close>

definition frames_per_packet :: nat where "frames_per_packet = 32"
definition rests_per_message :: nat where "rests_per_message = 1024"

function packets :: "nat \<Rightarrow> 'a list \<Rightarrow> 'a list list" where
  "packets n xs = (if n = 0 \<or> xs = [] then [] else take n xs # packets n (drop n xs))"
  by auto
termination by (relation "measure (length \<circ> snd)") (auto simp: length_greater_0_conv [symmetric] simp del: length_greater_0_conv)

definition sends_of :: "conn \<Rightarrow> physics \<Rightarrow> body_sends" where
  "sends_of c s = (case map_of (ph_sends s) c of None \<Rightarrow> new_sends send_limits | Some x \<Rightarrow> x)"

definition sent_frames_of :: "conn \<Rightarrow> physics \<Rightarrow> (body_key \<times> u32) list" where
  "sent_frames_of c s = (case map_of (ph_sentFrames s) c of None \<Rightarrow> [] | Some m \<Rightarrow> m)"

definition count_frame :: "body_frame \<Rightarrow> (body_key \<times> u32) list \<Rightarrow> (body_key \<times> u32) list" where
  "count_frame x m = map_put (bf_Key x) ((case map_of m (bf_Key x) of None \<Rightarrow> 0 | Some n \<Rightarrow> n) + 1) m"

text \<open>One guest's turn.\<close>

definition to_guest ::
    "glm \<Rightarrow> arrange \<Rightarrow> physics_game \<Rightarrow> host_players \<Rightarrow> u64 \<Rightarrow> body_frame list \<Rightarrow> body_pose list \<Rightarrow> conn \<Rightarrow> physics \<Rightarrow>
       physics \<times> physics_message outbox" where
  "to_guest G arrange g p tick awake rests c s =
     (let keys = map bp_Key rests;
          at = (case pg_ReadPlayerPosition g of None \<Rightarrow> None | Some position \<Rightarrow> position (player_id_of c p));
          (due, sends) = sends_due G arrange (near_guest G awake at) tick (fold sends_forget keys (sends_of c s));
          sent = fold count_frame due (fold map_erase keys (sent_frames_of c s))
      in (s\<lparr>ph_sends := map_put c sends (ph_sends s), ph_sentFrames := map_put c sent (ph_sentFrames s)\<rparr>,
          map (\<lambda>xs. (c, Frames_Due \<lparr>bfs_Tick = tick, bfs_Frames = xs, bfs_Held = False\<rparr>)) (packets frames_per_packet due)))"

fun to_guests ::
    "glm \<Rightarrow> arrange \<Rightarrow> physics_game \<Rightarrow> host_players \<Rightarrow> u64 \<Rightarrow> body_frame list \<Rightarrow> body_pose list \<Rightarrow> conn list \<Rightarrow> physics \<Rightarrow>
       physics \<times> physics_message outbox" where
  "to_guests G arrange g p tick awake rests [] s = (s, [])"
| "to_guests G arrange g p tick awake rests (c # cs) s =
     (let (s, out) = (if c = players_host p then (s, []) else to_guest G arrange g p tick awake rests c s);
          (s, outs) = to_guests G arrange g p tick awake rests cs s
      in (s, out @ outs))"

definition rests_told :: "host_players \<Rightarrow> u64 \<Rightarrow> body_pose list \<Rightarrow> physics_message outbox" where
  "rests_told p tick rests =
     concat (map (\<lambda>xs. send_to_others (Bodies_Rest \<lparr>bre_Tick = tick, bre_Rests = xs\<rparr>) (players_host p) p) (packets rests_per_message rests))"

definition send_bodies :: "glm \<Rightarrow> arrange \<Rightarrow> physics_game \<Rightarrow> host_players \<Rightarrow> u64 \<Rightarrow> physics \<Rightarrow> physics \<times> physics_message outbox" where
  "send_bodies G arrange g p tick s =
     (case pg_TakeBodies g of
        None \<Rightarrow> (s, [])
      | Some (awake, rests) \<Rightarrow>
          if players_host p = 0 then (s, [])
          else let (awake, motions) = motions_mark G tick awake (ph_motions s);
                   s = s\<lparr>ph_motions := fold map_erase (map bp_Key rests) motions\<rparr>;
                   (s, out) = to_guests G arrange g p tick awake rests (connections p) s
               in (s, out @ rests_told p tick rests))"

definition physics_update :: "glm \<Rightarrow> arrange \<Rightarrow> physics_game \<Rightarrow> host_players \<Rightarrow> u64 \<Rightarrow> physics \<Rightarrow> physics \<times> physics_message outbox" where
  "physics_update G arrange g p tick s =
     (let (s, out) = send_bodies G arrange g p tick s in (s\<lparr>ph_lastTick := tick\<rparr>, out))"

text \<open>\<open>ReadBodies\<close> is the host's game's; a pose is asked for its key.\<close>

definition on_pose_asked :: "(body_key list \<Rightarrow> body_pose list) option \<Rightarrow> body_rests \<Rightarrow> conn \<Rightarrow> physics \<Rightarrow> physics_message outbox" where
  "on_pose_asked read q sender s =
     (case read of None \<Rightarrow> []
      | Some bodies \<Rightarrow>
          let poses = bodies (map bp_Key (bre_Rests q))
          in if poses = [] then [] else [(sender, Bodies_Rest \<lparr>bre_Tick = ph_lastTick s, bre_Rests = poses\<rparr>)])"

definition physics_player_left :: "conn \<Rightarrow> physics \<Rightarrow> physics" where
  "physics_player_left c s = s\<lparr>ph_sends := map_erase c (ph_sends s), ph_sentFrames := map_erase c (ph_sentFrames s)\<rparr>"

datatype physics_event =
    Bodies_Read physics_game host_players u64
  | Pose_Asked "(body_key list \<Rightarrow> body_pose list) option" body_rests conn
  | Guest_Gone conn

fun physics_step :: "glm \<Rightarrow> arrange \<Rightarrow> physics_event \<Rightarrow> physics \<Rightarrow> physics \<times> physics_message outbox" where
  "physics_step G arrange (Bodies_Read g p tick) s = physics_update G arrange g p tick s"
| "physics_step G arrange (Pose_Asked read q sender) s = (s, on_pose_asked read q sender s)"
| "physics_step G arrange (Guest_Gone c) s = (physics_player_left c s, [])"

section \<open>The host knows what a guest has\<close>

text \<open>
  A guest that got every message: the last frame it read of a body, with its tick, until it is told where the body rests,
  or asked for its pose and got it.
\<close>

type_synonym guesses = "body_key \<Rightarrow> (body_frame \<times> u64) option"

fun guess_after :: "frame_math \<Rightarrow> physics_message \<Rightarrow> guesses \<Rightarrow> guesses" where
  "guess_after E (Frames_Due x) v =
     (let y = decode (body_frames_deserialize E) (encode (body_frames_serialize E x))
      in foldl (\<lambda>v z. v(bf_Key z \<mapsto> (z, bfs_Tick y))) v (bfs_Frames y))"
| "guess_after E (Bodies_Rest x) v = foldl (\<lambda>v r. v(bp_Key r := None)) v (bre_Rests x)"

definition guesses_after :: "frame_math \<Rightarrow> physics_message list \<Rightarrow> guesses \<Rightarrow> guesses" where
  "guesses_after E ms v = foldl (\<lambda>v m. guess_after E m v) v ms"

lemma guesses_after_append [simp]: "guesses_after E (xs @ ys) v = guesses_after E ys (guesses_after E xs v)"
  by (simp add: guesses_after_def)

lemma guesses_after_Nil [simp]: "guesses_after E [] v = v"
  by (simp add: guesses_after_def)

text \<open>The frames the host keeps of a guest, each as the guest reads it.\<close>

definition kept_as_read :: "frame_math \<Rightarrow> body_sends \<Rightarrow> guesses" where
  "kept_as_read E s k = map_option (\<lambda>(y, t). (as_guessed E y, t)) (map_of (bs_sent s) k)"

text \<open>What is sent is quantized: it is read as it is, but for its rotation.\<close>

definition sendable :: "frame_math \<Rightarrow> body_frame \<Rightarrow> bool" where
  "sendable E y \<longleftrightarrow> frame_valid y \<and> frame_quantized E y = as_guessed E y"

lemma sendable_quantized: "rounds_whole E \<Longrightarrow> frame_valid x \<Longrightarrow> sendable E (frame_quantized E x)"
  by (simp add: sendable_def quantized_valid quantized_again)

declare packets.simps [simp del]

lemma concat_packets: "0 < n \<Longrightarrow> concat (packets n xs) = xs"
  by (induction n xs rule: packets.induct) (subst packets.simps, auto)

lemma packets_small: "xs \<in> set (packets n ys) \<Longrightarrow> length xs \<le> n \<and> set xs \<subseteq> set ys"
proof (induction n ys rule: packets.induct)
  case (1 n ys)
  from 1(2) show ?case
    by (subst (asm) packets.simps) (use 1(1) set_take_subset set_drop_subset in \<open>fastforce split: if_splits\<close>)
qed

lemma foldl_concat: "foldl (\<lambda>v xs. foldl f v xs) v xss = foldl f v (concat xss)"
  by (induction xss arbitrary: v) simp_all

lemma guess_after_frames:
  assumes "list_all (sendable E) xs" "length xs \<le> 4096"
  shows "guess_after E (Frames_Due \<lparr>bfs_Tick = tick, bfs_Frames = xs, bfs_Held = False\<rparr>) v =
    foldl (\<lambda>v z. v(bf_Key z \<mapsto> (as_guessed E z, tick))) v xs"
proof -
  define x where "x = \<lparr>bfs_Tick = tick, bfs_Frames = xs, bfs_Held = False\<rparr>"
  have "list_all frame_valid xs" and same: "map (frame_quantized E) xs = map (as_guessed E) xs"
    using assms(1) by (simp_all add: list_all_iff sendable_def)
  then have "decode (body_frames_deserialize E) (encode (body_frames_serialize E x)) = x\<lparr>bfs_Frames := map (as_guessed E) xs\<rparr>"
    using decode_encode_codes [OF codes_body_frames [of x E], of "[]"] assms(2) by (simp add: x_def)
  then show ?thesis
    by (simp add: x_def Let_def foldl_map as_guessed_def)
qed

lemma foldl_updates:
  "foldl (\<lambda>v z. v(f z \<mapsto> g z)) v zs = v ++ map_of (rev (map (\<lambda>z. (f z, g z)) zs))"
  by (induction zs arbitrary: v) (simp_all add: map_of_append fun_eq_iff map_add_def split: option.splits)

lemma foldl_removes: "foldl (\<lambda>v r. v(f r := None)) v rs = v |` (- f ` set rs)"
  by (induction rs arbitrary: v) (auto simp: restrict_map_def fun_eq_iff)

lemma forgotten:
  "ordered (bs_sent x) \<Longrightarrow> ordered (bs_sent (fold sends_forget ks x)) \<and>
     map_of (bs_sent (fold sends_forget ks x)) = map_of (bs_sent x) |` (- set ks)"
  by (induction ks arbitrary: x) (auto simp: sends_forget_def ordered_erase map_of_erase restrict_map_def fun_eq_iff)

lemma kept_after:
  "map_of (bs_sent y) = foldl (\<lambda>v z. v(bf_Key z \<mapsto> (z, tick))) (map_of (bs_sent x)) due \<Longrightarrow>
     kept_as_read E y = foldl (\<lambda>v z. v(bf_Key z \<mapsto> (as_guessed E z, tick))) (kept_as_read E x) due"
proof -
  have "(\<lambda>k. map_option q (foldl (\<lambda>v z. v(bf_Key z \<mapsto> (z, tick))) h due k)) =
      foldl (\<lambda>v z. v(bf_Key z \<mapsto> q (z, tick))) (\<lambda>k. map_option q (h k)) due" for q :: "body_frame \<times> u64 \<Rightarrow> body_frame \<times> u64" and h
    by (induction due arbitrary: h) (simp_all add: fun_upd_def if_distrib cong: if_cong)
  from this [of "\<lambda>(x, t). (as_guessed E x, t)"]
  show "map_of (bs_sent y) = foldl (\<lambda>v z. v(bf_Key z \<mapsto> (z, tick))) (map_of (bs_sent x)) due \<Longrightarrow>
     kept_as_read E y = foldl (\<lambda>v z. v(bf_Key z \<mapsto> (as_guessed E z, tick))) (kept_as_read E x) due"
    by (simp add: kept_as_read_def [abs_def])
qed

lemma sends_due_sent:
  assumes "arranges arrange" "rounds_whole (gl_frames G)" "list_all frame_valid awake" "ordered (bs_sent x)"
    "sends_due G arrange awake tick x = (due, y)"
  shows "ordered (bs_sent y)" "kept_as_read E y = foldl (\<lambda>v z. v(bf_Key z \<mapsto> (as_guessed E z, tick))) (kept_as_read E x) due"
    "list_all (sendable (gl_frames G)) due" "bf_Key ` set due \<subseteq> bf_Key ` set awake"
proof -
  define x' where "x' = x\<lparr>bs_allowance := refilled tick x, bs_lastTick := tick\<rparr>"
  define cs where "cs = arrange (List.map_filter (send_candidate G tick x') awake)"
  have sent: "send_within G tick cs x' = (due, y)" "ordered (bs_sent x')" "kept_as_read E x' = kept_as_read E x"
    using assms(4,5) by (simp_all add: sends_due_def x'_def cs_def Let_def kept_as_read_def [abs_def])
  have "set cs = set (List.map_filter (send_candidate G tick x') awake)"
    using assms(1) unfolding cs_def arranges_def by (metis set_mset_mset)
  then have "fst ` set cs \<subseteq> set awake"
    by (auto simp: map_filter_def) (metis fst_conv send_candidate_frame)
  moreover note within = send_within_sent [OF sent(2,1)]
  ultimately have due: "set due \<subseteq> frame_quantized (gl_frames G) ` set awake"
    by (meson image_mono order_trans)
  then show "list_all (sendable (gl_frames G)) due" "bf_Key ` set due \<subseteq> bf_Key ` set awake"
    using assms(3) sendable_quantized [OF assms(2)] by (auto simp: list_all_iff)
  show "ordered (bs_sent y)"
    using within by blast
  show "kept_as_read E y = foldl (\<lambda>v z. v(bf_Key z \<mapsto> (as_guessed E z, tick))) (kept_as_read E x) due"
    using kept_after [of y tick x' due E] within sent(3) by simp
qed

lemma guesses_of_packets:
  "list_all (sendable E) due \<Longrightarrow>
     guesses_after E (map (\<lambda>xs. Frames_Due \<lparr>bfs_Tick = tick, bfs_Frames = xs, bfs_Held = False\<rparr>) (packets frames_per_packet due)) v =
     foldl (\<lambda>v z. v(bf_Key z \<mapsto> (as_guessed E z, tick))) v due"
proof -
  assume valid: "list_all (sendable E) due"
  have "guesses_after E (map (\<lambda>xs. Frames_Due \<lparr>bfs_Tick = tick, bfs_Frames = xs, bfs_Held = False\<rparr>) xss) v =
      foldl (\<lambda>v xs. foldl (\<lambda>v z. v(bf_Key z \<mapsto> (as_guessed E z, tick))) v xs) v xss"
    if "\<forall>xs \<in> set xss. list_all (sendable E) xs \<and> length xs \<le> 4096" for xss
    using that by (induction xss arbitrary: v) (simp_all add: guesses_after_def guess_after_frames del: guess_after.simps)
  moreover have "\<forall>xs \<in> set (packets frames_per_packet due). list_all (sendable E) xs \<and> length xs \<le> 4096"
    using valid packets_small [of _ frames_per_packet due] by (fastforce simp: frames_per_packet_def list_all_iff)
  ultimately show ?thesis
    by (simp add: foldl_concat concat_packets frames_per_packet_def)
qed

definition physics_ok :: "physics \<Rightarrow> bool" where
  "physics_ok s \<longleftrightarrow> ordered (ph_sends s) \<and> (\<forall>c. ordered (bs_sent (sends_of c s)))"

lemma sends_of_put:
  fixes d :: conn
  assumes "ordered (ph_sends s)"
  shows "sends_of d (s\<lparr>ph_sends := map_put c x (ph_sends s), ph_sentFrames := m\<rparr>) = (if d = c then x else sends_of d s)"
  using assms by (simp add: sends_of_def map_of_put)

text \<open>A guest's turn tells it its due frames, and the host keeps them; the others' are as they were.\<close>

lemma to_guest_known:
  assumes "arranges arrange" "rounds_whole (gl_frames G)" "list_all frame_valid awake" "physics_ok s" "to_guest G arrange g p tick awake rests c s = (s', out)"
    and "bf_Key ` set awake \<inter> bp_Key ` set rests = {}"
    and E: "E = gl_frames G"
  shows "physics_ok s'" "d \<noteq> c \<Longrightarrow> sends_of d s' = sends_of d s \<and> to_conn d out = []"
    "guesses_after E (to_conn c out) (kept_as_read E (sends_of c s)) |` (- bp_Key ` set rests) = kept_as_read E (sends_of c s')"
proof -
  define at where "at = (case pg_ReadPlayerPosition g of None \<Rightarrow> None | Some position \<Rightarrow> position (player_id_of c p))"
  define x where "x = fold sends_forget (map bp_Key rests) (sends_of c s)"
  obtain due y where due: "sends_due G arrange (near_guest G awake at) tick x = (due, y)"
    by fastforce
  obtain m where s': "s' = s\<lparr>ph_sends := map_put c y (ph_sends s), ph_sentFrames := m\<rparr>"
    and out: "out = map (\<lambda>xs. (c, Frames_Due \<lparr>bfs_Tick = tick, bfs_Frames = xs, bfs_Held = False\<rparr>)) (packets frames_per_packet due)"
    using assms(5) due by (auto simp: to_guest_def Let_def at_def x_def split: prod.splits)
  have x: "ordered (bs_sent x)" "map_of (bs_sent x) = map_of (bs_sent (sends_of c s)) |` (- bp_Key ` set rests)"
    using forgotten [of "sends_of c s" "map bp_Key rests"] assms(4) by (simp_all add: x_def physics_ok_def)
  have near: "list_all frame_valid (near_guest G awake at)" "set (near_guest G awake at) \<subseteq> set awake"
    using assms(3) near_guest_subset [of G awake at] by (auto simp: list_all_iff)
  note sent = sends_due_sent [OF assms(1,2) near(1) x(1) due]
  have sends: "sends_of d s' = (if d = c then y else sends_of d s)" for d
    using assms(4) by (simp add: s' sends_of_put physics_ok_def)
  show "physics_ok s'"
    using assms(4) sent(1) ordered_put [of "ph_sends s" c y]
    by (auto simp: physics_ok_def sends) (simp add: s')
  have to: "to_conn d out = (if d = c then map (\<lambda>xs. Frames_Due \<lparr>bfs_Tick = tick, bfs_Frames = xs, bfs_Held = False\<rparr>) (packets frames_per_packet due) else [])" for d
    by (simp add: out to_conn_def filter_map o_def)
  then show "d \<noteq> c \<Longrightarrow> sends_of d s' = sends_of d s \<and> to_conn d out = []"
    by (simp add: sends)
  have "bf_Key ` set due \<inter> bp_Key ` set rests = {}"
    using sent(4) near(2) assms(6) by fast
  then have "foldl (\<lambda>v z. v(bf_Key z \<mapsto> (as_guessed E z, tick))) v due |` (- bp_Key ` set rests) =
      foldl (\<lambda>v z. v(bf_Key z \<mapsto> (as_guessed E z, tick))) (v |` (- bp_Key ` set rests)) due" for v
    by (induction due arbitrary: v) (auto simp: restrict_fun_upd)
  moreover have "kept_as_read E x = kept_as_read E (sends_of c s) |` (- bp_Key ` set rests)"
    by (auto simp: kept_as_read_def [abs_def] x(2) restrict_map_def)
  ultimately show "guesses_after E (to_conn c out) (kept_as_read E (sends_of c s)) |` (- bp_Key ` set rests) = kept_as_read E (sends_of c s')"
    by (simp add: to guesses_of_packets [OF sent(3)] sent(2) sends E)
qed


lemma to_guests_known:
  assumes "arranges arrange" "rounds_whole (gl_frames G)" "list_all frame_valid awake" "E = gl_frames G" "bf_Key ` set awake \<inter> bp_Key ` set rests = {}"
  shows "physics_ok s \<Longrightarrow> distinct cs \<Longrightarrow> to_guests G arrange g p tick awake rests cs s = (s', out) \<Longrightarrow>
    physics_ok s' \<and>
    (if d \<in> set cs \<and> d \<noteq> players_host p
     then guesses_after E (to_conn d out) (kept_as_read E (sends_of d s)) |` (- bp_Key ` set rests) = kept_as_read E (sends_of d s')
     else sends_of d s' = sends_of d s \<and> to_conn d out = [])"
proof (induction cs arbitrary: s out)
  case (Cons c cs)
  obtain s1 out1 where 1: "(if c = players_host p then (s, []) else to_guest G arrange g p tick awake rests c s) = (s1, out1)"
    by fastforce
  obtain out2 where 2: "to_guests G arrange g p tick awake rests cs s1 = (s', out2)" "out = out1 @ out2"
    using Cons.prems(3) 1 by (simp add: Let_def split: prod.splits)
  have one: "physics_ok s1" "d \<noteq> c \<Longrightarrow> sends_of d s1 = sends_of d s \<and> to_conn d out1 = []"
      "c = players_host p \<Longrightarrow> s1 = s \<and> out1 = []"
      "c \<noteq> players_host p \<Longrightarrow> guesses_after E (to_conn c out1) (kept_as_read E (sends_of c s)) |` (- bp_Key ` set rests) =
         kept_as_read E (sends_of c s1)"
    using 1 Cons.prems(1) to_guest_known [OF assms(1-3) Cons.prems(1) _ assms(5,4), of g p tick c s1 out1]
    by (auto simp: to_conn_def split: if_splits)
  have IH: "physics_ok s' \<and> (if d \<in> set cs \<and> d \<noteq> players_host p
     then guesses_after E (to_conn d out2) (kept_as_read E (sends_of d s1)) |` (- bp_Key ` set rests) = kept_as_read E (sends_of d s')
     else sends_of d s' = sends_of d s1 \<and> to_conn d out2 = [])"
    using Cons.IH [OF one(1) _ 2(1)] Cons.prems(2) by simp
  show ?case
  proof (cases "d = c")
    case True
    with IH one Cons.prems(2) 2(2) show ?thesis
      by (auto simp: to_conn_def)
  next
    case False
    with IH one(2) 2(2) show ?thesis
      by (auto split: if_splits)
  qed
qed (simp add: to_conn_def)

lemma guesses_of_rests:
  "guesses_after E (map (\<lambda>xs. Bodies_Rest \<lparr>bre_Tick = tick, bre_Rests = xs\<rparr>) xss) v = v |` (- bp_Key ` set (concat xss))"
proof (induction xss arbitrary: v)
  case (Cons xs xss)
  have "guesses_after E (map (\<lambda>xs. Bodies_Rest \<lparr>bre_Tick = tick, bre_Rests = xs\<rparr>) (xs # xss)) v =
      guesses_after E (map (\<lambda>xs. Bodies_Rest \<lparr>bre_Tick = tick, bre_Rests = xs\<rparr>) xss) (v |` (- bp_Key ` set xs))"
    by (simp add: guesses_after_def foldl_removes)
  then show ?case
    by (simp only: Cons.IH restrict_restrict) (simp add: image_Un)
qed (simp add: restrict_map_def)

lemma rests_heard:
  assumes "distinct (connections p)"
  shows "guesses_after E (to_conn d (rests_told p tick rests)) v =
    (if d \<in> set (connections p) \<and> d \<noteq> players_host p then v |` (- bp_Key ` set rests) else v)"
proof -
  have "to_conn d (rests_told p tick rests) = (if d \<in> set (connections p) \<and> d \<noteq> players_host p
      then map (\<lambda>xs. Bodies_Rest \<lparr>bre_Tick = tick, bre_Rests = xs\<rparr>) (packets rests_per_message rests) else [])"
  proof -
    have "to_conn d (concat (map (\<lambda>xs. send_to_others (f xs) e p) xss)) =
        (if d \<in> set (connections p) \<and> d \<noteq> e then map f xss else [])" for f :: "body_pose list \<Rightarrow> physics_message" and e xss
    proof (induction xss)
      case (Cons xs xss)
      have "to_conn d (send_to_others (f xs) e p) = (if d \<in> set (connections p) \<and> d \<noteq> e then [f xs] else [])"
        using to_conn_others [OF assms, of d "f xs" e]
        by (cases "d \<in> set (connections p)") (auto simp: to_conn_def send_to_others_def filter_empty_conv)
      with Cons.IH show ?case by simp
    qed (simp add: to_conn_def)
    then show ?thesis
      by (simp add: rests_told_def)
  qed
  then show ?thesis
    by (simp add: guesses_of_rests concat_packets rests_per_message_def)
qed

text \<open>What the host's game reads: bodies that are awake or rest, not both; only an actor is knocked.\<close>

definition bodies_ok :: "physics_event \<Rightarrow> bool" where
  "bodies_ok e =
     (case e of
        Bodies_Read g p tick \<Rightarrow> distinct (connections p) \<and>
          (case pg_TakeBodies g of None \<Rightarrow> True
           | Some (awake, rests) \<Rightarrow> list_all frame_valid awake \<and> bf_Key ` set awake \<inter> bp_Key ` set rests = {})
      | _ \<Rightarrow> True)"

lemma mark_one_frame:
  "mark_one G tick x m = (y, m') \<Longrightarrow> bf_Key y = bf_Key x \<and> frame_valid y = frame_valid x"
  by (auto simp: mark_one_def Let_def frame_valid_def split: option.splits)

lemma motions_mark_frames:
  "motions_mark G tick xs m = (ys, m') \<Longrightarrow> map bf_Key ys = map bf_Key xs \<and> list_all frame_valid ys = list_all frame_valid xs"
proof (induction xs arbitrary: m ys)
  case (Cons x xs)
  then show ?case
    by (auto simp: Let_def split: prod.splits dest: mark_one_frame)
qed simp

lemma ordered_new: "ordered (bs_sent (new_sends l))"
  by (simp add: new_sends_def ordered_def)

lemma last_tick_kept:
  "sends_of c (s\<lparr>ph_lastTick := tick\<rparr>) = sends_of c s" "physics_ok (s\<lparr>ph_lastTick := tick\<rparr>) = physics_ok s"
  by (simp_all add: physics_ok_def sends_of_def)

lemma update_known:
  assumes "arranges arrange" "rounds_whole (gl_frames G)" "physics_ok s" "bodies_ok (Bodies_Read g p tick)"
    "physics_update G arrange g p tick s = (s', out)" "E = gl_frames G"
  shows "physics_ok s' \<and> guesses_after E (to_conn c out) (kept_as_read E (sends_of c s)) = kept_as_read E (sends_of c s')"
proof (cases "pg_TakeBodies g = None \<or> players_host p = 0")
  case True
  then show ?thesis
    using assms(3,5) by (auto simp: physics_update_def send_bodies_def last_tick_kept to_conn_def split: option.splits)
next
  case False
  then obtain awake rests where taken: "pg_TakeBodies g = Some (awake, rests)"
    by (cases "pg_TakeBodies g") auto
  obtain awake' motions where marked: "motions_mark G tick awake (ph_motions s) = (awake', motions)"
    by fastforce
  define s0 where "s0 = s\<lparr>ph_motions := fold map_erase (map bp_Key rests) motions\<rparr>"
  obtain s1 out1 where 1: "to_guests G arrange g p tick awake' rests (connections p) s0 = (s1, out1)"
    by fastforce
  have s': "s' = s1\<lparr>ph_lastTick := tick\<rparr>" "out = out1 @ rests_told p tick rests"
    using assms(5) False taken marked 1 by (auto simp: physics_update_def send_bodies_def s0_def)
  have ok: "list_all frame_valid awake'" "bf_Key ` set awake' \<inter> bp_Key ` set rests = {}" "distinct (connections p)"
    using assms(4) taken motions_mark_frames [OF marked] by (auto simp: bodies_ok_def simp flip: set_map)
  have same: "sends_of c s0 = sends_of c s" "sends_of c s' = sends_of c s1" "physics_ok s0" "physics_ok s' = physics_ok s1" for c
    using assms(3) by (simp_all add: s0_def s'(1) sends_of_def physics_ok_def)
  note known = to_guests_known [OF assms(1,2) ok(1) assms(6) ok(2) same(3) ok(3) 1]
  show ?thesis
    using known [of c] same by (auto simp: s'(2) rests_heard [OF ok(3)] split: if_splits)
qed

text \<open>The bodies whose poses a guest asked the host for, and got.\<close>

fun answered_by :: "conn \<Rightarrow> physics_event \<Rightarrow> body_key list" where
  "answered_by c (Pose_Asked (Some bodies) q d) = (if d = c then map bp_Key (bodies (map bp_Key (bre_Rests q))) else [])"
| "answered_by c _ = []"

definition poses_answered :: "conn \<Rightarrow> physics_event list \<Rightarrow> body_key set" where
  "poses_answered c es = set (concat (map (answered_by c) es))"

text \<open>A guest's guesses are the host's, but for bodies of \<open>A\<close> it may have none of.\<close>

definition agree_but :: "body_key set \<Rightarrow> guesses \<Rightarrow> guesses \<Rightarrow> bool" where
  "agree_but A v h \<longleftrightarrow> (\<forall>k. v k = h k \<or> k \<in> A \<and> v k = None)"

lemma agree_foldl: "agree_but A v h \<Longrightarrow> agree_but A (foldl (\<lambda>v z. v(f z := g z)) v zs) (foldl (\<lambda>v z. v(f z := g z)) h zs)"
  by (induction zs arbitrary: v h) (auto simp: agree_but_def)

lemma agree_after: "agree_but A v h \<Longrightarrow> agree_but A (guesses_after E ms v) (guesses_after E ms h)"
proof (induction ms arbitrary: v h)
  case (Cons m ms)
  have "agree_but A (guess_after E m v) (guess_after E m h)"
    using Cons.prems by (cases m) (simp_all add: Let_def agree_foldl)
  from Cons.IH [OF this] show ?case
    by (simp add: guesses_after_def)
qed (simp add: guesses_after_def)

lemma run_known:
  assumes "arranges arrange" "rounds_whole (gl_frames G)" "E = gl_frames G"
  shows "physics_ok s \<Longrightarrow> list_all bodies_ok es \<Longrightarrow> Guest_Gone c \<notin> set es \<Longrightarrow> poses_answered c es \<subseteq> A \<Longrightarrow>
    agree_but A v (kept_as_read E (sends_of c s)) \<Longrightarrow>
    agree_but A (guesses_after E (to_conn c (snd (run (physics_step G arrange) es s))) v)
      (kept_as_read E (sends_of c (fst (run (physics_step G arrange) es s))))"
proof (induction es arbitrary: s v)
  case (Cons e es)
  obtain s1 out where 1: "physics_step G arrange e s = (s1, out)"
    by fastforce
  have "physics_ok s1 \<and> agree_but A (guesses_after E (to_conn c out) v) (kept_as_read E (sends_of c s1))"
  proof (cases e)
    case (Bodies_Read g p tick)
    have "physics_ok s1 \<and> guesses_after E (to_conn c out) (kept_as_read E (sends_of c s)) = kept_as_read E (sends_of c s1)"
      using 1 Cons.prems(1,2) Bodies_Read by (intro update_known [OF assms(1,2) _ _ _ assms(3)]) simp_all
    then show ?thesis
      using agree_after [OF Cons.prems(5), of E "to_conn c out"] by metis
  next
    case (Pose_Asked read q d)
    have s1: "s1 = s" and out: "out = on_pose_asked read q d s"
      using 1 by (auto simp: Pose_Asked)
    show ?thesis
    proof (cases "d = c \<and> out \<noteq> []")
      case True
      then obtain bodies where b: "read = Some bodies"
        by (auto simp: out on_pose_asked_def split: option.splits)
      let ?poses = "bodies (map bp_Key (bre_Rests q))"
      have told: "to_conn c out = [Bodies_Rest \<lparr>bre_Tick = ph_lastTick s, bre_Rests = ?poses\<rparr>]"
        using True by (auto simp: out b on_pose_asked_def to_conn_def Let_def split: if_splits)
      have "bp_Key ` set ?poses \<subseteq> A"
        using Cons.prems(4) Pose_Asked True b by (auto simp: poses_answered_def)
      then have "agree_but A (v |` (- bp_Key ` set ?poses)) (kept_as_read E (sends_of c s))"
        using Cons.prems(5) by (auto simp: agree_but_def restrict_map_def)
      then show ?thesis
        using Cons.prems(1) by (simp add: told s1 guesses_after_def foldl_removes)
    next
      case False
      then have "to_conn c out = []"
        by (auto simp: out on_pose_asked_def to_conn_def Let_def split: option.splits if_splits)
      then show ?thesis
        using Cons.prems(1,5) by (simp add: s1)
    qed
  next
    case (Guest_Gone d)
    then have "physics_ok s1 \<and> sends_of c s1 = sends_of c s" "out = []"
      using 1 Cons.prems(1,3)
      by (auto simp: physics_player_left_def physics_ok_def sends_of_def map_of_erase ordered_erase ordered_new)
    then show ?thesis
      using Cons.prems(5) by (simp add: to_conn_def)
  qed
  moreover have "poses_answered c es \<subseteq> A"
    using Cons.prems(4) by (auto simp: poses_answered_def)
  ultimately show ?case
    using Cons.IH [of s1 "guesses_after E (to_conn c out) v"] Cons.prems(2,3) 1 by (simp add: run_Cons)
qed (simp add: to_conn_def)

text \<open>
  C8: however the updates, questions and leaves of others go, a guest that stays and gets every message guesses a
  body from a frame exactly when the host keeps one of it for that guest, and then from that frame: sent at the same tick, with the
  same position, velocities and marks to the bit, and the rotation that the kept frame's own, packed once more, unpacks to (the same one
  whenever it packs to itself). Only of a body whose pose it asked for and got may the guest have no guess while the host keeps
  one: the host does not forget it then.
\<close>

theorem host_knows_what_a_guest_has:
  assumes "arranges arrange" "rounds_whole (gl_frames G)" "physics_ok s" "map_of (ph_sends s) c = None" "list_all bodies_ok es"
    and "Guest_Gone c \<notin> set es" "run (physics_step G arrange) es s = (s', out)"
  defines "guess \<equiv> guesses_after (gl_frames G) (to_conn c out) Map.empty" and "kept \<equiv> map_of (bs_sent (sends_of c s'))"
  shows "case kept k of
      None \<Rightarrow> guess k = None
    | Some (y, t) \<Rightarrow> guess k = Some (y\<lparr>bf_Rotation := unpack_rotation (gl_frames G) (pack_rotation (gl_frames G) (bf_Rotation y))\<rparr>, t) \<or>
        guess k = None \<and> k \<in> poses_answered c es"
proof -
  have "kept_as_read (gl_frames G) (sends_of c s) = Map.empty"
    using assms(4) by (simp add: sends_of_def kept_as_read_def [abs_def] new_sends_def)
  then have "agree_but (poses_answered c es) Map.empty (kept_as_read (gl_frames G) (sends_of c s))"
    by (simp add: agree_but_def)
  from run_known [OF assms(1,2) refl assms(3,5,6) order_refl this]
  have "agree_but (poses_answered c es) guess (kept_as_read (gl_frames G) (sends_of c s'))"
    by (simp add: assms(7) guess_def)
  then have "guess k = kept_as_read (gl_frames G) (sends_of c s') k \<or> k \<in> poses_answered c es \<and> guess k = None"
    by (simp add: agree_but_def)
  then show ?thesis
    by (auto simp: kept_as_read_def as_guessed_def kept_def split: option.split)
qed


definition by_priority :: arrange where
  "by_priority = sort_key (\<lambda>c. - f32_key (snd c))"

lemma by_priority_arranges: "arranges by_priority"
proof -
  have "sorted_wrt (\<lambda>a b. \<not> f32_less (snd a) (snd b)) (by_priority cs)" for cs
  proof -
    have "sorted_wrt (\<lambda>a b. - f32_key (snd a) \<le> - f32_key (snd b)) (by_priority cs)"
      using sorted_sort_key [of "\<lambda>c. - f32_key (snd c)" cs] by (simp add: by_priority_def sorted_wrt_map)
    then show ?thesis
      by (rule sorted_wrt_mono_rel [rotated]) (simp add: f32_less_def)
  qed
  then show ?thesis
    by (simp add: arranges_def by_priority_def)
qed

definition example_body :: body_frame where
  "example_body = new_frame\<lparr>bf_Key := \<lparr>bk_Object = no_id, bk_Actor = 9, bk_Index = 1\<rparr>, bf_Knocked := True\<rparr>"

definition example_bodies :: "physics_event list" where
  "example_bodies = [Bodies_Read \<lparr>pg_TakeBodies = Some ([example_body], [\<lparr>bp_Key = bf_Key new_frame, bp_Position = zero_vec3,
      bp_Rotation = bf_Rotation new_frame, bp_Knocked = False\<rparr>]), pg_ReadPlayerPosition = None\<rparr> example_party 100]"

text \<open>Rounding to the nearest whole number, halves away from zero, as \<open>std::llround\<close> does.\<close>

definition round_away :: "float32 \<Rightarrow> int" where
  "round_away f =
     (let n = nat \<bar>f32_mantissa f\<bar>; e = f32_scale f; m = (if 0 \<le> e then n * 2 ^ nat e else (2 * n + 2 ^ nat (- e)) div 2 ^ (nat (- e) + 1))
      in if f32_negative f then - int m else int m)"

definition example_math :: frame_math where
  "example_math = \<lparr>fx_round = round_away, fx_sqrt = id, fx_normalize = id\<rparr>"

lemma example_rounds: "rounds_whole example_math"
  unfolding rounds_whole_def
proof (intro allI impI)
  fix i :: int assume i: "\<bar>i\<bar> \<le> 2 ^ 23"
  show "fx_round example_math (f32_of_int i) = i"
  proof (cases "i = 0")
    case True
    then show ?thesis
      by (simp add: example_math_def round_away_def f32_of_int_def f32_rounds f32_parts)
  next
    case False
    obtain m k where m: "f32_fits m (- int k)" "k \<le> 23" "f32_of_int i = f32_normal (i < 0) m (- int k)" "m = nat \<bar>i\<bar> * 2 ^ k"
      using f32_of_whole [OF False] i by auto
    note parts = f32_normal_parts [OF m(1), of "i < 0", folded m(3)]
    have n: "nat \<bar>f32_mantissa (f32_of_int i)\<bar> = nat \<bar>i\<bar> * 2 ^ k"
    proof -
      have "nat \<bar>if i < 0 then - int m else int m\<bar> = m"
        by simp
      then show ?thesis
        unfolding parts(5) using m(4) by simp
    qed
    have "(2 * (nat \<bar>i\<bar> * 2 ^ k) + 2 ^ k) div 2 ^ (k + 1) = nat \<bar>i\<bar>"
    proof -
      have "2 * (nat \<bar>i\<bar> * 2 ^ k) + 2 ^ k = 2 ^ k + nat \<bar>i\<bar> * 2 ^ (k + 1)"
        by simp
      then show ?thesis
        by (simp only: div_mult_self1) simp
    qed
    then have "(if 0 \<le> - int k then nat \<bar>i\<bar> * 2 ^ k * 2 ^ nat (- int k)
        else (2 * (nat \<bar>i\<bar> * 2 ^ k) + 2 ^ nat (- (- int k))) div 2 ^ (nat (- (- int k)) + 1)) = nat \<bar>i\<bar>"
      by (cases "k = 0") simp_all
    then show ?thesis
      unfolding example_math_def round_away_def frame_math.simps Let_def n parts(1,6) by simp
  qed
qed

text \<open>Then the guest asks for the pose of another body, and gets it.\<close>

definition example_session :: "physics_event list" where
  "example_session = example_bodies @ [Pose_Asked (Some (\<lambda>_. [\<lparr>bp_Key = bf_Key new_frame, bp_Position = zero_vec3,
      bp_Rotation = bf_Rotation new_frame, bp_Knocked = False\<rparr>])) \<lparr>bre_Tick = 100, bre_Rests = []\<rparr> 7]"

lemma host_knows_what_a_guest_has_witness:
  "\<forall>G. \<exists>y. guesses_after example_math (to_conn 7 (snd (run (physics_step (G\<lparr>gl_frames := example_math\<rparr>) by_priority) example_session new_physics)))
      Map.empty (bf_Key example_body) = Some (y, 100)"
proof
  fix G0 :: glm
  define G where "G = G0\<lparr>gl_frames := example_math\<rparr>"
  then have G: "gl_frames G = example_math"
    by simp
  obtain s' out where r: "run (physics_step G by_priority) example_session new_physics = (s', out)"
    by fastforce
  have "map_of (bs_sent (sends_of 7 (fst (run (physics_step G by_priority) example_session new_physics)))) (bf_Key example_body) =
      Some (frame_quantized (gl_frames G) example_body, 100)"
    by (simp add: example_session_def example_bodies_def run_Cons physics_update_def send_bodies_def example_party_def players_host_def connections_def
        mark_one_def to_guest_def sends_due_def send_candidate_def List.map_filter_def new_physics_def sends_of_def near_guest_def
        sends_forget_def map_erase_def by_priority_def new_sends_def send_limits_def refilled_def wire_bytes_def f32_less_def f32_key_def f32_parts
        example_body_def new_frame_def Let_def)
  then have kept: "map_of (bs_sent (sends_of 7 s')) (bf_Key example_body) = Some (frame_quantized (gl_frames G) example_body, 100)"
    by (simp only: r fst_conv)
  have bodies: "physics_ok new_physics" "map_of (ph_sends new_physics) (7 :: conn) = None" "list_all bodies_ok example_session"
      "Guest_Gone 7 \<notin> set example_session"
    by (simp_all add: example_session_def example_bodies_def physics_ok_def new_physics_def sends_of_def new_sends_def ordered_def bodies_ok_def
        example_body_def new_frame_def frame_valid_def example_party_def connections_def)
  have "bf_Key example_body \<notin> poses_answered 7 example_session"
    by (simp add: poses_answered_def example_session_def example_bodies_def example_body_def new_frame_def)
  then show "\<exists>y. guesses_after example_math (to_conn 7 (snd (run (physics_step (G0\<lparr>gl_frames := example_math\<rparr>) by_priority) example_session new_physics)))
      Map.empty (bf_Key example_body) = Some (y, 100)"
    unfolding G_def [symmetric]
    using host_knows_what_a_guest_has [OF by_priority_arranges _ bodies r, of "bf_Key example_body"] kept example_rounds
    by (simp add: G r)
qed

end
