(* ===== verification/Body_Playback.thy ===== *)
theory Body_Playback
  imports Body_Guesses Simulation
begin

text \<open>
  A guest's playback of the host's bodies (\<open>Physics/BodyPlayback\<close>), at a time behind the host's: guesses from frames,
  blended into the next, corrections blended out, and rests placed once.
\<close>

section \<open>State\<close>

text \<open>\<open>kBlendMs\<close>, 100, as a float; \<open>kLostMs\<close>.\<close>

definition blend_ms :: float32 where "blend_ms = 0x42C80000"
definition lost_ms :: u64 where "lost_ms = 2000"

definition no_turn :: quat where "no_turn = \<lparr>q_x = 0, q_y = 0, q_z = 0, q_w = 0x3F800000\<rparr>"

record track =
  tr_Frames :: "(u64 \<times> body_frame) list"
  tr_Rest :: "(u64 \<times> body_pose) option"
  tr_Offset :: vec3
  tr_RotationOffset :: quat
  tr_Started :: bool
  tr_Toward :: u64
  tr_From :: "body_pose option"
  tr_Received :: u32

definition new_track :: track where
  "new_track = \<lparr>tr_Frames = [], tr_Rest = None, tr_Offset = zero_vec3, tr_RotationOffset = no_turn, tr_Started = False, tr_Toward = 0,
     tr_From = None, tr_Received = 0\<rparr>"

record playback =
  pb_tracks :: "(body_key \<times> track) list"
  pb_ended :: "(body_key \<times> u64) list"
  pb_lost :: "(body_key \<times> u32) list"

definition new_playback :: playback where
  "new_playback = \<lparr>pb_tracks = [], pb_ended = [], pb_lost = []\<rparr>"

record shown_pose =
  sp_Body :: body_frame
  sp_Rest :: bool
  sp_Frames :: u32
  sp_Tick :: u64

definition track_of :: "body_key \<Rightarrow> playback \<Rightarrow> track" where
  "track_of k s = (case map_of (pb_tracks s) k of None \<Rightarrow> new_track | Some t \<Rightarrow> t)"

text \<open>What came at or before a body's end is refused.\<close>

definition body_over :: "u64 \<Rightarrow> body_key \<Rightarrow> playback \<Rightarrow> bool" where
  "body_over tick k s \<longleftrightarrow> (case map_of (pb_ended s) k of None \<Rightarrow> False | Some e \<Rightarrow> tick \<le> e)"

section \<open>What comes\<close>

definition play_frame :: "u64 \<Rightarrow> body_frame \<Rightarrow> playback \<Rightarrow> playback" where
  "play_frame tick x s =
     (if body_over tick (bf_Key x) s then s
      else let t = track_of (bf_Key x) s;
               late = (case tr_Rest t of None \<Rightarrow> False | Some (r, _) \<Rightarrow> tick \<le> r) \<or>
                 (tr_Frames t \<noteq> [] \<and> tick \<le> fst (last (tr_Frames t)))
           in s\<lparr>pb_tracks := map_put (bf_Key x)
                (if late then t else t\<lparr>tr_Frames := tr_Frames t @ [(tick, x)], tr_Received := tr_Received t + 1\<rparr>) (pb_tracks s)\<rparr>)"

definition play_frames :: "u64 \<Rightarrow> body_frame list \<Rightarrow> playback \<Rightarrow> playback" where
  "play_frames tick xs s = fold (play_frame tick) xs s"

definition start_from :: "body_pose \<Rightarrow> playback \<Rightarrow> playback" where
  "start_from x s =
     (let t = track_of (bp_Key x) s
      in s\<lparr>pb_tracks := map_put (bp_Key x) (if tr_Started t then t else t\<lparr>tr_From := Some x\<rparr>) (pb_tracks s)\<rparr>)"

definition play_rest :: "u64 \<Rightarrow> body_pose \<Rightarrow> playback \<Rightarrow> playback" where
  "play_rest tick x s =
     (if body_over tick (bp_Key x) s \<or> (case tr_Rest (track_of (bp_Key x) s) of None \<Rightarrow> False | Some (r, _) \<Rightarrow> r > tick) then s
      else s\<lparr>pb_tracks := map_put (bp_Key x) ((track_of (bp_Key x) s)\<lparr>tr_Rest := Some (tick, x)\<rparr>) (pb_tracks s)\<rparr>)"

definition play_rests :: "u64 \<Rightarrow> body_pose list \<Rightarrow> playback \<Rightarrow> playback" where
  "play_rests tick xs s = fold (play_rest tick) xs s"

section \<open>What is shown\<close>

definition blend :: "glm \<Rightarrow> body_frame \<Rightarrow> body_frame \<Rightarrow> float32 \<Rightarrow> body_frame" where
  "blend G a b weight =
     a\<lparr>bf_Position := gl_mix G (bf_Position a) (bf_Position b) weight,
       bf_Rotation := gl_normalize G (gl_slerp G (bf_Rotation a) (bf_Rotation b) weight),
       bf_LinearVelocity := gl_mix G (bf_LinearVelocity a) (bf_LinearVelocity b) weight,
       bf_AngularVelocity := gl_mix G (bf_AngularVelocity a) (bf_AngularVelocity b) weight\<rparr>"

definition ticks_seconds :: "u64 \<Rightarrow> u64 \<Rightarrow> float32" where
  "ticks_seconds a b = (if b \<ge> a then f32_div (f32_of_int (uint (b - a))) 0x447A0000
     else f32_div (f32_neg (f32_of_int (uint (a - b)))) 0x447A0000)"

text \<open>A rest that is due: the frames up to it go, and the rest itself.\<close>

definition track_take_rest :: "u64 \<Rightarrow> track \<Rightarrow> shown_pose option \<times> track" where
  "track_take_rest tick t =
     (case tr_Rest t of
        None \<Rightarrow> (None, t)
      | Some (r, x) \<Rightarrow>
          if r > tick then (None, t)
          else (Some \<lparr>sp_Body = new_frame\<lparr>bf_Key := bp_Key x, bf_Position := bp_Position x, bf_Rotation := bp_Rotation x, bf_Knocked := bp_Knocked x\<rparr>,
                   sp_Rest = True, sp_Frames = tr_Received t, sp_Tick = r\<rparr>,
                t\<lparr>tr_Frames := filter (\<lambda>f. \<not> fst f \<le> r) (tr_Frames t), tr_Rest := None, tr_Started := False, tr_Toward := 0, tr_Received := 0\<rparr>))"

text \<open>To the newest frame that is due: the frames left, the correction left of the old guess, \<open>Toward\<close>.\<close>

fun advance_frames ::
    "glm \<Rightarrow> float32 \<Rightarrow> u64 \<Rightarrow> bool \<Rightarrow> (u64 \<times> body_frame) list \<Rightarrow> vec3 \<Rightarrow> quat \<Rightarrow> u64 \<Rightarrow> (u64 \<times> body_frame) list \<times> vec3 \<times> quat \<times> u64" where
  "advance_frames G gravity tick started ((t0, x0) # (t1, x1) # fs) offset turn toward =
     (if t1 \<le> tick
      then let guess = body_predict G x0 (ticks_seconds t0 t1) gravity;
               (offset, turn) = (if started \<and> toward = 0
                 then (gl_sub G (bf_Position guess) (bf_Position x1), gl_times G (bf_Rotation guess) (gl_inverse G (bf_Rotation x1)))
                 else (zero_vec3, no_turn))
           in advance_frames G gravity tick started ((t1, x1) # fs) offset turn 0
      else ((t0, x0) # (t1, x1) # fs, offset, turn, toward))"
| "advance_frames G gravity tick started fs offset turn toward = (fs, offset, turn, toward)"

definition track_advance :: "glm \<Rightarrow> float32 \<Rightarrow> u64 \<Rightarrow> track \<Rightarrow> track" where
  "track_advance G gravity tick t =
     (let (fs, offset, turn, toward) =
        advance_frames G gravity tick (tr_Started t) (tr_Frames t) (tr_Offset t) (tr_RotationOffset t) (tr_Toward t)
      in t\<lparr>tr_Frames := fs, tr_Offset := offset, tr_RotationOffset := turn, tr_Toward := toward\<rparr>)"

definition track_showing :: "u64 \<Rightarrow> track \<Rightarrow> bool" where
  "track_showing tick t \<longleftrightarrow> tr_Frames t \<noteq> [] \<and> fst (hd (tr_Frames t)) \<le> tick"

definition track_lost :: "u64 \<Rightarrow> track \<Rightarrow> bool" where
  "track_lost tick t \<longleftrightarrow> length (tr_Frames t) = 1 \<and> tick - fst (hd (tr_Frames t)) > lost_ms \<and> tr_Rest t = None"

text \<open>The next frame, or the rest when it is due before it, as it will be at its tick.\<close>

definition next_shown :: "glm \<Rightarrow> float32 \<Rightarrow> u64 \<Rightarrow> track \<Rightarrow> (u64 \<times> body_frame) option" where
  "next_shown G gravity tick t =
     (case tr_Rest t of
        Some (r, x) \<Rightarrow>
          if length (tr_Frames t) < 2 \<or> r < fst (tr_Frames t ! 1)
          then Some (r, new_frame\<lparr>bf_Key := bf_Key (snd (hd (tr_Frames t))), bf_Position := bp_Position x, bf_Rotation := bp_Rotation x\<rparr>)
          else Some (fst (tr_Frames t ! 1), body_predict G (snd (tr_Frames t ! 1)) (ticks_seconds (fst (tr_Frames t ! 1)) tick) gravity)
      | None \<Rightarrow>
          if length (tr_Frames t) \<ge> 2
          then Some (fst (tr_Frames t ! 1), body_predict G (snd (tr_Frames t ! 1)) (ticks_seconds (fst (tr_Frames t ! 1)) tick) gravity)
          else None)"

definition track_show :: "glm \<Rightarrow> float32 \<Rightarrow> u64 \<Rightarrow> track \<Rightarrow> body_frame \<times> track" where
  "track_show G gravity tick t =
     (let (t0, x) = hd (tr_Frames t);
          shown = body_predict G x (ticks_seconds t0 tick) gravity;
          t = (case tr_From t of
              Some from_pose \<Rightarrow>
                if \<not> tr_Started t
                then t\<lparr>tr_From := None, tr_Offset := gl_sub G (bp_Position from_pose) (bf_Position shown),
                  tr_RotationOffset := gl_times G (bp_Rotation from_pose) (gl_inverse G (bf_Rotation shown)), tr_Started := True\<rparr>
                else t\<lparr>tr_From := None\<rparr>
            | None \<Rightarrow> t);
          left = (if tr_Started t
            then f32_sub 0x3F800000 (f32_min 0x3F800000 (f32_div (f32_mul (ticks_seconds t0 tick) 0x447A0000) blend_ms)) else 0);
          shown = (if f32_less 0 left
            then shown\<lparr>bf_Position := gl_add G (bf_Position shown) (gl_scale G (tr_Offset t) left),
              bf_Rotation := gl_normalize G (gl_times G (gl_slerp G no_turn (tr_RotationOffset t) left) (bf_Rotation shown))\<rparr>
            else shown)
      in case next_shown G gravity tick t of
           Some (due, y) \<Rightarrow>
             if tr_Started t
             then let t = (if tr_Toward t = 0 then t\<lparr>tr_Toward := tick\<rparr> else t);
                      span = ticks_seconds (tr_Toward t) due
                  in (blend G shown y (if f32_less 0 span then f32_clamp (f32_div (ticks_seconds (tr_Toward t) tick) span) 0 0x3F800000
                        else 0x3F800000), t\<lparr>tr_Started := True\<rparr>)
             else (shown, t\<lparr>tr_Started := True\<rparr>)
         | None \<Rightarrow> (shown, t\<lparr>tr_Started := True\<rparr>))"

text \<open>One track looked at: what is left of it, the frames it lost, the tick of the rest it took, and what it shows.\<close>

definition track_at ::
    "glm \<Rightarrow> float32 \<Rightarrow> u64 \<Rightarrow> track \<Rightarrow> track option \<times> u32 option \<times> u64 option \<times> shown_pose list" where
  "track_at G gravity tick t =
     (if tick = 0 then (Some t, None, None, [])
      else let (rest, t) = track_take_rest tick t;
               ended = map_option sp_Tick rest;
               rests = (case rest of None \<Rightarrow> [] | Some x \<Rightarrow> [x]);
               t = track_advance G gravity tick t
           in if \<not> track_showing tick t
              then (if tr_Rest t = None \<and> tr_Frames t = [] then None else Some t, None, ended, rests)
              else if track_lost tick t then (None, Some (tr_Received t), ended, rests)
              else let (shown, t) = track_show G gravity tick t
                   in (Some t, None, ended, rests @ [\<lparr>sp_Body = shown, sp_Rest = False, sp_Frames = 0, sp_Tick = 0\<rparr>]))"

definition end_at :: "body_key \<Rightarrow> u64 \<Rightarrow> (body_key \<times> u64) list \<Rightarrow> (body_key \<times> u64) list" where
  "end_at k tick m = map_put k (max (case map_of m k of None \<Rightarrow> 0 | Some e \<Rightarrow> e) tick) m"

fun tracks_at ::
    "glm \<Rightarrow> float32 \<Rightarrow> (body_key \<Rightarrow> u64) \<Rightarrow> (body_key \<times> track) list \<Rightarrow> (body_key \<times> u64) list \<Rightarrow> (body_key \<times> u32) list \<Rightarrow>
       (body_key \<times> track) list \<times> (body_key \<times> u64) list \<times> (body_key \<times> u32) list \<times> shown_pose list" where
  "tracks_at G gravity tick_of [] ended lost = ([], ended, lost, [])"
| "tracks_at G gravity tick_of ((k, t) # ts) ended lost =
     (let (left, gone, rest, poses) = track_at G gravity (tick_of k) t;
          ended = (case rest of None \<Rightarrow> ended | Some r \<Rightarrow> end_at k r ended);
          lost = (case gone of None \<Rightarrow> lost | Some n \<Rightarrow> lost @ [(k, n)]);
          (ts, ended, lost, shown) = tracks_at G gravity tick_of ts ended lost
      in ((case left of None \<Rightarrow> ts | Some t \<Rightarrow> (k, t) # ts), ended, lost, poses @ shown))"

definition playback_at :: "glm \<Rightarrow> (body_key \<Rightarrow> u64) \<Rightarrow> float32 \<Rightarrow> playback \<Rightarrow> playback \<times> shown_pose list" where
  "playback_at G tick_of gravity s =
     (let (ts, ended, lost, shown) = tracks_at G gravity tick_of (pb_tracks s) (pb_ended s) (pb_lost s)
      in (\<lparr>pb_tracks = ts, pb_ended = ended, pb_lost = lost\<rparr>, shown))"

definition playback_forget :: "body_key \<Rightarrow> playback \<Rightarrow> playback" where
  "playback_forget k s = s\<lparr>pb_tracks := map_erase k (pb_tracks s)\<rparr>"

definition forget_until :: "body_key \<Rightarrow> u64 \<Rightarrow> playback \<Rightarrow> playback" where
  "forget_until k tick s = (playback_forget k s)\<lparr>pb_ended := end_at k tick (pb_ended s)\<rparr>"

definition take_lost :: "playback \<Rightarrow> (body_key \<times> u32) list \<times> playback" where
  "take_lost s = (pb_lost s, s\<lparr>pb_lost := []\<rparr>)"


datatype playback_event =
    Frames_Came u64 "body_frame list"
  | Starts_From body_pose
  | Rests_Came u64 "body_pose list"
  | Looked "body_key \<Rightarrow> u64" float32
  | Forgotten body_key
  | Released body_key u64
  | Lost_Taken

fun playback_step :: "glm \<Rightarrow> playback_event \<Rightarrow> playback \<Rightarrow> playback \<times> shown_pose list" where
  "playback_step G (Frames_Came tick xs) s = (play_frames tick xs s, [])"
| "playback_step G (Starts_From x) s = (start_from x s, [])"
| "playback_step G (Rests_Came tick xs) s = (play_rests tick xs s, [])"
| "playback_step G (Looked tick_of gravity) s = playback_at G tick_of gravity s"
| "playback_step G (Forgotten k) s = (playback_forget k s, [])"
| "playback_step G (Released k tick) s = (forget_until k tick s, [])"
| "playback_step G Lost_Taken s = (snd (take_lost s), [])"

section \<open>A body that rested stays\<close>

text \<open>A track's frames follow one another, later than its body's end, and are its body's; so is its rest.\<close>

definition after_end :: "u64 option \<Rightarrow> u64 \<Rightarrow> bool" where
  "after_end e tick \<longleftrightarrow> (case e of None \<Rightarrow> True | Some e \<Rightarrow> e < tick)"

definition track_ok :: "body_key \<Rightarrow> u64 option \<Rightarrow> track \<Rightarrow> bool" where
  "track_ok k e t \<longleftrightarrow> sorted_wrt (<) (map fst (tr_Frames t)) \<and> (\<forall>f \<in> set (tr_Frames t). after_end e (fst f) \<and> bf_Key (snd f) = k) \<and>
     (\<forall>r \<in> set_option (tr_Rest t). after_end e (fst r) \<and> bp_Key (snd r) = k)"

definition playback_ok :: "playback \<Rightarrow> bool" where
  "playback_ok s \<longleftrightarrow> ordered (pb_tracks s) \<and> ordered (pb_ended s) \<and>
     (\<forall>k t. map_of (pb_tracks s) k = Some t \<longrightarrow> track_ok k (map_of (pb_ended s) k) t)"

text \<open>The ticks of a body's rests shown.\<close>

definition rest_ticks :: "body_key \<Rightarrow> shown_pose list \<Rightarrow> u64 list" where
  "rest_ticks k xs = map sp_Tick (filter (\<lambda>x. sp_Rest x \<and> bf_Key (sp_Body x) = k) xs)"

lemma rest_ticks_append [simp]: "rest_ticks k (xs @ ys) = rest_ticks k xs @ rest_ticks k ys"
  by (simp add: rest_ticks_def)

lemma rest_ticks_Nil [simp]: "rest_ticks k [] = []"
  by (simp add: rest_ticks_def)

lemma new_track_ok: "track_ok k e new_track"
  by (simp add: track_ok_def new_track_def)

lemma track_of_ok: "playback_ok s \<Longrightarrow> track_ok k (map_of (pb_ended s) k) (track_of k s)"
  unfolding track_of_def playback_ok_def
  by (cases "map_of (pb_tracks s) k") (simp_all only: option.case new_track_ok simp_thms)

lemma put_track_ok:
  "playback_ok s \<Longrightarrow> track_ok k (map_of (pb_ended s) k) t \<Longrightarrow> playback_ok (s\<lparr>pb_tracks := map_put k t (pb_tracks s)\<rparr>)"
  by (simp add: playback_ok_def ordered_put map_of_put)

lemma after_end_over: "after_end (map_of (pb_ended s) k) tick \<longleftrightarrow> \<not> body_over tick k s"
  by (auto simp: after_end_def body_over_def split: option.splits)

lemma play_frame_ok: "playback_ok s \<Longrightarrow> playback_ok (play_frame tick x s) \<and> pb_ended (play_frame tick x s) = pb_ended s"
proof (cases "body_over tick (bf_Key x) s")
  case False
  define t where "t = track_of (bf_Key x) s"
  define late where "late = ((case tr_Rest t of None \<Rightarrow> False | Some (r, _) \<Rightarrow> tick \<le> r) \<or> (tr_Frames t \<noteq> [] \<and> tick \<le> fst (last (tr_Frames t))))"
  assume ok: "playback_ok s"
  then have t: "track_ok (bf_Key x) (map_of (pb_ended s) (bf_Key x)) t"
    by (simp add: t_def track_of_ok)
  have "map fst (tr_Frames t) = [] \<or> (\<forall>u \<in> set (map fst (tr_Frames t)). u \<le> fst (last (tr_Frames t)))"
    using t by (cases "tr_Frames t" rule: rev_cases) (auto simp: track_ok_def sorted_wrt_append intro: less_imp_le)
  then have "track_ok (bf_Key x) (map_of (pb_ended s) (bf_Key x))
      (if late then t else t\<lparr>tr_Frames := tr_Frames t @ [(tick, x)], tr_Received := tr_Received t + 1\<rparr>)"
    using t False by (auto simp: track_ok_def late_def sorted_wrt_append after_end_over)
  moreover have "play_frame tick x s = s\<lparr>pb_tracks := map_put (bf_Key x)
      (if late then t else t\<lparr>tr_Frames := tr_Frames t @ [(tick, x)], tr_Received := tr_Received t + 1\<rparr>) (pb_tracks s)\<rparr>"
    using False by (simp only: play_frame_def if_False Let_def t_def late_def)
  ultimately show ?thesis
    using ok by (simp add: put_track_ok)
qed (simp add: play_frame_def)

lemma play_frames_ok: "playback_ok s \<Longrightarrow> playback_ok (play_frames tick xs s) \<and> pb_ended (play_frames tick xs s) = pb_ended s"
  unfolding play_frames_def by (induction xs arbitrary: s) (auto simp: play_frame_ok)

lemma start_from_ok: "playback_ok s \<Longrightarrow> playback_ok (start_from x s) \<and> pb_ended (start_from x s) = pb_ended s"
proof -
  assume ok: "playback_ok s"
  then have "track_ok (bp_Key x) (map_of (pb_ended s) (bp_Key x))
      (if tr_Started (track_of (bp_Key x) s) then track_of (bp_Key x) s else (track_of (bp_Key x) s)\<lparr>tr_From := Some x\<rparr>)"
    using track_of_ok [OF ok, of "bp_Key x"] by (simp add: track_ok_def)
  with ok show ?thesis
    by (simp add: start_from_def Let_def put_track_ok)
qed

lemma play_rest_ok: "playback_ok s \<Longrightarrow> playback_ok (play_rest tick x s) \<and> pb_ended (play_rest tick x s) = pb_ended s"
proof -
  assume ok: "playback_ok s"
  have "track_ok (bp_Key x) (map_of (pb_ended s) (bp_Key x)) ((track_of (bp_Key x) s)\<lparr>tr_Rest := Some (tick, x)\<rparr>)"
    if "\<not> body_over tick (bp_Key x) s"
    using track_of_ok [OF ok, of "bp_Key x"] that by (simp add: track_ok_def after_end_over)
  with ok show ?thesis
    by (simp add: play_rest_def put_track_ok)
qed

lemma play_rests_ok: "playback_ok s \<Longrightarrow> playback_ok (play_rests tick xs s) \<and> pb_ended (play_rests tick xs s) = pb_ended s"
  unfolding play_rests_def by (induction xs arbitrary: s) (auto simp: play_rest_ok)

lemma advance_frames_drop: "\<exists>n. fst (advance_frames G gravity tick started fs offset turn toward) = drop n fs"
proof (induction G gravity tick started fs offset turn toward rule: advance_frames.induct)
  case (1 G gravity tick started t0 x0 t1 x1 fs offset turn toward)
  show ?case
  proof (cases "t1 \<le> tick")
    case True
    with 1 show ?thesis
      by (auto simp: Let_def split: prod.splits if_splits) (metis drop_Suc_Cons)+
  qed (auto intro: exI [of _ 0])
qed (auto intro: exI [of _ 0])

lemma track_ok_frames:
  "track_ok k e t \<Longrightarrow> tr_Frames t' = drop n (tr_Frames t) \<Longrightarrow> tr_Rest t' = tr_Rest t \<Longrightarrow> track_ok k e t'"
  by (auto simp: track_ok_def sorted_wrt_drop simp flip: drop_map dest: in_set_dropD)

lemma track_advance_ok: "track_ok k e t \<Longrightarrow> track_ok k e (track_advance G gravity tick t)"
  using advance_frames_drop [of G gravity tick "tr_Started t" "tr_Frames t" "tr_Offset t" "tr_RotationOffset t" "tr_Toward t"]
  by (auto simp: track_advance_def Let_def split: prod.splits intro: track_ok_frames [where n = n for n])

lemma track_show_ok: "track_ok k e t \<Longrightarrow> track_show G gravity tick t = (x, t') \<Longrightarrow> track_ok k e t'"
  by (rule track_ok_frames [of k e t t' 0]) (auto simp: track_show_def Let_def split: prod.splits option.splits if_splits)


section \<open>What a look does\<close>

lemma take_rest_ok:
  assumes "track_ok k e t" "track_take_rest tick t = (rest, t')"
  shows "case rest of None \<Rightarrow> t' = t
    | Some x \<Rightarrow> sp_Rest x \<and> bf_Key (sp_Body x) = k \<and> after_end e (sp_Tick x) \<and> track_ok k (Some (sp_Tick x)) t'"
proof (cases "tr_Rest t")
  case None
  with assms(2) show ?thesis
    by (auto simp: track_take_rest_def)
next
  case (Some rx)
  then have "after_end e (fst rx)" "bp_Key (snd rx) = k"
    using assms(1) by (simp_all add: track_ok_def)
  moreover have "sorted_wrt (<) (map fst (filter (\<lambda>f. \<not> fst f \<le> fst rx) (tr_Frames t)))"
    using assms(1) by (simp add: track_ok_def sorted_wrt_map sorted_wrt_filter)
  ultimately show ?thesis
    using assms Some by (cases rx) (auto simp: track_take_rest_def track_ok_def after_end_def split: if_splits)
qed

definition ended_after :: "u64 option \<Rightarrow> u64 option \<Rightarrow> u64 option" where
  "ended_after e rest = (case rest of None \<Rightarrow> e | Some r \<Rightarrow> Some r)"

lemma track_at_ok:
  assumes "track_ok k e t" "track_at G gravity tick t = (left, gone, rest, poses)"
  shows "rest_ticks k poses = (case rest of None \<Rightarrow> [] | Some r \<Rightarrow> [r])" "\<forall>r \<in> set_option rest. after_end e r"
    "\<forall>t' \<in> set_option left. track_ok k (ended_after e rest) t'" "j \<noteq> k \<Longrightarrow> rest_ticks j poses = []"
proof -
  obtain x t1 where 1: "track_take_rest tick t = (x, t1)"
    by fastforce
  define t2 where "t2 = track_advance G gravity tick t1"
  note taken = take_rest_ok [OF assms(1) 1]
  then have t2: "track_ok k (ended_after e (map_option sp_Tick x)) t2"
    using assms(1) by (cases x) (simp_all add: t2_def track_advance_ok ended_after_def)
  obtain y t3 where 3: "track_show G gravity tick t2 = (y, t3)"
    by fastforce
  have t3: "track_ok k (ended_after e (map_option sp_Tick x)) t3"
    using track_show_ok [OF t2 3] .
  have cases: "rest = None \<and> left = Some t \<and> poses = [] \<or>
      rest = map_option sp_Tick x \<and> (left = None \<or> left = Some t2 \<or> left = Some t3) \<and>
        (\<exists>ps. poses = (case x of None \<Rightarrow> [] | Some x \<Rightarrow> [x]) @ ps \<and> (\<forall>p \<in> set ps. \<not> sp_Rest p))"
    using assms(2) 1 3 unfolding track_at_def Let_def
    by (cases "tick = 0"; cases "track_showing tick t2"; cases "track_lost tick t2") (auto simp flip: t2_def split: if_splits)
  have rests: "rest_ticks j (case x of None \<Rightarrow> [] | Some x \<Rightarrow> [x]) = (if j = k then (case x of None \<Rightarrow> [] | Some x \<Rightarrow> [sp_Tick x]) else [])" for j
    using taken by (cases x) (simp_all add: rest_ticks_def)
  have moving: "\<forall>p \<in> set ps. \<not> sp_Rest p \<Longrightarrow> rest_ticks j ps = []" for j ps
    by (simp add: rest_ticks_def filter_empty_conv)
  consider "rest = None" "poses = []"
    | ps where "rest = map_option sp_Tick x" "poses = (case x of None \<Rightarrow> [] | Some x \<Rightarrow> [x]) @ ps" "\<forall>p \<in> set ps. \<not> sp_Rest p"
    using cases by blast
  then have "rest_ticks k poses = (case rest of None \<Rightarrow> [] | Some r \<Rightarrow> [r]) \<and> (j \<noteq> k \<longrightarrow> rest_ticks j poses = [])"
    by cases (simp_all add: rests moving split: option.split)
  then show "rest_ticks k poses = (case rest of None \<Rightarrow> [] | Some r \<Rightarrow> [r])" "j \<noteq> k \<Longrightarrow> rest_ticks j poses = []"
    by simp_all
  from cases show "\<forall>r \<in> set_option rest. after_end e r"
    using taken by (cases x) auto
  from cases show "\<forall>t' \<in> set_option left. track_ok k (ended_after e rest) t'"
    using assms(1) t2 t3 by (auto simp: ended_after_def)
qed


text \<open>The end of a body moves on with its rest.\<close>

lemma end_at_later: "after_end (map_of m k) r \<Longrightarrow> ordered m \<Longrightarrow> ordered (end_at k r m) \<and> map_of (end_at k r m) = (map_of m)(k \<mapsto> r)"
  by (cases "map_of m k") (auto simp: end_at_def after_end_def ordered_put map_of_put max_def)

lemma tracks_at_ok:
  "ordered ts \<Longrightarrow> ordered ended \<Longrightarrow> \<forall>(k, t) \<in> set ts. track_ok k (map_of ended k) t \<Longrightarrow>
     tracks_at G gravity tick_of ts ended lost = (ts', ended', lost', poses) \<Longrightarrow>
   ordered ts' \<and> fst ` set ts' \<subseteq> fst ` set ts \<and> ordered ended' \<and> (\<forall>(k, t) \<in> set ts'. track_ok k (map_of ended' k) t) \<and>
     (\<forall>k. k \<notin> fst ` set ts \<longrightarrow> map_of ended' k = map_of ended k) \<and>
     (\<forall>k. rest_ticks k poses = [] \<and> map_of ended' k = map_of ended k \<or>
        (\<exists>r. rest_ticks k poses = [r] \<and> k \<in> fst ` set ts \<and> after_end (map_of ended k) r \<and> map_of ended' k = Some r))"
proof (induction ts arbitrary: ended lost ts' poses)
  case (Cons kt ts)
  obtain k t where kt: "kt = (k, t)" by fastforce
  obtain left gone rest ps where 1: "track_at G gravity (tick_of k) t = (left, gone, rest, ps)"
    by (metis prod_cases4)
  have t: "track_ok k (map_of ended k) t"
    using Cons.prems(3) kt by simp
  note at = track_at_ok [OF t 1]
  define e1 where "e1 = (case rest of None \<Rightarrow> ended | Some r \<Rightarrow> end_at k r ended)"
  define l1 where "l1 = (case gone of None \<Rightarrow> lost | Some n \<Rightarrow> lost @ [(k, n)])"
  have e1: "ordered e1" "map_of e1 k = ended_after (map_of ended k) rest" "j \<noteq> k \<Longrightarrow> map_of e1 j = map_of ended j" for j
    using end_at_later [of ended k] at(2) Cons.prems(2) by (cases rest; simp add: e1_def ended_after_def)+
  obtain ts2 ps2 where 2: "tracks_at G gravity tick_of ts e1 l1 = (ts2, ended', lost', ps2)"
    and ts': "ts' = (case left of None \<Rightarrow> ts2 | Some t \<Rightarrow> (k, t) # ts2)" and poses: "poses = ps @ ps2"
    using Cons.prems(4) 1 kt by (auto simp: Let_def e1_def l1_def split: prod.splits)
  have others: "\<forall>j \<in> fst ` set ts. k < j"
    using Cons.prems(1) kt by (auto simp: ordered_def)
  then have "\<forall>(j, u) \<in> set ts. track_ok j (map_of e1 j) u"
    using Cons.prems(3) kt e1(3) by fastforce
  then have IH: "ordered ts2 \<and> fst ` set ts2 \<subseteq> fst ` set ts \<and> ordered ended' \<and> (\<forall>(k, t) \<in> set ts2. track_ok k (map_of ended' k) t) \<and>
     (\<forall>k. k \<notin> fst ` set ts \<longrightarrow> map_of ended' k = map_of e1 k) \<and>
     (\<forall>k. rest_ticks k ps2 = [] \<and> map_of ended' k = map_of e1 k \<or>
        (\<exists>r. rest_ticks k ps2 = [r] \<and> k \<in> fst ` set ts \<and> after_end (map_of e1 k) r \<and> map_of ended' k = Some r))"
    using Cons.IH [OF _ e1(1) _ 2] Cons.prems(1) kt by (simp add: ordered_def)
  have k: "map_of ended' k = map_of e1 k" "rest_ticks k ps2 = []"
    using IH others by auto
  have "\<forall>j \<in> fst ` set ts2. k < j"
    using IH others by blast
  then have "ordered ts'" "fst ` set ts' \<subseteq> fst ` set (kt # ts)"
    using IH kt ts' by (auto simp: ordered_def split: option.splits)
  moreover have "\<forall>(j, u) \<in> set ts'. track_ok j (map_of ended' j) u"
    using IH at(3) k(1) e1(2) by (auto simp: ts' split: option.splits)
  moreover have "\<forall>j. j \<notin> fst ` set (kt # ts) \<longrightarrow> map_of ended' j = map_of ended j"
    using IH e1(3) kt by simp
  moreover have "rest_ticks j poses = [] \<and> map_of ended' j = map_of ended j \<or>
      (\<exists>r. rest_ticks j poses = [r] \<and> j \<in> fst ` set (kt # ts) \<and> after_end (map_of ended j) r \<and> map_of ended' j = Some r)" for j
  proof (cases "j = k")
    case True
    then show ?thesis
      using k e1(2) at(1,2) kt by (cases rest) (simp_all add: poses ended_after_def)
  next
    case False
    have "rest_ticks j ps2 = [] \<and> map_of ended' j = map_of e1 j \<or>
        (\<exists>r. rest_ticks j ps2 = [r] \<and> j \<in> fst ` set ts \<and> after_end (map_of e1 j) r \<and> map_of ended' j = Some r)"
      using IH by blast
    with False show ?thesis
      using e1(3) [of j] at(4) [of j] kt by (auto simp: poses)
  qed
  ultimately show ?case
    using IH by blast
qed simp


section \<open>Over a run\<close>

text \<open>A body's end has passed a tick.\<close>

definition ended_by :: "body_key \<Rightarrow> playback \<Rightarrow> u64 \<Rightarrow> bool" where
  "ended_by k s r \<longleftrightarrow> (\<exists>e. map_of (pb_ended s) k = Some e \<and> r \<le> e)"

definition released :: "body_key \<Rightarrow> playback_event list \<Rightarrow> u64 list" where
  "released k es = concat (map (\<lambda>e. case e of Released j tick \<Rightarrow> if j = k then [tick] else [] | _ \<Rightarrow> []) es)"

lemma end_at_max:
  "ordered m \<Longrightarrow> ordered (end_at k tick m) \<and>
     map_of (end_at k tick m) = (map_of m)(k \<mapsto> max (case map_of m k of None \<Rightarrow> 0 | Some e \<Rightarrow> e) tick)"
  by (simp add: end_at_def ordered_put map_of_put)

lemma track_ok_erased: "playback_ok s \<Longrightarrow> playback_ok (playback_forget k s)"
  by (simp add: playback_ok_def playback_forget_def ordered_erase map_of_erase)

lemma forget_until_ok: "playback_ok s \<Longrightarrow> playback_ok (forget_until k tick s)"
  using end_at_max [of "pb_ended s" k tick]
  by (simp add: playback_ok_def forget_until_def playback_forget_def ordered_erase map_of_erase)

lemma looked_ok:
  assumes "playback_ok s" "playback_at G tick_of gravity s = (s', out)"
  shows "playback_ok s' \<and> (rest_ticks k out = [] \<and> map_of (pb_ended s') k = map_of (pb_ended s) k \<or>
    (\<exists>r. rest_ticks k out = [r] \<and> after_end (map_of (pb_ended s) k) r \<and> map_of (pb_ended s') k = Some r))"
proof -
  obtain ts ended lost where at: "tracks_at G gravity tick_of (pb_tracks s) (pb_ended s) (pb_lost s) = (ts, ended, lost, out)"
    and s': "s' = \<lparr>pb_tracks = ts, pb_ended = ended, pb_lost = lost\<rparr>"
    using assms(2) by (auto simp: playback_at_def split: prod.splits)
  have "\<forall>(k, t) \<in> set (pb_tracks s). track_ok k (map_of (pb_ended s) k) t"
    using assms(1) by (auto simp: playback_ok_def ordered_def strict_sorted_iff)
  then have "ordered ts \<and> ordered ended \<and> (\<forall>(k, t) \<in> set ts. track_ok k (map_of ended k) t) \<and>
     (rest_ticks k out = [] \<and> map_of ended k = map_of (pb_ended s) k \<or>
        (\<exists>r. rest_ticks k out = [r] \<and> after_end (map_of (pb_ended s) k) r \<and> map_of ended k = Some r))"
    using tracks_at_ok [OF _ _ _ at] assms(1) unfolding playback_ok_def by blast
  moreover from this have "\<forall>k t. map_of ts k = Some t \<longrightarrow> track_ok k (map_of ended k) t"
    by (auto dest!: map_of_SomeD)
  ultimately show ?thesis
    by (simp add: s' playback_ok_def)
qed

lemma lost_taken_ok: "playback_ok (snd (take_lost s)) = playback_ok s"
  by (simp add: take_lost_def playback_ok_def)

lemma ended_kept: "pb_ended (playback_forget k s) = pb_ended s" "pb_ended (snd (take_lost s)) = pb_ended s"
  by (simp_all add: playback_forget_def take_lost_def)

lemma quiet_step:
  assumes "playback_ok s" "playback_step G e s = (s', out)" "\<And>f g. e \<noteq> Looked f g" "\<And>j t. e \<noteq> Released j t"
  shows "playback_ok s' \<and> out = [] \<and> pb_ended s' = pb_ended s \<and> released k [e] = []"
  using assms
  by (cases e) (auto simp: released_def play_frames_ok play_rests_ok start_from_ok track_ok_erased lost_taken_ok ended_kept)

lemma step_ok:
  assumes "playback_ok s" "playback_step G e s = (s', out)"
  shows "playback_ok s'" "sorted_wrt (<) (rest_ticks k out)" "\<forall>r \<in> set (rest_ticks k out). after_end (map_of (pb_ended s) k) r"
    "\<forall>r \<in> set (rest_ticks k out @ released k [e]). ended_by k s' r" "ended_by k s r \<Longrightarrow> ended_by k s' r"
proof -
  consider "playback_ok s'" "rest_ticks k out = []" "released k [e] = []" "map_of (pb_ended s') k = map_of (pb_ended s) k"
    | t where "playback_ok s'" "rest_ticks k out = [t]" "released k [e] = []" "after_end (map_of (pb_ended s) k) t"
        "map_of (pb_ended s') k = Some t"
    | t where "playback_ok s'" "rest_ticks k out = []" "released k [e] = [t]"
        "map_of (pb_ended s') k = Some (max (case map_of (pb_ended s) k of None \<Rightarrow> 0 | Some e \<Rightarrow> e) t)"
  proof (cases e)
    case (Looked tick_of gravity)
    with assms(2) have at: "playback_at G tick_of gravity s = (s', out)"
      by simp
    have "released k [e] = []"
      by (simp add: released_def Looked)
    with looked_ok [OF assms(1) at, of k] that show ?thesis
      by blast
  next
    case (Released j tick)
    with assms(2) have s': "s' = forget_until j tick s" "out = []"
      by simp_all
    have "map_of (pb_ended s') = (map_of (pb_ended s))(j \<mapsto> max (case map_of (pb_ended s) j of None \<Rightarrow> 0 | Some e \<Rightarrow> e) tick)"
      using end_at_max [of "pb_ended s" j tick] assms(1) by (simp add: s' forget_until_def playback_forget_def playback_ok_def)
    with forget_until_ok [OF assms(1), of j tick] that s' Released show ?thesis
      by (cases "j = k") (simp_all add: released_def)
  qed (use quiet_step [OF assms, of k] that(1) in simp_all)
  then have "playback_ok s' \<and> sorted_wrt (<) (rest_ticks k out) \<and> (\<forall>r \<in> set (rest_ticks k out). after_end (map_of (pb_ended s) k) r) \<and>
    (\<forall>r \<in> set (rest_ticks k out @ released k [e]). ended_by k s' r) \<and> (ended_by k s r \<longrightarrow> ended_by k s' r)"
    by cases (auto simp: ended_by_def after_end_def max_def)
  then show "playback_ok s'" "sorted_wrt (<) (rest_ticks k out)" "\<forall>r \<in> set (rest_ticks k out). after_end (map_of (pb_ended s) k) r"
    "\<forall>r \<in> set (rest_ticks k out @ released k [e]). ended_by k s' r" "ended_by k s r \<Longrightarrow> ended_by k s' r"
    by blast+
qed


lemma run_playback:
  "playback_ok s \<Longrightarrow> run (playback_step G) es s = (s', out) \<Longrightarrow>
     playback_ok s' \<and> sorted_wrt (<) (rest_ticks k out) \<and> (\<forall>r \<in> set (rest_ticks k out). after_end (map_of (pb_ended s) k) r) \<and>
     (\<forall>r \<in> set (rest_ticks k out @ released k es). ended_by k s' r) \<and> (\<forall>r. ended_by k s r \<longrightarrow> ended_by k s' r)"
proof (induction es arbitrary: s out)
  case Nil
  then show ?case
    by (simp add: released_def)
next
  case (Cons e es)
  obtain s1 out1 where 1: "playback_step G e s = (s1, out1)" by fastforce
  obtain out2 where 2: "run (playback_step G) es s1 = (s', out2)" "out = out1 @ out2"
    using Cons.prems(2) 1 by (simp add: run.simps(2) split: prod.splits)
  note step = step_ok [OF Cons.prems(1) 1]
  note IH = Cons.IH [OF step(1) 2(1)]
  have before: "after_end (map_of (pb_ended s) k) r" if "after_end (map_of (pb_ended s1) k) r" for r
  proof (cases "map_of (pb_ended s) k")
    case (Some e)
    then have "ended_by k s1 e"
      by (intro step(5)) (simp add: ended_by_def)
    with that Some show ?thesis
      by (auto simp: after_end_def ended_by_def)
  qed (simp add: after_end_def)
  have later: "r1 < r2" if "r2 \<in> set (rest_ticks k out2)" "ended_by k s1 r1" for r1 r2
  proof -
    have "after_end (map_of (pb_ended s1) k) r2"
      using IH that(1) by blast
    with that(2) show ?thesis
      by (auto simp: after_end_def ended_by_def)
  qed
  have "released k (e # es) = released k [e] @ released k es"
    by (simp add: released_def)
  with IH step(4,5) have ended: "\<forall>r \<in> set (rest_ticks k out @ released k (e # es)). ended_by k s' r"
    using 2(2) by auto
  have "sorted_wrt (<) (rest_ticks k out)"
    using IH step(2,4) later by (auto simp: 2(2) sorted_wrt_append)
  moreover have "\<forall>r \<in> set (rest_ticks k out). after_end (map_of (pb_ended s) k) r"
    using IH step(3) before by (auto simp: 2(2))
  ultimately show ?case
    using IH step(5) ended by blast
qed

text \<open>A body's rests shown have rising ticks, and all that waits for it is later than a tick.\<close>

definition only_later :: "body_key \<Rightarrow> playback \<Rightarrow> u64 \<Rightarrow> bool" where
  "only_later k s r \<longleftrightarrow> (\<forall>f \<in> set (tr_Frames (track_of k s)). r < fst f) \<and> (\<forall>f \<in> set_option (tr_Rest (track_of k s)). r < fst f)"

text \<open>
  C18: whatever frames and rests come in whatever order, a body is placed at rest at rising times, each at most once,
  and once it was placed at one, or its release was applied, no frame or rest of that time or before is played for it any more;
  the frames that wait for it are in the order of their times.
\<close>

theorem bodies_play_on:
  "(case run (playback_step G) es new_playback of (s, shown) \<Rightarrow>
     sorted_wrt (<) (rest_ticks k shown) \<and> list_all (only_later k s) (rest_ticks k shown @ released k es) \<and>
     sorted_wrt (<) (map fst (tr_Frames (track_of k s))))"
proof -
  obtain s shown where run: "run (playback_step G) es new_playback = (s, shown)" by fastforce
  have "playback_ok new_playback"
    by (simp add: playback_ok_def new_playback_def ordered_def)
  note ok = run_playback [OF this run, of k]
  then have t: "track_ok k (map_of (pb_ended s) k) (track_of k s)"
    using track_of_ok by blast
  have "only_later k s r" if "ended_by k s r" for r
    using that t by (fastforce simp: only_later_def ended_by_def track_ok_def after_end_def)
  with ok t show ?thesis
    by (auto simp: run list_all_iff track_ok_def)
qed

end
