(* ===== verification/Character_Saves.thy ===== *)
theory Character_Saves
  imports Character_Record Whole_Bytes
begin

text \<open>
  The players' characters a save keeps (\<open>Services/CharacterRecords\<close>), by key, with the story's spells: kept by the host's game
  from its guests, written into its saves and read from them.
\<close>

section \<open>State\<close>

text \<open>\<open>m_storySpells\<close> is an unordered map: its entries in the order they were put in, which means nothing to the code.\<close>

record character_records =
  cr_records :: "(string \<times> player_record) list"
  cr_storySpells :: "(game_id \<times> bool) list"

definition no_records :: character_records where
  "no_records = \<lparr>cr_records = [], cr_storySpells = []\<rparr>"

definition records_version :: u32 where "records_version = 3"

definition set_story_spell :: "game_id \<Rightarrow> bool \<Rightarrow> character_records \<Rightarrow> character_records" where
  "set_story_spell spell added s = s\<lparr>cr_storySpells := (if map_of (cr_storySpells s) spell = None then cr_storySpells s @ [(spell, added)]
     else map (\<lambda>(i, b). (i, if i = spell then added else b)) (cr_storySpells s))\<rparr>"

definition apply_story_spells :: "character_records \<Rightarrow> player_record \<Rightarrow> player_record" where
  "apply_story_spells s x =
     fold (\<lambda>(spell, added) x. x\<lparr>pr_Spells := removeAll spell (pr_Spells x) @ (if added then [spell] else [])\<rparr>) (cr_storySpells s) x"

definition records_put :: "player_record \<Rightarrow> character_records \<Rightarrow> character_records" where
  "records_put x s =
     (if pr_Key x = [] then s
      else let x = (case map_of (cr_records s) (pr_Key x) of
               Some y \<Rightarrow> x\<lparr>pr_WorldSpace := pr_WorldSpace y, pr_Cell := pr_Cell y, pr_Position := pr_Position y\<rparr>
             | None \<Rightarrow> x)
           in s\<lparr>cr_records := map_put (pr_Key x) x (cr_records s)\<rparr>)"

definition records_find :: "string \<Rightarrow> character_records \<Rightarrow> player_record option" where
  "records_find k s = map_of (cr_records s) k"

definition records_remove :: "string \<Rightarrow> character_records \<Rightarrow> character_records" where
  "records_remove k s = s\<lparr>cr_records := map_erase k (cr_records s)\<rparr>"

definition set_place :: "string \<Rightarrow> game_id \<Rightarrow> game_id \<Rightarrow> float32 list \<Rightarrow> character_records \<Rightarrow> character_records" where
  "set_place k world cell position s =
     (case map_of (cr_records s) k of
        None \<Rightarrow> s
      | Some x \<Rightarrow> s\<lparr>cr_records := map_put k (x\<lparr>pr_WorldSpace := world, pr_Cell := cell, pr_Position := position\<rparr>) (cr_records s)\<rparr>)"

section \<open>Written into a save\<close>

definition saved_record_write :: "string \<times> player_record \<Rightarrow> (writer, bool) state" where
  "saved_record_write kx =
     (let bytes = encode (player_record_serialize (snd kx))
      in do { write_varint (of_nat (length bytes)); write_bytes bytes })"

definition story_spell_write :: "game_id \<times> bool \<Rightarrow> (writer, bool) state" where
  "story_spell_write sb = do { game_id_serialize (fst sb); write_bool (snd sb) }"

definition records_serialize :: "character_records \<Rightarrow> (writer, unit) state" where
  "records_serialize s = do {
     write_varint (of_nat (length (cr_records s)));
     write_each saved_record_write (cr_records s);
     write_varint (of_nat (length (cr_storySpells s)));
     write_each story_spell_write (cr_storySpells s)
   }"

definition records_encode :: "character_records \<Rightarrow> u8 list" where
  "records_encode s = encode (records_serialize s)"

section \<open>Read from one\<close>

text \<open>A record that does not lie whole in the rest of the data is none.\<close>

definition saved_record_read :: "(reader, player_record option) state" where
  "saved_record_read = do {
     (ok, size) \<leftarrow> try_read_varint;
     (if \<not> ok then State_Monad.return None
      else do {
        r \<leftarrow> State_Monad.get;
        (if rd_pos r mod 8 \<noteq> 0 \<or> rd_pos r div 8 > length (rd_data r) \<or> unat size > length (rd_data r) - rd_pos r div 8
         then State_Monad.return None
         else do {
           read_bytes (replicate (unat size) 0);
           State_Monad.return (Some (decode player_record_deserialize (take (unat size) (drop (rd_pos r div 8) (rd_data r)))))
         })
      })
   }"

fun saved_records_read :: "nat \<Rightarrow> character_records \<Rightarrow> (reader, character_records option) state" where
  "saved_records_read 0 s = State_Monad.return (Some s)"
| "saved_records_read (Suc n) s = do {
     x \<leftarrow> saved_record_read;
     (case x of None \<Rightarrow> State_Monad.return None | Some x \<Rightarrow> saved_records_read n (records_put x s))
   }"

definition story_spell_read :: "(reader, (game_id \<times> bool) option) state" where
  "story_spell_read = do {
     (ok, base) \<leftarrow> try_read_varint;
     (if \<not> ok \<or> base > 0xFFFFFFFF then State_Monad.return None
      else do {
        (ok, md) \<leftarrow> try_read_varint;
        (if \<not> ok \<or> md > 0xFFFFFFFF then State_Monad.return None
         else do {
           (ok, added) \<leftarrow> read_bits 1;
           State_Monad.return (if ok then Some (\<lparr>gid_BaseId = ucast base, gid_ModId = ucast md\<rparr>, added \<noteq> 0) else None)
         })
      })
   }"

fun story_spells_read :: "nat \<Rightarrow> character_records \<Rightarrow> (reader, character_records option) state" where
  "story_spells_read 0 s = State_Monad.return (Some s)"
| "story_spells_read (Suc n) s = do {
     x \<leftarrow> story_spell_read;
     (case x of None \<Rightarrow> State_Monad.return None | Some (spell, added) \<Rightarrow> story_spells_read n (set_story_spell spell added s))
   }"

text \<open>Older saves end after the characters.\<close>

definition story_read :: "character_records \<Rightarrow> (reader, character_records option) state" where
  "story_read s = do {
     r \<leftarrow> State_Monad.get;
     (if rd_pos r div 8 < length (rd_data r)
      then do {
        (ok, n) \<leftarrow> try_read_varint;
        r \<leftarrow> State_Monad.get;
        (if \<not> ok \<or> unat n > (length (rd_data r) * 8 - rd_pos r) div 17 then State_Monad.return None
         else story_spells_read (unat n) s)
      }
      else State_Monad.return (Some s))
   }"

definition records_read :: "(reader, character_records option) state" where
  "records_read = do {
     (ok, n) \<leftarrow> try_read_varint;
     r \<leftarrow> State_Monad.get;
     (if \<not> ok \<or> unat n > length (rd_data r) then State_Monad.return None
      else do {
        s \<leftarrow> saved_records_read (unat n) no_records;
        (case s of None \<Rightarrow> State_Monad.return None | Some s \<Rightarrow> story_read s)
      })
   }"

text \<open>\<open>Decode\<close>: whether it read, and the records it leaves.\<close>

definition records_decode :: "u8 list \<Rightarrow> u32 \<Rightarrow> bool \<times> character_records" where
  "records_decode data version =
     (if version \<noteq> records_version then (False, no_records)
      else case fst (run_state records_read (new_reader data)) of None \<Rightarrow> (False, no_records) | Some s \<Rightarrow> (True, s))"

section \<open>A save keeps them\<close>

definition records_ok :: "character_records \<Rightarrow> bool" where
  "records_ok s \<longleftrightarrow> ordered (cr_records s) \<and> distinct (map fst (cr_storySpells s)) \<and>
     (\<forall>(k, x) \<in> set (cr_records s). k \<noteq> [] \<and> pr_Key x = k \<and> player_record_valid x)"

lemma small_word: "\<not> (ucast (i :: u32) :: u64) > 0xFFFFFFFF" "(ucast (ucast i :: u64) :: u32) = i"
proof -
  have "unat (ucast i :: u64) = unat i"
    by (rule unat_ucast_up) simp
  moreover have "unat i < 2 ^ LENGTH(32)"
    by (rule unsigned_less)
  ultimately show "\<not> (ucast i :: u64) > 0xFFFFFFFF"
    by (simp add: word_less_nat_alt)
qed (simp add: ucast_ucast_up)

lemma game_id_eta: "\<lparr>gid_BaseId = gid_BaseId i, gid_ModId = gid_ModId i\<rparr> = i"
  by (cases i) simp

lemma codes_story_spell: "codes (story_spell_write sb) story_spell_read (Some sb)"
proof -
  have bit: "codes (write_bool b) (do { (ok, added) \<leftarrow> read_bits 1; State_Monad.return (if ok then Some (x, added \<noteq> 0) else None) }) (Some (x, b))" for b and x :: game_id
    unfolding write_bool_def by (rule codes_last [OF codes_bits]) (auto simp: take_bit_eq_mod)
  show ?thesis
    unfolding story_spell_write_def story_spell_read_def game_id_serialize_def write_u32_def State_Monad.bind_assoc State_Monad.bind_left_identity
    apply (rule codes_bind [OF codes_try_varint])
    apply (simp only: prod.case small_word not_True_eq_False simp_thms if_False)
    apply (rule codes_bind [OF codes_try_varint])
    apply (simp only: prod.case small_word not_True_eq_False simp_thms if_False)
    using bit [of "snd sb" "fst sb"] by (simp add: small_word game_id_eta cong: if_cong)
qed

lemma writes_story_spell: "writes_at_least 17 (story_spell_write sb)"
proof -
  have "writes_at_least 1 (write_bool b)" for b
    unfolding write_bool_def by (rule writes_at_least_bits) simp
  then have "writes_at_least (8 + (8 + 1)) (story_spell_write sb)"
    unfolding story_spell_write_def game_id_serialize_def write_u32_def State_Monad.bind_assoc State_Monad.bind_left_identity
    by (intro writes_at_least_bind writes_at_least_varint)
  then show ?thesis by simp
qed

lemma stories_put:
  "distinct (map fst xs) \<Longrightarrow> set (map fst xs) \<inter> set (map fst (cr_storySpells s)) = {} \<Longrightarrow>
     fold (\<lambda>(spell, added). set_story_spell spell added) xs s = s\<lparr>cr_storySpells := cr_storySpells s @ xs\<rparr>"
proof (induction xs arbitrary: s)
  case (Cons x xs)
  obtain spell added where x: "x = (spell, added)" by fastforce
  have "map_of (cr_storySpells s) spell = None"
    using Cons.prems(2) by (auto simp: x map_of_eq_None_iff)
  then have "set_story_spell spell added s = s\<lparr>cr_storySpells := cr_storySpells s @ [(spell, added)]\<rparr>"
    by (simp add: set_story_spell_def)
  with Cons show ?case
    by (auto simp: x)
qed simp

lemma codes_story_spells:
  "codes (write_each story_spell_write xs) (story_spells_read (length xs) s)
     (Some (fold (\<lambda>(spell, added). set_story_spell spell added) xs s))"
proof (induction xs arbitrary: s)
  case (Cons x xs)
  show ?case
    using Cons.IH by (simp add: case_prod_unfold) (rule codes_bind [OF codes_story_spell], simp add: case_prod_unfold)
qed (simp add: codes_return)

lemma codes_saved_record:
  assumes "player_record_valid (snd kx)" "length (encode (player_record_serialize (snd kx))) < 2 ^ 64"
  shows "byte_codes (saved_record_write kx) saved_record_read (Some (snd kx))"
proof -
  define bs where "bs = encode (player_record_serialize (snd kx))"
  define n where "n = (of_nat (length bs) :: u64)"
  have n: "unat n = length bs"
    using assms(2) by (simp add: n_def bs_def unat_count)
  have whole: "decode player_record_deserialize bs = snd kx"
    using decode_encode_codes [OF codes_player_record [OF assms(1)], of "[]"] by (simp add: bs_def)
  have "byte_codes (write_bytes bs)
      (do { r \<leftarrow> State_Monad.get;
        (if rd_pos r mod 8 \<noteq> 0 \<or> rd_pos r div 8 > length (rd_data r) \<or> unat n > length (rd_data r) - rd_pos r div 8
         then State_Monad.return None
         else do {
           read_bytes (replicate (unat n) 0);
           State_Monad.return (Some (decode player_record_deserialize (take (unat n) (drop (rd_pos r div 8) (rd_data r)))))
         }) }) (Some (snd kx))" (is "byte_codes _ ?d _")
    unfolding byte_codes_def
  proof (intro allI impI)
    fix w :: writer assume w: "writer_ok w \<and> wr_grows w \<and> wr_pos w mod 8 = 0"
    have len: "length (replicate (length bs) (0::u8)) = length bs"
      by simp
    obtain y w' where r: "run_state (write_bytes bs) w = (y, w')" "writer_ok w'" "wr_grows w'" "wr_pos w \<le> wr_pos w'"
        "agree (wr_pos w) (wr_data w) (wr_data w')"
        "\<And>D. agree (wr_pos w') (wr_data w') D \<Longrightarrow>
           run_state (read_bytes (replicate (length bs) 0)) \<lparr>rd_data = D, rd_pos = wr_pos w\<rparr> = ((True, bs), \<lparr>rd_data = D, rd_pos = wr_pos w'\<rparr>)"
      using codesE [OF codes_bytes [OF len], of w] w by metis
    have "run_state ?d \<lparr>rd_data = D, rd_pos = wr_pos w\<rparr> = (Some (snd kx), \<lparr>rd_data = D, rd_pos = wr_pos w'\<rparr>)"
      if D: "agree (wr_pos w') (wr_data w') D" for D
    proof -
      have at: "next_whole_byte (wr_pos w) = wr_pos w"
        using next_whole_byte_le [of "wr_pos w" "wr_pos w div 8"] next_whole_byte_bounds(1) [of "wr_pos w"] w by auto
      have "length bs + wr_pos w div 8 \<le> length D \<and> take (length bs) (drop (wr_pos w div 8) D) = bs"
        using r(6) [OF D] at by (auto simp: read_bytes_def Let_def split: if_splits)
      then have "wr_pos w div 8 \<le> length D" "length bs \<le> length D - wr_pos w div 8" "take (length bs) (drop (wr_pos w div 8) D) = bs"
        by linarith+
      then show ?thesis
        using r(6) [OF D] w whole n by (simp add: State_Monad.get_def State_Monad.return_def not_less)
    qed
    then show "let w' = snd (run_state (write_bytes bs) w)
      in writer_ok w' \<and> wr_grows w' \<and> wr_pos w \<le> wr_pos w' \<and> agree (wr_pos w) (wr_data w) (wr_data w') \<and>
         (\<forall>D. agree (wr_pos w') (wr_data w') D \<longrightarrow>
            run_state ?d \<lparr>rd_data = D, rd_pos = wr_pos w\<rparr> = (Some (snd kx), \<lparr>rd_data = D, rd_pos = wr_pos w'\<rparr>))"
      using r by simp
  qed
  then show ?thesis
    unfolding saved_record_write_def saved_record_read_def Let_def bs_def [symmetric] n_def [symmetric]
    by (intro byte_codes_bind [OF codes_try_varint whole_bytes_varint]) (simp only: prod.case not_True_eq_False if_False)
qed


text \<open>A record's bytes are on the wire whole, after their count.\<close>

lemma whole_saved_record: "whole_bytes (saved_record_write kx)"
  unfolding saved_record_write_def Let_def by (intro whole_bytes_bind [OF codes_varint] whole_bytes_varint whole_bytes_bytes)

lemma codes_write_bytes: "codes (saved_record_write kx)
    (do { read_varint; x \<leftarrow> read_bytes (replicate (length (encode (player_record_serialize (snd kx)))) 0); State_Monad.return x })
    (True, encode (player_record_serialize (snd kx)))"
  unfolding saved_record_write_def Let_def
  by (intro codes_bind [OF codes_varint] codes_last [OF codes_bytes]) simp_all

lemma writes_saved_record: "writes_at_least (8 + 8 * length (encode (player_record_serialize (snd kx)))) (saved_record_write kx)"
  unfolding saved_record_write_def Let_def by (intro writes_at_least_bind writes_at_least_varint writes_at_least_bytes)

lemma whole_records: "whole_bytes (write_each saved_record_write xs)"
  by (rule whole_bytes_each) (rule codes_write_bytes whole_saved_record)+

definition record_size :: "string \<times> player_record \<Rightarrow> nat" where
  "record_size kx = 8 + 8 * length (encode (player_record_serialize (snd kx)))"

lemma writes_records: "writes_at_least (\<Sum>kx \<leftarrow> xs. record_size kx) (write_each saved_record_write xs)"
  by (rule writes_at_least_each) (use writes_saved_record in \<open>simp add: record_size_def\<close>)

lemma many_records: "8 * length xs \<le> (\<Sum>kx \<leftarrow> xs. record_size kx)"
  by (induction xs) (auto simp: record_size_def)

lemma one_record: "kx \<in> set xs \<Longrightarrow> 8 * length (encode (player_record_serialize (snd kx))) \<le> (\<Sum>kx \<leftarrow> xs. record_size kx)"
  by (induction xs) (auto simp: record_size_def)

lemma writes_stories: "writes_at_least (17 * length xs) (write_each story_spell_write xs)"
  using writes_at_least_each [of xs "\<lambda>_. 17" story_spell_write] writes_story_spell by (simp add: sum_list_triv mult.commute)

lemma byte_codes_records:
  assumes "\<And>kx. kx \<in> set xs \<Longrightarrow> player_record_valid (snd kx) \<and> length (encode (player_record_serialize (snd kx))) < 2 ^ 64"
    "byte_codes s2 (d2 (Some (fold records_put (map snd xs) s))) y"
  shows "byte_codes (do { write_each saved_record_write xs; s2 }) (State_Monad.bind (saved_records_read (length xs) s) d2) y"
  using assms
proof (induction xs arbitrary: s)
  case (Cons kx xs)
  have "byte_codes (do { write_each saved_record_write xs; s2 })
      (State_Monad.bind (saved_records_read (length xs) (records_put (snd kx) s)) d2) y"
    using Cons.prems by (intro Cons.IH) simp_all
  moreover have "byte_codes (saved_record_write kx) saved_record_read (Some (snd kx))"
    using Cons.prems(1) by (intro codes_saved_record) simp_all
  ultimately show ?case
    by (simp add: State_Monad.bind_assoc)
      (rule byte_codes_then [OF _ whole_saved_record], assumption, simp)
qed simp

lemma byte_codes_stories:
  assumes "length xs < 2 ^ 64"
  shows "byte_codes (do { write_varint (of_nat (length xs)); write_each story_spell_write xs }) (story_read s)
    (Some (fold (\<lambda>(spell, added). set_story_spell spell added) xs s))"
proof -
  have n: "unat (of_nat (length xs) :: u64) = length xs"
    using assms by (rule unat_count)
  have "byte_codes (write_each story_spell_write xs)
      (do { r \<leftarrow> State_Monad.get;
        (if unat (of_nat (length xs) :: u64) > (length (rd_data r) * 8 - rd_pos r) div 17 then State_Monad.return None
         else story_spells_read (length xs) s) })
      (Some (fold (\<lambda>(spell, added). set_story_spell spell added) xs s))"
    unfolding n
    by (rule byte_codes_look_not [OF byte_codesI [OF codes_story_spells] lets_pass_least [OF writes_stories]])
      (simp add: not_less less_eq_div_iff_mult_less_eq)
  then have "byte_codes (do { write_varint (of_nat (length xs)); write_each story_spell_write xs })
      (do {
        (ok, n) \<leftarrow> try_read_varint;
        r \<leftarrow> State_Monad.get;
        (if \<not> ok \<or> unat n > (length (rd_data r) * 8 - rd_pos r) div 17 then State_Monad.return None
         else story_spells_read (unat n) s)
      }) (Some (fold (\<lambda>(spell, added). set_story_spell spell added) xs s))"
    by (intro byte_codes_bind [OF codes_try_varint whole_bytes_varint]) (simp add: n cong: if_cong)
  moreover have "writes_at_least (8 + 17 * length xs) (do { write_varint (of_nat (length xs)); write_each story_spell_write xs })"
    by (intro writes_at_least_bind writes_at_least_varint writes_stories)
  ultimately show ?thesis
    unfolding story_read_def by (rule byte_codes_look [OF _ lets_pass_least]) linarith
qed

lemma records_put_all:
  "\<forall>(k, x) \<in> set xs. k \<noteq> [] \<and> pr_Key x = k \<Longrightarrow> ordered (cr_records s @ xs) \<Longrightarrow>
    fold records_put (map snd xs) s = s\<lparr>cr_records := cr_records s @ xs\<rparr>"
proof (induction xs arbitrary: s)
  case (Cons kx xs)
  obtain k x where kx: "kx = (k, x)" by fastforce
  have one: "\<forall>k' \<in> set (map fst (cr_records s)). k' < k" "ordered (cr_records s)"
    using Cons.prems(2) by (auto simp: kx ordered_def sorted_wrt_append)
  then have "records_put x s = s\<lparr>cr_records := cr_records s @ [(k, x)]\<rparr>"
    using Cons.prems(1) by (simp add: kx records_put_def not_in_smaller put_last)
  with Cons show ?case
    by (simp add: kx)
qed simp

lemma records_as_saved:
  assumes "records_ok s"
  shows "fold (\<lambda>(spell, added). set_story_spell spell added) (cr_storySpells s) (fold records_put (map snd (cr_records s)) no_records) = s"
proof -
  have "fold records_put (map snd (cr_records s)) no_records = no_records\<lparr>cr_records := cr_records s\<rparr>"
    using assms records_put_all [of "cr_records s" no_records] by (auto simp: records_ok_def no_records_def)
  then show ?thesis
    using assms stories_put [of "cr_storySpells s" "no_records\<lparr>cr_records := cr_records s\<rparr>"]
    by (simp add: records_ok_def no_records_def)
qed

lemma byte_codes_saved:
  assumes "records_ok s" "length (records_encode s) < 2 ^ 61"
  shows "byte_codes (records_serialize s) records_read (Some s)"
proof -
  let ?size = "\<Sum>kx \<leftarrow> cr_records s. record_size kx" and ?stories = "do {
     write_varint (of_nat (length (cr_storySpells s)));
     write_each story_spell_write (cr_storySpells s)
   }"
  have stories: "writes_at_least (8 + 17 * length (cr_storySpells s)) ?stories"
    by (intro writes_at_least_bind writes_at_least_varint writes_stories)
  note tail = writes_at_least_bind [OF writes_records stories]
  have "8 + (?size + (8 + 17 * length (cr_storySpells s))) \<le> 8 * length (records_encode s)"
    unfolding records_encode_def records_serialize_def
    by (intro writes_length writes_at_least_bind writes_at_least_varint tail)
  then have small: "length (cr_storySpells s) < 2 ^ 64" "?size < 2 ^ 64" "length (cr_records s) < 2 ^ 64"
    using assms(2) many_records [of "cr_records s"] by simp_all
  then have n: "unat (of_nat (length (cr_records s)) :: u64) = length (cr_records s)"
    by (intro unat_count)
  have read: "byte_codes ?stories (story_read (fold records_put (map snd (cr_records s)) no_records)) (Some s)"
    using byte_codes_stories [OF small(1)] by (metis records_as_saved [OF assms(1)])
  have "player_record_valid (snd kx) \<and> length (encode (player_record_serialize (snd kx))) < 2 ^ 64" if "kx \<in> set (cr_records s)" for kx
    using that assms(1) one_record [OF that] small(2) by (auto simp: records_ok_def)
  then have "byte_codes (do { write_each saved_record_write (cr_records s); ?stories })
      (do { s \<leftarrow> saved_records_read (length (cr_records s)) no_records;
         (case s of None \<Rightarrow> State_Monad.return None | Some s \<Rightarrow> story_read s) }) (Some s)"
    by (rule byte_codes_records) (simp_all add: read)
  then have "byte_codes (do { write_each saved_record_write (cr_records s); ?stories })
      (do { r \<leftarrow> State_Monad.get;
        (if length (cr_records s) > length (rd_data r) then State_Monad.return None
         else do { s \<leftarrow> saved_records_read (length (cr_records s)) no_records;
           (case s of None \<Rightarrow> State_Monad.return None | Some s \<Rightarrow> story_read s) }) }) (Some s)"
    by (rule byte_codes_look_not [OF _ lets_pass_least [OF tail]]) (use many_records [of "cr_records s"] in simp)
  then show ?thesis
    unfolding records_serialize_def records_read_def
    by (intro byte_codes_bind [OF codes_try_varint whole_bytes_varint]) (simp add: n cong: if_cong)
qed

text \<open>
  C33: the characters a save keeps and the story's spells, encoded into its data, are read back from it as they
  were, every record whole: for any records in the order of their keys, each under its own key and fit to be sent, and any story
  spells, in data of fewer than \<open>2^61\<close> bytes. Data of another version leaves none.
\<close>

theorem records_survive_saving:
  assumes "records_ok s" "length (records_encode s) < 2 ^ 61"
  shows "records_decode (records_encode s) records_version = (True, s) \<and>
    (\<forall>v. v \<noteq> records_version \<longrightarrow> records_decode (records_encode s) v = (False, no_records))"
  using bytes_read_back(1) [OF byte_codes_saved [OF assms], folded records_encode_def]
  by (simp add: records_decode_def records_encode_def)

lemma writes_at_most_ids: "writes_at_most 160 (game_id_serialize i)"
  using writes_at_most_bind [OF writes_at_most_varint writes_at_most_varint]
  by (simp add: game_id_serialize_def write_u32_def)

lemmas at_most_intros = writes_at_most_bind writes_at_most_return writes_at_most_bool writes_at_most_varint writes_at_most_float
  writes_at_most_string writes_at_most_nil writes_at_most_ids writes_at_most_each

lemma writes_at_most_skill: "writes_at_most (39 + (39 + (39 + (80 + 0)))) (skill_serialize x)"
  unfolding skill_serialize_def write_u32_def by (intro at_most_intros)

lemma writes_at_most_no_equipment: "writes_at_most (1 + (1 + (1 + (0 + (0 + (0 + 0)))))) (magic_equipment_serialize no_magic_equipment)"
  unfolding magic_equipment_serialize_def no_magic_equipment_def magic_equipment.simps if_False not_True_eq_False simp_thms by (intro at_most_intros)

text \<open>A new character in Whiterun, all its skills at level 15.\<close>

definition lydia :: "string \<Rightarrow> player_record" where
  "lydia k = \<lparr>pr_Key = k, pr_Name = ''Lydia'', pr_Level = 1, pr_Base = [], pr_BaseFlags = 0,
      pr_FaceTints = [], pr_Weight = 0x42480000, pr_LevelExperience = 0, pr_LevelThreshold = 0x42C80000,
      pr_Skills = replicate 18 \<lparr>skill_Level = 0x41700000, skill_Experience = 0, skill_Threshold = 0, skill_Legendary = 0\<rparr>,
      pr_PerkPoints = 0, pr_Perks = [], pr_Spells = [], pr_Values = [],
      pr_Items = \<lparr>inv_Entries = [], inv_CurrentMagicEquipment = no_magic_equipment\<rparr>,
      pr_Extras = [], pr_Cell = \<lparr>gid_BaseId = 0x165A3, gid_ModId = 0\<rparr>, pr_WorldSpace = no_id,
      pr_Position = [0, 0, 0], pr_Words = [], pr_PermanentValues = [], pr_Knowledge = no_knowledge,
      pr_Recipes = []\<rparr>"

lemma writes_at_most_lydia: "writes_at_most (10000 + 8 * length k) (player_record_serialize (lydia k))"
proof -
  have tints: "writes_at_most (8 + (0 + 0)) (tints_serialize [])"
    unfolding tints_serialize_def write_each.simps by (intro at_most_intros writes_at_most_bits) simp
  have know: "writes_at_most (80 + 0) (knowledge_serialize no_knowledge)"
    unfolding knowledge_serialize_def no_knowledge_def knowledge.simps if_False by (intro at_most_intros)
  show ?thesis
    by (rule writes_at_most_mono)
      (unfold player_record_serialize_def record_head_serialize_def record_tail_serialize_def lydia_def player_record.simps
        inventory_serialize_def inventory.simps write_u32_def write_u8_def write_u16_def,
       (rule at_most_intros tints know writes_at_most_skill writes_at_most_no_equipment)+, simp)
qed
text \<open>Two players' characters, and a spell the story gave and another it took.\<close>

lemma records_survive_saving_witness:
  defines "s \<equiv> \<lparr>cr_records = [(''id:1'', lydia ''id:1''), (''id:2'', lydia ''id:2'')],
     cr_storySpells = [(\<lparr>gid_BaseId = 0x2F3B8, gid_ModId = 0\<rparr>, True), (\<lparr>gid_BaseId = 0x12FD0, gid_ModId = 0\<rparr>, False)]\<rparr>"
  shows "records_decode (records_encode s) 3 = (True, s) \<and> records_decode (records_encode s) 2 = (False, no_records)"
proof -
  have "player_record_valid (lydia k)" if "length k < 65536" for k
    using that
    by (simp add: lydia_def player_record_valid_def record_head_valid_def record_tail_valid_def skill_count_def tints_valid_def
        inventory_valid_def extras_valid_def ordered_def knowledge_valid_def no_knowledge_def)
  then have "records_ok s"
    by (simp add: s_def records_ok_def ordered_def) (simp add: lydia_def)
  moreover have "length (records_encode s) < 2 ^ 61"
  proof -
    have "writes_at_most 10200 (saved_record_write kx)" if kx: "kx \<in> set (cr_records s)" for kx
    proof -
      have "8 * length (encode (player_record_serialize (snd kx))) \<le> 10039"
      proof -
        obtain k where "snd kx = lydia k" "length k = 4"
          using kx by (auto simp: s_def)
        then show ?thesis
          using length_at_most [OF writes_at_most_lydia [of k]] by simp
      qed
      then have "writes_at_most (80 + 10100) (saved_record_write kx)"
        unfolding saved_record_write_def Let_def
        by (intro writes_at_most_bind writes_at_most_varint writes_at_most_mono [OF writes_at_most_bytes]) simp
      then show ?thesis
        by (rule writes_at_most_mono) simp
    qed
    moreover have "writes_at_most (160 + 1) (story_spell_write sb)" for sb
      unfolding story_spell_write_def by (intro at_most_intros)
    ultimately have "writes_at_most (80 + (10200 * length (cr_records s) + (80 + (160 + 1) * length (cr_storySpells s)))) (records_serialize s)"
      unfolding records_serialize_def by (intro writes_at_most_bind writes_at_most_varint writes_at_most_each)
    from length_at_most [OF this] show ?thesis
      by (simp add: s_def records_encode_def)
  qed
  ultimately show ?thesis
    using records_survive_saving [of s] by (simp add: records_version_def)
qed

section \<open>Whatever is read, they are well kept\<close>

definition records_wf :: "character_records \<Rightarrow> bool" where
  "records_wf s \<longleftrightarrow> ordered (cr_records s) \<and> (\<forall>(k, x) \<in> set (cr_records s). k \<noteq> [] \<and> pr_Key x = k) \<and>
     distinct (map fst (cr_storySpells s))"

text \<open>The calls that change the records after they are read.\<close>

datatype records_call = Records_Put player_record | Records_Remove string | Set_Place string game_id game_id "float32 list" |
  Set_Story_Spell game_id bool | Records_Clear

primrec records_called :: "records_call \<Rightarrow> character_records \<Rightarrow> character_records" where
  "records_called (Records_Put x) = records_put x"
| "records_called (Records_Remove k) = records_remove k"
| "records_called (Set_Place k world cell position) = set_place k world cell position"
| "records_called (Set_Story_Spell spell added) = set_story_spell spell added"
| "records_called Records_Clear = (\<lambda>_. no_records)"

lemma in_put: "(k, x) \<in> set (map_put k' x' m) \<Longrightarrow> (k, x) = (k', x') \<or> (k, x) \<in> set m"
  by (induction k' x' m rule: map_put.induct) (auto split: if_splits)

lemma records_wf_with: "records_wf s \<Longrightarrow> k \<noteq> [] \<Longrightarrow> pr_Key x = k \<Longrightarrow> records_wf (s\<lparr>cr_records := map_put k x (cr_records s)\<rparr>)"
  unfolding records_wf_def using in_put by (fastforce simp: ordered_put)

lemma records_wf_put: "records_wf s \<Longrightarrow> records_wf (records_put x s)"
  by (auto simp: records_put_def Let_def intro!: records_wf_with split: option.splits)

lemma records_wf_remove: "records_wf s \<Longrightarrow> records_wf (records_remove k s)"
  by (auto simp: records_wf_def records_remove_def ordered_erase) (auto simp: map_erase_def)

lemma records_wf_place: "records_wf s \<Longrightarrow> records_wf (set_place k world cell position s)"
proof (cases "map_of (cr_records s) k")
  case (Some x)
  assume wf: "records_wf s"
  then have "k \<noteq> []" "pr_Key x = k"
    using map_of_SomeD [OF Some] by (auto simp: records_wf_def)
  then show ?thesis
    using records_wf_with [OF wf] Some by (simp add: set_place_def)
qed (simp add: set_place_def)

lemma records_wf_spell: "records_wf s \<Longrightarrow> records_wf (set_story_spell spell added s)"
proof -
  have "fst \<circ> (\<lambda>(i, b). (i, if i = spell then added else b)) = (fst :: game_id \<times> bool \<Rightarrow> game_id)"
    by (auto simp: fun_eq_iff)
  then show "records_wf s \<Longrightarrow> records_wf (set_story_spell spell added s)"
    unfolding records_wf_def set_story_spell_def
    by (cases "map_of (cr_storySpells s) spell = None") (simp_all add: map_of_eq_None_iff)
qed

lemma records_wf_none: "records_wf no_records"
  by (simp add: records_wf_def no_records_def ordered_def)

lemma records_wf_called: "records_wf s \<Longrightarrow> records_wf (records_called c s)"
  by (cases c) (simp_all add: records_wf_put records_wf_remove records_wf_place records_wf_spell records_wf_none)

lemma records_wf_records_read: "records_wf s \<Longrightarrow> fst (run_state (saved_records_read n s) r) = Some s' \<Longrightarrow> records_wf s'"
proof (induction n arbitrary: s r)
  case (Suc n)
  then show ?case
    by (auto simp: State_Monad.return_def records_wf_put split: option.splits prod.splits)
      (metis fst_conv records_wf_put)
qed (simp add: State_Monad.return_def)

lemma records_wf_spells_read: "records_wf s \<Longrightarrow> fst (run_state (story_spells_read n s) r) = Some s' \<Longrightarrow> records_wf s'"
proof (induction n arbitrary: s r)
  case (Suc n)
  then show ?case
    by (auto simp: State_Monad.return_def split: option.splits prod.splits) (metis fst_conv records_wf_spell)
qed (simp add: State_Monad.return_def)

lemma records_wf_read: "fst (run_state records_read r) = Some s \<Longrightarrow> records_wf s"
proof -
  have first: "run_state (saved_records_read n no_records) r = (Some s', r') \<Longrightarrow> records_wf s'" for n r s' r'
    using records_wf_records_read [OF records_wf_none, of n r s'] by simp
  show "fst (run_state records_read r) = Some s \<Longrightarrow> records_wf s"
    by (auto simp: records_read_def story_read_def State_Monad.return_def State_Monad.get_def
        dest!: first split: if_splits option.splits prod.splits intro: records_wf_spells_read)
qed

text \<open>
  C32: whatever data of a save is decoded, and whatever calls follow, in any order, the records are well kept: in the
  order of their keys, none under an empty key, each under its own; a spell of the story is kept once. A player's new record is found
  under its key with everything it holds but its place, which stays the one the host's game gave it, and no other player's record
  changes; a record with no key changes nothing.
\<close>

theorem records_well_kept:
  "records_wf (fold records_called calls (snd (records_decode data v))) \<and>
    records_find k (records_put x (fold records_called calls (snd (records_decode data v)))) =
      (if pr_Key x \<noteq> [] \<and> k = pr_Key x
       then Some (case records_find k (fold records_called calls (snd (records_decode data v))) of
           None \<Rightarrow> x
         | Some y \<Rightarrow> x\<lparr>pr_WorldSpace := pr_WorldSpace y, pr_Cell := pr_Cell y, pr_Position := pr_Position y\<rparr>)
       else records_find k (fold records_called calls (snd (records_decode data v))))"
proof -
  define after where "after = fold records_called calls (snd (records_decode data v))"
  have "records_wf (snd (records_decode data v))"
    by (auto simp: records_decode_def records_wf_none records_wf_read split: option.splits)
  then have "records_wf after"
    unfolding after_def
  proof (induction calls rule: rev_induct)
    case (snoc c cs)
    then show ?case by (simp add: records_wf_called)
  qed simp
  moreover from this have "ordered (cr_records after)"
    by (simp add: records_wf_def)
  ultimately show ?thesis
    unfolding after_def [symmetric]
    by (auto simp: records_find_def records_put_def Let_def map_of_put split: option.splits)
qed

end
