(* ===== verification/Copy_Clock.thy ===== *)
theory Copy_Clock
  imports Float64
begin

text \<open>
  The times copies are shown at (\<open>Services/CopyClock\<close>): the session's time at a frame, the game's playback time behind it, by
  the line's lateness, and a copy's behind that, by its owner's interval.
\<close>

section \<open>Doubles as the clocks use them\<close>



text \<open>\<open>static_cast<double>\<close> of a time.\<close>

definition f64_of_u64 :: "u64 \<Rightarrow> float64" where
  "f64_of_u64 t = f64_of_int (uint t)"

text \<open>
  \<open>static_cast<uint64_t>\<close>: towards zero. What does not fit is undefined in C++ and 0 here; the playback time
  always fits.
\<close>

definition f64_trunc_u64 :: "float64 \<Rightarrow> u64" where
  "f64_trunc_u64 f =
     (if f64_is_nan f \<or> f64_negative f \<or> f64_exponent f \<ge> 1023 + 64 then 0
      else let m = nat (f64_mantissa f); e = f64_scale f in word_of_nat (if 0 \<le> e then m * 2 ^ nat e else m div 2 ^ nat (- e)))"

section \<open>The session's time at a frame\<close>

record frame_clock =
  fc_now :: float64
  fc_started :: bool

definition new_frame_clock :: frame_clock where "new_frame_clock = \<lparr>fc_now = 0, fc_started = False\<rparr>"

text \<open>\<open>kLean\<close>, 0.1; \<open>kSnapMs\<close>, 250, as the double it is compared as.\<close>

definition frame_lean :: float64 where "frame_lean = 0x3FB999999999999A"
definition frame_snap :: float64 where "frame_snap = 0x406F400000000000"

definition frame_advance :: "u64 \<Rightarrow> float64 \<Rightarrow> frame_clock \<Rightarrow> frame_clock" where
  "frame_advance session ms s =
     (let session = f64_of_u64 session;
          stepped = f64_add (fc_now s) (f64_max ms 0)
      in \<lparr>fc_now =
            (if \<not> fc_started s \<or> f64_less frame_snap (f64_abs (f64_sub session stepped)) then session
             else f64_max (fc_now s) (f64_add stepped (f64_mul (f64_sub session stepped) frame_lean))),
          fc_started = True\<rparr>)"

definition frame_now :: "frame_clock \<Rightarrow> u64" where "frame_now s = f64_trunc_u64 (fc_now s)"

section \<open>The game's playback time\<close>

definition copy_window :: u64 where "copy_window = 3000"


record copy_clock =
  cc_late :: "(u64 \<times> u64) list"
  cc_tick :: float64
  cc_now :: u64
  cc_frame :: u64
  cc_frameMs :: float64
  cc_started :: bool






definition copy_now :: "copy_clock \<Rightarrow> u64" where "copy_now s = f64_trunc_u64 (cc_tick s)"

definition copy_delay :: "copy_clock \<Rightarrow> u64" where
  "copy_delay s = (if cc_now s > copy_now s then cc_now s - copy_now s else 0)"

section \<open>A copy's playback time\<close>

text \<open>\<open>kDefaultIntervalMs\<close>, 100; \<open>kSteer\<close>, 0.1.\<close>

definition default_interval :: float64 where "default_interval = 0x4059000000000000"
definition longest_gap :: u64 where "longest_gap = 250"
definition newest_gaps :: nat where "newest_gaps = 4"

record copy_playback =
  cp_gaps :: "(u64 \<times> u64) list"
  cp_last :: u64
  cp_interval :: float64
  cp_tick :: u64
  cp_frame :: u64
  cp_started :: bool


definition on_copy_point :: "u64 \<Rightarrow> copy_playback \<Rightarrow> copy_playback" where
  "on_copy_point tick s =
     (if tick \<le> cp_last s then s
      else let gaps = (if cp_last s \<noteq> 0 then cp_gaps s @ [(tick, min (tick - cp_last s) longest_gap)] else cp_gaps s)
           in s\<lparr>cp_last := tick, cp_gaps := dropWhile (\<lambda>(at, _). at + copy_window < tick) gaps\<rparr>)"

text \<open>The gaps' sums, the newest first.\<close>

definition gaps_sum :: "(u64 \<times> u64) list \<Rightarrow> float64" where
  "gaps_sum gaps = fold (\<lambda>(_, gap) all. f64_add all (f64_of_u64 gap)) gaps 0"

definition target_interval :: "copy_playback \<Rightarrow> float64" where
  "target_interval s =
     (if cp_gaps s = [] then default_interval
      else f64_max (f64_div (gaps_sum (rev (cp_gaps s))) (f64_of_int (int (length (cp_gaps s)))))
        (f64_div (gaps_sum (take newest_gaps (rev (cp_gaps s)))) (f64_of_int (int (min (length (cp_gaps s)) newest_gaps)))))"

definition wanted_tick :: "copy_clock \<Rightarrow> float64 \<Rightarrow> u64" where
  "wanted_tick c interval =
     (let wanted = f64_sub (f64_of_u64 (copy_now c)) interval in if f64_less 0 wanted then f64_trunc_u64 wanted else 0)"


definition copy_snap_to :: "copy_clock \<Rightarrow> copy_playback \<Rightarrow> copy_playback" where
  "copy_snap_to c s =
     s\<lparr>cp_interval := target_interval s, cp_tick := wanted_tick c (target_interval s), cp_frame := cc_frame c, cp_started := True\<rparr>"

section \<open>The order of whole numbers as doubles\<close>


















section \<open>Never back, never ahead\<close>













section \<open>Runs\<close>

















end
