(* ===== verification/Spec2Isabelle.thy ===== *)
theory Spec2Isabelle
  imports Payloads Save_Hosting World_State Host_Messages Movement_Messages Host_Network Shared_Wait Held_Bodies Character_Owners Join_Gate Dropped_Items Relays Deaths Animation_Graphs Host_World Talk_Messages Player_Calls Host_Sky Host_Talk Host_Crime Followers Party_Threat Body_Frames Host_Physics Body_Playback Character_Saves Copy_Clock
begin

text \<open>
  SkyrimCoop: the session layer of a co-operative multiplayer mod.

  \<^bold>\<open>The program.\<close> One player's game is the host; the others join it over the network. The host's game simulates the
  world; each game owns its own player's character (and the actors it was given). Messages are structures written bit by
  bit (\<open>Code/encoding\<close>). On the host, \<open>HostAuthority\<close> takes each request: it is relayed, or handed to the part that
  keeps that piece of the session (\<open>Code/client/Services/Host\<close>), whose handlers change their state and send messages.
  The parts share \<open>HostPlayers\<close> (who is in), \<open>HostCharacters\<close> (whose each character is) and \<open>HostNetwork\<close> (what
  goes out); the engine is behind \<open>HostGame\<close>, a structure of functions the host's services provide.

  \<^bold>\<open>How it is modelled.\<close> A structure is a \<open>record\<close>, an enumeration or variant a \<open>datatype\<close>, a number of the code a
  word of its width, a \<open>float\<close> or \<open>double\<close> its IEEE bits with exact rounded arithmetic. Serializers and
  deserializers are programs of the state monad over a writer and a reader of bits. A handler takes its part's state and
  returns the new state with what it sends, in order. \<open>std::map\<close> is a list of entries ordered by key,
  \<open>std::unordered_map\<close> an association list, of which no result uses the order. What the engine or a library does
  (\<open>HostGame\<close>'s functions, SHA-256, snappy, \<open>glm\<close>, sine, powers) is an argument. Log lines are left out.

  \<^bold>\<open>The theories.\<close>
  \<^item> Generic: \<open>Prelude\<close> (widths, collections), \<open>Ordered_Map\<close> (\<open>std::map\<close>, its locale of laws and their
    interpretation), \<open>Simulation\<close> (runs of handlers over events, monitors of what they send, refinement of a specification),
    \<open>Float_Arith\<close> and \<open>Float64\<close> (IEEE arithmetic), \<open>Scaled_Floats\<close> (what rounds to itself), \<open>Float32\<close> (vectors).
  \<^item> The wire: \<open>Wire\<close> (\<open>Wire/Buffer\<close>: bits, bytes, growth), \<open>Codec\<close> (\<open>Wire/Serialization\<close>; the contract
    \<open>codes s d x\<close>: what \<open>s\<close> writes, \<open>d\<close> reads back as \<open>x\<close>, from any bit position; the locale
    \<open>wire_codec\<close>, interpreted for each type).
  \<^item> Structures (\<open>Code/encoding/Structs\<close>): \<open>Structs\<close>, \<open>Items\<close>, \<open>Recipes\<close>, \<open>Script\<close>,
    \<open>Character_Record\<close>, \<open>Actors\<close>, \<open>Action_Event\<close>, \<open>Animation_Graphs\<close>, \<open>Body_Frames\<close>.
  \<^item> Messages (\<open>Code/encoding/Messages\<close>): \<open>Payloads\<close>, \<open>World_State\<close>, \<open>Session_Messages\<close>,
    \<open>Movement_Messages\<close>, \<open>Host_Messages\<close>, \<open>Talk_Messages\<close>.
  \<^item> Joining: \<open>Join_Gate\<close> (\<open>HostSession\<close>, \<open>JoinRefusal\<close>, load orders), \<open>Save_Transfer\<close>
    (\<open>Services/SaveTransfer\<close>: packing, blocks, assembly), \<open>Save_Hosting\<close> (\<open>HostSaveTransfer\<close>),
    \<open>Character_Saves\<close> (\<open>Services/CharacterRecords\<close>: the characters in a save; on \<open>Whole_Bytes\<close>).
  \<^item> The session: \<open>Host_Players\<close>, \<open>Host_Network\<close>, \<open>Characters\<close> and \<open>Character_Owners\<close>
    (\<open>HostCharacters\<close>), \<open>Relays\<close> (\<open>HostAuthority\<close>: which requests go where, with the parts that watch them), \<open>Text\<close> (chat).
  \<^item> The host's parts: \<open>Host_World\<close> (\<open>HostWorldState\<close>), \<open>Shared_Wait\<close> (\<open>HostWait\<close>), \<open>Held_Bodies\<close>
    (\<open>HostHands\<close>), \<open>Party_Goods\<close> (\<open>HostPurse\<close>, \<open>HostPartyItems\<close>), \<open>Dropped_Items\<close> (\<open>HostItems\<close>),
    \<open>Deaths\<close> (\<open>HostDeath\<close>), \<open>Player_Calls\<close> (\<open>HostPlayerNatives\<close>, \<open>HostStory\<close>, \<open>HostRecords\<close>),
    \<open>Host_Sky\<close> (\<open>DateTime\<close>, \<open>HostClock\<close>, \<open>HostWeather\<close>, \<open>HostTimeScale\<close>), \<open>Host_Talk\<close>
    (\<open>HostDialogue\<close>), \<open>Host_Crime\<close> (\<open>HostCrime\<close>), \<open>Followers\<close> (\<open>HostFollowers\<close>, \<open>Followers/\<close>),
    \<open>Party_Threat\<close> (\<open>PartyThreat\<close>, \<open>HostAggro\<close>), \<open>Host_Physics\<close>
    (\<open>HostPhysics\<close>, on \<open>Body_Guesses\<close>), and the guest's end of it, \<open>Body_Playback\<close> (\<open>client/Physics\<close>);
    \<open>Copy_Clock\<close> (\<open>Services/CopyClock\<close>: the times copies are shown at).

  \<^bold>\<open>What the lemmas show.\<close> Every serializable type is read back as written, from any bytes its reader ends within the
  data. A save arrives whole or not at all. Each part of the host keeps an invariant over any sequence of events, proved
  by induction on the run, and from it the promise its clients rely on: who may change what (characters, relays, bodies,
  conversation, crimes), that nothing is doubled or lost (items, gold, script calls, crimes), that what is sent lets a
  game follow the host (world state, clock, wait, bodies), and that what begins ends (waits, script calls, recovery).
  What a part sends is checked by monitors, against a game that applies the messages, or against a specification of one
  thing alone that it refines (a held body, a script's reply).

  \<^bold>\<open>Bounds.\<close> No definition needs fuel: loops recurse on their list, or on a measure proved to fall; the two that may
  run forever in the code are \<open>partial_function (option)\<close>, whose None is not returning, and the properties say when
  (\<open>listen_gives_up\<close>, \<open>movement_read_ends\<close>). Ids are counted in 32 bits and wrap: what depends on an id
  being new assumes fewer than \<open>2 ^ 32\<close> of them.

  \<^bold>\<open>Not modelled.\<close> The engine: \<open>client/Games\<close>, \<open>client/Hooks\<close>, the bridges and the services that act on the
  running game, whose behaviour is that of code which is not in the repository. The user interface, the launcher, hot
  reload, the test harnesses, diagnostics, vendored code (\<open>Code/external\<close>) and the build. Of \<open>HostNetwork\<close> the packet
  layer (enet) and of \<open>HostAuthority\<close> the order in which it calls its parts. The parsing of version texts.
\<close>

end
